(* ===== verification/Prelude.thy ===== *)
theory Prelude
  imports Main "HOL-Library.Char_ord" "HOL-Library.List_Lexorder" "HOL-Library.Product_Lexorder"
begin

text \<open>
  Shared vocabulary of the development: the result type of fallible operations, the few
  operations of Rust's \<^verbatim>\<open>str\<close>, \<^verbatim>\<open>Option\<close> and iterators the runtime uses, and the generic
  lemmas on them that the component theories share.

  A Rust \<^verbatim>\<open>str\<close> is its sequence of UTF-8 bytes, and a HOL character is one byte, so a
  \<open>string\<close> here is the byte sequence of the Rust string. Rust's comparison of strings is the
  lexicographic order of these bytes, which \<open>HOL-Library.List_Lexorder\<close> and
  \<open>HOL-Library.Char_ord\<close> give.
\<close>

named_theorems table_simps \<open>equations that evaluate the constant tables of the contracts\<close>
named_theorems result_simps \<open>case analysis of fallible results\<close>

section \<open>Fallible results\<close>

text \<open>\<^verbatim>\<open>Result<T, E>\<close> is \<open>'e + 'a\<close> with \<open>Inl\<close> for \<^verbatim>\<open>Err\<close>; \<open>and_then\<close> is the
  \<^verbatim>\<open>?\<close> operator: the first error ends the computation.\<close>

type_synonym ('e, 'a) result = "'e + 'a"

definition and_then :: "'e + 'a \<Rightarrow> ('a \<Rightarrow> 'e + 'b) \<Rightarrow> 'e + 'b" where
  "and_then r f = (case r of Inl e \<Rightarrow> Inl e | Inr a \<Rightarrow> f a)"

definition map_err :: "('e \<Rightarrow> 'f) \<Rightarrow> 'e + 'a \<Rightarrow> 'f + 'a" where
  "map_err g r = (case r of Inl e \<Rightarrow> Inl (g e) | Inr a \<Rightarrow> Inr a)"

definition map_ok :: "('a \<Rightarrow> 'b) \<Rightarrow> 'e + 'a \<Rightarrow> 'e + 'b" where
  "map_ok g r = (case r of Inl e \<Rightarrow> Inl e | Inr a \<Rightarrow> Inr (g a))"

definition is_ok :: "'e + 'a \<Rightarrow> bool" where
  "is_ok r = (case r of Inl _ \<Rightarrow> False | Inr _ \<Rightarrow> True)"

lemma and_then_simps [simp, result_simps]:
  "and_then (Inl e) f = Inl e" "and_then (Inr a) f = f a"
  by (simp_all add: and_then_def)

lemma map_err_simps [simp, result_simps]:
  "map_err g (Inl e) = Inl (g e)" "map_err g (Inr a) = Inr a"
  by (simp_all add: map_err_def)

lemma map_ok_simps [simp, result_simps]:
  "map_ok g (Inl e) = Inl e" "map_ok g (Inr a) = Inr (g a)"
  by (simp_all add: map_ok_def)

lemma is_ok_simps [simp, result_simps]:
  "\<not> is_ok (Inl e)" "is_ok (Inr a)"
  by (simp_all add: is_ok_def)

lemma and_then_eq_Inr [result_simps]:
  "and_then r f = Inr b \<longleftrightarrow> (\<exists>a. r = Inr a \<and> f a = Inr b)"
  by (cases r) auto

lemma and_then_eq_Inl [result_simps]:
  "and_then r f = Inl e \<longleftrightarrow> r = Inl e \<or> (\<exists>a. r = Inr a \<and> f a = Inl e)"
  by (cases r) auto

lemma map_err_eq_Inr [result_simps]: "map_err g r = Inr a \<longleftrightarrow> r = Inr a"
  by (cases r) auto

lemma map_ok_eq_Inr [result_simps]: "map_ok g r = Inr b \<longleftrightarrow> (\<exists>a. r = Inr a \<and> b = g a)"
  by (cases r) auto

lemma map_ok_eq_Inl [result_simps]: "map_ok g r = Inl e \<longleftrightarrow> r = Inl e"
  by (cases r) auto

lemma is_ok_iff [result_simps]: "is_ok r \<longleftrightarrow> (\<exists>a. r = Inr a)"
  by (cases r) auto

section \<open>Rust strings\<close>

text \<open>\<^verbatim>\<open>str::trim\<close> removes leading and trailing characters with the Unicode property
  \<^verbatim>\<open>White_Space\<close>. \<open>ws_lead\<close> is the number of bytes of the white-space character that starts
  a string (0 if none does), \<open>ws_lead_rev\<close> the same for a reversed string.\<close>

definition ascii_ws :: "nat \<Rightarrow> bool" where
  "ascii_ws a \<longleftrightarrow> (9 \<le> a \<and> a \<le> 13) \<or> a = 32"

definition ws2 :: "nat \<Rightarrow> nat \<Rightarrow> bool" where
  "ws2 a b \<longleftrightarrow> a = 194 \<and> (b = 133 \<or> b = 160)"

definition ws3 :: "nat \<Rightarrow> nat \<Rightarrow> nat \<Rightarrow> bool" where
  "ws3 a b c \<longleftrightarrow> (a = 225 \<and> b = 154 \<and> c = 128)
     \<or> (a = 226 \<and> b = 128 \<and> ((128 \<le> c \<and> c \<le> 138) \<or> c = 168 \<or> c = 169 \<or> c = 175))
     \<or> (a = 226 \<and> b = 129 \<and> c = 159)
     \<or> (a = 227 \<and> b = 128 \<and> c = 128)"

fun ws_lead :: "string \<Rightarrow> nat" where
  "ws_lead (a # b # c # s) =
     (if ascii_ws (of_char a) then 1
      else if ws2 (of_char a) (of_char b) then 2
      else if ws3 (of_char a) (of_char b) (of_char c) then 3 else 0)"
| "ws_lead [a, b] =
     (if ascii_ws (of_char a) then 1
      else if ws2 (of_char a) (of_char b) then 2 else 0)"
| "ws_lead [a] = (if ascii_ws (of_char a) then 1 else 0)"
| "ws_lead [] = 0"

fun ws_lead_rev :: "string \<Rightarrow> nat" where
  "ws_lead_rev (c # b # a # s) =
     (if ascii_ws (of_char c) then 1
      else if ws2 (of_char b) (of_char c) then 2
      else if ws3 (of_char a) (of_char b) (of_char c) then 3 else 0)"
| "ws_lead_rev [b, a] =
     (if ascii_ws (of_char b) then 1
      else if ws2 (of_char a) (of_char b) then 2 else 0)"
| "ws_lead_rev [a] = (if ascii_ws (of_char a) then 1 else 0)"
| "ws_lead_rev [] = 0"

lemma ws_lead_shrinks: "ws_lead s \<noteq> 0 \<Longrightarrow> length (drop (ws_lead s) s) < length s"
  by (cases s) auto

lemma ws_lead_rev_shrinks:
  "ws_lead_rev s \<noteq> 0 \<Longrightarrow> length (drop (ws_lead_rev s) s) < length s"
  by (cases s) auto

function trim_start :: "string \<Rightarrow> string" where
  "trim_start s = (if ws_lead s = 0 then s else trim_start (drop (ws_lead s) s))"
  by pat_completeness auto
termination
  by (relation "measure length") (simp_all add: ws_lead_shrinks del: length_drop)

function trim_start_rev :: "string \<Rightarrow> string" where
  "trim_start_rev s = (if ws_lead_rev s = 0 then s else trim_start_rev (drop (ws_lead_rev s) s))"
  by pat_completeness auto
termination
  by (relation "measure length") (simp_all add: ws_lead_rev_shrinks del: length_drop)

declare trim_start.simps [simp del] trim_start_rev.simps [simp del]

definition trim_end :: "string \<Rightarrow> string" where
  "trim_end s = rev (trim_start_rev (rev s))"

definition trim :: "string \<Rightarrow> string" where
  "trim s = trim_end (trim_start s)"

lemma ws_lead_trim_start [simp]: "ws_lead (trim_start s) = 0"
  by (induction s rule: trim_start.induct) (subst trim_start.simps, simp)

lemma ws_lead_rev_trim_start_rev [simp]: "ws_lead_rev (trim_start_rev s) = 0"
  by (induction s rule: trim_start_rev.induct) (subst trim_start_rev.simps, simp)

lemma trim_start_fixed: "ws_lead s = 0 \<Longrightarrow> trim_start s = s"
  by (subst trim_start.simps) simp

lemma trim_start_rev_fixed: "ws_lead_rev s = 0 \<Longrightarrow> trim_start_rev s = s"
  by (subst trim_start_rev.simps) simp

lemma trim_start_rev_suffix: "\<exists>p. s = p @ trim_start_rev s"
proof (induction s rule: trim_start_rev.induct)
  case (1 s)
  show ?case
  proof (cases "ws_lead_rev s = 0")
    case True
    then show ?thesis by (simp add: trim_start_rev_fixed)
  next
    case False
    with "1.IH" obtain p where "drop (ws_lead_rev s) s = p @ trim_start_rev (drop (ws_lead_rev s) s)"
      by blast
    then have "s = (take (ws_lead_rev s) s @ p) @ trim_start_rev (drop (ws_lead_rev s) s)"
      by (metis append.assoc append_take_drop_id)
    moreover have "trim_start_rev s = trim_start_rev (drop (ws_lead_rev s) s)"
      using False by (simp add: trim_start_rev.simps [of s])
    ultimately show ?thesis by metis
  qed
qed

lemma trim_end_prefix: "\<exists>p. s = trim_end s @ p"
proof -
  obtain p where "rev s = p @ trim_start_rev (rev s)"
    using trim_start_rev_suffix by blast
  then have "s = trim_end s @ rev p"
    by (metis rev_append rev_rev_ident trim_end_def)
  then show ?thesis by blast
qed

text \<open>The white-space character at the start of a string is fixed by its first bytes, so a
  longer string starts with one too.\<close>

lemma ws_lead_append_pos: "0 < ws_lead t \<Longrightarrow> 0 < ws_lead (t @ p)"
proof (induction t rule: ws_lead.induct)
  case (2 a b)
  then show ?case by (cases p) (auto split: if_splits)
next
  case (3 a)
  then show ?case by (cases "(a # []) @ p" rule: ws_lead.cases) (auto split: if_splits)
qed auto

lemma trim_idem [simp]: "trim (trim s) = trim s"
proof -
  let ?u = "trim_start s"
  obtain p where p: "?u = trim_end ?u @ p" using trim_end_prefix by blast
  have "ws_lead (trim_end ?u) = 0"
  proof (rule ccontr)
    assume "ws_lead (trim_end ?u) \<noteq> 0"
    then have "0 < ws_lead (trim_end ?u @ p)" by (intro ws_lead_append_pos) simp
    with p show False by simp
  qed
  then have "trim_start (trim_end ?u) = trim_end ?u" by (rule trim_start_fixed)
  moreover have "trim_end (trim_end ?u) = trim_end ?u"
    by (simp add: trim_end_def trim_start_rev_fixed)
  ultimately show ?thesis by (simp add: trim_def)
qed

lemma trim_Nil [simp]: "trim [] = []"
  by (simp add: trim_def trim_start_fixed trim_end_def trim_start_rev_fixed)

text \<open>A printable-ASCII string without blanks is its own trim.\<close>

definition ascii_graphic :: "char \<Rightarrow> bool" where
  "ascii_graphic c \<longleftrightarrow> (33::nat) \<le> of_char c \<and> of_char c \<le> (126::nat)"

lemma ws_lead_graphic: "list_all ascii_graphic s \<Longrightarrow> ws_lead s = 0"
  by (induction s rule: ws_lead.induct) (auto simp: ascii_graphic_def ascii_ws_def ws2_def ws3_def)

lemma ws_lead_rev_graphic: "list_all ascii_graphic s \<Longrightarrow> ws_lead_rev s = 0"
  by (induction s rule: ws_lead_rev.induct)
    (auto simp: ascii_graphic_def ascii_ws_def ws2_def ws3_def)

lemma trim_graphic: "list_all ascii_graphic s \<Longrightarrow> trim s = s"
  by (simp add: trim_def trim_end_def trim_start_fixed trim_start_rev_fixed ws_lead_graphic
      ws_lead_rev_graphic)

text \<open>Trimming removes no printable character.\<close>

lemma graphic_not_ws:
  assumes "ascii_graphic c"
  shows "\<not> ascii_ws (of_char c)" "\<not> ws2 (of_char c) n" "\<not> ws2 n (of_char c)"
    "\<not> ws3 (of_char c) m n" "\<not> ws3 m (of_char c) n" "\<not> ws3 m n (of_char c)"
  using assms by (auto simp: ascii_graphic_def ascii_ws_def ws2_def ws3_def)

lemma ws_lead_skips:
  "ascii_graphic c \<Longrightarrow> c \<in> set s \<Longrightarrow> c \<in> set (drop (ws_lead s) s)"
  by (cases s rule: ws_lead.cases) (auto simp: graphic_not_ws split: if_splits)

lemma ws_lead_rev_skips:
  "ascii_graphic c \<Longrightarrow> c \<in> set s \<Longrightarrow> c \<in> set (drop (ws_lead_rev s) s)"
  by (cases s rule: ws_lead_rev.cases) (auto simp: graphic_not_ws split: if_splits)

lemma trim_start_keeps: "ascii_graphic c \<Longrightarrow> c \<in> set s \<Longrightarrow> c \<in> set (trim_start s)"
  by (induction s rule: trim_start.induct) (subst trim_start.simps, simp add: ws_lead_skips)

lemma trim_start_rev_keeps: "ascii_graphic c \<Longrightarrow> c \<in> set s \<Longrightarrow> c \<in> set (trim_start_rev s)"
  by (induction s rule: trim_start_rev.induct) (subst trim_start_rev.simps, simp add: ws_lead_rev_skips)

lemma trim_keeps: "ascii_graphic c \<Longrightarrow> c \<in> set s \<Longrightarrow> c \<in> set (trim s)"
  using trim_start_rev_keeps[of c "rev (trim_start s)"] trim_start_keeps[of c s]
  by (simp add: trim_def trim_end_def)

lemma trim_not_blank: "ascii_graphic c \<Longrightarrow> c \<in> set s \<Longrightarrow> trim s \<noteq> []"
  using trim_keeps by force

text \<open>Evaluation of \<open>trim\<close>: a string with printable ends is its own trim.\<close>

lemma ascii_graphic_code [code]:
  "ascii_graphic (Char b0 b1 b2 b3 b4 b5 b6 b7) \<longleftrightarrow>
     \<not> b7 \<and> (b6 \<or> b5 \<and> (b0 \<or> b1 \<or> b2 \<or> b3 \<or> b4)) \<and> \<not> (b0 \<and> b1 \<and> b2 \<and> b3 \<and> b4 \<and> b5 \<and> b6)"
  by (cases b0; cases b1; cases b2; cases b3; cases b4; cases b5; cases b6; cases b7;
      simp add: ascii_graphic_def)

lemma ws_lead_head: "ascii_graphic c \<Longrightarrow> ws_lead (c # s) = 0"
  by (cases "c # s" rule: ws_lead.cases) (auto simp: graphic_not_ws)

lemma ws_lead_rev_head: "ascii_graphic c \<Longrightarrow> ws_lead_rev (c # s) = 0"
  by (cases "c # s" rule: ws_lead_rev.cases) (auto simp: graphic_not_ws)

lemma trim_ends:
  assumes "s \<noteq> []" "ascii_graphic (hd s)" "ascii_graphic (last s)"
  shows "trim s = s"
proof -
  have "ws_lead (hd s # tl s) = 0" "ws_lead_rev (hd (rev s) # tl (rev s)) = 0"
    using assms by (simp_all only: ws_lead_head ws_lead_rev_head hd_rev)
  then show ?thesis
    using assms(1) by (simp add: trim_def trim_end_def trim_start_fixed trim_start_rev_fixed)
qed

lemma trim_code [code]:
  "trim s = (if s = [] then [] else if ascii_graphic (hd s) \<and> ascii_graphic (last s) then s
             else trim_end (trim_start s))"
proof (cases "s = []")
  case False
  then show ?thesis using trim_ends[of s] trim_def[of s] by simp
qed simp

text \<open>\<^verbatim>\<open>char::is_ascii_alphanumeric\<close> and \<^verbatim>\<open>str::strip_prefix\<close>.\<close>

definition is_ascii_alphanumeric :: "char \<Rightarrow> bool" where
  "is_ascii_alphanumeric c \<longleftrightarrow> (let n = (of_char c :: nat) in
     (48 \<le> n \<and> n \<le> 57) \<or> (65 \<le> n \<and> n \<le> 90) \<or> (97 \<le> n \<and> n \<le> 122))"

fun strip_prefix :: "string \<Rightarrow> string \<Rightarrow> string option" where
  "strip_prefix [] s = Some s"
| "strip_prefix (p # ps) [] = None"
| "strip_prefix (p # ps) (c # s) = (if p = c then strip_prefix ps s else None)"

lemma strip_prefix_append [simp]: "strip_prefix p (p @ s) = Some s"
  by (induction p) auto

lemma strip_prefix_Some: "strip_prefix p s = Some t \<longleftrightarrow> s = p @ t"
  by (induction p s rule: strip_prefix.induct) auto

text \<open>\<^verbatim>\<open>str::strip_suffix\<close>; \<^verbatim>\<open>starts_with\<close> is \<open>strip_prefix _ _ \<noteq> None\<close>.\<close>

definition strip_suffix :: "string \<Rightarrow> string \<Rightarrow> string option" where
  "strip_suffix p s = map_option rev (strip_prefix (rev p) (rev s))"

lemma strip_suffix_append [simp]: "strip_suffix p (s @ p) = Some s"
  by (simp add: strip_suffix_def)

lemma strip_suffix_Some: "strip_suffix p s = Some t \<longleftrightarrow> s = t @ p"
  by (auto simp: strip_suffix_def strip_prefix_Some) (metis rev_append rev_rev_ident)

text \<open>ASCII classes and case, and \<^verbatim>\<open>str::split\<close> on an ASCII character.\<close>

definition is_ascii_lower :: "char \<Rightarrow> bool" where
  "is_ascii_lower c \<longleftrightarrow> 97 \<le> (of_char c :: nat) \<and> (of_char c :: nat) \<le> 122"

definition is_ascii_upper :: "char \<Rightarrow> bool" where
  "is_ascii_upper c \<longleftrightarrow> 65 \<le> (of_char c :: nat) \<and> (of_char c :: nat) \<le> 90"

definition is_ascii_digit :: "char \<Rightarrow> bool" where
  "is_ascii_digit c \<longleftrightarrow> 48 \<le> (of_char c :: nat) \<and> (of_char c :: nat) \<le> 57"

definition to_ascii_lower :: "char \<Rightarrow> char" where
  "to_ascii_lower c = (if is_ascii_upper c then char_of ((of_char c :: nat) + 32) else c)"

definition to_ascii_upper :: "char \<Rightarrow> char" where
  "to_ascii_upper c = (if is_ascii_lower c then char_of ((of_char c :: nat) - 32) else c)"

text \<open>Evaluation of the classes on the bits of a character.\<close>

lemma ascii_class_code [code]:
  "is_ascii_lower (Char b0 b1 b2 b3 b4 b5 b6 b7) \<longleftrightarrow>
     \<not> b7 \<and> b6 \<and> b5 \<and> (b0 \<or> b1 \<or> b2 \<or> b3 \<or> b4) \<and> \<not> (b4 \<and> b3 \<and> (b2 \<or> b1 \<and> b0))"
  "is_ascii_upper (Char b0 b1 b2 b3 b4 b5 b6 b7) \<longleftrightarrow>
     \<not> b7 \<and> b6 \<and> \<not> b5 \<and> (b0 \<or> b1 \<or> b2 \<or> b3 \<or> b4) \<and> \<not> (b4 \<and> b3 \<and> (b2 \<or> b1 \<and> b0))"
  "is_ascii_digit (Char b0 b1 b2 b3 b4 b5 b6 b7) \<longleftrightarrow>
     \<not> b7 \<and> \<not> b6 \<and> b5 \<and> b4 \<and> \<not> (b3 \<and> (b2 \<or> b1))"
  by (cases b0; cases b1; cases b2; cases b3; cases b4; cases b5; cases b6; cases b7;
      simp add: is_ascii_lower_def is_ascii_upper_def is_ascii_digit_def)+

lemma to_ascii_case_code [code]:
  "to_ascii_lower (Char b0 b1 b2 b3 b4 b5 b6 b7) =
     (if is_ascii_upper (Char b0 b1 b2 b3 b4 b5 b6 b7) then Char b0 b1 b2 b3 b4 True b6 b7
      else Char b0 b1 b2 b3 b4 b5 b6 b7)"
  "to_ascii_upper (Char b0 b1 b2 b3 b4 b5 b6 b7) =
     (if is_ascii_lower (Char b0 b1 b2 b3 b4 b5 b6 b7) then Char b0 b1 b2 b3 b4 False b6 b7
      else Char b0 b1 b2 b3 b4 b5 b6 b7)"
  by (cases b0; cases b1; cases b2; cases b3; cases b4; cases b5; cases b6; cases b7;
      simp add: to_ascii_lower_def to_ascii_upper_def is_ascii_lower_def is_ascii_upper_def char_of_eq_iff; fail)+

lemma is_ascii_alphanumeric_code [code]:
  "is_ascii_alphanumeric c \<longleftrightarrow> is_ascii_lower c \<or> is_ascii_upper c \<or> is_ascii_digit c"
  by (auto simp: is_ascii_alphanumeric_def is_ascii_lower_def is_ascii_upper_def is_ascii_digit_def Let_def)

definition to_ascii_lowercase :: "string \<Rightarrow> string" where
  "to_ascii_lowercase s = map to_ascii_lower s"

definition to_ascii_uppercase :: "string \<Rightarrow> string" where
  "to_ascii_uppercase s = map to_ascii_upper s"

definition is_ascii_hexdigit :: "char \<Rightarrow> bool" where
  "is_ascii_hexdigit c \<longleftrightarrow> (let n = (of_char c :: nat) in
     (48 \<le> n \<and> n \<le> 57) \<or> (65 \<le> n \<and> n \<le> 70) \<or> (97 \<le> n \<and> n \<le> 102))"

lemma is_ascii_hexdigit_code [code]:
  "is_ascii_hexdigit (Char b0 b1 b2 b3 b4 b5 b6 b7) \<longleftrightarrow>
     is_ascii_digit (Char b0 b1 b2 b3 b4 b5 b6 b7)
     \<or> \<not> b7 \<and> b6 \<and> \<not> b4 \<and> \<not> b3 \<and> (b0 \<or> b1 \<or> b2) \<and> \<not> (b0 \<and> b1 \<and> b2)"
  by (cases b0; cases b1; cases b2; cases b3; cases b4; cases b5; cases b6; cases b7;
      simp add: is_ascii_hexdigit_def is_ascii_digit_def Let_def)

fun split_on :: "char \<Rightarrow> string \<Rightarrow> string list" where
  "split_on c [] = [[]]"
| "split_on c (x # xs) =
     (if x = c then [] # split_on c xs
      else (case split_on c xs of [] \<Rightarrow> [[x]] | part # parts \<Rightarrow> (x # part) # parts))"

lemma split_on_nonempty [simp]: "split_on c s \<noteq> []"
  by (cases s) (auto split: list.split)

text \<open>\<^verbatim>\<open>split_whitespace\<close>: the maximal runs without a white-space character.\<close>

fun take_word :: "string \<Rightarrow> string" where
  "take_word [] = []"
| "take_word (c # cs) = (if ws_lead (c # cs) = 0 then c # take_word cs else [])"

fun drop_word :: "string \<Rightarrow> string" where
  "drop_word [] = []"
| "drop_word (c # cs) = (if ws_lead (c # cs) = 0 then drop_word cs else c # cs)"

lemma length_drop_word: "length (drop_word s) \<le> length s"
  by (induction s) auto

lemma length_trim_start: "length (trim_start s) \<le> length s"
proof (induction s rule: trim_start.induct)
  case (1 s)
  then show ?case by (subst trim_start.simps) (force simp: diff_le_mono2 intro: order_trans)
qed

function split_whitespace :: "string \<Rightarrow> string list" where
  "split_whitespace s =
     (let t = trim_start s in
      if t = [] then [] else take_word t # split_whitespace (drop_word t))"
  by pat_completeness auto
termination
proof (relation "measure length")
  fix s t assume t: "t = trim_start s" "t \<noteq> []"
  then have "ws_lead t = 0" by simp
  with t(2) have "length (drop_word t) < length t"
    using length_drop_word[of "tl t"] by (cases t) auto
  with length_trim_start[of s] t(1) show "(drop_word t, s) \<in> measure length" by simp
qed simp

declare split_whitespace.simps [simp del]

text \<open>\<^verbatim>\<open>join\<close>.\<close>

fun join_with :: "string \<Rightarrow> string list \<Rightarrow> string" where
  "join_with sep [] = []"
| "join_with sep [s] = s"
| "join_with sep (s # ss) = s @ sep @ join_with sep ss"

section \<open>Lists\<close>

primrec normalize_each :: "('a \<Rightarrow> 'e + 'a) \<Rightarrow> 'a list \<Rightarrow> 'e + 'a list" where
  "normalize_each f [] = Inr []"
| "normalize_each f (x # xs) = and_then (f x) (\<lambda>y. map_ok (\<lambda>ys. y # ys) (normalize_each f xs))"

text \<open>Fallible maps over a list, and \<^verbatim>\<open>dedupe\<close>: \<^verbatim>\<open>retain\<close> the first occurrence of each value.\<close>

fun dedupe_from :: "'a set \<Rightarrow> 'a list \<Rightarrow> 'a list" where
  "dedupe_from seen [] = []"
| "dedupe_from seen (x # xs) =
     (if x \<in> seen then dedupe_from seen xs else x # dedupe_from (insert x seen) xs)"

definition dedupe :: "'a list \<Rightarrow> 'a list" where
  "dedupe xs = dedupe_from {} xs"

lemma set_dedupe_from: "set (dedupe_from seen xs) = set xs - seen"
  by (induction seen xs rule: dedupe_from.induct) auto

lemma set_dedupe [simp]: "set (dedupe xs) = set xs"
  by (simp add: dedupe_def set_dedupe_from)

lemma dedupe_Nil_iff [simp]: "dedupe xs = [] \<longleftrightarrow> xs = []"
  by (metis set_dedupe set_empty)

section \<open>Decimal numerals\<close>

text \<open>\<^verbatim>\<open>{}\<close> formatting of unsigned integers, and \<^verbatim>\<open>{:0w}\<close> padding with zeros.\<close>

definition digit_char :: "nat \<Rightarrow> char" where
  "digit_char d = char_of (48 + d)"

fun show_nat :: "nat \<Rightarrow> string" where
  "show_nat n = (if n < 10 then [digit_char n] else show_nat (n div 10) @ [digit_char (n mod 10)])"

declare show_nat.simps [simp del]

definition zero_pad :: "nat \<Rightarrow> nat \<Rightarrow> string" where
  "zero_pad w n = (let s = show_nat n in replicate (w - length s) (CHR ''0'') @ s)"

lemma digit_char_inject: "d < 10 \<Longrightarrow> e < 10 \<Longrightarrow> digit_char d = digit_char e \<longleftrightarrow> d = e"
  by (auto simp: digit_char_def char_of_eq_iff take_bit_eq_mod)

lemma show_nat_nonempty [simp]: "show_nat n \<noteq> []"
  by (subst show_nat.simps) simp

lemma show_nat_inject: "show_nat m = show_nat n \<longleftrightarrow> m = n"
proof
  show "show_nat m = show_nat n \<Longrightarrow> m = n"
  proof (induction m arbitrary: n rule: show_nat.induct)
    case (1 m)
    have single: "show_nat k = [digit_char k]" if "k < 10" for k
      using that by (subst show_nat.simps) simp
    have long: "show_nat k = show_nat (k div 10) @ [digit_char (k mod 10)]" if "\<not> k < 10" for k
      using that by (subst show_nat.simps) simp
    consider "m < 10" "n < 10" | "m < 10" "\<not> n < 10" | "\<not> m < 10" "n < 10" | "\<not> m < 10" "\<not> n < 10"
      by blast
    then show ?case
    proof cases
      case 1
      then show ?thesis using "1.prems" by (simp add: single digit_char_inject)
    next
      case 2
      then show ?thesis
        using "1.prems" show_nat_nonempty [of "n div 10"] by (auto simp: single long)
    next
      case 3
      then show ?thesis using "1.prems" by (simp add: single long)
    next
      case 4
      with "1.prems" have "show_nat (m div 10) = show_nat (n div 10)"
        and last: "digit_char (m mod 10) = digit_char (n mod 10)" by (simp_all add: long)
      with "1.IH" 4 have "m div 10 = n div 10" by blast
      moreover from last have "m mod 10 = n mod 10" by (simp add: digit_char_inject)
      ultimately show ?thesis by (metis div_mult_mod_eq)
    qed
  qed
qed simp

section \<open>Lists\<close>

lemma find_SomeD: "List.find P xs = Some x \<Longrightarrow> x \<in> set xs \<and> P x"
  by (induction xs) (auto split: if_splits)

lemma find_eq_unique:
  assumes "distinct (map f xs)" and "x \<in> set xs"
  shows "List.find (\<lambda>y. f y = f x) xs = Some x"
  using assms by (induction xs) (auto simp: rev_image_eqI)

lemma find_None_iff': "List.find P xs = None \<longleftrightarrow> (\<forall>x\<in>set xs. \<not> P x)"
  by (auto simp: find_None_iff)

text \<open>The head of a list sorted by a key is a minimal element.\<close>

lemma hd_sort_key_min:
  assumes "sort_key f xs = y # ys"
  shows "y \<in> set xs" and "\<forall>x\<in>set xs. f y \<le> f x"
proof -
  have "set (y # ys) = set xs" using assms by (metis set_sort)
  moreover have "sorted (map f (y # ys))" using assms by (metis sorted_sort_key)
  ultimately show "y \<in> set xs" "\<forall>x\<in>set xs. f y \<le> f x" by auto
qed

lemma sort_key_Nil_iff [simp]: "sort_key f xs = [] \<longleftrightarrow> xs = []"
  by (metis length_0_conv length_sort)

end
