(* ===== verification/Contract_Enums.thy ===== *)
theory Contract_Enums
  imports Prelude
begin

text \<open>
  The closed vocabularies of \<^verbatim>\<open>src/src/contracts/enums.rs\<close> and the contract errors of
  \<^verbatim>\<open>src/src/contracts/error.rs\<close>.

  Each \<^verbatim>\<open>string_enum!\<close> instance of the source is a datatype \<open>X\<close> with its canonical strings
  \<open>X_as_str\<close>, the table \<open>X_ALL\<close> of its variants and the parser \<open>X_from_value\<close>. What the macro
  promises of every instance is the locale \<open>string_enum\<close>: the table is complete, the strings
  are distinct, and parsing is the search through the table. Its lemmas (parsing inverts
  printing, nothing else parses, the error carries the rejected value) are proved once and
  interpreted for all 28 instances.
\<close>

section \<open>The vocabularies\<close>

text \<open>Runtime plane names.\<close>

datatype Plane =
    Execution | Planning | Learning

primrec Plane_as_str :: "Plane \<Rightarrow> string" where
  "Plane_as_str Plane.Execution = ''execution''"
| "Plane_as_str Plane.Planning = ''planning''"
| "Plane_as_str Plane.Learning = ''learning''"

definition Plane_ALL :: "Plane list" where
  "Plane_ALL =
    [Plane.Execution, Plane.Planning, Plane.Learning]"

text \<open>Execution-plane stage names.\<close>

datatype ExecutionStageName =
    Builder | Integrator | Checker | Fixer | Doublechecker | Updater | Troubleshooter
    | Consultant

primrec ExecutionStageName_as_str :: "ExecutionStageName \<Rightarrow> string" where
  "ExecutionStageName_as_str ExecutionStageName.Builder = ''builder''"
| "ExecutionStageName_as_str ExecutionStageName.Integrator = ''integrator''"
| "ExecutionStageName_as_str ExecutionStageName.Checker = ''checker''"
| "ExecutionStageName_as_str ExecutionStageName.Fixer = ''fixer''"
| "ExecutionStageName_as_str ExecutionStageName.Doublechecker = ''doublechecker''"
| "ExecutionStageName_as_str ExecutionStageName.Updater = ''updater''"
| "ExecutionStageName_as_str ExecutionStageName.Troubleshooter = ''troubleshooter''"
| "ExecutionStageName_as_str ExecutionStageName.Consultant = ''consultant''"

definition ExecutionStageName_ALL :: "ExecutionStageName list" where
  "ExecutionStageName_ALL =
    [ExecutionStageName.Builder, ExecutionStageName.Integrator, ExecutionStageName.Checker,
     ExecutionStageName.Fixer, ExecutionStageName.Doublechecker, ExecutionStageName.Updater,
     ExecutionStageName.Troubleshooter, ExecutionStageName.Consultant]"

text \<open>Planning-plane stage names.\<close>

datatype PlanningStageName =
    Recon | Planner | Manager | ManagerBlueprint | ContractorBlueprint | EvaluatorBlueprint
    | Mechanic | MechanicBlueprint | Auditor | Arbiter

primrec PlanningStageName_as_str :: "PlanningStageName \<Rightarrow> string" where
  "PlanningStageName_as_str PlanningStageName.Recon = ''recon''"
| "PlanningStageName_as_str PlanningStageName.Planner = ''planner''"
| "PlanningStageName_as_str PlanningStageName.Manager = ''manager''"
| "PlanningStageName_as_str PlanningStageName.ManagerBlueprint = ''manager_blueprint''"
| "PlanningStageName_as_str PlanningStageName.ContractorBlueprint = ''contractor_blueprint''"
| "PlanningStageName_as_str PlanningStageName.EvaluatorBlueprint = ''evaluator_blueprint''"
| "PlanningStageName_as_str PlanningStageName.Mechanic = ''mechanic''"
| "PlanningStageName_as_str PlanningStageName.MechanicBlueprint = ''mechanic_blueprint''"
| "PlanningStageName_as_str PlanningStageName.Auditor = ''auditor''"
| "PlanningStageName_as_str PlanningStageName.Arbiter = ''arbiter''"

definition PlanningStageName_ALL :: "PlanningStageName list" where
  "PlanningStageName_ALL =
    [PlanningStageName.Recon, PlanningStageName.Planner, PlanningStageName.Manager,
     PlanningStageName.ManagerBlueprint, PlanningStageName.ContractorBlueprint,
     PlanningStageName.EvaluatorBlueprint, PlanningStageName.Mechanic,
     PlanningStageName.MechanicBlueprint, PlanningStageName.Auditor,
     PlanningStageName.Arbiter]"

text \<open>Learning-plane stage names.\<close>

datatype LearningStageName =
    Analyst | Professor | Curator | Librarian

primrec LearningStageName_as_str :: "LearningStageName \<Rightarrow> string" where
  "LearningStageName_as_str LearningStageName.Analyst = ''analyst''"
| "LearningStageName_as_str LearningStageName.Professor = ''professor''"
| "LearningStageName_as_str LearningStageName.Curator = ''curator''"
| "LearningStageName_as_str LearningStageName.Librarian = ''librarian''"

definition LearningStageName_ALL :: "LearningStageName list" where
  "LearningStageName_ALL =
    [LearningStageName.Analyst, LearningStageName.Professor, LearningStageName.Curator,
     LearningStageName.Librarian]"

text \<open>All stage names across runtime planes.\<close>

datatype StageName =
    Builder | Integrator | Checker | Fixer | Doublechecker | Updater | Troubleshooter
    | Consultant | Recon | Planner | Manager | ManagerBlueprint | ContractorBlueprint
    | EvaluatorBlueprint | Mechanic | MechanicBlueprint | Auditor | Arbiter | Analyst
    | Professor | Curator | Librarian

primrec StageName_as_str :: "StageName \<Rightarrow> string" where
  "StageName_as_str StageName.Builder = ''builder''"
| "StageName_as_str StageName.Integrator = ''integrator''"
| "StageName_as_str StageName.Checker = ''checker''"
| "StageName_as_str StageName.Fixer = ''fixer''"
| "StageName_as_str StageName.Doublechecker = ''doublechecker''"
| "StageName_as_str StageName.Updater = ''updater''"
| "StageName_as_str StageName.Troubleshooter = ''troubleshooter''"
| "StageName_as_str StageName.Consultant = ''consultant''"
| "StageName_as_str StageName.Recon = ''recon''"
| "StageName_as_str StageName.Planner = ''planner''"
| "StageName_as_str StageName.Manager = ''manager''"
| "StageName_as_str StageName.ManagerBlueprint = ''manager_blueprint''"
| "StageName_as_str StageName.ContractorBlueprint = ''contractor_blueprint''"
| "StageName_as_str StageName.EvaluatorBlueprint = ''evaluator_blueprint''"
| "StageName_as_str StageName.Mechanic = ''mechanic''"
| "StageName_as_str StageName.MechanicBlueprint = ''mechanic_blueprint''"
| "StageName_as_str StageName.Auditor = ''auditor''"
| "StageName_as_str StageName.Arbiter = ''arbiter''"
| "StageName_as_str StageName.Analyst = ''analyst''"
| "StageName_as_str StageName.Professor = ''professor''"
| "StageName_as_str StageName.Curator = ''curator''"
| "StageName_as_str StageName.Librarian = ''librarian''"

definition StageName_ALL :: "StageName list" where
  "StageName_ALL =
    [StageName.Builder, StageName.Integrator, StageName.Checker, StageName.Fixer,
     StageName.Doublechecker, StageName.Updater, StageName.Troubleshooter,
     StageName.Consultant, StageName.Recon, StageName.Planner, StageName.Manager,
     StageName.ManagerBlueprint, StageName.ContractorBlueprint, StageName.EvaluatorBlueprint,
     StageName.Mechanic, StageName.MechanicBlueprint, StageName.Auditor, StageName.Arbiter,
     StageName.Analyst, StageName.Professor, StageName.Curator, StageName.Librarian]"

text \<open>\<^verbatim>\<open>StageName::plane\<close>, and the three \<^verbatim>\<open>From\<close> conversions into \<^verbatim>\<open>StageName\<close>.\<close>

primrec StageName_plane :: "StageName \<Rightarrow> Plane" where
  "StageName_plane StageName.Builder = Plane.Execution"
| "StageName_plane StageName.Integrator = Plane.Execution"
| "StageName_plane StageName.Checker = Plane.Execution"
| "StageName_plane StageName.Fixer = Plane.Execution"
| "StageName_plane StageName.Doublechecker = Plane.Execution"
| "StageName_plane StageName.Updater = Plane.Execution"
| "StageName_plane StageName.Troubleshooter = Plane.Execution"
| "StageName_plane StageName.Consultant = Plane.Execution"
| "StageName_plane StageName.Recon = Plane.Planning"
| "StageName_plane StageName.Planner = Plane.Planning"
| "StageName_plane StageName.Manager = Plane.Planning"
| "StageName_plane StageName.ManagerBlueprint = Plane.Planning"
| "StageName_plane StageName.ContractorBlueprint = Plane.Planning"
| "StageName_plane StageName.EvaluatorBlueprint = Plane.Planning"
| "StageName_plane StageName.Mechanic = Plane.Planning"
| "StageName_plane StageName.MechanicBlueprint = Plane.Planning"
| "StageName_plane StageName.Auditor = Plane.Planning"
| "StageName_plane StageName.Arbiter = Plane.Planning"
| "StageName_plane StageName.Analyst = Plane.Learning"
| "StageName_plane StageName.Professor = Plane.Learning"
| "StageName_plane StageName.Curator = Plane.Learning"
| "StageName_plane StageName.Librarian = Plane.Learning"

primrec StageName_from_Execution :: "ExecutionStageName \<Rightarrow> StageName" where
  "StageName_from_Execution ExecutionStageName.Builder = StageName.Builder"
| "StageName_from_Execution ExecutionStageName.Integrator = StageName.Integrator"
| "StageName_from_Execution ExecutionStageName.Checker = StageName.Checker"
| "StageName_from_Execution ExecutionStageName.Fixer = StageName.Fixer"
| "StageName_from_Execution ExecutionStageName.Doublechecker = StageName.Doublechecker"
| "StageName_from_Execution ExecutionStageName.Updater = StageName.Updater"
| "StageName_from_Execution ExecutionStageName.Troubleshooter = StageName.Troubleshooter"
| "StageName_from_Execution ExecutionStageName.Consultant = StageName.Consultant"

primrec StageName_from_Planning :: "PlanningStageName \<Rightarrow> StageName" where
  "StageName_from_Planning PlanningStageName.Recon = StageName.Recon"
| "StageName_from_Planning PlanningStageName.Planner = StageName.Planner"
| "StageName_from_Planning PlanningStageName.Manager = StageName.Manager"
| "StageName_from_Planning PlanningStageName.ManagerBlueprint = StageName.ManagerBlueprint"
| "StageName_from_Planning PlanningStageName.ContractorBlueprint = StageName.ContractorBlueprint"
| "StageName_from_Planning PlanningStageName.EvaluatorBlueprint = StageName.EvaluatorBlueprint"
| "StageName_from_Planning PlanningStageName.Mechanic = StageName.Mechanic"
| "StageName_from_Planning PlanningStageName.MechanicBlueprint = StageName.MechanicBlueprint"
| "StageName_from_Planning PlanningStageName.Auditor = StageName.Auditor"
| "StageName_from_Planning PlanningStageName.Arbiter = StageName.Arbiter"

primrec StageName_from_Learning :: "LearningStageName \<Rightarrow> StageName" where
  "StageName_from_Learning LearningStageName.Analyst = StageName.Analyst"
| "StageName_from_Learning LearningStageName.Professor = StageName.Professor"
| "StageName_from_Learning LearningStageName.Curator = StageName.Curator"
| "StageName_from_Learning LearningStageName.Librarian = StageName.Librarian"

text \<open>Execution-plane terminal results.\<close>

datatype ExecutionTerminalResult =
    BuilderComplete | IntegrationComplete | CheckerPass | FixNeeded | FixerComplete
    | DoublecheckPass | UpdateComplete | TroubleshootComplete | ConsultComplete
    | NeedsPlanning | Blocked

primrec ExecutionTerminalResult_as_str :: "ExecutionTerminalResult \<Rightarrow> string" where
  "ExecutionTerminalResult_as_str ExecutionTerminalResult.BuilderComplete = ''BUILDER_COMPLETE''"
| "ExecutionTerminalResult_as_str ExecutionTerminalResult.IntegrationComplete = ''INTEGRATION_COMPLETE''"
| "ExecutionTerminalResult_as_str ExecutionTerminalResult.CheckerPass = ''CHECKER_PASS''"
| "ExecutionTerminalResult_as_str ExecutionTerminalResult.FixNeeded = ''FIX_NEEDED''"
| "ExecutionTerminalResult_as_str ExecutionTerminalResult.FixerComplete = ''FIXER_COMPLETE''"
| "ExecutionTerminalResult_as_str ExecutionTerminalResult.DoublecheckPass = ''DOUBLECHECK_PASS''"
| "ExecutionTerminalResult_as_str ExecutionTerminalResult.UpdateComplete = ''UPDATE_COMPLETE''"
| "ExecutionTerminalResult_as_str ExecutionTerminalResult.TroubleshootComplete = ''TROUBLESHOOT_COMPLETE''"
| "ExecutionTerminalResult_as_str ExecutionTerminalResult.ConsultComplete = ''CONSULT_COMPLETE''"
| "ExecutionTerminalResult_as_str ExecutionTerminalResult.NeedsPlanning = ''NEEDS_PLANNING''"
| "ExecutionTerminalResult_as_str ExecutionTerminalResult.Blocked = ''BLOCKED''"

definition ExecutionTerminalResult_ALL :: "ExecutionTerminalResult list" where
  "ExecutionTerminalResult_ALL =
    [ExecutionTerminalResult.BuilderComplete, ExecutionTerminalResult.IntegrationComplete,
     ExecutionTerminalResult.CheckerPass, ExecutionTerminalResult.FixNeeded,
     ExecutionTerminalResult.FixerComplete, ExecutionTerminalResult.DoublecheckPass,
     ExecutionTerminalResult.UpdateComplete, ExecutionTerminalResult.TroubleshootComplete,
     ExecutionTerminalResult.ConsultComplete, ExecutionTerminalResult.NeedsPlanning,
     ExecutionTerminalResult.Blocked]"

text \<open>Planning-plane terminal results.\<close>

datatype PlanningTerminalResult =
    ReconToExecution | ReconToPlanning | ReconBlocked | ReconNoop | PlannerComplete
    | ManagerComplete | ManagerBlueprintComplete | BlueprintCandidateReady | BlueprintApproved
    | BlueprintRejected | MechanicComplete | MechanicBlueprintComplete | AuditorComplete
    | ArbiterComplete | RemediationNeeded | Blocked

primrec PlanningTerminalResult_as_str :: "PlanningTerminalResult \<Rightarrow> string" where
  "PlanningTerminalResult_as_str PlanningTerminalResult.ReconToExecution = ''RECON_TO_EXECUTION''"
| "PlanningTerminalResult_as_str PlanningTerminalResult.ReconToPlanning = ''RECON_TO_PLANNING''"
| "PlanningTerminalResult_as_str PlanningTerminalResult.ReconBlocked = ''RECON_BLOCKED''"
| "PlanningTerminalResult_as_str PlanningTerminalResult.ReconNoop = ''RECON_NOOP''"
| "PlanningTerminalResult_as_str PlanningTerminalResult.PlannerComplete = ''PLANNER_COMPLETE''"
| "PlanningTerminalResult_as_str PlanningTerminalResult.ManagerComplete = ''MANAGER_COMPLETE''"
| "PlanningTerminalResult_as_str PlanningTerminalResult.ManagerBlueprintComplete = ''MANAGER_BLUEPRINT_COMPLETE''"
| "PlanningTerminalResult_as_str PlanningTerminalResult.BlueprintCandidateReady = ''BLUEPRINT_CANDIDATE_READY''"
| "PlanningTerminalResult_as_str PlanningTerminalResult.BlueprintApproved = ''BLUEPRINT_APPROVED''"
| "PlanningTerminalResult_as_str PlanningTerminalResult.BlueprintRejected = ''BLUEPRINT_REJECTED''"
| "PlanningTerminalResult_as_str PlanningTerminalResult.MechanicComplete = ''MECHANIC_COMPLETE''"
| "PlanningTerminalResult_as_str PlanningTerminalResult.MechanicBlueprintComplete = ''MECHANIC_BLUEPRINT_COMPLETE''"
| "PlanningTerminalResult_as_str PlanningTerminalResult.AuditorComplete = ''AUDITOR_COMPLETE''"
| "PlanningTerminalResult_as_str PlanningTerminalResult.ArbiterComplete = ''ARBITER_COMPLETE''"
| "PlanningTerminalResult_as_str PlanningTerminalResult.RemediationNeeded = ''REMEDIATION_NEEDED''"
| "PlanningTerminalResult_as_str PlanningTerminalResult.Blocked = ''BLOCKED''"

definition PlanningTerminalResult_ALL :: "PlanningTerminalResult list" where
  "PlanningTerminalResult_ALL =
    [PlanningTerminalResult.ReconToExecution, PlanningTerminalResult.ReconToPlanning,
     PlanningTerminalResult.ReconBlocked, PlanningTerminalResult.ReconNoop,
     PlanningTerminalResult.PlannerComplete, PlanningTerminalResult.ManagerComplete,
     PlanningTerminalResult.ManagerBlueprintComplete,
     PlanningTerminalResult.BlueprintCandidateReady, PlanningTerminalResult.BlueprintApproved,
     PlanningTerminalResult.BlueprintRejected, PlanningTerminalResult.MechanicComplete,
     PlanningTerminalResult.MechanicBlueprintComplete, PlanningTerminalResult.AuditorComplete,
     PlanningTerminalResult.ArbiterComplete, PlanningTerminalResult.RemediationNeeded,
     PlanningTerminalResult.Blocked]"

text \<open>Learning-plane terminal results.\<close>

datatype LearningTerminalResult =
    AnalystComplete | AnalystNoop | ProfessorComplete | ProfessorNoop | CuratorComplete
    | CuratorNoop | LibrarianComplete | LibrarianNoop | Blocked

primrec LearningTerminalResult_as_str :: "LearningTerminalResult \<Rightarrow> string" where
  "LearningTerminalResult_as_str LearningTerminalResult.AnalystComplete = ''ANALYST_COMPLETE''"
| "LearningTerminalResult_as_str LearningTerminalResult.AnalystNoop = ''ANALYST_NOOP''"
| "LearningTerminalResult_as_str LearningTerminalResult.ProfessorComplete = ''PROFESSOR_COMPLETE''"
| "LearningTerminalResult_as_str LearningTerminalResult.ProfessorNoop = ''PROFESSOR_NOOP''"
| "LearningTerminalResult_as_str LearningTerminalResult.CuratorComplete = ''CURATOR_COMPLETE''"
| "LearningTerminalResult_as_str LearningTerminalResult.CuratorNoop = ''CURATOR_NOOP''"
| "LearningTerminalResult_as_str LearningTerminalResult.LibrarianComplete = ''LIBRARIAN_COMPLETE''"
| "LearningTerminalResult_as_str LearningTerminalResult.LibrarianNoop = ''LIBRARIAN_NOOP''"
| "LearningTerminalResult_as_str LearningTerminalResult.Blocked = ''BLOCKED''"

definition LearningTerminalResult_ALL :: "LearningTerminalResult list" where
  "LearningTerminalResult_ALL =
    [LearningTerminalResult.AnalystComplete, LearningTerminalResult.AnalystNoop,
     LearningTerminalResult.ProfessorComplete, LearningTerminalResult.ProfessorNoop,
     LearningTerminalResult.CuratorComplete, LearningTerminalResult.CuratorNoop,
     LearningTerminalResult.LibrarianComplete, LearningTerminalResult.LibrarianNoop,
     LearningTerminalResult.Blocked]"

text \<open>A terminal result with the plane that owns it.\<close>

datatype TerminalResult =
    Execution ExecutionTerminalResult
  | Planning PlanningTerminalResult
  | Learning LearningTerminalResult

primrec TerminalResult_plane :: "TerminalResult \<Rightarrow> Plane" where
  "TerminalResult_plane (TerminalResult.Execution _) = Plane.Execution"
| "TerminalResult_plane (TerminalResult.Planning _) = Plane.Planning"
| "TerminalResult_plane (TerminalResult.Learning _) = Plane.Learning"

primrec TerminalResult_as_str :: "TerminalResult \<Rightarrow> string" where
  "TerminalResult_as_str (TerminalResult.Execution r) = ExecutionTerminalResult_as_str r"
| "TerminalResult_as_str (TerminalResult.Planning r) = PlanningTerminalResult_as_str r"
| "TerminalResult_as_str (TerminalResult.Learning r) = LearningTerminalResult_as_str r"

definition TerminalResult_marker :: "TerminalResult \<Rightarrow> string" where
  "TerminalResult_marker r = ''### '' @ TerminalResult_as_str r"

text \<open>Stage result classes.\<close>

datatype ResultClass =
    Success | NoOp | FollowupNeeded | RecoverableFailure | EscalatePlanning | Blocked

primrec ResultClass_as_str :: "ResultClass \<Rightarrow> string" where
  "ResultClass_as_str ResultClass.Success = ''success''"
| "ResultClass_as_str ResultClass.NoOp = ''no_op''"
| "ResultClass_as_str ResultClass.FollowupNeeded = ''followup_needed''"
| "ResultClass_as_str ResultClass.RecoverableFailure = ''recoverable_failure''"
| "ResultClass_as_str ResultClass.EscalatePlanning = ''escalate_planning''"
| "ResultClass_as_str ResultClass.Blocked = ''blocked''"

definition ResultClass_ALL :: "ResultClass list" where
  "ResultClass_ALL =
    [ResultClass.Success, ResultClass.NoOp, ResultClass.FollowupNeeded,
     ResultClass.RecoverableFailure, ResultClass.EscalatePlanning, ResultClass.Blocked]"

text \<open>Work item kinds accepted by runtime queues.\<close>

datatype WorkItemKind =
    Task | Probe | Spec | Incident | LearningRequest | BlueprintDraft

primrec WorkItemKind_as_str :: "WorkItemKind \<Rightarrow> string" where
  "WorkItemKind_as_str WorkItemKind.Task = ''task''"
| "WorkItemKind_as_str WorkItemKind.Probe = ''probe''"
| "WorkItemKind_as_str WorkItemKind.Spec = ''spec''"
| "WorkItemKind_as_str WorkItemKind.Incident = ''incident''"
| "WorkItemKind_as_str WorkItemKind.LearningRequest = ''learning_request''"
| "WorkItemKind_as_str WorkItemKind.BlueprintDraft = ''blueprint_draft''"

definition WorkItemKind_ALL :: "WorkItemKind list" where
  "WorkItemKind_ALL =
    [WorkItemKind.Task, WorkItemKind.Probe, WorkItemKind.Spec, WorkItemKind.Incident,
     WorkItemKind.LearningRequest, WorkItemKind.BlueprintDraft]"

text \<open>Source categories for spec work documents.\<close>

datatype SpecSourceType =
    Idea | Incident | Manual | DerivedSpec | Probe

primrec SpecSourceType_as_str :: "SpecSourceType \<Rightarrow> string" where
  "SpecSourceType_as_str SpecSourceType.Idea = ''idea''"
| "SpecSourceType_as_str SpecSourceType.Incident = ''incident''"
| "SpecSourceType_as_str SpecSourceType.Manual = ''manual''"
| "SpecSourceType_as_str SpecSourceType.DerivedSpec = ''derived_spec''"
| "SpecSourceType_as_str SpecSourceType.Probe = ''probe''"

definition SpecSourceType_ALL :: "SpecSourceType list" where
  "SpecSourceType_ALL =
    [SpecSourceType.Idea, SpecSourceType.Incident, SpecSourceType.Manual,
     SpecSourceType.DerivedSpec, SpecSourceType.Probe]"

text \<open>Supported learning request actions.\<close>

datatype LearningRequestAction =
    Create | Improve | Promote | Export | Install

primrec LearningRequestAction_as_str :: "LearningRequestAction \<Rightarrow> string" where
  "LearningRequestAction_as_str LearningRequestAction.Create = ''create''"
| "LearningRequestAction_as_str LearningRequestAction.Improve = ''improve''"
| "LearningRequestAction_as_str LearningRequestAction.Promote = ''promote''"
| "LearningRequestAction_as_str LearningRequestAction.Export = ''export''"
| "LearningRequestAction_as_str LearningRequestAction.Install = ''install''"

definition LearningRequestAction_ALL :: "LearningRequestAction list" where
  "LearningRequestAction_ALL =
    [LearningRequestAction.Create, LearningRequestAction.Improve,
     LearningRequestAction.Promote, LearningRequestAction.Export,
     LearningRequestAction.Install]"

text \<open>Task status hints used in human-facing task documents.\<close>

datatype TaskStatusHint =
    Queued | Active | Blocked | Done

primrec TaskStatusHint_as_str :: "TaskStatusHint \<Rightarrow> string" where
  "TaskStatusHint_as_str TaskStatusHint.Queued = ''queued''"
| "TaskStatusHint_as_str TaskStatusHint.Active = ''active''"
| "TaskStatusHint_as_str TaskStatusHint.Blocked = ''blocked''"
| "TaskStatusHint_as_str TaskStatusHint.Done = ''done''"

definition TaskStatusHint_ALL :: "TaskStatusHint list" where
  "TaskStatusHint_ALL =
    [TaskStatusHint.Queued, TaskStatusHint.Active, TaskStatusHint.Blocked,
     TaskStatusHint.Done]"

text \<open>Probe status hints used in human-facing probe documents.\<close>

datatype ProbeStatusHint =
    Queued | Active | Blocked | Done

primrec ProbeStatusHint_as_str :: "ProbeStatusHint \<Rightarrow> string" where
  "ProbeStatusHint_as_str ProbeStatusHint.Queued = ''queued''"
| "ProbeStatusHint_as_str ProbeStatusHint.Active = ''active''"
| "ProbeStatusHint_as_str ProbeStatusHint.Blocked = ''blocked''"
| "ProbeStatusHint_as_str ProbeStatusHint.Done = ''done''"

definition ProbeStatusHint_ALL :: "ProbeStatusHint list" where
  "ProbeStatusHint_ALL =
    [ProbeStatusHint.Queued, ProbeStatusHint.Active, ProbeStatusHint.Blocked,
     ProbeStatusHint.Done]"

text \<open>Root intake sources tracked separately from root idea/spec lineage.\<close>

datatype RootIntakeKind =
    Idea | Probe | Manual | Incident | DerivedSpec

primrec RootIntakeKind_as_str :: "RootIntakeKind \<Rightarrow> string" where
  "RootIntakeKind_as_str RootIntakeKind.Idea = ''idea''"
| "RootIntakeKind_as_str RootIntakeKind.Probe = ''probe''"
| "RootIntakeKind_as_str RootIntakeKind.Manual = ''manual''"
| "RootIntakeKind_as_str RootIntakeKind.Incident = ''incident''"
| "RootIntakeKind_as_str RootIntakeKind.DerivedSpec = ''derived_spec''"

definition RootIntakeKind_ALL :: "RootIntakeKind list" where
  "RootIntakeKind_ALL =
    [RootIntakeKind.Idea, RootIntakeKind.Probe, RootIntakeKind.Manual,
     RootIntakeKind.Incident, RootIntakeKind.DerivedSpec]"

text \<open>Incident severities.\<close>

datatype IncidentSeverity =
    Low | Medium | High | Critical

primrec IncidentSeverity_as_str :: "IncidentSeverity \<Rightarrow> string" where
  "IncidentSeverity_as_str IncidentSeverity.Low = ''low''"
| "IncidentSeverity_as_str IncidentSeverity.Medium = ''medium''"
| "IncidentSeverity_as_str IncidentSeverity.High = ''high''"
| "IncidentSeverity_as_str IncidentSeverity.Critical = ''critical''"

definition IncidentSeverity_ALL :: "IncidentSeverity list" where
  "IncidentSeverity_ALL =
    [IncidentSeverity.Low, IncidentSeverity.Medium, IncidentSeverity.High,
     IncidentSeverity.Critical]"

text \<open>Incident consultant decisions.\<close>

datatype IncidentDecision =
    NeedsPlanning | Blocked

primrec IncidentDecision_as_str :: "IncidentDecision \<Rightarrow> string" where
  "IncidentDecision_as_str IncidentDecision.NeedsPlanning = ''needs_planning''"
| "IncidentDecision_as_str IncidentDecision.Blocked = ''blocked''"

definition IncidentDecision_ALL :: "IncidentDecision list" where
  "IncidentDecision_ALL =
    [IncidentDecision.NeedsPlanning, IncidentDecision.Blocked]"

text \<open>Runtime invocation modes.\<close>

datatype RuntimeMode =
    Once | Daemon

primrec RuntimeMode_as_str :: "RuntimeMode \<Rightarrow> string" where
  "RuntimeMode_as_str RuntimeMode.Once = ''once''"
| "RuntimeMode_as_str RuntimeMode.Daemon = ''daemon''"

definition RuntimeMode_ALL :: "RuntimeMode list" where
  "RuntimeMode_ALL =
    [RuntimeMode.Once, RuntimeMode.Daemon]"

text \<open>Workspace watcher modes.\<close>

datatype WatcherMode =
    Watch | Poll | Off

primrec WatcherMode_as_str :: "WatcherMode \<Rightarrow> string" where
  "WatcherMode_as_str WatcherMode.Watch = ''watch''"
| "WatcherMode_as_str WatcherMode.Poll = ''poll''"
| "WatcherMode_as_str WatcherMode.Off = ''off''"

definition WatcherMode_ALL :: "WatcherMode list" where
  "WatcherMode_ALL =
    [WatcherMode.Watch, WatcherMode.Poll, WatcherMode.Off]"

text \<open>Config reload outcomes.\<close>

datatype ReloadOutcome =
    Applied | FailedRetainedPreviousPlan

primrec ReloadOutcome_as_str :: "ReloadOutcome \<Rightarrow> string" where
  "ReloadOutcome_as_str ReloadOutcome.Applied = ''applied''"
| "ReloadOutcome_as_str ReloadOutcome.FailedRetainedPreviousPlan = ''failed_retained_previous_plan''"

definition ReloadOutcome_ALL :: "ReloadOutcome list" where
  "ReloadOutcome_ALL =
    [ReloadOutcome.Applied, ReloadOutcome.FailedRetainedPreviousPlan]"

text \<open>Runtime error codes persisted by the reference runtime.\<close>

datatype RuntimeErrorCode =
    PlanningWorkItemCompletionConflict | ExecutionWorkItemCompletionConflict
    | PlanningPostStageApplyFailed | ExecutionPostStageApplyFailed | ReconHandoffInvalid
    | StageWorkItemOwnershipInvalid

primrec RuntimeErrorCode_as_str :: "RuntimeErrorCode \<Rightarrow> string" where
  "RuntimeErrorCode_as_str RuntimeErrorCode.PlanningWorkItemCompletionConflict = ''planning_work_item_completion_conflict''"
| "RuntimeErrorCode_as_str RuntimeErrorCode.ExecutionWorkItemCompletionConflict = ''execution_work_item_completion_conflict''"
| "RuntimeErrorCode_as_str RuntimeErrorCode.PlanningPostStageApplyFailed = ''planning_post_stage_apply_failed''"
| "RuntimeErrorCode_as_str RuntimeErrorCode.ExecutionPostStageApplyFailed = ''execution_post_stage_apply_failed''"
| "RuntimeErrorCode_as_str RuntimeErrorCode.ReconHandoffInvalid = ''recon_handoff_invalid''"
| "RuntimeErrorCode_as_str RuntimeErrorCode.StageWorkItemOwnershipInvalid = ''stage_work_item_ownership_invalid''"

definition RuntimeErrorCode_ALL :: "RuntimeErrorCode list" where
  "RuntimeErrorCode_ALL =
    [RuntimeErrorCode.PlanningWorkItemCompletionConflict,
     RuntimeErrorCode.ExecutionWorkItemCompletionConflict,
     RuntimeErrorCode.PlanningPostStageApplyFailed,
     RuntimeErrorCode.ExecutionPostStageApplyFailed, RuntimeErrorCode.ReconHandoffInvalid,
     RuntimeErrorCode.StageWorkItemOwnershipInvalid]"

text \<open>Execution capability grant decision states.\<close>

datatype CapabilityDecisionState =
    Granted | Denied | ApprovalRequired | Unsupported

primrec CapabilityDecisionState_as_str :: "CapabilityDecisionState \<Rightarrow> string" where
  "CapabilityDecisionState_as_str CapabilityDecisionState.Granted = ''granted''"
| "CapabilityDecisionState_as_str CapabilityDecisionState.Denied = ''denied''"
| "CapabilityDecisionState_as_str CapabilityDecisionState.ApprovalRequired = ''approval_required''"
| "CapabilityDecisionState_as_str CapabilityDecisionState.Unsupported = ''unsupported''"

definition CapabilityDecisionState_ALL :: "CapabilityDecisionState list" where
  "CapabilityDecisionState_ALL =
    [CapabilityDecisionState.Granted, CapabilityDecisionState.Denied,
     CapabilityDecisionState.ApprovalRequired, CapabilityDecisionState.Unsupported]"

text \<open>Execution capability enforcement modes.\<close>

datatype CapabilityEnforcementMode =
    RunnerEnforced | RuntimeEnforced | AdapterEnforced | ExternalApiEnforced | AdvisoryOnly
    | NotApplicable

primrec CapabilityEnforcementMode_as_str :: "CapabilityEnforcementMode \<Rightarrow> string" where
  "CapabilityEnforcementMode_as_str CapabilityEnforcementMode.RunnerEnforced = ''runner_enforced''"
| "CapabilityEnforcementMode_as_str CapabilityEnforcementMode.RuntimeEnforced = ''runtime_enforced''"
| "CapabilityEnforcementMode_as_str CapabilityEnforcementMode.AdapterEnforced = ''adapter_enforced''"
| "CapabilityEnforcementMode_as_str CapabilityEnforcementMode.ExternalApiEnforced = ''external_api_enforced''"
| "CapabilityEnforcementMode_as_str CapabilityEnforcementMode.AdvisoryOnly = ''advisory_only''"
| "CapabilityEnforcementMode_as_str CapabilityEnforcementMode.NotApplicable = ''not_applicable''"

definition CapabilityEnforcementMode_ALL :: "CapabilityEnforcementMode list" where
  "CapabilityEnforcementMode_ALL =
    [CapabilityEnforcementMode.RunnerEnforced, CapabilityEnforcementMode.RuntimeEnforced,
     CapabilityEnforcementMode.AdapterEnforced, CapabilityEnforcementMode.ExternalApiEnforced,
     CapabilityEnforcementMode.AdvisoryOnly, CapabilityEnforcementMode.NotApplicable]"

text \<open>Execution capability evidence states.\<close>

datatype CapabilityEvidenceStatus =
    NotRequired | Pending | Satisfied | Missing | Waived | Violated

primrec CapabilityEvidenceStatus_as_str :: "CapabilityEvidenceStatus \<Rightarrow> string" where
  "CapabilityEvidenceStatus_as_str CapabilityEvidenceStatus.NotRequired = ''not_required''"
| "CapabilityEvidenceStatus_as_str CapabilityEvidenceStatus.Pending = ''pending''"
| "CapabilityEvidenceStatus_as_str CapabilityEvidenceStatus.Satisfied = ''satisfied''"
| "CapabilityEvidenceStatus_as_str CapabilityEvidenceStatus.Missing = ''missing''"
| "CapabilityEvidenceStatus_as_str CapabilityEvidenceStatus.Waived = ''waived''"
| "CapabilityEvidenceStatus_as_str CapabilityEvidenceStatus.Violated = ''violated''"

definition CapabilityEvidenceStatus_ALL :: "CapabilityEvidenceStatus list" where
  "CapabilityEvidenceStatus_ALL =
    [CapabilityEvidenceStatus.NotRequired, CapabilityEvidenceStatus.Pending,
     CapabilityEvidenceStatus.Satisfied, CapabilityEvidenceStatus.Missing,
     CapabilityEvidenceStatus.Waived, CapabilityEvidenceStatus.Violated]"

text \<open>Execution capability policy override decisions.\<close>

datatype CapabilityPolicyDecision =
    Allow | Deny | ApprovalRequired

primrec CapabilityPolicyDecision_as_str :: "CapabilityPolicyDecision \<Rightarrow> string" where
  "CapabilityPolicyDecision_as_str CapabilityPolicyDecision.Allow = ''allow''"
| "CapabilityPolicyDecision_as_str CapabilityPolicyDecision.Deny = ''deny''"
| "CapabilityPolicyDecision_as_str CapabilityPolicyDecision.ApprovalRequired = ''approval_required''"

definition CapabilityPolicyDecision_ALL :: "CapabilityPolicyDecision list" where
  "CapabilityPolicyDecision_ALL =
    [CapabilityPolicyDecision.Allow, CapabilityPolicyDecision.Deny,
     CapabilityPolicyDecision.ApprovalRequired]"

text \<open>Runner support states for execution capabilities.\<close>

datatype CapabilitySupportState =
    Supported | Unsupported | PartiallySupported

primrec CapabilitySupportState_as_str :: "CapabilitySupportState \<Rightarrow> string" where
  "CapabilitySupportState_as_str CapabilitySupportState.Supported = ''supported''"
| "CapabilitySupportState_as_str CapabilitySupportState.Unsupported = ''unsupported''"
| "CapabilitySupportState_as_str CapabilitySupportState.PartiallySupported = ''partially_supported''"

definition CapabilitySupportState_ALL :: "CapabilitySupportState list" where
  "CapabilitySupportState_ALL =
    [CapabilitySupportState.Supported, CapabilitySupportState.Unsupported,
     CapabilitySupportState.PartiallySupported]"

text \<open>Mailbox commands accepted by the runtime.\<close>

datatype MailboxCommand =
    Stop | Pause | Resume | ReloadConfig | AddTask | AddProbe | AddSpec | AddIdea
    | RetryActive | ClearStaleState | CancelWorkItem | ArchiveBlockedTask | SupersedeTask
    | RetargetTaskDependency | ResolveIncident | CancelIncident | ArchiveInvalidIncident
    | ApproveExecutionCapability | DenyExecutionCapability

primrec MailboxCommand_as_str :: "MailboxCommand \<Rightarrow> string" where
  "MailboxCommand_as_str MailboxCommand.Stop = ''stop''"
| "MailboxCommand_as_str MailboxCommand.Pause = ''pause''"
| "MailboxCommand_as_str MailboxCommand.Resume = ''resume''"
| "MailboxCommand_as_str MailboxCommand.ReloadConfig = ''reload_config''"
| "MailboxCommand_as_str MailboxCommand.AddTask = ''add_task''"
| "MailboxCommand_as_str MailboxCommand.AddProbe = ''add_probe''"
| "MailboxCommand_as_str MailboxCommand.AddSpec = ''add_spec''"
| "MailboxCommand_as_str MailboxCommand.AddIdea = ''add_idea''"
| "MailboxCommand_as_str MailboxCommand.RetryActive = ''retry_active''"
| "MailboxCommand_as_str MailboxCommand.ClearStaleState = ''clear_stale_state''"
| "MailboxCommand_as_str MailboxCommand.CancelWorkItem = ''cancel_work_item''"
| "MailboxCommand_as_str MailboxCommand.ArchiveBlockedTask = ''archive_blocked_task''"
| "MailboxCommand_as_str MailboxCommand.SupersedeTask = ''supersede_task''"
| "MailboxCommand_as_str MailboxCommand.RetargetTaskDependency = ''retarget_task_dependency''"
| "MailboxCommand_as_str MailboxCommand.ResolveIncident = ''resolve_incident''"
| "MailboxCommand_as_str MailboxCommand.CancelIncident = ''cancel_incident''"
| "MailboxCommand_as_str MailboxCommand.ArchiveInvalidIncident = ''archive_invalid_incident''"
| "MailboxCommand_as_str MailboxCommand.ApproveExecutionCapability = ''approve_execution_capability''"
| "MailboxCommand_as_str MailboxCommand.DenyExecutionCapability = ''deny_execution_capability''"

definition MailboxCommand_ALL :: "MailboxCommand list" where
  "MailboxCommand_ALL =
    [MailboxCommand.Stop, MailboxCommand.Pause, MailboxCommand.Resume,
     MailboxCommand.ReloadConfig, MailboxCommand.AddTask, MailboxCommand.AddProbe,
     MailboxCommand.AddSpec, MailboxCommand.AddIdea, MailboxCommand.RetryActive,
     MailboxCommand.ClearStaleState, MailboxCommand.CancelWorkItem,
     MailboxCommand.ArchiveBlockedTask, MailboxCommand.SupersedeTask,
     MailboxCommand.RetargetTaskDependency, MailboxCommand.ResolveIncident,
     MailboxCommand.CancelIncident, MailboxCommand.ArchiveInvalidIncident,
     MailboxCommand.ApproveExecutionCapability, MailboxCommand.DenyExecutionCapability]"

text \<open>Compiled loop edge kinds.\<close>

datatype LoopEdgeKind =
    Normal | Retry | Escalation | Handoff | Terminal

primrec LoopEdgeKind_as_str :: "LoopEdgeKind \<Rightarrow> string" where
  "LoopEdgeKind_as_str LoopEdgeKind.Normal = ''normal''"
| "LoopEdgeKind_as_str LoopEdgeKind.Retry = ''retry''"
| "LoopEdgeKind_as_str LoopEdgeKind.Escalation = ''escalation''"
| "LoopEdgeKind_as_str LoopEdgeKind.Handoff = ''handoff''"
| "LoopEdgeKind_as_str LoopEdgeKind.Terminal = ''terminal''"

definition LoopEdgeKind_ALL :: "LoopEdgeKind list" where
  "LoopEdgeKind_ALL =
    [LoopEdgeKind.Normal, LoopEdgeKind.Retry, LoopEdgeKind.Escalation, LoopEdgeKind.Handoff,
     LoopEdgeKind.Terminal]"

section \<open>Contract errors\<close>

datatype IdentifierErrorReason = SurroundingWhitespace | Empty | InvalidCharacters

datatype ContractError =
    UnknownEnumValue (enum_name: string) (enum_value: string)
  | UnknownStageValue string
  | StagePlaneMismatch Plane StageName
  | UnknownTerminalResult Plane string
  | InvalidTerminalMarker string
  | TerminalResultNotAllowed StageName TerminalResult
  | ResultClassNotAllowed StageName TerminalResult ResultClass
  | UnsafeIdentifier string string IdentifierErrorReason

text \<open>The \<^verbatim>\<open>Display\<close> instances, whose text the queue store puts in its own errors.\<close>

primrec IdentifierErrorReason_to_string :: "IdentifierErrorReason \<Rightarrow> string" where
  "IdentifierErrorReason_to_string SurroundingWhitespace =
     ''must not include surrounding whitespace''"
| "IdentifierErrorReason_to_string Empty = ''is required''"
| "IdentifierErrorReason_to_string InvalidCharacters =
     ''must start with an ASCII alphanumeric character and then contain only ASCII alphanumeric characters, '' @ [CHR 0x27] @ ''.'' @ [CHR 0x27] @ '', '' @ [CHR 0x27] @ ''_'' @ [CHR 0x27] @ '', or '' @ [CHR 0x27] @ ''-'' @ [CHR 0x27]"

primrec ContractError_to_string :: "ContractError \<Rightarrow> string" where
  "ContractError_to_string (UnknownEnumValue n v) = ''unknown '' @ n @ '' value: '' @ v"
| "ContractError_to_string (UnknownStageValue v) = ''unknown stage value: '' @ v"
| "ContractError_to_string (StagePlaneMismatch p s) =
     ''stage '' @ StageName_as_str s @ '' does not belong to plane '' @ Plane_as_str p"
| "ContractError_to_string (UnknownTerminalResult p v) =
     ''unknown terminal result for plane '' @ Plane_as_str p @ '': '' @ v"
| "ContractError_to_string (InvalidTerminalMarker m) = ''invalid terminal marker: '' @ m"
| "ContractError_to_string (TerminalResultNotAllowed s r) =
     ''terminal result '' @ TerminalResult_as_str r @ '' is not legal for stage '' @ StageName_as_str s"
| "ContractError_to_string (ResultClassNotAllowed s r c) =
     ''result class '' @ ResultClass_as_str c @ '' is not legal for stage '' @ StageName_as_str s
       @ '' outcome '' @ TerminalResult_as_str r"
| "ContractError_to_string (UnsafeIdentifier f v reason) =
     f @ '' '' @ IdentifierErrorReason_to_string reason"

section \<open>Parsing\<close>

text \<open>The generated \<^verbatim>\<open>from_value\<close>: the first variant whose canonical string is the value.\<close>

definition enum_from_value ::
  "string \<Rightarrow> ('a \<Rightarrow> string) \<Rightarrow> 'a list \<Rightarrow> string \<Rightarrow> ContractError + 'a" where
  "enum_from_value name as_str variants v =
     (case List.find (\<lambda>x. as_str x = v) variants of
        Some x \<Rightarrow> Inr x
      | None \<Rightarrow> Inl (UnknownEnumValue name v))"

locale string_enum =
  fixes name :: string
    and variants :: "'a list"
    and as_str :: "'a \<Rightarrow> string"
    and from_value :: "string \<Rightarrow> ContractError + 'a"
  assumes variants_complete: "x \<in> set variants"
    and as_str_distinct: "distinct (map as_str variants)"
    and from_value_table: "from_value v = enum_from_value name as_str variants v"
begin

lemma from_value_as_str: "from_value (as_str x) = Inr x"
  using find_eq_unique [OF as_str_distinct variants_complete, of x]
  by (simp add: from_value_table enum_from_value_def)

lemma as_str_inject: "as_str x = as_str y \<longleftrightarrow> x = y"
  by (metis from_value_as_str sum.inject(2))

lemma from_value_Inr: "from_value v = Inr x \<longleftrightarrow> v = as_str x"
proof
  assume "from_value v = Inr x"
  then show "v = as_str x"
    by (auto simp: from_value_table enum_from_value_def split: option.splits dest!: find_SomeD)
qed (simp add: from_value_as_str)

lemma from_value_Inl: "from_value v = Inl e \<Longrightarrow> e = UnknownEnumValue name v"
  by (simp add: from_value_table enum_from_value_def split: option.splits)

lemma from_value_unknown:
  "v \<notin> range as_str \<Longrightarrow> from_value v = Inl (UnknownEnumValue name v)"
  by (cases "from_value v") (auto dest: from_value_Inl simp: from_value_Inr)

lemma variants_enumerates: "set variants = UNIV" "distinct variants"
  using variants_complete as_str_distinct by (auto simp: distinct_map)

end

definition Plane_from_value :: "string \<Rightarrow> ContractError + Plane" where
  "Plane_from_value = enum_from_value ''Plane'' Plane_as_str Plane_ALL"

lemma Plane_ALL_complete: "x \<in> set Plane_ALL"
  by (cases x) (simp_all add: Plane_ALL_def)

interpretation Plane_enum: string_enum "''Plane''" Plane_ALL Plane_as_str Plane_from_value
  by unfold_locales
    (simp_all only: Plane_ALL_complete Plane_from_value_def, simp add: Plane_ALL_def)

definition ExecutionStageName_from_value :: "string \<Rightarrow> ContractError + ExecutionStageName" where
  "ExecutionStageName_from_value = enum_from_value ''ExecutionStageName'' ExecutionStageName_as_str ExecutionStageName_ALL"

lemma ExecutionStageName_ALL_complete: "x \<in> set ExecutionStageName_ALL"
  by (cases x) (simp_all add: ExecutionStageName_ALL_def)

interpretation ExecutionStageName_enum: string_enum "''ExecutionStageName''" ExecutionStageName_ALL ExecutionStageName_as_str ExecutionStageName_from_value
  by unfold_locales
    (simp_all only: ExecutionStageName_ALL_complete ExecutionStageName_from_value_def, simp add: ExecutionStageName_ALL_def)

definition PlanningStageName_from_value :: "string \<Rightarrow> ContractError + PlanningStageName" where
  "PlanningStageName_from_value = enum_from_value ''PlanningStageName'' PlanningStageName_as_str PlanningStageName_ALL"

lemma PlanningStageName_ALL_complete: "x \<in> set PlanningStageName_ALL"
  by (cases x) (simp_all add: PlanningStageName_ALL_def)

interpretation PlanningStageName_enum: string_enum "''PlanningStageName''" PlanningStageName_ALL PlanningStageName_as_str PlanningStageName_from_value
  by unfold_locales
    (simp_all only: PlanningStageName_ALL_complete PlanningStageName_from_value_def, simp add: PlanningStageName_ALL_def)

definition LearningStageName_from_value :: "string \<Rightarrow> ContractError + LearningStageName" where
  "LearningStageName_from_value = enum_from_value ''LearningStageName'' LearningStageName_as_str LearningStageName_ALL"

lemma LearningStageName_ALL_complete: "x \<in> set LearningStageName_ALL"
  by (cases x) (simp_all add: LearningStageName_ALL_def)

interpretation LearningStageName_enum: string_enum "''LearningStageName''" LearningStageName_ALL LearningStageName_as_str LearningStageName_from_value
  by unfold_locales
    (simp_all only: LearningStageName_ALL_complete LearningStageName_from_value_def, simp add: LearningStageName_ALL_def)

definition StageName_from_value :: "string \<Rightarrow> ContractError + StageName" where
  "StageName_from_value = enum_from_value ''StageName'' StageName_as_str StageName_ALL"

lemma StageName_ALL_complete: "x \<in> set StageName_ALL"
  by (cases x) (simp_all add: StageName_ALL_def)

interpretation StageName_enum: string_enum "''StageName''" StageName_ALL StageName_as_str StageName_from_value
  by unfold_locales
    (simp_all only: StageName_ALL_complete StageName_from_value_def, simp add: StageName_ALL_def)

definition ExecutionTerminalResult_from_value :: "string \<Rightarrow> ContractError + ExecutionTerminalResult" where
  "ExecutionTerminalResult_from_value = enum_from_value ''ExecutionTerminalResult'' ExecutionTerminalResult_as_str ExecutionTerminalResult_ALL"

lemma ExecutionTerminalResult_ALL_complete: "x \<in> set ExecutionTerminalResult_ALL"
  by (cases x) (simp_all add: ExecutionTerminalResult_ALL_def)

interpretation ExecutionTerminalResult_enum: string_enum "''ExecutionTerminalResult''" ExecutionTerminalResult_ALL ExecutionTerminalResult_as_str ExecutionTerminalResult_from_value
  by unfold_locales
    (simp_all only: ExecutionTerminalResult_ALL_complete ExecutionTerminalResult_from_value_def, simp add: ExecutionTerminalResult_ALL_def)

definition PlanningTerminalResult_from_value :: "string \<Rightarrow> ContractError + PlanningTerminalResult" where
  "PlanningTerminalResult_from_value = enum_from_value ''PlanningTerminalResult'' PlanningTerminalResult_as_str PlanningTerminalResult_ALL"

lemma PlanningTerminalResult_ALL_complete: "x \<in> set PlanningTerminalResult_ALL"
  by (cases x) (simp_all add: PlanningTerminalResult_ALL_def)

interpretation PlanningTerminalResult_enum: string_enum "''PlanningTerminalResult''" PlanningTerminalResult_ALL PlanningTerminalResult_as_str PlanningTerminalResult_from_value
  by unfold_locales
    (simp_all only: PlanningTerminalResult_ALL_complete PlanningTerminalResult_from_value_def, simp add: PlanningTerminalResult_ALL_def)

definition LearningTerminalResult_from_value :: "string \<Rightarrow> ContractError + LearningTerminalResult" where
  "LearningTerminalResult_from_value = enum_from_value ''LearningTerminalResult'' LearningTerminalResult_as_str LearningTerminalResult_ALL"

lemma LearningTerminalResult_ALL_complete: "x \<in> set LearningTerminalResult_ALL"
  by (cases x) (simp_all add: LearningTerminalResult_ALL_def)

interpretation LearningTerminalResult_enum: string_enum "''LearningTerminalResult''" LearningTerminalResult_ALL LearningTerminalResult_as_str LearningTerminalResult_from_value
  by unfold_locales
    (simp_all only: LearningTerminalResult_ALL_complete LearningTerminalResult_from_value_def, simp add: LearningTerminalResult_ALL_def)

definition ResultClass_from_value :: "string \<Rightarrow> ContractError + ResultClass" where
  "ResultClass_from_value = enum_from_value ''ResultClass'' ResultClass_as_str ResultClass_ALL"

lemma ResultClass_ALL_complete: "x \<in> set ResultClass_ALL"
  by (cases x) (simp_all add: ResultClass_ALL_def)

interpretation ResultClass_enum: string_enum "''ResultClass''" ResultClass_ALL ResultClass_as_str ResultClass_from_value
  by unfold_locales
    (simp_all only: ResultClass_ALL_complete ResultClass_from_value_def, simp add: ResultClass_ALL_def)

definition WorkItemKind_from_value :: "string \<Rightarrow> ContractError + WorkItemKind" where
  "WorkItemKind_from_value = enum_from_value ''WorkItemKind'' WorkItemKind_as_str WorkItemKind_ALL"

lemma WorkItemKind_ALL_complete: "x \<in> set WorkItemKind_ALL"
  by (cases x) (simp_all add: WorkItemKind_ALL_def)

interpretation WorkItemKind_enum: string_enum "''WorkItemKind''" WorkItemKind_ALL WorkItemKind_as_str WorkItemKind_from_value
  by unfold_locales
    (simp_all only: WorkItemKind_ALL_complete WorkItemKind_from_value_def, simp add: WorkItemKind_ALL_def)

definition SpecSourceType_from_value :: "string \<Rightarrow> ContractError + SpecSourceType" where
  "SpecSourceType_from_value = enum_from_value ''SpecSourceType'' SpecSourceType_as_str SpecSourceType_ALL"

lemma SpecSourceType_ALL_complete: "x \<in> set SpecSourceType_ALL"
  by (cases x) (simp_all add: SpecSourceType_ALL_def)

interpretation SpecSourceType_enum: string_enum "''SpecSourceType''" SpecSourceType_ALL SpecSourceType_as_str SpecSourceType_from_value
  by unfold_locales
    (simp_all only: SpecSourceType_ALL_complete SpecSourceType_from_value_def, simp add: SpecSourceType_ALL_def)

definition LearningRequestAction_from_value :: "string \<Rightarrow> ContractError + LearningRequestAction" where
  "LearningRequestAction_from_value = enum_from_value ''LearningRequestAction'' LearningRequestAction_as_str LearningRequestAction_ALL"

lemma LearningRequestAction_ALL_complete: "x \<in> set LearningRequestAction_ALL"
  by (cases x) (simp_all add: LearningRequestAction_ALL_def)

interpretation LearningRequestAction_enum: string_enum "''LearningRequestAction''" LearningRequestAction_ALL LearningRequestAction_as_str LearningRequestAction_from_value
  by unfold_locales
    (simp_all only: LearningRequestAction_ALL_complete LearningRequestAction_from_value_def, simp add: LearningRequestAction_ALL_def)

definition TaskStatusHint_from_value :: "string \<Rightarrow> ContractError + TaskStatusHint" where
  "TaskStatusHint_from_value = enum_from_value ''TaskStatusHint'' TaskStatusHint_as_str TaskStatusHint_ALL"

lemma TaskStatusHint_ALL_complete: "x \<in> set TaskStatusHint_ALL"
  by (cases x) (simp_all add: TaskStatusHint_ALL_def)

interpretation TaskStatusHint_enum: string_enum "''TaskStatusHint''" TaskStatusHint_ALL TaskStatusHint_as_str TaskStatusHint_from_value
  by unfold_locales
    (simp_all only: TaskStatusHint_ALL_complete TaskStatusHint_from_value_def, simp add: TaskStatusHint_ALL_def)

definition ProbeStatusHint_from_value :: "string \<Rightarrow> ContractError + ProbeStatusHint" where
  "ProbeStatusHint_from_value = enum_from_value ''ProbeStatusHint'' ProbeStatusHint_as_str ProbeStatusHint_ALL"

lemma ProbeStatusHint_ALL_complete: "x \<in> set ProbeStatusHint_ALL"
  by (cases x) (simp_all add: ProbeStatusHint_ALL_def)

interpretation ProbeStatusHint_enum: string_enum "''ProbeStatusHint''" ProbeStatusHint_ALL ProbeStatusHint_as_str ProbeStatusHint_from_value
  by unfold_locales
    (simp_all only: ProbeStatusHint_ALL_complete ProbeStatusHint_from_value_def, simp add: ProbeStatusHint_ALL_def)

definition RootIntakeKind_from_value :: "string \<Rightarrow> ContractError + RootIntakeKind" where
  "RootIntakeKind_from_value = enum_from_value ''RootIntakeKind'' RootIntakeKind_as_str RootIntakeKind_ALL"

lemma RootIntakeKind_ALL_complete: "x \<in> set RootIntakeKind_ALL"
  by (cases x) (simp_all add: RootIntakeKind_ALL_def)

interpretation RootIntakeKind_enum: string_enum "''RootIntakeKind''" RootIntakeKind_ALL RootIntakeKind_as_str RootIntakeKind_from_value
  by unfold_locales
    (simp_all only: RootIntakeKind_ALL_complete RootIntakeKind_from_value_def, simp add: RootIntakeKind_ALL_def)

definition IncidentSeverity_from_value :: "string \<Rightarrow> ContractError + IncidentSeverity" where
  "IncidentSeverity_from_value = enum_from_value ''IncidentSeverity'' IncidentSeverity_as_str IncidentSeverity_ALL"

lemma IncidentSeverity_ALL_complete: "x \<in> set IncidentSeverity_ALL"
  by (cases x) (simp_all add: IncidentSeverity_ALL_def)

interpretation IncidentSeverity_enum: string_enum "''IncidentSeverity''" IncidentSeverity_ALL IncidentSeverity_as_str IncidentSeverity_from_value
  by unfold_locales
    (simp_all only: IncidentSeverity_ALL_complete IncidentSeverity_from_value_def, simp add: IncidentSeverity_ALL_def)

definition IncidentDecision_from_value :: "string \<Rightarrow> ContractError + IncidentDecision" where
  "IncidentDecision_from_value = enum_from_value ''IncidentDecision'' IncidentDecision_as_str IncidentDecision_ALL"

lemma IncidentDecision_ALL_complete: "x \<in> set IncidentDecision_ALL"
  by (cases x) (simp_all add: IncidentDecision_ALL_def)

interpretation IncidentDecision_enum: string_enum "''IncidentDecision''" IncidentDecision_ALL IncidentDecision_as_str IncidentDecision_from_value
  by unfold_locales
    (simp_all only: IncidentDecision_ALL_complete IncidentDecision_from_value_def, simp add: IncidentDecision_ALL_def)

definition RuntimeMode_from_value :: "string \<Rightarrow> ContractError + RuntimeMode" where
  "RuntimeMode_from_value = enum_from_value ''RuntimeMode'' RuntimeMode_as_str RuntimeMode_ALL"

lemma RuntimeMode_ALL_complete: "x \<in> set RuntimeMode_ALL"
  by (cases x) (simp_all add: RuntimeMode_ALL_def)

interpretation RuntimeMode_enum: string_enum "''RuntimeMode''" RuntimeMode_ALL RuntimeMode_as_str RuntimeMode_from_value
  by unfold_locales
    (simp_all only: RuntimeMode_ALL_complete RuntimeMode_from_value_def, simp add: RuntimeMode_ALL_def)

definition WatcherMode_from_value :: "string \<Rightarrow> ContractError + WatcherMode" where
  "WatcherMode_from_value = enum_from_value ''WatcherMode'' WatcherMode_as_str WatcherMode_ALL"

lemma WatcherMode_ALL_complete: "x \<in> set WatcherMode_ALL"
  by (cases x) (simp_all add: WatcherMode_ALL_def)

interpretation WatcherMode_enum: string_enum "''WatcherMode''" WatcherMode_ALL WatcherMode_as_str WatcherMode_from_value
  by unfold_locales
    (simp_all only: WatcherMode_ALL_complete WatcherMode_from_value_def, simp add: WatcherMode_ALL_def)

definition ReloadOutcome_from_value :: "string \<Rightarrow> ContractError + ReloadOutcome" where
  "ReloadOutcome_from_value = enum_from_value ''ReloadOutcome'' ReloadOutcome_as_str ReloadOutcome_ALL"

lemma ReloadOutcome_ALL_complete: "x \<in> set ReloadOutcome_ALL"
  by (cases x) (simp_all add: ReloadOutcome_ALL_def)

interpretation ReloadOutcome_enum: string_enum "''ReloadOutcome''" ReloadOutcome_ALL ReloadOutcome_as_str ReloadOutcome_from_value
  by unfold_locales
    (simp_all only: ReloadOutcome_ALL_complete ReloadOutcome_from_value_def, simp add: ReloadOutcome_ALL_def)

definition RuntimeErrorCode_from_value :: "string \<Rightarrow> ContractError + RuntimeErrorCode" where
  "RuntimeErrorCode_from_value = enum_from_value ''RuntimeErrorCode'' RuntimeErrorCode_as_str RuntimeErrorCode_ALL"

lemma RuntimeErrorCode_ALL_complete: "x \<in> set RuntimeErrorCode_ALL"
  by (cases x) (simp_all add: RuntimeErrorCode_ALL_def)

interpretation RuntimeErrorCode_enum: string_enum "''RuntimeErrorCode''" RuntimeErrorCode_ALL RuntimeErrorCode_as_str RuntimeErrorCode_from_value
  by unfold_locales
    (simp_all only: RuntimeErrorCode_ALL_complete RuntimeErrorCode_from_value_def, simp add: RuntimeErrorCode_ALL_def)

definition CapabilityDecisionState_from_value :: "string \<Rightarrow> ContractError + CapabilityDecisionState" where
  "CapabilityDecisionState_from_value = enum_from_value ''CapabilityDecisionState'' CapabilityDecisionState_as_str CapabilityDecisionState_ALL"

lemma CapabilityDecisionState_ALL_complete: "x \<in> set CapabilityDecisionState_ALL"
  by (cases x) (simp_all add: CapabilityDecisionState_ALL_def)

interpretation CapabilityDecisionState_enum: string_enum "''CapabilityDecisionState''" CapabilityDecisionState_ALL CapabilityDecisionState_as_str CapabilityDecisionState_from_value
  by unfold_locales
    (simp_all only: CapabilityDecisionState_ALL_complete CapabilityDecisionState_from_value_def, simp add: CapabilityDecisionState_ALL_def)

definition CapabilityEnforcementMode_from_value :: "string \<Rightarrow> ContractError + CapabilityEnforcementMode" where
  "CapabilityEnforcementMode_from_value = enum_from_value ''CapabilityEnforcementMode'' CapabilityEnforcementMode_as_str CapabilityEnforcementMode_ALL"

lemma CapabilityEnforcementMode_ALL_complete: "x \<in> set CapabilityEnforcementMode_ALL"
  by (cases x) (simp_all add: CapabilityEnforcementMode_ALL_def)

interpretation CapabilityEnforcementMode_enum: string_enum "''CapabilityEnforcementMode''" CapabilityEnforcementMode_ALL CapabilityEnforcementMode_as_str CapabilityEnforcementMode_from_value
  by unfold_locales
    (simp_all only: CapabilityEnforcementMode_ALL_complete CapabilityEnforcementMode_from_value_def, simp add: CapabilityEnforcementMode_ALL_def)

definition CapabilityEvidenceStatus_from_value :: "string \<Rightarrow> ContractError + CapabilityEvidenceStatus" where
  "CapabilityEvidenceStatus_from_value = enum_from_value ''CapabilityEvidenceStatus'' CapabilityEvidenceStatus_as_str CapabilityEvidenceStatus_ALL"

lemma CapabilityEvidenceStatus_ALL_complete: "x \<in> set CapabilityEvidenceStatus_ALL"
  by (cases x) (simp_all add: CapabilityEvidenceStatus_ALL_def)

interpretation CapabilityEvidenceStatus_enum: string_enum "''CapabilityEvidenceStatus''" CapabilityEvidenceStatus_ALL CapabilityEvidenceStatus_as_str CapabilityEvidenceStatus_from_value
  by unfold_locales
    (simp_all only: CapabilityEvidenceStatus_ALL_complete CapabilityEvidenceStatus_from_value_def, simp add: CapabilityEvidenceStatus_ALL_def)

definition CapabilityPolicyDecision_from_value :: "string \<Rightarrow> ContractError + CapabilityPolicyDecision" where
  "CapabilityPolicyDecision_from_value = enum_from_value ''CapabilityPolicyDecision'' CapabilityPolicyDecision_as_str CapabilityPolicyDecision_ALL"

lemma CapabilityPolicyDecision_ALL_complete: "x \<in> set CapabilityPolicyDecision_ALL"
  by (cases x) (simp_all add: CapabilityPolicyDecision_ALL_def)

interpretation CapabilityPolicyDecision_enum: string_enum "''CapabilityPolicyDecision''" CapabilityPolicyDecision_ALL CapabilityPolicyDecision_as_str CapabilityPolicyDecision_from_value
  by unfold_locales
    (simp_all only: CapabilityPolicyDecision_ALL_complete CapabilityPolicyDecision_from_value_def, simp add: CapabilityPolicyDecision_ALL_def)

definition CapabilitySupportState_from_value :: "string \<Rightarrow> ContractError + CapabilitySupportState" where
  "CapabilitySupportState_from_value = enum_from_value ''CapabilitySupportState'' CapabilitySupportState_as_str CapabilitySupportState_ALL"

lemma CapabilitySupportState_ALL_complete: "x \<in> set CapabilitySupportState_ALL"
  by (cases x) (simp_all add: CapabilitySupportState_ALL_def)

interpretation CapabilitySupportState_enum: string_enum "''CapabilitySupportState''" CapabilitySupportState_ALL CapabilitySupportState_as_str CapabilitySupportState_from_value
  by unfold_locales
    (simp_all only: CapabilitySupportState_ALL_complete CapabilitySupportState_from_value_def, simp add: CapabilitySupportState_ALL_def)

definition MailboxCommand_from_value :: "string \<Rightarrow> ContractError + MailboxCommand" where
  "MailboxCommand_from_value = enum_from_value ''MailboxCommand'' MailboxCommand_as_str MailboxCommand_ALL"

lemma MailboxCommand_ALL_complete: "x \<in> set MailboxCommand_ALL"
  by (cases x) (simp_all add: MailboxCommand_ALL_def)

interpretation MailboxCommand_enum: string_enum "''MailboxCommand''" MailboxCommand_ALL MailboxCommand_as_str MailboxCommand_from_value
  by unfold_locales
    (simp_all only: MailboxCommand_ALL_complete MailboxCommand_from_value_def, simp add: MailboxCommand_ALL_def)

definition LoopEdgeKind_from_value :: "string \<Rightarrow> ContractError + LoopEdgeKind" where
  "LoopEdgeKind_from_value = enum_from_value ''LoopEdgeKind'' LoopEdgeKind_as_str LoopEdgeKind_ALL"

lemma LoopEdgeKind_ALL_complete: "x \<in> set LoopEdgeKind_ALL"
  by (cases x) (simp_all add: LoopEdgeKind_ALL_def)

interpretation LoopEdgeKind_enum: string_enum "''LoopEdgeKind''" LoopEdgeKind_ALL LoopEdgeKind_as_str LoopEdgeKind_from_value
  by unfold_locales
    (simp_all only: LoopEdgeKind_ALL_complete LoopEdgeKind_from_value_def, simp add: LoopEdgeKind_ALL_def)

text \<open>\<^verbatim>\<open>TerminalResult\<close> is deserialised from its bare token: the execution vocabulary is
  tried first, then planning, then learning, whose error is the one reported.\<close>

definition TerminalResult_deserialize :: "string \<Rightarrow> ContractError + TerminalResult" where
  "TerminalResult_deserialize v =
     (case ExecutionTerminalResult_from_value v of
        Inr r \<Rightarrow> Inr (TerminalResult.Execution r)
      | Inl _ \<Rightarrow>
     (case PlanningTerminalResult_from_value v of
        Inr r \<Rightarrow> Inr (TerminalResult.Planning r)
      | Inl _ \<Rightarrow> map_ok TerminalResult.Learning (LearningTerminalResult_from_value v)))"

end
