(* ===== verification/Work_Documents.thy ===== *)
theory Work_Documents
  imports Stage_Metadata
begin

text \<open>
  Work documents and their contracts: \<^verbatim>\<open>src/src/contracts/work_documents.rs\<close> and the
  family-id helpers of \<^verbatim>\<open>src/src/contracts/work_refs.rs\<close>.

  Every document struct is a record whose fields are the struct's, with a two-letter prefix
  (\<open>td_\<close> task, \<open>sd_\<close> spec, \<open>pd_\<close> probe, \<open>nd_\<close> incident, \<open>ld_\<close> learning request,
  \<open>cb_\<close> closure blocker, \<open>ct_\<close> closure target), and \<open>X_validate\<close> is its contract, checks in the
  source's order. A \<^verbatim>\<open>serde_json::Value\<close> is the datatype \<open>json\<close>. The RFC 3339 parser of the
  \<^verbatim>\<open>time\<close> crate is a parameter \<open>rfc\<close>: \<open>Inl\<close> its error text, \<open>Inr\<close> the instant as an integer
  number of nanoseconds; the serialiser of \<^verbatim>\<open>serde_json\<close> is a parameter \<open>json_text\<close>.
\<close>

section \<open>Data\<close>

datatype json =
    JNull
  | JBool bool
  | JNumber int
  | JString string
  | JArray "json list"
  | JObject "(string \<times> json) list"

primrec json_is_object :: "json \<Rightarrow> bool" where
  "json_is_object JNull = False"
| "json_is_object (JBool _) = False"
| "json_is_object (JNumber _) = False"
| "json_is_object (JString _) = False"
| "json_is_object (JArray _) = False"
| "json_is_object (JObject _) = True"

type_synonym Timestamp = string

datatype WorkDocumentError =
    Contract ContractError
  | MissingRequiredField string
  | EmptyRequiredList string
  | InvalidField string string string
  | InvalidDocument string
  | WorkDocumentIo string string

fun WorkDocumentError_to_string :: "WorkDocumentError \<Rightarrow> string" where
  "WorkDocumentError_to_string (Contract e) = ContractError_to_string e"
| "WorkDocumentError_to_string (MissingRequiredField f) = f @ '' is required''"
| "WorkDocumentError_to_string (EmptyRequiredList f) = f @ '' must include at least one item''"
| "WorkDocumentError_to_string (InvalidField f v m) =
     f @ '' has invalid value '' @ [CHR 0x60] @ v @ [CHR 0x60] @ '': '' @ m"
| "WorkDocumentError_to_string (InvalidDocument m) = m"
| "WorkDocumentError_to_string (WorkDocumentIo p m) = ''failed to read '' @ p @ '': '' @ m"

record TaskDocument =
  td_task_id :: string
  td_title :: string
  td_summary :: string
  td_root_idea_id :: "string option"
  td_root_spec_id :: "string option"
  td_root_intake_kind :: "RootIntakeKind option"
  td_root_intake_id :: "string option"
  td_spec_id :: "string option"
  td_parent_task_id :: "string option"
  td_incident_id :: "string option"
  td_target_paths :: "string list"
  td_acceptance :: "string list"
  td_required_checks :: "string list"
  td_references :: "string list"
  td_risk :: "string list"
  td_depends_on :: "string list"
  td_blocks :: "string list"
  td_tags :: "string list"
  td_status_hint :: "TaskStatusHint option"
  td_created_at :: Timestamp
  td_created_by :: string
  td_updated_at :: "Timestamp option"

record SpecDocument =
  sd_spec_id :: string
  sd_title :: string
  sd_summary :: string
  sd_source_type :: SpecSourceType
  sd_source_id :: "string option"
  sd_parent_spec_id :: "string option"
  sd_root_idea_id :: "string option"
  sd_root_spec_id :: "string option"
  sd_root_intake_kind :: "RootIntakeKind option"
  sd_root_intake_id :: "string option"
  sd_goals :: "string list"
  sd_non_goals :: "string list"
  sd_scope :: "string list"
  sd_constraints :: "string list"
  sd_assumptions :: "string list"
  sd_risks :: "string list"
  sd_target_paths :: "string list"
  sd_entrypoints :: "string list"
  sd_required_skills :: "string list"
  sd_decomposition_hints :: "string list"
  sd_acceptance :: "string list"
  sd_references :: "string list"
  sd_created_at :: Timestamp
  sd_created_by :: string
  sd_updated_at :: "Timestamp option"

record ProbeDocument =
  pd_probe_id :: string
  pd_title :: string
  pd_summary :: string
  pd_request :: string
  pd_target_paths :: "string list"
  pd_constraints :: "string list"
  pd_acceptance :: "string list"
  pd_risk_notes :: "string list"
  pd_references :: "string list"
  pd_tags :: "string list"
  pd_status_hint :: "ProbeStatusHint option"
  pd_created_at :: Timestamp
  pd_created_by :: string
  pd_updated_at :: "Timestamp option"

record IncidentDocument =
  nd_incident_id :: string
  nd_title :: string
  nd_summary :: string
  nd_root_idea_id :: "string option"
  nd_root_spec_id :: "string option"
  nd_root_intake_kind :: "RootIntakeKind option"
  nd_root_intake_id :: "string option"
  nd_source_task_id :: "string option"
  nd_source_spec_id :: "string option"
  nd_source_stage :: StageName
  nd_source_plane :: Plane
  nd_failure_class :: string
  nd_severity :: IncidentSeverity
  nd_needs_planning :: bool
  nd_trigger_reason :: string
  nd_observed_symptoms :: "string list"
  nd_failed_attempts :: "string list"
  nd_consultant_decision :: IncidentDecision
  nd_evidence_paths :: "string list"
  nd_related_run_ids :: "string list"
  nd_related_stage_results :: "string list"
  nd_references :: "string list"
  nd_opened_at :: Timestamp
  nd_opened_by :: string
  nd_updated_at :: "Timestamp option"

record LearningRequestDocument =
  ld_learning_request_id :: string
  ld_title :: string
  ld_summary :: string
  ld_requested_action :: LearningRequestAction
  ld_target_skill_id :: "string option"
  ld_target_stage :: "LearningStageName option"
  ld_source_refs :: "string list"
  ld_preferred_output_paths :: "string list"
  ld_trigger_metadata :: json
  ld_originating_run_ids :: "string list"
  ld_artifact_paths :: "string list"
  ld_references :: "string list"
  ld_created_at :: Timestamp
  ld_created_by :: string
  ld_updated_at :: "Timestamp option"

record ClosureBlockingWorkRef =
  cb_blocker_type :: string
  cb_reason :: string
  cb_work_item_family_id :: "string option"
  cb_work_item_kind :: "WorkItemKind option"
  cb_work_item_id :: "string option"
  cb_state :: "string option"
  cb_root_spec_id :: "string option"
  cb_root_idea_id :: "string option"
  cb_artifact_path :: "string option"
  cb_detail :: "string option"

record ClosureTargetState =
  ct_schema_version :: string
  ct_kind :: string
  ct_root_spec_id :: string
  ct_root_idea_id :: string
  ct_root_intake_kind :: "RootIntakeKind option"
  ct_root_intake_id :: "string option"
  ct_root_spec_path :: string
  ct_root_idea_path :: string
  ct_rubric_path :: string
  ct_latest_verdict_path :: "string option"
  ct_latest_report_path :: "string option"
  ct_closure_open :: bool
  ct_closure_blocked_by_lineage_work :: bool
  ct_blocking_work_ids :: "string list"
  ct_blocking_work_refs :: "ClosureBlockingWorkRef list"
  ct_opened_at :: Timestamp
  ct_closed_at :: "Timestamp option"
  ct_last_arbiter_run_id :: "string option"

datatype WorkDocument =
    TaskDoc TaskDocument
  | ProbeDoc ProbeDocument
  | SpecDoc SpecDocument
  | IncidentDoc IncidentDocument
  | LearningRequestDoc LearningRequestDocument

primrec WorkDocument_kind :: "WorkDocument \<Rightarrow> WorkItemKind" where
  "WorkDocument_kind (TaskDoc _) = WorkItemKind.Task"
| "WorkDocument_kind (ProbeDoc _) = WorkItemKind.Probe"
| "WorkDocument_kind (SpecDoc _) = WorkItemKind.Spec"
| "WorkDocument_kind (IncidentDoc _) = WorkItemKind.Incident"
| "WorkDocument_kind (LearningRequestDoc _) = WorkItemKind.LearningRequest"

primrec WorkDocument_title :: "WorkDocument \<Rightarrow> string" where
  "WorkDocument_title (TaskDoc d) = td_title d"
| "WorkDocument_title (ProbeDoc d) = pd_title d"
| "WorkDocument_title (SpecDoc d) = sd_title d"
| "WorkDocument_title (IncidentDoc d) = nd_title d"
| "WorkDocument_title (LearningRequestDoc d) = ld_title d"

section \<open>Family ids\<close>

definition normalize_work_item_family_id :: "string \<Rightarrow> string \<Rightarrow> ContractError + string" where
  "normalize_work_item_family_id v f = validate_safe_identifier v f"

definition family_id_for_work_item_kind :: "WorkItemKind \<Rightarrow> string" where
  "family_id_for_work_item_kind k = WorkItemKind_as_str k"

definition legacy_work_item_kind_for_family_id ::
  "string \<Rightarrow> ContractError + WorkItemKind option" where
  "legacy_work_item_kind_for_family_id v =
     map_ok (\<lambda>n.
       if n = ''task'' then Some WorkItemKind.Task
       else if n = ''probe'' then Some WorkItemKind.Probe
       else if n = ''spec'' then Some WorkItemKind.Spec
       else if n = ''incident'' then Some WorkItemKind.Incident
       else if n = ''learning_request'' then Some WorkItemKind.LearningRequest
       else if n = ''blueprint_draft'' then Some WorkItemKind.BlueprintDraft
       else None) (normalize_work_item_family_id v ''work_item_family_id'')"

definition plane_for_work_item_family_id :: "string \<Rightarrow> ContractError + Plane option" where
  "plane_for_work_item_family_id v =
     map_ok (\<lambda>n.
       if n = ''task'' then Some Plane.Execution
       else if n = ''probe'' \<or> n = ''spec'' \<or> n = ''incident'' \<or> n = ''blueprint_draft''
       then Some Plane.Planning
       else if n = ''learning_request'' then Some Plane.Learning
       else None) (normalize_work_item_family_id v ''work_item_family_id'')"

definition coerce_family_and_kind ::
  "string option \<Rightarrow> WorkItemKind option \<Rightarrow> ContractError + (string option \<times> WorkItemKind option)" where
  "coerce_family_and_kind family_id kind =
     and_then
       (case family_id of
          None \<Rightarrow> Inr None
        | Some v \<Rightarrow> map_ok Some (normalize_work_item_family_id v ''work_item_family_id''))
       (\<lambda>normalized_family.
     and_then
       (case (normalized_family, kind) of
          (Some family, None) \<Rightarrow> legacy_work_item_kind_for_family_id family
        | (_, k) \<Rightarrow> Inr k)
       (\<lambda>resolved_kind.
     (case (normalized_family, resolved_kind) of
        (Some family, Some k) \<Rightarrow>
          if family \<noteq> WorkItemKind_as_str k
          then Inl (UnsafeIdentifier ''work_item_family_id'' family InvalidCharacters)
          else Inr (Some family, Some k)
      | (Some family, None) \<Rightarrow> Inr (Some family, None)
      | (None, Some k) \<Rightarrow> Inr (Some (family_id_for_work_item_kind k), Some k)
      | (None, None) \<Rightarrow> Inr (None, None))))"

section \<open>Validation\<close>

definition Timestamp_parse ::
  "(string \<Rightarrow> string + int) \<Rightarrow> string \<Rightarrow> string \<Rightarrow> WorkDocumentError + Timestamp" where
  "Timestamp_parse rfc field_name v =
     (if trim v \<noteq> v \<or> v = []
      then Inl (InvalidField field_name v
             ''must be a non-empty RFC 3339 timestamp without surrounding whitespace'')
      else (case rfc v of
              Inl e \<Rightarrow> Inl (InvalidField field_name v e)
            | Inr _ \<Rightarrow> Inr v))"

definition parse_timestamp_for_compare ::
  "(string \<Rightarrow> string + int) \<Rightarrow> string \<Rightarrow> string \<Rightarrow> WorkDocumentError + int" where
  "parse_timestamp_for_compare rfc field_name v = map_err (InvalidField field_name v) (rfc v)"

definition check_identifier :: "string \<Rightarrow> string \<Rightarrow> WorkDocumentError + unit" where
  "check_identifier v field_name =
     map_err Contract (map_ok (\<lambda>_. ()) (validate_safe_identifier v field_name))"

definition validate_optional_identifier ::
  "string \<Rightarrow> string option \<Rightarrow> WorkDocumentError + unit" where
  "validate_optional_identifier field_name v =
     (case v of None \<Rightarrow> Inr () | Some x \<Rightarrow> check_identifier x field_name)"

definition validate_required_list :: "string \<Rightarrow> string list \<Rightarrow> WorkDocumentError + unit" where
  "validate_required_list field_name vs =
     (if vs = [] then Inl (EmptyRequiredList field_name) else Inr ())"

definition validate_literal :: "string \<Rightarrow> string \<Rightarrow> string \<Rightarrow> WorkDocumentError + unit" where
  "validate_literal field_name v expected =
     (if v = expected then Inr ()
      else Inl (InvalidField field_name v
             (''must be literal '' @ [CHR 0x60] @ expected @ [CHR 0x60])))"

text \<open>A sequence of checks, each with the \<^verbatim>\<open>?\<close> operator: the first failure is the result.\<close>

primrec all_checks :: "('e + unit) list \<Rightarrow> 'e + unit" where
  "all_checks [] = Inr ()"
| "all_checks (c # cs) = and_then c (\<lambda>_. all_checks cs)"

definition TaskDocument_validate :: "TaskDocument \<Rightarrow> WorkDocumentError + unit" where
  "TaskDocument_validate d = all_checks
     [check_identifier (td_task_id d) ''task_id'',
      validate_optional_identifier ''root_idea_id'' (td_root_idea_id d),
      validate_optional_identifier ''root_spec_id'' (td_root_spec_id d),
      validate_optional_identifier ''root_intake_id'' (td_root_intake_id d),
      validate_optional_identifier ''spec_id'' (td_spec_id d),
      validate_optional_identifier ''parent_task_id'' (td_parent_task_id d),
      validate_optional_identifier ''incident_id'' (td_incident_id d),
      validate_required_list ''target_paths'' (td_target_paths d),
      validate_required_list ''acceptance'' (td_acceptance d),
      validate_required_list ''required_checks'' (td_required_checks d),
      validate_required_list ''references'' (td_references d),
      validate_required_list ''risk'' (td_risk d)]"

definition SpecDocument_validate :: "SpecDocument \<Rightarrow> WorkDocumentError + unit" where
  "SpecDocument_validate d = all_checks
     [check_identifier (sd_spec_id d) ''spec_id'',
      validate_optional_identifier ''source_id'' (sd_source_id d),
      validate_optional_identifier ''parent_spec_id'' (sd_parent_spec_id d),
      validate_optional_identifier ''root_idea_id'' (sd_root_idea_id d),
      validate_optional_identifier ''root_spec_id'' (sd_root_spec_id d),
      validate_optional_identifier ''root_intake_id'' (sd_root_intake_id d),
      validate_required_list ''goals'' (sd_goals d),
      validate_required_list ''constraints'' (sd_constraints d),
      validate_required_list ''acceptance'' (sd_acceptance d),
      validate_required_list ''references'' (sd_references d)]"

definition ProbeDocument_validate :: "ProbeDocument \<Rightarrow> WorkDocumentError + unit" where
  "ProbeDocument_validate d = all_checks
     [check_identifier (pd_probe_id d) ''probe_id'',
      (if trim (pd_request d) = [] then Inl (MissingRequiredField ''request'') else Inr ())]"

definition IncidentDocument_validate :: "IncidentDocument \<Rightarrow> WorkDocumentError + unit" where
  "IncidentDocument_validate d = all_checks
     [check_identifier (nd_incident_id d) ''incident_id'',
      validate_optional_identifier ''root_idea_id'' (nd_root_idea_id d),
      validate_optional_identifier ''root_spec_id'' (nd_root_spec_id d),
      validate_optional_identifier ''root_intake_id'' (nd_root_intake_id d),
      validate_optional_identifier ''source_task_id'' (nd_source_task_id d),
      validate_optional_identifier ''source_spec_id'' (nd_source_spec_id d),
      (if stage_plane (nd_source_stage d) \<noteq> nd_source_plane d
       then Inl (InvalidDocument ''source_stage must belong to source_plane'') else Inr ())]"

definition LearningRequestDocument_validate ::
  "(json \<Rightarrow> string) \<Rightarrow> LearningRequestDocument \<Rightarrow> WorkDocumentError + unit" where
  "LearningRequestDocument_validate json_text d = all_checks
     ([check_identifier (ld_learning_request_id d) ''learning_request_id'',
       validate_optional_identifier ''target_skill_id'' (ld_target_skill_id d)]
      @ map (\<lambda>run_id. check_identifier run_id ''originating_run_ids'') (ld_originating_run_ids d)
      @ [if \<not> json_is_object (ld_trigger_metadata d)
         then Inl (InvalidField ''trigger_metadata'' (json_text (ld_trigger_metadata d))
                ''must be a JSON object'')
         else Inr ()])"

definition ClosureBlockingWorkRef_validate ::
  "ClosureBlockingWorkRef \<Rightarrow> WorkDocumentError + unit" where
  "ClosureBlockingWorkRef_validate b = all_checks
     [check_identifier (cb_blocker_type b) ''blocker_type'',
      check_identifier (cb_reason b) ''reason'',
      and_then (map_err Contract
          (coerce_family_and_kind (cb_work_item_family_id b) (cb_work_item_kind b)))
        (\<lambda>(family_id, kind).
           and_then
             (case cb_work_item_family_id b of
                None \<Rightarrow> Inr ()
              | Some f \<Rightarrow> map_err Contract
                  (map_ok (\<lambda>_. ()) (normalize_work_item_family_id f ''work_item_family_id'')))
             (\<lambda>_. case (family_id, kind) of
                (Some f, Some k) \<Rightarrow>
                  if f \<noteq> WorkItemKind_as_str k
                  then Inl (InvalidDocument ''work_item_family_id must agree with work_item_kind'')
                  else Inr ()
              | _ \<Rightarrow> Inr ())),
      validate_optional_identifier ''work_item_id'' (cb_work_item_id b),
      validate_optional_identifier ''state'' (cb_state b),
      validate_optional_identifier ''root_spec_id'' (cb_root_spec_id b),
      validate_optional_identifier ''root_idea_id'' (cb_root_idea_id b),
      (if cb_work_item_id b = None \<and> cb_artifact_path b = None
       then Inl (InvalidDocument ''closure blocker refs require work_item_id or artifact_path'')
       else Inr ())]"

definition ClosureTargetState_validate ::
  "(string \<Rightarrow> string + int) \<Rightarrow> ClosureTargetState \<Rightarrow> WorkDocumentError + unit" where
  "ClosureTargetState_validate rfc t = all_checks
     ([validate_literal ''schema_version'' (ct_schema_version t) ''1.0'',
       validate_literal ''kind'' (ct_kind t) ''closure_target_state'',
       check_identifier (ct_root_spec_id t) ''root_spec_id'',
       check_identifier (ct_root_idea_id t) ''root_idea_id'',
       validate_optional_identifier ''root_intake_id'' (ct_root_intake_id t),
       validate_optional_identifier ''last_arbiter_run_id'' (ct_last_arbiter_run_id t)]
      @ map (\<lambda>work_item_id. check_identifier work_item_id ''blocking_work_ids'')
          (ct_blocking_work_ids t)
      @ map ClosureBlockingWorkRef_validate (ct_blocking_work_refs t)
      @ [(case ct_closed_at t of
            None \<Rightarrow> Inr ()
          | Some closed_at \<Rightarrow>
              and_then (parse_timestamp_for_compare rfc ''opened_at'' (ct_opened_at t)) (\<lambda>opened.
              and_then (parse_timestamp_for_compare rfc ''closed_at'' closed_at) (\<lambda>closed.
                if closed < opened then Inl (InvalidDocument ''closed_at cannot precede opened_at'')
                else if ct_closure_open t
                then Inl (InvalidDocument ''closed closure target cannot remain open'')
                else Inr ()))),
         (if (ct_blocking_work_ids t \<noteq> [] \<or> ct_blocking_work_refs t \<noteq> [])
             \<and> \<not> ct_closure_blocked_by_lineage_work t
          then Inl (InvalidDocument ''blocking work requires closure_blocked_by_lineage_work=true'')
          else Inr ())])"

primrec WorkDocument_validate ::
  "(json \<Rightarrow> string) \<Rightarrow> WorkDocument \<Rightarrow> WorkDocumentError + unit" where
  "WorkDocument_validate json_text (TaskDoc d) = TaskDocument_validate d"
| "WorkDocument_validate json_text (ProbeDoc d) = ProbeDocument_validate d"
| "WorkDocument_validate json_text (SpecDoc d) = SpecDocument_validate d"
| "WorkDocument_validate json_text (IncidentDoc d) = IncidentDocument_validate d"
| "WorkDocument_validate json_text (LearningRequestDoc d) =
     LearningRequestDocument_validate json_text d"

section \<open>What validation promises\<close>

lemma all_checks_Inr: "all_checks cs = Inr () \<longleftrightarrow> (\<forall>c\<in>set cs. c = Inr ())"
  by (induction cs) (auto simp: result_simps)

lemma all_checks_Cons_Inr: "all_checks (c # cs) = Inr u \<longleftrightarrow> c = Inr () \<and> all_checks cs = Inr ()"
  by (cases c) auto

lemma all_checks_Nil_Inr: "all_checks [] = Inr u"
  by simp

lemma all_checks_append_Inr:
  "all_checks (cs @ ds) = Inr u \<longleftrightarrow> all_checks cs = Inr () \<and> all_checks ds = Inr ()"
  by (induction cs) (auto simp: result_simps)

lemma all_checks_map_Inr: "all_checks (map f xs) = Inr u \<longleftrightarrow> (\<forall>x\<in>set xs. f x = Inr ())"
  by (induction xs) (auto simp: all_checks_Cons_Inr simp del: all_checks.simps(2))

lemmas all_checks_iffs = all_checks_Cons_Inr all_checks_Nil_Inr all_checks_append_Inr all_checks_map_Inr

lemma check_identifier_Inr [simp]:
  "check_identifier v f = Inr () \<longleftrightarrow> matches_safe_id_pattern v"
  by (auto simp: check_identifier_def result_simps validate_safe_identifier_Inr)

lemma validate_optional_identifier_Inr [simp]:
  "validate_optional_identifier f v = Inr () \<longleftrightarrow> (\<forall>x. v = Some x \<longrightarrow> matches_safe_id_pattern x)"
  by (cases v) (simp_all add: validate_optional_identifier_def)

lemma validate_required_list_Inr [simp]:
  "validate_required_list f vs = Inr () \<longleftrightarrow> vs \<noteq> []"
  by (simp add: validate_required_list_def)

lemma validate_literal_Inr [simp]: "validate_literal f v e = Inr () \<longleftrightarrow> v = e"
  by (simp add: validate_literal_def)

primrec WorkDocument_id :: "WorkDocument \<Rightarrow> string" where
  "WorkDocument_id (TaskDoc d) = td_task_id d"
| "WorkDocument_id (ProbeDoc d) = pd_probe_id d"
| "WorkDocument_id (SpecDoc d) = sd_spec_id d"
| "WorkDocument_id (IncidentDoc d) = nd_incident_id d"
| "WorkDocument_id (LearningRequestDoc d) = ld_learning_request_id d"

lemma validate_safe_id:
  "WorkDocument_validate json_text d = Inr () \<Longrightarrow> matches_safe_id_pattern (WorkDocument_id d)"
  by (cases d)
    (simp_all add: TaskDocument_validate_def SpecDocument_validate_def ProbeDocument_validate_def
      IncidentDocument_validate_def LearningRequestDocument_validate_def all_checks_Inr
      del: all_checks.simps)

lemma kind_string_safe: "matches_safe_id_pattern (WorkItemKind_as_str k)"
  by (cases k) (simp_all add: matches_safe_id_pattern_def is_ascii_alphanumeric_def safe_id_char_def)

lemma legacy_kind_Inr:
  "legacy_work_item_kind_for_family_id f = Inr ok \<longleftrightarrow>
     matches_safe_id_pattern f \<and>
     ok = (case WorkItemKind_from_value f of Inl _ \<Rightarrow> None | Inr k \<Rightarrow> Some k)"
proof -
  have "(if f = ''task'' then Some WorkItemKind.Task
       else if f = ''probe'' then Some WorkItemKind.Probe
       else if f = ''spec'' then Some WorkItemKind.Spec
       else if f = ''incident'' then Some WorkItemKind.Incident
       else if f = ''learning_request'' then Some WorkItemKind.LearningRequest
       else if f = ''blueprint_draft'' then Some WorkItemKind.BlueprintDraft
       else None) = (case WorkItemKind_from_value f of Inl _ \<Rightarrow> None | Inr k \<Rightarrow> Some k)"
    by (auto simp: WorkItemKind_from_value_def enum_from_value_def WorkItemKind_ALL_def)
  then show ?thesis
    by (auto simp: legacy_work_item_kind_for_family_id_def normalize_work_item_family_id_def
        result_simps validate_safe_identifier_Inr)
qed

text \<open>The family/kind pair after coercion: consistent, total on kinds, and nothing invented.\<close>

lemma coerce_family_and_kind_Inr:
  assumes "coerce_family_and_kind f k = Inr (f', k')"
  shows "k' = Some kind \<Longrightarrow> f' = Some (WorkItemKind_as_str kind)"
    and "f \<noteq> None \<Longrightarrow> f' = f" and "k \<noteq> None \<Longrightarrow> k' = k"
proof -
  have *: "(k' = Some kind \<longrightarrow> f' = Some (WorkItemKind_as_str kind)) \<and> (f \<noteq> None \<longrightarrow> f' = f) \<and>
      (k \<noteq> None \<longrightarrow> k' = k)"
  proof (cases f)
    case None
    with assms show ?thesis
      by (cases k) (auto simp: coerce_family_and_kind_def family_id_for_work_item_kind_def)
  next
    case (Some v)
    with assms obtain rk where rk: "(case k of None \<Rightarrow> legacy_work_item_kind_for_family_id v
        | Some x \<Rightarrow> Inr k) = Inr rk"
      and res: "(case rk of None \<Rightarrow> Inr (Some v, None)
        | Some x \<Rightarrow> if v \<noteq> WorkItemKind_as_str x
            then Inl (UnsafeIdentifier ''work_item_family_id'' v InvalidCharacters)
            else Inr (Some v, Some x)) = Inr (f', k')"
      by (cases k) (auto simp: coerce_family_and_kind_def and_then_eq_Inr map_ok_eq_Inr
          normalize_work_item_family_id_def validate_safe_identifier_Inr)
    from res have "f' = Some v" "k' = rk" "\<And>x. rk = Some x \<Longrightarrow> v = WorkItemKind_as_str x"
      by (cases rk; simp split: if_splits)+
    with rk Some show ?thesis by (cases k) auto
  qed
  then show "k' = Some kind \<Longrightarrow> f' = Some (WorkItemKind_as_str kind)"
    and "f \<noteq> None \<Longrightarrow> f' = f" and "k \<noteq> None \<Longrightarrow> k' = k" by simp_all
qed

lemma coerce_kind_only: "coerce_family_and_kind None (Some k) = Inr (Some (WorkItemKind_as_str k), Some k)"
  by (simp add: coerce_family_and_kind_def family_id_for_work_item_kind_def)

lemma coerce_builtin_family:
  "coerce_family_and_kind (Some (WorkItemKind_as_str k)) None = Inr (Some (WorkItemKind_as_str k), Some k)"
proof -
  have "legacy_work_item_kind_for_family_id (WorkItemKind_as_str k) = Inr (Some k)"
    by (simp add: legacy_kind_Inr kind_string_safe WorkItemKind_enum.from_value_as_str)
  moreover have "normalize_work_item_family_id (WorkItemKind_as_str k) ''work_item_family_id'' =
      Inr (WorkItemKind_as_str k)"
    by (simp add: normalize_work_item_family_id_def validate_safe_identifier_Inr kind_string_safe)
  ultimately show ?thesis by (simp add: coerce_family_and_kind_def)
qed

end
