(* ===== verification/Blueprint_Documents.thy ===== *)
theory Blueprint_Documents
  imports Work_Documents
begin

text \<open>
  The Blueprint draft document and its contract: the part of
  \<^verbatim>\<open>src/src/contracts/blueprint.rs\<close> that the planning queue reads and writes, with the error
  type of \<^verbatim>\<open>src/src/contracts/runtime_json.rs\<close>. Struct fields carry the prefix \<open>bd_\<close>.
\<close>

datatype RuntimeJsonError =
    JsonContract ContractError
  | JsonDecode string string
  | UnknownValue string string
  | InvalidLiteral string string string
  | InvalidJsonField string string
  | InvalidJsonDocument string

primrec RuntimeJsonError_to_string :: "RuntimeJsonError \<Rightarrow> string" where
  "RuntimeJsonError_to_string (JsonContract e) = ContractError_to_string e"
| "RuntimeJsonError_to_string (JsonDecode artifact m) = ''failed to decode '' @ artifact @ '': '' @ m"
| "RuntimeJsonError_to_string (UnknownValue f v) = f @ '' has unknown value: '' @ v"
| "RuntimeJsonError_to_string (InvalidLiteral f expected actual) =
     f @ '' must be literal '' @ [CHR 0x60] @ expected @ [CHR 0x60] @ '', got '' @ [CHR 0x60]
       @ actual @ [CHR 0x60]"
| "RuntimeJsonError_to_string (InvalidJsonField f m) = f @ '' is invalid: '' @ m"
| "RuntimeJsonError_to_string (InvalidJsonDocument m) = m"

datatype BlueprintDraftStatus =
  Queued | Active | CandidateReady | Rejected | Approved | Canceled | Blocked | Superseded

record BlueprintDraftDocument =
  bd_schema_version :: string
  bd_kind :: string
  bd_draft_id :: string
  bd_manifest_id :: string
  bd_root_spec_id :: string
  bd_root_idea_id :: string
  bd_source_spec_id :: string
  bd_draft_index :: nat
  bd_depends_on_draft_ids :: "string list"
  bd_title :: string
  bd_summary :: string
  bd_scope :: "string list"
  bd_non_goals :: "string list"
  bd_target_paths :: "string list"
  bd_acceptance_intent :: "string list"
  bd_verification_intent :: "string list"
  bd_dependency_notes :: "string list"
  bd_integration_boundary_notes :: "string list"
  bd_context_excerpt :: string
  bd_current_revision :: nat
  bd_latest_blueprint_id :: "string option"
  bd_latest_critique_id :: "string option"
  bd_status :: BlueprintDraftStatus
  bd_references :: "string list"
  bd_created_at :: Timestamp
  bd_created_by :: string
  bd_updated_at :: "Timestamp option"

definition validate_json_literal :: "string \<Rightarrow> string \<Rightarrow> string \<Rightarrow> RuntimeJsonError + unit" where
  "validate_json_literal f v expected =
     (if v = expected then Inr () else Inl (InvalidLiteral f expected v))"

definition validate_id :: "string \<Rightarrow> string \<Rightarrow> RuntimeJsonError + unit" where
  "validate_id f v = map_err JsonContract (map_ok (\<lambda>_. ()) (validate_safe_identifier v f))"

definition validate_ids :: "(string \<times> string) list \<Rightarrow> RuntimeJsonError + unit" where
  "validate_ids fvs = all_checks (map (\<lambda>(f, v). validate_id f v) fvs)"

definition validate_optional_id :: "string \<Rightarrow> string option \<Rightarrow> RuntimeJsonError + unit" where
  "validate_optional_id f v = (case v of None \<Rightarrow> Inr () | Some x \<Rightarrow> validate_id f x)"

fun validate_id_entries :: "string \<Rightarrow> string list \<Rightarrow> string set \<Rightarrow> RuntimeJsonError + unit" where
  "validate_id_entries f [] seen = Inr ()"
| "validate_id_entries f (v # vs) seen =
     and_then (validate_id f v) (\<lambda>_.
       if v \<in> seen then Inl (InvalidJsonField f ''must not contain duplicates'')
       else validate_id_entries f vs (insert v seen))"

definition validate_id_list :: "string \<Rightarrow> string list \<Rightarrow> bool \<Rightarrow> RuntimeJsonError + unit" where
  "validate_id_list f vs require_non_empty =
     (if require_non_empty \<and> vs = [] then Inl (InvalidJsonField f ''must not be empty'')
      else validate_id_entries f vs {})"

definition require_non_blank :: "string \<Rightarrow> string \<Rightarrow> RuntimeJsonError + unit" where
  "require_non_blank f v =
     (if trim v = [] then Inl (InvalidJsonField f ''must not be empty'') else Inr ())"

definition require_non_empty_texts :: "string \<Rightarrow> string list \<Rightarrow> RuntimeJsonError + unit" where
  "require_non_empty_texts f vs =
     (if vs = [] then Inl (InvalidJsonField f ''must not be empty'')
      else all_checks (map (require_non_blank f) vs))"

definition validate_draft :: "BlueprintDraftDocument \<Rightarrow> RuntimeJsonError + unit" where
  "validate_draft d = all_checks
     [validate_ids
        [(''draft_id'', bd_draft_id d), (''manifest_id'', bd_manifest_id d),
         (''root_spec_id'', bd_root_spec_id d), (''root_idea_id'', bd_root_idea_id d),
         (''source_spec_id'', bd_source_spec_id d)],
      validate_optional_id ''latest_blueprint_id'' (bd_latest_blueprint_id d),
      validate_optional_id ''latest_critique_id'' (bd_latest_critique_id d),
      validate_id_list ''depends_on_draft_ids'' (bd_depends_on_draft_ids d) False,
      (if bd_draft_id d \<in> set (bd_depends_on_draft_ids d)
       then Inl (InvalidJsonDocument ''depends_on_draft_ids cannot include draft_id'')
       else Inr ()),
      require_non_blank ''title'' (bd_title d),
      require_non_blank ''summary'' (bd_summary d),
      require_non_blank ''context_excerpt'' (bd_context_excerpt d),
      require_non_empty_texts ''target_paths'' (bd_target_paths d),
      require_non_empty_texts ''acceptance_intent'' (bd_acceptance_intent d)]"

text \<open>The trait method \<^verbatim>\<open>validate_contract\<close> that the contract macro generates for drafts.\<close>

definition BlueprintDraftDocument_validate_contract ::
  "BlueprintDraftDocument \<Rightarrow> RuntimeJsonError + unit" where
  "BlueprintDraftDocument_validate_contract d = all_checks
     [validate_json_literal ''schema_version'' (bd_schema_version d) ''1.0'',
      validate_json_literal ''kind'' (bd_kind d) ''blueprint_draft'',
      validate_draft d]"

lemma validate_id_Inr [simp]: "validate_id f v = Inr () \<longleftrightarrow> matches_safe_id_pattern v"
  by (auto simp: validate_id_def result_simps validate_safe_identifier_Inr)

lemma validate_id_entries_Inr:
  "validate_id_entries f vs seen = Inr () \<longleftrightarrow>
     list_all matches_safe_id_pattern vs \<and> distinct vs \<and> set vs \<inter> seen = {}"
  by (induction f vs seen rule: validate_id_entries.induct) (auto simp: result_simps)

text \<open>A valid draft: a safe id, distinct safe dependencies, none of them itself.\<close>

lemma valid_draft_dependencies:
  assumes "BlueprintDraftDocument_validate_contract d = Inr ()"
  shows "matches_safe_id_pattern (bd_draft_id d)"
    and "distinct (bd_depends_on_draft_ids d)"
    and "bd_draft_id d \<notin> set (bd_depends_on_draft_ids d)"
proof -
  from assms have v: "validate_draft d = Inr ()"
    by (simp add: BlueprintDraftDocument_validate_contract_def all_checks_Inr del: all_checks.simps)
  then have ids: "validate_ids
        [(''draft_id'', bd_draft_id d), (''manifest_id'', bd_manifest_id d),
         (''root_spec_id'', bd_root_spec_id d), (''root_idea_id'', bd_root_idea_id d),
         (''source_spec_id'', bd_source_spec_id d)] = Inr ()"
    and deps: "validate_id_list ''depends_on_draft_ids'' (bd_depends_on_draft_ids d) False = Inr ()"
    and self: "bd_draft_id d \<notin> set (bd_depends_on_draft_ids d)"
    by (simp_all add: validate_draft_def all_checks_Inr del: all_checks.simps split: if_splits)
  from ids show "matches_safe_id_pattern (bd_draft_id d)"
    by (simp add: validate_ids_def all_checks_Inr del: all_checks.simps)
  from deps show "distinct (bd_depends_on_draft_ids d)"
    by (simp add: validate_id_list_def validate_id_entries_Inr)
  show "bd_draft_id d \<notin> set (bd_depends_on_draft_ids d)" by (rule self)
qed

end
