(* ===== verification/Contract_Properties.thy ===== *)
theory Contract_Properties
  imports Blueprint_Documents
begin

text \<open>
  The properties of the contracts (\<^verbatim>\<open>src/src/contracts/\<close>): terminal markers, result classes, the
  constant tables, stage names, identifiers, family ids and Blueprint drafts. Each follows from
  the lemmas of the component theories.
\<close>

section \<open>Terminal markers and results\<close>

text \<open>A stage accepts a marker exactly when it is the marker of one of its legal terminal
  results, and then returns that result: parsing is the inverse of rendering, and nothing that
  is not legal for the stage passes.\<close>

lemma stage_accepts_exactly_its_markers:
  "validate_terminal_marker_for_stage s m = Inr r \<longleftrightarrow>
     r \<in> set (legal_terminal_results s) \<and> m = TerminalResult_marker r"
  by (rule validate_terminal_marker_Inr)

text \<open>Within a plane, parsing a marker is the inverse of rendering a terminal result: the only
  marker that parses to \<open>r\<close> is the marker of \<open>r\<close>, and only in the plane of \<open>r\<close>.\<close>

lemma marker_round_trip:
  "parse_terminal_marker_for_plane p m = Inr r \<longleftrightarrow>
     TerminalResult_plane r = p \<and> m = TerminalResult_marker r"
  by (rule parse_terminal_marker_Inr)

text \<open>The complete decision of a stage result: an illegal terminal result is refused first,
  then a result class that the terminal result does not admit; the admitted classes depend on
  the terminal result alone (\<open>classes_of_result\<close>), not on the stage.\<close>

lemma stage_result_class_decision:
  "validate_stage_result_class s r c =
     (if r \<notin> set (legal_terminal_results s) then Inl (TerminalResultNotAllowed s r)
      else if c \<in> classes_of_result r then Inr ()
      else Inl (ResultClassNotAllowed s r c))"
proof (cases "r \<in> set (legal_terminal_results s)")
  case True
  then obtain e where "List.find (\<lambda>entry. orc_terminal_result entry = r)
      (allowed_result_classes_by_outcome s) = Some e"
    and "set (orc_result_classes e) = classes_of_result r"
    by (rule find_outcome)
  with True show ?thesis
    by (simp add: validate_stage_result_class_def Let_def legal_result_plane)
qed (simp add: validate_stage_result_class_def)

text \<open>Every stage has a blocked outcome of its own plane, and may report it either as blocked
  or as a recoverable failure: no stage is left without a way to stop.\<close>

lemma every_stage_can_block:
  "blocked_terminal_for_plane (stage_plane s) \<in> set (legal_terminal_results s) \<and>
   validate_stage_result_class s (blocked_terminal_for_plane (stage_plane s)) ResultClass.Blocked = Inr () \<and>
   validate_stage_result_class s (blocked_terminal_for_plane (stage_plane s))
     ResultClass.RecoverableFailure = Inr ()"
proof -
  have "blocked_terminal_for_plane (stage_plane s) \<in> set (legal_terminal_results s)"
    by (cases s) (simp_all add: stage_plane_def legal_terminal_results_def table_simps)
  moreover have "{ResultClass.Blocked, ResultClass.RecoverableFailure} \<subseteq>
      classes_of_result (blocked_terminal_for_plane (stage_plane s))"
    by (cases s) (simp_all add: stage_plane_def table_simps)
  ultimately show ?thesis by (simp add: validate_stage_result_class_Inr)
qed

text \<open>C15. A bare token read back as a terminal result gives the result it was written from, except
  that the shared token \<^verbatim>\<open>BLOCKED\<close> always reads as the execution plane's result: the plane of a
  blocked planning or learning result does not survive serialisation on its own.\<close>

theorem bare_token_read_back:
  "TerminalResult_deserialize (TerminalResult_as_str r) =
     Inr (if TerminalResult_as_str r = ''BLOCKED''
          then TerminalResult.Execution ExecutionTerminalResult.Blocked else r)"
proof (cases r)
  case (Execution x)
  then show ?thesis
    by (cases x) (simp_all add: TerminalResult_deserialize_def ExecutionTerminalResult_from_value_def
        enum_from_value_def ExecutionTerminalResult_ALL_def)
next
  case (Planning x)
  then show ?thesis
    by (cases x) (simp_all add: TerminalResult_deserialize_def ExecutionTerminalResult_from_value_def
        PlanningTerminalResult_from_value_def enum_from_value_def ExecutionTerminalResult_ALL_def
        PlanningTerminalResult_ALL_def)
next
  case (Learning x)
  then show ?thesis
    by (cases x) (simp_all add: TerminalResult_deserialize_def ExecutionTerminalResult_from_value_def
        PlanningTerminalResult_from_value_def LearningTerminalResult_from_value_def enum_from_value_def
        ExecutionTerminalResult_ALL_def PlanningTerminalResult_ALL_def LearningTerminalResult_ALL_def)
qed

section \<open>Tables and names\<close>

text \<open>The exported tables agree with the functions for every stage: plane, allowed work item
  kinds, legal terminal results, and the metadata record listed for the stage.\<close>

lemma tables_agree:
  "map_of STAGE_TO_PLANE s = Some (stage_plane s) \<and>
   map_of STAGE_ALLOWED_WORK_ITEM_KINDS s = Some (allowed_work_item_kinds s) \<and>
   map_of STAGE_LEGAL_TERMINAL_RESULTS s = Some (legal_terminal_results s) \<and>
   List.find (\<lambda>md. md_stage md = s) STAGE_METADATA_BY_VALUE = Some (stage_metadata s) \<and>
   map_option md_plane (List.find (\<lambda>md. md_stage md = s) STAGE_METADATA_BY_VALUE) = Some (stage_plane s)"
  by (cases s) (simp_all add: stage_plane_def legal_terminal_results_def table_simps)

text \<open>A stage value is accepted for a plane exactly when it is the canonical string of a stage
  of that plane.\<close>

lemma stage_name_for_plane_spec:
  "stage_name_for_plane p v = Inr s \<longleftrightarrow> StageName_plane s = p \<and> v = StageName_as_str s"
proof -
  have "stage_name_for_value v = Inr s' \<longleftrightarrow> v = StageName_as_str s'" for s'
    by (cases s') (auto simp: stage_name_for_value_def split: if_splits)
  then show ?thesis by (auto simp: stage_name_for_plane_def and_then_eq_Inr split: if_splits)
qed

section \<open>Identifiers and families\<close>

text \<open>The identifier check accepts exactly the documented pattern
  \<^verbatim>\<open>^[A-Za-z0-9][A-Za-z0-9._-]*$\<close> and returns the value unchanged.\<close>

lemma safe_identifier_spec:
  "validate_safe_identifier v f = Inr u \<longleftrightarrow> u = v \<and> matches_safe_id_pattern v"
  by (rule validate_safe_identifier_Inr)

text \<open>An accepted identifier is one path component that is neither hidden nor a relative
  directory and has no surrounding white space, so the file name made from it stays in its
  directory.\<close>

lemma safe_identifier_stays_in_directory:
  assumes "validate_safe_identifier v f = Inr u"
  shows "u \<noteq> [] \<and> CHR ''/'' \<notin> set u \<and> hd u \<noteq> CHR ''.'' \<and> trim u = u"
  using assms safe_id_no_slash safe_id_not_dotted safe_id_trim
  by (auto simp: validate_safe_identifier_Inr) (simp add: matches_safe_id_pattern_def)

text \<open>Coercion of a family id and a legacy kind, on every input: a missing family is filled in
  from the kind, a missing kind from the family when it is a built-in one, an unsafe family or a
  kind that disagrees with the family is refused.\<close>

lemma coerce_family_and_kind_spec:
  "coerce_family_and_kind f k = Inr (f', k') \<longleftrightarrow>
     (case f of
        None \<Rightarrow> k' = k \<and> f' = map_option WorkItemKind_as_str k
      | Some v \<Rightarrow> matches_safe_id_pattern v \<and> f' = Some v \<and>
          (case k of
             None \<Rightarrow> k' = (case WorkItemKind_from_value v of Inl _ \<Rightarrow> None | Inr x \<Rightarrow> Some x)
           | Some x \<Rightarrow> v = WorkItemKind_as_str x \<and> k' = Some x))"
proof (cases f)
  case None
  then show ?thesis
    by (cases k) (auto simp: coerce_family_and_kind_def family_id_for_work_item_kind_def)
next
  case (Some v)
  show ?thesis
  proof (cases "matches_safe_id_pattern v")
    case True
    then have n: "normalize_work_item_family_id v ''work_item_family_id'' = Inr v"
      by (simp add: normalize_work_item_family_id_def validate_safe_identifier_Inr)
    show ?thesis
    proof (cases k)
      case None
      show ?thesis
      proof (cases "WorkItemKind_from_value v")
        case (Inl e)
        with True have "legacy_work_item_kind_for_family_id v = Inr None" by (simp add: legacy_kind_Inr)
        with True n show ?thesis by (auto simp: Some None Inl coerce_family_and_kind_def)
      next
        case (Inr x)
        with True have "legacy_work_item_kind_for_family_id v = Inr (Some x)" by (simp add: legacy_kind_Inr)
        moreover from Inr have "v = WorkItemKind_as_str x" by (simp add: WorkItemKind_enum.from_value_Inr)
        ultimately show ?thesis using True n Inr by (auto simp: Some None coerce_family_and_kind_def)
      qed
    next
      case k: (Some x)
      with True n show ?thesis by (auto simp: Some coerce_family_and_kind_def)
    qed
  next
    case False
    then have "normalize_work_item_family_id v ''work_item_family_id'' \<noteq> Inr u" for u
      by (simp add: normalize_work_item_family_id_def validate_safe_identifier_Inr)
    then obtain e where "normalize_work_item_family_id v ''work_item_family_id'' = Inl e"
      by (cases "normalize_work_item_family_id v ''work_item_family_id''") auto
    with False show ?thesis by (simp add: Some coerce_family_and_kind_def)
  qed
qed

text \<open>C16. The file of a validated work document lies in the directory of its lifecycle: its id passes
  the identifier check under every field name, and is one path component that is neither hidden nor a
  relative directory and has no surrounding white space.\<close>

theorem validated_document_stays_in_directory:
  assumes "WorkDocument_validate json_text d = Inr ()"
  shows "validate_safe_identifier (WorkDocument_id d) f = Inr (WorkDocument_id d)
    \<and> WorkDocument_id d \<noteq> [] \<and> CHR ''/'' \<notin> set (WorkDocument_id d) \<and> hd (WorkDocument_id d) \<noteq> CHR ''.''
    \<and> trim (WorkDocument_id d) = WorkDocument_id d"
proof -
  have "validate_safe_identifier (WorkDocument_id d) f = Inr (WorkDocument_id d)"
    using validate_safe_id [OF assms] by (simp add: validate_safe_identifier_Inr)
  with safe_identifier_stays_in_directory [OF this] show ?thesis by blast
qed

definition probe_example :: ProbeDocument where
  "probe_example =
     \<lparr>pd_probe_id = ''probe-1'', pd_title = ''Look'', pd_summary = [], pd_request = ''Look around'',
      pd_target_paths = [], pd_constraints = [], pd_acceptance = [], pd_risk_notes = [], pd_references = [],
      pd_tags = [], pd_status_hint = None, pd_created_at = ''2026-01-01T00:00:00Z'', pd_created_by = ''operator'',
      pd_updated_at = None\<rparr>"

lemma validated_document_stays_in_directory_witness:
  "validate_safe_identifier ''probe-1'' ''probe_id'' = Inr ''probe-1''"
proof -
  have "WorkDocument_validate (\<lambda>_. []) (ProbeDoc probe_example) = Inr ()"
    by code_simp
  from validated_document_stays_in_directory [OF this, of "''probe_id''"] show ?thesis
    by (simp add: probe_example_def)
qed

text \<open>A valid Blueprint draft has a safe id, and depends on distinct drafts other than
  itself: the dependency relation of drafts has no loop of length one.\<close>

lemma valid_draft_never_depends_on_itself:
  assumes "BlueprintDraftDocument_validate_contract d = Inr ()"
  shows "matches_safe_id_pattern (bd_draft_id d) \<and> distinct (bd_depends_on_draft_ids d) \<and>
     bd_draft_id d \<notin> set (bd_depends_on_draft_ids d)"
  using valid_draft_dependencies [OF assms] by simp

definition draft_example :: BlueprintDraftDocument where
  "draft_example =
     \<lparr>bd_schema_version = ''1.0'', bd_kind = ''blueprint_draft'', bd_draft_id = ''d2'',
      bd_manifest_id = ''m1'', bd_root_spec_id = ''s1'', bd_root_idea_id = ''i1'',
      bd_source_spec_id = ''s1'', bd_draft_index = 2, bd_depends_on_draft_ids = [''d1''],
      bd_title = ''Second'', bd_summary = ''The second slice'', bd_scope = [], bd_non_goals = [],
      bd_target_paths = [''src''], bd_acceptance_intent = [''works''], bd_verification_intent = [],
      bd_dependency_notes = [], bd_integration_boundary_notes = [], bd_context_excerpt = ''excerpt'',
      bd_current_revision = 1, bd_latest_blueprint_id = None, bd_latest_critique_id = None,
      bd_status = BlueprintDraftStatus.Queued, bd_references = [],
      bd_created_at = ''2026-01-01T00:00:00Z'', bd_created_by = ''manager'', bd_updated_at = None\<rparr>"

end
