(* ===== verification/Workspace_Fs.thy ===== *)
theory Workspace_Fs
  imports Blueprint_Documents "HOL-Library.AList"
begin

text \<open>
  The workspace directories the queue lives in, as a state that the operations thread through.

  A directory is named by the field of \<^verbatim>\<open>WorkspacePaths\<close> (\<^verbatim>\<open>src/src/workspace.rs\<close>) it comes
  from; \<open>dir_rel\<close> gives the path the source joins together. A directory's content is an
  association list from file names to files, in no particular order, as \<^verbatim>\<open>read_dir\<close> yields it. A
  file that holds a rendered work document is the document (rendering and parsing a valid
  document are inverse; text that does not parse is \<open>Unparsable\<close> with the parser's message), a
  \<^verbatim>\<open>.jsonl\<close> file is the list of its records.

  Operations of the queue store have type \<open>fs \<Rightarrow> (QueueStoreError + 'a) \<times> fs\<close>: an error leaves
  whatever the operation had already written, as an early return does in the source. I/O errors
  of the operating system are not modelled. The laws the queue relies on are the locale
  \<open>file_store\<close>, interpreted for the model at the end.
\<close>

section \<open>Directories and files\<close>

datatype Lifecycle = QueueState | ActiveState | DoneState | BlockedState

datatype dir =
    WorkDir WorkItemKind Lifecycle
  | DraftDir string
  | SubDir dir string
  | LogsDir

type_synonym path = "dir \<times> string"

fun lifecycle_dir_name :: "WorkItemKind \<Rightarrow> Lifecycle \<Rightarrow> string" where
  "lifecycle_dir_name WorkItemKind.Incident QueueState = ''incoming''"
| "lifecycle_dir_name WorkItemKind.Incident DoneState = ''resolved''"
| "lifecycle_dir_name WorkItemKind.BlueprintDraft DoneState = ''approved''"
| "lifecycle_dir_name k QueueState = ''queue''"
| "lifecycle_dir_name k ActiveState = ''active''"
| "lifecycle_dir_name k DoneState = ''done''"
| "lifecycle_dir_name k BlockedState = ''blocked''"

primrec kind_dir :: "WorkItemKind \<Rightarrow> string" where
  "kind_dir WorkItemKind.Task = ''tasks''"
| "kind_dir WorkItemKind.Probe = ''probes''"
| "kind_dir WorkItemKind.Spec = ''specs''"
| "kind_dir WorkItemKind.Incident = ''incidents''"
| "kind_dir WorkItemKind.LearningRequest = ''learning/requests''"
| "kind_dir WorkItemKind.BlueprintDraft = ''blueprints/drafts''"

text \<open>Directory paths relative to the workspace root.\<close>

primrec dir_rel :: "dir \<Rightarrow> string" where
  "dir_rel (WorkDir k s) = ''millrace-agents/'' @ kind_dir k @ ''/'' @ lifecycle_dir_name k s"
| "dir_rel (DraftDir state) = ''millrace-agents/blueprints/drafts/'' @ state"
| "dir_rel (SubDir d n) = dir_rel d @ ''/'' @ n"
| "dir_rel LogsDir = ''millrace-agents/logs''"

definition workspace_relative_path :: "path \<Rightarrow> string" where
  "workspace_relative_path p = dir_rel (fst p) @ ''/'' @ snd p"

datatype file_content =
    Doc WorkDocument
  | Draft BlueprintDraftDocument
  | Unparsable string
  | Log "json list"

type_synonym fs = "dir \<Rightarrow> (string \<times> file_content) list"

definition fs_lookup :: "fs \<Rightarrow> dir \<Rightarrow> string \<Rightarrow> file_content option" where
  "fs_lookup w d n = map_of (w d) n"

definition fs_exists :: "fs \<Rightarrow> dir \<Rightarrow> string \<Rightarrow> bool" where
  "fs_exists w d n \<longleftrightarrow> fs_lookup w d n \<noteq> None"

definition fs_write :: "fs \<Rightarrow> dir \<Rightarrow> string \<Rightarrow> file_content \<Rightarrow> fs" where
  "fs_write w d n c = w(d := AList.update n c (w d))"

definition fs_remove :: "fs \<Rightarrow> dir \<Rightarrow> string \<Rightarrow> fs" where
  "fs_remove w d n = w(d := AList.delete n (w d))"

definition fs_names :: "fs \<Rightarrow> dir \<Rightarrow> string list" where
  "fs_names w d = remdups (map fst (w d))"

text \<open>\<^verbatim>\<open>fs::rename\<close> within the workspace: the file leaves its old name and replaces whatever has
  the new one. Callers rename existing files only.\<close>

definition fs_rename :: "fs \<Rightarrow> dir \<Rightarrow> string \<Rightarrow> dir \<Rightarrow> string \<Rightarrow> fs" where
  "fs_rename w d n d' n' =
     (case fs_lookup w d n of
        None \<Rightarrow> w
      | Some c \<Rightarrow> fs_write (fs_remove w d n) d' n' c)"

text \<open>Opening a \<^verbatim>\<open>.jsonl\<close> file with \<^verbatim>\<open>append(true).create(true)\<close> and writing one line.\<close>

definition fs_append :: "fs \<Rightarrow> dir \<Rightarrow> string \<Rightarrow> json \<Rightarrow> fs" where
  "fs_append w d n r =
     (case fs_lookup w d n of
        Some (Log rs) \<Rightarrow> fs_write w d n (Log (rs @ [r]))
      | _ \<Rightarrow> fs_write w d n (Log [r]))"

section \<open>File names\<close>

text \<open>\<^verbatim>\<open>Path::file_stem\<close> and \<^verbatim>\<open>Path::extension\<close> split a name at its last dot; a name whose only
  dot is its first character has no extension.\<close>

definition split_file_at_dot :: "string \<Rightarrow> string \<times> string option" where
  "split_file_at_dot n =
     (let r = rev n; after = takeWhile (\<lambda>c. c \<noteq> CHR ''.'') r; tail = dropWhile (\<lambda>c. c \<noteq> CHR ''.'') r
      in if n = ''..'' then (n, None)
         else case tail of
           [] \<Rightarrow> (n, None)
         | _ # front \<Rightarrow> if front = [] then (n, None) else (rev front, Some (rev after)))"

definition file_stem :: "string \<Rightarrow> string" where
  "file_stem n = fst (split_file_at_dot n)"

definition file_extension :: "string \<Rightarrow> string option" where
  "file_extension n = snd (split_file_at_dot n)"

definition with_extension :: "string \<Rightarrow> string \<Rightarrow> string" where
  "with_extension n ext = file_stem n @ (if ext = [] then [] else ''.'' @ ext)"

definition list_markdown_files :: "fs \<Rightarrow> dir \<Rightarrow> string list" where
  "list_markdown_files w d = sort (filter (\<lambda>n. file_extension n = Some ''md'') (fs_names w d))"

definition list_json_files :: "fs \<Rightarrow> dir \<Rightarrow> string list" where
  "list_json_files w d = sort (filter (\<lambda>n. file_extension n = Some ''json'') (fs_names w d))"

definition ids_in_directory :: "fs \<Rightarrow> dir \<Rightarrow> string list" where
  "ids_in_directory w d = map file_stem (list_markdown_files w d)"

definition md_name :: "string \<Rightarrow> string" where
  "md_name i = i @ ''.md''"

definition json_name :: "string \<Rightarrow> string" where
  "json_name i = i @ ''.json''"

lemma split_file_at_dot_ext:
  assumes "i \<noteq> []" and "CHR ''.'' \<notin> set e" and "e \<noteq> []"
  shows "split_file_at_dot (i @ ''.'' @ e) = (i, Some e)"
proof -
  have "takeWhile (\<lambda>c. c \<noteq> CHR ''.'') (rev e @ CHR ''.'' # rev i) = rev e"
    using assms(2) by (subst takeWhile_append2) auto
  moreover have "dropWhile (\<lambda>c. c \<noteq> CHR ''.'') (rev e @ CHR ''.'' # rev i) = CHR ''.'' # rev i"
    using assms(2) by (subst dropWhile_append2) auto
  moreover have "i @ ''.'' @ e \<noteq> ''..''"
    using assms by (cases i; cases "tl i"; cases e) auto
  ultimately show ?thesis
    using assms(1) by (simp add: split_file_at_dot_def Let_def)
qed

lemma md_name_parts [simp]:
  assumes "i \<noteq> []"
  shows "file_stem (md_name i) = i" "file_extension (md_name i) = Some ''md''"
  using split_file_at_dot_ext [OF assms, of "''md''"]
  by (simp_all add: md_name_def file_stem_def file_extension_def)

lemma json_name_parts [simp]:
  assumes "i \<noteq> []"
  shows "file_stem (json_name i) = i" "file_extension (json_name i) = Some ''json''"
  using split_file_at_dot_ext [OF assms, of "''json''"]
  by (simp_all add: json_name_def file_stem_def file_extension_def)

lemma md_name_inject [simp]: "md_name i = md_name j \<longleftrightarrow> i = j"
  by (simp add: md_name_def)

lemma json_name_inject [simp]: "json_name i = json_name j \<longleftrightarrow> i = j"
  by (simp add: json_name_def)

lemma file_extension_Some:
  assumes h: "file_extension n = Some e"
  shows "n = file_stem n @ ''.'' @ e \<and> file_stem n \<noteq> []"
proof (cases "dropWhile (\<lambda>c. c \<noteq> CHR ''.'') (rev n)")
  case Nil
  then have "split_file_at_dot n = (n, None)"
    by (simp only: split_file_at_dot_def Let_def list.case if_cancel)
  with h show ?thesis by (simp add: file_extension_def)
next
  case (Cons c front)
  from h have "n \<noteq> ''..''"
    by (rule contrapos_pn) (simp add: file_extension_def split_file_at_dot_def)
  with h Cons have "front \<noteq> []" and e: "e = rev (takeWhile (\<lambda>c. c \<noteq> CHR ''.'') (rev n))"
    and stem: "file_stem n = rev front"
    by (simp_all add: file_extension_def file_stem_def split_file_at_dot_def Let_def split: if_splits)
  from hd_dropWhile [of "\<lambda>c. c \<noteq> CHR ''.''" "rev n"] Cons have c: "c = CHR ''.''" by simp
  have "rev n = takeWhile (\<lambda>c. c \<noteq> CHR ''.'') (rev n) @ dropWhile (\<lambda>c. c \<noteq> CHR ''.'') (rev n)"
    by (rule takeWhile_dropWhile_id [symmetric])
  also have "\<dots> = rev e @ CHR ''.'' # front" by (simp only: Cons c e rev_rev_ident)
  finally have "rev (rev n) = rev (rev e @ CHR ''.'' # front)" by (rule arg_cong)
  with stem \<open>front \<noteq> []\<close> show ?thesis by simp
qed

lemma md_file_name: "file_extension n = Some ''md'' \<Longrightarrow> n = md_name (file_stem n) \<and> file_stem n \<noteq> []"
  using file_extension_Some [of n "''md''"] by (simp add: md_name_def)

lemma json_file_name:
  "file_extension n = Some ''json'' \<Longrightarrow> n = json_name (file_stem n) \<and> file_stem n \<noteq> []"
  using file_extension_Some [of n "''json''"] by (simp add: json_name_def)

section \<open>The interface the queue relies on\<close>

locale file_store =
  fixes lookup :: "'w \<Rightarrow> 'd \<Rightarrow> 'n \<Rightarrow> 'c option"
    and put :: "'w \<Rightarrow> 'd \<Rightarrow> 'n \<Rightarrow> 'c \<Rightarrow> 'w"
    and remove :: "'w \<Rightarrow> 'd \<Rightarrow> 'n \<Rightarrow> 'w"
    and move :: "'w \<Rightarrow> 'd \<Rightarrow> 'n \<Rightarrow> 'd \<Rightarrow> 'n \<Rightarrow> 'w"
    and names :: "'w \<Rightarrow> 'd \<Rightarrow> 'n list"
  assumes lookup_put:
      "lookup (put w d n c) d' n' = (if d' = d \<and> n' = n then Some c else lookup w d' n')"
    and lookup_remove:
      "lookup (remove w d n) d' n' = (if d' = d \<and> n' = n then None else lookup w d' n')"
    and move_def:
      "move w d n d' n' = (case lookup w d n of None \<Rightarrow> w | Some c \<Rightarrow> put (remove w d n) d' n' c)"
    and names_distinct: "distinct (names w d)"
    and names_lookup: "n \<in> set (names w d) \<longleftrightarrow> lookup w d n \<noteq> None"
begin

lemma lookup_move:
  assumes "lookup w d n = Some c"
  shows "lookup (move w d n d' n') d'' n'' =
     (if d'' = d' \<and> n'' = n' then Some c
      else if d'' = d \<and> n'' = n then None else lookup w d'' n'')"
  using assms by (simp add: move_def lookup_put lookup_remove)

text \<open>Two files of a directory make a listing of length at least two, and conversely.\<close>

lemma names_le_one:
  "length (filter P (names w d)) \<le> 1 \<longleftrightarrow>
     (\<forall>m n. lookup w d m \<noteq> None \<and> P m \<and> lookup w d n \<noteq> None \<and> P n \<longrightarrow> m = n)"
proof -
  let ?xs = "filter P (names w d)"
  have d: "distinct ?xs" using names_distinct by (rule distinct_filter)
  have mem: "\<And>m. m \<in> set ?xs \<longleftrightarrow> lookup w d m \<noteq> None \<and> P m" by (auto simp: names_lookup)
  have "length ?xs \<le> 1 \<longleftrightarrow> (\<forall>m n. m \<in> set ?xs \<and> n \<in> set ?xs \<longrightarrow> m = n)"
    using d by (cases ?xs; cases "tl ?xs") auto
  then show ?thesis unfolding mem by blast
qed

lemma names_empty: "filter P (names w d) = [] \<longleftrightarrow> (\<forall>m. lookup w d m \<noteq> None \<longrightarrow> \<not> P m)"
  using names_lookup by (auto simp: filter_empty_conv)

text \<open>A rename to a free name keeps every file: what was anywhere is somewhere.\<close>

lemma move_conserves:
  assumes "lookup w d n = Some c" and "lookup w d' n' = None"
    and "lookup w d0 n0 = Some c0"
  shows "\<exists>d1 n1. lookup (move w d n d' n') d1 n1 = Some c0"
proof (cases "d0 = d \<and> n0 = n")
  case True
  with assms have "lookup (move w d n d' n') d' n' = Some c0" by (simp add: lookup_move)
  then show ?thesis by blast
next
  case False
  with assms have "(d0, n0) \<noteq> (d', n')" by auto
  with False assms have "lookup (move w d n d' n') d0 n0 = Some c0" by (auto simp: lookup_move)
  then show ?thesis by blast
qed

end

lemma fs_lookup_write [simp]:
  "fs_lookup (fs_write w d n c) d' n' = (if d' = d \<and> n' = n then Some c else fs_lookup w d' n')"
  by (simp add: fs_lookup_def fs_write_def update_conv)

lemma fs_lookup_remove [simp]:
  "fs_lookup (fs_remove w d n) d' n' = (if d' = d \<and> n' = n then None else fs_lookup w d' n')"
  by (simp add: fs_lookup_def fs_remove_def delete_conv)

lemma fs_names_lookup: "n \<in> set (fs_names w d) \<longleftrightarrow> fs_lookup w d n \<noteq> None"
  by (auto simp: fs_names_def fs_lookup_def map_of_eq_None_iff)

interpretation store: file_store fs_lookup fs_write fs_remove fs_rename fs_names
  by unfold_locales
    (simp_all add: fs_rename_def fs_names_lookup, simp add: fs_names_def)

lemma fs_lookup_append_other:
  "(d', n') \<noteq> (d, n) \<Longrightarrow> fs_lookup (fs_append w d n r) d' n' = fs_lookup w d' n'"
  by (auto simp: fs_append_def split: option.splits file_content.splits)

lemma fs_lookup_append_same: "\<exists>rs. fs_lookup (fs_append w d n r) d n = Some (Log (rs @ [r]))"
  by (auto simp: fs_append_def split: option.splits file_content.splits)

lemma mem_list_markdown_files:
  "n \<in> set (list_markdown_files w d) \<longleftrightarrow> fs_lookup w d n \<noteq> None \<and> file_extension n = Some ''md''"
  by (auto simp: list_markdown_files_def fs_names_lookup)

lemma mem_list_json_files:
  "n \<in> set (list_json_files w d) \<longleftrightarrow> fs_lookup w d n \<noteq> None \<and> file_extension n = Some ''json''"
  by (auto simp: list_json_files_def fs_names_lookup)

lemma list_markdown_files_Nil:
  "list_markdown_files w d = [] \<longleftrightarrow>
     (\<forall>m. fs_lookup w d m \<noteq> None \<longrightarrow> file_extension m \<noteq> Some ''md'')"
  by (metis mem_list_markdown_files empty_iff equals0I list.set(1) set_empty)

lemma distinct_list_markdown_files: "distinct (list_markdown_files w d)"
  by (simp add: list_markdown_files_def store.names_distinct)

lemma length_list_markdown_files_le_1:
  "length (list_markdown_files w d) \<le> 1 \<longleftrightarrow>
     (\<forall>m n. fs_lookup w d m \<noteq> None \<and> file_extension m = Some ''md'' \<and>
            fs_lookup w d n \<noteq> None \<and> file_extension n = Some ''md'' \<longrightarrow> m = n)"
  using store.names_le_one [where P = "\<lambda>n. file_extension n = Some ''md''"]
  by (simp add: list_markdown_files_def)

section \<open>Operations of the queue store\<close>

datatype QueueStoreError =
    WorkspaceFailure string
  | Io path string
  | WorkDocumentFailure path WorkDocumentError
  | InvalidState string

type_synonym 'a qop = "fs \<Rightarrow> (QueueStoreError + 'a) \<times> fs"

definition qreturn :: "'a \<Rightarrow> 'a qop" where
  "qreturn a w = (Inr a, w)"

definition qfail :: "QueueStoreError \<Rightarrow> 'a qop" where
  "qfail e w = (Inl e, w)"

definition qbind :: "'a qop \<Rightarrow> ('a \<Rightarrow> 'b qop) \<Rightarrow> 'b qop" where
  "qbind m f w = (case m w of (Inl e, w') \<Rightarrow> (Inl e, w') | (Inr a, w') \<Rightarrow> f a w')"

definition qlift :: "QueueStoreError + 'a \<Rightarrow> 'a qop" where
  "qlift r w = (r, w)"

definition qmodify :: "(fs \<Rightarrow> fs) \<Rightarrow> unit qop" where
  "qmodify f w = (Inr (), f w)"

definition qget :: "(fs \<Rightarrow> 'a) \<Rightarrow> 'a qop" where
  "qget f w = (Inr (f w), w)"

lemmas qop_defs = qreturn_def qfail_def qlift_def qmodify_def qget_def

lemma qop_simps [simp]:
  "qreturn a w = (Inr a, w)" "qfail e w = (Inl e, w)" "qlift r w = (r, w)"
  "qmodify f w = (Inr (), f w)" "qget g w = (Inr (g w), w)"
  by (simp_all add: qop_defs)

lemma qbind_simps:
  "m w = (Inl e, w') \<Longrightarrow> qbind m f w = (Inl e, w')"
  "m w = (Inr a, w') \<Longrightarrow> qbind m f w = f a w'"
  by (simp_all add: qbind_def)

lemma qbind_prim [simp]:
  "qbind (qreturn a) f w = f a w" "qbind (qfail e) f w = (Inl e, w)"
  "qbind (qmodify h) (g :: unit \<Rightarrow> 'b qop) w = g () (h w)" "qbind (qget k) f w = f (k w) w"
  "qbind (qlift (Inl e')) f w = (Inl e', w)" "qbind (qlift (Inr a)) f w = f a w"
  by (simp_all add: qbind_def)

lemma qbind_Inr:
  "qbind m f w = (Inr b, w'') \<longleftrightarrow> (\<exists>a w'. m w = (Inr a, w') \<and> f a w' = (Inr b, w''))"
  by (auto simp: qbind_def split: prod.splits sum.splits)

lemma qbind_cases:
  "qbind m f w = (r, w'') \<Longrightarrow>
     (\<And>e. m w = (Inl e, w'') \<Longrightarrow> r = Inl e \<Longrightarrow> thesis) \<Longrightarrow>
     (\<And>a w'. m w = (Inr a, w') \<Longrightarrow> f a w' = (r, w'') \<Longrightarrow> thesis) \<Longrightarrow> thesis"
  by (auto simp: qbind_def split: prod.splits sum.splits)

end
