(* ===== verification/Queue_Store.thy ===== *)
theory Queue_Store
  imports Workspace_Fs
begin

text \<open>
  The filesystem queue: the five families of queue documents and the Blueprint drafts, from
  \<^verbatim>\<open>src/src/workspace/queue_store.rs\<close>, \<^verbatim>\<open>src/src/workspace/queue_claims.rs\<close>,
  \<^verbatim>\<open>src/src/workspace/task_lifecycle_integrity.rs\<close> and the draft functions of
  \<^verbatim>\<open>src/src/workspace/blueprint_state.rs\<close>.

  An item waits in its family's queue directory, is claimed into the active directory, and ends
  in the done or blocked directory. \<open>enqueue_*\<close>, \<open>claim_next_*\<close>, \<open>mark_*\<close>, \<open>requeue_*\<close> and
  \<open>detect_*_stale_state\<close> are the source's functions. What surrounds the code (the clock, the
  process-wide suffix counter, the serialiser's text, the absolute root) is the record \<open>env\<close>;
  the clock is read once per operation.

  A file that was just listed exists when it is renamed, because the runtime is the only writer
  of these directories while it holds the ownership lock; the retry branches of the claim
  loops, taken when a file vanishes in between, are therefore never entered and the loops run
  once.
\<close>

section \<open>Environment\<close>

record OffsetDateTime =
  dt_year :: nat
  dt_month :: nat
  dt_day :: nat
  dt_hour :: nat
  dt_minute :: nat
  dt_second :: nat

record env =
  env_root :: string
  env_now :: string
  env_now_dt :: OffsetDateTime
  env_suffix :: "nat \<Rightarrow> string"
  env_rfc :: "string \<Rightarrow> string + OffsetDateTime"
  env_json_text :: "json \<Rightarrow> string"

definition path_display :: "env \<Rightarrow> path \<Rightarrow> string" where
  "path_display E p = env_root E @ ''/'' @ workspace_relative_path p"

section \<open>Reading documents\<close>

text \<open>Parsing checks that the document has the expected kind, then validates it.\<close>

definition wrong_kind :: "string \<Rightarrow> WorkDocument \<Rightarrow> WorkItemKind \<Rightarrow> WorkDocumentError" where
  "wrong_kind source_name d expected = InvalidDocument
     (''work document '' @ source_name @ '' has kind '' @ WorkItemKind_as_str (WorkDocument_kind d)
      @ '', expected '' @ WorkItemKind_as_str expected)"

definition parse_work_document_as ::
  "WorkItemKind \<Rightarrow> env \<Rightarrow> file_content \<Rightarrow> string \<Rightarrow> WorkDocumentError + WorkDocument" where
  "parse_work_document_as expected E c source_name =
     (case c of
        Doc d \<Rightarrow> if WorkDocument_kind d = expected
                 then map_ok (\<lambda>_. d) (WorkDocument_validate (env_json_text E) d)
                 else Inl (wrong_kind source_name d expected)
      | Unparsable m \<Rightarrow> Inl (InvalidDocument m)
      | Draft _ \<Rightarrow> Inl (InvalidDocument ''missing work document heading'')
      | Log _ \<Rightarrow> Inl (InvalidDocument ''missing work document heading''))"

primrec the_task :: "WorkDocument \<Rightarrow> TaskDocument option" where
  "the_task (TaskDoc d) = Some d"
| "the_task (ProbeDoc _) = None"
| "the_task (SpecDoc _) = None"
| "the_task (IncidentDoc _) = None"
| "the_task (LearningRequestDoc _) = None"

definition parse_task_document_with_source ::
  "env \<Rightarrow> file_content \<Rightarrow> string \<Rightarrow> WorkDocumentError + TaskDocument" where
  "parse_task_document_with_source E c source_name =
     and_then (parse_work_document_as WorkItemKind.Task E c source_name) (\<lambda>d.
       case d of TaskDoc t \<Rightarrow> Inr t | _ \<Rightarrow> Inl (wrong_kind source_name d WorkItemKind.Task))"

definition parse_spec_document_with_source ::
  "env \<Rightarrow> file_content \<Rightarrow> string \<Rightarrow> WorkDocumentError + SpecDocument" where
  "parse_spec_document_with_source E c source_name =
     and_then (parse_work_document_as WorkItemKind.Spec E c source_name) (\<lambda>d.
       case d of SpecDoc t \<Rightarrow> Inr t | _ \<Rightarrow> Inl (wrong_kind source_name d WorkItemKind.Spec))"

definition parse_probe_document_with_source ::
  "env \<Rightarrow> file_content \<Rightarrow> string \<Rightarrow> WorkDocumentError + ProbeDocument" where
  "parse_probe_document_with_source E c source_name =
     and_then (parse_work_document_as WorkItemKind.Probe E c source_name) (\<lambda>d.
       case d of ProbeDoc t \<Rightarrow> Inr t | _ \<Rightarrow> Inl (wrong_kind source_name d WorkItemKind.Probe))"

definition parse_incident_document_with_source ::
  "env \<Rightarrow> file_content \<Rightarrow> string \<Rightarrow> WorkDocumentError + IncidentDocument" where
  "parse_incident_document_with_source E c source_name =
     and_then (parse_work_document_as WorkItemKind.Incident E c source_name) (\<lambda>d.
       case d of IncidentDoc t \<Rightarrow> Inr t | _ \<Rightarrow> Inl (wrong_kind source_name d WorkItemKind.Incident))"

definition parse_learning_request_document_with_source ::
  "env \<Rightarrow> file_content \<Rightarrow> string \<Rightarrow> WorkDocumentError + LearningRequestDocument" where
  "parse_learning_request_document_with_source E c source_name =
     and_then (parse_work_document_as WorkItemKind.LearningRequest E c source_name) (\<lambda>d.
       case d of LearningRequestDoc t \<Rightarrow> Inr t
       | _ \<Rightarrow> Inl (wrong_kind source_name d WorkItemKind.LearningRequest))"

definition read_blueprint_draft ::
  "env \<Rightarrow> path \<Rightarrow> file_content \<Rightarrow> QueueStoreError + BlueprintDraftDocument" where
  "read_blueprint_draft E p c =
     map_err (\<lambda>e. InvalidState (''Blueprint artifact '' @ path_display E p @ '' is invalid: ''
                    @ RuntimeJsonError_to_string e))
       (case c of
          Draft d \<Rightarrow> map_ok (\<lambda>_. d) (BlueprintDraftDocument_validate_contract d)
        | Unparsable m \<Rightarrow> Inl (JsonDecode ''blueprint_draft'' m)
        | Doc _ \<Rightarrow> Inl (JsonDecode ''blueprint_draft'' ''expected value at line 1 column 1'')
        | Log _ \<Rightarrow> Inl (JsonDecode ''blueprint_draft'' ''trailing characters''))"

section \<open>Root lineage of a document\<close>

definition effective_root_spec_task :: "TaskDocument \<Rightarrow> string option" where
  "effective_root_spec_task d =
     (case td_root_spec_id d of Some r \<Rightarrow> Some r | None \<Rightarrow> td_spec_id d)"

definition effective_root_spec_spec :: "SpecDocument \<Rightarrow> string option" where
  "effective_root_spec_spec d =
     (case sd_root_spec_id d of
        Some r \<Rightarrow> Some r
      | None \<Rightarrow> if sd_source_type d = SpecSourceType.Idea \<or> sd_source_type d = SpecSourceType.Manual
                then Some (sd_spec_id d) else None)"

definition effective_root_spec_incident :: "IncidentDocument \<Rightarrow> string option" where
  "effective_root_spec_incident d =
     (case nd_root_spec_id d of Some r \<Rightarrow> Some r | None \<Rightarrow> nd_source_spec_id d)"

definition has_parent_spec :: "SpecDocument \<Rightarrow> bool" where
  "has_parent_spec d =
     (case sd_parent_spec_id d of
        None \<Rightarrow> False
      | Some v \<Rightarrow> to_ascii_lowercase (trim v) \<noteq> ''none'')"

definition is_root_spec_document :: "SpecDocument \<Rightarrow> bool" where
  "is_root_spec_document d =
     (case sd_root_spec_id d of
        Some r \<Rightarrow> r = sd_spec_id d
      | None \<Rightarrow> (sd_source_type d = SpecSourceType.Idea \<or> sd_source_type d = SpecSourceType.Manual)
                 \<and> \<not> has_parent_spec d)"

section \<open>Moving, writing and logging\<close>

definition move_item_from_state ::
  "dir \<Rightarrow> dir \<Rightarrow> string \<Rightarrow> WorkItemKind \<Rightarrow> string \<Rightarrow> path qop" where
  "move_item_from_state source_dir destination_dir item_id kind source_state w =
     (let name = md_name item_id in
      if \<not> fs_exists w source_dir name
      then (Inl (InvalidState (WorkItemKind_as_str kind @ '' '' @ item_id @ '' is not '' @ source_state)), w)
      else if fs_exists w destination_dir name
      then (Inl (InvalidState (WorkItemKind_as_str kind @ '' '' @ item_id
               @ '' already exists at destination'')), w)
      else (Inr (destination_dir, name), fs_rename w source_dir name destination_dir name))"

definition move_item :: "dir \<Rightarrow> dir \<Rightarrow> string \<Rightarrow> WorkItemKind \<Rightarrow> path qop" where
  "move_item source_dir destination_dir item_id kind =
     move_item_from_state source_dir destination_dir item_id kind ''active''"

definition ensure_unique_id :: "string \<Rightarrow> dir list \<Rightarrow> WorkItemKind \<Rightarrow> unit qop" where
  "ensure_unique_id item_id dirs kind w =
     (if list_ex (\<lambda>d. fs_exists w d (md_name item_id)) dirs
      then (Inl (InvalidState (WorkItemKind_as_str kind @ '' '' @ item_id @ '' already exists'')), w)
      else (Inr (), w))"

definition write_document :: "dir \<Rightarrow> string \<Rightarrow> WorkDocument \<Rightarrow> path qop" where
  "write_document d name doc w = (Inr (d, name), fs_write w d name (Doc doc))"

definition requeue_log_name :: "string \<Rightarrow> string" where
  "requeue_log_name item_id = item_id @ ''.requeue.jsonl''"

definition append_requeue_reason ::
  "env \<Rightarrow> dir \<Rightarrow> string \<Rightarrow> WorkItemKind \<Rightarrow> string \<Rightarrow> unit qop" where
  "append_requeue_reason E destination_dir item_id kind reason w =
     (let cleaned = trim reason in
      if cleaned = [] then (Inl (InvalidState ''requeue reason is required''), w)
      else (Inr (), fs_append w destination_dir (requeue_log_name item_id)
              (JObject [(''at'', JString (env_now E)), (''kind'', JString (WorkItemKind_as_str kind)),
                        (''reason'', JString cleaned)])))"

definition validate_blocked_requeue_audit ::
  "string \<Rightarrow> string \<Rightarrow> nat option \<Rightarrow> QueueStoreError + unit" where
  "validate_blocked_requeue_audit reason actor attempt_number =
     (if trim reason = [] then Inl (InvalidState ''requeue reason is required'')
      else if trim actor = [] then Inl (InvalidState ''requeue actor is required'')
      else if attempt_number = Some 0
      then Inl (InvalidState ''requeue attempt_number must be >= 1'')
      else Inr ())"

definition append_blocked_requeue_audit ::
  "env \<Rightarrow> dir \<Rightarrow> string \<Rightarrow> string \<Rightarrow> string \<Rightarrow> bool \<Rightarrow> string option \<Rightarrow> nat option \<Rightarrow> unit qop" where
  "append_blocked_requeue_audit E destination_dir task_id reason actor auto failure_class attempt_number w =
     (case validate_blocked_requeue_audit reason actor attempt_number of
        Inl e \<Rightarrow> (Inl e, w)
      | Inr _ \<Rightarrow>
          (Inr (), fs_append w destination_dir (requeue_log_name task_id)
             (JObject
               ([(''at'', JString (env_now E)), (''actor'', JString (trim actor)),
                 (''auto'', JBool auto), (''destination_state'', JString ''queue''),
                 (''kind'', JString (WorkItemKind_as_str WorkItemKind.Task)),
                 (''reason'', JString (trim reason)), (''source_state'', JString ''blocked'')]
                @ (case failure_class of
                     Some fc \<Rightarrow> if trim fc = [] then [] else [(''failure_class'', JString (trim fc))]
                   | None \<Rightarrow> [])
                @ (case attempt_number of
                     Some n \<Rightarrow> [(''attempt_number'', JNumber (int n))]
                   | None \<Rightarrow> [])))))"

text \<open>Quarantine of a file that does not parse: the first free of \<^verbatim>\<open>n.md.invalid\<close>,
  \<^verbatim>\<open>n.md.invalid.1\<close>, \<^verbatim>\<open>n.md.invalid.2\<close>, and so on. The loop is bounded by one more than the
  number of files of the directory, which is always enough (\<open>free_quarantine_name_enough\<close>).\<close>

definition quarantine_name :: "string \<Rightarrow> nat \<Rightarrow> string" where
  "quarantine_name n k =
     (let ext = (case file_extension n of Some e \<Rightarrow> e | None \<Rightarrow> [])
      in with_extension n
           (if k = 0 then ext @ ''.invalid'' else ext @ ''.invalid.'' @ show_nat k))"

fun free_quarantine_name :: "nat \<Rightarrow> fs \<Rightarrow> dir \<Rightarrow> string \<Rightarrow> nat \<Rightarrow> string option" where
  "free_quarantine_name 0 w d n k = None"
| "free_quarantine_name (Suc fuel) w d n k =
     (if fs_exists w d (quarantine_name n k) then free_quarantine_name fuel w d n (Suc k)
      else Some (quarantine_name n k))"

definition quarantine_invalid_artifact :: "env \<Rightarrow> dir \<Rightarrow> string \<Rightarrow> string \<Rightarrow> fs \<Rightarrow> fs" where
  "quarantine_invalid_artifact E d n error w =
     (case free_quarantine_name (Suc (length (w d))) w d n 0 of
        None \<Rightarrow> w
      | Some destination \<Rightarrow>
          if \<not> fs_exists w d n then w
          else fs_append (fs_rename w d n d destination) d ''invalid-artifacts.jsonl''
                 (JObject [(''at'', JString (env_now E)), (''error'', JString error),
                           (''quarantine_name'', JString destination),
                           (''source_name'', JString n)]))"

section \<open>Enqueueing\<close>

abbreviation lifecycle_dirs :: "WorkItemKind \<Rightarrow> dir list" where
  "lifecycle_dirs k \<equiv> [WorkDir k QueueState, WorkDir k ActiveState, WorkDir k DoneState, WorkDir k BlockedState]"

definition enqueue_task :: "TaskDocument \<Rightarrow> path qop" where
  "enqueue_task d =
     (case TaskDocument_validate d of
        Inl e \<Rightarrow> qfail (WorkDocumentFailure (WorkDir WorkItemKind.Task QueueState, md_name (td_task_id d)) e)
      | Inr _ \<Rightarrow>
          qbind (ensure_unique_id (td_task_id d) (lifecycle_dirs WorkItemKind.Task) WorkItemKind.Task) (\<lambda>_.
            write_document (WorkDir WorkItemKind.Task QueueState) (md_name (td_task_id d)) (TaskDoc d)))"

definition enqueue_spec :: "SpecDocument \<Rightarrow> path qop" where
  "enqueue_spec d =
     (case SpecDocument_validate d of
        Inl e \<Rightarrow> qfail (WorkDocumentFailure (WorkDir WorkItemKind.Spec QueueState, md_name (sd_spec_id d)) e)
      | Inr _ \<Rightarrow>
          qbind (ensure_unique_id (sd_spec_id d) (lifecycle_dirs WorkItemKind.Spec) WorkItemKind.Spec) (\<lambda>_.
            write_document (WorkDir WorkItemKind.Spec QueueState) (md_name (sd_spec_id d)) (SpecDoc d)))"

definition enqueue_probe :: "ProbeDocument \<Rightarrow> path qop" where
  "enqueue_probe d =
     (case ProbeDocument_validate d of
        Inl e \<Rightarrow> qfail (WorkDocumentFailure (WorkDir WorkItemKind.Probe QueueState, md_name (pd_probe_id d)) e)
      | Inr _ \<Rightarrow>
          qbind (ensure_unique_id (pd_probe_id d) (lifecycle_dirs WorkItemKind.Probe) WorkItemKind.Probe) (\<lambda>_.
            write_document (WorkDir WorkItemKind.Probe QueueState) (md_name (pd_probe_id d)) (ProbeDoc d)))"

definition enqueue_incident :: "IncidentDocument \<Rightarrow> path qop" where
  "enqueue_incident d =
     (case IncidentDocument_validate d of
        Inl e \<Rightarrow> qfail (WorkDocumentFailure
                  (WorkDir WorkItemKind.Incident QueueState, md_name (nd_incident_id d)) e)
      | Inr _ \<Rightarrow>
          qbind (ensure_unique_id (nd_incident_id d) (lifecycle_dirs WorkItemKind.Incident)
                   WorkItemKind.Incident) (\<lambda>_.
            write_document (WorkDir WorkItemKind.Incident QueueState) (md_name (nd_incident_id d))
              (IncidentDoc d)))"

definition enqueue_learning_request :: "env \<Rightarrow> LearningRequestDocument \<Rightarrow> path qop" where
  "enqueue_learning_request E d =
     (case LearningRequestDocument_validate (env_json_text E) d of
        Inl e \<Rightarrow> qfail (WorkDocumentFailure
                  (WorkDir WorkItemKind.LearningRequest QueueState, md_name (ld_learning_request_id d)) e)
      | Inr _ \<Rightarrow>
          qbind (ensure_unique_id (ld_learning_request_id d) (lifecycle_dirs WorkItemKind.LearningRequest)
                   WorkItemKind.LearningRequest) (\<lambda>_.
            write_document (WorkDir WorkItemKind.LearningRequest QueueState)
              (md_name (ld_learning_request_id d)) (LearningRequestDoc d)))"

definition validate_model :: "BlueprintDraftDocument \<Rightarrow> QueueStoreError + unit" where
  "validate_model d =
     map_err (\<lambda>e. InvalidState (RuntimeJsonError_to_string e)) (BlueprintDraftDocument_validate_contract d)"

definition write_unique_json_document ::
  "env \<Rightarrow> dir \<Rightarrow> string \<Rightarrow> BlueprintDraftDocument \<Rightarrow> path qop" where
  "write_unique_json_document E d name doc w =
     (if fs_exists w d name
      then (Inl (InvalidState (''Blueprint artifact already exists: '' @ path_display E (d, name))), w)
      else (case validate_model doc of
              Inl e \<Rightarrow> (Inl e, w)
            | Inr _ \<Rightarrow> (Inr (d, name), fs_write w d name (Draft doc))))"

abbreviation draft_dirs :: "dir list" where
  "draft_dirs \<equiv> lifecycle_dirs WorkItemKind.BlueprintDraft"

definition ensure_unique_blueprint_draft :: "string \<Rightarrow> unit qop" where
  "ensure_unique_blueprint_draft draft_id w =
     (case validate_safe_identifier draft_id ''draft_id'' of
        Inl e \<Rightarrow> (Inl (InvalidState (ContractError_to_string e)), w)
      | Inr _ \<Rightarrow>
          if list_ex (\<lambda>d. fs_exists w d (json_name draft_id))
               (draft_dirs @ [DraftDir ''canceled'', DraftDir ''superseded''])
          then (Inl (InvalidState (''blueprint draft '' @ draft_id @ '' already exists'')), w)
          else (Inr (), w))"

definition enqueue_blueprint_draft :: "env \<Rightarrow> BlueprintDraftDocument \<Rightarrow> path qop" where
  "enqueue_blueprint_draft E draft =
     qbind (ensure_unique_blueprint_draft (bd_draft_id draft)) (\<lambda>_.
       let queued = draft\<lparr>bd_status := BlueprintDraftStatus.Queued\<rparr>
       in write_unique_json_document E (WorkDir WorkItemKind.BlueprintDraft QueueState)
            (json_name (bd_draft_id queued)) queued)"

section \<open>Claims\<close>

record QueueClaim =
  qc_work_item_kind :: WorkItemKind
  qc_family_id :: string
  qc_plane :: Plane
  qc_work_item_id :: string
  qc_path :: path
  qc_source_state :: "string option"
  qc_source_path :: "path option"
  qc_claim_policy_id :: "string option"
  qc_claim_order :: "nat option"

primrec plane_for_builtin_kind :: "WorkItemKind \<Rightarrow> Plane" where
  "plane_for_builtin_kind WorkItemKind.Task = Plane.Execution"
| "plane_for_builtin_kind WorkItemKind.Probe = Plane.Planning"
| "plane_for_builtin_kind WorkItemKind.Spec = Plane.Planning"
| "plane_for_builtin_kind WorkItemKind.Incident = Plane.Planning"
| "plane_for_builtin_kind WorkItemKind.BlueprintDraft = Plane.Planning"
| "plane_for_builtin_kind WorkItemKind.LearningRequest = Plane.Learning"

definition QueueClaim_for_builtin :: "WorkItemKind \<Rightarrow> string \<Rightarrow> path \<Rightarrow> QueueClaim" where
  "QueueClaim_for_builtin k i p =
     \<lparr>qc_work_item_kind = k, qc_family_id = WorkItemKind_as_str k, qc_plane = plane_for_builtin_kind k,
      qc_work_item_id = i, qc_path = p, qc_source_state = None, qc_source_path = None,
      qc_claim_policy_id = None, qc_claim_order = None\<rparr>"

definition QueueClaim_with_source :: "QueueClaim \<Rightarrow> string \<Rightarrow> path \<Rightarrow> QueueClaim" where
  "QueueClaim_with_source c state p = c\<lparr>qc_source_state := Some state, qc_source_path := Some p\<rparr>"

definition QueueClaim_with_claim_policy :: "QueueClaim \<Rightarrow> string \<Rightarrow> nat \<Rightarrow> QueueClaim" where
  "QueueClaim_with_claim_policy c policy n =
     c\<lparr>qc_claim_policy_id := Some policy, qc_claim_order := Some n\<rparr>"

text \<open>The listing loop that the five selectors share: a file that does not parse, or whose name
  is not its document's id, is quarantined; the others that pass \<open>keep\<close> become candidates
  \<open>(timestamp, id, file name)\<close>, in listing order.\<close>

fun scan_documents ::
  "env \<Rightarrow> dir \<Rightarrow> (file_content \<Rightarrow> string \<Rightarrow> WorkDocumentError + 'd) \<Rightarrow> string \<Rightarrow> ('d \<Rightarrow> string) \<Rightarrow>
   ('d \<Rightarrow> Timestamp) \<Rightarrow> ('d \<Rightarrow> bool) \<Rightarrow> string list \<Rightarrow> fs \<Rightarrow> (string \<times> string \<times> string) list \<times> fs" where
  "scan_documents E d parse field id_of ts_of keep [] w = ([], w)"
| "scan_documents E d parse field id_of ts_of keep (n # ns) w =
     (case fs_lookup w d n of
        None \<Rightarrow> scan_documents E d parse field id_of ts_of keep ns w
      | Some c \<Rightarrow>
     (case parse c (path_display E (d, n)) of
        Inl e \<Rightarrow> scan_documents E d parse field id_of ts_of keep ns
                   (quarantine_invalid_artifact E d n (WorkDocumentError_to_string e) w)
      | Inr doc \<Rightarrow>
          if file_stem n \<noteq> id_of doc
          then scan_documents E d parse field id_of ts_of keep ns
                 (quarantine_invalid_artifact E d n
                   (''filename stem does not match '' @ field @ '': expected '' @ id_of doc
                    @ '', found '' @ file_stem n) w)
          else if \<not> keep doc then scan_documents E d parse field id_of ts_of keep ns w
          else (case scan_documents E d parse field id_of ts_of keep ns w of
                  (cands, w') \<Rightarrow> ((ts_of doc, id_of doc, n) # cands, w'))))"

definition candidate_key :: "string \<times> string \<times> string \<Rightarrow> string \<times> string" where
  "candidate_key c = (fst c, fst (snd c))"

definition oldest_candidate ::
  "(string \<times> string \<times> string) list \<Rightarrow> (string \<times> string \<times> string) option" where
  "oldest_candidate cands =
     (case sort_key candidate_key cands of [] \<Rightarrow> None | c # _ \<Rightarrow> Some c)"

definition root_matches :: "string option \<Rightarrow> string option \<Rightarrow> bool" where
  "root_matches expected root \<longleftrightarrow> (case expected of None \<Rightarrow> True | Some r \<Rightarrow> root = Some r)"

definition select_oldest_eligible_task ::
  "env \<Rightarrow> string option \<Rightarrow> fs \<Rightarrow> (string \<times> string) option \<times> fs" where
  "select_oldest_eligible_task E root_spec_id w =
     (let completed_task_ids = set (ids_in_directory w (WorkDir WorkItemKind.Task DoneState));
          d = WorkDir WorkItemKind.Task QueueState;
          (cands, w') = scan_documents E d (parse_task_document_with_source E) ''task_id'' td_task_id
            td_created_at
            (\<lambda>doc. root_matches root_spec_id (effective_root_spec_task doc) \<and>
               list_all (\<lambda>dependency. dependency \<in> completed_task_ids) (td_depends_on doc))
            (list_markdown_files w d) w
      in (map_option snd (oldest_candidate cands), w'))"

definition select_oldest_spec_candidate ::
  "env \<Rightarrow> dir \<Rightarrow> string option \<Rightarrow> fs \<Rightarrow> (string \<times> string \<times> string) option \<times> fs" where
  "select_oldest_spec_candidate E d root_spec_id w =
     (let (cands, w') = scan_documents E d (parse_spec_document_with_source E) ''spec_id'' sd_spec_id
            sd_created_at (\<lambda>doc. root_matches root_spec_id (effective_root_spec_spec doc))
            (list_markdown_files w d) w
      in (oldest_candidate cands, w'))"

definition select_oldest_probe_candidate ::
  "env \<Rightarrow> dir \<Rightarrow> fs \<Rightarrow> (string \<times> string \<times> string) option \<times> fs" where
  "select_oldest_probe_candidate E d w =
     (let (cands, w') = scan_documents E d (parse_probe_document_with_source E) ''probe_id'' pd_probe_id
            pd_created_at (\<lambda>_. True) (list_markdown_files w d) w
      in (oldest_candidate cands, w'))"

definition select_oldest_incident ::
  "env \<Rightarrow> dir \<Rightarrow> string option \<Rightarrow> fs \<Rightarrow> (string \<times> string) option \<times> fs" where
  "select_oldest_incident E d root_spec_id w =
     (let (cands, w') = scan_documents E d (parse_incident_document_with_source E) ''incident_id''
            nd_incident_id nd_opened_at
            (\<lambda>doc. root_matches root_spec_id (effective_root_spec_incident doc))
            (list_markdown_files w d) w
      in (map_option snd (oldest_candidate cands), w'))"

definition select_oldest_learning_request ::
  "env \<Rightarrow> dir \<Rightarrow> fs \<Rightarrow> (string \<times> string) option \<times> fs" where
  "select_oldest_learning_request E d w =
     (let (cands, w') = scan_documents E d (parse_learning_request_document_with_source E)
            ''learning_request_id'' ld_learning_request_id ld_created_at (\<lambda>_. True)
            (list_markdown_files w d) w
      in (map_option snd (oldest_candidate cands), w'))"

text \<open>A work item kind compares as its canonical string, as the probe/spec selector compares it.\<close>

instantiation WorkItemKind :: linorder
begin

definition less_eq_WorkItemKind :: "WorkItemKind \<Rightarrow> WorkItemKind \<Rightarrow> bool" where
  "less_eq_WorkItemKind a b \<longleftrightarrow> WorkItemKind_as_str a \<le> WorkItemKind_as_str b"

definition less_WorkItemKind :: "WorkItemKind \<Rightarrow> WorkItemKind \<Rightarrow> bool" where
  "less_WorkItemKind a b \<longleftrightarrow> WorkItemKind_as_str a < WorkItemKind_as_str b"

instance
  by standard
    (auto simp: less_eq_WorkItemKind_def less_WorkItemKind_def WorkItemKind_enum.as_str_inject
      dest: order.antisym)

end

definition select_oldest_probe_or_spec ::
  "env \<Rightarrow> string option \<Rightarrow> fs \<Rightarrow> (WorkItemKind \<times> string \<times> string) option \<times> fs" where
  "select_oldest_probe_or_spec E root_spec_id w =
     (let (probe, w1) =
            (if root_spec_id = None
             then select_oldest_probe_candidate E (WorkDir WorkItemKind.Probe QueueState) w
             else (None, w));
          (spec, w2) = select_oldest_spec_candidate E (WorkDir WorkItemKind.Spec QueueState) root_spec_id w1;
          cands = (case probe of None \<Rightarrow> [] | Some (ts, i, n) \<Rightarrow> [(ts, WorkItemKind.Probe, i, n)])
            @ (case spec of None \<Rightarrow> [] | Some (ts, i, n) \<Rightarrow> [(ts, WorkItemKind.Spec, i, n)])
      in (case sort_key (\<lambda>(ts, k, i, n). (ts, k, i)) cands of
            [] \<Rightarrow> None
          | (ts, k, i, n) # _ \<Rightarrow> Some (k, i, n), w2))"

definition claim_next_execution_task :: "env \<Rightarrow> string option \<Rightarrow> QueueClaim option qop" where
  "claim_next_execution_task E root_spec_id w =
     (let active = list_markdown_files w (WorkDir WorkItemKind.Task ActiveState) in
      if 1 < length active then (Inl (InvalidState ''multiple active execution tasks found''), w)
      else if active \<noteq> [] then (Inr None, w)
      else (case select_oldest_eligible_task E root_spec_id w of
              (None, w') \<Rightarrow> (Inr None, w')
            | (Some (task_id, name), w') \<Rightarrow>
                (Inr (Some (QueueClaim_with_claim_policy
                   (QueueClaim_with_source
                     (QueueClaim_for_builtin WorkItemKind.Task task_id
                       (WorkDir WorkItemKind.Task ActiveState, name))
                     ''queue'' (WorkDir WorkItemKind.Task QueueState, name))
                   ''execution.default'' 0)),
                 fs_rename w' (WorkDir WorkItemKind.Task QueueState) name
                   (WorkDir WorkItemKind.Task ActiveState) name)))"

definition completed_dependency_draft_ids :: "fs \<Rightarrow> string list" where
  "completed_dependency_draft_ids w =
     concat (map (\<lambda>d. map file_stem (list_json_files w d))
       [WorkDir WorkItemKind.BlueprintDraft DoneState, DraftDir ''canceled'', DraftDir ''superseded''])"

fun scan_drafts ::
  "env \<Rightarrow> string option \<Rightarrow> string list \<Rightarrow> fs \<Rightarrow> string list \<Rightarrow>
   QueueStoreError + (BlueprintDraftDocument \<times> string) list" where
  "scan_drafts E root_spec_id completed w [] = Inr []"
| "scan_drafts E root_spec_id completed w (n # ns) =
     (case fs_lookup w (WorkDir WorkItemKind.BlueprintDraft QueueState) n of
        None \<Rightarrow> Inl (Io (WorkDir WorkItemKind.BlueprintDraft QueueState, n) ''entity not found'')
      | Some c \<Rightarrow>
     and_then (read_blueprint_draft E (WorkDir WorkItemKind.BlueprintDraft QueueState, n) c) (\<lambda>draft.
       if file_stem n \<noteq> bd_draft_id draft
       then Inl (InvalidState (''filename stem does not match draft_id: expected ''
              @ bd_draft_id draft @ '', found '' @ file_stem n))
       else map_ok (\<lambda>cands.
              if (case root_spec_id of None \<Rightarrow> False | Some root \<Rightarrow> bd_root_spec_id draft \<noteq> root)
              then cands
              else if \<not> list_all (\<lambda>i. i \<in> set completed) (bd_depends_on_draft_ids draft) then cands
              else (draft, n) # cands)
            (scan_drafts E root_spec_id completed w ns)))"

definition select_next_eligible_draft ::
  "env \<Rightarrow> string option \<Rightarrow> fs \<Rightarrow> QueueStoreError + (BlueprintDraftDocument \<times> string) option" where
  "select_next_eligible_draft E root_spec_id w =
     map_ok (\<lambda>cands.
         (case sort_key (\<lambda>(d, n). (bd_draft_index d, bd_created_at d, bd_draft_id d)) cands of
            [] \<Rightarrow> None | c # _ \<Rightarrow> Some c))
       (scan_drafts E root_spec_id (completed_dependency_draft_ids w) w
          (list_json_files w (WorkDir WorkItemKind.BlueprintDraft QueueState)))"

definition active_blueprint_draft_count :: "fs \<Rightarrow> nat" where
  "active_blueprint_draft_count w =
     length (list_json_files w (WorkDir WorkItemKind.BlueprintDraft ActiveState))"

text \<open>The claim writes the draft, its status now active, into the active directory and then
  removes the queued file. (The source would retry if the active file existed; it does not,
  since the active directory was just found empty.)\<close>

definition claim_next_blueprint_draft :: "env \<Rightarrow> string option \<Rightarrow> QueueClaim option qop" where
  "claim_next_blueprint_draft E root_spec_id w =
     (let active = list_json_files w (WorkDir WorkItemKind.BlueprintDraft ActiveState) in
      if 1 < length active then (Inl (InvalidState ''multiple active blueprint drafts found''), w)
      else if active \<noteq> [] then (Inr None, w)
      else (case select_next_eligible_draft E root_spec_id w of
              Inl e \<Rightarrow> (Inl e, w)
            | Inr None \<Rightarrow> (Inr None, w)
            | Inr (Some (draft, name)) \<Rightarrow>
                qbind (write_unique_json_document E (WorkDir WorkItemKind.BlueprintDraft ActiveState) name
                         (draft\<lparr>bd_status := BlueprintDraftStatus.Active\<rparr>)) (\<lambda>p.
                qbind (qmodify (\<lambda>w. fs_remove w (WorkDir WorkItemKind.BlueprintDraft QueueState) name)) (\<lambda>_.
                  qreturn (Some (QueueClaim_with_claim_policy
                    (QueueClaim_with_source
                      (QueueClaim_for_builtin WorkItemKind.BlueprintDraft (bd_draft_id draft) p)
                      ''queue'' (WorkDir WorkItemKind.BlueprintDraft QueueState, name))
                    ''planning.default'' 1)))) w))"

definition planning_active_count :: "fs \<Rightarrow> nat" where
  "planning_active_count w =
     length (list_markdown_files w (WorkDir WorkItemKind.Spec ActiveState))
     + length (list_markdown_files w (WorkDir WorkItemKind.Probe ActiveState))
     + length (list_markdown_files w (WorkDir WorkItemKind.Incident ActiveState))
     + active_blueprint_draft_count w"

definition claim_next_planning_item :: "env \<Rightarrow> string option \<Rightarrow> QueueClaim option qop" where
  "claim_next_planning_item E root_spec_id w =
     (if 1 < planning_active_count w
      then (Inl (InvalidState ''multiple active planning items found''), w)
      else if 0 < planning_active_count w then (Inr None, w)
      else (case select_oldest_incident E (WorkDir WorkItemKind.Incident QueueState) root_spec_id w of
        (Some (incident_id, name), w1) \<Rightarrow>
          (Inr (Some (QueueClaim_with_claim_policy
             (QueueClaim_with_source
               (QueueClaim_for_builtin WorkItemKind.Incident incident_id
                 (WorkDir WorkItemKind.Incident ActiveState, name))
               ''incoming'' (WorkDir WorkItemKind.Incident QueueState, name))
             ''planning.default'' 0)),
           fs_rename w1 (WorkDir WorkItemKind.Incident QueueState) name
             (WorkDir WorkItemKind.Incident ActiveState) name)
      | (None, w1) \<Rightarrow>
          qbind (claim_next_blueprint_draft E root_spec_id) (\<lambda>claim.
            (case claim of
               Some c \<Rightarrow> qreturn (Some c)
             | None \<Rightarrow> (\<lambda>w2.
                 (case select_oldest_probe_or_spec E root_spec_id w2 of
                    (None, w3) \<Rightarrow> (Inr None, w3)
                  | (Some (kind, item_id, name), w3) \<Rightarrow>
                      if kind \<noteq> WorkItemKind.Probe \<and> kind \<noteq> WorkItemKind.Spec
                      then (Inl (InvalidState
                        ''planning probe/spec selector returned unsupported work item kind''), w3)
                      else
                        (Inr (Some (QueueClaim_with_claim_policy
                           (QueueClaim_with_source
                             (QueueClaim_for_builtin kind item_id (WorkDir kind ActiveState, name))
                             ''queue'' (WorkDir kind QueueState, name))
                           ''planning.default'' (if kind = WorkItemKind.Probe then 2 else 3))),
                         fs_rename w3 (WorkDir kind QueueState) name (WorkDir kind ActiveState) name))))) w1))"

definition claim_next_learning_request :: "env \<Rightarrow> QueueClaim option qop" where
  "claim_next_learning_request E w =
     (let active = list_markdown_files w (WorkDir WorkItemKind.LearningRequest ActiveState) in
      if 1 < length active then (Inl (InvalidState ''multiple active learning requests found''), w)
      else if active \<noteq> [] then (Inr None, w)
      else (case select_oldest_learning_request E (WorkDir WorkItemKind.LearningRequest QueueState) w of
              (None, w') \<Rightarrow> (Inr None, w')
            | (Some (learning_request_id, name), w') \<Rightarrow>
                (Inr (Some (QueueClaim_with_claim_policy
                   (QueueClaim_with_source
                     (QueueClaim_for_builtin WorkItemKind.LearningRequest learning_request_id
                       (WorkDir WorkItemKind.LearningRequest ActiveState, name))
                     ''queue'' (WorkDir WorkItemKind.LearningRequest QueueState, name))
                   ''learning.default'' 0)),
                 fs_rename w' (WorkDir WorkItemKind.LearningRequest QueueState) name
                   (WorkDir WorkItemKind.LearningRequest ActiveState) name)))"

section \<open>Same-id duplicates of a task\<close>

text \<open>\<^verbatim>\<open>compact_timestamp\<close>: the date and time of the archive's name.\<close>

definition compact_timestamp :: "OffsetDateTime \<Rightarrow> string" where
  "compact_timestamp t =
     zero_pad 4 (dt_year t) @ zero_pad 2 (dt_month t) @ zero_pad 2 (dt_day t) @ ''T''
     @ zero_pad 2 (dt_hour t) @ zero_pad 2 (dt_minute t) @ zero_pad 2 (dt_second t) @ ''Z''"

definition superseded_task_name :: "env \<Rightarrow> fs \<Rightarrow> dir \<Rightarrow> string \<Rightarrow> string" where
  "superseded_task_name E w archive_dir task_id =
     (let candidate = (\<lambda>i. task_id @ ''.'' @ compact_timestamp (env_now_dt E) @ ''.'' @ env_suffix E i
            @ ''.blocked.md'')
      in case List.find (\<lambda>i. \<not> fs_exists w archive_dir (candidate i)) [0..<100] of
           Some i \<Rightarrow> candidate i
         | None \<Rightarrow> candidate 100)"

definition read_task_document_or_none :: "env \<Rightarrow> fs \<Rightarrow> dir \<Rightarrow> string \<Rightarrow> TaskDocument option" where
  "read_task_document_or_none E w d n =
     (case fs_lookup w d n of
        None \<Rightarrow> None
      | Some c \<Rightarrow> (case parse_task_document_with_source E c (path_display E (d, n)) of
                     Inl _ \<Rightarrow> None | Inr doc \<Rightarrow> Some doc))"

definition retire_stale_blocked_task_duplicate_after_done :: "env \<Rightarrow> string \<Rightarrow> path option qop" where
  "retire_stale_blocked_task_duplicate_after_done E task_id w =
     (let blocked_dir = WorkDir WorkItemKind.Task BlockedState;
          done_dir = WorkDir WorkItemKind.Task DoneState;
          name = md_name task_id in
      if \<not> fs_exists w blocked_dir name \<or> \<not> fs_exists w done_dir name then (Inr None, w)
      else (case read_task_document_or_none E w blocked_dir name of
              None \<Rightarrow> (Inr None, w)
            | Some blocked_document \<Rightarrow>
           (case read_task_document_or_none E w done_dir name of
              None \<Rightarrow> (Inr None, w)
            | Some done_document \<Rightarrow>
           (case effective_root_spec_task blocked_document of
              None \<Rightarrow> (Inr None, w)
            | Some blocked_root \<Rightarrow>
                if Some blocked_root \<noteq> effective_root_spec_task done_document then (Inr None, w)
                else
                  (let archive_dir = SubDir blocked_dir ''superseded'';
                       archive_name = superseded_task_name E w archive_dir task_id;
                       w1 = fs_rename w blocked_dir name archive_dir archive_name
                   in (Inr (Some (archive_dir, archive_name)),
                       fs_append w1 archive_dir ''retirements.jsonl''
                         (JObject
                           [(''archive_path'', JString (workspace_relative_path (archive_dir, archive_name))),
                            (''archived_at'', JString (env_now E)),
                            (''reason'', JString ''same_id_done_continuation''),
                            (''root_spec_id'', JString blocked_root),
                            (''source_path'', JString (workspace_relative_path (blocked_dir, name))),
                            (''task_id'', JString task_id)])))))))"

definition task_id_for_path :: "env \<Rightarrow> fs \<Rightarrow> dir \<Rightarrow> string \<Rightarrow> string" where
  "task_id_for_path E w d n =
     (case read_task_document_or_none E w d n of Some doc \<Rightarrow> td_task_id doc | None \<Rightarrow> file_stem n)"

definition task_lifecycle_directories :: "(string \<times> dir) list" where
  "task_lifecycle_directories =
     [(''queue'', WorkDir WorkItemKind.Task QueueState), (''active'', WorkDir WorkItemKind.Task ActiveState),
      (''done'', WorkDir WorkItemKind.Task DoneState), (''blocked'', WorkDir WorkItemKind.Task BlockedState)]"

text \<open>All \<open>(task id, state, path)\<close> entries in scan order, then the ids with more than one entry in
  the order of the map's keys.\<close>

definition task_lifecycle_entries :: "env \<Rightarrow> fs \<Rightarrow> (string \<times> string \<times> path) list" where
  "task_lifecycle_entries E w =
     concat (map (\<lambda>(state, d).
       map (\<lambda>n. (task_id_for_path E w d n, state, (d, n))) (list_markdown_files w d))
       task_lifecycle_directories)"

definition find_duplicate_task_lifecycle_ids ::
  "env \<Rightarrow> fs \<Rightarrow> (string \<times> (string \<times> path) list) list" where
  "find_duplicate_task_lifecycle_ids E w =
     (let entries = task_lifecycle_entries E w;
          group = (\<lambda>i. map snd (filter (\<lambda>e. fst e = i) entries))
      in map (\<lambda>i. (i, group i))
           (filter (\<lambda>i. 1 < length (group i)) (sort (remdups (map fst entries)))))"

section \<open>Marking and requeueing\<close>

definition mark_task_done :: "env \<Rightarrow> string \<Rightarrow> path qop" where
  "mark_task_done E task_id =
     qbind (move_item (WorkDir WorkItemKind.Task ActiveState) (WorkDir WorkItemKind.Task DoneState)
              task_id WorkItemKind.Task) (\<lambda>destination.
     qbind (retire_stale_blocked_task_duplicate_after_done E task_id) (\<lambda>_.
       qreturn destination))"

definition mark_task_blocked :: "string \<Rightarrow> path qop" where
  "mark_task_blocked task_id =
     move_item (WorkDir WorkItemKind.Task ActiveState) (WorkDir WorkItemKind.Task BlockedState)
       task_id WorkItemKind.Task"

definition mark_spec_done :: "string \<Rightarrow> path qop" where
  "mark_spec_done spec_id =
     move_item (WorkDir WorkItemKind.Spec ActiveState) (WorkDir WorkItemKind.Spec DoneState)
       spec_id WorkItemKind.Spec"

definition mark_spec_blocked :: "string \<Rightarrow> path qop" where
  "mark_spec_blocked spec_id =
     move_item (WorkDir WorkItemKind.Spec ActiveState) (WorkDir WorkItemKind.Spec BlockedState)
       spec_id WorkItemKind.Spec"

definition mark_probe_done :: "string \<Rightarrow> path qop" where
  "mark_probe_done probe_id =
     move_item (WorkDir WorkItemKind.Probe ActiveState) (WorkDir WorkItemKind.Probe DoneState)
       probe_id WorkItemKind.Probe"

definition mark_probe_blocked :: "string \<Rightarrow> path qop" where
  "mark_probe_blocked probe_id =
     move_item (WorkDir WorkItemKind.Probe ActiveState) (WorkDir WorkItemKind.Probe BlockedState)
       probe_id WorkItemKind.Probe"

definition mark_incident_resolved :: "string \<Rightarrow> path qop" where
  "mark_incident_resolved incident_id =
     move_item (WorkDir WorkItemKind.Incident ActiveState) (WorkDir WorkItemKind.Incident DoneState)
       incident_id WorkItemKind.Incident"

definition mark_incident_blocked :: "string \<Rightarrow> path qop" where
  "mark_incident_blocked incident_id =
     move_item (WorkDir WorkItemKind.Incident ActiveState) (WorkDir WorkItemKind.Incident BlockedState)
       incident_id WorkItemKind.Incident"

definition mark_learning_request_done :: "string \<Rightarrow> path qop" where
  "mark_learning_request_done learning_request_id =
     move_item (WorkDir WorkItemKind.LearningRequest ActiveState)
       (WorkDir WorkItemKind.LearningRequest DoneState) learning_request_id WorkItemKind.LearningRequest"

definition mark_learning_request_blocked :: "string \<Rightarrow> path qop" where
  "mark_learning_request_blocked learning_request_id =
     move_item (WorkDir WorkItemKind.LearningRequest ActiveState)
       (WorkDir WorkItemKind.LearningRequest BlockedState) learning_request_id WorkItemKind.LearningRequest"

definition requeue_task :: "env \<Rightarrow> string \<Rightarrow> string \<Rightarrow> path qop" where
  "requeue_task E task_id reason =
     qbind (move_item (WorkDir WorkItemKind.Task ActiveState) (WorkDir WorkItemKind.Task QueueState)
              task_id WorkItemKind.Task) (\<lambda>destination.
     qbind (append_requeue_reason E (WorkDir WorkItemKind.Task QueueState) task_id WorkItemKind.Task reason)
       (\<lambda>_. qreturn destination))"

definition requeue_blocked_task ::
  "env \<Rightarrow> string \<Rightarrow> string \<Rightarrow> string \<Rightarrow> bool \<Rightarrow> string option \<Rightarrow> nat option \<Rightarrow> path qop" where
  "requeue_blocked_task E task_id reason actor auto failure_class attempt_number =
     qbind (qlift (validate_blocked_requeue_audit reason actor attempt_number)) (\<lambda>_.
     qbind (move_item_from_state (WorkDir WorkItemKind.Task BlockedState)
              (WorkDir WorkItemKind.Task QueueState) task_id WorkItemKind.Task ''blocked'') (\<lambda>destination.
     qbind (append_blocked_requeue_audit E (WorkDir WorkItemKind.Task QueueState) task_id reason actor auto
              failure_class attempt_number)
       (\<lambda>_. qreturn destination)))"

definition requeue_spec :: "env \<Rightarrow> string \<Rightarrow> string \<Rightarrow> path qop" where
  "requeue_spec E spec_id reason =
     qbind (move_item (WorkDir WorkItemKind.Spec ActiveState) (WorkDir WorkItemKind.Spec QueueState)
              spec_id WorkItemKind.Spec) (\<lambda>destination.
     qbind (append_requeue_reason E (WorkDir WorkItemKind.Spec QueueState) spec_id WorkItemKind.Spec reason)
       (\<lambda>_. qreturn destination))"

definition requeue_probe :: "env \<Rightarrow> string \<Rightarrow> string \<Rightarrow> path qop" where
  "requeue_probe E probe_id reason =
     qbind (move_item (WorkDir WorkItemKind.Probe ActiveState) (WorkDir WorkItemKind.Probe QueueState)
              probe_id WorkItemKind.Probe) (\<lambda>destination.
     qbind (append_requeue_reason E (WorkDir WorkItemKind.Probe QueueState) probe_id WorkItemKind.Probe reason)
       (\<lambda>_. qreturn destination))"

definition requeue_incident :: "env \<Rightarrow> string \<Rightarrow> string \<Rightarrow> path qop" where
  "requeue_incident E incident_id reason =
     qbind (move_item (WorkDir WorkItemKind.Incident ActiveState) (WorkDir WorkItemKind.Incident QueueState)
              incident_id WorkItemKind.Incident) (\<lambda>destination.
     qbind (append_requeue_reason E (WorkDir WorkItemKind.Incident QueueState) incident_id
              WorkItemKind.Incident reason)
       (\<lambda>_. qreturn destination))"

definition requeue_learning_request :: "env \<Rightarrow> string \<Rightarrow> string \<Rightarrow> path qop" where
  "requeue_learning_request E learning_request_id reason =
     qbind (move_item (WorkDir WorkItemKind.LearningRequest ActiveState)
              (WorkDir WorkItemKind.LearningRequest QueueState) learning_request_id
              WorkItemKind.LearningRequest) (\<lambda>destination.
     qbind (append_requeue_reason E (WorkDir WorkItemKind.LearningRequest QueueState) learning_request_id
              WorkItemKind.LearningRequest reason)
       (\<lambda>_. qreturn destination))"

definition move_blueprint_draft ::
  "env \<Rightarrow> string \<Rightarrow> Lifecycle \<Rightarrow> Lifecycle \<Rightarrow> BlueprintDraftStatus \<Rightarrow> path qop" where
  "move_blueprint_draft E draft_id source_state target_state status w =
     (let source = WorkDir WorkItemKind.BlueprintDraft source_state;
          destination = WorkDir WorkItemKind.BlueprintDraft target_state;
          name = json_name draft_id in
      (case fs_lookup w source name of
         None \<Rightarrow> (Inl (InvalidState (''active blueprint draft '' @ draft_id @ '' not found'')), w)
       | Some c \<Rightarrow>
           if fs_exists w destination name
           then (Inl (InvalidState (''blueprint draft '' @ draft_id @ '' already exists'')), w)
           else
             qbind (qlift (read_blueprint_draft E (source, name) c)) (\<lambda>draft.
             qbind (write_unique_json_document E destination name (draft\<lparr>bd_status := status\<rparr>)) (\<lambda>_.
             qbind (qmodify (\<lambda>w. fs_remove w source name)) (\<lambda>_.
               qreturn (destination, name)))) w))"

definition approve_active_blueprint_draft :: "env \<Rightarrow> string \<Rightarrow> path qop" where
  "approve_active_blueprint_draft E draft_id =
     move_blueprint_draft E draft_id ActiveState DoneState BlueprintDraftStatus.Approved"

definition block_active_blueprint_draft :: "env \<Rightarrow> string \<Rightarrow> path qop" where
  "block_active_blueprint_draft E draft_id =
     move_blueprint_draft E draft_id ActiveState BlockedState BlueprintDraftStatus.Blocked"

definition requeue_active_blueprint_draft :: "env \<Rightarrow> string \<Rightarrow> path qop" where
  "requeue_active_blueprint_draft E draft_id =
     move_blueprint_draft E draft_id ActiveState QueueState BlueprintDraftStatus.Queued"

section \<open>Stale active state\<close>

record StaleActiveState =
  is_stale :: bool
  stale_reasons :: "string list"

definition stale_state :: "string list \<Rightarrow> StaleActiveState" where
  "stale_state reasons =
     (let rs = sort (remdups reasons) in \<lparr>is_stale = (rs \<noteq> []), stale_reasons = rs\<rparr>)"

definition detect_execution_stale_state :: "fs \<Rightarrow> string option \<Rightarrow> StaleActiveState" where
  "detect_execution_stale_state w snapshot_active_task_id =
     (let active_ids = ids_in_directory w (WorkDir WorkItemKind.Task ActiveState);
          queued_ids = ids_in_directory w (WorkDir WorkItemKind.Task QueueState)
      in stale_state
        ((if 1 < length active_ids then [''multiple_active_items''] else [])
         @ (if active_ids \<noteq> [] \<and> snapshot_active_task_id = None then [''active_without_snapshot''] else [])
         @ (case snapshot_active_task_id of
              None \<Rightarrow> []
            | Some i \<Rightarrow>
                (if i \<in> set queued_ids then [''snapshot_points_to_queued_item''] else [])
                @ (if active_ids = [] then [''snapshot_without_active_artifact'']
                   else if length active_ids = 1 \<and> hd active_ids \<noteq> i
                   then [''snapshot_active_id_mismatch''] else []))))"

definition detect_planning_stale_state ::
  "fs \<Rightarrow> WorkItemKind option \<Rightarrow> string option \<Rightarrow> QueueStoreError + StaleActiveState" where
  "detect_planning_stale_state w snapshot_active_kind snapshot_active_item_id =
     (if (snapshot_active_kind \<noteq> None) \<noteq> (snapshot_active_item_id \<noteq> None)
      then Inl (InvalidState
             ''snapshot_active_kind and snapshot_active_item_id must be set together'')
      else if (case snapshot_active_kind of
                 None \<Rightarrow> False
               | Some k \<Rightarrow> k \<notin> {WorkItemKind.Probe, WorkItemKind.Spec, WorkItemKind.Incident})
      then Inl (InvalidState
             ''planning stale-state checks only support probe, spec, and incident kinds'')
      else
        (let active_items =
               map (Pair WorkItemKind.Probe) (ids_in_directory w (WorkDir WorkItemKind.Probe ActiveState))
               @ map (Pair WorkItemKind.Spec) (ids_in_directory w (WorkDir WorkItemKind.Spec ActiveState))
               @ map (Pair WorkItemKind.Incident)
                   (ids_in_directory w (WorkDir WorkItemKind.Incident ActiveState))
         in Inr (stale_state
          ((if 1 < length active_items then [''multiple_active_items''] else [])
           @ (if active_items \<noteq> [] \<and> snapshot_active_item_id = None
              then [''active_without_snapshot''] else [])
           @ (case (snapshot_active_kind, snapshot_active_item_id) of
                (Some kind, Some i) \<Rightarrow>
                  (let queued_ids =
                     (if kind = WorkItemKind.Probe \<or> kind = WorkItemKind.Spec \<or> kind = WorkItemKind.Incident
                      then ids_in_directory w (WorkDir kind QueueState) else [])
                   in (if i \<in> set queued_ids then [''snapshot_points_to_queued_item''] else [])
                      @ (if active_items = [] then [''snapshot_without_active_artifact'']
                         else if length active_items = 1 \<and> hd active_items \<noteq> (kind, i)
                         then [''snapshot_active_id_mismatch''] else []))
              | _ \<Rightarrow> [])))))"

definition detect_learning_stale_state :: "fs \<Rightarrow> string option \<Rightarrow> StaleActiveState" where
  "detect_learning_stale_state w snapshot_active_learning_request_id =
     (let active_ids = ids_in_directory w (WorkDir WorkItemKind.LearningRequest ActiveState);
          queued_ids = ids_in_directory w (WorkDir WorkItemKind.LearningRequest QueueState)
      in stale_state
        ((if 1 < length active_ids then [''multiple_active_items''] else [])
         @ (if active_ids \<noteq> [] \<and> snapshot_active_learning_request_id = None
            then [''active_without_snapshot''] else [])
         @ (case snapshot_active_learning_request_id of
              None \<Rightarrow> []
            | Some i \<Rightarrow>
                (if i \<in> set queued_ids then [''snapshot_points_to_queued_item''] else [])
                @ (if active_ids = [] then [''snapshot_without_active_artifact'']
                   else if length active_ids = 1 \<and> hd active_ids \<noteq> i
                   then [''snapshot_active_id_mismatch''] else []))))"

end
