(* ===== verification/Queue_Scan.thy ===== *)
theory Queue_Scan
  imports Queue_Store
begin

text \<open>
  What the listing loops of the queue store do: the quarantine of one unreadable file
  (\<^verbatim>\<open>quarantine_invalid_artifact\<close>), and the scan of a queue directory that every
  \<open>select_oldest_*\<close> function runs. \<open>readable\<close> is the specification of the file a scan accepts; the
  lemmas say which candidates a scan yields, which files it moves away, and that it touches
  nothing else.
\<close>

section \<open>Quarantine names\<close>

lemma quarantine_name_md:
  assumes "file_extension n = Some ''md''"
  shows "quarantine_name n k = (if k = 0 then n @ ''.invalid'' else n @ ''.invalid.'' @ show_nat k)"
proof -
  from md_file_name [OF assms] have "n = file_stem n @ ''.md''" by (simp add: md_name_def)
  then have "file_stem n @ ''.md.invalid'' = n @ ''.invalid''"
    and "file_stem n @ ''.md.invalid.'' @ show_nat k = n @ ''.invalid.'' @ show_nat k"
    by (metis append.assoc append_Cons append_Nil)+
  then show ?thesis by (simp add: quarantine_name_def assms with_extension_def Let_def)
qed

lemma digit_char_not_dot: "d < 10 \<Longrightarrow> digit_char d \<noteq> CHR ''.''"
  by (auto simp: digit_char_def char_of_eq_iff take_bit_eq_mod)

lemma digit_char_not_d: "d < 10 \<Longrightarrow> digit_char d \<noteq> CHR ''d''"
  by (auto simp: digit_char_def char_of_eq_iff take_bit_eq_mod)

lemma show_nat_chars: "c \<in> set (show_nat n) \<Longrightarrow> \<exists>d<10. c = digit_char d"
proof (induction n rule: show_nat.induct)
  case (1 n)
  then show ?case
  proof (cases "n < 10")
    case True
    with 1(2) show ?thesis by (subst (asm) show_nat.simps) auto
  next
    case False
    with 1(2) have "c \<in> set (show_nat (n div 10)) \<or> c = digit_char (n mod 10)"
      by (subst (asm) show_nat.simps) auto
    with 1(1) [OF False] show ?thesis by (auto intro: exI [of _ "n mod 10"])
  qed
qed

lemma quarantine_name_extension:
  assumes "file_extension n = Some ''md''"
  shows "file_extension (quarantine_name n k) \<noteq> Some ''md''"
proof (cases "k = 0")
  case True
  have "file_extension (n @ ''.'' @ ''invalid'') = Some ''invalid''"
    using split_file_at_dot_ext [of n "''invalid''"] assms
    by (cases "n = []") (auto simp: file_extension_def split_file_at_dot_def)
  with True show ?thesis by (simp add: quarantine_name_md [OF assms])
next
  case False
  have "CHR ''.'' \<notin> set (show_nat k)" using show_nat_chars digit_char_not_dot by metis
  then have "file_extension ((n @ ''.invalid'') @ ''.'' @ show_nat k) = Some (show_nat k)"
    unfolding file_extension_def by (subst split_file_at_dot_ext) auto
  moreover have "show_nat k \<noteq> ''md''"
    using show_nat_chars [of "CHR ''d''" k] digit_char_not_d by force
  ultimately show ?thesis using False by (simp add: quarantine_name_md [OF assms])
qed

lemma quarantine_name_not_md_name:
  assumes "file_extension n = Some ''md''"
  shows "quarantine_name n k \<noteq> md_name i"
proof (cases "i = []")
  case True
  have "4 \<le> length n" using md_file_name [OF assms] by (cases "file_stem n") (auto simp: md_name_def)
  then have "3 < length (quarantine_name n k)" by (simp add: quarantine_name_md [OF assms])
  with True show ?thesis by (auto simp: md_name_def)
next
  case False
  then show ?thesis using quarantine_name_extension [OF assms] md_name_parts(2) by metis
qed

lemma quarantine_name_inject:
  assumes "file_extension n = Some ''md''"
  shows "quarantine_name n j = quarantine_name n k \<longleftrightarrow> j = k"
  by (auto simp: quarantine_name_md [OF assms] show_nat_inject)

lemma free_quarantine_name_Some:
  "free_quarantine_name fuel w d n k = Some x \<Longrightarrow>
     \<not> fs_exists w d x \<and> (\<exists>j. x = quarantine_name n j)"
  by (induction fuel arbitrary: k) (auto split: if_splits)

lemma free_quarantine_name_None:
  "free_quarantine_name fuel w d n k = None \<Longrightarrow> j < fuel \<Longrightarrow> fs_exists w d (quarantine_name n (k + j))"
proof (induction fuel arbitrary: k j)
  case (Suc fuel)
  then show ?case by (cases j) (auto split: if_splits dest: Suc.IH [of "Suc k"])
qed simp

text \<open>One more attempt than the directory has files always finds a free name.\<close>

lemma free_quarantine_name_enough:
  assumes "file_extension n = Some ''md''"
  shows "\<exists>x. free_quarantine_name (Suc (length (w d))) w d n k = Some x"
proof (rule ccontr)
  let ?F = "Suc (length (w d))"
  assume "\<not> ?thesis"
  then have "free_quarantine_name ?F w d n k = None" by (meson not_None_eq)
  then have ex: "fs_exists w d (quarantine_name n (k + j))" if "j < ?F" for j
    using that by (rule free_quarantine_name_None)
  have sub: "(\<lambda>j. quarantine_name n (k + j)) ` {..<?F} \<subseteq> fst ` set (w d)"
  proof
    fix x assume "x \<in> (\<lambda>j. quarantine_name n (k + j)) ` {..<?F}"
    then obtain j where "j < ?F" and x: "x = quarantine_name n (k + j)" by blast
    from ex [OF this(1)] have "map_of (w d) x \<noteq> None" by (simp add: x fs_exists_def fs_lookup_def)
    then show "x \<in> fst ` set (w d)" by (simp add: map_of_eq_None_iff)
  qed
  have "card ((\<lambda>j. quarantine_name n (k + j)) ` {..<?F}) = ?F"
    by (subst card_image) (auto simp: inj_on_def quarantine_name_inject [OF assms])
  moreover have "card (fst ` set (w d)) \<le> length (w d)"
    using card_image_le [of "set (w d)" fst] card_length [of "w d"] by simp
  ultimately show False using card_mono [OF _ sub] by simp
qed

section \<open>Quarantine of one file\<close>

definition invalid_log :: string where
  "invalid_log = ''invalid-artifacts.jsonl''"

lemma digit_char_not_l: "d < 10 \<Longrightarrow> digit_char d \<noteq> CHR ''l''"
  by (auto simp: digit_char_def char_of_eq_iff take_bit_eq_mod)

lemma quarantine_name_not_log:
  assumes "file_extension n = Some ''md''"
  shows "quarantine_name n k \<noteq> invalid_log"
proof
  assume "quarantine_name n k = invalid_log"
  then have l: "last (quarantine_name n k) = CHR ''l''" by (simp add: invalid_log_def)
  show False
  proof (cases "k = 0")
    case False
    with l have "CHR ''l'' \<in> set (show_nat k)"
      using last_in_set [of "show_nat k"] by (simp add: quarantine_name_md [OF assms])
    then show False using show_nat_chars digit_char_not_l by metis
  qed (use l in \<open>simp add: quarantine_name_md [OF assms]\<close>)
qed

lemma invalid_log_extension: "file_extension invalid_log = Some ''jsonl''"
  by code_simp

lemma invalid_log_not_md: "file_extension n = Some ''md'' \<Longrightarrow> n \<noteq> invalid_log"
  using invalid_log_extension by auto

lemma quarantine_effect:
  assumes n: "file_extension n = Some ''md''" and ex: "fs_lookup w d n = Some c"
  obtains x where "\<not> fs_exists w d x" and "\<forall>i. x \<noteq> md_name i" and "x \<noteq> invalid_log"
    and "file_extension x \<noteq> Some ''md''"
    and "quarantine_invalid_artifact E d n err w =
       fs_append (fs_rename w d n d x) d invalid_log
         (JObject [(''at'', JString (env_now E)), (''error'', JString err),
                   (''quarantine_name'', JString x), (''source_name'', JString n)])"
proof -
  obtain x where x: "free_quarantine_name (Suc (length (w d))) w d n 0 = Some x"
    using free_quarantine_name_enough [OF n] by blast
  show thesis
  proof (rule that)
    show "\<not> fs_exists w d x" "\<forall>i. x \<noteq> md_name i" "x \<noteq> invalid_log" "file_extension x \<noteq> Some ''md''"
      using free_quarantine_name_Some [OF x] quarantine_name_not_md_name [OF n] quarantine_name_not_log [OF n]
        quarantine_name_extension [OF n] by auto
  qed (simp add: quarantine_invalid_artifact_def x ex fs_exists_def invalid_log_def
      del: free_quarantine_name.simps)
qed

lemma quarantine_other_dir:
  "d' \<noteq> d \<Longrightarrow> fs_lookup (quarantine_invalid_artifact E d n err w) d' m = fs_lookup w d' m"
  by (auto simp: quarantine_invalid_artifact_def fs_lookup_append_other fs_rename_def
      split: option.splits)

lemma quarantine_lookup_md:
  assumes "file_extension n = Some ''md''" and "file_extension m = Some ''md''"
    and "fs_lookup w d n = Some c"
  shows "fs_lookup (quarantine_invalid_artifact E d n err w) d m =
     (if m = n then None else fs_lookup w d m)"
proof -
  obtain x where x: "\<forall>i. x \<noteq> md_name i"
    and q: "quarantine_invalid_artifact E d n err w =
       fs_append (fs_rename w d n d x) d invalid_log
         (JObject [(''at'', JString (env_now E)), (''error'', JString err),
                   (''quarantine_name'', JString x), (''source_name'', JString n)])"
    by (rule quarantine_effect [OF assms(1,3)])
  from x md_file_name [OF assms(2)] have "m \<noteq> x" by metis
  with assms invalid_log_not_md [OF assms(2)] show ?thesis
    by (simp add: q fs_lookup_append_other store.lookup_move)
qed

section \<open>The scan\<close>

text \<open>The document a scan reads from a file: it parses and its id is the name of the file.\<close>

definition readable ::
  "env \<Rightarrow> (file_content \<Rightarrow> string \<Rightarrow> WorkDocumentError + 'd) \<Rightarrow> ('d \<Rightarrow> string) \<Rightarrow> fs \<Rightarrow> dir \<Rightarrow> string
   \<Rightarrow> 'd option" where
  "readable E parse id_of w d n =
     (case fs_lookup w d n of
        None \<Rightarrow> None
      | Some c \<Rightarrow>
          (case parse c (path_display E (d, n)) of
             Inl _ \<Rightarrow> None
           | Inr doc \<Rightarrow> if file_stem n = id_of doc then Some doc else None))"

lemma readable_cong: "fs_lookup w d n = fs_lookup w' d n \<Longrightarrow>
    readable E parse id_of w d n = readable E parse id_of w' d n"
  by (simp add: readable_def)

lemma scan_other_dir:
  "d' \<noteq> d \<Longrightarrow>
     fs_lookup (snd (scan_documents E d parse field id_of ts_of keep ns w)) d' m = fs_lookup w d' m"
  by (induction E d parse field id_of ts_of keep ns w rule: scan_documents.induct)
    (auto simp: Let_def quarantine_other_dir split: option.splits sum.splits prod.splits)

lemma scan_documents_spec:
  assumes "distinct ns" and "\<forall>n\<in>set ns. file_extension n = Some ''md''"
  shows "(\<forall>m. file_extension m = Some ''md'' \<longrightarrow>
            fs_lookup (snd (scan_documents E d parse field id_of ts_of keep ns w)) d m =
              (if m \<in> set ns \<and> readable E parse id_of w d m = None then None else fs_lookup w d m))
    \<and> set (fst (scan_documents E d parse field id_of ts_of keep ns w)) =
        {(ts_of doc, id_of doc, n) | n doc.
           n \<in> set ns \<and> readable E parse id_of w d n = Some doc \<and> keep doc}"
  using assms
proof (induction ns arbitrary: w)
  case Nil
  then show ?case by simp
next
  case (Cons n ns)
  let ?scan = "scan_documents E d parse field id_of ts_of keep"
  let ?r = "readable E parse id_of"
  have n: "file_extension n = Some ''md''" "n \<notin> set ns"
    and ns: "distinct ns" "\<forall>n\<in>set ns. file_extension n = Some ''md''" using Cons.prems by auto
  note IH = Cons.IH [OF ns]
  have skip: ?case if "?scan (n # ns) w = ?scan ns w" and "?r w d n = None \<longrightarrow> fs_lookup w d n = None"
    and "\<forall>doc. ?r w d n = Some doc \<longrightarrow> \<not> keep doc"
    using IH [of w] that n by auto
  have bad: ?case if "?scan (n # ns) w = ?scan ns (quarantine_invalid_artifact E d n err w)"
    and ex: "fs_lookup w d n = Some c" and none: "?r w d n = None" for err c
  proof -
    let ?w1 = "quarantine_invalid_artifact E d n err w"
    have look: "fs_lookup ?w1 d m = (if m = n then None else fs_lookup w d m)"
      if "file_extension m = Some ''md''" for m
      by (rule quarantine_lookup_md [OF n(1) that ex])
    have r: "?r ?w1 d m = ?r w d m" if "m \<in> set ns" for m
      using that ns n by (intro readable_cong) (auto simp: look)
    have s: "{(ts_of doc, id_of doc, m) | m doc. m \<in> set ns \<and> ?r ?w1 d m = Some doc \<and> keep doc} =
        {(ts_of doc, id_of doc, m) | m doc. m \<in> set (n # ns) \<and> ?r w d m = Some doc \<and> keep doc}"
      using r none by auto
    show ?thesis
      unfolding that(1) using IH [of ?w1] n none by (auto simp: look r s)
  qed
  show ?case
  proof (cases "fs_lookup w d n")
    case None
    then show ?thesis by (intro skip) (auto simp: readable_def)
  next
    case (Some c)
    show ?thesis
    proof (cases "parse c (path_display E (d, n))")
      case (Inl e)
      with Some show ?thesis by (intro bad) (auto simp: readable_def)
    next
      case (Inr doc)
      show ?thesis
      proof (cases "file_stem n = id_of doc")
        case False
        with Some Inr show ?thesis by (intro bad) (auto simp: readable_def Let_def)
      next
        case stem: True
        then have rd: "?r w d n = Some doc" using Some Inr by (simp add: readable_def)
        show ?thesis
        proof (cases "keep doc")
          case False
          with Some Inr stem rd show ?thesis by (intro skip) auto
        next
          case True
          with Some Inr stem IH [of w] rd n show ?thesis
            by (auto split: prod.splits)
        qed
      qed
    qed
  qed
qed

end
