(* ===== verification/Queue_Interventions.thy ===== *)
theory Queue_Interventions
  imports Queue_Store
begin

text \<open>
  Operator interventions on queued, blocked and invalid work, from
  \<^verbatim>\<open>src/src/workspace/queue_store.rs\<close>: cancelling and archiving items, superseding a task with a
  cascade over its queued dependents, retargeting a dependency, resolving and cancelling
  incidents, archiving an invalid artifact. Each operation moves or rewrites one item, then
  appends an \<open>OperatorInterventionRecord\<close> to the ledger of the directory and an event to the
  runtime log.

  The process-wide \<^verbatim>\<open>INTERVENTION_COUNTER\<close> is the argument \<open>counter\<close>: the suffix of an archive
  name is \<open>env_suffix E counter\<close>, and a cascade that archives several items counts up.
\<close>

section \<open>Actions, context and records\<close>

datatype MailboxSupersedeCascade = NoCascade | Retarget | CancelDependents

datatype OperatorInterventionAction =
    Cancel
  | ArchiveBlockedTask
  | Supersede
  | RetargetDependency
  | ResolveIncident
  | CancelIncident
  | ArchiveInvalidIncident

primrec OperatorInterventionAction_as_str :: "OperatorInterventionAction \<Rightarrow> string" where
  "OperatorInterventionAction_as_str Cancel = ''cancel''"
| "OperatorInterventionAction_as_str ArchiveBlockedTask = ''archive_blocked_task''"
| "OperatorInterventionAction_as_str Supersede = ''supersede''"
| "OperatorInterventionAction_as_str RetargetDependency = ''retarget_dependency''"
| "OperatorInterventionAction_as_str ResolveIncident = ''resolve_incident''"
| "OperatorInterventionAction_as_str CancelIncident = ''cancel_incident''"
| "OperatorInterventionAction_as_str ArchiveInvalidIncident = ''archive_invalid_incident''"

record OperatorInterventionContext =
  oc_actor :: string
  oc_issued_at :: "Timestamp option"
  oc_applied_at :: "Timestamp option"

definition OperatorInterventionContext_new :: "string \<Rightarrow> OperatorInterventionContext" where
  "OperatorInterventionContext_new actor =
     \<lparr>oc_actor = actor, oc_issued_at = None, oc_applied_at = None\<rparr>"

definition OperatorInterventionContext_with_timestamps ::
  "string \<Rightarrow> Timestamp \<Rightarrow> Timestamp \<Rightarrow> OperatorInterventionContext" where
  "OperatorInterventionContext_with_timestamps actor issued_at applied_at =
     \<lparr>oc_actor = actor, oc_issued_at = Some issued_at, oc_applied_at = Some applied_at\<rparr>"

record OperatorInterventionRecord =
  or_schema_version :: string
  or_kind :: string
  or_action :: string
  or_actor :: string
  or_reason :: string
  or_issued_at :: Timestamp
  or_applied_at :: Timestamp
  or_work_item_kind :: WorkItemKind
  or_work_item_id :: string
  or_source_state :: string
  or_destination_state :: string
  or_source_path :: string
  or_destination_path :: string
  or_replacement_work_item_id :: "string option"
  or_affected_dependents :: "string list"

definition record_json :: "OperatorInterventionRecord \<Rightarrow> (string \<times> json) list" where
  "record_json r =
     [(''schema_version'', JString (or_schema_version r)), (''kind'', JString (or_kind r)),
      (''action'', JString (or_action r)), (''actor'', JString (or_actor r)),
      (''reason'', JString (or_reason r)), (''issued_at'', JString (or_issued_at r)),
      (''applied_at'', JString (or_applied_at r)),
      (''work_item_kind'', JString (WorkItemKind_as_str (or_work_item_kind r))),
      (''work_item_id'', JString (or_work_item_id r)),
      (''source_state'', JString (or_source_state r)),
      (''destination_state'', JString (or_destination_state r)),
      (''source_path'', JString (or_source_path r)),
      (''destination_path'', JString (or_destination_path r)),
      (''replacement_work_item_id'',
        (case or_replacement_work_item_id r of None \<Rightarrow> JNull | Some i \<Rightarrow> JString i)),
      (''affected_dependents'', JArray (map JString (or_affected_dependents r)))]"

record OperatorInterventionResult =
  ir_action :: OperatorInterventionAction
  ir_work_item_kind :: WorkItemKind
  ir_work_item_id :: string
  ir_source_state :: string
  ir_destination_state :: string
  ir_source_path :: path
  ir_destination_path :: path
  ir_event_type :: string
  ir_replacement_work_item_id :: "string option"
  ir_affected_dependents :: "string list"
  ir_record :: OperatorInterventionRecord

definition OperatorInterventionResult_detail :: "OperatorInterventionResult \<Rightarrow> string" where
  "OperatorInterventionResult_detail r =
     ir_event_type r @ '': '' @ WorkItemKind_as_str (ir_work_item_kind r) @ '' '' @ ir_work_item_id r
     @ (case ir_replacement_work_item_id r of None \<Rightarrow> [] | Some i \<Rightarrow> '' replacement='' @ i)
     @ (if ir_affected_dependents r \<noteq> []
        then '' affected_dependents='' @ join_with '','' (ir_affected_dependents r) else [])"

record LocatedInterventionItem =
  li_work_item_kind :: WorkItemKind
  li_work_item_id :: string
  li_state :: string
  li_path :: path

section \<open>Cleaning the arguments\<close>

definition clean_reason :: "string \<Rightarrow> QueueStoreError + string" where
  "clean_reason reason =
     (if trim reason = [] then Inl (InvalidState ''reason is required'') else Inr (trim reason))"

definition clean_actor :: "string \<Rightarrow> QueueStoreError + string" where
  "clean_actor actor =
     (if trim actor = [] then Inl (InvalidState ''actor is required'') else Inr (trim actor))"

definition validate_single_relative_filename :: "string \<Rightarrow> QueueStoreError + string" where
  "validate_single_relative_filename filename =
     (if trim filename \<noteq> filename \<or> filename = [] \<or> CHR ''/'' \<in> set filename
         \<or> char_of (92::nat) \<in> set filename
      then Inl (InvalidState ''filename must be a single relative filename'')
      else Inr filename)"

definition check_intervention_id :: "string \<Rightarrow> string \<Rightarrow> QueueStoreError + string" where
  "check_intervention_id v field_name =
     map_err (\<lambda>e. InvalidState (ContractError_to_string e)) (validate_safe_identifier v field_name)"

definition offset_from_timestamp ::
  "env \<Rightarrow> string \<Rightarrow> Timestamp \<Rightarrow> QueueStoreError + OffsetDateTime" where
  "offset_from_timestamp E field_name ts =
     map_err (\<lambda>e. InvalidState (field_name @ '': '' @ e)) (env_rfc E ts)"

definition intervention_times ::
  "env \<Rightarrow> OperatorInterventionContext \<Rightarrow> QueueStoreError + Timestamp \<times> Timestamp \<times> OffsetDateTime" where
  "intervention_times E ctx =
     (let applied_at = (case oc_applied_at ctx of Some t \<Rightarrow> t | None \<Rightarrow> env_now E) in
      and_then (offset_from_timestamp E ''applied_at'' applied_at) (\<lambda>applied_offset.
      let issued_at = (case oc_issued_at ctx of Some t \<Rightarrow> t | None \<Rightarrow> applied_at) in
      and_then (offset_from_timestamp E ''issued_at'' issued_at) (\<lambda>_.
        Inr (issued_at, applied_at, applied_offset))))"

definition archive_suffix :: "env \<Rightarrow> nat \<Rightarrow> OffsetDateTime \<Rightarrow> string" where
  "archive_suffix E counter t = compact_timestamp t @ ''.'' @ env_suffix E counter"

section \<open>Records and events\<close>

definition build_intervention_record ::
  "OperatorInterventionAction \<Rightarrow> WorkItemKind \<Rightarrow> string \<Rightarrow> string \<Rightarrow> string \<Rightarrow> path \<Rightarrow> path \<Rightarrow> string \<Rightarrow>
   OperatorInterventionContext \<Rightarrow> Timestamp \<Rightarrow> Timestamp \<Rightarrow> string option \<Rightarrow> string list \<Rightarrow>
   QueueStoreError + OperatorInterventionRecord" where
  "build_intervention_record action kind item_id source_state destination_state source_path
       destination_path reason ctx issued_at applied_at replacement affected =
     and_then (clean_actor (oc_actor ctx)) (\<lambda>actor. Inr
       \<lparr>or_schema_version = ''1.0'', or_kind = ''operator_intervention'',
        or_action = OperatorInterventionAction_as_str action, or_actor = actor,
        or_reason = reason, or_issued_at = issued_at, or_applied_at = applied_at,
        or_work_item_kind = kind, or_work_item_id = item_id, or_source_state = source_state,
        or_destination_state = destination_state,
        or_source_path = workspace_relative_path source_path,
        or_destination_path = workspace_relative_path destination_path,
        or_replacement_work_item_id = replacement, or_affected_dependents = affected\<rparr>)"

definition append_intervention_record :: "dir \<Rightarrow> OperatorInterventionRecord \<Rightarrow> fs \<Rightarrow> fs" where
  "append_intervention_record d r w = fs_append w d ''interventions.jsonl'' (JObject (record_json r))"

definition write_operator_runtime_event :: "string \<Rightarrow> OperatorInterventionRecord \<Rightarrow> fs \<Rightarrow> fs" where
  "write_operator_runtime_event event_type r w =
     fs_append w LogsDir ''runtime_events.jsonl''
       (JObject [(''data'', JObject (sort_key fst (record_json r))), (''event_type'', JString event_type),
                 (''kind'', JString ''runtime_event''), (''occurred_at'', JString (or_applied_at r)),
                 (''schema_version'', JString ''1.0'')])"

section \<open>Locating the item\<close>

definition located_in ::
  "fs \<Rightarrow> WorkItemKind \<Rightarrow> string \<Rightarrow> (string \<times> dir) list \<Rightarrow> LocatedInterventionItem list" where
  "located_in w kind item_id dirs =
     map (\<lambda>(state, d). \<lparr>li_work_item_kind = kind, li_work_item_id = item_id, li_state = state,
                         li_path = (d, md_name item_id)\<rparr>)
       (filter (\<lambda>(state, d). fs_exists w d (md_name item_id)) dirs)"

definition locate_cancelable_for_kind ::
  "fs \<Rightarrow> string \<Rightarrow> WorkItemKind \<Rightarrow> LocatedInterventionItem list" where
  "locate_cancelable_for_kind w item_id kind =
     located_in w kind item_id
       (if kind = WorkItemKind.LearningRequest \<or> kind = WorkItemKind.BlueprintDraft then []
        else [(if kind = WorkItemKind.Incident then ''incoming'' else ''queue'', WorkDir kind QueueState),
              (''blocked'', WorkDir kind BlockedState)])"

definition locate_cancelable_work_item ::
  "fs \<Rightarrow> string \<Rightarrow> WorkItemKind option \<Rightarrow> QueueStoreError + LocatedInterventionItem" where
  "locate_cancelable_work_item w item_id kind =
     (let kinds = (case kind of
            Some k \<Rightarrow> [k]
          | None \<Rightarrow> [WorkItemKind.Task, WorkItemKind.Probe, WorkItemKind.Spec, WorkItemKind.Incident])
      in (case concat (map (locate_cancelable_for_kind w item_id) kinds) of
            [] \<Rightarrow> Inl (InvalidState (''cancelable work item not found: '' @ item_id))
          | [c] \<Rightarrow> Inr c
          | _ \<Rightarrow> Inl (InvalidState (''work item id is ambiguous; pass --kind for '' @ item_id))))"

definition exactly_one ::
  "string \<Rightarrow> string list \<Rightarrow> LocatedInterventionItem list \<Rightarrow> QueueStoreError + LocatedInterventionItem" where
  "exactly_one subject states cands =
     (case cands of
        [] \<Rightarrow> Inl (InvalidState (subject @ '' is not in an allowed state: '' @ join_with '', '' states))
      | [c] \<Rightarrow> Inr c
      | _ \<Rightarrow> Inl (InvalidState (subject @ '' exists in multiple states'')))"

definition task_state_dir :: "string \<Rightarrow> QueueStoreError + dir" where
  "task_state_dir state =
     (if state = ''queue'' then Inr (WorkDir WorkItemKind.Task QueueState)
      else if state = ''active'' then Inr (WorkDir WorkItemKind.Task ActiveState)
      else if state = ''done'' then Inr (WorkDir WorkItemKind.Task DoneState)
      else if state = ''blocked'' then Inr (WorkDir WorkItemKind.Task BlockedState)
      else Inl (InvalidState (''unsupported task state: '' @ state)))"

definition incident_state_dir :: "string \<Rightarrow> QueueStoreError + dir" where
  "incident_state_dir state =
     (if state = ''incoming'' then Inr (WorkDir WorkItemKind.Incident QueueState)
      else if state = ''active'' then Inr (WorkDir WorkItemKind.Incident ActiveState)
      else if state = ''resolved'' then Inr (WorkDir WorkItemKind.Incident DoneState)
      else if state = ''blocked'' then Inr (WorkDir WorkItemKind.Incident BlockedState)
      else Inl (InvalidState (''unsupported incident state: '' @ state)))"

primrec state_dirs ::
  "(string \<Rightarrow> QueueStoreError + dir) \<Rightarrow> string list \<Rightarrow> QueueStoreError + (string \<times> dir) list" where
  "state_dirs f [] = Inr []"
| "state_dirs f (s # ss) = and_then (f s) (\<lambda>d. map_ok (\<lambda>ds. (s, d) # ds) (state_dirs f ss))"

definition locate_exact_task ::
  "fs \<Rightarrow> string \<Rightarrow> string list \<Rightarrow> QueueStoreError + LocatedInterventionItem" where
  "locate_exact_task w task_id states =
     and_then (state_dirs task_state_dir states) (\<lambda>dirs.
       exactly_one (''task '' @ task_id) states (located_in w WorkItemKind.Task task_id dirs))"

definition locate_incident ::
  "fs \<Rightarrow> string \<Rightarrow> string list \<Rightarrow> QueueStoreError + LocatedInterventionItem" where
  "locate_incident w incident_id states =
     and_then (state_dirs incident_state_dir states) (\<lambda>dirs.
       exactly_one (''incident '' @ incident_id) states
         (located_in w WorkItemKind.Incident incident_id dirs))"

definition require_replacement_task :: "fs \<Rightarrow> string \<Rightarrow> QueueStoreError + unit" where
  "require_replacement_task w task_id =
     (if list_ex (\<lambda>d. fs_exists w d (md_name task_id))
           [WorkDir WorkItemKind.Task QueueState, WorkDir WorkItemKind.Task ActiveState,
            WorkDir WorkItemKind.Task DoneState]
      then Inr ()
      else Inl (InvalidState (''replacement task is not queued, active, or done: '' @ task_id)))"

definition queued_dependents :: "env \<Rightarrow> fs \<Rightarrow> string \<Rightarrow> string list" where
  "queued_dependents E w old_task_id =
     (let d = WorkDir WorkItemKind.Task QueueState in
      map td_task_id
        (filter (\<lambda>task. old_task_id \<in> set (td_depends_on task))
           (List.map_filter (read_task_document_or_none E w d) (list_markdown_files w d))))"

section \<open>Archiving\<close>

definition archive_located_item ::
  "env \<Rightarrow> nat \<Rightarrow> LocatedInterventionItem \<Rightarrow> OperatorInterventionAction \<Rightarrow> string \<Rightarrow> string \<Rightarrow> string \<Rightarrow>
   string \<Rightarrow> OperatorInterventionContext \<Rightarrow> string option \<Rightarrow> string list \<Rightarrow> dir option \<Rightarrow>
   OperatorInterventionResult qop" where
  "archive_located_item E counter located action destination_state archive_name event_type reason ctx
       replacement affected explicit_archive_parent =
     qbind (qlift (clean_reason reason)) (\<lambda>cleaned_reason.
     qbind (qlift (intervention_times E ctx)) (\<lambda>(issued_at, applied_at, applied_offset).
       let archive_parent = (case explicit_archive_parent of Some d \<Rightarrow> d | None \<Rightarrow> fst (li_path located));
           archive_dir = SubDir archive_parent archive_name;
           destination = li_work_item_id located @ ''.'' @ archive_suffix E counter applied_offset
             @ ''.'' @ li_state located @ ''.md''
       in qbind (qget (\<lambda>w. fs_exists w archive_dir destination)) (\<lambda>taken.
            if taken
            then qfail (InvalidState (''archive destination already exists: ''
                   @ path_display E (archive_dir, destination)))
            else
              qbind (qmodify (\<lambda>w. fs_rename w (fst (li_path located)) (snd (li_path located))
                       archive_dir destination)) (\<lambda>_.
              qbind (qlift (build_intervention_record action (li_work_item_kind located)
                       (li_work_item_id located) (li_state located) destination_state (li_path located)
                       (archive_dir, destination) cleaned_reason ctx issued_at applied_at replacement
                       affected)) (\<lambda>rec.
              qbind (qmodify (\<lambda>w. write_operator_runtime_event event_type rec
                       (append_intervention_record archive_dir rec w))) (\<lambda>_.
                qreturn
                  \<lparr>ir_action = action, ir_work_item_kind = li_work_item_kind located,
                   ir_work_item_id = li_work_item_id located, ir_source_state = li_state located,
                   ir_destination_state = destination_state, ir_source_path = li_path located,
                   ir_destination_path = (archive_dir, destination), ir_event_type = event_type,
                   ir_replacement_work_item_id = replacement, ir_affected_dependents = affected,
                   ir_record = rec\<rparr>))))))"

definition cancel_work_item ::
  "env \<Rightarrow> nat \<Rightarrow> string \<Rightarrow> WorkItemKind option \<Rightarrow> string \<Rightarrow> OperatorInterventionContext \<Rightarrow> bool \<Rightarrow>
   OperatorInterventionResult qop" where
  "cancel_work_item E counter work_item_id work_item_kind reason ctx force =
     qbind (qlift (check_intervention_id work_item_id ''work_item_id'')) (\<lambda>_.
     qbind (\<lambda>w. (locate_cancelable_work_item w work_item_id work_item_kind, w)) (\<lambda>located.
       archive_located_item E counter located Cancel ''cancelled'' ''cancelled''
         ''work_item_cancelled'' reason ctx None [] None))"

definition archive_blocked_task ::
  "env \<Rightarrow> nat \<Rightarrow> string \<Rightarrow> string \<Rightarrow> OperatorInterventionContext \<Rightarrow> OperatorInterventionResult qop" where
  "archive_blocked_task E counter task_id reason ctx =
     qbind (qlift (check_intervention_id task_id ''task_id'')) (\<lambda>_.
     qbind (\<lambda>w. (locate_exact_task w task_id [''blocked''], w)) (\<lambda>located.
       archive_located_item E counter located ArchiveBlockedTask ''cancelled'' ''cancelled''
         ''blocked_task_archived'' reason ctx None [] None))"

definition resolve_incident_by_operator ::
  "env \<Rightarrow> nat \<Rightarrow> string \<Rightarrow> string \<Rightarrow> OperatorInterventionContext \<Rightarrow> OperatorInterventionResult qop" where
  "resolve_incident_by_operator E counter incident_id reason ctx =
     qbind (qlift (check_intervention_id incident_id ''incident_id'')) (\<lambda>_.
     qbind (\<lambda>w. (locate_incident w incident_id [''incoming'', ''active'', ''blocked''], w)) (\<lambda>located.
       archive_located_item E counter located ResolveIncident ''resolved'' ''operator''
         ''incident_resolved_by_operator'' reason ctx None []
         (Some (WorkDir WorkItemKind.Incident DoneState))))"

definition cancel_incident ::
  "env \<Rightarrow> nat \<Rightarrow> string \<Rightarrow> string \<Rightarrow> OperatorInterventionContext \<Rightarrow> OperatorInterventionResult qop" where
  "cancel_incident E counter incident_id reason ctx =
     qbind (qlift (check_intervention_id incident_id ''incident_id'')) (\<lambda>_.
     qbind (\<lambda>w. (locate_incident w incident_id [''incoming'', ''active'', ''blocked''], w)) (\<lambda>located.
       archive_located_item E counter located CancelIncident ''cancelled'' ''cancelled''
         ''incident_cancelled'' reason ctx None [] None))"

section \<open>Superseding and retargeting\<close>

definition retarget_queued_task_dependency ::
  "env \<Rightarrow> string \<Rightarrow> string \<Rightarrow> string \<Rightarrow> string \<Rightarrow> OperatorInterventionContext \<Rightarrow>
   OperatorInterventionResult qop" where
  "retarget_queued_task_dependency E task_id old_dependency_id new_dependency_id reason ctx =
     (let d = WorkDir WorkItemKind.Task QueueState; name = md_name task_id in
     qbind (qlift (check_intervention_id task_id ''task_id'')) (\<lambda>_.
     qbind (qlift (check_intervention_id old_dependency_id ''old_dependency_id'')) (\<lambda>_.
     qbind (qlift (check_intervention_id new_dependency_id ''new_dependency_id'')) (\<lambda>_.
     qbind (qlift (clean_reason reason)) (\<lambda>cleaned_reason.
     qbind (qlift (intervention_times E ctx)) (\<lambda>(issued_at, applied_at, applied_offset).
     qbind (qget (\<lambda>w. fs_lookup w d name)) (\<lambda>content.
       case content of
         None \<Rightarrow> qfail (InvalidState (''task '' @ task_id @ '' is not queued''))
       | Some c \<Rightarrow>
     qbind (\<lambda>w. (require_replacement_task w new_dependency_id, w)) (\<lambda>_.
     qbind (qlift (map_err (WorkDocumentFailure (d, name))
                     (parse_task_document_with_source E c (path_display E (d, name))))) (\<lambda>task.
       let old_count = length (filter (\<lambda>i. i = old_dependency_id) (td_depends_on task)) in
       if old_count = 0
       then qfail (InvalidState (''task '' @ task_id @ '' does not depend on '' @ old_dependency_id))
       else if 1 < old_count
       then qfail (InvalidState (''task '' @ task_id @ '' has duplicate dependency '' @ old_dependency_id))
       else
         (let updated = task\<lparr>td_depends_on :=
                map (\<lambda>i. if i = old_dependency_id then new_dependency_id else i) (td_depends_on task),
                td_updated_at := Some applied_at\<rparr>
          in qbind (write_document d name (TaskDoc updated)) (\<lambda>_.
             qbind (qlift (build_intervention_record RetargetDependency WorkItemKind.Task task_id
                      ''queue'' ''queue'' (d, name) (d, name) cleaned_reason ctx issued_at applied_at
                      (Some new_dependency_id) [task_id])) (\<lambda>rec.
             qbind (qmodify (\<lambda>w. write_operator_runtime_event ''task_dependency_retargeted'' rec
                      (append_intervention_record d rec w))) (\<lambda>_.
               qreturn
                 \<lparr>ir_action = RetargetDependency, ir_work_item_kind = WorkItemKind.Task,
                  ir_work_item_id = task_id, ir_source_state = ''queue'',
                  ir_destination_state = ''queue'', ir_source_path = (d, name),
                  ir_destination_path = (d, name), ir_event_type = ''task_dependency_retargeted'',
                  ir_replacement_work_item_id = Some new_dependency_id,
                  ir_affected_dependents = [task_id], ir_record = rec\<rparr>)))))))))))))"

primrec cascade_retarget ::
  "env \<Rightarrow> string \<Rightarrow> string \<Rightarrow> string \<Rightarrow> OperatorInterventionContext \<Rightarrow> string list \<Rightarrow> unit qop" where
  "cascade_retarget E old_id replacement_id reason ctx [] = qreturn ()"
| "cascade_retarget E old_id replacement_id reason ctx (i # is) =
     qbind (retarget_queued_task_dependency E i old_id replacement_id reason ctx) (\<lambda>_.
       cascade_retarget E old_id replacement_id reason ctx is)"

primrec cascade_cancel ::
  "env \<Rightarrow> nat \<Rightarrow> string \<Rightarrow> OperatorInterventionContext \<Rightarrow> string list \<Rightarrow> unit qop" where
  "cascade_cancel E counter reason ctx [] = qreturn ()"
| "cascade_cancel E counter reason ctx (i # is) =
     qbind (cancel_work_item E counter i (Some WorkItemKind.Task) reason ctx False) (\<lambda>_.
       cascade_cancel E (Suc counter) reason ctx is)"

definition supersede_task ::
  "env \<Rightarrow> nat \<Rightarrow> string \<Rightarrow> string \<Rightarrow> string \<Rightarrow> MailboxSupersedeCascade \<Rightarrow> OperatorInterventionContext \<Rightarrow>
   OperatorInterventionResult qop" where
  "supersede_task E counter old_task_id replacement_task_id reason cascade ctx =
     qbind (qlift (check_intervention_id old_task_id ''old_task_id'')) (\<lambda>_.
     qbind (qlift (check_intervention_id replacement_task_id ''replacement_task_id'')) (\<lambda>_.
     if old_task_id = replacement_task_id
     then qfail (InvalidState ''replacement task must be different from superseded task'')
     else
     qbind (\<lambda>w. (locate_exact_task w old_task_id [''blocked'', ''queue''], w)) (\<lambda>located.
     qbind (\<lambda>w. (require_replacement_task w replacement_task_id, w)) (\<lambda>_.
     qbind (qget (\<lambda>w. queued_dependents E w old_task_id)) (\<lambda>affected.
     qbind (archive_located_item E counter located Supersede ''superseded'' ''superseded''
              ''task_superseded'' reason ctx (Some replacement_task_id) affected None) (\<lambda>result.
     qbind (case cascade of
              NoCascade \<Rightarrow> qreturn ()
            | Retarget \<Rightarrow> cascade_retarget E old_task_id replacement_task_id reason ctx affected
            | CancelDependents \<Rightarrow> cascade_cancel E (Suc counter) reason ctx affected) (\<lambda>_.
       qreturn result)))))))"

section \<open>Invalid incident artifacts\<close>

fun text_contains :: "string \<Rightarrow> string \<Rightarrow> bool" where
  "text_contains [] pat = (pat = [])"
| "text_contains (c # s) pat = (take (length pat) (c # s) = pat \<or> text_contains s pat)"

definition invalid_artifacts_log_mentions :: "env \<Rightarrow> fs \<Rightarrow> string \<Rightarrow> bool" where
  "invalid_artifacts_log_mentions E w filename =
     (case fs_lookup w (WorkDir WorkItemKind.Incident QueueState) ''invalid-artifacts.jsonl'' of
        Some (Log rs) \<Rightarrow> list_ex (\<lambda>r. text_contains (env_json_text E r) filename) rs
      | _ \<Rightarrow> False)"

definition archive_invalid_incident_artifact ::
  "env \<Rightarrow> nat \<Rightarrow> string \<Rightarrow> string \<Rightarrow> OperatorInterventionContext \<Rightarrow> OperatorInterventionResult qop" where
  "archive_invalid_incident_artifact E counter filename reason ctx =
     (let d = WorkDir WorkItemKind.Incident QueueState; archive_dir = SubDir d ''invalid-archived'' in
     qbind (qlift (validate_single_relative_filename filename)) (\<lambda>source_name.
     qbind (qget (\<lambda>w. fs_exists w d source_name)) (\<lambda>found.
     if \<not> found
     then qfail (InvalidState (''invalid incident artifact not found: '' @ source_name))
     else
     qbind (qget (\<lambda>w. invalid_artifacts_log_mentions E w source_name)) (\<lambda>mentioned.
     if strip_suffix ''.invalid'' source_name = None \<and> \<not> mentioned
     then qfail (InvalidState
       ''invalid incident artifact must end with .invalid or be listed in invalid-artifacts.jsonl'')
     else
     qbind (qlift (clean_reason reason)) (\<lambda>cleaned_reason.
     qbind (qlift (intervention_times E ctx)) (\<lambda>(issued_at, applied_at, applied_offset).
       let destination = source_name @ ''.'' @ archive_suffix E counter applied_offset in
     qbind (qget (\<lambda>w. fs_exists w archive_dir destination)) (\<lambda>taken.
     if taken
     then qfail (InvalidState (''archive destination already exists: ''
            @ path_display E (archive_dir, destination)))
     else
     qbind (qmodify (\<lambda>w. fs_rename w d source_name archive_dir destination)) (\<lambda>_.
     qbind (qlift (build_intervention_record ArchiveInvalidIncident WorkItemKind.Incident source_name
              ''incoming_invalid'' ''archived'' (d, source_name) (archive_dir, destination)
              cleaned_reason ctx issued_at applied_at None [])) (\<lambda>rec.
     qbind (qmodify (\<lambda>w. write_operator_runtime_event ''invalid_incident_artifact_archived'' rec
              (append_intervention_record archive_dir rec w))) (\<lambda>_.
       qreturn
         \<lparr>ir_action = ArchiveInvalidIncident, ir_work_item_kind = WorkItemKind.Incident,
          ir_work_item_id = source_name, ir_source_state = ''incoming_invalid'',
          ir_destination_state = ''archived'', ir_source_path = (d, source_name),
          ir_destination_path = (archive_dir, destination),
          ir_event_type = ''invalid_incident_artifact_archived'', ir_replacement_work_item_id = None,
          ir_affected_dependents = [], ir_record = rec\<rparr>))))))))))"

end
