(* ===== verification/Queue_Board.thy ===== *)
theory Queue_Board
  imports Queue_Scan Queue_Interventions
begin

text \<open>
  The abstract specification of the queue store. The board of a workspace says, for every kind,
  lifecycle state and id, which document lies there; \<open>board_step\<close> gives the only ways it may
  change: a new item enters the queue under a fresh id, a queued item is claimed when its plane
  has nothing active, an active or blocked item is transferred (finished, blocked or requeued),
  an item that is not done is withdrawn (quarantined, archived or cancelled), a queued item is
  amended. The invariant of the board is proved from these rules alone; that every operation of
  the queue store refines \<open>board_step\<close> is the theory \<open>Queue_Refinement\<close>.
\<close>

section \<open>The board\<close>

type_synonym board = "WorkItemKind \<Rightarrow> Lifecycle \<Rightarrow> string \<Rightarrow> file_content option"

definition item_name :: "WorkItemKind \<Rightarrow> string \<Rightarrow> string" where
  "item_name k i = (if k = WorkItemKind.BlueprintDraft then json_name i else md_name i)"

definition board_of :: "fs \<Rightarrow> board" where
  "board_of w k s i = fs_lookup w (WorkDir k s) (item_name k i)"

definition board_set ::
  "board \<Rightarrow> WorkItemKind \<Rightarrow> Lifecycle \<Rightarrow> string \<Rightarrow> file_content option \<Rightarrow> board" where
  "board_set b k s i c = (\<lambda>k' s' i'. if k' = k \<and> s' = s \<and> i' = i then c else b k' s' i')"

text \<open>The content of an item's file: a document of that kind with that id.\<close>

fun content_for :: "WorkItemKind \<Rightarrow> string \<Rightarrow> file_content \<Rightarrow> bool" where
  "content_for k i (Doc d) \<longleftrightarrow> WorkDocument_kind d = k \<and> WorkDocument_id d = i"
| "content_for k i (Draft d) \<longleftrightarrow> k = WorkItemKind.BlueprintDraft \<and> bd_draft_id d = i"
| "content_for k i (Unparsable m) \<longleftrightarrow> False"
| "content_for k i (Log rs) \<longleftrightarrow> False"

definition plane_idle :: "board \<Rightarrow> Plane \<Rightarrow> bool" where
  "plane_idle b p \<longleftrightarrow>
     (\<forall>k i. plane_for_builtin_kind k = p \<longrightarrow> i \<noteq> [] \<longrightarrow> b k ActiveState i = None)"

inductive board_step :: "board \<Rightarrow> board \<Rightarrow> bool" where
  enter: "\<lbrakk>\<forall>s. b k s i = None; content_for k i c; i \<noteq> []\<rbrakk> \<Longrightarrow>
    board_step b (board_set b k QueueState i (Some c))"
| claim: "\<lbrakk>b k QueueState i = Some c; content_for k i c'; i \<noteq> []; plane_idle b (plane_for_builtin_kind k)\<rbrakk>
    \<Longrightarrow> board_step b (board_set (board_set b k QueueState i None) k ActiveState i (Some c'))"
| transfer: "\<lbrakk>b k s i = Some c; b k t i = None; s = ActiveState \<or> s = BlockedState; t \<noteq> ActiveState;
    content_for k i c \<longrightarrow> content_for k i c'\<rbrakk> \<Longrightarrow>
    board_step b (board_set (board_set b k s i None) k t i (Some c'))"
| withdraw: "\<lbrakk>b k s i = Some c; s \<noteq> DoneState\<rbrakk> \<Longrightarrow> board_step b (board_set b k s i None)"
| amend: "\<lbrakk>b k QueueState i = Some c; content_for k i c \<longrightarrow> content_for k i c'\<rbrakk> \<Longrightarrow>
    board_step b (board_set b k QueueState i (Some c'))"

inductive_cases board_stepE: "board_step b b'"

abbreviation board_steps :: "board \<Rightarrow> board \<Rightarrow> bool" where
  "board_steps \<equiv> board_step\<^sup>*\<^sup>*"

lemma board_steps_refl: "b = b' \<Longrightarrow> board_steps b b'"
  by simp

section \<open>The invariant\<close>

text \<open>An id is in at most one lifecycle state of its kind.\<close>

definition one_place :: "board \<Rightarrow> bool" where
  "one_place b \<longleftrightarrow> (\<forall>k s t i. b k s i \<noteq> None \<longrightarrow> b k t i \<noteq> None \<longrightarrow> s = t)"

text \<open>A plane has at most one active item.\<close>

definition one_active :: "board \<Rightarrow> bool" where
  "one_active b \<longleftrightarrow>
     (\<forall>k i l j. plane_for_builtin_kind k = plane_for_builtin_kind l \<longrightarrow> i \<noteq> [] \<longrightarrow> j \<noteq> [] \<longrightarrow>
        b k ActiveState i \<noteq> None \<longrightarrow> b l ActiveState j \<noteq> None \<longrightarrow> k = l \<and> i = j)"

text \<open>A file holds a document of its directory's kind with the id of its name.\<close>

definition well_named :: "board \<Rightarrow> bool" where
  "well_named b \<longleftrightarrow> (\<forall>k s i c. b k s i = Some c \<longrightarrow> i \<noteq> [] \<and> content_for k i c)"

definition board_ok :: "board \<Rightarrow> bool" where
  "board_ok b \<longleftrightarrow> one_place b \<and> one_active b \<and> well_named b"

lemma board_set_apply [simp]:
  "board_set b k s i c k' s' i' = (if k' = k \<and> s' = s \<and> i' = i then c else b k' s' i')"
  by (simp add: board_set_def)

lemma one_place_put:
  assumes "one_place b" and "\<forall>t. t \<noteq> s \<longrightarrow> b k t i = None"
  shows "one_place (board_set b k s i c)"
  using assms unfolding one_place_def by (simp split: if_splits)

lemma one_place_drop: "one_place b \<Longrightarrow> one_place (board_set b k s i None)"
  unfolding one_place_def by (simp split: if_splits)

lemma one_place_alone: "one_place b \<Longrightarrow> b k s i = Some c \<Longrightarrow> t \<noteq> s \<Longrightarrow> b k t i = None"
  unfolding one_place_def by (metis option.distinct(1))

lemma one_place_move:
  assumes "one_place b" and "b k s i = Some c"
  shows "one_place (board_set (board_set b k s i None) k t i c')"
  using assms by (intro one_place_put one_place_drop) (auto dest: one_place_alone)

lemma one_place_step:
  assumes "board_step b b'" and "one_place b"
  shows "one_place b'"
  using assms(1)
proof cases
  case (enter k i c)
  then show ?thesis by (simp add: one_place_put [OF assms(2)])
next
  case (claim k i c c')
  then show ?thesis by (simp add: one_place_move [OF assms(2)])
next
  case (transfer k s i c t c')
  then show ?thesis by (simp add: one_place_move [OF assms(2)])
next
  case (withdraw k s i c)
  then show ?thesis by (simp add: one_place_drop [OF assms(2)])
next
  case (amend k i c c')
  then show ?thesis using one_place_alone [OF assms(2)] by (simp add: one_place_put [OF assms(2)])
qed

lemma one_activeD:
  assumes "one_active b" and "plane_for_builtin_kind k = plane_for_builtin_kind l"
    and "i \<noteq> []" and "j \<noteq> []" and "b k ActiveState i \<noteq> None" and "b l ActiveState j \<noteq> None"
  shows "k = l \<and> i = j"
  by (rule assms(1) [unfolded one_active_def, rule_format, OF assms(2-6)])

lemma one_activeI:
  assumes "\<And>k i l j. \<lbrakk>plane_for_builtin_kind k = plane_for_builtin_kind l; i \<noteq> []; j \<noteq> [];
    b k ActiveState i \<noteq> None; b l ActiveState j \<noteq> None\<rbrakk> \<Longrightarrow> k = l \<and> i = j"
  shows "one_active b"
  unfolding one_active_def by (intro allI impI) (rule assms)

lemma one_active_mono:
  assumes "one_active b" and "\<And>k i. b' k ActiveState i \<noteq> None \<Longrightarrow> b k ActiveState i \<noteq> None"
  shows "one_active b'"
proof (rule one_activeI)
  fix k i l j
  assume "plane_for_builtin_kind k = plane_for_builtin_kind l" "i \<noteq> []" "j \<noteq> []"
    and "b' k ActiveState i \<noteq> None" "b' l ActiveState j \<noteq> None"
  then show "k = l \<and> i = j"
    by (intro one_activeD [OF assms(1)] assms(2))
qed

lemma one_active_step:
  assumes "board_step b b'" and "one_active b"
  shows "one_active b'"
  using assms(1)
proof cases
  case (claim k i c c')
  then have new: "b' l ActiveState j \<noteq> None \<Longrightarrow> plane_for_builtin_kind l = plane_for_builtin_kind k \<Longrightarrow>
      j \<noteq> [] \<Longrightarrow> l = k \<and> j = i"
    and old: "plane_for_builtin_kind l \<noteq> plane_for_builtin_kind k \<Longrightarrow>
      b' l ActiveState j = b l ActiveState j" for l j
    by (auto simp: plane_idle_def split: if_splits)
  show ?thesis
  proof (rule one_activeI)
    fix l j m n
    assume eq: "plane_for_builtin_kind l = plane_for_builtin_kind m" and ne: "j \<noteq> []" "n \<noteq> []"
      and at: "b' l ActiveState j \<noteq> None" "b' m ActiveState n \<noteq> None"
    show "l = m \<and> j = n"
    proof (cases "plane_for_builtin_kind l = plane_for_builtin_kind k")
      case True
      with new [OF at(1) _ ne(1)] new [OF at(2) _ ne(2)] eq show ?thesis by simp
    next
      case False
      with old [of l j] old [of m n] at eq show ?thesis
        by (intro one_activeD [OF assms(2) eq ne]) simp_all
    qed
  qed
next
  case (enter k i c)
  show ?thesis by (rule one_active_mono [OF assms(2)]) (simp add: enter(1) split: if_splits)
next
  case (transfer k s i c t c')
  show ?thesis
    by (rule one_active_mono [OF assms(2)]) (use transfer(5) in \<open>simp add: transfer(1) split: if_splits\<close>)
next
  case (withdraw k s i c)
  show ?thesis by (rule one_active_mono [OF assms(2)]) (simp add: withdraw(1) split: if_splits)
next
  case (amend k i c c')
  show ?thesis by (rule one_active_mono [OF assms(2)]) (simp add: amend(1) split: if_splits)
qed

lemma well_named_step: "board_step b b' \<Longrightarrow> well_named b \<Longrightarrow> well_named b'"
  by (erule board_stepE) (auto simp: well_named_def split: if_splits)

lemma board_ok_step: "board_step b b' \<Longrightarrow> board_ok b \<Longrightarrow> board_ok b'"
  by (simp add: board_ok_def one_place_step one_active_step well_named_step)

lemma board_ok_steps: "board_steps b b' \<Longrightarrow> board_ok b \<Longrightarrow> board_ok b'"
  by (induction rule: rtranclp_induct) (auto intro: board_ok_step)

text \<open>A done item stays where it is, with the content it was finished with.\<close>

lemma done_step: "board_step b b' \<Longrightarrow> b k DoneState i = Some c \<Longrightarrow> b' k DoneState i = Some c"
  by (erule board_stepE) auto

lemma done_steps: "board_steps b b' \<Longrightarrow> b k DoneState i = Some c \<Longrightarrow> b' k DoneState i = Some c"
  by (induction rule: rtranclp_induct) (auto intro: done_step)

text \<open>An item becomes active only from the queue, and only when its plane is idle.\<close>

lemma active_step:
  "board_step b b' \<Longrightarrow> b' k ActiveState i \<noteq> None \<Longrightarrow> b k ActiveState i = None \<Longrightarrow>
     b k QueueState i \<noteq> None \<and> plane_idle b (plane_for_builtin_kind k)"
  by (erule board_stepE) (auto split: if_splits)

section \<open>The board of a changed workspace\<close>

definition log_name :: "string \<Rightarrow> bool" where
  "log_name n \<longleftrightarrow> n \<noteq> [] \<and> last n = CHR ''l''"

lemma item_name_inject [simp]: "item_name k i = item_name k j \<longleftrightarrow> i = j"
  by (simp add: item_name_def)

lemma item_name_not_log: "log_name n \<Longrightarrow> item_name k i \<noteq> n"
  by (auto simp: log_name_def item_name_def md_name_def json_name_def)

lemma item_name_md: "k \<noteq> WorkItemKind.BlueprintDraft \<Longrightarrow> item_name k i = md_name i"
  by (simp add: item_name_def)

lemma item_name_draft [simp]: "item_name WorkItemKind.BlueprintDraft i = json_name i"
  by (simp add: item_name_def)

lemma board_of_write:
  "board_of (fs_write w (WorkDir k s) (item_name k i) c) = board_set (board_of w) k s i (Some c)"
  by (auto simp: board_of_def fun_eq_iff)

lemma board_of_remove:
  "board_of (fs_remove w (WorkDir k s) (item_name k i)) = board_set (board_of w) k s i None"
  by (auto simp: board_of_def fun_eq_iff)

lemma board_of_rename:
  assumes "board_of w k s i = Some c"
  shows "board_of (fs_rename w (WorkDir k s) (item_name k i) (WorkDir k t) (item_name k i)) =
     board_set (board_set (board_of w) k s i None) k t i (Some c)"
  using assms by (auto simp: fs_rename_def board_of_write board_of_remove board_of_def
      split: option.splits)

lemma board_of_write_out [simp]: "board_of (fs_write w (SubDir d x) n c) = board_of w"
  "board_of (fs_write w LogsDir n c) = board_of w"
  by (auto simp: board_of_def fun_eq_iff)

lemma board_of_rename_out:
  assumes "board_of w k s i = Some c"
  shows "board_of (fs_rename w (WorkDir k s) (item_name k i) (SubDir d x) n) =
     board_set (board_of w) k s i None"
  using assms by (auto simp: fs_rename_def board_of_remove board_of_def split: option.splits)

lemma board_of_append [simp]: "log_name n \<Longrightarrow> board_of (fs_append w d n r) = board_of w"
  by (auto simp: board_of_def fun_eq_iff intro!: fs_lookup_append_other dest: item_name_not_log)

lemma board_of_append_out [simp]: "board_of (fs_append w (SubDir d x) n r) = board_of w"
  "board_of (fs_append w LogsDir n r) = board_of w"
  by (auto simp: board_of_def fun_eq_iff intro!: fs_lookup_append_other)

lemma requeue_log_is_log [simp]: "log_name (requeue_log_name i)"
  by (simp add: log_name_def requeue_log_name_def)

lemma jsonl_is_log [simp]: "log_name invalid_log" "log_name ''interventions.jsonl''"
  by (simp_all add: log_name_def invalid_log_def)

lemma board_of_quarantine:
  assumes "fs_lookup w (WorkDir k s) n = Some c" and "file_extension n = Some ''md''"
    and "k \<noteq> WorkItemKind.BlueprintDraft"
  shows "board_of (quarantine_invalid_artifact E (WorkDir k s) n err w) =
     board_set (board_of w) k s (file_stem n) None"
proof -
  obtain x where x: "\<forall>i. x \<noteq> md_name i"
    and q: "quarantine_invalid_artifact E (WorkDir k s) n err w =
       fs_append (fs_rename w (WorkDir k s) n (WorkDir k s) x) (WorkDir k s) invalid_log
         (JObject [(''at'', JString (env_now E)), (''error'', JString err),
                   (''quarantine_name'', JString x), (''source_name'', JString n)])"
    by (rule quarantine_effect [OF assms(2,1)])
  have n: "n = md_name (file_stem n)" using md_file_name [OF assms(2)] by simp
  have "board_of (fs_rename w (WorkDir k s) n (WorkDir k s) x) k' s' i =
      board_set (board_of w) k s (file_stem n) None k' s' i" for k' s' i
  proof -
    have "\<not> (k' = k \<and> s' = s \<and> item_name k' i = x)"
      using x assms(3) by (auto simp: item_name_md)
    moreover have "(k' = k \<and> item_name k' i = n) = (k' = k \<and> i = file_stem n)"
      using assms(3) n by (metis item_name_md md_name_inject)
    ultimately show ?thesis
      using assms(1) by (auto simp: board_of_def store.lookup_move)
  qed
  then show ?thesis unfolding q by (simp add: fun_eq_iff)
qed

end
