(* ===== verification/Queue_Refinement.thy ===== *)
theory Queue_Refinement
  imports Queue_Board
begin

text \<open>
  Every operation of the queue store and every operator intervention changes the board only by
  \<open>board_step\<close>s, whatever it returns. The contract is the locale \<open>board_op\<close>; it is interpreted for
  each operation, and the invariant of \<open>Queue_Board\<close> follows for every state that the operations
  can reach from an empty workspace.
\<close>

section \<open>The contract of an operation\<close>

locale board_op =
  fixes op :: "'a qop"
  assumes steps: "op w = (r, w') \<Longrightarrow> board_steps (board_of w) (board_of w')"
begin

lemma refines: "board_steps (board_of w) (board_of (snd (op w)))"
  by (rule steps [of w "fst (op w)"]) simp

lemma keeps_ok: "board_ok (board_of w) \<Longrightarrow> board_ok (board_of (snd (op w)))"
  by (rule board_ok_steps [OF refines])

lemma keeps_done:
  "board_of w k DoneState i = Some c \<Longrightarrow> board_of (snd (op w)) k DoneState i = Some c"
  by (rule done_steps [OF refines])

end

lemma board_opI: "(\<And>w. board_steps (board_of w) (board_of (snd (op w)))) \<Longrightarrow> board_op op"
  by unfold_locales (metis snd_conv)

lemma board_op_pure:
  "board_op (qreturn a)" "board_op (qfail e)" "board_op (qlift r)" "board_op (qget g)"
  "board_op (\<lambda>w. (h w, w))"
  by (rule board_opI, simp)+

lemma board_op_modify: "(\<And>w. board_steps (board_of w) (board_of (f w))) \<Longrightarrow> board_op (qmodify f)"
  by (rule board_opI) simp

lemma board_op_bind:
  assumes "board_op m" and "\<And>a. board_op (f a)"
  shows "board_op (qbind m f)"
proof (rule board_opI)
  fix w
  obtain r w1 where m: "m w = (r, w1)" by (cases "m w")
  have s: "board_steps (board_of w) (board_of w1)" by (rule board_op.steps [OF assms(1) m])
  show "board_steps (board_of w) (board_of (snd (qbind m f w)))"
  proof (cases r)
    case (Inl e)
    with m s show ?thesis by (simp add: qbind_def)
  next
    case (Inr a)
    with m have "snd (qbind m f w) = snd (f a w1)" by (simp add: qbind_def)
    with s board_op.refines [OF assms(2)] show ?thesis by (metis rtranclp_trans)
  qed
qed

lemma board_op_if: "board_op m \<Longrightarrow> board_op n \<Longrightarrow> board_op (if c then m else n)"
  by simp

lemma board_op_log: "log_name n \<Longrightarrow> board_op (qmodify (\<lambda>w. fs_append w d n r))"
  by (rule board_op_modify) simp

lemma board_step_steps: "board_step b b' \<Longrightarrow> board_steps b b'"
  by (rule r_into_rtranclp)

section \<open>Enqueueing\<close>

lemma ensure_unique_id_Inr:
  "ensure_unique_id i dirs k w = (Inr u, w') \<longleftrightarrow> w' = w \<and> (\<forall>d\<in>set dirs. fs_lookup w d (md_name i) = None)"
  by (auto simp: ensure_unique_id_def fs_exists_def list_ex_iff)

lemma ensure_unique_id_op: "board_op (ensure_unique_id i dirs k)"
  by (rule board_opI) (simp add: ensure_unique_id_def)

lemma lifecycle_cases: "(\<forall>s. P s) \<longleftrightarrow> P QueueState \<and> P ActiveState \<and> P DoneState \<and> P BlockedState"
  by (metis Lifecycle.exhaust)

lemma enter_op:
  assumes "WorkDocument_kind d = k" and "WorkDocument_id d = i" and "i \<noteq> []"
  shows "board_op (qbind (ensure_unique_id i (lifecycle_dirs k) k)
           (\<lambda>_. write_document (WorkDir k QueueState) (md_name i) d))"
proof (rule board_opI)
  fix w
  have k: "k \<noteq> WorkItemKind.BlueprintDraft" using assms(1) by (cases d) auto
  let ?op = "qbind (ensure_unique_id i (lifecycle_dirs k) k)
           (\<lambda>_. write_document (WorkDir k QueueState) (md_name i) d)"
  show "board_steps (board_of w) (board_of (snd (?op w)))"
  proof (cases "ensure_unique_id i (lifecycle_dirs k) k w")
    case (Pair r w1)
    show ?thesis
    proof (cases r)
      case (Inl e)
      then show ?thesis
        using board_op.steps [OF ensure_unique_id_op Pair] by (simp add: qbind_def Pair)
    next
      case (Inr u)
      with Pair have "w1 = w" and "\<forall>s. board_of w k s i = None"
        by (auto simp: ensure_unique_id_Inr lifecycle_cases board_of_def item_name_md [OF k])
      moreover from this Pair Inr have
        "board_of (snd (?op w)) = board_set (board_of w) k QueueState i (Some (Doc d))"
        using board_of_write [of w k QueueState i "Doc d"]
        by (simp add: qbind_def write_document_def item_name_md [OF k])
      ultimately show ?thesis
        using board_step.enter [of "board_of w" k i "Doc d"] assms by (auto intro: board_step_steps)
    qed
  qed
qed

lemma validated_id_nonempty:
  "WorkDocument_validate jt d = Inr () \<Longrightarrow> WorkDocument_id d \<noteq> []"
  using validate_safe_id [of jt d] by (auto simp: matches_safe_id_pattern_def)

lemma enqueue_task_op: "board_op (enqueue_task d)"
proof (cases "TaskDocument_validate d")
  case (Inr u)
  with validated_id_nonempty [of _ "TaskDoc d"] have "td_task_id d \<noteq> []" by simp
  then have "board_op (qbind (ensure_unique_id (td_task_id d) (lifecycle_dirs WorkItemKind.Task) WorkItemKind.Task)
      (\<lambda>_. write_document (WorkDir WorkItemKind.Task QueueState) (md_name (td_task_id d)) (TaskDoc d)))"
    by (intro enter_op) simp_all
  with Inr show ?thesis by (simp add: enqueue_task_def)
qed (simp add: enqueue_task_def board_op_pure)

lemma enqueue_spec_op: "board_op (enqueue_spec d)"
proof (cases "SpecDocument_validate d")
  case (Inr u)
  with validated_id_nonempty [of _ "SpecDoc d"] have "sd_spec_id d \<noteq> []" by simp
  then have "board_op (qbind (ensure_unique_id (sd_spec_id d) (lifecycle_dirs WorkItemKind.Spec) WorkItemKind.Spec)
      (\<lambda>_. write_document (WorkDir WorkItemKind.Spec QueueState) (md_name (sd_spec_id d)) (SpecDoc d)))"
    by (intro enter_op) simp_all
  with Inr show ?thesis by (simp add: enqueue_spec_def)
qed (simp add: enqueue_spec_def board_op_pure)

lemma enqueue_probe_op: "board_op (enqueue_probe d)"
proof (cases "ProbeDocument_validate d")
  case (Inr u)
  with validated_id_nonempty [of _ "ProbeDoc d"] have "pd_probe_id d \<noteq> []" by simp
  then have "board_op (qbind (ensure_unique_id (pd_probe_id d) (lifecycle_dirs WorkItemKind.Probe) WorkItemKind.Probe)
      (\<lambda>_. write_document (WorkDir WorkItemKind.Probe QueueState) (md_name (pd_probe_id d)) (ProbeDoc d)))"
    by (intro enter_op) simp_all
  with Inr show ?thesis by (simp add: enqueue_probe_def)
qed (simp add: enqueue_probe_def board_op_pure)

lemma enqueue_incident_op: "board_op (enqueue_incident d)"
proof (cases "IncidentDocument_validate d")
  case (Inr u)
  with validated_id_nonempty [of _ "IncidentDoc d"] have "nd_incident_id d \<noteq> []" by simp
  then have "board_op (qbind (ensure_unique_id (nd_incident_id d) (lifecycle_dirs WorkItemKind.Incident) WorkItemKind.Incident)
      (\<lambda>_. write_document (WorkDir WorkItemKind.Incident QueueState) (md_name (nd_incident_id d)) (IncidentDoc d)))"
    by (intro enter_op) simp_all
  with Inr show ?thesis by (simp add: enqueue_incident_def)
qed (simp add: enqueue_incident_def board_op_pure)

lemma enqueue_learning_request_op: "board_op (enqueue_learning_request E d)"
proof (cases "LearningRequestDocument_validate (env_json_text E) d")
  case (Inr u)
  with validated_id_nonempty [of "env_json_text E" "LearningRequestDoc d"]
  have "ld_learning_request_id d \<noteq> []" by simp
  then have "board_op (qbind (ensure_unique_id (ld_learning_request_id d)
        (lifecycle_dirs WorkItemKind.LearningRequest) WorkItemKind.LearningRequest)
      (\<lambda>_. write_document (WorkDir WorkItemKind.LearningRequest QueueState)
        (md_name (ld_learning_request_id d)) (LearningRequestDoc d)))"
    by (intro enter_op) simp_all
  with Inr show ?thesis by (simp add: enqueue_learning_request_def)
qed (simp add: enqueue_learning_request_def board_op_pure)

lemma draft_status_keeps_id [simp]: "content_for k i (Draft (d\<lparr>bd_status := s\<rparr>)) = content_for k i (Draft d)"
  by simp

lemma enqueue_blueprint_draft_op: "board_op (enqueue_blueprint_draft E draft)"
proof (rule board_opI)
  fix w
  let ?k = "WorkItemKind.BlueprintDraft" and ?i = "bd_draft_id draft"
  show "board_steps (board_of w) (board_of (snd (enqueue_blueprint_draft E draft w)))"
  proof (cases "enqueue_blueprint_draft E draft w")
    case (Pair r w1)
    show ?thesis
    proof (cases "w1 = w")
      case False
      from Pair False have free: "\<forall>s. board_of w ?k s ?i = None" and i: "?i \<noteq> []"
        and w1: "w1 = fs_write w (WorkDir ?k QueueState) (item_name ?k ?i)
                 (Draft (draft\<lparr>bd_status := BlueprintDraftStatus.Queued\<rparr>))"
        by (auto simp: enqueue_blueprint_draft_def ensure_unique_blueprint_draft_def qbind_def Let_def
            write_unique_json_document_def lifecycle_cases board_of_def fs_exists_def
            matches_safe_id_pattern_def validate_safe_identifier_Inr
            split: if_splits sum.splits prod.splits)
      show ?thesis
        using board_step.enter [of "board_of w" ?k ?i
            "Draft (draft\<lparr>bd_status := BlueprintDraftStatus.Queued\<rparr>)"] free i
        by (simp add: Pair w1 board_of_write [of w ?k QueueState ?i, simplified] board_step_steps)
    qed (simp add: Pair)
  qed
qed

section \<open>Moving, requeueing and retiring\<close>

lemma move_item_from_state_Inr:
  "move_item_from_state src dst i k lbl w = (Inr p, w') \<longleftrightarrow>
     fs_lookup w src (md_name i) \<noteq> None \<and> fs_lookup w dst (md_name i) = None \<and> p = (dst, md_name i) \<and>
     w' = fs_rename w src (md_name i) dst (md_name i)"
  by (auto simp: move_item_from_state_def Let_def fs_exists_def)

lemma move_item_from_state_Inl:
  "move_item_from_state src dst i k lbl w = (Inl e, w') \<Longrightarrow> w' = w"
  by (auto simp: move_item_from_state_def Let_def split: if_splits)

lemma move_item_from_state_op:
  assumes "k \<noteq> WorkItemKind.BlueprintDraft" and "s = ActiveState \<or> s = BlockedState" and "t \<noteq> ActiveState"
  shows "board_op (move_item_from_state (WorkDir k s) (WorkDir k t) i k lbl)"
proof (rule board_opI)
  fix w
  let ?op = "move_item_from_state (WorkDir k s) (WorkDir k t) i k lbl"
  show "board_steps (board_of w) (board_of (snd (?op w)))"
  proof (cases "?op w")
    case (Pair r w1)
    show ?thesis
    proof (cases r)
      case (Inl e)
      with Pair move_item_from_state_Inl show ?thesis by fastforce
    next
      case (Inr p)
      with Pair obtain c where c: "board_of w k s i = Some c" and free: "board_of w k t i = None"
        and w1: "w1 = fs_rename w (WorkDir k s) (item_name k i) (WorkDir k t) (item_name k i)"
        by (auto simp: move_item_from_state_Inr board_of_def item_name_md [OF assms(1)])
      show ?thesis
        using board_step.transfer [of "board_of w" k s i c t c] c free assms(2,3)
        by (simp add: Pair w1 board_of_rename [OF c] board_step_steps)
    qed
  qed
qed

lemmas mark_op = move_item_from_state_op [where s = ActiveState, simplified]

lemma append_requeue_reason_op: "board_op (append_requeue_reason E d i k reason)"
  by (rule board_opI) (simp add: append_requeue_reason_def Let_def)

lemma append_blocked_requeue_audit_op:
  "board_op (append_blocked_requeue_audit E d i reason actor auto fc n)"
  by (rule board_opI) (simp add: append_blocked_requeue_audit_def split: sum.split)

lemma mark_ops:
  "board_op (mark_task_blocked i)" "board_op (mark_spec_done i)" "board_op (mark_spec_blocked i)"
  "board_op (mark_probe_done i)" "board_op (mark_probe_blocked i)" "board_op (mark_incident_resolved i)"
  "board_op (mark_incident_blocked i)" "board_op (mark_learning_request_done i)"
  "board_op (mark_learning_request_blocked i)"
  by (simp_all add: mark_task_blocked_def mark_spec_done_def mark_spec_blocked_def mark_probe_done_def
      mark_probe_blocked_def mark_incident_resolved_def mark_incident_blocked_def
      mark_learning_request_done_def mark_learning_request_blocked_def move_item_def mark_op)

lemma retire_op: "board_op (retire_stale_blocked_task_duplicate_after_done E i)"
proof (rule board_opI)
  fix w
  let ?op = "retire_stale_blocked_task_duplicate_after_done E i"
  let ?b = "WorkDir WorkItemKind.Task BlockedState"
  show "board_steps (board_of w) (board_of (snd (?op w)))"
  proof (cases "?op w")
    case (Pair r w1)
    show ?thesis
    proof (cases "w1 = w")
      case False
      with Pair obtain n r where ex: "fs_lookup w ?b (md_name i) \<noteq> None"
        and w1: "w1 = fs_append (fs_rename w ?b (md_name i) (SubDir ?b ''superseded'') n)
           (SubDir ?b ''superseded'') ''retirements.jsonl'' r"
        by (auto simp: retire_stale_blocked_task_duplicate_after_done_def Let_def fs_exists_def
            split: if_splits option.splits)
      then obtain c where c: "board_of w WorkItemKind.Task BlockedState i = Some c"
        by (auto simp: board_of_def item_name_md)
      from board_of_rename_out [OF c] show ?thesis
        using board_step.withdraw [of "board_of w" WorkItemKind.Task BlockedState i c] c
        by (simp add: Pair w1 item_name_md board_step_steps)
    qed (simp add: Pair)
  qed
qed

lemma mark_task_done_op: "board_op (mark_task_done E i)"
  unfolding mark_task_done_def move_item_def
  by (intro board_op_bind mark_op retire_op board_op_pure) simp_all

lemma requeue_ops:
  "board_op (requeue_task E i reason)" "board_op (requeue_spec E i reason)"
  "board_op (requeue_probe E i reason)" "board_op (requeue_incident E i reason)"
  "board_op (requeue_learning_request E i reason)"
  unfolding requeue_task_def requeue_spec_def requeue_probe_def requeue_incident_def
    requeue_learning_request_def move_item_def
  by (intro board_op_bind mark_op append_requeue_reason_op board_op_pure; simp)+

lemma requeue_blocked_task_op: "board_op (requeue_blocked_task E i reason actor auto fc n)"
  unfolding requeue_blocked_task_def
  by (intro board_op_bind move_item_from_state_op append_blocked_requeue_audit_op board_op_pure) simp_all

lemma write_unique_Inr:
  "write_unique_json_document E d n doc w = (Inr p, w') \<longleftrightarrow>
     fs_lookup w d n = None \<and> validate_model doc = Inr () \<and> p = (d, n) \<and> w' = fs_write w d n (Draft doc)"
  by (auto simp: write_unique_json_document_def fs_exists_def split: sum.splits)

lemma write_unique_Inl: "write_unique_json_document E d n doc w = (Inl e, w') \<Longrightarrow> w' = w"
  by (auto simp: write_unique_json_document_def split: sum.splits if_splits)

lemma read_blueprint_draft_Inr:
  "read_blueprint_draft E p c = Inr d \<longleftrightarrow>
     c = Draft d \<and> BlueprintDraftDocument_validate_contract d = Inr ()"
  by (auto simp: read_blueprint_draft_def result_simps split: file_content.splits)

lemma move_draft_op:
  assumes "s = ActiveState \<or> s = BlockedState" and "t \<noteq> ActiveState"
  shows "board_op (move_blueprint_draft E i s t status)"
proof (rule board_opI)
  fix w
  let ?op = "move_blueprint_draft E i s t status" and ?k = "WorkItemKind.BlueprintDraft"
  show "board_steps (board_of w) (board_of (snd (?op w)))"
  proof (cases "?op w")
    case (Pair r w1)
    show ?thesis
    proof (cases "w1 = w")
      case False
      with Pair obtain d where c: "board_of w ?k s i = Some (Draft d)" and free: "board_of w ?k t i = None"
        and w1: "w1 = fs_remove (fs_write w (WorkDir ?k t) (json_name i) (Draft (d\<lparr>bd_status := status\<rparr>)))
                  (WorkDir ?k s) (json_name i)"
        by (auto simp: move_blueprint_draft_def Let_def qbind_def fs_exists_def board_of_def
            read_blueprint_draft_Inr write_unique_Inr dest: write_unique_Inl
            split: if_splits option.splits sum.splits prod.splits)
      have b: "board_of w1 = board_set (board_set (board_of w) ?k s i None) ?k t i
          (Some (Draft (d\<lparr>bd_status := status\<rparr>)))"
        using c free by (auto simp: w1 board_of_def fun_eq_iff)
      show ?thesis
        using board_step.transfer [of "board_of w" ?k s i "Draft d" t "Draft (d\<lparr>bd_status := status\<rparr>)"]
          c free assms
        by (simp add: Pair b board_step_steps)
    qed (simp add: Pair)
  qed
qed

lemma draft_ops:
  "board_op (approve_active_blueprint_draft E i)" "board_op (block_active_blueprint_draft E i)"
  "board_op (requeue_active_blueprint_draft E i)"
  by (simp_all add: approve_active_blueprint_draft_def block_active_blueprint_draft_def
      requeue_active_blueprint_draft_def move_draft_op)

section \<open>Claims\<close>

lemma case_document_Inr:
  "(case d of TaskDoc t \<Rightarrow> Inr t | ProbeDoc p \<Rightarrow> Inl (f p) | SpecDoc s \<Rightarrow> Inl (g s)
     | IncidentDoc n \<Rightarrow> Inl (h n) | LearningRequestDoc l \<Rightarrow> Inl (j l)) = Inr x1 \<longleftrightarrow> d = TaskDoc x1"
  "(case d of TaskDoc t \<Rightarrow> Inl (e t) | ProbeDoc p \<Rightarrow> Inr p | SpecDoc s \<Rightarrow> Inl (g s)
     | IncidentDoc n \<Rightarrow> Inl (h n) | LearningRequestDoc l \<Rightarrow> Inl (j l)) = Inr x2 \<longleftrightarrow> d = ProbeDoc x2"
  "(case d of TaskDoc t \<Rightarrow> Inl (e t) | ProbeDoc p \<Rightarrow> Inl (f p) | SpecDoc s \<Rightarrow> Inr s
     | IncidentDoc n \<Rightarrow> Inl (h n) | LearningRequestDoc l \<Rightarrow> Inl (j l)) = Inr x3 \<longleftrightarrow> d = SpecDoc x3"
  "(case d of TaskDoc t \<Rightarrow> Inl (e t) | ProbeDoc p \<Rightarrow> Inl (f p) | SpecDoc s \<Rightarrow> Inl (g s)
     | IncidentDoc n \<Rightarrow> Inr n | LearningRequestDoc l \<Rightarrow> Inl (j l)) = Inr x4 \<longleftrightarrow> d = IncidentDoc x4"
  "(case d of TaskDoc t \<Rightarrow> Inl (e t) | ProbeDoc p \<Rightarrow> Inl (f p) | SpecDoc s \<Rightarrow> Inl (g s)
     | IncidentDoc n \<Rightarrow> Inl (h n) | LearningRequestDoc l \<Rightarrow> Inr l) = Inr x5 \<longleftrightarrow> d = LearningRequestDoc x5"
  by (cases d; simp)+

lemma parse_Inr [result_simps]:
  "parse_work_document_as k E c src = Inr d \<longleftrightarrow>
     c = Doc d \<and> WorkDocument_kind d = k \<and> WorkDocument_validate (env_json_text E) d = Inr ()"
  "parse_task_document_with_source E c src = Inr t \<longleftrightarrow> c = Doc (TaskDoc t) \<and> TaskDocument_validate t = Inr ()"
  "parse_spec_document_with_source E c src = Inr s \<longleftrightarrow> c = Doc (SpecDoc s) \<and> SpecDocument_validate s = Inr ()"
  "parse_probe_document_with_source E c src = Inr p \<longleftrightarrow>
     c = Doc (ProbeDoc p) \<and> ProbeDocument_validate p = Inr ()"
  "parse_incident_document_with_source E c src = Inr n \<longleftrightarrow>
     c = Doc (IncidentDoc n) \<and> IncidentDocument_validate n = Inr ()"
  "parse_learning_request_document_with_source E c src = Inr l \<longleftrightarrow>
     c = Doc (LearningRequestDoc l) \<and> LearningRequestDocument_validate (env_json_text E) l = Inr ()"
proof -
  show P: "parse_work_document_as k E c src = Inr d \<longleftrightarrow>
     c = Doc d \<and> WorkDocument_kind d = k \<and> WorkDocument_validate (env_json_text E) d = Inr ()" for k d
    by (cases c) (auto simp: parse_work_document_as_def map_ok_def split: sum.splits)
  show "parse_task_document_with_source E c src = Inr t \<longleftrightarrow> c = Doc (TaskDoc t) \<and> TaskDocument_validate t = Inr ()"
    by (auto simp: parse_task_document_with_source_def and_then_eq_Inr P case_document_Inr)
  show "parse_spec_document_with_source E c src = Inr s \<longleftrightarrow> c = Doc (SpecDoc s) \<and> SpecDocument_validate s = Inr ()"
    by (auto simp: parse_spec_document_with_source_def and_then_eq_Inr P case_document_Inr)
  show "parse_probe_document_with_source E c src = Inr p \<longleftrightarrow>
     c = Doc (ProbeDoc p) \<and> ProbeDocument_validate p = Inr ()"
    by (auto simp: parse_probe_document_with_source_def and_then_eq_Inr P case_document_Inr)
  show "parse_incident_document_with_source E c src = Inr n \<longleftrightarrow>
     c = Doc (IncidentDoc n) \<and> IncidentDocument_validate n = Inr ()"
    by (auto simp: parse_incident_document_with_source_def and_then_eq_Inr P case_document_Inr)
  show "parse_learning_request_document_with_source E c src = Inr l \<longleftrightarrow>
     c = Doc (LearningRequestDoc l) \<and> LearningRequestDocument_validate (env_json_text E) l = Inr ()"
    by (auto simp: parse_learning_request_document_with_source_def and_then_eq_Inr P case_document_Inr)
qed

lemma scan_refines:
  assumes "k \<noteq> WorkItemKind.BlueprintDraft" and "s \<noteq> DoneState"
    and "\<forall>n\<in>set ns. file_extension n = Some ''md''"
  shows "board_steps (board_of w)
     (board_of (snd (scan_documents E (WorkDir k s) parse field id_of ts_of keep ns w)))"
  using assms(3)
proof (induction ns arbitrary: w)
  case (Cons n ns)
  let ?scan = "scan_documents E (WorkDir k s) parse field id_of ts_of keep"
  have n: "file_extension n = Some ''md''" using Cons.prems by simp
  from Cons.prems have ns: "\<forall>n\<in>set ns. file_extension n = Some ''md''" by simp
  note IH = Cons.IH [OF ns]
  have bad: "board_steps (board_of w) (board_of (snd (?scan ns (quarantine_invalid_artifact E (WorkDir k s) n err w))))"
    if "fs_lookup w (WorkDir k s) n = Some c" for err c
  proof -
    from md_file_name [OF n] that assms(1) have "board_of w k s (file_stem n) = Some c"
      by (metis board_of_def item_name_md)
    then have "board_step (board_of w) (board_set (board_of w) k s (file_stem n) None)"
      using assms(2) by (rule board_step.withdraw)
    then show ?thesis
      unfolding board_of_quarantine [OF that n assms(1), symmetric, of E err]
      using IH by (rule converse_rtranclp_into_rtranclp)
  qed
  show ?case
    using IH bad by (auto simp: Let_def split: option.split sum.split prod.split) (metis snd_conv)
qed simp

lemma plane_idle_markdown:
  assumes "k \<noteq> WorkItemKind.BlueprintDraft" and "list_markdown_files w (WorkDir k ActiveState) = []" and "i \<noteq> []"
  shows "board_of w k ActiveState i = None"
proof -
  from assms(2) have "md_name i \<notin> set (list_markdown_files w (WorkDir k ActiveState))" by simp
  with assms(3) show ?thesis by (simp add: mem_list_markdown_files board_of_def item_name_md [OF assms(1)])
qed

lemma plane_idle_json:
  assumes "list_json_files w (WorkDir WorkItemKind.BlueprintDraft ActiveState) = []" and "i \<noteq> []"
  shows "board_of w WorkItemKind.BlueprintDraft ActiveState i = None"
proof -
  from assms(1) have "json_name i \<notin> set (list_json_files w (WorkDir WorkItemKind.BlueprintDraft ActiveState))"
    by simp
  with assms(2) show ?thesis by (simp add: mem_list_json_files board_of_def)
qed

lemma plane_for_kind_cases:
  "plane_for_builtin_kind k = Plane.Execution \<longleftrightarrow> k = WorkItemKind.Task"
  "plane_for_builtin_kind k = Plane.Learning \<longleftrightarrow> k = WorkItemKind.LearningRequest"
  "plane_for_builtin_kind k = Plane.Planning \<longleftrightarrow>
     k \<in> {WorkItemKind.Probe, WorkItemKind.Spec, WorkItemKind.Incident, WorkItemKind.BlueprintDraft}"
  by (cases k; simp)+

lemma plane_idle_execution:
  "list_markdown_files w (WorkDir WorkItemKind.Task ActiveState) = [] \<Longrightarrow> plane_idle (board_of w) Plane.Execution"
  by (auto simp: plane_idle_def plane_for_kind_cases intro: plane_idle_markdown)

lemma plane_idle_learning:
  "list_markdown_files w (WorkDir WorkItemKind.LearningRequest ActiveState) = [] \<Longrightarrow>
     plane_idle (board_of w) Plane.Learning"
  by (auto simp: plane_idle_def plane_for_kind_cases intro: plane_idle_markdown)

lemma plane_idle_planning: "planning_active_count w = 0 \<Longrightarrow> plane_idle (board_of w) Plane.Planning"
  by (auto simp: plane_idle_def plane_for_kind_cases planning_active_count_def
      active_blueprint_draft_count_def intro: plane_idle_markdown plane_idle_json)

lemma claim_rename_steps:
  assumes "k \<noteq> WorkItemKind.BlueprintDraft" and "fs_lookup w (WorkDir k QueueState) (md_name i) = Some c"
    and "content_for k i c" and "i \<noteq> []" and "plane_idle (board_of w) (plane_for_builtin_kind k)"
  shows "board_steps (board_of w)
     (board_of (fs_rename w (WorkDir k QueueState) (md_name i) (WorkDir k ActiveState) (md_name i)))"
proof -
  have c: "board_of w k QueueState i = Some c" using assms(1,2) by (simp add: board_of_def item_name_md)
  from board_step.claim [of "board_of w" k i c c] c assms(3-5) show ?thesis
    using board_of_rename [OF c] by (simp add: item_name_md [OF assms(1)] board_step_steps)
qed

text \<open>What a selection returns: a readable file of the queue, still in place after the scan.\<close>

lemma scan_selects:
  assumes scan: "scan_documents E d parse field id_of ts_of keep (list_markdown_files w d) w = (cands, w')"
    and mem: "(ts, i, n) \<in> set cands"
  shows "\<exists>c doc. fs_lookup w' d n = Some c \<and> parse c (path_display E (d, n)) = Inr doc \<and>
     id_of doc = i \<and> n = md_name i \<and> i \<noteq> [] \<and> keep doc \<and> ts = ts_of doc"
proof -
  let ?ns = "list_markdown_files w d"
  have md: "\<forall>n\<in>set ?ns. file_extension n = Some ''md''" by (simp add: mem_list_markdown_files)
  note spec = scan_documents_spec [OF distinct_list_markdown_files md, of E d parse field id_of ts_of keep w,
      unfolded scan fst_conv snd_conv]
  from mem spec obtain doc where n: "n \<in> set ?ns" and r: "readable E parse id_of w d n = Some doc"
    and eq: "ts = ts_of doc" "i = id_of doc" "keep doc" by auto
  with md have ext: "file_extension n = Some ''md''" by simp
  from r obtain c where "fs_lookup w d n = Some c" "parse c (path_display E (d, n)) = Inr doc" "file_stem n = i"
    by (auto simp: readable_def eq split: option.splits sum.splits if_splits)
  with spec ext r eq md_file_name [OF ext] show ?thesis by auto
qed

lemma oldest_candidate_mem: "oldest_candidate cands = Some c \<Longrightarrow> c \<in> set cands"
  by (auto simp: oldest_candidate_def split: list.splits dest: hd_sort_key_min(1))

lemma scan_keeps_idle:
  assumes "plane_idle (board_of w) p"
    and "\<And>d m. d \<noteq> WorkDir k QueueState \<Longrightarrow> fs_lookup w' d m = fs_lookup w d m"
  shows "plane_idle (board_of w') p"
  using assms by (simp add: plane_idle_def board_of_def)

lemma list_markdown_md: "\<forall>n\<in>set (list_markdown_files w d). file_extension n = Some ''md''"
  by (simp add: mem_list_markdown_files)

text \<open>A scan of the queue directory of \<open>k\<close>: it withdraws what it quarantines, leaves the other
  directories alone, and its candidates are claimable.\<close>

definition claimable :: "WorkItemKind \<Rightarrow> fs \<Rightarrow> string \<Rightarrow> string \<Rightarrow> bool" where
  "claimable k w i n \<longleftrightarrow> n = md_name i \<and> i \<noteq> [] \<and>
     (\<exists>c. fs_lookup w (WorkDir k QueueState) n = Some c \<and> content_for k i c)"

definition queue_scanned :: "WorkItemKind \<Rightarrow> fs \<Rightarrow> fs \<Rightarrow> bool" where
  "queue_scanned k w w' \<longleftrightarrow> board_steps (board_of w) (board_of w') \<and>
     (\<forall>d m. d \<noteq> WorkDir k QueueState \<longrightarrow> fs_lookup w' d m = fs_lookup w d m)"

lemma scan_result:
  assumes scan: "scan_documents E (WorkDir k QueueState) parse field id_of ts_of keep
      (list_markdown_files w (WorkDir k QueueState)) w = (cands, w')"
    and k: "k \<noteq> WorkItemKind.BlueprintDraft"
    and parse: "\<And>c p doc. parse c p = Inr doc \<Longrightarrow> content_for k (id_of doc) c"
  shows "queue_scanned k w w' \<and>
     (\<forall>ts i n. oldest_candidate cands = Some (ts, i, n) \<longrightarrow> claimable k w' i n)"
proof -
  let ?ns = "list_markdown_files w (WorkDir k QueueState)"
  have "board_steps (board_of w)
      (board_of (snd (scan_documents E (WorkDir k QueueState) parse field id_of ts_of keep ?ns w)))"
    by (rule scan_refines) (simp_all add: k list_markdown_md)
  then have "board_steps (board_of w) (board_of w')" by (simp add: scan)
  moreover have "fs_lookup w' d m = fs_lookup w d m" if "d \<noteq> WorkDir k QueueState" for d m
    using scan_other_dir [OF that, of E parse field id_of ts_of keep ?ns w m] by (simp add: scan)
  moreover have "claimable k w' i n" if "oldest_candidate cands = Some (ts, i, n)" for ts i n
    using scan_selects [OF scan oldest_candidate_mem [OF that]] by (auto simp: claimable_def dest: parse)
  ultimately show ?thesis by (auto simp: queue_scanned_def)
qed

lemma select_task_result:
  "select_oldest_eligible_task E root w = (r, w') \<Longrightarrow> queue_scanned WorkItemKind.Task w w' \<and>
     (\<forall>i n. r = Some (i, n) \<longrightarrow> claimable WorkItemKind.Task w' i n)"
  unfolding select_oldest_eligible_task_def Let_def
  by (auto dest!: scan_result simp: parse_Inr split: prod.splits)

lemma select_incident_result:
  "select_oldest_incident E (WorkDir WorkItemKind.Incident QueueState) root w = (r, w') \<Longrightarrow>
     queue_scanned WorkItemKind.Incident w w' \<and>
     (\<forall>i n. r = Some (i, n) \<longrightarrow> claimable WorkItemKind.Incident w' i n)"
  unfolding select_oldest_incident_def Let_def
  by (auto dest!: scan_result simp: parse_Inr split: prod.splits)

lemma select_learning_request_result:
  "select_oldest_learning_request E (WorkDir WorkItemKind.LearningRequest QueueState) w = (r, w') \<Longrightarrow>
     queue_scanned WorkItemKind.LearningRequest w w' \<and>
     (\<forall>i n. r = Some (i, n) \<longrightarrow> claimable WorkItemKind.LearningRequest w' i n)"
  unfolding select_oldest_learning_request_def Let_def
  by (auto dest!: scan_result simp: parse_Inr split: prod.splits)

lemma select_spec_result:
  "select_oldest_spec_candidate E (WorkDir WorkItemKind.Spec QueueState) root w = (r, w') \<Longrightarrow>
     queue_scanned WorkItemKind.Spec w w' \<and>
     (\<forall>ts i n. r = Some (ts, i, n) \<longrightarrow> claimable WorkItemKind.Spec w' i n)"
  unfolding select_oldest_spec_candidate_def Let_def
  by (auto dest!: scan_result simp: parse_Inr split: prod.splits)

lemma select_probe_result:
  "select_oldest_probe_candidate E (WorkDir WorkItemKind.Probe QueueState) w = (r, w') \<Longrightarrow>
     queue_scanned WorkItemKind.Probe w w' \<and>
     (\<forall>ts i n. r = Some (ts, i, n) \<longrightarrow> claimable WorkItemKind.Probe w' i n)"
  unfolding select_oldest_probe_candidate_def Let_def
  by (auto dest!: scan_result simp: parse_Inr split: prod.splits)

lemma queue_scanned_refl: "queue_scanned k w w"
  by (simp add: queue_scanned_def)

lemma queue_scanned_steps: "queue_scanned k w w' \<Longrightarrow> board_steps (board_of w) (board_of w')"
  by (simp add: queue_scanned_def)

lemma queue_scanned_claimable:
  "queue_scanned k w w' \<Longrightarrow> k' \<noteq> k \<Longrightarrow> claimable k' w i n \<Longrightarrow> claimable k' w' i n"
  by (auto simp: queue_scanned_def claimable_def)

lemma queue_scanned_idle: "queue_scanned k w w' \<Longrightarrow> plane_idle (board_of w') p = plane_idle (board_of w) p"
  by (simp add: queue_scanned_def plane_idle_def board_of_def)

text \<open>Claiming what a scan selected, when the plane was idle.\<close>

lemma claim_selected:
  assumes "k \<noteq> WorkItemKind.BlueprintDraft" and "board_steps (board_of w) (board_of w')"
    and "plane_idle (board_of w') (plane_for_builtin_kind k)" and "claimable k w' i n"
  shows "board_steps (board_of w)
     (board_of (fs_rename w' (WorkDir k QueueState) n (WorkDir k ActiveState) n))"
proof -
  from assms(4) obtain c where "n = md_name i" "fs_lookup w' (WorkDir k QueueState) (md_name i) = Some c"
    "content_for k i c" "i \<noteq> []" by (auto simp: claimable_def)
  with claim_rename_steps [OF assms(1) _ _ _ assms(3)] assms(2) show ?thesis
    by (metis rtranclp_trans)
qed

lemma claim_task_op: "board_op (claim_next_execution_task E root)"
proof (rule board_opI)
  fix w
  show "board_steps (board_of w) (board_of (snd (claim_next_execution_task E root w)))"
  proof (cases "list_markdown_files w (WorkDir WorkItemKind.Task ActiveState) = []")
    case True
    obtain r w1 where sel: "select_oldest_eligible_task E root w = (r, w1)" by fastforce
    note res = select_task_result [OF sel]
    from queue_scanned_idle [of WorkItemKind.Task w w1] res plane_idle_execution [OF True]
    have "plane_idle (board_of w1) (plane_for_builtin_kind WorkItemKind.Task)" by simp
    then show ?thesis
      using res claim_selected [of WorkItemKind.Task w w1]
      by (auto simp: claim_next_execution_task_def True sel queue_scanned_steps split: option.split)
  qed (simp add: claim_next_execution_task_def Let_def)
qed

lemma claim_learning_op: "board_op (claim_next_learning_request E)"
proof (rule board_opI)
  fix w
  show "board_steps (board_of w) (board_of (snd (claim_next_learning_request E w)))"
  proof (cases "list_markdown_files w (WorkDir WorkItemKind.LearningRequest ActiveState) = []")
    case True
    obtain r w1 where sel:
      "select_oldest_learning_request E (WorkDir WorkItemKind.LearningRequest QueueState) w = (r, w1)"
      by fastforce
    note res = select_learning_request_result [OF sel]
    from queue_scanned_idle [of WorkItemKind.LearningRequest w w1] res plane_idle_learning [OF True]
    have "plane_idle (board_of w1) (plane_for_builtin_kind WorkItemKind.LearningRequest)" by simp
    then show ?thesis
      using res claim_selected [of WorkItemKind.LearningRequest w w1]
      by (auto simp: claim_next_learning_request_def True sel queue_scanned_steps split: option.split)
  qed (simp add: claim_next_learning_request_def Let_def)
qed

section \<open>Claiming a draft and a planning item\<close>

lemma scan_drafts_mem:
  "scan_drafts E root completed w ns = Inr cands \<Longrightarrow> (d, n) \<in> set cands \<longleftrightarrow>
     n \<in> set ns \<and> fs_lookup w (WorkDir WorkItemKind.BlueprintDraft QueueState) n = Some (Draft d) \<and>
     (case root of None \<Rightarrow> True | Some r \<Rightarrow> bd_root_spec_id d = r) \<and>
     list_all (\<lambda>i. i \<in> set completed) (bd_depends_on_draft_ids d)"
proof (induction ns arbitrary: cands)
  case (Cons m ns)
  let ?q = "WorkDir WorkItemKind.BlueprintDraft QueueState"
  let ?pick = "\<lambda>e rest. if (case root of None \<Rightarrow> False | Some r \<Rightarrow> bd_root_spec_id e \<noteq> r) then rest
        else if \<not> list_all (\<lambda>i. i \<in> set completed) (bd_depends_on_draft_ids e) then rest else (e, m) # rest"
  from Cons.prems obtain c where c: "fs_lookup w ?q m = Some c" by (cases "fs_lookup w ?q m") simp_all
  with Cons.prems obtain e where e: "read_blueprint_draft E (?q, m) c = Inr e"
    and stem: "(if file_stem m \<noteq> bd_draft_id e
       then Inl (InvalidState (''filename stem does not match draft_id: expected '' @ bd_draft_id e
         @ '', found '' @ file_stem m))
       else map_ok (?pick e) (scan_drafts E root completed w ns)) = Inr cands"
    by (simp only: scan_drafts.simps option.case and_then_eq_Inr) blast
  from e c have m: "fs_lookup w ?q m = Some (Draft e)" by (simp add: read_blueprint_draft_Inr)
  from stem have "map_ok (?pick e) (scan_drafts E root completed w ns) = Inr cands"
    by (cases "file_stem m = bd_draft_id e") simp_all
  then obtain rest where rest: "scan_drafts E root completed w ns = Inr rest" and cands: "cands = ?pick e rest"
    by (simp only: map_ok_eq_Inr) blast
  have "(d, n) \<in> set cands \<longleftrightarrow> (d, n) \<in> set rest \<or>
     (n = m \<and> d = e \<and> (case root of None \<Rightarrow> True | Some r \<Rightarrow> bd_root_spec_id e = r) \<and>
      list_all (\<lambda>i. i \<in> set completed) (bd_depends_on_draft_ids e))"
    by (auto simp: cands split: option.splits)
  with Cons.IH [OF rest] m show ?case by auto
qed simp

lemma scan_drafts_named:
  "scan_drafts E root completed w ns = Inr cands \<Longrightarrow> n \<in> set ns \<Longrightarrow>
     \<exists>d. fs_lookup w (WorkDir WorkItemKind.BlueprintDraft QueueState) n = Some (Draft d) \<and>
       BlueprintDraftDocument_validate_contract d = Inr () \<and> file_stem n = bd_draft_id d"
  by (induction ns arbitrary: cands)
    (auto simp: and_then_eq_Inr map_ok_eq_Inr read_blueprint_draft_Inr split: option.splits if_splits)

lemma select_draft_Inr:
  assumes "select_next_eligible_draft E root w = Inr (Some (d, n))"
  shows "fs_lookup w (WorkDir WorkItemKind.BlueprintDraft QueueState) n = Some (Draft d)"
    and "n = json_name (bd_draft_id d)" and "bd_draft_id d \<noteq> []"
    and "list_all (\<lambda>i. i \<in> set (completed_dependency_draft_ids w)) (bd_depends_on_draft_ids d)"
proof -
  let ?q = "WorkDir WorkItemKind.BlueprintDraft QueueState"
  let ?key = "\<lambda>(d, n :: string). (bd_draft_index d, bd_created_at d, bd_draft_id d)"
  from assms obtain cands where
    scan: "scan_drafts E root (completed_dependency_draft_ids w) w (list_json_files w ?q) = Inr cands"
    and head: "Some (d, n) = (case sort_key ?key cands of [] \<Rightarrow> None | c # _ \<Rightarrow> Some c)"
    by (auto simp only: select_next_eligible_draft_def map_ok_eq_Inr)
  then obtain rest where hd: "sort_key ?key cands = (d, n) # rest"
    by (cases "sort_key ?key cands") simp_all
  from hd_sort_key_min(1) [OF hd] have "(d, n) \<in> set cands" .
  with scan_drafts_mem [OF scan] have n: "n \<in> set (list_json_files w ?q)"
    and l: "fs_lookup w ?q n = Some (Draft d)"
    and deps: "list_all (\<lambda>i. i \<in> set (completed_dependency_draft_ids w)) (bd_depends_on_draft_ids d)"
    by auto
  from scan_drafts_named [OF scan n] l have stem: "file_stem n = bd_draft_id d" by auto
  show "fs_lookup w ?q n = Some (Draft d)"
    and "list_all (\<lambda>i. i \<in> set (completed_dependency_draft_ids w)) (bd_depends_on_draft_ids d)"
    by (fact l, fact deps)
  from n json_file_name [of n] stem show "n = json_name (bd_draft_id d)" "bd_draft_id d \<noteq> []"
    by (simp_all add: mem_list_json_files)
qed

lemma claim_draft_steps:
  assumes idle: "plane_idle (board_of w) Plane.Planning"
    and claim: "claim_next_blueprint_draft E root w = (r, w')"
  shows "board_steps (board_of w) (board_of w')"
proof (cases "w' = w")
  case False
  let ?k = "WorkItemKind.BlueprintDraft"
  let ?d' = "\<lambda>d. d\<lparr>bd_status := BlueprintDraftStatus.Active\<rparr>"
  from claim False obtain d n where sel: "select_next_eligible_draft E root w = Inr (Some (d, n))"
    and w': "w' = fs_remove (fs_write w (WorkDir ?k ActiveState) n (Draft (?d' d))) (WorkDir ?k QueueState) n"
    by (auto simp: claim_next_blueprint_draft_def Let_def qbind_def write_unique_Inr
        dest: write_unique_Inl split: if_splits sum.splits option.splits prod.splits)
  note s = select_draft_Inr [OF sel]
  have c: "board_of w ?k QueueState (bd_draft_id d) = Some (Draft d)" by (simp add: board_of_def s(1) flip: s(2))
  have "board_of w' = board_set (board_set (board_of w) ?k QueueState (bd_draft_id d) None) ?k ActiveState
      (bd_draft_id d) (Some (Draft (?d' d)))"
    by (auto simp: w' s(2) board_of_def fun_eq_iff)
  then show ?thesis
    using board_step.claim [of "board_of w" ?k "bd_draft_id d" "Draft d" "Draft (?d' d)"] c s(3) idle
    by (simp add: board_step_steps)
qed simp

lemma claim_draft_active:
  assumes "claim_next_blueprint_draft E root w = (Inr None, w')"
  shows "w' = w"
  using assms
  by (auto simp: claim_next_blueprint_draft_def Let_def qbind_def
      split: if_splits sum.splits option.splits prod.splits)

lemma select_probe_or_spec_result:
  assumes "select_oldest_probe_or_spec E root w = (r, w')"
  shows "board_steps (board_of w) (board_of w') \<and> plane_idle (board_of w') p = plane_idle (board_of w) p \<and>
     (\<forall>k i n. r = Some (k, i, n) \<longrightarrow>
        (k = WorkItemKind.Probe \<or> k = WorkItemKind.Spec) \<and> claimable k w' i n)"
proof -
  obtain probe w1 where p1: "(if root = None
      then select_oldest_probe_candidate E (WorkDir WorkItemKind.Probe QueueState) w else (None, w)) = (probe, w1)"
    by (metis surj_pair)
  have probe: "queue_scanned WorkItemKind.Probe w w1 \<and>
      (\<forall>ts i n. probe = Some (ts, i, n) \<longrightarrow> claimable WorkItemKind.Probe w1 i n)"
    using select_probe_result [of E w probe w1] p1 by (auto simp: queue_scanned_refl split: if_splits)
  obtain spec w2 where p2: "select_oldest_spec_candidate E (WorkDir WorkItemKind.Spec QueueState) root w1 = (spec, w2)"
    by (metis surj_pair)
  note spec = select_spec_result [OF p2]
  let ?cands = "(case probe of None \<Rightarrow> [] | Some (ts, i, n) \<Rightarrow> [(ts, WorkItemKind.Probe, i, n)])
      @ (case spec of None \<Rightarrow> [] | Some (ts, i, n) \<Rightarrow> [(ts, WorkItemKind.Spec, i, n)])"
  have w': "w' = w2" and r: "r = (case sort_key (\<lambda>(ts, k, i, n). (ts, k, i)) ?cands of
      [] \<Rightarrow> None | (ts, k, i, n) # _ \<Rightarrow> Some (k, i, n))"
    using assms by (simp_all add: select_oldest_probe_or_spec_def p1 p2)
  have "(k = WorkItemKind.Probe \<or> k = WorkItemKind.Spec) \<and> claimable k w' i n" if "r = Some (k, i, n)" for k i n
  proof -
    from that r obtain ts rest where
      "sort_key (\<lambda>(ts, k, i, n). (ts, k, i)) ?cands = (ts, k, i, n) # rest"
      by (auto split: list.splits)
    from hd_sort_key_min(1) [OF this] have
      "(probe = Some (ts, i, n) \<and> k = WorkItemKind.Probe) \<or> (spec = Some (ts, i, n) \<and> k = WorkItemKind.Spec)"
      by (auto split: option.splits)
    with probe spec w' show ?thesis
      using queue_scanned_claimable [of WorkItemKind.Spec w1 w2 WorkItemKind.Probe i n] by auto
  qed
  moreover have "board_steps (board_of w) (board_of w')"
    unfolding w' using probe spec by (meson queue_scanned_steps rtranclp_trans)
  moreover have "plane_idle (board_of w') p = plane_idle (board_of w) p"
    unfolding w' using probe spec queue_scanned_idle by blast
  ultimately show ?thesis by blast
qed

lemma claim_planning_op: "board_op (claim_next_planning_item E root)"
proof (rule board_opI)
  fix w
  show "board_steps (board_of w) (board_of (snd (claim_next_planning_item E root w)))"
  proof (cases "planning_active_count w = 0")
    case True
    from plane_idle_planning [OF True] have idle: "plane_idle (board_of w) Plane.Planning" .
    obtain r1 w1 where s1: "select_oldest_incident E (WorkDir WorkItemKind.Incident QueueState) root w = (r1, w1)"
      by fastforce
    note inc = select_incident_result [OF s1]
    with idle queue_scanned_idle [of WorkItemKind.Incident w w1] have idle1: "plane_idle (board_of w1) Plane.Planning"
      by simp
    show ?thesis
    proof (cases r1)
      case (Some a)
      with inc idle1 claim_selected [of WorkItemKind.Incident w w1 "fst a" "snd a"]
        queue_scanned_steps [of WorkItemKind.Incident w w1] show ?thesis
        by (cases a) (simp add: claim_next_planning_item_def True s1)
    next
      case None
      obtain r2 w2 where s2: "claim_next_blueprint_draft E root w1 = (r2, w2)" by fastforce
      note draft = claim_draft_steps [OF idle1 s2]
      have upto: "board_steps (board_of w) (board_of w2)"
        using inc draft by (meson queue_scanned_steps rtranclp_trans)
      show ?thesis
      proof (cases "r2 = Inr None")
        case False
        with upto show ?thesis
          by (auto simp: claim_next_planning_item_def True s1 None qbind_def s2 split: sum.split option.split)
      next
        case last: True
        with claim_draft_active s2 have w2: "w2 = w1" by blast
        obtain r3 w3 where s3: "select_oldest_probe_or_spec E root w2 = (r3, w3)" by fastforce
        note sel = select_probe_or_spec_result [OF s3, of Plane.Planning]
        from upto sel have steps: "board_steps (board_of w) (board_of w3)" by (meson rtranclp_trans)
        have "plane_idle (board_of w3) Plane.Planning" using sel idle1 w2 by simp
        with sel steps claim_selected [of _ w w3] show ?thesis
          by (auto simp: claim_next_planning_item_def True s1 None qbind_def s2 last s3
              split: option.split)
      qed
    qed
  qed (simp add: claim_next_planning_item_def)
qed

section \<open>Operator interventions\<close>

text \<open>A located item is a file of a lifecycle directory other than the done directory.\<close>

definition located_at :: "fs \<Rightarrow> LocatedInterventionItem \<Rightarrow> WorkItemKind \<Rightarrow> Lifecycle \<Rightarrow> bool" where
  "located_at w l k s \<longleftrightarrow> k \<noteq> WorkItemKind.BlueprintDraft \<and> s \<noteq> DoneState \<and>
     li_work_item_kind l = k \<and> li_path l = (WorkDir k s, md_name (li_work_item_id l)) \<and>
     board_of w k s (li_work_item_id l) \<noteq> None"

lemma record_board [simp]:
  "board_of (write_operator_runtime_event ev r (append_intervention_record d r w)) = board_of w"
  by (simp add: write_operator_runtime_event_def append_intervention_record_def)

lemma archive_located_steps:
  assumes "located_at w l k s"
  shows "board_steps (board_of w) (board_of (snd
     (archive_located_item E counter l action dest archive_name ev reason ctx repl affected parent w)))"
proof -
  from assms obtain c where k: "k \<noteq> WorkItemKind.BlueprintDraft" and s: "s \<noteq> DoneState"
    and p: "li_path l = (WorkDir k s, md_name (li_work_item_id l))"
    and c: "board_of w k s (li_work_item_id l) = Some c" by (auto simp: located_at_def)
  have "board_steps (board_of w)
      (board_of (fs_rename w (WorkDir k s) (md_name (li_work_item_id l)) (SubDir d x) n))" for d x n
    using board_of_rename_out [OF c, of d x n] board_step.withdraw [of "board_of w" k s _ c] c s
    by (simp add: item_name_md [OF k] board_step_steps)
  then show ?thesis
    by (auto simp: archive_located_item_def qbind_def qlift_def Let_def p split: sum.split prod.split)
qed

lemma located_in_at:
  assumes "l \<in> set (located_in w k i dirs)" and "k \<noteq> WorkItemKind.BlueprintDraft"
    and "\<forall>(st, d)\<in>set dirs. \<exists>s. d = WorkDir k s \<and> s \<noteq> DoneState"
  shows "\<exists>s. located_at w l k s"
  using assms by (fastforce simp: located_in_def located_at_def board_of_def item_name_md fs_exists_def)

lemma located_bind_op:
  assumes "\<And>w l. locate w = Inr l \<Longrightarrow> \<exists>k s. located_at w l k s"
  shows "board_op (qbind (\<lambda>w. (locate w, w)) (\<lambda>l.
     archive_located_item E counter l action dest archive_name ev reason ctx repl affected parent))"
proof (rule board_opI)
  fix w
  show "board_steps (board_of w) (board_of (snd (qbind (\<lambda>w. (locate w, w)) (\<lambda>l.
     archive_located_item E counter l action dest archive_name ev reason ctx repl affected parent) w)))"
  proof (cases "locate w")
    case (Inr l)
    with assms obtain k s where "located_at w l k s" by blast
    from archive_located_steps [OF this] show ?thesis by (simp add: qbind_def Inr)
  qed (simp add: qbind_def)
qed

lemma exactly_one_Inr: "exactly_one subject states cands = Inr l \<Longrightarrow> l \<in> set cands"
  by (cases cands; cases "tl cands") (auto simp: exactly_one_def)

lemma locate_exact_task_at:
  "locate_exact_task w i [''blocked''] = Inr l \<Longrightarrow> \<exists>k s. located_at w l k s"
  "locate_exact_task w i [''blocked'', ''queue''] = Inr l \<Longrightarrow> \<exists>k s. located_at w l k s"
  by (auto simp: locate_exact_task_def task_state_dir_def dest!: exactly_one_Inr
      intro!: exI [of _ WorkItemKind.Task] elim!: located_in_at)

lemma locate_incident_at:
  "locate_incident w i [''incoming'', ''active'', ''blocked''] = Inr l \<Longrightarrow> \<exists>k s. located_at w l k s"
  by (auto simp: locate_incident_def incident_state_dir_def dest!: exactly_one_Inr
      intro!: exI [of _ WorkItemKind.Incident] elim!: located_in_at)

lemma locate_cancelable_at:
  assumes "locate_cancelable_work_item w i ko = Inr l"
  shows "\<exists>k s. located_at w l k s"
proof -
  let ?kinds = "case ko of Some k \<Rightarrow> [k]
     | None \<Rightarrow> [WorkItemKind.Task, WorkItemKind.Probe, WorkItemKind.Spec, WorkItemKind.Incident]"
  from assms have "concat (map (locate_cancelable_for_kind w i) ?kinds) = [l]"
    unfolding locate_cancelable_work_item_def Let_def by (simp split: list.splits)
  then have "l \<in> set (concat (map (locate_cancelable_for_kind w i) ?kinds))" by simp
  then obtain k where "l \<in> set (locate_cancelable_for_kind w i k)" by auto
  then have "l \<in> set (located_in w k i
        [(if k = WorkItemKind.Incident then ''incoming'' else ''queue'', WorkDir k QueueState),
         (''blocked'', WorkDir k BlockedState)])" and "k \<noteq> WorkItemKind.BlueprintDraft"
    by (auto simp: locate_cancelable_for_kind_def located_in_def split: if_splits)
  from located_in_at [OF this] show ?thesis by auto
qed

lemma archive_ops:
  "board_op (cancel_work_item E counter i ko reason ctx force)"
  "board_op (archive_blocked_task E counter i reason ctx)"
  "board_op (resolve_incident_by_operator E counter i reason ctx)"
  "board_op (cancel_incident E counter i reason ctx)"
  unfolding cancel_work_item_def archive_blocked_task_def resolve_incident_by_operator_def cancel_incident_def
  by (intro board_op_bind board_op_pure located_bind_op; erule locate_cancelable_at locate_exact_task_at
      locate_incident_at)+

lemma amend_task_steps:
  assumes "fs_lookup w (WorkDir WorkItemKind.Task QueueState) (md_name i) = Some (Doc (TaskDoc t))"
    and "td_task_id t' = td_task_id t"
  shows "board_steps (board_of w)
     (board_of (fs_write w (WorkDir WorkItemKind.Task QueueState) (md_name i) (Doc (TaskDoc t'))))"
proof -
  from assms(1) have c: "board_of w WorkItemKind.Task QueueState i = Some (Doc (TaskDoc t))"
    by (simp add: board_of_def item_name_md)
  from board_step.amend [of "board_of w" WorkItemKind.Task i "Doc (TaskDoc t)" "Doc (TaskDoc t')"] c assms(2)
  show ?thesis
    using board_of_write [of w WorkItemKind.Task QueueState i "Doc (TaskDoc t')"]
    by (simp add: item_name_md board_step_steps)
qed

lemma retarget_op: "board_op (retarget_queued_task_dependency E i old new reason ctx)"
proof (rule board_opI)
  fix w
  let ?op = "retarget_queued_task_dependency E i old new reason ctx" and ?d = "WorkDir WorkItemKind.Task QueueState"
  show "board_steps (board_of w) (board_of (snd (?op w)))"
  proof (cases "\<exists>t. fs_lookup w ?d (md_name i) = Some (Doc (TaskDoc t))")
    case True
    then obtain t where t: "fs_lookup w ?d (md_name i) = Some (Doc (TaskDoc t))" by blast
    have parse: "parse_task_document_with_source E (Doc (TaskDoc t)) src = Inr t' \<Longrightarrow> t' = t" for src t'
      by (simp add: parse_Inr)
    show ?thesis
      using amend_task_steps [OF t]
      by (auto simp: retarget_queued_task_dependency_def qbind_def qlift_def Let_def t write_document_def
          map_err_eq_Inr dest!: parse split: sum.split prod.split)
  next
    case False
    then have "parse_task_document_with_source E c src \<noteq> Inr t" if "fs_lookup w ?d (md_name i) = Some c" for c src t
      using that by (simp add: parse_Inr)
    then have "snd (?op w) = w"
      by (auto simp: retarget_queued_task_dependency_def qbind_def qlift_def Let_def map_err_eq_Inr
          split: sum.split prod.split option.split)
    then show ?thesis by simp
  qed
qed

lemma cascade_ops:
  "board_op (cascade_retarget E old new reason ctx is)"
  "board_op (cascade_cancel E counter reason ctx is)"
proof -
  show "board_op (cascade_retarget E old new reason ctx is)"
    by (induction "is") (auto intro!: board_op_bind retarget_op board_op_pure)
  show "board_op (cascade_cancel E counter reason ctx is)"
    by (induction "is" arbitrary: counter) (auto intro!: board_op_bind archive_ops board_op_pure)
qed

lemma bind_steps:
  assumes "board_steps (board_of w) (board_of (snd (m w)))" and "\<And>a. board_op (f a)"
  shows "board_steps (board_of w) (board_of (snd (qbind m f w)))"
proof (cases "m w")
  case (Pair r w1)
  show ?thesis
  proof (cases r)
    case (Inr a)
    with Pair assms(1) board_op.refines [OF assms(2) [of a], of w1] show ?thesis
      by (simp add: qbind_def)
  qed (use Pair assms(1) in \<open>simp add: qbind_def\<close>)
qed

lemma supersede_op: "board_op (supersede_task E counter old new reason cascade ctx)"
proof -
  let ?tail = "\<lambda>affected result. qbind (case cascade of
              NoCascade \<Rightarrow> qreturn ()
            | Retarget \<Rightarrow> cascade_retarget E old new reason ctx affected
            | CancelDependents \<Rightarrow> cascade_cancel E (Suc counter) reason ctx affected) (\<lambda>_. qreturn result)"
  have tail: "board_op (?tail affected result)" for affected and result :: OperatorInterventionResult
    by (intro board_op_bind board_op_pure) (cases cascade; simp add: board_op_pure cascade_ops)
  have "board_op (qbind (\<lambda>w. (locate_exact_task w old [''blocked'', ''queue''], w)) (\<lambda>located.
     qbind (\<lambda>w. (require_replacement_task w new, w)) (\<lambda>_.
     qbind (qget (\<lambda>w. queued_dependents E w old)) (\<lambda>affected.
     qbind (archive_located_item E counter located Supersede ''superseded'' ''superseded''
              ''task_superseded'' reason ctx (Some new) affected None) (?tail affected)))))"
    (is "board_op ?op")
  proof (rule board_opI)
    fix w
    show "board_steps (board_of w) (board_of (snd (?op w)))"
    proof (cases "locate_exact_task w old [''blocked'', ''queue'']")
      case (Inr l)
      then obtain k s where l: "located_at w l k s" using locate_exact_task_at by blast
      show ?thesis
      proof (cases "require_replacement_task w new")
        case req: (Inr u)
        let ?archive = "archive_located_item E counter l Supersede ''superseded'' ''superseded''
          ''task_superseded'' reason ctx (Some new) (queued_dependents E w old) None"
        have "?op w = qbind ?archive (?tail (queued_dependents E w old)) w"
          by (simp add: qbind_def Inr req)
        moreover have "board_steps (board_of w)
            (board_of (snd (qbind ?archive (?tail (queued_dependents E w old)) w)))"
          by (rule bind_steps) (rule archive_located_steps [OF l], rule tail)
        ultimately show ?thesis by simp
      qed (simp add: qbind_def Inr)
    qed (simp add: qbind_def)
  qed
  note core = this
  show ?thesis
    unfolding supersede_task_def
    by (rule board_op_bind, rule board_op_pure, rule board_op_bind, rule board_op_pure,
        rule board_op_if, rule board_op_pure, rule core)
qed

lemma board_of_rename_any_out:
  assumes "s \<noteq> DoneState"
  shows "board_steps (board_of w) (board_of (fs_rename w (WorkDir k s) n (SubDir d x) m))"
proof (cases "\<exists>i c. n = item_name k i \<and> board_of w k s i = Some c")
  case True
  then obtain i c where n: "n = item_name k i" and c: "board_of w k s i = Some c" by blast
  from board_step.withdraw [of "board_of w" k s i c] c assms show ?thesis
    by (simp add: n board_of_rename_out [OF c] board_step_steps)
next
  case False
  then have "board_of (fs_rename w (WorkDir k s) n (SubDir d x) m) = board_of w"
    by (auto simp: fs_rename_def board_of_def fun_eq_iff split: option.split)
  then show ?thesis by simp
qed

lemma archive_invalid_op: "board_op (archive_invalid_incident_artifact E counter filename reason ctx)"
proof (rule board_opI)
  fix w
  show "board_steps (board_of w) (board_of (snd (archive_invalid_incident_artifact E counter filename reason ctx w)))"
    using board_of_rename_any_out [of QueueState w WorkItemKind.Incident]
    by (auto simp: archive_invalid_incident_artifact_def qbind_def qlift_def Let_def
        split: sum.split prod.split)
qed

section \<open>The queue as a transition system\<close>

text \<open>The operations a step may be, with their arguments.\<close>

datatype queue_command =
    EnqueueTask TaskDocument
  | EnqueueSpec SpecDocument
  | EnqueueProbe ProbeDocument
  | EnqueueIncident IncidentDocument
  | EnqueueLearningRequest LearningRequestDocument
  | EnqueueDraft BlueprintDraftDocument
  | ClaimTask "string option"
  | ClaimPlanning "string option"
  | ClaimLearning
  | FinishItem WorkItemKind string
  | BlockItem WorkItemKind string
  | RequeueItem WorkItemKind string string
  | RequeueBlockedTask string string string bool "string option" "nat option"
  | CancelItem nat string "WorkItemKind option" string OperatorInterventionContext
  | ArchiveBlocked nat string string OperatorInterventionContext
  | SupersedeTask nat string string string MailboxSupersedeCascade OperatorInterventionContext
  | RetargetTask string string string string OperatorInterventionContext
  | ResolveIncidentBy nat string string OperatorInterventionContext
  | CancelIncidentBy nat string string OperatorInterventionContext
  | ArchiveInvalid nat string string OperatorInterventionContext

definition finish_item :: "env \<Rightarrow> WorkItemKind \<Rightarrow> string \<Rightarrow> path qop" where
  "finish_item E k i =
     (case k of
        WorkItemKind.Task \<Rightarrow> mark_task_done E i
      | WorkItemKind.Probe \<Rightarrow> mark_probe_done i
      | WorkItemKind.Spec \<Rightarrow> mark_spec_done i
      | WorkItemKind.Incident \<Rightarrow> mark_incident_resolved i
      | WorkItemKind.LearningRequest \<Rightarrow> mark_learning_request_done i
      | WorkItemKind.BlueprintDraft \<Rightarrow> approve_active_blueprint_draft E i)"

definition block_item :: "env \<Rightarrow> WorkItemKind \<Rightarrow> string \<Rightarrow> path qop" where
  "block_item E k i =
     (case k of
        WorkItemKind.Task \<Rightarrow> mark_task_blocked i
      | WorkItemKind.Probe \<Rightarrow> mark_probe_blocked i
      | WorkItemKind.Spec \<Rightarrow> mark_spec_blocked i
      | WorkItemKind.Incident \<Rightarrow> mark_incident_blocked i
      | WorkItemKind.LearningRequest \<Rightarrow> mark_learning_request_blocked i
      | WorkItemKind.BlueprintDraft \<Rightarrow> block_active_blueprint_draft E i)"

definition requeue_item :: "env \<Rightarrow> WorkItemKind \<Rightarrow> string \<Rightarrow> string \<Rightarrow> path qop" where
  "requeue_item E k i reason =
     (case k of
        WorkItemKind.Task \<Rightarrow> requeue_task E i reason
      | WorkItemKind.Probe \<Rightarrow> requeue_probe E i reason
      | WorkItemKind.Spec \<Rightarrow> requeue_spec E i reason
      | WorkItemKind.Incident \<Rightarrow> requeue_incident E i reason
      | WorkItemKind.LearningRequest \<Rightarrow> requeue_learning_request E i reason
      | WorkItemKind.BlueprintDraft \<Rightarrow> requeue_active_blueprint_draft E i)"

fun exec_queue_command :: "env \<Rightarrow> queue_command \<Rightarrow> fs \<Rightarrow> fs" where
  "exec_queue_command E (EnqueueTask d) w = snd (enqueue_task d w)"
| "exec_queue_command E (EnqueueSpec d) w = snd (enqueue_spec d w)"
| "exec_queue_command E (EnqueueProbe d) w = snd (enqueue_probe d w)"
| "exec_queue_command E (EnqueueIncident d) w = snd (enqueue_incident d w)"
| "exec_queue_command E (EnqueueLearningRequest d) w = snd (enqueue_learning_request E d w)"
| "exec_queue_command E (EnqueueDraft d) w = snd (enqueue_blueprint_draft E d w)"
| "exec_queue_command E (ClaimTask root) w = snd (claim_next_execution_task E root w)"
| "exec_queue_command E (ClaimPlanning root) w = snd (claim_next_planning_item E root w)"
| "exec_queue_command E ClaimLearning w = snd (claim_next_learning_request E w)"
| "exec_queue_command E (FinishItem k i) w = snd (finish_item E k i w)"
| "exec_queue_command E (BlockItem k i) w = snd (block_item E k i w)"
| "exec_queue_command E (RequeueItem k i reason) w = snd (requeue_item E k i reason w)"
| "exec_queue_command E (RequeueBlockedTask i reason actor auto fc n) w =
     snd (requeue_blocked_task E i reason actor auto fc n w)"
| "exec_queue_command E (CancelItem n i k reason ctx) w = snd (cancel_work_item E n i k reason ctx False w)"
| "exec_queue_command E (ArchiveBlocked n i reason ctx) w = snd (archive_blocked_task E n i reason ctx w)"
| "exec_queue_command E (SupersedeTask n i j reason cascade ctx) w =
     snd (supersede_task E n i j reason cascade ctx w)"
| "exec_queue_command E (RetargetTask i old new reason ctx) w =
     snd (retarget_queued_task_dependency E i old new reason ctx w)"
| "exec_queue_command E (ResolveIncidentBy n i reason ctx) w =
     snd (resolve_incident_by_operator E n i reason ctx w)"
| "exec_queue_command E (CancelIncidentBy n i reason ctx) w = snd (cancel_incident E n i reason ctx w)"
| "exec_queue_command E (ArchiveInvalid n f reason ctx) w =
     snd (archive_invalid_incident_artifact E n f reason ctx w)"

inductive queue_step :: "fs \<Rightarrow> fs \<Rightarrow> bool" where
  run: "queue_step w (exec_queue_command E c w)"

inductive_cases queue_stepE: "queue_step w w'"

definition empty_workspace :: fs where
  "empty_workspace = (\<lambda>d. [])"

inductive queue_reachable :: "fs \<Rightarrow> bool" where
  init: "queue_reachable empty_workspace"
| step: "queue_reachable w \<Longrightarrow> queue_step w w' \<Longrightarrow> queue_reachable w'"

lemmas command_ops = enqueue_task_op enqueue_spec_op enqueue_probe_op enqueue_incident_op
  enqueue_learning_request_op enqueue_blueprint_draft_op claim_task_op claim_planning_op claim_learning_op
  mark_task_done_op mark_ops draft_ops requeue_ops requeue_blocked_task_op archive_ops supersede_op
  retarget_op archive_invalid_op

lemma item_ops: "board_op (finish_item E k i)" "board_op (block_item E k i)" "board_op (requeue_item E k i reason)"
  by (cases k; simp add: finish_item_def block_item_def requeue_item_def command_ops)+

lemma exec_refines: "board_steps (board_of w) (board_of (exec_queue_command E c w))"
  by (cases c) (simp_all add: board_op.refines command_ops item_ops)

lemma queue_step_refines: "queue_step w w' \<Longrightarrow> board_steps (board_of w) (board_of w')"
  by (erule queue_stepE) (simp add: exec_refines)

lemma queue_steps_refine: "queue_step\<^sup>*\<^sup>* w w' \<Longrightarrow> board_steps (board_of w) (board_of w')"
  by (induction rule: rtranclp_induct) (auto dest: queue_step_refines)

lemma empty_board: "board_ok (board_of empty_workspace)"
  by (simp add: board_ok_def one_place_def one_active_def well_named_def board_of_def empty_workspace_def
      fs_lookup_def)

lemma reachable_ok: "queue_reachable w \<Longrightarrow> board_ok (board_of w)"
  by (induction rule: queue_reachable.induct) (auto intro: empty_board board_ok_steps queue_step_refines)

section \<open>Every operation meets the contract\<close>

interpretation enqueue_task: board_op "enqueue_task d" for d by (rule enqueue_task_op)
interpretation enqueue_spec: board_op "enqueue_spec d" for d by (rule enqueue_spec_op)
interpretation enqueue_probe: board_op "enqueue_probe d" for d by (rule enqueue_probe_op)
interpretation enqueue_incident: board_op "enqueue_incident d" for d by (rule enqueue_incident_op)
interpretation enqueue_learning_request: board_op "enqueue_learning_request E d" for E d
  by (rule enqueue_learning_request_op)
interpretation enqueue_blueprint_draft: board_op "enqueue_blueprint_draft E d" for E d
  by (rule enqueue_blueprint_draft_op)
interpretation claim_task: board_op "claim_next_execution_task E root" for E root by (rule claim_task_op)
interpretation claim_planning: board_op "claim_next_planning_item E root" for E root by (rule claim_planning_op)
interpretation claim_learning: board_op "claim_next_learning_request E" for E by (rule claim_learning_op)
interpretation finish: board_op "finish_item E k i" for E k i by (rule item_ops)
interpretation block: board_op "block_item E k i" for E k i by (rule item_ops)
interpretation requeue: board_op "requeue_item E k i reason" for E k i reason by (rule item_ops)
interpretation requeue_blocked: board_op "requeue_blocked_task E i reason actor auto fc n"
  for E i reason actor auto fc n by (rule requeue_blocked_task_op)
interpretation cancel_item: board_op "cancel_work_item E counter i ko reason ctx force"
  for E counter i ko reason ctx force by (rule archive_ops)
interpretation supersede: board_op "supersede_task E counter old new reason cascade ctx"
  for E counter old new reason cascade ctx by (rule supersede_op)
interpretation retarget: board_op "retarget_queued_task_dependency E i old new reason ctx"
  for E i old new reason ctx by (rule retarget_op)
interpretation command: board_op "\<lambda>w. (Inr (), exec_queue_command E c w)" for E c
  by (rule board_opI) (simp add: exec_refines)

end
