(* ===== verification/Queue_Claims.thy ===== *)
theory Queue_Claims
  imports Queue_Refinement
begin

text \<open>
  What the claim functions return. A queued document is eligible when it is readable, belongs to
  the root filter and all its dependencies are complete; a claim takes the least eligible
  document by timestamp and id, moves it to the active directory, and fails to find one only if
  there is none. The consequences of the board invariant for the functions of the queue store
  are here as well.
\<close>

section \<open>Eligible documents\<close>

lemma mem_ids_in_directory:
  "i \<in> set (ids_in_directory w d) \<longleftrightarrow> i \<noteq> [] \<and> fs_exists w d (md_name i)"
proof
  assume "i \<in> set (ids_in_directory w d)"
  then obtain n where "n \<in> set (list_markdown_files w d)" and "file_stem n = i"
    by (auto simp: ids_in_directory_def)
  with md_file_name [of n] show "i \<noteq> [] \<and> fs_exists w d (md_name i)"
    by (simp add: mem_list_markdown_files fs_exists_def)
next
  assume "i \<noteq> [] \<and> fs_exists w d (md_name i)"
  then have "md_name i \<in> set (list_markdown_files w d)" and "file_stem (md_name i) = i"
    by (simp_all add: mem_list_markdown_files fs_exists_def)
  then show "i \<in> set (ids_in_directory w d)" unfolding ids_in_directory_def by (metis image_eqI set_map)
qed

text \<open>The tasks a claim may choose from.\<close>

definition eligible_task :: "env \<Rightarrow> string option \<Rightarrow> fs \<Rightarrow> TaskDocument \<Rightarrow> bool" where
  "eligible_task E root w t \<longleftrightarrow>
     fs_lookup w (WorkDir WorkItemKind.Task QueueState) (md_name (td_task_id t)) = Some (Doc (TaskDoc t)) \<and>
     TaskDocument_validate t = Inr () \<and>
     root_matches root (effective_root_spec_task t) \<and>
     (\<forall>i\<in>set (td_depends_on t). i \<noteq> [] \<and> fs_exists w (WorkDir WorkItemKind.Task DoneState) (md_name i))"

lemma oldest_candidate_Some:
  assumes "oldest_candidate cands = Some c"
  shows "c \<in> set cands \<and> (\<forall>x\<in>set cands. candidate_key c \<le> candidate_key x)"
  using assms hd_sort_key_min [of candidate_key cands]
  by (auto simp: oldest_candidate_def split: list.splits)

lemma oldest_candidate_None: "oldest_candidate cands = None \<longleftrightarrow> cands = []"
  by (auto simp: oldest_candidate_def split: list.splits)

lemma readable_Some:
  "readable E parse id_of w d n = Some doc \<longleftrightarrow>
     (\<exists>c. fs_lookup w d n = Some c \<and> parse c (path_display E (d, n)) = Inr doc \<and> file_stem n = id_of doc)"
  by (auto simp: readable_def split: option.splits sum.splits)

lemma readable_task:
  assumes "file_extension n = Some ''md''"
  shows "readable E (parse_task_document_with_source E) td_task_id w d n = Some t \<longleftrightarrow>
     n = md_name (td_task_id t) \<and> fs_lookup w d n = Some (Doc (TaskDoc t)) \<and> TaskDocument_validate t = Inr ()"
proof -
  have "file_stem n = td_task_id t \<longleftrightarrow> n = md_name (td_task_id t)"
    using md_file_name [OF assms] md_name_parts(1) md_name_inject by metis
  then show ?thesis by (auto simp: readable_Some parse_Inr)
qed

lemma valid_task_id: "TaskDocument_validate t = Inr () \<Longrightarrow> td_task_id t \<noteq> []"
  using validated_id_nonempty [of _ "TaskDoc t"] by simp

lemma task_candidates:
  assumes "scan_documents E (WorkDir WorkItemKind.Task QueueState) (parse_task_document_with_source E)
      ''task_id'' td_task_id td_created_at
      (\<lambda>doc. root_matches root (effective_root_spec_task doc) \<and>
         list_all (\<lambda>dependency. dependency \<in> set (ids_in_directory w (WorkDir WorkItemKind.Task DoneState)))
           (td_depends_on doc))
      (list_markdown_files w (WorkDir WorkItemKind.Task QueueState)) w = (cands, w')"
  shows "set cands = {(td_created_at t, td_task_id t, md_name (td_task_id t)) | t. eligible_task E root w t}"
    and "\<And>t. eligible_task E root w t \<Longrightarrow>
      fs_lookup w' (WorkDir WorkItemKind.Task QueueState) (md_name (td_task_id t)) = Some (Doc (TaskDoc t))"
proof -
  let ?q = "WorkDir WorkItemKind.Task QueueState"
  let ?ns = "list_markdown_files w ?q"
  let ?r = "readable E (parse_task_document_with_source E) td_task_id w ?q"
  let ?ok = "\<lambda>t. root_matches root (effective_root_spec_task t) \<and>
     list_all (\<lambda>i. i \<in> set (ids_in_directory w (WorkDir WorkItemKind.Task DoneState))) (td_depends_on t)"
  note spec = scan_documents_spec [where ns = ?ns and w = w and E = E and d = ?q and id_of = td_task_id
      and parse = "parse_task_document_with_source E" and field = "''task_id''" and ts_of = td_created_at
      and keep = ?ok, OF distinct_list_markdown_files list_markdown_md, unfolded assms fst_conv snd_conv]
  have el: "(\<exists>n. n \<in> set ?ns \<and> ?r n = Some t \<and> ?ok t) \<longleftrightarrow> eligible_task E root w t" for t
  proof
    assume "\<exists>n. n \<in> set ?ns \<and> ?r n = Some t \<and> ?ok t"
    then show "eligible_task E root w t"
      by (auto simp: mem_list_markdown_files readable_task eligible_task_def list_all_iff mem_ids_in_directory)
  next
    assume e: "eligible_task E root w t"
    then have "file_extension (md_name (td_task_id t)) = Some ''md''"
      using valid_task_id by (simp add: eligible_task_def)
    with e show "\<exists>n. n \<in> set ?ns \<and> ?r n = Some t \<and> ?ok t"
      by (intro exI [of _ "md_name (td_task_id t)"])
        (auto simp: mem_list_markdown_files readable_task eligible_task_def list_all_iff mem_ids_in_directory)
  qed
  have name: "n \<in> set ?ns \<Longrightarrow> ?r n = Some t \<Longrightarrow> n = md_name (td_task_id t)" for n t
    by (simp add: mem_list_markdown_files readable_task)
  show "set cands = {(td_created_at t, td_task_id t, md_name (td_task_id t)) | t. eligible_task E root w t}"
    using spec el name by (auto simp: set_eq_iff)
  show "fs_lookup w' ?q (md_name (td_task_id t)) = Some (Doc (TaskDoc t))" if e: "eligible_task E root w t" for t
  proof -
    from e have x: "file_extension (md_name (td_task_id t)) = Some ''md''"
      using valid_task_id by (simp add: eligible_task_def)
    with e have "?r (md_name (td_task_id t)) = Some t" by (simp add: readable_task eligible_task_def)
    with spec x e show ?thesis by (simp add: eligible_task_def)
  qed
qed

lemma claim_task_None:
  assumes "list_markdown_files w (WorkDir WorkItemKind.Task ActiveState) = []"
  shows "fst (claim_next_execution_task E root w) = Inr None \<longleftrightarrow> (\<forall>t. \<not> eligible_task E root w t)"
proof -
  obtain cands w' where "scan_documents E (WorkDir WorkItemKind.Task QueueState) (parse_task_document_with_source E)
      ''task_id'' td_task_id td_created_at
      (\<lambda>doc. root_matches root (effective_root_spec_task doc) \<and>
         list_all (\<lambda>dependency. dependency \<in> set (ids_in_directory w (WorkDir WorkItemKind.Task DoneState)))
           (td_depends_on doc))
      (list_markdown_files w (WorkDir WorkItemKind.Task QueueState)) w = (cands, w')" (is "?scan = _")
    by fastforce
  note scan = this
  have "fst (claim_next_execution_task E root w) = Inr None \<longleftrightarrow> cands = []"
    using assms by (auto simp: claim_next_execution_task_def select_oldest_eligible_task_def Let_def scan
        oldest_candidate_None [symmetric] split: option.splits)
  also have "\<dots> \<longleftrightarrow> set cands = {}" by simp
  also have "\<dots> \<longleftrightarrow> (\<forall>t. \<not> eligible_task E root w t)"
    unfolding task_candidates(1) [OF scan] by blast
  finally show ?thesis .
qed

lemma claim_task_Some:
  assumes "claim_next_execution_task E root w = (Inr (Some c), w')"
  obtains t where "eligible_task E root w t"
    and "\<forall>u. eligible_task E root w u \<longrightarrow>
       (td_created_at t, td_task_id t) \<le> (td_created_at u, td_task_id u)"
    and "list_markdown_files w (WorkDir WorkItemKind.Task ActiveState) = []"
    and "c = \<lparr>qc_work_item_kind = WorkItemKind.Task, qc_family_id = ''task'', qc_plane = Plane.Execution,
      qc_work_item_id = td_task_id t,
      qc_path = (WorkDir WorkItemKind.Task ActiveState, md_name (td_task_id t)),
      qc_source_state = Some ''queue'',
      qc_source_path = Some (WorkDir WorkItemKind.Task QueueState, md_name (td_task_id t)),
      qc_claim_policy_id = Some ''execution.default'', qc_claim_order = Some 0\<rparr>"
    and "fs_lookup w' (WorkDir WorkItemKind.Task ActiveState) (md_name (td_task_id t)) = Some (Doc (TaskDoc t))"
    and "fs_lookup w' (WorkDir WorkItemKind.Task QueueState) (md_name (td_task_id t)) = None"
proof -
  let ?q = "WorkDir WorkItemKind.Task QueueState" and ?a = "WorkDir WorkItemKind.Task ActiveState"
  obtain cands w1 where "scan_documents E ?q (parse_task_document_with_source E)
      ''task_id'' td_task_id td_created_at
      (\<lambda>doc. root_matches root (effective_root_spec_task doc) \<and>
         list_all (\<lambda>dependency. dependency \<in> set (ids_in_directory w (WorkDir WorkItemKind.Task DoneState)))
           (td_depends_on doc))
      (list_markdown_files w ?q) w = (cands, w1)" (is "?scan = _")
    by fastforce
  note scan = this
  from assms have idle: "list_markdown_files w ?a = []"
    by (auto simp: claim_next_execution_task_def Let_def split: if_splits)
  with assms scan obtain ts i n where old: "oldest_candidate cands = Some (ts, i, n)"
    and c: "c = QueueClaim_with_claim_policy (QueueClaim_with_source
        (QueueClaim_for_builtin WorkItemKind.Task i (?a, n)) ''queue'' (?q, n)) ''execution.default'' 0"
    and w': "w' = fs_rename w1 ?q n ?a n"
    by (auto simp: claim_next_execution_task_def select_oldest_eligible_task_def Let_def split: option.splits)
  note min = oldest_candidate_Some [OF old]
  from min task_candidates(1) [OF scan] obtain t where t: "eligible_task E root w t"
    and eq: "ts = td_created_at t" "i = td_task_id t" "n = md_name (td_task_id t)" by auto
  have least: "(td_created_at t, td_task_id t) \<le> (td_created_at u, td_task_id u)" if "eligible_task E root w u" for u
  proof -
    have "(td_created_at u, td_task_id u, md_name (td_task_id u)) \<in> set cands"
      unfolding task_candidates(1) [OF scan] using that by blast
    with min have "candidate_key (ts, i, n) \<le> candidate_key (td_created_at u, td_task_id u, md_name (td_task_id u))"
      by blast
    then show ?thesis by (simp only: candidate_key_def eq fst_conv snd_conv)
  qed
  note l1 = task_candidates(2) [OF scan t]
  show thesis
  proof (rule that [OF t _ idle])
    show "c = \<lparr>qc_work_item_kind = WorkItemKind.Task, qc_family_id = ''task'', qc_plane = Plane.Execution,
      qc_work_item_id = td_task_id t, qc_path = (?a, md_name (td_task_id t)),
      qc_source_state = Some ''queue'', qc_source_path = Some (?q, md_name (td_task_id t)),
      qc_claim_policy_id = Some ''execution.default'', qc_claim_order = Some 0\<rparr>"
      by (simp add: c eq QueueClaim_with_claim_policy_def QueueClaim_with_source_def QueueClaim_for_builtin_def)
    show "fs_lookup w' ?a (md_name (td_task_id t)) = Some (Doc (TaskDoc t))"
      and "fs_lookup w' ?q (md_name (td_task_id t)) = None"
      by (simp_all add: w' eq store.lookup_move [OF l1])
  qed (use least in blast)
qed

section \<open>At most one active item\<close>

lemma distinct_all_equal: "distinct xs \<Longrightarrow> (\<forall>x\<in>set xs. \<forall>y\<in>set xs. x = y) \<Longrightarrow> length xs \<le> 1"
  by (simp add: card_le_Suc0_iff_eq flip: distinct_card)

text \<open>The active items of a kind, as the listing of its active directory gives them.\<close>

definition active_ids :: "fs \<Rightarrow> WorkItemKind \<Rightarrow> string list" where
  "active_ids w k =
     (if k = WorkItemKind.BlueprintDraft then map file_stem (list_json_files w (WorkDir k ActiveState))
      else ids_in_directory w (WorkDir k ActiveState))"

lemma file_stem_inj_md: "inj_on file_stem {n. file_extension n = Some ''md''}"
proof (rule inj_onI)
  fix m n
  assume "m \<in> {n. file_extension n = Some ''md''}" "n \<in> {n. file_extension n = Some ''md''}"
    and eq: "file_stem m = file_stem n"
  then have "m = md_name (file_stem m)" "n = md_name (file_stem n)"
    using md_file_name [of m] md_file_name [of n] by blast+
  with eq show "m = n" by simp
qed

lemma file_stem_inj_json: "inj_on file_stem {n. file_extension n = Some ''json''}"
proof (rule inj_onI)
  fix m n
  assume "m \<in> {n. file_extension n = Some ''json''}" "n \<in> {n. file_extension n = Some ''json''}"
    and eq: "file_stem m = file_stem n"
  then have "m = json_name (file_stem m)" "n = json_name (file_stem n)"
    using json_file_name [of m] json_file_name [of n] by blast+
  with eq show "m = n" by simp
qed

lemma distinct_ids_in_directory: "distinct (ids_in_directory w d)"
  by (auto simp: ids_in_directory_def distinct_map distinct_list_markdown_files mem_list_markdown_files
      intro: inj_on_subset [OF file_stem_inj_md])

lemma distinct_list_json_files: "distinct (list_json_files w d)"
  by (simp add: list_json_files_def store.names_distinct)

lemma distinct_active_ids: "distinct (active_ids w k)"
  by (auto simp: active_ids_def distinct_ids_in_directory distinct_map distinct_list_json_files
      mem_list_json_files intro: inj_on_subset [OF file_stem_inj_json])

lemma mem_active_ids: "i \<in> set (active_ids w k) \<longleftrightarrow> i \<noteq> [] \<and> board_of w k ActiveState i \<noteq> None"
proof (cases "k = WorkItemKind.BlueprintDraft")
  case True
  have "i \<in> file_stem ` set (list_json_files w (WorkDir k ActiveState)) \<longleftrightarrow>
      i \<noteq> [] \<and> fs_lookup w (WorkDir k ActiveState) (json_name i) \<noteq> None"
  proof
    assume "i \<in> file_stem ` set (list_json_files w (WorkDir k ActiveState))"
    then obtain n where "n \<in> set (list_json_files w (WorkDir k ActiveState))" and "file_stem n = i" by auto
    with json_file_name [of n] show "i \<noteq> [] \<and> fs_lookup w (WorkDir k ActiveState) (json_name i) \<noteq> None"
      by (simp add: mem_list_json_files)
  next
    assume i: "i \<noteq> [] \<and> fs_lookup w (WorkDir k ActiveState) (json_name i) \<noteq> None"
    then have "json_name i \<in> set (list_json_files w (WorkDir k ActiveState))" by (simp add: mem_list_json_files)
    with i show "i \<in> file_stem ` set (list_json_files w (WorkDir k ActiveState))"
      by (metis image_eqI json_name_parts(1))
  qed
  with True show ?thesis by (simp add: active_ids_def board_of_def)
next
  case False
  then show ?thesis
    by (simp add: active_ids_def mem_ids_in_directory fs_exists_def board_of_def item_name_md)
qed

lemma one_active_ids:
  assumes "board_ok (board_of w)" and "\<forall>k\<in>set ks. plane_for_builtin_kind k = p" and "distinct ks"
  shows "length (concat (map (active_ids w) ks)) \<le> 1"
proof -
  let ?xs = "concat (map (\<lambda>k. map (Pair k) (active_ids w k)) ks)"
  have "distinct ?xs"
    using assms(3) by (induction ks) (auto simp: distinct_map distinct_active_ids inj_on_def)
  moreover have "x = y" if "x \<in> set ?xs" "y \<in> set ?xs" for x y
  proof -
    from that obtain k i l j where x: "x = (k, i)" "y = (l, j)" and k: "k \<in> set ks" "l \<in> set ks"
      and i: "i \<in> set (active_ids w k)" "j \<in> set (active_ids w l)" by auto
    from i have ne: "i \<noteq> []" "j \<noteq> []" and at: "board_of w k ActiveState i \<noteq> None" "board_of w l ActiveState j \<noteq> None"
      unfolding mem_active_ids by blast+
    from assms(1) have a: "one_active (board_of w)" by (simp add: board_ok_def)
    from k assms(2) have "plane_for_builtin_kind k = plane_for_builtin_kind l" by simp
    from one_activeD [OF a this ne at] show ?thesis by (simp add: x)
  qed
  ultimately have "length ?xs \<le> 1" using distinct_all_equal by blast
  then show ?thesis by (simp add: length_concat o_def)
qed

lemma length_active_ids:
  "k \<noteq> WorkItemKind.BlueprintDraft \<Longrightarrow>
     length (active_ids w k) = length (list_markdown_files w (WorkDir k ActiveState))"
  "length (active_ids w WorkItemKind.BlueprintDraft) = active_blueprint_draft_count w"
  by (simp_all add: active_ids_def ids_in_directory_def active_blueprint_draft_count_def)

lemma active_counts:
  assumes "board_ok (board_of w)"
  shows "length (list_markdown_files w (WorkDir WorkItemKind.Task ActiveState)) \<le> 1"
    and "planning_active_count w \<le> 1"
    and "length (list_markdown_files w (WorkDir WorkItemKind.LearningRequest ActiveState)) \<le> 1"
  using one_active_ids [OF assms, of "[WorkItemKind.Task]" Plane.Execution]
    one_active_ids [OF assms, of "[WorkItemKind.Spec, WorkItemKind.Probe, WorkItemKind.Incident,
      WorkItemKind.BlueprintDraft]" Plane.Planning]
    one_active_ids [OF assms, of "[WorkItemKind.LearningRequest]" Plane.Learning]
  by (simp_all add: length_active_ids planning_active_count_def)

section \<open>Duplicates and stale state\<close>

lemma distinct_keys_filter: "distinct (map fst xs) \<Longrightarrow> length (filter (\<lambda>e. fst e = i) xs) \<le> 1"
  by (induction xs) (auto simp: filter_empty_conv image_iff)

lemma well_named_task_id:
  assumes "board_ok (board_of w)" and "n \<in> set (list_markdown_files w (WorkDir WorkItemKind.Task s))"
  shows "task_id_for_path E w (WorkDir WorkItemKind.Task s) n = file_stem n"
proof -
  let ?d = "WorkDir WorkItemKind.Task s"
  from assms(2) have n: "n = md_name (file_stem n)" using md_file_name [of n] by (simp add: mem_list_markdown_files)
  show ?thesis
  proof (cases "read_task_document_or_none E w ?d n")
    case (Some t)
    then have "fs_lookup w ?d n = Some (Doc (TaskDoc t))"
      by (auto simp: read_task_document_or_none_def parse_Inr split: option.splits sum.splits)
    with n have "board_of w WorkItemKind.Task s (file_stem n) = Some (Doc (TaskDoc t))"
      by (simp add: board_of_def item_name_md)
    with assms(1) have "content_for WorkItemKind.Task (file_stem n) (Doc (TaskDoc t))"
      unfolding board_ok_def well_named_def by blast
    with Some show ?thesis by (simp add: task_id_for_path_def)
  qed (simp add: task_id_for_path_def)
qed

lemma no_duplicate_ids:
  assumes ok: "board_ok (board_of w)"
  shows "find_duplicate_task_lifecycle_ids E w = []"
proof -
  let ?T = "WorkDir WorkItemKind.Task"
  have stems: "map (\<lambda>n. task_id_for_path E w (?T s) n) (list_markdown_files w (?T s)) = ids_in_directory w (?T s)" for s
    unfolding ids_in_directory_def using well_named_task_id [OF ok] by (intro map_cong) auto
  have fsts: "map fst (task_lifecycle_entries E w) =
      concat (map (\<lambda>s. ids_in_directory w (?T s)) [QueueState, ActiveState, DoneState, BlockedState])"
    by (simp add: task_lifecycle_entries_def task_lifecycle_directories_def stems [symmetric] o_def)
  have disj: "set (ids_in_directory w (?T s)) \<inter> set (ids_in_directory w (?T t)) = {}" if "s \<noteq> t" for s t
  proof -
    from ok have "one_place (board_of w)" by (simp add: board_ok_def)
    with that have "board_of w WorkItemKind.Task s i = None \<or> board_of w WorkItemKind.Task t i = None" for i
      unfolding one_place_def by blast
    then show ?thesis by (auto simp: mem_ids_in_directory fs_exists_def board_of_def item_name_md)
        (metis option.distinct(1))
  qed
  have "distinct (map fst (task_lifecycle_entries E w))"
    using disj by (auto simp: fsts distinct_ids_in_directory Int_Un_distrib)
  then have "length (filter (\<lambda>e. fst e = i) (task_lifecycle_entries E w)) \<le> 1" for i
    by (rule distinct_keys_filter)
  then show ?thesis
    by (simp add: find_duplicate_task_lifecycle_ids_def Let_def not_less)
qed

section \<open>Drafts and incidents\<close>

definition eligible_draft :: "string option \<Rightarrow> fs \<Rightarrow> BlueprintDraftDocument \<Rightarrow> bool" where
  "eligible_draft root w d \<longleftrightarrow>
     bd_draft_id d \<noteq> [] \<and>
     fs_lookup w (WorkDir WorkItemKind.BlueprintDraft QueueState) (json_name (bd_draft_id d)) = Some (Draft d) \<and>
     (root = None \<or> root = Some (bd_root_spec_id d)) \<and>
     (\<forall>i\<in>set (bd_depends_on_draft_ids d). i \<in> set (completed_dependency_draft_ids w))"

definition draft_key :: "BlueprintDraftDocument \<Rightarrow> nat \<times> string \<times> string" where
  "draft_key d = (bd_draft_index d, bd_created_at d, bd_draft_id d)"

lemma eligible_draft_candidate:
  assumes "scan_drafts E root (completed_dependency_draft_ids w) w
      (list_json_files w (WorkDir WorkItemKind.BlueprintDraft QueueState)) = Inr cands"
    and "eligible_draft root w d"
  shows "(d, json_name (bd_draft_id d)) \<in> set cands"
  using assms(2)
  by (auto simp: scan_drafts_mem [OF assms(1)] eligible_draft_def mem_list_json_files list_all_iff
      split: option.splits)

lemma select_draft_least:
  assumes "select_next_eligible_draft E root w = Inr (Some (d, n))"
  shows "eligible_draft root w d \<and> n = json_name (bd_draft_id d) \<and>
     (\<forall>u. eligible_draft root w u \<longrightarrow> draft_key d \<le> draft_key u)"
proof -
  let ?q = "WorkDir WorkItemKind.BlueprintDraft QueueState"
  let ?key = "\<lambda>(d, n :: string). (bd_draft_index d, bd_created_at d, bd_draft_id d)"
  from assms obtain cands where
    scan: "scan_drafts E root (completed_dependency_draft_ids w) w (list_json_files w ?q) = Inr cands"
    and head: "Some (d, n) = (case sort_key ?key cands of [] \<Rightarrow> None | c # _ \<Rightarrow> Some c)"
    by (auto simp only: select_next_eligible_draft_def map_ok_eq_Inr)
  then obtain rest where hd: "sort_key ?key cands = (d, n) # rest"
    by (cases "sort_key ?key cands") simp_all
  note s = select_draft_Inr [OF assms]
  from hd_sort_key_min(1) [OF hd] have "(d, n) \<in> set cands" .
  with scan_drafts_mem [OF scan] have "case root of None \<Rightarrow> True | Some r \<Rightarrow> bd_root_spec_id d = r" by simp
  with s have "eligible_draft root w d"
    by (auto simp: eligible_draft_def list_all_iff split: option.splits)
  moreover have "draft_key d \<le> draft_key u" if "eligible_draft root w u" for u
    using hd_sort_key_min(2) [OF hd] eligible_draft_candidate [OF scan that]
    unfolding draft_key_def by (simp split: prod.splits) force
  ultimately show ?thesis using s(2) by blast
qed

text \<open>The incidents a planning claim may choose from.\<close>

definition eligible_incident :: "string option \<Rightarrow> fs \<Rightarrow> IncidentDocument \<Rightarrow> bool" where
  "eligible_incident root w d \<longleftrightarrow>
     fs_lookup w (WorkDir WorkItemKind.Incident QueueState) (md_name (nd_incident_id d)) = Some (Doc (IncidentDoc d)) \<and>
     IncidentDocument_validate d = Inr () \<and> root_matches root (effective_root_spec_incident d)"

lemma select_incident_None:
  assumes "select_oldest_incident E (WorkDir WorkItemKind.Incident QueueState) root w = (None, w')"
  shows "\<not> eligible_incident root w d"
proof
  let ?q = "WorkDir WorkItemKind.Incident QueueState"
  let ?ns = "list_markdown_files w ?q"
  let ?n = "md_name (nd_incident_id d)"
  assume e: "eligible_incident root w d"
  then have id: "nd_incident_id d \<noteq> []"
    using validated_id_nonempty [of _ "IncidentDoc d"] by (simp add: eligible_incident_def)
  with e have n: "?n \<in> set ?ns" by (simp add: mem_list_markdown_files eligible_incident_def)
  from e id have r: "readable E (parse_incident_document_with_source E) nd_incident_id w ?q ?n = Some d"
    by (simp add: readable_Some parse_Inr eligible_incident_def)
  obtain cands where scan: "scan_documents E ?q (parse_incident_document_with_source E) ''incident_id''
      nd_incident_id nd_opened_at (\<lambda>doc. root_matches root (effective_root_spec_incident doc)) ?ns w = (cands, w')"
    and "oldest_candidate cands = None"
    using assms by (auto simp: select_oldest_incident_def Let_def split: prod.splits)
  then have "cands = []" by (simp add: oldest_candidate_None)
  with scan_documents_spec [where ns = ?ns and w = w and E = E and d = ?q and id_of = nd_incident_id
      and parse = "parse_incident_document_with_source E" and field = "''incident_id''"
      and ts_of = nd_opened_at and keep = "\<lambda>doc. root_matches root (effective_root_spec_incident doc)",
      OF distinct_list_markdown_files list_markdown_md, unfolded scan fst_conv snd_conv] n r e
  show False by (auto simp: eligible_incident_def)
qed

lemma claim_builtin_fields [simp]:
  "qc_work_item_kind (QueueClaim_with_claim_policy (QueueClaim_with_source (QueueClaim_for_builtin k i p) s q) c n) = k"
  "qc_work_item_id (QueueClaim_with_claim_policy (QueueClaim_with_source (QueueClaim_for_builtin k i p) s q) c n) = i"
  "qc_plane (QueueClaim_with_claim_policy (QueueClaim_with_source (QueueClaim_for_builtin k i p) s q) c n) =
     plane_for_builtin_kind k"
  by (simp_all add: QueueClaim_with_claim_policy_def QueueClaim_with_source_def QueueClaim_for_builtin_def)

lemma planning_claim_idle:
  "fst (claim_next_planning_item E root w) = Inr (Some c) \<Longrightarrow> planning_active_count w = 0"
  by (auto simp: claim_next_planning_item_def split: if_splits)

lemma planning_claim_incident:
  assumes "fst (claim_next_planning_item E root w) = Inr (Some c)" and "eligible_incident root w d"
  shows "qc_work_item_kind c = WorkItemKind.Incident"
proof -
  note idle = planning_claim_idle [OF assms(1)]
  obtain r w1 where sel: "select_oldest_incident E (WorkDir WorkItemKind.Incident QueueState) root w = (r, w1)"
    by fastforce
  with select_incident_None assms(2) obtain a where "r = Some a" by (cases r) blast+
  with assms(1) idle sel show ?thesis
    by (cases a) (auto simp: claim_next_planning_item_def)
qed

section \<open>Stale state after a claim\<close>

lemma length_le_1_singleton: "length xs \<le> 1 \<Longrightarrow> x \<in> set xs \<Longrightarrow> xs = [x]"
  by (cases xs; cases "tl xs") auto

lemma claim_not_stale:
  assumes "board_ok (board_of w')"
    and "fs_lookup w' (WorkDir WorkItemKind.Task ActiveState) (md_name i) \<noteq> None"
    and "fs_lookup w' (WorkDir WorkItemKind.Task QueueState) (md_name i) = None" and "i \<noteq> []"
  shows "detect_execution_stale_state w' (Some i) = \<lparr>is_stale = False, stale_reasons = []\<rparr>"
proof -
  let ?a = "ids_in_directory w' (WorkDir WorkItemKind.Task ActiveState)"
  have "i \<in> set ?a" using assms by (simp add: mem_ids_in_directory fs_exists_def)
  moreover have "length ?a \<le> 1" using active_counts(1) [OF assms(1)] by (simp add: ids_in_directory_def)
  ultimately have a: "?a = [i]" by (rule length_le_1_singleton [rotated])
  have "i \<notin> set (ids_in_directory w' (WorkDir WorkItemKind.Task QueueState))"
    using assms(3) by (simp add: mem_ids_in_directory fs_exists_def)
  then show ?thesis by (simp add: detect_execution_stale_state_def a stale_state_def)
qed

end
