(* ===== verification/Queue_Properties.thy ===== *)
theory Queue_Properties
  imports Queue_Claims
begin

text \<open>
  The properties of the queue store, its claims and the operator interventions, each from the
  lemmas of the queue theories. The examples below are the concrete inputs at which the
  properties with hypotheses are applied: two tasks, the second depending on the first.
\<close>

section \<open>Examples\<close>

definition example_env :: env where
  "example_env =
     \<lparr>env_root = ''/w'', env_now = ''2026-01-02T00:00:00Z'',
      env_now_dt = \<lparr>dt_year = 2026, dt_month = 1, dt_day = 2, dt_hour = 0, dt_minute = 0, dt_second = 0\<rparr>,
      env_suffix = show_nat,
      env_rfc = (\<lambda>_. Inr \<lparr>dt_year = 2026, dt_month = 1, dt_day = 2, dt_hour = 0, dt_minute = 0, dt_second = 0\<rparr>),
      env_json_text = (\<lambda>_. [])\<rparr>"

definition task_one :: TaskDocument where
  "task_one =
     \<lparr>td_task_id = ''t1'', td_title = ''One'', td_summary = [], td_root_idea_id = None,
      td_root_spec_id = Some ''s1'', td_root_intake_kind = None, td_root_intake_id = None,
      td_spec_id = None, td_parent_task_id = None, td_incident_id = None, td_target_paths = [''src''],
      td_acceptance = [''works''], td_required_checks = [''test''], td_references = [''spec''],
      td_risk = [''low''], td_depends_on = [], td_blocks = [], td_tags = [], td_status_hint = None,
      td_created_at = ''2026-01-01T00:00:00Z'', td_created_by = ''manager'', td_updated_at = None\<rparr>"

definition task_two :: TaskDocument where
  "task_two = task_one\<lparr>td_task_id := ''t2'', td_depends_on := [''t1'']\<rparr>"

text \<open>Both tasks queued; the first one claimed; and the workspace with the first one done.\<close>

definition two_queued :: fs where
  "two_queued = exec_queue_command example_env (EnqueueTask task_two)
     (exec_queue_command example_env (EnqueueTask task_one) empty_workspace)"

definition one_active_one_queued :: fs where
  "one_active_one_queued = exec_queue_command example_env (ClaimTask None) two_queued"

definition one_done :: fs where
  "one_done = exec_queue_command example_env (FinishItem WorkItemKind.Task ''t1'') one_active_one_queued"

lemma example_reachable:
  "queue_reachable two_queued" "queue_reachable one_active_one_queued" "queue_reachable one_done"
proof -
  show two: "queue_reachable two_queued"
    unfolding two_queued_def by (intro queue_reachable.step [OF _ queue_step.run] queue_reachable.init)
  show act: "queue_reachable one_active_one_queued"
    unfolding one_active_one_queued_def by (rule queue_reachable.step [OF two queue_step.run])
  show "queue_reachable one_done"
    unfolding one_done_def by (rule queue_reachable.step [OF act queue_step.run])
qed

section \<open>The invariant of the queue\<close>

text \<open>C1. Whatever sequence of queue operations and operator interventions has run on a fresh
  workspace, and whatever each of them returned, at most one task is active, at most one
  planning item (spec, probe, incident or Blueprint draft together), and at most one learning
  request.\<close>

theorem reachable_active_bounds:
  assumes "queue_reachable w"
  shows "length (list_markdown_files w (WorkDir WorkItemKind.Task ActiveState)) \<le> 1 \<and>
     planning_active_count w \<le> 1 \<and>
     length (list_markdown_files w (WorkDir WorkItemKind.LearningRequest ActiveState)) \<le> 1"
  using active_counts [OF reachable_ok [OF assms]] by simp

lemma reachable_active_bounds_witness:
  "length (list_markdown_files one_active_one_queued (WorkDir WorkItemKind.Task ActiveState)) \<le> 1 \<and>
   list_markdown_files one_active_one_queued (WorkDir WorkItemKind.Task ActiveState) = [''t1.md'']"
proof -
  have "list_markdown_files one_active_one_queued (WorkDir WorkItemKind.Task ActiveState) = [''t1.md'']"
    by code_simp
  with reachable_active_bounds [OF example_reachable(2)] show ?thesis by simp
qed



text \<open>C3. The operations refine the abstract lifecycle: every step of the workspace changes the
  board by the transitions of \<open>board_step\<close> only (enter, claim, transfer, withdraw, amend).\<close>

theorem queue_refines_lifecycle:
  assumes "queue_step w w'"
  shows "board_step\<^sup>*\<^sup>* (board_of w) (board_of w')"
  by (rule queue_step_refines [OF assms])

lemma queue_refines_lifecycle_witness:
  "board_step\<^sup>*\<^sup>* (board_of two_queued) (board_of one_active_one_queued) \<and>
   board_of one_active_one_queued WorkItemKind.Task ActiveState ''t1'' = Some (Doc (TaskDoc task_one))"
proof -
  have "board_of one_active_one_queued WorkItemKind.Task ActiveState ''t1'' = Some (Doc (TaskDoc task_one))"
    by code_simp
  moreover have "queue_step two_queued one_active_one_queued"
    unfolding one_active_one_queued_def by (rule queue_step.run)
  ultimately show ?thesis using queue_refines_lifecycle by blast
qed

text \<open>C5. Done is final: a document in a done directory stays there, unchanged, through every
  further operation, so a dependency that was satisfied once remains satisfied.\<close>

theorem done_is_final:
  assumes "queue_step\<^sup>*\<^sup>* w w'"
    and "fs_lookup w (WorkDir k DoneState) (item_name k i) = Some c"
  shows "fs_lookup w' (WorkDir k DoneState) (item_name k i) = Some c"
  using done_steps [OF queue_steps_refine [OF assms(1)]] assms(2) by (simp add: board_of_def)

lemma done_is_final_witness:
  "fs_lookup (exec_queue_command example_env (ClaimTask None) one_done) (WorkDir WorkItemKind.Task DoneState)
     ''t1.md'' = Some (Doc (TaskDoc task_one))"
proof -
  have "fs_lookup one_done (WorkDir WorkItemKind.Task DoneState) (item_name WorkItemKind.Task ''t1'') =
      Some (Doc (TaskDoc task_one))"
    by code_simp
  moreover have "queue_step\<^sup>*\<^sup>* one_done (exec_queue_command example_env (ClaimTask None) one_done)"
    by (rule r_into_rtranclp) (rule queue_step.run)
  ultimately have "fs_lookup (exec_queue_command example_env (ClaimTask None) one_done)
      (WorkDir WorkItemKind.Task DoneState) (item_name WorkItemKind.Task ''t1'') = Some (Doc (TaskDoc task_one))"
    by (rule done_is_final [rotated])
  then show ?thesis by (simp add: item_name_def md_name_def)
qed

text \<open>No task id is reported as duplicated in a reachable workspace: the integrity check of
  \<^verbatim>\<open>task_lifecycle_integrity.rs\<close> finds nothing.\<close>

lemma reachable_no_duplicate_tasks:
  assumes "queue_reachable w"
  shows "find_duplicate_task_lifecycle_ids E w = []"
  by (rule no_duplicate_ids [OF reachable_ok [OF assms]])

text \<open>In a reachable workspace the task and the learning claim always succeed, with an item or
  with none: their \<open>multiple active\<close> errors are unreachable.\<close>

lemma claims_never_find_multiple_active:
  assumes "queue_reachable w"
  shows "(\<exists>c. fst (claim_next_execution_task E root w) = Inr c) \<and>
     (\<exists>c. fst (claim_next_learning_request E w) = Inr c)"
proof -
  note b = active_counts [OF reachable_ok [OF assms]]
  have "\<exists>c. fst (claim_next_execution_task E root w) = Inr c"
    using b(1) by (auto simp: claim_next_execution_task_def Let_def split: prod.split option.split)
  moreover have "\<exists>c. fst (claim_next_learning_request E w) = Inr c"
    using b(3) by (auto simp: claim_next_learning_request_def Let_def split: prod.split option.split)
  ultimately show ?thesis by blast
qed

section \<open>What a claim returns\<close>



text \<open>C6. Progress: when no task is active, the claim returns none only if no queued task is
  eligible.\<close>

theorem claim_misses_no_eligible_task:
  assumes "list_markdown_files w (WorkDir WorkItemKind.Task ActiveState) = []"
  shows "fst (claim_next_execution_task E root w) = Inr None \<longleftrightarrow> (\<forall>t. \<not> eligible_task E root w t)"
  by (rule claim_task_None [OF assms])

lemma claim_misses_no_eligible_task_witness:
  "\<exists>t. eligible_task example_env None one_done t"
proof -
  have "list_markdown_files one_done (WorkDir WorkItemKind.Task ActiveState) = []"
    and "fst (claim_next_execution_task example_env None one_done) \<noteq> Inr None"
    by code_simp+
  with claim_misses_no_eligible_task show ?thesis by blast
qed

text \<open>A task that depends on itself is never eligible in a reachable workspace, because a done
  id is not queued: nothing but an operator can move it.\<close>

lemma self_dependent_task_never_eligible:
  assumes "queue_reachable w" and "td_task_id t \<in> set (td_depends_on t)"
  shows "\<not> eligible_task E root w t"
proof
  let ?i = "td_task_id t"
  assume "eligible_task E root w t"
  with assms(2) have "board_of w WorkItemKind.Task QueueState ?i \<noteq> None"
    and "board_of w WorkItemKind.Task DoneState ?i \<noteq> None"
    by (auto simp: eligible_task_def board_of_def item_name_md fs_exists_def)
  moreover from reachable_ok [OF assms(1)] have "one_place (board_of w)" by (simp add: board_ok_def)
  ultimately have "QueueState = DoneState" unfolding one_place_def by blast
  then show False by simp
qed

definition task_self :: TaskDocument where
  "task_self = task_one\<lparr>td_task_id := ''t3'', td_depends_on := [''t3'']\<rparr>"

definition self_queued :: fs where
  "self_queued = exec_queue_command example_env (EnqueueTask task_self) empty_workspace"

text \<open>After a successful task claim in a reachable workspace, the stale-state check with the
  claimed id as the snapshot's active task reports nothing.\<close>

lemma claimed_task_is_not_stale:
  assumes "queue_reachable w" and "fst (claim_next_execution_task E root w) = Inr (Some c)"
  shows "detect_execution_stale_state (snd (claim_next_execution_task E root w)) (Some (qc_work_item_id c)) =
     \<lparr>is_stale = False, stale_reasons = []\<rparr>"
proof -
  let ?w' = "snd (claim_next_execution_task E root w)"
  have ok: "board_ok (board_of ?w')" by (rule claim_task.keeps_ok [OF reachable_ok [OF assms(1)]])
  obtain w' where "claim_next_execution_task E root w = (Inr (Some c), w')"
    using assms(2) by (metis prod.collapse)
  then show ?thesis
  proof (rule claim_task_Some)
    fix t
    assume "eligible_task E root w t"
      and c: "c = \<lparr>qc_work_item_kind = WorkItemKind.Task, qc_family_id = ''task'', qc_plane = Plane.Execution,
        qc_work_item_id = td_task_id t,
        qc_path = (WorkDir WorkItemKind.Task ActiveState, md_name (td_task_id t)),
        qc_source_state = Some ''queue'',
        qc_source_path = Some (WorkDir WorkItemKind.Task QueueState, md_name (td_task_id t)),
        qc_claim_policy_id = Some ''execution.default'', qc_claim_order = Some 0\<rparr>"
      and at: "fs_lookup w' (WorkDir WorkItemKind.Task ActiveState) (md_name (td_task_id t)) = Some (Doc (TaskDoc t))"
        "fs_lookup w' (WorkDir WorkItemKind.Task QueueState) (md_name (td_task_id t)) = None"
    then have "td_task_id t \<noteq> []" using valid_task_id by (simp add: eligible_task_def)
    with at ok \<open>claim_next_execution_task E root w = (Inr (Some c), w')\<close> show ?thesis
      using claim_not_stale [of w' "td_task_id t"] by (simp add: c)
  qed
qed

end
