(* ===== verification/Intervention_Properties.thy ===== *)
theory Intervention_Properties
  imports Queue_Properties
begin

text \<open>
  The properties of single operations of the queue store: enqueueing, claiming drafts and
  planning items, quarantine, requeueing and the operator interventions, with their error paths.
\<close>

section \<open>Enqueueing\<close>


section \<open>Drafts and planning items\<close>

text \<open>C7. A draft claim takes the eligible draft with the least \<open>(index, created_at, id)\<close>: its
  dependencies are all approved, canceled or superseded; it moves to the active directory with
  status active and changes nothing else in the document.\<close>

theorem claim_takes_least_eligible_draft:
  assumes "fst (claim_next_blueprint_draft E root w) = Inr (Some c)"
  shows "\<exists>d. eligible_draft root w d \<and> (\<forall>u. eligible_draft root w u \<longrightarrow> draft_key d \<le> draft_key u) \<and>
     qc_work_item_id c = bd_draft_id d \<and> qc_work_item_kind c = WorkItemKind.BlueprintDraft \<and>
     fs_lookup (snd (claim_next_blueprint_draft E root w)) (WorkDir WorkItemKind.BlueprintDraft ActiveState)
       (json_name (bd_draft_id d)) = Some (Draft (d\<lparr>bd_status := BlueprintDraftStatus.Active\<rparr>)) \<and>
     fs_lookup (snd (claim_next_blueprint_draft E root w)) (WorkDir WorkItemKind.BlueprintDraft QueueState)
       (json_name (bd_draft_id d)) = None"
proof -
  let ?k = "WorkItemKind.BlueprintDraft"
  obtain w' where claim: "claim_next_blueprint_draft E root w = (Inr (Some c), w')"
    using assms by (metis prod.collapse)
  then obtain d n p where sel: "select_next_eligible_draft E root w = Inr (Some (d, n))"
    and c: "c = QueueClaim_with_claim_policy (QueueClaim_with_source (QueueClaim_for_builtin ?k (bd_draft_id d) p)
        ''queue'' (WorkDir ?k QueueState, n)) ''planning.default'' 1"
    and w': "w' = fs_remove (fs_write w (WorkDir ?k ActiveState) n
        (Draft (d\<lparr>bd_status := BlueprintDraftStatus.Active\<rparr>))) (WorkDir ?k QueueState) n"
    by (auto simp: claim_next_blueprint_draft_def Let_def qbind_def write_unique_Inr
        dest: write_unique_Inl split: if_splits sum.splits option.splits prod.splits)
  from select_draft_least [OF sel] show ?thesis
    by (intro exI [of _ d]) (auto simp: c claim w')
qed

definition first_draft :: BlueprintDraftDocument where
  "first_draft =
     \<lparr>bd_schema_version = ''1.0'', bd_kind = ''blueprint_draft'', bd_draft_id = ''d1'',
      bd_manifest_id = ''m1'', bd_root_spec_id = ''s1'', bd_root_idea_id = ''i1'',
      bd_source_spec_id = ''s1'', bd_draft_index = 1, bd_depends_on_draft_ids = [],
      bd_title = ''First'', bd_summary = ''The first slice'', bd_scope = [], bd_non_goals = [],
      bd_target_paths = [''src''], bd_acceptance_intent = [''works''], bd_verification_intent = [],
      bd_dependency_notes = [], bd_integration_boundary_notes = [], bd_context_excerpt = ''excerpt'',
      bd_current_revision = 1, bd_latest_blueprint_id = None, bd_latest_critique_id = None,
      bd_status = BlueprintDraftStatus.Queued, bd_references = [],
      bd_created_at = ''2026-01-01T00:00:00Z'', bd_created_by = ''manager'', bd_updated_at = None\<rparr>"

definition draft_queued :: fs where
  "draft_queued = exec_queue_command example_env (EnqueueDraft first_draft) empty_workspace"

lemma claim_takes_least_eligible_draft_witness:
  "\<exists>d c. fst (claim_next_blueprint_draft example_env None draft_queued) = Inr (Some c) \<and>
     eligible_draft None draft_queued d \<and> qc_work_item_id c = bd_draft_id d"
proof -
  have "case fst (claim_next_blueprint_draft example_env None draft_queued) of
      Inr (Some c) \<Rightarrow> True | _ \<Rightarrow> False" by code_simp
  then obtain c where "fst (claim_next_blueprint_draft example_env None draft_queued) = Inr (Some c)"
    by (auto split: sum.splits option.splits)
  with claim_takes_least_eligible_draft [OF this] show ?thesis by blast
qed

text \<open>C8. Incidents come first: while an eligible incident waits, a planning claim that returns an
  item returns an incident.\<close>

theorem planning_claims_incidents_first:
  assumes "fst (claim_next_planning_item E root w) = Inr (Some c)" and "eligible_incident root w d"
  shows "qc_work_item_kind c = WorkItemKind.Incident"
  by (rule planning_claim_incident [OF assms])

definition example_incident :: IncidentDocument where
  "example_incident =
     \<lparr>nd_incident_id = ''i1'', nd_title = ''Broken'', nd_summary = ''It broke'', nd_root_idea_id = None,
      nd_root_spec_id = None, nd_root_intake_kind = None, nd_root_intake_id = None,
      nd_source_task_id = None, nd_source_spec_id = None, nd_source_stage = StageName.Builder,
      nd_source_plane = Plane.Execution, nd_failure_class = ''x'', nd_severity = IncidentSeverity.Low,
      nd_needs_planning = True, nd_trigger_reason = ''x'', nd_observed_symptoms = [],
      nd_failed_attempts = [], nd_consultant_decision = IncidentDecision.Blocked,
      nd_evidence_paths = [], nd_related_run_ids = [], nd_related_stage_results = [],
      nd_references = [], nd_opened_at = ''2026-01-01T00:00:00Z'', nd_opened_by = ''x'',
      nd_updated_at = None\<rparr>"

definition incident_and_draft :: fs where
  "incident_and_draft = exec_queue_command example_env (EnqueueIncident example_incident) draft_queued"

lemma planning_claims_incidents_first_witness:
  "\<exists>c. fst (claim_next_planning_item example_env None incident_and_draft) = Inr (Some c) \<and>
     qc_work_item_kind c = WorkItemKind.Incident"
proof -
  have "case fst (claim_next_planning_item example_env None incident_and_draft) of
      Inr (Some c) \<Rightarrow> True | _ \<Rightarrow> False" by code_simp
  then obtain c where c: "fst (claim_next_planning_item example_env None incident_and_draft) = Inr (Some c)"
    by (auto split: sum.splits option.splits)
  have "eligible_incident None incident_and_draft example_incident" by code_simp
  from planning_claims_incidents_first [OF c this] c show ?thesis by blast
qed

section \<open>Quarantine\<close>

text \<open>C11. Quarantine loses nothing: the loop for a free name ends, the invalid file keeps its
  content under a name that was free and that no listing shows, and every other document of the
  directory stays where it is.\<close>

theorem quarantine_keeps_content:
  assumes "file_extension n = Some ''md''" and "fs_lookup w d n = Some c"
  shows "(\<exists>x. \<not> fs_exists w d x \<and> file_extension x \<noteq> Some ''md'' \<and>
       fs_lookup (quarantine_invalid_artifact E d n err w) d x = Some c) \<and>
     (\<forall>m. file_extension m = Some ''md'' \<longrightarrow>
        fs_lookup (quarantine_invalid_artifact E d n err w) d m = (if m = n then None else fs_lookup w d m))"
proof -
  obtain x where x: "\<not> fs_exists w d x" "x \<noteq> invalid_log" "file_extension x \<noteq> Some ''md''"
    and q: "quarantine_invalid_artifact E d n err w =
       fs_append (fs_rename w d n d x) d invalid_log
         (JObject [(''at'', JString (env_now E)), (''error'', JString err),
                   (''quarantine_name'', JString x), (''source_name'', JString n)])"
    by (rule quarantine_effect [OF assms])
  have "fs_lookup (quarantine_invalid_artifact E d n err w) d x = Some c"
    using x(2) by (simp add: q fs_lookup_append_other store.lookup_move [OF assms(2)])
  with x quarantine_lookup_md [OF assms(1) _ assms(2)] show ?thesis by blast
qed

definition with_broken_file :: fs where
  "with_broken_file = fs_write two_queued (WorkDir WorkItemKind.Task QueueState) ''zz.md'' (Unparsable ''no heading'')"

lemma quarantine_keeps_content_witness:
  "\<exists>x. fs_lookup (quarantine_invalid_artifact example_env (WorkDir WorkItemKind.Task QueueState) ''zz.md'' ''e''
     with_broken_file) (WorkDir WorkItemKind.Task QueueState) x = Some (Unparsable ''no heading'')"
proof -
  have "file_extension ''zz.md'' = Some ''md''" by code_simp
  moreover have "fs_lookup with_broken_file (WorkDir WorkItemKind.Task QueueState) ''zz.md'' =
      Some (Unparsable ''no heading'')" by (simp add: with_broken_file_def)
  ultimately show ?thesis using quarantine_keeps_content by blast
qed

section \<open>Requeueing\<close>


text \<open>C14. Requeueing an active task is not atomic: with a blank reason it reports an error although
  the task has already moved back to the queue, and no reason is recorded.\<close>

theorem requeue_task_blank_reason_still_moves:
  assumes "fs_lookup w (WorkDir WorkItemKind.Task ActiveState) (md_name i) = Some c"
    and "fs_lookup w (WorkDir WorkItemKind.Task QueueState) (md_name i) = None"
    and "trim reason = []"
  shows "requeue_task E i reason w =
     (Inl (InvalidState ''requeue reason is required''),
      fs_rename w (WorkDir WorkItemKind.Task ActiveState) (md_name i) (WorkDir WorkItemKind.Task QueueState) (md_name i))"
  using assms
  by (simp add: requeue_task_def move_item_def qbind_def move_item_from_state_def fs_exists_def
      append_requeue_reason_def Let_def)

lemma requeue_task_blank_reason_still_moves_witness:
  "fst (requeue_task example_env ''t1'' ''  '' one_active_one_queued) =
     Inl (InvalidState ''requeue reason is required'') \<and>
   fs_lookup (snd (requeue_task example_env ''t1'' ''  '' one_active_one_queued))
     (WorkDir WorkItemKind.Task QueueState) ''t1.md'' = Some (Doc (TaskDoc task_one))"
proof -
  have a: "fs_lookup one_active_one_queued (WorkDir WorkItemKind.Task ActiveState) (md_name ''t1'') =
      Some (Doc (TaskDoc task_one))" by code_simp
  have q: "fs_lookup one_active_one_queued (WorkDir WorkItemKind.Task QueueState) (md_name ''t1'') = None"
    by code_simp
  have t: "trim ''  '' = []" by code_simp
  from requeue_task_blank_reason_still_moves [OF a q t] show ?thesis
    by (simp add: store.lookup_move [OF a]) (simp add: md_name_def)
qed

section \<open>Operator interventions\<close>

lemma check_intervention_id_Inr: "check_intervention_id v f = Inr u \<longleftrightarrow> u = v \<and> matches_safe_id_pattern v"
  by (auto simp: check_intervention_id_def map_err_eq_Inr validate_safe_identifier_Inr)






text \<open>An archiving intervention is not atomic: with a blank actor it reports an error although
  the task has already left the blocked directory for the archive, and neither the ledger nor
  the event log gets a record (the result state is the rename alone).\<close>

lemma archive_blank_actor_still_moves:
  assumes "matches_safe_id_pattern i"
    and "fs_lookup w (WorkDir WorkItemKind.Task BlockedState) (md_name i) = Some c"
    and "trim reason \<noteq> []" and "intervention_times E ctx = Inr (issued, applied, off)"
    and "trim (oc_actor ctx) = []"
    and "\<not> fs_exists w (SubDir (WorkDir WorkItemKind.Task BlockedState) ''cancelled'')
       (i @ ''.'' @ archive_suffix E counter off @ ''.blocked.md'')"
  shows "archive_blocked_task E counter i reason ctx w =
     (Inl (InvalidState ''actor is required''),
      fs_rename w (WorkDir WorkItemKind.Task BlockedState) (md_name i)
        (SubDir (WorkDir WorkItemKind.Task BlockedState) ''cancelled'')
        (i @ ''.'' @ archive_suffix E counter off @ ''.blocked.md''))"
proof -
  from assms(1) have "check_intervention_id i ''task_id'' = Inr i" by (simp add: check_intervention_id_Inr)
  moreover from assms(2) have "locate_exact_task w i [''blocked''] =
      Inr \<lparr>li_work_item_kind = WorkItemKind.Task, li_work_item_id = i, li_state = ''blocked'',
           li_path = (WorkDir WorkItemKind.Task BlockedState, md_name i)\<rparr>"
    by (simp add: locate_exact_task_def task_state_dir_def located_in_def exactly_one_def fs_exists_def)
  ultimately show ?thesis
    using assms(3-6)
    by (simp add: archive_blocked_task_def archive_located_item_def qbind_def Let_def clean_reason_def
        build_intervention_record_def clean_actor_def)
qed

definition one_blocked :: fs where
  "one_blocked = exec_queue_command example_env (BlockItem WorkItemKind.Task ''t1'') one_active_one_queued"



end
