(* ===== verification/Runtime_Snapshot.thy ===== *)
theory Runtime_Snapshot
  imports Blueprint_Documents "HOL-Library.AList"
begin

text \<open>
  The persisted runtime snapshot and its parts, from \<^verbatim>\<open>src/src/contracts/runtime_json.rs\<close>: active runs,
  scheduler lanes, recovery counters, and the validation that every load applies. Validation
  returns the normalised value, as the source normalises \<^verbatim>\<open>self\<close> before it is used.

  A \<^verbatim>\<open>HashMap\<close> is an association list with distinct keys: its order is the iteration order of the
  map, which the source leaves open, and only decides which of several errors is reported.
\<close>

section \<open>Data\<close>

datatype ActiveRunRequestKind = ActiveWorkItem | ClosureTarget | LearningRequestRun

datatype LaneRuntimeStatus = LaneIdle | LaneActive | LanePaused | LaneDraining | LaneStopped | LaneBlocked

datatype PauseSource = OperatorPause | UsageGovernancePause

record LaneRuntimeState =
  la_lane_id :: string
  la_plane :: Plane
  la_status :: LaneRuntimeStatus
  la_compiled_plan_id :: string
  la_compiled_plan_fingerprint :: string
  la_active_run_ids :: "string list"
  la_active_work_refs :: "string list"
  la_pause_requested :: bool
  la_stop_requested :: bool
  la_drain_requested :: bool
  la_mutation_lock_refs :: "string list"
  la_completion_target_refs :: "string list"
  la_failure_counter_refs :: "string list"
  la_last_claim_attempt_at :: "Timestamp option"
  la_last_terminal_outcome :: "string option"

record ActiveRunState =
  ar_plane :: Plane
  ar_lane_id :: string
  ar_stage :: StageName
  ar_node_id :: string
  ar_stage_kind_id :: string
  ar_run_id :: string
  ar_compiled_plan_id :: string
  ar_compiled_plan_fingerprint :: string
  ar_request_kind :: ActiveRunRequestKind
  ar_work_item_family_id :: "string option"
  ar_work_item_kind :: "WorkItemKind option"
  ar_work_item_id :: "string option"
  ar_closure_target_root_spec_id :: "string option"
  ar_closure_target_root_idea_id :: "string option"
  ar_active_since :: Timestamp
  ar_running_status_marker :: "string option"

record RuntimeSnapshot =
  rs_schema_version :: string
  rs_kind :: string
  rs_runtime_mode :: RuntimeMode
  rs_process_running :: bool
  rs_paused :: bool
  rs_pause_sources :: "PauseSource list"
  rs_stop_requested :: bool
  rs_active_mode_id :: string
  rs_execution_loop_id :: string
  rs_planning_loop_id :: string
  rs_learning_loop_id :: "string option"
  rs_loop_ids_by_plane :: "(Plane \<times> string) list"
  rs_compiled_plan_id :: string
  rs_compiled_plan_fingerprint :: string
  rs_compiled_plan_path :: string
  rs_pending_compiled_plan_id :: "string option"
  rs_pending_compiled_plan_path :: "string option"
  rs_pending_compiled_plan_fingerprint :: "string option"
  rs_active_plane :: "Plane option"
  rs_active_stage :: "StageName option"
  rs_active_node_id :: "string option"
  rs_active_stage_kind_id :: "string option"
  rs_active_run_id :: "string option"
  rs_active_work_item_family_id :: "string option"
  rs_active_work_item_kind :: "WorkItemKind option"
  rs_active_work_item_id :: "string option"
  rs_active_runs_by_plane :: "(Plane \<times> ActiveRunState) list"
  rs_lanes_by_id :: "(string \<times> LaneRuntimeState) list"
  rs_execution_status_marker :: string
  rs_planning_status_marker :: string
  rs_learning_status_marker :: string
  rs_status_markers_by_plane :: "(Plane \<times> string) list"
  rs_queue_depth_execution :: nat
  rs_queue_depth_planning :: nat
  rs_queue_depth_learning :: nat
  rs_queue_depths_by_plane :: "(Plane \<times> nat) list"
  rs_last_terminal_result :: "TerminalResult option"
  rs_last_stage_result_path :: "string option"
  rs_current_failure_class :: "string option"
  rs_troubleshoot_attempt_count :: nat
  rs_mechanic_attempt_count :: nat
  rs_fix_cycle_count :: nat
  rs_consultant_invocations :: nat
  rs_config_version :: string
  rs_watcher_mode :: WatcherMode
  rs_last_reload_outcome :: "ReloadOutcome option"
  rs_last_reload_error :: "string option"
  rs_started_at :: "Timestamp option"
  rs_active_since :: "Timestamp option"
  rs_updated_at :: Timestamp

section \<open>Field checks\<close>

definition require_field :: "string \<Rightarrow> string \<Rightarrow> RuntimeJsonError + unit" where
  "require_field f v = (if trim v = [] then Inl (InvalidJsonField f ''is required'') else Inr ())"

definition require_field_entries :: "string \<Rightarrow> string list \<Rightarrow> RuntimeJsonError + unit" where
  "require_field_entries f vs = all_checks (map (require_field f) vs)"

definition require_optional_field :: "string \<Rightarrow> string option \<Rightarrow> RuntimeJsonError + unit" where
  "require_optional_field f v = (case v of None \<Rightarrow> Inr () | Some x \<Rightarrow> require_field f x)"

definition parse_time :: "(string \<Rightarrow> string + int) \<Rightarrow> string \<Rightarrow> Timestamp \<Rightarrow> RuntimeJsonError + int" where
  "parse_time rfc f t = map_err (InvalidJsonField f) (rfc t)"

text \<open>An \<^verbatim>\<open>if\<close> that returns an error; \<open>check_that False m\<close> is \<^verbatim>\<open>Err(InvalidDocument)\<close>.\<close>

definition check_that :: "bool \<Rightarrow> string \<Rightarrow> RuntimeJsonError + unit" where
  "check_that ok m = (if ok then Inr () else Inl (InvalidJsonDocument m))"

lemma check_that_Inr [simp]: "check_that ok m = Inr u \<longleftrightarrow> ok"
  by (simp add: check_that_def)

lemma require_field_Inr [simp]: "require_field f v = Inr u \<longleftrightarrow> trim v \<noteq> []"
  by (simp add: require_field_def)

lemma require_optional_field_Inr [simp]:
  "require_optional_field f v = Inr u \<longleftrightarrow> (\<forall>x. v = Some x \<longrightarrow> trim x \<noteq> [])"
  by (auto simp: require_optional_field_def split: option.split)

definition namespaced_by :: "Plane \<Rightarrow> string \<Rightarrow> bool" where
  "namespaced_by p lane_id \<longleftrightarrow> strip_prefix (Plane_as_str p @ ''.'') lane_id \<noteq> None"

section \<open>Lanes\<close>

definition LaneRuntimeState_validate ::
  "(string \<Rightarrow> string + int) \<Rightarrow> LaneRuntimeState \<Rightarrow> RuntimeJsonError + unit" where
  "LaneRuntimeState_validate rfc l = all_checks
     [require_field ''lane_id'' (la_lane_id l),
      require_field ''compiled_plan_id'' (la_compiled_plan_id l),
      require_field ''compiled_plan_fingerprint'' (la_compiled_plan_fingerprint l),
      check_that (namespaced_by (la_plane l) (la_lane_id l)) ''lane_id must be namespaced by lane plane'',
      require_field_entries ''active_run_ids'' (la_active_run_ids l),
      require_field_entries ''active_work_refs'' (la_active_work_refs l),
      require_field_entries ''mutation_lock_refs'' (la_mutation_lock_refs l),
      require_field_entries ''completion_target_refs'' (la_completion_target_refs l),
      require_field_entries ''failure_counter_refs'' (la_failure_counter_refs l),
      require_optional_field ''last_terminal_outcome'' (la_last_terminal_outcome l),
      (case la_last_claim_attempt_at l of
         None \<Rightarrow> Inr () | Some t \<Rightarrow> map_ok (\<lambda>_. ()) (parse_time rfc ''last_claim_attempt_at'' t)),
      check_that (\<not> (la_status l = LaneActive \<and> la_active_run_ids l = []))
        ''active lane runtime state requires active_run_ids'',
      check_that (\<not> (la_status l = LaneIdle \<and> la_active_run_ids l \<noteq> []))
        ''idle lane runtime state cannot declare active_run_ids'']"

section \<open>Active runs\<close>

definition check_run_identity :: "ActiveRunState \<Rightarrow> RuntimeJsonError + unit" where
  "check_run_identity r =
     (let has_work_family = (ar_work_item_family_id r \<noteq> None \<or> ar_work_item_kind r \<noteq> None);
          has_work_id = (ar_work_item_id r \<noteq> None);
          has_closure_root = (ar_closure_target_root_spec_id r \<noteq> None);
          has_closure_idea = (ar_closure_target_root_idea_id r \<noteq> None);
          family_is_learning =
            (ar_work_item_family_id r = Some (WorkItemKind_as_str WorkItemKind.LearningRequest));
          kind_is_learning = (ar_work_item_kind r = Some WorkItemKind.LearningRequest)
      in and_then (check_that (has_work_family = has_work_id)
           ''active run work_item_family_id and work_item_id must be set together'') (\<lambda>_.
         (case ar_request_kind r of
            ActiveWorkItem \<Rightarrow> all_checks
              [check_that (has_work_family \<and> has_work_id)
                 ''active_work_item active runs require work item identity'',
               check_that (\<not> (family_is_learning \<or> kind_is_learning))
                 ''learning request active runs must use request_kind=learning_request'',
               check_that (\<not> (has_closure_root \<or> has_closure_idea))
                 ''active_work_item active runs cannot declare closure target fields'']
          | LearningRequestRun \<Rightarrow> all_checks
              [check_that (ar_plane r = Plane.Learning)
                 ''learning_request active runs must use plane=learning'',
               check_that ((family_is_learning \<or> kind_is_learning) \<and> has_work_id)
                 ''learning_request active runs require learning_request work item identity'',
               check_that (\<not> (has_closure_root \<or> has_closure_idea))
                 ''learning_request active runs cannot declare closure target fields'']
          | ClosureTarget \<Rightarrow> all_checks
              [check_that (ar_plane r = Plane.Planning)
                 ''closure_target active runs must use plane=planning'',
               check_that (\<not> (has_work_family \<or> has_work_id))
                 ''closure_target active runs cannot declare work item identity'',
               check_that has_closure_root
                 ''closure_target active runs require closure_target_root_spec_id''])))"

definition ActiveRunState_validate :: "ActiveRunState \<Rightarrow> RuntimeJsonError + ActiveRunState" where
  "ActiveRunState_validate r =
     and_then (all_checks
       [check_that (stage_plane (ar_stage r) = ar_plane r)
          ''active run stage must belong to active run plane'',
        check_that (ar_lane_id r = [] \<or> namespaced_by (ar_plane r) (ar_lane_id r))
          ''active run lane_id must be namespaced by active run plane'',
        require_field ''node_id'' (ar_node_id r),
        require_field ''stage_kind_id'' (ar_stage_kind_id r),
        require_field ''run_id'' (ar_run_id r),
        (if ar_compiled_plan_id r \<noteq> [] then require_field ''compiled_plan_id'' (ar_compiled_plan_id r)
         else Inr ()),
        (if ar_compiled_plan_fingerprint r \<noteq> []
         then require_field ''compiled_plan_fingerprint'' (ar_compiled_plan_fingerprint r)
         else Inr ())]) (\<lambda>_.
     and_then (map_err JsonContract
         (coerce_family_and_kind (ar_work_item_family_id r) (ar_work_item_kind r))) (\<lambda>(family_id, kind).
     let r' = r\<lparr>ar_work_item_family_id :=
                  (if ar_work_item_family_id r \<noteq> None then family_id else ar_work_item_family_id r),
                ar_work_item_kind := kind\<rparr>
     in map_ok (\<lambda>_. r') (check_run_identity r')))"

section \<open>The snapshot\<close>

definition or_insert :: "'k \<Rightarrow> 'v \<Rightarrow> ('k \<times> 'v) list \<Rightarrow> ('k \<times> 'v) list" where
  "or_insert k v m = (if map_of m k = None then m @ [(k, v)] else m)"

definition normalize_pause_sources :: "RuntimeSnapshot \<Rightarrow> RuntimeSnapshot" where
  "normalize_pause_sources s =
     (let sources = remdups_adj (rs_pause_sources s) in
      if sources \<noteq> [] then s\<lparr>rs_pause_sources := sources, rs_paused := True\<rparr>
      else if rs_paused s then s\<lparr>rs_pause_sources := [OperatorPause]\<rparr>
      else s\<lparr>rs_pause_sources := sources\<rparr>)"

definition normalize_plane_indexes :: "RuntimeSnapshot \<Rightarrow> RuntimeSnapshot" where
  "normalize_plane_indexes s =
     (let loops = or_insert Plane.Planning (rs_planning_loop_id s)
            (or_insert Plane.Execution (rs_execution_loop_id s) (rs_loop_ids_by_plane s));
          loops = (case rs_learning_loop_id s of None \<Rightarrow> loops | Some i \<Rightarrow> or_insert Plane.Learning i loops)
      in s\<lparr>rs_loop_ids_by_plane := loops,
           rs_status_markers_by_plane :=
             or_insert Plane.Learning (rs_learning_status_marker s)
               (or_insert Plane.Planning (rs_planning_status_marker s)
                 (or_insert Plane.Execution (rs_execution_status_marker s) (rs_status_markers_by_plane s))),
           rs_queue_depths_by_plane :=
             or_insert Plane.Learning (rs_queue_depth_learning s)
               (or_insert Plane.Planning (rs_queue_depth_planning s)
                 (or_insert Plane.Execution (rs_queue_depth_execution s) (rs_queue_depths_by_plane s)))\<rparr>)"

definition default_lane_id_for_plane :: "Plane \<Rightarrow> string" where
  "default_lane_id_for_plane p = Plane_as_str p @ ''.main''"

definition project_legacy_active_state_into_active_runs ::
  "RuntimeSnapshot \<Rightarrow> RuntimeJsonError + RuntimeSnapshot" where
  "project_legacy_active_state_into_active_runs s =
     (case (rs_active_plane s, rs_active_stage s, rs_active_run_id s, rs_active_since s,
            rs_active_work_item_id s) of
        (Some active_plane, Some active_stage, Some active_run_id, Some active_since, Some item_id) \<Rightarrow>
          and_then (map_err JsonContract
             (coerce_family_and_kind (rs_active_work_item_family_id s) (rs_active_work_item_kind s)))
           (\<lambda>(family, kind).
             case family of
               None \<Rightarrow> Inr s
             | Some family_id \<Rightarrow>
                 let request_kind =
                       (if family_id = WorkItemKind_as_str WorkItemKind.LearningRequest
                           \<or> kind = Some WorkItemKind.LearningRequest
                        then LearningRequestRun else ActiveWorkItem);
                     active_run =
                       \<lparr>ar_plane = active_plane, ar_lane_id = default_lane_id_for_plane active_plane,
                        ar_stage = active_stage,
                        ar_node_id = (case rs_active_node_id s of
                           Some n \<Rightarrow> n | None \<Rightarrow> StageName_as_str active_stage),
                        ar_stage_kind_id = (case rs_active_stage_kind_id s of
                           Some n \<Rightarrow> n | None \<Rightarrow> StageName_as_str active_stage),
                        ar_run_id = active_run_id, ar_compiled_plan_id = rs_compiled_plan_id s,
                        ar_compiled_plan_fingerprint = rs_compiled_plan_fingerprint s,
                        ar_request_kind = request_kind,
                        ar_work_item_family_id =
                          (if rs_active_work_item_family_id s \<noteq> None then Some family_id else None),
                        ar_work_item_kind = kind, ar_work_item_id = Some item_id,
                        ar_closure_target_root_spec_id = None, ar_closure_target_root_idea_id = None,
                        ar_active_since = active_since, ar_running_status_marker = None\<rparr>
                 in Inr (s\<lparr>rs_active_runs_by_plane :=
                      AList.update active_plane active_run (rs_active_runs_by_plane s)\<rparr>))
      | _ \<Rightarrow> Inr s)"

primrec validate_run_entries ::
  "(Plane \<times> ActiveRunState) list \<Rightarrow> RuntimeJsonError + (Plane \<times> ActiveRunState) list" where
  "validate_run_entries [] = Inr []"
| "validate_run_entries (e # es) =
     and_then (ActiveRunState_validate (snd e)) (\<lambda>r.
     and_then (check_that (fst e = ar_plane r) ''active_runs_by_plane key must match active run plane'') (\<lambda>_.
       map_ok (\<lambda>es'. (fst e, r) # es') (validate_run_entries es)))"

definition foreground_active_run :: "(Plane \<times> ActiveRunState) list \<Rightarrow> RuntimeJsonError + ActiveRunState" where
  "foreground_active_run m =
     (case map_of m Plane.Planning of
        Some r \<Rightarrow> Inr r
      | None \<Rightarrow>
     (case map_of m Plane.Execution of
        Some r \<Rightarrow> Inr r
      | None \<Rightarrow>
     (case map_of m Plane.Learning of
        Some r \<Rightarrow> Inr r
      | None \<Rightarrow> Inl (InvalidJsonDocument ''active_runs_by_plane cannot be empty''))))"

definition project_foreground :: "ActiveRunState \<Rightarrow> RuntimeSnapshot \<Rightarrow> RuntimeSnapshot" where
  "project_foreground r s =
     s\<lparr>rs_active_plane := Some (ar_plane r), rs_active_stage := Some (ar_stage r),
       rs_active_node_id := Some (ar_node_id r), rs_active_stage_kind_id := Some (ar_stage_kind_id r),
       rs_active_run_id := Some (ar_run_id r),
       rs_active_work_item_family_id := ar_work_item_family_id r,
       rs_active_work_item_kind := ar_work_item_kind r,
       rs_active_work_item_id := ar_work_item_id r,
       rs_active_since := Some (ar_active_since r)\<rparr>"

definition normalize_active_runs :: "RuntimeSnapshot \<Rightarrow> RuntimeJsonError + RuntimeSnapshot" where
  "normalize_active_runs s =
     and_then (if rs_active_runs_by_plane s = [] then project_legacy_active_state_into_active_runs s
               else Inr s) (\<lambda>s1.
       if rs_active_runs_by_plane s1 = [] then Inr s1
       else and_then (validate_run_entries (rs_active_runs_by_plane s1)) (\<lambda>runs.
            and_then (foreground_active_run runs) (\<lambda>r.
              Inr (project_foreground r (s1\<lparr>rs_active_runs_by_plane := runs\<rparr>)))))"

definition fill_lane_defaults :: "RuntimeSnapshot \<Rightarrow> LaneRuntimeState \<Rightarrow> LaneRuntimeState" where
  "fill_lane_defaults s l =
     l\<lparr>la_compiled_plan_id :=
         (if trim (la_compiled_plan_id l) = [] then rs_compiled_plan_id s else la_compiled_plan_id l),
       la_compiled_plan_fingerprint :=
         (if trim (la_compiled_plan_fingerprint l) = []
          then (if rs_compiled_plan_fingerprint s = [] then ''legacy-'' @ rs_compiled_plan_id s
                else rs_compiled_plan_fingerprint s)
          else la_compiled_plan_fingerprint l)\<rparr>"

primrec validate_lane_entries ::
  "(string \<Rightarrow> string + int) \<Rightarrow> RuntimeSnapshot \<Rightarrow> (string \<times> LaneRuntimeState) list \<Rightarrow>
   RuntimeJsonError + (string \<times> LaneRuntimeState) list" where
  "validate_lane_entries rfc s [] = Inr []"
| "validate_lane_entries rfc s (e # es) =
     (let l = fill_lane_defaults s (snd e) in
      and_then (LaneRuntimeState_validate rfc l) (\<lambda>_.
      and_then (check_that (fst e = la_lane_id l) ''lanes_by_id key must match lane runtime state lane_id'') (\<lambda>_.
        map_ok (\<lambda>es'. (fst e, l) # es') (validate_lane_entries rfc s es))))"

definition validate_lanes ::
  "(string \<Rightarrow> string + int) \<Rightarrow> RuntimeSnapshot \<Rightarrow> RuntimeJsonError + RuntimeSnapshot" where
  "validate_lanes rfc s =
     map_ok (\<lambda>lanes. s\<lparr>rs_lanes_by_id := lanes\<rparr>) (validate_lane_entries rfc s (rs_lanes_by_id s))"

definition fill_active_node :: "RuntimeSnapshot \<Rightarrow> RuntimeJsonError + RuntimeSnapshot" where
  "fill_active_node s =
     (case rs_active_stage s of
        Some active_stage \<Rightarrow>
          (case rs_active_plane s of
             None \<Rightarrow> Inl (InvalidJsonDocument ''active_plane is required when active_stage is set'')
           | Some active_plane \<Rightarrow>
               map_ok (\<lambda>_. s\<lparr>
                   rs_active_node_id := (case rs_active_node_id s of
                      None \<Rightarrow> Some (StageName_as_str active_stage) | Some n \<Rightarrow> Some n),
                   rs_active_stage_kind_id := (case rs_active_stage_kind_id s of
                      None \<Rightarrow> Some (StageName_as_str active_stage) | Some n \<Rightarrow> Some n)\<rparr>)
                 (check_that (stage_plane active_stage = active_plane)
                    ''active_stage must belong to active_plane''))
      | None \<Rightarrow>
          Inr (s\<lparr>rs_active_node_id := None, rs_active_stage_kind_id := None,
                 rs_active_work_item_family_id :=
                   (if rs_active_work_item_id s = None \<and> rs_active_work_item_kind s = None then None
                    else rs_active_work_item_family_id s)\<rparr>))"

text \<open>The last two blocks of checks of \<^verbatim>\<open>validate_active_state\<close>, after the node and the family are filled.\<close>

definition active_node_checks :: "RuntimeSnapshot \<Rightarrow> RuntimeJsonError + unit" where
  "active_node_checks s =
     (if rs_active_stage s \<noteq> None
      then all_checks [require_optional_field ''active_node_id'' (rs_active_node_id s),
                       require_optional_field ''active_stage_kind_id'' (rs_active_stage_kind_id s)]
      else Inr ())"

definition active_item_checks :: "RuntimeSnapshot \<Rightarrow> RuntimeJsonError + unit" where
  "active_item_checks s =
     (let has_kind = (rs_active_work_item_family_id s \<noteq> None \<or> rs_active_work_item_kind s \<noteq> None);
          has_id = (rs_active_work_item_id s \<noteq> None)
      in all_checks
          [check_that (has_kind = has_id)
             ''active_work_item_family_id and active_work_item_id must be set together'',
           check_that (\<not> (has_kind \<and> rs_active_stage s = None)) ''active work item requires active_stage'',
           check_that (\<not> (has_kind \<and> rs_active_plane s = None)) ''active work item requires active_plane'',
           check_that (\<not> (has_kind \<and> rs_active_run_id s = None)) ''active work item requires active_run_id'',
           check_that (\<not> (rs_active_since s \<noteq> None \<and> rs_active_stage s = None))
             ''active_since requires active_stage'',
           require_optional_field ''pending_compiled_plan_id'' (rs_pending_compiled_plan_id s),
           require_optional_field ''pending_compiled_plan_path'' (rs_pending_compiled_plan_path s),
           require_optional_field ''pending_compiled_plan_fingerprint''
             (rs_pending_compiled_plan_fingerprint s)])"

definition validate_active_state :: "RuntimeSnapshot \<Rightarrow> RuntimeJsonError + RuntimeSnapshot" where
  "validate_active_state s0 =
     and_then (check_that (\<not> (rs_active_stage s0 = None \<and> rs_active_plane s0 \<noteq> None))
        ''active_plane cannot be set when active_stage is missing'') (\<lambda>_.
     and_then (fill_active_node s0) (\<lambda>s.
     and_then (active_node_checks s) (\<lambda>_.
     and_then (map_err JsonContract
         (coerce_family_and_kind (rs_active_work_item_family_id s) (rs_active_work_item_kind s)))
       (\<lambda>(family_id, kind).
     let s1 = s\<lparr>rs_active_work_item_family_id :=
                  (if rs_active_work_item_family_id s \<noteq> None then family_id
                   else rs_active_work_item_family_id s),
                rs_active_work_item_kind := kind\<rparr>
     in map_ok (\<lambda>_. s1) (active_item_checks s1)))))"

definition RuntimeSnapshot_validate_contract ::
  "(string \<Rightarrow> string + int) \<Rightarrow> RuntimeSnapshot \<Rightarrow> RuntimeJsonError + RuntimeSnapshot" where
  "RuntimeSnapshot_validate_contract rfc s =
     and_then (all_checks
       [validate_json_literal ''schema_version'' (rs_schema_version s) ''1.0'',
        validate_json_literal ''kind'' (rs_kind s) ''runtime_snapshot'']) (\<lambda>_.
     and_then (normalize_active_runs (normalize_plane_indexes (normalize_pause_sources s))) (\<lambda>s1.
     and_then (validate_lanes rfc s1) validate_active_state))"

section \<open>Recovery counters\<close>

record RecoveryCounterEntry =
  rc_failure_class :: string
  rc_work_item_id :: string
  rc_work_item_kind :: WorkItemKind
  rc_troubleshoot_attempt_count :: nat
  rc_mechanic_attempt_count :: nat
  rc_fix_cycle_count :: nat
  rc_consultant_invocations :: nat
  rc_last_updated_at :: Timestamp

record RecoveryCounters =
  rk_schema_version :: string
  rk_kind :: string
  rk_entries :: "RecoveryCounterEntry list"

definition RecoveryCounters_validate_contract :: "RecoveryCounters \<Rightarrow> RuntimeJsonError + unit" where
  "RecoveryCounters_validate_contract c = all_checks
     ([validate_json_literal ''schema_version'' (rk_schema_version c) ''1.0'',
       validate_json_literal ''kind'' (rk_kind c) ''recovery_counters'']
      @ concat (map (\<lambda>e. [require_field ''failure_class'' (rc_failure_class e),
                           require_field ''work_item_id'' (rc_work_item_id e)]) (rk_entries c)))"

end
