(* ===== verification/Workflow_Primitives.thy ===== *)
theory Workflow_Primitives
  imports Runtime_Snapshot
begin

text \<open>
  The workflow primitives of \<^verbatim>\<open>src/src/contracts/workflow_primitives.rs\<close>: every definition a workspace
  can declare (artifact contracts, work item families, document adapters, queue claim policies, lanes,
  terminal actions, lifecycle mutation plans, runtime effects, request contexts, completion and
  recovery policies, runtime failure policies, the plane scheduler policy, operator capabilities, the
  schema epoch) with its contract.

  A \<^verbatim>\<open>BTreeMap\<close> is an association list in the order of its keys. The type names the source gives to
  identifiers (\<^verbatim>\<open>WorkItemFamilyId\<close> and the like) are strings there and here. The field prefixes are
  initials of the record: \<open>lp_\<close> lane, \<open>cp_\<close> claim policy, \<open>lc_\<close> lane conflict, \<open>sp_\<close> scheduler policy.
\<close>

section \<open>Field checks\<close>

definition wp_require_non_blank :: "string \<Rightarrow> string \<Rightarrow> RuntimeJsonError + unit" where
  "wp_require_non_blank f v =
     (if trim v = [] then Inl (InvalidJsonField f ''must not be empty'') else Inr ())"

definition wp_validate_optional_non_blank :: "string \<Rightarrow> string option \<Rightarrow> RuntimeJsonError + unit" where
  "wp_validate_optional_non_blank f v = (case v of None \<Rightarrow> Inr () | Some x \<Rightarrow> wp_require_non_blank f x)"

definition wp_validate_non_empty_entries :: "string \<Rightarrow> string list \<Rightarrow> RuntimeJsonError + unit" where
  "wp_validate_non_empty_entries f vs = all_checks (map (wp_require_non_blank f) vs)"

fun wp_validate_id_entries ::
  "string \<Rightarrow> string list \<Rightarrow> bool \<Rightarrow> string set \<Rightarrow> RuntimeJsonError + unit" where
  "wp_validate_id_entries f [] safe seen = Inr ()"
| "wp_validate_id_entries f (v # vs) safe seen =
     and_then (if safe then validate_id f v else wp_require_non_blank f v) (\<lambda>_.
       if v \<in> seen then Inl (InvalidJsonField f ''must not contain duplicates'')
       else wp_validate_id_entries f vs safe (insert v seen))"

definition wp_validate_id_list ::
  "string \<Rightarrow> string list \<Rightarrow> bool \<Rightarrow> bool \<Rightarrow> RuntimeJsonError + unit" where
  "wp_validate_id_list f vs require_non_empty check_safe_id =
     (if require_non_empty \<and> vs = [] then Inl (InvalidJsonField f ''must not be empty'')
      else wp_validate_id_entries f vs check_safe_id {})"

definition validate_filename :: "string \<Rightarrow> string \<Rightarrow> RuntimeJsonError + unit" where
  "validate_filename f v =
     and_then (wp_require_non_blank f v) (\<lambda>_.
       if CHR ''/'' \<in> set v \<or> CHR 0x5C \<in> set v \<or> v = ''.'' \<or> v = ''..''
       then Inl (InvalidJsonField f ''must be a filename, not a path'') else Inr ())"

definition validate_file_extension :: "string \<Rightarrow> string \<Rightarrow> RuntimeJsonError + unit" where
  "validate_file_extension f v =
     (if strip_prefix ''.'' v \<noteq> None \<and> 1 < length v \<and> CHR ''/'' \<notin> set v \<and> CHR 0x5C \<notin> set v
      then Inr ()
      else Inl (InvalidJsonField f (''must be a file extension such as '' @ [CHR 0x60] @ ''.md'' @ [CHR 0x60])))"

definition validate_runtime_relative_path :: "string \<Rightarrow> string \<Rightarrow> RuntimeJsonError + unit" where
  "validate_runtime_relative_path f v =
     and_then (wp_require_non_blank f v) (\<lambda>_.
       if strip_prefix ''/'' v \<noteq> None \<or> ''..'' \<in> set (split_on (CHR ''/'') v)
       then Inl (InvalidJsonField f ''must be a runtime-relative path'') else Inr ())"

definition validate_optional_runtime_path :: "string \<Rightarrow> string option \<Rightarrow> RuntimeJsonError + unit" where
  "validate_optional_runtime_path f v =
     (case v of None \<Rightarrow> Inr () | Some x \<Rightarrow> validate_runtime_relative_path f x)"

text \<open>The generated contract of a primitive: schema version, kind, a safe id, the definition.\<close>

definition primitive_contract ::
  "string \<Rightarrow> string \<Rightarrow> string \<Rightarrow> string \<Rightarrow> string \<Rightarrow> RuntimeJsonError + unit \<Rightarrow> RuntimeJsonError + unit" where
  "primitive_contract version kind expected_kind id_field ident definition_check = all_checks
     [validate_json_literal ''schema_version'' version ''1.0'',
      validate_json_literal ''kind'' kind expected_kind,
      validate_id id_field ident,
      definition_check]"

section \<open>Artifacts and work item families\<close>

datatype ArtifactFormat = JsonFormat | MarkdownFormat | TextFormat | DirectoryFormat

datatype RuntimeEffectMutationPhase = PreMutation | PartialMutation | UnknownMutation

record ArtifactFilenameAdapterDefinition =
  fa_filename :: string
  fa_format :: ArtifactFormat
  fa_parser_id :: string
  fa_renderer_id :: "string option"

definition ArtifactFilenameAdapterDefinition_validate ::
  "ArtifactFilenameAdapterDefinition \<Rightarrow> RuntimeJsonError + unit" where
  "ArtifactFilenameAdapterDefinition_validate d = all_checks
     [validate_filename ''filename'' (fa_filename d),
      validate_id ''parser_id'' (fa_parser_id d),
      validate_optional_id ''renderer_id'' (fa_renderer_id d)]"

record ArtifactContractDefinition =
  ac_schema_version :: string
  ac_kind :: string
  ac_artifact_id :: string
  ac_canonical_filename :: string
  ac_accepted_filenames :: "string list"
  ac_preferred_format :: ArtifactFormat
  ac_schema_id :: string
  ac_filename_adapters :: "ArtifactFilenameAdapterDefinition list"
  ac_producer_stage_kind_ids :: "string list"
  ac_consumer_handler_ids :: "string list"
  ac_destination_family_id :: "string option"

definition ArtifactContractDefinition_validate :: "ArtifactContractDefinition \<Rightarrow> RuntimeJsonError + unit" where
  "ArtifactContractDefinition_validate d =
     primitive_contract (ac_schema_version d) (ac_kind d) ''artifact_contract'' ''artifact_id'' (ac_artifact_id d)
     (all_checks
      ([validate_filename ''canonical_filename'' (ac_canonical_filename d),
       wp_validate_id_list ''accepted_filenames'' (ac_accepted_filenames d) False False,
       validate_id ''schema_id'' (ac_schema_id d),
       wp_validate_id_list ''producer_stage_kind_ids'' (ac_producer_stage_kind_ids d) False True,
       wp_validate_id_list ''consumer_handler_ids'' (ac_consumer_handler_ids d) False True,
       validate_optional_id ''destination_family_id'' (ac_destination_family_id d),
       (if (ac_filename_adapters d) = [] then Inl (InvalidJsonField ''filename_adapters'' ''must not be empty'')
        else Inr ())]
      @ map ArtifactFilenameAdapterDefinition_validate (ac_filename_adapters d)
      @ map (\<lambda>filename. check_that (filename \<in> set (map fa_filename (ac_filename_adapters d)))
               ''filename_adapters must cover every declared filename'')
          (ac_canonical_filename d # ac_accepted_filenames d)))"

record WorkItemQueueDirs =
  qd_queue :: string
  qd_active :: string
  qd_done :: string
  qd_blocked :: string
  qd_canceled :: "string option"
  qd_superseded :: "string option"

definition WorkItemQueueDirs_validate :: "WorkItemQueueDirs \<Rightarrow> RuntimeJsonError + unit" where
  "WorkItemQueueDirs_validate d = all_checks
     [validate_runtime_relative_path ''queue'' (qd_queue d),
      validate_runtime_relative_path ''active'' (qd_active d),
      validate_runtime_relative_path ''done'' (qd_done d),
      validate_runtime_relative_path ''blocked'' (qd_blocked d),
      validate_optional_runtime_path ''canceled'' (qd_canceled d),
      validate_optional_runtime_path ''superseded'' (qd_superseded d)]"

record WorkItemFamilyDefinition =
  wf_schema_version :: string
  wf_kind :: string
  wf_family_id :: string
  wf_plane :: Plane
  wf_entry_key :: string
  wf_display_name :: string
  wf_document_kind :: string
  wf_runtime_relative_dir :: string
  wf_file_extension :: string
  wf_schema_id :: string
  wf_document_adapter_id :: string
  wf_queue_dirs :: WorkItemQueueDirs
  wf_lifecycle_states :: "string list"
  wf_claimable_state :: string
  wf_active_state :: string
  wf_done_state :: string
  wf_blocked_state :: string
  wf_canceled_state :: "string option"
  wf_closure_blocking_states :: "string list"
  wf_default_entry_key :: "string option"
  wf_id_field :: "string option"
  wf_created_at_field :: string
  wf_lineage_fields :: "string list"
  wf_dependency_field :: "string option"
  wf_one_active_policy :: string
  wf_duplicate_policy :: string
  wf_invalid_artifact_policy :: string
  wf_sort_policy :: string
  wf_operator_capabilities :: "string list"

definition WorkItemFamilyDefinition_validate :: "WorkItemFamilyDefinition \<Rightarrow> RuntimeJsonError + unit" where
  "WorkItemFamilyDefinition_validate d =
     primitive_contract (wf_schema_version d) (wf_kind d) ''work_item_family'' ''family_id'' (wf_family_id d)
     (all_checks
      ([validate_id ''entry_key'' (wf_entry_key d),
       wp_require_non_blank ''display_name'' (wf_display_name d),
       validate_id ''document_kind'' (wf_document_kind d),
       validate_runtime_relative_path ''runtime_relative_dir'' (wf_runtime_relative_dir d),
       validate_file_extension ''file_extension'' (wf_file_extension d),
       validate_id ''schema_id'' (wf_schema_id d),
       validate_id ''document_adapter_id'' (wf_document_adapter_id d),
       WorkItemQueueDirs_validate (wf_queue_dirs d),
       wp_validate_id_list ''lifecycle_states'' (wf_lifecycle_states d) True True]
      @ map (\<lambda>(field, state). all_checks
               [validate_id field state,
                (if state \<notin> set (wf_lifecycle_states d)
                 then Inl (InvalidJsonField field ''must be declared in lifecycle_states'') else Inr ())])
          [(''claimable_state'', wf_claimable_state d), (''active_state'', wf_active_state d),
           (''done_state'', wf_done_state d), (''blocked_state'', wf_blocked_state d)]
      @ [validate_optional_id ''canceled_state'' (wf_canceled_state d),
       wp_validate_id_list ''closure_blocking_states'' (wf_closure_blocking_states d) False True,
       validate_optional_id ''default_entry_key'' (wf_default_entry_key d),
       validate_optional_id ''id_field'' (wf_id_field d),
       validate_id ''created_at_field'' (wf_created_at_field d),
       wp_validate_id_list ''lineage_fields'' (wf_lineage_fields d) False True,
       validate_optional_id ''dependency_field'' (wf_dependency_field d),
       wp_validate_id_list ''operator_capabilities'' (wf_operator_capabilities d) False True]))"

record WorkItemDocumentAdapterDefinition =
  wd_schema_version :: string
  wd_kind :: string
  wd_adapter_id :: string
  wd_schema_id :: string
  wd_supported_file_extensions :: "string list"
  wd_family_ids :: "string list"
  wd_can_parse :: bool
  wd_can_render :: bool
  wd_can_summarize :: bool
  wd_supports_dependencies :: bool
  wd_supports_lineage :: bool

definition WorkItemDocumentAdapterDefinition_validate :: "WorkItemDocumentAdapterDefinition \<Rightarrow> RuntimeJsonError + unit" where
  "WorkItemDocumentAdapterDefinition_validate d =
     primitive_contract (wd_schema_version d) (wd_kind d) ''work_item_document_adapter'' ''adapter_id'' (wd_adapter_id d)
     (all_checks
      ([validate_id ''schema_id'' (wd_schema_id d),
       (if (wd_supported_file_extensions d) = [] then Inl (InvalidJsonField ''supported_file_extensions'' ''must not be empty'') else Inr ())]
      @ map (\<lambda>extension. validate_file_extension ''supported_file_extensions'' extension) (wd_supported_file_extensions d)
      @ [wp_validate_id_list ''family_ids'' (wd_family_ids d) True True,
       (if \<not> ((wd_can_parse d) \<or> (wd_can_render d) \<or> (wd_can_summarize d)) then Inl (InvalidJsonDocument ''document adapter must support at least one operation'') else Inr ())]))"

record WorkItemPartitionSelectorDefinition =
  wps_schema_version :: string
  wps_kind :: string
  wps_selector_id :: string
  wps_family_id :: string
  wps_output_kind :: string
  wps_supports_static_compile_check :: bool

definition WorkItemPartitionSelectorDefinition_validate :: "WorkItemPartitionSelectorDefinition \<Rightarrow> RuntimeJsonError + unit" where
  "WorkItemPartitionSelectorDefinition_validate d =
     primitive_contract (wps_schema_version d) (wps_kind d) ''work_item_partition_selector'' ''selector_id'' (wps_selector_id d)
     (all_checks
      ([validate_id ''family_id'' (wps_family_id d),
       validate_id ''output_kind'' (wps_output_kind d)]))"

section \<open>Claims and lanes\<close>

record PlaneQueueClaimPolicyDefinition =
  cp_schema_version :: string
  cp_kind :: string
  cp_policy_id :: string
  cp_plane :: Plane
  cp_family_order :: "string list"
  cp_closure_lineage_policy :: string
  cp_empty_behavior :: string

definition PlaneQueueClaimPolicyDefinition_validate :: "PlaneQueueClaimPolicyDefinition \<Rightarrow> RuntimeJsonError + unit" where
  "PlaneQueueClaimPolicyDefinition_validate d =
     primitive_contract (cp_schema_version d) (cp_kind d) ''plane_queue_claim_policy'' ''policy_id'' (cp_policy_id d)
     (all_checks
      ([wp_validate_id_list ''family_order'' (cp_family_order d) False True]))"

record WorkflowLaneDefinition =
  lp_schema_version :: string
  lp_kind :: string
  lp_lane_id :: string
  lp_plane :: Plane
  lp_allowed_family_ids :: "string list"
  lp_claim_policy_id :: string
  lp_max_active_runs :: nat
  lp_one_active_scope :: string
  lp_partition_selector_id :: "string option"
  lp_mutation_lock_scope :: string
  lp_result_application_policy :: string
  lp_conflict_policy_id :: "string option"

definition WorkflowLaneDefinition_validate :: "WorkflowLaneDefinition \<Rightarrow> RuntimeJsonError + unit" where
  "WorkflowLaneDefinition_validate d =
     primitive_contract (lp_schema_version d) (lp_kind d) ''workflow_lane'' ''lane_id'' (lp_lane_id d)
     (all_checks
      ([validate_id ''lane_id'' (lp_lane_id d),
       wp_validate_id_list ''allowed_family_ids'' (lp_allowed_family_ids d) True True,
       validate_id ''claim_policy_id'' (lp_claim_policy_id d),
       validate_optional_id ''partition_selector_id'' (lp_partition_selector_id d),
       validate_optional_id ''conflict_policy_id'' (lp_conflict_policy_id d),
       (if (lp_max_active_runs d) = 0 then Inl (InvalidJsonField ''max_active_runs'' ''must be >= 1'') else Inr ())]))"

record LaneConflictPolicyDefinition =
  lc_schema_version :: string
  lc_kind :: string
  lc_policy_id :: string
  lc_lane_ids :: "string list"
  lc_concurrent_with_lane_ids :: "string list"
  lc_conflict_scopes :: "string list"
  lc_lock_acquisition_order :: "string list"
  lc_release_policy :: string
  lc_missing_lock_policy :: string

definition LaneConflictPolicyDefinition_validate :: "LaneConflictPolicyDefinition \<Rightarrow> RuntimeJsonError + unit" where
  "LaneConflictPolicyDefinition_validate d =
     primitive_contract (lc_schema_version d) (lc_kind d) ''lane_conflict_policy'' ''policy_id'' (lc_policy_id d)
     (all_checks
      ([wp_validate_id_list ''lane_ids'' (lc_lane_ids d) True True,
       wp_validate_id_list ''concurrent_with_lane_ids'' (lc_concurrent_with_lane_ids d) True True,
       wp_validate_id_list ''conflict_scopes'' (lc_conflict_scopes d) True True,
       wp_validate_id_list ''lock_acquisition_order'' (lc_lock_acquisition_order d) False True]))"

section \<open>Terminal actions and runtime effects\<close>

record TerminalActionDefinition =
  ta_schema_version :: string
  ta_kind :: string
  ta_terminal_action_id :: string
  ta_terminal_class :: string
  ta_lifecycle_mutation_plan_id :: "string option"
  ta_effect_rule_ids :: "string list"
  ta_status_marker :: "string option"
  ta_operator_summary_template :: "string option"
  ta_non_mutating :: bool

definition TerminalActionDefinition_validate :: "TerminalActionDefinition \<Rightarrow> RuntimeJsonError + unit" where
  "TerminalActionDefinition_validate d =
     primitive_contract (ta_schema_version d) (ta_kind d) ''terminal_action'' ''terminal_action_id'' (ta_terminal_action_id d)
     (all_checks
      ([validate_id ''terminal_class'' (ta_terminal_class d),
       validate_optional_id ''lifecycle_mutation_plan_id'' (ta_lifecycle_mutation_plan_id d),
       wp_validate_id_list ''effect_rule_ids'' (ta_effect_rule_ids d) False True,
       wp_validate_optional_non_blank ''status_marker'' (ta_status_marker d),
       wp_validate_optional_non_blank ''operator_summary_template'' (ta_operator_summary_template d),
       (if (\<not> (ta_non_mutating d) \<and> (ta_lifecycle_mutation_plan_id d) = None) then Inl (InvalidJsonDocument ''lifecycle_mutation_plan_id is required for mutating terminal actions'') else Inr ())]))"

record LifecycleMutationPlanDefinition =
  lm_schema_version :: string
  lm_kind :: string
  lm_plan_id :: string
  lm_source_node_id :: string
  lm_outcome_id :: string
  lm_source_family_id :: string
  lm_owner :: string
  lm_source_from_state :: string
  lm_source_to_state :: "string option"
  lm_ordering :: string
  lm_lifecycle_action_id :: "string option"

definition LifecycleMutationPlanDefinition_validate :: "LifecycleMutationPlanDefinition \<Rightarrow> RuntimeJsonError + unit" where
  "LifecycleMutationPlanDefinition_validate d =
     primitive_contract (lm_schema_version d) (lm_kind d) ''lifecycle_mutation_plan'' ''plan_id'' (lm_plan_id d)
     (all_checks
      ([validate_id ''source_node_id'' (lm_source_node_id d),
       validate_id ''outcome_id'' (lm_outcome_id d),
       validate_id ''source_family_id'' (lm_source_family_id d),
       validate_id ''owner'' (lm_owner d),
       validate_id ''source_from_state'' (lm_source_from_state d),
       validate_optional_id ''source_to_state'' (lm_source_to_state d),
       validate_id ''ordering'' (lm_ordering d),
       validate_optional_id ''lifecycle_action_id'' (lm_lifecycle_action_id d)]))"

record RuntimeEffectHandlerDefinition =
  eh_schema_version :: string
  eh_kind :: string
  eh_handler_id :: string
  eh_source_planes :: "Plane list"
  eh_allowed_source_families :: "string list"
  eh_destination_kinds :: "string list"
  eh_required_artifacts :: "string list"
  eh_optional_artifacts :: "string list"
  eh_returns_source_lifecycle_intent :: bool
  eh_requires_lifecycle_mutation_plan :: bool
  eh_creates_work_items :: bool
  eh_creates_incidents :: bool
  eh_creates_closure_targets :: bool
  eh_failure_classes :: "string list"

definition RuntimeEffectHandlerDefinition_validate :: "RuntimeEffectHandlerDefinition \<Rightarrow> RuntimeJsonError + unit" where
  "RuntimeEffectHandlerDefinition_validate d =
     primitive_contract (eh_schema_version d) (eh_kind d) ''runtime_effect_handler'' ''handler_id'' (eh_handler_id d)
     (all_checks
      ([(if (eh_source_planes d) = [] then Inl (InvalidJsonField ''source_planes'' ''must not be empty'') else Inr ()),
       wp_validate_id_list ''allowed_source_families'' (eh_allowed_source_families d) False True,
       wp_validate_id_list ''destination_kinds'' (eh_destination_kinds d) False True,
       wp_validate_id_list ''required_artifacts'' (eh_required_artifacts d) False True,
       wp_validate_id_list ''optional_artifacts'' (eh_optional_artifacts d) False True,
       wp_validate_id_list ''failure_classes'' (eh_failure_classes d) True True,
       (if ((eh_returns_source_lifecycle_intent d) \<and> \<not> (eh_requires_lifecycle_mutation_plan d)) then Inl (InvalidJsonDocument ''requires_lifecycle_mutation_plan must be true when lifecycle intent is returned'') else Inr ()),
       (if ((eh_creates_work_items d) \<and> (eh_destination_kinds d) = []) then Inl (InvalidJsonField ''destination_kinds'' ''required when creates_work_items is true'') else Inr ())]))"

record RuntimeEffectRuleDefinition =
  er_schema_version :: string
  er_kind :: string
  er_rule_id :: string
  er_effect_operation_id :: string
  er_source_node_id :: string
  er_on_outcomes :: "string list"
  er_handler_id :: string
  er_required_run_artifacts :: "string list"
  er_destination_family_id :: "string option"
  er_creates_work_items :: bool
  er_duplicate_policy :: string
  er_partial_commit_policy :: string
  er_replay_policy :: string
  er_lineage_policy :: string
  er_applies_before_route :: bool
  er_lifecycle_mutation_plan_id :: "string option"

definition RuntimeEffectRuleDefinition_validate :: "RuntimeEffectRuleDefinition \<Rightarrow> RuntimeJsonError + unit" where
  "RuntimeEffectRuleDefinition_validate d =
     primitive_contract (er_schema_version d) (er_kind d) ''runtime_effect_rule'' ''rule_id'' (er_rule_id d)
     (all_checks
      ([validate_id ''effect_operation_id'' (er_effect_operation_id d),
       validate_id ''source_node_id'' (er_source_node_id d),
       wp_validate_id_list ''on_outcomes'' (er_on_outcomes d) True True,
       validate_id ''handler_id'' (er_handler_id d),
       wp_validate_id_list ''required_run_artifacts'' (er_required_run_artifacts d) False True,
       validate_optional_id ''destination_family_id'' (er_destination_family_id d),
       validate_id ''duplicate_policy'' (er_duplicate_policy d),
       validate_id ''partial_commit_policy'' (er_partial_commit_policy d),
       validate_id ''replay_policy'' (er_replay_policy d),
       validate_id ''lineage_policy'' (er_lineage_policy d),
       validate_optional_id ''lifecycle_mutation_plan_id'' (er_lifecycle_mutation_plan_id d),
       (if ((er_creates_work_items d) \<and> (er_destination_family_id d) = None) then Inl (InvalidJsonDocument ''destination_family_id is required when creates_work_items is true'') else Inr ())]))"

record OutcomeArtifactDefinition =
  oa_schema_version :: string
  oa_kind :: string
  oa_outcome_id :: string
  oa_required_artifacts :: "string list"
  oa_optional_artifacts :: "string list"

definition OutcomeArtifactDefinition_validate :: "OutcomeArtifactDefinition \<Rightarrow> RuntimeJsonError + unit" where
  "OutcomeArtifactDefinition_validate d =
     primitive_contract (oa_schema_version d) (oa_kind d) ''outcome_artifact'' ''outcome_id'' (oa_outcome_id d)
     (all_checks
      ([wp_validate_id_list ''required_artifacts'' (oa_required_artifacts d) False True,
       wp_validate_id_list ''optional_artifacts'' (oa_optional_artifacts d) False True]))"

section \<open>Request contexts, completion and recovery\<close>

record RequestContextProfileDefinition =
  rp_schema_version :: string
  rp_kind :: string
  rp_profile_id :: string
  rp_request_kind :: string
  rp_required_providers :: "string list"
  rp_optional_providers :: "string list"
  rp_output_path_preferences :: "(string \<times> string) list"
  rp_visibility_policy :: string

definition RequestContextProfileDefinition_validate :: "RequestContextProfileDefinition \<Rightarrow> RuntimeJsonError + unit" where
  "RequestContextProfileDefinition_validate d =
     primitive_contract (rp_schema_version d) (rp_kind d) ''request_context_profile'' ''profile_id'' (rp_profile_id d)
     (all_checks
      ([validate_id ''request_kind'' (rp_request_kind d),
       wp_validate_id_list ''required_providers'' (rp_required_providers d) True True,
       wp_validate_id_list ''optional_providers'' (rp_optional_providers d) False True]
      @ map (\<lambda>(key, path). all_checks [validate_id ''output_path_preferences key'' key, validate_runtime_relative_path ''output_path_preferences'' path]) (rp_output_path_preferences d)
      @ [validate_id ''visibility_policy'' (rp_visibility_policy d)]))"

record RequestContextRenderPlan =
  rr_schema_version :: string
  rr_kind :: string
  rr_render_plan_id :: string
  rr_profile_id :: string
  rr_bundle_schema_version :: string
  rr_section_order :: "string list"
  rr_artifact_ref_policy :: string
  rr_redaction_policy_id :: string
  rr_max_inline_bytes_by_role :: "(string \<times> nat) list"
  rr_missing_optional_provider_policy :: string

definition RequestContextRenderPlan_validate :: "RequestContextRenderPlan \<Rightarrow> RuntimeJsonError + unit" where
  "RequestContextRenderPlan_validate d =
     primitive_contract (rr_schema_version d) (rr_kind d) ''request_context_render_plan'' ''render_plan_id'' (rr_render_plan_id d)
     (all_checks
      ([validate_id ''profile_id'' (rr_profile_id d),
       wp_require_non_blank ''bundle_schema_version'' (rr_bundle_schema_version d),
       wp_validate_id_list ''section_order'' (rr_section_order d) True True,
       validate_id ''artifact_ref_policy'' (rr_artifact_ref_policy d),
       validate_id ''redaction_policy_id'' (rr_redaction_policy_id d)]
      @ map (\<lambda>(key, bytes). validate_id ''max_inline_bytes_by_role key'' key) (rr_max_inline_bytes_by_role d)
      @ [validate_id ''missing_optional_provider_policy'' (rr_missing_optional_provider_policy d)]))"

record WorkflowCompletionBehaviorDefinition =
  wb_schema_version :: string
  wb_kind :: string
  wb_behavior_id :: string
  wb_plane :: Plane
  wb_trigger :: string
  wb_target_scope :: string
  wb_readiness_handler_ids :: "string list"
  wb_target_entry_key :: string
  wb_target_node_id :: string
  wb_request_context_profile_id :: string
  wb_target_selector :: string
  wb_backpressure_policy :: string
  wb_skip_if_already_closed :: bool
  wb_terminal_action_by_outcome :: "(string \<times> string) list"

definition WorkflowCompletionBehaviorDefinition_validate :: "WorkflowCompletionBehaviorDefinition \<Rightarrow> RuntimeJsonError + unit" where
  "WorkflowCompletionBehaviorDefinition_validate d =
     primitive_contract (wb_schema_version d) (wb_kind d) ''workflow_completion_behavior'' ''behavior_id'' (wb_behavior_id d)
     (all_checks
      ([validate_id ''trigger'' (wb_trigger d),
       validate_id ''target_scope'' (wb_target_scope d),
       wp_validate_id_list ''readiness_handler_ids'' (wb_readiness_handler_ids d) True True,
       validate_id ''target_entry_key'' (wb_target_entry_key d),
       validate_id ''target_node_id'' (wb_target_node_id d),
       validate_id ''request_context_profile_id'' (wb_request_context_profile_id d),
       validate_id ''target_selector'' (wb_target_selector d),
       validate_id ''backpressure_policy'' (wb_backpressure_policy d),
       (if (wb_terminal_action_by_outcome d) = [] then Inl (InvalidJsonField ''terminal_action_by_outcome'' ''must not be empty'') else Inr ())]
      @ map (\<lambda>(outcome, action). all_checks [validate_id ''terminal_action_by_outcome outcome'' outcome, validate_id ''terminal_action_by_outcome action'' action]) (wb_terminal_action_by_outcome d)))"

record WorkflowRecoveryPolicyDefinition =
  wr_schema_version :: string
  wr_kind :: string
  wr_policy_id :: string
  wr_source_node_ids :: "string list"
  wr_on_outcomes :: "string list"
  wr_counter_name :: string
  wr_threshold :: nat
  wr_retry_target_node_id :: "string option"
  wr_exhausted_target_node_id :: "string option"
  wr_exhausted_terminal_state_id :: "string option"
  wr_failure_class_template :: string

definition WorkflowRecoveryPolicyDefinition_validate :: "WorkflowRecoveryPolicyDefinition \<Rightarrow> RuntimeJsonError + unit" where
  "WorkflowRecoveryPolicyDefinition_validate d =
     primitive_contract (wr_schema_version d) (wr_kind d) ''workflow_recovery_policy'' ''policy_id'' (wr_policy_id d)
     (all_checks
      ([wp_validate_id_list ''source_node_ids'' (wr_source_node_ids d) True True,
       wp_validate_id_list ''on_outcomes'' (wr_on_outcomes d) True True,
       validate_id ''counter_name'' (wr_counter_name d),
       (if (wr_threshold d) = 0 then Inl (InvalidJsonField ''threshold'' ''must be >= 1'') else Inr ()),
       validate_optional_id ''retry_target_node_id'' (wr_retry_target_node_id d),
       validate_optional_id ''exhausted_target_node_id'' (wr_exhausted_target_node_id d),
       validate_optional_id ''exhausted_terminal_state_id'' (wr_exhausted_terminal_state_id d),
       validate_id ''failure_class_template'' (wr_failure_class_template d),
       (if ((wr_exhausted_target_node_id d) \<noteq> None) = ((wr_exhausted_terminal_state_id d) \<noteq> None) then Inl (InvalidJsonDocument ''recovery policy must declare exactly one exhausted target'') else Inr ())]))"

record RuntimeFailurePolicyDefinition =
  fp_schema_version :: string
  fp_kind :: string
  fp_policy_id :: string
  fp_applies_to_origins :: "string list"
  fp_applies_to_planes :: "Plane list"
  fp_applies_to_families :: "string list"
  fp_applies_to_failure_classes :: "string list"
  fp_applies_to_mutation_phases :: "RuntimeEffectMutationPhase list"
  fp_applies_to_handler_ids :: "string list"
  fp_applies_to_source_node_ids :: "string list"
  fp_applies_to_source_terminal_state_ids :: "string list"
  fp_action :: string
  fp_threshold :: "nat option"
  fp_counter_name :: "string option"
  fp_failure_class_template :: string
  fp_recovery_node_id :: "string option"
  fp_target_node_id :: "string option"
  fp_target_terminal_state_id :: "string option"
  fp_max_attempts :: "nat option"
  fp_incident_severity :: "string option"

definition RuntimeFailurePolicyDefinition_validate :: "RuntimeFailurePolicyDefinition \<Rightarrow> RuntimeJsonError + unit" where
  "RuntimeFailurePolicyDefinition_validate d =
     primitive_contract (fp_schema_version d) (fp_kind d) ''runtime_failure_policy'' ''policy_id'' (fp_policy_id d)
     (all_checks
      ([wp_validate_id_list ''applies_to_origins'' (fp_applies_to_origins d) True True,
       (if (fp_applies_to_planes d) = [] then Inl (InvalidJsonField ''applies_to_planes'' ''must not be empty'') else Inr ()),
       wp_validate_id_list ''applies_to_families'' (fp_applies_to_families d) False True,
       wp_validate_id_list ''applies_to_failure_classes'' (fp_applies_to_failure_classes d) False True,
       wp_validate_id_list ''applies_to_handler_ids'' (fp_applies_to_handler_ids d) False True,
       wp_validate_id_list ''applies_to_source_node_ids'' (fp_applies_to_source_node_ids d) False True,
       wp_validate_id_list ''applies_to_source_terminal_state_ids'' (fp_applies_to_source_terminal_state_ids d) False True,
       validate_id ''action'' (fp_action d),
       validate_optional_id ''counter_name'' (fp_counter_name d),
       validate_id ''failure_class_template'' (fp_failure_class_template d),
       validate_optional_id ''recovery_node_id'' (fp_recovery_node_id d),
       validate_optional_id ''target_node_id'' (fp_target_node_id d),
       validate_optional_id ''target_terminal_state_id'' (fp_target_terminal_state_id d),
       validate_optional_id ''incident_severity'' (fp_incident_severity d),
       (if ((fp_threshold d) \<noteq> None) \<noteq> ((fp_counter_name d) \<noteq> None) then Inl (InvalidJsonDocument ''threshold and counter_name must be declared together'') else Inr ())]))"

section \<open>Scheduling, operators and the schema epoch\<close>

record WorkflowPlaneSchedulerPolicyDefinition =
  sp_schema_version :: string
  sp_kind :: string
  sp_policy_id :: string
  sp_plane_order :: "Plane list"
  sp_concurrency_policy_id :: "string option"
  sp_lanes :: "WorkflowLaneDefinition list"
  sp_claim_policies_by_plane :: "(Plane \<times> PlaneQueueClaimPolicyDefinition) list"
  sp_completion_check_order :: "Plane list"
  sp_experimental_multi_lane :: bool
  sp_lane_conflict_policies :: "LaneConflictPolicyDefinition list"

definition WorkflowPlaneSchedulerPolicyDefinition_validate :: "WorkflowPlaneSchedulerPolicyDefinition \<Rightarrow> RuntimeJsonError + unit" where
  "WorkflowPlaneSchedulerPolicyDefinition_validate d =
     primitive_contract (sp_schema_version d) (sp_kind d) ''workflow_plane_scheduler_policy'' ''policy_id'' (sp_policy_id d)
     (all_checks
      ([(if sp_plane_order d = [] then Inl (InvalidJsonField ''plane_order'' ''must not be empty'') else Inr ()),
       validate_optional_id ''concurrency_policy_id'' (sp_concurrency_policy_id d),
       (if sp_lanes d = [] then Inl (InvalidJsonField ''lanes'' ''must not be empty'') else Inr ())]
      @ map WorkflowLaneDefinition_validate (sp_lanes d)
      @ map (\<lambda>(plane, policy). check_that (cp_plane policy = plane)
               ''claim_policies_by_plane keys must match policy plane'') (sp_claim_policies_by_plane d)
      @ map LaneConflictPolicyDefinition_validate (sp_lane_conflict_policies d)))"

record OperatorControlCapabilityDefinition =
  oc_schema_version :: string
  oc_kind :: string
  oc_capability_id :: string
  oc_action :: string
  oc_target_type :: string
  oc_plane :: "Plane option"
  oc_family_ids :: "string list"
  oc_lane_ids :: "string list"
  oc_allowed_lifecycle_states :: "string list"

definition OperatorControlCapabilityDefinition_validate :: "OperatorControlCapabilityDefinition \<Rightarrow> RuntimeJsonError + unit" where
  "OperatorControlCapabilityDefinition_validate d =
     primitive_contract (oc_schema_version d) (oc_kind d) ''operator_control_capability'' ''capability_id'' (oc_capability_id d)
     (all_checks
      ([validate_id ''action'' (oc_action d),
       validate_id ''target_type'' (oc_target_type d),
       wp_validate_id_list ''family_ids'' (oc_family_ids d) False True,
       wp_validate_id_list ''lane_ids'' (oc_lane_ids d) False True,
       wp_validate_id_list ''allowed_lifecycle_states'' (oc_allowed_lifecycle_states d) False True]))"

record WorkspaceSchemaEpochDefinition =
  we_schema_version :: string
  we_kind :: string
  we_epoch_id :: string
  we_minimum_supported_epoch_id :: string
  we_archive_required_from_epoch_ids :: "string list"
  we_reset_command :: string
  we_compatibility_notes :: "string list"

definition WorkspaceSchemaEpochDefinition_validate :: "WorkspaceSchemaEpochDefinition \<Rightarrow> RuntimeJsonError + unit" where
  "WorkspaceSchemaEpochDefinition_validate d =
     primitive_contract (we_schema_version d) (we_kind d) ''workspace_schema_epoch'' ''epoch_id'' (we_epoch_id d)
     (all_checks
      ([validate_id ''minimum_supported_epoch_id'' (we_minimum_supported_epoch_id d),
       wp_validate_id_list ''archive_required_from_epoch_ids'' (we_archive_required_from_epoch_ids d) False True,
       wp_require_non_blank ''reset_command'' (we_reset_command d),
       wp_validate_non_empty_entries ''compatibility_notes'' (we_compatibility_notes d)]))"

end
