(* ===== verification/Capabilities.thy ===== *)
theory Capabilities
  imports Work_Documents
begin

text \<open>
  Execution capability requests, policy overrides, grants and support decisions, from
  \<^verbatim>\<open>src/src/contracts/capabilities.rs\<close>. \<open>X_validate\<close> is the contract of \<open>X\<close>; \<open>X_from_raw\<close> is
  what decoding does with the raw struct: it trims, canonicalises capability ids and validates. An
  error is its message. The digest a grant is fingerprinted with is a parameter.

  Prefixes: \<open>ks_\<close> scope, \<open>ka_\<close> approval policy, \<open>kr_\<close> request, \<open>ko_\<close> policy override, \<open>kg_\<close> grant,
  \<open>kw_\<close> raw grant, \<open>kd_\<close> support decision, \<open>ke_\<close> warning. The raw structs of the other documents have
  the fields of the documents, so the same record serves for both.
\<close>

section \<open>Tables\<close>

definition BASE_EXECUTION_CAPABILITY_IDS :: "string list" where
  "BASE_EXECUTION_CAPABILITY_IDS =
     [''workspace.read'', ''workspace.write'', ''artifact.read'', ''artifact.write'', ''runner.invoke'',
      ''shell.run'', ''git.read'', ''git.mutate'', ''package.install'', ''network.access'',
      ''approval.request'', ''evidence.emit'', ''runtime.control'']"

definition CAPABILITY_SCOPE_KINDS :: "string list" where
  "CAPABILITY_SCOPE_KINDS =
     [''workspace'', ''workspace_path'', ''artifact_kind'', ''artifact_ref'', ''runner'', ''command_class'',
      ''git_action'', ''package_manager'', ''network_class'', ''approval_policy_ref'', ''runtime_action'']"

definition CAPABILITY_RUNTIME_ACTION_SCOPE_VALUES :: "string list" where
  "CAPABILITY_RUNTIME_ACTION_SCOPE_VALUES =
     [''enqueue'', ''pause'', ''resume'', ''cancel'', ''retry'', ''repair'', ''approve'', ''deny'',
      ''reload_config'']"

definition CAPABILITY_ACCESS_VALUES :: "string list" where
  "CAPABILITY_ACCESS_VALUES = [''read'', ''write'', ''execute'', ''mutate'', ''request'', ''emit'']"

definition APPROVAL_GATE_SCOPES :: "string list" where
  "APPROVAL_GATE_SCOPES = [''stage'', ''run'', ''work_item'']"

section \<open>Capability ids\<close>

definition capability_key_aliases :: "(string \<times> string) list" where
  "capability_key_aliases =
     [(''workspace_read'', ''workspace.read''), (''workspace_write'', ''workspace.write''),
      (''artifact_read'', ''artifact.read''), (''artifact_write'', ''artifact.write''),
      (''runner_invoke'', ''runner.invoke''), (''shell_run'', ''shell.run''), (''git_read'', ''git.read''),
      (''git_mutate'', ''git.mutate''), (''package_install'', ''package.install''),
      (''network_access'', ''network.access''), (''approval_request'', ''approval.request''),
      (''evidence_emit'', ''evidence.emit''), (''runtime_control'', ''runtime.control'')]"

definition normalize_capability_id :: "string \<Rightarrow> string" where
  "normalize_capability_id v =
     (let normalized = trim v in
      if normalized = ''workspace_read'' then ''workspace.read''
      else if normalized = ''workspace_write'' then ''workspace.write''
      else if normalized = ''artifact_read'' then ''artifact.read''
      else if normalized = ''artifact_write'' then ''artifact.write''
      else if normalized = ''runner_invoke'' then ''runner.invoke''
      else if normalized = ''shell_run'' then ''shell.run''
      else if normalized = ''git_read'' then ''git.read''
      else if normalized = ''git_mutate'' then ''git.mutate''
      else if normalized = ''package_install'' then ''package.install''
      else if normalized = ''network_access'' then ''network.access''
      else if normalized = ''approval_request'' then ''approval.request''
      else if normalized = ''evidence_emit'' then ''evidence.emit''
      else if normalized = ''runtime_control'' then ''runtime.control''
      else normalized)"

definition is_base_execution_capability_id :: "string \<Rightarrow> bool" where
  "is_base_execution_capability_id v = (v \<in> set BASE_EXECUTION_CAPABILITY_IDS)"

definition validate_safe_capability_id :: "string \<Rightarrow> string + unit" where
  "validate_safe_capability_id v =
     (if trim v \<noteq> v \<or> v = []
      then Inl ''capability_id must not include surrounding whitespace and must not be empty''
      else if \<not> is_ascii_alphanumeric (hd v)
           \<or> \<not> list_all (\<lambda>ch. is_ascii_alphanumeric ch \<or> ch \<in> {CHR ''.'', CHR ''_'', CHR ''-''}) (tl v)
      then Inl (''capability_id must start with an ASCII alphanumeric character and then contain only ASCII alphanumeric characters, ''
        @ [CHR 0x27] @ ''.'' @ [CHR 0x27] @ '', '' @ [CHR 0x27] @ ''_'' @ [CHR 0x27] @ '', or ''
        @ [CHR 0x27] @ ''-'' @ [CHR 0x27])
      else Inr ())"

definition validate_capability_id :: "string \<Rightarrow> string + string" where
  "validate_capability_id v =
     (let normalized = normalize_capability_id v in
      and_then (validate_safe_capability_id normalized) (\<lambda>_.
        if \<not> is_base_execution_capability_id normalized then Inl (''unknown capability_id: '' @ v)
        else Inr normalized))"

text \<open>The check alone, for \<^verbatim>\<open>validate_capability_id(..)?;\<close> as a statement.\<close>

definition check_capability_id :: "string \<Rightarrow> string + unit" where
  "check_capability_id v = map_ok (\<lambda>_. ()) (validate_capability_id v)"

section \<open>Field checks\<close>

definition cap_require_non_empty :: "string \<Rightarrow> string \<Rightarrow> string + unit" where
  "cap_require_non_empty field_name v = (if trim v = [] then Inl (field_name @ '' is required'') else Inr ())"

definition validate_access :: "string \<Rightarrow> string + unit" where
  "validate_access v =
     (if v \<in> set CAPABILITY_ACCESS_VALUES then Inr () else Inl (''unknown capability access: '' @ v))"

definition workspace_path_scope_stays_inside :: "string \<Rightarrow> bool" where
  "workspace_path_scope_stays_inside v \<longleftrightarrow>
     strip_prefix ''/'' v = None \<and> ''..'' \<notin> set (split_on (CHR ''/'') v)"

definition validate_string_list :: "string \<Rightarrow> string list \<Rightarrow> string + unit" where
  "validate_string_list field_name vs = all_checks (map (\<lambda>v.
     if trim v = [] then Inl (field_name @ '' values must not be empty'') else Inr ()) vs)"

definition validate_evidence_requirements :: "string list \<Rightarrow> string + unit" where
  "validate_evidence_requirements vs = validate_string_list ''evidence_requirements'' vs"

text \<open>The loop that pushes each trimmed value not seen yet.\<close>

fun push_trimmed :: "string \<Rightarrow> string list \<Rightarrow> string list \<Rightarrow> string + string list" where
  "push_trimmed empty_message normalized [] = Inr normalized"
| "push_trimmed empty_message normalized (v # vs) =
     (let trimmed = trim v in
      if trimmed = [] then Inl empty_message
      else if trimmed \<in> set normalized then push_trimmed empty_message normalized vs
      else push_trimmed empty_message (normalized @ [trimmed]) vs)"

definition normalize_evidence_requirements :: "string list \<Rightarrow> string + string list" where
  "normalize_evidence_requirements vs = push_trimmed ''evidence requirement values must not be empty'' [] vs"

definition normalize_string_list :: "string list \<Rightarrow> string + string list" where
  "normalize_string_list vs = push_trimmed ''list values must not be empty'' [] vs"

definition is_safe_fingerprint :: "string \<Rightarrow> bool" where
  "is_safe_fingerprint v =
     (case strip_prefix ''grant-'' v of
        None \<Rightarrow> False
      | Some suffix \<Rightarrow> length suffix = 12 \<and> list_all is_ascii_hexdigit suffix)"

section \<open>Scopes and approval policies\<close>

record CapabilityScope =
  ks_kind :: string
  ks_value :: string
  ks_metadata :: "(string \<times> json) list"

definition CapabilityScope_validate :: "CapabilityScope \<Rightarrow> string + unit" where
  "CapabilityScope_validate s = all_checks
     [(if ks_kind s \<notin> set CAPABILITY_SCOPE_KINDS
       then Inl (''unknown capability scope kind: '' @ ks_kind s) else Inr ()),
      (if trim (ks_value s) = [] then Inl ''capability scope value is required'' else Inr ()),
      (if ks_kind s = ''workspace_path'' \<and> \<not> workspace_path_scope_stays_inside (ks_value s)
       then Inl ''workspace_path scope must stay inside workspace'' else Inr ()),
      (if ks_kind s = ''runtime_action'' \<and> ks_value s \<notin> set CAPABILITY_RUNTIME_ACTION_SCOPE_VALUES
       then Inl (''unknown runtime_action scope: '' @ ks_value s) else Inr ())]"

definition CapabilityScope_from_raw :: "CapabilityScope \<Rightarrow> string + CapabilityScope" where
  "CapabilityScope_from_raw raw =
     (let scope = raw\<lparr>ks_kind := trim (ks_kind raw), ks_value := trim (ks_value raw)\<rparr>
      in map_ok (\<lambda>_. scope) (CapabilityScope_validate scope))"

record ApprovalPolicyRef =
  ka_policy_id :: string
  ka_gate_scope :: string
  ka_expiration_seconds :: "nat option"
  ka_required_decision :: string

definition ApprovalPolicyRef_validate :: "ApprovalPolicyRef \<Rightarrow> string + unit" where
  "ApprovalPolicyRef_validate a = all_checks
     [(if trim (ka_policy_id a) = [] then Inl ''policy_id is required'' else Inr ()),
      (if ka_gate_scope a \<notin> set APPROVAL_GATE_SCOPES
       then Inl (''unknown approval policy gate_scope: '' @ ka_gate_scope a) else Inr ()),
      (if ka_expiration_seconds a = Some 0 then Inl ''expiration_seconds must be greater than 0'' else Inr ()),
      (if ka_required_decision a \<noteq> ''approved'' then Inl ''required_decision must be approved'' else Inr ())]"

definition ApprovalPolicyRef_from_raw :: "ApprovalPolicyRef \<Rightarrow> string + ApprovalPolicyRef" where
  "ApprovalPolicyRef_from_raw raw =
     (let reference = raw\<lparr>ka_policy_id := trim (ka_policy_id raw)\<rparr>
      in map_ok (\<lambda>_. reference) (ApprovalPolicyRef_validate reference))"

section \<open>Requests and overrides\<close>

record CapabilityRequest =
  kr_request_id :: string
  kr_capability_id :: string
  kr_access :: string
  kr_scope :: CapabilityScope
  kr_required :: bool
  kr_requires_enforcement :: bool
  kr_reason :: string
  kr_requested_by :: string
  kr_policy_source :: "string option"

definition CapabilityRequest_validate :: "CapabilityRequest \<Rightarrow> string + unit" where
  "CapabilityRequest_validate r = all_checks
     [cap_require_non_empty ''request_id'' (kr_request_id r),
      check_capability_id (kr_capability_id r),
      validate_access (kr_access r),
      CapabilityScope_validate (kr_scope r),
      cap_require_non_empty ''requested_by'' (kr_requested_by r)]"

definition CapabilityRequest_from_raw :: "CapabilityRequest \<Rightarrow> string + CapabilityRequest" where
  "CapabilityRequest_from_raw raw =
     and_then (validate_capability_id (kr_capability_id raw)) (\<lambda>capability_id.
       let request = raw\<lparr>kr_request_id := trim (kr_request_id raw), kr_capability_id := capability_id\<rparr>
       in map_ok (\<lambda>_. request) (CapabilityRequest_validate request))"

record CapabilityPolicyOverride =
  ko_capability_id :: string
  ko_decision :: CapabilityPolicyDecision
  ko_scope :: "CapabilityScope option"
  ko_reason :: string
  ko_requires_enforcement :: "bool option"

definition CapabilityPolicyOverride_validate :: "CapabilityPolicyOverride \<Rightarrow> string + unit" where
  "CapabilityPolicyOverride_validate p = all_checks
     [check_capability_id (ko_capability_id p),
      (case ko_scope p of None \<Rightarrow> Inr () | Some scope \<Rightarrow> CapabilityScope_validate scope)]"

definition CapabilityPolicyOverride_from_raw :: "CapabilityPolicyOverride \<Rightarrow> string + CapabilityPolicyOverride" where
  "CapabilityPolicyOverride_from_raw raw =
     and_then (validate_capability_id (ko_capability_id raw)) (\<lambda>capability_id.
       let p = raw\<lparr>ko_capability_id := capability_id\<rparr>
       in map_ok (\<lambda>_. p) (CapabilityPolicyOverride_validate p))"

section \<open>Grants\<close>

record ExecutionCapabilityGrant =
  kg_grant_id :: string
  kg_request_id :: string
  kg_capability_id :: string
  kg_access :: string
  kg_scope :: CapabilityScope
  kg_required :: bool
  kg_decision_state :: CapabilityDecisionState
  kg_enforcement_mode :: CapabilityEnforcementMode
  kg_approval_policy_ref :: "ApprovalPolicyRef option"
  kg_evidence_requirements :: "string list"
  kg_evidence_status :: CapabilityEvidenceStatus
  kg_decision_reason :: string
  kg_resolved_by :: string
  kg_fingerprint :: string

definition ExecutionCapabilityGrant_validate :: "ExecutionCapabilityGrant \<Rightarrow> string + unit" where
  "ExecutionCapabilityGrant_validate g = all_checks
     [cap_require_non_empty ''grant_id'' (kg_grant_id g),
      cap_require_non_empty ''request_id'' (kg_request_id g),
      check_capability_id (kg_capability_id g),
      validate_access (kg_access g),
      CapabilityScope_validate (kg_scope g),
      (if kg_decision_state g = CapabilityDecisionState.ApprovalRequired \<and> kg_approval_policy_ref g = None
       then Inl ''approval_required grants require approval_policy_ref'' else Inr ()),
      (if kg_decision_state g \<noteq> CapabilityDecisionState.Granted
          \<and> kg_enforcement_mode g \<noteq> CapabilityEnforcementMode.NotApplicable
       then Inl ''non-granted capability decisions must use not_applicable enforcement'' else Inr ()),
      (case kg_approval_policy_ref g of None \<Rightarrow> Inr () | Some a \<Rightarrow> ApprovalPolicyRef_validate a),
      validate_evidence_requirements (kg_evidence_requirements g),
      cap_require_non_empty ''decision_reason'' (kg_decision_reason g),
      cap_require_non_empty ''resolved_by'' (kg_resolved_by g),
      (if kg_fingerprint g \<noteq> [] \<and> \<not> is_safe_fingerprint (kg_fingerprint g)
       then Inl ''fingerprint must use the grant-<hex> format'' else Inr ())]"

record RawExecutionCapabilityGrant =
  kw_grant_id :: string
  kw_request_id :: string
  kw_capability_id :: string
  kw_access :: string
  kw_scope :: CapabilityScope
  kw_required :: bool
  kw_decision_state :: CapabilityDecisionState
  kw_enforcement_mode :: CapabilityEnforcementMode
  kw_approval_policy_ref :: "ApprovalPolicyRef option"
  kw_evidence_requirements :: "string list"
  kw_evidence_status :: "CapabilityEvidenceStatus option"
  kw_decision_reason :: string
  kw_resolved_by :: string
  kw_fingerprint :: string

text \<open>\<open>digest\<close> is \<^verbatim>\<open>capability_grant_fingerprint\<close>: SHA-256 of the grant's canonical JSON without its
  fingerprint, as text.\<close>

definition ExecutionCapabilityGrant_from_raw ::
  "(ExecutionCapabilityGrant \<Rightarrow> string) \<Rightarrow> RawExecutionCapabilityGrant \<Rightarrow> string + ExecutionCapabilityGrant" where
  "ExecutionCapabilityGrant_from_raw digest raw =
     and_then (validate_capability_id (kw_capability_id raw)) (\<lambda>capability_id.
     and_then (normalize_evidence_requirements (kw_evidence_requirements raw)) (\<lambda>requirements.
       let grant = \<lparr>kg_grant_id = trim (kw_grant_id raw), kg_request_id = trim (kw_request_id raw),
             kg_capability_id = capability_id, kg_access = kw_access raw, kg_scope = kw_scope raw,
             kg_required = kw_required raw, kg_decision_state = kw_decision_state raw,
             kg_enforcement_mode = kw_enforcement_mode raw,
             kg_approval_policy_ref = kw_approval_policy_ref raw,
             kg_evidence_requirements = requirements,
             kg_evidence_status = (case kw_evidence_status raw of
                 Some st \<Rightarrow> st
               | None \<Rightarrow> if kw_decision_state raw = CapabilityDecisionState.Granted
                             \<and> kw_evidence_requirements raw \<noteq> []
                         then CapabilityEvidenceStatus.Pending else CapabilityEvidenceStatus.NotRequired),
             kg_decision_reason = trim (kw_decision_reason raw),
             kg_resolved_by = trim (kw_resolved_by raw), kg_fingerprint = kw_fingerprint raw\<rparr>
       in map_ok (\<lambda>_. if kg_fingerprint grant = [] then grant\<lparr>kg_fingerprint := digest grant\<rparr> else grant)
            (ExecutionCapabilityGrant_validate grant)))"

section \<open>Support decisions and warnings\<close>

record CapabilitySupportDecision =
  kd_runner_id :: string
  kd_invocation_context_ref :: string
  kd_grant_id :: string
  kd_support_state :: CapabilitySupportState
  kd_enforcement_mode :: CapabilityEnforcementMode
  kd_limitations :: "string list"
  kd_evidence_available :: "string list"
  kd_reason :: string

definition CapabilitySupportDecision_validate :: "CapabilitySupportDecision \<Rightarrow> string + unit" where
  "CapabilitySupportDecision_validate d = all_checks
     [cap_require_non_empty ''runner_id'' (kd_runner_id d),
      cap_require_non_empty ''grant_id'' (kd_grant_id d),
      validate_string_list ''limitations'' (kd_limitations d),
      validate_string_list ''evidence_available'' (kd_evidence_available d),
      cap_require_non_empty ''reason'' (kd_reason d)]"

definition CapabilitySupportDecision_from_raw :: "CapabilitySupportDecision \<Rightarrow> string + CapabilitySupportDecision" where
  "CapabilitySupportDecision_from_raw raw =
     and_then (normalize_string_list (kd_limitations raw)) (\<lambda>limitations.
     and_then (normalize_string_list (kd_evidence_available raw)) (\<lambda>evidence.
       let d = raw\<lparr>kd_runner_id := trim (kd_runner_id raw), kd_grant_id := trim (kd_grant_id raw),
                   kd_limitations := limitations, kd_evidence_available := evidence,
                   kd_reason := trim (kd_reason raw)\<rparr>
       in map_ok (\<lambda>_. d) (CapabilitySupportDecision_validate d)))"

record ExecutionCapabilityWarning =
  ke_warning_id :: string
  ke_capability_id :: string
  ke_severity :: string
  ke_message :: string

definition ExecutionCapabilityWarning_validate :: "ExecutionCapabilityWarning \<Rightarrow> string + unit" where
  "ExecutionCapabilityWarning_validate e = all_checks
     [cap_require_non_empty ''warning_id'' (ke_warning_id e),
      check_capability_id (ke_capability_id e),
      cap_require_non_empty ''severity'' (ke_severity e),
      cap_require_non_empty ''message'' (ke_message e)]"

section \<open>Facts\<close>

text \<open>The aliases name exactly the base ids, and canonicalising is idempotent.\<close>

lemma base_capability_ids_normal:
  "is_base_execution_capability_id v \<Longrightarrow> normalize_capability_id v = v"
  by (auto simp: is_base_execution_capability_id_def BASE_EXECUTION_CAPABILITY_IDS_def
      normalize_capability_id_def trim_graphic ascii_graphic_def)

lemma validate_capability_id_Inr:
  "validate_capability_id v = Inr w \<Longrightarrow>
     is_base_execution_capability_id w \<and> w = normalize_capability_id v \<and> validate_capability_id w = Inr w"
  by (auto simp: validate_capability_id_def Let_def and_then_eq_Inr base_capability_ids_normal split: if_splits)

lemma set_push_trimmed:
  "push_trimmed m ns vs = Inr ws \<Longrightarrow>
     set ws = set ns \<union> trim ` set vs \<and> (distinct ns \<longrightarrow> distinct ws)"
  by (induction m ns vs rule: push_trimmed.induct) (auto simp: Let_def split: if_splits)

end
