(* ===== verification/Compiler_Fields.thy ===== *)
theory Compiler_Fields
  imports Workflow_Primitives Capabilities
begin

text \<open>
  The vocabulary of \<^verbatim>\<open>src/src/compiler/contracts.rs\<close>: its enums, its errors, and the field checks and
  normalisations that its contracts share. A normalisation returns the normalised value, where the
  source overwrites the field.
\<close>

section \<open>Enums and errors\<close>

datatype GraphLoopEntryKey =
  TaskEntry | ProbeEntry | SpecEntry | IncidentEntry | BlueprintDraftEntry | ClosureTargetEntry
  | LearningRequestEntry

primrec GraphLoopEntryKey_as_str :: "GraphLoopEntryKey \<Rightarrow> string" where
  "GraphLoopEntryKey_as_str TaskEntry = ''task''"
| "GraphLoopEntryKey_as_str ProbeEntry = ''probe''"
| "GraphLoopEntryKey_as_str SpecEntry = ''spec''"
| "GraphLoopEntryKey_as_str IncidentEntry = ''incident''"
| "GraphLoopEntryKey_as_str BlueprintDraftEntry = ''blueprint_draft''"
| "GraphLoopEntryKey_as_str ClosureTargetEntry = ''closure_target''"
| "GraphLoopEntryKey_as_str LearningRequestEntry = ''learning_request''"

datatype GraphLoopTerminalClass =
  SuccessTerminal | NoOpTerminal | FollowupNeededTerminal | BlockedTerminal | EscalatePlanningTerminal

primrec GraphLoopTerminalClass_as_str :: "GraphLoopTerminalClass \<Rightarrow> string" where
  "GraphLoopTerminalClass_as_str SuccessTerminal = ''success''"
| "GraphLoopTerminalClass_as_str NoOpTerminal = ''no_op''"
| "GraphLoopTerminalClass_as_str FollowupNeededTerminal = ''followup_needed''"
| "GraphLoopTerminalClass_as_str BlockedTerminal = ''blocked''"
| "GraphLoopTerminalClass_as_str EscalatePlanningTerminal = ''escalate_planning''"

datatype GraphLoopCounterName = FixCycleCount | TroubleshootAttemptCount | MechanicAttemptCount

primrec GraphLoopCounterName_as_str :: "GraphLoopCounterName \<Rightarrow> string" where
  "GraphLoopCounterName_as_str FixCycleCount = ''fix_cycle_count''"
| "GraphLoopCounterName_as_str TroubleshootAttemptCount = ''troubleshoot_attempt_count''"
| "GraphLoopCounterName_as_str MechanicAttemptCount = ''mechanic_attempt_count''"

datatype StageIdempotencePolicy = IdempotentStage | RetrySafeWithKey | SingleAttemptOnly

primrec StageIdempotencePolicy_as_str :: "StageIdempotencePolicy \<Rightarrow> string" where
  "StageIdempotencePolicy_as_str IdempotentStage = ''idempotent''"
| "StageIdempotencePolicy_as_str RetrySafeWithKey = ''retry_safe_with_key''"
| "StageIdempotencePolicy_as_str SingleAttemptOnly = ''single_attempt_only''"

datatype RecoveryRole = LocalRepair | Escalation

primrec RecoveryRole_as_str :: "RecoveryRole \<Rightarrow> string" where
  "RecoveryRole_as_str LocalRepair = ''local_repair''"
| "RecoveryRole_as_str Escalation = ''escalation''"

datatype CompiledPlanCurrentnessState = CurrentPlan | StalePlan | MissingPlan | UnknownPlan

primrec CompiledPlanCurrentnessState_as_str :: "CompiledPlanCurrentnessState \<Rightarrow> string" where
  "CompiledPlanCurrentnessState_as_str CurrentPlan = ''current''"
| "CompiledPlanCurrentnessState_as_str StalePlan = ''stale''"
| "CompiledPlanCurrentnessState_as_str MissingPlan = ''missing''"
| "CompiledPlanCurrentnessState_as_str UnknownPlan = ''unknown''"

datatype CompilerContractError =
    CompilerContract ContractError
  | CompilerJson string string
  | CompilerUnknownValue string string
  | CompilerInvalidLiteral string string string
  | CompilerInvalidField string string
  | CompilerInvalidDocument string

primrec CompilerContractError_to_string :: "CompilerContractError \<Rightarrow> string" where
  "CompilerContractError_to_string (CompilerContract e) = ContractError_to_string e"
| "CompilerContractError_to_string (CompilerJson a m) = ''failed to decode '' @ a @ '': '' @ m"
| "CompilerContractError_to_string (CompilerUnknownValue f v) = f @ '' has unknown value: '' @ v"
| "CompilerContractError_to_string (CompilerInvalidLiteral f e a) =
     f @ '' must be literal '' @ [CHR 0x60] @ e @ [CHR 0x60] @ '', got '' @ [CHR 0x60] @ a @ [CHR 0x60]"
| "CompilerContractError_to_string (CompilerInvalidField f m) = f @ '' is invalid: '' @ m"
| "CompilerContractError_to_string (CompilerInvalidDocument m) = m"

definition is_id_separator :: "char \<Rightarrow> bool" where
  "is_id_separator c \<longleftrightarrow> c \<in> {CHR ''.'', CHR ''_'', CHR ''-''}"

text \<open>The loop of \<^verbatim>\<open>is_canonical_id\<close>; the flag says whether the previous byte was a separator,
  and starts as true because a separator at index 0 is refused too.\<close>

fun canonical_id_from :: "bool \<Rightarrow> string \<Rightarrow> bool" where
  "canonical_id_from previous_was_separator [] = (\<not> previous_was_separator)"
| "canonical_id_from previous_was_separator (c # cs) =
     (if \<not> (is_ascii_lower c \<or> is_ascii_digit c) \<and> \<not> is_id_separator c then False
      else if is_id_separator c \<and> previous_was_separator then False
      else canonical_id_from (is_id_separator c) cs)"

definition is_canonical_id :: "string \<Rightarrow> bool" where
  "is_canonical_id v = canonical_id_from True v"

definition normalize_canonical_id :: "string \<Rightarrow> string \<Rightarrow> CompilerContractError + string" where
  "normalize_canonical_id v field_name =
     (let normalized = to_ascii_lowercase (trim v) in
      if is_canonical_id normalized then Inr normalized
      else Inl (CompilerInvalidField field_name
        (''must use lowercase canonical tokens separated by '' @ [CHR 0x27] @ ''.'' @ [CHR 0x27] @ '', ''
         @ [CHR 0x27] @ ''_'' @ [CHR 0x27] @ '', or '' @ [CHR 0x27] @ ''-'' @ [CHR 0x27])))"

definition normalize_optional_canonical_id ::
  "string option \<Rightarrow> string \<Rightarrow> CompilerContractError + string option" where
  "normalize_optional_canonical_id v field_name =
     (case v of None \<Rightarrow> Inr None | Some x \<Rightarrow> map_ok Some (normalize_canonical_id x field_name))"

definition normalize_canonical_ids :: "string list \<Rightarrow> string \<Rightarrow> CompilerContractError + string list" where
  "normalize_canonical_ids vs field_name =
     map_ok dedupe (normalize_each (\<lambda>v. normalize_canonical_id v field_name) vs)"

definition is_status :: "string \<Rightarrow> bool" where
  "is_status v = (case v of
     [] \<Rightarrow> False
   | c # cs \<Rightarrow> is_ascii_upper c \<and>
       list_all (\<lambda>b. is_ascii_upper b \<or> is_ascii_digit b \<or> b = CHR ''_'') cs)"

definition normalize_status :: "string \<Rightarrow> string \<Rightarrow> CompilerContractError + string" where
  "normalize_status v field_name =
     (let normalized = to_ascii_uppercase (trim v) in
      if is_status normalized then Inr normalized
      else Inl (CompilerInvalidField field_name ''must use uppercase status tokens''))"

definition normalize_status_values :: "string list \<Rightarrow> string \<Rightarrow> bool \<Rightarrow> CompilerContractError + string list" where
  "normalize_status_values vs field_name require_values =
     and_then (normalize_each (\<lambda>v. normalize_status v field_name) vs) (\<lambda>normalized.
       if require_values \<and> dedupe normalized = []
       then Inl (CompilerInvalidField field_name ''must not be empty'')
       else Inr (dedupe normalized))"

definition validate_edge_target_shape ::
  "string \<Rightarrow> LoopEdgeKind \<Rightarrow> bool \<Rightarrow> bool \<Rightarrow> nat option \<Rightarrow> CompilerContractError + unit" where
  "validate_edge_target_shape label kind has_node_target has_terminal_target max_attempts =
     (let target_count = of_bool has_node_target + (of_bool has_terminal_target :: nat) in
      if target_count \<noteq> 1 then
        Inl (CompilerInvalidDocument (label @ '' must target exactly one node or terminal_state_id''))
      else if kind = LoopEdgeKind.Terminal \<and> \<not> has_terminal_target then
        Inl (CompilerInvalidDocument (label @ '' with kind=terminal must target a terminal_state_id''))
      else if kind = LoopEdgeKind.Retry \<and> max_attempts = None then
        Inl (CompilerInvalidDocument (label @ '' with kind=retry must declare max_attempts''))
      else if kind \<noteq> LoopEdgeKind.Retry \<and> max_attempts \<noteq> None then
        Inl (CompilerInvalidDocument (label @ '' may only declare max_attempts when kind=retry''))
      else Inr ())"

section \<open>Literals, texts and lists\<close>

definition cc_validate_literal :: "string \<Rightarrow> string \<Rightarrow> string \<Rightarrow> CompilerContractError + unit" where
  "cc_validate_literal field_name actual expected =
     (if actual = expected then Inr () else Inl (CompilerInvalidLiteral field_name expected actual))"

definition cc_require_non_blank :: "string \<Rightarrow> string \<Rightarrow> CompilerContractError + unit" where
  "cc_require_non_blank field_name v =
     (if trim v = [] then Inl (CompilerInvalidField field_name ''is required'') else Inr ())"

definition cc_require_optional_non_blank :: "string \<Rightarrow> string option \<Rightarrow> CompilerContractError + unit" where
  "cc_require_optional_non_blank field_name v =
     (case v of None \<Rightarrow> Inr () | Some x \<Rightarrow> cc_require_non_blank field_name x)"

definition validate_non_blank_string_map ::
  "string \<Rightarrow> (string \<times> string) list \<Rightarrow> CompilerContractError + unit" where
  "validate_non_blank_string_map field_name m = all_checks
     (map (\<lambda>(k, v). all_checks [cc_require_non_blank field_name k, cc_require_non_blank field_name v]) m)"

definition cc_require_non_empty :: "string \<Rightarrow> nat \<Rightarrow> CompilerContractError + unit" where
  "cc_require_non_empty field_name n =
     (if n = 0 then Inl (CompilerInvalidField field_name ''must not be empty'') else Inr ())"

definition document_check :: "bool \<Rightarrow> string \<Rightarrow> CompilerContractError + unit" where
  "document_check ok message = (if ok then Inr () else Inl (CompilerInvalidDocument message))"

definition field_check :: "bool \<Rightarrow> string \<Rightarrow> string \<Rightarrow> CompilerContractError + unit" where
  "field_check ok field_name message = (if ok then Inr () else Inl (CompilerInvalidField field_name message))"

definition normalize_nonempty_text :: "string \<Rightarrow> string \<Rightarrow> CompilerContractError + string" where
  "normalize_nonempty_text v field_name =
     (let normalized = join_with '' '' (split_whitespace v) in
      if normalized = [] then Inl (CompilerInvalidField field_name ''may not be empty'') else Inr normalized)"

definition validate_optional_nonempty_text :: "string \<Rightarrow> string option \<Rightarrow> CompilerContractError + string option" where
  "validate_optional_nonempty_text field_name v =
     (case v of None \<Rightarrow> Inr None | Some x \<Rightarrow> map_ok Some (normalize_nonempty_text x field_name))"

definition normalize_non_blank_vec :: "string \<Rightarrow> string list \<Rightarrow> CompilerContractError + string list" where
  "normalize_non_blank_vec field_name vs =
     map_ok (\<lambda>_. dedupe vs) (all_checks (map (cc_require_non_blank field_name) vs))"

definition normalize_preferred_output_paths :: "string list \<Rightarrow> CompilerContractError + string list" where
  "normalize_preferred_output_paths vs =
     map_ok dedupe (normalize_each (\<lambda>v.
       if trim v = [] then Inl (CompilerInvalidField ''preferred_output_paths'' ''entries must not be empty'')
       else Inr (trim v)) vs)"

definition validate_plane_groups :: "string \<Rightarrow> Plane list list \<Rightarrow> CompilerContractError + unit" where
  "validate_plane_groups field_name groups = all_checks
     (map (\<lambda>g. field_check (g \<noteq> []) field_name ''plane groups must not be empty'') groups)"

text \<open>\<^verbatim>\<open>unique_ids\<close>, whose result is the set of the ids.\<close>

fun unique_ids_from :: "string set \<Rightarrow> string \<Rightarrow> string list \<Rightarrow> CompilerContractError + string set" where
  "unique_ids_from seen duplicate_message [] = Inr seen"
| "unique_ids_from seen duplicate_message (i # ids) =
     (if i \<in> seen then Inl (CompilerInvalidDocument duplicate_message)
      else unique_ids_from (insert i seen) duplicate_message ids)"

definition unique_ids :: "string \<Rightarrow> string list \<Rightarrow> CompilerContractError + string set" where
  "unique_ids duplicate_message ids = unique_ids_from {} duplicate_message ids"

definition require_known_node ::
  "string \<Rightarrow> string \<Rightarrow> string \<Rightarrow> string \<Rightarrow> string set \<Rightarrow> CompilerContractError + unit" where
  "require_known_node label policy_id field_name node_id node_ids =
     document_check (node_id \<in> node_ids)
       (label @ '' '' @ policy_id @ '' references unknown '' @ field_name @ '' '' @ node_id)"

definition require_known_terminal_state ::
  "string \<Rightarrow> string \<Rightarrow> string \<Rightarrow> string \<Rightarrow> string set \<Rightarrow> CompilerContractError + unit" where
  "require_known_terminal_state label policy_id field_name terminal_state_id terminal_state_ids =
     document_check (terminal_state_id \<in> terminal_state_ids)
       (label @ '' '' @ policy_id @ '' references unknown '' @ field_name @ '' '' @ terminal_state_id)"

section \<open>Asset paths, override names and result classes\<close>

definition is_markdown_asset_path :: "string \<Rightarrow> string \<Rightarrow> bool" where
  "is_markdown_asset_path v required_prefix \<longleftrightarrow>
     v \<noteq> [] \<and> strip_prefix ''/'' v = None \<and> strip_prefix required_prefix v \<noteq> None
     \<and> strip_suffix ''.md'' v \<noteq> None
     \<and> list_all (\<lambda>part. part \<noteq> [] \<and> part \<noteq> ''..'') (split_on (CHR ''/'') v)"

definition validate_markdown_asset_path ::
  "string \<Rightarrow> string \<Rightarrow> string \<Rightarrow> CompilerContractError + string" where
  "validate_markdown_asset_path field_name v required_prefix =
     (let normalized = map (\<lambda>c. if c = CHR 0x5C then CHR ''/'' else c) (trim v) in
      if is_markdown_asset_path normalized required_prefix then Inr normalized
      else Inl (CompilerInvalidField field_name
        (''must be a markdown asset path under '' @ [CHR 0x22] @ required_prefix @ [CHR 0x22]
         @ '' without traversal'')))"

definition validate_optional_markdown_asset_path ::
  "string \<Rightarrow> string option \<Rightarrow> string \<Rightarrow> CompilerContractError + string option" where
  "validate_optional_markdown_asset_path field_name v required_prefix =
     (case v of None \<Rightarrow> Inr None
      | Some x \<Rightarrow> map_ok Some (validate_markdown_asset_path field_name x required_prefix))"

definition normalize_markdown_asset_paths ::
  "string \<Rightarrow> string list \<Rightarrow> string \<Rightarrow> CompilerContractError + string list" where
  "normalize_markdown_asset_paths field_name vs required_prefix =
     map_ok dedupe (normalize_each (\<lambda>v. validate_markdown_asset_path field_name v required_prefix) vs)"

text \<open>The loop of \<^verbatim>\<open>is_override_name\<close>, as in \<^verbatim>\<open>is_canonical_id\<close>.\<close>

fun override_name_from :: "bool \<Rightarrow> string \<Rightarrow> bool" where
  "override_name_from previous_was_separator [] = (\<not> previous_was_separator)"
| "override_name_from previous_was_separator (c # cs) =
     (if \<not> (is_ascii_lower c \<or> is_ascii_digit c) \<and> c \<noteq> CHR ''_'' then False
      else if c = CHR ''_'' \<and> previous_was_separator then False
      else override_name_from (c = CHR ''_'') cs)"

definition is_override_name :: "string \<Rightarrow> bool" where
  "is_override_name v = override_name_from True v"

definition normalize_override_names :: "string list \<Rightarrow> string \<Rightarrow> CompilerContractError + string list" where
  "normalize_override_names vs field_name =
     map_ok dedupe (normalize_each (\<lambda>v.
       let normalized = to_ascii_lowercase (trim v) in
       if is_override_name normalized then Inr normalized
       else Inl (CompilerInvalidField field_name ''must use lowercase snake_case override names'')) vs)"

text \<open>The loop that rebuilds the map with normalised keys.\<close>

fun normalize_outcome_entries ::
  "(string \<times> ResultClass list) list \<Rightarrow> (string \<times> ResultClass list) list \<Rightarrow>
   CompilerContractError + (string \<times> ResultClass list) list" where
  "normalize_outcome_entries normalized [] = Inr normalized"
| "normalize_outcome_entries normalized ((oc, classes) # rest) =
     and_then (normalize_status oc ''allowed_result_classes_by_outcome'') (\<lambda>normalized_outcome.
       if normalized_outcome \<in> fst ` set normalized
       then Inl (CompilerInvalidDocument
         ''allowed_result_classes_by_outcome may not declare duplicate normalized outcomes'')
       else normalize_outcome_entries (normalized @ [(normalized_outcome, dedupe classes)]) rest)"

definition normalize_allowed_result_classes ::
  "(string \<times> ResultClass list) list \<Rightarrow> CompilerContractError + (string \<times> ResultClass list) list" where
  "normalize_allowed_result_classes mapping =
     (if mapping = []
      then Inl (CompilerInvalidField ''allowed_result_classes_by_outcome'' ''must not be empty'')
      else normalize_outcome_entries [] mapping)"

section \<open>Stage bindings and capabilities\<close>

definition normalize_stage_string_map :: "(StageName \<times> string) list \<Rightarrow> CompilerContractError + unit" where
  "normalize_stage_string_map mapping = all_checks
     (map (\<lambda>(stage, v). cc_require_non_blank ''stage binding'' v) mapping)"

definition normalize_stage_optional_string_map ::
  "(StageName \<times> string option) list \<Rightarrow> CompilerContractError + unit" where
  "normalize_stage_optional_string_map mapping = all_checks
     (map (\<lambda>(stage, v). cc_require_optional_non_blank ''stage binding'' v) mapping)"

definition normalize_stage_vec_map ::
  "(StageName \<times> string list) list \<Rightarrow> CompilerContractError + (StageName \<times> string list) list" where
  "normalize_stage_vec_map mapping =
     normalize_each (\<lambda>(stage, vs).
       map_ok (\<lambda>_. (stage, dedupe vs)) (all_checks (map (cc_require_non_blank ''stage binding'') vs))) mapping"

definition validate_capability_requests :: "string \<Rightarrow> CapabilityRequest list \<Rightarrow> CompilerContractError + unit" where
  "validate_capability_requests field_name requests = all_checks
     (map (\<lambda>r. map_err (CompilerInvalidField field_name) (CapabilityRequest_validate r)) requests)"

definition validate_capability_policy_overrides ::
  "string \<Rightarrow> CapabilityPolicyOverride list \<Rightarrow> CompilerContractError + unit" where
  "validate_capability_policy_overrides field_name overrides = all_checks
     (map (\<lambda>p. map_err (CompilerInvalidField field_name) (CapabilityPolicyOverride_validate p)) overrides)"

definition validate_stage_capability_request_map ::
  "(StageName \<times> CapabilityRequest list) list \<Rightarrow> CompilerContractError + unit" where
  "validate_stage_capability_request_map mapping = all_checks
     (map (\<lambda>(stage, requests). validate_capability_requests ''stage_execution_capability_requests'' requests)
       mapping)"

definition validate_stage_capability_policy_override_map ::
  "(StageName \<times> CapabilityPolicyOverride list) list \<Rightarrow> CompilerContractError + unit" where
  "validate_stage_capability_policy_override_map mapping = all_checks
     (map (\<lambda>(stage, overrides).
       validate_capability_policy_overrides ''stage_execution_capability_policy_overrides'' overrides) mapping)"

definition validate_summary_map :: "string \<Rightarrow> (string \<times> nat) list \<Rightarrow> CompilerContractError + unit" where
  "validate_summary_map field_name m = all_checks (map (\<lambda>(k, n). cc_require_non_blank field_name k) m)"

definition require_prefixed_fingerprint ::
  "string \<Rightarrow> string \<Rightarrow> string \<Rightarrow> CompilerContractError + unit" where
  "require_prefixed_fingerprint field_name v prefix =
     (case strip_prefix prefix v of
        None \<Rightarrow> Inl (CompilerInvalidField field_name (''must use the '' @ prefix @ ''<hex> format''))
      | Some suffix \<Rightarrow>
          if length suffix \<noteq> 12 \<or> \<not> list_all is_ascii_hexdigit suffix
          then Inl (CompilerInvalidField field_name (''must use the '' @ prefix @ ''<hex> format''))
          else Inr ())"

text \<open>A runtime contract inside a compiler contract: its error becomes an invalid field.\<close>

definition runtime_contract :: "string \<Rightarrow> RuntimeJsonError + unit \<Rightarrow> CompilerContractError + unit" where
  "runtime_contract field_name r =
     map_err (\<lambda>e. CompilerInvalidField field_name (RuntimeJsonError_to_string e)) r"

definition validate_runtime_contracts ::
  "string \<Rightarrow> ('a \<Rightarrow> RuntimeJsonError + unit) \<Rightarrow> 'a list \<Rightarrow> CompilerContractError + unit" where
  "validate_runtime_contracts field_name validate definitions = all_checks
     (map (\<lambda>d. runtime_contract field_name (validate d)) definitions)"

text \<open>\<^verbatim>\<open>validate_safe_identifier(..)?\<close> with the error converted.\<close>

definition cc_safe_identifier :: "string \<Rightarrow> string \<Rightarrow> CompilerContractError + unit" where
  "cc_safe_identifier v field_name =
     map_err CompilerContract (map_ok (\<lambda>_. ()) (validate_safe_identifier v field_name))"

end
