(* ===== verification/Loop_Definitions.thy ===== *)
theory Loop_Definitions
  imports Compiler_Fields
begin

text \<open>
  What the compiler reads (\<^verbatim>\<open>src/src/compiler/contracts.rs\<close>): learning triggers and modes, graph loops
  with their nodes, edges, entries, terminal states and policies, and the registry of stage kinds, each
  with its validation. A validation returns the normalised definition.

  A \<^verbatim>\<open>HashMap\<close> is an association list with distinct keys in the order of its iteration.
  Prefixes: \<open>lt_\<close> learning trigger, \<open>pc_\<close> plane concurrency policy, \<open>mo_\<close> mode, \<open>mw_\<close> raw mode,
  \<open>ln_\<close> node, \<open>le_\<close> entry, \<open>gs_\<close> terminal state, \<open>lx_\<close> edge, \<open>lb_\<close> completion behaviour, \<open>lr_\<close> resume
  policy, \<open>lh_\<close> threshold policy, \<open>ly_\<close> dynamic policies, \<open>gl_\<close> graph loop, \<open>sk_\<close> stage kind.
\<close>

section \<open>Learning triggers and modes\<close>

record LearningTriggerRuleDefinition =
  lt_rule_id :: string
  lt_source_plane :: Plane
  lt_source_stage :: StageName
  lt_on_terminal_results :: "string list"
  lt_target_stage :: LearningStageName
  lt_requested_action :: LearningRequestAction
  lt_target_skill_id :: "string option"
  lt_preferred_output_paths :: "string list"

definition LearningTriggerRuleDefinition_validate ::
  "LearningTriggerRuleDefinition \<Rightarrow> CompilerContractError + LearningTriggerRuleDefinition" where
  "LearningTriggerRuleDefinition_validate t =
     and_then (all_checks
       [cc_safe_identifier (lt_rule_id t) ''rule_id'',
        document_check (stage_plane (lt_source_stage t) = lt_source_plane t)
          ''source_stage must belong to source_plane'',
        document_check (lt_source_plane t \<noteq> Plane.Learning)
          ''learning triggers must originate outside the learning plane'',
        (case lt_target_skill_id t of None \<Rightarrow> Inr () | Some i \<Rightarrow> cc_safe_identifier i ''target_skill_id'')]) (\<lambda>_.
     and_then (normalize_preferred_output_paths (lt_preferred_output_paths t)) (\<lambda>paths.
     and_then (normalize_status_values (lt_on_terminal_results t) ''on_terminal_results'' False) (\<lambda>results.
     and_then (field_check (results \<noteq> []) ''on_terminal_results'' ''must not be empty'') (\<lambda>_.
     map_ok (\<lambda>_. t\<lparr>lt_preferred_output_paths := paths, lt_on_terminal_results := results\<rparr>)
       (all_checks (map (\<lambda>oc.
          and_then (map_err CompilerContract (terminal_result_for_plane (lt_source_plane t) oc)) (\<lambda>result.
            document_check (result \<in> set (legal_terminal_results (lt_source_stage t)))
              (''on_terminal_results contains value illegal for source_stage: '' @ oc))) results))))))"

record PlaneConcurrencyPolicyDefinition =
  pc_mutually_exclusive_planes :: "Plane list list"
  pc_may_run_concurrently :: "Plane list list"

definition PlaneConcurrencyPolicyDefinition_validate ::
  "PlaneConcurrencyPolicyDefinition \<Rightarrow> CompilerContractError + unit" where
  "PlaneConcurrencyPolicyDefinition_validate p = all_checks
     [validate_plane_groups ''mutually_exclusive_planes'' (pc_mutually_exclusive_planes p),
      validate_plane_groups ''may_run_concurrently'' (pc_may_run_concurrently p)]"

record ModeDefinition =
  mo_schema_version :: string
  mo_kind :: string
  mo_mode_id :: string
  mo_loop_ids_by_plane :: "(Plane \<times> string) list"
  mo_stage_entrypoint_overrides :: "(StageName \<times> string) list"
  mo_stage_skill_additions :: "(StageName \<times> string list) list"
  mo_stage_model_bindings :: "(StageName \<times> string) list"
  mo_stage_runner_bindings :: "(StageName \<times> string) list"
  mo_stage_thinking_bindings :: "(StageName \<times> string option) list"
  mo_execution_capability_requests :: "CapabilityRequest list"
  mo_execution_capability_policies :: "CapabilityPolicyOverride list"
  mo_stage_execution_capability_requests :: "(StageName \<times> CapabilityRequest list) list"
  mo_stage_execution_capability_policy_overrides :: "(StageName \<times> CapabilityPolicyOverride list) list"
  mo_concurrency_policy :: "PlaneConcurrencyPolicyDefinition option"
  mo_learning_trigger_rules :: "LearningTriggerRuleDefinition list"

definition loop_binding_check :: "Plane \<Rightarrow> string \<Rightarrow> CompilerContractError + unit" where
  "loop_binding_check plane loop_id = all_checks
     [cc_require_non_blank ''loop_id'' loop_id,
      document_check (strip_prefix (Plane_as_str plane @ ''.'') loop_id \<noteq> None)
        (''loop id for plane '' @ Plane_as_str plane @ '' must start with '' @ [CHR 0x22]
         @ Plane_as_str plane @ ''.'' @ [CHR 0x22])]"

definition ModeDefinition_validate :: "ModeDefinition \<Rightarrow> CompilerContractError + ModeDefinition" where
  "ModeDefinition_validate m =
     and_then (all_checks
       ([cc_validate_literal ''schema_version'' (mo_schema_version m) ''1.0'',
         cc_validate_literal ''kind'' (mo_kind m) ''mode'',
         cc_require_non_blank ''mode_id'' (mo_mode_id m),
         document_check (Plane.Execution \<in> fst ` set (mo_loop_ids_by_plane m))
           ''loop_ids_by_plane must include execution'',
         document_check (Plane.Planning \<in> fst ` set (mo_loop_ids_by_plane m))
           ''loop_ids_by_plane must include planning'']
        @ map (\<lambda>(plane, loop_id). loop_binding_check plane loop_id) (mo_loop_ids_by_plane m)
        @ [normalize_stage_string_map (mo_stage_entrypoint_overrides m)])) (\<lambda>_.
     and_then (normalize_stage_vec_map (mo_stage_skill_additions m)) (\<lambda>skills.
     and_then (all_checks
       [normalize_stage_string_map (mo_stage_model_bindings m),
        normalize_stage_string_map (mo_stage_runner_bindings m),
        normalize_stage_optional_string_map (mo_stage_thinking_bindings m),
        validate_capability_requests ''execution_capability_requests'' (mo_execution_capability_requests m),
        validate_capability_policy_overrides ''execution_capability_policies''
          (mo_execution_capability_policies m),
        validate_stage_capability_request_map (mo_stage_execution_capability_requests m),
        validate_stage_capability_policy_override_map (mo_stage_execution_capability_policy_overrides m),
        (case mo_concurrency_policy m of
           None \<Rightarrow> Inr () | Some p \<Rightarrow> PlaneConcurrencyPolicyDefinition_validate p)]) (\<lambda>_.
     and_then (normalize_each LearningTriggerRuleDefinition_validate (mo_learning_trigger_rules m)) (\<lambda>rules.
     map_ok (\<lambda>_. m\<lparr>mo_stage_skill_additions := skills, mo_learning_trigger_rules := rules\<rparr>)
       (document_check (rules = [] \<or> Plane.Learning \<in> fst ` set (mo_loop_ids_by_plane m))
          ''learning_trigger_rules require a learning loop binding'')))))"

record ModeDefinitionRaw =
  mw_schema_version :: string
  mw_kind :: string
  mw_mode_id :: string
  mw_loop_ids_by_plane :: "(Plane \<times> string) list"
  mw_execution_loop_id :: "string option"
  mw_planning_loop_id :: "string option"
  mw_stage_entrypoint_overrides :: "(StageName \<times> string) list"
  mw_stage_skill_additions :: "(StageName \<times> string list) list"
  mw_stage_model_bindings :: "(StageName \<times> string) list"
  mw_stage_runner_bindings :: "(StageName \<times> string) list"
  mw_stage_thinking_bindings :: "(StageName \<times> string option) list"
  mw_execution_capability_requests :: "CapabilityRequest list"
  mw_execution_capability_policies :: "CapabilityPolicyOverride list"
  mw_stage_execution_capability_requests :: "(StageName \<times> CapabilityRequest list) list"
  mw_stage_execution_capability_policy_overrides :: "(StageName \<times> CapabilityPolicyOverride list) list"
  mw_concurrency_policy :: "PlaneConcurrencyPolicyDefinition option"
  mw_learning_trigger_rules :: "LearningTriggerRuleDefinition list"

definition try_into_mode_definition :: "ModeDefinitionRaw \<Rightarrow> CompilerContractError + ModeDefinition" where
  "try_into_mode_definition r =
     (let loops = mw_loop_ids_by_plane r;
          loops = (case mw_execution_loop_id r of None \<Rightarrow> loops | Some i \<Rightarrow> AList.update Plane.Execution i loops);
          loops = (case mw_planning_loop_id r of None \<Rightarrow> loops | Some i \<Rightarrow> AList.update Plane.Planning i loops)
      in ModeDefinition_validate
        \<lparr>mo_schema_version = mw_schema_version r, mo_kind = mw_kind r, mo_mode_id = mw_mode_id r,
         mo_loop_ids_by_plane = loops,
         mo_stage_entrypoint_overrides = mw_stage_entrypoint_overrides r,
         mo_stage_skill_additions = mw_stage_skill_additions r,
         mo_stage_model_bindings = mw_stage_model_bindings r,
         mo_stage_runner_bindings = mw_stage_runner_bindings r,
         mo_stage_thinking_bindings = mw_stage_thinking_bindings r,
         mo_execution_capability_requests = mw_execution_capability_requests r,
         mo_execution_capability_policies = mw_execution_capability_policies r,
         mo_stage_execution_capability_requests = mw_stage_execution_capability_requests r,
         mo_stage_execution_capability_policy_overrides = mw_stage_execution_capability_policy_overrides r,
         mo_concurrency_policy = mw_concurrency_policy r,
         mo_learning_trigger_rules = mw_learning_trigger_rules r\<rparr>)"

section \<open>Nodes, entries, terminal states and edges\<close>

record GraphLoopNodeDefinition =
  ln_node_id :: string
  ln_stage_kind_id :: string
  ln_entrypoint_path :: "string option"
  ln_attached_skill_additions :: "string list"
  ln_runner_name :: "string option"
  ln_model_name :: "string option"
  ln_thinking_level :: "string option"
  ln_timeout_seconds :: "nat option"
  ln_execution_capability_requests :: "CapabilityRequest list"
  ln_execution_capability_policies :: "CapabilityPolicyOverride list"
  ln_execution_capability_policy_overrides :: "CapabilityPolicyOverride list"

definition GraphLoopNodeDefinition_validate ::
  "GraphLoopNodeDefinition \<Rightarrow> CompilerContractError + GraphLoopNodeDefinition" where
  "GraphLoopNodeDefinition_validate n =
     and_then (normalize_canonical_id (ln_node_id n) ''node_id'') (\<lambda>node_id.
     and_then (normalize_canonical_id (ln_stage_kind_id n) ''stage_kind_id'') (\<lambda>stage_kind_id.
     and_then (validate_optional_markdown_asset_path ''entrypoint_path'' (ln_entrypoint_path n)
                 ''entrypoints/'') (\<lambda>entrypoint.
     and_then (normalize_markdown_asset_paths ''attached_skill_additions'' (ln_attached_skill_additions n)
                 ''skills/'') (\<lambda>skills.
     map_ok (\<lambda>_. n\<lparr>ln_node_id := node_id, ln_stage_kind_id := stage_kind_id,
                   ln_entrypoint_path := entrypoint, ln_attached_skill_additions := skills\<rparr>)
       (all_checks
         [cc_require_optional_non_blank ''runner_name'' (ln_runner_name n),
          cc_require_optional_non_blank ''model_name'' (ln_model_name n),
          cc_require_optional_non_blank ''thinking_level'' (ln_thinking_level n),
          field_check (ln_timeout_seconds n \<noteq> Some 0) ''timeout_seconds'' ''must be >= 1 when set'',
          validate_capability_requests ''execution_capability_requests'' (ln_execution_capability_requests n),
          validate_capability_policy_overrides ''execution_capability_policies''
            (ln_execution_capability_policies n),
          validate_capability_policy_overrides ''execution_capability_policy_overrides''
            (ln_execution_capability_policy_overrides n)])))))"

record GraphLoopEntryDefinition =
  le_entry_key :: GraphLoopEntryKey
  le_node_id :: string

definition GraphLoopEntryDefinition_validate ::
  "GraphLoopEntryDefinition \<Rightarrow> CompilerContractError + GraphLoopEntryDefinition" where
  "GraphLoopEntryDefinition_validate e =
     map_ok (\<lambda>node_id. e\<lparr>le_node_id := node_id\<rparr>) (normalize_canonical_id (le_node_id e) ''node_id'')"

record GraphLoopTerminalStateDefinition =
  gs_terminal_state_id :: string
  gs_terminal_class :: GraphLoopTerminalClass
  gs_writes_status :: string
  gs_emits_artifacts :: "string list"
  gs_ends_plane_run :: bool

definition GraphLoopTerminalStateDefinition_validate ::
  "GraphLoopTerminalStateDefinition \<Rightarrow> CompilerContractError + GraphLoopTerminalStateDefinition" where
  "GraphLoopTerminalStateDefinition_validate t =
     and_then (normalize_canonical_id (gs_terminal_state_id t) ''terminal_state_id'') (\<lambda>i.
     and_then (normalize_status (gs_writes_status t) ''writes_status'') (\<lambda>status.
     map_ok (\<lambda>artifacts. t\<lparr>gs_terminal_state_id := i, gs_writes_status := status,
                           gs_emits_artifacts := artifacts\<rparr>)
       (normalize_canonical_ids (gs_emits_artifacts t) ''emits_artifacts'')))"

record GraphLoopEdgeDefinition =
  lx_edge_id :: string
  lx_from_node_id :: string
  lx_to_node_id :: "string option"
  lx_terminal_state_id :: "string option"
  lx_on_outcomes :: "string list"
  lx_kind :: LoopEdgeKind
  lx_priority :: int
  lx_description :: "string option"
  lx_max_attempts :: "nat option"

definition GraphLoopEdgeDefinition_validate ::
  "GraphLoopEdgeDefinition \<Rightarrow> CompilerContractError + GraphLoopEdgeDefinition" where
  "GraphLoopEdgeDefinition_validate e =
     and_then (normalize_canonical_id (lx_edge_id e) ''edge_id'') (\<lambda>edge_id.
     and_then (normalize_canonical_id (lx_from_node_id e) ''from_node_id'') (\<lambda>from_node_id.
     and_then (normalize_optional_canonical_id (lx_to_node_id e) ''to_node_id'') (\<lambda>to_node_id.
     and_then (normalize_optional_canonical_id (lx_terminal_state_id e) ''terminal_state_id'') (\<lambda>terminal.
     and_then (normalize_status_values (lx_on_outcomes e) ''on_outcomes'' True) (\<lambda>outcomes.
     and_then (validate_optional_nonempty_text ''description'' (lx_description e)) (\<lambda>description.
     and_then (field_check (lx_max_attempts e \<noteq> Some 0) ''max_attempts'' ''must be >= 1 when set'') (\<lambda>_.
     map_ok (\<lambda>_. e\<lparr>lx_edge_id := edge_id, lx_from_node_id := from_node_id, lx_to_node_id := to_node_id,
                   lx_terminal_state_id := terminal, lx_on_outcomes := outcomes,
                   lx_description := description\<rparr>)
       (validate_edge_target_shape ''edge'' (lx_kind e) (to_node_id \<noteq> None) (terminal \<noteq> None)
          (lx_max_attempts e)))))))))"

section \<open>Completion behaviour and dynamic policies\<close>

text \<open>The literals a completion behaviour and its compiled entry share.\<close>

definition completion_literals ::
  "string \<Rightarrow> string \<Rightarrow> string \<Rightarrow> string \<Rightarrow> string \<Rightarrow> string \<Rightarrow> CompilerContractError + unit" where
  "completion_literals trigger readiness_rule request_kind target_selector rubric_policy blocked_work_policy =
     all_checks
       [cc_validate_literal ''trigger'' trigger ''backlog_drained'',
        cc_validate_literal ''readiness_rule'' readiness_rule ''no_open_lineage_work'',
        cc_validate_literal ''request_kind'' request_kind ''closure_target'',
        cc_validate_literal ''target_selector'' target_selector ''active_closure_target'',
        cc_validate_literal ''rubric_policy'' rubric_policy ''reuse_or_create'',
        cc_validate_literal ''blocked_work_policy'' blocked_work_policy ''suppress'']"

record GraphLoopCompletionBehaviorDefinition =
  lb_trigger :: string
  lb_readiness_rule :: string
  lb_target_node_id :: string
  lb_request_kind :: string
  lb_target_selector :: string
  lb_rubric_policy :: string
  lb_blocked_work_policy :: string
  lb_skip_if_already_closed :: bool
  lb_on_pass_terminal_state_id :: string
  lb_on_gap_terminal_state_id :: string
  lb_create_incident_on_gap :: bool

definition GraphLoopCompletionBehaviorDefinition_validate ::
  "GraphLoopCompletionBehaviorDefinition \<Rightarrow> CompilerContractError + GraphLoopCompletionBehaviorDefinition" where
  "GraphLoopCompletionBehaviorDefinition_validate b =
     and_then (completion_literals (lb_trigger b) (lb_readiness_rule b) (lb_request_kind b)
                 (lb_target_selector b) (lb_rubric_policy b) (lb_blocked_work_policy b)) (\<lambda>_.
     and_then (normalize_canonical_id (lb_target_node_id b) ''target_node_id'') (\<lambda>target.
     and_then (normalize_canonical_id (lb_on_pass_terminal_state_id b) ''on_pass_terminal_state_id'') (\<lambda>pass.
     and_then (normalize_canonical_id (lb_on_gap_terminal_state_id b) ''on_gap_terminal_state_id'') (\<lambda>gap.
     map_ok (\<lambda>_. b\<lparr>lb_target_node_id := target, lb_on_pass_terminal_state_id := pass,
                   lb_on_gap_terminal_state_id := gap\<rparr>)
       (document_check (pass \<noteq> gap) ''completion behavior pass/gap terminal states must differ'')))))"

record GraphLoopResumePolicyDefinition =
  lr_policy_id :: string
  lr_source_node_id :: string
  lr_on_outcome :: string
  lr_default_target_node_id :: string
  lr_metadata_stage_keys :: "string list"
  lr_disallowed_target_node_ids :: "string list"

definition GraphLoopResumePolicyDefinition_validate ::
  "GraphLoopResumePolicyDefinition \<Rightarrow> CompilerContractError + GraphLoopResumePolicyDefinition" where
  "GraphLoopResumePolicyDefinition_validate p =
     and_then (normalize_canonical_id (lr_policy_id p) ''policy_id'') (\<lambda>policy_id.
     and_then (normalize_canonical_id (lr_source_node_id p) ''source_node_id'') (\<lambda>source.
     and_then (normalize_status (lr_on_outcome p) ''on_outcome'') (\<lambda>oc.
     and_then (normalize_canonical_id (lr_default_target_node_id p) ''default_target_node_id'') (\<lambda>target.
     and_then (normalize_canonical_ids (lr_metadata_stage_keys p) ''metadata_stage_keys'') (\<lambda>keys.
     map_ok (\<lambda>disallowed. p\<lparr>lr_policy_id := policy_id, lr_source_node_id := source, lr_on_outcome := oc,
                lr_default_target_node_id := target, lr_metadata_stage_keys := keys,
                lr_disallowed_target_node_ids := disallowed\<rparr>)
       (normalize_canonical_ids (lr_disallowed_target_node_ids p) ''disallowed_target_node_ids''))))))"

record GraphLoopThresholdPolicyDefinition =
  lh_policy_id :: string
  lh_source_node_ids :: "string list"
  lh_on_outcome :: string
  lh_counter_name :: GraphLoopCounterName
  lh_threshold :: nat
  lh_exhausted_target_node_id :: "string option"
  lh_exhausted_terminal_state_id :: "string option"

definition GraphLoopThresholdPolicyDefinition_validate ::
  "GraphLoopThresholdPolicyDefinition \<Rightarrow> CompilerContractError + GraphLoopThresholdPolicyDefinition" where
  "GraphLoopThresholdPolicyDefinition_validate p =
     and_then (normalize_canonical_id (lh_policy_id p) ''policy_id'') (\<lambda>policy_id.
     and_then (normalize_canonical_ids (lh_source_node_ids p) ''source_node_ids'') (\<lambda>sources.
     and_then (field_check (sources \<noteq> []) ''source_node_ids'' ''must not be empty'') (\<lambda>_.
     and_then (normalize_status (lh_on_outcome p) ''on_outcome'') (\<lambda>oc.
     and_then (field_check (lh_threshold p \<noteq> 0) ''threshold'' ''must be >= 1'') (\<lambda>_.
     and_then (normalize_optional_canonical_id (lh_exhausted_target_node_id p)
                 ''exhausted_target_node_id'') (\<lambda>target.
     and_then (normalize_optional_canonical_id (lh_exhausted_terminal_state_id p)
                 ''exhausted_terminal_state_id'') (\<lambda>terminal.
     map_ok (\<lambda>_. p\<lparr>lh_policy_id := policy_id, lh_source_node_ids := sources, lh_on_outcome := oc,
                   lh_exhausted_target_node_id := target, lh_exhausted_terminal_state_id := terminal\<rparr>)
       (document_check (of_bool (target \<noteq> None) + (of_bool (terminal \<noteq> None) :: nat) = 1)
          ''threshold policies must define exactly one exhausted target node or terminal state''))))))))"

record GraphLoopDynamicPoliciesDefinition =
  ly_resume_policies :: "GraphLoopResumePolicyDefinition list"
  ly_threshold_policies :: "GraphLoopThresholdPolicyDefinition list"

definition GraphLoopDynamicPoliciesDefinition_validate ::
  "GraphLoopDynamicPoliciesDefinition \<Rightarrow> CompilerContractError + GraphLoopDynamicPoliciesDefinition" where
  "GraphLoopDynamicPoliciesDefinition_validate p =
     and_then (normalize_each GraphLoopResumePolicyDefinition_validate (ly_resume_policies p)) (\<lambda>resumes.
     and_then (normalize_each GraphLoopThresholdPolicyDefinition_validate (ly_threshold_policies p)) (\<lambda>thresholds.
     map_ok (\<lambda>_. p\<lparr>ly_resume_policies := resumes, ly_threshold_policies := thresholds\<rparr>)
       (unique_ids ''graph loops may not contain duplicate dynamic policy ids''
          (map lr_policy_id resumes @ map lh_policy_id thresholds))))"

section \<open>Graph loops\<close>

record GraphLoopDefinition =
  gl_schema_version :: string
  gl_kind :: string
  gl_loop_id :: string
  gl_plane :: Plane
  gl_nodes :: "GraphLoopNodeDefinition list"
  gl_edges :: "GraphLoopEdgeDefinition list"
  gl_entry_nodes :: "GraphLoopEntryDefinition list"
  gl_terminal_states :: "GraphLoopTerminalStateDefinition list"
  gl_dynamic_policies :: "GraphLoopDynamicPoliciesDefinition option"
  gl_completion_behavior :: "GraphLoopCompletionBehaviorDefinition option"

definition validate_recon_handoff_edges ::
  "GraphLoopNodeDefinition list \<Rightarrow> GraphLoopEdgeDefinition list \<Rightarrow> CompilerContractError + unit" where
  "validate_recon_handoff_edges nodes edges =
     (let recon_node_ids = set (map ln_node_id (filter (\<lambda>n. ln_stage_kind_id n = ''recon'') nodes)) in
      if recon_node_ids = {} then Inr ()
      else all_checks (map (\<lambda>e.
        document_check
          (lx_from_node_id e \<notin> recon_node_ids \<or> lx_to_node_id e = None
           \<or> \<not> list_ex (\<lambda>oc. oc = ''RECON_TO_EXECUTION'' \<or> oc = ''RECON_TO_PLANNING'') (lx_on_outcomes e))
          (''edge '' @ lx_edge_id e @ '' routes a Recon handoff outcome directly to a stage node; Recon task/spec promotion must target runtime-owned terminal states''))
        edges))"

text \<open>The reference checks of \<^verbatim>\<open>GraphLoopDefinition::validate\<close>: entries and edges, dynamic policies,
  completion behaviour.\<close>

definition graph_edge_references ::
  "string set \<Rightarrow> string set \<Rightarrow> GraphLoopEdgeDefinition \<Rightarrow> CompilerContractError + unit" where
  "graph_edge_references node_ids terminal_state_ids e = all_checks
     [document_check (lx_from_node_id e \<in> node_ids)
        (''edge '' @ lx_edge_id e @ '' references unknown from_node_id '' @ lx_from_node_id e),
      (case lx_to_node_id e of None \<Rightarrow> Inr ()
       | Some n \<Rightarrow> document_check (n \<in> node_ids)
           (''edge '' @ lx_edge_id e @ '' references unknown to_node_id '' @ n)),
      (case lx_terminal_state_id e of None \<Rightarrow> Inr ()
       | Some t \<Rightarrow> document_check (t \<in> terminal_state_ids)
           (''edge '' @ lx_edge_id e @ '' references unknown terminal_state_id '' @ t))]"

definition resume_policy_references ::
  "string set \<Rightarrow> GraphLoopResumePolicyDefinition \<Rightarrow> CompilerContractError + unit" where
  "resume_policy_references node_ids p = all_checks
     ([require_known_node ''resume policy'' (lr_policy_id p) ''source_node_id'' (lr_source_node_id p) node_ids,
       require_known_node ''resume policy'' (lr_policy_id p) ''default_target_node_id''
         (lr_default_target_node_id p) node_ids]
      @ map (\<lambda>n. require_known_node ''resume policy'' (lr_policy_id p) ''disallowed_target_node_ids'' n node_ids)
          (lr_disallowed_target_node_ids p))"

definition threshold_policy_references ::
  "string set \<Rightarrow> string set \<Rightarrow> GraphLoopThresholdPolicyDefinition \<Rightarrow> CompilerContractError + unit" where
  "threshold_policy_references node_ids terminal_state_ids p = all_checks
     (map (\<lambda>n. require_known_node ''threshold policy'' (lh_policy_id p) ''source_node_ids'' n node_ids)
        (lh_source_node_ids p)
      @ [(case lh_exhausted_target_node_id p of None \<Rightarrow> Inr ()
          | Some n \<Rightarrow> require_known_node ''threshold policy'' (lh_policy_id p) ''exhausted_target_node_id'' n
                       node_ids),
         (case lh_exhausted_terminal_state_id p of None \<Rightarrow> Inr ()
          | Some t \<Rightarrow> require_known_terminal_state ''threshold policy'' (lh_policy_id p)
                       ''exhausted_terminal_state_id'' t terminal_state_ids)])"

definition completion_references ::
  "string set \<Rightarrow> string set \<Rightarrow> GraphLoopCompletionBehaviorDefinition \<Rightarrow> CompilerContractError + unit" where
  "completion_references node_ids terminal_state_ids b = all_checks
     [require_known_node ''completion behavior'' ''completion_behavior'' ''target_node_id''
        (lb_target_node_id b) node_ids,
      require_known_terminal_state ''completion behavior'' ''completion_behavior''
        ''on_pass_terminal_state_id'' (lb_on_pass_terminal_state_id b) terminal_state_ids,
      require_known_terminal_state ''completion behavior'' ''completion_behavior''
        ''on_gap_terminal_state_id'' (lb_on_gap_terminal_state_id b) terminal_state_ids]"

definition graph_references :: "GraphLoopDefinition \<Rightarrow> CompilerContractError + unit" where
  "graph_references g =
     and_then (unique_ids ''graph loops may not contain duplicate node ids'' (map ln_node_id (gl_nodes g)))
       (\<lambda>node_ids.
     and_then (unique_ids ''graph loops may not contain duplicate terminal state ids''
                 (map gs_terminal_state_id (gl_terminal_states g))) (\<lambda>terminal_state_ids.
     and_then (unique_ids ''graph loops may not contain duplicate edge ids'' (map lx_edge_id (gl_edges g))) (\<lambda>_.
     and_then (unique_ids ''graph loops may not contain duplicate entry keys''
                 (map (\<lambda>e. GraphLoopEntryKey_as_str (le_entry_key e)) (gl_entry_nodes g))) (\<lambda>_.
     all_checks
       (map (\<lambda>e. document_check (le_node_id e \<in> node_ids)
               (''entry key '' @ GraphLoopEntryKey_as_str (le_entry_key e) @ '' references unknown node_id ''
                @ le_node_id e)) (gl_entry_nodes g)
        @ map (graph_edge_references node_ids terminal_state_ids) (gl_edges g)
        @ [validate_recon_handoff_edges (gl_nodes g) (gl_edges g)]
        @ (case gl_dynamic_policies g of None \<Rightarrow> []
           | Some p \<Rightarrow> map (resume_policy_references node_ids) (ly_resume_policies p)
                @ map (threshold_policy_references node_ids terminal_state_ids) (ly_threshold_policies p))
        @ (case gl_completion_behavior g of None \<Rightarrow> []
           | Some b \<Rightarrow> [completion_references node_ids terminal_state_ids b]))))))"

text \<open>Validation of an optional part.\<close>

definition validate_option :: "('a \<Rightarrow> 'e + 'a) \<Rightarrow> 'a option \<Rightarrow> 'e + 'a option" where
  "validate_option f v = (case v of None \<Rightarrow> Inr None | Some x \<Rightarrow> map_ok Some (f x))"

definition GraphLoopDefinition_validate :: "GraphLoopDefinition \<Rightarrow> CompilerContractError + GraphLoopDefinition" where
  "GraphLoopDefinition_validate g =
     and_then (all_checks
       [cc_validate_literal ''schema_version'' (gl_schema_version g) ''1.0'',
        cc_validate_literal ''kind'' (gl_kind g) ''graph_loop'']) (\<lambda>_.
     and_then (normalize_canonical_id (gl_loop_id g) ''loop_id'') (\<lambda>loop_id.
     and_then (all_checks
       [cc_require_non_empty ''nodes'' (length (gl_nodes g)),
        cc_require_non_empty ''edges'' (length (gl_edges g)),
        cc_require_non_empty ''entry_nodes'' (length (gl_entry_nodes g)),
        cc_require_non_empty ''terminal_states'' (length (gl_terminal_states g))]) (\<lambda>_.
     and_then (normalize_each GraphLoopNodeDefinition_validate (gl_nodes g)) (\<lambda>nodes.
     and_then (normalize_each GraphLoopEntryDefinition_validate (gl_entry_nodes g)) (\<lambda>entries.
     and_then (normalize_each GraphLoopEdgeDefinition_validate (gl_edges g)) (\<lambda>edges.
     and_then (normalize_each GraphLoopTerminalStateDefinition_validate (gl_terminal_states g)) (\<lambda>terminals.
     and_then (validate_option GraphLoopDynamicPoliciesDefinition_validate (gl_dynamic_policies g)) (\<lambda>policies.
     and_then (validate_option GraphLoopCompletionBehaviorDefinition_validate (gl_completion_behavior g))
       (\<lambda>completion.
       let normalized = g\<lparr>gl_loop_id := loop_id, gl_nodes := nodes, gl_entry_nodes := entries,
             gl_edges := edges, gl_terminal_states := terminals, gl_dynamic_policies := policies,
             gl_completion_behavior := completion\<rparr>
       in map_ok (\<lambda>_. normalized) (graph_references normalized))))))))))"

section \<open>Stage kinds\<close>

record RegisteredStageKindDefinition =
  sk_schema_version :: string
  sk_kind :: string
  sk_stage_kind_id :: string
  sk_plane :: Plane
  sk_display_name :: string
  sk_default_entrypoint_path :: string
  sk_required_skill_paths :: "string list"
  sk_suggested_skill_paths :: "string list"
  sk_running_status_marker :: string
  sk_legal_outcomes :: "string list"
  sk_success_outcomes :: "string list"
  sk_failure_outcomes :: "string list"
  sk_allowed_result_classes_by_outcome :: "(string \<times> ResultClass list) list"
  sk_allowed_input_artifacts :: "string list"
  sk_declared_output_artifacts :: "string list"
  sk_allowed_work_item_families :: "string list"
  sk_execution_capability_requests :: "CapabilityRequest list"
  sk_execution_capability_policy_overrides :: "CapabilityPolicyOverride list"
  sk_idempotence_policy :: StageIdempotencePolicy
  sk_allowed_overrides :: "string list"
  sk_can_start_tasks :: bool
  sk_can_start_specs :: bool
  sk_can_start_incidents :: bool
  sk_can_start_learning_requests :: bool
  sk_recovery_role :: "RecoveryRole option"
  sk_closure_role :: bool

definition classes_of_outcome :: "RegisteredStageKindDefinition \<Rightarrow> string \<Rightarrow> ResultClass list" where
  "classes_of_outcome k oc =
     (case map_of (sk_allowed_result_classes_by_outcome k) oc of None \<Rightarrow> [] | Some cs \<Rightarrow> cs)"

text \<open>The keys are the legal outcomes once the third check has passed, so the index in the last two
  loops is always present.\<close>

definition validate_outcome_sets :: "RegisteredStageKindDefinition \<Rightarrow> CompilerContractError + unit" where
  "validate_outcome_sets k =
     (let legal = set (sk_legal_outcomes k); mapping = sk_allowed_result_classes_by_outcome k in
      all_checks
       (map (\<lambda>oc. document_check (oc \<in> legal) ''success_outcomes must be a subset of legal_outcomes'')
          (sk_success_outcomes k)
        @ map (\<lambda>oc. document_check (oc \<in> legal) ''failure_outcomes must be a subset of legal_outcomes'')
          (sk_failure_outcomes k)
        @ [document_check (fst ` set mapping = legal)
             ''allowed_result_classes_by_outcome must define one entry for every legal outcome'']
        @ map (\<lambda>(oc, classes). all_checks
            [document_check (classes \<noteq> [])
               ''allowed_result_classes_by_outcome entries must declare at least one result class'',
             (if oc = ''BLOCKED'' then all_checks (map (\<lambda>c.
                document_check (c = ResultClass.Blocked \<or> c = ResultClass.RecoverableFailure)
                  ''BLOCKED outcome may only allow blocked or recoverable_failure result classes'') classes)
              else document_check (length classes = 1)
                ''non-BLOCKED outcomes must map to exactly one allowed result class'')]) mapping
        @ map (\<lambda>oc. document_check (ResultClass.Success \<in> set (classes_of_outcome k oc))
            ''success outcomes must allow result class success'') (sk_success_outcomes k)
        @ map (\<lambda>oc. document_check (ResultClass.Success \<notin> set (classes_of_outcome k oc))
            ''failure outcomes may not allow result class success'') (sk_failure_outcomes k)))"

definition RegisteredStageKindDefinition_validate ::
  "RegisteredStageKindDefinition \<Rightarrow> CompilerContractError + RegisteredStageKindDefinition" where
  "RegisteredStageKindDefinition_validate k =
     and_then (all_checks
       [cc_validate_literal ''schema_version'' (sk_schema_version k) ''1.0'',
        cc_validate_literal ''kind'' (sk_kind k) ''registered_stage_kind'']) (\<lambda>_.
     and_then (normalize_canonical_id (sk_stage_kind_id k) ''stage_kind_id'') (\<lambda>stage_kind_id.
     and_then (case stage_name_for_value stage_kind_id of
         Inr stage \<Rightarrow> document_check (stage_plane stage = sk_plane k)
           ''stage_kind_id stage must belong to stage-kind plane''
       | Inl _ \<Rightarrow> Inr ()) (\<lambda>_.
     and_then (normalize_nonempty_text (sk_display_name k) ''display_name'') (\<lambda>display_name.
     and_then (validate_markdown_asset_path ''default_entrypoint_path'' (sk_default_entrypoint_path k)
                 ''entrypoints/'') (\<lambda>entrypoint.
     and_then (normalize_markdown_asset_paths ''required_skill_paths'' (sk_required_skill_paths k)
                 ''skills/'') (\<lambda>required.
     and_then (cc_require_non_empty ''required_skill_paths'' (length required)) (\<lambda>_.
     and_then (normalize_markdown_asset_paths ''suggested_skill_paths'' (sk_suggested_skill_paths k)
                 ''skills/'') (\<lambda>suggested.
     and_then (normalize_status (sk_running_status_marker k) ''running_status_marker'') (\<lambda>marker.
     and_then (normalize_status_values (sk_legal_outcomes k) ''legal_outcomes'' True) (\<lambda>legal.
     and_then (normalize_status_values (sk_success_outcomes k) ''success_outcomes'' False) (\<lambda>success.
     and_then (normalize_status_values (sk_failure_outcomes k) ''failure_outcomes'' False) (\<lambda>failure.
     and_then (normalize_canonical_ids (sk_allowed_input_artifacts k) ''allowed_input_artifacts'') (\<lambda>inputs.
     and_then (normalize_canonical_ids (sk_declared_output_artifacts k) ''declared_output_artifacts'') (\<lambda>outputs.
     and_then (normalize_canonical_ids (sk_allowed_work_item_families k) ''allowed_work_item_families'')
       (\<lambda>families.
     and_then (all_checks
       [validate_capability_requests ''execution_capability_requests'' (sk_execution_capability_requests k),
        validate_capability_policy_overrides ''execution_capability_policy_overrides''
          (sk_execution_capability_policy_overrides k)]) (\<lambda>_.
     and_then (normalize_override_names (sk_allowed_overrides k) ''allowed_overrides'') (\<lambda>overrides.
     and_then (normalize_allowed_result_classes (sk_allowed_result_classes_by_outcome k)) (\<lambda>classes.
       let normalized = k\<lparr>sk_stage_kind_id := stage_kind_id, sk_display_name := display_name,
             sk_default_entrypoint_path := entrypoint, sk_required_skill_paths := required,
             sk_suggested_skill_paths := suggested, sk_running_status_marker := marker,
             sk_legal_outcomes := legal, sk_success_outcomes := success, sk_failure_outcomes := failure,
             sk_allowed_input_artifacts := inputs, sk_declared_output_artifacts := outputs,
             sk_allowed_work_item_families := families, sk_allowed_overrides := overrides,
             sk_allowed_result_classes_by_outcome := classes\<rparr>
       in map_ok (\<lambda>_. normalized) (validate_outcome_sets normalized)))))))))))))))))))"

definition validate_graph_stage_kind_references ::
  "GraphLoopDefinition \<Rightarrow> (string \<times> RegisteredStageKindDefinition) list \<Rightarrow> CompilerContractError + unit" where
  "validate_graph_stage_kind_references g stage_kinds = all_checks (map (\<lambda>n.
     case map_of stage_kinds (ln_stage_kind_id n) of
       None \<Rightarrow> Inl (CompilerInvalidDocument (''graph node '' @ ln_node_id n
                @ '' references unknown stage_kind_id '' @ ln_stage_kind_id n))
     | Some k \<Rightarrow> document_check (sk_plane k = gl_plane g)
         (''graph node '' @ ln_node_id n @ '' references stage_kind_id '' @ ln_stage_kind_id n
          @ '' from plane '' @ Plane_as_str (sk_plane k))) (gl_nodes g))"

end
