(* ===== verification/Compiled_Plan.thy ===== *)
theory Compiled_Plan
  imports Loop_Definitions
begin

text \<open>
  The compiled plan of \<^verbatim>\<open>src/src/compiler/contracts.rs\<close>: the frozen graphs of the planes with their
  compiled entries, transitions and policies, the bundle of workflow primitives, and the plan itself,
  each with its validation.

  Prefixes: \<open>ge_\<close> entry, \<open>gc_\<close> completion entry, \<open>gt_\<close> transition, \<open>gr_\<close> resume policy, \<open>gh_\<close> threshold
  policy, \<open>cs_\<close> capability summary, \<open>gn_\<close> node, \<open>fg_\<close> frozen graph, \<open>bu_\<close> bundle, \<open>pm_\<close> pending plan,
  \<open>fi_\<close> input fingerprint, \<open>ra_\<close> resolved asset, \<open>plan_\<close> plan, \<open>cu_\<close> currentness. Counts are naturals:
  the sums of a summary do not overflow.
\<close>

section \<open>Entries, transitions and policies\<close>

record CompiledGraphEntryPlan =
  ge_entry_key :: GraphLoopEntryKey
  ge_node_id :: string
  ge_stage_kind_id :: string
  ge_plane :: Plane

definition CompiledGraphEntryPlan_validate ::
  "CompiledGraphEntryPlan \<Rightarrow> CompilerContractError + CompiledGraphEntryPlan" where
  "CompiledGraphEntryPlan_validate e =
     and_then (normalize_canonical_id (ge_node_id e) ''node_id'') (\<lambda>node_id.
     map_ok (\<lambda>stage_kind_id. e\<lparr>ge_node_id := node_id, ge_stage_kind_id := stage_kind_id\<rparr>)
       (normalize_canonical_id (ge_stage_kind_id e) ''stage_kind_id''))"

record CompiledGraphCompletionEntryPlan =
  gc_entry_key :: GraphLoopEntryKey
  gc_node_id :: string
  gc_stage_kind_id :: string
  gc_plane :: Plane
  gc_trigger :: string
  gc_readiness_rule :: string
  gc_request_kind :: string
  gc_target_selector :: string
  gc_rubric_policy :: string
  gc_blocked_work_policy :: string
  gc_skip_if_already_closed :: bool
  gc_on_pass_terminal_state_id :: string
  gc_on_gap_terminal_state_id :: string
  gc_create_incident_on_gap :: bool

definition CompiledGraphCompletionEntryPlan_validate ::
  "CompiledGraphCompletionEntryPlan \<Rightarrow> CompilerContractError + CompiledGraphCompletionEntryPlan" where
  "CompiledGraphCompletionEntryPlan_validate e =
     and_then (if gc_entry_key e \<noteq> ClosureTargetEntry
               then Inl (CompilerInvalidLiteral ''entry_key'' ''closure_target''
                      (GraphLoopEntryKey_as_str (gc_entry_key e)))
               else Inr ()) (\<lambda>_.
     and_then (normalize_canonical_id (gc_node_id e) ''node_id'') (\<lambda>node_id.
     and_then (normalize_canonical_id (gc_stage_kind_id e) ''stage_kind_id'') (\<lambda>stage_kind_id.
     and_then (completion_literals (gc_trigger e) (gc_readiness_rule e) (gc_request_kind e)
                 (gc_target_selector e) (gc_rubric_policy e) (gc_blocked_work_policy e)) (\<lambda>_.
     and_then (normalize_canonical_id (gc_on_pass_terminal_state_id e) ''on_pass_terminal_state_id'') (\<lambda>pass.
     and_then (normalize_canonical_id (gc_on_gap_terminal_state_id e) ''on_gap_terminal_state_id'') (\<lambda>gap.
     map_ok (\<lambda>_. e\<lparr>gc_node_id := node_id, gc_stage_kind_id := stage_kind_id,
                   gc_on_pass_terminal_state_id := pass, gc_on_gap_terminal_state_id := gap\<rparr>)
       (document_check (pass \<noteq> gap) ''compiled completion pass/gap terminal states must differ'')))))))"

record CompiledGraphTransitionPlan =
  gt_edge_id :: string
  gt_source_node_id :: string
  gt_outcome :: string
  gt_target_node_id :: "string option"
  gt_terminal_state_id :: "string option"
  gt_kind :: LoopEdgeKind
  gt_priority :: int
  gt_max_attempts :: "nat option"

definition CompiledGraphTransitionPlan_validate ::
  "CompiledGraphTransitionPlan \<Rightarrow> CompilerContractError + CompiledGraphTransitionPlan" where
  "CompiledGraphTransitionPlan_validate t =
     and_then (normalize_canonical_id (gt_edge_id t) ''edge_id'') (\<lambda>edge_id.
     and_then (normalize_canonical_id (gt_source_node_id t) ''source_node_id'') (\<lambda>source_node_id.
     and_then (normalize_status (gt_outcome t) ''outcome'') (\<lambda>oc.
     and_then (normalize_optional_canonical_id (gt_target_node_id t) ''target_node_id'') (\<lambda>target.
     and_then (normalize_optional_canonical_id (gt_terminal_state_id t) ''terminal_state_id'') (\<lambda>terminal.
     and_then (if gt_max_attempts t = Some 0
               then Inl (CompilerInvalidField ''max_attempts'' ''must be >= 1 when set'') else Inr ()) (\<lambda>_.
     map_ok (\<lambda>_. t\<lparr>gt_edge_id := edge_id, gt_source_node_id := source_node_id, gt_outcome := oc,
                   gt_target_node_id := target, gt_terminal_state_id := terminal\<rparr>)
       (validate_edge_target_shape ''compiled graph transition'' (gt_kind t)
          (target \<noteq> None) (terminal \<noteq> None) (gt_max_attempts t))))))))"

record CompiledGraphResumePolicyPlan =
  gr_policy_id :: string
  gr_source_node_id :: string
  gr_on_outcome :: string
  gr_default_target_node_id :: string
  gr_metadata_stage_keys :: "string list"
  gr_disallowed_target_node_ids :: "string list"

definition CompiledGraphResumePolicyPlan_validate ::
  "CompiledGraphResumePolicyPlan \<Rightarrow> CompilerContractError + CompiledGraphResumePolicyPlan" where
  "CompiledGraphResumePolicyPlan_validate p =
     and_then (normalize_canonical_id (gr_policy_id p) ''policy_id'') (\<lambda>policy_id.
     and_then (normalize_canonical_id (gr_source_node_id p) ''source_node_id'') (\<lambda>source_node_id.
     and_then (normalize_status (gr_on_outcome p) ''on_outcome'') (\<lambda>oc.
     and_then (normalize_canonical_id (gr_default_target_node_id p) ''default_target_node_id'') (\<lambda>target.
     and_then (normalize_canonical_ids (gr_metadata_stage_keys p) ''metadata_stage_keys'') (\<lambda>keys.
     map_ok (\<lambda>disallowed. p\<lparr>gr_policy_id := policy_id, gr_source_node_id := source_node_id,
                gr_on_outcome := oc, gr_default_target_node_id := target,
                gr_metadata_stage_keys := keys, gr_disallowed_target_node_ids := disallowed\<rparr>)
       (normalize_canonical_ids (gr_disallowed_target_node_ids p) ''disallowed_target_node_ids''))))))"

record CompiledGraphThresholdPolicyPlan =
  gh_policy_id :: string
  gh_source_node_ids :: "string list"
  gh_on_outcome :: string
  gh_counter_name :: GraphLoopCounterName
  gh_threshold :: nat
  gh_exhausted_target_node_id :: "string option"
  gh_exhausted_terminal_state_id :: "string option"

definition CompiledGraphThresholdPolicyPlan_validate ::
  "CompiledGraphThresholdPolicyPlan \<Rightarrow> CompilerContractError + CompiledGraphThresholdPolicyPlan" where
  "CompiledGraphThresholdPolicyPlan_validate p =
     and_then (normalize_canonical_id (gh_policy_id p) ''policy_id'') (\<lambda>policy_id.
     and_then (normalize_canonical_ids (gh_source_node_ids p) ''source_node_ids'') (\<lambda>sources.
     and_then (if sources = [] then Inl (CompilerInvalidField ''source_node_ids'' ''must not be empty'')
               else Inr ()) (\<lambda>_.
     and_then (normalize_status (gh_on_outcome p) ''on_outcome'') (\<lambda>oc.
     and_then (if gh_threshold p = 0 then Inl (CompilerInvalidField ''threshold'' ''must be >= 1'')
               else Inr ()) (\<lambda>_.
     and_then (normalize_optional_canonical_id (gh_exhausted_target_node_id p)
                 ''exhausted_target_node_id'') (\<lambda>target.
     and_then (normalize_optional_canonical_id (gh_exhausted_terminal_state_id p)
                 ''exhausted_terminal_state_id'') (\<lambda>terminal.
     if of_bool (target \<noteq> None) + (of_bool (terminal \<noteq> None) :: nat) \<noteq> 1
     then Inl (CompilerInvalidDocument
       ''compiled threshold policy must target exactly one exhausted node or terminal state'')
     else Inr (p\<lparr>gh_policy_id := policy_id, gh_source_node_ids := sources, gh_on_outcome := oc,
                 gh_exhausted_target_node_id := target,
                 gh_exhausted_terminal_state_id := terminal\<rparr>))))))))"

section \<open>Capability summaries and nodes\<close>

record ExecutionCapabilitySummary =
  cs_total_grants :: nat
  cs_by_decision :: "(string \<times> nat) list"
  cs_by_enforcement :: "(string \<times> nat) list"

definition ExecutionCapabilitySummary_validate ::
  "ExecutionCapabilitySummary \<Rightarrow> CompilerContractError + unit" where
  "ExecutionCapabilitySummary_validate s = all_checks
     [validate_summary_map ''by_decision'' (cs_by_decision s),
      validate_summary_map ''by_enforcement'' (cs_by_enforcement s),
      document_check (sum_list (map snd (cs_by_decision s)) = cs_total_grants s)
        ''execution capability summary decision counts must sum to total_grants'',
      document_check (sum_list (map snd (cs_by_enforcement s)) = cs_total_grants s)
        ''execution capability summary enforcement counts must sum to total_grants'']"

record MaterializedGraphNodePlan =
  gn_node_id :: string
  gn_stage_kind_id :: string
  gn_plane :: Plane
  gn_lane_id :: "string option"
  gn_entrypoint_path :: string
  gn_entrypoint_contract_id :: "string option"
  gn_running_status_marker :: string
  gn_allowed_result_classes_by_outcome :: "(string \<times> ResultClass list) list"
  gn_declared_output_artifacts :: "string list"
  gn_required_skill_paths :: "string list"
  gn_attached_skill_additions :: "string list"
  gn_runner_name :: "string option"
  gn_model_name :: "string option"
  gn_thinking_level :: "string option"
  gn_model_reasoning_effort :: "string option"
  gn_timeout_seconds :: nat
  gn_execution_capability_grants :: "ExecutionCapabilityGrant list"
  gn_execution_capability_warnings :: "ExecutionCapabilityWarning list"
  gn_execution_capability_policy_fingerprint :: string
  gn_request_context_profile_id :: "string option"
  gn_terminal_action_mappings :: "(string \<times> string) list"
  gn_runtime_effect_rule_selections :: "string list"

definition MaterializedGraphNodePlan_validate ::
  "MaterializedGraphNodePlan \<Rightarrow> CompilerContractError + MaterializedGraphNodePlan" where
  "MaterializedGraphNodePlan_validate n =
     and_then (normalize_canonical_id (gn_node_id n) ''node_id'') (\<lambda>node_id.
     and_then (normalize_canonical_id (gn_stage_kind_id n) ''stage_kind_id'') (\<lambda>stage_kind_id.
     and_then (cc_require_optional_non_blank ''lane_id'' (gn_lane_id n)) (\<lambda>_.
     and_then (validate_markdown_asset_path ''entrypoint_path'' (gn_entrypoint_path n) ''entrypoints/'')
       (\<lambda>entrypoint.
     and_then (cc_require_optional_non_blank ''entrypoint_contract_id'' (gn_entrypoint_contract_id n)) (\<lambda>_.
     and_then (normalize_status (gn_running_status_marker n) ''running_status_marker'') (\<lambda>marker.
     and_then (normalize_allowed_result_classes (gn_allowed_result_classes_by_outcome n)) (\<lambda>classes.
     and_then (normalize_canonical_ids (gn_declared_output_artifacts n) ''declared_output_artifacts'')
       (\<lambda>outputs.
     and_then (normalize_markdown_asset_paths ''required_skill_paths'' (gn_required_skill_paths n)
                 ''skills/'') (\<lambda>required.
     and_then (normalize_markdown_asset_paths ''attached_skill_additions'' (gn_attached_skill_additions n)
                 ''skills/'') (\<lambda>attached.
     and_then (all_checks
       ([cc_require_optional_non_blank ''runner_name'' (gn_runner_name n),
         cc_require_optional_non_blank ''model_name'' (gn_model_name n),
         cc_require_optional_non_blank ''thinking_level'' (gn_thinking_level n),
         cc_require_optional_non_blank ''model_reasoning_effort'' (gn_model_reasoning_effort n)]
        @ map (\<lambda>g. map_err (CompilerInvalidField ''execution_capability_grants'')
                 (ExecutionCapabilityGrant_validate g)) (gn_execution_capability_grants n)
        @ map (\<lambda>e. map_err (CompilerInvalidField ''execution_capability_warnings'')
                 (ExecutionCapabilityWarning_validate e)) (gn_execution_capability_warnings n)
        @ [(if gn_execution_capability_policy_fingerprint n \<noteq> []
            then require_prefixed_fingerprint ''execution_capability_policy_fingerprint''
                   (gn_execution_capability_policy_fingerprint n) ''cap-pol-''
            else Inr ()),
           cc_require_optional_non_blank ''request_context_profile_id'' (gn_request_context_profile_id n),
           validate_non_blank_string_map ''terminal_action_mappings'' (gn_terminal_action_mappings n)])) (\<lambda>_.
     map_ok (\<lambda>selections. n\<lparr>gn_node_id := node_id, gn_stage_kind_id := stage_kind_id,
         gn_entrypoint_path := entrypoint, gn_running_status_marker := marker,
         gn_allowed_result_classes_by_outcome := classes, gn_declared_output_artifacts := outputs,
         gn_required_skill_paths := required, gn_attached_skill_additions := attached,
         gn_runtime_effect_rule_selections := selections\<rparr>)
       (normalize_canonical_ids (gn_runtime_effect_rule_selections n)
          ''runtime_effect_rule_selections''))))))))))))"

section \<open>Frozen graphs\<close>

record FrozenGraphPlanePlan =
  fg_loop_id :: string
  fg_plane :: Plane
  fg_nodes :: "MaterializedGraphNodePlan list"
  fg_entry_nodes :: "GraphLoopEntryDefinition list"
  fg_transitions :: "GraphLoopEdgeDefinition list"
  fg_compiled_entries :: "CompiledGraphEntryPlan list"
  fg_compiled_completion_entry :: "CompiledGraphCompletionEntryPlan option"
  fg_compiled_transitions :: "CompiledGraphTransitionPlan list"
  fg_compiled_resume_policies :: "CompiledGraphResumePolicyPlan list"
  fg_compiled_threshold_policies :: "CompiledGraphThresholdPolicyPlan list"
  fg_terminal_states :: "GraphLoopTerminalStateDefinition list"
  fg_completion_behavior :: "GraphLoopCompletionBehaviorDefinition option"
  fg_execution_capability_summary :: ExecutionCapabilitySummary

text \<open>An element is validated, then checked against the plane of the graph.\<close>

definition validate_in_plane ::
  "('a \<Rightarrow> CompilerContractError + 'a) \<Rightarrow> ('a \<Rightarrow> Plane) \<Rightarrow> Plane \<Rightarrow> string \<Rightarrow> 'a \<Rightarrow>
   CompilerContractError + 'a" where
  "validate_in_plane validate plane_of p message x =
     and_then (validate x) (\<lambda>y. map_ok (\<lambda>_. y) (document_check (plane_of y = p) message))"

definition completion_entry_check ::
  "GraphLoopCompletionBehaviorDefinition option \<Rightarrow> CompiledGraphCompletionEntryPlan option \<Rightarrow>
   CompilerContractError + unit" where
  "completion_entry_check completion entry =
     (case (completion, entry) of
        (None, Some _) \<Rightarrow>
          Inl (CompilerInvalidDocument ''compiled completion entry requires completion_behavior'')
      | (Some _, None) \<Rightarrow>
          Inl (CompilerInvalidDocument ''graphs with completion_behavior must define compiled completion entry'')
      | (Some b, Some e) \<Rightarrow> document_check (lb_target_node_id b = gc_node_id e)
          ''compiled completion entry must target completion_behavior.target_node_id''
      | (None, None) \<Rightarrow> Inr ())"

definition FrozenGraphPlanePlan_validate ::
  "FrozenGraphPlanePlan \<Rightarrow> CompilerContractError + FrozenGraphPlanePlan" where
  "FrozenGraphPlanePlan_validate g =
     and_then (normalize_canonical_id (fg_loop_id g) ''loop_id'') (\<lambda>loop_id.
     and_then (all_checks
       [cc_require_non_empty ''nodes'' (length (fg_nodes g)),
        cc_require_non_empty ''entry_nodes'' (length (fg_entry_nodes g)),
        cc_require_non_empty ''transitions'' (length (fg_transitions g)),
        cc_require_non_empty ''compiled_entries'' (length (fg_compiled_entries g)),
        cc_require_non_empty ''compiled_transitions'' (length (fg_compiled_transitions g)),
        cc_require_non_empty ''terminal_states'' (length (fg_terminal_states g))]) (\<lambda>_.
     and_then (normalize_each (validate_in_plane MaterializedGraphNodePlan_validate gn_plane (fg_plane g)
                 ''all graph nodes must belong to graph plane'') (fg_nodes g)) (\<lambda>nodes.
     and_then (normalize_each GraphLoopEntryDefinition_validate (fg_entry_nodes g)) (\<lambda>entry_nodes.
     and_then (normalize_each GraphLoopEdgeDefinition_validate (fg_transitions g)) (\<lambda>transitions.
     and_then (normalize_each (validate_in_plane CompiledGraphEntryPlan_validate ge_plane (fg_plane g)
                 ''all compiled graph entries must belong to graph plane'') (fg_compiled_entries g)) (\<lambda>entries.
     and_then (validate_option (validate_in_plane CompiledGraphCompletionEntryPlan_validate gc_plane (fg_plane g)
                 ''compiled completion entry must belong to graph plane'') (fg_compiled_completion_entry g))
       (\<lambda>completion_entry.
     and_then (normalize_each CompiledGraphTransitionPlan_validate (fg_compiled_transitions g)) (\<lambda>compiled.
     and_then (normalize_each CompiledGraphResumePolicyPlan_validate (fg_compiled_resume_policies g)) (\<lambda>resumes.
     and_then (normalize_each CompiledGraphThresholdPolicyPlan_validate (fg_compiled_threshold_policies g))
       (\<lambda>thresholds.
     and_then (normalize_each GraphLoopTerminalStateDefinition_validate (fg_terminal_states g)) (\<lambda>terminals.
     and_then (ExecutionCapabilitySummary_validate (fg_execution_capability_summary g)) (\<lambda>_.
     and_then (validate_option GraphLoopCompletionBehaviorDefinition_validate (fg_completion_behavior g))
       (\<lambda>completion.
     map_ok (\<lambda>_. g\<lparr>fg_loop_id := loop_id, fg_nodes := nodes, fg_entry_nodes := entry_nodes,
         fg_transitions := transitions, fg_compiled_entries := entries,
         fg_compiled_completion_entry := completion_entry, fg_compiled_transitions := compiled,
         fg_compiled_resume_policies := resumes, fg_compiled_threshold_policies := thresholds,
         fg_terminal_states := terminals, fg_completion_behavior := completion\<rparr>)
       (completion_entry_check completion completion_entry))))))))))))))"

section \<open>The plan\<close>

record CompiledWorkflowPrimitiveBundle =
  bu_artifact_contracts :: "ArtifactContractDefinition list"
  bu_request_context_profiles :: "RequestContextProfileDefinition list"
  bu_work_item_families :: "WorkItemFamilyDefinition list"
  bu_document_adapters :: "WorkItemDocumentAdapterDefinition list"
  bu_queue_claim_policies :: "PlaneQueueClaimPolicyDefinition list"
  bu_terminal_actions :: "TerminalActionDefinition list"
  bu_lifecycle_mutation_plans :: "LifecycleMutationPlanDefinition list"
  bu_runtime_effect_handlers :: "RuntimeEffectHandlerDefinition list"
  bu_runtime_effect_rules :: "RuntimeEffectRuleDefinition list"
  bu_recovery_policies :: "WorkflowRecoveryPolicyDefinition list"
  bu_runtime_failure_policies :: "RuntimeFailurePolicyDefinition list"
  bu_workspace_schema_epoch :: "WorkspaceSchemaEpochDefinition option"

definition CompiledWorkflowPrimitiveBundle_validate ::
  "CompiledWorkflowPrimitiveBundle \<Rightarrow> CompilerContractError + unit" where
  "CompiledWorkflowPrimitiveBundle_validate b = all_checks
     [validate_runtime_contracts ''artifact_contracts'' ArtifactContractDefinition_validate
        (bu_artifact_contracts b),
      validate_runtime_contracts ''request_context_profiles'' RequestContextProfileDefinition_validate
        (bu_request_context_profiles b),
      validate_runtime_contracts ''work_item_families'' WorkItemFamilyDefinition_validate
        (bu_work_item_families b),
      validate_runtime_contracts ''document_adapters'' WorkItemDocumentAdapterDefinition_validate
        (bu_document_adapters b),
      validate_runtime_contracts ''queue_claim_policies'' PlaneQueueClaimPolicyDefinition_validate
        (bu_queue_claim_policies b),
      validate_runtime_contracts ''terminal_actions'' TerminalActionDefinition_validate (bu_terminal_actions b),
      validate_runtime_contracts ''lifecycle_mutation_plans'' LifecycleMutationPlanDefinition_validate
        (bu_lifecycle_mutation_plans b),
      validate_runtime_contracts ''runtime_effect_handlers'' RuntimeEffectHandlerDefinition_validate
        (bu_runtime_effect_handlers b),
      validate_runtime_contracts ''runtime_effect_rules'' RuntimeEffectRuleDefinition_validate
        (bu_runtime_effect_rules b),
      validate_runtime_contracts ''recovery_policies'' WorkflowRecoveryPolicyDefinition_validate
        (bu_recovery_policies b),
      validate_runtime_contracts ''runtime_failure_policies'' RuntimeFailurePolicyDefinition_validate
        (bu_runtime_failure_policies b),
      (case bu_workspace_schema_epoch b of None \<Rightarrow> Inr ()
       | Some epoch \<Rightarrow> runtime_contract ''workspace_schema_epoch'' (WorkspaceSchemaEpochDefinition_validate epoch))]"

record PendingCompiledPlanMetadata =
  pm_compiled_plan_id :: string
  pm_mode_id :: string
  pm_reason :: string
  pm_created_at :: Timestamp
  pm_active_planes :: "Plane list"

definition PendingCompiledPlanMetadata_validate ::
  "PendingCompiledPlanMetadata \<Rightarrow> CompilerContractError + unit" where
  "PendingCompiledPlanMetadata_validate p = all_checks
     [cc_require_non_blank ''pending_compiled_plan.compiled_plan_id'' (pm_compiled_plan_id p),
      cc_require_non_blank ''pending_compiled_plan.mode_id'' (pm_mode_id p),
      cc_require_non_blank ''pending_compiled_plan.reason'' (pm_reason p)]"

record CompileInputFingerprint =
  fi_mode_id :: string
  fi_config_fingerprint :: string
  fi_assets_fingerprint :: string

definition CompileInputFingerprint_validate :: "CompileInputFingerprint \<Rightarrow> CompilerContractError + unit" where
  "CompileInputFingerprint_validate f = all_checks
     [cc_require_non_blank ''mode_id'' (fi_mode_id f),
      cc_require_non_blank ''config_fingerprint'' (fi_config_fingerprint f),
      cc_require_non_blank ''assets_fingerprint'' (fi_assets_fingerprint f)]"

record ResolvedAssetRef =
  ra_asset_family :: string
  ra_logical_id :: string
  ra_compile_time_path :: string
  ra_content_sha256 :: string

definition ResolvedAssetRef_validate :: "ResolvedAssetRef \<Rightarrow> CompilerContractError + unit" where
  "ResolvedAssetRef_validate a = all_checks
     [cc_require_non_blank ''asset_family'' (ra_asset_family a),
      cc_require_non_blank ''logical_id'' (ra_logical_id a),
      cc_require_non_blank ''compile_time_path'' (ra_compile_time_path a),
      cc_require_non_blank ''content_sha256'' (ra_content_sha256 a)]"

record CompiledRunPlan =
  plan_schema_version :: string
  plan_kind :: string
  plan_compiled_plan_id :: string
  plan_compile_input_fingerprint :: CompileInputFingerprint
  plan_mode_id :: string
  plan_loop_ids_by_plane :: "(Plane \<times> string) list"
  plan_execution_loop_id :: string
  plan_planning_loop_id :: string
  plan_learning_loop_id :: "string option"
  plan_graphs_by_plane :: "(Plane \<times> FrozenGraphPlanePlan) list"
  plan_execution_graph :: FrozenGraphPlanePlan
  plan_planning_graph :: FrozenGraphPlanePlan
  plan_learning_graph :: "FrozenGraphPlanePlan option"
  plan_execution_capability_summary :: ExecutionCapabilitySummary
  plan_execution_capability_summaries_by_plane :: "(Plane \<times> ExecutionCapabilitySummary) list"
  plan_concurrency_policy :: "PlaneConcurrencyPolicyDefinition option"
  plan_learning_trigger_rules :: "LearningTriggerRuleDefinition list"
  plan_workflow_primitives :: CompiledWorkflowPrimitiveBundle
  plan_workflow_primitive_fingerprints :: "(string \<times> string) list"
  plan_lane_policy :: "WorkflowPlaneSchedulerPolicyDefinition option"
  plan_workspace_schema_epoch :: "WorkspaceSchemaEpochDefinition option"
  plan_pending_compiled_plan :: "PendingCompiledPlanMetadata option"
  plan_compiled_at :: Timestamp
  plan_resolved_assets :: "ResolvedAssetRef list"
  plan_source_refs :: "string list"

definition plan_loop_bindings :: "CompiledRunPlan \<Rightarrow> CompilerContractError + unit" where
  "plan_loop_bindings p = all_checks
     [document_check (map_of (plan_loop_ids_by_plane p) Plane.Execution = Some (plan_execution_loop_id p))
        ''loop_ids_by_plane execution id must match execution_loop_id'',
      document_check (map_of (plan_loop_ids_by_plane p) Plane.Planning = Some (plan_planning_loop_id p))
        ''loop_ids_by_plane planning id must match planning_loop_id'',
      (case plan_learning_loop_id p of
         Some i \<Rightarrow> document_check (map_of (plan_loop_ids_by_plane p) Plane.Learning = Some i)
           ''loop_ids_by_plane learning id must match learning_loop_id''
       | None \<Rightarrow> document_check (map_of (plan_loop_ids_by_plane p) Plane.Learning = None)
           ''learning loop binding requires learning_loop_id'')]"

text \<open>The checks of the validated graphs against the ids and the table of graphs.\<close>

definition plan_graph_bindings :: "CompiledRunPlan \<Rightarrow> CompilerContractError + unit" where
  "plan_graph_bindings p = all_checks
     [document_check (fg_plane (plan_execution_graph p) = Plane.Execution)
        ''execution_graph must declare plane=execution'',
      document_check (fg_plane (plan_planning_graph p) = Plane.Planning)
        ''planning_graph must declare plane=planning'',
      (case plan_learning_graph p of None \<Rightarrow> Inr ()
       | Some g \<Rightarrow> all_checks
           [document_check (fg_plane g = Plane.Learning) ''learning_graph must declare plane=learning'',
            document_check (Some (fg_loop_id g) = plan_learning_loop_id p)
              ''learning_loop_id must match learning_graph.loop_id'']),
      document_check (fg_loop_id (plan_execution_graph p) = plan_execution_loop_id p)
        ''execution_loop_id must match execution_graph.loop_id'',
      document_check (fg_loop_id (plan_planning_graph p) = plan_planning_loop_id p)
        ''planning_loop_id must match planning_graph.loop_id'',
      document_check (map_of (plan_graphs_by_plane p) Plane.Execution = Some (plan_execution_graph p))
        ''graphs_by_plane execution graph must match execution_graph'',
      document_check (map_of (plan_graphs_by_plane p) Plane.Planning = Some (plan_planning_graph p))
        ''graphs_by_plane planning graph must match planning_graph'',
      (case plan_learning_graph p of
         Some g \<Rightarrow> document_check (map_of (plan_graphs_by_plane p) Plane.Learning = Some g)
           ''graphs_by_plane learning graph must match learning_graph''
       | None \<Rightarrow> document_check (map_of (plan_graphs_by_plane p) Plane.Learning = None)
           ''learning graph binding requires learning_graph'')]"

definition plan_capability_summaries :: "CompiledRunPlan \<Rightarrow> CompilerContractError + unit" where
  "plan_capability_summaries p = all_checks
     (ExecutionCapabilitySummary_validate (plan_execution_capability_summary p)
      # map (\<lambda>(plane, summary).
          case map_of (plan_graphs_by_plane p) plane of
            None \<Rightarrow> Inl (CompilerInvalidDocument
              ''execution capability summary plane must exist in graphs_by_plane'')
          | Some g \<Rightarrow> all_checks
              [ExecutionCapabilitySummary_validate summary,
               document_check (summary = fg_execution_capability_summary g)
                 ''execution capability summary plane must match graph summary''])
          (plan_execution_capability_summaries_by_plane p))"

definition plan_lane_policy_check :: "WorkflowPlaneSchedulerPolicyDefinition \<Rightarrow> CompilerContractError + unit" where
  "plan_lane_policy_check policy = all_checks
     (runtime_contract ''lane_policy'' (WorkflowPlaneSchedulerPolicyDefinition_validate policy)
      # map (\<lambda>lane. case lp_conflict_policy_id lane of
            None \<Rightarrow> Inl (CompilerInvalidDocument (''lane '' @ lp_lane_id lane @ '' is missing lane conflict policy''))
          | Some i \<Rightarrow> document_check (i \<in> set (map lc_policy_id (sp_lane_conflict_policies policy)))
              (''lane '' @ lp_lane_id lane @ '' references unknown lane conflict policy '' @ i))
          (sp_lanes policy))"

definition CompiledRunPlan_validate :: "CompiledRunPlan \<Rightarrow> CompilerContractError + CompiledRunPlan" where
  "CompiledRunPlan_validate p =
     and_then (all_checks
       [cc_validate_literal ''schema_version'' (plan_schema_version p) ''1.0'',
        cc_validate_literal ''kind'' (plan_kind p) ''compiled_run_plan'',
        cc_require_non_blank ''compiled_plan_id'' (plan_compiled_plan_id p),
        CompileInputFingerprint_validate (plan_compile_input_fingerprint p),
        cc_require_non_blank ''mode_id'' (plan_mode_id p),
        cc_require_non_blank ''execution_loop_id'' (plan_execution_loop_id p),
        cc_require_non_blank ''planning_loop_id'' (plan_planning_loop_id p),
        cc_require_optional_non_blank ''learning_loop_id'' (plan_learning_loop_id p),
        plan_loop_bindings p]) (\<lambda>_.
     and_then (FrozenGraphPlanePlan_validate (plan_execution_graph p)) (\<lambda>execution.
     and_then (FrozenGraphPlanePlan_validate (plan_planning_graph p)) (\<lambda>planning.
     and_then (validate_option FrozenGraphPlanePlan_validate (plan_learning_graph p)) (\<lambda>learning.
     let p1 = p\<lparr>plan_execution_graph := execution, plan_planning_graph := planning,
                plan_learning_graph := learning\<rparr> in
     and_then (all_checks
       [plan_graph_bindings p1, plan_capability_summaries p1,
        (case plan_concurrency_policy p of
           None \<Rightarrow> Inr () | Some c \<Rightarrow> PlaneConcurrencyPolicyDefinition_validate c)]) (\<lambda>_.
     and_then (normalize_each LearningTriggerRuleDefinition_validate (plan_learning_trigger_rules p)) (\<lambda>rules.
     and_then (all_checks
       ([document_check (rules = [] \<or> learning \<noteq> None) ''learning_trigger_rules require learning_graph'',
         CompiledWorkflowPrimitiveBundle_validate (plan_workflow_primitives p),
         validate_non_blank_string_map ''workflow_primitive_fingerprints''
           (plan_workflow_primitive_fingerprints p),
         (case plan_lane_policy p of None \<Rightarrow> Inr () | Some policy \<Rightarrow> plan_lane_policy_check policy),
         (case plan_workspace_schema_epoch p of None \<Rightarrow> Inr ()
          | Some epoch \<Rightarrow> runtime_contract ''workspace_schema_epoch''
              (WorkspaceSchemaEpochDefinition_validate epoch)),
         (case plan_pending_compiled_plan p of
            None \<Rightarrow> Inr () | Some pending \<Rightarrow> PendingCompiledPlanMetadata_validate pending)]
        @ map ResolvedAssetRef_validate (plan_resolved_assets p))) (\<lambda>_.
     map_ok (\<lambda>refs. p1\<lparr>plan_learning_trigger_rules := rules, plan_source_refs := refs\<rparr>)
       (normalize_non_blank_vec ''source_refs'' (plan_source_refs p)))))))))"

record CompiledPlanCurrentness =
  cu_state :: CompiledPlanCurrentnessState
  cu_expected_fingerprint :: CompileInputFingerprint
  cu_persisted_plan_id :: "string option"
  cu_persisted_fingerprint :: "CompileInputFingerprint option"

definition CompiledPlanCurrentness_validate :: "CompiledPlanCurrentness \<Rightarrow> CompilerContractError + unit" where
  "CompiledPlanCurrentness_validate c = all_checks
     [CompileInputFingerprint_validate (cu_expected_fingerprint c),
      cc_require_optional_non_blank ''persisted_plan_id'' (cu_persisted_plan_id c),
      (case cu_persisted_fingerprint c of None \<Rightarrow> Inr () | Some f \<Rightarrow> CompileInputFingerprint_validate f),
      document_check
        (\<not> (cu_state c = MissingPlan \<and> (cu_persisted_plan_id c \<noteq> None \<or> cu_persisted_fingerprint c \<noteq> None)))
        ''missing currentness cannot include persisted plan identity'']"

end
