(* ===== verification/Scheduler.thy ===== *)
theory Scheduler
  imports Compiled_Plan Queue_Store
begin

text \<open>
  The scheduler: which planes and lanes may run together and how the snapshot records active runs,
  from \<^verbatim>\<open>src/src/runtime/lanes.rs\<close>, \<^verbatim>\<open>src/src/runtime/supervisor.rs\<close> and the active-run
  functions of \<^verbatim>\<open>src/src/runtime/tick.rs\<close>. The functions that mutate \<^verbatim>\<open>&mut RuntimeSnapshot\<close>
  return the new snapshot. The digest of the compile inputs (\<^verbatim>\<open>sha2\<close>, \<^verbatim>\<open>serde_json\<close>) is the
  argument \<open>fingerprint\<close> of \<open>ensure_snapshot_lanes\<close>.
\<close>

section \<open>Errors of the tick\<close>

text \<open>The variants of \<^verbatim>\<open>RuntimeTickError\<close> that the modelled operations produce.\<close>

datatype RuntimeTickError =
    TickQueue QueueStoreError
  | TickContract ContractError
  | TickInvalidState string

definition invalid_state :: "string \<Rightarrow> RuntimeTickError + 'a" where
  "invalid_state m = Inl (TickInvalidState m)"

section \<open>Lanes\<close>

definition lane_id_for_plane :: "CompiledRunPlan option \<Rightarrow> Plane \<Rightarrow> string" where
  "lane_id_for_plane plan p =
     (case Option.bind plan plan_lane_policy of
        None \<Rightarrow> default_lane_id_for_plane p
      | Some policy \<Rightarrow>
          (case List.find (\<lambda>lane. lp_plane lane = p) (sp_lanes policy) of
             None \<Rightarrow> default_lane_id_for_plane p
           | Some lane \<Rightarrow> lp_lane_id lane))"

text \<open>The loop that moves each default lane found in the sorted list to the front.\<close>

fun take_default_lanes :: "Plane list \<Rightarrow> string list \<Rightarrow> string list" where
  "take_default_lanes [] lane_ids = lane_ids"
| "take_default_lanes (p # ps) lane_ids =
     (let d = default_lane_id_for_plane p in
      if d \<in> set lane_ids then d # take_default_lanes ps (remove1 d lane_ids)
      else take_default_lanes ps lane_ids)"

definition lane_dispatch_order :: "CompiledRunPlan option \<Rightarrow> string list" where
  "lane_dispatch_order plan =
     (case Option.bind plan plan_lane_policy of
        None \<Rightarrow> map default_lane_id_for_plane [Plane.Planning, Plane.Execution, Plane.Learning]
      | Some policy \<Rightarrow>
          take_default_lanes [Plane.Planning, Plane.Execution, Plane.Learning]
            (sort (map lp_lane_id (sp_lanes policy))))"

definition run_lane_id :: "ActiveRunState \<Rightarrow> string" where
  "run_lane_id r = (if trim (ar_lane_id r) = [] then default_lane_id_for_plane (ar_plane r)
                    else ar_lane_id r)"

definition active_work_ref :: "ActiveRunState \<Rightarrow> string" where
  "active_work_ref r =
     (case (ar_work_item_family_id r, ar_work_item_id r) of
        (Some family_id, Some work_item_id) \<Rightarrow> family_id @ '':'' @ work_item_id
      | _ \<Rightarrow>
          (case ar_closure_target_root_spec_id r of
             Some root_spec_id \<Rightarrow> ''closure_target:'' @ root_spec_id
           | None \<Rightarrow> ''run:'' @ ar_run_id r))"

text \<open>The source calls this with a non-empty list of runs.\<close>

definition lane_state_for_active_runs ::
  "string \<Rightarrow> Plane \<Rightarrow> ActiveRunState list \<Rightarrow> LaneRuntimeState" where
  "lane_state_for_active_runs lane_id p runs =
     \<lparr>la_lane_id = lane_id, la_plane = p, la_status = LaneActive,
      la_compiled_plan_id = ar_compiled_plan_id (hd runs),
      la_compiled_plan_fingerprint = ar_compiled_plan_fingerprint (hd runs),
      la_active_run_ids = map ar_run_id runs, la_active_work_refs = map active_work_ref runs,
      la_pause_requested = False, la_stop_requested = False, la_drain_requested = False,
      la_mutation_lock_refs = [], la_completion_target_refs = [], la_failure_counter_refs = [],
      la_last_claim_attempt_at = None, la_last_terminal_outcome = None\<rparr>"

definition declared_lane_specs :: "CompiledRunPlan \<Rightarrow> (string \<times> Plane) list" where
  "declared_lane_specs plan =
     (case plan_lane_policy plan of
        Some policy \<Rightarrow> sort_key fst (map (\<lambda>lane. (lp_lane_id lane, lp_plane lane)) (sp_lanes policy))
      | None \<Rightarrow> map (\<lambda>p. (default_lane_id_for_plane p, p)) (map fst (plan_loop_ids_by_plane plan)))"

definition active_runs_by_lane :: "ActiveRunState list \<Rightarrow> string \<Rightarrow> ActiveRunState list" where
  "active_runs_by_lane runs lane_id = filter (\<lambda>r. run_lane_id r = lane_id) runs"

definition idle_lane_state :: "CompiledRunPlan \<Rightarrow> string \<Rightarrow> string \<Rightarrow> Plane \<Rightarrow> LaneRuntimeState" where
  "idle_lane_state plan fingerprint lane_id p =
     \<lparr>la_lane_id = lane_id, la_plane = p, la_status = LaneIdle,
      la_compiled_plan_id = plan_compiled_plan_id plan,
      la_compiled_plan_fingerprint = fingerprint,
      la_active_run_ids = [], la_active_work_refs = [],
      la_pause_requested = False, la_stop_requested = False, la_drain_requested = False,
      la_mutation_lock_refs = [], la_completion_target_refs = [], la_failure_counter_refs = [],
      la_last_claim_attempt_at = None, la_last_terminal_outcome = None\<rparr>"

definition ensure_lane ::
  "CompiledRunPlan \<Rightarrow> string \<Rightarrow> ActiveRunState list \<Rightarrow> string \<times> Plane \<Rightarrow>
   (string \<times> LaneRuntimeState) list \<Rightarrow> (string \<times> LaneRuntimeState) list" where
  "ensure_lane plan fingerprint runs = (\<lambda>(lane_id, p) lanes.
     let active_runs = active_runs_by_lane runs lane_id in
     if active_runs \<noteq> [] then AList.update lane_id (lane_state_for_active_runs lane_id p active_runs) lanes
     else
       let l = (case map_of lanes lane_id of
                  Some existing \<Rightarrow> existing
                | None \<Rightarrow> idle_lane_state plan fingerprint lane_id p)
       in AList.update lane_id
            (l\<lparr>la_plane := p, la_compiled_plan_id := plan_compiled_plan_id plan,
               la_compiled_plan_fingerprint := fingerprint,
               la_status := (if la_status l = LaneActive then LaneIdle else la_status l),
               la_active_run_ids := [], la_active_work_refs := []\<rparr>) lanes)"

definition ensure_snapshot_lanes :: "string \<Rightarrow> RuntimeSnapshot \<Rightarrow> CompiledRunPlan \<Rightarrow> RuntimeSnapshot" where
  "ensure_snapshot_lanes fingerprint s plan =
     s\<lparr>rs_compiled_plan_fingerprint := fingerprint,
       rs_lanes_by_id := fold (ensure_lane plan fingerprint (map snd (rs_active_runs_by_plane s)))
          (declared_lane_specs plan) (rs_lanes_by_id s)\<rparr>"

definition snapshot_with_lane_active_run :: "RuntimeSnapshot \<Rightarrow> ActiveRunState \<Rightarrow> RuntimeSnapshot" where
  "snapshot_with_lane_active_run s r =
     s\<lparr>rs_lanes_by_id := AList.update (run_lane_id r)
         (lane_state_for_active_runs (run_lane_id r) (ar_plane r) [r]) (rs_lanes_by_id s)\<rparr>"

definition snapshot_without_lane_active_run ::
  "RuntimeSnapshot \<Rightarrow> string \<Rightarrow> string \<Rightarrow> Timestamp \<Rightarrow> string option \<Rightarrow> RuntimeSnapshot" where
  "snapshot_without_lane_active_run s lane_id run_id now terminal_outcome =
     (case map_of (rs_lanes_by_id s) lane_id of
        None \<Rightarrow> s
      | Some existing \<Rightarrow>
          let ids = filter (\<lambda>i. i \<noteq> run_id) (la_active_run_ids existing);
              l = existing\<lparr>la_active_run_ids := ids\<rparr>;
              l = (if ids = [] then l\<lparr>la_status := LaneIdle, la_active_work_refs := []\<rparr> else l)
          in s\<lparr>rs_lanes_by_id := AList.update lane_id
                 (l\<lparr>la_last_claim_attempt_at := Some now, la_last_terminal_outcome := terminal_outcome\<rparr>)
                 (rs_lanes_by_id s)\<rparr>)"

section \<open>Which planes and lanes may run together\<close>

definition pair_in_groups :: "Plane \<Rightarrow> Plane \<Rightarrow> Plane list list \<Rightarrow> bool" where
  "pair_in_groups candidate active_plane groups \<longleftrightarrow>
     list_ex (\<lambda>group. candidate \<in> set group \<and> active_plane \<in> set group
                \<and> (candidate = active_plane \<or> 2 \<le> length group)) groups"

definition can_dispatch_plane ::
  "PlaneConcurrencyPolicyDefinition option \<Rightarrow> Plane list \<Rightarrow> Plane \<Rightarrow> bool" where
  "can_dispatch_plane policy active candidate =
     (let active_plane_set = dedupe active in
      if candidate \<in> set active_plane_set then False
      else if active_plane_set = [] then True
      else (case policy of
              None \<Rightarrow> False
            | Some pol \<Rightarrow>
                list_all (\<lambda>active_plane.
                     \<not> pair_in_groups candidate active_plane (pc_mutually_exclusive_planes pol)
                   \<and> pair_in_groups candidate active_plane (pc_may_run_concurrently pol))
                  active_plane_set))"

definition lane_policy_allows ::
  "WorkflowPlaneSchedulerPolicyDefinition \<Rightarrow> string \<Rightarrow> string \<Rightarrow> bool" where
  "lane_policy_allows policy first_lane_id second_lane_id \<longleftrightarrow>
     list_ex (\<lambda>conflict.
         first_lane_id \<in> set (lc_lane_ids conflict)
       \<and> second_lane_id \<in> set (lc_concurrent_with_lane_ids conflict)
       \<and> (lc_conflict_scopes conflict = []
          \<or> list_all (\<lambda>lane_id. lane_id \<in> set (lc_lock_acquisition_order conflict))
              (lc_lane_ids conflict)))
       (sp_lane_conflict_policies policy)"

definition find_lane :: "WorkflowPlaneSchedulerPolicyDefinition \<Rightarrow> string \<Rightarrow> WorkflowLaneDefinition option" where
  "find_lane policy lane_id = List.find (\<lambda>lane. lp_lane_id lane = lane_id) (sp_lanes policy)"

text \<open>The loop over the active lanes: the planes of the other lanes, or \<open>None\<close> for the early
  \<^verbatim>\<open>return false\<close>.\<close>

fun other_lane_planes ::
  "WorkflowPlaneSchedulerPolicyDefinition \<Rightarrow> string \<Rightarrow> string list \<Rightarrow> Plane list option" where
  "other_lane_planes policy candidate [] = Some []"
| "other_lane_planes policy candidate (a # as) =
     (case find_lane policy a of
        None \<Rightarrow> None
      | Some lane \<Rightarrow>
          if lp_lane_id lane = candidate then other_lane_planes policy candidate as
          else if \<not> lane_policy_allows policy candidate (lp_lane_id lane)
                  \<or> \<not> lane_policy_allows policy (lp_lane_id lane) candidate then None
          else map_option (\<lambda>ps. lp_plane lane # ps) (other_lane_planes policy candidate as))"

definition can_dispatch_lane ::
  "WorkflowPlaneSchedulerPolicyDefinition option \<Rightarrow> PlaneConcurrencyPolicyDefinition option \<Rightarrow>
   string list \<Rightarrow> string \<Rightarrow> bool" where
  "can_dispatch_lane scheduler_policy concurrency_policy active_lane_ids candidate_lane_id =
     (case scheduler_policy of
        None \<Rightarrow> length (filter (\<lambda>lane_id. trim lane_id \<noteq> []) active_lane_ids) = 0
      | Some policy \<Rightarrow>
          (case find_lane policy candidate_lane_id of
             None \<Rightarrow> False
           | Some candidate_lane \<Rightarrow>
               let active_ids = filter (\<lambda>lane_id. lane_id \<noteq> []) (map trim active_lane_ids) in
               if lp_max_active_runs candidate_lane
                    \<le> length (filter (\<lambda>lane_id. lane_id = candidate_lane_id) active_ids)
               then False
               else (case other_lane_planes policy (lp_lane_id candidate_lane) active_ids of
                       None \<Rightarrow> False
                     | Some active_planes \<Rightarrow>
                         can_dispatch_plane concurrency_policy active_planes (lp_plane candidate_lane))))"

section \<open>Active runs in the snapshot\<close>

definition DISPATCH_ORDER :: "Plane list" where
  "DISPATCH_ORDER = [Plane.Planning, Plane.Execution, Plane.Learning]"

definition FOREGROUND_PLANES :: "Plane list" where
  "FOREGROUND_PLANES = [Plane.Planning, Plane.Execution]"

definition legacy_active_run_for_plane :: "RuntimeSnapshot \<Rightarrow> Plane \<Rightarrow> ActiveRunState option" where
  "legacy_active_run_for_plane s p =
     (if rs_active_plane s \<noteq> Some p then None
      else (case (rs_active_stage s, rs_active_run_id s, rs_active_since s, rs_active_work_item_kind s,
                  rs_active_work_item_id s) of
        (Some active_stage, Some active_run_id, Some active_since, Some kind, Some item_id) \<Rightarrow>
          Some \<lparr>ar_plane = p, ar_lane_id = default_lane_id_for_plane p, ar_stage = active_stage,
                ar_node_id = (case rs_active_node_id s of
                   Some n \<Rightarrow> n | None \<Rightarrow> StageName_as_str active_stage),
                ar_stage_kind_id = (case rs_active_stage_kind_id s of
                   Some n \<Rightarrow> n | None \<Rightarrow> StageName_as_str active_stage),
                ar_run_id = active_run_id, ar_compiled_plan_id = rs_compiled_plan_id s,
                ar_compiled_plan_fingerprint = rs_compiled_plan_fingerprint s,
                ar_request_kind = (if kind = WorkItemKind.LearningRequest then LearningRequestRun
                                   else ActiveWorkItem),
                ar_work_item_family_id = Some (WorkItemKind_as_str kind),
                ar_work_item_kind = Some kind, ar_work_item_id = Some item_id,
                ar_closure_target_root_spec_id = None, ar_closure_target_root_idea_id = None,
                ar_active_since = active_since, ar_running_status_marker = None\<rparr>
      | _ \<Rightarrow> None))"

definition active_run_for_plane :: "RuntimeSnapshot \<Rightarrow> Plane \<Rightarrow> ActiveRunState option" where
  "active_run_for_plane s p =
     (case map_of (rs_active_runs_by_plane s) p of
        Some r \<Rightarrow> Some r | None \<Rightarrow> legacy_active_run_for_plane s p)"

definition active_runs_in_dispatch_order :: "RuntimeSnapshot \<Rightarrow> ActiveRunState list" where
  "active_runs_in_dispatch_order s = List.map_filter (active_run_for_plane s) DISPATCH_ORDER"

definition active_planes :: "RuntimeSnapshot \<Rightarrow> Plane list" where
  "active_planes s = filter (\<lambda>p. map_of (rs_active_runs_by_plane s) p \<noteq> None) DISPATCH_ORDER"

definition active_lane_ids :: "RuntimeSnapshot \<Rightarrow> string list" where
  "active_lane_ids s = map ar_lane_id (List.map_filter (active_run_for_plane s) DISPATCH_ORDER)"

definition foreground_run :: "(Plane \<times> ActiveRunState) list \<Rightarrow> ActiveRunState option" where
  "foreground_run m = (case List.map_filter (map_of m) DISPATCH_ORDER of [] \<Rightarrow> None | r # _ \<Rightarrow> Some r)"

definition project_foreground_active_run :: "RuntimeSnapshot \<Rightarrow> RuntimeSnapshot" where
  "project_foreground_active_run s =
     (case foreground_run (rs_active_runs_by_plane s) of
        Some r \<Rightarrow> project_foreground r s
      | None \<Rightarrow> s\<lparr>rs_active_plane := None, rs_active_stage := None, rs_active_node_id := None,
                  rs_active_stage_kind_id := None, rs_active_run_id := None,
                  rs_active_work_item_family_id := None, rs_active_work_item_kind := None,
                  rs_active_work_item_id := None, rs_active_since := None\<rparr>)"

definition snapshot_with_active_run ::
  "RuntimeSnapshot \<Rightarrow> ActiveRunState \<Rightarrow> Timestamp \<Rightarrow> RuntimeSnapshot" where
  "snapshot_with_active_run s r now =
     (let s1 = snapshot_with_lane_active_run s r;
          s2 = s1\<lparr>rs_active_runs_by_plane := AList.update (ar_plane r) r (rs_active_runs_by_plane s1)\<rparr>
      in (project_foreground_active_run s2)\<lparr>rs_updated_at := now\<rparr>)"

definition set_next_stage_for_plane ::
  "RuntimeSnapshot \<Rightarrow> Plane \<Rightarrow> StageName \<Rightarrow> string \<Rightarrow> string \<Rightarrow> Timestamp \<Rightarrow> string option \<Rightarrow>
   RuntimeTickError + RuntimeSnapshot" where
  "set_next_stage_for_plane s p stage node_id stage_kind_id now failure_class =
     (case map_of (rs_active_runs_by_plane s) p of
        None \<Rightarrow> invalid_state (''no active run for plane '' @ Plane_as_str p)
      | Some r \<Rightarrow>
          let r' = r\<lparr>ar_stage := stage, ar_node_id := node_id, ar_stage_kind_id := stage_kind_id,
                     ar_active_since := now, ar_running_status_marker := None\<rparr>;
              s1 = s\<lparr>rs_active_runs_by_plane := AList.update p r' (rs_active_runs_by_plane s)\<rparr>
          in Inr ((project_foreground_active_run s1)\<lparr>rs_current_failure_class := failure_class,
                                                     rs_updated_at := now\<rparr>))"

definition clear_active_plane ::
  "RuntimeSnapshot \<Rightarrow> Plane \<Rightarrow> string option \<Rightarrow> Timestamp \<Rightarrow> RuntimeSnapshot" where
  "clear_active_plane s p failure_class now =
     (let s1 = (case map_of (rs_active_runs_by_plane s) p of
                  None \<Rightarrow> s
                | Some r \<Rightarrow> snapshot_without_lane_active_run
                    (s\<lparr>rs_active_runs_by_plane := AList.delete p (rs_active_runs_by_plane s)\<rparr>)
                    (run_lane_id r) (ar_run_id r) now None)
      in (project_foreground_active_run s1)\<lparr>rs_current_failure_class := failure_class,
                                            rs_updated_at := now\<rparr>)"

definition set_queue_depth :: "RuntimeSnapshot \<Rightarrow> Plane \<Rightarrow> nat \<Rightarrow> RuntimeSnapshot" where
  "set_queue_depth s p depth =
     (case p of
        Plane.Execution \<Rightarrow> s\<lparr>rs_queue_depth_execution := depth\<rparr>
      | Plane.Planning \<Rightarrow> s\<lparr>rs_queue_depth_planning := depth\<rparr>
      | Plane.Learning \<Rightarrow> s\<lparr>rs_queue_depth_learning := depth\<rparr>)
     \<lparr>rs_queue_depths_by_plane := AList.update p depth (rs_queue_depths_by_plane s)\<rparr>"

definition set_snapshot_status_for_plane :: "RuntimeSnapshot \<Rightarrow> Plane \<Rightarrow> string \<Rightarrow> RuntimeSnapshot" where
  "set_snapshot_status_for_plane s p marker =
     (case p of
        Plane.Execution \<Rightarrow> s\<lparr>rs_execution_status_marker := marker\<rparr>
      | Plane.Planning \<Rightarrow> s\<lparr>rs_planning_status_marker := marker\<rparr>
      | Plane.Learning \<Rightarrow> s\<lparr>rs_learning_status_marker := marker\<rparr>)
     \<lparr>rs_status_markers_by_plane := AList.update p marker (rs_status_markers_by_plane s)\<rparr>"

definition normalized_status_marker :: "string \<Rightarrow> string" where
  "normalized_status_marker marker =
     (if strip_prefix ''### '' marker \<noteq> None then marker else ''### '' @ marker)"

text \<open>\<open>plane\<close> and \<open>marker\<close> are the fields of the stage request that starts.\<close>

definition mark_active_stage_running :: "RuntimeSnapshot \<Rightarrow> Plane \<Rightarrow> string \<Rightarrow> Timestamp \<Rightarrow> RuntimeSnapshot" where
  "mark_active_stage_running s p marker now =
     (let s1 = set_snapshot_status_for_plane s p (normalized_status_marker marker);
          s2 = (case map_of (rs_active_runs_by_plane s1) p of
                  None \<Rightarrow> s1
                | Some r \<Rightarrow> s1\<lparr>rs_active_runs_by_plane :=
                    AList.update p (r\<lparr>ar_running_status_marker := Some marker\<rparr>)
                      (rs_active_runs_by_plane s1)\<rparr>)
      in s2\<lparr>rs_updated_at := now\<rparr>)"

definition reset_snapshot_route_counters :: "RuntimeSnapshot \<Rightarrow> RuntimeSnapshot" where
  "reset_snapshot_route_counters s =
     s\<lparr>rs_troubleshoot_attempt_count := 0, rs_mechanic_attempt_count := 0, rs_fix_cycle_count := 0,
       rs_consultant_invocations := 0\<rparr>"

section \<open>Activation of claimed work\<close>

record GraphActivationDecision =
  ad_plane :: Plane
  ad_stage :: StageName
  ad_node_id :: string
  ad_stage_kind_id :: string

definition tick_stage_name_for_plane :: "Plane \<Rightarrow> string \<Rightarrow> RuntimeTickError + StageName" where
  "tick_stage_name_for_plane p v = map_err TickContract (stage_name_for_plane p v)"

definition activation_from_entry ::
  "FrozenGraphPlanePlan \<Rightarrow> GraphLoopEntryKey \<Rightarrow> RuntimeTickError + GraphActivationDecision" where
  "activation_from_entry g k =
     (case List.find (\<lambda>e. ge_entry_key e = k) (fg_compiled_entries g) of
        None \<Rightarrow> invalid_state (''compiled graph is missing '' @ [CHR 0x60] @ GraphLoopEntryKey_as_str k
                                @ [CHR 0x60] @ '' activation entry'')
      | Some e \<Rightarrow> map_ok (\<lambda>stage. \<lparr>ad_plane = fg_plane g, ad_stage = stage, ad_node_id = ge_node_id e,
                                    ad_stage_kind_id = ge_stage_kind_id e\<rparr>)
                   (tick_stage_name_for_plane (fg_plane g) (ge_stage_kind_id e)))"

definition activation_from_node ::
  "FrozenGraphPlanePlan \<Rightarrow> string \<Rightarrow> RuntimeTickError + GraphActivationDecision" where
  "activation_from_node g node_id =
     (case List.find (\<lambda>n. gn_node_id n = node_id) (fg_nodes g) of
        None \<Rightarrow> invalid_state (''compiled graph is missing '' @ [CHR 0x60] @ node_id @ [CHR 0x60] @ '' node'')
      | Some n \<Rightarrow> map_ok (\<lambda>stage. \<lparr>ad_plane = fg_plane g, ad_stage = stage, ad_node_id = gn_node_id n,
                                    ad_stage_kind_id = gn_stage_kind_id n\<rparr>)
                   (tick_stage_name_for_plane (fg_plane g) (gn_stage_kind_id n)))"

definition activation_from_completion_entry ::
  "FrozenGraphPlanePlan \<Rightarrow> CompiledGraphCompletionEntryPlan \<Rightarrow> RuntimeTickError + GraphActivationDecision" where
  "activation_from_completion_entry g e =
     map_ok (\<lambda>stage. \<lparr>ad_plane = fg_plane g, ad_stage = stage, ad_node_id = gc_node_id e,
                      ad_stage_kind_id = gc_stage_kind_id e\<rparr>)
       (tick_stage_name_for_plane (fg_plane g) (gc_stage_kind_id e))"

definition graph_for_plane :: "CompiledRunPlan \<Rightarrow> Plane \<Rightarrow> RuntimeTickError + FrozenGraphPlanePlan" where
  "graph_for_plane plan p =
     (case p of
        Plane.Execution \<Rightarrow> Inr (plan_execution_graph plan)
      | Plane.Planning \<Rightarrow> Inr (plan_planning_graph plan)
      | Plane.Learning \<Rightarrow>
          (case plan_learning_graph plan of
             Some g \<Rightarrow> Inr g | None \<Rightarrow> invalid_state ''compiled graph is missing learning plane''))"

primrec entry_key_for_kind :: "WorkItemKind \<Rightarrow> GraphLoopEntryKey" where
  "entry_key_for_kind WorkItemKind.Task = TaskEntry"
| "entry_key_for_kind WorkItemKind.Probe = ProbeEntry"
| "entry_key_for_kind WorkItemKind.Spec = SpecEntry"
| "entry_key_for_kind WorkItemKind.Incident = IncidentEntry"
| "entry_key_for_kind WorkItemKind.BlueprintDraft = BlueprintDraftEntry"
| "entry_key_for_kind WorkItemKind.LearningRequest = LearningRequestEntry"

definition work_item_activation_for_graph ::
  "CompiledRunPlan \<Rightarrow> WorkItemKind \<Rightarrow> RuntimeTickError + GraphActivationDecision" where
  "work_item_activation_for_graph plan k =
     (case k of
        WorkItemKind.Task \<Rightarrow> activation_from_entry (plan_execution_graph plan) TaskEntry
      | WorkItemKind.LearningRequest \<Rightarrow>
          and_then (graph_for_plane plan Plane.Learning) (\<lambda>g. activation_from_entry g LearningRequestEntry)
      | _ \<Rightarrow> activation_from_entry (plan_planning_graph plan) (entry_key_for_kind k))"

definition learning_stage_activation_for_graph ::
  "CompiledRunPlan \<Rightarrow> StageName \<Rightarrow> RuntimeTickError + GraphActivationDecision" where
  "learning_stage_activation_for_graph plan target_stage =
     and_then (graph_for_plane plan Plane.Learning) (\<lambda>g.
       case List.find (\<lambda>n. stage_name_for_plane (fg_plane g) (gn_stage_kind_id n) = Inr target_stage)
              (fg_nodes g) of
         None \<Rightarrow> invalid_state (''compiled graph is missing learning stage kind '' @ [CHR 0x60]
                  @ StageName_as_str target_stage @ [CHR 0x60])
       | Some n \<Rightarrow> activation_from_node g (gn_node_id n))"

text \<open>\<open>target_stage\<close> is the stage a claimed learning request asks for in its document.\<close>

definition activation_for_claim ::
  "CompiledRunPlan \<Rightarrow> QueueClaim \<Rightarrow> StageName option \<Rightarrow> RuntimeTickError + GraphActivationDecision" where
  "activation_for_claim plan c target_stage =
     (case target_stage of
        Some st \<Rightarrow> (if qc_work_item_kind c = WorkItemKind.LearningRequest
                    then learning_stage_activation_for_graph plan st
                    else work_item_activation_for_graph plan (qc_work_item_kind c))
      | None \<Rightarrow> work_item_activation_for_graph plan (qc_work_item_kind c))"

definition completion_activation_for_graph :: "CompiledRunPlan \<Rightarrow> RuntimeTickError + GraphActivationDecision" where
  "completion_activation_for_graph plan =
     (case fg_compiled_completion_entry (plan_planning_graph plan) of
        None \<Rightarrow> invalid_state ''compiled graph is missing closure_target completion entry''
      | Some e \<Rightarrow> activation_from_completion_entry (plan_planning_graph plan) e)"

definition claim_active_run ::
  "CompiledRunPlan \<Rightarrow> RuntimeSnapshot \<Rightarrow> QueueClaim \<Rightarrow> GraphActivationDecision \<Rightarrow> string \<Rightarrow> Timestamp \<Rightarrow>
   ActiveRunState" where
  "claim_active_run plan s c a run_id now =
     \<lparr>ar_plane = ad_plane a, ar_lane_id = lane_id_for_plane (Some plan) (ad_plane a),
      ar_stage = ad_stage a, ar_node_id = ad_node_id a, ar_stage_kind_id = ad_stage_kind_id a,
      ar_run_id = run_id, ar_compiled_plan_id = rs_compiled_plan_id s,
      ar_compiled_plan_fingerprint = rs_compiled_plan_fingerprint s,
      ar_request_kind = (if qc_work_item_kind c = WorkItemKind.LearningRequest then LearningRequestRun
                         else ActiveWorkItem),
      ar_work_item_family_id = Some (qc_family_id c), ar_work_item_kind = Some (qc_work_item_kind c),
      ar_work_item_id = Some (qc_work_item_id c), ar_closure_target_root_spec_id = None,
      ar_closure_target_root_idea_id = None, ar_active_since = now, ar_running_status_marker = None\<rparr>"

definition completion_active_run ::
  "CompiledRunPlan \<Rightarrow> RuntimeSnapshot \<Rightarrow> string \<Rightarrow> string \<Rightarrow> GraphActivationDecision \<Rightarrow> string \<Rightarrow>
   Timestamp \<Rightarrow> ActiveRunState" where
  "completion_active_run plan s root_spec_id root_idea_id a run_id now =
     \<lparr>ar_plane = ad_plane a, ar_lane_id = lane_id_for_plane (Some plan) (ad_plane a),
      ar_stage = ad_stage a, ar_node_id = ad_node_id a, ar_stage_kind_id = ad_stage_kind_id a,
      ar_run_id = run_id, ar_compiled_plan_id = rs_compiled_plan_id s,
      ar_compiled_plan_fingerprint = rs_compiled_plan_fingerprint s,
      ar_request_kind = ClosureTarget,
      ar_work_item_family_id = None, ar_work_item_kind = None, ar_work_item_id = None,
      ar_closure_target_root_spec_id = Some root_spec_id,
      ar_closure_target_root_idea_id = Some root_idea_id,
      ar_active_since = now, ar_running_status_marker = None\<rparr>"

definition activate_run :: "RuntimeSnapshot \<Rightarrow> ActiveRunState \<Rightarrow> Timestamp \<Rightarrow> RuntimeSnapshot" where
  "activate_run s r now = (snapshot_with_active_run s r now)\<lparr>rs_current_failure_class := None\<rparr>"

text \<open>The two guards of \<^verbatim>\<open>dispatch_claim_for_plane\<close>.\<close>

definition dispatch_allowed :: "CompiledRunPlan \<Rightarrow> RuntimeSnapshot \<Rightarrow> Plane \<Rightarrow> bool" where
  "dispatch_allowed plan s p \<longleftrightarrow>
     can_dispatch_plane (plan_concurrency_policy plan) (active_planes s) p
     \<and> can_dispatch_lane (plan_lane_policy plan) (plan_concurrency_policy plan) (active_lane_ids s)
         (lane_id_for_plane (Some plan) p)"

end
