(* ===== verification/Sched_Steps.thy ===== *)
theory Sched_Steps
  imports Scheduler
begin

text \<open>
  The schedule as a transition system over the snapshot, for one compiled plan: a claim or a
  completion check is dispatched when the guards of \<^verbatim>\<open>dispatch_claim_for_plane\<close> and
  \<^verbatim>\<open>dispatch_foreground_lane\<close> allow it, a run moves to its next stage, is marked running, or ends.
  Which claim the queue returns and how a stage ends are left open. The invariant: active planes are
  compatible under the concurrency policy, every active run occupies its own lane, no lane holds more
  runs than its bound, and the legacy fields project the foreground run.
\<close>

section \<open>Steps\<close>

inductive sched_step :: "CompiledRunPlan \<Rightarrow> RuntimeSnapshot \<Rightarrow> RuntimeSnapshot \<Rightarrow> bool"
  for plan :: CompiledRunPlan where
  dispatch_claim: "dispatch_allowed plan s p \<Longrightarrow> active_run_for_plane s p = None \<Longrightarrow>
     plane_for_builtin_kind (qc_work_item_kind c) = p \<Longrightarrow> activation_for_claim plan c target = Inr a \<Longrightarrow>
     sched_step plan s (activate_run s (claim_active_run plan s c a run_id now) now)"
| dispatch_completion: "dispatch_allowed plan s Plane.Planning \<Longrightarrow>
     active_run_for_plane s Plane.Planning = None \<Longrightarrow> completion_activation_for_graph plan = Inr a \<Longrightarrow>
     sched_step plan s (activate_run s (completion_active_run plan s root_spec root_idea a run_id now) now)"
| next_stage: "set_next_stage_for_plane s p st node_id kind_id now failure_class = Inr s' \<Longrightarrow>
     sched_step plan s s'"
| stage_running: "sched_step plan s (mark_active_stage_running s p marker now)"
| run_ended: "sched_step plan s (clear_active_plane s p failure_class now)"

definition no_runs :: "RuntimeSnapshot \<Rightarrow> bool" where
  "no_runs s \<longleftrightarrow> rs_active_runs_by_plane s = [] \<and> project_foreground_active_run s = s
     \<and> list_all (\<lambda>(i, l). la_status l \<noteq> LaneActive) (rs_lanes_by_id s)"

inductive sched_reachable :: "CompiledRunPlan \<Rightarrow> RuntimeSnapshot \<Rightarrow> bool" for plan :: CompiledRunPlan where
  start: "no_runs s \<Longrightarrow> sched_reachable plan s"
| step: "sched_reachable plan s \<Longrightarrow> sched_step plan s s' \<Longrightarrow> sched_reachable plan s'"

section \<open>Plans and invariant\<close>

definition plan_planes_ok :: "CompiledRunPlan \<Rightarrow> bool" where
  "plan_planes_ok plan \<longleftrightarrow>
     fg_plane (plan_execution_graph plan) = Plane.Execution
     \<and> fg_plane (plan_planning_graph plan) = Plane.Planning
     \<and> (case plan_learning_graph plan of None \<Rightarrow> True | Some g \<Rightarrow> fg_plane g = Plane.Learning)"

definition plan_ok :: "CompiledRunPlan \<Rightarrow> bool" where
  "plan_ok plan \<longleftrightarrow>
     plan_planes_ok plan
     \<and> distinct (map (lane_id_for_plane (Some plan)) Plane_ALL)
     \<and> list_all (\<lambda>p. lane_id_for_plane (Some plan) p \<noteq> []
          \<and> trim (lane_id_for_plane (Some plan) p) = lane_id_for_plane (Some plan) p) Plane_ALL"

definition planes_allowed :: "CompiledRunPlan \<Rightarrow> Plane \<Rightarrow> Plane \<Rightarrow> bool" where
  "planes_allowed plan p q \<longleftrightarrow>
     (case plan_concurrency_policy plan of
        None \<Rightarrow> False
      | Some pol \<Rightarrow> \<not> pair_in_groups p q (pc_mutually_exclusive_planes pol)
          \<and> pair_in_groups p q (pc_may_run_concurrently pol))"

definition lanes_allowed :: "CompiledRunPlan \<Rightarrow> Plane \<Rightarrow> Plane \<Rightarrow> bool" where
  "lanes_allowed plan p q \<longleftrightarrow>
     (case plan_lane_policy plan of
        None \<Rightarrow> False
      | Some pol \<Rightarrow>
          lane_policy_allows pol (lane_id_for_plane (Some plan) p) (lane_id_for_plane (Some plan) q)
          \<and> lane_policy_allows pol (lane_id_for_plane (Some plan) q) (lane_id_for_plane (Some plan) p))"

definition compatible_planes :: "CompiledRunPlan \<Rightarrow> Plane \<Rightarrow> Plane \<Rightarrow> bool" where
  "compatible_planes plan p q \<longleftrightarrow> planes_allowed plan p q \<and> lanes_allowed plan p q"

text \<open>The lane of a plane is declared and may hold a run.\<close>

definition lane_admits :: "CompiledRunPlan \<Rightarrow> Plane \<Rightarrow> bool" where
  "lane_admits plan p \<longleftrightarrow>
     (case plan_lane_policy plan of
        None \<Rightarrow> True
      | Some pol \<Rightarrow>
          (case find_lane pol (lane_id_for_plane (Some plan) p) of
             None \<Rightarrow> False | Some lane \<Rightarrow> 1 \<le> lp_max_active_runs lane))"

abbreviation runs_of :: "RuntimeSnapshot \<Rightarrow> Plane \<Rightarrow> ActiveRunState option" where
  "runs_of s \<equiv> map_of (rs_active_runs_by_plane s)"

abbreviation lanes_of :: "RuntimeSnapshot \<Rightarrow> string \<Rightarrow> LaneRuntimeState option" where
  "lanes_of s \<equiv> map_of (rs_lanes_by_id s)"

definition run_in_place :: "CompiledRunPlan \<Rightarrow> Plane \<Rightarrow> ActiveRunState \<Rightarrow> bool" where
  "run_in_place plan p r \<longleftrightarrow> ar_plane r = p \<and> ar_lane_id r = lane_id_for_plane (Some plan) p"

text \<open>A lane is active exactly when the run of its plane is, and then names that run.\<close>

definition lane_in_step :: "CompiledRunPlan \<Rightarrow> RuntimeSnapshot \<Rightarrow> bool" where
  "lane_in_step plan s \<longleftrightarrow>
     (\<forall>p r. runs_of s p = Some r \<longrightarrow> (\<exists>l. lanes_of s (lane_id_for_plane (Some plan) p) = Some l
         \<and> la_status l = LaneActive \<and> la_active_run_ids l = [ar_run_id r]))
     \<and> (\<forall>i l. lanes_of s i = Some l \<longrightarrow> la_status l = LaneActive \<longrightarrow>
          (\<exists>p. i = lane_id_for_plane (Some plan) p \<and> runs_of s p \<noteq> None))"

lemma lane_activeD:
  "lane_in_step plan s \<Longrightarrow> lanes_of s i = Some l \<Longrightarrow> la_status l = LaneActive \<Longrightarrow>
     \<exists>p. i = lane_id_for_plane (Some plan) p \<and> runs_of s p \<noteq> None"
  unfolding lane_in_step_def by blast

lemma lane_of_runD:
  "lane_in_step plan s \<Longrightarrow> runs_of s p = Some r \<Longrightarrow>
     \<exists>l. lanes_of s (lane_id_for_plane (Some plan) p) = Some l \<and> la_status l = LaneActive
       \<and> la_active_run_ids l = [ar_run_id r]"
  unfolding lane_in_step_def by blast

definition sched_inv :: "CompiledRunPlan \<Rightarrow> RuntimeSnapshot \<Rightarrow> bool" where
  "sched_inv plan s \<longleftrightarrow>
     (\<forall>p r. runs_of s p = Some r \<longrightarrow> run_in_place plan p r \<and> lane_admits plan p)
     \<and> (\<forall>p q. runs_of s p \<noteq> None \<longrightarrow> runs_of s q \<noteq> None \<longrightarrow> p \<noteq> q \<longrightarrow> compatible_planes plan p q)
     \<and> lane_in_step plan s
     \<and> project_foreground_active_run s = s"

section \<open>Facts about the guards\<close>

lemma pair_in_groups_sym: "pair_in_groups p q gs \<longleftrightarrow> pair_in_groups q p gs"
  by (auto simp: pair_in_groups_def list_ex_iff)

lemma compatible_sym: "compatible_planes plan p q \<longleftrightarrow> compatible_planes plan q p"
  unfolding compatible_planes_def planes_allowed_def lanes_allowed_def pair_in_groups_sym[of p q]
  by (auto split: option.split)

lemma can_dispatch_plane_compatible:
  assumes "can_dispatch_plane (plan_concurrency_policy plan) active p"
  shows "p \<notin> set active" and "q \<in> set active \<Longrightarrow> planes_allowed plan p q"
proof -
  show "p \<notin> set active" using assms by (simp add: can_dispatch_plane_def Let_def split: if_splits)
  assume q: "q \<in> set active"
  then have "active \<noteq> []" by auto
  with assms q show "planes_allowed plan p q"
    by (auto simp: can_dispatch_plane_def Let_def planes_allowed_def list_all_iff
        split: if_splits option.splits)
qed

lemma set_active_planes: "p \<in> set (active_planes s) \<longleftrightarrow> runs_of s p \<noteq> None"
  by (cases p) (auto simp: active_planes_def DISPATCH_ORDER_def)

lemma find_lane_id: "find_lane pol i = Some lane \<Longrightarrow> lp_lane_id lane = i"
  by (auto simp: find_lane_def dest: find_SomeD)

lemma other_lanes_allowed:
  assumes "other_lane_planes pol cand ids \<noteq> None" "i \<in> set ids" "i \<noteq> cand"
  shows "lane_policy_allows pol cand i \<and> lane_policy_allows pol i cand"
  using assms
  by (induction pol cand ids rule: other_lane_planes.induct)
     (auto split: option.splits if_splits dest: find_lane_id)

lemma can_dispatch_lane_facts:
  assumes "can_dispatch_lane policy conc ids cand"
  shows "policy = None \<Longrightarrow> i \<in> set ids \<Longrightarrow> trim i = []"
    and "policy = Some pol \<Longrightarrow> i \<in> set ids \<Longrightarrow> trim i = i \<Longrightarrow> i \<noteq> [] \<Longrightarrow> i \<noteq> cand \<Longrightarrow>
           lane_policy_allows pol cand i \<and> lane_policy_allows pol i cand"
    and "policy = Some pol \<Longrightarrow> \<exists>lane. find_lane pol cand = Some lane \<and>
           length (filter (\<lambda>i. i = cand) (filter (\<lambda>i. i \<noteq> []) (map trim ids))) < lp_max_active_runs lane"
proof -
  show "policy = None \<Longrightarrow> i \<in> set ids \<Longrightarrow> trim i = []"
    using assms by (auto simp: can_dispatch_lane_def filter_empty_conv)
  show "policy = Some pol \<Longrightarrow> \<exists>lane. find_lane pol cand = Some lane \<and>
           length (filter (\<lambda>i. i = cand) (filter (\<lambda>i. i \<noteq> []) (map trim ids))) < lp_max_active_runs lane"
    using assms by (auto simp: can_dispatch_lane_def Let_def not_le split: option.splits if_splits)
  assume p: "policy = Some pol" and i: "i \<in> set ids" "trim i = i" "i \<noteq> []" "i \<noteq> cand"
  then have mem: "i \<in> set (filter (\<lambda>i. i \<noteq> []) (map trim ids))" by force
  from assms p obtain lane where lane: "find_lane pol cand = Some lane"
    and "other_lane_planes pol (lp_lane_id lane) (filter (\<lambda>i. i \<noteq> []) (map trim ids)) \<noteq> None"
    by (auto simp: can_dispatch_lane_def Let_def split: option.splits if_splits)
  with other_lanes_allowed mem i(4) find_lane_id[OF lane]
  show "lane_policy_allows pol cand i \<and> lane_policy_allows pol i cand" by simp
qed

lemma plan_ok_lane:
  assumes "plan_ok plan"
  shows "lane_id_for_plane (Some plan) p \<noteq> []"
    and "trim (lane_id_for_plane (Some plan) p) = lane_id_for_plane (Some plan) p"
    and "lane_id_for_plane (Some plan) p = lane_id_for_plane (Some plan) q \<longleftrightarrow> p = q"
proof -
  have p: "p \<in> set Plane_ALL" "q \<in> set Plane_ALL" for p q by (cases p; cases q; simp add: Plane_ALL_def)+
  show "lane_id_for_plane (Some plan) p \<noteq> []"
    "trim (lane_id_for_plane (Some plan) p) = lane_id_for_plane (Some plan) p"
    using assms p by (auto simp: plan_ok_def plan_planes_ok_def list_all_iff)
  show "lane_id_for_plane (Some plan) p = lane_id_for_plane (Some plan) q \<longleftrightarrow> p = q"
    using assms p by (auto simp: plan_ok_def plan_planes_ok_def distinct_map inj_on_def)
qed

lemma active_lane_idsI:
  assumes "runs_of s q = Some r"
  shows "ar_lane_id r \<in> set (active_lane_ids s)"
proof -
  have "active_run_for_plane s q = Some r" using assms by (simp add: active_run_for_plane_def)
  moreover have "q \<in> set DISPATCH_ORDER" by (cases q) (simp_all add: DISPATCH_ORDER_def)
  ultimately have "r \<in> set (List.map_filter (active_run_for_plane s) DISPATCH_ORDER)"
    by (force simp: List.map_filter_def)
  then show ?thesis by (simp add: active_lane_ids_def)
qed

lemma dispatch_allowed_compatible:
  assumes allowed: "dispatch_allowed plan s p" and inv: "sched_inv plan s" and ok: "plan_ok plan"
  shows "runs_of s p = None" and "runs_of s q \<noteq> None \<Longrightarrow> compatible_planes plan p q"
    and "lane_admits plan p"
proof -
  have planes: "can_dispatch_plane (plan_concurrency_policy plan) (active_planes s) p"
    and lanes: "can_dispatch_lane (plan_lane_policy plan) (plan_concurrency_policy plan)
      (active_lane_ids s) (lane_id_for_plane (Some plan) p)"
    using allowed by (simp_all add: dispatch_allowed_def)
  show free: "runs_of s p = None"
    using can_dispatch_plane_compatible(1)[OF planes] set_active_planes[of p s] by simp
  show "lane_admits plan p"
    using can_dispatch_lane_facts(3)[OF lanes]
    by (cases "plan_lane_policy plan") (force simp: lane_admits_def)+
  assume q: "runs_of s q \<noteq> None"
  then obtain r where r: "runs_of s q = Some r" by auto
  with free have "q \<noteq> p" by auto
  have "ar_lane_id r = lane_id_for_plane (Some plan) q"
    using inv r by (auto simp: sched_inv_def run_in_place_def)
  with active_lane_idsI[OF r] have mem: "lane_id_for_plane (Some plan) q \<in> set (active_lane_ids s)" by simp
  have "lanes_allowed plan p q"
  proof (cases "plan_lane_policy plan")
    case None
    from can_dispatch_lane_facts(1)[OF lanes None mem] plan_ok_lane(1,2)[OF ok, of q]
    show ?thesis by simp
  next
    case (Some pol)
    from can_dispatch_lane_facts(2)[OF lanes Some mem] plan_ok_lane[OF ok, of q] plan_ok_lane(3)[OF ok, of q p]
      \<open>q \<noteq> p\<close>
    show ?thesis by (simp add: lanes_allowed_def Some)
  qed
  moreover have "planes_allowed plan p q"
    using can_dispatch_plane_compatible(2)[OF planes] q set_active_planes[of q s] by simp
  ultimately show "compatible_planes plan p q" by (simp add: compatible_planes_def)
qed

section \<open>Foreground projection\<close>

lemma runs_of_project [simp]:
  "rs_active_runs_by_plane (project_foreground_active_run s) = rs_active_runs_by_plane s"
  "rs_lanes_by_id (project_foreground_active_run s) = rs_lanes_by_id s"
  by (simp_all add: project_foreground_active_run_def project_foreground_def split: option.split)

lemma project_foreground_idem:
  "project_foreground_active_run (project_foreground_active_run s) = project_foreground_active_run s"
  by (simp add: project_foreground_active_run_def project_foreground_def split: option.split)

text \<open>An update that leaves the runs and the projected fields alone keeps the projection.\<close>

lemma projected_update:
  assumes "project_foreground_active_run s = s"
  shows "project_foreground_active_run (s\<lparr>rs_updated_at := t\<rparr>) = s\<lparr>rs_updated_at := t\<rparr>"
    and "project_foreground_active_run (s\<lparr>rs_current_failure_class := fc\<rparr>) = s\<lparr>rs_current_failure_class := fc\<rparr>"
proof -
  have "project_foreground_active_run (s\<lparr>rs_updated_at := t\<rparr>)
      = (project_foreground_active_run s)\<lparr>rs_updated_at := t\<rparr>"
    "project_foreground_active_run (s\<lparr>rs_current_failure_class := fc\<rparr>)
      = (project_foreground_active_run s)\<lparr>rs_current_failure_class := fc\<rparr>"
    by (simp_all add: project_foreground_active_run_def project_foreground_def split: option.split)
  then show "project_foreground_active_run (s\<lparr>rs_updated_at := t\<rparr>) = s\<lparr>rs_updated_at := t\<rparr>"
    "project_foreground_active_run (s\<lparr>rs_current_failure_class := fc\<rparr>) = s\<lparr>rs_current_failure_class := fc\<rparr>"
    using assms by simp_all
qed

section \<open>What the updates do to runs and lanes\<close>

lemma activate_run_maps [simp]:
  "runs_of (activate_run s r now) = (runs_of s)(ar_plane r \<mapsto> r)"
  "lanes_of (activate_run s r now)
     = (lanes_of s)(run_lane_id r \<mapsto> lane_state_for_active_runs (run_lane_id r) (ar_plane r) [r])"
  by (simp_all add: activate_run_def snapshot_with_active_run_def snapshot_with_lane_active_run_def
      Let_def update_conv')

lemma activate_run_projected: "project_foreground_active_run (activate_run s r now) = activate_run s r now"
  unfolding activate_run_def snapshot_with_active_run_def Let_def
  by (intro projected_update project_foreground_idem)

lemma set_next_stage_maps:
  assumes "set_next_stage_for_plane s p st n k now fc = Inr s'"
  obtains r where "runs_of s p = Some r"
    "runs_of s' = (runs_of s)(p \<mapsto> r\<lparr>ar_stage := st, ar_node_id := n, ar_stage_kind_id := k,
       ar_active_since := now, ar_running_status_marker := None\<rparr>)"
    "lanes_of s' = lanes_of s" "project_foreground_active_run s' = s'"
proof (cases "runs_of s p")
  case None
  with assms show thesis by (simp add: set_next_stage_for_plane_def invalid_state_def)
next
  case (Some r)
  let ?s1 = "s\<lparr>rs_active_runs_by_plane := AList.update p (r\<lparr>ar_stage := st, ar_node_id := n,
      ar_stage_kind_id := k, ar_active_since := now, ar_running_status_marker := None\<rparr>)
      (rs_active_runs_by_plane s)\<rparr>"
  have s': "s' = (project_foreground_active_run ?s1)\<lparr>rs_current_failure_class := fc, rs_updated_at := now\<rparr>"
    using assms Some by (simp add: set_next_stage_for_plane_def Let_def)
  have "project_foreground_active_run s' = s'"
    unfolding s' by (intro projected_update project_foreground_idem)
  with Some show thesis by (intro that[of r]) (simp_all add: s' update_conv')
qed

lemma clear_active_plane_maps:
  "runs_of (clear_active_plane s p fc now) = (runs_of s)(p := None)"
  "runs_of s p = None \<Longrightarrow> lanes_of (clear_active_plane s p fc now) = lanes_of s"
  "runs_of s p = Some r \<Longrightarrow> lanes_of s (run_lane_id r) = Some l \<Longrightarrow> la_active_run_ids l = [ar_run_id r] \<Longrightarrow>
     \<exists>l'. lanes_of (clear_active_plane s p fc now) = (lanes_of s)(run_lane_id r \<mapsto> l')
       \<and> la_status l' = LaneIdle"
proof -
  show "runs_of (clear_active_plane s p fc now) = (runs_of s)(p := None)"
  proof (cases "runs_of s p")
    case None
    then have "(runs_of s)(p := None) = runs_of s" by (simp add: fun_upd_idem)
    with None show ?thesis by (simp add: clear_active_plane_def Let_def)
  next
    case (Some r)
    then show ?thesis
      by (cases "lanes_of s (run_lane_id r)")
         (simp_all add: clear_active_plane_def Let_def snapshot_without_lane_active_run_def delete_conv')
  qed
qed (auto simp: clear_active_plane_def Let_def snapshot_without_lane_active_run_def update_conv')

lemma clear_active_plane_projected:
  "project_foreground_active_run (clear_active_plane s p fc now) = clear_active_plane s p fc now"
  unfolding clear_active_plane_def Let_def
  by (intro projected_update project_foreground_idem)

text \<open>The snapshot shows a run, or none.\<close>

definition shows_run :: "RuntimeSnapshot \<Rightarrow> ActiveRunState option \<Rightarrow> bool" where
  "shows_run s r \<longleftrightarrow>
     rs_active_plane s = map_option ar_plane r \<and> rs_active_stage s = map_option ar_stage r
     \<and> rs_active_node_id s = map_option ar_node_id r
     \<and> rs_active_stage_kind_id s = map_option ar_stage_kind_id r
     \<and> rs_active_run_id s = map_option ar_run_id r
     \<and> rs_active_work_item_family_id s = Option.bind r ar_work_item_family_id
     \<and> rs_active_work_item_kind s = Option.bind r ar_work_item_kind
     \<and> rs_active_work_item_id s = Option.bind r ar_work_item_id
     \<and> rs_active_since s = map_option ar_active_since r"

definition forget_run :: "RuntimeSnapshot \<Rightarrow> RuntimeSnapshot" where
  "forget_run s = s\<lparr>rs_active_plane := None, rs_active_stage := None, rs_active_node_id := None,
     rs_active_stage_kind_id := None, rs_active_run_id := None, rs_active_work_item_family_id := None,
     rs_active_work_item_kind := None, rs_active_work_item_id := None, rs_active_since := None\<rparr>"

lemma shows_after:
  "shows_run (project_foreground r s) (Some r)" "shows_run (forget_run s) None"
  by (simp_all add: shows_run_def project_foreground_def forget_run_def)

lemma shows_fixed:
  "shows_run s (Some r) \<Longrightarrow> project_foreground r s = s" "shows_run s None \<Longrightarrow> forget_run s = s"
  by (rule RuntimeSnapshot.equality; simp add: shows_run_def project_foreground_def forget_run_def)+

lemma projected_iff_shows:
  "project_foreground_active_run s = s \<longleftrightarrow> shows_run s (foreground_run (rs_active_runs_by_plane s))"
proof (cases "foreground_run (rs_active_runs_by_plane s)")
  case None
  then have "project_foreground_active_run s = forget_run s"
    by (simp add: project_foreground_active_run_def forget_run_def)
  then show ?thesis using shows_after(2)[of s] shows_fixed(2)[of s] None by metis
next
  case (Some r)
  then have "project_foreground_active_run s = project_foreground r s"
    by (simp add: project_foreground_active_run_def)
  then show ?thesis using shows_after(1)[of r s] shows_fixed(1)[of s r] Some by metis
qed

lemma foreground_run_eq:
  "foreground_run m = (case map_of m Plane.Planning of Some r \<Rightarrow> Some r | None \<Rightarrow>
     (case map_of m Plane.Execution of Some r \<Rightarrow> Some r | None \<Rightarrow> map_of m Plane.Learning))"
  by (simp add: foreground_run_def DISPATCH_ORDER_def List.map_filter_simps split: option.split)

lemma foreground_run_marked:
  assumes "map_of m p = Some r"
  shows "foreground_run (AList.update p r' m) = foreground_run m
    \<or> (foreground_run m = Some r \<and> foreground_run (AList.update p r' m) = Some r')"
  using assms
  by (cases p) (simp_all add: foreground_run_eq update_conv' split: option.split)

lemma set_status_simps [simp]:
  "rs_active_runs_by_plane (set_snapshot_status_for_plane s p m) = rs_active_runs_by_plane s"
  "rs_lanes_by_id (set_snapshot_status_for_plane s p m) = rs_lanes_by_id s"
  "shows_run (set_snapshot_status_for_plane s p m) r = shows_run s r"
  by (cases p; simp add: set_snapshot_status_for_plane_def shows_run_def)+

lemma mark_running_maps:
  "lanes_of (mark_active_stage_running s p m now) = lanes_of s"
  "runs_of (mark_active_stage_running s p m now)
     = (runs_of s)(p := map_option (\<lambda>r. r\<lparr>ar_running_status_marker := Some m\<rparr>) (runs_of s p))"
  by (cases "runs_of s p";
      auto simp: mark_active_stage_running_def Let_def update_conv' fun_upd_idem split: option.split)+

lemma mark_running_projected:
  assumes "project_foreground_active_run s = s"
  shows "project_foreground_active_run (mark_active_stage_running s p m now) = mark_active_stage_running s p m now"
proof (cases "runs_of s p")
  case None
  with assms show ?thesis
    by (simp add: projected_iff_shows mark_active_stage_running_def Let_def)
       (simp add: shows_run_def set_snapshot_status_for_plane_def split: Plane.split)
next
  case (Some r)
  let ?m = "AList.update p (r\<lparr>ar_running_status_marker := Some m\<rparr>) (rs_active_runs_by_plane s)"
  have "shows_run s (foreground_run ?m)"
    using foreground_run_marked[OF Some, of "r\<lparr>ar_running_status_marker := Some m\<rparr>"] assms
    by (auto simp: projected_iff_shows) (simp add: shows_run_def)
  with Some show ?thesis
    by (simp add: projected_iff_shows mark_active_stage_running_def Let_def)
       (simp add: shows_run_def set_snapshot_status_for_plane_def split: Plane.split)
qed

section \<open>The invariant is kept\<close>

lemma run_in_place_lane:
  "plan_ok plan \<Longrightarrow> run_in_place plan p r \<Longrightarrow> run_lane_id r = lane_id_for_plane (Some plan) p"
  using plan_ok_lane(1,2)[of plan p] by (auto simp: run_in_place_def run_lane_id_def)

lemma start_inv:
  assumes "no_runs s"
  shows "sched_inv plan s"
proof -
  have "la_status l \<noteq> LaneActive" if "lanes_of s i = Some l" for i l
    using assms map_of_SomeD[OF that] by (auto simp: no_runs_def list_all_iff)
  then show ?thesis using assms by (auto simp: sched_inv_def lane_in_step_def no_runs_def)
qed

text \<open>Updates that keep each run's plane, lane and id keep the invariant.\<close>

lemma same_ids_inv:
  assumes "sched_inv plan s" "lanes_of s' = lanes_of s" "project_foreground_active_run s' = s'"
    and "\<And>p. runs_of s p = None \<longleftrightarrow> runs_of s' p = None"
    and same: "\<And>p r r'. runs_of s p = Some r \<Longrightarrow> runs_of s' p = Some r' \<Longrightarrow>
         ar_plane r' = ar_plane r \<and> ar_lane_id r' = ar_lane_id r \<and> ar_run_id r' = ar_run_id r"
  shows "sched_inv plan s'"
proof -
  have old: "\<exists>r. runs_of s p = Some r \<and> ar_plane r' = ar_plane r \<and> ar_lane_id r' = ar_lane_id r
      \<and> ar_run_id r' = ar_run_id r" if "runs_of s' p = Some r'" for p r'
    using assms(4)[of p] same[of p _ r'] that by (cases "runs_of s p") auto
  have place: "run_in_place plan p r' \<and> lane_admits plan p" if "runs_of s' p = Some r'" for p r'
    using old[OF that] assms(1) by (auto simp: sched_inv_def run_in_place_def)
  have "lane_in_step plan s'"
    unfolding lane_in_step_def assms(2)
  proof (intro conjI allI impI)
    fix p r' assume "runs_of s' p = Some r'"
    from old[OF this] obtain r where "runs_of s p = Some r" "ar_run_id r' = ar_run_id r" by blast
    then show "\<exists>l. lanes_of s (lane_id_for_plane (Some plan) p) = Some l \<and> la_status l = LaneActive
        \<and> la_active_run_ids l = [ar_run_id r']"
      using assms(1) lane_of_runD[of plan s p r] by (simp add: sched_inv_def)
  next
    fix i l assume "lanes_of s i = Some l" "la_status l = LaneActive"
    then show "\<exists>p. i = lane_id_for_plane (Some plan) p \<and> runs_of s' p \<noteq> None"
      using assms(1,4) lane_activeD[of plan s i l] by (auto simp: sched_inv_def)
  qed
  with place assms(1,3,4) show ?thesis by (simp add: sched_inv_def)
qed

lemma activate_inv:
  assumes inv: "sched_inv plan s" and ok: "plan_ok plan" and allowed: "dispatch_allowed plan s p"
    and r: "run_in_place plan p r"
  shows "sched_inv plan (activate_run s r now)"
proof -
  have p: "ar_plane r = p" "run_lane_id r = lane_id_for_plane (Some plan) p"
    using r run_in_place_lane[OF ok r] by (auto simp: run_in_place_def)
  note dac = dispatch_allowed_compatible[OF allowed inv ok]
  have free: "runs_of s p = None" by (rule dac(1))
  have comp: "runs_of s q \<noteq> None \<Longrightarrow> compatible_planes plan p q \<and> compatible_planes plan q p" for q
    using dac(2) compatible_sym by metis
  have lanes: "lane_in_step plan s" using inv by (simp add: sched_inv_def)
  have "lane_in_step plan (activate_run s r now)"
    unfolding lane_in_step_def activate_run_maps p
  proof (intro conjI allI impI)
    fix q x assume "((runs_of s)(p \<mapsto> r)) q = Some x"
    then show "\<exists>l. ((lanes_of s)(lane_id_for_plane (Some plan) p \<mapsto> lane_state_for_active_runs
          (lane_id_for_plane (Some plan) p) p [r])) (lane_id_for_plane (Some plan) q) = Some l
        \<and> la_status l = LaneActive \<and> la_active_run_ids l = [ar_run_id x]"
      using lanes plan_ok_lane(3)[OF ok, of q p]
      by (cases "q = p") (auto simp: lane_state_for_active_runs_def lane_in_step_def)
  next
    fix i l assume l: "((lanes_of s)(lane_id_for_plane (Some plan) p \<mapsto> lane_state_for_active_runs
          (lane_id_for_plane (Some plan) p) p [r])) i = Some l" "la_status l = LaneActive"
    show "\<exists>q. i = lane_id_for_plane (Some plan) q \<and> ((runs_of s)(p \<mapsto> r)) q \<noteq> None"
    proof (cases "i = lane_id_for_plane (Some plan) p")
      case True
      then show ?thesis by (intro exI[of _ p]) simp
    next
      case False
      with l have "lanes_of s i = Some l" by simp
      from lane_activeD[OF lanes this l(2)]
      obtain q where "i = lane_id_for_plane (Some plan) q" "runs_of s q \<noteq> None" by blast
      then show ?thesis by (intro exI[of _ q]) simp
    qed
  qed
  then show ?thesis
    using inv r comp dac(3) activate_run_projected[of s r now]
    by (auto simp: sched_inv_def p split: if_splits)
qed

lemma next_stage_inv:
  assumes inv: "sched_inv plan s" and ok: "plan_ok plan"
    and "set_next_stage_for_plane s p st n k now fc = Inr s'"
  shows "sched_inv plan s'"
proof -
  from assms(3) obtain r where r: "runs_of s p = Some r"
    and runs: "runs_of s' = (runs_of s)(p \<mapsto> r\<lparr>ar_stage := st, ar_node_id := n, ar_stage_kind_id := k,
       ar_active_since := now, ar_running_status_marker := None\<rparr>)"
    and lanes: "lanes_of s' = lanes_of s" and proj: "project_foreground_active_run s' = s'"
    by (rule set_next_stage_maps)
  show ?thesis
    using inv by (rule same_ids_inv) (use r runs lanes proj in \<open>auto split: if_splits\<close>)
qed

lemma stage_running_inv: "sched_inv plan s \<Longrightarrow> sched_inv plan (mark_active_stage_running s p m now)"
  by (rule same_ids_inv, assumption)
     (auto simp: mark_running_maps run_in_place_def sched_inv_def mark_running_projected
       split: if_splits)

lemma run_ended_inv:
  assumes inv: "sched_inv plan s" and ok: "plan_ok plan"
  shows "sched_inv plan (clear_active_plane s p fc now)"
proof (cases "runs_of s p")
  case None
  then have "runs_of (clear_active_plane s p fc now) = runs_of s"
    by (simp add: clear_active_plane_maps fun_upd_idem)
  with None show ?thesis
    using inv clear_active_plane_projected[of s p fc now] clear_active_plane_maps(2)[OF None]
    by (auto simp: sched_inv_def lane_in_step_def)
next
  case (Some r)
  from inv have lanes: "lane_in_step plan s" by (simp add: sched_inv_def)
  have lane: "run_lane_id r = lane_id_for_plane (Some plan) p"
    using inv Some run_in_place_lane[OF ok, of p r] by (auto simp: sched_inv_def)
  from lane_of_runD[OF lanes Some] obtain l where
      "lanes_of s (run_lane_id r) = Some l" "la_active_run_ids l = [ar_run_id r]"
    by (auto simp: lane)
  from clear_active_plane_maps(3)[OF Some this] obtain l' where
      l': "lanes_of (clear_active_plane s p fc now) = (lanes_of s)(run_lane_id r \<mapsto> l')"
        "la_status l' = LaneIdle"
    by blast
  have "lane_in_step plan (clear_active_plane s p fc now)"
    unfolding lane_in_step_def l'(1) clear_active_plane_maps(1) lane
  proof (intro conjI allI impI)
    fix q x assume "((runs_of s)(p := None)) q = Some x"
    then have q: "q \<noteq> p" "runs_of s q = Some x" by (auto split: if_splits)
    then show "\<exists>l. ((lanes_of s)(lane_id_for_plane (Some plan) p \<mapsto> l')) (lane_id_for_plane (Some plan) q)
          = Some l \<and> la_status l = LaneActive \<and> la_active_run_ids l = [ar_run_id x]"
      using lane_of_runD[OF lanes q(2)] plan_ok_lane(3)[OF ok, of q p] by simp
  next
    fix i l assume l: "((lanes_of s)(lane_id_for_plane (Some plan) p \<mapsto> l')) i = Some l"
      "la_status l = LaneActive"
    with l'(2) have i: "i \<noteq> lane_id_for_plane (Some plan) p" "lanes_of s i = Some l"
      by (auto split: if_splits)
    from lane_activeD[OF lanes i(2) l(2)] obtain q where
      "i = lane_id_for_plane (Some plan) q" "runs_of s q \<noteq> None" by blast
    with i show "\<exists>q. i = lane_id_for_plane (Some plan) q \<and> ((runs_of s)(p := None)) q \<noteq> None"
      by (intro exI[of _ q]) auto
  qed
  then show ?thesis
    using inv clear_active_plane_projected[of s p fc now]
    by (auto simp: sched_inv_def clear_active_plane_maps(1) split: if_splits)
qed

lemma activation_plane:
  assumes "plan_planes_ok plan" "activation_for_claim plan c target = Inr a"
  shows "ad_plane a = plane_for_builtin_kind (qc_work_item_kind c)"
proof -
  have entry: "ad_plane a = fg_plane g" if "activation_from_entry g k = Inr a" for g k a
    using that by (auto simp: activation_from_entry_def invalid_state_def result_simps split: option.splits)
  have node: "ad_plane a = fg_plane g" if "activation_from_node g n = Inr a" for g n a
    using that by (auto simp: activation_from_node_def invalid_state_def result_simps split: option.splits)
  have learning: "fg_plane g = Plane.Learning" if "plan_learning_graph plan = Some g" for g
    using assms(1) that by (simp add: plan_planes_ok_def)
  have item: "ad_plane a = plane_for_builtin_kind k" if "work_item_activation_for_graph plan k = Inr a" for k
    using that assms(1) learning
    by (cases k) (auto simp: work_item_activation_for_graph_def plan_planes_ok_def graph_for_plane_def
        invalid_state_def result_simps dest!: entry split: option.splits)
  have stage: "ad_plane a = Plane.Learning" if "learning_stage_activation_for_graph plan st = Inr a" for st
    using that learning
    by (auto simp: learning_stage_activation_for_graph_def graph_for_plane_def invalid_state_def
        result_simps dest!: node split: option.splits)
  from assms(2) show ?thesis
    using item stage by (auto simp: activation_for_claim_def split: option.splits if_splits)
qed

lemma completion_plane:
  "plan_planes_ok plan \<Longrightarrow> completion_activation_for_graph plan = Inr a \<Longrightarrow> ad_plane a = Plane.Planning"
  by (auto simp: completion_activation_for_graph_def activation_from_completion_entry_def plan_planes_ok_def
      invalid_state_def result_simps split: option.splits)

lemma sched_step_inv:
  assumes "sched_step plan s s'" "plan_ok plan" "sched_inv plan s"
  shows "sched_inv plan s'"
  using assms
proof (induction rule: sched_step.induct)
  case (dispatch_claim s p c target a run_id now)
  then have "run_in_place plan p (claim_active_run plan s c a run_id now)"
    using activation_plane by (auto simp: run_in_place_def claim_active_run_def plan_ok_def)
  with dispatch_claim show ?case by (intro activate_inv)
next
  case (dispatch_completion s a root_spec root_idea run_id now)
  then have "run_in_place plan Plane.Planning (completion_active_run plan s root_spec root_idea a run_id now)"
    using completion_plane by (auto simp: run_in_place_def completion_active_run_def plan_ok_def)
  with dispatch_completion show ?case by (intro activate_inv)
qed (auto intro: next_stage_inv stage_running_inv run_ended_inv)

theorem sched_reachable_inv:
  assumes "sched_reachable plan s" "plan_ok plan"
  shows "sched_inv plan s"
  using assms by (induction rule: sched_reachable.induct) (auto intro: start_inv sched_step_inv)

inductive_cases sched_reachable_elims: "sched_reachable plan s"

end
