(* ===== verification/Snapshot_Validity.thy ===== *)
theory Snapshot_Validity
  imports Scheduler
begin

text \<open>
  What the validation of a runtime snapshot establishes. \<open>snapshot_wf\<close> describes the snapshots that
  validation accepts and leaves alone; validation maps every snapshot it accepts to one of them, and
  the scheduler's updates keep it.
\<close>

section \<open>Runs\<close>

lemma coerce_again:
  assumes "coerce_family_and_kind f k = Inr (f', k')"
  shows "coerce_family_and_kind f k' = Inr (f', k')"
proof (cases k)
  case (Some x)
  then show ?thesis using assms coerce_family_and_kind_Inr(3)[OF assms] by simp
next
  case None
  show ?thesis
  proof (cases k')
    case None
    with \<open>k = None\<close> assms show ?thesis by simp
  next
    case (Some x)
    with assms have f': "f' = Some (WorkItemKind_as_str x)" by (rule coerce_family_and_kind_Inr(1))
    show ?thesis
    proof (cases f)
      case None
      with \<open>k = None\<close> assms Some show ?thesis by (simp add: coerce_family_and_kind_def)
    next
      case (Some v)
      with assms f' have v: "v = WorkItemKind_as_str x" using coerce_family_and_kind_Inr(2)[OF assms] by simp
      have "normalize_work_item_family_id v ''work_item_family_id'' = Inr v"
        by (simp add: v normalize_work_item_family_id_def validate_safe_identifier_Inr kind_string_safe)
      then show ?thesis by (simp add: Some v f' \<open>k' = Some x\<close> coerce_family_and_kind_def)
    qed
  qed
qed

text \<open>A family and a kind that coercion leaves alone.\<close>

definition coherent_family :: "string option \<Rightarrow> WorkItemKind option \<Rightarrow> bool" where
  "coherent_family f k = (case coerce_family_and_kind f k of Inl _ \<Rightarrow> False | Inr (f', k') \<Rightarrow> k' = k)"

lemma coherent_family_iff:
  "coherent_family f k \<longleftrightarrow> (\<exists>f'. coerce_family_and_kind f k = Inr (f', k))"
  by (auto simp: coherent_family_def split: sum.splits)

lemma coerced_is_coherent:
  "coerce_family_and_kind f k = Inr (f', k') \<Longrightarrow> coherent_family f k'"
  using coerce_again by (auto simp: coherent_family_iff)

lemma coherent_builtin [simp]:
  "coherent_family (Some (WorkItemKind_as_str k)) (Some k)" "coherent_family None None"
  "coherent_family None (Some k)"
  using coerce_again[OF coerce_builtin_family] coerce_kind_only
  by (auto simp: coherent_family_iff coerce_family_and_kind_def)

text \<open>The identity rules of the three request kinds.\<close>

definition run_identity_ok :: "ActiveRunState \<Rightarrow> bool" where
  "run_identity_ok r \<longleftrightarrow>
     ((ar_work_item_family_id r \<noteq> None \<or> ar_work_item_kind r \<noteq> None) = (ar_work_item_id r \<noteq> None)) \<and>
     (case ar_request_kind r of
        ActiveWorkItem \<Rightarrow>
          ar_work_item_id r \<noteq> None
          \<and> ar_work_item_family_id r \<noteq> Some ''learning_request''
          \<and> ar_work_item_kind r \<noteq> Some WorkItemKind.LearningRequest
          \<and> ar_closure_target_root_spec_id r = None \<and> ar_closure_target_root_idea_id r = None
      | LearningRequestRun \<Rightarrow>
          ar_plane r = Plane.Learning \<and> ar_work_item_id r \<noteq> None
          \<and> (ar_work_item_family_id r = Some ''learning_request''
             \<or> ar_work_item_kind r = Some WorkItemKind.LearningRequest)
          \<and> ar_closure_target_root_spec_id r = None \<and> ar_closure_target_root_idea_id r = None
      | ClosureTarget \<Rightarrow>
          ar_plane r = Plane.Planning \<and> ar_work_item_id r = None
          \<and> ar_work_item_family_id r = None \<and> ar_work_item_kind r = None
          \<and> ar_closure_target_root_spec_id r \<noteq> None)"

definition run_wf :: "ActiveRunState \<Rightarrow> bool" where
  "run_wf r \<longleftrightarrow>
     stage_plane (ar_stage r) = ar_plane r
     \<and> (ar_lane_id r = [] \<or> namespaced_by (ar_plane r) (ar_lane_id r))
     \<and> trim (ar_node_id r) \<noteq> [] \<and> trim (ar_stage_kind_id r) \<noteq> [] \<and> trim (ar_run_id r) \<noteq> []
     \<and> (ar_compiled_plan_id r = [] \<or> trim (ar_compiled_plan_id r) \<noteq> [])
     \<and> (ar_compiled_plan_fingerprint r = [] \<or> trim (ar_compiled_plan_fingerprint r) \<noteq> [])
     \<and> coherent_family (ar_work_item_family_id r) (ar_work_item_kind r)
     \<and> run_identity_ok r"

declare all_checks_Cons_Inr [simp] all_checks_Nil_Inr [simp]

lemmas check_simps = result_simps all_checks_Cons_Inr all_checks_Nil_Inr

lemma check_run_identity_Inr: "check_run_identity r = Inr u \<longleftrightarrow> run_identity_ok r"
  unfolding check_run_identity_def run_identity_ok_def Let_def
  by (cases "ar_request_kind r")
     (auto simp: check_simps simp del: all_checks.simps)

definition run_fields_ok :: "ActiveRunState \<Rightarrow> bool" where
  "run_fields_ok r \<longleftrightarrow>
     stage_plane (ar_stage r) = ar_plane r
     \<and> (ar_lane_id r = [] \<or> namespaced_by (ar_plane r) (ar_lane_id r))
     \<and> trim (ar_node_id r) \<noteq> [] \<and> trim (ar_stage_kind_id r) \<noteq> [] \<and> trim (ar_run_id r) \<noteq> []
     \<and> (ar_compiled_plan_id r = [] \<or> trim (ar_compiled_plan_id r) \<noteq> [])
     \<and> (ar_compiled_plan_fingerprint r = [] \<or> trim (ar_compiled_plan_fingerprint r) \<noteq> [])"

lemma run_fields_checks:
  "all_checks
       [check_that (stage_plane (ar_stage r) = ar_plane r)
          ''active run stage must belong to active run plane'',
        check_that (ar_lane_id r = [] \<or> namespaced_by (ar_plane r) (ar_lane_id r))
          ''active run lane_id must be namespaced by active run plane'',
        require_field ''node_id'' (ar_node_id r),
        require_field ''stage_kind_id'' (ar_stage_kind_id r),
        require_field ''run_id'' (ar_run_id r),
        (if ar_compiled_plan_id r \<noteq> [] then require_field ''compiled_plan_id'' (ar_compiled_plan_id r)
         else Inr ()),
        (if ar_compiled_plan_fingerprint r \<noteq> []
         then require_field ''compiled_plan_fingerprint'' (ar_compiled_plan_fingerprint r)
         else Inr ())] = Inr u \<longleftrightarrow> run_fields_ok r"
  by (simp add: run_fields_ok_def if_distrib [of "\<lambda>x. x = Inr ()"] del: all_checks.simps)

lemma ActiveRunState_validate_Inr:
  "ActiveRunState_validate r = Inr r' \<longleftrightarrow> run_fields_ok r \<and> run_identity_ok r'
     \<and> (\<exists>f' k. coerce_family_and_kind (ar_work_item_family_id r) (ar_work_item_kind r) = Inr (f', k)
            \<and> r' = r\<lparr>ar_work_item_kind := k\<rparr>)"
proof -
  have fam: "r\<lparr>ar_work_item_family_id := (if ar_work_item_family_id r \<noteq> None then f
                  else ar_work_item_family_id r), ar_work_item_kind := k\<rparr> = r\<lparr>ar_work_item_kind := k\<rparr>"
    if "coerce_family_and_kind (ar_work_item_family_id r) (ar_work_item_kind r) = Inr (f, k)" for f k
    using coerce_family_and_kind_Inr(2)[OF that] by simp
  show ?thesis
    unfolding ActiveRunState_validate_def and_then_eq_Inr run_fields_checks map_err_eq_Inr Let_def
      split_paired_Ex prod.case map_ok_eq_Inr check_run_identity_Inr
    using fam by fastforce
qed

lemma run_wf_iff: "run_wf r \<longleftrightarrow> run_fields_ok r \<and> run_identity_ok r
     \<and> coherent_family (ar_work_item_family_id r) (ar_work_item_kind r)"
  by (auto simp: run_wf_def run_fields_ok_def)

lemma ActiveRunState_validate_wf:
  assumes "ActiveRunState_validate r = Inr r'"
  shows "run_wf r'"
proof -
  from assms obtain f' k where "run_fields_ok r" "run_identity_ok r'"
      "coerce_family_and_kind (ar_work_item_family_id r) (ar_work_item_kind r) = Inr (f', k)"
      "r' = r\<lparr>ar_work_item_kind := k\<rparr>"
    by (auto simp: ActiveRunState_validate_Inr)
  then show ?thesis by (auto simp: run_wf_iff run_fields_ok_def dest: coerced_is_coherent)
qed

lemma run_wf_validate: "run_wf r \<longleftrightarrow> ActiveRunState_validate r = Inr r"
proof
  assume "run_wf r"
  then obtain f' where "run_fields_ok r" "run_identity_ok r"
      "coerce_family_and_kind (ar_work_item_family_id r) (ar_work_item_kind r)
        = Inr (f', ar_work_item_kind r)"
    by (auto simp: run_wf_iff coherent_family_iff)
  then show "ActiveRunState_validate r = Inr r"
    unfolding ActiveRunState_validate_Inr by (intro conjI exI[of _ f'] exI[of _ "ar_work_item_kind r"]) simp_all
qed (rule ActiveRunState_validate_wf)

section \<open>Lanes\<close>

definition lane_wf :: "(string \<Rightarrow> string + int) \<Rightarrow> LaneRuntimeState \<Rightarrow> bool" where
  "lane_wf rfc l \<longleftrightarrow>
     trim (la_lane_id l) \<noteq> [] \<and> trim (la_compiled_plan_id l) \<noteq> []
     \<and> trim (la_compiled_plan_fingerprint l) \<noteq> []
     \<and> namespaced_by (la_plane l) (la_lane_id l)
     \<and> (\<forall>v \<in> set (la_active_run_ids l @ la_active_work_refs l @ la_mutation_lock_refs l
               @ la_completion_target_refs l @ la_failure_counter_refs l). trim v \<noteq> [])
     \<and> (\<forall>v. la_last_terminal_outcome l = Some v \<longrightarrow> trim v \<noteq> [])
     \<and> (\<forall>t. la_last_claim_attempt_at l = Some t \<longrightarrow> is_ok (rfc t))
     \<and> (la_status l = LaneActive \<longrightarrow> la_active_run_ids l \<noteq> [])
     \<and> (la_status l = LaneIdle \<longrightarrow> la_active_run_ids l = [])"

lemma require_field_entries_Inr [simp]:
  "require_field_entries f vs = Inr u \<longleftrightarrow> (\<forall>v\<in>set vs. trim v \<noteq> [])"
  by (simp add: require_field_entries_def all_checks_map_Inr)

lemma parse_time_Inr: "map_ok (\<lambda>_. ()) (parse_time rfc f t) = Inr u \<longleftrightarrow> is_ok (rfc t)"
  by (cases "rfc t") (auto simp: parse_time_def)

lemma LaneRuntimeState_validate_Inr: "LaneRuntimeState_validate rfc l = Inr u \<longleftrightarrow> lane_wf rfc l"
  unfolding LaneRuntimeState_validate_def lane_wf_def
  by (cases "la_last_claim_attempt_at l") (auto simp: parse_time_Inr simp del: all_checks.simps)

lemma fill_lane_defaults_fixed:
  "trim (la_compiled_plan_id l) \<noteq> [] \<Longrightarrow> trim (la_compiled_plan_fingerprint l) \<noteq> [] \<Longrightarrow>
     fill_lane_defaults s l = l"
  by (simp add: fill_lane_defaults_def)

definition lanes_wf :: "(string \<Rightarrow> string + int) \<Rightarrow> (string \<times> LaneRuntimeState) list \<Rightarrow> bool" where
  "lanes_wf rfc lanes \<longleftrightarrow> (\<forall>(k, l) \<in> set lanes. k = la_lane_id l \<and> lane_wf rfc l)"

lemma lanes_wf_simps [simp]:
  "lanes_wf rfc []"
  "lanes_wf rfc (e # es) \<longleftrightarrow> fst e = la_lane_id (snd e) \<and> lane_wf rfc (snd e) \<and> lanes_wf rfc es"
  by (auto simp: lanes_wf_def)

lemma validate_lane_entries_wf:
  "validate_lane_entries rfc s lanes = Inr lanes' \<Longrightarrow> lanes_wf rfc lanes'"
  by (induction lanes arbitrary: lanes')
     (auto simp: Let_def result_simps LaneRuntimeState_validate_Inr)

lemma validate_lane_entries_fixed: "lanes_wf rfc lanes \<Longrightarrow> validate_lane_entries rfc s lanes = Inr lanes"
proof (induction lanes)
  case (Cons e es)
  then have "fill_lane_defaults s (snd e) = snd e"
    by (intro fill_lane_defaults_fixed) (auto simp: lane_wf_def)
  with Cons show ?case
    using LaneRuntimeState_validate_Inr[of rfc "snd e" "()"]
    by (cases e) (simp add: Let_def check_that_def)
qed simp

section \<open>The phases of the snapshot validation\<close>

definition pause_ok :: "RuntimeSnapshot \<Rightarrow> bool" where
  "pause_ok s \<longleftrightarrow> remdups_adj (rs_pause_sources s) = rs_pause_sources s
     \<and> (rs_paused s \<longleftrightarrow> rs_pause_sources s \<noteq> [])"

lemma remdups_adj_Nil_iff: "remdups_adj xs = [] \<longleftrightarrow> xs = []"
  by (cases xs) simp_all

lemma remdups_adj_idem: "remdups_adj (remdups_adj xs) = remdups_adj xs"
  using distinct_adj_remdups_adj[of xs] by (simp add: distinct_adj_altdef)

lemma normalize_pause_ok: "pause_ok (normalize_pause_sources s)"
  by (auto simp: pause_ok_def normalize_pause_sources_def Let_def remdups_adj_Nil_iff remdups_adj_idem)

lemma normalize_pause_fixed: "pause_ok s \<Longrightarrow> normalize_pause_sources s = s"
  by (cases "rs_pause_sources s = []") (auto simp: pause_ok_def normalize_pause_sources_def Let_def)

definition indexes_ok :: "RuntimeSnapshot \<Rightarrow> bool" where
  "indexes_ok s \<longleftrightarrow>
     map_of (rs_loop_ids_by_plane s) Plane.Execution \<noteq> None
     \<and> map_of (rs_loop_ids_by_plane s) Plane.Planning \<noteq> None
     \<and> (rs_learning_loop_id s \<noteq> None \<longrightarrow> map_of (rs_loop_ids_by_plane s) Plane.Learning \<noteq> None)
     \<and> (\<forall>p. map_of (rs_status_markers_by_plane s) p \<noteq> None \<and> map_of (rs_queue_depths_by_plane s) p \<noteq> None)"

lemma or_insert_fixed: "map_of m k \<noteq> None \<Longrightarrow> or_insert k v m = m"
  by (simp add: or_insert_def)

lemma map_of_or_insert:
  "map_of (or_insert k v m) j = (if j = k \<and> map_of m k = None then Some v else map_of m j)"
  by (auto simp: or_insert_def map_add_def split: option.split)

lemma map_of_all_planes:
  "map_of (or_insert Plane.Learning v (or_insert Plane.Planning w (or_insert Plane.Execution x m))) p \<noteq> None"
  by (cases p) (simp_all add: map_of_or_insert)

lemma map_of_two_planes:
  "map_of (or_insert Plane.Planning w (or_insert Plane.Execution x m)) Plane.Execution \<noteq> None"
  "map_of (or_insert Plane.Planning w (or_insert Plane.Execution x m)) Plane.Planning \<noteq> None"
  by (simp_all add: map_of_or_insert)

lemma map_of_learning_plane:
  "map_of (or_insert Plane.Learning v m) Plane.Learning \<noteq> None"
  by (simp add: map_of_or_insert)

lemma normalize_indexes_ok: "indexes_ok (normalize_plane_indexes s)"
  unfolding indexes_ok_def normalize_plane_indexes_def Let_def
  by (cases "rs_learning_loop_id s")
     (simp_all add: map_of_all_planes [unfolded not_None_eq] map_of_two_planes [unfolded not_None_eq]
        map_of_learning_plane [unfolded not_None_eq])

lemma normalize_indexes_fixed: "indexes_ok s \<Longrightarrow> normalize_plane_indexes s = s"
  by (cases "rs_learning_loop_id s")
     (simp_all add: indexes_ok_def normalize_plane_indexes_def or_insert_fixed)

definition runs_ok :: "(Plane \<times> ActiveRunState) list \<Rightarrow> bool" where
  "runs_ok runs \<longleftrightarrow> (\<forall>(p, r) \<in> set runs. p = ar_plane r \<and> run_wf r)"

lemma runs_ok_simps [simp]:
  "runs_ok []" "runs_ok (e # es) \<longleftrightarrow> fst e = ar_plane (snd e) \<and> run_wf (snd e) \<and> runs_ok es"
  by (auto simp: runs_ok_def)

lemma validate_run_entries_ok: "validate_run_entries runs = Inr runs' \<Longrightarrow> runs_ok runs'"
  by (induction runs arbitrary: runs') (auto simp: result_simps dest: ActiveRunState_validate_wf)

lemma validate_run_entries_fixed: "runs_ok runs \<Longrightarrow> validate_run_entries runs = Inr runs"
  by (induction runs) (auto simp: run_wf_validate check_that_def)

lemma validate_run_entries_nonempty: "validate_run_entries runs = Inr runs' \<Longrightarrow> runs \<noteq> [] \<Longrightarrow> runs' \<noteq> []"
  by (cases runs) (auto simp: result_simps)

lemma foreground_active_run_eq:
  "foreground_active_run m = (case foreground_run m of
     Some r \<Rightarrow> Inr r | None \<Rightarrow> Inl (InvalidJsonDocument ''active_runs_by_plane cannot be empty''))"
  by (auto simp: foreground_active_run_def foreground_run_def DISPATCH_ORDER_def List.map_filter_simps
      split: option.split)

lemma foreground_run_Some: "foreground_run m = Some r \<Longrightarrow> \<exists>p. map_of m p = Some r"
  by (auto simp: foreground_run_def DISPATCH_ORDER_def List.map_filter_simps split: option.splits list.splits)

lemma foreground_run_None: "foreground_run m = None \<longleftrightarrow> m = []"
proof -
  have "foreground_run m = None \<longleftrightarrow> (\<forall>p. map_of m p = None)"
    by (auto simp: foreground_run_def DISPATCH_ORDER_def List.map_filter_simps split: option.splits)
       (metis Plane.exhaust)
  then show ?thesis by (cases m) (auto simp: map_of_eq_None_iff)
qed

text \<open>The legacy fields that stand for one active run.\<close>

definition legacy_run_fields :: "RuntimeSnapshot \<Rightarrow> bool" where
  "legacy_run_fields s \<longleftrightarrow> rs_active_plane s \<noteq> None \<and> rs_active_stage s \<noteq> None \<and> rs_active_run_id s \<noteq> None
     \<and> rs_active_since s \<noteq> None \<and> rs_active_work_item_id s \<noteq> None"

definition foreground_ok :: "RuntimeSnapshot \<Rightarrow> bool" where
  "foreground_ok s \<longleftrightarrow>
     (case foreground_run (rs_active_runs_by_plane s) of
        Some r \<Rightarrow> project_foreground r s = s
      | None \<Rightarrow> \<not> legacy_run_fields s)"

definition active_fields_ok :: "RuntimeSnapshot \<Rightarrow> bool" where
  "active_fields_ok s \<longleftrightarrow>
     (case rs_active_stage s of
        None \<Rightarrow> rs_active_plane s = None \<and> rs_active_node_id s = None \<and> rs_active_stage_kind_id s = None
          \<and> rs_active_work_item_family_id s = None \<and> rs_active_work_item_kind s = None
          \<and> rs_active_since s = None
      | Some st \<Rightarrow> rs_active_plane s = Some (stage_plane st)
          \<and> (\<exists>n. rs_active_node_id s = Some n \<and> trim n \<noteq> [])
          \<and> (\<exists>k. rs_active_stage_kind_id s = Some k \<and> trim k \<noteq> []))
     \<and> coherent_family (rs_active_work_item_family_id s) (rs_active_work_item_kind s)
     \<and> ((rs_active_work_item_family_id s \<noteq> None \<or> rs_active_work_item_kind s \<noteq> None)
          = (rs_active_work_item_id s \<noteq> None))
     \<and> (rs_active_work_item_id s \<noteq> None \<longrightarrow> rs_active_run_id s \<noteq> None)"

definition pending_ok :: "RuntimeSnapshot \<Rightarrow> bool" where
  "pending_ok s \<longleftrightarrow>
     (\<forall>v. rs_pending_compiled_plan_id s = Some v \<longrightarrow> trim v \<noteq> [])
     \<and> (\<forall>v. rs_pending_compiled_plan_path s = Some v \<longrightarrow> trim v \<noteq> [])
     \<and> (\<forall>v. rs_pending_compiled_plan_fingerprint s = Some v \<longrightarrow> trim v \<noteq> [])"

definition snapshot_wf :: "(string \<Rightarrow> string + int) \<Rightarrow> RuntimeSnapshot \<Rightarrow> bool" where
  "snapshot_wf rfc s \<longleftrightarrow>
     rs_schema_version s = ''1.0'' \<and> rs_kind s = ''runtime_snapshot''
     \<and> pause_ok s \<and> indexes_ok s \<and> runs_ok (rs_active_runs_by_plane s) \<and> foreground_ok s
     \<and> lanes_wf rfc (rs_lanes_by_id s) \<and> active_fields_ok s \<and> pending_ok s"

section \<open>Active runs\<close>

lemma coerce_None_Inr: "coerce_family_and_kind f k = Inr (None, k') \<Longrightarrow> f = None \<and> k = None \<and> k' = None"
  using coerce_family_and_kind_Inr(2,3)[of f k None k'] coerce_family_and_kind_Inr(1)[of f k None k']
  by (cases k'; cases f; cases k) auto

lemma project_legacy_cases:
  assumes "project_legacy_active_state_into_active_runs s = Inr s1" "rs_active_runs_by_plane s = []"
  shows "(s1 = s \<and> (legacy_run_fields s \<longrightarrow>
            rs_active_work_item_family_id s = None \<and> rs_active_work_item_kind s = None))
       \<or> (\<exists>m. m \<noteq> [] \<and> s1 = s\<lparr>rs_active_runs_by_plane := m\<rparr>)"
proof (cases "legacy_run_fields s")
  case True
  then obtain p st ri sn ii where fields: "rs_active_plane s = Some p" "rs_active_stage s = Some st"
      "rs_active_run_id s = Some ri" "rs_active_since s = Some sn" "rs_active_work_item_id s = Some ii"
    by (auto simp: legacy_run_fields_def)
  with assms(1) obtain f k where c: "coerce_family_and_kind (rs_active_work_item_family_id s)
      (rs_active_work_item_kind s) = Inr (f, k)"
    by (auto simp: project_legacy_active_state_into_active_runs_def result_simps)
  show ?thesis
  proof (cases f)
    case None
    with assms(1) fields c coerce_None_Inr show ?thesis
      by (auto simp: project_legacy_active_state_into_active_runs_def)
  next
    case (Some fam)
    with assms fields c show ?thesis
      by (auto simp: project_legacy_active_state_into_active_runs_def Let_def)
  qed
next
  case False
  with assms(1) have "s1 = s"
    by (auto simp: project_legacy_active_state_into_active_runs_def legacy_run_fields_def
        split: option.splits)
  with False show ?thesis by simp
qed

lemma normalize_active_runs_cases:
  assumes "normalize_active_runs s = Inr s'"
  obtains (idle) "s' = s" "rs_active_runs_by_plane s = []"
      "legacy_run_fields s \<Longrightarrow> rs_active_work_item_family_id s = None \<and> rs_active_work_item_kind s = None"
    | (active) runs r where "runs_ok runs" "foreground_run runs = Some r"
      "s' = project_foreground r (s\<lparr>rs_active_runs_by_plane := runs\<rparr>)"
proof -
  from assms obtain s1 where
      s1: "(if rs_active_runs_by_plane s = [] then project_legacy_active_state_into_active_runs s
            else Inr s) = Inr s1"
    and s': "(if rs_active_runs_by_plane s1 = [] then Inr s1
       else and_then (validate_run_entries (rs_active_runs_by_plane s1)) (\<lambda>runs.
            and_then (foreground_active_run runs) (\<lambda>r.
              Inr (project_foreground r (s1\<lparr>rs_active_runs_by_plane := runs\<rparr>))))) = Inr s'"
    by (auto simp: normalize_active_runs_def and_then_eq_Inr)
  have s1_cases: "(s1 = s \<and> rs_active_runs_by_plane s = [] \<and> (legacy_run_fields s \<longrightarrow>
            rs_active_work_item_family_id s = None \<and> rs_active_work_item_kind s = None))
       \<or> (\<exists>m. m \<noteq> [] \<and> s1 = s\<lparr>rs_active_runs_by_plane := m\<rparr>)"
  proof (cases "rs_active_runs_by_plane s = []")
    case True
    with s1 show ?thesis using project_legacy_cases[of s s1] by auto
  next
    case False
    with s1 show ?thesis by (intro disjI2 exI[of _ "rs_active_runs_by_plane s"]) simp
  qed
  then show thesis
  proof
    assume "s1 = s \<and> rs_active_runs_by_plane s = [] \<and> (legacy_run_fields s \<longrightarrow>
            rs_active_work_item_family_id s = None \<and> rs_active_work_item_kind s = None)"
    with s' idle show thesis by simp
  next
    assume "\<exists>m. m \<noteq> [] \<and> s1 = s\<lparr>rs_active_runs_by_plane := m\<rparr>"
    then obtain m where m: "m \<noteq> []" "s1 = s\<lparr>rs_active_runs_by_plane := m\<rparr>" by blast
    with s' obtain runs r where "validate_run_entries m = Inr runs" "foreground_active_run runs = Inr r"
        "s' = project_foreground r (s\<lparr>rs_active_runs_by_plane := runs\<rparr>)"
      by (auto simp: and_then_eq_Inr)
    then show thesis
      using active validate_run_entries_ok by (auto simp: foreground_active_run_eq split: option.splits)
  qed
qed

lemma normalize_active_runs_fixed:
  assumes "runs_ok (rs_active_runs_by_plane s)" "foreground_ok s"
  shows "normalize_active_runs s = Inr s"
proof (cases "foreground_run (rs_active_runs_by_plane s)")
  case None
  then have "rs_active_runs_by_plane s = []" by (simp add: foreground_run_None)
  moreover have "\<not> legacy_run_fields s" using assms(2) None by (simp add: foreground_ok_def)
  then have "project_legacy_active_state_into_active_runs s = Inr s"
    by (auto simp: project_legacy_active_state_into_active_runs_def legacy_run_fields_def
        split: option.split)
  ultimately show ?thesis by (simp add: normalize_active_runs_def)
next
  case (Some r)
  then have "rs_active_runs_by_plane s \<noteq> []" by (auto simp flip: foreground_run_None)
  moreover have "project_foreground r s = s" using assms(2) Some by (simp add: foreground_ok_def)
  ultimately show ?thesis
    using assms(1) Some by (simp add: normalize_active_runs_def validate_run_entries_fixed
        foreground_active_run_eq)
qed

section \<open>The active fields\<close>

lemma fill_active_node_Inr:
  assumes "fill_active_node s = Inr s'"
  obtains n k f where "s' = s\<lparr>rs_active_node_id := n, rs_active_stage_kind_id := k,
      rs_active_work_item_family_id := f\<rparr>"
    "f = rs_active_work_item_family_id s \<or> (f = None \<and> rs_active_stage s = None)"
    "rs_active_stage s = None \<Longrightarrow> n = None \<and> k = None"
    "\<And>st. rs_active_stage s = Some st \<Longrightarrow> rs_active_plane s = Some (stage_plane st) \<and> n \<noteq> None \<and> k \<noteq> None"
proof (cases "rs_active_stage s")
  case None
  with assms show thesis
    by (intro that[where n = None and k = None and f = "if rs_active_work_item_id s = None \<and> rs_active_work_item_kind s = None
             then None else rs_active_work_item_family_id s"])
       (simp_all add: fill_active_node_def)
next
  case (Some st)
  with assms obtain p where p: "rs_active_plane s = Some p" "stage_plane st = p"
    and s': "s' = s\<lparr>rs_active_node_id := (case rs_active_node_id s of
                      None \<Rightarrow> Some (StageName_as_str st) | Some n \<Rightarrow> Some n),
                   rs_active_stage_kind_id := (case rs_active_stage_kind_id s of
                      None \<Rightarrow> Some (StageName_as_str st) | Some n \<Rightarrow> Some n)\<rparr>"
    by (auto simp: fill_active_node_def result_simps split: option.splits)
  define n where "n = (case rs_active_node_id s of None \<Rightarrow> Some (StageName_as_str st) | Some n \<Rightarrow> Some n)"
  define k where "k = (case rs_active_stage_kind_id s of None \<Rightarrow> Some (StageName_as_str st) | Some n \<Rightarrow> Some n)"
  have "s' = s\<lparr>rs_active_node_id := n, rs_active_stage_kind_id := k,
      rs_active_work_item_family_id := rs_active_work_item_family_id s\<rparr>"
    by (simp add: s' n_def k_def)
  moreover have "n \<noteq> None" "k \<noteq> None" by (simp_all add: n_def k_def split: option.split)
  ultimately show thesis using p Some by (intro that[where n = n and k = k and f = "rs_active_work_item_family_id s"]) simp_all
qed

lemma active_node_checks_Inr: "active_node_checks s = Inr u \<longleftrightarrow> (rs_active_stage s \<noteq> None \<longrightarrow>
     (\<forall>x. rs_active_node_id s = Some x \<longrightarrow> trim x \<noteq> []) \<and> (\<forall>x. rs_active_stage_kind_id s = Some x \<longrightarrow> trim x \<noteq> []))"
  by (simp add: active_node_checks_def del: all_checks.simps)

lemma active_item_checks_Inr: "active_item_checks s = Inr u \<longleftrightarrow>
     ((rs_active_work_item_family_id s \<noteq> None \<or> rs_active_work_item_kind s \<noteq> None)
          = (rs_active_work_item_id s \<noteq> None))
     \<and> (rs_active_work_item_id s \<noteq> None \<longrightarrow> rs_active_stage s \<noteq> None \<and> rs_active_plane s \<noteq> None
          \<and> rs_active_run_id s \<noteq> None)
     \<and> (rs_active_since s \<noteq> None \<longrightarrow> rs_active_stage s \<noteq> None) \<and> pending_ok s"
  unfolding active_item_checks_def Let_def pending_ok_def all_checks_Cons_Inr check_that_Inr
    require_optional_field_Inr
  by (cases "rs_active_work_item_id s"; cases "rs_active_work_item_family_id s";
      cases "rs_active_work_item_kind s"; cases "rs_active_since s") simp_all

lemma validate_active_state_Inr:
  assumes "validate_active_state s = Inr t"
  shows "active_fields_ok t" "pending_ok t"
    and "\<exists>n k f wk. t = s\<lparr>rs_active_node_id := n, rs_active_stage_kind_id := k,
           rs_active_work_item_family_id := f, rs_active_work_item_kind := wk\<rparr>"
    and "rs_active_work_item_family_id s = None \<and> rs_active_work_item_kind s = None \<Longrightarrow>
           rs_active_work_item_family_id t = None \<and> rs_active_work_item_kind t = None"
proof -
  from assms obtain u1 u2 u3 s1 f' wk where plane':
      "check_that (\<not> (rs_active_stage s = None \<and> rs_active_plane s \<noteq> None))
        ''active_plane cannot be set when active_stage is missing'' = Inr u1"
    and s1: "fill_active_node s = Inr s1"
    and node: "active_node_checks s1 = Inr u2"
    and c1: "coerce_family_and_kind (rs_active_work_item_family_id s1) (rs_active_work_item_kind s1)
        = Inr (f', wk)"
    and item': "active_item_checks (s1\<lparr>rs_active_work_item_family_id :=
        (if rs_active_work_item_family_id s1 \<noteq> None then f' else rs_active_work_item_family_id s1),
        rs_active_work_item_kind := wk\<rparr>) = Inr u3"
    and t1: "t = s1\<lparr>rs_active_work_item_family_id := (if rs_active_work_item_family_id s1 \<noteq> None then f'
                   else rs_active_work_item_family_id s1), rs_active_work_item_kind := wk\<rparr>"
    unfolding validate_active_state_def and_then_eq_Inr map_err_eq_Inr map_ok_eq_Inr Let_def
      split_paired_Ex prod.case
    by (elim exE conjE) (rule that)
  have item: "active_item_checks t = Inr ()" using item' t1 by simp
  have plane: "rs_active_stage s = None \<Longrightarrow> rs_active_plane s = None" using plane' by simp
  obtain n k f where s1_eq: "s1 = s\<lparr>rs_active_node_id := n, rs_active_stage_kind_id := k,
      rs_active_work_item_family_id := f\<rparr>"
    and f: "f = rs_active_work_item_family_id s \<or> (f = None \<and> rs_active_stage s = None)"
    and idle: "rs_active_stage s = None \<Longrightarrow> n = None \<and> k = None"
    and busy: "\<And>st. rs_active_stage s = Some st \<Longrightarrow>
      rs_active_plane s = Some (stage_plane st) \<and> n \<noteq> None \<and> k \<noteq> None"
    by (rule fill_active_node_Inr[OF s1]) (rule that)
  have c: "coerce_family_and_kind f (rs_active_work_item_kind s) = Inr (f', wk)"
    using c1 by (simp add: s1_eq)
  have fam: "(if f \<noteq> None then f' else f) = f" using coerce_family_and_kind_Inr(2)[OF c] by simp
  have "rs_active_work_item_family_id s1 = f" by (simp add: s1_eq)
  with t1 fam have t: "t = s1\<lparr>rs_active_work_item_family_id := f, rs_active_work_item_kind := wk\<rparr>"
    by (simp only:)
  have coh: "coherent_family f wk" by (rule coerced_is_coherent[OF c])
  note it = item[unfolded active_item_checks_Inr]
  show "pending_ok t" using it by simp
  show "active_fields_ok t"
  proof (cases "rs_active_stage s")
    case None
    with it idle plane coh show ?thesis by (auto simp: active_fields_ok_def t s1_eq)
  next
    case (Some st)
    with busy node have "\<exists>x. n = Some x \<and> trim x \<noteq> []" "\<exists>x. k = Some x \<and> trim x \<noteq> []"
      by (auto simp: active_node_checks_Inr s1_eq)
    with Some it coh busy show ?thesis by (auto simp: active_fields_ok_def t s1_eq)
  qed
  show "\<exists>n k f wk. t = s\<lparr>rs_active_node_id := n, rs_active_stage_kind_id := k,
           rs_active_work_item_family_id := f, rs_active_work_item_kind := wk\<rparr>"
    by (intro exI[of _ n] exI[of _ k] exI[of _ f] exI[of _ wk]) (simp add: t s1_eq)
  assume "rs_active_work_item_family_id s = None \<and> rs_active_work_item_kind s = None"
  then show "rs_active_work_item_family_id t = None \<and> rs_active_work_item_kind t = None"
    using f c by (auto simp: t s1_eq coerce_family_and_kind_def)
qed

lemma active_fields_stage:
  assumes "active_fields_ok s"
  shows "rs_active_stage s = None \<Longrightarrow> rs_active_plane s = None \<and> rs_active_node_id s = None
           \<and> rs_active_stage_kind_id s = None \<and> rs_active_work_item_family_id s = None
           \<and> rs_active_work_item_kind s = None \<and> rs_active_since s = None"
    and "rs_active_stage s = Some st \<Longrightarrow> rs_active_plane s = Some (stage_plane st)
          \<and> (\<exists>n. rs_active_node_id s = Some n \<and> trim n \<noteq> [])
          \<and> (\<exists>k. rs_active_stage_kind_id s = Some k \<and> trim k \<noteq> [])"
  using assms by (auto simp: active_fields_ok_def)

lemma fill_active_node_fixed: "active_fields_ok s \<Longrightarrow> fill_active_node s = Inr s"
proof (cases "rs_active_stage s")
  case None
  assume "active_fields_ok s"
  from active_fields_stage(1)[OF this None] None show ?thesis by (simp add: fill_active_node_def)
next
  case (Some st)
  assume "active_fields_ok s"
  from active_fields_stage(2)[OF this Some] Some show ?thesis
    by (auto simp: fill_active_node_def check_that_def)
qed

lemma validate_active_state_fixed:
  assumes "active_fields_ok s" "pending_ok s"
  shows "validate_active_state s = Inr s"
proof -
  from assms(1) obtain f where c: "coerce_family_and_kind (rs_active_work_item_family_id s)
      (rs_active_work_item_kind s) = Inr (f, rs_active_work_item_kind s)"
    by (auto simp: active_fields_ok_def coherent_family_iff)
  have fam: "(if rs_active_work_item_family_id s \<noteq> None then f else rs_active_work_item_family_id s)
      = rs_active_work_item_family_id s"
    using coerce_family_and_kind_Inr(2)[OF c] by simp
  have node: "active_node_checks s = Inr ()"
    using assms(1) by (auto simp: active_node_checks_Inr dest: active_fields_stage(2))
  have item: "active_item_checks s = Inr ()"
    using assms active_fields_stage(1)[OF assms(1)] active_fields_stage(2)[OF assms(1)]
    by (cases "rs_active_stage s") (auto simp: active_item_checks_Inr active_fields_ok_def)
  have plane: "check_that (\<not> (rs_active_stage s = None \<and> rs_active_plane s \<noteq> None))
        ''active_plane cannot be set when active_stage is missing'' = Inr ()"
    using active_fields_stage(1)[OF assms(1)] by (cases "rs_active_stage s") auto
  show ?thesis
    unfolding validate_active_state_def plane fill_active_node_fixed[OF assms(1)] and_then_simps
      node c map_err_simps prod.case Let_def fam
    using item by simp
qed

lemma projected_fields_ok:
  assumes "run_wf r"
  shows "active_fields_ok (project_foreground r s)"
  using assms
  by (auto simp: active_fields_ok_def project_foreground_def run_wf_def run_identity_ok_def
      split: ActiveRunRequestKind.splits)

section \<open>Validation\<close>

theorem validated_snapshot_wf:
  assumes "RuntimeSnapshot_validate_contract rfc s = Inr t"
  shows "snapshot_wf rfc t"
proof -
  let ?s = "normalize_plane_indexes (normalize_pause_sources s)"
  from assms obtain s1 lanes where
      version: "rs_schema_version s = ''1.0''" "rs_kind s = ''runtime_snapshot''"
    and runs: "normalize_active_runs ?s = Inr s1"
    and lanes: "validate_lane_entries rfc s1 (rs_lanes_by_id s1) = Inr lanes"
    and active: "validate_active_state (s1\<lparr>rs_lanes_by_id := lanes\<rparr>) = Inr t"
    by (auto simp: RuntimeSnapshot_validate_contract_def validate_lanes_def and_then_eq_Inr map_ok_eq_Inr
        validate_json_literal_def split: if_splits)
  obtain n k f wk where t: "t = s1\<lparr>rs_lanes_by_id := lanes, rs_active_node_id := n,
      rs_active_stage_kind_id := k, rs_active_work_item_family_id := f, rs_active_work_item_kind := wk\<rparr>"
    using validate_active_state_Inr(3)[OF active] by auto
  have base: "pause_ok ?s" "indexes_ok ?s" "rs_schema_version ?s = ''1.0''" "rs_kind ?s = ''runtime_snapshot''"
    using normalize_pause_ok[of s] normalize_indexes_ok version
    by (auto simp: pause_ok_def normalize_plane_indexes_def normalize_pause_sources_def Let_def)
  have "runs_ok (rs_active_runs_by_plane t) \<and> foreground_ok t \<and> pause_ok s1 \<and> indexes_ok s1
      \<and> rs_schema_version s1 = ''1.0'' \<and> rs_kind s1 = ''runtime_snapshot''"
  proof (cases rule: normalize_active_runs_cases[OF runs])
    case 1
    have "\<not> legacy_run_fields t"
    proof
      assume l: "legacy_run_fields t"
      then have "legacy_run_fields ?s" using 1(1) by (simp add: legacy_run_fields_def t)
      with 1 have "rs_active_work_item_family_id t = None \<and> rs_active_work_item_kind t = None"
        using validate_active_state_Inr(4)[OF active] by simp
      with validate_active_state_Inr(1)[OF active] l show False
        by (auto simp: active_fields_ok_def legacy_run_fields_def)
    qed
    with 1 base show ?thesis by (simp add: t foreground_ok_def foreground_run_None[THEN iffD2])
  next
    case (2 runs r)
    let ?u = "s1\<lparr>rs_lanes_by_id := lanes\<rparr>"
    from 2(1) foreground_run_Some[OF 2(2)] have wf: "run_wf r"
      by (auto simp: runs_ok_def dest: map_of_SomeD)
    have u: "?u = project_foreground r ?u" using 2(3) by (simp add: project_foreground_def)
    have "active_fields_ok ?u" using projected_fields_ok[OF wf, of ?u] u by simp
    moreover have "pending_ok ?u"
      using validate_active_state_Inr(2)[OF active] by (simp add: t pending_ok_def)
    ultimately have "t = ?u" using active validate_active_state_fixed by simp
    moreover have "pause_ok s1" "indexes_ok s1" "rs_schema_version s1 = ''1.0''"
        "rs_kind s1 = ''runtime_snapshot''"
      using base by (simp_all add: 2(3) project_foreground_def pause_ok_def indexes_ok_def)
    moreover have "rs_active_runs_by_plane ?u = runs" by (simp add: 2(3) project_foreground_def)
    ultimately show ?thesis using 2(1,2) u by (simp add: foreground_ok_def)
  qed
  then show ?thesis
    using validate_active_state_Inr(1,2)[OF active] validate_lane_entries_wf[OF lanes]
    by (auto simp: snapshot_wf_def t pause_ok_def indexes_ok_def)
qed

theorem snapshot_wf_fixed:
  assumes "snapshot_wf rfc t"
  shows "RuntimeSnapshot_validate_contract rfc t = Inr t"
  using assms
  by (simp add: snapshot_wf_def RuntimeSnapshot_validate_contract_def validate_json_literal_def
      normalize_pause_fixed normalize_indexes_fixed normalize_active_runs_fixed validate_lanes_def
      validate_lane_entries_fixed validate_active_state_fixed)

end
