(* ===== verification/Plan_Validity.thy ===== *)
theory Plan_Validity
  imports Sched_Steps Snapshot_Validity
begin

text \<open>
  What the validation of a compiled plan establishes for the schedule and the router: the graphs belong
  to their planes, and the lane of every plane has a usable id.
\<close>

lemma document_check_Inr [simp]: "document_check b m = Inr u \<longleftrightarrow> b"
  by (simp add: document_check_def)

lemma runtime_contract_Inr: "runtime_contract f r = Inr u \<longleftrightarrow> r = Inr u"
  by (simp add: runtime_contract_def map_err_eq_Inr)

lemma and_then_check_Inr: "and_then r f = Inr b \<longleftrightarrow> r = Inr () \<and> f () = Inr b"
  by (simp add: and_then_eq_Inr)

lemmas check_simps = all_checks_Cons_Inr all_checks_Nil_Inr all_checks_append_Inr all_checks_map_Inr
  document_check_Inr

text \<open>A validated plan is the given one with validated graphs, whose bindings were checked.\<close>

lemma validated_planE:
  assumes "CompiledRunPlan_validate p = Inr plan"
  obtains "plan_graph_bindings plan = Inr ()"
    "FrozenGraphPlanePlan_validate (plan_execution_graph p) = Inr (plan_execution_graph plan)"
    "FrozenGraphPlanePlan_validate (plan_planning_graph p) = Inr (plan_planning_graph plan)"
    "\<And>policy. plan_lane_policy plan = Some policy \<Longrightarrow> plan_lane_policy_check policy = Inr ()"
    "plan_lane_policy plan = plan_lane_policy p"
proof -
  obtain execution planning learning rules refs where
    e: "FrozenGraphPlanePlan_validate (plan_execution_graph p) = Inr execution"
    and pl: "FrozenGraphPlanePlan_validate (plan_planning_graph p) = Inr planning"
    and b: "plan_graph_bindings (p\<lparr>plan_execution_graph := execution, plan_planning_graph := planning,
        plan_learning_graph := learning\<rparr>) = Inr ()"
    and lane: "(case plan_lane_policy p of None \<Rightarrow> Inr () | Some policy \<Rightarrow> plan_lane_policy_check policy) = Inr ()"
    and plan: "plan = p\<lparr>plan_execution_graph := execution, plan_planning_graph := planning,
        plan_learning_graph := learning, plan_learning_trigger_rules := rules, plan_source_refs := refs\<rparr>"
    using assms
    unfolding CompiledRunPlan_validate_def Let_def and_then_check_Inr and_then_eq_Inr map_ok_eq_Inr all_checks_append_Inr
      all_checks_Cons_Inr
    by (elim exE conjE) (rule that, assumption+)
  have bindings: "plan_graph_bindings plan = Inr ()"
    using b unfolding plan plan_graph_bindings_def by (cases learning) (simp_all del: all_checks.simps)
  show thesis
    using that[OF bindings] e pl lane by (simp add: plan split: option.splits)
qed

lemma validated_plan_planes:
  assumes "CompiledRunPlan_validate p = Inr plan"
  shows "plan_planes_ok plan"
proof (rule validated_planE[OF assms])
  assume "plan_graph_bindings plan = Inr ()"
  then show ?thesis
    by (auto simp: plan_graph_bindings_def plan_planes_ok_def check_simps simp del: all_checks.simps
        split: option.splits)
qed

text \<open>Lane ids are safe identifiers or the default ids.\<close>

lemma default_lane_id_ok:
  "default_lane_id_for_plane q \<noteq> [] \<and> trim (default_lane_id_for_plane q) = default_lane_id_for_plane q"
  by (cases q) (simp_all add: default_lane_id_for_plane_def trim_graphic ascii_graphic_def)

lemma validate_id_trimmed: "validate_id f v = Inr () \<Longrightarrow> v \<noteq> [] \<and> trim v = v"
  by (auto simp: validate_id_def map_err_eq_Inr map_ok_eq_Inr validate_safe_identifier_Inr safe_id_trim
      matches_safe_id_pattern_def)

lemma validated_plan_lane_ids:
  assumes "CompiledRunPlan_validate p = Inr plan"
  shows "lane_id_for_plane (Some plan) q \<noteq> []
    \<and> trim (lane_id_for_plane (Some plan) q) = lane_id_for_plane (Some plan) q"
proof (rule validated_planE[OF assms])
  assume lanes: "\<And>policy. plan_lane_policy plan = Some policy \<Longrightarrow> plan_lane_policy_check policy = Inr ()"
  have "lp_lane_id lane \<noteq> [] \<and> trim (lp_lane_id lane) = lp_lane_id lane"
    if "plan_lane_policy plan = Some policy" "lane \<in> set (sp_lanes policy)" for policy lane
  proof -
    have "WorkflowLaneDefinition_validate lane = Inr ()"
      using lanes[OF that(1)] that(2)
      by (auto simp: plan_lane_policy_check_def runtime_contract_Inr
          WorkflowPlaneSchedulerPolicyDefinition_validate_def primitive_contract_def check_simps
          simp del: all_checks.simps)
    then have "validate_id ''lane_id'' (lp_lane_id lane) = Inr ()"
      by (simp add: WorkflowLaneDefinition_validate_def primitive_contract_def check_simps
          del: all_checks.simps)
    then show ?thesis by (rule validate_id_trimmed)
  qed
  then show ?thesis
    by (auto simp: lane_id_for_plane_def default_lane_id_ok split: option.splits dest!: find_SomeD)
qed

theorem validated_plan_ok:
  assumes "CompiledRunPlan_validate p = Inr plan" "distinct (map (lane_id_for_plane (Some plan)) Plane_ALL)"
  shows "plan_ok plan"
  using validated_plan_planes[OF assms(1)] validated_plan_lane_ids[OF assms(1)] assms(2)
  by (simp add: plan_ok_def list_all_iff)

end
