(* ===== verification/Runtime_Examples.thy ===== *)
theory Runtime_Examples
  imports Plan_Validity
begin

text \<open>
  A concrete plan, snapshot and stage result, at which the properties of the runtime are applied: a
  validated plan with a builder, a troubleshooter and a learning analyst, whose execution and learning
  lanes may run together.
\<close>

definition no_grants :: ExecutionCapabilitySummary where
  "no_grants = \<lparr>cs_total_grants = 0, cs_by_decision = [], cs_by_enforcement = []\<rparr>"

definition demo_node :: "Plane \<Rightarrow> string \<Rightarrow> MaterializedGraphNodePlan" where
  "demo_node p kind_id =
     \<lparr>gn_node_id = kind_id, gn_stage_kind_id = kind_id, gn_plane = p, gn_lane_id = None,
      gn_entrypoint_path = ''entrypoints/'' @ kind_id @ ''.md'', gn_entrypoint_contract_id = None,
      gn_running_status_marker = ''RUNNING'',
      gn_allowed_result_classes_by_outcome = [(''BLOCKED'', [ResultClass.Blocked])],
      gn_declared_output_artifacts = [], gn_required_skill_paths = [], gn_attached_skill_additions = [],
      gn_runner_name = None, gn_model_name = None, gn_thinking_level = None,
      gn_model_reasoning_effort = None, gn_timeout_seconds = 60, gn_execution_capability_grants = [],
      gn_execution_capability_warnings = [], gn_execution_capability_policy_fingerprint = [],
      gn_request_context_profile_id = None, gn_terminal_action_mappings = [],
      gn_runtime_effect_rule_selections = []\<rparr>"

definition demo_entry :: "GraphLoopEntryKey \<Rightarrow> Plane \<Rightarrow> string \<Rightarrow> CompiledGraphEntryPlan" where
  "demo_entry k p kind_id =
     \<lparr>ge_entry_key = k, ge_node_id = kind_id, ge_stage_kind_id = kind_id, ge_plane = p\<rparr>"

definition demo_edge :: "string \<Rightarrow> string \<Rightarrow> string option \<Rightarrow> GraphLoopEdgeDefinition" where
  "demo_edge source oc target =
     \<lparr>lx_edge_id = source @ ''.'' @ to_ascii_lowercase oc, lx_from_node_id = source, lx_to_node_id = target,
      lx_terminal_state_id = (if target = None then Some ''done'' else None), lx_on_outcomes = [oc],
      lx_kind = (if target = None then LoopEdgeKind.Terminal else LoopEdgeKind.Normal), lx_priority = 0,
      lx_description = None, lx_max_attempts = None\<rparr>"

definition demo_transition :: "string \<Rightarrow> string \<Rightarrow> string option \<Rightarrow> CompiledGraphTransitionPlan" where
  "demo_transition source oc target =
     \<lparr>gt_edge_id = source @ ''.'' @ to_ascii_lowercase oc, gt_source_node_id = source, gt_outcome = oc,
      gt_target_node_id = target, gt_terminal_state_id = (if target = None then Some ''done'' else None),
      gt_kind = (if target = None then LoopEdgeKind.Terminal else LoopEdgeKind.Normal),
      gt_priority = 0, gt_max_attempts = None\<rparr>"

definition demo_graph ::
  "Plane \<Rightarrow> string list \<Rightarrow> CompiledGraphEntryPlan \<Rightarrow> (string \<times> string \<times> string option) list \<Rightarrow>
   FrozenGraphPlanePlan" where
  "demo_graph p kinds entry edges =
     \<lparr>fg_loop_id = Plane_as_str p @ ''.demo'', fg_plane = p, fg_nodes = map (demo_node p) kinds,
      fg_entry_nodes = [\<lparr>le_entry_key = ge_entry_key entry, le_node_id = ge_node_id entry\<rparr>],
      fg_transitions = map (\<lambda>(source, oc, target). demo_edge source oc target) edges,
      fg_compiled_entries = [entry], fg_compiled_completion_entry = None,
      fg_compiled_transitions = map (\<lambda>(source, oc, target). demo_transition source oc target) edges,
      fg_compiled_resume_policies = [],
      fg_compiled_threshold_policies =
        (if p = Plane.Execution then
          [\<lparr>gh_policy_id = ''blocked'', gh_source_node_ids = [''builder''], gh_on_outcome = ''BLOCKED'',
            gh_counter_name = TroubleshootAttemptCount, gh_threshold = 2,
            gh_exhausted_target_node_id = Some ''consultant'', gh_exhausted_terminal_state_id = None\<rparr>]
         else []),
      fg_terminal_states = [\<lparr>gs_terminal_state_id = ''done'', gs_terminal_class = SuccessTerminal,
        gs_writes_status = ''COMPLETE'', gs_emits_artifacts = [], gs_ends_plane_run = True\<rparr>],
      fg_completion_behavior = None, fg_execution_capability_summary = no_grants\<rparr>"

definition demo_execution :: FrozenGraphPlanePlan where
  "demo_execution = demo_graph Plane.Execution [''builder'', ''troubleshooter'', ''consultant'']
     (demo_entry TaskEntry Plane.Execution ''builder'')
     [(''builder'', ''BLOCKED'', Some ''troubleshooter''), (''builder'', ''BUILDER_COMPLETE'', None)]"

definition demo_planning :: FrozenGraphPlanePlan where
  "demo_planning = demo_graph Plane.Planning [''planner''] (demo_entry SpecEntry Plane.Planning ''planner'')
     [(''planner'', ''PLANNER_COMPLETE'', None)]"

definition demo_learning :: FrozenGraphPlanePlan where
  "demo_learning = demo_graph Plane.Learning [''analyst'']
     (demo_entry LearningRequestEntry Plane.Learning ''analyst'') [(''analyst'', ''ANALYST_COMPLETE'', None)]"

definition demo_lane :: "Plane \<Rightarrow> WorkflowLaneDefinition" where
  "demo_lane p =
     \<lparr>lp_schema_version = ''1.0'', lp_kind = ''workflow_lane'', lp_lane_id = default_lane_id_for_plane p,
      lp_plane = p, lp_allowed_family_ids = [''task''], lp_claim_policy_id = ''claim'', lp_max_active_runs = 1,
      lp_one_active_scope = ''plane'', lp_partition_selector_id = None,
      lp_mutation_lock_scope = ''workspace'', lp_result_application_policy = ''serial'',
      lp_conflict_policy_id = Some ''together''\<rparr>"

definition demo_conflict :: "Plane \<Rightarrow> Plane \<Rightarrow> LaneConflictPolicyDefinition" where
  "demo_conflict p q =
     \<lparr>lc_schema_version = ''1.0'', lc_kind = ''lane_conflict_policy'', lc_policy_id = ''together'',
      lc_lane_ids = [default_lane_id_for_plane p], lc_concurrent_with_lane_ids = [default_lane_id_for_plane q],
      lc_conflict_scopes = [''workspace''], lc_lock_acquisition_order = [default_lane_id_for_plane p],
      lc_release_policy = ''on_end'',
      lc_missing_lock_policy = ''block''\<rparr>"

definition empty_bundle :: CompiledWorkflowPrimitiveBundle where
  "empty_bundle =
     \<lparr>bu_artifact_contracts = [], bu_request_context_profiles = [], bu_work_item_families = [],
      bu_document_adapters = [], bu_queue_claim_policies = [], bu_terminal_actions = [],
      bu_lifecycle_mutation_plans = [], bu_runtime_effect_handlers = [], bu_runtime_effect_rules = [],
      bu_recovery_policies = [], bu_runtime_failure_policies = [], bu_workspace_schema_epoch = None\<rparr>"

definition demo_plan :: CompiledRunPlan where
  "demo_plan =
     \<lparr>plan_schema_version = ''1.0'', plan_kind = ''compiled_run_plan'', plan_compiled_plan_id = ''plan-1'',
      plan_compile_input_fingerprint = \<lparr>fi_mode_id = ''default'', fi_config_fingerprint = ''c1'',
        fi_assets_fingerprint = ''a1''\<rparr>,
      plan_mode_id = ''default'',
      plan_loop_ids_by_plane = [(Plane.Execution, ''execution.demo''), (Plane.Planning, ''planning.demo''),
        (Plane.Learning, ''learning.demo'')],
      plan_execution_loop_id = ''execution.demo'', plan_planning_loop_id = ''planning.demo'',
      plan_learning_loop_id = Some ''learning.demo'',
      plan_graphs_by_plane = [(Plane.Execution, demo_execution), (Plane.Planning, demo_planning),
        (Plane.Learning, demo_learning)],
      plan_execution_graph = demo_execution, plan_planning_graph = demo_planning,
      plan_learning_graph = Some demo_learning, plan_execution_capability_summary = no_grants,
      plan_execution_capability_summaries_by_plane = [],
      plan_concurrency_policy = Some \<lparr>pc_mutually_exclusive_planes = [[Plane.Execution, Plane.Planning]],
        pc_may_run_concurrently = [[Plane.Execution, Plane.Learning]]\<rparr>,
      plan_learning_trigger_rules = [], plan_workflow_primitives = empty_bundle,
      plan_workflow_primitive_fingerprints = [],
      plan_lane_policy = Some \<lparr>sp_schema_version = ''1.0'', sp_kind = ''workflow_plane_scheduler_policy'',
        sp_policy_id = ''demo'', sp_plane_order = Plane_ALL, sp_concurrency_policy_id = None,
        sp_lanes = map demo_lane Plane_ALL, sp_claim_policies_by_plane = [],
        sp_completion_check_order = [], sp_experimental_multi_lane = False,
        sp_lane_conflict_policies = [demo_conflict Plane.Execution Plane.Learning,
                                     demo_conflict Plane.Learning Plane.Execution]\<rparr>,
      plan_workspace_schema_epoch = None, plan_pending_compiled_plan = None,
      plan_compiled_at = ''2026-01-01T00:00:00Z'', plan_resolved_assets = [], plan_source_refs = []\<rparr>"

definition demo_snapshot :: RuntimeSnapshot where
  "demo_snapshot =
     \<lparr>rs_schema_version = ''1.0'', rs_kind = ''runtime_snapshot'', rs_runtime_mode = RuntimeMode.Daemon,
      rs_process_running = True, rs_paused = False, rs_pause_sources = [], rs_stop_requested = False,
      rs_active_mode_id = ''default'', rs_execution_loop_id = ''execution.demo'',
      rs_planning_loop_id = ''planning.demo'', rs_learning_loop_id = Some ''learning.demo'',
      rs_loop_ids_by_plane = [(Plane.Execution, ''execution.demo''), (Plane.Planning, ''planning.demo''),
        (Plane.Learning, ''learning.demo'')],
      rs_compiled_plan_id = ''plan-1'', rs_compiled_plan_fingerprint = ''f1'',
      rs_compiled_plan_path = ''state/compiled_plan.json'', rs_pending_compiled_plan_id = None,
      rs_pending_compiled_plan_path = None, rs_pending_compiled_plan_fingerprint = None,
      rs_active_plane = None, rs_active_stage = None, rs_active_node_id = None,
      rs_active_stage_kind_id = None, rs_active_run_id = None, rs_active_work_item_family_id = None,
      rs_active_work_item_kind = None, rs_active_work_item_id = None, rs_active_runs_by_plane = [],
      rs_lanes_by_id = [], rs_execution_status_marker = ''### IDLE'',
      rs_planning_status_marker = ''### IDLE'', rs_learning_status_marker = ''### IDLE'',
      rs_status_markers_by_plane = [(Plane.Execution, ''### IDLE''), (Plane.Planning, ''### IDLE''),
        (Plane.Learning, ''### IDLE'')],
      rs_queue_depth_execution = 0, rs_queue_depth_planning = 0, rs_queue_depth_learning = 0,
      rs_queue_depths_by_plane = [(Plane.Execution, 0), (Plane.Planning, 0), (Plane.Learning, 0)],
      rs_last_terminal_result = None, rs_last_stage_result_path = None, rs_current_failure_class = None,
      rs_troubleshoot_attempt_count = 0, rs_mechanic_attempt_count = 0, rs_fix_cycle_count = 0,
      rs_consultant_invocations = 0, rs_config_version = ''c1'', rs_watcher_mode = WatcherMode.Off,
      rs_last_reload_outcome = None, rs_last_reload_error = None, rs_started_at = None,
      rs_active_since = None, rs_updated_at = ''2026-01-01T00:00:00Z''\<rparr>"

definition demo_claim :: "WorkItemKind \<Rightarrow> string \<Rightarrow> QueueClaim" where
  "demo_claim k i =
     \<lparr>qc_work_item_kind = k, qc_family_id = WorkItemKind_as_str k, qc_plane = plane_for_builtin_kind k,
      qc_work_item_id = i, qc_path = (WorkDir k ActiveState, md_name i), qc_source_state = None,
      qc_source_path = None, qc_claim_policy_id = None, qc_claim_order = None\<rparr>"

definition demo_activation :: "WorkItemKind \<Rightarrow> GraphActivationDecision" where
  "demo_activation k = (if k = WorkItemKind.Task
     then \<lparr>ad_plane = Plane.Execution, ad_stage = StageName.Builder, ad_node_id = ''builder'',
           ad_stage_kind_id = ''builder''\<rparr>
     else \<lparr>ad_plane = Plane.Learning, ad_stage = StageName.Analyst, ad_node_id = ''analyst'',
           ad_stage_kind_id = ''analyst''\<rparr>)"

definition demo_launch :: "RuntimeSnapshot \<Rightarrow> WorkItemKind \<Rightarrow> string \<Rightarrow> string \<Rightarrow> RuntimeSnapshot" where
  "demo_launch s k i run_id =
     activate_run s (claim_active_run demo_plan s (demo_claim k i) (demo_activation k) run_id
       ''2026-01-02T00:00:00Z'') ''2026-01-02T00:00:00Z''"

text \<open>A task is running, then a learning request beside it.\<close>

definition demo_building :: RuntimeSnapshot where
  "demo_building = demo_launch demo_snapshot WorkItemKind.Task ''t1'' ''run-1''"

definition demo_learning_too :: RuntimeSnapshot where
  "demo_learning_too = demo_launch demo_building WorkItemKind.LearningRequest ''l1'' ''run-2''"

lemma demo_graphs_valid:
  "FrozenGraphPlanePlan_validate demo_execution = Inr demo_execution"
  "FrozenGraphPlanePlan_validate demo_planning = Inr demo_planning"
  "FrozenGraphPlanePlan_validate demo_learning = Inr demo_learning"
  by code_simp+

lemma demo_lanes_valid: "plan_lane_policy_check (the (plan_lane_policy demo_plan)) = Inr ()"
  by code_simp

lemma demo_strings_valid:
  "CompileInputFingerprint_validate (plan_compile_input_fingerprint demo_plan) = Inr ()"
  "cc_require_non_blank ''compiled_plan_id'' (plan_compiled_plan_id demo_plan) = Inr ()"
  "cc_require_non_blank ''mode_id'' (plan_mode_id demo_plan) = Inr ()"
  "cc_require_non_blank ''execution_loop_id'' (plan_execution_loop_id demo_plan) = Inr ()"
  "cc_require_non_blank ''planning_loop_id'' (plan_planning_loop_id demo_plan) = Inr ()"
  "cc_require_optional_non_blank ''learning_loop_id'' (plan_learning_loop_id demo_plan) = Inr ()"
  "plan_loop_bindings demo_plan = Inr ()"
  "PlaneConcurrencyPolicyDefinition_validate (the (plan_concurrency_policy demo_plan)) = Inr ()"
  "CompiledWorkflowPrimitiveBundle_validate empty_bundle = Inr ()"
  "ExecutionCapabilitySummary_validate no_grants = Inr ()"
  by code_simp+

lemma demo_planes:
  "fg_plane demo_execution = Plane.Execution" "fg_loop_id demo_execution = ''execution.demo''"
  "fg_plane demo_planning = Plane.Planning" "fg_loop_id demo_planning = ''planning.demo''"
  "fg_plane demo_learning = Plane.Learning" "fg_loop_id demo_learning = ''learning.demo''"
  by code_simp+

lemma demo_plan_valid: "CompiledRunPlan_validate demo_plan = Inr demo_plan"
proof -
  have "plan_graph_bindings demo_plan = Inr ()" "plan_capability_summaries demo_plan = Inr ()"
    using demo_strings_valid(10)
    by (simp_all add: plan_graph_bindings_def plan_capability_summaries_def demo_plan_def demo_planes
        document_check_def)
  then show ?thesis
    using demo_strings_valid demo_graphs_valid demo_lanes_valid
    by (simp add: CompiledRunPlan_validate_def demo_plan_def validate_option_def cc_validate_literal_def
        normalize_non_blank_vec_def validate_non_blank_string_map_def document_check_def dedupe_def)
qed

lemma demo_lanes_distinct: "distinct (map (lane_id_for_plane (Some demo_plan)) Plane_ALL)" by code_simp

lemma demo_activates:
  "activation_for_claim demo_plan (demo_claim WorkItemKind.Task i) None = Inr (demo_activation WorkItemKind.Task)"
  "activation_for_claim demo_plan (demo_claim WorkItemKind.LearningRequest i) None
     = Inr (demo_activation WorkItemKind.LearningRequest)"
  by code_simp+

lemma demo_dispatch:
  assumes "sched_reachable demo_plan s" "dispatch_allowed demo_plan s p" "active_run_for_plane s p = None"
    "plane_for_builtin_kind k = p" "k \<in> {WorkItemKind.Task, WorkItemKind.LearningRequest}"
  shows "sched_reachable demo_plan (demo_launch s k i run_id)"
  unfolding demo_launch_def
proof (rule sched_reachable.step[OF assms(1)], rule sched_step.dispatch_claim[OF assms(2,3), where target = None])
  show "plane_for_builtin_kind (qc_work_item_kind (demo_claim k i)) = p"
    using assms(4) by (simp add: demo_claim_def)
  show "activation_for_claim demo_plan (demo_claim k i) None = Inr (demo_activation k)"
    using assms(5) demo_activates by auto
qed

lemma demo_reachable: "sched_reachable demo_plan demo_building" "sched_reachable demo_plan demo_learning_too"
proof -
  have "no_runs demo_snapshot" "dispatch_allowed demo_plan demo_snapshot Plane.Execution"
    "active_run_for_plane demo_snapshot Plane.Execution = None" by code_simp+
  then show b: "sched_reachable demo_plan demo_building"
    unfolding demo_building_def by (intro demo_dispatch sched_reachable.start) auto
  have "dispatch_allowed demo_plan demo_building Plane.Learning"
    "active_run_for_plane demo_building Plane.Learning = None" by code_simp+
  with b show "sched_reachable demo_plan demo_learning_too"
    unfolding demo_learning_too_def by (intro demo_dispatch) auto
qed

end
