(* ===== verification/Launch_Validity.thy ===== *)
theory Launch_Validity
  imports Snapshot_Validity Sched_Steps
begin

text \<open>
  The snapshot the scheduler writes when it activates work is one that validation accepts unchanged:
  launching a claim never persists a snapshot that the next load would refuse or rewrite.
\<close>

lemma active_work_ref_not_blank: "trim (ar_run_id r) \<noteq> [] \<Longrightarrow> trim (active_work_ref r) \<noteq> []"
proof -
  have colon: "ascii_graphic CHR '':''" by (simp add: ascii_graphic_def)
  show ?thesis
    by (rule trim_not_blank[OF colon]) (auto simp: active_work_ref_def split: option.split)
qed

lemma namespaced_not_blank: "namespaced_by p l \<Longrightarrow> trim l \<noteq> []"
proof -
  assume "namespaced_by p l"
  then have "CHR ''.'' \<in> set l" by (auto simp: namespaced_by_def strip_prefix_Some)
  then show ?thesis by (rule trim_not_blank[rotated]) (simp add: ascii_graphic_def)
qed

lemma single_run_lane_wf:
  assumes "namespaced_by p lane_id" "trim (ar_compiled_plan_id r) \<noteq> []"
    "trim (ar_compiled_plan_fingerprint r) \<noteq> []" "trim (ar_run_id r) \<noteq> []"
  shows "lane_wf rfc (lane_state_for_active_runs lane_id p [r])"
  using assms namespaced_not_blank active_work_ref_not_blank
  by (simp add: lane_wf_def lane_state_for_active_runs_def)

lemma runs_ok_update: "runs_ok m \<Longrightarrow> run_wf r \<Longrightarrow> runs_ok (AList.update (ar_plane r) r m)"
  by (induction m) auto

lemma lanes_wf_update:
  "lanes_wf rfc m \<Longrightarrow> lane_wf rfc l \<Longrightarrow> lanes_wf rfc (AList.update (la_lane_id l) l m)"
  by (induction m) auto

lemma foreground_run_wf: "runs_ok m \<Longrightarrow> foreground_run m = Some r \<Longrightarrow> run_wf r"
  using foreground_run_Some map_of_SomeD by (fastforce simp: runs_ok_def)

lemma activate_run_frame:
  "pause_ok (activate_run s r now) = pause_ok s" "indexes_ok (activate_run s r now) = indexes_ok s"
  "pending_ok (activate_run s r now) = pending_ok s"
  "rs_schema_version (activate_run s r now) = rs_schema_version s"
  "rs_kind (activate_run s r now) = rs_kind s"
  "rs_active_runs_by_plane (activate_run s r now) = AList.update (ar_plane r) r (rs_active_runs_by_plane s)"
  "rs_lanes_by_id (activate_run s r now) = AList.update (run_lane_id r)
     (lane_state_for_active_runs (run_lane_id r) (ar_plane r) [r]) (rs_lanes_by_id s)"
  by (auto simp: activate_run_def snapshot_with_active_run_def snapshot_with_lane_active_run_def Let_def
      project_foreground_active_run_def project_foreground_def pause_ok_def indexes_ok_def pending_ok_def
      split: option.split)

lemma foreground_update_Some: "foreground_run (AList.update p r m) \<noteq> None"
proof -
  have "map_of (AList.update p r m) p \<noteq> None" by (simp add: update_conv')
  then have "AList.update p r m \<noteq> []" by auto
  then show ?thesis by (simp add: foreground_run_None)
qed

text \<open>A run that may be activated: a valid run with a lane and plan ids that are not blank.\<close>

lemma activate_run_valid:
  assumes "snapshot_wf rfc s" "run_wf r" "namespaced_by (ar_plane r) (ar_lane_id r)"
    "trim (ar_compiled_plan_id r) \<noteq> []" "trim (ar_compiled_plan_fingerprint r) \<noteq> []"
  shows "snapshot_wf rfc (activate_run s r now)"
proof -
  let ?t = "activate_run s r now"
  have lane: "run_lane_id r = ar_lane_id r"
    using namespaced_not_blank[OF assms(3)] by (simp add: run_lane_id_def)
  have runs: "runs_ok (rs_active_runs_by_plane ?t)"
    using assms(1,2) by (simp add: activate_run_frame runs_ok_update snapshot_wf_def)
  have "lane_wf rfc (lane_state_for_active_runs (ar_lane_id r) (ar_plane r) [r])"
    using assms by (intro single_run_lane_wf) (auto simp: run_wf_def)
  then have lanes: "lanes_wf rfc (rs_lanes_by_id ?t)"
    using assms(1) lanes_wf_update[of rfc "rs_lanes_by_id s"
        "lane_state_for_active_runs (ar_lane_id r) (ar_plane r) [r]"]
    by (simp add: activate_run_frame lane snapshot_wf_def lane_state_for_active_runs_def)
  obtain f where f: "foreground_run (rs_active_runs_by_plane ?t) = Some f"
    using foreground_update_Some[of "ar_plane r" r] by (auto simp: activate_run_frame)
  have shown: "project_foreground f ?t = ?t"
    using activate_run_projected[of s r now] f by (simp add: project_foreground_active_run_def)
  have "active_fields_ok ?t"
    using projected_fields_ok[OF foreground_run_wf[OF runs f], of ?t] shown by simp
  then show ?thesis
    using assms(1) runs lanes f shown
    by (simp add: snapshot_wf_def activate_run_frame(1-5) foreground_ok_def)
qed

lemma claimed_run_wf:
  assumes "stage_plane (ad_stage a) = ad_plane a" "ad_plane a = plane_for_builtin_kind (qc_work_item_kind c)"
    "qc_family_id c = WorkItemKind_as_str (qc_work_item_kind c)"
    "namespaced_by (ad_plane a) (lane_id_for_plane (Some plan) (ad_plane a))"
    "trim (ad_node_id a) \<noteq> []" "trim (ad_stage_kind_id a) \<noteq> []" "trim run_id \<noteq> []"
    "trim (rs_compiled_plan_id s) \<noteq> []" "trim (rs_compiled_plan_fingerprint s) \<noteq> []"
  shows "run_wf (claim_active_run plan s c a run_id now)"
proof -
  have "WorkItemKind_as_str k = ''learning_request'' \<longleftrightarrow> k = WorkItemKind.LearningRequest" for k
    by (cases k) simp_all
  then show ?thesis
    using assms by (auto simp: run_wf_def claim_active_run_def run_identity_ok_def)
qed

lemma activation_stage_plane:
  assumes "activation_for_claim plan c target = Inr a"
  shows "stage_plane (ad_stage a) = ad_plane a"
proof -
  have sp: "stage_plane st = p" if "tick_stage_name_for_plane p v = Inr st" for p v st
    using that by (auto simp: tick_stage_name_for_plane_def stage_name_for_plane_def stage_plane_def
        result_simps split: if_splits)
  have entry: "stage_plane (ad_stage a) = ad_plane a" if "activation_from_entry g k = Inr a" for g k a
    using that by (auto simp: activation_from_entry_def invalid_state_def result_simps dest: sp
        split: option.splits)
  have node: "stage_plane (ad_stage a) = ad_plane a" if "activation_from_node g n = Inr a" for g n a
    using that by (auto simp: activation_from_node_def invalid_state_def result_simps dest: sp
        split: option.splits)
  have item: "stage_plane (ad_stage a) = ad_plane a" if "work_item_activation_for_graph plan k = Inr a" for k
    using that by (cases k) (auto simp: work_item_activation_for_graph_def result_simps dest: entry)
  from assms show ?thesis
    by (auto simp: activation_for_claim_def learning_stage_activation_for_graph_def invalid_state_def
        result_simps dest: item node split: option.splits if_splits)
qed

end
