(* ===== verification/Runtime_Documents.thy ===== *)
theory Runtime_Documents
  imports Runtime_Snapshot Queue_Interventions Complex_Main
begin

text \<open>
  The other documents of \<^verbatim>\<open>src/src/contracts/runtime_json.rs\<close>: runner failures and blocked-item metadata,
  the mailbox commands and their payloads, usage governance, compile diagnostics, stage results and
  runtime errors, each with the validation that every load applies. The decoder of a payload (serde) is
  a parameter. A \<^verbatim>\<open>BTreeMap\<close> is an association list in key order.
\<close>

section \<open>Floating point values\<close>

text \<open>A finite \<^verbatim>\<open>f64\<close> is the rational number it denotes; comparisons with \<^verbatim>\<open>NaN\<close> are false.\<close>

datatype f64 = NaN | NegInfinity | Finite rat | PosInfinity

fun f64_less :: "f64 \<Rightarrow> f64 \<Rightarrow> bool" where
  "f64_less NaN _ \<longleftrightarrow> False"
| "f64_less _ NaN \<longleftrightarrow> False"
| "f64_less (Finite a) (Finite b) \<longleftrightarrow> a < b"
| "f64_less NegInfinity y \<longleftrightarrow> y \<noteq> NegInfinity"
| "f64_less PosInfinity _ \<longleftrightarrow> False"
| "f64_less (Finite _) y \<longleftrightarrow> y = PosInfinity"

text \<open>\<^verbatim>\<open>n as f64\<close> of a \<^verbatim>\<open>u64\<close>: 53 significant bits, rounded to nearest, ties to even.\<close>

function round_to_f64 :: "nat \<Rightarrow> nat \<Rightarrow> nat" where
  "round_to_f64 n unit =
     (if n div unit < 2 ^ 53 \<or> unit = 0 then
        (let q = n div unit; r = 2 * (n mod unit) in
         (if unit < r \<or> r = unit \<and> odd q then Suc q else q) * unit)
      else round_to_f64 n (2 * unit))"
  by auto
termination
proof (relation "measure (\<lambda>(n, unit). Suc n - unit)")
  fix n unit :: nat
  assume "\<not> (n div unit < 2 ^ 53 \<or> unit = 0)"
  then have "0 < unit" "1 \<le> n div unit" by auto
  then have "unit \<le> n" by (metis div_less not_less not_one_le_zero)
  with \<open>0 < unit\<close> show "((n, 2 * unit), (n, unit)) \<in> measure (\<lambda>(n, unit). Suc n - unit)" by simp
qed simp

definition f64_of_u64 :: "nat \<Rightarrow> f64" where
  "f64_of_u64 n = Finite (of_nat (round_to_f64 n 1))"

declare round_to_f64.simps [simp del]

lemma f64_of_small: "n < 2 ^ 53 \<Longrightarrow> f64_of_u64 n = Finite (of_nat n)"
  using round_to_f64.simps[of n 1] by (simp add: f64_of_u64_def Let_def)

section \<open>Enumerations\<close>

datatype UsageGovernanceEvaluationBoundary =
    BetweenStages

primrec UsageGovernanceEvaluationBoundary_as_str :: "UsageGovernanceEvaluationBoundary \<Rightarrow> string" where
  "UsageGovernanceEvaluationBoundary_as_str UsageGovernanceEvaluationBoundary.BetweenStages = ''between_stages''"

definition UsageGovernanceEvaluationBoundary_ALL :: "UsageGovernanceEvaluationBoundary list" where
  "UsageGovernanceEvaluationBoundary_ALL =
    [UsageGovernanceEvaluationBoundary.BetweenStages]"

datatype UsageGovernanceBlockerSource =
    RuntimeToken | SubscriptionQuota

primrec UsageGovernanceBlockerSource_as_str :: "UsageGovernanceBlockerSource \<Rightarrow> string" where
  "UsageGovernanceBlockerSource_as_str UsageGovernanceBlockerSource.RuntimeToken = ''runtime_token''"
| "UsageGovernanceBlockerSource_as_str UsageGovernanceBlockerSource.SubscriptionQuota = ''subscription_quota''"

definition UsageGovernanceBlockerSource_ALL :: "UsageGovernanceBlockerSource list" where
  "UsageGovernanceBlockerSource_ALL =
    [UsageGovernanceBlockerSource.RuntimeToken, UsageGovernanceBlockerSource.SubscriptionQuota]"

datatype UsageGovernanceRuntimeTokenWindow =
    Rolling5h | CalendarWeek | DaemonSession | PerRun

primrec UsageGovernanceRuntimeTokenWindow_as_str :: "UsageGovernanceRuntimeTokenWindow \<Rightarrow> string" where
  "UsageGovernanceRuntimeTokenWindow_as_str UsageGovernanceRuntimeTokenWindow.Rolling5h = ''rolling_5h''"
| "UsageGovernanceRuntimeTokenWindow_as_str UsageGovernanceRuntimeTokenWindow.CalendarWeek = ''calendar_week''"
| "UsageGovernanceRuntimeTokenWindow_as_str UsageGovernanceRuntimeTokenWindow.DaemonSession = ''daemon_session''"
| "UsageGovernanceRuntimeTokenWindow_as_str UsageGovernanceRuntimeTokenWindow.PerRun = ''per_run''"

definition UsageGovernanceRuntimeTokenWindow_ALL :: "UsageGovernanceRuntimeTokenWindow list" where
  "UsageGovernanceRuntimeTokenWindow_ALL =
    [UsageGovernanceRuntimeTokenWindow.Rolling5h, UsageGovernanceRuntimeTokenWindow.CalendarWeek,
     UsageGovernanceRuntimeTokenWindow.DaemonSession, UsageGovernanceRuntimeTokenWindow.PerRun]"

datatype UsageGovernanceRuntimeTokenMetric =
    TotalTokens

primrec UsageGovernanceRuntimeTokenMetric_as_str :: "UsageGovernanceRuntimeTokenMetric \<Rightarrow> string" where
  "UsageGovernanceRuntimeTokenMetric_as_str UsageGovernanceRuntimeTokenMetric.TotalTokens = ''total_tokens''"

definition UsageGovernanceRuntimeTokenMetric_ALL :: "UsageGovernanceRuntimeTokenMetric list" where
  "UsageGovernanceRuntimeTokenMetric_ALL =
    [UsageGovernanceRuntimeTokenMetric.TotalTokens]"

datatype UsageGovernanceSubscriptionWindow =
    FiveHour | Weekly

primrec UsageGovernanceSubscriptionWindow_as_str :: "UsageGovernanceSubscriptionWindow \<Rightarrow> string" where
  "UsageGovernanceSubscriptionWindow_as_str UsageGovernanceSubscriptionWindow.FiveHour = ''five_hour''"
| "UsageGovernanceSubscriptionWindow_as_str UsageGovernanceSubscriptionWindow.Weekly = ''weekly''"

definition UsageGovernanceSubscriptionWindow_ALL :: "UsageGovernanceSubscriptionWindow list" where
  "UsageGovernanceSubscriptionWindow_ALL =
    [UsageGovernanceSubscriptionWindow.FiveHour, UsageGovernanceSubscriptionWindow.Weekly]"

datatype UsageGovernanceSubscriptionProvider =
    CodexChatGptOauth

primrec UsageGovernanceSubscriptionProvider_as_str :: "UsageGovernanceSubscriptionProvider \<Rightarrow> string" where
  "UsageGovernanceSubscriptionProvider_as_str UsageGovernanceSubscriptionProvider.CodexChatGptOauth = ''codex_chatgpt_oauth''"

definition UsageGovernanceSubscriptionProvider_ALL :: "UsageGovernanceSubscriptionProvider list" where
  "UsageGovernanceSubscriptionProvider_ALL =
    [UsageGovernanceSubscriptionProvider.CodexChatGptOauth]"

datatype UsageGovernanceDegradedPolicy =
    FailOpen | FailClosed

primrec UsageGovernanceDegradedPolicy_as_str :: "UsageGovernanceDegradedPolicy \<Rightarrow> string" where
  "UsageGovernanceDegradedPolicy_as_str UsageGovernanceDegradedPolicy.FailOpen = ''fail_open''"
| "UsageGovernanceDegradedPolicy_as_str UsageGovernanceDegradedPolicy.FailClosed = ''fail_closed''"

definition UsageGovernanceDegradedPolicy_ALL :: "UsageGovernanceDegradedPolicy list" where
  "UsageGovernanceDegradedPolicy_ALL =
    [UsageGovernanceDegradedPolicy.FailOpen, UsageGovernanceDegradedPolicy.FailClosed]"

datatype SubscriptionQuotaTelemetryState =
    Disabled | Healthy | Degraded

primrec SubscriptionQuotaTelemetryState_as_str :: "SubscriptionQuotaTelemetryState \<Rightarrow> string" where
  "SubscriptionQuotaTelemetryState_as_str SubscriptionQuotaTelemetryState.Disabled = ''disabled''"
| "SubscriptionQuotaTelemetryState_as_str SubscriptionQuotaTelemetryState.Healthy = ''healthy''"
| "SubscriptionQuotaTelemetryState_as_str SubscriptionQuotaTelemetryState.Degraded = ''degraded''"

definition SubscriptionQuotaTelemetryState_ALL :: "SubscriptionQuotaTelemetryState list" where
  "SubscriptionQuotaTelemetryState_ALL =
    [SubscriptionQuotaTelemetryState.Disabled, SubscriptionQuotaTelemetryState.Healthy,
     SubscriptionQuotaTelemetryState.Degraded]"

datatype BlockedOrigin =
    StageTerminal | RunnerFailure | RuntimeCapabilityGate | RuntimeException | Operator | Unknown

primrec BlockedOrigin_as_str :: "BlockedOrigin \<Rightarrow> string" where
  "BlockedOrigin_as_str BlockedOrigin.StageTerminal = ''stage_terminal''"
| "BlockedOrigin_as_str BlockedOrigin.RunnerFailure = ''runner_failure''"
| "BlockedOrigin_as_str BlockedOrigin.RuntimeCapabilityGate = ''runtime_capability_gate''"
| "BlockedOrigin_as_str BlockedOrigin.RuntimeException = ''runtime_exception''"
| "BlockedOrigin_as_str BlockedOrigin.Operator = ''operator''"
| "BlockedOrigin_as_str BlockedOrigin.Unknown = ''unknown''"

definition BlockedOrigin_ALL :: "BlockedOrigin list" where
  "BlockedOrigin_ALL =
    [BlockedOrigin.StageTerminal, BlockedOrigin.RunnerFailure,
     BlockedOrigin.RuntimeCapabilityGate, BlockedOrigin.RuntimeException, BlockedOrigin.Operator,
     BlockedOrigin.Unknown]"

datatype FailureScope =
    Environment | Provider | LocalConfiguration | Contract | RuntimePolicy | Semantic | Unknown

primrec FailureScope_as_str :: "FailureScope \<Rightarrow> string" where
  "FailureScope_as_str FailureScope.Environment = ''environment''"
| "FailureScope_as_str FailureScope.Provider = ''provider''"
| "FailureScope_as_str FailureScope.LocalConfiguration = ''local_configuration''"
| "FailureScope_as_str FailureScope.Contract = ''contract''"
| "FailureScope_as_str FailureScope.RuntimePolicy = ''runtime_policy''"
| "FailureScope_as_str FailureScope.Semantic = ''semantic''"
| "FailureScope_as_str FailureScope.Unknown = ''unknown''"

definition FailureScope_ALL :: "FailureScope list" where
  "FailureScope_ALL =
    [FailureScope.Environment, FailureScope.Provider, FailureScope.LocalConfiguration,
     FailureScope.Contract, FailureScope.RuntimePolicy, FailureScope.Semantic,
     FailureScope.Unknown]"

datatype RunnerFailureClass =
    RunnerTimeout | ProviderUnavailable | ProviderRateLimited | NetworkUnavailable
    | RunnerBinaryMissing | AuthMissingOrInvalid | MissingTerminalResult | IllegalTerminalResult
    | ConflictingTerminalResults | MissingRequiredArtifact | CapabilityGrantDenied
    | CapabilityApprovalRequired | CapabilityGrantUnsupported | CapabilityEvidenceMissing
    | RunnerTransportFailure

primrec RunnerFailureClass_as_str :: "RunnerFailureClass \<Rightarrow> string" where
  "RunnerFailureClass_as_str RunnerFailureClass.RunnerTimeout = ''runner_timeout''"
| "RunnerFailureClass_as_str RunnerFailureClass.ProviderUnavailable = ''provider_unavailable''"
| "RunnerFailureClass_as_str RunnerFailureClass.ProviderRateLimited = ''provider_rate_limited''"
| "RunnerFailureClass_as_str RunnerFailureClass.NetworkUnavailable = ''network_unavailable''"
| "RunnerFailureClass_as_str RunnerFailureClass.RunnerBinaryMissing = ''runner_binary_missing''"
| "RunnerFailureClass_as_str RunnerFailureClass.AuthMissingOrInvalid = ''auth_missing_or_invalid''"
| "RunnerFailureClass_as_str RunnerFailureClass.MissingTerminalResult = ''missing_terminal_result''"
| "RunnerFailureClass_as_str RunnerFailureClass.IllegalTerminalResult = ''illegal_terminal_result''"
| "RunnerFailureClass_as_str RunnerFailureClass.ConflictingTerminalResults = ''conflicting_terminal_results''"
| "RunnerFailureClass_as_str RunnerFailureClass.MissingRequiredArtifact = ''missing_required_artifact''"
| "RunnerFailureClass_as_str RunnerFailureClass.CapabilityGrantDenied = ''capability_grant_denied''"
| "RunnerFailureClass_as_str RunnerFailureClass.CapabilityApprovalRequired = ''capability_approval_required''"
| "RunnerFailureClass_as_str RunnerFailureClass.CapabilityGrantUnsupported = ''capability_grant_unsupported''"
| "RunnerFailureClass_as_str RunnerFailureClass.CapabilityEvidenceMissing = ''capability_evidence_missing''"
| "RunnerFailureClass_as_str RunnerFailureClass.RunnerTransportFailure = ''runner_transport_failure''"

definition RunnerFailureClass_ALL :: "RunnerFailureClass list" where
  "RunnerFailureClass_ALL =
    [RunnerFailureClass.RunnerTimeout, RunnerFailureClass.ProviderUnavailable,
     RunnerFailureClass.ProviderRateLimited, RunnerFailureClass.NetworkUnavailable,
     RunnerFailureClass.RunnerBinaryMissing, RunnerFailureClass.AuthMissingOrInvalid,
     RunnerFailureClass.MissingTerminalResult, RunnerFailureClass.IllegalTerminalResult,
     RunnerFailureClass.ConflictingTerminalResults, RunnerFailureClass.MissingRequiredArtifact,
     RunnerFailureClass.CapabilityGrantDenied, RunnerFailureClass.CapabilityApprovalRequired,
     RunnerFailureClass.CapabilityGrantUnsupported, RunnerFailureClass.CapabilityEvidenceMissing,
     RunnerFailureClass.RunnerTransportFailure]"

datatype FailureClassifierCode =
    ExitTimeout | RunnerBinaryMissing | AuthMissingOrInvalid | ProviderRateLimited
    | NetworkUnavailable | ProviderUnavailable | ProviderDefaultUnavailable | RunnerTimeout
    | MissingTerminalResult | IllegalTerminalResult | ConflictingTerminalResults
    | MissingRequiredArtifact | CapabilityGrantDenied | CapabilityApprovalRequired
    | CapabilityGrantUnsupported | CapabilityEvidenceMissing | UnclassifiedFailure

primrec FailureClassifierCode_as_str :: "FailureClassifierCode \<Rightarrow> string" where
  "FailureClassifierCode_as_str FailureClassifierCode.ExitTimeout = ''exit_timeout''"
| "FailureClassifierCode_as_str FailureClassifierCode.RunnerBinaryMissing = ''runner_binary_missing''"
| "FailureClassifierCode_as_str FailureClassifierCode.AuthMissingOrInvalid = ''auth_missing_or_invalid''"
| "FailureClassifierCode_as_str FailureClassifierCode.ProviderRateLimited = ''provider_rate_limited''"
| "FailureClassifierCode_as_str FailureClassifierCode.NetworkUnavailable = ''network_unavailable''"
| "FailureClassifierCode_as_str FailureClassifierCode.ProviderUnavailable = ''provider_unavailable''"
| "FailureClassifierCode_as_str FailureClassifierCode.ProviderDefaultUnavailable = ''provider_default_unavailable''"
| "FailureClassifierCode_as_str FailureClassifierCode.RunnerTimeout = ''runner_timeout''"
| "FailureClassifierCode_as_str FailureClassifierCode.MissingTerminalResult = ''missing_terminal_result''"
| "FailureClassifierCode_as_str FailureClassifierCode.IllegalTerminalResult = ''illegal_terminal_result''"
| "FailureClassifierCode_as_str FailureClassifierCode.ConflictingTerminalResults = ''conflicting_terminal_results''"
| "FailureClassifierCode_as_str FailureClassifierCode.MissingRequiredArtifact = ''missing_required_artifact''"
| "FailureClassifierCode_as_str FailureClassifierCode.CapabilityGrantDenied = ''capability_grant_denied''"
| "FailureClassifierCode_as_str FailureClassifierCode.CapabilityApprovalRequired = ''capability_approval_required''"
| "FailureClassifierCode_as_str FailureClassifierCode.CapabilityGrantUnsupported = ''capability_grant_unsupported''"
| "FailureClassifierCode_as_str FailureClassifierCode.CapabilityEvidenceMissing = ''capability_evidence_missing''"
| "FailureClassifierCode_as_str FailureClassifierCode.UnclassifiedFailure = ''unclassified_failure''"

definition FailureClassifierCode_ALL :: "FailureClassifierCode list" where
  "FailureClassifierCode_ALL =
    [FailureClassifierCode.ExitTimeout, FailureClassifierCode.RunnerBinaryMissing,
     FailureClassifierCode.AuthMissingOrInvalid, FailureClassifierCode.ProviderRateLimited,
     FailureClassifierCode.NetworkUnavailable, FailureClassifierCode.ProviderUnavailable,
     FailureClassifierCode.ProviderDefaultUnavailable, FailureClassifierCode.RunnerTimeout,
     FailureClassifierCode.MissingTerminalResult, FailureClassifierCode.IllegalTerminalResult,
     FailureClassifierCode.ConflictingTerminalResults,
     FailureClassifierCode.MissingRequiredArtifact, FailureClassifierCode.CapabilityGrantDenied,
     FailureClassifierCode.CapabilityApprovalRequired,
     FailureClassifierCode.CapabilityGrantUnsupported,
     FailureClassifierCode.CapabilityEvidenceMissing, FailureClassifierCode.UnclassifiedFailure]"

text \<open>The \<^verbatim>\<open>from_value\<close> that \<^verbatim>\<open>runtime_string_enum!\<close> generates, with its own error.\<close>

definition runtime_from_value ::
  "string \<Rightarrow> ('a \<Rightarrow> string) \<Rightarrow> 'a list \<Rightarrow> string \<Rightarrow> RuntimeJsonError + 'a" where
  "runtime_from_value name as_str variants v =
     (case List.find (\<lambda>x. as_str x = v) variants of
        Some x \<Rightarrow> Inr x
      | None \<Rightarrow> Inl (UnknownValue name v))"

locale runtime_enum =
  fixes name :: string
    and variants :: "'a list"
    and as_str :: "'a \<Rightarrow> string"
    and from_value :: "string \<Rightarrow> RuntimeJsonError + 'a"
  assumes variants_complete: "x \<in> set variants"
    and as_str_distinct: "distinct (map as_str variants)"
    and from_value_table: "from_value v = runtime_from_value name as_str variants v"
begin

lemma from_value_as_str: "from_value (as_str x) = Inr x"
  using find_eq_unique [OF as_str_distinct variants_complete, of x]
  by (simp add: from_value_table runtime_from_value_def)

lemma from_value_Inr: "from_value v = Inr x \<longleftrightarrow> v = as_str x"
proof
  assume "from_value v = Inr x"
  then show "v = as_str x"
    by (auto simp: from_value_table runtime_from_value_def split: option.splits dest!: find_SomeD)
qed (simp add: from_value_as_str)

lemma from_value_Inl: "from_value v = Inl e \<longleftrightarrow> v \<notin> range as_str \<and> e = UnknownValue name v"
proof (cases "from_value v")
  case (Inl d)
  then have "d = UnknownValue name v" by (simp add: from_value_table runtime_from_value_def split: option.splits)
  moreover have "v \<notin> range as_str" using Inl from_value_as_str by auto
  ultimately show ?thesis using Inl by auto
next
  case (Inr x)
  then show ?thesis by (simp add: from_value_Inr from_value_as_str)
qed

end

definition UsageGovernanceEvaluationBoundary_from_value :: "string \<Rightarrow> RuntimeJsonError + UsageGovernanceEvaluationBoundary" where
  "UsageGovernanceEvaluationBoundary_from_value = runtime_from_value ''UsageGovernanceEvaluationBoundary'' UsageGovernanceEvaluationBoundary_as_str UsageGovernanceEvaluationBoundary_ALL"

lemma UsageGovernanceEvaluationBoundary_ALL_complete: "x \<in> set UsageGovernanceEvaluationBoundary_ALL"
  by (cases x) (simp_all add: UsageGovernanceEvaluationBoundary_ALL_def)

interpretation UsageGovernanceEvaluationBoundary_enum: runtime_enum "''UsageGovernanceEvaluationBoundary''" UsageGovernanceEvaluationBoundary_ALL UsageGovernanceEvaluationBoundary_as_str UsageGovernanceEvaluationBoundary_from_value
  by unfold_locales
    (simp_all only: UsageGovernanceEvaluationBoundary_ALL_complete UsageGovernanceEvaluationBoundary_from_value_def, simp add: UsageGovernanceEvaluationBoundary_ALL_def)

definition UsageGovernanceBlockerSource_from_value :: "string \<Rightarrow> RuntimeJsonError + UsageGovernanceBlockerSource" where
  "UsageGovernanceBlockerSource_from_value = runtime_from_value ''UsageGovernanceBlockerSource'' UsageGovernanceBlockerSource_as_str UsageGovernanceBlockerSource_ALL"

lemma UsageGovernanceBlockerSource_ALL_complete: "x \<in> set UsageGovernanceBlockerSource_ALL"
  by (cases x) (simp_all add: UsageGovernanceBlockerSource_ALL_def)

interpretation UsageGovernanceBlockerSource_enum: runtime_enum "''UsageGovernanceBlockerSource''" UsageGovernanceBlockerSource_ALL UsageGovernanceBlockerSource_as_str UsageGovernanceBlockerSource_from_value
  by unfold_locales
    (simp_all only: UsageGovernanceBlockerSource_ALL_complete UsageGovernanceBlockerSource_from_value_def, simp add: UsageGovernanceBlockerSource_ALL_def)

definition UsageGovernanceRuntimeTokenWindow_from_value :: "string \<Rightarrow> RuntimeJsonError + UsageGovernanceRuntimeTokenWindow" where
  "UsageGovernanceRuntimeTokenWindow_from_value = runtime_from_value ''UsageGovernanceRuntimeTokenWindow'' UsageGovernanceRuntimeTokenWindow_as_str UsageGovernanceRuntimeTokenWindow_ALL"

lemma UsageGovernanceRuntimeTokenWindow_ALL_complete: "x \<in> set UsageGovernanceRuntimeTokenWindow_ALL"
  by (cases x) (simp_all add: UsageGovernanceRuntimeTokenWindow_ALL_def)

interpretation UsageGovernanceRuntimeTokenWindow_enum: runtime_enum "''UsageGovernanceRuntimeTokenWindow''" UsageGovernanceRuntimeTokenWindow_ALL UsageGovernanceRuntimeTokenWindow_as_str UsageGovernanceRuntimeTokenWindow_from_value
  by unfold_locales
    (simp_all only: UsageGovernanceRuntimeTokenWindow_ALL_complete UsageGovernanceRuntimeTokenWindow_from_value_def, simp add: UsageGovernanceRuntimeTokenWindow_ALL_def)

definition UsageGovernanceRuntimeTokenMetric_from_value :: "string \<Rightarrow> RuntimeJsonError + UsageGovernanceRuntimeTokenMetric" where
  "UsageGovernanceRuntimeTokenMetric_from_value = runtime_from_value ''UsageGovernanceRuntimeTokenMetric'' UsageGovernanceRuntimeTokenMetric_as_str UsageGovernanceRuntimeTokenMetric_ALL"

lemma UsageGovernanceRuntimeTokenMetric_ALL_complete: "x \<in> set UsageGovernanceRuntimeTokenMetric_ALL"
  by (cases x) (simp_all add: UsageGovernanceRuntimeTokenMetric_ALL_def)

interpretation UsageGovernanceRuntimeTokenMetric_enum: runtime_enum "''UsageGovernanceRuntimeTokenMetric''" UsageGovernanceRuntimeTokenMetric_ALL UsageGovernanceRuntimeTokenMetric_as_str UsageGovernanceRuntimeTokenMetric_from_value
  by unfold_locales
    (simp_all only: UsageGovernanceRuntimeTokenMetric_ALL_complete UsageGovernanceRuntimeTokenMetric_from_value_def, simp add: UsageGovernanceRuntimeTokenMetric_ALL_def)

definition UsageGovernanceSubscriptionWindow_from_value :: "string \<Rightarrow> RuntimeJsonError + UsageGovernanceSubscriptionWindow" where
  "UsageGovernanceSubscriptionWindow_from_value = runtime_from_value ''UsageGovernanceSubscriptionWindow'' UsageGovernanceSubscriptionWindow_as_str UsageGovernanceSubscriptionWindow_ALL"

lemma UsageGovernanceSubscriptionWindow_ALL_complete: "x \<in> set UsageGovernanceSubscriptionWindow_ALL"
  by (cases x) (simp_all add: UsageGovernanceSubscriptionWindow_ALL_def)

interpretation UsageGovernanceSubscriptionWindow_enum: runtime_enum "''UsageGovernanceSubscriptionWindow''" UsageGovernanceSubscriptionWindow_ALL UsageGovernanceSubscriptionWindow_as_str UsageGovernanceSubscriptionWindow_from_value
  by unfold_locales
    (simp_all only: UsageGovernanceSubscriptionWindow_ALL_complete UsageGovernanceSubscriptionWindow_from_value_def, simp add: UsageGovernanceSubscriptionWindow_ALL_def)

definition UsageGovernanceSubscriptionProvider_from_value :: "string \<Rightarrow> RuntimeJsonError + UsageGovernanceSubscriptionProvider" where
  "UsageGovernanceSubscriptionProvider_from_value = runtime_from_value ''UsageGovernanceSubscriptionProvider'' UsageGovernanceSubscriptionProvider_as_str UsageGovernanceSubscriptionProvider_ALL"

lemma UsageGovernanceSubscriptionProvider_ALL_complete: "x \<in> set UsageGovernanceSubscriptionProvider_ALL"
  by (cases x) (simp_all add: UsageGovernanceSubscriptionProvider_ALL_def)

interpretation UsageGovernanceSubscriptionProvider_enum: runtime_enum "''UsageGovernanceSubscriptionProvider''" UsageGovernanceSubscriptionProvider_ALL UsageGovernanceSubscriptionProvider_as_str UsageGovernanceSubscriptionProvider_from_value
  by unfold_locales
    (simp_all only: UsageGovernanceSubscriptionProvider_ALL_complete UsageGovernanceSubscriptionProvider_from_value_def, simp add: UsageGovernanceSubscriptionProvider_ALL_def)

definition UsageGovernanceDegradedPolicy_from_value :: "string \<Rightarrow> RuntimeJsonError + UsageGovernanceDegradedPolicy" where
  "UsageGovernanceDegradedPolicy_from_value = runtime_from_value ''UsageGovernanceDegradedPolicy'' UsageGovernanceDegradedPolicy_as_str UsageGovernanceDegradedPolicy_ALL"

lemma UsageGovernanceDegradedPolicy_ALL_complete: "x \<in> set UsageGovernanceDegradedPolicy_ALL"
  by (cases x) (simp_all add: UsageGovernanceDegradedPolicy_ALL_def)

interpretation UsageGovernanceDegradedPolicy_enum: runtime_enum "''UsageGovernanceDegradedPolicy''" UsageGovernanceDegradedPolicy_ALL UsageGovernanceDegradedPolicy_as_str UsageGovernanceDegradedPolicy_from_value
  by unfold_locales
    (simp_all only: UsageGovernanceDegradedPolicy_ALL_complete UsageGovernanceDegradedPolicy_from_value_def, simp add: UsageGovernanceDegradedPolicy_ALL_def)

definition SubscriptionQuotaTelemetryState_from_value :: "string \<Rightarrow> RuntimeJsonError + SubscriptionQuotaTelemetryState" where
  "SubscriptionQuotaTelemetryState_from_value = runtime_from_value ''SubscriptionQuotaTelemetryState'' SubscriptionQuotaTelemetryState_as_str SubscriptionQuotaTelemetryState_ALL"

lemma SubscriptionQuotaTelemetryState_ALL_complete: "x \<in> set SubscriptionQuotaTelemetryState_ALL"
  by (cases x) (simp_all add: SubscriptionQuotaTelemetryState_ALL_def)

interpretation SubscriptionQuotaTelemetryState_enum: runtime_enum "''SubscriptionQuotaTelemetryState''" SubscriptionQuotaTelemetryState_ALL SubscriptionQuotaTelemetryState_as_str SubscriptionQuotaTelemetryState_from_value
  by unfold_locales
    (simp_all only: SubscriptionQuotaTelemetryState_ALL_complete SubscriptionQuotaTelemetryState_from_value_def, simp add: SubscriptionQuotaTelemetryState_ALL_def)

definition BlockedOrigin_from_value :: "string \<Rightarrow> RuntimeJsonError + BlockedOrigin" where
  "BlockedOrigin_from_value = runtime_from_value ''BlockedOrigin'' BlockedOrigin_as_str BlockedOrigin_ALL"

lemma BlockedOrigin_ALL_complete: "x \<in> set BlockedOrigin_ALL"
  by (cases x) (simp_all add: BlockedOrigin_ALL_def)

interpretation BlockedOrigin_enum: runtime_enum "''BlockedOrigin''" BlockedOrigin_ALL BlockedOrigin_as_str BlockedOrigin_from_value
  by unfold_locales
    (simp_all only: BlockedOrigin_ALL_complete BlockedOrigin_from_value_def, simp add: BlockedOrigin_ALL_def)

definition FailureScope_from_value :: "string \<Rightarrow> RuntimeJsonError + FailureScope" where
  "FailureScope_from_value = runtime_from_value ''FailureScope'' FailureScope_as_str FailureScope_ALL"

lemma FailureScope_ALL_complete: "x \<in> set FailureScope_ALL"
  by (cases x) (simp_all add: FailureScope_ALL_def)

interpretation FailureScope_enum: runtime_enum "''FailureScope''" FailureScope_ALL FailureScope_as_str FailureScope_from_value
  by unfold_locales
    (simp_all only: FailureScope_ALL_complete FailureScope_from_value_def, simp add: FailureScope_ALL_def)

definition RunnerFailureClass_from_value :: "string \<Rightarrow> RuntimeJsonError + RunnerFailureClass" where
  "RunnerFailureClass_from_value = runtime_from_value ''RunnerFailureClass'' RunnerFailureClass_as_str RunnerFailureClass_ALL"

lemma RunnerFailureClass_ALL_complete: "x \<in> set RunnerFailureClass_ALL"
  by (cases x) (simp_all add: RunnerFailureClass_ALL_def)

interpretation RunnerFailureClass_enum: runtime_enum "''RunnerFailureClass''" RunnerFailureClass_ALL RunnerFailureClass_as_str RunnerFailureClass_from_value
  by unfold_locales
    (simp_all only: RunnerFailureClass_ALL_complete RunnerFailureClass_from_value_def, simp add: RunnerFailureClass_ALL_def)

definition FailureClassifierCode_from_value :: "string \<Rightarrow> RuntimeJsonError + FailureClassifierCode" where
  "FailureClassifierCode_from_value = runtime_from_value ''FailureClassifierCode'' FailureClassifierCode_as_str FailureClassifierCode_ALL"

lemma FailureClassifierCode_ALL_complete: "x \<in> set FailureClassifierCode_ALL"
  by (cases x) (simp_all add: FailureClassifierCode_ALL_def)

interpretation FailureClassifierCode_enum: runtime_enum "''FailureClassifierCode''" FailureClassifierCode_ALL FailureClassifierCode_as_str FailureClassifierCode_from_value
  by unfold_locales
    (simp_all only: FailureClassifierCode_ALL_complete FailureClassifierCode_from_value_def, simp add: FailureClassifierCode_ALL_def)

section \<open>Documents\<close>

record RunnerFailureMetadata =
  rf_failure_class :: RunnerFailureClass
  rf_blocked_origin :: BlockedOrigin
  rf_failure_scope :: FailureScope
  rf_auto_requeue_candidate :: bool
  rf_failure_classifier_code :: FailureClassifierCode

record BlockedItemMetadata =
  bm_work_item_kind :: WorkItemKind
  bm_work_item_id :: string
  bm_root_spec_id :: "string option"
  bm_root_idea_id :: "string option"
  bm_blocked_at :: Timestamp
  bm_blocked_origin :: BlockedOrigin
  bm_failure_class :: string
  bm_failure_scope :: FailureScope
  bm_auto_requeue_candidate :: bool
  bm_failure_classifier_code :: "FailureClassifierCode option"
  bm_source_run_id :: "string option"
  bm_source_plane :: "string option"
  bm_source_stage :: "string option"
  bm_terminal_result :: "string option"
  bm_stage_result_path :: "string option"
  bm_stdout_path :: "string option"
  bm_stderr_path :: "string option"

record BlockedTaskRequeueResult =
  bq_task_id :: string
  bq_source_path :: string
  bq_destination_path :: string
  bq_source_state :: string
  bq_destination_state :: string
  bq_actor :: string
  bq_auto :: bool
  bq_reason :: string
  bq_failure_class :: "string option"
  bq_attempt_number :: nat
  bq_diagnostics_path :: "string option"

record StrandedBlockedDependency =
  sb_blocked_task_id :: string
  sb_queued_dependent_ids :: "string list"
  sb_root_spec_id :: "string option"
  sb_metadata :: "BlockedItemMetadata option"

record AutoRecoveryPreRecoverySnapshot =
  av_process_running :: bool
  av_paused :: bool
  av_stop_requested :: bool
  av_active_runs_by_plane :: "string list"
  av_queue_depth_execution :: nat
  av_queue_depth_planning :: nat
  av_queue_depth_learning :: nat

record BlockedDependencyAutoRecoveryDiagnostic =
  bg_schema_version :: string
  bg_kind :: string
  bg_decision :: string
  bg_reason :: string
  bg_created_at :: Timestamp
  bg_blocked_task_id :: string
  bg_queued_dependent_ids :: "string list"
  bg_root_spec_id :: "string option"
  bg_auto_attempt_number :: nat
  bg_metadata :: "BlockedItemMetadata option"
  bg_pre_recovery_snapshot :: AutoRecoveryPreRecoverySnapshot

record MailboxCommandEnvelope =
  me_schema_version :: string
  me_kind :: string
  me_command_id :: string
  me_command :: MailboxCommand
  me_issued_at :: Timestamp
  me_issuer :: string
  me_payload :: "(string \<times> json) list"

record MailboxAddIdeaPayload =
  pi_source_name :: string
  pi_markdown :: string

record MailboxCancelWorkItemPayload =
  pw_work_item_id :: string
  pw_work_item_kind :: "WorkItemKind option"
  pw_reason :: string
  pw_force :: bool

record MailboxArchiveBlockedTaskPayload =
  pa_task_id :: string
  pa_reason :: string

record MailboxSupersedeTaskPayload =
  pu_old_task_id :: string
  pu_replacement_task_id :: string
  pu_reason :: string
  pu_cascade :: MailboxSupersedeCascade

record MailboxRetargetTaskDependencyPayload =
  pe_task_id :: string
  pe_old_dependency_id :: string
  pe_new_dependency_id :: string
  pe_reason :: string

record MailboxIncidentInterventionPayload =
  pn_incident_id :: string
  pn_reason :: string

record MailboxArchiveInvalidIncidentPayload =
  pv_filename :: string
  pv_reason :: string

record MailboxExecutionCapabilityApprovalPayload =
  px_approval_id :: string
  px_reason :: string

record CompileDiagnostics =
  dg_schema_version :: string
  dg_kind :: string
  dg_ok :: bool
  dg_mode_id :: string
  dg_errors :: "string list"
  dg_warnings :: "string list"
  dg_emitted_at :: Timestamp

record TokenUsage =
  tu_input_tokens :: nat
  tu_cached_input_tokens :: nat
  tu_output_tokens :: nat
  tu_thinking_tokens :: nat
  tu_total_tokens :: nat

record UsageGovernanceBlocker =
  ub_source :: UsageGovernanceBlockerSource
  ub_rule_id :: string
  ub_window :: string
  ub_observed :: f64
  ub_threshold :: f64
  ub_metric :: "UsageGovernanceRuntimeTokenMetric option"
  ub_auto_resume_possible :: bool
  ub_next_auto_resume_at :: "Timestamp option"
  ub_detail :: string

record SubscriptionQuotaWindowReading =
  qr_window :: UsageGovernanceSubscriptionWindow
  qr_percent_used :: f64
  qr_resets_at :: "Timestamp option"
  qr_read_at :: Timestamp

record SubscriptionQuotaStatus =
  qs_enabled :: bool
  qs_provider :: UsageGovernanceSubscriptionProvider
  qs_state :: SubscriptionQuotaTelemetryState
  qs_degraded_policy :: "UsageGovernanceDegradedPolicy option"
  qs_detail :: "string option"
  qs_last_refreshed_at :: "Timestamp option"
  qs_windows :: "(UsageGovernanceSubscriptionWindow \<times> SubscriptionQuotaWindowReading) list"

record UsageGovernanceState =
  us_version :: string
  us_enabled :: bool
  us_auto_resume :: bool
  us_auto_resume_possible :: bool
  us_evaluation_boundary :: UsageGovernanceEvaluationBoundary
  us_calendar_timezone :: string
  us_daemon_session_id :: "string option"
  us_last_evaluated_at :: Timestamp
  us_active_blockers :: "UsageGovernanceBlocker list"
  us_paused_by_governance :: bool
  us_next_auto_resume_at :: "Timestamp option"
  us_subscription_quota_status :: SubscriptionQuotaStatus

record UsageGovernanceLedgerEntry =
  ul_dedupe_key :: string
  ul_counted_at :: Timestamp
  ul_stage_completed_at :: Timestamp
  ul_plane :: Plane
  ul_run_id :: string
  ul_stage_id :: string
  ul_work_item_kind :: WorkItemKind
  ul_work_item_id :: string
  ul_token_usage :: TokenUsage
  ul_stage_result_path :: string
  ul_daemon_session_id :: "string option"

record StageResultEnvelope =
  sr_schema_version :: string
  sr_kind :: string
  sr_run_id :: string
  sr_plane :: Plane
  sr_stage :: StageName
  sr_node_id :: string
  sr_stage_kind_id :: string
  sr_work_item_kind :: WorkItemKind
  sr_work_item_id :: string
  sr_terminal_result :: TerminalResult
  sr_result_class :: ResultClass
  sr_summary_status_marker :: string
  sr_success :: bool
  sr_retryable :: bool
  sr_exit_code :: int
  sr_duration_seconds :: f64
  sr_prompt_artifact :: "string option"
  sr_report_artifact :: "string option"
  sr_artifact_paths :: "string list"
  sr_detected_marker :: "string option"
  sr_stdout_path :: "string option"
  sr_stderr_path :: "string option"
  sr_runner_name :: "string option"
  sr_model_name :: "string option"
  sr_thinking_level :: "string option"
  sr_model_reasoning_effort :: "string option"
  sr_token_usage :: "TokenUsage option"
  sr_notes :: "string list"
  sr_metadata :: "(string \<times> json) list"
  sr_started_at :: Timestamp
  sr_completed_at :: Timestamp

record RuntimeErrorContext =
  rx_schema_version :: string
  rx_kind :: string
  rx_error_code :: RuntimeErrorCode
  rx_plane :: Plane
  rx_failed_stage :: StageName
  rx_repair_stage :: StageName
  rx_work_item_kind :: WorkItemKind
  rx_work_item_id :: string
  rx_run_id :: string
  rx_router_action :: "string option"
  rx_terminal_result :: "TerminalResult option"
  rx_stage_result_path :: "string option"
  rx_report_path :: string
  rx_exception_type :: string
  rx_exception_message :: string
  rx_captured_at :: Timestamp

section \<open>Validation\<close>

definition json_safe_id :: "string \<Rightarrow> string \<Rightarrow> RuntimeJsonError + unit" where
  "json_safe_id v f = map_ok (\<lambda>_. ()) (map_err JsonContract (validate_safe_identifier v f))"

definition time_check :: "(string \<Rightarrow> string + int) \<Rightarrow> string \<Rightarrow> Timestamp \<Rightarrow> RuntimeJsonError + unit" where
  "time_check rfc f t = map_ok (\<lambda>_. ()) (parse_time rfc f t)"

definition optional_time_check ::
  "(string \<Rightarrow> string + int) \<Rightarrow> string \<Rightarrow> Timestamp option \<Rightarrow> RuntimeJsonError + unit" where
  "optional_time_check rfc f t = (case t of None \<Rightarrow> Inr () | Some x \<Rightarrow> time_check rfc f x)"

definition field_error :: "bool \<Rightarrow> string \<Rightarrow> string \<Rightarrow> RuntimeJsonError + unit" where
  "field_error ok f m = (if ok then Inr () else Inl (InvalidJsonField f m))"

definition require_finite_non_negative :: "string \<Rightarrow> f64 \<Rightarrow> RuntimeJsonError + unit" where
  "require_finite_non_negative f v =
     field_error (case v of Finite x \<Rightarrow> 0 \<le> x | _ \<Rightarrow> False) f ''must be a finite number >= 0''"

definition require_percent :: "string \<Rightarrow> f64 \<Rightarrow> RuntimeJsonError + unit" where
  "require_percent f v =
     field_error (case v of Finite x \<Rightarrow> 0 \<le> x \<and> x \<le> 100 | _ \<Rightarrow> False) f
       ''must be a finite percentage between 0 and 100''"

subsection \<open>Failures and blocked items\<close>

definition AUTO_REQUEUE_CANDIDATES :: "RunnerFailureClass list" where
  "AUTO_REQUEUE_CANDIDATES =
     [RunnerFailureClass.NetworkUnavailable, RunnerFailureClass.ProviderUnavailable,
      RunnerFailureClass.ProviderRateLimited, RunnerFailureClass.RunnerTimeout]"

definition is_auto_requeue_candidate :: "RunnerFailureClass \<Rightarrow> bool" where
  "is_auto_requeue_candidate c \<longleftrightarrow> c \<in> set AUTO_REQUEUE_CANDIDATES"

definition failure_class_allows_auto_requeue :: "string \<Rightarrow> bool" where
  "failure_class_allows_auto_requeue v =
     (case RunnerFailureClass_from_value (trim v) of
        Inr c \<Rightarrow> is_auto_requeue_candidate c | Inl _ \<Rightarrow> False)"

definition RunnerFailureMetadata_insert_into_map ::
  "RunnerFailureMetadata \<Rightarrow> (string \<times> json) list \<Rightarrow> (string \<times> json) list" where
  "RunnerFailureMetadata_insert_into_map m metadata =
     AList.update ''failure_classifier_code'' (JString (FailureClassifierCode_as_str (rf_failure_classifier_code m)))
     (AList.update ''auto_requeue_candidate'' (JBool (rf_auto_requeue_candidate m))
     (AList.update ''failure_scope'' (JString (FailureScope_as_str (rf_failure_scope m)))
     (AList.update ''blocked_origin'' (JString (BlockedOrigin_as_str (rf_blocked_origin m)))
     (AList.update ''failure_class'' (JString (RunnerFailureClass_as_str (rf_failure_class m))) metadata))))"

definition BlockedItemMetadata_allows_auto_requeue :: "BlockedItemMetadata \<Rightarrow> bool" where
  "BlockedItemMetadata_allows_auto_requeue m \<longleftrightarrow>
     bm_auto_requeue_candidate m \<and> failure_class_allows_auto_requeue (bm_failure_class m)"

definition BlockedItemMetadata_validate_contract ::
  "(string \<Rightarrow> string + int) \<Rightarrow> BlockedItemMetadata \<Rightarrow> RuntimeJsonError + unit" where
  "BlockedItemMetadata_validate_contract rfc m = all_checks
     [json_safe_id (bm_work_item_id m) ''work_item_id'',
      require_field ''failure_class'' (bm_failure_class m),
      time_check rfc ''blocked_at'' (bm_blocked_at m),
      require_optional_field ''root_spec_id'' (bm_root_spec_id m),
      require_optional_field ''root_idea_id'' (bm_root_idea_id m),
      require_optional_field ''source_run_id'' (bm_source_run_id m),
      require_optional_field ''source_plane'' (bm_source_plane m),
      require_optional_field ''source_stage'' (bm_source_stage m),
      require_optional_field ''terminal_result'' (bm_terminal_result m),
      require_optional_field ''stage_result_path'' (bm_stage_result_path m),
      require_optional_field ''stdout_path'' (bm_stdout_path m),
      require_optional_field ''stderr_path'' (bm_stderr_path m)]"

definition BlockedTaskRequeueResult_validate_contract ::
  "BlockedTaskRequeueResult \<Rightarrow> RuntimeJsonError + unit" where
  "BlockedTaskRequeueResult_validate_contract r = all_checks
     [json_safe_id (bq_task_id r) ''task_id'',
      require_field ''source_path'' (bq_source_path r),
      require_field ''destination_path'' (bq_destination_path r),
      validate_json_literal ''source_state'' (bq_source_state r) ''blocked'',
      validate_json_literal ''destination_state'' (bq_destination_state r) ''queue'',
      require_field ''actor'' (bq_actor r),
      require_field ''reason'' (bq_reason r),
      require_optional_field ''failure_class'' (bq_failure_class r),
      require_optional_field ''diagnostics_path'' (bq_diagnostics_path r),
      field_error (bq_attempt_number r \<noteq> 0) ''attempt_number'' ''must be >= 1'']"

text \<open>The loop over the dependents with its set of ids already seen.\<close>

fun dependent_id_entries :: "string set \<Rightarrow> string list \<Rightarrow> RuntimeJsonError + unit" where
  "dependent_id_entries seen [] = Inr ()"
| "dependent_id_entries seen (i # is) =
     and_then (json_safe_id i ''queued_dependent_ids'') (\<lambda>_.
     and_then (field_error (i \<notin> seen) ''queued_dependent_ids''
       (''duplicate queued dependent id '' @ [CHR 0x60] @ i @ [CHR 0x60])) (\<lambda>_.
     dependent_id_entries (insert i seen) is))"

definition queued_dependents_check :: "string list \<Rightarrow> RuntimeJsonError + unit" where
  "queued_dependents_check is =
     and_then (field_error (is \<noteq> []) ''queued_dependent_ids'' ''must not be empty'') (\<lambda>_.
     dependent_id_entries {} is)"

definition optional_metadata_check ::
  "(string \<Rightarrow> string + int) \<Rightarrow> BlockedItemMetadata option \<Rightarrow> RuntimeJsonError + unit" where
  "optional_metadata_check rfc m =
     (case m of None \<Rightarrow> Inr () | Some x \<Rightarrow> BlockedItemMetadata_validate_contract rfc x)"

definition StrandedBlockedDependency_validate_contract ::
  "(string \<Rightarrow> string + int) \<Rightarrow> StrandedBlockedDependency \<Rightarrow> RuntimeJsonError + unit" where
  "StrandedBlockedDependency_validate_contract rfc d = all_checks
     [json_safe_id (sb_blocked_task_id d) ''blocked_task_id'',
      queued_dependents_check (sb_queued_dependent_ids d),
      require_optional_field ''root_spec_id'' (sb_root_spec_id d),
      optional_metadata_check rfc (sb_metadata d)]"

fun active_plane_entries :: "string set \<Rightarrow> string list \<Rightarrow> RuntimeJsonError + unit" where
  "active_plane_entries seen [] = Inr ()"
| "active_plane_entries seen (p # ps) =
     and_then (require_field ''active_runs_by_plane'' p) (\<lambda>_.
     and_then (field_error (p \<notin> seen) ''active_runs_by_plane''
       (''duplicate active plane '' @ [CHR 0x60] @ p @ [CHR 0x60])) (\<lambda>_.
     active_plane_entries (insert p seen) ps))"

definition AutoRecoveryPreRecoverySnapshot_validate_contract ::
  "AutoRecoveryPreRecoverySnapshot \<Rightarrow> RuntimeJsonError + unit" where
  "AutoRecoveryPreRecoverySnapshot_validate_contract s = active_plane_entries {} (av_active_runs_by_plane s)"

definition BlockedDependencyAutoRecoveryDiagnostic_validate_contract ::
  "(string \<Rightarrow> string + int) \<Rightarrow> BlockedDependencyAutoRecoveryDiagnostic \<Rightarrow> RuntimeJsonError + unit" where
  "BlockedDependencyAutoRecoveryDiagnostic_validate_contract rfc d = all_checks
     [validate_json_literal ''schema_version'' (bg_schema_version d) ''1.0'',
      validate_json_literal ''kind'' (bg_kind d) ''blocked_dependency_auto_recovery'',
      require_field ''decision'' (bg_decision d),
      require_field ''reason'' (bg_reason d),
      time_check rfc ''created_at'' (bg_created_at d),
      json_safe_id (bg_blocked_task_id d) ''blocked_task_id'',
      queued_dependents_check (bg_queued_dependent_ids d),
      require_optional_field ''root_spec_id'' (bg_root_spec_id d),
      field_error (bg_auto_attempt_number d \<noteq> 0) ''auto_attempt_number'' ''must be >= 1'',
      optional_metadata_check rfc (bg_metadata d),
      AutoRecoveryPreRecoverySnapshot_validate_contract (bg_pre_recovery_snapshot d)]"

subsection \<open>Mailbox\<close>

definition validate_reason :: "string \<Rightarrow> RuntimeJsonError + unit" where
  "validate_reason r = require_field ''reason'' r"

definition json_single_relative_filename :: "string \<Rightarrow> string \<Rightarrow> RuntimeJsonError + unit" where
  "json_single_relative_filename f v =
     field_error (trim v = v \<and> v \<noteq> [] \<and> CHR ''/'' \<notin> set v) f ''must be a single relative filename''"

text \<open>\<^verbatim>\<open>trim_end_matches(".md")\<close> removes every trailing \<^verbatim>\<open>.md\<close>.\<close>

function trim_end_md :: "string \<Rightarrow> string" where
  "trim_end_md s = (case strip_suffix ''.md'' s of None \<Rightarrow> s | Some t \<Rightarrow> trim_end_md t)"
  by auto
termination by (relation "measure length") (auto simp: strip_suffix_Some)

declare trim_end_md.simps [simp del]

definition MailboxAddIdeaPayload_validate :: "MailboxAddIdeaPayload \<Rightarrow> RuntimeJsonError + unit" where
  "MailboxAddIdeaPayload_validate p = all_checks
     [field_error (trim (pi_source_name p) = pi_source_name p) ''source_name''
        ''must not include surrounding whitespace'',
      field_error (pi_source_name p \<noteq> []) ''source_name'' ''is required'',
      field_error (strip_suffix ''.md'' (pi_source_name p) \<noteq> None) ''source_name'' ''must end with .md'',
      field_error (CHR ''/'' \<notin> set (pi_source_name p)) ''source_name'' ''must be a single relative filename'',
      json_safe_id (trim_end_md (pi_source_name p)) ''source_name'',
      field_error (trim (pi_markdown p) \<noteq> []) ''markdown'' ''is required'']"

text \<open>The payloads that carry a document validate it and rewrap its error.\<close>

definition payload_document :: "('e \<Rightarrow> string) \<Rightarrow> 'e + 'd \<Rightarrow> RuntimeJsonError + 'd" where
  "payload_document show_error r = map_err (\<lambda>e. InvalidJsonDocument (show_error e)) r"

definition MailboxCancelWorkItemPayload_validate ::
  "MailboxCancelWorkItemPayload \<Rightarrow> RuntimeJsonError + unit" where
  "MailboxCancelWorkItemPayload_validate p = all_checks
     [validate_reason (pw_reason p), json_safe_id (pw_work_item_id p) ''work_item_id'']"

definition MailboxArchiveBlockedTaskPayload_validate ::
  "MailboxArchiveBlockedTaskPayload \<Rightarrow> RuntimeJsonError + unit" where
  "MailboxArchiveBlockedTaskPayload_validate p = all_checks
     [validate_reason (pa_reason p), json_safe_id (pa_task_id p) ''task_id'']"

definition MailboxSupersedeTaskPayload_validate ::
  "MailboxSupersedeTaskPayload \<Rightarrow> RuntimeJsonError + unit" where
  "MailboxSupersedeTaskPayload_validate p = all_checks
     [validate_reason (pu_reason p), json_safe_id (pu_old_task_id p) ''old_task_id'',
      json_safe_id (pu_replacement_task_id p) ''replacement_task_id'']"

definition MailboxRetargetTaskDependencyPayload_validate ::
  "MailboxRetargetTaskDependencyPayload \<Rightarrow> RuntimeJsonError + unit" where
  "MailboxRetargetTaskDependencyPayload_validate p = all_checks
     [validate_reason (pe_reason p), json_safe_id (pe_task_id p) ''task_id'',
      json_safe_id (pe_old_dependency_id p) ''old_dependency_id'',
      json_safe_id (pe_new_dependency_id p) ''new_dependency_id'']"

definition MailboxIncidentInterventionPayload_validate ::
  "MailboxIncidentInterventionPayload \<Rightarrow> RuntimeJsonError + unit" where
  "MailboxIncidentInterventionPayload_validate p = all_checks
     [validate_reason (pn_reason p), json_safe_id (pn_incident_id p) ''incident_id'']"

definition MailboxArchiveInvalidIncidentPayload_validate ::
  "MailboxArchiveInvalidIncidentPayload \<Rightarrow> RuntimeJsonError + unit" where
  "MailboxArchiveInvalidIncidentPayload_validate p = all_checks
     [validate_reason (pv_reason p), json_single_relative_filename ''filename'' (pv_filename p)]"

definition MailboxExecutionCapabilityApprovalPayload_validate ::
  "MailboxExecutionCapabilityApprovalPayload \<Rightarrow> RuntimeJsonError + unit" where
  "MailboxExecutionCapabilityApprovalPayload_validate p = all_checks
     [validate_reason (px_reason p), json_safe_id (px_approval_id p) ''approval_id'']"

definition decode_json :: "string \<Rightarrow> ('a \<Rightarrow> string + 'b) \<Rightarrow> 'a \<Rightarrow> RuntimeJsonError + 'b" where
  "decode_json artifact decode v = map_err (JsonDecode artifact) (decode v)"

definition MailboxCommandEnvelope_validate_contract ::
  "(json \<Rightarrow> string + MailboxExecutionCapabilityApprovalPayload) \<Rightarrow> MailboxCommandEnvelope \<Rightarrow>
   RuntimeJsonError + unit" where
  "MailboxCommandEnvelope_validate_contract decode_approval e = all_checks
     [validate_json_literal ''schema_version'' (me_schema_version e) ''1.0'',
      validate_json_literal ''kind'' (me_kind e) ''mailbox_command'',
      require_field ''command_id'' (me_command_id e),
      require_field ''issuer'' (me_issuer e),
      (if me_command e \<in> {MailboxCommand.ApproveExecutionCapability, MailboxCommand.DenyExecutionCapability}
       then and_then (decode_json ''mailbox_execution_capability_approval_payload'' decode_approval
              (JObject (me_payload e))) MailboxExecutionCapabilityApprovalPayload_validate
       else Inr ())]"

subsection \<open>Compile diagnostics and usage governance\<close>

definition CompileDiagnostics_validate_contract :: "CompileDiagnostics \<Rightarrow> RuntimeJsonError + unit" where
  "CompileDiagnostics_validate_contract d = all_checks
     [validate_json_literal ''schema_version'' (dg_schema_version d) ''1.0'',
      validate_json_literal ''kind'' (dg_kind d) ''compile_diagnostics'',
      require_field ''mode_id'' (dg_mode_id d),
      check_that (dg_ok d \<or> dg_errors d \<noteq> []) ''errors are required when ok is false'']"

definition UsageGovernanceBlocker_validate :: "UsageGovernanceBlocker \<Rightarrow> RuntimeJsonError + unit" where
  "UsageGovernanceBlocker_validate b = all_checks
     [require_field ''rule_id'' (ub_rule_id b),
      require_field ''window'' (ub_window b),
      require_finite_non_negative ''observed'' (ub_observed b),
      require_finite_non_negative ''threshold'' (ub_threshold b),
      check_that (\<not> (ub_source b = UsageGovernanceBlockerSource.RuntimeToken \<and> ub_metric b = None))
        ''runtime_token blockers require metric'']"

definition SubscriptionQuotaWindowReading_validate ::
  "(string \<Rightarrow> string + int) \<Rightarrow> SubscriptionQuotaWindowReading \<Rightarrow> RuntimeJsonError + unit" where
  "SubscriptionQuotaWindowReading_validate rfc r = all_checks
     [require_percent ''percent_used'' (qr_percent_used r),
      optional_time_check rfc ''resets_at'' (qr_resets_at r),
      time_check rfc ''read_at'' (qr_read_at r)]"

definition SubscriptionQuotaStatus_default :: SubscriptionQuotaStatus where
  "SubscriptionQuotaStatus_default =
     \<lparr>qs_enabled = False, qs_provider = UsageGovernanceSubscriptionProvider.CodexChatGptOauth,
      qs_state = SubscriptionQuotaTelemetryState.Disabled, qs_degraded_policy = None, qs_detail = None,
      qs_last_refreshed_at = None, qs_windows = []\<rparr>"

definition SubscriptionQuotaStatus_validate ::
  "(string \<Rightarrow> string + int) \<Rightarrow> SubscriptionQuotaStatus \<Rightarrow> RuntimeJsonError + unit" where
  "SubscriptionQuotaStatus_validate rfc s = all_checks
     ([check_that (\<not> (qs_state s = SubscriptionQuotaTelemetryState.Disabled \<and> qs_enabled s))
         ''disabled subscription quota status cannot be enabled'',
       check_that (\<not> (qs_state s = SubscriptionQuotaTelemetryState.Healthy \<and> qs_windows s = []))
         ''healthy subscription quota status requires at least one window'',
       optional_time_check rfc ''last_refreshed_at'' (qs_last_refreshed_at s)]
      @ concat (map (\<lambda>(window, reading).
          [SubscriptionQuotaWindowReading_validate rfc reading,
           check_that (window = qr_window reading)
             ''subscription quota window key must match reading.window'']) (qs_windows s)))"

definition UsageGovernanceState_validate_contract ::
  "(string \<Rightarrow> string + int) \<Rightarrow> UsageGovernanceState \<Rightarrow> RuntimeJsonError + unit" where
  "UsageGovernanceState_validate_contract rfc s = all_checks
     ([validate_json_literal ''version'' (us_version s) ''1.0'',
       require_field ''calendar_timezone'' (us_calendar_timezone s),
       time_check rfc ''last_evaluated_at'' (us_last_evaluated_at s),
       optional_time_check rfc ''next_auto_resume_at'' (us_next_auto_resume_at s)]
      @ map UsageGovernanceBlocker_validate (us_active_blockers s)
      @ [SubscriptionQuotaStatus_validate rfc (us_subscription_quota_status s),
         check_that (us_active_blockers s = [] \<or> us_paused_by_governance s)
           ''active governance blockers require paused_by_governance=true'',
         check_that (us_auto_resume_possible s \<or> us_next_auto_resume_at s = None)
           ''next_auto_resume_at requires auto_resume_possible=true''])"

definition UsageGovernanceLedgerEntry_validate_contract ::
  "(string \<Rightarrow> string + int) \<Rightarrow> UsageGovernanceLedgerEntry \<Rightarrow> RuntimeJsonError + unit" where
  "UsageGovernanceLedgerEntry_validate_contract rfc e = all_checks
     [require_field ''dedupe_key'' (ul_dedupe_key e),
      require_field ''run_id'' (ul_run_id e),
      require_field ''stage_id'' (ul_stage_id e),
      require_field ''work_item_id'' (ul_work_item_id e),
      require_field ''stage_result_path'' (ul_stage_result_path e),
      check_that (ul_dedupe_key e = ul_stage_result_path e) ''dedupe_key must match stage_result_path'',
      time_check rfc ''counted_at'' (ul_counted_at e),
      time_check rfc ''stage_completed_at'' (ul_stage_completed_at e)]"

subsection \<open>Stage results\<close>

definition StageResultEnvelope_validate ::
  "(string \<Rightarrow> string + int) \<Rightarrow> StageResultEnvelope \<Rightarrow> RuntimeJsonError + StageResultEnvelope" where
  "StageResultEnvelope_validate rfc r =
     and_then (all_checks
       [validate_json_literal ''schema_version'' (sr_schema_version r) ''1.0'',
        validate_json_literal ''kind'' (sr_kind r) ''stage_result'',
        check_that (stage_plane (sr_stage r) = sr_plane r) ''stage must belong to plane'']) (\<lambda>_.
     let r1 = r\<lparr>sr_node_id := (if sr_node_id r = [] then StageName_as_str (sr_stage r) else sr_node_id r),
                sr_stage_kind_id :=
                  (if sr_stage_kind_id r = [] then StageName_as_str (sr_stage r) else sr_stage_kind_id r)\<rparr> in
     and_then (check_that (sr_summary_status_marker r1 = TerminalResult_marker (sr_terminal_result r1))
       ''summary_status_marker must match terminal_result'') (\<lambda>_.
     and_then (case sr_detected_marker r1 of
         None \<Rightarrow> Inr ()
       | Some marker \<Rightarrow>
           and_then (map_err JsonContract (parse_terminal_marker_for_plane (sr_plane r1) marker)) (\<lambda>detected.
             check_that (detected = sr_terminal_result r1) ''detected_marker must match terminal_result''))
       (\<lambda>_.
     and_then (parse_time rfc ''completed_at'' (sr_completed_at r1)) (\<lambda>completed.
     and_then (parse_time rfc ''started_at'' (sr_started_at r1)) (\<lambda>started.
     map_ok (\<lambda>_. r1) (all_checks
       [check_that (started \<le> completed) ''completed_at cannot precede started_at'',
        field_error (\<not> f64_less (sr_duration_seconds r1) (Finite 0)) ''duration_seconds'' ''must be >= 0'',
        check_that (\<not> (sr_result_class r1 = ResultClass.Success \<and> \<not> sr_success r1))
          ''success result_class requires success=true'',
        check_that (\<not> (sr_result_class r1 \<noteq> ResultClass.Success \<and> sr_success r1))
          ''non-success result_class requires success=false'']))))))"

text \<open>The raw envelope has the fields of the envelope, but its terminal result is text.\<close>

definition try_into_stage_result ::
  "(string \<Rightarrow> string + int) \<Rightarrow> string \<Rightarrow> StageResultEnvelope \<Rightarrow> RuntimeJsonError + StageResultEnvelope" where
  "try_into_stage_result rfc terminal_result raw =
     and_then (map_err JsonContract (terminal_result_for_plane (sr_plane raw) terminal_result)) (\<lambda>r.
       StageResultEnvelope_validate rfc (raw\<lparr>sr_terminal_result := r\<rparr>))"

subsection \<open>Runtime errors\<close>

definition RuntimeErrorContext_validate :: "RuntimeErrorContext \<Rightarrow> RuntimeJsonError + unit" where
  "RuntimeErrorContext_validate c = all_checks
     [validate_json_literal ''schema_version'' (rx_schema_version c) ''1.0'',
      validate_json_literal ''kind'' (rx_kind c) ''runtime_error_context'',
      check_that (stage_plane (rx_failed_stage c) = rx_plane c) ''failed_stage must belong to plane'',
      check_that (stage_plane (rx_repair_stage c) = rx_plane c) ''repair_stage must belong to plane'',
      (case rx_terminal_result c of
         None \<Rightarrow> Inr ()
       | Some r \<Rightarrow>
           if r \<in> set (legal_terminal_results (rx_failed_stage c)) then Inr ()
           else Inl (JsonContract (TerminalResultNotAllowed (rx_failed_stage c) r)))]"

definition try_into_runtime_error_context ::
  "string option \<Rightarrow> RuntimeErrorContext \<Rightarrow> RuntimeJsonError + RuntimeErrorContext" where
  "try_into_runtime_error_context terminal_result raw =
     and_then (case terminal_result of
         None \<Rightarrow> Inr None
       | Some v \<Rightarrow> map_err JsonContract (map_ok Some (terminal_result_for_plane (rx_plane raw) v))) (\<lambda>r.
     let c = raw\<lparr>rx_terminal_result := r\<rparr> in map_ok (\<lambda>_. c) (RuntimeErrorContext_validate c))"

section \<open>Facts\<close>

lemma field_error_Inr [simp]: "field_error ok f m = Inr u \<longleftrightarrow> ok"
  by (simp add: field_error_def)

lemma time_check_Inr [simp]: "time_check rfc f t = Inr u \<longleftrightarrow> (\<exists>i. rfc t = Inr i)"
  by (auto simp: time_check_def parse_time_def map_ok_eq_Inr map_err_eq_Inr)

lemma optional_time_check_Inr [simp]:
  "optional_time_check rfc f t = Inr u \<longleftrightarrow> (\<forall>x. t = Some x \<longrightarrow> (\<exists>i. rfc x = Inr i))"
  by (auto simp: optional_time_check_def split: option.split)

definition with_default_names :: "StageResultEnvelope \<Rightarrow> StageResultEnvelope" where
  "with_default_names r =
     r\<lparr>sr_node_id := (if sr_node_id r = [] then StageName_as_str (sr_stage r) else sr_node_id r),
       sr_stage_kind_id :=
         (if sr_stage_kind_id r = [] then StageName_as_str (sr_stage r) else sr_stage_kind_id r)\<rparr>"

lemma StageName_as_str_nonempty: "StageName_as_str s \<noteq> []"
  by (cases s) simp_all

lemma with_default_names:
  "sr_node_id (with_default_names r) \<noteq> []" "sr_stage_kind_id (with_default_names r) \<noteq> []"
  "with_default_names (with_default_names r) = with_default_names r"
  by (simp_all add: with_default_names_def StageName_as_str_nonempty)

lemma stage_result_validate_iff:
  "StageResultEnvelope_validate rfc r = Inr r1 \<longleftrightarrow>
     r1 = with_default_names r \<and> sr_schema_version r = ''1.0'' \<and> sr_kind r = ''stage_result''
     \<and> stage_plane (sr_stage r) = sr_plane r
     \<and> sr_summary_status_marker r = TerminalResult_marker (sr_terminal_result r)
     \<and> (\<forall>m. sr_detected_marker r = Some m
          \<longrightarrow> parse_terminal_marker_for_plane (sr_plane r) m = Inr (sr_terminal_result r))
     \<and> (\<exists>s t. rfc (sr_started_at r) = Inr s \<and> rfc (sr_completed_at r) = Inr t \<and> s \<le> t)
     \<and> \<not> f64_less (sr_duration_seconds r) (Finite 0)
     \<and> (sr_success r \<longleftrightarrow> sr_result_class r = ResultClass.Success)"
proof -
  have detected: "(case sr_detected_marker r of None \<Rightarrow> Inr ()
       | Some marker \<Rightarrow>
           and_then (map_err JsonContract (parse_terminal_marker_for_plane (sr_plane r) marker)) (\<lambda>detected.
             check_that (detected = sr_terminal_result r) ''detected_marker must match terminal_result'')) = Inr ()
     \<longleftrightarrow> (\<forall>m. sr_detected_marker r = Some m
          \<longrightarrow> parse_terminal_marker_for_plane (sr_plane r) m = Inr (sr_terminal_result r))"
    by (auto simp: and_then_eq_Inr map_err_eq_Inr split: option.split)
  have fields: "sr_summary_status_marker (with_default_names r) = sr_summary_status_marker r"
    "sr_terminal_result (with_default_names r) = sr_terminal_result r"
    "sr_detected_marker (with_default_names r) = sr_detected_marker r" "sr_plane (with_default_names r) = sr_plane r"
    "sr_started_at (with_default_names r) = sr_started_at r"
    "sr_completed_at (with_default_names r) = sr_completed_at r"
    "sr_duration_seconds (with_default_names r) = sr_duration_seconds r"
    "sr_result_class (with_default_names r) = sr_result_class r" "sr_success (with_default_names r) = sr_success r"
    by (simp_all add: with_default_names_def)
  show ?thesis
    unfolding StageResultEnvelope_validate_def Let_def with_default_names_def[symmetric] fields and_then_eq_Inr
      map_ok_eq_Inr all_checks_iffs check_that_Inr field_error_Inr parse_time_def map_err_eq_Inr
      validate_json_literal_def
    by (auto simp: detected)
qed

lemma validated_stage_resultE:
  assumes "StageResultEnvelope_validate rfc r = Inr r1"
  shows "stage_plane (sr_stage r1) = sr_plane r1" "sr_node_id r1 \<noteq> []" "sr_stage_kind_id r1 \<noteq> []"
    "sr_summary_status_marker r1 = TerminalResult_marker (sr_terminal_result r1)"
    "sr_success r1 \<longleftrightarrow> sr_result_class r1 = ResultClass.Success"
    "StageResultEnvelope_validate rfc r1 = Inr r1"
  using assms with_default_names[of r] unfolding stage_result_validate_iff
  by (simp_all add: with_default_names_def StageName_as_str_nonempty)

end
