(* ===== verification/Stage_Router.thy ===== *)
theory Stage_Router
  imports Scheduler Runtime_Documents
begin

text \<open>
  Routing of a stage result through the compiled graph and the recovery counters, from
  \<^verbatim>\<open>src/src/runtime/tick.rs\<close> (\<^verbatim>\<open>route_stage_result_from_graph\<close> and what it calls,
  \<^verbatim>\<open>increment_route_counters\<close>) and \<^verbatim>\<open>src/src/workspace/state_store.rs\<close>
  (\<^verbatim>\<open>reset_forward_progress_counters\<close>). The counters file is its document, passed explicitly.
  Counters are naturals: a \<^verbatim>\<open>u64\<close> counter is increased by one per routed result.
  Metadata, a JSON object, is an association list.
\<close>

section \<open>Data\<close>

datatype RouterAction = RunStage | HandoffRoute | IdleRoute | BlockedRoute

primrec RouterAction_as_str :: "RouterAction \<Rightarrow> string" where
  "RouterAction_as_str RunStage = ''run_stage''"
| "RouterAction_as_str HandoffRoute = ''handoff''"
| "RouterAction_as_str IdleRoute = ''idle''"
| "RouterAction_as_str BlockedRoute = ''blocked''"

record RouterDecision =
  rd_action :: RouterAction
  rd_next_plane :: "Plane option"
  rd_next_stage :: "StageName option"
  rd_reason :: string
  rd_next_node_id :: "string option"
  rd_next_stage_kind_id :: "string option"
  rd_failure_class :: "string option"
  rd_counter_key :: "string option"
  rd_create_incident :: bool

datatype RecoveryCounterField =
  TroubleshootAttempts | MechanicAttempts | FixCycles | ConsultantInvocations

section \<open>Failure classes\<close>

fun json_as_str :: "json \<Rightarrow> string option" where
  "json_as_str (JString s) = Some s"
| "json_as_str _ = None"

definition metadata_str :: "StageResultEnvelope \<Rightarrow> string \<Rightarrow> string option" where
  "metadata_str r key = Option.bind (map_of (sr_metadata r) key) json_as_str"

text \<open>The loop of \<^verbatim>\<open>normalize_failure_class\<close>, with its flag.\<close>

fun class_chars :: "bool \<Rightarrow> string \<Rightarrow> string" where
  "class_chars previous_was_separator [] = []"
| "class_chars previous_was_separator (c # cs) =
     (if is_ascii_alphanumeric c then to_ascii_lower c # class_chars False cs
      else if \<not> previous_was_separator then CHR ''_'' # class_chars True cs
      else class_chars previous_was_separator cs)"

definition drop_trailing_separators :: "string \<Rightarrow> string" where
  "drop_trailing_separators s = rev (dropWhile (\<lambda>c. c = CHR ''_'') (rev s))"

definition normalize_failure_class :: "string \<Rightarrow> RuntimeTickError + string" where
  "normalize_failure_class v =
     (let normalized = drop_trailing_separators (class_chars True (trim v)) in
      if normalized = [] then invalid_state ''failure_class cannot be empty'' else Inr normalized)"

definition failure_class_from_stage_result :: "StageResultEnvelope \<Rightarrow> string option" where
  "failure_class_from_stage_result r =
     (case metadata_str r ''failure_class'' of
        None \<Rightarrow> None
      | Some v \<Rightarrow> if trim v = [] then None else Some v)"

definition resolve_failure_class ::
  "RuntimeSnapshot \<Rightarrow> StageResultEnvelope \<Rightarrow> string \<Rightarrow> RuntimeTickError + string" where
  "resolve_failure_class s r fallback =
     (case failure_class_from_stage_result r of
        Some v \<Rightarrow> normalize_failure_class v
      | None \<Rightarrow>
          (case rs_current_failure_class s of
             Some v \<Rightarrow> normalize_failure_class (if trim v \<noteq> [] then v else fallback)
           | None \<Rightarrow> normalize_failure_class fallback))"

section \<open>Recovery counters\<close>

definition is_ok_class :: "string \<Rightarrow> string \<Rightarrow> bool" where
  "is_ok_class v normalized = (normalize_failure_class v = Inr normalized)"

definition counter_attempts ::
  "RuntimeSnapshot \<Rightarrow> RecoveryCounters \<Rightarrow> string \<Rightarrow> Plane \<Rightarrow> RuntimeTickError + nat" where
  "counter_attempts s cs failure_class p =
     (case (rs_active_work_item_kind s, rs_active_work_item_id s) of
        (Some kind, Some item_id) \<Rightarrow>
          map_ok (\<lambda>normalized.
            case List.find (\<lambda>e. rc_work_item_kind e = kind \<and> rc_work_item_id e = item_id
                     \<and> is_ok_class (rc_failure_class e) normalized) (rk_entries cs) of
              None \<Rightarrow> 0
            | Some e \<Rightarrow> (case p of
                Plane.Execution \<Rightarrow> rc_troubleshoot_attempt_count e
              | _ \<Rightarrow> rc_mechanic_attempt_count e))
            (normalize_failure_class failure_class)
      | _ \<Rightarrow> Inr 0)"

definition counter_key_from_snapshot :: "RuntimeSnapshot \<Rightarrow> string \<Rightarrow> RuntimeTickError + string option" where
  "counter_key_from_snapshot s failure_class =
     (case (rs_active_work_item_kind s, rs_active_work_item_id s) of
        (Some kind, Some item_id) \<Rightarrow>
          map_ok (\<lambda>normalized. Some (WorkItemKind_as_str kind @ '':'' @ trim item_id @ '':'' @ normalized))
            (normalize_failure_class failure_class)
      | _ \<Rightarrow> Inr None)"

text \<open>\<^verbatim>\<open>recovery_counter_entry_mut\<close> followed by an update of the entry: the first entry of the key
  is updated in place, or a fresh one is pushed and updated.\<close>

definition entry_has_key :: "string \<Rightarrow> WorkItemKind \<Rightarrow> string \<Rightarrow> RecoveryCounterEntry \<Rightarrow> bool" where
  "entry_has_key failure_class kind item_id e \<longleftrightarrow>
     rc_failure_class e = failure_class \<and> rc_work_item_kind e = kind \<and> rc_work_item_id e = item_id"

fun update_first :: "('a \<Rightarrow> bool) \<Rightarrow> ('a \<Rightarrow> 'a) \<Rightarrow> 'a list \<Rightarrow> 'a list" where
  "update_first P f [] = []"
| "update_first P f (x # xs) = (if P x then f x # xs else x # update_first P f xs)"

definition recovery_counter_entry_mut ::
  "RecoveryCounters \<Rightarrow> string \<Rightarrow> WorkItemKind \<Rightarrow> string \<Rightarrow> Timestamp \<Rightarrow> RecoveryCounters" where
  "recovery_counter_entry_mut cs failure_class kind item_id now =
     (if list_ex (entry_has_key failure_class kind item_id) (rk_entries cs) then cs
      else cs\<lparr>rk_entries := rk_entries cs @
        [\<lparr>rc_failure_class = failure_class, rc_work_item_id = item_id, rc_work_item_kind = kind,
          rc_troubleshoot_attempt_count = 0, rc_mechanic_attempt_count = 0, rc_fix_cycle_count = 0,
          rc_consultant_invocations = 0, rc_last_updated_at = now\<rparr>]\<rparr>)"

definition bump_entry :: "RecoveryCounterField \<Rightarrow> Timestamp \<Rightarrow> RecoveryCounterEntry \<Rightarrow> RecoveryCounterEntry" where
  "bump_entry field now e =
     (case field of
        TroubleshootAttempts \<Rightarrow> e\<lparr>rc_troubleshoot_attempt_count := rc_troubleshoot_attempt_count e + 1\<rparr>
      | MechanicAttempts \<Rightarrow> e\<lparr>rc_mechanic_attempt_count := rc_mechanic_attempt_count e + 1\<rparr>
      | FixCycles \<Rightarrow> e\<lparr>rc_fix_cycle_count := rc_fix_cycle_count e + 1\<rparr>
      | ConsultantInvocations \<Rightarrow> e\<lparr>rc_consultant_invocations := rc_consultant_invocations e + 1\<rparr>)
     \<lparr>rc_last_updated_at := now\<rparr>"

definition show_entry_count ::
  "RecoveryCounterField \<Rightarrow> RecoveryCounterEntry \<Rightarrow> RuntimeSnapshot \<Rightarrow> RuntimeSnapshot" where
  "show_entry_count field e s =
     (case field of
        TroubleshootAttempts \<Rightarrow> s\<lparr>rs_troubleshoot_attempt_count := rc_troubleshoot_attempt_count e\<rparr>
      | MechanicAttempts \<Rightarrow> s\<lparr>rs_mechanic_attempt_count := rc_mechanic_attempt_count e\<rparr>
      | FixCycles \<Rightarrow> s\<lparr>rs_fix_cycle_count := rc_fix_cycle_count e\<rparr>
      | ConsultantInvocations \<Rightarrow> s\<lparr>rs_consultant_invocations := rc_consultant_invocations e\<rparr>)"

definition increment_counter_field ::
  "RuntimeSnapshot \<Rightarrow> RecoveryCounters \<Rightarrow> string \<Rightarrow> WorkItemKind \<Rightarrow> string \<Rightarrow> RecoveryCounterField \<Rightarrow>
   Timestamp \<Rightarrow> RuntimeTickError + RuntimeSnapshot \<times> RecoveryCounters" where
  "increment_counter_field s cs failure_class kind item_id field now =
     (if trim failure_class = [] then invalid_state ''failure_class is required''
      else if trim item_id = [] then invalid_state ''work_item_id is required''
      else
        let key = entry_has_key failure_class kind item_id;
            present = rk_entries (recovery_counter_entry_mut cs failure_class kind item_id now);
            bumped = update_first key (bump_entry field now) present
        in Inr ((case List.find key bumped of None \<Rightarrow> s | Some e \<Rightarrow> show_entry_count field e s),
                cs\<lparr>rk_entries := bumped\<rparr>))"

definition reset_forward_progress_counters ::
  "RecoveryCounters \<Rightarrow> WorkItemKind \<Rightarrow> string \<Rightarrow> RecoveryCounters" where
  "reset_forward_progress_counters cs kind item_id =
     cs\<lparr>rk_entries := filter (\<lambda>e. rc_work_item_kind e \<noteq> kind \<or> rc_work_item_id e \<noteq> item_id) (rk_entries cs)\<rparr>"

section \<open>Lookups in the graph\<close>

definition transition_for_source ::
  "FrozenGraphPlanePlan \<Rightarrow> string \<Rightarrow> string \<Rightarrow> RuntimeTickError + CompiledGraphTransitionPlan" where
  "transition_for_source g source_node_id oc =
     (case sort_key gt_priority
             (filter (\<lambda>t. gt_source_node_id t = source_node_id \<and> gt_outcome t = oc)
               (fg_compiled_transitions g)) of
        [] \<Rightarrow> invalid_state (''compiled graph is missing transition for '' @ source_node_id @ '':'' @ oc)
      | t # _ \<Rightarrow> Inr t)"

definition resume_policy_for_source ::
  "FrozenGraphPlanePlan \<Rightarrow> string \<Rightarrow> string \<Rightarrow> CompiledGraphResumePolicyPlan option" where
  "resume_policy_for_source g source_node_id oc =
     List.find (\<lambda>p. gr_source_node_id p = source_node_id \<and> gr_on_outcome p = oc)
       (fg_compiled_resume_policies g)"

definition threshold_policy_for_source ::
  "FrozenGraphPlanePlan \<Rightarrow> string \<Rightarrow> string \<Rightarrow> GraphLoopCounterName \<Rightarrow>
   CompiledGraphThresholdPolicyPlan option" where
  "threshold_policy_for_source g source_node_id oc counter_name =
     List.find (\<lambda>p. source_node_id \<in> set (gh_source_node_ids p) \<and> gh_on_outcome p = oc
                  \<and> gh_counter_name p = counter_name)
       (fg_compiled_threshold_policies g)"

definition terminal_state_by_id ::
  "FrozenGraphPlanePlan \<Rightarrow> string \<Rightarrow> RuntimeTickError + GraphLoopTerminalStateDefinition" where
  "terminal_state_by_id g i =
     (case List.find (\<lambda>t. gs_terminal_state_id t = i) (fg_terminal_states g) of
        None \<Rightarrow> invalid_state (''compiled graph is missing terminal state '' @ [CHR 0x60] @ i @ [CHR 0x60])
      | Some t \<Rightarrow> Inr t)"

definition node_plan_by_id ::
  "FrozenGraphPlanePlan \<Rightarrow> string \<Rightarrow> RuntimeTickError + MaterializedGraphNodePlan" where
  "node_plan_by_id g node_id =
     (case List.find (\<lambda>n. gn_node_id n = node_id) (fg_nodes g) of
        None \<Rightarrow> invalid_state (''compiled graph is missing '' @ [CHR 0x60] @ node_id @ [CHR 0x60] @ '' node'')
      | Some n \<Rightarrow> Inr n)"

section \<open>Decisions\<close>

definition run_stage_decision ::
  "FrozenGraphPlanePlan \<Rightarrow> string \<Rightarrow> string \<Rightarrow> string option \<Rightarrow> string option \<Rightarrow>
   RuntimeTickError + RouterDecision" where
  "run_stage_decision g target_node_id reason failure_class counter_key =
     and_then (node_plan_by_id g target_node_id) (\<lambda>node.
     map_ok (\<lambda>stage. \<lparr>rd_action = RunStage, rd_next_plane = Some (fg_plane g), rd_next_stage = Some stage,
              rd_reason = reason, rd_next_node_id = Some (gn_node_id node),
              rd_next_stage_kind_id = Some (gn_stage_kind_id node), rd_failure_class = failure_class,
              rd_counter_key = counter_key, rd_create_incident = False\<rparr>)
       (tick_stage_name_for_plane (fg_plane g) (gn_stage_kind_id node)))"

definition idle_decision :: "string \<Rightarrow> RouterDecision" where
  "idle_decision reason =
     \<lparr>rd_action = IdleRoute, rd_next_plane = None, rd_next_stage = None, rd_reason = reason,
      rd_next_node_id = None, rd_next_stage_kind_id = None, rd_failure_class = None,
      rd_counter_key = None, rd_create_incident = False\<rparr>"

definition blocked_decision :: "string \<Rightarrow> string option \<Rightarrow> string option \<Rightarrow> RouterDecision" where
  "blocked_decision reason failure_class counter_key =
     \<lparr>rd_action = BlockedRoute, rd_next_plane = None, rd_next_stage = None, rd_reason = reason,
      rd_next_node_id = None, rd_next_stage_kind_id = None, rd_failure_class = failure_class,
      rd_counter_key = counter_key, rd_create_incident = False\<rparr>"

definition handoff_to_auditor :: "string \<Rightarrow> string option \<Rightarrow> RouterDecision" where
  "handoff_to_auditor reason failure_class =
     \<lparr>rd_action = HandoffRoute, rd_next_plane = Some Plane.Planning, rd_next_stage = Some StageName.Auditor,
      rd_reason = reason, rd_next_node_id = None, rd_next_stage_kind_id = None,
      rd_failure_class = failure_class, rd_counter_key = None, rd_create_incident = True\<rparr>"

text \<open>The first metadata stage that names an allowed node of the graph, or the default target.\<close>

fun resume_target ::
  "FrozenGraphPlanePlan \<Rightarrow> StageResultEnvelope \<Rightarrow> CompiledGraphResumePolicyPlan \<Rightarrow> string list \<Rightarrow> string" where
  "resume_target g r policy [] = gr_default_target_node_id policy"
| "resume_target g r policy (key # keys) =
     (case metadata_str r key of
        None \<Rightarrow> resume_target g r policy keys
      | Some candidate \<Rightarrow>
          let normalized = to_ascii_lowercase (trim candidate) in
          if normalized = [] \<or> normalized \<in> set (gr_disallowed_target_node_ids policy)
             \<or> list_all (\<lambda>n. gn_node_id n \<noteq> normalized) (fg_nodes g)
          then resume_target g r policy keys
          else normalized)"

definition decision_from_resume_policy ::
  "FrozenGraphPlanePlan \<Rightarrow> string \<Rightarrow> StageResultEnvelope \<Rightarrow> CompiledGraphResumePolicyPlan \<Rightarrow>
   RuntimeTickError + RouterDecision" where
  "decision_from_resume_policy g source_stage r policy =
     (let target = resume_target g r policy (gr_metadata_stage_keys policy) in
      and_then
       (if source_stage = ''troubleshooter'' then Inr ''troubleshoot_complete''
        else if source_stage = ''consultant'' then Inr ''consultant_local_recovery''
        else if source_stage = ''mechanic'' then Inr ''mechanic_complete''
        else invalid_state (''unsupported resume-policy source stage: '' @ source_stage))
       (\<lambda>reason. run_stage_decision g target reason None None))"

definition decision_from_threshold_resolution ::
  "FrozenGraphPlanePlan \<Rightarrow> RuntimeSnapshot \<Rightarrow> CompiledGraphThresholdPolicyPlan \<Rightarrow> string \<Rightarrow> string \<Rightarrow>
   RuntimeTickError + RouterDecision" where
  "decision_from_threshold_resolution g s policy failure_class reason =
     and_then (counter_key_from_snapshot s failure_class) (\<lambda>counter_key.
       case gh_exhausted_target_node_id policy of
         Some target \<Rightarrow> run_stage_decision g target reason (Some failure_class) counter_key
       | None \<Rightarrow>
           (case gh_exhausted_terminal_state_id policy of
              None \<Rightarrow> invalid_state ''threshold policy is missing exhausted target''
            | Some terminal_id \<Rightarrow>
                and_then (terminal_state_by_id g terminal_id) (\<lambda>terminal.
                  if gs_terminal_class terminal \<noteq> BlockedTerminal
                  then invalid_state (''unsupported threshold terminal class: ''
                         @ GraphLoopTerminalClass_as_str (gs_terminal_class terminal))
                  else Inr (blocked_decision (reason @ '':mechanic_attempts_exhausted'')
                              (Some failure_class) counter_key))))"

section \<open>Routing\<close>

definition validate_stage_result_matches_snapshot ::
  "RuntimeSnapshot \<Rightarrow> StageResultEnvelope \<Rightarrow> RuntimeTickError + unit" where
  "validate_stage_result_matches_snapshot s r =
     (case active_run_for_plane s (sr_plane r) of
        None \<Rightarrow> invalid_state ''stage result has no active run for its plane''
      | Some run \<Rightarrow>
          if ar_stage run \<noteq> sr_stage r
          then invalid_state ''stage result stage does not match active run''
          else if ar_node_id run \<noteq> sr_node_id r
          then invalid_state ''stage result node_id does not match active run''
          else if ar_stage_kind_id run \<noteq> sr_stage_kind_id r
          then invalid_state ''stage result stage_kind_id does not match active run''
          else (case ar_request_kind run of
             ClosureTarget \<Rightarrow>
               if ar_closure_target_root_spec_id run \<noteq> Some (sr_work_item_id r)
               then invalid_state ''closure target stage result does not match active root spec''
               else Inr ()
           | _ \<Rightarrow>
               if ar_work_item_kind run \<noteq> Some (sr_work_item_kind r)
                  \<or> ar_work_item_id run \<noteq> Some (sr_work_item_id r)
               then invalid_state ''stage result work item identity does not match active run''
               else Inr ()))"

definition ok_option :: "'e + 'a \<Rightarrow> 'a option" where
  "ok_option r = (case r of Inl _ \<Rightarrow> None | Inr a \<Rightarrow> Some a)"

text \<open>The blocks of the routers: a threshold that is reached decides before anything else; then a
  resume policy; then the transition, to a node or to a terminal state.\<close>

definition execution_fix_threshold ::
  "FrozenGraphPlanePlan \<Rightarrow> RuntimeSnapshot \<Rightarrow> StageResultEnvelope \<Rightarrow>
   RuntimeTickError + RouterDecision option" where
  "execution_fix_threshold g s r =
     (let oc = TerminalResult_as_str (sr_terminal_result r) in
      if oc = ''FIX_NEEDED'' then
        (case threshold_policy_for_source g (sr_node_id r) oc FixCycleCount of
           None \<Rightarrow> Inr None
         | Some policy \<Rightarrow>
             if gh_threshold policy \<le> rs_fix_cycle_count s then
               and_then (resolve_failure_class s r ''fix_cycle_exhausted'') (\<lambda>failure_class.
                 map_ok Some (decision_from_threshold_resolution g s policy failure_class ''fix_cycle_exhausted''))
             else Inr None)
      else Inr None)"

definition blocked_threshold ::
  "GraphLoopCounterName \<Rightarrow> Plane \<Rightarrow> FrozenGraphPlanePlan \<Rightarrow> RuntimeSnapshot \<Rightarrow> StageResultEnvelope \<Rightarrow>
   RecoveryCounters \<Rightarrow> RuntimeTickError + RouterDecision option" where
  "blocked_threshold counter_name p g s r cs =
     (let oc = TerminalResult_as_str (sr_terminal_result r);
          reason = sr_stage_kind_id r @ ''_blocked'' in
      and_then (resolve_failure_class s r reason) (\<lambda>failure_class.
        case threshold_policy_for_source g (sr_node_id r) oc counter_name of
          None \<Rightarrow> Inr None
        | Some policy \<Rightarrow>
            and_then (counter_attempts s cs failure_class p) (\<lambda>attempts.
              if gh_threshold policy \<le> attempts
              then map_ok Some (decision_from_threshold_resolution g s policy failure_class reason)
              else Inr None)))"

definition blocked_target_decision ::
  "FrozenGraphPlanePlan \<Rightarrow> RuntimeSnapshot \<Rightarrow> StageResultEnvelope \<Rightarrow> string \<Rightarrow>
   RuntimeTickError + RouterDecision" where
  "blocked_target_decision g s r target_node_id =
     (let reason = sr_stage_kind_id r @ ''_blocked'' in
      and_then (resolve_failure_class s r reason) (\<lambda>failure_class.
      and_then (counter_key_from_snapshot s failure_class) (\<lambda>counter_key.
        run_stage_decision g target_node_id reason (Some failure_class) counter_key)))"

definition execution_terminal_decision ::
  "RuntimeSnapshot \<Rightarrow> StageResultEnvelope \<Rightarrow> RuntimeTickError + RouterDecision" where
  "execution_terminal_decision s r =
     (let oc = TerminalResult_as_str (sr_terminal_result r); source_stage = sr_stage_kind_id r in
      if source_stage = ''updater'' \<and> oc = ''UPDATE_COMPLETE'' then Inr (idle_decision ''updater_complete'')
      else if source_stage = ''consultant'' \<and> oc = ''NEEDS_PLANNING''
        then Inr (handoff_to_auditor ''consultant_needs_planning'' None)
      else if source_stage = ''consultant'' \<and> oc = ''BLOCKED''
        then Inr (blocked_decision ''consultant_blocked''
               (ok_option (resolve_failure_class s r ''consultant_blocked'')) None)
      else invalid_state (''unsupported execution terminal transition for '' @ source_stage @ '':'' @ oc))"

definition route_execution_stage_result ::
  "FrozenGraphPlanePlan \<Rightarrow> RuntimeSnapshot \<Rightarrow> StageResultEnvelope \<Rightarrow> RecoveryCounters \<Rightarrow>
   RuntimeTickError + RouterDecision" where
  "route_execution_stage_result g s r cs =
     (let oc = TerminalResult_as_str (sr_terminal_result r); source_stage = sr_stage_kind_id r in
      and_then (execution_fix_threshold g s r) (\<lambda>fix_decision.
      case fix_decision of Some d \<Rightarrow> Inr d | None \<Rightarrow>
      and_then (if oc = ''BLOCKED'' \<and> source_stage \<noteq> ''consultant''
                then blocked_threshold TroubleshootAttemptCount Plane.Execution g s r cs else Inr None)
        (\<lambda>blocked_exhausted.
      case blocked_exhausted of Some d \<Rightarrow> Inr d | None \<Rightarrow>
      (case resume_policy_for_source g (sr_node_id r) oc of
         Some policy \<Rightarrow> decision_from_resume_policy g source_stage r policy
       | None \<Rightarrow>
           and_then (transition_for_source g (sr_node_id r) oc) (\<lambda>transition.
             case gt_target_node_id transition of
               Some target \<Rightarrow>
                 if oc = ''FIX_NEEDED'' then run_stage_decision g target ''fix_needed'' None None
                 else if oc = ''BLOCKED'' then blocked_target_decision g s r target
                 else run_stage_decision g target (source_stage @ '':'' @ oc) None None
             | None \<Rightarrow> execution_terminal_decision s r)))))"

definition planning_terminal_decision ::
  "RuntimeSnapshot \<Rightarrow> StageResultEnvelope \<Rightarrow> RuntimeTickError + RouterDecision" where
  "planning_terminal_decision s r =
     (let oc = TerminalResult_as_str (sr_terminal_result r); source_stage = sr_stage_kind_id r in
      if source_stage = ''recon'' \<and> oc = ''RECON_TO_EXECUTION'' then Inr (idle_decision ''recon_to_execution'')
      else if source_stage = ''recon'' \<and> oc = ''RECON_TO_PLANNING'' then Inr (idle_decision ''recon_to_planning'')
      else if source_stage = ''recon'' \<and> oc = ''RECON_NOOP'' then Inr (idle_decision ''recon_noop'')
      else if source_stage = ''recon'' \<and> (oc = ''RECON_BLOCKED'' \<or> oc = ''BLOCKED'')
        then Inr (blocked_decision ''recon_blocked''
               (ok_option (resolve_failure_class s r ''recon_blocked'')) None)
      else if source_stage = ''manager'' \<and> oc = ''MANAGER_COMPLETE'' then Inr (idle_decision ''manager_complete'')
      else if source_stage = ''manager_blueprint'' \<and> oc = ''MANAGER_BLUEPRINT_COMPLETE''
        then Inr (idle_decision ''manager_blueprint_complete'')
      else if source_stage = ''evaluator_blueprint'' \<and> oc = ''BLUEPRINT_APPROVED''
        then Inr (idle_decision ''blueprint_approved'')
      else if source_stage = ''arbiter'' \<and> oc = ''ARBITER_COMPLETE'' then Inr (idle_decision ''arbiter_complete'')
      else if source_stage = ''arbiter'' \<and> oc = ''REMEDIATION_NEEDED''
        then Inr (handoff_to_auditor ''arbiter_remediation_needed'' (Some ''arbiter_parity_gap''))
      else if source_stage = ''arbiter'' \<and> oc = ''BLOCKED''
        then Inr (blocked_decision ''arbiter_blocked''
               (ok_option (resolve_failure_class s r ''arbiter_blocked'')) None)
      else invalid_state (''unsupported planning terminal transition for '' @ source_stage @ '':'' @ oc))"

definition route_planning_stage_result ::
  "FrozenGraphPlanePlan \<Rightarrow> RuntimeSnapshot \<Rightarrow> StageResultEnvelope \<Rightarrow> RecoveryCounters \<Rightarrow>
   RuntimeTickError + RouterDecision" where
  "route_planning_stage_result g s r cs =
     (let oc = TerminalResult_as_str (sr_terminal_result r); source_stage = sr_stage_kind_id r in
      and_then (if oc = ''BLOCKED'' then blocked_threshold MechanicAttemptCount Plane.Planning g s r cs
                else Inr None) (\<lambda>blocked_exhausted.
      case blocked_exhausted of Some d \<Rightarrow> Inr d | None \<Rightarrow>
      (case resume_policy_for_source g (sr_node_id r) oc of
         Some policy \<Rightarrow> decision_from_resume_policy g source_stage r policy
       | None \<Rightarrow>
           and_then (transition_for_source g (sr_node_id r) oc) (\<lambda>transition.
             case gt_target_node_id transition of
               Some target \<Rightarrow>
                 if oc = ''BLOCKED'' then blocked_target_decision g s r target
                 else run_stage_decision g target (source_stage @ '':'' @ oc) None None
             | None \<Rightarrow> planning_terminal_decision s r))))"

definition route_learning_stage_result ::
  "FrozenGraphPlanePlan \<Rightarrow> StageResultEnvelope \<Rightarrow> RuntimeTickError + RouterDecision" where
  "route_learning_stage_result g r =
     (let oc = TerminalResult_as_str (sr_terminal_result r); source_stage = sr_stage_kind_id r in
      and_then (transition_for_source g (sr_node_id r) oc) (\<lambda>transition.
        case gt_target_node_id transition of
          Some target \<Rightarrow> run_stage_decision g target (source_stage @ '':'' @ oc) None None
        | None \<Rightarrow>
            if oc = ''BLOCKED'' then Inr (blocked_decision (source_stage @ ''_blocked'') None None)
            else Inr (idle_decision (source_stage @ '':'' @ oc))))"

definition route_stage_result_from_graph ::
  "CompiledRunPlan \<Rightarrow> RuntimeSnapshot \<Rightarrow> StageResultEnvelope \<Rightarrow> RecoveryCounters \<Rightarrow>
   RuntimeTickError + RouterDecision" where
  "route_stage_result_from_graph plan s r cs =
     and_then (validate_stage_result_matches_snapshot s r) (\<lambda>_.
     and_then (graph_for_plane plan (sr_plane r)) (\<lambda>g.
       case sr_plane r of
         Plane.Execution \<Rightarrow> route_execution_stage_result g s r cs
       | Plane.Planning \<Rightarrow> route_planning_stage_result g s r cs
       | Plane.Learning \<Rightarrow> route_learning_stage_result g r))"

section \<open>Applying a decision that runs the next stage\<close>

definition route_counter_field ::
  "RouterDecision \<Rightarrow> StageResultEnvelope \<Rightarrow> RecoveryCounterField option" where
  "route_counter_field d r =
     (if rd_next_stage d = Some StageName.Troubleshooter then Some TroubleshootAttempts
      else if rd_next_stage d = Some StageName.Mechanic then Some MechanicAttempts
      else if rd_next_stage d = Some StageName.Consultant then Some ConsultantInvocations
      else if TerminalResult_as_str (sr_terminal_result r) = ''FIX_NEEDED'' then Some FixCycles
      else None)"

definition increment_route_counters ::
  "RuntimeSnapshot \<Rightarrow> RecoveryCounters \<Rightarrow> RouterDecision \<Rightarrow> StageResultEnvelope \<Rightarrow>
   RuntimeTickError + RuntimeSnapshot \<times> RecoveryCounters" where
  "increment_route_counters s cs d r =
     (case route_counter_field d r of
        None \<Rightarrow> Inr (s, cs)
      | Some field \<Rightarrow>
          let failure_class = (case rd_failure_class d of
                Some c \<Rightarrow> c
              | None \<Rightarrow> if field = FixCycles then ''fix_cycle'' else ''recoverable_failure'')
          in increment_counter_field s cs failure_class (sr_work_item_kind r) (sr_work_item_id r) field
               (sr_completed_at r))"

text \<open>The snapshot and counters part of \<^verbatim>\<open>apply_run_stage_decision\<close>; the queue depths it refreshes
  come from the directories (\<^verbatim>\<open>refresh_queue_depths\<close>).\<close>

definition refresh_queue_depths :: "fs \<Rightarrow> RuntimeSnapshot \<Rightarrow> RuntimeSnapshot" where
  "refresh_queue_depths w s =
     set_queue_depth (set_queue_depth (set_queue_depth s
       Plane.Execution (length (list_markdown_files w (WorkDir WorkItemKind.Task QueueState))))
       Plane.Planning (length (list_markdown_files w (WorkDir WorkItemKind.Probe QueueState))
                       + length (list_markdown_files w (WorkDir WorkItemKind.Spec QueueState))
                       + length (list_markdown_files w (WorkDir WorkItemKind.Incident QueueState))))
       Plane.Learning (length (list_markdown_files w (WorkDir WorkItemKind.LearningRequest QueueState)))"

definition apply_run_stage_decision ::
  "fs \<Rightarrow> RuntimeSnapshot \<Rightarrow> RecoveryCounters \<Rightarrow> RouterDecision \<Rightarrow> StageResultEnvelope \<Rightarrow>
   RuntimeTickError + RuntimeSnapshot \<times> RecoveryCounters" where
  "apply_run_stage_decision w s cs d r =
     (let next_plane = (case rd_next_plane d of Some p \<Rightarrow> p | None \<Rightarrow> sr_plane r) in
      if next_plane \<noteq> sr_plane r then invalid_state ''run_stage decisions must stay on the source plane''
      else (case rd_next_stage d of
        None \<Rightarrow> invalid_state ''run_stage decision is missing next_stage''
      | Some next_stage \<Rightarrow>
          let node_id = (case rd_next_node_id d of Some n \<Rightarrow> n | None \<Rightarrow> StageName_as_str next_stage);
              kind_id = (case rd_next_stage_kind_id d of Some n \<Rightarrow> n | None \<Rightarrow> StageName_as_str next_stage)
          in and_then (set_next_stage_for_plane s (sr_plane r) next_stage node_id kind_id
                 (sr_completed_at r) (rd_failure_class d)) (\<lambda>s1.
             map_ok (\<lambda>(s2, cs'). ((refresh_queue_depths w s2)\<lparr>rs_updated_at := sr_completed_at r\<rparr>, cs'))
               (increment_route_counters s1 cs d r))))"

end
