(* ===== verification/Router_Facts.thy ===== *)
theory Router_Facts
  imports Stage_Router Sched_Steps
begin

text \<open>
  What routing guarantees: a decision that runs a stage names a node of the graph of the result's
  plane and can be applied to the run; and the troubleshooter threshold of an execution graph bounds
  the recovery attempts of one work item and failure class, whatever else happens in between.
\<close>

section \<open>Normalised failure classes\<close>

lemma lower_alnum:
  "is_ascii_alphanumeric c \<Longrightarrow> is_ascii_alphanumeric (to_ascii_lower c)
     \<and> to_ascii_lower (to_ascii_lower c) = to_ascii_lower c"
  by (auto simp: is_ascii_alphanumeric_def to_ascii_lower_def is_ascii_upper_def Let_def)

lemma separator_not_alnum: "\<not> is_ascii_alphanumeric (CHR ''_'')"
  by (simp add: is_ascii_alphanumeric_def)

lemma alnum_graphic: "is_ascii_alphanumeric c \<Longrightarrow> ascii_graphic c"
  by (auto simp: is_ascii_alphanumeric_def ascii_graphic_def Let_def)

lemma class_chars_idem: "class_chars prev (class_chars prev s) = class_chars prev s"
  by (induction prev s rule: class_chars.induct) (auto simp: lower_alnum separator_not_alnum)

lemma class_chars_graphic: "list_all ascii_graphic (class_chars prev s)"
  by (induction prev s rule: class_chars.induct)
    (auto simp: alnum_graphic lower_alnum, simp add: ascii_graphic_def)

lemma length_class_chars: "length (class_chars prev s) \<le> length s"
  by (induction prev s rule: class_chars.induct) auto

lemma class_chars_append: "\<exists>prev'. class_chars prev (xs @ ys) = class_chars prev xs @ class_chars prev' ys"
  by (induction prev xs rule: class_chars.induct) auto

lemma class_chars_prefix_fixed:
  assumes "class_chars prev (xs @ ys) = xs @ ys"
  shows "class_chars prev xs = xs"
proof -
  obtain prev' where e: "class_chars prev xs @ class_chars prev' ys = xs @ ys"
    using class_chars_append[of prev xs ys] assms by auto
  moreover have "length (class_chars prev xs) = length xs"
    using arg_cong[OF e, of length] length_class_chars[of prev xs] length_class_chars[of prev' ys] by simp
  ultimately show ?thesis by simp
qed

lemma drop_trailing_prefix: "\<exists>t. s = drop_trailing_separators s @ t"
proof -
  have "s = rev (takeWhile (\<lambda>c. c = CHR ''_'') (rev s) @ dropWhile (\<lambda>c. c = CHR ''_'') (rev s))"
    by simp
  then have "s = drop_trailing_separators s @ rev (takeWhile (\<lambda>c. c = CHR ''_'') (rev s))"
    unfolding drop_trailing_separators_def rev_append .
  then show ?thesis by blast
qed

lemma drop_trailing_idem: "drop_trailing_separators (drop_trailing_separators s) = drop_trailing_separators s"
  by (simp add: drop_trailing_separators_def)

lemma normalize_failure_class_fixed:
  assumes "normalize_failure_class v = Inr n"
  shows "normalize_failure_class n = Inr n" and "trim n \<noteq> []"
proof -
  let ?c = "class_chars True (trim v)"
  from assms have n: "n = drop_trailing_separators ?c" and ne: "n \<noteq> []"
    by (auto simp: normalize_failure_class_def invalid_state_def Let_def split: if_splits)
  obtain t where t: "?c = n @ t" using drop_trailing_prefix[of ?c] n by auto
  have "class_chars True n = n"
    using class_chars_prefix_fixed[of True n t] class_chars_idem[of True "trim v"] t by simp
  moreover have g: "list_all ascii_graphic n"
    using class_chars_graphic[of True "trim v"] t by simp
  moreover have "drop_trailing_separators n = n" using n drop_trailing_idem by simp
  ultimately show "normalize_failure_class n = Inr n" and "trim n \<noteq> []"
    using ne by (auto simp: normalize_failure_class_def trim_graphic)
qed

definition normal_class :: "string \<Rightarrow> bool" where
  "normal_class c \<longleftrightarrow> normalize_failure_class c = Inr c"

lemma normal_class_normalized: "normalize_failure_class v = Inr n \<Longrightarrow> normal_class n"
  by (simp add: normal_class_def normalize_failure_class_fixed)

lemma normal_class_not_blank: "normal_class c \<Longrightarrow> trim c \<noteq> []"
  unfolding normal_class_def by (rule normalize_failure_class_fixed(2))

lemma resolved_class_normal: "resolve_failure_class s r d = Inr c \<Longrightarrow> normal_class c"
  by (auto simp: resolve_failure_class_def normal_class_normalized split: option.splits)

lemma builtin_classes_normal: "normal_class ''fix_cycle''" "normal_class ''recoverable_failure''"
  by (simp_all add: normal_class_def normalize_failure_class_def trim_graphic ascii_graphic_def
      is_ascii_alphanumeric_def to_ascii_lower_def is_ascii_upper_def drop_trailing_separators_def)

section \<open>A decision that runs a stage\<close>

text \<open>What the router may answer for a graph: a stage of the graph, an idle or a blocked plane, or the
  hand-over of an incident to planning. The failure class, when there is one, is normalised or the
  fixed class of a parity gap.\<close>

definition runs_node :: "FrozenGraphPlanePlan \<Rightarrow> RouterDecision \<Rightarrow> bool" where
  "runs_node g d \<longleftrightarrow> rd_next_plane d = Some (fg_plane g) \<and> \<not> rd_create_incident d
     \<and> (\<exists>n\<in>set (fg_nodes g). rd_next_node_id d = Some (gn_node_id n)
          \<and> rd_next_stage_kind_id d = Some (gn_stage_kind_id n)
          \<and> (\<exists>st. rd_next_stage d = Some st \<and> stage_name_for_plane (fg_plane g) (gn_stage_kind_id n) = Inr st))"

definition decision_ok :: "FrozenGraphPlanePlan \<Rightarrow> RouterDecision \<Rightarrow> bool" where
  "decision_ok g d \<longleftrightarrow>
     (case rd_action d of
        RunStage \<Rightarrow> runs_node g d
      | HandoffRoute \<Rightarrow> rd_next_plane d = Some Plane.Planning \<and> rd_next_stage d = Some StageName.Auditor
          \<and> rd_create_incident d
      | _ \<Rightarrow> rd_next_stage d = None \<and> rd_next_plane d = None \<and> \<not> rd_create_incident d)
     \<and> (\<forall>c. rd_failure_class d = Some c \<longrightarrow> normal_class c)"

lemma find_SomeD': "List.find P xs = Some x \<Longrightarrow> P x \<and> x \<in> set xs"
  by (auto simp: find_Some_iff)

lemma run_stage_decisionD:
  assumes "run_stage_decision g t reason fc key = Inr d"
  shows "rd_action d = RunStage" "runs_node g d" "rd_failure_class d = fc" "rd_next_node_id d = Some t"
  using assms
  by (auto simp: run_stage_decision_def node_plan_by_id_def invalid_state_def runs_node_def
      tick_stage_name_for_plane_def result_simps split: option.splits dest!: find_SomeD')

lemma run_stage_decision_ok:
  "run_stage_decision g t reason fc key = Inr d \<Longrightarrow> (\<forall>c. fc = Some c \<longrightarrow> normal_class c) \<Longrightarrow> decision_ok g d"
  by (simp add: decision_ok_def run_stage_decisionD)

lemma fixed_decisions_ok:
  "decision_ok g (idle_decision reason)"
  "(\<forall>c. fc = Some c \<longrightarrow> normal_class c) \<Longrightarrow> decision_ok g (blocked_decision reason fc key)"
  "(\<forall>c. fc = Some c \<longrightarrow> normal_class c) \<Longrightarrow> decision_ok g (handoff_to_auditor reason fc)"
  by (simp_all add: decision_ok_def idle_decision_def blocked_decision_def handoff_to_auditor_def)

lemma threshold_resolution_ok:
  "decision_from_threshold_resolution g s policy c reason = Inr d \<Longrightarrow> normal_class c \<Longrightarrow> decision_ok g d"
  by (auto simp: decision_from_threshold_resolution_def invalid_state_def result_simps
      intro!: fixed_decisions_ok split: option.splits if_splits elim!: run_stage_decision_ok)

lemma resume_policy_ok: "decision_from_resume_policy g src r policy = Inr d \<Longrightarrow> decision_ok g d"
  by (auto simp: decision_from_resume_policy_def Let_def invalid_state_def result_simps
      split: if_splits elim!: run_stage_decision_ok)

lemma fix_threshold_ok: "execution_fix_threshold g s r = Inr (Some d) \<Longrightarrow> decision_ok g d"
  by (auto simp: execution_fix_threshold_def Let_def result_simps split: if_splits option.splits
      dest!: resolved_class_normal elim!: threshold_resolution_ok)

lemma blocked_threshold_ok: "blocked_threshold n p g s r cs = Inr (Some d) \<Longrightarrow> decision_ok g d"
  by (auto simp: blocked_threshold_def Let_def result_simps split: if_splits option.splits
      dest!: resolved_class_normal elim!: threshold_resolution_ok)

lemma blocked_target_ok: "blocked_target_decision g s r t = Inr d \<Longrightarrow> decision_ok g d"
  by (auto simp: blocked_target_decision_def Let_def result_simps dest!: resolved_class_normal
      elim!: run_stage_decision_ok)

lemma ok_option_class_normal: "ok_option (resolve_failure_class s r d) = Some c \<Longrightarrow> normal_class c"
  by (auto simp: ok_option_def resolved_class_normal split: sum.splits)

lemma execution_terminal_ok: "execution_terminal_decision s r = Inr d \<Longrightarrow> decision_ok g d"
  by (auto simp: execution_terminal_decision_def Let_def invalid_state_def ok_option_class_normal
      intro!: fixed_decisions_ok split: if_splits)

lemma parity_gap_normal: "normal_class ''arbiter_parity_gap''"
  by (simp add: normal_class_def normalize_failure_class_def trim_graphic ascii_graphic_def
      is_ascii_alphanumeric_def to_ascii_lower_def is_ascii_upper_def drop_trailing_separators_def)

lemma planning_terminal_ok: "planning_terminal_decision s r = Inr d \<Longrightarrow> decision_ok g d"
  by (auto simp: planning_terminal_decision_def Let_def invalid_state_def ok_option_class_normal
      parity_gap_normal intro!: fixed_decisions_ok split: if_splits)

lemma plain_run_stage_ok: "run_stage_decision g t reason None None = Inr d \<Longrightarrow> decision_ok g d"
  by (erule run_stage_decision_ok) simp

lemmas router_branches_ok = fix_threshold_ok blocked_threshold_ok blocked_target_ok resume_policy_ok
  execution_terminal_ok planning_terminal_ok plain_run_stage_ok fixed_decisions_ok

lemma route_execution_ok: "route_execution_stage_result g s r cs = Inr d \<Longrightarrow> decision_ok g d"
  unfolding route_execution_stage_result_def Let_def and_then_eq_Inr
  by (auto split: option.splits if_splits simp: and_then_eq_Inr intro: router_branches_ok)

lemma route_planning_ok: "route_planning_stage_result g s r cs = Inr d \<Longrightarrow> decision_ok g d"
  unfolding route_planning_stage_result_def Let_def and_then_eq_Inr
  by (auto split: option.splits if_splits simp: and_then_eq_Inr intro: router_branches_ok)

lemma route_learning_ok: "route_learning_stage_result g r = Inr d \<Longrightarrow> decision_ok g d"
  unfolding route_learning_stage_result_def Let_def and_then_eq_Inr
  by (auto split: option.splits if_splits intro: router_branches_ok)

lemma route_ok:
  assumes "route_stage_result_from_graph plan s r cs = Inr d"
  shows "\<exists>g. graph_for_plane plan (sr_plane r) = Inr g \<and> decision_ok g d"
  using assms by (cases "sr_plane r") (auto simp: route_stage_result_from_graph_def result_simps
      intro: route_execution_ok route_planning_ok route_learning_ok)

section \<open>Applying it\<close>

lemma increment_counter_field_ok:
  "trim c \<noteq> [] \<Longrightarrow> trim i \<noteq> [] \<Longrightarrow> \<exists>s' cs'. increment_counter_field s cs c k i field now = Inr (s', cs')"
  by (simp add: increment_counter_field_def Let_def)

lemma increment_route_counters_ok:
  assumes "\<forall>c. rd_failure_class d = Some c \<longrightarrow> normal_class c" "trim (sr_work_item_id r) \<noteq> []"
  shows "\<exists>s' cs'. increment_route_counters s cs d r = Inr (s', cs')"
  using assms builtin_classes_normal[THEN normal_class_not_blank]
  by (auto simp: increment_route_counters_def Let_def intro!: increment_counter_field_ok
      dest: normal_class_not_blank split: option.splits)

lemma increment_counter_field_frame:
  assumes "increment_counter_field s cs c k i field now = Inr (s', cs')"
  shows "rs_active_runs_by_plane s' = rs_active_runs_by_plane s"
  using assms by (auto simp: increment_counter_field_def Let_def invalid_state_def show_entry_count_def
      split: if_splits option.splits RecoveryCounterField.splits)

lemma increment_route_counters_frame:
  "increment_route_counters s cs d r = Inr (s', cs') \<Longrightarrow> rs_active_runs_by_plane s' = rs_active_runs_by_plane s"
  by (auto simp: increment_route_counters_def Let_def dest: increment_counter_field_frame split: option.splits)

lemma refresh_queue_depths_runs [simp]:
  "rs_active_runs_by_plane (refresh_queue_depths w s) = rs_active_runs_by_plane s"
  by (simp add: refresh_queue_depths_def set_queue_depth_def)

lemma set_next_stage_runs:
  assumes "set_next_stage_for_plane s p st n k now fc = Inr s'"
  shows "\<exists>run. runs_of s p = Some run \<and> runs_of s' p = Some (run\<lparr>ar_stage := st, ar_node_id := n,
     ar_stage_kind_id := k, ar_active_since := now, ar_running_status_marker := None\<rparr>)"
  using assms by (auto simp: set_next_stage_for_plane_def Let_def invalid_state_def update_conv'
      split: option.splits)

lemma graph_plane: "plan_planes_ok plan \<Longrightarrow> graph_for_plane plan p = Inr g \<Longrightarrow> fg_plane g = p"
  by (cases p) (auto simp: graph_for_plane_def plan_planes_ok_def invalid_state_def split: option.splits)

lemma routed_stage_applies:
  assumes route: "route_stage_result_from_graph plan s r cs = Inr d" "rd_action d = RunStage"
    and plan: "plan_planes_ok plan"
    and s: "runs_of s (sr_plane r) = Some run" and item: "trim (sr_work_item_id r) \<noteq> []"
  shows "\<exists>s' cs' run' st. apply_run_stage_decision w s cs d r = Inr (s', cs')
    \<and> runs_of s' (sr_plane r) = Some run' \<and> rd_next_stage d = Some st
    \<and> ar_stage run' = st \<and> rd_next_node_id d = Some (ar_node_id run')
    \<and> rd_next_stage_kind_id d = Some (ar_stage_kind_id run')
    \<and> ar_run_id run' = ar_run_id run \<and> ar_running_status_marker run' = None"
proof -
  obtain g where g: "graph_for_plane plan (sr_plane r) = Inr g" "decision_ok g d"
    using route_ok[OF route(1)] by blast
  have pl: "fg_plane g = sr_plane r" by (rule graph_plane[OF plan g(1)])
  obtain st n k where d: "rd_next_plane d = Some (sr_plane r)" "rd_next_stage d = Some st"
      "rd_next_node_id d = Some n" "rd_next_stage_kind_id d = Some k"
    using g(2) route(2) pl by (auto simp: decision_ok_def runs_node_def)
  have fc: "\<forall>c. rd_failure_class d = Some c \<longrightarrow> normal_class c" using g(2) by (simp add: decision_ok_def)
  obtain s1 where s1: "set_next_stage_for_plane s (sr_plane r) st n k (sr_completed_at r)
      (rd_failure_class d) = Inr s1"
    using s by (auto simp: set_next_stage_for_plane_def)
  obtain s2 cs' where s2: "increment_route_counters s1 cs d r = Inr (s2, cs')"
    using increment_route_counters_ok[OF fc item] by blast
  show ?thesis
    using set_next_stage_runs[OF s1] s increment_route_counters_frame[OF s2]
    by (simp add: apply_run_stage_decision_def d s1 s2)
qed

section \<open>Recovery attempts\<close>

definition troubleshoot_attempts :: "RecoveryCounters \<Rightarrow> WorkItemKind \<Rightarrow> string \<Rightarrow> string \<Rightarrow> nat" where
  "troubleshoot_attempts cs k i c =
     (case List.find (entry_has_key c k i) (rk_entries cs) of
        None \<Rightarrow> 0 | Some e \<Rightarrow> rc_troubleshoot_attempt_count e)"

definition counters_normal :: "RecoveryCounters \<Rightarrow> bool" where
  "counters_normal cs \<longleftrightarrow> list_all (\<lambda>e. normal_class (rc_failure_class e)) (rk_entries cs)"

lemma find_update_same:
  "(\<And>x. P (f x) = P x) \<Longrightarrow> List.find P (update_first P f xs) = map_option f (List.find P xs)"
  by (induction xs) auto

lemma find_update_other:
  "(\<And>x. P (f x) = P x) \<Longrightarrow> (\<And>x. Q x \<Longrightarrow> \<not> P x) \<Longrightarrow> List.find P (update_first Q f xs) = List.find P xs"
  by (induction xs) auto

lemma find_append: "List.find P (xs @ ys) = (case List.find P xs of None \<Rightarrow> List.find P ys | Some x \<Rightarrow> Some x)"
  by (induction xs) auto

lemma list_all_update_first: "list_all R xs \<Longrightarrow> (\<And>x. R x \<Longrightarrow> R (f x)) \<Longrightarrow> list_all R (update_first P f xs)"
  by (induction xs) auto

lemma bump_entry_key [simp]:
  "entry_has_key c k i (bump_entry field now e) = entry_has_key c k i e"
  "rc_failure_class (bump_entry field now e) = rc_failure_class e"
  by (cases field; simp add: entry_has_key_def bump_entry_def)+

lemma bump_entry_attempts:
  "rc_troubleshoot_attempt_count (bump_entry field now e) =
     rc_troubleshoot_attempt_count e + (if field = TroubleshootAttempts then 1 else 0)"
  by (cases field) (simp_all add: bump_entry_def)

lemma find_none_iff: "List.find P xs = None \<longleftrightarrow> \<not> list_ex P xs"
  by (induction xs) auto

text \<open>An increment adds one to the entry of its key and leaves the other entries alone.\<close>

lemma increment_attempts:
  assumes "increment_counter_field s cs c' k' i' field now = Inr (s', cs')"
  shows "troubleshoot_attempts cs' k i c = troubleshoot_attempts cs k i c
     + (if field = TroubleshootAttempts \<and> c' = c \<and> k' = k \<and> i' = i then 1 else 0)"
proof -
  let ?present = "rk_entries (recovery_counter_entry_mut cs c' k' i' now)"
  have cs': "rk_entries cs' = update_first (entry_has_key c' k' i') (bump_entry field now) ?present"
    using assms by (auto simp: increment_counter_field_def Let_def invalid_state_def split: if_splits)
  have grown: "troubleshoot_attempts (recovery_counter_entry_mut cs c' k' i' now) k i c
      = troubleshoot_attempts cs k i c"
    by (auto simp: troubleshoot_attempts_def recovery_counter_entry_mut_def find_append
        split: option.splits if_splits)
  show ?thesis
  proof (cases "c' = c \<and> k' = k \<and> i' = i")
    case True
    have "list_ex (entry_has_key c k i) ?present"
      using True by (auto simp: recovery_counter_entry_mut_def entry_has_key_def)
    then obtain e where e: "List.find (entry_has_key c k i) ?present = Some e"
      using find_none_iff by fastforce
    show ?thesis
      using True e grown by (simp add: troubleshoot_attempts_def cs' find_update_same bump_entry_attempts)
  next
    case False
    have "List.find (entry_has_key c k i) (rk_entries cs') = List.find (entry_has_key c k i) ?present"
      unfolding cs'
    proof (rule find_update_other)
      show "entry_has_key c k i (bump_entry field now e) = entry_has_key c k i e" for e by simp
      show "\<not> entry_has_key c k i e" if "entry_has_key c' k' i' e" for e
        using that False by (auto simp: entry_has_key_def)
    qed
    then show ?thesis using False grown by (simp add: troubleshoot_attempts_def)
  qed
qed

lemma increment_normal:
  assumes "increment_counter_field s cs c' k' i' field now = Inr (s', cs')"
    "counters_normal cs" "normal_class c'"
  shows "counters_normal cs'"
proof -
  have "list_all (\<lambda>e. normal_class (rc_failure_class e))
      (rk_entries (recovery_counter_entry_mut cs c' k' i' now))"
    using assms(2,3) by (simp add: counters_normal_def recovery_counter_entry_mut_def)
  then show ?thesis
    using assms(1) by (auto simp: increment_counter_field_def counters_normal_def Let_def invalid_state_def
        intro!: list_all_update_first split: if_splits)
qed

lemma route_increment:
  assumes "increment_route_counters s cs d r = Inr (s', cs')"
  shows "troubleshoot_attempts cs k i c \<le> troubleshoot_attempts cs' k i c"
    and "rd_next_stage d = Some StageName.Troubleshooter \<Longrightarrow> rd_failure_class d = Some c \<Longrightarrow>
      troubleshoot_attempts cs' (sr_work_item_kind r) (sr_work_item_id r) c
        = Suc (troubleshoot_attempts cs (sr_work_item_kind r) (sr_work_item_id r) c)"
    and "counters_normal cs \<Longrightarrow> (\<forall>c. rd_failure_class d = Some c \<longrightarrow> normal_class c) \<Longrightarrow> counters_normal cs'"
  using assms builtin_classes_normal
  by (auto simp: increment_route_counters_def Let_def route_counter_field_def
      dest: increment_attempts[where k = k and i = i and c = c]
        increment_attempts[where k = "sr_work_item_kind r" and i = "sr_work_item_id r" and c = c]
        increment_normal split: option.splits if_splits)

section \<open>The bound\<close>

text \<open>A routed result whose decision runs a stage is applied at once; other decisions do not touch the
  counters here. Forward progress of an item forgets its counters.\<close>

datatype recovery_event = ResultRouted RuntimeSnapshot StageResultEnvelope | ForwardProgress WorkItemKind string

definition route_result ::
  "CompiledRunPlan \<Rightarrow> fs \<Rightarrow> RecoveryCounters \<Rightarrow> RuntimeSnapshot \<Rightarrow> StageResultEnvelope \<Rightarrow>
   RuntimeTickError + RouterDecision \<times> RecoveryCounters" where
  "route_result plan w cs s r =
     and_then (route_stage_result_from_graph plan s r cs) (\<lambda>d.
       if rd_action d = RunStage then map_ok (\<lambda>(s', cs'). (d, cs')) (apply_run_stage_decision w s cs d r)
       else Inr (d, cs))"

definition is_recovery :: "WorkItemKind \<Rightarrow> string \<Rightarrow> string \<Rightarrow> StageResultEnvelope \<Rightarrow> RouterDecision \<Rightarrow> bool" where
  "is_recovery k i c r d \<longleftrightarrow>
     sr_plane r = Plane.Execution \<and> sr_work_item_kind r = k \<and> sr_work_item_id r = i
     \<and> rd_action d = RunStage \<and> rd_next_stage d = Some StageName.Troubleshooter \<and> rd_failure_class d = Some c"

fun recoveries ::
  "CompiledRunPlan \<Rightarrow> fs \<Rightarrow> WorkItemKind \<Rightarrow> string \<Rightarrow> string \<Rightarrow> RecoveryCounters \<Rightarrow> recovery_event list \<Rightarrow> nat" where
  "recoveries plan w k i c cs [] = 0"
| "recoveries plan w k i c cs (ForwardProgress k' i' # es) =
     recoveries plan w k i c (reset_forward_progress_counters cs k' i') es"
| "recoveries plan w k i c cs (ResultRouted s r # es) =
     (case route_result plan w cs s r of
        Inl e \<Rightarrow> recoveries plan w k i c cs es
      | Inr (d, cs') \<Rightarrow> (if is_recovery k i c r d then 1 else 0) + recoveries plan w k i c cs' es)"

text \<open>The graph sends blocked work to the troubleshooter only from sources with a threshold of at most
  \<open>T\<close>, and not from the consultant, which the threshold does not cover; an exhausted threshold leads
  elsewhere.\<close>

definition node_stage :: "FrozenGraphPlanePlan \<Rightarrow> string \<Rightarrow> StageName option" where
  "node_stage g n = Option.bind (List.find (\<lambda>x. gn_node_id x = n) (fg_nodes g))
     (\<lambda>x. ok_option (stage_name_for_plane (fg_plane g) (gn_stage_kind_id x)))"

definition node_kind :: "FrozenGraphPlanePlan \<Rightarrow> string \<Rightarrow> string option" where
  "node_kind g n = map_option gn_stage_kind_id (List.find (\<lambda>x. gn_node_id x = n) (fg_nodes g))"

definition guarded_transition :: "FrozenGraphPlanePlan \<Rightarrow> nat \<Rightarrow> CompiledGraphTransitionPlan \<Rightarrow> bool" where
  "guarded_transition g T t \<longleftrightarrow>
     gt_outcome t \<noteq> ''BLOCKED''
     \<or> Option.bind (gt_target_node_id t) (node_stage g) \<noteq> Some StageName.Troubleshooter
     \<or> (node_kind g (gt_source_node_id t) \<noteq> Some ''consultant''
        \<and> (case threshold_policy_for_source g (gt_source_node_id t) ''BLOCKED'' TroubleshootAttemptCount of
             None \<Rightarrow> False | Some policy \<Rightarrow> gh_threshold policy \<le> T))"

definition recovery_guarded :: "FrozenGraphPlanePlan \<Rightarrow> nat \<Rightarrow> bool" where
  "recovery_guarded g T \<longleftrightarrow> list_all (guarded_transition g T) (fg_compiled_transitions g)
     \<and> list_all (\<lambda>p. Option.bind (gh_exhausted_target_node_id p) (node_stage g) \<noteq> Some StageName.Troubleshooter)
          (fg_compiled_threshold_policies g)"

text \<open>Results of the item come from a node of the graph, while the item is the foreground work; no
  event is forward progress of the item.\<close>

definition event_ok :: "FrozenGraphPlanePlan \<Rightarrow> WorkItemKind \<Rightarrow> string \<Rightarrow> recovery_event \<Rightarrow> bool" where
  "event_ok g k i e \<longleftrightarrow>
     (case e of
        ForwardProgress k' i' \<Rightarrow> k' \<noteq> k \<or> i' \<noteq> i
      | ResultRouted s r \<Rightarrow>
          \<not> (sr_plane r = Plane.Execution \<and> sr_work_item_kind r = k \<and> sr_work_item_id r = i)
          \<or> (rs_active_work_item_kind s = Some k \<and> rs_active_work_item_id s = Some i
             \<and> node_kind g (sr_node_id r) = Some (sr_stage_kind_id r)))"

lemma run_stage_target:
  "run_stage_decision g t reason fc key = Inr d \<Longrightarrow> rd_next_stage d = node_stage g t"
  by (auto simp: run_stage_decision_def node_plan_by_id_def invalid_state_def node_stage_def ok_option_def
      tick_stage_name_for_plane_def result_simps split: option.splits)

lemma threshold_target:
  assumes "decision_from_threshold_resolution g s policy c reason = Inr d"
    "policy \<in> set (fg_compiled_threshold_policies g)" "recovery_guarded g T"
  shows "rd_next_stage d \<noteq> Some StageName.Troubleshooter"
proof -
  have "Option.bind (gh_exhausted_target_node_id policy) (node_stage g) \<noteq> Some StageName.Troubleshooter"
    using assms(2,3) by (simp add: recovery_guarded_def list_all_iff)
  then show ?thesis
    using assms(1)
    by (auto simp: decision_from_threshold_resolution_def invalid_state_def result_simps
        blocked_decision_def dest!: run_stage_target split: option.splits if_splits)
qed

lemma threshold_policy_mem:
  "threshold_policy_for_source g n oc f = Some policy \<Longrightarrow> policy \<in> set (fg_compiled_threshold_policies g)"
  unfolding threshold_policy_for_source_def by (drule find_SomeD') simp

lemma fix_threshold_target:
  "execution_fix_threshold g s r = Inr (Some d) \<Longrightarrow> recovery_guarded g T \<Longrightarrow>
     rd_next_stage d \<noteq> Some StageName.Troubleshooter"
  by (auto simp: execution_fix_threshold_def Let_def result_simps split: if_splits option.splits
      dest!: threshold_policy_mem threshold_target)

lemma blocked_threshold_target:
  "blocked_threshold f p g s r cs = Inr (Some d) \<Longrightarrow> recovery_guarded g T \<Longrightarrow>
     rd_next_stage d \<noteq> Some StageName.Troubleshooter"
  by (auto simp: blocked_threshold_def Let_def result_simps split: if_splits option.splits
      dest!: threshold_policy_mem threshold_target)

lemma transition_for_sourceD:
  assumes "transition_for_source g n oc = Inr t"
  shows "t \<in> set (fg_compiled_transitions g)" "gt_source_node_id t = n" "gt_outcome t = oc"
proof -
  let ?ts = "sort_key gt_priority (filter (\<lambda>t. gt_source_node_id t = n \<and> gt_outcome t = oc)
      (fg_compiled_transitions g))"
  obtain ts where e: "?ts = t # ts"
    using assms by (auto simp: transition_for_source_def invalid_state_def split: list.splits)
  have "t \<in> set ?ts" unfolding e by simp
  then show "t \<in> set (fg_compiled_transitions g)" "gt_source_node_id t = n" "gt_outcome t = oc" by auto
qed

text \<open>The attempts the threshold reads are those of the entry of the item and class.\<close>

lemma counter_attempts_exact:
  assumes "counters_normal cs" "normal_class c"
    "rs_active_work_item_kind s = Some k" "rs_active_work_item_id s = Some i"
  shows "counter_attempts s cs c Plane.Execution = Inr (troubleshoot_attempts cs k i c)"
proof -
  have "List.find (\<lambda>e. rc_work_item_kind e = k \<and> rc_work_item_id e = i \<and> is_ok_class (rc_failure_class e) c) xs
      = List.find (entry_has_key c k i) xs" if "list_all (\<lambda>e. normal_class (rc_failure_class e)) xs" for xs
    using that by (induction xs) (auto simp: is_ok_class_def normal_class_def entry_has_key_def)
  then show ?thesis
    using assms by (simp add: counter_attempts_def normal_class_def counters_normal_def troubleshoot_attempts_def
        split: option.split)
qed

lemma no_class_targets:
  "decision_from_resume_policy g src r policy = Inr d \<Longrightarrow> rd_failure_class d = None"
  "run_stage_decision g t reason None None = Inr d \<Longrightarrow> rd_failure_class d = None"
  "execution_terminal_decision s r = Inr d \<Longrightarrow> rd_next_stage d \<noteq> Some StageName.Troubleshooter"
  by (auto simp: decision_from_resume_policy_def Let_def invalid_state_def result_simps run_stage_decisionD
      execution_terminal_decision_def idle_decision_def blocked_decision_def handoff_to_auditor_def
      split: if_splits)

text \<open>A recovery is routed by the last branch of the execution router: the result is blocked, the
  threshold of its source was not reached, and its transition leads to the troubleshooter.\<close>

lemma recovery_branch:
  assumes "route_execution_stage_result g s r cs = Inr d" "recovery_guarded g T"
    "rd_next_stage d = Some StageName.Troubleshooter" "rd_failure_class d = Some c"
  obtains t target where "transition_for_source g (sr_node_id r) ''BLOCKED'' = Inr t"
    "TerminalResult_as_str (sr_terminal_result r) = ''BLOCKED''"
    "gt_target_node_id t = Some target" "node_stage g target = Some StageName.Troubleshooter"
    "resolve_failure_class s r (sr_stage_kind_id r @ ''_blocked'') = Inr c"
    "sr_stage_kind_id r \<noteq> ''consultant'' \<Longrightarrow>
       blocked_threshold TroubleshootAttemptCount Plane.Execution g s r cs = Inr None"
proof -
  let ?oc = "TerminalResult_as_str (sr_terminal_result r)"
  note d = assms(3,4)
  have nofix: "execution_fix_threshold g s r = Inr None"
  proof (cases "execution_fix_threshold g s r")
    case (Inr a)
    then show ?thesis
      using assms(1) fix_threshold_target[of g s r _ T] assms(2) d
      by (cases a) (auto simp: route_execution_stage_result_def Let_def)
  qed (use assms(1) in \<open>simp add: route_execution_stage_result_def Let_def\<close>)
  define b where "b = (if ?oc = ''BLOCKED'' \<and> sr_stage_kind_id r \<noteq> ''consultant''
      then blocked_threshold TroubleshootAttemptCount Plane.Execution g s r cs else Inr None)"
  note route = assms(1)[unfolded route_execution_stage_result_def Let_def nofix b_def[symmetric], simplified]
  have b: "b = Inr None"
  proof (cases b)
    case (Inr a)
    have "rd_next_stage d' \<noteq> Some StageName.Troubleshooter" if "b = Inr (Some d')" for d'
      using that blocked_threshold_target[OF _ assms(2)] by (auto simp: b_def split: if_splits)
    then show ?thesis using route Inr d by (cases a) auto
  qed (use route in simp)
  have np: "resume_policy_for_source g (sr_node_id r) ?oc = None"
    using route d b
    by (auto dest!: no_class_targets split: option.splits)
  obtain t where t: "transition_for_source g (sr_node_id r) ?oc = Inr t"
    using route b np by (cases "transition_for_source g (sr_node_id r) ?oc") auto
  note routed = route[unfolded b np t, simplified]
  obtain target where target: "gt_target_node_id t = Some target"
    using routed d no_class_targets(3)[of s r d] by (cases "gt_target_node_id t") auto
  have blocked: "?oc = ''BLOCKED''"
  proof (rule ccontr)
    assume "?oc \<noteq> ''BLOCKED''"
    then show False using routed d no_class_targets(2)[of g target _ d] by (simp add: target split: if_splits)
  qed
  have decided: "blocked_target_decision g s r target = Inr d"
    using routed by (simp add: target blocked)
  have tgt: "node_stage g target = Some StageName.Troubleshooter"
      "resolve_failure_class s r (sr_stage_kind_id r @ ''_blocked'') = Inr c"
    using decided d run_stage_target run_stage_decisionD(3)
    by (fastforce simp: blocked_target_decision_def Let_def and_then_eq_Inr)+
  show thesis
    using that[of t target] t[unfolded blocked] target blocked tgt b by (auto simp: b_def split: if_splits)
qed

lemma recovery_below_threshold:
  assumes "route_execution_stage_result g s r cs = Inr d" "recovery_guarded g T"
    "rd_next_stage d = Some StageName.Troubleshooter" "rd_failure_class d = Some c" "counters_normal cs"
    "rs_active_work_item_kind s = Some k" "rs_active_work_item_id s = Some i"
    "node_kind g (sr_node_id r) = Some (sr_stage_kind_id r)"
  shows "troubleshoot_attempts cs k i c < T"
proof -
  obtain t target where t: "transition_for_source g (sr_node_id r) ''BLOCKED'' = Inr t"
    "TerminalResult_as_str (sr_terminal_result r) = ''BLOCKED''"
    "gt_target_node_id t = Some target" "node_stage g target = Some StageName.Troubleshooter"
    "resolve_failure_class s r (sr_stage_kind_id r @ ''_blocked'') = Inr c"
    "sr_stage_kind_id r \<noteq> ''consultant'' \<Longrightarrow>
       blocked_threshold TroubleshootAttemptCount Plane.Execution g s r cs = Inr None"
    by (rule recovery_branch[OF assms(1-4)]) (rule that)
  have "guarded_transition g T t"
    using assms(2) transition_for_sourceD(1)[OF t(1)] by (simp add: recovery_guarded_def list_all_iff)
  then obtain policy where p: "sr_stage_kind_id r \<noteq> ''consultant''" "gh_threshold policy \<le> T"
      "threshold_policy_for_source g (sr_node_id r) ''BLOCKED'' TroubleshootAttemptCount = Some policy"
    using transition_for_sourceD(2,3)[OF t(1)] t(3,4) assms(8)
    by (auto simp: guarded_transition_def split: option.splits)
  show ?thesis
    using t(2) t(6)[OF p(1)] p(2,3) t(5) resolved_class_normal[OF t(5)] assms(5-7)
    by (auto simp: blocked_threshold_def Let_def counter_attempts_exact map_ok_eq_Inr split: if_splits)
qed

lemma route_result_counters:
  assumes "route_result plan w cs s r = Inr (d, cs')" "counters_normal cs"
  shows "counters_normal cs'" "troubleshoot_attempts cs k i c \<le> troubleshoot_attempts cs' k i c"
    "is_recovery k i c r d \<Longrightarrow> troubleshoot_attempts cs' k i c = Suc (troubleshoot_attempts cs k i c)"
proof -
  have route: "route_stage_result_from_graph plan s r cs = Inr d"
    using assms(1) by (auto simp: route_result_def and_then_eq_Inr map_ok_eq_Inr split: if_splits)
  have fc: "\<forall>c. rd_failure_class d = Some c \<longrightarrow> normal_class c"
    using route_ok[OF route] by (auto simp: decision_ok_def)
  have "cs' = cs \<and> rd_action d \<noteq> RunStage \<or> (\<exists>s1 s2. increment_route_counters s1 cs d r = Inr (s2, cs'))"
    using assms(1) route
    by (auto simp: route_result_def map_ok_eq_Inr apply_run_stage_decision_def invalid_state_def Let_def
        and_then_eq_Inr split: if_splits option.splits)
  then consider "cs' = cs" "rd_action d \<noteq> RunStage"
    | s1 s2 where "increment_route_counters s1 cs d r = Inr (s2, cs')" by blast
  then have "counters_normal cs' \<and> troubleshoot_attempts cs k i c \<le> troubleshoot_attempts cs' k i c
    \<and> (is_recovery k i c r d \<longrightarrow> troubleshoot_attempts cs' k i c = Suc (troubleshoot_attempts cs k i c))"
  proof cases
    case 1
    then show ?thesis using assms(2) by (simp add: is_recovery_def)
  next
    case 2
    show ?thesis
      using route_increment(1)[OF 2] route_increment(2)[OF 2] route_increment(3)[OF 2 assms(2) fc]
      by (simp add: is_recovery_def) blast
  qed
  then show "counters_normal cs'" "troubleshoot_attempts cs k i c \<le> troubleshoot_attempts cs' k i c"
    "is_recovery k i c r d \<Longrightarrow> troubleshoot_attempts cs' k i c = Suc (troubleshoot_attempts cs k i c)"
    by simp_all
qed

lemma recovery_attempts_bounded:
  assumes "recovery_guarded (plan_execution_graph plan) T" "counters_normal cs"
    "list_all (event_ok (plan_execution_graph plan) k i) events"
  shows "recoveries plan w k i c cs events \<le> T - troubleshoot_attempts cs k i c"
  using assms(2,3)
proof (induction events arbitrary: cs)
  case (Cons e es)
  show ?case
  proof (cases e)
    case (ForwardProgress k' i')
    let ?cs = "reset_forward_progress_counters cs k' i'"
    have "List.find (entry_has_key c k i) (filter (\<lambda>e. rc_work_item_kind e \<noteq> k' \<or> rc_work_item_id e \<noteq> i') xs)
        = List.find (entry_has_key c k i) xs" for xs
      using Cons.prems(2) ForwardProgress by (induction xs) (auto simp: event_ok_def entry_has_key_def)
    then have same: "troubleshoot_attempts ?cs k i c = troubleshoot_attempts cs k i c"
      by (simp add: troubleshoot_attempts_def reset_forward_progress_counters_def)
    have "counters_normal ?cs"
      using Cons.prems(1) by (auto simp: counters_normal_def reset_forward_progress_counters_def list_all_iff)
    then show ?thesis using Cons.IH[of ?cs] Cons.prems same ForwardProgress by simp
  next
    case (ResultRouted s r)
    show ?thesis
    proof (cases "route_result plan w cs s r")
      case (Inl err)
      then show ?thesis using Cons ResultRouted by simp
    next
      case (Inr dc)
      obtain d cs' where dc: "dc = (d, cs')" by fastforce
      note step = route_result_counters[OF Inr[unfolded dc] Cons.prems(1)]
      show ?thesis
      proof (cases "is_recovery k i c r d")
        case False
        then show ?thesis
          using Cons.IH[OF step(1)] Cons.prems step(2)[of k i c] Inr dc ResultRouted by (simp add: le_diff_conv2)
      next
        case True
        then have "route_execution_stage_result (plan_execution_graph plan) s r cs = Inr d"
          using Inr dc by (auto simp: route_result_def route_stage_result_from_graph_def graph_for_plane_def
              and_then_eq_Inr map_ok_eq_Inr is_recovery_def split: if_splits)
        then have "troubleshoot_attempts cs k i c < T"
          using recovery_below_threshold[OF _ assms(1), of s r cs d c k i] True Cons.prems ResultRouted
          by (auto simp: is_recovery_def event_ok_def)
        then show ?thesis
          using Cons.IH[OF step(1)] Cons.prems step(3)[OF True] True Inr dc ResultRouted by simp
      qed
    qed
  qed
qed simp

end
