(* ===== verification/Runtime_Properties.thy ===== *)
theory Runtime_Properties
  imports Runtime_Examples Launch_Validity Router_Facts Queue_Refinement
begin

text \<open>
  The properties of the snapshot, the schedule and the stage router, with the instances at which those
  with hypotheses are applied.
\<close>

section \<open>Snapshots\<close>

text \<open>C17. Validation of a runtime snapshot ends in a state the runtime can rely on: whatever document
  it accepts, its result satisfies the well-formedness invariant (pause sources without repeats, the
  plane indexes agreeing with the fixed fields, every active run well formed and filed under its own
  plane, the legacy fields naming an active run, every lane well formed), and is a fixed point of
  validation. Saving and loading a validated snapshot therefore changes nothing.\<close>

theorem validated_snapshot_is_stable:
  assumes "RuntimeSnapshot_validate_contract rfc s = Inr t"
  shows "snapshot_wf rfc t \<and> RuntimeSnapshot_validate_contract rfc t = Inr t"
  using validated_snapshot_wf[OF assms] snapshot_wf_fixed by blast

definition demo_rfc :: "string \<Rightarrow> string + int" where
  "demo_rfc s = Inr 0"

lemma demo_building_valid: "RuntimeSnapshot_validate_contract demo_rfc demo_building = Inr demo_building"
  by code_simp

text \<open>A document whose pause sources are repeated and whose active run is only in the legacy fields.\<close>

definition demo_legacy :: RuntimeSnapshot where
  "demo_legacy = demo_building\<lparr>rs_active_runs_by_plane := [], rs_paused := True,
     rs_pause_sources := [OperatorPause, OperatorPause]\<rparr>"

lemma validated_snapshot_is_stable_witness:
  "(case RuntimeSnapshot_validate_contract demo_rfc demo_legacy of
      Inr t \<Rightarrow> t \<noteq> demo_legacy \<and> RuntimeSnapshot_validate_contract demo_rfc t = Inr t
    | Inl _ \<Rightarrow> False)"
proof (cases "RuntimeSnapshot_validate_contract demo_rfc demo_legacy")
  case (Inl e)
  moreover have "is_ok (RuntimeSnapshot_validate_contract demo_rfc demo_legacy)" by code_simp
  ultimately show ?thesis by simp
next
  case (Inr t)
  have "(case RuntimeSnapshot_validate_contract demo_rfc demo_legacy of
      Inr t \<Rightarrow> rs_pause_sources t \<noteq> rs_pause_sources demo_legacy | Inl _ \<Rightarrow> False)" by code_simp
  then have "t \<noteq> demo_legacy" using Inr by auto
  with Inr validated_snapshot_is_stable[OF Inr] show ?thesis by simp
qed

section \<open>The schedule\<close>

text \<open>C18. In every schedule the runtime can reach from an idle snapshot, any two planes that have an
  active run, under a plan that passed validation and names the lanes of its planes apart, are
  compatible: the plan's concurrency policy lists them in one of the groups that may
  run together and in no exclusive group, and its lane policy lets their lanes run beside each other
  in both directions. Without both policies at most one run is ever active.\<close>

theorem active_planes_are_compatible:
  assumes "sched_reachable plan s" "CompiledRunPlan_validate p0 = Inr plan"
    and "distinct (map (lane_id_for_plane (Some plan)) Plane_ALL)"
  shows "list_all (\<lambda>p. list_all (\<lambda>q. p = q \<or> compatible_planes plan p q) (active_planes s)) (active_planes s)
    \<and> (plan_concurrency_policy plan = None \<or> plan_lane_policy plan = None \<longrightarrow> length (active_planes s) \<le> 1)"
proof -
  have all: "list_all (\<lambda>p. list_all (\<lambda>q. p = q \<or> compatible_planes plan p q) (active_planes s)) (active_planes s)"
    using sched_reachable_inv[OF assms(1) validated_plan_ok[OF assms(2,3)]] set_active_planes unfolding sched_inv_def list_all_iff by blast
  have "length (active_planes s) \<le> 1" if "plan_concurrency_policy plan = None \<or> plan_lane_policy plan = None"
  proof -
    have "\<not> compatible_planes plan p q" for p q
      using that by (auto simp: compatible_planes_def planes_allowed_def lanes_allowed_def)
    moreover have "distinct (active_planes s)" by (simp add: active_planes_def DISPATCH_ORDER_def)
    ultimately show ?thesis using all by (cases "active_planes s" rule: remdups_adj.cases) auto
  qed
  with all show ?thesis by blast
qed

lemma active_planes_are_compatible_witness:
  "active_planes demo_learning_too = [Plane.Execution, Plane.Learning]
   \<and> compatible_planes demo_plan Plane.Execution Plane.Learning"
proof -
  have a: "active_planes demo_learning_too = [Plane.Execution, Plane.Learning]" by code_simp
  show ?thesis
    using active_planes_are_compatible[OF demo_reachable(2) demo_plan_valid demo_lanes_distinct] by (simp add: a)
qed



text \<open>C20. Launching a claimed work item keeps the snapshot valid: if the snapshot is one that validation
  returns and the plan activates the claim, then the snapshot with the new run, its lane and the
  refreshed foreground fields is again accepted by validation, unchanged.\<close>

theorem launching_a_claim_keeps_the_snapshot_valid:
  assumes "RuntimeSnapshot_validate_contract rfc s = Inr s"
    and "CompiledRunPlan_validate p0 = Inr plan" "activation_for_claim plan c target = Inr a"
    and "qc_family_id c = WorkItemKind_as_str (qc_work_item_kind c)"
    and "namespaced_by (ad_plane a) (lane_id_for_plane (Some plan) (ad_plane a))"
    and "list_all (\<lambda>v. trim v \<noteq> []) [ad_node_id a, ad_stage_kind_id a, run_id, rs_compiled_plan_id s,
           rs_compiled_plan_fingerprint s]"
  shows "RuntimeSnapshot_validate_contract rfc (activate_run s (claim_active_run plan s c a run_id now) now)
    = Inr (activate_run s (claim_active_run plan s c a run_id now) now)"
proof -
  have "run_wf (claim_active_run plan s c a run_id now)"
    using assms activation_stage_plane[OF assms(3)] activation_plane[OF validated_plan_planes[OF assms(2)] assms(3)]
    by (intro claimed_run_wf) auto
  then show ?thesis
    using assms(5,6) validated_snapshot_wf[OF assms(1)]
    by (intro snapshot_wf_fixed activate_run_valid) (simp_all add: claim_active_run_def)
qed

lemma launching_a_claim_keeps_the_snapshot_valid_witness:
  "RuntimeSnapshot_validate_contract demo_rfc demo_learning_too = Inr demo_learning_too"
proof -
  let ?c = "demo_claim WorkItemKind.LearningRequest ''l1''"
  have "qc_family_id ?c = WorkItemKind_as_str (qc_work_item_kind ?c)" by (simp add: demo_claim_def)
  moreover have "namespaced_by (ad_plane (demo_activation WorkItemKind.LearningRequest))
      (lane_id_for_plane (Some demo_plan) (ad_plane (demo_activation WorkItemKind.LearningRequest)))" by code_simp
  moreover have "list_all (\<lambda>v. trim v \<noteq> [])
      [ad_node_id (demo_activation WorkItemKind.LearningRequest),
       ad_stage_kind_id (demo_activation WorkItemKind.LearningRequest), ''run-2'',
       rs_compiled_plan_id demo_building, rs_compiled_plan_fingerprint demo_building]" by code_simp
  ultimately show ?thesis
    unfolding demo_learning_too_def demo_launch_def
    by (intro launching_a_claim_keeps_the_snapshot_valid[OF demo_building_valid demo_plan_valid demo_activates(2)])
qed

section \<open>The stage router\<close>

text \<open>C21. A decision to run another stage never leaves the compiled graph and can always be carried out:
  the router names a node of the graph of the result's own plane, and for the active run of that
  plane \<^verbatim>\<open>apply_run_stage_decision\<close> succeeds and moves this very run, its run id kept and its running
  marker cleared, to the stage, node and stage kind of the decision.\<close>

theorem routed_stage_is_in_the_graph_and_applies:
  assumes "route_stage_result_from_graph plan s r cs = Inr d" "rd_action d = RunStage"
    and "CompiledRunPlan_validate p0 = Inr plan"
    and "map_of (rs_active_runs_by_plane s) (sr_plane r) = Some run" "trim (sr_work_item_id r) \<noteq> []"
  shows "\<exists>g n s' cs' run'. graph_for_plane plan (sr_plane r) = Inr g \<and> n \<in> set (fg_nodes g)
    \<and> apply_run_stage_decision w s cs d r = Inr (s', cs')
    \<and> map_of (rs_active_runs_by_plane s') (sr_plane r) = Some run'
    \<and> ar_node_id run' = gn_node_id n \<and> ar_stage_kind_id run' = gn_stage_kind_id n
    \<and> stage_name_for_plane (sr_plane r) (gn_stage_kind_id n) = Inr (ar_stage run')
    \<and> ar_run_id run' = ar_run_id run \<and> ar_running_status_marker run' = None"
proof -
  obtain g where g: "graph_for_plane plan (sr_plane r) = Inr g" "decision_ok g d"
    using route_ok[OF assms(1)] by blast
  have "runs_node g d" using g(2) assms(2) by (simp add: decision_ok_def)
  moreover have "fg_plane g = sr_plane r" by (rule graph_plane[OF validated_plan_planes[OF assms(3)] g(1)])
  moreover obtain s' cs' run' st where "apply_run_stage_decision w s cs d r = Inr (s', cs')"
      "runs_of s' (sr_plane r) = Some run'" "rd_next_stage d = Some st" "ar_stage run' = st"
      "rd_next_node_id d = Some (ar_node_id run')" "rd_next_stage_kind_id d = Some (ar_stage_kind_id run')"
      "ar_run_id run' = ar_run_id run" "ar_running_status_marker run' = None"
    using routed_stage_applies[OF assms(1,2) validated_plan_planes[OF assms(3)] assms(4,5)] by blast
  ultimately show ?thesis using g(1) by (auto simp: runs_node_def)
qed

text \<open>The builder's result is blocked.\<close>

definition demo_blocked :: StageResultEnvelope where
  "demo_blocked =
     \<lparr>sr_schema_version = ''1.0'', sr_kind = ''stage_result'', sr_run_id = ''run-1'',
      sr_plane = Plane.Execution, sr_stage = StageName.Builder, sr_node_id = ''builder'',
      sr_stage_kind_id = ''builder'', sr_work_item_kind = WorkItemKind.Task, sr_work_item_id = ''t1'',
      sr_terminal_result = TerminalResult.Execution ExecutionTerminalResult.Blocked,
      sr_result_class = ResultClass.Blocked, sr_summary_status_marker = ''### BLOCKED'',
      sr_success = False, sr_retryable = False, sr_exit_code = 0, sr_duration_seconds = Finite 3600, sr_prompt_artifact = None,
      sr_report_artifact = None, sr_artifact_paths = [], sr_detected_marker = None, sr_stdout_path = None,
      sr_stderr_path = None, sr_runner_name = None, sr_model_name = None, sr_thinking_level = None,
      sr_model_reasoning_effort = None, sr_token_usage = None, sr_notes = [],
      sr_metadata = [(''failure_class'', JString ''Missing tool'')],
      sr_started_at = ''2026-01-02T00:00:00Z'', sr_completed_at = ''2026-01-02T01:00:00Z''\<rparr>"

definition no_counters :: RecoveryCounters where
  "no_counters = \<lparr>rk_schema_version = ''1.0'', rk_kind = ''recovery_counters'', rk_entries = []\<rparr>"

definition demo_decision :: RouterDecision where
  "demo_decision =
     \<lparr>rd_action = RunStage, rd_next_plane = Some Plane.Execution, rd_next_stage = Some StageName.Troubleshooter,
      rd_reason = ''builder_blocked'', rd_next_node_id = Some ''troubleshooter'',
      rd_next_stage_kind_id = Some ''troubleshooter'', rd_failure_class = Some ''missing_tool'',
      rd_counter_key = Some ''task:t1:missing_tool'', rd_create_incident = False\<rparr>"

lemma demo_routed: "route_stage_result_from_graph demo_plan demo_building demo_blocked no_counters = Inr demo_decision"
  by code_simp

lemma routed_stage_is_in_the_graph_and_applies_witness:
  "\<exists>s' cs' run'. apply_run_stage_decision empty_workspace demo_building no_counters demo_decision demo_blocked
      = Inr (s', cs') \<and> map_of (rs_active_runs_by_plane s') Plane.Execution = Some run'
     \<and> ar_run_id run' = ''run-1''"
proof -
  have "(case map_of (rs_active_runs_by_plane demo_building) Plane.Execution of
      Some r \<Rightarrow> ar_run_id r = ''run-1'' | None \<Rightarrow> False)" by code_simp
  then obtain run where run: "map_of (rs_active_runs_by_plane demo_building) (sr_plane demo_blocked) = Some run"
    "ar_run_id run = ''run-1''" by (auto simp: demo_blocked_def split: option.splits)
  have "rd_action demo_decision = RunStage" "trim (sr_work_item_id demo_blocked) \<noteq> []" by code_simp+
  with routed_stage_is_in_the_graph_and_applies[OF demo_routed _ demo_plan_valid run(1), of empty_workspace] run(2)
  show ?thesis by (auto simp: demo_blocked_def)
qed



end
