(* ===== verification/Compile_Config.thy ===== *)
theory Compile_Config
  imports Compiled_Plan
begin

text \<open>
  The configuration the compiler reads, from \<^verbatim>\<open>src/src/compiler/assets.rs\<close>: the errors, the effective
  configuration with its defaults, mode aliases, and the loader of \<^verbatim>\<open>millrace.toml\<close>.

  The TOML parser is a parameter; its values are the datatype \<open>TomlValue\<close>, a table the association list
  of its entries in iteration order. A path is a string. Prefixes: \<open>ev_\<close> recovery, \<open>ex_\<close> execution
  capabilities, \<open>et_\<close> stage, \<open>ec_\<close> configuration.
\<close>

section \<open>Errors\<close>

datatype CompilerAssetError =
    AssetIo string string
  | AssetToml string string
  | AssetInvalidConfig "string option" string string
  | AssetInvalidPath string string
  | UnknownAsset string string string
  | DuplicateAssetId string string "string list"
  | AssetIdMismatch string string string string
  | MissingReferencedAsset string string string
  | InvalidReferencedAsset string string string string
  | AssetContract string string string

primrec CompilerAssetError_to_string :: "CompilerAssetError \<Rightarrow> string" where
  "CompilerAssetError_to_string (AssetIo path message) =
     ''compiler asset filesystem error at '' @ path @ '': '' @ message"
| "CompilerAssetError_to_string (AssetToml path message) =
     ''failed to parse runtime config '' @ path @ '': '' @ message"
| "CompilerAssetError_to_string (AssetInvalidConfig path f message) =
     (case path of
        Some p \<Rightarrow> ''compile config field '' @ f @ '' is invalid in '' @ p @ '': '' @ message
      | None \<Rightarrow> ''compile config field '' @ f @ '' is invalid: '' @ message)"
| "CompilerAssetError_to_string (AssetInvalidPath path message) =
     ''invalid compiler asset path '' @ path @ '': '' @ message"
| "CompilerAssetError_to_string (UnknownAsset family ident searched_root) =
     ''unknown '' @ family @ '' asset id '' @ ident @ '' under '' @ searched_root"
| "CompilerAssetError_to_string (DuplicateAssetId family ident paths) =
     ''duplicate '' @ family @ '' asset id '' @ ident @ '': '' @ join_with '', '' paths"
| "CompilerAssetError_to_string (AssetIdMismatch path f expected actual) =
     ''asset '' @ path @ '' has mismatched '' @ f @ '': expected '' @ expected @ '', found '' @ actual"
| "CompilerAssetError_to_string (MissingReferencedAsset family logical_id path) =
     ''missing referenced '' @ family @ '' asset '' @ logical_id @ '': '' @ path"
| "CompilerAssetError_to_string (InvalidReferencedAsset family logical_id path message) =
     ''invalid referenced '' @ family @ '' asset '' @ logical_id @ '' at '' @ path @ '': '' @ message"
| "CompilerAssetError_to_string (AssetContract path artifact message) =
     ''invalid '' @ artifact @ '' compiler contract at '' @ path @ '': '' @ message"

section \<open>The effective configuration\<close>

definition DEFAULT_MODE_ID :: string where
  "DEFAULT_MODE_ID = ''default_codex''"

definition MISSING_ASSET_TOKEN :: string where
  "MISSING_ASSET_TOKEN = ''missing''"

definition MODE_ALIAS_STANDARD_PLAIN :: string where
  "MODE_ALIAS_STANDARD_PLAIN = ''standard_plain''"

record EffectiveRecoveryCompileConfig =
  ev_max_fix_cycles :: nat
  ev_max_troubleshoot_attempts_before_consult :: nat
  ev_max_mechanic_attempts :: nat

record EffectiveExecutionCapabilitiesConfig =
  ex_enabled :: bool
  ex_default_unknown_capability :: CapabilityPolicyDecision
  ex_allow_advisory_grants :: bool
  ex_fail_required_advisory :: bool
  ex_defaults :: "(string \<times> CapabilityPolicyDecision) list"

record EffectiveStageCompileConfig =
  et_runner :: "string option"
  et_model :: "string option"
  et_thinking_level :: "string option"
  et_model_reasoning_effort :: "string option"
  et_timeout_seconds :: "nat option"

text \<open>The one-field sections \<^verbatim>\<open>runtime\<close>, \<^verbatim>\<open>runners\<close> and \<^verbatim>\<open>runners.codex\<close> are the first three fields.\<close>

record EffectiveCompileConfig =
  ec_default_mode :: string
  ec_default_runner :: string
  ec_codex_model_reasoning_effort :: "string option"
  ec_recovery :: EffectiveRecoveryCompileConfig
  ec_execution_capabilities :: EffectiveExecutionCapabilitiesConfig
  ec_stages :: "(string \<times> EffectiveStageCompileConfig) list"

definition EffectiveRecoveryCompileConfig_default :: EffectiveRecoveryCompileConfig where
  "EffectiveRecoveryCompileConfig_default =
     \<lparr>ev_max_fix_cycles = 2, ev_max_troubleshoot_attempts_before_consult = 2, ev_max_mechanic_attempts = 2\<rparr>"

definition EffectiveExecutionCapabilitiesConfig_default :: EffectiveExecutionCapabilitiesConfig where
  "EffectiveExecutionCapabilitiesConfig_default =
     \<lparr>ex_enabled = True, ex_default_unknown_capability = CapabilityPolicyDecision.Deny,
      ex_allow_advisory_grants = True, ex_fail_required_advisory = False,
      ex_defaults =
        [(''git.mutate'', CapabilityPolicyDecision.ApprovalRequired),
         (''network.access'', CapabilityPolicyDecision.Deny),
         (''package.install'', CapabilityPolicyDecision.ApprovalRequired),
         (''shell.run'', CapabilityPolicyDecision.Allow),
         (''workspace.write'', CapabilityPolicyDecision.Allow)]\<rparr>"

definition EffectiveCompileConfig_default :: EffectiveCompileConfig where
  "EffectiveCompileConfig_default =
     \<lparr>ec_default_mode = DEFAULT_MODE_ID, ec_default_runner = ''codex_cli'',
      ec_codex_model_reasoning_effort = None, ec_recovery = EffectiveRecoveryCompileConfig_default,
      ec_execution_capabilities = EffectiveExecutionCapabilitiesConfig_default, ec_stages = []\<rparr>"

definition canonical_mode_id :: "string \<Rightarrow> string" where
  "canonical_mode_id mode_id =
     (if trim mode_id = MODE_ALIAS_STANDARD_PLAIN then DEFAULT_MODE_ID else trim mode_id)"

definition resolve_mode_id :: "string option \<Rightarrow> EffectiveCompileConfig \<Rightarrow> string" where
  "resolve_mode_id requested config =
     (case requested of
        Some r \<Rightarrow> if trim r \<noteq> [] then canonical_mode_id r
                  else if trim (ec_default_mode config) \<noteq> [] then canonical_mode_id (ec_default_mode config)
                  else DEFAULT_MODE_ID
      | None \<Rightarrow> if trim (ec_default_mode config) \<noteq> [] then canonical_mode_id (ec_default_mode config)
                else DEFAULT_MODE_ID)"

section \<open>Reading TOML tables\<close>

datatype TomlValue =
  TomlString string | TomlInteger int | TomlBoolean bool | TomlTable "(string \<times> TomlValue) list" | TomlOther

type_synonym toml_table = "(string \<times> TomlValue) list"

definition invalid_config :: "string option \<Rightarrow> string \<Rightarrow> string \<Rightarrow> CompilerAssetError + 'a" where
  "invalid_config path f message = Inl (AssetInvalidConfig path f message)"

definition child_table :: "toml_table \<Rightarrow> string \<Rightarrow> string \<Rightarrow> CompilerAssetError + toml_table option" where
  "child_table t k path =
     (case map_of t k of
        None \<Rightarrow> Inr None
      | Some (TomlTable c) \<Rightarrow> Inr (Some c)
      | Some _ \<Rightarrow> invalid_config (Some path) k ''must be a TOML table when present'')"

definition optional_string :: "toml_table \<Rightarrow> string \<Rightarrow> string \<Rightarrow> CompilerAssetError + string option" where
  "optional_string t k path =
     (case map_of t k of
        None \<Rightarrow> Inr None
      | Some (TomlString s) \<Rightarrow> Inr (Some s)
      | Some _ \<Rightarrow> invalid_config (Some path) k ''must be a string when present'')"

definition optional_bool :: "toml_table \<Rightarrow> string \<Rightarrow> string \<Rightarrow> CompilerAssetError + bool option" where
  "optional_bool t k path =
     (case map_of t k of
        None \<Rightarrow> Inr None
      | Some (TomlBoolean b) \<Rightarrow> Inr (Some b)
      | Some _ \<Rightarrow> invalid_config (Some path) k ''must be a boolean when present'')"

definition optional_positive_u64 :: "toml_table \<Rightarrow> string \<Rightarrow> string \<Rightarrow> CompilerAssetError + nat option" where
  "optional_positive_u64 t k path =
     (case map_of t k of
        None \<Rightarrow> Inr None
      | Some (TomlInteger i) \<Rightarrow>
          if i \<le> 0 then invalid_config (Some path) k ''must be greater than zero'' else Inr (Some (nat i))
      | Some _ \<Rightarrow> invalid_config (Some path) k ''must be a positive integer when present'')"

definition normalize_runner_name :: "string \<Rightarrow> string \<Rightarrow> string \<Rightarrow> CompilerAssetError + string" where
  "normalize_runner_name runner_name f path =
     (case validate_safe_identifier (trim runner_name) f of
        Inr v \<Rightarrow> Inr v
      | Inl e \<Rightarrow> invalid_config (Some path) f (ContractError_to_string e))"

definition validate_reasoning_effort :: "string \<Rightarrow> string \<Rightarrow> string \<Rightarrow> CompilerAssetError + string" where
  "validate_reasoning_effort v f path =
     (if trim v \<in> {''low'', ''medium'', ''high'', ''xhigh''} then Inr (trim v)
      else invalid_config (Some path) f
        (let q = (\<lambda>s. [CHR 0x60] @ s @ [CHR 0x60]) in
         ''must be one of '' @ q ''low'' @ '', '' @ q ''medium'' @ '', '' @ q ''high'' @ '', or '' @ q ''xhigh''))"

definition validate_thinking_level :: "string \<Rightarrow> string \<Rightarrow> string \<Rightarrow> CompilerAssetError + string" where
  "validate_thinking_level v f path =
     (if trim v = [] then invalid_config (Some path) f ''must not be empty'' else Inr (trim v))"

text \<open>\<^verbatim>\<open>Option::map\<close> followed by \<^verbatim>\<open>transpose\<close>.\<close>

definition transposed :: "('a \<Rightarrow> 'e + 'b) \<Rightarrow> 'a option \<Rightarrow> 'e + 'b option" where
  "transposed f v = (case v of None \<Rightarrow> Inr None | Some x \<Rightarrow> map_ok Some (f x))"

definition normalize_stage_thinking_aliases ::
  "string option \<Rightarrow> string option \<Rightarrow> string \<Rightarrow> string \<Rightarrow> CompilerAssetError + string option" where
  "normalize_stage_thinking_aliases thinking_level model_reasoning_effort stage_name path =
     (let f = ''stages.'' @ stage_name @ ''.thinking_level'' in
      and_then (transposed (\<lambda>v. validate_thinking_level v f path) thinking_level) (\<lambda>level.
        case level of
          None \<Rightarrow> Inr model_reasoning_effort
        | Some l \<Rightarrow>
            (case model_reasoning_effort of
               Some e \<Rightarrow> if l \<noteq> e then invalid_config (Some path) f
                   ''thinking_level and model_reasoning_effort must match when both are set''
                 else Inr (Some l)
             | None \<Rightarrow> Inr (Some l))))"

definition reject_unknown_stage_config_keys ::
  "string \<Rightarrow> toml_table \<Rightarrow> string \<Rightarrow> CompilerAssetError + unit" where
  "reject_unknown_stage_config_keys stage_name t path = all_checks (map (\<lambda>(k, v).
     if k \<in> {''runner'', ''model'', ''thinking_level'', ''model_reasoning_effort'', ''timeout_seconds''}
     then Inr ()
     else invalid_config (Some path) (''stages.'' @ stage_name @ ''.'' @ k) ''unsupported stage override key'') t)"

section \<open>Execution capabilities and stages\<close>

definition reject_unknown_execution_capabilities_config_keys ::
  "toml_table \<Rightarrow> string \<Rightarrow> CompilerAssetError + unit" where
  "reject_unknown_execution_capabilities_config_keys t path = all_checks (map (\<lambda>(k, v).
     if k \<in> {''enabled'', ''default_unknown_capability'', ''allow_advisory_grants'', ''fail_required_advisory'',
             ''defaults''}
     then Inr ()
     else invalid_config (Some path) (''execution_capabilities.'' @ k)
       ''unknown execution_capabilities config key'') t)"

definition parse_capability_policy_decision_value ::
  "TomlValue \<Rightarrow> string \<Rightarrow> string \<Rightarrow> CompilerAssetError + CapabilityPolicyDecision" where
  "parse_capability_policy_decision_value v f path =
     (case v of
        TomlString s \<Rightarrow>
          (case CapabilityPolicyDecision_from_value s of
             Inr d \<Rightarrow> Inr d
           | Inl _ \<Rightarrow> invalid_config (Some path) f
               (let q = (\<lambda>s. [CHR 0x60] @ s @ [CHR 0x60]) in
                ''must be one of '' @ q ''allow'' @ '', '' @ q ''deny'' @ '', or '' @ q ''approval_required''))
      | _ \<Rightarrow> invalid_config (Some path) f ''must be a string when present'')"

fun capability_decision_entries ::
  "string \<Rightarrow> string \<Rightarrow> toml_table \<Rightarrow> (string \<times> CapabilityPolicyDecision) list \<Rightarrow>
   CompilerAssetError + (string \<times> CapabilityPolicyDecision) list" where
  "capability_decision_entries k path [] parsed = Inr parsed"
| "capability_decision_entries k path ((capability_id, v) # rest) parsed =
     (let f = ''execution_capabilities.'' @ k @ ''.'' @ capability_id in
      case validate_capability_id capability_id of
        Inl message \<Rightarrow> invalid_config (Some path) f message
      | Inr normalized \<Rightarrow>
          and_then (parse_capability_policy_decision_value v f path) (\<lambda>d.
            capability_decision_entries k path rest (AList.update normalized d parsed)))"

definition optional_capability_policy_decision_map ::
  "toml_table \<Rightarrow> string \<Rightarrow> string \<Rightarrow> CompilerAssetError + (string \<times> CapabilityPolicyDecision) list option" where
  "optional_capability_policy_decision_map t k path =
     (case map_of t k of
        None \<Rightarrow> Inr None
      | Some (TomlTable values) \<Rightarrow> map_ok Some (capability_decision_entries k path values [])
      | Some _ \<Rightarrow> invalid_config (Some path) (''execution_capabilities.'' @ k)
          ''must be a TOML table when present'')"

definition load_execution_capabilities_config ::
  "toml_table \<Rightarrow> EffectiveExecutionCapabilitiesConfig \<Rightarrow> string \<Rightarrow>
   CompilerAssetError + EffectiveExecutionCapabilitiesConfig" where
  "load_execution_capabilities_config t config path =
     and_then (reject_unknown_execution_capabilities_config_keys t path) (\<lambda>_.
     and_then (optional_bool t ''enabled'' path) (\<lambda>enabled.
     and_then (transposed (\<lambda>v. parse_capability_policy_decision_value v
         ''execution_capabilities.default_unknown_capability'' path)
       (map_of t ''default_unknown_capability'')) (\<lambda>unknown.
     and_then (optional_bool t ''allow_advisory_grants'' path) (\<lambda>advisory.
     and_then (optional_bool t ''fail_required_advisory'' path) (\<lambda>required_advisory.
     map_ok (\<lambda>defaults. config
         \<lparr>ex_enabled := (case enabled of Some b \<Rightarrow> b | None \<Rightarrow> ex_enabled config),
          ex_default_unknown_capability :=
            (case unknown of Some d \<Rightarrow> d | None \<Rightarrow> ex_default_unknown_capability config),
          ex_allow_advisory_grants :=
            (case advisory of Some b \<Rightarrow> b | None \<Rightarrow> ex_allow_advisory_grants config),
          ex_fail_required_advisory :=
            (case required_advisory of Some b \<Rightarrow> b | None \<Rightarrow> ex_fail_required_advisory config),
          ex_defaults := (case defaults of Some ds \<Rightarrow> ds | None \<Rightarrow> ex_defaults config)\<rparr>)
       (optional_capability_policy_decision_map t ''defaults'' path))))))"

definition load_stage_config ::
  "string \<Rightarrow> string \<Rightarrow> TomlValue \<Rightarrow> CompilerAssetError + EffectiveStageCompileConfig" where
  "load_stage_config path stage_name v =
     and_then (case StageName_from_value stage_name of
         Inl _ \<Rightarrow> invalid_config (Some path) (''stages.'' @ stage_name) ''unknown stage name''
       | Inr _ \<Rightarrow> Inr ()) (\<lambda>_.
     case v of
       TomlTable t \<Rightarrow>
         and_then (reject_unknown_stage_config_keys stage_name t path) (\<lambda>_.
         and_then (optional_string t ''model_reasoning_effort'' path) (\<lambda>raw_effort.
         and_then (transposed (\<lambda>e. validate_reasoning_effort e
             (''stages.'' @ stage_name @ ''.model_reasoning_effort'') path) raw_effort) (\<lambda>effort.
         and_then (optional_string t ''thinking_level'' path) (\<lambda>raw_level.
         and_then (normalize_stage_thinking_aliases raw_level effort stage_name path) (\<lambda>level.
         and_then (optional_string t ''runner'' path) (\<lambda>raw_runner.
         and_then (transposed (\<lambda>r. normalize_runner_name r (''stages.'' @ stage_name @ ''.runner'') path)
             raw_runner) (\<lambda>runner.
         and_then (optional_string t ''model'' path) (\<lambda>model.
         map_ok (\<lambda>timeout. \<lparr>et_runner = runner, et_model = map_option trim model, et_thinking_level = level,
                            et_model_reasoning_effort = effort, et_timeout_seconds = timeout\<rparr>)
           (optional_positive_u64 t ''timeout_seconds'' path)))))))))
     | _ \<Rightarrow> invalid_config (Some path) (''stages.'' @ stage_name) ''must be a TOML table'')"

fun load_stage_configs ::
  "string \<Rightarrow> toml_table \<Rightarrow> (string \<times> EffectiveStageCompileConfig) list \<Rightarrow>
   CompilerAssetError + (string \<times> EffectiveStageCompileConfig) list" where
  "load_stage_configs path [] stages = Inr stages"
| "load_stage_configs path ((stage_name, v) # rest) stages =
     and_then (load_stage_config path stage_name v) (\<lambda>c.
       load_stage_configs path rest (AList.update stage_name c stages))"

section \<open>Loading\<close>

text \<open>A section that is absent leaves its part of the configuration as it is.\<close>

definition with_section ::
  "toml_table \<Rightarrow> string \<Rightarrow> string \<Rightarrow> 'c \<Rightarrow> (toml_table \<Rightarrow> CompilerAssetError + 'c) \<Rightarrow> CompilerAssetError + 'c" where
  "with_section root k path c load =
     and_then (child_table root k path) (\<lambda>t. case t of None \<Rightarrow> Inr c | Some t \<Rightarrow> load t)"

definition load_recovery_config ::
  "EffectiveRecoveryCompileConfig \<Rightarrow> string \<Rightarrow> toml_table \<Rightarrow> CompilerAssetError + EffectiveRecoveryCompileConfig" where
  "load_recovery_config c path t =
     and_then (optional_positive_u64 t ''max_fix_cycles'' path) (\<lambda>fixes.
     and_then (optional_positive_u64 t ''max_troubleshoot_attempts_before_consult'' path) (\<lambda>troubleshoots.
     map_ok (\<lambda>mechanics.
         \<lparr>ev_max_fix_cycles = (case fixes of Some n \<Rightarrow> n | None \<Rightarrow> ev_max_fix_cycles c),
          ev_max_troubleshoot_attempts_before_consult =
            (case troubleshoots of Some n \<Rightarrow> n | None \<Rightarrow> ev_max_troubleshoot_attempts_before_consult c),
          ev_max_mechanic_attempts = (case mechanics of Some n \<Rightarrow> n | None \<Rightarrow> ev_max_mechanic_attempts c)\<rparr>)
       (optional_positive_u64 t ''max_mechanic_attempts'' path)))"

definition load_runners_config ::
  "EffectiveCompileConfig \<Rightarrow> string \<Rightarrow> toml_table \<Rightarrow> CompilerAssetError + EffectiveCompileConfig" where
  "load_runners_config c path t =
     and_then (optional_string t ''default_runner'' path) (\<lambda>raw_runner.
     and_then (transposed (\<lambda>r. normalize_runner_name r ''runners.default_runner'' path) raw_runner) (\<lambda>runner.
     let c1 = (case runner of None \<Rightarrow> c | Some r \<Rightarrow> c\<lparr>ec_default_runner := r\<rparr>) in
     with_section t ''codex'' path c1 (\<lambda>codex.
       and_then (optional_string codex ''model_reasoning_effort'' path) (\<lambda>raw_effort.
       map_ok (\<lambda>effort. c1\<lparr>ec_codex_model_reasoning_effort := effort\<rparr>)
         (transposed (\<lambda>e. validate_reasoning_effort e ''runners.codex.model_reasoning_effort'' path)
            raw_effort)))))"

definition load_effective_compile_config_from_path ::
  "(string \<Rightarrow> string + TomlValue) \<Rightarrow> string \<Rightarrow> string option \<Rightarrow> CompilerAssetError + EffectiveCompileConfig" where
  "load_effective_compile_config_from_path parse_toml path contents =
     (let c0 = EffectiveCompileConfig_default in
      case contents of None \<Rightarrow> Inr c0 | Some raw \<Rightarrow>
      (case parse_toml raw of
         Inl message \<Rightarrow> Inl (AssetToml path message)
       | Inr (TomlTable root) \<Rightarrow>
           and_then (with_section root ''runtime'' path c0 (\<lambda>t.
             map_ok (\<lambda>m. case m of None \<Rightarrow> c0 | Some v \<Rightarrow> c0\<lparr>ec_default_mode := trim v\<rparr>)
               (optional_string t ''default_mode'' path))) (\<lambda>c1.
           and_then (with_section root ''runners'' path c1 (load_runners_config c1 path)) (\<lambda>c2.
           and_then (with_section root ''recovery'' path (ec_recovery c2)
             (load_recovery_config (ec_recovery c2) path)) (\<lambda>recovery.
           and_then (with_section root ''execution_capabilities'' path (ec_execution_capabilities c2)
             (\<lambda>t. load_execution_capabilities_config t (ec_execution_capabilities c2) path)) (\<lambda>capabilities.
           map_ok (\<lambda>stages. c2\<lparr>ec_recovery := recovery, ec_execution_capabilities := capabilities,
                               ec_stages := stages\<rparr>)
             (with_section root ''stages'' path (ec_stages c2)
                (\<lambda>t. load_stage_configs path t (ec_stages c2)))))))
       | Inr _ \<Rightarrow> invalid_config (Some path) ''<root>'' ''must be a TOML table''))"

section \<open>Facts\<close>

text \<open>The thresholds of a loaded configuration are positive.\<close>

definition recovery_positive :: "EffectiveRecoveryCompileConfig \<Rightarrow> bool" where
  "recovery_positive c \<longleftrightarrow> 0 < ev_max_fix_cycles c \<and> 0 < ev_max_troubleshoot_attempts_before_consult c
     \<and> 0 < ev_max_mechanic_attempts c"

lemma optional_positive_u64_pos: "optional_positive_u64 t k path = Inr (Some n) \<Longrightarrow> 0 < n"
  by (auto simp: optional_positive_u64_def invalid_config_def split: option.splits TomlValue.splits if_splits)

lemma load_recovery_config_positive:
  "load_recovery_config c path t = Inr d \<Longrightarrow> recovery_positive c \<Longrightarrow> recovery_positive d"
  by (auto simp: load_recovery_config_def recovery_positive_def result_simps
      dest!: optional_positive_u64_pos split: option.splits)

lemma with_section_Inr:
  assumes "with_section root k path c load = Inr d"
  obtains "d = c" | t where "load t = Inr d"
  using assms that by (auto simp: with_section_def and_then_eq_Inr split: option.splits)

lemma loaded_recovery_positive:
  assumes "load_effective_compile_config_from_path parse path contents = Inr config"
  shows "recovery_positive (ec_recovery config)"
proof (cases contents)
  case None
  then show ?thesis using assms
    by (auto simp: load_effective_compile_config_from_path_def EffectiveCompileConfig_default_def
        EffectiveRecoveryCompileConfig_default_def recovery_positive_def Let_def)
next
  case (Some raw)
  then obtain root where root: "parse raw = Inr (TomlTable root)"
    using assms by (auto simp: load_effective_compile_config_from_path_def invalid_config_def Let_def
        split: sum.splits TomlValue.splits)
  let ?c0 = "EffectiveCompileConfig_default"
  obtain c1 c2 recovery capabilities stages where
    c1: "with_section root ''runtime'' path ?c0 (\<lambda>t.
             map_ok (\<lambda>m. case m of None \<Rightarrow> ?c0 | Some v \<Rightarrow> ?c0\<lparr>ec_default_mode := trim v\<rparr>)
               (optional_string t ''default_mode'' path)) = Inr c1"
    and c2: "with_section root ''runners'' path c1 (load_runners_config c1 path) = Inr c2"
    and r: "with_section root ''recovery'' path (ec_recovery c2)
             (load_recovery_config (ec_recovery c2) path) = Inr recovery"
    and config: "config = c2\<lparr>ec_recovery := recovery, ec_execution_capabilities := capabilities,
                               ec_stages := stages\<rparr>"
    using assms
    unfolding load_effective_compile_config_from_path_def Let_def Some option.case root sum.case TomlValue.case
      and_then_eq_Inr map_ok_eq_Inr
    by (elim exE conjE) (rule that, assumption+)
  have "ec_recovery c1 = ec_recovery ?c0"
    by (rule with_section_Inr[OF c1]) (auto simp: map_ok_eq_Inr split: option.splits)
  moreover have "ec_recovery c2 = ec_recovery c1"
    by (rule with_section_Inr[OF c2])
      (auto simp: load_runners_config_def and_then_eq_Inr map_ok_eq_Inr Let_def elim!: with_section_Inr split: option.splits)
  moreover have "recovery_positive (ec_recovery ?c0)"
    by (simp add: EffectiveCompileConfig_default_def EffectiveRecoveryCompileConfig_default_def recovery_positive_def)
  ultimately have "recovery_positive recovery"
    using with_section_Inr[OF r] load_recovery_config_positive by metis
  then show ?thesis by (simp add: config)
qed

end
