(* ===== verification/Primitive_Authority.thy ===== *)
theory Primitive_Authority
  imports Compile_Config
begin

text \<open>
  Loading, selecting and checking the workflow primitives of a compile, and freezing them into the
  graphs, from \<^verbatim>\<open>src/src/compiler/workflow_primitives.rs\<close>.

  The world of the compiler is the record \<open>compile_env\<close>: the files below the runtime root by relative
  path, in path order, and the code outside the repository that the compiler calls: the TOML and JSON
  parsers, which turn the text of a document into a decoded document or an error message, the JSON
  serialiser and SHA-256, whose result is its 64 hexadecimal digits. A collection of definitions is
  \<open>None\<close> when the document has no \<^verbatim>\<open>definitions\<close> array. Hash maps and ordered maps are association
  lists; an insertion into an ordered map keeps the keys sorted.
\<close>

section \<open>The world of the compiler\<close>

type_synonym 'a collection_decoder = "string \<Rightarrow> string + (RuntimeJsonError + 'a) list option"
type_synonym 'a single_decoder = "string \<Rightarrow> string + (RuntimeJsonError + 'a)"

record CapabilityPolicyCandidate =
  py_source :: string
  py_override :: CapabilityPolicyOverride

record compile_env =
  ce_runtime_root :: string
  ce_files :: "(string \<times> string) list"
  ce_config_path :: string
  ce_config_contents :: "string option"
  ce_read_error :: string
  ce_sha256 :: "string \<Rightarrow> string"
  ce_parse_toml :: "string \<Rightarrow> string + TomlValue"
  ce_string_field :: "string \<Rightarrow> string \<Rightarrow> string option"
  ce_decode_mode :: "string \<Rightarrow> string + ModeDefinitionRaw"
  ce_decode_graph_loop :: "string \<Rightarrow> string + GraphLoopDefinition"
  ce_decode_stage_kind :: "string \<Rightarrow> string + RegisteredStageKindDefinition"
  ce_artifact_contracts :: "ArtifactContractDefinition collection_decoder"
  ce_document_adapter :: "WorkItemDocumentAdapterDefinition single_decoder"
  ce_lifecycle_mutation_plans :: "LifecycleMutationPlanDefinition collection_decoder"
  ce_queue_claim_policies :: "PlaneQueueClaimPolicyDefinition collection_decoder"
  ce_request_context_profiles :: "RequestContextProfileDefinition collection_decoder"
  ce_runtime_effect_handlers :: "RuntimeEffectHandlerDefinition collection_decoder"
  ce_runtime_effect_rules :: "RuntimeEffectRuleDefinition collection_decoder"
  ce_runtime_failure_policies :: "RuntimeFailurePolicyDefinition collection_decoder"
  ce_terminal_actions :: "TerminalActionDefinition collection_decoder"
  ce_recovery_policies :: "WorkflowRecoveryPolicyDefinition collection_decoder"
  ce_workspace_schema_epoch :: "WorkspaceSchemaEpochDefinition single_decoder"
  ce_work_item_family :: "WorkItemFamilyDefinition single_decoder"
  ce_config_json :: "EffectiveCompileConfig \<Rightarrow> string"
  ce_grant_json :: "ExecutionCapabilityGrant \<Rightarrow> string"
  ce_policy_json :: "string \<Rightarrow> CapabilityRequest list \<Rightarrow> CapabilityPolicyCandidate list \<Rightarrow>
                     EffectiveExecutionCapabilitiesConfig \<Rightarrow> string"
  ce_plan_json :: "string \<Rightarrow> (Plane \<times> string) list \<Rightarrow> (Plane \<times> FrozenGraphPlanePlan) list \<Rightarrow>
                   PlaneConcurrencyPolicyDefinition option \<Rightarrow> LearningTriggerRuleDefinition list \<Rightarrow> string"

record ResolvedGraphLoopAsset =
  ag_plane :: Plane
  ag_relative_path :: string
  ag_graph_loop :: GraphLoopDefinition

definition runtime_path :: "compile_env \<Rightarrow> string \<Rightarrow> string" where
  "runtime_path e relative_path = ce_runtime_root e @ ''/'' @ relative_path"

definition hex_prefix :: "string \<Rightarrow> nat \<Rightarrow> string" where
  "hex_prefix digest hex_len = take hex_len digest"

definition sha256_hex :: "compile_env \<Rightarrow> string \<Rightarrow> string" where
  "sha256_hex e contents = hex_prefix (ce_sha256 e contents) 64"

definition btree_insert :: "string \<Rightarrow> 'a \<Rightarrow> (string \<times> 'a) list \<Rightarrow> (string \<times> 'a) list" where
  "btree_insert k v m = sort_key fst (AList.update k v m)"

section \<open>Paths of the packaged primitives\<close>

definition WORKSPACE_SCHEMA_EPOCH_ID :: string where
  "WORKSPACE_SCHEMA_EPOCH_ID = ''v0.20''"

definition RUNTIME_EFFECT_HANDLER_IMPLEMENTATIONS :: "string list" where
  "RUNTIME_EFFECT_HANDLER_IMPLEMENTATIONS =
     [''planner_disposition'', ''manager_blueprint_manifest_to_blueprint_drafts'',
      ''contractor_blueprint_candidate_persist'', ''evaluator_blueprint_approved_to_task'',
      ''evaluator_blueprint_rejected_to_draft_revision'']"

definition ARTIFACT_CONTRACTS_PATH :: string where
  "ARTIFACT_CONTRACTS_PATH = ''registry/artifact_contracts/default_artifact_contracts.json''"

definition BUILTIN_DOCUMENT_ADAPTER_PATH :: string where
  "BUILTIN_DOCUMENT_ADAPTER_PATH = ''registry/document_adapters/builtin_markdown_v1.json''"

definition BLUEPRINT_DOCUMENT_ADAPTER_PATH :: string where
  "BLUEPRINT_DOCUMENT_ADAPTER_PATH = ''registry/document_adapters/blueprint_draft_markdown_v1.json''"

definition LIFECYCLE_MUTATION_PLANS_PATH :: string where
  "LIFECYCLE_MUTATION_PLANS_PATH = ''registry/lifecycle_mutation_plans/default_lifecycle_mutations.json''"

definition QUEUE_CLAIM_POLICIES_PATH :: string where
  "QUEUE_CLAIM_POLICIES_PATH = ''registry/queue_claim_policies/default_queue_claim_policies.json''"

definition REQUEST_CONTEXT_PROFILES_PATH :: string where
  "REQUEST_CONTEXT_PROFILES_PATH = ''registry/request_context_profiles/default_request_context_profiles.json''"

definition RUNTIME_EFFECT_HANDLERS_PATH :: string where
  "RUNTIME_EFFECT_HANDLERS_PATH = ''registry/runtime_effect_handlers/default_effect_handlers.json''"

definition BLUEPRINT_EFFECT_RULES_PATH :: string where
  "BLUEPRINT_EFFECT_RULES_PATH = ''registry/runtime_effect_rules/blueprint_effect_rules.json''"

definition PLANNER_EFFECT_RULES_PATH :: string where
  "PLANNER_EFFECT_RULES_PATH = ''registry/runtime_effect_rules/planner_effect_rules.json''"

definition RUNTIME_FAILURE_POLICIES_PATH :: string where
  "RUNTIME_FAILURE_POLICIES_PATH = ''registry/runtime_failure_policies/default_runtime_failure_policies.json''"

definition TERMINAL_ACTIONS_PATH :: string where
  "TERMINAL_ACTIONS_PATH = ''registry/terminal_actions/default_terminal_actions.json''"

definition WORKSPACE_SCHEMA_EPOCH_PATH :: string where
  "WORKSPACE_SCHEMA_EPOCH_PATH = ''registry/workspace_schema_epochs/current.json''"

definition RECOVERY_POLICIES_PATH :: string where
  "RECOVERY_POLICIES_PATH = ''registry/recovery_policies/default_recovery_policies.json''"

definition WORK_ITEM_FAMILY_PATHS :: "string list" where
  "WORK_ITEM_FAMILY_PATHS =
     [''registry/work_item_families/blueprint_draft.json'', ''registry/work_item_families/incident.json'',
      ''registry/work_item_families/learning_request.json'', ''registry/work_item_families/probe.json'',
      ''registry/work_item_families/spec.json'', ''registry/work_item_families/task.json'']"

section \<open>Loading\<close>

text \<open>\<^verbatim>\<open>Path::file_stem\<close> and \<^verbatim>\<open>Path::extension\<close> of a relative path.\<close>

definition path_file_name :: "string \<Rightarrow> string" where
  "path_file_name path = last (split_on (CHR ''/'') path)"

definition path_file_stem :: "string \<Rightarrow> string" where
  "path_file_stem path =
     (let name = path_file_name path; r = dropWhile (\<lambda>c. c \<noteq> CHR ''.'') (rev name) in
      if r = [] \<or> r = ''.'' then name else rev (tl r))"

definition path_has_extension :: "string \<Rightarrow> string \<Rightarrow> bool" where
  "path_has_extension path extension \<longleftrightarrow>
     path_file_name path = path_file_stem path @ ''.'' @ extension \<and> path_file_stem path \<noteq> path_file_name path
     \<and> CHR ''.'' \<notin> set extension"

definition primitive_asset_id :: "string \<Rightarrow> string" where
  "primitive_asset_id relative_path =
     map (\<lambda>c. if c = CHR ''-'' then CHR ''_'' else c) (path_file_stem relative_path)"

definition invalid_primitive :: "compile_env \<Rightarrow> string \<Rightarrow> CompilerAssetError + 'a" where
  "invalid_primitive e message =
     Inl (InvalidReferencedAsset ''workflow_primitive'' ''workflow_primitives'' (runtime_path e ''registry'') message)"

text \<open>The references and fingerprints that loading accumulates; a loader passes them on.\<close>

record loaded_assets =
  lo_resolved_assets :: "ResolvedAssetRef list"
  lo_fingerprints :: "(string \<times> string) list"

type_synonym 'a loader = "loaded_assets \<Rightarrow> CompilerAssetError + ('a \<times> loaded_assets)"

definition and_load :: "'a loader \<Rightarrow> ('a \<Rightarrow> 'b loader) \<Rightarrow> 'b loader" where
  "and_load m f l = and_then (m l) (\<lambda>(x, l1). f x l1)"

definition load_text :: "compile_env \<Rightarrow> string \<Rightarrow> string \<Rightarrow> string loader" where
  "load_text e relative_path collection_id l =
     (case map_of (ce_files e) relative_path of
        None \<Rightarrow> Inl (AssetIo (runtime_path e relative_path) (ce_read_error e))
      | Some contents \<Rightarrow>
          let content = sha256_hex e contents;
              asset = \<lparr>ra_asset_family = ''workflow_primitive'',
                       ra_logical_id = ''workflow_primitive:'' @ collection_id @ '':''
                         @ primitive_asset_id relative_path,
                       ra_compile_time_path = relative_path, ra_content_sha256 = content\<rparr>;
              fingerprints = btree_insert (collection_id @ ''.'' @ primitive_asset_id relative_path) content
                (lo_fingerprints l);
              collection = (case map_of fingerprints collection_id of
                  Some previous \<Rightarrow> sha256_hex e (previous @ [CHR 0x0A] @ relative_path @ [CHR 0x0A] @ content)
                | None \<Rightarrow> content)
          in Inr (contents, \<lparr>lo_resolved_assets = lo_resolved_assets l @ [asset],
                             lo_fingerprints = btree_insert collection_id collection fingerprints\<rparr>))"

text \<open>\<^verbatim>\<open>load_json_value\<close> is \<open>load_text\<close> followed by the parser.\<close>

definition load_json_value ::
  "compile_env \<Rightarrow> (string \<Rightarrow> string + 'a) \<Rightarrow> string \<Rightarrow> string \<Rightarrow> 'a loader" where
  "load_json_value e parse relative_path collection_id =
     and_load (load_text e relative_path collection_id) (\<lambda>contents l.
       case parse contents of
         Inl message \<Rightarrow> Inl (AssetContract (runtime_path e relative_path) ''workflow_primitive'' message)
       | Inr v \<Rightarrow> Inr (v, l))"

text \<open>\<^verbatim>\<open>T::from_json_value\<close>: a decoded definition is checked by its contract.\<close>

definition load_definition ::
  "compile_env \<Rightarrow> string \<Rightarrow> string \<Rightarrow> ('a \<Rightarrow> RuntimeJsonError + unit) \<Rightarrow> RuntimeJsonError + 'a \<Rightarrow>
   CompilerAssetError + 'a" where
  "load_definition e relative_path artifact contract decoded =
     map_err (\<lambda>err. AssetContract (runtime_path e relative_path) artifact (RuntimeJsonError_to_string err))
       (and_then decoded (\<lambda>d. map_ok (\<lambda>_. d) (contract d)))"

fun load_definitions ::
  "compile_env \<Rightarrow> string \<Rightarrow> string \<Rightarrow> ('a \<Rightarrow> RuntimeJsonError + unit) \<Rightarrow> (RuntimeJsonError + 'a) list \<Rightarrow>
   CompilerAssetError + 'a list" where
  "load_definitions e relative_path artifact contract [] = Inr []"
| "load_definitions e relative_path artifact contract (decoded # rest) =
     and_then (load_definition e relative_path artifact contract decoded) (\<lambda>d.
       map_ok ((#) d) (load_definitions e relative_path artifact contract rest))"

definition load_collection ::
  "compile_env \<Rightarrow> 'a collection_decoder \<Rightarrow> string \<Rightarrow> ('a \<Rightarrow> RuntimeJsonError + unit) \<Rightarrow> string \<Rightarrow> string \<Rightarrow>
   'a list loader" where
  "load_collection e decode artifact contract relative_path collection_id =
     and_load (load_json_value e decode relative_path collection_id) (\<lambda>definitions l.
       case definitions of
         None \<Rightarrow> invalid_primitive e (relative_path @ '' must contain definitions'')
       | Some ds \<Rightarrow> map_ok (\<lambda>loaded. (loaded, l)) (load_definitions e relative_path artifact contract ds))"

definition load_single_definition ::
  "compile_env \<Rightarrow> 'a single_decoder \<Rightarrow> string \<Rightarrow> ('a \<Rightarrow> RuntimeJsonError + unit) \<Rightarrow> string \<Rightarrow> string \<Rightarrow>
   'a loader" where
  "load_single_definition e decode artifact contract relative_path collection_id =
     and_load (load_json_value e decode relative_path collection_id) (\<lambda>decoded l.
       map_ok (\<lambda>d. (d, l)) (load_definition e relative_path artifact contract decoded))"

definition load_single ::
  "compile_env \<Rightarrow> 'a single_decoder \<Rightarrow> string \<Rightarrow> ('a \<Rightarrow> RuntimeJsonError + unit) \<Rightarrow> string \<Rightarrow> string \<Rightarrow>
   'a list loader" where
  "load_single e decode artifact contract relative_path collection_id =
     and_load (load_single_definition e decode artifact contract relative_path collection_id)
       (\<lambda>d l. Inr ([d], l))"

text \<open>The loop over the family files.\<close>

fun load_families :: "compile_env \<Rightarrow> string list \<Rightarrow> WorkItemFamilyDefinition list loader" where
  "load_families e [] l = Inr ([], l)"
| "load_families e (relative_path # rest) l =
     and_load (load_single e (ce_work_item_family e) ''work_item_family'' WorkItemFamilyDefinition_validate
                 relative_path ''work_item_families'') (\<lambda>families.
     and_load (load_families e rest) (\<lambda>more l1. Inr (families @ more, l1))) l"

definition load_all_workflow_primitives :: "compile_env \<Rightarrow> CompiledWorkflowPrimitiveBundle loader" where
  "load_all_workflow_primitives e =
     and_load (load_collection e (ce_artifact_contracts e) ''artifact_contract''
                 ArtifactContractDefinition_validate ARTIFACT_CONTRACTS_PATH ''artifact_contracts'') (\<lambda>artifacts.
     and_load (load_single e (ce_document_adapter e) ''work_item_document_adapter''
                 WorkItemDocumentAdapterDefinition_validate BUILTIN_DOCUMENT_ADAPTER_PATH ''document_adapters'')
       (\<lambda>builtin.
     and_load (load_single e (ce_document_adapter e) ''work_item_document_adapter''
                 WorkItemDocumentAdapterDefinition_validate BLUEPRINT_DOCUMENT_ADAPTER_PATH ''document_adapters'')
       (\<lambda>blueprint.
     and_load (load_collection e (ce_lifecycle_mutation_plans e) ''lifecycle_mutation_plan''
                 LifecycleMutationPlanDefinition_validate LIFECYCLE_MUTATION_PLANS_PATH
                 ''lifecycle_mutation_plans'') (\<lambda>plans.
     and_load (load_collection e (ce_queue_claim_policies e) ''plane_queue_claim_policy''
                 PlaneQueueClaimPolicyDefinition_validate QUEUE_CLAIM_POLICIES_PATH ''queue_claim_policies'')
       (\<lambda>claims.
     and_load (load_collection e (ce_request_context_profiles e) ''request_context_profile''
                 RequestContextProfileDefinition_validate REQUEST_CONTEXT_PROFILES_PATH
                 ''request_context_profiles'') (\<lambda>profiles.
     and_load (load_collection e (ce_runtime_effect_handlers e) ''runtime_effect_handler''
                 RuntimeEffectHandlerDefinition_validate RUNTIME_EFFECT_HANDLERS_PATH
                 ''runtime_effect_handlers'') (\<lambda>handlers.
     and_load (load_collection e (ce_runtime_effect_rules e) ''runtime_effect_rule''
                 RuntimeEffectRuleDefinition_validate PLANNER_EFFECT_RULES_PATH ''runtime_effect_rules'')
       (\<lambda>planner_rules.
     and_load (load_collection e (ce_runtime_effect_rules e) ''runtime_effect_rule''
                 RuntimeEffectRuleDefinition_validate BLUEPRINT_EFFECT_RULES_PATH ''runtime_effect_rules'')
       (\<lambda>blueprint_rules.
     and_load (load_collection e (ce_runtime_failure_policies e) ''runtime_failure_policy''
                 RuntimeFailurePolicyDefinition_validate RUNTIME_FAILURE_POLICIES_PATH
                 ''runtime_failure_policies'') (\<lambda>failures.
     and_load (load_collection e (ce_terminal_actions e) ''terminal_action'' TerminalActionDefinition_validate
                 TERMINAL_ACTIONS_PATH ''terminal_actions'') (\<lambda>actions.
     and_load (load_collection e (ce_recovery_policies e) ''workflow_recovery_policy''
                 WorkflowRecoveryPolicyDefinition_validate RECOVERY_POLICIES_PATH ''recovery_policies'')
       (\<lambda>recoveries.
     and_load (load_single_definition e (ce_workspace_schema_epoch e) ''workspace_schema_epoch''
                 WorkspaceSchemaEpochDefinition_validate WORKSPACE_SCHEMA_EPOCH_PATH ''workspace_schema_epoch'')
       (\<lambda>epoch.
     and_load (load_families e WORK_ITEM_FAMILY_PATHS) (\<lambda>families l.
       Inr (\<lparr>bu_artifact_contracts = artifacts, bu_request_context_profiles = profiles,
             bu_work_item_families = families, bu_document_adapters = builtin @ blueprint,
             bu_queue_claim_policies = claims, bu_terminal_actions = actions,
             bu_lifecycle_mutation_plans = plans, bu_runtime_effect_handlers = handlers,
             bu_runtime_effect_rules = planner_rules @ blueprint_rules, bu_recovery_policies = recoveries,
             bu_runtime_failure_policies = failures, bu_workspace_schema_epoch = Some epoch\<rparr>, l)))))))))))))))"

section \<open>Selection\<close>

definition selected_node_ids :: "ResolvedGraphLoopAsset list \<Rightarrow> string set" where
  "selected_node_ids graph_loops =
     set (concat (map (\<lambda>g. map ln_node_id (gl_nodes (ag_graph_loop g))) graph_loops))"

definition stage_profile_id :: "string \<Rightarrow> string" where
  "stage_profile_id stage_kind_id = stage_kind_id @ ''.default''"

definition selected_request_context_profile_ids ::
  "ResolvedGraphLoopAsset list \<Rightarrow> RequestContextProfileDefinition list \<Rightarrow> string set" where
  "selected_request_context_profile_ids graph_loops profiles =
     (let profile_ids = set (map rp_profile_id profiles) in
      set (concat (map (\<lambda>g. concat (map (\<lambda>n.
        let stage_profile = stage_profile_id (ln_stage_kind_id n) in
        if stage_profile \<in> profile_ids then [stage_profile]
        else if ag_plane g = Plane.Learning \<and> ''learning.default'' \<in> profile_ids then [''learning.default'']
        else []) (gl_nodes (ag_graph_loop g)))) graph_loops)))"

definition select_workflow_primitives ::
  "CompiledWorkflowPrimitiveBundle \<Rightarrow> ResolvedGraphLoopAsset list \<Rightarrow> CompiledWorkflowPrimitiveBundle" where
  "select_workflow_primitives loaded graph_loops =
     (let selected_nodes = selected_node_ids graph_loops;
          profile_ids = selected_request_context_profile_ids graph_loops (bu_request_context_profiles loaded);
          rules = filter (\<lambda>r. er_source_node_id r \<in> selected_nodes) (bu_runtime_effect_rules loaded)
      in loaded\<lparr>
        bu_request_context_profiles :=
          filter (\<lambda>p. rp_profile_id p \<in> profile_ids) (bu_request_context_profiles loaded),
        bu_queue_claim_policies :=
          filter (\<lambda>c. cp_plane c \<in> set (map ag_plane graph_loops)) (bu_queue_claim_policies loaded),
        bu_runtime_effect_handlers :=
          filter (\<lambda>h. eh_handler_id h \<in> set (map er_handler_id rules)) (bu_runtime_effect_handlers loaded),
        bu_runtime_effect_rules := rules,
        bu_recovery_policies :=
          filter (\<lambda>p. list_ex (\<lambda>n. n \<in> selected_nodes) (wr_source_node_ids p)) (bu_recovery_policies loaded)\<rparr>)"

section \<open>The lane policy\<close>

definition main_lane_id :: "Plane \<Rightarrow> string" where
  "main_lane_id p = Plane_as_str p @ ''.main''"

definition single_writer_id :: "Plane \<Rightarrow> string" where
  "single_writer_id p = Plane_as_str p @ ''.single_writer''"

definition claim_policy_of ::
  "PlaneQueueClaimPolicyDefinition list \<Rightarrow> Plane \<Rightarrow> CompilerAssetError + PlaneQueueClaimPolicyDefinition" where
  "claim_policy_of claim_policies p =
     (case find (\<lambda>c. cp_plane c = p) claim_policies of
        Some c \<Rightarrow> Inr c
      | None \<Rightarrow> Inl (MissingReferencedAsset ''queue_claim_policy'' (''queue_claim_policy:'' @ Plane_as_str p)
                  QUEUE_CLAIM_POLICIES_PATH))"

definition compiled_lane :: "Plane \<Rightarrow> PlaneQueueClaimPolicyDefinition \<Rightarrow> WorkflowLaneDefinition" where
  "compiled_lane p c =
     \<lparr>lp_schema_version = ''1.0'', lp_kind = ''workflow_lane'', lp_lane_id = main_lane_id p, lp_plane = p,
      lp_allowed_family_ids = cp_family_order c, lp_claim_policy_id = cp_policy_id c, lp_max_active_runs = 1,
      lp_one_active_scope = ''plane'', lp_partition_selector_id = None, lp_mutation_lock_scope = ''plane'',
      lp_result_application_policy = ''single_writer_serialized'',
      lp_conflict_policy_id = Some (single_writer_id p)\<rparr>"

definition compiled_conflict_policy :: "string list \<Rightarrow> Plane \<Rightarrow> LaneConflictPolicyDefinition" where
  "compiled_conflict_policy selected_lane_ids p =
     \<lparr>lc_schema_version = ''1.0'', lc_kind = ''lane_conflict_policy'', lc_policy_id = single_writer_id p,
      lc_lane_ids = [main_lane_id p], lc_concurrent_with_lane_ids = selected_lane_ids,
      lc_conflict_scopes = [''workspace_write''], lc_lock_acquisition_order = [main_lane_id p],
      lc_release_policy = ''after_result_application'', lc_missing_lock_policy = ''reject_compile''\<rparr>"

text \<open>The loop of \<^verbatim>\<open>build_lane_policy\<close>: the claim policies of the selected planes in order.\<close>

fun claim_policies_of ::
  "PlaneQueueClaimPolicyDefinition list \<Rightarrow> Plane list \<Rightarrow>
   CompilerAssetError + (Plane \<times> PlaneQueueClaimPolicyDefinition) list" where
  "claim_policies_of claim_policies [] = Inr []"
| "claim_policies_of claim_policies (p # ps) =
     and_then (claim_policy_of claim_policies p) (\<lambda>c.
       map_ok ((#) (p, c)) (claim_policies_of claim_policies ps))"

definition build_lane_policy ::
  "PlaneQueueClaimPolicyDefinition list \<Rightarrow> ResolvedGraphLoopAsset list \<Rightarrow>
   CompilerAssetError + WorkflowPlaneSchedulerPolicyDefinition" where
  "build_lane_policy claim_policies graph_loops =
     (let selected_planes = map ag_plane graph_loops;
          selected_lane_ids = map main_lane_id selected_planes in
      map_ok (\<lambda>pairs.
        \<lparr>sp_schema_version = ''1.0'', sp_kind = ''workflow_plane_scheduler_policy'',
         sp_policy_id = ''compiled.default'', sp_plane_order = selected_planes, sp_concurrency_policy_id = None,
         sp_lanes = map (\<lambda>(p, c). compiled_lane p c) pairs,
         sp_claim_policies_by_plane = fold (\<lambda>(p, c). AList.update p c) pairs [],
         sp_completion_check_order =
           map fst (filter (\<lambda>(p, c). cp_empty_behavior c = ''check_completion'') pairs),
         sp_experimental_multi_lane = False,
         sp_lane_conflict_policies = map (\<lambda>(p, c). compiled_conflict_policy selected_lane_ids p) pairs\<rparr>)
       (claim_policies_of claim_policies selected_planes))"

section \<open>Checks of the authority\<close>

definition primitive_check :: "compile_env \<Rightarrow> bool \<Rightarrow> string \<Rightarrow> CompilerAssetError + unit" where
  "primitive_check e ok message = (if ok then Inr () else invalid_primitive e message)"

text \<open>A \<^verbatim>\<open>HashMap\<close> collected from pairs: the last pair of a key wins.\<close>

definition last_of :: "('a \<times> 'b) list \<Rightarrow> 'a \<Rightarrow> 'b option" where
  "last_of entries = map_of (rev entries)"

definition validate_work_item_family_document_adapters ::
  "compile_env \<Rightarrow> CompiledWorkflowPrimitiveBundle \<Rightarrow> CompilerAssetError + unit" where
  "validate_work_item_family_document_adapters e b = all_checks
     (map (\<lambda>family.
        case last_of (map (\<lambda>a. (wd_adapter_id a, a)) (bu_document_adapters b)) (wf_document_adapter_id family) of
          None \<Rightarrow> invalid_primitive e ''invalid work-item family document adapter reference''
        | Some adapter \<Rightarrow> primitive_check e (wf_family_id family \<in> set (wd_family_ids adapter))
            ''document adapter family_ids must include referencing work-item family'') (bu_work_item_families b)
      @ map (\<lambda>adapter. all_checks (map (\<lambda>family_id.
          primitive_check e (family_id \<in> set (map wf_family_id (bu_work_item_families b)))
            ''document adapter references unknown work-item family'') (wd_family_ids adapter)))
          (bu_document_adapters b))"

text \<open>The bindings of \<^verbatim>\<open>validate_runtime_effect_rules\<close>: one rule per node and outcome.\<close>

fun bind_rule_outcomes ::
  "compile_env \<Rightarrow> RuntimeEffectRuleDefinition \<Rightarrow> string list \<Rightarrow> ((string \<times> string) \<times> string) list \<Rightarrow>
   CompilerAssetError + ((string \<times> string) \<times> string) list" where
  "bind_rule_outcomes e r [] bindings = Inr bindings"
| "bind_rule_outcomes e r (oc # ocs) bindings =
     (case map_of bindings (er_source_node_id r, oc) of
        Some existing \<Rightarrow> invalid_primitive e (''duplicate runtime-effect binding for '' @ er_source_node_id r
          @ '' '' @ oc @ '': '' @ existing @ '' and '' @ er_rule_id r)
      | None \<Rightarrow> bind_rule_outcomes e r ocs (((er_source_node_id r, oc), er_rule_id r) # bindings))"

fun bind_rules ::
  "compile_env \<Rightarrow> CompiledWorkflowPrimitiveBundle \<Rightarrow> RuntimeEffectRuleDefinition list \<Rightarrow>
   ((string \<times> string) \<times> string) list \<Rightarrow> CompilerAssetError + unit" where
  "bind_rules e b [] bindings = Inr ()"
| "bind_rules e b (r # rs) bindings =
     and_then (all_checks
       [primitive_check e (er_handler_id r \<in> set (map eh_handler_id (bu_runtime_effect_handlers b)))
          (''runtime effect rule '' @ er_rule_id r @ '' references unknown handler '' @ er_handler_id r),
        (case er_destination_family_id r of None \<Rightarrow> Inr ()
         | Some i \<Rightarrow> primitive_check e (i \<in> set (map wf_family_id (bu_work_item_families b)))
             ''runtime effect rule references unknown destination family'')]) (\<lambda>_.
     and_then (bind_rule_outcomes e r (er_on_outcomes r) bindings) (bind_rules e b rs))"

definition validate_runtime_effect_rules ::
  "compile_env \<Rightarrow> CompiledWorkflowPrimitiveBundle \<Rightarrow> CompilerAssetError + unit" where
  "validate_runtime_effect_rules e b =
     and_then (all_checks (map (\<lambda>h. all_checks
       (primitive_check e (eh_handler_id h \<in> set RUNTIME_EFFECT_HANDLER_IMPLEMENTATIONS)
          (''runtime effect handler '' @ eh_handler_id h @ '' has no packaged Rust implementation'')
        # map (\<lambda>i. primitive_check e (i \<in> set (map wf_family_id (bu_work_item_families b)))
            ''runtime effect handler references unknown source family'') (eh_allowed_source_families h)))
       (bu_runtime_effect_handlers b))) (\<lambda>_.
     bind_rules e b (bu_runtime_effect_rules b) [])"

definition terminal_action_for_lifecycle_plan ::
  "CompiledWorkflowPrimitiveBundle \<Rightarrow> string \<Rightarrow> string option" where
  "terminal_action_for_lifecycle_plan b plan_id =
     map_option ta_terminal_action_id
       (find (\<lambda>a. ta_lifecycle_mutation_plan_id a = Some plan_id) (bu_terminal_actions b))"

definition terminal_action_for_class :: "CompiledWorkflowPrimitiveBundle \<Rightarrow> string \<Rightarrow> string option" where
  "terminal_action_for_class b terminal_class =
     map_option ta_terminal_action_id (find (\<lambda>a. ta_terminal_class a = terminal_class) (bu_terminal_actions b))"

definition validate_lifecycle_and_terminal_actions ::
  "compile_env \<Rightarrow> CompiledWorkflowPrimitiveBundle \<Rightarrow> CompilerAssetError + unit" where
  "validate_lifecycle_and_terminal_actions e b =
     (let plan_ids = set (map lm_plan_id (bu_lifecycle_mutation_plans b)) in
      all_checks
       (map (\<lambda>a. if ta_non_mutating a then Inr () else
           (case ta_lifecycle_mutation_plan_id a of
              None \<Rightarrow> invalid_primitive e (''terminal action '' @ ta_terminal_action_id a
                @ '' is mutating without a lifecycle mutation plan'')
            | Some i \<Rightarrow> primitive_check e (i \<in> plan_ids)
                ''terminal action references unknown lifecycle mutation plan'')) (bu_terminal_actions b)
        @ map (\<lambda>r. case er_lifecycle_mutation_plan_id r of None \<Rightarrow> Inr ()
            | Some i \<Rightarrow> all_checks
                [primitive_check e (i \<in> plan_ids)
                   ''runtime effect rule references unknown lifecycle mutation plan'',
                 primitive_check e (terminal_action_for_lifecycle_plan b i \<noteq> None)
                   ''runtime effect rule lifecycle plan has no terminal action mapping'']) (bu_runtime_effect_rules b)
        @ map (\<lambda>a. all_checks
            (map (\<lambda>i. primitive_check e (i \<in> set (map er_rule_id (bu_runtime_effect_rules b)))
               ''terminal action references unknown runtime effect rule'') (ta_effect_rule_ids a)
             @ [primitive_check e (ta_terminal_action_id a \<in> set (map ta_terminal_action_id (bu_terminal_actions b)))
                  ''invalid terminal action''])) (bu_terminal_actions b)))"

definition validate_lane_policy ::
  "compile_env \<Rightarrow> WorkflowPlaneSchedulerPolicyDefinition \<Rightarrow> CompilerAssetError + unit" where
  "validate_lane_policy e policy = all_checks (map (\<lambda>lane.
     case lp_conflict_policy_id lane of
       None \<Rightarrow> invalid_primitive e (''lane '' @ lp_lane_id lane @ '' is missing lane conflict policy'')
     | Some i \<Rightarrow> primitive_check e (i \<in> set (map lc_policy_id (sp_lane_conflict_policies policy)))
         (''lane '' @ lp_lane_id lane @ '' references unknown lane conflict policy '' @ i)) (sp_lanes policy))"

definition validate_workspace_schema_epoch ::
  "compile_env \<Rightarrow> CompiledWorkflowPrimitiveBundle \<Rightarrow> CompilerAssetError + unit" where
  "validate_workspace_schema_epoch e b =
     (case bu_workspace_schema_epoch b of
        None \<Rightarrow> invalid_primitive e ''missing workspace schema epoch authority''
      | Some epoch \<Rightarrow> primitive_check e
          (we_epoch_id epoch = WORKSPACE_SCHEMA_EPOCH_ID
           \<and> we_minimum_supported_epoch_id epoch = WORKSPACE_SCHEMA_EPOCH_ID)
          (''stale workspace schema epoch: expected '' @ WORKSPACE_SCHEMA_EPOCH_ID @ '', got '' @ we_epoch_id epoch))"

definition graph_workflow_references ::
  "compile_env \<Rightarrow> CompiledWorkflowPrimitiveBundle \<Rightarrow> GraphLoopDefinition \<Rightarrow> CompilerAssetError + unit" where
  "graph_workflow_references e b g =
     (let family_ids = set (map wf_family_id (bu_work_item_families b)) in
      all_checks
       (map (\<lambda>n. primitive_check e (GraphLoopEntryKey_as_str (le_entry_key n) \<in> family_ids)
          (''graph '' @ gl_loop_id g @ '' entry '' @ GraphLoopEntryKey_as_str (le_entry_key n)
           @ '' references unknown work-item family'')) (gl_entry_nodes g)
        @ [(case last_of (map (\<lambda>c. (cp_plane c, c)) (bu_queue_claim_policies b)) (gl_plane g) of
              None \<Rightarrow> invalid_primitive e (''missing queue claim policy for plane '' @ Plane_as_str (gl_plane g))
            | Some c \<Rightarrow> all_checks
                (map (\<lambda>i. primitive_check e (i \<in> family_ids)
                   ''queue claim policy references unknown work-item family'') (cp_family_order c)
                 @ [primitive_check e
                      (\<not> (cp_empty_behavior c = ''check_completion'' \<and> gl_completion_behavior g = None))
                      (''graph '' @ gl_loop_id g
                       @ '' is selected for completion checks but has no completion behavior'')]))]
        @ (if gl_loop_id g = ''planning.blueprint'' then
             map (\<lambda>required. primitive_check e
               (list_ex (\<lambda>n. GraphLoopEntryKey_as_str (le_entry_key n) = required) (gl_entry_nodes g)
                \<or> list_ex (\<lambda>n. ln_node_id n = required \<or> ln_stage_kind_id n = required) (gl_nodes g))
               ''blueprint graph mode reference drift'')
             [''blueprint_draft'', ''manager_blueprint'', ''contractor_blueprint'', ''evaluator_blueprint'',
              ''mechanic_blueprint'']
           else [])))"

definition validate_graph_workflow_references ::
  "compile_env \<Rightarrow> CompiledWorkflowPrimitiveBundle \<Rightarrow> ResolvedGraphLoopAsset list \<Rightarrow>
   CompilerAssetError + unit" where
  "validate_graph_workflow_references e b graph_loops =
     all_checks (map (\<lambda>g. graph_workflow_references e b (ag_graph_loop g)) graph_loops)"

definition validate_workflow_primitive_authority ::
  "compile_env \<Rightarrow> CompiledWorkflowPrimitiveBundle \<Rightarrow> WorkflowPlaneSchedulerPolicyDefinition \<Rightarrow>
   ResolvedGraphLoopAsset list \<Rightarrow> CompilerAssetError + unit" where
  "validate_workflow_primitive_authority e b lane_policy graph_loops = all_checks
     [validate_work_item_family_document_adapters e b, validate_runtime_effect_rules e b,
      validate_lifecycle_and_terminal_actions e b, validate_lane_policy e lane_policy,
      validate_workspace_schema_epoch e b, validate_graph_workflow_references e b graph_loops]"

record CompiledWorkflowPrimitiveAuthority =
  au_workflow_primitives :: CompiledWorkflowPrimitiveBundle
  au_workflow_primitive_fingerprints :: "(string \<times> string) list"
  au_lane_policy :: WorkflowPlaneSchedulerPolicyDefinition
  au_resolved_assets :: "ResolvedAssetRef list"

definition load_workflow_primitive_authority ::
  "compile_env \<Rightarrow> ResolvedGraphLoopAsset list \<Rightarrow> CompilerAssetError + CompiledWorkflowPrimitiveAuthority" where
  "load_workflow_primitive_authority e graph_loops =
     and_then (load_all_workflow_primitives e \<lparr>lo_resolved_assets = [], lo_fingerprints = []\<rparr>) (\<lambda>(loaded, l).
     let selected = select_workflow_primitives loaded graph_loops in
     and_then (build_lane_policy (bu_queue_claim_policies selected) graph_loops) (\<lambda>lane_policy.
     map_ok (\<lambda>_. \<lparr>au_workflow_primitives = selected,
                   au_workflow_primitive_fingerprints = lo_fingerprints l,
                   au_lane_policy = lane_policy, au_resolved_assets = lo_resolved_assets l\<rparr>)
       (validate_workflow_primitive_authority e selected lane_policy graph_loops)))"

section \<open>Freezing the authority into a graph\<close>

definition policy_lane_id_for_plane :: "WorkflowPlaneSchedulerPolicyDefinition \<Rightarrow> Plane \<Rightarrow> string option" where
  "policy_lane_id_for_plane policy p = map_option lp_lane_id (find (\<lambda>l. lp_plane l = p) (sp_lanes policy))"

definition request_context_profile_id ::
  "MaterializedGraphNodePlan \<Rightarrow> RequestContextProfileDefinition list \<Rightarrow> string option" where
  "request_context_profile_id n profiles =
     (let profile_ids = set (map rp_profile_id profiles); stage_profile = stage_profile_id (gn_stage_kind_id n) in
      if stage_profile \<in> profile_ids then Some stage_profile
      else if gn_plane n = Plane.Learning \<and> ''learning.default'' \<in> profile_ids then Some ''learning.default''
      else None)"

definition runtime_effect_rule_ids_for_node ::
  "MaterializedGraphNodePlan \<Rightarrow> RuntimeEffectRuleDefinition list \<Rightarrow> string list" where
  "runtime_effect_rule_ids_for_node n rules =
     map er_rule_id (filter (\<lambda>r. er_source_node_id r = gn_node_id n) rules)"

definition rules_by_node_outcome ::
  "RuntimeEffectRuleDefinition list \<Rightarrow> ((string \<times> string) \<times> RuntimeEffectRuleDefinition list) list" where
  "rules_by_node_outcome rules = sort_key fst
     (fold (\<lambda>r. fold (\<lambda>oc by_key.
        let k = (er_source_node_id r, oc) in
        AList.update k ((case map_of by_key k of None \<Rightarrow> [] | Some rs \<Rightarrow> rs) @ [r]) by_key)
        (er_on_outcomes r)) rules [])"

fun rule_action_mappings ::
  "CompiledWorkflowPrimitiveBundle \<Rightarrow> (string \<times> RuntimeEffectRuleDefinition) list \<Rightarrow> (string \<times> string) list \<Rightarrow>
   CompilerContractError + (string \<times> string) list" where
  "rule_action_mappings b [] mappings = Inr mappings"
| "rule_action_mappings b ((oc, r) # rest) mappings =
     (case er_lifecycle_mutation_plan_id r of
        None \<Rightarrow> rule_action_mappings b rest mappings
      | Some plan_id \<Rightarrow>
          (case terminal_action_for_lifecycle_plan b plan_id of
             None \<Rightarrow> Inl (CompilerInvalidDocument (''runtime effect rule '' @ er_rule_id r
               @ '' has no terminal action for lifecycle plan '' @ plan_id))
           | Some action_id \<Rightarrow> rule_action_mappings b rest (btree_insert oc action_id mappings)))"

fun transition_action_mappings ::
  "CompiledWorkflowPrimitiveBundle \<Rightarrow> (string \<Rightarrow> string option) \<Rightarrow> CompiledGraphTransitionPlan list \<Rightarrow>
   (string \<times> string) list \<Rightarrow> CompilerContractError + (string \<times> string) list" where
  "transition_action_mappings b terminal_class_of [] mappings = Inr mappings"
| "transition_action_mappings b terminal_class_of (t # ts) mappings =
     (if map_of mappings (gt_outcome t) \<noteq> None then transition_action_mappings b terminal_class_of ts mappings
      else case gt_terminal_state_id t of
        None \<Rightarrow> transition_action_mappings b terminal_class_of ts mappings
      | Some terminal_state_id \<Rightarrow>
          (case terminal_class_of terminal_state_id of
             None \<Rightarrow> transition_action_mappings b terminal_class_of ts mappings
           | Some terminal_class \<Rightarrow>
               (case terminal_action_for_class b terminal_class of
                  None \<Rightarrow> Inl (CompilerInvalidDocument (''terminal state '' @ terminal_state_id
                    @ '' has no terminal action for class '' @ terminal_class))
                | Some action_id \<Rightarrow>
                    transition_action_mappings b terminal_class_of ts
                      (btree_insert (gt_outcome t) action_id mappings))))"

definition terminal_action_mappings_for_node ::
  "MaterializedGraphNodePlan \<Rightarrow> CompiledGraphTransitionPlan list \<Rightarrow> CompiledWorkflowPrimitiveBundle \<Rightarrow>
   ((string \<times> string) \<times> RuntimeEffectRuleDefinition list) list \<Rightarrow> (string \<Rightarrow> string option) \<Rightarrow>
   CompilerContractError + (string \<times> string) list" where
  "terminal_action_mappings_for_node n transitions b by_key terminal_class_of =
     and_then (rule_action_mappings b
        (concat (map (\<lambda>((source, oc), rules). if source = gn_node_id n then map (\<lambda>r. (oc, r)) rules else [])
           by_key)) []) (\<lambda>mappings.
     transition_action_mappings b terminal_class_of
       (filter (\<lambda>t. gt_source_node_id t = gn_node_id n) transitions) mappings)"

definition freeze_node_authority ::
  "FrozenGraphPlanePlan \<Rightarrow> CompiledWorkflowPrimitiveBundle \<Rightarrow> WorkflowPlaneSchedulerPolicyDefinition \<Rightarrow>
   MaterializedGraphNodePlan \<Rightarrow> CompilerContractError + MaterializedGraphNodePlan" where
  "freeze_node_authority g b lane_policy n =
     (let terminal_class_of = last_of (map (\<lambda>s.
            (gs_terminal_state_id s, GraphLoopTerminalClass_as_str (gs_terminal_class s))) (fg_terminal_states g));
          n1 = n\<lparr>gn_lane_id := policy_lane_id_for_plane lane_policy (fg_plane g),
                 gn_request_context_profile_id := request_context_profile_id n (bu_request_context_profiles b),
                 gn_runtime_effect_rule_selections :=
                   runtime_effect_rule_ids_for_node n (bu_runtime_effect_rules b)\<rparr> in
      and_then (terminal_action_mappings_for_node n (fg_compiled_transitions g) b
                  (rules_by_node_outcome (bu_runtime_effect_rules b)) terminal_class_of) (\<lambda>mappings.
      MaterializedGraphNodePlan_validate (n1\<lparr>gn_terminal_action_mappings := mappings\<rparr>)))"

definition materialize_workflow_primitive_graph_authority ::
  "FrozenGraphPlanePlan \<Rightarrow> CompiledWorkflowPrimitiveBundle \<Rightarrow> WorkflowPlaneSchedulerPolicyDefinition \<Rightarrow>
   CompilerContractError + FrozenGraphPlanePlan" where
  "materialize_workflow_primitive_graph_authority g b lane_policy =
     and_then (normalize_each (freeze_node_authority g b lane_policy) (fg_nodes g)) (\<lambda>nodes.
       FrozenGraphPlanePlan_validate (g\<lparr>fg_nodes := nodes\<rparr>))"

end
