(* ===== verification/Asset_Resolution.thy ===== *)
theory Asset_Resolution
  imports Primitive_Authority
begin

text \<open>
  Resolution of the assets of one compile (\<^verbatim>\<open>src/src/compiler/assets.rs\<close>): finding modes, graph loops and
  stage kinds by path or by declared id, the references to every asset the plan depends on, and the
  fingerprint of the inputs. The prefix is \<open>rc_\<close> for the resolved set, \<open>ak_\<close> for a stage kind asset.
\<close>

section \<open>Paths and files\<close>

definition empty_path_error :: "string \<Rightarrow> string \<Rightarrow> CompilerAssetError + 'a" where
  "empty_path_error path message = Inl (AssetInvalidPath path message)"

definition normalize_asset_path :: "string \<Rightarrow> CompilerAssetError + string" where
  "normalize_asset_path path =
     (let raw = map (\<lambda>c. if c = CHR 0x5C then CHR ''/'' else c) (trim path) in
      if raw = [] \<or> strip_prefix ''/'' raw \<noteq> None
      then empty_path_error path ''asset path must be relative and non-empty''
      else let parts = filter (\<lambda>part. part \<noteq> [] \<and> part \<noteq> ''.'') (split_on (CHR ''/'') raw) in
        if ''..'' \<in> set parts
        then empty_path_error path (''asset path must not contain '' @ [CHR 0x27] @ ''..'' @ [CHR 0x27])
        else if parts = [] then empty_path_error path ''asset path must not be empty''
        else Inr (join_with ''/'' parts))"

definition asset_is_file :: "compile_env \<Rightarrow> string \<Rightarrow> bool" where
  "asset_is_file e relative_path \<longleftrightarrow> map_of (ce_files e) relative_path \<noteq> None"

definition asset_below :: "string \<Rightarrow> string \<Rightarrow> bool" where
  "asset_below directory path \<longleftrightarrow> strip_prefix (directory @ ''/'') path \<noteq> None"

text \<open>\<^verbatim>\<open>collect_json_files\<close> walks a directory; the files of the world are in path order already.\<close>

definition sorted_json_files :: "compile_env \<Rightarrow> string \<Rightarrow> (string \<times> string) list" where
  "sorted_json_files e directory =
     filter (\<lambda>(path, contents). asset_below directory path \<and> path_has_extension path ''json'') (ce_files e)"

definition push_required_ref ::
  "compile_env \<Rightarrow> string \<Rightarrow> string \<Rightarrow> string \<Rightarrow> CompilerAssetError + ResolvedAssetRef" where
  "push_required_ref e family logical_id relative_path =
     and_then (normalize_asset_path relative_path) (\<lambda>p.
       case map_of (ce_files e) p of
         None \<Rightarrow> Inl (MissingReferencedAsset family logical_id (runtime_path e p))
       | Some contents \<Rightarrow> Inr \<lparr>ra_asset_family = family, ra_logical_id = logical_id,
                              ra_compile_time_path = p, ra_content_sha256 = sha256_hex e contents\<rparr>)"

definition current_asset_content_token :: "compile_env \<Rightarrow> string \<Rightarrow> string" where
  "current_asset_content_token e p =
     (case map_of (ce_files e) p of None \<Rightarrow> MISSING_ASSET_TOKEN | Some contents \<Rightarrow> sha256_hex e contents)"

definition push_optional_ref ::
  "compile_env \<Rightarrow> string \<Rightarrow> string \<Rightarrow> string \<Rightarrow> CompilerAssetError + ResolvedAssetRef" where
  "push_optional_ref e family logical_id relative_path =
     map_ok (\<lambda>p. \<lparr>ra_asset_family = family, ra_logical_id = logical_id, ra_compile_time_path = p,
                   ra_content_sha256 = current_asset_content_token e p\<rparr>)
       (normalize_asset_path relative_path)"

section \<open>Finding an asset\<close>

definition discover_asset_by_declared_id ::
  "compile_env \<Rightarrow> string \<Rightarrow> string \<Rightarrow> string \<Rightarrow> string \<Rightarrow> CompilerAssetError + string option" where
  "discover_asset_by_declared_id e family directory id_field expected_id =
     and_then (normalize_asset_path directory) (\<lambda>root.
     and_then (normalize_each normalize_asset_path
        (map fst (filter (\<lambda>(path, contents). ce_string_field e contents id_field = Some expected_id)
           (sorted_json_files e root)))) (\<lambda>hits.
     if 1 < length hits then Inl (DuplicateAssetId family expected_id (map (runtime_path e) hits))
     else Inr (if hits = [] then None else Some (last hits))))"

definition found_asset :: "string \<Rightarrow> string \<Rightarrow> string \<Rightarrow> string option \<Rightarrow> CompilerAssetError + string" where
  "found_asset family ident searched_root hit =
     (case hit of Some p \<Rightarrow> Inr p | None \<Rightarrow> Inl (UnknownAsset family ident searched_root))"

definition resolve_mode_asset_path :: "compile_env \<Rightarrow> string \<Rightarrow> CompilerAssetError + string" where
  "resolve_mode_asset_path e mode_id =
     (let named = ''modes/'' @ mode_id @ ''.json'' in
      if asset_is_file e named then Inr named
      else and_then (discover_asset_by_declared_id e ''mode'' ''modes'' ''mode_id'' mode_id)
        (found_asset ''mode'' mode_id (runtime_path e ''modes'')))"

definition split_once :: "char \<Rightarrow> string \<Rightarrow> (string \<times> string) option" where
  "split_once c s =
     (if c \<in> set s then Some (takeWhile (\<lambda>x. x \<noteq> c) s, tl (dropWhile (\<lambda>x. x \<noteq> c) s)) else None)"

definition resolve_graph_loop_asset_path :: "compile_env \<Rightarrow> string \<Rightarrow> CompilerAssetError + string" where
  "resolve_graph_loop_asset_path e loop_id =
     (let named = map_option (\<lambda>(plane, name). ''graphs/'' @ plane @ ''/'' @ name @ ''.json'')
            (split_once (CHR ''.'') loop_id) in
      if (case named of None \<Rightarrow> False | Some p \<Rightarrow> asset_is_file e p) then Inr (the named)
      else and_then (discover_asset_by_declared_id e ''graph_loop'' ''graphs'' ''loop_id'' loop_id)
        (found_asset ''graph_loop'' loop_id (runtime_path e ''graphs'')))"

definition resolve_stage_kind_asset_path :: "compile_env \<Rightarrow> Plane \<Rightarrow> string \<Rightarrow> CompilerAssetError + string" where
  "resolve_stage_kind_asset_path e p stage_kind_id =
     (let named = ''registry/stage_kinds/'' @ Plane_as_str p @ ''/'' @ stage_kind_id @ ''.json'' in
      if asset_is_file e named then Inr named
      else and_then (discover_asset_by_declared_id e ''stage_kind'' ''registry/stage_kinds'' ''stage_kind_id''
            stage_kind_id)
        (found_asset ''stage_kind'' stage_kind_id (runtime_path e ''registry/stage_kinds'')))"

section \<open>Loading contracts\<close>

definition asset_contract_error ::
  "compile_env \<Rightarrow> string \<Rightarrow> string \<Rightarrow> CompilerContractError \<Rightarrow> CompilerAssetError" where
  "asset_contract_error e relative_path artifact err =
     AssetContract (runtime_path e relative_path) artifact (CompilerContractError_to_string err)"

text \<open>\<^verbatim>\<open>CompilerContract::from_json_str\<close>: a mode is decoded through its raw form, whose validation
  error is a decoding error.\<close>

definition mode_from_json_str :: "compile_env \<Rightarrow> string \<Rightarrow> CompilerContractError + ModeDefinition" where
  "mode_from_json_str e raw =
     and_then (map_err (CompilerJson ''mode'')
       (and_then (ce_decode_mode e raw) (\<lambda>r.
          map_err CompilerContractError_to_string (try_into_mode_definition r)))) ModeDefinition_validate"

definition graph_loop_from_json_str :: "compile_env \<Rightarrow> string \<Rightarrow> CompilerContractError + GraphLoopDefinition" where
  "graph_loop_from_json_str e raw =
     and_then (map_err (CompilerJson ''graph_loop'') (ce_decode_graph_loop e raw)) GraphLoopDefinition_validate"

definition stage_kind_from_json_str ::
  "compile_env \<Rightarrow> string \<Rightarrow> CompilerContractError + RegisteredStageKindDefinition" where
  "stage_kind_from_json_str e raw =
     and_then (map_err (CompilerJson ''registered_stage_kind'') (ce_decode_stage_kind e raw))
       RegisteredStageKindDefinition_validate"

definition load_contract ::
  "compile_env \<Rightarrow> (string \<Rightarrow> CompilerContractError + 'a) \<Rightarrow> string \<Rightarrow> string \<Rightarrow> CompilerAssetError + 'a" where
  "load_contract e from_json_str artifact relative_path =
     and_then (normalize_asset_path relative_path) (\<lambda>p.
       case map_of (ce_files e) p of
         None \<Rightarrow> Inl (AssetIo (runtime_path e p) (ce_read_error e))
       | Some raw \<Rightarrow> map_err (asset_contract_error e p artifact) (from_json_str raw))"

definition require_asset_id ::
  "compile_env \<Rightarrow> string \<Rightarrow> string \<Rightarrow> string \<Rightarrow> string \<Rightarrow> CompilerAssetError + unit" where
  "require_asset_id e relative_path f expected actual =
     (if expected = actual then Inr ()
      else Inl (AssetIdMismatch (runtime_path e relative_path) f expected actual))"

definition sorted_plane_entries :: "(Plane \<times> 'a) list \<Rightarrow> (Plane \<times> 'a) list" where
  "sorted_plane_entries m = sort_key (\<lambda>(p, v). Plane_as_str p) m"

definition resolve_graph_loop :: "compile_env \<Rightarrow> Plane \<Rightarrow> string \<Rightarrow> CompilerAssetError + ResolvedGraphLoopAsset" where
  "resolve_graph_loop e p loop_id =
     and_then (resolve_graph_loop_asset_path e loop_id) (\<lambda>path.
     and_then (load_contract e (graph_loop_from_json_str e) ''graph_loop'' path) (\<lambda>g.
     and_then (require_asset_id e path ''loop_id'' loop_id (gl_loop_id g)) (\<lambda>_.
     map_ok (\<lambda>_. \<lparr>ag_plane = p, ag_relative_path = path, ag_graph_loop = g\<rparr>)
       (require_asset_id e path ''plane'' (Plane_as_str p) (Plane_as_str (gl_plane g))))))"

fun resolve_graph_loops ::
  "compile_env \<Rightarrow> (Plane \<times> string) list \<Rightarrow> CompilerAssetError + ResolvedGraphLoopAsset list" where
  "resolve_graph_loops e [] = Inr []"
| "resolve_graph_loops e ((p, loop_id) # rest) =
     and_then (resolve_graph_loop e p loop_id) (\<lambda>g. map_ok ((#) g) (resolve_graph_loops e rest))"

record ResolvedStageKindAsset =
  ak_stage_kind_id :: string
  ak_relative_path :: string
  ak_definition :: RegisteredStageKindDefinition

definition resolve_stage_kind :: "compile_env \<Rightarrow> Plane \<Rightarrow> string \<Rightarrow> CompilerAssetError + ResolvedStageKindAsset" where
  "resolve_stage_kind e p stage_kind_id =
     and_then (resolve_stage_kind_asset_path e p stage_kind_id) (\<lambda>path.
     and_then (load_contract e (stage_kind_from_json_str e) ''registered_stage_kind'' path) (\<lambda>k.
     and_then (require_asset_id e path ''stage_kind_id'' stage_kind_id (sk_stage_kind_id k)) (\<lambda>_.
     map_ok (\<lambda>_. \<lparr>ak_stage_kind_id = sk_stage_kind_id k, ak_relative_path = path, ak_definition = k\<rparr>)
       (require_asset_id e path ''plane'' (Plane_as_str p) (Plane_as_str (sk_plane k))))))"

fun resolve_stage_kinds ::
  "compile_env \<Rightarrow> (Plane \<times> string) list \<Rightarrow> string set \<Rightarrow> CompilerAssetError + ResolvedStageKindAsset list" where
  "resolve_stage_kinds e [] seen = Inr []"
| "resolve_stage_kinds e ((p, i) # rest) seen =
     (if i \<in> seen then resolve_stage_kinds e rest seen
      else and_then (resolve_stage_kind e p i) (\<lambda>k.
        map_ok ((#) k) (resolve_stage_kinds e rest (insert i seen))))"

definition stage_kind_table :: "ResolvedStageKindAsset list \<Rightarrow> (string \<times> RegisteredStageKindDefinition) list" where
  "stage_kind_table stage_kinds = rev (map (\<lambda>k. (ak_stage_kind_id k, ak_definition k)) stage_kinds)"

definition selected_stage_names :: "GraphLoopDefinition list \<Rightarrow> StageName set" where
  "selected_stage_names graph_loops =
     set (concat (map (\<lambda>g. concat (map (\<lambda>n.
       case StageName_from_value (ln_stage_kind_id n) of Inr s \<Rightarrow> [s] | Inl _ \<Rightarrow> []) (gl_nodes g))) graph_loops))"

definition mode_stage_maps :: "ModeDefinition \<Rightarrow> (string \<times> StageName list) list" where
  "mode_stage_maps m =
     [(''stage_entrypoint_overrides'', map fst (mo_stage_entrypoint_overrides m)),
      (''stage_skill_additions'', map fst (mo_stage_skill_additions m)),
      (''stage_model_bindings'', map fst (mo_stage_model_bindings m)),
      (''stage_runner_bindings'', map fst (mo_stage_runner_bindings m)),
      (''stage_thinking_bindings'', map fst (mo_stage_thinking_bindings m)),
      (''stage_execution_capability_requests'', map fst (mo_stage_execution_capability_requests m)),
      (''stage_execution_capability_policy_overrides'',
         map fst (mo_stage_execution_capability_policy_overrides m))]"

definition validate_mode_stage_maps ::
  "compile_env \<Rightarrow> string \<Rightarrow> ModeDefinition \<Rightarrow> ResolvedGraphLoopAsset list \<Rightarrow> CompilerAssetError + unit" where
  "validate_mode_stage_maps e mode_path m graph_loops = all_checks
     (concat (map (\<lambda>(map_name, stages). map (\<lambda>stage.
        if stage \<in> selected_stage_names (map ag_graph_loop graph_loops) then Inr ()
        else Inl (InvalidReferencedAsset ''mode'' (''mode:'' @ mo_mode_id m) (runtime_path e mode_path)
          (''mode map '' @ [CHR 0x60] @ map_name @ [CHR 0x60]
           @ '' references stage outside selected loops: '' @ StageName_as_str stage))) stages) (mode_stage_maps m)))"

section \<open>References and fingerprints\<close>

definition validate_runtime_markdown_path ::
  "compile_env \<Rightarrow> string \<Rightarrow> string \<Rightarrow> string \<Rightarrow> CompilerAssetError + string" where
  "validate_runtime_markdown_path e family relative_path required_prefix =
     and_then (normalize_asset_path relative_path) (\<lambda>p.
       if strip_prefix required_prefix p = None \<or> strip_suffix ''.md'' p = None
       then Inl (InvalidReferencedAsset family (family @ '':'' @ p) (runtime_path e p)
         (''must be a markdown asset under '' @ required_prefix))
       else Inr p)"

definition push_unique :: "string list \<Rightarrow> string \<Rightarrow> string list" where
  "push_unique vs v = (if v \<in> set vs then vs else vs @ [v])"

fun push_markdown_paths ::
  "compile_env \<Rightarrow> string \<Rightarrow> string \<Rightarrow> string list \<Rightarrow> string list \<Rightarrow> CompilerAssetError + string list" where
  "push_markdown_paths e family required_prefix [] found = Inr found"
| "push_markdown_paths e family required_prefix (p # ps) found =
     and_then (validate_runtime_markdown_path e family p required_prefix) (\<lambda>q.
       push_markdown_paths e family required_prefix ps (push_unique found q))"

text \<open>The entrypoint and the attached skills of a node: the mode overrides the node, the node its kind.\<close>

definition node_entrypoint_path ::
  "ModeDefinition \<Rightarrow> RegisteredStageKindDefinition \<Rightarrow> GraphLoopNodeDefinition \<Rightarrow> StageName option \<Rightarrow> string" where
  "node_entrypoint_path m k n stage_name =
     (case (case stage_name of None \<Rightarrow> None | Some s \<Rightarrow> map_of (mo_stage_entrypoint_overrides m) s) of
        Some p \<Rightarrow> p
      | None \<Rightarrow> (case ln_entrypoint_path n of Some p \<Rightarrow> p | None \<Rightarrow> sk_default_entrypoint_path k))"

definition mode_skill_additions :: "ModeDefinition \<Rightarrow> StageName option \<Rightarrow> string list" where
  "mode_skill_additions m stage_name =
     (case stage_name of None \<Rightarrow> [] | Some s \<Rightarrow>
        (case map_of (mo_stage_skill_additions m) s of None \<Rightarrow> [] | Some ps \<Rightarrow> ps))"

definition stage_name_for_identifier :: "string \<Rightarrow> StageName option" where
  "stage_name_for_identifier i = (case StageName_from_value i of Inr s \<Rightarrow> Some s | Inl _ \<Rightarrow> None)"

fun collect_node_paths ::
  "compile_env \<Rightarrow> ModeDefinition \<Rightarrow> (string \<times> RegisteredStageKindDefinition) list \<Rightarrow>
   GraphLoopNodeDefinition list \<Rightarrow> string list \<times> string list \<times> string list \<Rightarrow>
   CompilerAssetError + (string list \<times> string list \<times> string list)" where
  "collect_node_paths e m kinds [] acc = Inr acc"
| "collect_node_paths e m kinds (n # ns) (entrypoints, required, attached) =
     (let k = the (map_of kinds (ln_stage_kind_id n));
          stage_name = stage_name_for_identifier (ln_stage_kind_id n) in
      and_then (push_markdown_paths e ''entrypoint'' ''entrypoints/'' [node_entrypoint_path m k n stage_name]
                  entrypoints) (\<lambda>entrypoints1.
      and_then (push_markdown_paths e ''skill'' ''skills/'' (sk_required_skill_paths k) required) (\<lambda>required1.
      and_then (push_markdown_paths e ''skill'' ''skills/''
                  (ln_attached_skill_additions n @ mode_skill_additions m stage_name) attached) (\<lambda>attached1.
      collect_node_paths e m kinds ns (entrypoints1, required1, attached1)))))"

fun collect_refs ::
  "(string \<times> string \<Rightarrow> CompilerAssetError + ResolvedAssetRef) \<Rightarrow> (string \<times> string) list \<Rightarrow>
   CompilerAssetError + ResolvedAssetRef list" where
  "collect_refs push [] = Inr []"
| "collect_refs push (x # xs) = and_then (push x) (\<lambda>r. map_ok ((#) r) (collect_refs push xs))"

definition asset_ref_key :: "ResolvedAssetRef \<Rightarrow> string \<times> string \<times> string" where
  "asset_ref_key r = (ra_asset_family r, ra_logical_id r, ra_compile_time_path r)"

fun dedupe_asset_refs_from ::
  "(string \<times> string \<times> string) set \<Rightarrow> ResolvedAssetRef list \<Rightarrow> ResolvedAssetRef list" where
  "dedupe_asset_refs_from seen [] = []"
| "dedupe_asset_refs_from seen (r # rs) =
     (if asset_ref_key r \<in> seen then dedupe_asset_refs_from seen rs
      else r # dedupe_asset_refs_from (insert (asset_ref_key r) seen) rs)"

definition dedupe_asset_refs :: "ResolvedAssetRef list \<Rightarrow> ResolvedAssetRef list" where
  "dedupe_asset_refs refs = dedupe_asset_refs_from {} refs"

definition build_resolved_asset_refs ::
  "compile_env \<Rightarrow> ModeDefinition \<Rightarrow> string \<Rightarrow> ResolvedGraphLoopAsset list \<Rightarrow> ResolvedStageKindAsset list \<Rightarrow>
   ResolvedAssetRef list \<Rightarrow> CompilerAssetError + ResolvedAssetRef list" where
  "build_resolved_asset_refs e m mode_path graph_loops stage_kinds primitive_refs =
     and_then (push_required_ref e ''mode'' (''mode:'' @ mo_mode_id m) mode_path) (\<lambda>mode_ref.
     and_then (collect_refs (\<lambda>(i, p). push_required_ref e ''graph_loop'' (''graph_loop:'' @ i) p)
        (map (\<lambda>g. (gl_loop_id (ag_graph_loop g), ag_relative_path g)) graph_loops)) (\<lambda>graph_refs.
     and_then (collect_refs (\<lambda>(i, p). push_required_ref e ''stage_kind'' (''stage_kind:'' @ i) p)
        (map (\<lambda>k. (ak_stage_kind_id k, ak_relative_path k)) stage_kinds)) (\<lambda>kind_refs.
     and_then (collect_node_paths e m (stage_kind_table stage_kinds)
        (concat (map (\<lambda>g. gl_nodes (ag_graph_loop g)) graph_loops)) ([], [], []))
       (\<lambda>(entrypoints, required, attached).
     and_then (collect_refs (\<lambda>(i, p). push_required_ref e ''entrypoint'' (''entrypoint:'' @ i) p)
        (map (\<lambda>p. (p, p)) entrypoints)) (\<lambda>entrypoint_refs.
     and_then (collect_refs (\<lambda>(i, p). push_required_ref e ''skill'' (''skill:'' @ i) p)
        (map (\<lambda>p. (p, p)) required)) (\<lambda>required_refs.
     map_ok (\<lambda>attached_refs. dedupe_asset_refs
         (mode_ref # graph_refs @ kind_refs @ primitive_refs @ entrypoint_refs @ required_refs @ attached_refs))
       (collect_refs (\<lambda>(i, p). push_optional_ref e ''skill'' (''skill:'' @ i) p)
          (map (\<lambda>p. (p, p)) attached))))))))"

definition fingerprint_effective_compile_config :: "compile_env \<Rightarrow> EffectiveCompileConfig \<Rightarrow> string" where
  "fingerprint_effective_compile_config e config =
     ''cfg-'' @ hex_prefix (ce_sha256 e (ce_config_json e config)) 12"

fun asset_digest_input :: "compile_env \<Rightarrow> ResolvedAssetRef list \<Rightarrow> CompilerAssetError + string" where
  "asset_digest_input e [] = Inr []"
| "asset_digest_input e (r # rs) =
     and_then (normalize_asset_path (ra_compile_time_path r)) (\<lambda>p.
       map_ok ((@) (ra_asset_family r @ [CHR 0x00] @ ra_logical_id r @ [CHR 0x00] @ p @ [CHR 0x00]
                    @ current_asset_content_token e p @ [CHR 0x00])) (asset_digest_input e rs))"

definition fingerprint_resolved_assets :: "compile_env \<Rightarrow> ResolvedAssetRef list \<Rightarrow> CompilerAssetError + string" where
  "fingerprint_resolved_assets e refs =
     map_ok (\<lambda>bytes. ''assets-'' @ hex_prefix (ce_sha256 e bytes) 12)
       (asset_digest_input e (sort_key asset_ref_key refs))"

definition build_compile_input_fingerprint ::
  "compile_env \<Rightarrow> EffectiveCompileConfig \<Rightarrow> string \<Rightarrow> ResolvedAssetRef list \<Rightarrow>
   CompilerAssetError + CompileInputFingerprint" where
  "build_compile_input_fingerprint e config mode_id refs =
     and_then (fingerprint_resolved_assets e refs) (\<lambda>assets_fingerprint.
     let f = \<lparr>fi_mode_id = mode_id, fi_config_fingerprint = fingerprint_effective_compile_config e config,
              fi_assets_fingerprint = assets_fingerprint\<rparr> in
     map_ok (\<lambda>_. f) (map_err (\<lambda>err. AssetContract (ce_runtime_root e) ''compile_input_fingerprint''
         (CompilerContractError_to_string err)) (CompileInputFingerprint_validate f)))"

section \<open>The resolved set\<close>

record ResolvedCompileAssetSet =
  rc_mode_id :: string
  rc_requested_mode_id :: "string option"
  rc_mode_relative_path :: string
  rc_mode :: ModeDefinition
  rc_graph_loops :: "ResolvedGraphLoopAsset list"
  rc_stage_kinds :: "ResolvedStageKindAsset list"
  rc_workflow_primitive_authority :: CompiledWorkflowPrimitiveAuthority
  rc_resolved_assets :: "ResolvedAssetRef list"
  rc_config :: EffectiveCompileConfig
  rc_compile_input_fingerprint :: CompileInputFingerprint

definition resolve_compile_assets_with_config ::
  "compile_env \<Rightarrow> string option \<Rightarrow> EffectiveCompileConfig \<Rightarrow> CompilerAssetError + ResolvedCompileAssetSet" where
  "resolve_compile_assets_with_config e requested config =
     (let mode_id = resolve_mode_id requested config in
     and_then (resolve_mode_asset_path e mode_id) (\<lambda>mode_path.
     and_then (load_contract e (mode_from_json_str e) ''mode'' mode_path) (\<lambda>m.
     and_then (require_asset_id e mode_path ''mode_id'' mode_id (mo_mode_id m)) (\<lambda>_.
     and_then (resolve_graph_loops e (sorted_plane_entries (mo_loop_ids_by_plane m))) (\<lambda>graph_loops.
     and_then (resolve_stage_kinds e (concat (map (\<lambda>g.
         map (\<lambda>n. (ag_plane g, ln_stage_kind_id n)) (gl_nodes (ag_graph_loop g))) graph_loops)) {}) (\<lambda>stage_kinds.
     and_then (all_checks (map (\<lambda>g.
         map_err (asset_contract_error e (ag_relative_path g) ''graph_loop'')
           (validate_graph_stage_kind_references (ag_graph_loop g) (stage_kind_table stage_kinds))) graph_loops
       @ [validate_mode_stage_maps e mode_path m graph_loops])) (\<lambda>_.
     and_then (load_workflow_primitive_authority e graph_loops) (\<lambda>authority.
     and_then (build_resolved_asset_refs e m mode_path graph_loops stage_kinds
         (au_resolved_assets authority)) (\<lambda>refs.
     map_ok (\<lambda>fingerprint.
         \<lparr>rc_mode_id = mode_id, rc_requested_mode_id = requested, rc_mode_relative_path = mode_path, rc_mode = m,
          rc_graph_loops = graph_loops, rc_stage_kinds = stage_kinds,
          rc_workflow_primitive_authority = authority, rc_resolved_assets = refs, rc_config = config,
          rc_compile_input_fingerprint = fingerprint\<rparr>)
       (build_compile_input_fingerprint e config mode_id refs))))))))))"

definition load_effective_compile_config :: "compile_env \<Rightarrow> CompilerAssetError + EffectiveCompileConfig" where
  "load_effective_compile_config e =
     load_effective_compile_config_from_path (ce_parse_toml e) (ce_config_path e) (ce_config_contents e)"

definition resolve_compile_assets ::
  "compile_env \<Rightarrow> string option \<Rightarrow> CompilerAssetError + ResolvedCompileAssetSet" where
  "resolve_compile_assets e requested =
     and_then (load_effective_compile_config e) (resolve_compile_assets_with_config e requested)"

definition compile_input_fingerprint_for_workspace ::
  "compile_env \<Rightarrow> string option \<Rightarrow> CompilerAssetError + CompileInputFingerprint" where
  "compile_input_fingerprint_for_workspace e requested =
     map_ok rc_compile_input_fingerprint (resolve_compile_assets e requested)"

end
