(* ===== verification/Materialization.thy ===== *)
theory Materialization
  imports Asset_Resolution
begin

text \<open>
  Freezing resolved assets into a compiled plan (\<^verbatim>\<open>src/src/compiler/materialization.rs\<close>): the nodes with
  their entrypoints, runners and capability grants, the compiled entries, transitions and policies of a
  graph, and the plan. Prefix \<open>cx_\<close>: the capability context of a node.
\<close>

section \<open>Errors\<close>

datatype CompilerMaterializationError =
    MaterializationAsset CompilerAssetError
  | MissingLoopBinding Plane
  | MissingGraph Plane "string option"
  | UnknownStageKind string string
  | UnknownEntryNode string string
  | UnknownCompletionTarget string
  | InvalidStageKindReference string string
  | InvalidLearningTrigger string string
  | CapabilityGrantError string string
  | MaterializationContract string string

primrec CompilerMaterializationError_to_string :: "CompilerMaterializationError \<Rightarrow> string" where
  "CompilerMaterializationError_to_string (MaterializationAsset e) = CompilerAssetError_to_string e"
| "CompilerMaterializationError_to_string (MissingLoopBinding p) =
     ''mode does not bind a '' @ Plane_as_str p @ '' graph loop''"
| "CompilerMaterializationError_to_string (MissingGraph p loop_id) =
     (case loop_id of
        Some i \<Rightarrow> ''resolved assets do not include '' @ Plane_as_str p @ '' graph loop '' @ i
      | None \<Rightarrow> ''resolved assets do not include a '' @ Plane_as_str p @ '' graph loop'')"
| "CompilerMaterializationError_to_string (UnknownStageKind node_id stage_kind_id) =
     ''graph node '' @ node_id @ '' references unknown stage_kind_id '' @ stage_kind_id"
| "CompilerMaterializationError_to_string (UnknownEntryNode entry_key node_id) =
     ''graph entry '' @ entry_key @ '' references unknown node_id '' @ node_id"
| "CompilerMaterializationError_to_string (UnknownCompletionTarget node_id) =
     ''completion behavior references unknown target_node_id '' @ node_id"
| "CompilerMaterializationError_to_string (InvalidStageKindReference loop_id message) =
     ''graph loop '' @ loop_id @ '' has invalid stage-kind reference: '' @ message"
| "CompilerMaterializationError_to_string (InvalidLearningTrigger rule_id message) =
     ''learning trigger '' @ rule_id @ '' is invalid: '' @ message"
| "CompilerMaterializationError_to_string (CapabilityGrantError node_id message) =
     ''graph node '' @ node_id @ '' has invalid execution capability grants: '' @ message"
| "CompilerMaterializationError_to_string (MaterializationContract artifact message) =
     ''invalid materialized '' @ artifact @ '': '' @ message"

definition materialization_contract ::
  "string \<Rightarrow> CompilerContractError + 'a \<Rightarrow> CompilerMaterializationError + 'a" where
  "materialization_contract artifact r =
     map_err (\<lambda>e. MaterializationContract artifact (CompilerContractError_to_string e)) r"

definition DEFAULT_STAGE_TIMEOUT_SECONDS :: nat where
  "DEFAULT_STAGE_TIMEOUT_SECONDS = 3600"

section \<open>Capability requests\<close>

definition dots_to :: "char \<Rightarrow> string \<Rightarrow> string" where
  "dots_to c s = map (\<lambda>x. if x = CHR ''.'' then c else x) s"

definition framework_request ::
  "GraphLoopNodeDefinition \<Rightarrow> string \<Rightarrow> string \<Rightarrow> CapabilityScope \<Rightarrow> CapabilityRequest" where
  "framework_request n capability_id access scope =
     \<lparr>kr_request_id = ln_node_id n @ ''.framework.'' @ dots_to (CHR ''_'') capability_id,
      kr_capability_id = capability_id, kr_access = access, kr_scope = scope, kr_required = True,
      kr_requires_enforcement = False,
      kr_reason = ''default framework capability required to dispatch a stage'',
      kr_requested_by = ''stage_kind_default'', kr_policy_source = Some ''stage_kind_default''\<rparr>"

definition default_framework_capability_requests ::
  "GraphLoopNodeDefinition \<Rightarrow> string option \<Rightarrow> CapabilityRequest list" where
  "default_framework_capability_requests n runner_name =
     [framework_request n ''runner.invoke'' ''execute''
        \<lparr>ks_kind = ''runner'', ks_value = (case runner_name of Some r \<Rightarrow> r | None \<Rightarrow> ''default''),
         ks_metadata = []\<rparr>,
      framework_request n ''workspace.read'' ''read''
        \<lparr>ks_kind = ''workspace'', ks_value = ''workspace'', ks_metadata = []\<rparr>,
      framework_request n ''artifact.write'' ''write''
        \<lparr>ks_kind = ''artifact_kind'', ks_value = ''stage_result'', ks_metadata = []\<rparr>]"

definition sourced_request :: "string \<Rightarrow> CapabilityRequest \<Rightarrow> CapabilityRequest" where
  "sourced_request source r =
     r\<lparr>kr_requested_by := (if kr_requested_by r = ''stage'' then source else kr_requested_by r),
       kr_policy_source := (case kr_policy_source r of None \<Rightarrow> Some source | Some s \<Rightarrow> Some s)\<rparr>"

definition append_capability_requests ::
  "CapabilityRequest list \<Rightarrow> CapabilityRequest list \<Rightarrow> string \<Rightarrow> CapabilityRequest list" where
  "append_capability_requests target requests source = target @ map (sourced_request source) requests"

definition append_policy_candidates ::
  "CapabilityPolicyCandidate list \<Rightarrow> CapabilityPolicyOverride list \<Rightarrow> string \<Rightarrow> CapabilityPolicyCandidate list" where
  "append_policy_candidates target overrides source =
     target @ map (\<lambda>p. \<lparr>py_source = source, py_override = p\<rparr>) overrides"

definition capability_request_key :: "CapabilityRequest \<Rightarrow> string \<times> string \<times> string \<times> string" where
  "capability_request_key r =
     (kr_capability_id r, kr_access r, ks_kind (kr_scope r), ks_value (kr_scope r))"

definition merge_request :: "CapabilityRequest \<Rightarrow> CapabilityRequest \<Rightarrow> CapabilityRequest" where
  "merge_request existing r =
     existing\<lparr>kr_required := kr_required existing \<or> kr_required r,
       kr_requires_enforcement := kr_requires_enforcement existing \<or> kr_requires_enforcement r,
       kr_reason := (if trim (kr_reason existing) = [] \<and> trim (kr_reason r) \<noteq> [] then kr_reason r
                     else kr_reason existing),
       kr_policy_source := (case kr_policy_source existing of
           None \<Rightarrow> kr_policy_source r | Some s \<Rightarrow> Some s)\<rparr>"

text \<open>The first request of the same key takes the new one in; else it is appended.\<close>

fun merge_into :: "CapabilityRequest \<Rightarrow> CapabilityRequest list \<Rightarrow> CapabilityRequest list" where
  "merge_into r [] = [r]"
| "merge_into r (x # xs) =
     (if capability_request_key x = capability_request_key r then merge_request x r # xs
      else x # merge_into r xs)"

definition dedupe_capability_requests :: "CapabilityRequest list \<Rightarrow> CapabilityRequest list" where
  "dedupe_capability_requests requests = fold merge_into requests []"

section \<open>Capability grants\<close>

definition scope_override_matches_request :: "CapabilityPolicyOverride \<Rightarrow> CapabilityRequest \<Rightarrow> bool" where
  "scope_override_matches_request p r \<longleftrightarrow>
     (case ko_scope p of
        None \<Rightarrow> True
      | Some scope \<Rightarrow> ks_kind scope = ks_kind (kr_scope r) \<and> ks_value scope = ks_value (kr_scope r))"

definition is_default_framework_request :: "CapabilityRequest \<Rightarrow> bool" where
  "is_default_framework_request r \<longleftrightarrow>
     kr_policy_source r = Some ''stage_kind_default''
     \<and> kr_capability_id r \<in> {''runner.invoke'', ''workspace.read'', ''artifact.write''}"

definition is_runtime_enforced_capability :: "string \<Rightarrow> bool" where
  "is_runtime_enforced_capability capability_id \<longleftrightarrow>
     capability_id \<in> {''runner.invoke'', ''artifact.read'', ''artifact.write'', ''evidence.emit'',
                      ''runtime.control''}"

definition policy_applies :: "CapabilityRequest \<Rightarrow> string \<Rightarrow> CapabilityPolicyCandidate \<Rightarrow> bool" where
  "policy_applies r source c \<longleftrightarrow>
     py_source c = source \<and> ko_capability_id (py_override c) = kr_capability_id r
     \<and> scope_override_matches_request (py_override c) r"

text \<open>The latest override of a source, for the sources in order.\<close>

fun override_decision ::
  "CapabilityRequest \<Rightarrow> CapabilityPolicyCandidate list \<Rightarrow> string list \<Rightarrow>
   (CapabilityPolicyDecision \<times> string \<times> string) option" where
  "override_decision r policies [] = None"
| "override_decision r policies (source # sources) =
     (case find (policy_applies r source) (rev policies) of
        None \<Rightarrow> override_decision r policies sources
      | Some c \<Rightarrow> Some (ko_decision (py_override c), py_source c,
          if trim (ko_reason (py_override c)) = []
          then source @ '' override for capability '' @ kr_capability_id r @ '' resolved to ''
               @ CapabilityPolicyDecision_as_str (ko_decision (py_override c))
          else ko_reason (py_override c)))"

definition resolve_capability_decision ::
  "CapabilityRequest \<Rightarrow> CapabilityPolicyCandidate list \<Rightarrow> EffectiveCompileConfig \<Rightarrow>
   CapabilityPolicyDecision \<times> string \<times> string" where
  "resolve_capability_decision r policies config =
     (case map_of (ex_defaults (ec_execution_capabilities config)) (kr_capability_id r) of
        Some d \<Rightarrow> (d, ''runtime_config'',
          ''runtime config default for capability '' @ kr_capability_id r @ '' resolved to ''
          @ CapabilityPolicyDecision_as_str d)
      | None \<Rightarrow>
          (case override_decision r policies [''graph_node'', ''mode'', ''stage_kind''] of
             Some d \<Rightarrow> d
           | None \<Rightarrow>
               if is_default_framework_request r
               then (CapabilityPolicyDecision.Allow, ''stage_kind_default'',
                     ''default framework grants are allowed by compiler policy'')
               else let d = ex_default_unknown_capability (ec_execution_capabilities config) in
                 (d, ''runtime_config'',
                  ''runtime config default_unknown_capability resolved capability '' @ kr_capability_id r
                  @ '' to '' @ CapabilityPolicyDecision_as_str d)))"

primrec decision_state_of :: "CapabilityPolicyDecision \<Rightarrow> CapabilityDecisionState" where
  "decision_state_of CapabilityPolicyDecision.Allow = CapabilityDecisionState.Granted"
| "decision_state_of CapabilityPolicyDecision.Deny = CapabilityDecisionState.Denied"
| "decision_state_of CapabilityPolicyDecision.ApprovalRequired = CapabilityDecisionState.ApprovalRequired"

definition evidence_requirements_for_grant ::
  "CapabilityRequest \<Rightarrow> CapabilityEnforcementMode \<Rightarrow> string list" where
  "evidence_requirements_for_grant r enforcement =
     (if enforcement = CapabilityEnforcementMode.NotApplicable then []
      else [''runner_invocation'', ''runner_completion'']
           @ (if kr_requires_enforcement r then [''capability_evidence''] else []))"

definition capability_grant_fingerprint :: "compile_env \<Rightarrow> ExecutionCapabilityGrant \<Rightarrow> string" where
  "capability_grant_fingerprint e g =
     take 18 (''grant-'' @ ce_sha256 e (ce_grant_json e (g\<lparr>kg_fingerprint := []\<rparr>)))"

definition granted_state ::
  "CapabilityRequest \<Rightarrow> EffectiveCompileConfig \<Rightarrow> CapabilityPolicyDecision \<Rightarrow>
   CapabilityDecisionState \<times> CapabilityEnforcementMode" where
  "granted_state r config decision =
     (let state = decision_state_of decision;
          enforcement = (if state \<noteq> CapabilityDecisionState.Granted then CapabilityEnforcementMode.NotApplicable
            else if is_runtime_enforced_capability (kr_capability_id r)
            then CapabilityEnforcementMode.RuntimeEnforced else CapabilityEnforcementMode.AdvisoryOnly) in
      if state = CapabilityDecisionState.Granted \<and> enforcement = CapabilityEnforcementMode.AdvisoryOnly
         \<and> kr_required r \<and> \<not> ex_allow_advisory_grants (ec_execution_capabilities config)
      then (CapabilityDecisionState.Unsupported, CapabilityEnforcementMode.NotApplicable)
      else (state, enforcement))"

definition advisory_rejected ::
  "CapabilityRequest \<Rightarrow> EffectiveCompileConfig \<Rightarrow> CapabilityPolicyDecision \<Rightarrow> bool" where
  "advisory_rejected r config decision \<longleftrightarrow>
     decision = CapabilityPolicyDecision.Allow \<and> \<not> is_runtime_enforced_capability (kr_capability_id r)
     \<and> kr_required r
     \<and> (kr_requires_enforcement r \<or> ex_fail_required_advisory (ec_execution_capabilities config))"

definition resolve_execution_capability_grant ::
  "compile_env \<Rightarrow> GraphLoopNodeDefinition \<Rightarrow> CapabilityRequest \<Rightarrow> CapabilityPolicyCandidate list \<Rightarrow>
   EffectiveCompileConfig \<Rightarrow> nat \<Rightarrow> CompilerMaterializationError + ExecutionCapabilityGrant" where
  "resolve_execution_capability_grant e n r policies config index =
     (let (decision, resolved_by, decision_reason) = resolve_capability_decision r policies config;
          approval = (if decision = CapabilityPolicyDecision.ApprovalRequired
            then Some \<lparr>ka_policy_id = ''operator.'' @ dots_to (CHR ''_'') (kr_capability_id r),
                       ka_gate_scope = ''stage'', ka_expiration_seconds = None,
                       ka_required_decision = ''approved''\<rparr>
            else None) in
      if advisory_rejected r config decision
      then Inl (CapabilityGrantError (ln_node_id n)
        (''required advisory grant rejected for capability '' @ kr_capability_id r
         @ '' by requires_enforcement or fail_required_advisory''))
      else let (state, enforcement) = granted_state r config decision;
               requirements = evidence_requirements_for_grant r enforcement;
               grant = \<lparr>kg_grant_id = ''grant-'' @ ln_node_id n @ ''-''
                          @ dots_to (CHR ''-'') (kr_capability_id r) @ ''-'' @ show_nat index,
                        kg_request_id = kr_request_id r, kg_capability_id = kr_capability_id r,
                        kg_access = kr_access r, kg_scope = kr_scope r, kg_required = kr_required r,
                        kg_decision_state = state, kg_enforcement_mode = enforcement,
                        kg_approval_policy_ref = approval, kg_evidence_requirements = requirements,
                        kg_evidence_status =
                          (if state = CapabilityDecisionState.Granted \<and> requirements \<noteq> []
                           then CapabilityEvidenceStatus.Pending else CapabilityEvidenceStatus.NotRequired),
                        kg_decision_reason = decision_reason, kg_resolved_by = resolved_by,
                        kg_fingerprint = []\<rparr>;
               sealed = grant\<lparr>kg_fingerprint := capability_grant_fingerprint e grant\<rparr> in
        map_ok (\<lambda>_. sealed) (map_err (CapabilityGrantError (ln_node_id n))
          (ExecutionCapabilityGrant_validate sealed)))"

definition capability_warning ::
  "GraphLoopNodeDefinition \<Rightarrow> string \<Rightarrow> string \<Rightarrow> string \<Rightarrow> ExecutionCapabilityWarning" where
  "capability_warning n capability_id severity message =
     \<lparr>ke_warning_id = ln_node_id n @ ''.'' @ dots_to (CHR ''_'') capability_id @ ''.'' @ severity,
      ke_capability_id = capability_id, ke_severity = severity, ke_message = message\<rparr>"

definition warnings_for_grant ::
  "GraphLoopNodeDefinition \<Rightarrow> CapabilityRequest \<Rightarrow> ExecutionCapabilityGrant \<Rightarrow>
   ExecutionCapabilityWarning list" where
  "warnings_for_grant n r g =
     (let c = kg_capability_id g in
      (case kg_decision_state g of
         CapabilityDecisionState.Granted \<Rightarrow>
           if kg_enforcement_mode g = CapabilityEnforcementMode.AdvisoryOnly
           then [capability_warning n c ''advisory'' (''capability '' @ c @ '' is granted as advisory-only'')]
           else []
       | CapabilityDecisionState.Denied \<Rightarrow>
           [capability_warning n c ''denied'' (''capability '' @ c @ '' is denied'')]
       | CapabilityDecisionState.ApprovalRequired \<Rightarrow>
           [capability_warning n c ''approval_required'' (''capability '' @ c @ '' requires approval'')]
       | CapabilityDecisionState.Unsupported \<Rightarrow>
           [capability_warning n c ''unsupported''
              (''capability '' @ c @ '' cannot satisfy required enforcement without advisory grants'')])
      @ (if kr_required r \<and> kg_enforcement_mode g = CapabilityEnforcementMode.AdvisoryOnly
         then [capability_warning n c ''required_advisory''
                 (''required capability '' @ c @ '' resolved to advisory-only'')]
         else []))"

record CompiledCapabilityContext =
  cx_grants :: "ExecutionCapabilityGrant list"
  cx_warnings :: "ExecutionCapabilityWarning list"
  cx_policy_fingerprint :: string

fun resolve_grants ::
  "compile_env \<Rightarrow> GraphLoopNodeDefinition \<Rightarrow> CapabilityPolicyCandidate list \<Rightarrow> EffectiveCompileConfig \<Rightarrow> nat \<Rightarrow>
   CapabilityRequest list \<Rightarrow>
   CompilerMaterializationError + (ExecutionCapabilityGrant list \<times> ExecutionCapabilityWarning list)" where
  "resolve_grants e n policies config index [] = Inr ([], [])"
| "resolve_grants e n policies config index (r # rs) =
     and_then (resolve_execution_capability_grant e n r policies config index) (\<lambda>g.
       map_ok (\<lambda>(gs, ws). (g # gs, warnings_for_grant n r g @ ws))
         (resolve_grants e n policies config (Suc index) rs))"

definition capability_policy_fingerprint ::
  "compile_env \<Rightarrow> GraphLoopNodeDefinition \<Rightarrow> CapabilityRequest list \<Rightarrow> CapabilityPolicyCandidate list \<Rightarrow>
   EffectiveCompileConfig \<Rightarrow> string" where
  "capability_policy_fingerprint e n requests policies config =
     ''cap-pol-'' @ hex_prefix (ce_sha256 e
        (ce_policy_json e (ln_node_id n) requests policies (ec_execution_capabilities config))) 12"

definition mode_stage_entries :: "(StageName \<times> 'a list) list \<Rightarrow> StageName option \<Rightarrow> 'a list" where
  "mode_stage_entries m stage_name =
     (case stage_name of None \<Rightarrow> [] | Some s \<Rightarrow> (case map_of m s of None \<Rightarrow> [] | Some vs \<Rightarrow> vs))"

definition node_capability_requests ::
  "GraphLoopNodeDefinition \<Rightarrow> RegisteredStageKindDefinition \<Rightarrow> StageName option \<Rightarrow> ModeDefinition \<Rightarrow>
   string option \<Rightarrow> CapabilityRequest list" where
  "node_capability_requests n k stage_name m runner_name =
     (let requests = default_framework_capability_requests n runner_name;
          requests = append_capability_requests requests (sk_execution_capability_requests k) ''stage_kind'';
          requests = append_capability_requests requests (ln_execution_capability_requests n) ''graph_node'';
          requests = append_capability_requests requests (mo_execution_capability_requests m) ''mode'';
          requests = append_capability_requests requests
            (mode_stage_entries (mo_stage_execution_capability_requests m) stage_name) ''mode''
      in dedupe_capability_requests requests)"

definition node_capability_policies ::
  "GraphLoopNodeDefinition \<Rightarrow> RegisteredStageKindDefinition \<Rightarrow> StageName option \<Rightarrow> ModeDefinition \<Rightarrow>
   CapabilityPolicyCandidate list" where
  "node_capability_policies n k stage_name m =
     (let policies = append_policy_candidates [] (sk_execution_capability_policy_overrides k) ''stage_kind'';
          policies = append_policy_candidates policies (mo_execution_capability_policies m) ''mode'';
          policies = append_policy_candidates policies
            (mode_stage_entries (mo_stage_execution_capability_policy_overrides m) stage_name) ''mode'';
          policies = append_policy_candidates policies (ln_execution_capability_policies n) ''graph_node''
      in append_policy_candidates policies (ln_execution_capability_policy_overrides n) ''graph_node'')"

definition compile_execution_capability_context ::
  "compile_env \<Rightarrow> GraphLoopNodeDefinition \<Rightarrow> RegisteredStageKindDefinition \<Rightarrow> StageName option \<Rightarrow>
   ModeDefinition \<Rightarrow> EffectiveCompileConfig \<Rightarrow> string option \<Rightarrow>
   CompilerMaterializationError + CompiledCapabilityContext" where
  "compile_execution_capability_context e n k stage_name m config runner_name =
     (if \<not> ex_enabled (ec_execution_capabilities config)
      then Inr \<lparr>cx_grants = [], cx_warnings = [],
                cx_policy_fingerprint = capability_policy_fingerprint e n [] [] config\<rparr>
      else let requests = node_capability_requests n k stage_name m runner_name;
               policies = node_capability_policies n k stage_name m in
        map_ok (\<lambda>(grants, warnings). \<lparr>cx_grants = grants, cx_warnings = warnings,
            cx_policy_fingerprint = capability_policy_fingerprint e n requests policies config\<rparr>)
          (resolve_grants e n policies config 0 requests))"

section \<open>Nodes\<close>

definition stage_kind_for_node ::
  "GraphLoopNodeDefinition \<Rightarrow> (string \<times> RegisteredStageKindDefinition) list \<Rightarrow>
   CompilerMaterializationError + RegisteredStageKindDefinition" where
  "stage_kind_for_node n kinds =
     (case map_of kinds (ln_stage_kind_id n) of
        Some k \<Rightarrow> Inr k
      | None \<Rightarrow> Inl (UnknownStageKind (ln_node_id n) (ln_stage_kind_id n)))"

text \<open>The value of a setting: the mode's binding of the stage, else the configuration of the stage,
  else the node's own.\<close>

definition effective_setting ::
  "(EffectiveStageCompileConfig \<Rightarrow> string option) \<Rightarrow> (StageName \<times> string) list \<Rightarrow> StageName option \<Rightarrow>
   EffectiveStageCompileConfig option \<Rightarrow> string option \<Rightarrow> string option" where
  "effective_setting sel bindings stage_name stage_config own =
     (let configured = (case stage_config of None \<Rightarrow> own | Some c \<Rightarrow>
            (case sel c of Some v \<Rightarrow> Some v | None \<Rightarrow> own)) in
      case stage_name of None \<Rightarrow> configured | Some s \<Rightarrow>
        (case map_of bindings s of Some v \<Rightarrow> Some v | None \<Rightarrow> configured))"

definition effective_thinking_level ::
  "(StageName \<times> string option) list \<Rightarrow> StageName option \<Rightarrow> EffectiveStageCompileConfig option \<Rightarrow>
   string option \<Rightarrow> string option" where
  "effective_thinking_level bindings stage_name stage_config own =
     (let configured = (case stage_config of None \<Rightarrow> own | Some c \<Rightarrow>
            (case et_thinking_level c of Some v \<Rightarrow> Some v | None \<Rightarrow> own)) in
      case stage_name of None \<Rightarrow> configured | Some s \<Rightarrow>
        (case map_of bindings s of Some v \<Rightarrow> v | None \<Rightarrow> configured))"

definition effective_timeout_seconds :: "EffectiveStageCompileConfig option \<Rightarrow> nat option \<Rightarrow> nat" where
  "effective_timeout_seconds stage_config own =
     (case (case stage_config of None \<Rightarrow> None | Some c \<Rightarrow> et_timeout_seconds c) of
        Some t \<Rightarrow> t
      | None \<Rightarrow> (case own of Some t \<Rightarrow> t | None \<Rightarrow> DEFAULT_STAGE_TIMEOUT_SECONDS))"

definition materialize_graph_node_plan ::
  "compile_env \<Rightarrow> GraphLoopNodeDefinition \<Rightarrow> Plane \<Rightarrow> ModeDefinition \<Rightarrow> EffectiveCompileConfig \<Rightarrow>
   (string \<times> RegisteredStageKindDefinition) list \<Rightarrow>
   CompilerMaterializationError + MaterializedGraphNodePlan" where
  "materialize_graph_node_plan e n p m config kinds =
     and_then (stage_kind_for_node n kinds) (\<lambda>k.
     let stage_name = stage_name_for_identifier (ln_stage_kind_id n);
         stage_config = map_of (ec_stages config) (ln_stage_kind_id n);
         runner_name = effective_setting et_runner (mo_stage_runner_bindings m) stage_name stage_config
           (ln_runner_name n);
         thinking_level = effective_thinking_level (mo_stage_thinking_bindings m) stage_name stage_config
           (ln_thinking_level n) in
     and_then (compile_execution_capability_context e n k stage_name m config runner_name) (\<lambda>context.
     materialization_contract ''materialized_graph_node_plan'' (MaterializedGraphNodePlan_validate
       \<lparr>gn_node_id = ln_node_id n, gn_stage_kind_id = ln_stage_kind_id n, gn_plane = p, gn_lane_id = None,
        gn_entrypoint_path = node_entrypoint_path m k n stage_name,
        gn_entrypoint_contract_id = Some (ln_node_id n @ ''.contract.v1''),
        gn_running_status_marker = sk_running_status_marker k,
        gn_allowed_result_classes_by_outcome = sk_allowed_result_classes_by_outcome k,
        gn_declared_output_artifacts = sk_declared_output_artifacts k,
        gn_required_skill_paths = sk_required_skill_paths k,
        gn_attached_skill_additions =
          foldl push_unique (ln_attached_skill_additions n) (mode_skill_additions m stage_name),
        gn_runner_name = runner_name,
        gn_model_name = effective_setting et_model (mo_stage_model_bindings m) stage_name stage_config
          (ln_model_name n),
        gn_thinking_level = thinking_level,
        gn_model_reasoning_effort = (if runner_name = Some ''codex_cli'' then thinking_level else None),
        gn_timeout_seconds = effective_timeout_seconds stage_config (ln_timeout_seconds n),
        gn_execution_capability_grants = cx_grants context,
        gn_execution_capability_warnings = cx_warnings context,
        gn_execution_capability_policy_fingerprint = cx_policy_fingerprint context,
        gn_request_context_profile_id = None, gn_terminal_action_mappings = [],
        gn_runtime_effect_rule_selections = []\<rparr>)))"

section \<open>Transitions, policies and entries\<close>

definition compile_edge :: "GraphLoopEdgeDefinition \<Rightarrow> CompiledGraphTransitionPlan list" where
  "compile_edge x = map (\<lambda>oc.
     \<lparr>gt_edge_id = lx_edge_id x, gt_source_node_id = lx_from_node_id x, gt_outcome = oc,
      gt_target_node_id = lx_to_node_id x, gt_terminal_state_id = lx_terminal_state_id x, gt_kind = lx_kind x,
      gt_priority = lx_priority x, gt_max_attempts = lx_max_attempts x\<rparr>) (lx_on_outcomes x)"

definition compile_graph_transitions :: "GraphLoopEdgeDefinition list \<Rightarrow> CompiledGraphTransitionPlan list" where
  "compile_graph_transitions edges = concat (map compile_edge edges)"

definition compile_graph_resume_policies ::
  "GraphLoopResumePolicyDefinition list \<Rightarrow> CompiledGraphResumePolicyPlan list" where
  "compile_graph_resume_policies policies = map (\<lambda>p.
     \<lparr>gr_policy_id = lr_policy_id p, gr_source_node_id = lr_source_node_id p, gr_on_outcome = lr_on_outcome p,
      gr_default_target_node_id = lr_default_target_node_id p,
      gr_metadata_stage_keys = lr_metadata_stage_keys p,
      gr_disallowed_target_node_ids = lr_disallowed_target_node_ids p\<rparr>) policies"

definition resolved_threshold_for_policy ::
  "GraphLoopThresholdPolicyDefinition \<Rightarrow> EffectiveCompileConfig \<Rightarrow> nat" where
  "resolved_threshold_for_policy p config =
     (case lh_counter_name p of
        FixCycleCount \<Rightarrow> ev_max_fix_cycles (ec_recovery config)
      | TroubleshootAttemptCount \<Rightarrow> ev_max_troubleshoot_attempts_before_consult (ec_recovery config)
      | MechanicAttemptCount \<Rightarrow> ev_max_mechanic_attempts (ec_recovery config))"

definition compile_graph_threshold_policies ::
  "GraphLoopThresholdPolicyDefinition list \<Rightarrow> EffectiveCompileConfig \<Rightarrow> CompiledGraphThresholdPolicyPlan list" where
  "compile_graph_threshold_policies policies config = map (\<lambda>p.
     \<lparr>gh_policy_id = lh_policy_id p, gh_source_node_ids = lh_source_node_ids p, gh_on_outcome = lh_on_outcome p,
      gh_counter_name = lh_counter_name p, gh_threshold = resolved_threshold_for_policy p config,
      gh_exhausted_target_node_id = lh_exhausted_target_node_id p,
      gh_exhausted_terminal_state_id = lh_exhausted_terminal_state_id p\<rparr>) policies"

text \<open>\<^verbatim>\<open>materialized_node_by_id\<close>: of nodes with the same id the last one counts.\<close>

definition materialized_node_by_id :: "MaterializedGraphNodePlan list \<Rightarrow> string \<Rightarrow> MaterializedGraphNodePlan option" where
  "materialized_node_by_id nodes = last_of (map (\<lambda>n. (gn_node_id n, n)) nodes)"

fun compile_entries ::
  "(string \<Rightarrow> MaterializedGraphNodePlan option) \<Rightarrow> Plane \<Rightarrow> GraphLoopEntryDefinition list \<Rightarrow>
   CompilerMaterializationError + CompiledGraphEntryPlan list" where
  "compile_entries node_plan p [] = Inr []"
| "compile_entries node_plan p (x # xs) =
     (case node_plan (le_node_id x) of
        None \<Rightarrow> Inl (UnknownEntryNode (GraphLoopEntryKey_as_str (le_entry_key x)) (le_node_id x))
      | Some n \<Rightarrow> map_ok ((#) \<lparr>ge_entry_key = le_entry_key x, ge_node_id = le_node_id x,
                               ge_stage_kind_id = gn_stage_kind_id n, ge_plane = p\<rparr>)
          (compile_entries node_plan p xs))"

definition compile_graph_completion_entry ::
  "GraphLoopDefinition \<Rightarrow> (string \<Rightarrow> MaterializedGraphNodePlan option) \<Rightarrow>
   CompilerMaterializationError + CompiledGraphCompletionEntryPlan option" where
  "compile_graph_completion_entry g node_plan =
     (case gl_completion_behavior g of
        None \<Rightarrow> Inr None
      | Some b \<Rightarrow>
          (case node_plan (lb_target_node_id b) of
             None \<Rightarrow> Inl (UnknownCompletionTarget (lb_target_node_id b))
           | Some n \<Rightarrow> Inr (Some
               \<lparr>gc_entry_key = ClosureTargetEntry, gc_node_id = lb_target_node_id b,
                gc_stage_kind_id = gn_stage_kind_id n, gc_plane = gl_plane g, gc_trigger = lb_trigger b,
                gc_readiness_rule = lb_readiness_rule b, gc_request_kind = lb_request_kind b,
                gc_target_selector = lb_target_selector b, gc_rubric_policy = lb_rubric_policy b,
                gc_blocked_work_policy = lb_blocked_work_policy b,
                gc_skip_if_already_closed = lb_skip_if_already_closed b,
                gc_on_pass_terminal_state_id = lb_on_pass_terminal_state_id b,
                gc_on_gap_terminal_state_id = lb_on_gap_terminal_state_id b,
                gc_create_incident_on_gap = lb_create_incident_on_gap b\<rparr>)))"

section \<open>Stage kinds against graphs\<close>

definition invalid_stage_kind_reference :: "GraphLoopDefinition \<Rightarrow> string \<Rightarrow> CompilerMaterializationError" where
  "invalid_stage_kind_reference g message = InvalidStageKindReference (gl_loop_id g) message"

definition kind_check :: "GraphLoopDefinition \<Rightarrow> bool \<Rightarrow> string \<Rightarrow> CompilerMaterializationError + unit" where
  "kind_check g ok message = (if ok then Inr () else Inl (invalid_stage_kind_reference g message))"

definition declared_override_names :: "GraphLoopNodeDefinition \<Rightarrow> string list" where
  "declared_override_names n =
     (if ln_entrypoint_path n \<noteq> None then [''entrypoint_path''] else [])
     @ (if ln_attached_skill_additions n \<noteq> [] then [''attached_skill_additions''] else [])
     @ (if ln_runner_name n \<noteq> None then [''runner_name''] else [])
     @ (if ln_model_name n \<noteq> None then [''model_name''] else [])
     @ (if ln_timeout_seconds n \<noteq> None then [''timeout_seconds''] else [])"

definition node_by_id :: "GraphLoopDefinition \<Rightarrow> string \<Rightarrow> GraphLoopNodeDefinition option" where
  "node_by_id g = last_of (map (\<lambda>n. (ln_node_id n, n)) (gl_nodes g))"

definition node_kind_check ::
  "GraphLoopDefinition \<Rightarrow> (string \<times> RegisteredStageKindDefinition) list \<Rightarrow> GraphLoopNodeDefinition \<Rightarrow>
   CompilerMaterializationError + unit" where
  "node_kind_check g kinds n =
     and_then (stage_kind_for_node n kinds) (\<lambda>k. all_checks
       (kind_check g (sk_plane k = gl_plane g)
          (''node '' @ ln_node_id n @ '' uses stage kind '' @ ln_stage_kind_id n @ '' from plane ''
           @ Plane_as_str (sk_plane k))
        # map (\<lambda>name. kind_check g (name \<in> set (sk_allowed_overrides k))
            (''node '' @ ln_node_id n @ '' declares unsupported override '' @ name @ '' for stage kind ''
             @ ln_stage_kind_id n)) (declared_override_names n)))"

text \<open>An outcome used at a node must be legal for the node's stage kind; unknown nodes are skipped.\<close>

definition outcomes_legal_at ::
  "GraphLoopDefinition \<Rightarrow> (string \<times> RegisteredStageKindDefinition) list \<Rightarrow> string \<Rightarrow> string list \<Rightarrow> string \<Rightarrow>
   CompilerMaterializationError + unit" where
  "outcomes_legal_at g kinds node_id outcomes label =
     (case node_by_id g node_id of
        None \<Rightarrow> Inr ()
      | Some n \<Rightarrow> and_then (stage_kind_for_node n kinds) (\<lambda>k. all_checks (map (\<lambda>oc.
          kind_check g (oc \<in> set (sk_legal_outcomes k))
            (label @ '' declares illegal outcome '' @ oc @ '' for stage kind '' @ sk_stage_kind_id k)) outcomes)))"

definition validate_graph_stage_kind_semantics ::
  "GraphLoopDefinition \<Rightarrow> (string \<times> RegisteredStageKindDefinition) list \<Rightarrow>
   CompilerMaterializationError + unit" where
  "validate_graph_stage_kind_semantics g kinds = all_checks
     (map (node_kind_check g kinds) (gl_nodes g)
      @ map (\<lambda>x. outcomes_legal_at g kinds (lx_from_node_id x) (lx_on_outcomes x) (''edge '' @ lx_edge_id x))
          (gl_edges g)
      @ (case gl_dynamic_policies g of None \<Rightarrow> [] | Some ps \<Rightarrow>
          map (\<lambda>p. outcomes_legal_at g kinds (lr_source_node_id p) [lr_on_outcome p]
                 (''resume policy '' @ lr_policy_id p)) (ly_resume_policies ps)
          @ concat (map (\<lambda>p. map (\<lambda>node_id. outcomes_legal_at g kinds node_id [lh_on_outcome p]
                 (''threshold policy '' @ lh_policy_id p)) (lh_source_node_ids p)) (ly_threshold_policies ps)))
      @ (case gl_completion_behavior g of None \<Rightarrow> [] | Some b \<Rightarrow>
          [(case node_by_id g (lb_target_node_id b) of
              None \<Rightarrow> Inl (UnknownCompletionTarget (lb_target_node_id b))
            | Some n \<Rightarrow> and_then (stage_kind_for_node n kinds) (\<lambda>k. kind_check g (sk_closure_role k)
                (''completion behavior targets non-closure stage kind '' @ sk_stage_kind_id k)))]))"

section \<open>Capability summaries\<close>

definition bump :: "string \<Rightarrow> (string \<times> nat) list \<Rightarrow> (string \<times> nat) list" where
  "bump k m = btree_insert k (Suc (case map_of m k of None \<Rightarrow> 0 | Some n \<Rightarrow> n)) m"

definition count_grant :: "ExecutionCapabilityGrant \<Rightarrow> ExecutionCapabilitySummary \<Rightarrow> ExecutionCapabilitySummary" where
  "count_grant g s =
     \<lparr>cs_total_grants = Suc (cs_total_grants s),
      cs_by_decision = bump (CapabilityDecisionState_as_str (kg_decision_state g)) (cs_by_decision s),
      cs_by_enforcement = bump (CapabilityEnforcementMode_as_str (kg_enforcement_mode g)) (cs_by_enforcement s)\<rparr>"

definition execution_capability_summary_from_grants ::
  "ExecutionCapabilityGrant list \<Rightarrow> ExecutionCapabilitySummary" where
  "execution_capability_summary_from_grants grants =
     fold count_grant grants \<lparr>cs_total_grants = 0, cs_by_decision = [], cs_by_enforcement = []\<rparr>"

definition execution_capability_summary_from_nodes ::
  "MaterializedGraphNodePlan list \<Rightarrow> ExecutionCapabilitySummary" where
  "execution_capability_summary_from_nodes nodes =
     execution_capability_summary_from_grants (concat (map gn_execution_capability_grants nodes))"

definition execution_capability_summary_from_graphs ::
  "FrozenGraphPlanePlan list \<Rightarrow> ExecutionCapabilitySummary" where
  "execution_capability_summary_from_graphs graphs =
     execution_capability_summary_from_nodes (concat (map fg_nodes graphs))"

definition execution_capability_summaries_by_plane ::
  "(Plane \<times> FrozenGraphPlanePlan) list \<Rightarrow> (Plane \<times> ExecutionCapabilitySummary) list" where
  "execution_capability_summaries_by_plane graphs =
     map (\<lambda>(p, g). (p, fg_execution_capability_summary g)) (sorted_plane_entries graphs)"

section \<open>Graphs and the plan\<close>

fun materialize_nodes ::
  "(GraphLoopNodeDefinition \<Rightarrow> CompilerMaterializationError + MaterializedGraphNodePlan) \<Rightarrow>
   GraphLoopNodeDefinition list \<Rightarrow> CompilerMaterializationError + MaterializedGraphNodePlan list" where
  "materialize_nodes f [] = Inr []"
| "materialize_nodes f (n # ns) = and_then (f n) (\<lambda>x. map_ok ((#) x) (materialize_nodes f ns))"

definition materialize_graph_plane_plan ::
  "compile_env \<Rightarrow> GraphLoopDefinition \<Rightarrow> ModeDefinition \<Rightarrow> EffectiveCompileConfig \<Rightarrow>
   (string \<times> RegisteredStageKindDefinition) list \<Rightarrow> CompilerMaterializationError + FrozenGraphPlanePlan" where
  "materialize_graph_plane_plan e g m config kinds =
     and_then (validate_graph_stage_kind_semantics g kinds) (\<lambda>_.
     and_then (materialize_nodes (\<lambda>n. materialize_graph_node_plan e n (gl_plane g) m config kinds) (gl_nodes g))
       (\<lambda>nodes.
     and_then (compile_entries (materialized_node_by_id nodes) (gl_plane g) (gl_entry_nodes g)) (\<lambda>entries.
     and_then (compile_graph_completion_entry g (materialized_node_by_id nodes)) (\<lambda>completion_entry.
     materialization_contract ''frozen_graph_plane_plan'' (FrozenGraphPlanePlan_validate
       \<lparr>fg_loop_id = gl_loop_id g, fg_plane = gl_plane g, fg_nodes = nodes, fg_entry_nodes = gl_entry_nodes g,
        fg_transitions = gl_edges g, fg_compiled_entries = entries,
        fg_compiled_completion_entry = completion_entry,
        fg_compiled_transitions = compile_graph_transitions (gl_edges g),
        fg_compiled_resume_policies = (case gl_dynamic_policies g of None \<Rightarrow> []
          | Some ps \<Rightarrow> compile_graph_resume_policies (ly_resume_policies ps)),
        fg_compiled_threshold_policies = (case gl_dynamic_policies g of None \<Rightarrow> []
          | Some ps \<Rightarrow> compile_graph_threshold_policies (ly_threshold_policies ps) config),
        fg_terminal_states = gl_terminal_states g, fg_completion_behavior = gl_completion_behavior g,
        fg_execution_capability_summary = execution_capability_summary_from_nodes nodes\<rparr>)))))"

definition selected_stages_for_graph_loops :: "GraphLoopDefinition list \<Rightarrow> StageName set" where
  "selected_stages_for_graph_loops graph_loops =
     set (concat (map (\<lambda>g. concat (map (\<lambda>n.
       case stage_name_for_identifier (ln_stage_kind_id n) of Some s \<Rightarrow> [s] | None \<Rightarrow> []) (gl_nodes g)))
       graph_loops))"

definition trigger_check :: "LearningTriggerRuleDefinition \<Rightarrow> bool \<Rightarrow> string \<Rightarrow> CompilerMaterializationError + unit" where
  "trigger_check rule ok message = (if ok then Inr () else Inl (InvalidLearningTrigger (lt_rule_id rule) message))"

definition validate_compiled_learning_trigger_rules ::
  "ModeDefinition \<Rightarrow> StageName set \<Rightarrow> CompilerMaterializationError + unit" where
  "validate_compiled_learning_trigger_rules m selected_stages = all_checks (map (\<lambda>rule.
     let target_stage = StageName_from_Learning (lt_target_stage rule) in all_checks
       [trigger_check rule (lt_source_stage rule \<in> selected_stages)
          (''source_stage '' @ StageName_as_str (lt_source_stage rule) @ '' is outside selected loops''),
        trigger_check rule (target_stage \<in> selected_stages)
          (''target_stage '' @ StageName_as_str target_stage @ '' is outside selected loops''),
        trigger_check rule (\<not> (lt_target_stage rule = LearningStageName.Curator \<and> lt_target_skill_id rule = None
             \<and> lt_preferred_output_paths rule = []))
          ''targets curator without a safe destination: direct curator triggers require target_skill_id or preferred_output_paths; route vague learning through analyst''])
     (mo_learning_trigger_rules m))"

definition required_loop_id :: "ModeDefinition \<Rightarrow> Plane \<Rightarrow> CompilerMaterializationError + string" where
  "required_loop_id m p =
     (case map_of (mo_loop_ids_by_plane m) p of Some i \<Rightarrow> Inr i | None \<Rightarrow> Inl (MissingLoopBinding p))"

definition materialized_graph_for_plane ::
  "(Plane \<times> FrozenGraphPlanePlan) list \<Rightarrow> Plane \<Rightarrow> string \<Rightarrow>
   CompilerMaterializationError + FrozenGraphPlanePlan" where
  "materialized_graph_for_plane graphs p loop_id =
     (case map_of graphs p of Some g \<Rightarrow> Inr g | None \<Rightarrow> Inl (MissingGraph p (Some loop_id)))"

definition build_compiled_plan_id ::
  "compile_env \<Rightarrow> string \<Rightarrow> (Plane \<times> string) list \<Rightarrow> (Plane \<times> FrozenGraphPlanePlan) list \<Rightarrow>
   PlaneConcurrencyPolicyDefinition option \<Rightarrow> LearningTriggerRuleDefinition list \<Rightarrow> string" where
  "build_compiled_plan_id e mode_id loop_ids graphs concurrency rules =
     ''plan-'' @ mode_id @ ''-'' @ hex_prefix (ce_sha256 e
       (ce_plan_json e mode_id (sorted_plane_entries loop_ids) (sorted_plane_entries graphs) concurrency rules)) 12"

definition build_graph_source_refs ::
  "string \<Rightarrow> (Plane \<times> FrozenGraphPlanePlan) list \<Rightarrow> bool \<Rightarrow> string list" where
  "build_graph_source_refs mode_id graphs has_planning_completion_behavior =
     [''mode:'' @ mode_id]
     @ map (\<lambda>(p, g). ''graph_loop:'' @ fg_loop_id g) (sorted_plane_entries graphs)
     @ (if has_planning_completion_behavior then
          (case map_of graphs Plane.Planning of Some g \<Rightarrow> [''graph_completion_behavior:'' @ fg_loop_id g] | None \<Rightarrow> [])
        else [])
     @ [''workflow_primitives:v0.20'', ''workspace_schema_epoch:v0.20'']"

definition materialize_graph_asset ::
  "compile_env \<Rightarrow> ResolvedCompileAssetSet \<Rightarrow> ResolvedGraphLoopAsset \<Rightarrow>
   CompilerMaterializationError + FrozenGraphPlanePlan" where
  "materialize_graph_asset e r a =
     and_then (materialize_graph_plane_plan e (ag_graph_loop a) (rc_mode r) (rc_config r)
        (stage_kind_table (rc_stage_kinds r))) (\<lambda>g.
     materialization_contract ''workflow_primitive_graph_authority''
       (materialize_workflow_primitive_graph_authority g
          (au_workflow_primitives (rc_workflow_primitive_authority r))
          (au_lane_policy (rc_workflow_primitive_authority r))))"

fun materialize_graphs ::
  "compile_env \<Rightarrow> ResolvedCompileAssetSet \<Rightarrow> ResolvedGraphLoopAsset list \<Rightarrow> (Plane \<times> FrozenGraphPlanePlan) list \<Rightarrow>
   CompilerMaterializationError + (Plane \<times> FrozenGraphPlanePlan) list" where
  "materialize_graphs e r [] graphs = Inr graphs"
| "materialize_graphs e r (a # rest) graphs =
     and_then (materialize_graph_asset e r a) (\<lambda>g.
       materialize_graphs e r rest (AList.update (fg_plane g) g graphs))"

definition materialize_compiled_run_plan ::
  "compile_env \<Rightarrow> ResolvedCompileAssetSet \<Rightarrow> Timestamp \<Rightarrow> CompilerMaterializationError + CompiledRunPlan" where
  "materialize_compiled_run_plan e r compiled_at =
     (let m = rc_mode r; authority = rc_workflow_primitive_authority r; b = au_workflow_primitives authority in
     and_then (materialize_graphs e r (rc_graph_loops r) []) (\<lambda>graphs.
     and_then (validate_compiled_learning_trigger_rules m
        (selected_stages_for_graph_loops (map ag_graph_loop (rc_graph_loops r)))) (\<lambda>_.
     and_then (required_loop_id m Plane.Execution) (\<lambda>execution_loop_id.
     and_then (required_loop_id m Plane.Planning) (\<lambda>planning_loop_id.
     let learning_loop_id = map_of (mo_loop_ids_by_plane m) Plane.Learning in
     and_then (materialized_graph_for_plane graphs Plane.Execution execution_loop_id) (\<lambda>execution.
     and_then (materialized_graph_for_plane graphs Plane.Planning planning_loop_id) (\<lambda>planning.
     and_then (transposed (materialized_graph_for_plane graphs Plane.Learning) learning_loop_id) (\<lambda>learning.
     materialization_contract ''compiled_run_plan'' (CompiledRunPlan_validate
       \<lparr>plan_schema_version = ''1.0'', plan_kind = ''compiled_run_plan'',
        plan_compiled_plan_id = build_compiled_plan_id e (rc_mode_id r) (mo_loop_ids_by_plane m) graphs
          (mo_concurrency_policy m) (mo_learning_trigger_rules m),
        plan_compile_input_fingerprint = rc_compile_input_fingerprint r, plan_mode_id = rc_mode_id r,
        plan_loop_ids_by_plane = mo_loop_ids_by_plane m, plan_execution_loop_id = execution_loop_id,
        plan_planning_loop_id = planning_loop_id, plan_learning_loop_id = learning_loop_id,
        plan_graphs_by_plane = graphs, plan_execution_graph = execution, plan_planning_graph = planning,
        plan_learning_graph = learning,
        plan_execution_capability_summary = execution_capability_summary_from_graphs (map snd graphs),
        plan_execution_capability_summaries_by_plane = execution_capability_summaries_by_plane graphs,
        plan_concurrency_policy = mo_concurrency_policy m,
        plan_learning_trigger_rules = mo_learning_trigger_rules m, plan_workflow_primitives = b,
        plan_workflow_primitive_fingerprints = au_workflow_primitive_fingerprints authority,
        plan_lane_policy = Some (au_lane_policy authority),
        plan_workspace_schema_epoch = bu_workspace_schema_epoch b, plan_pending_compiled_plan = None,
        plan_compiled_at = compiled_at, plan_resolved_assets = rc_resolved_assets r,
        plan_source_refs = build_graph_source_refs (rc_mode_id r) graphs
          (fg_completion_behavior planning \<noteq> None)\<rparr>)))))))))"

definition compile_compiled_run_plan ::
  "compile_env \<Rightarrow> string option \<Rightarrow> Timestamp \<Rightarrow> CompilerMaterializationError + CompiledRunPlan" where
  "compile_compiled_run_plan e requested_mode_id compiled_at =
     and_then (map_err MaterializationAsset (resolve_compile_assets e requested_mode_id)) (\<lambda>r.
       materialize_compiled_run_plan e r compiled_at)"

end
