(* ===== verification/Graph_Closure.thy ===== *)
theory Graph_Closure
  imports Materialization Plan_Validity
begin

text \<open>
  A compiled graph is closed: its entries, transitions, policies and completion entry name only nodes and
  terminal states of the graph, and the ids of the nodes are distinct. The graph loop is checked for this
  once; the facts here carry it through every later normalisation to the compiled plan.
\<close>

section \<open>Normalised ids\<close>

definition canon :: "string \<Rightarrow> string" where
  "canon v = to_ascii_lowercase (trim v)"

lemma canonical_id_chars:
  "canonical_id_from b v \<Longrightarrow> c \<in> set v \<Longrightarrow> is_ascii_lower c \<or> is_ascii_digit c \<or> is_id_separator c"
  by (induction b v rule: canonical_id_from.induct) (auto split: if_splits)

lemma canonical_char:
  assumes "is_ascii_lower c \<or> is_ascii_digit c \<or> is_id_separator c"
  shows "ascii_graphic c \<and> to_ascii_lower c = c"
  using assms
  by (auto simp: ascii_graphic_def to_ascii_lower_def is_ascii_lower_def is_ascii_upper_def is_ascii_digit_def
      is_id_separator_def Let_def)

lemma canon_canonical: "is_canonical_id v \<Longrightarrow> canon v = v"
  using canonical_id_chars[of True v] canonical_char
  by (simp add: canon_def is_canonical_id_def to_ascii_lowercase_def trim_graphic list_all_iff map_idI)

lemma normalize_canonical_id_Inr [result_simps]:
  "normalize_canonical_id v f = Inr w \<longleftrightarrow> w = canon v \<and> is_canonical_id (canon v)"
  by (auto simp: normalize_canonical_id_def canon_def Let_def)

lemma normalize_optional_canonical_id_Inr [result_simps]:
  "normalize_optional_canonical_id v f = Inr w \<longleftrightarrow> w = map_option canon v \<and> pred_option (\<lambda>x. is_canonical_id (canon x)) v"
  by (cases v) (auto simp: normalize_optional_canonical_id_def result_simps map_ok_eq_Inr)

lemma normalize_each_Inr:
  "normalize_each f xs = Inr ys \<longleftrightarrow> list_all2 (\<lambda>x y. f x = Inr y) xs ys"
  by (induction xs arbitrary: ys) (auto simp: and_then_eq_Inr map_ok_eq_Inr list_all2_Cons1)

lemma normalize_each_const:
  assumes "\<And>x w. f x = Inr w \<longleftrightarrow> w = g x \<and> P x"
  shows "normalize_each f xs = Inr ys \<longleftrightarrow> ys = map g xs \<and> list_all P xs"
  by (induction xs arbitrary: ys) (auto simp: and_then_eq_Inr map_ok_eq_Inr assms)

lemma normalize_canonical_ids_Inr [result_simps]:
  "normalize_canonical_ids vs f = Inr ws
     \<longleftrightarrow> ws = dedupe (map canon vs) \<and> list_all (\<lambda>v. is_canonical_id (canon v)) vs"
  by (auto simp: normalize_canonical_ids_def map_ok_eq_Inr
      normalize_each_const[OF normalize_canonical_id_Inr])

lemma unique_ids_from_Inr: "unique_ids_from seen m ids = Inr s \<longleftrightarrow> distinct ids \<and> set ids \<inter> seen = {} \<and> s = seen \<union> set ids"
  by (induction ids arbitrary: seen) auto

lemma unique_ids_Inr [result_simps]: "unique_ids m ids = Inr s \<longleftrightarrow> distinct ids \<and> s = set ids"
  by (auto simp: unique_ids_def unique_ids_from_Inr)


section \<open>Closed graphs\<close>

text \<open>What a graph refers to, by the kind of reference.\<close>

definition graph_node_ids :: "FrozenGraphPlanePlan \<Rightarrow> string list" where
  "graph_node_ids g = map gn_node_id (fg_nodes g)"

definition graph_terminal_ids :: "FrozenGraphPlanePlan \<Rightarrow> string list" where
  "graph_terminal_ids g = map gs_terminal_state_id (fg_terminal_states g)"

definition transition_nodes :: "CompiledGraphTransitionPlan \<Rightarrow> string set" where
  "transition_nodes t = insert (gt_source_node_id t) (set_option (gt_target_node_id t))"

definition resume_nodes :: "CompiledGraphResumePolicyPlan \<Rightarrow> string set" where
  "resume_nodes p = insert (gr_source_node_id p)
     (insert (gr_default_target_node_id p) (set (gr_disallowed_target_node_ids p)))"

definition threshold_nodes :: "CompiledGraphThresholdPolicyPlan \<Rightarrow> string set" where
  "threshold_nodes p = set (gh_source_node_ids p) \<union> set_option (gh_exhausted_target_node_id p)"

definition completion_terminals :: "CompiledGraphCompletionEntryPlan \<Rightarrow> string set" where
  "completion_terminals e = {gc_on_pass_terminal_state_id e, gc_on_gap_terminal_state_id e}"

definition referenced_nodes :: "FrozenGraphPlanePlan \<Rightarrow> string set" where
  "referenced_nodes g =
     ge_node_id ` set (fg_compiled_entries g) \<union> gc_node_id ` set_option (fg_compiled_completion_entry g)
     \<union> \<Union> (transition_nodes ` set (fg_compiled_transitions g))
     \<union> \<Union> (resume_nodes ` set (fg_compiled_resume_policies g))
     \<union> \<Union> (threshold_nodes ` set (fg_compiled_threshold_policies g))"

definition referenced_terminals :: "FrozenGraphPlanePlan \<Rightarrow> string set" where
  "referenced_terminals g =
     \<Union> ((\<lambda>t. set_option (gt_terminal_state_id t)) ` set (fg_compiled_transitions g))
     \<union> \<Union> ((\<lambda>h. set_option (gh_exhausted_terminal_state_id h)) ` set (fg_compiled_threshold_policies g))
     \<union> \<Union> (completion_terminals ` set_option (fg_compiled_completion_entry g))"

definition graph_closed :: "FrozenGraphPlanePlan \<Rightarrow> bool" where
  "graph_closed g \<longleftrightarrow> distinct (graph_node_ids g) \<and> referenced_nodes g \<subseteq> set (graph_node_ids g)
     \<and> referenced_terminals g \<subseteq> set (graph_terminal_ids g)"

text \<open>What validation does to the references: each one is normalised.\<close>

lemma entry_validate:
  "CompiledGraphEntryPlan_validate e = Inr e1 \<Longrightarrow> ge_node_id e1 = canon (ge_node_id e)"
  by (auto simp: CompiledGraphEntryPlan_validate_def result_simps map_ok_eq_Inr)

lemma completion_entry_validate:
  assumes "CompiledGraphCompletionEntryPlan_validate e = Inr e1"
  shows "gc_node_id e1 = canon (gc_node_id e)"
    "gc_on_pass_terminal_state_id e1 = canon (gc_on_pass_terminal_state_id e)"
    "gc_on_gap_terminal_state_id e1 = canon (gc_on_gap_terminal_state_id e)"
  using assms by (auto simp: CompiledGraphCompletionEntryPlan_validate_def result_simps map_ok_eq_Inr
      split: if_splits)

lemma transition_validate:
  assumes "CompiledGraphTransitionPlan_validate t = Inr t1"
  shows "gt_source_node_id t1 = canon (gt_source_node_id t)"
    "gt_target_node_id t1 = map_option canon (gt_target_node_id t)"
    "gt_terminal_state_id t1 = map_option canon (gt_terminal_state_id t)"
  using assms by (auto simp: CompiledGraphTransitionPlan_validate_def result_simps map_ok_eq_Inr split: if_splits)

lemma resume_validate:
  assumes "CompiledGraphResumePolicyPlan_validate p = Inr p1"
  shows "gr_source_node_id p1 = canon (gr_source_node_id p)"
    "gr_default_target_node_id p1 = canon (gr_default_target_node_id p)"
    "set (gr_disallowed_target_node_ids p1) = canon ` set (gr_disallowed_target_node_ids p)"
  using assms by (auto simp: CompiledGraphResumePolicyPlan_validate_def result_simps map_ok_eq_Inr)

lemma threshold_validate:
  assumes "CompiledGraphThresholdPolicyPlan_validate p = Inr p1"
  shows "set (gh_source_node_ids p1) = canon ` set (gh_source_node_ids p)"
    "gh_exhausted_target_node_id p1 = map_option canon (gh_exhausted_target_node_id p)"
    "gh_exhausted_terminal_state_id p1 = map_option canon (gh_exhausted_terminal_state_id p)"
    "gh_counter_name p1 = gh_counter_name p" "gh_threshold p1 = gh_threshold p"
  using assms by (auto simp: CompiledGraphThresholdPolicyPlan_validate_def result_simps map_ok_eq_Inr
      split: if_splits)

lemma terminal_validate:
  "GraphLoopTerminalStateDefinition_validate t = Inr t1
   \<Longrightarrow> gs_terminal_state_id t1 = canon (gs_terminal_state_id t) \<and> is_canonical_id (gs_terminal_state_id t1)"
  by (auto simp: GraphLoopTerminalStateDefinition_validate_def result_simps map_ok_eq_Inr)

lemma node_validate:
  "MaterializedGraphNodePlan_validate n = Inr n1
   \<Longrightarrow> gn_node_id n1 = canon (gn_node_id n) \<and> is_canonical_id (gn_node_id n1)
     \<and> gn_execution_capability_grants n1 = gn_execution_capability_grants n"
  unfolding MaterializedGraphNodePlan_validate_def and_then_eq_Inr map_ok_eq_Inr normalize_canonical_id_Inr
  by (elim exE conjE) simp


section \<open>Validation keeps a graph closed\<close>

lemma validate_in_plane_Inr:
  "validate_in_plane v plane_of p m x = Inr y \<longleftrightarrow> v x = Inr y \<and> plane_of y = p"
  by (auto simp: validate_in_plane_def and_then_eq_Inr map_ok_eq_Inr)

lemma validate_option_Inr:
  "validate_option f v = Inr w \<longleftrightarrow> rel_option (\<lambda>x y. f x = Inr y) v w"
  by (cases v; cases w) (auto simp: validate_option_def map_ok_eq_Inr)

text \<open>The parts of a validated graph are validated one by one; the rest is kept.\<close>

lemma frozen_graph_validateE:
  assumes "FrozenGraphPlanePlan_validate g = Inr g1"
  obtains "list_all2 (\<lambda>x y. MaterializedGraphNodePlan_validate x = Inr y) (fg_nodes g) (fg_nodes g1)"
    "list_all2 (\<lambda>x y. CompiledGraphEntryPlan_validate x = Inr y) (fg_compiled_entries g) (fg_compiled_entries g1)"
    "rel_option (\<lambda>x y. CompiledGraphCompletionEntryPlan_validate x = Inr y)
       (fg_compiled_completion_entry g) (fg_compiled_completion_entry g1)"
    "list_all2 (\<lambda>x y. CompiledGraphTransitionPlan_validate x = Inr y)
       (fg_compiled_transitions g) (fg_compiled_transitions g1)"
    "list_all2 (\<lambda>x y. CompiledGraphResumePolicyPlan_validate x = Inr y)
       (fg_compiled_resume_policies g) (fg_compiled_resume_policies g1)"
    "list_all2 (\<lambda>x y. CompiledGraphThresholdPolicyPlan_validate x = Inr y)
       (fg_compiled_threshold_policies g) (fg_compiled_threshold_policies g1)"
    "list_all2 (\<lambda>x y. GraphLoopTerminalStateDefinition_validate x = Inr y)
       (fg_terminal_states g) (fg_terminal_states g1)"
    "fg_plane g1 = fg_plane g"
proof -
  obtain loop_id nodes entry_nodes transitions entries completion_entry compiled resumes thresholds terminals
    completion where
    "list_all2 (\<lambda>x y. MaterializedGraphNodePlan_validate x = Inr y \<and> gn_plane y = fg_plane g) (fg_nodes g) nodes"
    "list_all2 (\<lambda>x y. CompiledGraphEntryPlan_validate x = Inr y \<and> ge_plane y = fg_plane g)
       (fg_compiled_entries g) entries"
    "rel_option (\<lambda>x y. CompiledGraphCompletionEntryPlan_validate x = Inr y \<and> gc_plane y = fg_plane g)
       (fg_compiled_completion_entry g) completion_entry"
    "list_all2 (\<lambda>x y. CompiledGraphTransitionPlan_validate x = Inr y) (fg_compiled_transitions g) compiled"
    "list_all2 (\<lambda>x y. CompiledGraphResumePolicyPlan_validate x = Inr y) (fg_compiled_resume_policies g) resumes"
    "list_all2 (\<lambda>x y. CompiledGraphThresholdPolicyPlan_validate x = Inr y)
       (fg_compiled_threshold_policies g) thresholds"
    "list_all2 (\<lambda>x y. GraphLoopTerminalStateDefinition_validate x = Inr y) (fg_terminal_states g) terminals"
    "g1 = g\<lparr>fg_loop_id := loop_id, fg_nodes := nodes, fg_entry_nodes := entry_nodes,
         fg_transitions := transitions, fg_compiled_entries := entries,
         fg_compiled_completion_entry := completion_entry, fg_compiled_transitions := compiled,
         fg_compiled_resume_policies := resumes, fg_compiled_threshold_policies := thresholds,
         fg_terminal_states := terminals, fg_completion_behavior := completion\<rparr>"
    using assms
    unfolding FrozenGraphPlanePlan_validate_def Let_def and_then_check_Inr and_then_eq_Inr map_ok_eq_Inr
      normalize_each_Inr validate_in_plane_Inr validate_option_Inr
    by (elim exE conjE) (rule that, assumption+)
  then show thesis
    by (intro that) (auto elim!: list_all2_mono option.rel_mono_strong)
qed

text \<open>References of related elements.\<close>

lemma references_image:
  assumes "list_all2 R xs ys" "\<And>x y. R x y \<Longrightarrow> F y = canon ` F x"
  shows "\<Union> (F ` set ys) = canon ` \<Union> (F ` set xs)"
  using assms(1) by (induction rule: list_all2_induct) (auto simp: assms(2))

lemma ids_image:
  assumes "list_all2 R xs ys" "\<And>x y. R x y \<Longrightarrow> F y = canon (G x)"
  shows "map F ys = map canon (map G xs)"
  using assms(1) by (induction rule: list_all2_induct) (auto simp: assms(2))

lemma frozen_graph_references:
  assumes "FrozenGraphPlanePlan_validate g = Inr g1"
  shows "graph_node_ids g1 = map canon (graph_node_ids g)" (is ?N)
    "graph_terminal_ids g1 = map canon (graph_terminal_ids g)" (is ?T)
    "referenced_nodes g1 = canon ` referenced_nodes g" (is ?RN)
    "referenced_terminals g1 = canon ` referenced_terminals g" (is ?RT)
    "list_all is_canonical_id (graph_node_ids g1)" (is ?C)
proof -
  note parts = frozen_graph_validateE[OF assms]
  show ?N unfolding graph_node_ids_def
    by (rule parts) (rule ids_image, assumption, simp add: node_validate)
  show ?C unfolding graph_node_ids_def
    by (rule parts) (auto simp: list_all_iff dest!: in_set_conv_nth[THEN iffD1] list_all2_nthD2 node_validate)
  show ?T unfolding graph_terminal_ids_def
    by (rule parts) (rule ids_image, assumption, simp add: terminal_validate)
  have entries: "map ge_node_id (fg_compiled_entries g1) = map canon (map ge_node_id (fg_compiled_entries g))"
    by (rule parts, rule ids_image[where R = "\<lambda>x y. CompiledGraphEntryPlan_validate x = Inr y"])
      (assumption, rule entry_validate)
  have completion:
    "gc_node_id ` set_option (fg_compiled_completion_entry g1)
       = canon ` gc_node_id ` set_option (fg_compiled_completion_entry g)"
    "\<Union> (completion_terminals ` set_option (fg_compiled_completion_entry g1))
       = canon ` \<Union> (completion_terminals ` set_option (fg_compiled_completion_entry g))"
    by (rule parts; auto simp: completion_entry_validate completion_terminals_def elim!: option.rel_cases)+
  have transitions: "\<Union> (transition_nodes ` set (fg_compiled_transitions g1))
      = canon ` \<Union> (transition_nodes ` set (fg_compiled_transitions g))"
    by (rule parts) (rule references_image, assumption,
        simp add: transition_nodes_def transition_validate option.set_map)
  have resumes: "\<Union> (resume_nodes ` set (fg_compiled_resume_policies g1))
      = canon ` \<Union> (resume_nodes ` set (fg_compiled_resume_policies g))"
    by (rule parts) (rule references_image, assumption, simp add: resume_nodes_def resume_validate)
  have thresholds: "\<Union> (threshold_nodes ` set (fg_compiled_threshold_policies g1))
      = canon ` \<Union> (threshold_nodes ` set (fg_compiled_threshold_policies g))"
    by (rule parts) (rule references_image, assumption,
        simp add: threshold_nodes_def threshold_validate option.set_map image_Un)
  show ?RN
    using arg_cong[OF entries, of set]
    unfolding referenced_nodes_def completion transitions resumes thresholds
    by (simp only: image_Un set_map image_comp comp_def)
  have "\<Union> ((\<lambda>t. set_option (gt_terminal_state_id t)) ` set (fg_compiled_transitions g1))
      = canon ` \<Union> ((\<lambda>t. set_option (gt_terminal_state_id t)) ` set (fg_compiled_transitions g))"
    by (rule parts) (rule references_image, assumption, simp add: transition_validate option.set_map)
  moreover have "\<Union> ((\<lambda>h. set_option (gh_exhausted_terminal_state_id h)) ` set (fg_compiled_threshold_policies g1))
      = canon ` \<Union> ((\<lambda>h. set_option (gh_exhausted_terminal_state_id h)) ` set (fg_compiled_threshold_policies g))"
    by (rule parts) (rule references_image, assumption, simp add: threshold_validate option.set_map)
  ultimately show ?RT unfolding referenced_terminals_def completion by (simp only: image_Un)
qed

lemma canon_node_ids:
  assumes "list_all is_canonical_id ids"
  shows "map canon ids = ids"
  using assms by (simp add: map_idI list_all_iff canon_canonical)

text \<open>The limits of the recovery policies are those of the configuration.\<close>

definition limit_of_counter :: "EffectiveRecoveryCompileConfig \<Rightarrow> GraphLoopCounterName \<Rightarrow> nat" where
  "limit_of_counter c counter =
     (case counter of
        FixCycleCount \<Rightarrow> ev_max_fix_cycles c
      | TroubleshootAttemptCount \<Rightarrow> ev_max_troubleshoot_attempts_before_consult c
      | MechanicAttemptCount \<Rightarrow> ev_max_mechanic_attempts c)"

definition thresholds_from :: "EffectiveRecoveryCompileConfig \<Rightarrow> FrozenGraphPlanePlan \<Rightarrow> bool" where
  "thresholds_from c g \<longleftrightarrow>
     list_all (\<lambda>h. gh_threshold h = limit_of_counter c (gh_counter_name h)) (fg_compiled_threshold_policies g)"

lemma frozen_graph_thresholds:
  assumes "FrozenGraphPlanePlan_validate g = Inr g1" "thresholds_from c g"
  shows "thresholds_from c g1"
proof (rule frozen_graph_validateE[OF assms(1)])
  assume "list_all2 (\<lambda>x y. CompiledGraphThresholdPolicyPlan_validate x = Inr y)
      (fg_compiled_threshold_policies g) (fg_compiled_threshold_policies g1)"
  then show ?thesis
    using assms(2) unfolding thresholds_from_def
    by (induction rule: list_all2_induct) (auto simp: threshold_validate(4,5))
qed

text \<open>The grants of the nodes follow the configuration: what it decides for a capability stands, no
  node holds an advisory grant for required work that the configuration rules out, and only a grant is
  enforced.\<close>

definition grant_sound :: "EffectiveExecutionCapabilitiesConfig \<Rightarrow> ExecutionCapabilityGrant \<Rightarrow> bool" where
  "grant_sound c g \<longleftrightarrow>
     (case map_of (ex_defaults c) (kg_capability_id g) of
        None \<Rightarrow> True
      | Some d \<Rightarrow> kg_decision_state g = decision_state_of d
          \<or> d = CapabilityPolicyDecision.Allow \<and> kg_decision_state g = CapabilityDecisionState.Unsupported)
     \<and> (kg_decision_state g = CapabilityDecisionState.Granted \<longleftrightarrow>
          kg_enforcement_mode g \<noteq> CapabilityEnforcementMode.NotApplicable)
     \<and> (kg_enforcement_mode g = CapabilityEnforcementMode.RuntimeEnforced \<longrightarrow>
          is_runtime_enforced_capability (kg_capability_id g))
     \<and> (kg_enforcement_mode g = CapabilityEnforcementMode.AdvisoryOnly \<and> kg_required g \<longrightarrow>
          ex_allow_advisory_grants c \<and> \<not> ex_fail_required_advisory c)
     \<and> (kg_decision_state g = CapabilityDecisionState.ApprovalRequired \<longrightarrow> kg_approval_policy_ref g \<noteq> None)"

definition node_grants_sound :: "EffectiveExecutionCapabilitiesConfig \<Rightarrow> MaterializedGraphNodePlan \<Rightarrow> bool" where
  "node_grants_sound c n \<longleftrightarrow> ex_enabled c \<and> list_all (grant_sound c) (gn_execution_capability_grants n)
     \<or> gn_execution_capability_grants n = []"

definition grants_from :: "EffectiveExecutionCapabilitiesConfig \<Rightarrow> FrozenGraphPlanePlan \<Rightarrow> bool" where
  "grants_from c g \<longleftrightarrow> list_all (node_grants_sound c) (fg_nodes g)"

lemma nodes_grants:
  assumes "list_all2 R xs ys" "list_all (node_grants_sound c) xs"
    "\<And>x y. R x y \<Longrightarrow> gn_execution_capability_grants y = gn_execution_capability_grants x"
  shows "list_all (node_grants_sound c) ys"
  using assms(1,2) by (induction rule: list_all2_induct) (auto simp: node_grants_sound_def assms(3))

lemma frozen_graph_grants:
  assumes "FrozenGraphPlanePlan_validate g = Inr g1" "grants_from c g"
  shows "grants_from c g1"
  using assms(2) unfolding grants_from_def
  by - (rule frozen_graph_validateE[OF assms(1)], erule nodes_grants, assumption, simp add: node_validate)

definition compiled_graph_ok :: "EffectiveCompileConfig \<Rightarrow> FrozenGraphPlanePlan \<Rightarrow> bool" where
  "compiled_graph_ok c g \<longleftrightarrow> graph_closed g \<and> thresholds_from (ec_recovery c) g
     \<and> grants_from (ec_execution_capabilities c) g \<and> list_all is_canonical_id (graph_node_ids g)"

text \<open>A graph with canonical node ids stays closed.\<close>

lemma frozen_graph_ok:
  assumes "FrozenGraphPlanePlan_validate g = Inr g1" "compiled_graph_ok c g"
  shows "compiled_graph_ok c g1"
proof -
  note refs = frozen_graph_references[OF assms(1)]
  have g: "graph_closed g" "thresholds_from (ec_recovery c) g" "grants_from (ec_execution_capabilities c) g"
      "list_all is_canonical_id (graph_node_ids g)"
    using assms(2) by (simp_all add: compiled_graph_ok_def)
  have ids: "graph_node_ids g1 = graph_node_ids g" by (simp add: refs(1) canon_node_ids[OF g(4)])
  have "referenced_nodes g1 \<subseteq> canon ` set (graph_node_ids g)"
    "referenced_terminals g1 \<subseteq> canon ` set (graph_terminal_ids g)"
    using g(1) unfolding refs(3,4) graph_closed_def by (auto intro: image_mono)
  then have "graph_closed g1"
    using g(1) refs(1,2) ids unfolding graph_closed_def by (metis image_set)
  then show ?thesis
    using refs(5) frozen_graph_thresholds[OF assms(1) g(2)] frozen_graph_grants[OF assms(1) g(3)]
    by (simp add: compiled_graph_ok_def)
qed

section \<open>Capability grants\<close>

lemma resolved_decision_default:
  "map_of (ex_defaults (ec_execution_capabilities config)) (kr_capability_id r) = Some d
   \<Longrightarrow> fst (resolve_capability_decision r policies config) = d"
  by (simp add: resolve_capability_decision_def)

lemma granted_state_cases:
  assumes "granted_state r config d = (st, m)" "\<not> advisory_rejected r config d"
  shows "(st = decision_state_of d
      \<or> d = CapabilityPolicyDecision.Allow \<and> st = CapabilityDecisionState.Unsupported)
    \<and> (st = CapabilityDecisionState.Granted \<longleftrightarrow> m \<noteq> CapabilityEnforcementMode.NotApplicable)
    \<and> (m = CapabilityEnforcementMode.RuntimeEnforced \<longrightarrow> is_runtime_enforced_capability (kr_capability_id r))
    \<and> (m = CapabilityEnforcementMode.AdvisoryOnly \<and> kr_required r \<longrightarrow>
        ex_allow_advisory_grants (ec_execution_capabilities config)
        \<and> \<not> ex_fail_required_advisory (ec_execution_capabilities config))
    \<and> (st = CapabilityDecisionState.ApprovalRequired \<longrightarrow> d = CapabilityPolicyDecision.ApprovalRequired)"
  using assms by (cases d) (auto simp: granted_state_def advisory_rejected_def Let_def split: if_splits)

lemma resolved_grant_sound:
  assumes "resolve_execution_capability_grant e n r policies config index = Inr g"
  shows "grant_sound (ec_execution_capabilities config) g"
proof -
  obtain d by_source why where d: "resolve_capability_decision r policies config = (d, by_source, why)"
    by (cases "resolve_capability_decision r policies config")
  obtain st m where sm: "granted_state r config d = (st, m)" by (cases "granted_state r config d")
  have ok: "\<not> advisory_rejected r config d" and
    g: "kg_capability_id g = kr_capability_id r" "kg_required g = kr_required r" "kg_decision_state g = st"
      "kg_enforcement_mode g = m"
      "d = CapabilityPolicyDecision.ApprovalRequired \<Longrightarrow> kg_approval_policy_ref g \<noteq> None"
    using assms
    unfolding resolve_execution_capability_grant_def d Let_def prod.case sm
    by (auto simp only: map_ok_eq_Inr sum.simps ExecutionCapabilityGrant.simps split: if_split_asm)
  have "map_of (ex_defaults (ec_execution_capabilities config)) (kr_capability_id r) = Some d' \<Longrightarrow> d' = d" for d'
    using resolved_decision_default[of config r d' policies] by (simp add: d)
  then show ?thesis
    using granted_state_cases[OF sm ok] g(5)
    unfolding grant_sound_def g(1-4) by (auto split: option.splits)
qed

lemma resolved_grants_sound:
  "resolve_grants e n policies config index rs = Inr (gs, ws)
   \<Longrightarrow> list_all (grant_sound (ec_execution_capabilities config)) gs"
  by (induction rs arbitrary: index gs ws)
    (auto simp: and_then_eq_Inr map_ok_eq_Inr split: prod.splits dest!: resolved_grant_sound)

lemma capability_context_sound:
  assumes "compile_execution_capability_context e n k stage_name m config runner_name = Inr cx"
  shows "ex_enabled (ec_execution_capabilities config)
      \<and> list_all (grant_sound (ec_execution_capabilities config)) (cx_grants cx) \<or> cx_grants cx = []"
  using assms
  by (auto simp: compile_execution_capability_context_def Let_def map_ok_eq_Inr split: if_splits prod.splits
      dest!: resolved_grants_sound)

section \<open>From the graph loop to the plan\<close>

lemma loop_node_validate:
  "GraphLoopNodeDefinition_validate n = Inr n1 \<Longrightarrow> is_canonical_id (ln_node_id n1)"
  by (auto simp: GraphLoopNodeDefinition_validate_def result_simps map_ok_eq_Inr)

lemma loop_validated:
  assumes "GraphLoopDefinition_validate g0 = Inr g"
  shows "graph_references g = Inr ()" "list_all (\<lambda>n. is_canonical_id (ln_node_id n)) (gl_nodes g)"
proof -
  obtain loop_id nodes entries edges terminals policies completion and u :: unit where
    nodes: "list_all2 (\<lambda>x y. GraphLoopNodeDefinition_validate x = Inr y) (gl_nodes g0) nodes"
    and g: "g = g0\<lparr>gl_loop_id := loop_id, gl_nodes := nodes, gl_entry_nodes := entries,
             gl_edges := edges, gl_terminal_states := terminals, gl_dynamic_policies := policies,
             gl_completion_behavior := completion\<rparr>"
    and refs: "graph_references (g0\<lparr>gl_loop_id := loop_id, gl_nodes := nodes, gl_entry_nodes := entries,
             gl_edges := edges, gl_terminal_states := terminals, gl_dynamic_policies := policies,
             gl_completion_behavior := completion\<rparr>) = Inr u"
    using assms
    unfolding GraphLoopDefinition_validate_def Let_def and_then_check_Inr and_then_eq_Inr map_ok_eq_Inr
      normalize_each_Inr
    by (elim exE conjE) (rule that, assumption+)
  show "graph_references g = Inr ()" using refs by (simp add: g)
  show "list_all (\<lambda>n. is_canonical_id (ln_node_id n)) (gl_nodes g)"
    using nodes by (auto simp: g list_all_iff dest!: in_set_conv_nth[THEN iffD1] list_all2_nthD2 loop_node_validate)
qed

lemma graph_referencesD:
  assumes "graph_references g = Inr ()"
  defines "ns \<equiv> set (map ln_node_id (gl_nodes g))" and "ts \<equiv> set (map gs_terminal_state_id (gl_terminal_states g))"
  shows "distinct (map ln_node_id (gl_nodes g))"
    "x \<in> set (gl_entry_nodes g) \<Longrightarrow> le_node_id x \<in> ns"
    "y \<in> set (gl_edges g) \<Longrightarrow> graph_edge_references ns ts y = Inr ()"
    "gl_dynamic_policies g = Some d \<Longrightarrow> r \<in> set (ly_resume_policies d) \<Longrightarrow> resume_policy_references ns r = Inr ()"
    "gl_dynamic_policies g = Some d \<Longrightarrow> h \<in> set (ly_threshold_policies d)
      \<Longrightarrow> threshold_policy_references ns ts h = Inr ()"
    "gl_completion_behavior g = Some b \<Longrightarrow> completion_references ns ts b = Inr ()"
  using assms(1) unfolding graph_references_def and_then_eq_Inr unique_ids_Inr check_simps ns_def ts_def
  by (auto simp: check_simps simp del: all_checks.simps)


lemma edge_references_iff:
  "graph_edge_references ns ts x = Inr () \<longleftrightarrow> lx_from_node_id x \<in> ns
     \<and> set_option (lx_to_node_id x) \<subseteq> ns \<and> set_option (lx_terminal_state_id x) \<subseteq> ts"
  by (auto simp: graph_edge_references_def check_simps simp del: all_checks.simps split: option.splits)

lemma resume_references_iff:
  "resume_policy_references ns p = Inr () \<longleftrightarrow> lr_source_node_id p \<in> ns \<and> lr_default_target_node_id p \<in> ns
     \<and> set (lr_disallowed_target_node_ids p) \<subseteq> ns"
  by (auto simp: resume_policy_references_def require_known_node_def check_simps simp del: all_checks.simps)

lemma threshold_references_iff:
  "threshold_policy_references ns ts p = Inr () \<longleftrightarrow> set (lh_source_node_ids p) \<subseteq> ns
     \<and> set_option (lh_exhausted_target_node_id p) \<subseteq> ns
     \<and> set_option (lh_exhausted_terminal_state_id p) \<subseteq> ts"
  by (auto simp: threshold_policy_references_def require_known_node_def require_known_terminal_state_def check_simps
      simp del: all_checks.simps split: option.splits)

lemma completion_references_iff:
  "completion_references ns ts b = Inr () \<longleftrightarrow> lb_target_node_id b \<in> ns
     \<and> lb_on_pass_terminal_state_id b \<in> ts \<and> lb_on_gap_terminal_state_id b \<in> ts"
  by (auto simp: completion_references_def require_known_node_def require_known_terminal_state_def check_simps
      simp del: all_checks.simps)

lemmas reference_iffs = edge_references_iff resume_references_iff threshold_references_iff completion_references_iff

text \<open>Materialised nodes carry the ids of the loop.\<close>

lemma materialize_nodes_Inr: "materialize_nodes f ns = Inr xs \<longleftrightarrow> list_all2 (\<lambda>n x. f n = Inr x) ns xs"
  by (induction ns arbitrary: xs) (auto simp: and_then_eq_Inr map_ok_eq_Inr list_all2_Cons1)

lemma materialization_contract_Inr: "materialization_contract a r = Inr x \<longleftrightarrow> r = Inr x"
  by (simp add: materialization_contract_def map_err_eq_Inr)

lemma materialized_node_plan:
  assumes "materialize_graph_node_plan e n p m config kinds = Inr x"
  shows "gn_node_id x = canon (ln_node_id n) \<and> node_grants_sound (ec_execution_capabilities config) x"
proof -
  obtain y k stage_name runner_name cx where "MaterializedGraphNodePlan_validate y = Inr x"
    "compile_execution_capability_context e n k stage_name m config runner_name = Inr cx"
    "gn_node_id y = ln_node_id n" "gn_execution_capability_grants y = cx_grants cx"
    using assms unfolding materialize_graph_node_plan_def Let_def and_then_eq_Inr materialization_contract_Inr
    by (elim exE conjE) (rule that, assumption, assumption, simp_all)
  then show ?thesis using capability_context_sound by (metis node_grants_sound_def node_validate)
qed

lemma compile_entries_ids:
  "compile_entries node_plan p xs = Inr es \<Longrightarrow> map ge_node_id es = map le_node_id xs"
  by (induction xs arbitrary: es) (auto simp: map_ok_eq_Inr split: option.splits)

lemma graph_plane_plan_ok:
  assumes "materialize_graph_plane_plan e g m config kinds = Inr fg" "GraphLoopDefinition_validate g0 = Inr g"
  shows "compiled_graph_ok config fg \<and> fg_plane fg = gl_plane g"
proof -
  note loop = loop_validated[OF assms(2)]
  note refs = graph_referencesD[OF loop(1)]
  obtain nodes entries completion_entry pre where
    nodes: "list_all2 (\<lambda>n x. materialize_graph_node_plan e n (gl_plane g) m config kinds = Inr x) (gl_nodes g) nodes"
    and entries: "compile_entries (materialized_node_by_id nodes) (gl_plane g) (gl_entry_nodes g) = Inr entries"
    and completion: "compile_graph_completion_entry g (materialized_node_by_id nodes) = Inr completion_entry"
    and valid: "FrozenGraphPlanePlan_validate pre = Inr fg"
    and pre: "pre =
       \<lparr>fg_loop_id = gl_loop_id g, fg_plane = gl_plane g, fg_nodes = nodes, fg_entry_nodes = gl_entry_nodes g,
        fg_transitions = gl_edges g, fg_compiled_entries = entries,
        fg_compiled_completion_entry = completion_entry,
        fg_compiled_transitions = compile_graph_transitions (gl_edges g),
        fg_compiled_resume_policies = (case gl_dynamic_policies g of None \<Rightarrow> []
          | Some ps \<Rightarrow> compile_graph_resume_policies (ly_resume_policies ps)),
        fg_compiled_threshold_policies = (case gl_dynamic_policies g of None \<Rightarrow> []
          | Some ps \<Rightarrow> compile_graph_threshold_policies (ly_threshold_policies ps) config),
        fg_terminal_states = gl_terminal_states g, fg_completion_behavior = gl_completion_behavior g,
        fg_execution_capability_summary = execution_capability_summary_from_nodes nodes\<rparr>"
    using assms(1)
    unfolding materialize_graph_plane_plan_def and_then_eq_Inr materialize_nodes_Inr materialization_contract_Inr
    by (elim exE conjE) (rule that, assumption+, rule refl)
  have "map gn_node_id nodes = map canon (map ln_node_id (gl_nodes g))"
    by (rule ids_image[OF nodes]) (rule conjunct1[OF materialized_node_plan])
  also have "\<dots> = map ln_node_id (gl_nodes g)"
    using loop(2) by (intro canon_node_ids) (simp add: list.pred_map comp_def)
  finally have ids: "graph_node_ids pre = map ln_node_id (gl_nodes g)" by (simp add: pre graph_node_ids_def)
  let ?ns = "set (map ln_node_id (gl_nodes g))"
  let ?ts = "set (map gs_terminal_state_id (gl_terminal_states g))"
  have "set (map ge_node_id entries) \<subseteq> ?ns"
    using refs(2) unfolding compile_entries_ids[OF entries] by auto
  then have entry: "ge_node_id ` set (fg_compiled_entries pre) \<subseteq> ?ns" by (simp add: pre)
  have transition: "transition_nodes t \<subseteq> ?ns \<and> set_option (gt_terminal_state_id t) \<subseteq> ?ts"
    if t: "t \<in> set (fg_compiled_transitions pre)" for t
  proof -
    obtain x where x: "x \<in> set (gl_edges g)" "t \<in> set (compile_edge x)"
      using t by (auto simp: pre compile_graph_transitions_def)
    have "gt_source_node_id t = lx_from_node_id x" "gt_target_node_id t = lx_to_node_id x"
        "gt_terminal_state_id t = lx_terminal_state_id x"
      using x(2) by (auto simp: compile_edge_def)
    then show ?thesis using refs(3)[OF x(1)] by (simp add: transition_nodes_def edge_references_iff)
  qed
  have resume: "resume_nodes p \<subseteq> ?ns" if p: "p \<in> set (fg_compiled_resume_policies pre)" for p
  proof -
    obtain d x where x: "gl_dynamic_policies g = Some d" "x \<in> set (ly_resume_policies d)"
        "p \<in> set (compile_graph_resume_policies [x])"
      using p by (cases "gl_dynamic_policies g") (auto simp: pre compile_graph_resume_policies_def)
    have "gr_source_node_id p = lr_source_node_id x" "gr_default_target_node_id p = lr_default_target_node_id x"
        "gr_disallowed_target_node_ids p = lr_disallowed_target_node_ids x"
      using x(3) by (auto simp: compile_graph_resume_policies_def)
    then show ?thesis using refs(4)[OF x(1,2)] by (simp add: resume_nodes_def resume_references_iff)
  qed
  have threshold: "threshold_nodes h \<subseteq> ?ns \<and> set_option (gh_exhausted_terminal_state_id h) \<subseteq> ?ts"
    if h: "h \<in> set (fg_compiled_threshold_policies pre)" for h
  proof -
    obtain d x where x: "gl_dynamic_policies g = Some d" "x \<in> set (ly_threshold_policies d)"
        "h \<in> set (compile_graph_threshold_policies [x] config)"
      using h by (cases "gl_dynamic_policies g") (auto simp: pre compile_graph_threshold_policies_def)
    have "gh_source_node_ids h = lh_source_node_ids x"
        "gh_exhausted_target_node_id h = lh_exhausted_target_node_id x"
        "gh_exhausted_terminal_state_id h = lh_exhausted_terminal_state_id x"
      using x(3) by (auto simp: compile_graph_threshold_policies_def)
    then show ?thesis using refs(5)[OF x(1,2)] by (simp add: threshold_nodes_def threshold_references_iff)
  qed
  have closing: "gc_node_id c \<in> ?ns \<and> completion_terminals c \<subseteq> ?ts"
    if "c \<in> set_option (fg_compiled_completion_entry pre)" for c
  proof (cases "gl_completion_behavior g")
    case (Some b)
    then have "gc_node_id c = lb_target_node_id b" "completion_terminals c
        = {lb_on_pass_terminal_state_id b, lb_on_gap_terminal_state_id b}"
      using that completion
      by (auto simp: pre compile_graph_completion_entry_def completion_terminals_def split: option.splits)
    then show ?thesis using refs(6)[OF Some] by (simp add: completion_references_iff)
  qed (use that completion in \<open>simp add: pre compile_graph_completion_entry_def\<close>)
  have "referenced_nodes pre \<subseteq> ?ns"
    unfolding referenced_nodes_def using entry closing
    by (intro Un_least UN_least conjunct1[OF transition] resume conjunct1[OF threshold]) auto
  moreover have "graph_terminal_ids pre = map gs_terminal_state_id (gl_terminal_states g)"
    by (simp add: pre graph_terminal_ids_def)
  moreover have "referenced_terminals pre \<subseteq> ?ts"
    unfolding referenced_terminals_def
    by (intro Un_least UN_least conjunct2[OF transition] conjunct2[OF threshold] conjunct2[OF closing])
  ultimately have "graph_closed pre" using refs(1) unfolding graph_closed_def ids by metis
  moreover have "thresholds_from (ec_recovery config) pre"
    by (auto simp: thresholds_from_def pre list_all_iff compile_graph_threshold_policies_def limit_of_counter_def
        resolved_threshold_for_policy_def split: option.splits)
  moreover have "grants_from (ec_execution_capabilities config) pre"
    using nodes unfolding grants_from_def pre
    by (auto simp: list_all_iff dest!: in_set_conv_nth[THEN iffD1] list_all2_nthD2 materialized_node_plan)
  ultimately have "compiled_graph_ok config pre"
    using loop(2) by (simp add: compiled_graph_ok_def ids list.pred_map comp_def)
  moreover have "fg_plane fg = fg_plane pre" by (rule frozen_graph_validateE[OF valid])
  ultimately show ?thesis using frozen_graph_ok[OF valid] by (simp add: pre)
qed


text \<open>Freezing the authority keeps the ids of the nodes.\<close>

lemma freeze_node_id:
  "freeze_node_authority g b lane_policy n = Inr x \<Longrightarrow> gn_node_id x = canon (gn_node_id n)
     \<and> gn_execution_capability_grants x = gn_execution_capability_grants n"
  by (auto simp: freeze_node_authority_def Let_def and_then_eq_Inr dest!: node_validate)

lemma graph_authority_ok:
  assumes "materialize_workflow_primitive_graph_authority g b lane_policy = Inr g1" "compiled_graph_ok c g"
  shows "compiled_graph_ok c g1 \<and> fg_plane g1 = fg_plane g"
proof -
  obtain nodes where nodes: "list_all2 (\<lambda>n x. freeze_node_authority g b lane_policy n = Inr x) (fg_nodes g) nodes"
    and valid: "FrozenGraphPlanePlan_validate (g\<lparr>fg_nodes := nodes\<rparr>) = Inr g1"
    using assms(1)
    unfolding materialize_workflow_primitive_graph_authority_def and_then_eq_Inr normalize_each_Inr by blast
  have canonical: "list_all is_canonical_id (graph_node_ids g)" using assms(2) by (simp add: compiled_graph_ok_def)
  have "map gn_node_id nodes = map canon (map gn_node_id (fg_nodes g))"
    by (rule ids_image[OF nodes]) (rule conjunct1[OF freeze_node_id])
  then have ids: "graph_node_ids (g\<lparr>fg_nodes := nodes\<rparr>) = graph_node_ids g"
    using canon_node_ids[OF canonical] by (simp add: graph_node_ids_def)
  have "grants_from (ec_execution_capabilities c) (g\<lparr>fg_nodes := nodes\<rparr>)"
    using assms(2) nodes unfolding grants_from_def compiled_graph_ok_def
    by (auto elim: nodes_grants dest: freeze_node_id)
  then have "compiled_graph_ok c (g\<lparr>fg_nodes := nodes\<rparr>)"
    using assms(2) unfolding compiled_graph_ok_def graph_closed_def ids
    by (simp add: referenced_nodes_def referenced_terminals_def graph_terminal_ids_def thresholds_from_def)
  moreover have "fg_plane g1 = fg_plane (g\<lparr>fg_nodes := nodes\<rparr>)" by (rule frozen_graph_validateE[OF valid])
  ultimately show ?thesis using frozen_graph_ok[OF valid] by simp
qed

definition loop_validated_asset :: "ResolvedGraphLoopAsset \<Rightarrow> bool" where
  "loop_validated_asset a \<longleftrightarrow> (\<exists>g0. GraphLoopDefinition_validate g0 = Inr (ag_graph_loop a))"

lemma graph_asset_ok:
  assumes "materialize_graph_asset e r a = Inr g" "loop_validated_asset a"
  shows "compiled_graph_ok (rc_config r) g \<and> fg_plane g = gl_plane (ag_graph_loop a)"
proof -
  obtain g0 where g0: "materialize_graph_plane_plan e (ag_graph_loop a) (rc_mode r) (rc_config r)
      (stage_kind_table (rc_stage_kinds r)) = Inr g0"
    "materialize_workflow_primitive_graph_authority g0
       (au_workflow_primitives (rc_workflow_primitive_authority r))
       (au_lane_policy (rc_workflow_primitive_authority r)) = Inr g"
    using assms(1) unfolding materialize_graph_asset_def and_then_eq_Inr materialization_contract_Inr by blast
  obtain l where "GraphLoopDefinition_validate l = Inr (ag_graph_loop a)"
    using assms(2) unfolding loop_validated_asset_def by blast
  note ok = graph_plane_plan_ok[OF g0(1) this]
  show ?thesis using graph_authority_ok[OF g0(2) conjunct1[OF ok]] ok by simp
qed

definition graphs_ok :: "EffectiveCompileConfig \<Rightarrow> (Plane \<times> FrozenGraphPlanePlan) list \<Rightarrow> bool" where
  "graphs_ok c graphs \<longleftrightarrow> (\<forall>p g. map_of graphs p = Some g \<longrightarrow> compiled_graph_ok c g)"

lemma materialize_graphs_ok:
  assumes "materialize_graphs e r loops graphs = Inr graphs1" "list_all loop_validated_asset loops"
    "graphs_ok (rc_config r) graphs"
  shows "graphs_ok (rc_config r) graphs1"
  using assms
proof (induction loops arbitrary: graphs)
  case (Cons a loops)
  then obtain g where g: "materialize_graph_asset e r a = Inr g"
    "materialize_graphs e r loops (AList.update (fg_plane g) g graphs) = Inr graphs1"
    by (auto simp: and_then_eq_Inr)
  have "compiled_graph_ok (rc_config r) g" using graph_asset_ok[OF g(1)] Cons.prems(2) by simp
  with Cons.prems(3) have "graphs_ok (rc_config r) (AList.update (fg_plane g) g graphs)"
    unfolding graphs_ok_def update_conv' by (metis fun_upd_apply option.inject)
  then show ?case using Cons.IH[OF g(2)] Cons.prems(2) by simp
qed simp

text \<open>The graphs of a materialised plan: the table and the graphs by name agree.\<close>

lemma validated_plan_graphs:
  assumes "CompiledRunPlan_validate p0 = Inr plan" "graph_for_plane plan p = Inr g"
  shows "map_of (plan_graphs_by_plane plan) p = Some g"
proof (rule validated_planE[OF assms(1)])
  assume "plan_graph_bindings plan = Inr ()"
  then show ?thesis
    using assms(2)
    by (cases p) (auto simp: plan_graph_bindings_def graph_for_plane_def invalid_state_def check_simps simp del: all_checks.simps
        split: option.splits)
qed


text \<open>Every graph loop that a compile resolves has been validated.\<close>

lemma load_contract_Inr:
  assumes "load_contract e from_json artifact path = Inr x"
  shows "\<exists>raw. from_json raw = Inr x"
  using assms by (auto simp: load_contract_def and_then_eq_Inr map_err_eq_Inr split: option.splits)

lemma resolved_loop_validated: "resolve_graph_loop e p loop_id = Inr a \<Longrightarrow> loop_validated_asset a"
  by (auto simp: resolve_graph_loop_def and_then_eq_Inr map_ok_eq_Inr loop_validated_asset_def
      graph_loop_from_json_str_def map_err_eq_Inr dest!: load_contract_Inr)

lemma resolved_loops_validated: "resolve_graph_loops e entries = Inr as \<Longrightarrow> list_all loop_validated_asset as"
  by (induction entries arbitrary: as) (auto simp: and_then_eq_Inr map_ok_eq_Inr dest!: resolved_loop_validated)

lemma resolved_assetsE:
  assumes "resolve_compile_assets e requested = Inr r"
  obtains "list_all loop_validated_asset (rc_graph_loops r)"
    "load_effective_compile_config e = Inr (rc_config r)"
    "load_workflow_primitive_authority e (rc_graph_loops r) = Inr (rc_workflow_primitive_authority r)"
proof -
  obtain config where config: "load_effective_compile_config e = Inr config"
    and r: "resolve_compile_assets_with_config e requested config = Inr r"
    using assms unfolding resolve_compile_assets_def and_then_eq_Inr by blast
  have "\<exists>entries. resolve_graph_loops e entries = Inr (rc_graph_loops r)" "rc_config r = config"
    "load_workflow_primitive_authority e (rc_graph_loops r) = Inr (rc_workflow_primitive_authority r)"
    using r unfolding resolve_compile_assets_with_config_def Let_def and_then_eq_Inr map_ok_eq_Inr
    by - (elim exE conjE, intro exI, simp, (elim exE conjE, simp)+)
  then show thesis using that config resolved_loops_validated by blast
qed

text \<open>What the validation of a plan keeps.\<close>

lemma validated_plan_kept:
  assumes "CompiledRunPlan_validate p = Inr plan"
  shows "plan_graphs_by_plane plan = plan_graphs_by_plane p" "plan_lane_policy plan = plan_lane_policy p"
    "plan_concurrency_policy plan = plan_concurrency_policy p"
  using assms unfolding CompiledRunPlan_validate_def Let_def and_then_eq_Inr map_ok_eq_Inr
  by - (elim exE conjE, simp)+

text \<open>The parts of a materialised plan.\<close>

lemma materialized_planE:
  assumes "materialize_compiled_run_plan e r compiled_at = Inr plan"
  obtains pre graphs where "CompiledRunPlan_validate pre = Inr plan"
    "materialize_graphs e r (rc_graph_loops r) [] = Inr graphs" "plan_graphs_by_plane plan = graphs"
    "plan_lane_policy plan = Some (au_lane_policy (rc_workflow_primitive_authority r))"
    "plan_concurrency_policy plan = mo_concurrency_policy (rc_mode r)"
proof -
  obtain graphs pre where pre: "CompiledRunPlan_validate pre = Inr plan"
    "materialize_graphs e r (rc_graph_loops r) [] = Inr graphs" "plan_graphs_by_plane pre = graphs"
    "plan_lane_policy pre = Some (au_lane_policy (rc_workflow_primitive_authority r))"
    "plan_concurrency_policy pre = mo_concurrency_policy (rc_mode r)"
    using assms unfolding materialize_compiled_run_plan_def Let_def and_then_eq_Inr materialization_contract_Inr
    by (elim exE conjE) (rule that, assumption, assumption, simp_all only: CompiledRunPlan.simps)
  then show thesis using that validated_plan_kept[OF pre(1)] by metis
qed

end
