(* ===== verification/Compiled_Lanes.thy ===== *)
theory Compiled_Lanes
  imports Graph_Closure
begin

text \<open>
  The lanes of a compiled plan: one lane \<^verbatim>\<open><plane>.main\<close> for every plane of the mode, which may run beside
  every other lane, so that the concurrency policy of the mode alone decides which planes run together.
\<close>

section \<open>The lane policy\<close>

lemma claim_policies_planes: "claim_policies_of claims ps = Inr pairs \<Longrightarrow> map fst pairs = ps"
  by (induction ps arbitrary: pairs) (auto simp: and_then_eq_Inr map_ok_eq_Inr)

lemma lane_policyE:
  assumes "build_lane_policy claims loops = Inr policy"
  obtains pairs where "map fst pairs = map ag_plane loops"
    "sp_lanes policy = map (\<lambda>(p, c). compiled_lane p c) pairs"
    "sp_lane_conflict_policies policy
      = map (\<lambda>(p, c). compiled_conflict_policy (map main_lane_id (map ag_plane loops)) p) pairs"
  using assms by (auto simp: build_lane_policy_def Let_def map_ok_eq_Inr dest: claim_policies_planes)

lemma main_lane_default: "main_lane_id p = default_lane_id_for_plane p"
  by (simp add: main_lane_id_def default_lane_id_for_plane_def)

lemma main_lane_inject: "main_lane_id p = main_lane_id q \<longleftrightarrow> p = q"
  by (cases p; cases q) (simp_all add: main_lane_id_def)

lemma lane_policy_lane:
  assumes "build_lane_policy claims loops = Inr policy" "List.find (\<lambda>lane. lp_plane lane = p) (sp_lanes policy) = Some lane"
  shows "lp_lane_id lane = main_lane_id p"
proof (rule lane_policyE[OF assms(1)])
  fix pairs assume "sp_lanes policy = map (\<lambda>(p, c). compiled_lane p c) pairs"
  then show ?thesis using find_SomeD[OF assms(2)] by (auto simp: compiled_lane_def)
qed

lemma lane_policy_allows_iff:
  assumes "build_lane_policy claims loops = Inr policy"
  shows "lane_policy_allows policy (main_lane_id p) (main_lane_id q)
    \<longleftrightarrow> p \<in> ag_plane ` set loops \<and> q \<in> ag_plane ` set loops"
proof (rule lane_policyE[OF assms])
  fix pairs
  assume pairs: "map fst pairs = map ag_plane loops"
    "sp_lane_conflict_policies policy
      = map (\<lambda>(p, c). compiled_conflict_policy (map main_lane_id (map ag_plane loops)) p) pairs"
  have "fst ` set pairs = ag_plane ` set loops" using arg_cong[OF pairs(1), of set] by simp
  moreover have "lane_policy_allows policy (main_lane_id p) (main_lane_id q)
      \<longleftrightarrow> p \<in> fst ` set pairs \<and> q \<in> ag_plane ` set loops"
    unfolding lane_policy_allows_def pairs(2) compiled_conflict_policy_def list_ex_iff
    by (auto simp: main_lane_inject case_prod_beta)
  ultimately show ?thesis by simp
qed

section \<open>Compiled plans\<close>

lemma resolve_graph_loops_planes: "resolve_graph_loops e entries = Inr loops \<Longrightarrow> map ag_plane loops = map fst entries"
  by (induction entries arbitrary: loops)
    (auto simp: and_then_eq_Inr map_ok_eq_Inr resolve_graph_loop_def)

lemma materialized_loop_ids:
  assumes "materialize_compiled_run_plan e r compiled_at = Inr plan"
  shows "plan_loop_ids_by_plane plan = mo_loop_ids_by_plane (rc_mode r)"
proof -
  obtain pre where "CompiledRunPlan_validate pre = Inr plan"
    "plan_loop_ids_by_plane pre = mo_loop_ids_by_plane (rc_mode r)"
    using assms unfolding materialize_compiled_run_plan_def Let_def and_then_eq_Inr materialization_contract_Inr
    by (elim exE conjE) (rule that, assumption, simp only: CompiledRunPlan.simps)
  then show ?thesis
    unfolding CompiledRunPlan_validate_def Let_def and_then_eq_Inr map_ok_eq_Inr by (elim exE conjE) simp
qed

lemma resolved_planes:
  assumes "resolve_compile_assets e requested = Inr r"
  shows "ag_plane ` set (rc_graph_loops r) = fst ` set (mo_loop_ids_by_plane (rc_mode r))"
proof -
  have "resolve_graph_loops e (sorted_plane_entries (mo_loop_ids_by_plane (rc_mode r))) = Inr (rc_graph_loops r)"
    using assms
    unfolding resolve_compile_assets_def resolve_compile_assets_with_config_def Let_def and_then_eq_Inr map_ok_eq_Inr
    by (elim exE conjE) simp
  from arg_cong[OF resolve_graph_loops_planes[OF this], of set] show ?thesis
    by (simp add: sorted_plane_entries_def)
qed

lemma authority_lane_policy:
  assumes "load_workflow_primitive_authority e loops = Inr authority"
  shows "\<exists>claims. build_lane_policy claims loops = Inr (au_lane_policy authority)"
  using assms unfolding load_workflow_primitive_authority_def and_then_eq_Inr Let_def split_paired_Ex prod.case
    map_ok_eq_Inr
  by (elim exE conjE) (rule exI, simp)

lemma compiled_planE:
  assumes "compile_compiled_run_plan e requested compiled_at = Inr plan"
  obtains pre claims policy loops where "CompiledRunPlan_validate pre = Inr plan"
    "build_lane_policy claims loops = Inr policy" "plan_lane_policy plan = Some policy"
    "ag_plane ` set loops = fst ` set (plan_loop_ids_by_plane plan)"
proof -
  obtain r where r: "resolve_compile_assets e requested = Inr r"
      "materialize_compiled_run_plan e r compiled_at = Inr plan"
    using assms unfolding compile_compiled_run_plan_def and_then_eq_Inr map_err_eq_Inr by blast
  obtain pre where pre: "CompiledRunPlan_validate pre = Inr plan"
      "plan_lane_policy plan = Some (au_lane_policy (rc_workflow_primitive_authority r))"
    by (rule materialized_planE[OF r(2)])
  have "load_workflow_primitive_authority e (rc_graph_loops r) = Inr (rc_workflow_primitive_authority r)"
    by (rule resolved_assetsE[OF r(1)])
  from authority_lane_policy[OF this] obtain claims where
    "build_lane_policy claims (rc_graph_loops r) = Inr (au_lane_policy (rc_workflow_primitive_authority r))" by blast
  then show thesis
    by (rule that[OF pre(1) _ pre(2)]) (simp add: resolved_planes[OF r(1)] materialized_loop_ids[OF r(2)])
qed

lemma compiled_lane_id:
  assumes "compile_compiled_run_plan e requested compiled_at = Inr plan"
  shows "lane_id_for_plane (Some plan) p = default_lane_id_for_plane p"
proof (rule compiled_planE[OF assms])
  fix claims policy loops
  assume "build_lane_policy claims loops = Inr policy" "plan_lane_policy plan = Some policy"
  then show ?thesis
    by (auto simp: lane_id_for_plane_def main_lane_default dest: lane_policy_lane split: option.splits)
qed

lemma compiled_lanes_distinct:
  assumes "compile_compiled_run_plan e requested compiled_at = Inr plan"
  shows "distinct (map (lane_id_for_plane (Some plan)) Plane_ALL)"
  using main_lane_inject by (simp add: compiled_lane_id[OF assms] distinct_map inj_on_def main_lane_default Plane_ALL_def)

lemma compiled_lanes_allowed:
  assumes "compile_compiled_run_plan e requested compiled_at = Inr plan"
  shows "lanes_allowed plan p q
    \<longleftrightarrow> p \<in> fst ` set (plan_loop_ids_by_plane plan) \<and> q \<in> fst ` set (plan_loop_ids_by_plane plan)"
proof (rule compiled_planE[OF assms])
  fix claims policy loops
  assume "build_lane_policy claims loops = Inr policy" "plan_lane_policy plan = Some policy"
    "ag_plane ` set loops = fst ` set (plan_loop_ids_by_plane plan)"
  then show ?thesis
    by (auto simp: lanes_allowed_def compiled_lane_id[OF assms] main_lane_default[symmetric]
        lane_policy_allows_iff)
qed

end
