(* ===== verification/Compile_Examples.thy ===== *)
theory Compile_Examples
  imports Compiled_Lanes
begin

text \<open>
  A small workspace that compiles: an execution graph with a builder and a planning graph with a planner. A file's contents stand for the document that the decoders of the example read.
\<close>

section \<open>The documents\<close>

definition tiny_mode_raw :: ModeDefinitionRaw where
  "tiny_mode_raw =
     \<lparr>mw_schema_version = ''1.0'', mw_kind = ''mode'', mw_mode_id = ''demo'',
      mw_loop_ids_by_plane = [(Plane.Execution, ''execution.demo''), (Plane.Planning, ''planning.demo'')],
      mw_execution_loop_id = None, mw_planning_loop_id = None, mw_stage_entrypoint_overrides = [],
      mw_stage_skill_additions = [], mw_stage_model_bindings = [], mw_stage_runner_bindings = [],
      mw_stage_thinking_bindings = [], mw_execution_capability_requests = [],
      mw_execution_capability_policies = [], mw_stage_execution_capability_requests = [],
      mw_stage_execution_capability_policy_overrides = [],
      mw_concurrency_policy = Some \<lparr>pc_mutually_exclusive_planes = [],
        pc_may_run_concurrently = [[Plane.Execution, Plane.Planning]]\<rparr>,
      mw_learning_trigger_rules = []\<rparr>"

definition tiny_loop_node :: "string \<Rightarrow> CapabilityRequest list \<Rightarrow> GraphLoopNodeDefinition" where
  "tiny_loop_node kind_id requests =
     \<lparr>ln_node_id = kind_id, ln_stage_kind_id = kind_id, ln_entrypoint_path = None,
      ln_attached_skill_additions = [], ln_runner_name = None, ln_model_name = None, ln_thinking_level = None,
      ln_timeout_seconds = None, ln_execution_capability_requests = requests,
      ln_execution_capability_policies = [], ln_execution_capability_policy_overrides = []\<rparr>"

definition tiny_loop_edge :: "string \<Rightarrow> string \<Rightarrow> string \<Rightarrow> string + string \<Rightarrow> GraphLoopEdgeDefinition" where
  "tiny_loop_edge edge_id source oc target =
     \<lparr>lx_edge_id = edge_id, lx_from_node_id = source,
      lx_to_node_id = (case target of Inl n \<Rightarrow> Some n | Inr _ \<Rightarrow> None),
      lx_terminal_state_id = (case target of Inl _ \<Rightarrow> None | Inr t \<Rightarrow> Some t), lx_on_outcomes = [oc],
      lx_kind = (case target of Inl _ \<Rightarrow> LoopEdgeKind.Normal | Inr _ \<Rightarrow> LoopEdgeKind.Terminal), lx_priority = 0,
      lx_description = None, lx_max_attempts = None\<rparr>"

definition tiny_terminal :: "string \<Rightarrow> GraphLoopTerminalClass \<Rightarrow> GraphLoopTerminalStateDefinition" where
  "tiny_terminal i c = \<lparr>gs_terminal_state_id = i, gs_terminal_class = c, gs_writes_status = ''COMPLETE'',
     gs_emits_artifacts = [], gs_ends_plane_run = True\<rparr>"

definition git_request :: CapabilityRequest where
  "git_request = \<lparr>kr_request_id = ''git'', kr_capability_id = ''git.mutate'', kr_access = ''mutate'',
     kr_scope = \<lparr>ks_kind = ''git_action'', ks_value = ''commit'', ks_metadata = []\<rparr>, kr_required = True,
     kr_requires_enforcement = False, kr_reason = ''commit the work'', kr_requested_by = ''stage'',
     kr_policy_source = None\<rparr>"

definition tiny_execution_loop :: GraphLoopDefinition where
  "tiny_execution_loop =
     \<lparr>gl_schema_version = ''1.0'', gl_kind = ''graph_loop'', gl_loop_id = ''execution.demo'',
      gl_plane = Plane.Execution,
      gl_nodes = [tiny_loop_node ''builder'' [git_request]],
      gl_edges =
        [tiny_loop_edge ''built'' ''builder'' ''BUILDER_COMPLETE'' (Inr ''done''),
         tiny_loop_edge ''again'' ''builder'' ''BLOCKED'' (Inl ''builder'')],
      gl_entry_nodes = [\<lparr>le_entry_key = TaskEntry, le_node_id = ''builder''\<rparr>],
      gl_terminal_states = [tiny_terminal ''done'' SuccessTerminal, tiny_terminal ''blocked'' BlockedTerminal],
      gl_dynamic_policies = Some \<lparr>ly_resume_policies = [], ly_threshold_policies =
        [\<lparr>lh_policy_id = ''too_often'', lh_source_node_ids = [''builder''], lh_on_outcome = ''BLOCKED'',
          lh_counter_name = TroubleshootAttemptCount, lh_threshold = 7, lh_exhausted_target_node_id = None,
          lh_exhausted_terminal_state_id = Some ''blocked''\<rparr>]\<rparr>,
      gl_completion_behavior = None\<rparr>"

definition tiny_planning_loop :: GraphLoopDefinition where
  "tiny_planning_loop =
     \<lparr>gl_schema_version = ''1.0'', gl_kind = ''graph_loop'', gl_loop_id = ''planning.demo'',
      gl_plane = Plane.Planning, gl_nodes = [tiny_loop_node ''planner'' []],
      gl_edges = [tiny_loop_edge ''planned'' ''planner'' ''PLANNER_COMPLETE'' (Inr ''done'')],
      gl_entry_nodes = [\<lparr>le_entry_key = SpecEntry, le_node_id = ''planner''\<rparr>],
      gl_terminal_states = [tiny_terminal ''done'' SuccessTerminal],
      gl_dynamic_policies = None, gl_completion_behavior = None\<rparr>"

definition tiny_stage_kind :: "Plane \<Rightarrow> string \<Rightarrow> string \<Rightarrow> RegisteredStageKindDefinition" where
  "tiny_stage_kind p kind_id oc =
     \<lparr>sk_schema_version = ''1.0'', sk_kind = ''registered_stage_kind'', sk_stage_kind_id = kind_id, sk_plane = p,
      sk_display_name = kind_id, sk_default_entrypoint_path = ''entrypoints/stage.md'',
      sk_required_skill_paths = [''skills/core.md''], sk_suggested_skill_paths = [],
      sk_running_status_marker = ''RUNNING'', sk_legal_outcomes = [oc, ''BLOCKED''],
      sk_success_outcomes = [oc], sk_failure_outcomes = [''BLOCKED''],
      sk_allowed_result_classes_by_outcome =
        [(oc, [ResultClass.Success]), (''BLOCKED'', [ResultClass.Blocked])],
      sk_allowed_input_artifacts = [], sk_declared_output_artifacts = [], sk_allowed_work_item_families = [],
      sk_execution_capability_requests = [], sk_execution_capability_policy_overrides = [],
      sk_idempotence_policy = IdempotentStage, sk_allowed_overrides = [], sk_can_start_tasks = False,
      sk_can_start_specs = False, sk_can_start_incidents = False, sk_can_start_learning_requests = False,
      sk_recovery_role = None, sk_closure_role = False\<rparr>"

definition tiny_claim_policy :: "Plane \<Rightarrow> string \<Rightarrow> PlaneQueueClaimPolicyDefinition" where
  "tiny_claim_policy p family =
     \<lparr>cp_schema_version = ''1.0'', cp_kind = ''plane_queue_claim_policy'', cp_policy_id = Plane_as_str p @ ''.claims'',
      cp_plane = p, cp_family_order = [family], cp_closure_lineage_policy = ''none'', cp_empty_behavior = ''idle''\<rparr>"

definition tiny_action :: "string \<Rightarrow> TerminalActionDefinition" where
  "tiny_action c =
     \<lparr>ta_schema_version = ''1.0'', ta_kind = ''terminal_action'', ta_terminal_action_id = ''end.'' @ c,
      ta_terminal_class = c, ta_lifecycle_mutation_plan_id = None, ta_effect_rule_ids = [],
      ta_status_marker = None, ta_operator_summary_template = None, ta_non_mutating = True\<rparr>"

definition tiny_family :: "string \<Rightarrow> WorkItemFamilyDefinition" where
  "tiny_family i =
     \<lparr>wf_schema_version = ''1.0'', wf_kind = ''work_item_family'', wf_family_id = i, wf_plane = Plane.Execution,
      wf_entry_key = i, wf_display_name = i, wf_document_kind = i, wf_runtime_relative_dir = i,
      wf_file_extension = ''.md'', wf_schema_id = i, wf_document_adapter_id = ''markdown'',
      wf_queue_dirs = \<lparr>qd_queue = ''queue'', qd_active = ''active'', qd_done = ''done'', qd_blocked = ''blocked'',
        qd_canceled = None, qd_superseded = None\<rparr>,
      wf_lifecycle_states = [''queue'', ''active'', ''done'', ''blocked''], wf_claimable_state = ''queue'',
      wf_active_state = ''active'', wf_done_state = ''done'', wf_blocked_state = ''blocked'',
      wf_canceled_state = None, wf_closure_blocking_states = [], wf_default_entry_key = None,
      wf_id_field = None, wf_created_at_field = ''created_at'', wf_lineage_fields = [],
      wf_dependency_field = None, wf_one_active_policy = ''one'', wf_duplicate_policy = ''reject'',
      wf_invalid_artifact_policy = ''quarantine'', wf_sort_policy = ''created_at'',
      wf_operator_capabilities = []\<rparr>"

definition tiny_adapter :: "string \<Rightarrow> WorkItemDocumentAdapterDefinition" where
  "tiny_adapter i =
     \<lparr>wd_schema_version = ''1.0'', wd_kind = ''work_item_document_adapter'', wd_adapter_id = i, wd_schema_id = i,
      wd_supported_file_extensions = [''.md''],
      wd_family_ids = [''blueprint_draft'', ''incident'', ''learning_request'', ''probe'', ''spec'', ''task''],
      wd_can_parse = True, wd_can_render = True, wd_can_summarize = True, wd_supports_dependencies = True,
      wd_supports_lineage = True\<rparr>"

definition tiny_epoch :: WorkspaceSchemaEpochDefinition where
  "tiny_epoch =
     \<lparr>we_schema_version = ''1.0'', we_kind = ''workspace_schema_epoch'', we_epoch_id = ''v0.20'',
      we_minimum_supported_epoch_id = ''v0.20'', we_archive_required_from_epoch_ids = [],
      we_reset_command = ''millrace reset'', we_compatibility_notes = []\<rparr>"

section \<open>The workspace\<close>

definition tiny_paths :: "string list" where
  "tiny_paths =
     [''entrypoints/stage.md'', ''graphs/execution/demo.json'', ''graphs/planning/demo.json'', ''modes/demo.json'',
      ARTIFACT_CONTRACTS_PATH, BLUEPRINT_DOCUMENT_ADAPTER_PATH, BUILTIN_DOCUMENT_ADAPTER_PATH,
      LIFECYCLE_MUTATION_PLANS_PATH, QUEUE_CLAIM_POLICIES_PATH, RECOVERY_POLICIES_PATH,
      REQUEST_CONTEXT_PROFILES_PATH, RUNTIME_EFFECT_HANDLERS_PATH, BLUEPRINT_EFFECT_RULES_PATH,
      PLANNER_EFFECT_RULES_PATH, RUNTIME_FAILURE_POLICIES_PATH,
      ''registry/stage_kinds/execution/builder.json'',
      ''registry/stage_kinds/planning/planner.json'', TERMINAL_ACTIONS_PATH] @ WORK_ITEM_FAMILY_PATHS
     @ [WORKSPACE_SCHEMA_EPOCH_PATH, ''skills/core.md'']"

definition tiny_env :: compile_env where
  "tiny_env =
     \<lparr>ce_runtime_root = ''/work/.millrace'', ce_files = map (\<lambda>p. (p, p)) tiny_paths,
      ce_config_path = ''/work/.millrace/millrace.toml'', ce_config_contents = None,
      ce_read_error = ''not found'', ce_sha256 = (\<lambda>_. replicate 64 (CHR ''0'')),
      ce_parse_toml = (\<lambda>_. Inl ''no configuration''), ce_string_field = (\<lambda>_ _. None),
      ce_decode_mode = (\<lambda>_. Inr tiny_mode_raw),
      ce_decode_graph_loop = (\<lambda>raw. Inr (if raw = ''graphs/execution/demo.json'' then tiny_execution_loop
        else tiny_planning_loop)),
      ce_decode_stage_kind = (\<lambda>raw. Inr (if raw = ''registry/stage_kinds/execution/builder.json''
         then tiny_stage_kind Plane.Execution ''builder'' ''BUILDER_COMPLETE''
         else tiny_stage_kind Plane.Planning ''planner'' ''PLANNER_COMPLETE'')),
      ce_artifact_contracts = (\<lambda>_. Inr (Some [])),
      ce_document_adapter = (\<lambda>raw.
         Inr (Inr (tiny_adapter (if raw = BUILTIN_DOCUMENT_ADAPTER_PATH then ''markdown'' else ''drafts'')))),
      ce_lifecycle_mutation_plans = (\<lambda>_. Inr (Some [])),
      ce_queue_claim_policies = (\<lambda>_. Inr (Some [Inr (tiny_claim_policy Plane.Execution ''task''),
        Inr (tiny_claim_policy Plane.Planning ''spec'')])),
      ce_request_context_profiles = (\<lambda>_. Inr (Some [])), ce_runtime_effect_handlers = (\<lambda>_. Inr (Some [])),
      ce_runtime_effect_rules = (\<lambda>_. Inr (Some [])), ce_runtime_failure_policies = (\<lambda>_. Inr (Some [])),
      ce_terminal_actions = (\<lambda>_. Inr (Some [Inr (tiny_action ''success''), Inr (tiny_action ''blocked'')])),
      ce_recovery_policies = (\<lambda>_. Inr (Some [])), ce_workspace_schema_epoch = (\<lambda>_. Inr (Inr tiny_epoch)),
      ce_work_item_family = (\<lambda>raw. Inr (Inr (tiny_family (path_file_stem raw)))),
      ce_config_json = (\<lambda>_. ''{}''), ce_grant_json = (\<lambda>_. ''{}''), ce_policy_json = (\<lambda>_ _ _ _. ''{}''),
      ce_plan_json = (\<lambda>_ _ _ _ _. ''{}'')\<rparr>"

section \<open>Evaluation\<close>

text \<open>The environment stays folded: the fields are read by these equations.\<close>

lemma tiny_fields:
  "ce_config_contents tiny_env = None" "ce_sha256 tiny_env = (\<lambda>_. replicate 64 (CHR ''0''))"
  "ce_decode_mode tiny_env raw = Inr tiny_mode_raw"
  "ce_decode_graph_loop tiny_env raw
     = Inr (if raw = ''graphs/execution/demo.json'' then tiny_execution_loop else tiny_planning_loop)"
  "ce_decode_stage_kind tiny_env raw = Inr (if raw = ''registry/stage_kinds/execution/builder.json''
         then tiny_stage_kind Plane.Execution ''builder'' ''BUILDER_COMPLETE''
         else tiny_stage_kind Plane.Planning ''planner'' ''PLANNER_COMPLETE'')"
  "ce_document_adapter tiny_env raw
     = Inr (Inr (tiny_adapter (if raw = BUILTIN_DOCUMENT_ADAPTER_PATH then ''markdown'' else ''drafts'')))"
  "ce_artifact_contracts tiny_env raw = Inr (Some [])" "ce_lifecycle_mutation_plans tiny_env raw = Inr (Some [])"
  "ce_queue_claim_policies tiny_env raw = Inr (Some [Inr (tiny_claim_policy Plane.Execution ''task''),
        Inr (tiny_claim_policy Plane.Planning ''spec'')])"
  "ce_request_context_profiles tiny_env raw = Inr (Some [])" "ce_runtime_effect_handlers tiny_env raw = Inr (Some [])"
  "ce_runtime_effect_rules tiny_env raw = Inr (Some [])" "ce_runtime_failure_policies tiny_env raw = Inr (Some [])"
  "ce_terminal_actions tiny_env raw = Inr (Some [Inr (tiny_action ''success''), Inr (tiny_action ''blocked'')])"
  "ce_recovery_policies tiny_env raw = Inr (Some [])" "ce_workspace_schema_epoch tiny_env raw = Inr (Inr tiny_epoch)"
  "ce_work_item_family tiny_env raw = Inr (Inr (tiny_family (path_file_stem raw)))"
  "map_of (ce_files tiny_env) path = (if path \<in> set tiny_paths then Some path else None)"
  by (simp_all add: tiny_env_def map_of_map_restrict restrict_map_def)

definition tiny_mode :: ModeDefinition where
  "tiny_mode =
     \<lparr>mo_schema_version = ''1.0'', mo_kind = ''mode'', mo_mode_id = ''demo'',
      mo_loop_ids_by_plane = [(Plane.Execution, ''execution.demo''), (Plane.Planning, ''planning.demo'')],
      mo_stage_entrypoint_overrides = [], mo_stage_skill_additions = [], mo_stage_model_bindings = [],
      mo_stage_runner_bindings = [], mo_stage_thinking_bindings = [], mo_execution_capability_requests = [],
      mo_execution_capability_policies = [], mo_stage_execution_capability_requests = [],
      mo_stage_execution_capability_policy_overrides = [],
      mo_concurrency_policy = Some \<lparr>pc_mutually_exclusive_planes = [],
        pc_may_run_concurrently = [[Plane.Execution, Plane.Planning]]\<rparr>,
      mo_learning_trigger_rules = []\<rparr>"

lemma tiny_documents_valid:
  "try_into_mode_definition tiny_mode_raw = Inr tiny_mode" "ModeDefinition_validate tiny_mode = Inr tiny_mode"
  "GraphLoopDefinition_validate tiny_execution_loop = Inr tiny_execution_loop"
  "GraphLoopDefinition_validate tiny_planning_loop = Inr tiny_planning_loop"
  "RegisteredStageKindDefinition_validate (tiny_stage_kind Plane.Execution ''builder'' ''BUILDER_COMPLETE'')
     = Inr (tiny_stage_kind Plane.Execution ''builder'' ''BUILDER_COMPLETE'')"
  "RegisteredStageKindDefinition_validate (tiny_stage_kind Plane.Planning ''planner'' ''PLANNER_COMPLETE'')
     = Inr (tiny_stage_kind Plane.Planning ''planner'' ''PLANNER_COMPLETE'')"
  "PlaneQueueClaimPolicyDefinition_validate (tiny_claim_policy Plane.Execution ''task'') = Inr ()"
  "PlaneQueueClaimPolicyDefinition_validate (tiny_claim_policy Plane.Planning ''spec'') = Inr ()"
  "TerminalActionDefinition_validate (tiny_action ''success'') = Inr ()"
  "TerminalActionDefinition_validate (tiny_action ''blocked'') = Inr ()"
  "WorkItemDocumentAdapterDefinition_validate (tiny_adapter ''markdown'') = Inr ()"
  "WorkItemDocumentAdapterDefinition_validate (tiny_adapter ''drafts'') = Inr ()"
  "WorkspaceSchemaEpochDefinition_validate tiny_epoch = Inr ()"
  "list_all (\<lambda>path. WorkItemFamilyDefinition_validate (tiny_family (path_file_stem path)) = Inr ())
     WORK_ITEM_FAMILY_PATHS"
  by code_simp+

section \<open>Loading the primitives\<close>

definition tiny_load :: "string \<Rightarrow> string \<Rightarrow> loaded_assets \<Rightarrow> loaded_assets" where
  "tiny_load collection_id path l = (case load_text tiny_env path collection_id l of
     Inr (contents, l1) \<Rightarrow> l1 | Inl _ \<Rightarrow> l)"

lemma tiny_load_text:
  "path \<in> set tiny_paths \<Longrightarrow> load_text tiny_env path collection_id l = Inr (path, tiny_load collection_id path l)"
  by (simp add: tiny_load_def load_text_def tiny_fields Let_def)

lemma tiny_load_json:
  "path \<in> set tiny_paths \<Longrightarrow> load_json_value tiny_env parse path collection_id l
     = (case parse path of
          Inl message \<Rightarrow> Inl (AssetContract (runtime_path tiny_env path) ''workflow_primitive'' message)
        | Inr v \<Rightarrow> Inr (v, tiny_load collection_id path l))"
  by (simp add: load_json_value_def and_load_def tiny_load_text)

lemma tiny_loads:
  assumes "path \<in> set tiny_paths"
  shows "decode path = Inr (Some ds) \<Longrightarrow> load_definitions tiny_env path artifact contract ds = Inr xs
      \<Longrightarrow> load_collection tiny_env decode artifact contract path c l = Inr (xs, tiny_load c path l)"
    "parse path = Inr (Inr d) \<Longrightarrow> contract' d = Inr ()
      \<Longrightarrow> load_single_definition tiny_env parse artifact contract' path c l = Inr (d, tiny_load c path l)"
    "parse path = Inr (Inr d) \<Longrightarrow> contract' d = Inr ()
      \<Longrightarrow> load_single tiny_env parse artifact contract' path c l = Inr ([d], tiny_load c path l)"
  using assms
  by (simp_all add: load_collection_def load_single_def load_single_definition_def load_definition_def and_load_def
      tiny_load_json)

definition tiny_bundle :: CompiledWorkflowPrimitiveBundle where
  "tiny_bundle =
     \<lparr>bu_artifact_contracts = [], bu_request_context_profiles = [],
      bu_work_item_families = map (\<lambda>path. tiny_family (path_file_stem path)) WORK_ITEM_FAMILY_PATHS,
      bu_document_adapters = [tiny_adapter ''markdown'', tiny_adapter ''drafts''],
      bu_queue_claim_policies = [tiny_claim_policy Plane.Execution ''task'', tiny_claim_policy Plane.Planning ''spec''],
      bu_terminal_actions = [tiny_action ''success'', tiny_action ''blocked''], bu_lifecycle_mutation_plans = [],
      bu_runtime_effect_handlers = [], bu_runtime_effect_rules = [], bu_recovery_policies = [],
      bu_runtime_failure_policies = [], bu_workspace_schema_epoch = Some tiny_epoch\<rparr>"

definition tiny_loaded :: loaded_assets where
  "tiny_loaded =
     fold (\<lambda>(c, path). tiny_load c path)
       ([(''artifact_contracts'', ARTIFACT_CONTRACTS_PATH), (''document_adapters'', BUILTIN_DOCUMENT_ADAPTER_PATH),
         (''document_adapters'', BLUEPRINT_DOCUMENT_ADAPTER_PATH),
         (''lifecycle_mutation_plans'', LIFECYCLE_MUTATION_PLANS_PATH),
         (''queue_claim_policies'', QUEUE_CLAIM_POLICIES_PATH),
         (''request_context_profiles'', REQUEST_CONTEXT_PROFILES_PATH),
         (''runtime_effect_handlers'', RUNTIME_EFFECT_HANDLERS_PATH),
         (''runtime_effect_rules'', PLANNER_EFFECT_RULES_PATH), (''runtime_effect_rules'', BLUEPRINT_EFFECT_RULES_PATH),
         (''runtime_failure_policies'', RUNTIME_FAILURE_POLICIES_PATH), (''terminal_actions'', TERMINAL_ACTIONS_PATH),
         (''recovery_policies'', RECOVERY_POLICIES_PATH), (''workspace_schema_epoch'', WORKSPACE_SCHEMA_EPOCH_PATH)]
        @ map (Pair ''work_item_families'') WORK_ITEM_FAMILY_PATHS)
     \<lparr>lo_resolved_assets = [], lo_fingerprints = []\<rparr>"

lemma tiny_family_load:
  assumes "path \<in> set WORK_ITEM_FAMILY_PATHS"
  shows "load_single tiny_env (ce_work_item_family tiny_env) ''work_item_family'' WorkItemFamilyDefinition_validate
       path ''work_item_families'' l
     = Inr ([tiny_family (path_file_stem path)], tiny_load ''work_item_families'' path l)"
  using assms tiny_documents_valid(14)
  by (intro tiny_loads(3)) (auto simp: tiny_paths_def tiny_fields list_all_iff)

lemma tiny_families_load:
  "set paths \<subseteq> set WORK_ITEM_FAMILY_PATHS \<Longrightarrow> load_families tiny_env paths l
     = Inr (map (\<lambda>path. tiny_family (path_file_stem path)) paths, fold (tiny_load ''work_item_families'') paths l)"
  by (induction paths arbitrary: l) (simp_all add: and_load_def tiny_family_load)

lemma tiny_primitives_load:
  "load_all_workflow_primitives tiny_env \<lparr>lo_resolved_assets = [], lo_fingerprints = []\<rparr>
     = Inr (tiny_bundle, tiny_loaded)"
proof -
  have paths: "set [ARTIFACT_CONTRACTS_PATH, BLUEPRINT_DOCUMENT_ADAPTER_PATH, BUILTIN_DOCUMENT_ADAPTER_PATH,
      LIFECYCLE_MUTATION_PLANS_PATH, QUEUE_CLAIM_POLICIES_PATH, RECOVERY_POLICIES_PATH,
      REQUEST_CONTEXT_PROFILES_PATH, RUNTIME_EFFECT_HANDLERS_PATH, BLUEPRINT_EFFECT_RULES_PATH,
      PLANNER_EFFECT_RULES_PATH, RUNTIME_FAILURE_POLICIES_PATH, TERMINAL_ACTIONS_PATH,
      WORKSPACE_SCHEMA_EPOCH_PATH] \<subseteq> set tiny_paths" by (simp add: tiny_paths_def)
  have drafts: "BLUEPRINT_DOCUMENT_ADAPTER_PATH \<noteq> BUILTIN_DOCUMENT_ADAPTER_PATH" by code_simp
  show ?thesis
    using paths drafts tiny_documents_valid
    by (simp add: load_all_workflow_primitives_def and_load_def tiny_loads tiny_fields load_definition_def
        tiny_families_load tiny_bundle_def tiny_loaded_def fold_map comp_def)
qed

text \<open>What the loads accumulate.\<close>

definition tiny_loads_ok :: "loaded_assets \<Rightarrow> bool" where
  "tiny_loads_ok l \<longleftrightarrow>
     list_all (\<lambda>r. ra_asset_family r = ''workflow_primitive'' \<and> trim (ra_logical_id r) \<noteq> []
        \<and> ra_compile_time_path r \<in> set tiny_paths \<and> ra_content_sha256 r = replicate 64 (CHR ''0''))
       (lo_resolved_assets l)
     \<and> list_all (\<lambda>(k, v). trim k \<noteq> [] \<and> trim v \<noteq> []) (lo_fingerprints l)"

lemma set_update_subset: "set (AList.update k v m) \<subseteq> insert (k, v) (set m)"
  by (induction m) auto

lemma all_btree_insert: "P (k, v) \<Longrightarrow> list_all P m \<Longrightarrow> list_all P (btree_insert k v m)"
  using set_update_subset[of k v m] by (auto simp: btree_insert_def list_all_iff)

lemma tiny_sha: "sha256_hex tiny_env s = replicate 64 (CHR ''0'')" "trim (replicate 64 (CHR ''0'')) \<noteq> []"
  by (simp_all add: sha256_hex_def hex_prefix_def tiny_fields min_def trim_graphic ascii_graphic_def list_all_iff)

lemma tiny_load_ok:
  assumes "tiny_loads_ok l" "trim c \<noteq> []" "path \<in> set tiny_paths"
  shows "tiny_loads_ok (tiny_load c path l)"
proof -
  let ?x = "replicate 64 (CHR ''0'')" and ?k = "c @ ''.'' @ primitive_asset_id path"
  let ?i = "''workflow_primitive:'' @ c @ '':'' @ primitive_asset_id path"
  have "trim ?k \<noteq> []" by (rule trim_not_blank[of "CHR ''.''"]) (simp_all add: ascii_graphic_def)
  moreover have "trim ?i \<noteq> []" by (rule trim_not_blank[of "CHR '':''"]) (simp_all add: ascii_graphic_def)
  moreover have "lo_fingerprints (tiny_load c path l) = btree_insert c ?x (btree_insert ?k ?x (lo_fingerprints l))"
    "lo_resolved_assets (tiny_load c path l) = lo_resolved_assets l
       @ [\<lparr>ra_asset_family = ''workflow_primitive'', ra_logical_id = ?i, ra_compile_time_path = path,
           ra_content_sha256 = ?x\<rparr>]"
    using assms(3) by (simp_all add: tiny_load_def load_text_def tiny_fields tiny_sha Let_def split: option.splits)
  ultimately show ?thesis
    using assms tiny_sha(2) unfolding tiny_loads_ok_def by (simp add: all_btree_insert del: replicate.simps append_Cons)
qed

lemma tiny_loaded_ok: "tiny_loads_ok tiny_loaded"
proof -
  have fold_ok: "tiny_loads_ok (fold (\<lambda>(c, path). tiny_load c path) entries l)"
    if "tiny_loads_ok l" "list_all (\<lambda>(c, path). trim c \<noteq> [] \<and> path \<in> set tiny_paths) entries" for entries l
    using that by (induction entries arbitrary: l) (auto simp: tiny_load_ok)
  show ?thesis unfolding tiny_loaded_def
    by (rule fold_ok) (simp add: tiny_loads_ok_def, code_simp)
qed

definition tiny_loops :: "ResolvedGraphLoopAsset list" where
  "tiny_loops =
     [\<lparr>ag_plane = Plane.Execution, ag_relative_path = ''graphs/execution/demo.json'',
       ag_graph_loop = tiny_execution_loop\<rparr>,
      \<lparr>ag_plane = Plane.Planning, ag_relative_path = ''graphs/planning/demo.json'',
       ag_graph_loop = tiny_planning_loop\<rparr>]"

definition tiny_lanes :: WorkflowPlaneSchedulerPolicyDefinition where
  "tiny_lanes = projr (build_lane_policy (bu_queue_claim_policies tiny_bundle) tiny_loops)"

lemma tiny_lanes: "build_lane_policy (bu_queue_claim_policies tiny_bundle) tiny_loops = Inr tiny_lanes"
  by (simp add: tiny_lanes_def build_lane_policy_def claim_policy_of_def tiny_bundle_def tiny_loops_def
      tiny_claim_policy_def)

lemma tiny_selected: "select_workflow_primitives tiny_bundle tiny_loops = tiny_bundle"
  by (simp add: select_workflow_primitives_def tiny_bundle_def tiny_loops_def tiny_claim_policy_def Let_def)

lemma tiny_authority_valid:
  "validate_workflow_primitive_authority e tiny_bundle tiny_lanes tiny_loops = Inr ()"
  by code_simp

definition tiny_authority :: CompiledWorkflowPrimitiveAuthority where
  "tiny_authority = \<lparr>au_workflow_primitives = tiny_bundle,
     au_workflow_primitive_fingerprints = lo_fingerprints tiny_loaded, au_lane_policy = tiny_lanes,
     au_resolved_assets = lo_resolved_assets tiny_loaded\<rparr>"

lemma tiny_authority: "load_workflow_primitive_authority tiny_env tiny_loops = Inr tiny_authority"
  by (simp add: load_workflow_primitive_authority_def tiny_primitives_load tiny_selected tiny_lanes
      tiny_authority_valid tiny_authority_def)

section \<open>Resolving the assets\<close>

definition tiny_kinds :: "ResolvedStageKindAsset list" where
  "tiny_kinds =
     [\<lparr>ak_stage_kind_id = ''builder'', ak_relative_path = ''registry/stage_kinds/execution/builder.json'',
       ak_definition = tiny_stage_kind Plane.Execution ''builder'' ''BUILDER_COMPLETE''\<rparr>,
      \<lparr>ak_stage_kind_id = ''planner'', ak_relative_path = ''registry/stage_kinds/planning/planner.json'',
       ak_definition = tiny_stage_kind Plane.Planning ''planner'' ''PLANNER_COMPLETE''\<rparr>]"

lemma tiny_paths_normal: "list_all (\<lambda>p. normalize_asset_path p = Inr p) tiny_paths"
  by code_simp

lemma tiny_path_normal: "p \<in> set tiny_paths \<Longrightarrow> normalize_asset_path p = Inr p"
  using tiny_paths_normal by (simp add: list_all_iff)

lemma tiny_members:
  "''modes/demo.json'' \<in> set tiny_paths" "''graphs/execution/demo.json'' \<in> set tiny_paths"
  "''graphs/planning/demo.json'' \<in> set tiny_paths"
  "''registry/stage_kinds/execution/builder.json'' \<in> set tiny_paths"
  "''registry/stage_kinds/planning/planner.json'' \<in> set tiny_paths"
  "''entrypoints/stage.md'' \<in> set tiny_paths" "''skills/core.md'' \<in> set tiny_paths"
  by (simp_all add: tiny_paths_def)

lemma tiny_config: "load_effective_compile_config tiny_env = Inr EffectiveCompileConfig_default"
  by (simp add: load_effective_compile_config_def load_effective_compile_config_from_path_def tiny_fields)

lemma tiny_mode_id: "resolve_mode_id (Some ''demo'') EffectiveCompileConfig_default = ''demo''"
  by code_simp

lemma tiny_mode_path: "resolve_mode_asset_path tiny_env ''demo'' = Inr ''modes/demo.json''"
  using tiny_members(1) by (simp add: resolve_mode_asset_path_def asset_is_file_def tiny_fields)

lemma tiny_mode_loads: "load_contract tiny_env (mode_from_json_str tiny_env) ''mode'' ''modes/demo.json'' = Inr tiny_mode"
  using tiny_members(1)
  by (simp add: load_contract_def tiny_path_normal mode_from_json_str_def tiny_fields tiny_documents_valid)

lemma tiny_splits:
  "split_once (CHR ''.'') ''execution.demo'' = Some (''execution'', ''demo'')"
  "split_once (CHR ''.'') ''planning.demo'' = Some (''planning'', ''demo'')"
  by code_simp+

lemma tiny_loops_resolve:
  "resolve_graph_loops tiny_env (sorted_plane_entries (mo_loop_ids_by_plane tiny_mode)) = Inr tiny_loops"
proof -
  have "sorted_plane_entries (mo_loop_ids_by_plane tiny_mode) = mo_loop_ids_by_plane tiny_mode" by code_simp
  moreover have "gl_loop_id tiny_execution_loop = ''execution.demo''" "gl_loop_id tiny_planning_loop = ''planning.demo''"
    "gl_plane tiny_execution_loop = Plane.Execution" "gl_plane tiny_planning_loop = Plane.Planning"
    by (simp_all add: tiny_execution_loop_def tiny_planning_loop_def)
  ultimately show ?thesis
    using tiny_members
    by (simp add: tiny_mode_def resolve_graph_loop_def resolve_graph_loop_asset_path_def tiny_splits
        asset_is_file_def tiny_fields load_contract_def tiny_path_normal graph_loop_from_json_str_def
        tiny_documents_valid require_asset_id_def tiny_loops_def)
qed

lemma tiny_kinds_resolve:
  "resolve_stage_kinds tiny_env [(Plane.Execution, ''builder''), (Plane.Planning, ''planner'')] {} = Inr tiny_kinds"
proof -
  have "sk_stage_kind_id (tiny_stage_kind p i oc) = i \<and> sk_plane (tiny_stage_kind p i oc) = p" for p i oc
    by (simp add: tiny_stage_kind_def)
  then show ?thesis
    using tiny_members
    by (simp add: resolve_stage_kind_def resolve_stage_kind_asset_path_def asset_is_file_def tiny_fields
        load_contract_def tiny_path_normal stage_kind_from_json_str_def tiny_documents_valid
        require_asset_id_def tiny_kinds_def)
qed

lemma tiny_references_valid:
  "validate_graph_stage_kind_references tiny_execution_loop (stage_kind_table tiny_kinds) = Inr ()"
  "validate_graph_stage_kind_references tiny_planning_loop (stage_kind_table tiny_kinds) = Inr ()"
  by code_simp+

definition tiny_ref :: "string \<Rightarrow> string \<Rightarrow> string \<Rightarrow> ResolvedAssetRef" where
  "tiny_ref family i path = \<lparr>ra_asset_family = family, ra_logical_id = i, ra_compile_time_path = path,
     ra_content_sha256 = replicate 64 (CHR ''0'')\<rparr>"

lemma tiny_push: "path \<in> set tiny_paths \<Longrightarrow> push_required_ref tiny_env family i path = Inr (tiny_ref family i path)"
  by (simp add: push_required_ref_def tiny_path_normal tiny_fields tiny_sha tiny_ref_def)

definition tiny_refs :: "ResolvedAssetRef list" where
  "tiny_refs = dedupe_asset_refs
     ([tiny_ref ''mode'' ''mode:demo'' ''modes/demo.json'',
       tiny_ref ''graph_loop'' ''graph_loop:execution.demo'' ''graphs/execution/demo.json'',
       tiny_ref ''graph_loop'' ''graph_loop:planning.demo'' ''graphs/planning/demo.json'',
       tiny_ref ''stage_kind'' ''stage_kind:builder'' ''registry/stage_kinds/execution/builder.json'',
       tiny_ref ''stage_kind'' ''stage_kind:planner'' ''registry/stage_kinds/planning/planner.json'']
      @ lo_resolved_assets tiny_loaded
      @ [tiny_ref ''entrypoint'' ''entrypoint:entrypoints/stage.md'' ''entrypoints/stage.md'',
         tiny_ref ''skill'' ''skill:skills/core.md'' ''skills/core.md''])"

lemma tiny_node_paths:
  "collect_node_paths e tiny_mode (stage_kind_table tiny_kinds)
     (concat (map (\<lambda>g. gl_nodes (ag_graph_loop g)) tiny_loops)) ([], [], [])
   = Inr ([''entrypoints/stage.md''], [''skills/core.md''], [])"
  by code_simp

lemma tiny_refs_resolve:
  "build_resolved_asset_refs tiny_env tiny_mode ''modes/demo.json'' tiny_loops tiny_kinds
     (lo_resolved_assets tiny_loaded) = Inr tiny_refs"
  unfolding build_resolved_asset_refs_def tiny_node_paths
  using tiny_members
  by (simp add: tiny_push tiny_loops_def tiny_kinds_def tiny_execution_loop_def tiny_planning_loop_def
      tiny_mode_def tiny_refs_def)

lemma set_dedupe_refs: "set (dedupe_asset_refs_from seen rs) \<subseteq> set rs"
  by (induction seen rs rule: dedupe_asset_refs_from.induct) auto

definition tiny_ref_ok :: "ResolvedAssetRef \<Rightarrow> bool" where
  "tiny_ref_ok r \<longleftrightarrow> ra_compile_time_path r \<in> set tiny_paths \<and> ResolvedAssetRef_validate r = Inr ()"

lemma tiny_refs_known: "list_all tiny_ref_ok tiny_refs"
proof -
  have blank: "list_all (\<lambda>p. trim p \<noteq> []) tiny_paths" by code_simp
  have family: "trim ''workflow_primitive'' \<noteq> []" by (simp add: trim_graphic ascii_graphic_def)
  have "list_all tiny_ref_ok (lo_resolved_assets tiny_loaded)"
    using tiny_loaded_ok tiny_sha(2) blank family
    by (auto simp: tiny_loads_ok_def tiny_ref_ok_def list_all_iff ResolvedAssetRef_validate_def
        cc_require_non_blank_def simp del: replicate.simps)
  moreover have "list_all tiny_ref_ok
      [tiny_ref ''mode'' ''mode:demo'' ''modes/demo.json'',
       tiny_ref ''graph_loop'' ''graph_loop:execution.demo'' ''graphs/execution/demo.json'',
       tiny_ref ''graph_loop'' ''graph_loop:planning.demo'' ''graphs/planning/demo.json'',
       tiny_ref ''stage_kind'' ''stage_kind:builder'' ''registry/stage_kinds/execution/builder.json'',
       tiny_ref ''stage_kind'' ''stage_kind:planner'' ''registry/stage_kinds/planning/planner.json'',
       tiny_ref ''entrypoint'' ''entrypoint:entrypoints/stage.md'' ''entrypoints/stage.md'',
       tiny_ref ''skill'' ''skill:skills/core.md'' ''skills/core.md'']" by code_simp
  ultimately show ?thesis
    unfolding tiny_refs_def dedupe_asset_refs_def
    by (auto simp: list_all_iff simp del: append_Cons dest!: subsetD[OF set_dedupe_refs])
qed

lemma tiny_digest:
  "list_all tiny_ref_ok refs \<Longrightarrow> \<exists>x. asset_digest_input tiny_env refs = Inr x"
  by (induction refs) (auto simp: tiny_ref_ok_def tiny_path_normal)

definition tiny_fingerprint :: CompileInputFingerprint where
  "tiny_fingerprint = \<lparr>fi_mode_id = ''demo'', fi_config_fingerprint = ''cfg-000000000000'',
     fi_assets_fingerprint = ''assets-000000000000''\<rparr>"

lemma tiny_hex: "hex_prefix (ce_sha256 tiny_env s) 12 = ''000000000000''"
  by (simp add: hex_prefix_def tiny_fields numeral_eq_Suc)

lemma tiny_input_fingerprint:
  "build_compile_input_fingerprint tiny_env config ''demo'' tiny_refs = Inr tiny_fingerprint"
proof -
  have "list_all tiny_ref_ok (sort_key asset_ref_key tiny_refs)" using tiny_refs_known by (simp add: list_all_iff)
  then obtain x where "asset_digest_input tiny_env (sort_key asset_ref_key tiny_refs) = Inr x"
    using tiny_digest by blast
  moreover have "CompileInputFingerprint_validate tiny_fingerprint = Inr ()" by code_simp
  ultimately show ?thesis
    by (simp add: build_compile_input_fingerprint_def fingerprint_resolved_assets_def
        fingerprint_effective_compile_config_def tiny_hex tiny_fingerprint_def Let_def)
qed

definition tiny_resolved :: ResolvedCompileAssetSet where
  "tiny_resolved = \<lparr>rc_mode_id = ''demo'', rc_requested_mode_id = Some ''demo'',
     rc_mode_relative_path = ''modes/demo.json'', rc_mode = tiny_mode, rc_graph_loops = tiny_loops,
     rc_stage_kinds = tiny_kinds, rc_workflow_primitive_authority = tiny_authority,
     rc_resolved_assets = tiny_refs, rc_config = EffectiveCompileConfig_default,
     rc_compile_input_fingerprint = tiny_fingerprint\<rparr>"

lemma tiny_resolves: "resolve_compile_assets tiny_env (Some ''demo'') = Inr tiny_resolved"
proof -
  have kinds: "concat (map (\<lambda>g. map (\<lambda>n. (ag_plane g, ln_stage_kind_id n)) (gl_nodes (ag_graph_loop g))) tiny_loops)
      = [(Plane.Execution, ''builder''), (Plane.Planning, ''planner'')]" by code_simp
  have mode: "require_asset_id tiny_env ''modes/demo.json'' ''mode_id'' ''demo'' (mo_mode_id tiny_mode) = Inr ()"
    by (simp add: tiny_mode_def require_asset_id_def)
  have maps: "validate_mode_stage_maps tiny_env ''modes/demo.json'' tiny_mode tiny_loops = Inr ()"
    by (simp add: validate_mode_stage_maps_def mode_stage_maps_def tiny_mode_def)
  have checks: "all_checks (map (\<lambda>g. map_err (asset_contract_error tiny_env (ag_relative_path g) ''graph_loop'')
           (validate_graph_stage_kind_references (ag_graph_loop g) (stage_kind_table tiny_kinds))) tiny_loops
        @ [validate_mode_stage_maps tiny_env ''modes/demo.json'' tiny_mode tiny_loops]) = Inr ()"
    unfolding maps by (simp add: tiny_loops_def tiny_references_valid)
  have refs: "au_resolved_assets tiny_authority = lo_resolved_assets tiny_loaded" by (simp add: tiny_authority_def)
  show ?thesis
    by (simp only: resolve_compile_assets_def tiny_config resolve_compile_assets_with_config_def Let_def
        tiny_mode_id tiny_mode_path tiny_mode_loads mode tiny_loops_resolve kinds tiny_kinds_resolve checks
        tiny_authority refs tiny_refs_resolve tiny_input_fingerprint tiny_resolved_def and_then_simps map_ok_simps)
qed

section \<open>Materialising the graphs\<close>

abbreviation tiny_cfg :: EffectiveCompileConfig where
  "tiny_cfg \<equiv> EffectiveCompileConfig_default"

definition tiny_grant :: "GraphLoopNodeDefinition \<Rightarrow> nat \<times> CapabilityRequest \<Rightarrow> ExecutionCapabilityGrant" where
  "tiny_grant n ir =
     (let (i, r) = ir; (decision, resolved_by, why) = resolve_capability_decision r [] tiny_cfg;
          (st, enforcement) = granted_state r tiny_cfg decision;
          requirements = evidence_requirements_for_grant r enforcement in
      \<lparr>kg_grant_id = ''grant-'' @ ln_node_id n @ ''-'' @ dots_to (CHR ''-'') (kr_capability_id r) @ ''-'' @ show_nat i,
       kg_request_id = kr_request_id r, kg_capability_id = kr_capability_id r,
       kg_access = kr_access r, kg_scope = kr_scope r, kg_required = kr_required r,
       kg_decision_state = st, kg_enforcement_mode = enforcement,
       kg_approval_policy_ref = (if decision = CapabilityPolicyDecision.ApprovalRequired
            then Some \<lparr>ka_policy_id = ''operator.'' @ dots_to (CHR ''_'') (kr_capability_id r),
                       ka_gate_scope = ''stage'', ka_expiration_seconds = None,
                       ka_required_decision = ''approved''\<rparr>
            else None),
       kg_evidence_requirements = requirements,
       kg_evidence_status = (if st = CapabilityDecisionState.Granted \<and> requirements \<noteq> []
            then CapabilityEvidenceStatus.Pending else CapabilityEvidenceStatus.NotRequired),
       kg_decision_reason = why, kg_resolved_by = resolved_by, kg_fingerprint = ''grant-000000000000''\<rparr>)"

definition tiny_grantable :: "GraphLoopNodeDefinition \<Rightarrow> nat \<times> CapabilityRequest \<Rightarrow> bool" where
  "tiny_grantable n ir \<longleftrightarrow>
     \<not> advisory_rejected (snd ir) tiny_cfg (fst (resolve_capability_decision (snd ir) [] tiny_cfg))
     \<and> ExecutionCapabilityGrant_validate (tiny_grant n ir) = Inr ()"

lemma tiny_grant_resolves:
  assumes "tiny_grantable n (i, r)"
  shows "resolve_execution_capability_grant tiny_env n r [] tiny_cfg i = Inr (tiny_grant n (i, r))"
proof -
  obtain d by_source why where d: "resolve_capability_decision r [] tiny_cfg = (d, by_source, why)"
    by (cases "resolve_capability_decision r [] tiny_cfg")
  obtain st m where sm: "granted_state r tiny_cfg d = (st, m)" by (cases "granted_state r tiny_cfg d")
  have fingerprint: "capability_grant_fingerprint tiny_env g = ''grant-000000000000''" for g
    by (simp add: capability_grant_fingerprint_def tiny_fields numeral_eq_Suc)
  show ?thesis
    using assms
    by (simp add: resolve_execution_capability_grant_def tiny_grantable_def d sm fingerprint tiny_grant_def Let_def)
qed

lemma tiny_grants_resolve:
  "list_all (tiny_grantable n) (enumerate i rs) \<Longrightarrow> resolve_grants tiny_env n [] tiny_cfg i rs
     = Inr (map (tiny_grant n) (enumerate i rs),
            concat (map (\<lambda>ir. warnings_for_grant n (snd ir) (tiny_grant n ir)) (enumerate i rs)))"
  by (induction rs arbitrary: i) (simp_all add: tiny_grant_resolves)

definition tiny_requests :: "GraphLoopNodeDefinition \<Rightarrow> (nat \<times> CapabilityRequest) list" where
  "tiny_requests n = enumerate 0 (dedupe_capability_requests
     (default_framework_capability_requests n None @ map (sourced_request ''graph_node'') (ln_execution_capability_requests n)))"

definition tiny_node :: "GraphLoopNodeDefinition \<Rightarrow> Plane \<Rightarrow> string \<Rightarrow> MaterializedGraphNodePlan" where
  "tiny_node n p oc =
     \<lparr>gn_node_id = ln_node_id n, gn_stage_kind_id = ln_stage_kind_id n, gn_plane = p, gn_lane_id = None,
      gn_entrypoint_path = ''entrypoints/stage.md'',
      gn_entrypoint_contract_id = Some (ln_node_id n @ ''.contract.v1''),
      gn_running_status_marker = ''RUNNING'',
      gn_allowed_result_classes_by_outcome =
        [(oc, [ResultClass.Success]), (''BLOCKED'', [ResultClass.Blocked])],
      gn_declared_output_artifacts = [], gn_required_skill_paths = [''skills/core.md''],
      gn_attached_skill_additions = [], gn_runner_name = None, gn_model_name = None, gn_thinking_level = None,
      gn_model_reasoning_effort = None, gn_timeout_seconds = DEFAULT_STAGE_TIMEOUT_SECONDS,
      gn_execution_capability_grants = map (tiny_grant n) (tiny_requests n),
      gn_execution_capability_warnings =
        concat (map (\<lambda>ir. warnings_for_grant n (snd ir) (tiny_grant n ir)) (tiny_requests n)),
      gn_execution_capability_policy_fingerprint = ''cap-pol-000000000000'',
      gn_request_context_profile_id = None, gn_terminal_action_mappings = [],
      gn_runtime_effect_rule_selections = []\<rparr>"

definition tiny_builder :: MaterializedGraphNodePlan where
  "tiny_builder = tiny_node (tiny_loop_node ''builder'' [git_request]) Plane.Execution ''BUILDER_COMPLETE''"

definition tiny_planner :: MaterializedGraphNodePlan where
  "tiny_planner = tiny_node (tiny_loop_node ''planner'' []) Plane.Planning ''PLANNER_COMPLETE''"

definition frozen_node :: "MaterializedGraphNodePlan \<Rightarrow> (string \<times> string) list \<Rightarrow> MaterializedGraphNodePlan" where
  "frozen_node n mappings = n\<lparr>gn_lane_id := Some (main_lane_id (gn_plane n)), gn_terminal_action_mappings := mappings\<rparr>"

lemma tiny_grantables:
  "list_all (tiny_grantable (tiny_loop_node ''builder'' [git_request])) (tiny_requests (tiny_loop_node ''builder'' [git_request]))"
  "list_all (tiny_grantable (tiny_loop_node ''planner'' [])) (tiny_requests (tiny_loop_node ''planner'' []))"
  by code_simp+

text \<open>A node that validation keeps, and the same node with its lane and terminal actions.\<close>

definition node_parts_valid :: "MaterializedGraphNodePlan \<Rightarrow> bool" where
  "node_parts_valid n \<longleftrightarrow>
     normalize_canonical_id (gn_node_id n) ''node_id'' = Inr (gn_node_id n)
     \<and> normalize_canonical_id (gn_stage_kind_id n) ''stage_kind_id'' = Inr (gn_stage_kind_id n)
     \<and> validate_markdown_asset_path ''entrypoint_path'' (gn_entrypoint_path n) ''entrypoints/''
         = Inr (gn_entrypoint_path n)
     \<and> cc_require_optional_non_blank ''entrypoint_contract_id'' (gn_entrypoint_contract_id n) = Inr ()
     \<and> normalize_status (gn_running_status_marker n) ''running_status_marker'' = Inr (gn_running_status_marker n)
     \<and> normalize_allowed_result_classes (gn_allowed_result_classes_by_outcome n)
         = Inr (gn_allowed_result_classes_by_outcome n)
     \<and> normalize_markdown_asset_paths ''required_skill_paths'' (gn_required_skill_paths n) ''skills/''
         = Inr (gn_required_skill_paths n)
     \<and> list_all (\<lambda>e. ExecutionCapabilityWarning_validate e = Inr ()) (gn_execution_capability_warnings n)
     \<and> require_prefixed_fingerprint ''execution_capability_policy_fingerprint''
         (gn_execution_capability_policy_fingerprint n) ''cap-pol-'' = Inr ()
     \<and> gn_execution_capability_policy_fingerprint n \<noteq> []
     \<and> gn_lane_id n = None \<and> gn_terminal_action_mappings n = [] \<and> gn_runtime_effect_rule_selections n = []
     \<and> gn_declared_output_artifacts n = [] \<and> gn_attached_skill_additions n = [] \<and> gn_runner_name n = None
     \<and> gn_model_name n = None \<and> gn_thinking_level n = None \<and> gn_model_reasoning_effort n = None
     \<and> gn_request_context_profile_id n = None"

lemma node_parts_validate:
  assumes "node_parts_valid n"
    "list_all (\<lambda>g. ExecutionCapabilityGrant_validate g = Inr ()) (gn_execution_capability_grants n)"
    "cc_require_optional_non_blank ''lane_id'' lane = Inr ()"
    "validate_non_blank_string_map ''terminal_action_mappings'' mappings = Inr ()"
  shows "MaterializedGraphNodePlan_validate (n\<lparr>gn_lane_id := lane, gn_terminal_action_mappings := mappings\<rparr>)
    = Inr (n\<lparr>gn_lane_id := lane, gn_terminal_action_mappings := mappings\<rparr>)"
  using assms
  by (cases n) (simp add: node_parts_valid_def MaterializedGraphNodePlan_validate_def and_then_check_Inr
      cc_require_optional_non_blank_def normalize_canonical_ids_def normalize_markdown_asset_paths_def dedupe_def
      check_simps map_err_eq_Inr list_all_iff del: all_checks.simps)

lemma tiny_parts_valid: "node_parts_valid tiny_builder" "node_parts_valid tiny_planner"
  by code_simp+

lemma tiny_nodes_valid:
  assumes "n = tiny_builder \<or> n = tiny_planner" "cc_require_optional_non_blank ''lane_id'' lane = Inr ()"
    "validate_non_blank_string_map ''terminal_action_mappings'' mappings = Inr ()"
  shows "MaterializedGraphNodePlan_validate (n\<lparr>gn_lane_id := lane, gn_terminal_action_mappings := mappings\<rparr>)
    = Inr (n\<lparr>gn_lane_id := lane, gn_terminal_action_mappings := mappings\<rparr>)"
proof (rule node_parts_validate)
  show "node_parts_valid n" using assms(1) tiny_parts_valid by blast
  show "list_all (\<lambda>g. ExecutionCapabilityGrant_validate g = Inr ()) (gn_execution_capability_grants n)"
    using assms(1) tiny_grantables
    by (auto simp: tiny_builder_def tiny_planner_def tiny_node_def tiny_grantable_def list_all_iff)
qed (use assms in simp_all)

lemma tiny_node_materializes:
  assumes "stage_kind_for_node n kinds = Inr (tiny_stage_kind p i oc)" "ln_node_id n = i" "n = tiny_loop_node i requests"
    "list_all (tiny_grantable n) (tiny_requests n)" "stage_name_for_identifier i = Some stage"
    "MaterializedGraphNodePlan_validate (tiny_node n p oc) = Inr (tiny_node n p oc)"
  shows "materialize_graph_node_plan tiny_env n p tiny_mode tiny_cfg kinds = Inr (tiny_node n p oc)"
proof -
  have n: "ln_stage_kind_id n = i" "ln_runner_name n = None" "ln_model_name n = None" "ln_thinking_level n = None"
    "ln_timeout_seconds n = None" "ln_entrypoint_path n = None" "ln_attached_skill_additions n = []"
    "ln_execution_capability_policies n = []" "ln_execution_capability_policy_overrides n = []"
    using assms(3) by (simp_all add: tiny_loop_node_def)
  let ?k = "tiny_stage_kind p i oc"
  have "enumerate 0 (node_capability_requests n ?k (Some stage) tiny_mode None) = tiny_requests n"
    by (simp add: node_capability_requests_def tiny_requests_def append_capability_requests_def tiny_stage_kind_def
        tiny_mode_def mode_stage_entries_def Let_def)
  moreover have "node_capability_policies n ?k (Some stage) tiny_mode = []"
    by (simp add: node_capability_policies_def append_policy_candidates_def n tiny_stage_kind_def tiny_mode_def
        mode_stage_entries_def Let_def)
  moreover have "ex_enabled (ec_execution_capabilities tiny_cfg)"
    by (simp add: EffectiveCompileConfig_default_def EffectiveExecutionCapabilitiesConfig_default_def)
  ultimately have caps: "compile_execution_capability_context tiny_env n ?k (Some stage) tiny_mode tiny_cfg None
     = Inr \<lparr>cx_grants = map (tiny_grant n) (tiny_requests n),
        cx_warnings = concat (map (\<lambda>ir. warnings_for_grant n (snd ir) (tiny_grant n ir)) (tiny_requests n)),
        cx_policy_fingerprint = ''cap-pol-000000000000''\<rparr>"
    using assms(4) tiny_grants_resolve[of n 0 "node_capability_requests n ?k (Some stage) tiny_mode None"]
    by (simp add: compile_execution_capability_context_def capability_policy_fingerprint_def tiny_hex Let_def)
  have stages: "ec_stages tiny_cfg = []" by (simp add: EffectiveCompileConfig_default_def)
  have modes: "mo_stage_runner_bindings tiny_mode = []" "mo_stage_model_bindings tiny_mode = []"
    "mo_stage_thinking_bindings tiny_mode = []" "mo_stage_entrypoint_overrides tiny_mode = []"
    "mo_stage_skill_additions tiny_mode = []" by (simp_all add: tiny_mode_def)
  have k: "sk_default_entrypoint_path ?k = ''entrypoints/stage.md''" "sk_running_status_marker ?k = ''RUNNING''"
    "sk_allowed_result_classes_by_outcome ?k = [(oc, [ResultClass.Success]), (''BLOCKED'', [ResultClass.Blocked])]"
    "sk_declared_output_artifacts ?k = []" "sk_required_skill_paths ?k = [''skills/core.md'']"
    by (simp_all add: tiny_stage_kind_def)
  show ?thesis
    using assms(1,2,5,6)
    by (simp add: materialize_graph_node_plan_def Let_def n caps stages modes k effective_setting_def
        effective_thinking_level_def effective_timeout_seconds_def node_entrypoint_path_def mode_skill_additions_def
        materialization_contract_def tiny_node_def)
qed

lemma tiny_nodes_plain:
  "MaterializedGraphNodePlan_validate tiny_builder = Inr tiny_builder"
  "MaterializedGraphNodePlan_validate tiny_planner = Inr tiny_planner"
  using tiny_nodes_valid[of tiny_builder None "[]"] tiny_nodes_valid[of tiny_planner None "[]"]
  by (simp_all add: tiny_builder_def tiny_planner_def tiny_node_def cc_require_optional_non_blank_def
      validate_non_blank_string_map_def)

lemma tiny_stage_facts:
  "stage_kind_for_node (tiny_loop_node ''builder'' [git_request]) (stage_kind_table tiny_kinds)
     = Inr (tiny_stage_kind Plane.Execution ''builder'' ''BUILDER_COMPLETE'')"
  "stage_kind_for_node (tiny_loop_node ''planner'' []) (stage_kind_table tiny_kinds)
     = Inr (tiny_stage_kind Plane.Planning ''planner'' ''PLANNER_COMPLETE'')"
  "stage_name_for_identifier ''builder'' = Some StageName.Builder"
  "stage_name_for_identifier ''planner'' = Some StageName.Planner"
  "validate_graph_stage_kind_semantics tiny_execution_loop (stage_kind_table tiny_kinds) = Inr ()"
  "validate_graph_stage_kind_semantics tiny_planning_loop (stage_kind_table tiny_kinds) = Inr ()"
  by code_simp+

lemma tiny_builder_materializes:
  "materialize_graph_node_plan tiny_env (tiny_loop_node ''builder'' [git_request]) Plane.Execution tiny_mode tiny_cfg
     (stage_kind_table tiny_kinds) = Inr tiny_builder"
  unfolding tiny_builder_def using tiny_grantables(1) tiny_nodes_plain(1)
  by (intro tiny_node_materializes[OF tiny_stage_facts(1) _ refl _ tiny_stage_facts(3)])
    (simp_all add: tiny_builder_def tiny_loop_node_def)

lemma tiny_planner_materializes:
  "materialize_graph_node_plan tiny_env (tiny_loop_node ''planner'' []) Plane.Planning tiny_mode tiny_cfg
     (stage_kind_table tiny_kinds) = Inr tiny_planner"
  unfolding tiny_planner_def using tiny_grantables(2) tiny_nodes_plain(2)
  by (intro tiny_node_materializes[OF tiny_stage_facts(2) _ refl _ tiny_stage_facts(4)])
    (simp_all add: tiny_planner_def tiny_loop_node_def)

section \<open>The frozen graphs\<close>

definition tiny_graph :: "GraphLoopDefinition \<Rightarrow> MaterializedGraphNodePlan \<Rightarrow> FrozenGraphPlanePlan" where
  "tiny_graph g n =
     \<lparr>fg_loop_id = gl_loop_id g, fg_plane = gl_plane g, fg_nodes = [n], fg_entry_nodes = gl_entry_nodes g,
      fg_transitions = gl_edges g,
      fg_compiled_entries = map (\<lambda>x. \<lparr>ge_entry_key = le_entry_key x, ge_node_id = le_node_id x,
        ge_stage_kind_id = gn_stage_kind_id n, ge_plane = gl_plane g\<rparr>) (gl_entry_nodes g),
      fg_compiled_completion_entry = None, fg_compiled_transitions = compile_graph_transitions (gl_edges g),
      fg_compiled_resume_policies = [],
      fg_compiled_threshold_policies = (case gl_dynamic_policies g of None \<Rightarrow> []
          | Some ps \<Rightarrow> compile_graph_threshold_policies (ly_threshold_policies ps) tiny_cfg),
      fg_terminal_states = gl_terminal_states g, fg_completion_behavior = None,
      fg_execution_capability_summary = execution_capability_summary_from_nodes [n]\<rparr>"

lemma tiny_summaries_valid:
  "ExecutionCapabilitySummary_validate (execution_capability_summary_from_nodes [tiny_builder]) = Inr ()"
  "ExecutionCapabilitySummary_validate (execution_capability_summary_from_nodes [tiny_planner]) = Inr ()"
  "ExecutionCapabilitySummary_validate (execution_capability_summary_from_nodes [tiny_builder, tiny_planner]) = Inr ()"
  by code_simp+

definition tiny_graph_parts :: "GraphLoopDefinition \<Rightarrow> string \<Rightarrow> bool" where
  "tiny_graph_parts g kind_id \<longleftrightarrow>
     normalize_canonical_id (gl_loop_id g) ''loop_id'' = Inr (gl_loop_id g)
     \<and> gl_entry_nodes g \<noteq> [] \<and> gl_edges g \<noteq> [] \<and> compile_graph_transitions (gl_edges g) \<noteq> []
     \<and> gl_terminal_states g \<noteq> []
     \<and> normalize_each GraphLoopEntryDefinition_validate (gl_entry_nodes g) = Inr (gl_entry_nodes g)
     \<and> normalize_each GraphLoopEdgeDefinition_validate (gl_edges g) = Inr (gl_edges g)
     \<and> (let es = map (\<lambda>x. \<lparr>ge_entry_key = le_entry_key x, ge_node_id = le_node_id x,
            ge_stage_kind_id = kind_id, ge_plane = gl_plane g\<rparr>) (gl_entry_nodes g) in
         normalize_each (validate_in_plane CompiledGraphEntryPlan_validate ge_plane (gl_plane g)
                 ''all compiled graph entries must belong to graph plane'') es = Inr es)
     \<and> (let ts = compile_graph_transitions (gl_edges g) in
         normalize_each CompiledGraphTransitionPlan_validate ts = Inr ts)
     \<and> (let hs = (case gl_dynamic_policies g of None \<Rightarrow> []
          | Some ps \<Rightarrow> compile_graph_threshold_policies (ly_threshold_policies ps) tiny_cfg) in
         normalize_each CompiledGraphThresholdPolicyPlan_validate hs = Inr hs)
     \<and> normalize_each GraphLoopTerminalStateDefinition_validate (gl_terminal_states g) = Inr (gl_terminal_states g)"

lemma tiny_graph_parts:
  "tiny_graph_parts tiny_execution_loop ''builder''" "tiny_graph_parts tiny_planning_loop ''planner''"
  by code_simp+

lemma tiny_graph_validates:
  assumes "tiny_graph_parts g (gn_stage_kind_id n)" "MaterializedGraphNodePlan_validate n = Inr n"
    "gn_plane n = gl_plane g" "ExecutionCapabilitySummary_validate (execution_capability_summary_from_nodes [n]) = Inr ()"
  shows "FrozenGraphPlanePlan_validate (tiny_graph g n) = Inr (tiny_graph g n)"
  using assms
  by (simp add: FrozenGraphPlanePlan_validate_def tiny_graph_def tiny_graph_parts_def Let_def
      cc_require_non_empty_def validate_in_plane_def document_check_def validate_option_def completion_entry_check_def)

lemma tiny_graphs_materialize:
  "materialize_graph_plane_plan tiny_env tiny_execution_loop tiny_mode tiny_cfg (stage_kind_table tiny_kinds)
     = Inr (tiny_graph tiny_execution_loop tiny_builder)"
  "materialize_graph_plane_plan tiny_env tiny_planning_loop tiny_mode tiny_cfg (stage_kind_table tiny_kinds)
     = Inr (tiny_graph tiny_planning_loop tiny_planner)"
proof -
  have "FrozenGraphPlanePlan_validate (tiny_graph tiny_execution_loop tiny_builder)
      = Inr (tiny_graph tiny_execution_loop tiny_builder)"
    using tiny_graph_parts(1) tiny_nodes_plain(1) tiny_summaries_valid(1)
    by (intro tiny_graph_validates)
      (simp_all add: tiny_builder_def tiny_node_def tiny_loop_node_def tiny_execution_loop_def)
  then show "materialize_graph_plane_plan tiny_env tiny_execution_loop tiny_mode tiny_cfg (stage_kind_table tiny_kinds)
     = Inr (tiny_graph tiny_execution_loop tiny_builder)"
    using tiny_builder_materializes
    by (simp add: materialize_graph_plane_plan_def tiny_stage_facts(5))
      (simp add: tiny_execution_loop_def materialization_contract_def tiny_graph_def
        materialized_node_by_id_def last_of_def tiny_builder_def tiny_node_def tiny_loop_node_def
        compile_graph_completion_entry_def compile_graph_resume_policies_def)
  have "FrozenGraphPlanePlan_validate (tiny_graph tiny_planning_loop tiny_planner)
      = Inr (tiny_graph tiny_planning_loop tiny_planner)"
    using tiny_graph_parts(2) tiny_nodes_plain(2) tiny_summaries_valid(2)
    by (intro tiny_graph_validates)
      (simp_all add: tiny_planner_def tiny_node_def tiny_loop_node_def tiny_planning_loop_def)
  then show "materialize_graph_plane_plan tiny_env tiny_planning_loop tiny_mode tiny_cfg (stage_kind_table tiny_kinds)
     = Inr (tiny_graph tiny_planning_loop tiny_planner)"
    using tiny_planner_materializes
    by (simp add: materialize_graph_plane_plan_def tiny_stage_facts(6))
      (simp add: tiny_planning_loop_def materialization_contract_def tiny_graph_def
        materialized_node_by_id_def last_of_def tiny_planner_def tiny_node_def tiny_loop_node_def
        compile_graph_completion_entry_def)
qed

text \<open>Freezing the authority gives the node its lane and the action of its only terminal transition.\<close>

definition tiny_frozen :: "MaterializedGraphNodePlan \<Rightarrow> string \<Rightarrow> MaterializedGraphNodePlan" where
  "tiny_frozen n oc = n\<lparr>gn_lane_id := Some (main_lane_id (gn_plane n)),
     gn_terminal_action_mappings := [(oc, ''end.success'')]\<rparr>"

lemma tiny_mappings:
  "transition_action_mappings tiny_bundle
     (last_of (map (\<lambda>s. (gs_terminal_state_id s, GraphLoopTerminalClass_as_str (gs_terminal_class s)))
       (gl_terminal_states tiny_execution_loop)))
     (filter (\<lambda>t. gt_source_node_id t = ''builder'') (compile_graph_transitions (gl_edges tiny_execution_loop))) []
   = Inr [(''BUILDER_COMPLETE'', ''end.success'')]"
  "transition_action_mappings tiny_bundle
     (last_of (map (\<lambda>s. (gs_terminal_state_id s, GraphLoopTerminalClass_as_str (gs_terminal_class s)))
       (gl_terminal_states tiny_planning_loop)))
     (filter (\<lambda>t. gt_source_node_id t = ''planner'') (compile_graph_transitions (gl_edges tiny_planning_loop))) []
   = Inr [(''PLANNER_COMPLETE'', ''end.success'')]"
  by code_simp+

lemma tiny_lane_ids: "policy_lane_id_for_plane tiny_lanes Plane.Execution = Some (main_lane_id Plane.Execution)"
  "policy_lane_id_for_plane tiny_lanes Plane.Planning = Some (main_lane_id Plane.Planning)"
  "cc_require_optional_non_blank ''lane_id'' (Some (main_lane_id Plane.Execution)) = Inr ()"
  "cc_require_optional_non_blank ''lane_id'' (Some (main_lane_id Plane.Planning)) = Inr ()"
  "validate_non_blank_string_map ''terminal_action_mappings'' [(''BUILDER_COMPLETE'', ''end.success'')] = Inr ()"
  "validate_non_blank_string_map ''terminal_action_mappings'' [(''PLANNER_COMPLETE'', ''end.success'')] = Inr ()"
  by code_simp+

lemma tiny_planes:
  "gn_plane tiny_builder = Plane.Execution" "gn_plane tiny_planner = Plane.Planning"
  "gn_node_id tiny_builder = ''builder''" "gn_node_id tiny_planner = ''planner''"
  "gn_stage_kind_id tiny_builder = ''builder''" "gn_stage_kind_id tiny_planner = ''planner''"
  "gn_request_context_profile_id tiny_builder = None" "gn_request_context_profile_id tiny_planner = None"
  "gn_runtime_effect_rule_selections tiny_builder = []" "gn_runtime_effect_rule_selections tiny_planner = []"
  by (simp_all add: tiny_builder_def tiny_planner_def tiny_node_def tiny_loop_node_def)

lemma tiny_frozen_valid:
  "MaterializedGraphNodePlan_validate (tiny_frozen tiny_builder ''BUILDER_COMPLETE'')
     = Inr (tiny_frozen tiny_builder ''BUILDER_COMPLETE'')"
  "MaterializedGraphNodePlan_validate (tiny_frozen tiny_planner ''PLANNER_COMPLETE'')
     = Inr (tiny_frozen tiny_planner ''PLANNER_COMPLETE'')"
  unfolding tiny_frozen_def
  by (rule tiny_nodes_valid; simp add: tiny_lane_ids tiny_planes)+

lemma tiny_freeze:
  assumes "policy_lane_id_for_plane tiny_lanes (gl_plane g) = Some (main_lane_id (gn_plane n))"
    "gn_request_context_profile_id n = None" "gn_runtime_effect_rule_selections n = []"
    "request_context_profile_id n [] = None"
    "transition_action_mappings tiny_bundle
     (last_of (map (\<lambda>s. (gs_terminal_state_id s, GraphLoopTerminalClass_as_str (gs_terminal_class s)))
       (gl_terminal_states g)))
     (filter (\<lambda>t. gt_source_node_id t = gn_node_id n) (compile_graph_transitions (gl_edges g))) []
   = Inr [(oc, ''end.success'')]"
    "MaterializedGraphNodePlan_validate (tiny_frozen n oc) = Inr (tiny_frozen n oc)"
  shows "freeze_node_authority (tiny_graph g n) tiny_bundle tiny_lanes n = Inr (tiny_frozen n oc)"
proof -
  have empty: "bu_request_context_profiles tiny_bundle = []" "bu_runtime_effect_rules tiny_bundle = []"
    by (simp_all add: tiny_bundle_def)
  have "n\<lparr>gn_lane_id := Some (main_lane_id (gn_plane n)), gn_request_context_profile_id := None,
      gn_runtime_effect_rule_selections := [], gn_terminal_action_mappings := [(oc, ''end.success'')]\<rparr>
    = tiny_frozen n oc"
    using assms(2,3) by (cases n) (simp add: tiny_frozen_def)
  then show ?thesis
    using assms
    by (simp add: freeze_node_authority_def Let_def empty tiny_graph_def terminal_action_mappings_for_node_def
        rules_by_node_outcome_def runtime_effect_rule_ids_for_node_def)
qed

lemma tiny_freezes:
  "freeze_node_authority (tiny_graph tiny_execution_loop tiny_builder) tiny_bundle tiny_lanes tiny_builder
     = Inr (tiny_frozen tiny_builder ''BUILDER_COMPLETE'')"
  "freeze_node_authority (tiny_graph tiny_planning_loop tiny_planner) tiny_bundle tiny_lanes tiny_planner
     = Inr (tiny_frozen tiny_planner ''PLANNER_COMPLETE'')"
  using tiny_mappings tiny_frozen_valid
  by (intro tiny_freeze; simp add: tiny_planes tiny_lane_ids request_context_profile_id_def
      tiny_execution_loop_def[THEN arg_cong, of gl_plane] tiny_planning_loop_def[THEN arg_cong, of gl_plane])+

definition tiny_execution :: FrozenGraphPlanePlan where
  "tiny_execution = tiny_graph tiny_execution_loop (tiny_frozen tiny_builder ''BUILDER_COMPLETE'')"

definition tiny_planning :: FrozenGraphPlanePlan where
  "tiny_planning = tiny_graph tiny_planning_loop (tiny_frozen tiny_planner ''PLANNER_COMPLETE'')"

lemma tiny_frozen_nodes:
  "(tiny_graph g n)\<lparr>fg_nodes := [tiny_frozen n oc]\<rparr> = tiny_graph g (tiny_frozen n oc)"
  by (simp add: tiny_graph_def tiny_frozen_def execution_capability_summary_from_nodes_def)

lemma tiny_loop_planes: "gl_plane tiny_execution_loop = Plane.Execution" "gl_plane tiny_planning_loop = Plane.Planning"
  by (simp_all add: tiny_execution_loop_def tiny_planning_loop_def)

lemma tiny_graphs_valid:
  "FrozenGraphPlanePlan_validate tiny_execution = Inr tiny_execution"
  "FrozenGraphPlanePlan_validate tiny_planning = Inr tiny_planning"
proof -
  have keeps: "gn_stage_kind_id (tiny_frozen n oc) = gn_stage_kind_id n" "gn_plane (tiny_frozen n oc) = gn_plane n"
    "execution_capability_summary_from_nodes [tiny_frozen n oc] = execution_capability_summary_from_nodes [n]" for n oc
    by (simp_all add: tiny_frozen_def execution_capability_summary_from_nodes_def)
  show "FrozenGraphPlanePlan_validate tiny_execution = Inr tiny_execution"
    unfolding tiny_execution_def
    by (rule tiny_graph_validates)
      (simp_all add: keeps tiny_planes tiny_loop_planes tiny_graph_parts tiny_frozen_valid tiny_summaries_valid)
  show "FrozenGraphPlanePlan_validate tiny_planning = Inr tiny_planning"
    unfolding tiny_planning_def
    by (rule tiny_graph_validates)
      (simp_all add: keeps tiny_planes tiny_loop_planes tiny_graph_parts tiny_frozen_valid tiny_summaries_valid)
qed

lemma tiny_assets_materialize:
  "materialize_graphs tiny_env tiny_resolved tiny_loops []
     = Inr [(Plane.Execution, tiny_execution), (Plane.Planning, tiny_planning)]"
proof -
  have authority: "au_workflow_primitives tiny_authority = tiny_bundle" "au_lane_policy tiny_authority = tiny_lanes"
    by (simp_all add: tiny_authority_def)
  have nodes: "fg_nodes (tiny_graph g n) = [n]" for g n by (simp add: tiny_graph_def)
  have planes: "fg_plane tiny_execution = Plane.Execution" "fg_plane tiny_planning = Plane.Planning"
    by (simp_all add: tiny_execution_def tiny_planning_def tiny_graph_def tiny_loop_planes)
  have resolved: "rc_mode tiny_resolved = tiny_mode" "rc_config tiny_resolved = tiny_cfg"
    "rc_stage_kinds tiny_resolved = tiny_kinds" "rc_workflow_primitive_authority tiny_resolved = tiny_authority"
    by (simp_all add: tiny_resolved_def)
  show ?thesis
    using tiny_graphs_valid
    by (simp add: tiny_loops_def materialize_graph_asset_def resolved tiny_graphs_materialize authority
        materialize_workflow_primitive_graph_authority_def nodes tiny_freezes tiny_frozen_nodes
        materialization_contract_def planes flip: tiny_execution_def tiny_planning_def)
qed

definition tiny_plan :: "Timestamp \<Rightarrow> CompiledRunPlan" where
  "tiny_plan compiled_at =
       \<lparr>plan_schema_version = ''1.0'', plan_kind = ''compiled_run_plan'',
        plan_compiled_plan_id = ''plan-demo-000000000000'',
        plan_compile_input_fingerprint = tiny_fingerprint, plan_mode_id = ''demo'',
        plan_loop_ids_by_plane = [(Plane.Execution, ''execution.demo''), (Plane.Planning, ''planning.demo'')],
        plan_execution_loop_id = ''execution.demo'', plan_planning_loop_id = ''planning.demo'',
        plan_learning_loop_id = None,
        plan_graphs_by_plane = [(Plane.Execution, tiny_execution), (Plane.Planning, tiny_planning)],
        plan_execution_graph = tiny_execution, plan_planning_graph = tiny_planning, plan_learning_graph = None,
        plan_execution_capability_summary = execution_capability_summary_from_nodes [tiny_builder, tiny_planner],
        plan_execution_capability_summaries_by_plane =
          [(Plane.Execution, execution_capability_summary_from_nodes [tiny_builder]),
           (Plane.Planning, execution_capability_summary_from_nodes [tiny_planner])],
        plan_concurrency_policy = mo_concurrency_policy tiny_mode, plan_learning_trigger_rules = [],
        plan_workflow_primitives = tiny_bundle,
        plan_workflow_primitive_fingerprints = lo_fingerprints tiny_loaded,
        plan_lane_policy = Some tiny_lanes, plan_workspace_schema_epoch = Some tiny_epoch,
        plan_pending_compiled_plan = None, plan_compiled_at = compiled_at, plan_resolved_assets = tiny_refs,
        plan_source_refs = [''mode:demo'', ''graph_loop:execution.demo'', ''graph_loop:planning.demo'',
          ''workflow_primitives:v0.20'', ''workspace_schema_epoch:v0.20'']\<rparr>"

lemma tiny_plan_strings:
  "CompileInputFingerprint_validate tiny_fingerprint = Inr ()"
  "cc_require_non_blank ''compiled_plan_id'' ''plan-demo-000000000000'' = Inr ()"
  "cc_require_non_blank ''mode_id'' ''demo'' = Inr ()"
  "cc_require_non_blank ''execution_loop_id'' ''execution.demo'' = Inr ()"
  "cc_require_non_blank ''planning_loop_id'' ''planning.demo'' = Inr ()"
  "normalize_non_blank_vec ''source_refs'' [''mode:demo'', ''graph_loop:execution.demo'', ''graph_loop:planning.demo'',
          ''workflow_primitives:v0.20'', ''workspace_schema_epoch:v0.20'']
     = Inr [''mode:demo'', ''graph_loop:execution.demo'', ''graph_loop:planning.demo'',
          ''workflow_primitives:v0.20'', ''workspace_schema_epoch:v0.20'']"
  "PlaneConcurrencyPolicyDefinition_validate (the (mo_concurrency_policy tiny_mode)) = Inr ()"
  "plan_lane_policy_check tiny_lanes = Inr ()"
  by code_simp+

lemma tiny_bundle_valid: "CompiledWorkflowPrimitiveBundle_validate tiny_bundle = Inr ()"
  using tiny_documents_valid
  by (simp add: CompiledWorkflowPrimitiveBundle_validate_def tiny_bundle_def validate_runtime_contracts_def
      check_simps runtime_contract_Inr list_all_iff del: all_checks.simps)

lemma tiny_plan_valid: "CompiledRunPlan_validate (tiny_plan t) = Inr (tiny_plan t)"
proof -
  have fingerprints: "validate_non_blank_string_map f (lo_fingerprints tiny_loaded) = Inr ()" for f
    using tiny_loaded_ok
    by (auto simp: validate_non_blank_string_map_def tiny_loads_ok_def list_all_iff check_simps
        cc_require_non_blank_def simp del: all_checks.simps)
  have assets: "all_checks (map ResolvedAssetRef_validate tiny_refs) = Inr ()"
    using tiny_refs_known by (simp add: check_simps list_all_iff tiny_ref_ok_def)
  have loops: "fg_plane tiny_execution = Plane.Execution" "fg_plane tiny_planning = Plane.Planning"
    "fg_loop_id tiny_execution = ''execution.demo''" "fg_loop_id tiny_planning = ''planning.demo''"
    "fg_execution_capability_summary tiny_execution = execution_capability_summary_from_nodes [tiny_builder]"
    "fg_execution_capability_summary tiny_planning = execution_capability_summary_from_nodes [tiny_planner]"
    by (simp_all add: tiny_execution_def tiny_planning_def tiny_graph_def tiny_execution_loop_def
        tiny_planning_loop_def tiny_frozen_def execution_capability_summary_from_nodes_def)
  obtain c where c: "mo_concurrency_policy tiny_mode = Some c" "PlaneConcurrencyPolicyDefinition_validate c = Inr ()"
    using tiny_plan_strings(7) by (simp add: tiny_mode_def)
  have "plan_graph_bindings (tiny_plan t) = Inr ()" "plan_capability_summaries (tiny_plan t) = Inr ()"
    "plan_loop_bindings (tiny_plan t) = Inr ()"
    using tiny_summaries_valid
    by (simp_all add: plan_graph_bindings_def plan_capability_summaries_def plan_loop_bindings_def tiny_plan_def loops
        document_check_def)
  then show ?thesis
    using tiny_plan_strings tiny_graphs_valid fingerprints assets c tiny_bundle_valid tiny_documents_valid(13)
    by (simp add: CompiledRunPlan_validate_def tiny_plan_def validate_option_def cc_validate_literal_def
        document_check_def cc_require_optional_non_blank_def runtime_contract_def)
qed

lemma tiny_compiles: "compile_compiled_run_plan tiny_env (Some ''demo'') t = Inr (tiny_plan t)"
proof -
  have resolved: "rc_mode tiny_resolved = tiny_mode" "rc_graph_loops tiny_resolved = tiny_loops"
    "rc_workflow_primitive_authority tiny_resolved = tiny_authority" "rc_mode_id tiny_resolved = ''demo''"
    "rc_compile_input_fingerprint tiny_resolved = tiny_fingerprint" "rc_resolved_assets tiny_resolved = tiny_refs"
    by (simp_all add: tiny_resolved_def)
  have authority: "au_workflow_primitives tiny_authority = tiny_bundle" "au_lane_policy tiny_authority = tiny_lanes"
    "au_workflow_primitive_fingerprints tiny_authority = lo_fingerprints tiny_loaded"
    by (simp_all add: tiny_authority_def)
  have mode: "mo_loop_ids_by_plane tiny_mode = [(Plane.Execution, ''execution.demo''), (Plane.Planning, ''planning.demo'')]"
    "mo_learning_trigger_rules tiny_mode = []" by (simp_all add: tiny_mode_def)
  have epoch: "bu_workspace_schema_epoch tiny_bundle = Some tiny_epoch" by (simp add: tiny_bundle_def)
  have loops: "fg_loop_id tiny_execution = ''execution.demo''" "fg_loop_id tiny_planning = ''planning.demo''"
    "fg_completion_behavior tiny_planning = None"
    "fg_execution_capability_summary tiny_execution = execution_capability_summary_from_nodes [tiny_builder]"
    "fg_execution_capability_summary tiny_planning = execution_capability_summary_from_nodes [tiny_planner]"
    "fg_nodes tiny_execution = [tiny_frozen tiny_builder ''BUILDER_COMPLETE'']"
    "fg_nodes tiny_planning = [tiny_frozen tiny_planner ''PLANNER_COMPLETE'']"
    by (simp_all add: tiny_execution_def tiny_planning_def tiny_graph_def tiny_execution_loop_def
        tiny_planning_loop_def tiny_frozen_def execution_capability_summary_from_nodes_def)
  have sorted: "sorted_plane_entries [(Plane.Execution, x), (Plane.Planning, y)]
      = [(Plane.Execution, x), (Plane.Planning, y)]" for x y
    by (simp add: sorted_plane_entries_def)
  have grants: "gn_execution_capability_grants (tiny_frozen n oc) = gn_execution_capability_grants n" for n oc
    by (simp add: tiny_frozen_def)
  have "build_compiled_plan_id tiny_env ''demo'' ids gs c rs = ''plan-demo-000000000000''" for ids gs c rs
    by (simp add: build_compiled_plan_id_def tiny_hex)
  then show ?thesis
    using tiny_plan_valid[of t, unfolded tiny_plan_def]
    by (simp add: compile_compiled_run_plan_def tiny_resolves materialize_compiled_run_plan_def Let_def resolved
        tiny_assets_materialize authority mode epoch required_loop_id_def materialized_graph_for_plane_def
        transposed_def validate_compiled_learning_trigger_rules_def build_graph_source_refs_def loops sorted
        execution_capability_summaries_by_plane_def execution_capability_summary_from_graphs_def
        execution_capability_summary_from_nodes_def grants materialization_contract_def tiny_plan_def)
qed

end
