(* ===== verification/Compiled_Schedule.thy ===== *)
theory Compiled_Schedule
  imports Compiled_Lanes Plan_Validity
begin

text \<open>
  The schedule of a compiled plan: for a plan the compiler returns, the guards of
  \<^verbatim>\<open>dispatch_claim_for_plane\<close> reduce to a condition on planes. Used for the properties of the
  compiler together with the scheduler.
\<close>

lemma compiled_plan_ok:
  assumes "compile_compiled_run_plan e requested compiled_at = Inr plan"
  shows "plan_ok plan"
  using compiled_planE[OF assms] validated_plan_ok compiled_lanes_distinct[OF assms] by metis

text \<open>The legacy fields name no run of their own.\<close>

lemma projected_active_run:
  assumes inv: "sched_inv plan s"
  shows "active_run_for_plane s p = runs_of s p"
proof (cases "runs_of s p")
  case None
  have shown: "shows_run s (foreground_run (rs_active_runs_by_plane s))"
    using inv unfolding sched_inv_def projected_iff_shows by blast
  have "rs_active_plane s \<noteq> Some p"
  proof (cases "foreground_run (rs_active_runs_by_plane s)")
    case None
    then show ?thesis using shown by (simp add: shows_run_def)
  next
    case (Some r)
    then obtain q where q: "runs_of s q = Some r"
      by (auto simp: foreground_run_eq split: option.splits)
    then have "ar_plane r = q" using inv by (auto simp: sched_inv_def run_in_place_def)
    then show ?thesis using shown Some q \<open>runs_of s p = None\<close> by (auto simp: shows_run_def)
  qed
  then show ?thesis using None by (simp add: active_run_for_plane_def legacy_active_run_for_plane_def)
qed (simp add: active_run_for_plane_def)

lemma active_lane_ids_main:
  assumes "sched_inv plan s" "\<And>p. lane_id_for_plane (Some plan) p = main_lane_id p"
  shows "active_lane_ids s = map main_lane_id (active_planes s)"
proof -
  have lane: "ar_lane_id r = main_lane_id p" if "runs_of s p = Some r" for p r
    using assms that by (auto simp: sched_inv_def run_in_place_def)
  show ?thesis
    unfolding active_lane_ids_def active_planes_def DISPATCH_ORDER_def
    by (auto simp: projected_active_run[OF assms(1)] List.map_filter_simps lane split: option.splits)
qed

lemma main_lane_trim: "trim (main_lane_id p) = main_lane_id p" "main_lane_id p \<noteq> []"
proof -
  show "trim (main_lane_id p) = main_lane_id p" by (cases p; simp only:; code_simp)
  show "main_lane_id p \<noteq> []" by (simp add: main_lane_id_def)
qed

lemma compiled_lanes_found:
  assumes "build_lane_policy claims loops = Inr policy"
  shows "(\<exists>c. find_lane policy (main_lane_id p) = Some (compiled_lane p c) \<and> p \<in> ag_plane ` set loops)
    \<or> (find_lane policy (main_lane_id p) = None \<and> p \<notin> ag_plane ` set loops)"
proof (rule lane_policyE[OF assms])
  fix pairs
  assume pairs: "map fst pairs = map ag_plane loops" "sp_lanes policy = map (\<lambda>(p, c). compiled_lane p c) pairs"
  have planes: "fst ` set pairs = ag_plane ` set loops" using arg_cong[OF pairs(1), of set] by simp
  show ?thesis
  proof (cases "find_lane policy (main_lane_id p)")
    case None
    then have "\<forall>x \<in> set pairs. main_lane_id (fst x) \<noteq> main_lane_id p"
      by (auto simp: find_lane_def pairs(2) find_None_iff compiled_lane_def)
    then have "p \<notin> fst ` set pairs" by blast
    then show ?thesis using None by (simp add: planes)
  next
    case (Some lane)
    then obtain q c where "(q, c) \<in> set pairs" "lane = compiled_lane q c" "main_lane_id q = main_lane_id p"
      by (auto simp: find_lane_def pairs(2) compiled_lane_def dest!: find_SomeD)
    then have "p \<in> fst ` set pairs" "lane = compiled_lane p c" by (force simp: main_lane_inject)+
    then show ?thesis using Some unfolding planes by blast
  qed
qed

lemma other_planes_main:
  assumes "build_lane_policy claims loops = Inr policy" "p \<in> ag_plane ` set loops"
    "set qs \<subseteq> ag_plane ` set loops" "p \<notin> set qs"
  shows "other_lane_planes policy (main_lane_id p) (map main_lane_id qs) = Some qs"
  using assms(3,4)
proof (induction qs)
  case (Cons q qs)
  obtain c where "find_lane policy (main_lane_id q) = Some (compiled_lane q c)"
    using compiled_lanes_found[OF assms(1), of q] Cons.prems(1) by auto
  with Cons show ?case
    using lane_policy_allows_iff[OF assms(1)] assms(2) by (auto simp: compiled_lane_def main_lane_inject)
qed simp

lemma can_dispatch_plane_iff:
  "can_dispatch_plane (plan_concurrency_policy plan) active p
   \<longleftrightarrow> p \<notin> set active \<and> (\<forall>q \<in> set active. planes_allowed plan p q)"
  by (auto simp: can_dispatch_plane_def Let_def planes_allowed_def list_all_iff split: option.splits)

lemma can_dispatch_main_lane:
  assumes "build_lane_policy claims loops = Inr policy" "set qs \<subseteq> ag_plane ` set loops" "p \<notin> set qs"
  shows "can_dispatch_lane (Some policy) conc (map main_lane_id qs) (main_lane_id p)
    \<longleftrightarrow> p \<in> ag_plane ` set loops \<and> can_dispatch_plane conc qs p"
proof -
  have ids: "filter (\<lambda>i. i \<noteq> []) (map trim (map main_lane_id qs)) = map main_lane_id qs"
    by (simp add: comp_def main_lane_trim filter_id_conv)
  have none: "filter (\<lambda>i. i = main_lane_id p) (map main_lane_id qs) = []"
    using assms(3) by (auto simp: filter_empty_conv main_lane_inject)
  from compiled_lanes_found[OF assms(1), of p] show ?thesis
  proof (elim disjE exE conjE)
    fix c
    assume found: "find_lane policy (main_lane_id p) = Some (compiled_lane p c)" and p: "p \<in> ag_plane ` set loops"
    have lane: "lp_max_active_runs (compiled_lane p c) = 1" "lp_lane_id (compiled_lane p c) = main_lane_id p"
      "lp_plane (compiled_lane p c) = p" by (simp_all add: compiled_lane_def)
    show ?thesis
      unfolding can_dispatch_lane_def option.case Let_def found lane ids none
      using p other_planes_main[OF assms(1) p assms(2,3)] by simp
  qed (simp add: can_dispatch_lane_def)
qed

lemma compiled_dispatch_iff:
  assumes "compile_compiled_run_plan e requested compiled_at = Inr plan" "sched_inv plan s"
  shows "dispatch_allowed plan s p
    \<longleftrightarrow> p \<in> fst ` set (plan_loop_ids_by_plane plan) \<and> p \<notin> set (active_planes s)
      \<and> (\<forall>q \<in> set (active_planes s). planes_allowed plan p q)"
proof (rule compiled_planE[OF assms(1)])
  fix claims policy loops
  assume policy: "build_lane_policy claims loops = Inr policy" "plan_lane_policy plan = Some policy"
    and planes: "ag_plane ` set loops = fst ` set (plan_loop_ids_by_plane plan)"
  have lane: "lane_id_for_plane (Some plan) q = main_lane_id q" for q
    by (simp add: compiled_lane_id[OF assms(1)] main_lane_default)
  have admits: "lane_admits plan q" if "q \<in> set (active_planes s)" for q
    using assms(2) that unfolding set_active_planes sched_inv_def by auto
  have sub: "set (active_planes s) \<subseteq> ag_plane ` set loops"
  proof
    fix q assume "q \<in> set (active_planes s)"
    from admits[OF this] show "q \<in> ag_plane ` set loops"
      using compiled_lanes_found[OF policy(1), of q] by (auto simp: lane_admits_def policy(2) lane split: option.splits)
  qed
  show ?thesis
    unfolding dispatch_allowed_def active_lane_ids_main[OF assms(2) lane] policy(2) lane can_dispatch_plane_iff planes[symmetric]
    using can_dispatch_main_lane[OF policy(1) sub, of p "plan_concurrency_policy plan"]
    by (auto simp: can_dispatch_plane_iff)
qed

end
