(* ===== verification/Compile_Properties.thy ===== *)
theory Compile_Properties
  imports Compile_Examples Compiled_Schedule Runtime_Examples
begin

text \<open>
  What the compiler guarantees to the runtime: the graphs of a plan are closed and carry the limits of
  the configuration, the grants of their nodes follow the configured capability policy, and the
  schedule of a compiled plan is decided by the planes of the mode and its concurrency policy.
\<close>

section \<open>Graphs\<close>

lemma compiled_graph_config:
  assumes "compile_compiled_run_plan e requested compiled_at = Inr plan" "graph_for_plane plan p = Inr g"
  shows "\<exists>config. load_effective_compile_config e = Inr config \<and> compiled_graph_ok config g"
proof -
  obtain r where r: "resolve_compile_assets e requested = Inr r"
      "materialize_compiled_run_plan e r compiled_at = Inr plan"
    using assms(1) unfolding compile_compiled_run_plan_def and_then_eq_Inr map_err_eq_Inr by blast
  obtain pre graphs where pre: "CompiledRunPlan_validate pre = Inr plan"
      "materialize_graphs e r (rc_graph_loops r) [] = Inr graphs" "plan_graphs_by_plane plan = graphs"
    by (rule materialized_planE[OF r(2)])
  have "graphs_ok (rc_config r) graphs"
    by (rule materialize_graphs_ok[OF pre(2)]) (rule resolved_assetsE[OF r(1)], assumption, simp add: graphs_ok_def)
  then have "compiled_graph_ok (rc_config r) g"
    using validated_plan_graphs[OF pre(1) assms(2)] pre(3) unfolding graphs_ok_def by blast
  moreover have "load_effective_compile_config e = Inr (rc_config r)" by (rule resolved_assetsE[OF r(1)])
  ultimately show ?thesis by blast
qed

text \<open>C23. A compiled plan has no dangling reference: in the graph of every plane the node ids are distinct,
  and every entry, transition, resume policy, threshold policy and completion entry names nodes and
  terminal states of that graph. The thresholds of its recovery policies are the limits of the loaded
  configuration for their counters, all of them positive.\<close>

theorem compiled_graph_is_closed:
  assumes "compile_compiled_run_plan e requested compiled_at = Inr plan" "graph_for_plane plan p = Inr g"
  shows "graph_closed g \<and> (\<exists>config. load_effective_compile_config e = Inr config
    \<and> thresholds_from (ec_recovery config) g \<and> recovery_positive (ec_recovery config))"
  using compiled_graph_config[OF assms] loaded_recovery_positive
  unfolding compiled_graph_ok_def load_effective_compile_config_def by blast

lemma tiny_graph_of_execution: "graph_for_plane (tiny_plan t) Plane.Execution = Inr tiny_execution"
  by (simp add: graph_for_plane_def tiny_plan_def)

lemma compiled_graph_is_closed_witness: "graph_closed tiny_execution"
  using compiled_graph_is_closed[OF tiny_compiles tiny_graph_of_execution] by simp



section \<open>The schedule\<close>

text \<open>C25. The schedule of a compiled plan follows the mode: in every schedule that is reachable under it,
  each active run is on the main lane of its plane, and the runtime may dispatch a claim to a plane
  exactly when the mode binds a loop to that plane, the plane has no run, and the mode's concurrency
  policy lets it run beside every plane that has one. The lanes the compiler generates never forbid
  more, and never allow more.\<close>

theorem compiled_schedule_follows_the_mode:
  assumes "compile_compiled_run_plan e requested compiled_at = Inr plan" "sched_reachable plan s"
  shows "(\<forall>r. map_of (rs_active_runs_by_plane s) p = Some r \<longrightarrow> ar_lane_id r = default_lane_id_for_plane p)
    \<and> (dispatch_allowed plan s p \<longleftrightarrow>
        p \<in> fst ` set (plan_loop_ids_by_plane plan) \<and> p \<notin> set (active_planes s)
        \<and> (\<forall>q \<in> set (active_planes s). planes_allowed plan p q))"
proof -
  have inv: "sched_inv plan s" by (rule sched_reachable_inv[OF assms(2) compiled_plan_ok[OF assms(1)]])
  then have "ar_lane_id r = default_lane_id_for_plane p" if "map_of (rs_active_runs_by_plane s) p = Some r" for r
    using that compiled_lane_id[OF assms(1)] by (auto simp: sched_inv_def run_in_place_def)
  with compiled_dispatch_iff[OF assms(1) inv] show ?thesis by blast
qed

text \<open>A task is launched under the small plan; a spec may then be planned beside it.\<close>

definition tiny_launch :: "Timestamp \<Rightarrow> RuntimeSnapshot" where
  "tiny_launch t = activate_run demo_snapshot (claim_active_run (tiny_plan t) demo_snapshot
     (demo_claim WorkItemKind.Task ''t1'') (demo_activation WorkItemKind.Task) ''run-1''
     ''2026-01-02T00:00:00Z'') ''2026-01-02T00:00:00Z''"

lemma tiny_activates:
  "activation_for_claim (tiny_plan t) (demo_claim WorkItemKind.Task i) None = Inr (demo_activation WorkItemKind.Task)"
proof -
  have "activation_from_entry tiny_execution TaskEntry = Inr (demo_activation WorkItemKind.Task)"
    by code_simp
  then show ?thesis
    by (simp add: activation_for_claim_def work_item_activation_for_graph_def demo_claim_def tiny_plan_def)
qed

lemma tiny_idle:
  "no_runs demo_snapshot" "active_planes demo_snapshot = []"
  "active_run_for_plane demo_snapshot Plane.Execution = None"
  by code_simp+

lemma tiny_launched: "sched_reachable (tiny_plan t) (tiny_launch t)"
proof -
  have start: "sched_reachable (tiny_plan t) demo_snapshot" by (rule sched_reachable.start[OF tiny_idle(1)])
  have "sched_inv (tiny_plan t) demo_snapshot"
    by (rule sched_reachable_inv[OF start compiled_plan_ok[OF tiny_compiles]])
  from compiled_dispatch_iff[OF tiny_compiles this]
  have "dispatch_allowed (tiny_plan t) demo_snapshot Plane.Execution"
    by (simp add: tiny_idle(2)) (simp add: tiny_plan_def)
  from sched_step.dispatch_claim[OF this tiny_idle(3) _ tiny_activates] start show ?thesis
    unfolding tiny_launch_def by (rule_tac sched_reachable.step) (auto simp: demo_claim_def)
qed

lemma tiny_launch_planes: "active_planes (tiny_launch t) = [Plane.Execution]"
  by (simp add: active_planes_def tiny_launch_def DISPATCH_ORDER_def update_conv' demo_snapshot_def
      claim_active_run_def demo_activation_def)

lemma compiled_schedule_follows_the_mode_witness:
  "dispatch_allowed (tiny_plan ''2026-01-01T00:00:00Z'') (tiny_launch ''2026-01-01T00:00:00Z'') Plane.Planning
   \<and> \<not> dispatch_allowed (tiny_plan ''2026-01-01T00:00:00Z'') (tiny_launch ''2026-01-01T00:00:00Z'') Plane.Learning"
proof -
  have "planes_allowed (tiny_plan ''2026-01-01T00:00:00Z'') Plane.Planning Plane.Execution"
    by (simp add: planes_allowed_def tiny_plan_def tiny_mode_def pair_in_groups_def)
  then show ?thesis
    using compiled_schedule_follows_the_mode[OF tiny_compiles tiny_launched]
    by (simp add: tiny_launch_planes) (simp add: tiny_plan_def)
qed

end
