(* ===== verification/Text_Lines.thy ===== *)
theory Text_Lines
  imports Prelude
begin

text \<open>Rust's \<^verbatim>\<open>str::lines\<close>: the pieces between line feeds, each without one trailing carriage return;
  a final line feed does not start another line.\<close>

definition strip_cr :: "string \<Rightarrow> string" where
  "strip_cr s = (case strip_suffix [CHR 0x0D] s of None \<Rightarrow> s | Some t \<Rightarrow> t)"

definition str_lines :: "string \<Rightarrow> string list" where
  "str_lines s =
     (let pieces = split_on (CHR 0x0A) s in
      if last pieces = [] then map strip_cr (butlast pieces)
      else map strip_cr (butlast pieces) @ [strip_cr (last pieces)])"

text \<open>\<^verbatim>\<open>Path::strip_prefix\<close> on normalised paths.\<close>

definition path_strip_prefix :: "string \<Rightarrow> string \<Rightarrow> string option" where
  "path_strip_prefix base_dir path =
     (let base = rev (dropWhile (\<lambda>c. c = CHR ''/'') (rev base_dir)) in
      case strip_prefix base path of
        None \<Rightarrow> None
      | Some [] \<Rightarrow> Some []
      | Some (c # rest) \<Rightarrow> if c = CHR ''/'' then Some (dropWhile (\<lambda>c. c = CHR ''/'') rest) else None)"

definition or_else :: "'a option \<Rightarrow> 'a \<Rightarrow> 'a" where
  "or_else x d = (case x of None \<Rightarrow> d | Some v \<Rightarrow> v)"

lemma split_on_no_sep: "c \<notin> set s \<Longrightarrow> split_on c s = [s]"
  by (induction c s rule: split_on.induct) auto

lemma split_on_append: "c \<notin> set s \<Longrightarrow> split_on c (s @ c # t) = s # split_on c t"
  by (induction s) auto

lemma strip_cr_id: "s = [] \<or> last s \<noteq> CHR 0x0D \<Longrightarrow> strip_cr s = s"
  by (auto simp: strip_cr_def strip_suffix_Some split: option.split)

lemma str_lines_single:
  "CHR 0x0A \<notin> set s \<Longrightarrow> s \<noteq> [] \<Longrightarrow> str_lines s = [strip_cr s]"
  by (simp add: str_lines_def split_on_no_sep Let_def)

lemma str_lines_Cons:
  "CHR 0x0A \<notin> set s \<Longrightarrow> str_lines (s @ CHR 0x0A # t) = strip_cr s # str_lines t"
  by (simp add: str_lines_def split_on_append Let_def)

lemma str_lines_Nil [simp]: "str_lines [] = []"
  by (simp add: str_lines_def)

lemma str_lines_eq_Nil: "str_lines s = [] \<longleftrightarrow> s = []"
proof (cases "CHR 0x0A \<in> set s")
  case True
  then obtain u v where "s = u @ CHR 0x0A # v" "CHR 0x0A \<notin> set u" by (metis split_list_first)
  then show ?thesis by (simp add: str_lines_Cons)
next
  case False
  then show ?thesis by (cases "s = []") (simp_all add: str_lines_single)
qed

lemma trimmed_last: "trim t = t \<Longrightarrow> t \<noteq> [] \<Longrightarrow> \<not> ascii_ws (of_char (last t))"
proof -
  assume t: "trim t = t" "t \<noteq> []"
  have "rev t = trim_start_rev (rev (trim_start t))"
    using t(1) by (metis rev_rev_ident trim_def trim_end_def)
  then have "ws_lead_rev (rev t) = 0" by simp
  moreover obtain u c where "t = u @ [c]" using t(2) by (cases t rule: rev_cases) auto
  ultimately show ?thesis by (cases "rev t" rule: ws_lead_rev.cases) (auto split: if_splits)
qed

text \<open>A trimmed text with one line is that line.\<close>

lemma trimmed_single_line:
  assumes "trim t = t" "str_lines t = [m]"
  shows "m = t" "CHR 0x0A \<notin> set t"
proof -
  have ne: "t \<noteq> []" using assms(2) by auto
  note last = trimmed_last[OF assms(1) ne]
  show no: "CHR 0x0A \<notin> set t"
  proof
    assume "CHR 0x0A \<in> set t"
    then obtain u v where "t = u @ CHR 0x0A # v" "CHR 0x0A \<notin> set u" by (metis split_list_first)
    with assms(2) have "v = []" by (simp add: str_lines_Cons str_lines_eq_Nil)
    then show False using last \<open>t = u @ CHR 0x0A # v\<close> by (simp add: ascii_ws_def)
  qed
  have "last t \<noteq> CHR 0x0D" using last by (auto simp: ascii_ws_def)
  then show "m = t" using assms(2) str_lines_single[OF no ne] by (simp add: strip_cr_id)
qed

end
