(* ===== verification/State_Store.thy ===== *)
theory State_Store
  imports Text_Lines Runtime_Documents Snapshot_Validity
begin

text \<open>
  The state store, from \<^verbatim>\<open>src/src/workspace/state_store.rs\<close>: JSON artifacts that are validated on every
  load and save, status markers, and the atomic replacement of a file. The file system is a map from
  paths to contents; the failures of its operations are the record \<open>write_faults\<close>. The JSON parser and
  serialiser are parameters. The counters operations work on the decoded document.
\<close>

section \<open>Errors\<close>

datatype StateStoreError =
    SsWorkspace string
  | SsIo string string
  | SsJsonSyntax string string
  | SsJsonLineSyntax string nat string
  | SsJsonRender string string
  | SsRuntimeJson string RuntimeJsonError
  | SsRuntimeJsonLine string nat RuntimeJsonError
  | SsNonObjectPayload string
  | SsStatusMarker string
  | SsInvalidPath string string

primrec StateStoreError_to_string :: "StateStoreError \<Rightarrow> string" where
  "StateStoreError_to_string (SsWorkspace m) = m"
| "StateStoreError_to_string (SsIo path m) = ''state store filesystem error at '' @ path @ '': '' @ m"
| "StateStoreError_to_string (SsJsonSyntax path m) = ''failed to decode JSON at '' @ path @ '': '' @ m"
| "StateStoreError_to_string (SsJsonLineSyntax path n m) =
     ''failed to decode JSON at '' @ path @ '' line '' @ show_nat n @ '': '' @ m"
| "StateStoreError_to_string (SsJsonRender path m) = ''failed to encode JSON at '' @ path @ '': '' @ m"
| "StateStoreError_to_string (SsRuntimeJson path e) =
     ''runtime JSON contract error at '' @ path @ '': '' @ RuntimeJsonError_to_string e"
| "StateStoreError_to_string (SsRuntimeJsonLine path n e) =
     ''runtime JSON contract error at '' @ path @ '' line '' @ show_nat n @ '': '' @ RuntimeJsonError_to_string e"
| "StateStoreError_to_string (SsNonObjectPayload path) = ''expected object payload in '' @ path"
| "StateStoreError_to_string (SsStatusMarker m) = m"
| "StateStoreError_to_string (SsInvalidPath path m) = ''invalid state path '' @ path @ '': '' @ m"

section \<open>Status markers\<close>

definition status_prefix_error :: StateStoreError where
  "status_prefix_error =
     SsStatusMarker (''status marker must start with '' @ [CHR 0x27] @ ''### '' @ [CHR 0x27])"

definition normalize_status_marker :: "string \<Rightarrow> StateStoreError + string" where
  "normalize_status_marker marker =
     (let normalized = trim marker in
      if normalized = [] then Inl (SsStatusMarker ''status marker cannot be empty'')
      else (case str_lines normalized of
              first # second # _ \<Rightarrow> Inl (SsStatusMarker ''status marker must be a single line'')
            | lines \<Rightarrow>
                let first = (case lines of [] \<Rightarrow> [] | l # _ \<Rightarrow> l) in
                (case strip_prefix ''### '' first of
                   None \<Rightarrow> Inl status_prefix_error
                 | Some token \<Rightarrow>
                     if trim token = [] then Inl status_prefix_error
                     else Inr first)))"

section \<open>Atomic replacement\<close>

record write_faults =
  wf_parent :: "string option"
  wf_create :: "string option"
  wf_write :: "(nat \<times> string) option"
  wf_flush :: "string option"
  wf_sync :: "string option"
  wf_replace :: "string option"

type_synonym file_map = "string \<Rightarrow> string option"

text \<open>The directory of a path, with its separator, and its last component.\<close>

definition path_directory :: "string \<Rightarrow> string" where
  "path_directory path = rev (dropWhile (\<lambda>c. c \<noteq> CHR ''/'') (rev path))"

definition last_component :: "string \<Rightarrow> string" where
  "last_component path = rev (takeWhile (\<lambda>c. c \<noteq> CHR ''/'') (rev path))"

definition temp_path_for :: "nat \<Rightarrow> nat \<Rightarrow> string \<Rightarrow> StateStoreError + string" where
  "temp_path_for process_id counter path =
     (let filename = last_component path in
      if filename \<in> {[], ''.'', ''..''} then Inl (SsInvalidPath path ''state path must have a UTF-8 filename'')
      else Inr (path_directory path @ ''.'' @ filename @ ''.tmp-'' @ show_nat process_id @ ''-'' @ show_nat counter))"

text \<open>The closure that writes the temporary file and renames it: the failure, if any, and the file
  system after each step that changed it.\<close>

definition temp_write_steps ::
  "write_faults \<Rightarrow> string \<Rightarrow> string \<Rightarrow> string \<Rightarrow> file_map \<Rightarrow> string option \<times> file_map list" where
  "temp_write_steps faults temp path payload fs =
     (if wf_create faults \<noteq> None then (wf_create faults, [])
      else if fs temp \<noteq> None then (Some ''File exists (os error 17)'', [])
      else
        let created = fs(temp := Some []); written = fs(temp := Some payload) in
        (case wf_write faults of
           Some (n, m) \<Rightarrow> (Some m, [created, fs(temp := Some (take n payload))])
         | None \<Rightarrow>
        (case wf_flush faults of
           Some m \<Rightarrow> (Some m, [created, written])
         | None \<Rightarrow>
        (case wf_sync faults of
           Some m \<Rightarrow> (Some m, [created, written])
         | None \<Rightarrow>
        (case wf_replace faults of
           Some m \<Rightarrow> (Some m, [created, written])
         | None \<Rightarrow> (None, [created, written, (fs(temp := None))(path := Some payload)]))))))"

definition atomic_write_text_with_replace ::
  "write_faults \<Rightarrow> nat \<Rightarrow> nat \<Rightarrow> string \<Rightarrow> string \<Rightarrow> file_map \<Rightarrow> (StateStoreError + unit) \<times> file_map list" where
  "atomic_write_text_with_replace faults process_id counter path payload fs =
     (if path = [] \<or> path = ''/'' then
        (Inl (SsInvalidPath path ''state path must have a parent directory''), [])
      else (case wf_parent faults of
         Some m \<Rightarrow> (Inl (SsIo (path_directory path) m), [])
       | None \<Rightarrow>
      (case temp_path_for process_id counter path of
         Inl e \<Rightarrow> (Inl e, [])
       | Inr temp \<Rightarrow>
           (case temp_write_steps faults temp path payload fs of
              (None, states) \<Rightarrow> (Inr (), states)
            | (Some m, states) \<Rightarrow> (Inl (SsIo path m), states @ [(last (fs # states))(temp := None)])))))"

definition atomic_write_text ::
  "write_faults \<Rightarrow> nat \<Rightarrow> nat \<Rightarrow> string \<Rightarrow> string \<Rightarrow> file_map \<Rightarrow> (StateStoreError + unit) \<times> file_map list" where
  "atomic_write_text = atomic_write_text_with_replace"

definition set_status_marker ::
  "write_faults \<Rightarrow> nat \<Rightarrow> nat \<Rightarrow> string \<Rightarrow> string \<Rightarrow> file_map \<Rightarrow> (StateStoreError + string) \<times> file_map list" where
  "set_status_marker faults process_id counter path marker fs =
     (case normalize_status_marker marker of
        Inl e \<Rightarrow> (Inl e, [])
      | Inr normalized \<Rightarrow>
          (case atomic_write_text faults process_id counter path (normalized @ [CHR 0x0A]) fs of
             (Inl e, states) \<Rightarrow> (Inl e, states)
           | (Inr _, states) \<Rightarrow> (Inr normalized, states)))"

definition load_status_marker :: "string \<Rightarrow> string + string \<Rightarrow> StateStoreError + string" where
  "load_status_marker path raw = and_then (map_err (SsIo path) raw) normalize_status_marker"

section \<open>JSON artifacts\<close>

definition RuntimeJsonContract_from_json_value ::
  "string \<Rightarrow> (json \<Rightarrow> string + 'a) \<Rightarrow> ('a \<Rightarrow> RuntimeJsonError + 'a) \<Rightarrow> json \<Rightarrow> RuntimeJsonError + 'a" where
  "RuntimeJsonContract_from_json_value artifact decode validate v =
     and_then (decode_json artifact decode v) validate"

definition RuntimeJsonContract_from_json_str ::
  "string \<Rightarrow> (string \<Rightarrow> string + json) \<Rightarrow> (json \<Rightarrow> string + 'a) \<Rightarrow> ('a \<Rightarrow> RuntimeJsonError + 'a) \<Rightarrow> string \<Rightarrow>
   RuntimeJsonError + 'a" where
  "RuntimeJsonContract_from_json_str artifact parse decode validate raw =
     and_then (map_err (JsonDecode artifact) (parse raw))
       (RuntimeJsonContract_from_json_value artifact decode validate)"

definition load_runtime_json_contract ::
  "(string \<Rightarrow> string + json) \<Rightarrow> (json \<Rightarrow> RuntimeJsonError + 'a) \<Rightarrow> string \<Rightarrow> string + string \<Rightarrow> StateStoreError + 'a" where
  "load_runtime_json_contract parse from_json_value path raw =
     and_then (map_err (SsIo path) raw) (\<lambda>text.
     and_then (map_err (SsJsonSyntax path) (parse text)) (\<lambda>v.
     if \<not> json_is_object v then Inl (SsNonObjectPayload path)
     else map_err (SsRuntimeJson path) (from_json_value v)))"

definition save_runtime_json_contract ::
  "('a \<Rightarrow> string + string) \<Rightarrow> ('a \<Rightarrow> RuntimeJsonError + 'a) \<Rightarrow> write_faults \<Rightarrow> nat \<Rightarrow> nat \<Rightarrow> string \<Rightarrow> 'a \<Rightarrow>
   file_map \<Rightarrow> (StateStoreError + unit) \<times> file_map list" where
  "save_runtime_json_contract render validate faults process_id counter path model fs =
     (case and_then (map_err (SsRuntimeJson path) (validate model)) (\<lambda>v. map_err (SsJsonRender path) (render v)) of
        Inl e \<Rightarrow> (Inl e, [])
      | Inr payload \<Rightarrow> atomic_write_text faults process_id counter path (payload @ [CHR 0x0A]) fs)"

text \<open>A contract that only checks.\<close>

definition checked :: "('a \<Rightarrow> 'e + unit) \<Rightarrow> 'a \<Rightarrow> 'e + 'a" where
  "checked check v = map_ok (\<lambda>_. v) (check v)"

section \<open>Recovery counters\<close>

fun bump_troubleshoot ::
  "string \<Rightarrow> WorkItemKind \<Rightarrow> string \<Rightarrow> Timestamp \<Rightarrow> RecoveryCounterEntry list \<Rightarrow>
   (RecoveryCounterEntry \<times> RecoveryCounterEntry list) option" where
  "bump_troubleshoot failure_class kind item_id now [] = None"
| "bump_troubleshoot failure_class kind item_id now (e # es) =
     (if rc_failure_class e = failure_class \<and> rc_work_item_kind e = kind \<and> rc_work_item_id e = item_id then
        let e' = e\<lparr>rc_troubleshoot_attempt_count := Suc (rc_troubleshoot_attempt_count e),
                   rc_last_updated_at := now\<rparr>
        in Some (e', e' # es)
      else map_option (\<lambda>(x, es'). (x, e # es')) (bump_troubleshoot failure_class kind item_id now es))"

definition increment_troubleshoot_attempt ::
  "RecoveryCounters \<Rightarrow> string \<Rightarrow> WorkItemKind \<Rightarrow> string \<Rightarrow> Timestamp \<Rightarrow>
   StateStoreError + RecoveryCounterEntry \<times> RecoveryCounters" where
  "increment_troubleshoot_attempt counters failure_class kind item_id now =
     (if trim failure_class = [] then Inl (SsStatusMarker ''failure_class is required'')
      else if trim item_id = [] then Inl (SsStatusMarker ''work_item_id is required'')
      else (case bump_troubleshoot failure_class kind item_id now (rk_entries counters) of
              Some (e, es) \<Rightarrow> Inr (e, counters\<lparr>rk_entries := es\<rparr>)
            | None \<Rightarrow>
                let e = \<lparr>rc_failure_class = failure_class, rc_work_item_id = item_id,
                         rc_work_item_kind = kind, rc_troubleshoot_attempt_count = 1,
                         rc_mechanic_attempt_count = 0, rc_fix_cycle_count = 0,
                         rc_consultant_invocations = 0, rc_last_updated_at = now\<rparr>
                in Inr (e, counters\<lparr>rk_entries := rk_entries counters @ [e]\<rparr>)))"

section \<open>Facts\<close>

text \<open>The temporary file is never the file itself.\<close>

lemma directory_name: "path_directory path @ last_component path = path"
  unfolding path_directory_def last_component_def
  by (metis rev_append rev_rev_ident takeWhile_dropWhile_id)

lemma temp_path_differs: "temp_path_for process_id counter path = Inr temp \<Longrightarrow> temp \<noteq> path"
proof
  assume t: "temp_path_for process_id counter path = Inr temp" "temp = path"
  have "length path = length (path_directory path) + length (last_component path)"
    using arg_cong[OF directory_name[of path], of length] by simp
  moreover have "length temp > length (path_directory path) + length (last_component path)"
    using t(1) by (auto simp: temp_path_for_def Let_def split: if_splits)
  ultimately show False using t(2) by simp
qed

text \<open>Where a replacement may leave the file system: the target holds its old content or all of the
  new one, and no file other than the target and one temporary file is touched.\<close>

definition replaced_or_kept :: "string \<Rightarrow> string \<Rightarrow> string \<Rightarrow> file_map \<Rightarrow> file_map \<Rightarrow> bool" where
  "replaced_or_kept temp path payload fs g \<longleftrightarrow>
     g path \<in> {fs path, Some payload} \<and> (\<forall>p. p \<noteq> path \<longrightarrow> p \<noteq> temp \<longrightarrow> g p = fs p)"

lemma temp_write_steps_safe:
  assumes "temp \<noteq> path" "temp_write_steps faults temp path payload fs = (result, states)"
  shows "list_all (replaced_or_kept temp path payload fs) states"
    "result = None \<Longrightarrow> last (fs # states) = (fs(temp := None))(path := Some payload) \<and> fs temp = None"
    "result \<noteq> None \<Longrightarrow> last (fs # states) path = fs path"
  using assms
  by (auto simp: temp_write_steps_def replaced_or_kept_def Let_def split: if_splits option.splits)

lemma atomic_write_cases:
  assumes "atomic_write_text_with_replace faults process_id counter path payload fs = (result, states)"
  obtains "states = []" "\<exists>e. result = Inl e"
  | temp m steps where "temp \<noteq> path" "temp_write_steps faults temp path payload fs = (Some m, steps)"
      "result = Inl (SsIo path m)" "states = steps @ [(last (fs # steps))(temp := None)]"
  | temp where "temp \<noteq> path" "temp_write_steps faults temp path payload fs = (None, states)" "result = Inr ()"
proof (cases "temp_path_for process_id counter path")
  case (Inl e)
  then show thesis using assms that(1)
    by (auto simp: atomic_write_text_with_replace_def split: if_splits option.splits)
next
  case (Inr temp)
  note temp = temp_path_differs[OF Inr]
  obtain r steps where steps: "temp_write_steps faults temp path payload fs = (r, steps)" by fastforce
  show thesis
  proof (cases r)
    case None
    then show thesis using assms Inr that(1) that(3)[OF temp] steps
      by (auto simp: atomic_write_text_with_replace_def split: if_splits option.splits)
  next
    case (Some m)
    then show thesis using assms Inr that(1) that(2)[OF temp] steps
      by (auto simp: atomic_write_text_with_replace_def split: if_splits option.splits)
  qed
qed

text \<open>Normalised markers.\<close>

lemma ws_lead_snoc:
  assumes "x \<noteq> []" "of_char c < (128::nat)"
  shows "ws_lead (x @ [c]) = ws_lead x"
  using assms by (cases x rule: ws_lead.cases) (auto simp: ws2_def ws3_def)

lemma trim_snoc_newline:
  assumes "trim x = x" "x \<noteq> []"
  shows "trim (x @ [CHR 0x0A]) = x"
proof -
  have start: "trim_start x = x"
  proof -
    obtain p where p: "trim_start x = trim_end (trim_start x) @ p" using trim_end_prefix by blast
    have "length (trim_start x) \<le> length x" by (rule length_trim_start)
    moreover have "length x \<le> length (trim_start x)" using arg_cong[OF p, of length] assms(1) by (simp add: trim_def)
    moreover have "\<exists>q. x = q @ trim_start x"
    proof (induction x rule: trim_start.induct)
      case (1 s)
      show ?case
      proof (cases "ws_lead s = 0")
        case True
        then show ?thesis by (simp add: trim_start_fixed)
      next
        case False
        with 1 obtain q where "drop (ws_lead s) s = q @ trim_start (drop (ws_lead s) s)" by blast
        then have "s = (take (ws_lead s) s @ q) @ trim_start (drop (ws_lead s) s)"
          by (metis append.assoc append_take_drop_id)
        moreover have "trim_start s = trim_start (drop (ws_lead s) s)"
          using False by (simp add: trim_start.simps[of s])
        ultimately show ?thesis by metis
      qed
    qed
    ultimately show ?thesis by (metis append_Nil append_eq_append_conv le_antisym)
  qed
  have "ws_lead x = 0" using ws_lead_trim_start[of x] by (simp add: start)
  then have "trim_start (x @ [CHR 0x0A]) = x @ [CHR 0x0A]"
    using assms(2) by (simp add: trim_start_fixed ws_lead_snoc)
  moreover have "trim_start_rev (CHR 0x0A # rev x) = trim_start_rev (rev x)"
  proof -
    have "ws_lead_rev (CHR 0x0A # y) = 1" for y
      by (cases "CHR 0x0A # y" rule: ws_lead_rev.cases) (auto simp: ascii_ws_def)
    then show ?thesis by (simp add: trim_start_rev.simps[of "CHR 0x0A # rev x"])
  qed
  ultimately show ?thesis using assms(1) start by (simp add: trim_def trim_end_def)
qed

lemma normalized_marker:
  assumes "normalize_status_marker marker = Inr m"
  shows "m = trim marker" "m \<noteq> []" "str_lines m = [m]" "strip_prefix ''### '' m \<noteq> None"
    "trim (the (strip_prefix ''### '' m)) \<noteq> []"
proof -
  have m: "m \<noteq> []" "str_lines (trim marker) = [m]" "strip_prefix ''### '' m \<noteq> None"
      "trim (the (strip_prefix ''### '' m)) \<noteq> []"
    using assms by (auto simp: normalize_status_marker_def status_prefix_error_def Let_def
        split: if_splits list.splits option.splits)
  with trimmed_single_line(1)[OF trim_idem m(2)]
  show "m = trim marker" "m \<noteq> []" "str_lines m = [m]" "strip_prefix ''### '' m \<noteq> None"
    "trim (the (strip_prefix ''### '' m)) \<noteq> []" by simp_all
qed

lemma marker_reads_back:
  assumes "normalize_status_marker marker = Inr m"
  shows "load_status_marker path (Inr (m @ [CHR 0x0A])) = Inr m"
proof -
  note m = normalized_marker[OF assms]
  have "trim (m @ [CHR 0x0A]) = m" by (rule trim_snoc_newline) (use m(1,2) in simp_all)
  then show ?thesis using m(2-5)
    by (auto simp: load_status_marker_def normalize_status_marker_def Let_def split: option.splits)
qed

section \<open>Artifacts\<close>

text \<open>What a contract promises: validation returns values that it accepts unchanged. Then a saved
  artifact loads back as its validated form, when the codec reads back what it wrote.\<close>

locale json_artifact =
  fixes validate :: "'a \<Rightarrow> RuntimeJsonError + 'a"
  assumes validate_idem: "validate x = Inr y \<Longrightarrow> validate y = Inr y"
begin

lemma saved_loads_back:
  assumes "save_runtime_json_contract render validate faults process_id counter path model fs = (Inr (), states)"
    and codec: "\<And>v text. render v = Inr text \<Longrightarrow>
      \<exists>j. parse (text @ [CHR 0x0A]) = Inr j \<and> json_is_object j \<and> decode j = Inr v"
  shows "\<exists>v text. validate model = Inr v \<and> last (fs # states) path = Some text
    \<and> load_runtime_json_contract parse (RuntimeJsonContract_from_json_value artifact decode validate) path (Inr text)
        = Inr v"
proof -
  obtain v payload where v: "validate model = Inr v" "render v = Inr payload"
    and written: "atomic_write_text faults process_id counter path (payload @ [CHR 0x0A]) fs = (Inr (), states)"
    using assms(1) by (auto simp: save_runtime_json_contract_def and_then_eq_Inr map_err_eq_Inr split: sum.splits)
  have "last (fs # states) path = Some (payload @ [CHR 0x0A])"
    using written unfolding atomic_write_text_def
  proof (cases rule: atomic_write_cases)
    case (3 temp)
    from temp_write_steps_safe(2)[OF 3(1,2)] show ?thesis by (metis fun_upd_same)
  qed simp_all
  moreover obtain j where "parse (payload @ [CHR 0x0A]) = Inr j" "json_is_object j" "decode j = Inr v"
    using codec[OF v(2)] by blast
  ultimately show ?thesis
    using v(1) validate_idem[OF v(1)]
    by (auto simp: load_runtime_json_contract_def RuntimeJsonContract_from_json_value_def decode_json_def)
qed

end

lemma checked_idem: "checked check x = Inr y \<Longrightarrow> checked check y = Inr y"
  by (auto simp: checked_def map_ok_eq_Inr)

interpretation snapshot_artifact: json_artifact "RuntimeSnapshot_validate_contract rfc" for rfc
  by unfold_locales (use validated_snapshot_wf snapshot_wf_fixed in blast)

interpretation counters_artifact: json_artifact "checked RecoveryCounters_validate_contract"
  by unfold_locales (rule checked_idem)

interpretation governance_artifact: json_artifact "checked (UsageGovernanceState_validate_contract rfc)" for rfc
  by unfold_locales (rule checked_idem)

interpretation stage_result_artifact: json_artifact "StageResultEnvelope_validate rfc" for rfc
  by unfold_locales (rule validated_stage_resultE(6))

section \<open>Properties\<close>

text \<open>C26. A file is replaced atomically. Whatever fails, and also when the process dies between two
  steps, the file holds its old content or the complete new one, and only one temporary file beside it
  is ever touched. A replacement that succeeds leaves the new content and no temporary file; one that
  fails leaves every file as it was, apart from removing that temporary file.\<close>

theorem replacement_is_atomic:
  assumes "atomic_write_text faults process_id counter path payload fs = (result, states)"
  shows "\<exists>temp. temp \<noteq> path
    \<and> list_all (\<lambda>g. g path \<in> {fs path, Some payload} \<and> (\<forall>p. p \<noteq> path \<longrightarrow> p \<noteq> temp \<longrightarrow> g p = fs p)) states
    \<and> (case result of
         Inr _ \<Rightarrow> last (fs # states) = (fs(temp := None))(path := Some payload)
       | Inl _ \<Rightarrow> last (fs # states) \<in> {fs, fs(temp := None)})"
  using assms unfolding atomic_write_text_def
proof (cases rule: atomic_write_cases)
  case 1
  moreover obtain temp :: string where "temp \<noteq> path" using temp_path_differs[of 0 0 "path @ ''x''"] by (metis append_self_conv not_Cons_self2)
  ultimately show ?thesis by auto
next
  case (2 temp m steps)
  note safe = temp_write_steps_safe[OF 2(1,2)]
  have all: "list_all (replaced_or_kept temp path payload fs) states"
    using safe(1) safe(3) 2(1) unfolding 2(4)
    by (cases steps rule: rev_cases) (auto simp: replaced_or_kept_def)
  have "last (fs # states) = fs(temp := None)"
    using safe(1) safe(3) 2(1) unfolding 2(4)
    by (cases steps rule: rev_cases) (auto simp: replaced_or_kept_def fun_eq_iff)
  with all 2(1,3) show ?thesis by (intro exI[of _ temp]) (auto simp: replaced_or_kept_def list_all_iff)
next
  case (3 temp)
  with temp_write_steps_safe(1,2)[OF 3(1,2)] show ?thesis by (auto simp: replaced_or_kept_def list_all_iff)
qed

text \<open>The write of the second half fails: the old content stays.\<close>

definition failing_write :: write_faults where
  "failing_write = \<lparr>wf_parent = None, wf_create = None, wf_write = Some (1, ''disk full''), wf_flush = None,
     wf_sync = None, wf_replace = None\<rparr>"

lemma replacement_is_atomic_witness:
  "\<exists>e states. atomic_write_text failing_write 7 0 ''state/a.json'' ''new'' (Map.empty(''state/a.json'' := Some ''old''))
     = (Inl e, states) \<and> length states = 3
     \<and> list_all (\<lambda>g. g ''state/a.json'' \<in> {Some ''old'', Some ''new''}) states"
proof -
  define fs :: file_map where "fs = Map.empty(''state/a.json'' := Some ''old'')"
  obtain r states where run: "atomic_write_text failing_write 7 0 ''state/a.json'' ''new'' fs = (r, states)" by fastforce
  moreover have "length (snd (atomic_write_text failing_write 7 0 ''state/a.json'' ''new'' fs)) = 3"
    "\<not> is_ok (fst (atomic_write_text failing_write 7 0 ''state/a.json'' ''new'' fs))"
    unfolding fs_def by code_simp+
  moreover have "list_all (\<lambda>g. g ''state/a.json'' \<in> {Some ''old'', Some ''new''}) states"
    using replacement_is_atomic[OF run] by (auto simp: fs_def list_all_iff)
  ultimately show ?thesis unfolding fs_def by (cases r) auto
qed

end
