(* ===== verification/Usage_Governance.thy ===== *)
theory Usage_Governance
  imports State_Store
begin

text \<open>
  Usage governance, from \<^verbatim>\<open>src/src/runtime/usage_governance.rs\<close>: the ledger of counted stage results, the
  token and quota rules, and the state that says whether the runtime is paused and when it may resume.

  The time crate is the record \<open>governance_env\<close>: parsing and rendering of RFC 3339 texts, the day of the
  week and midnight of a time. A time is an instant in nanoseconds with its offset; adding a duration
  moves the instant. The files are a record: the state file, the lines of the ledger, and the stage
  results of every run directory. Token counts are \<^verbatim>\<open>u64\<close>, so their sum wraps at \<open>2 ^ 64\<close>.
\<close>

section \<open>Configuration\<close>

record RuntimeTokenRuleConfig =
  tr_rule_id :: string
  tr_window :: UsageGovernanceRuntimeTokenWindow
  tr_metric :: UsageGovernanceRuntimeTokenMetric
  tr_threshold :: nat

record RuntimeTokenRulesConfig =
  tc_enabled :: bool
  tc_rules :: "RuntimeTokenRuleConfig list"

record SubscriptionQuotaRuleConfig =
  qc_rule_id :: string
  qc_window :: UsageGovernanceSubscriptionWindow
  qc_pause_at_percent_used :: f64

record SubscriptionQuotaRulesConfig =
  qu_enabled :: bool
  qu_provider :: UsageGovernanceSubscriptionProvider
  qu_degraded_policy :: UsageGovernanceDegradedPolicy
  qu_refresh_interval_seconds :: nat
  qu_rules :: "SubscriptionQuotaRuleConfig list"

record UsageGovernanceConfig =
  uc_enabled :: bool
  uc_auto_resume :: bool
  uc_evaluation_boundary :: UsageGovernanceEvaluationBoundary
  uc_calendar_timezone :: string
  uc_runtime_token_rules :: RuntimeTokenRulesConfig
  uc_subscription_quota_rules :: SubscriptionQuotaRulesConfig

definition RuntimeTokenRulesConfig_default :: RuntimeTokenRulesConfig where
  "RuntimeTokenRulesConfig_default =
     \<lparr>tc_enabled = True, tc_rules =
        [\<lparr>tr_rule_id = ''rolling-5h-default'', tr_window = UsageGovernanceRuntimeTokenWindow.Rolling5h,
          tr_metric = UsageGovernanceRuntimeTokenMetric.TotalTokens, tr_threshold = 750000\<rparr>,
         \<lparr>tr_rule_id = ''calendar-week-default'', tr_window = UsageGovernanceRuntimeTokenWindow.CalendarWeek,
          tr_metric = UsageGovernanceRuntimeTokenMetric.TotalTokens, tr_threshold = 5000000\<rparr>]\<rparr>"

definition SubscriptionQuotaRulesConfig_default :: SubscriptionQuotaRulesConfig where
  "SubscriptionQuotaRulesConfig_default =
     \<lparr>qu_enabled = False, qu_provider = UsageGovernanceSubscriptionProvider.CodexChatGptOauth,
      qu_degraded_policy = UsageGovernanceDegradedPolicy.FailOpen, qu_refresh_interval_seconds = 60,
      qu_rules =
        [\<lparr>qc_rule_id = ''codex-five-hour-default'', qc_window = UsageGovernanceSubscriptionWindow.FiveHour,
          qc_pause_at_percent_used = Finite 95\<rparr>,
         \<lparr>qc_rule_id = ''codex-weekly-default'', qc_window = UsageGovernanceSubscriptionWindow.Weekly,
          qc_pause_at_percent_used = Finite 95\<rparr>]\<rparr>"

definition UsageGovernanceConfig_default :: UsageGovernanceConfig where
  "UsageGovernanceConfig_default =
     \<lparr>uc_enabled = False, uc_auto_resume = True,
      uc_evaluation_boundary = UsageGovernanceEvaluationBoundary.BetweenStages, uc_calendar_timezone = ''UTC'',
      uc_runtime_token_rules = RuntimeTokenRulesConfig_default,
      uc_subscription_quota_rules = SubscriptionQuotaRulesConfig_default\<rparr>"

section \<open>Times\<close>

record zoned_time =
  zt_instant :: int
  zt_offset :: int

record governance_env =
  ve_parse :: "string \<Rightarrow> string + zoned_time"
  ve_format :: "zoned_time \<Rightarrow> string + string"
  ve_days_from_monday :: "zoned_time \<Rightarrow> nat"
  ve_midnight :: "zoned_time \<Rightarrow> zoned_time"
  ve_canonicalize :: "string \<Rightarrow> string option"
  ve_root :: string
  ve_runs_dir :: string
  ve_state_path :: string
  ve_ledger_path :: string

definition ve_rfc :: "governance_env \<Rightarrow> string \<Rightarrow> string + int" where
  "ve_rfc E v = map_ok zt_instant (ve_parse E v)"

definition seconds :: "nat \<Rightarrow> int" where
  "seconds n = int n * 1000000000"

definition hours :: "nat \<Rightarrow> int" where
  "hours n = seconds (3600 * n)"

definition days :: "nat \<Rightarrow> int" where
  "days n = hours (24 * n)"

definition later :: "zoned_time \<Rightarrow> int \<Rightarrow> zoned_time" where
  "later t d = t\<lparr>zt_instant := zt_instant t + d\<rparr>"

definition parse_timestamp :: "governance_env \<Rightarrow> string \<Rightarrow> Timestamp \<Rightarrow> StateStoreError + zoned_time" where
  "parse_timestamp E f t = map_err (\<lambda>m. SsStatusMarker (f @ '': '' @ m)) (ve_parse E t)"

definition timestamp_from_offset :: "governance_env \<Rightarrow> string \<Rightarrow> zoned_time \<Rightarrow> StateStoreError + Timestamp" where
  "timestamp_from_offset E f t =
     and_then (map_err (\<lambda>m. SsStatusMarker (f @ '': '' @ m)) (ve_format E t)) (\<lambda>rendered.
       map_err (\<lambda>e. SsStatusMarker (WorkDocumentError_to_string e)) (Timestamp_parse (ve_rfc E) f rendered))"

definition calendar_week_start :: "governance_env \<Rightarrow> zoned_time \<Rightarrow> string \<Rightarrow> zoned_time" where
  "calendar_week_start E now timezone = later (ve_midnight E now) (- days (ve_days_from_monday E now))"

section \<open>Token rules\<close>

primrec metric_value :: "UsageGovernanceRuntimeTokenMetric \<Rightarrow> UsageGovernanceLedgerEntry \<Rightarrow> nat" where
  "metric_value UsageGovernanceRuntimeTokenMetric.TotalTokens e = tu_total_tokens (ul_token_usage e)"

definition observed_metric :: "UsageGovernanceLedgerEntry list \<Rightarrow> UsageGovernanceRuntimeTokenMetric \<Rightarrow> nat" where
  "observed_metric es metric = sum_list (map (metric_value metric) es) mod 2 ^ 64"

definition window_cutoff ::
  "governance_env \<Rightarrow> UsageGovernanceRuntimeTokenWindow \<Rightarrow> zoned_time \<Rightarrow> string \<Rightarrow> int option" where
  "window_cutoff E window now timezone =
     (case window of
        UsageGovernanceRuntimeTokenWindow.Rolling5h \<Rightarrow> Some (zt_instant (later now (- hours 5)))
      | UsageGovernanceRuntimeTokenWindow.CalendarWeek \<Rightarrow> Some (zt_instant (calendar_week_start E now timezone))
      | _ \<Rightarrow> None)"

fun entries_after ::
  "governance_env \<Rightarrow> UsageGovernanceRuntimeTokenWindow \<Rightarrow> string option \<Rightarrow> int option \<Rightarrow>
   UsageGovernanceLedgerEntry list \<Rightarrow> StateStoreError + UsageGovernanceLedgerEntry list" where
  "entries_after E window session cutoff [] = Inr []"
| "entries_after E window session cutoff (e # es) =
     (if window = UsageGovernanceRuntimeTokenWindow.DaemonSession \<and> ul_daemon_session_id e \<noteq> session
      then entries_after E window session cutoff es
      else (case cutoff of
              None \<Rightarrow> map_ok ((#) e) (entries_after E window session cutoff es)
            | Some c \<Rightarrow>
                and_then (parse_timestamp E ''stage_completed_at'' (ul_stage_completed_at e)) (\<lambda>completed.
                  if zt_instant completed < c then entries_after E window session cutoff es
                  else map_ok ((#) e) (entries_after E window session cutoff es))))"

definition entries_for_runtime_window ::
  "governance_env \<Rightarrow> UsageGovernanceLedgerEntry list \<Rightarrow> UsageGovernanceRuntimeTokenWindow \<Rightarrow> zoned_time \<Rightarrow>
   string option \<Rightarrow> string \<Rightarrow> StateStoreError + UsageGovernanceLedgerEntry list" where
  "entries_for_runtime_window E es window now session timezone =
     entries_after E window session (window_cutoff E window now timezone) es"

fun rolling_resume ::
  "governance_env \<Rightarrow> UsageGovernanceRuntimeTokenMetric \<Rightarrow> nat \<Rightarrow> nat \<Rightarrow> UsageGovernanceLedgerEntry list \<Rightarrow>
   StateStoreError + Timestamp option" where
  "rolling_resume E metric threshold remaining [] = Inr None"
| "rolling_resume E metric threshold remaining (e # es) =
     (let left = remaining - metric_value metric e in
      and_then (parse_timestamp E ''stage_completed_at'' (ul_stage_completed_at e)) (\<lambda>completed.
        if left < threshold
        then map_ok Some (timestamp_from_offset E ''next_auto_resume_at'' (later completed (hours 5)))
        else rolling_resume E metric threshold left es))"

definition runtime_rule_next_resume ::
  "governance_env \<Rightarrow> UsageGovernanceLedgerEntry list \<Rightarrow> UsageGovernanceRuntimeTokenWindow \<Rightarrow>
   UsageGovernanceRuntimeTokenMetric \<Rightarrow> nat \<Rightarrow> zoned_time \<Rightarrow> string \<Rightarrow> StateStoreError + Timestamp option" where
  "runtime_rule_next_resume E es window metric threshold now timezone =
     (case window of
        UsageGovernanceRuntimeTokenWindow.Rolling5h \<Rightarrow>
          rolling_resume E metric threshold (observed_metric es metric) (sort_key ul_stage_completed_at es)
      | UsageGovernanceRuntimeTokenWindow.CalendarWeek \<Rightarrow>
          map_ok Some (timestamp_from_offset E ''next_auto_resume_at''
            (later (calendar_week_start E now timezone) (days 7)))
      | _ \<Rightarrow> Inr None)"

definition token_rule_blocker ::
  "governance_env \<Rightarrow> UsageGovernanceLedgerEntry list \<Rightarrow> RuntimeTokenRuleConfig \<Rightarrow> zoned_time \<Rightarrow> string option \<Rightarrow>
   string \<Rightarrow> StateStoreError + UsageGovernanceBlocker option" where
  "token_rule_blocker E entries r now session timezone =
     and_then (entries_for_runtime_window E entries (tr_window r) now session timezone) (\<lambda>window_entries.
       let observed = observed_metric window_entries (tr_metric r) in
       if observed < tr_threshold r then Inr None
       else map_ok (\<lambda>next_resume. Some
         \<lparr>ub_source = UsageGovernanceBlockerSource.RuntimeToken, ub_rule_id = tr_rule_id r,
          ub_window = UsageGovernanceRuntimeTokenWindow_as_str (tr_window r),
          ub_observed = f64_of_u64 observed, ub_threshold = f64_of_u64 (tr_threshold r),
          ub_metric = Some (tr_metric r),
          ub_auto_resume_possible =
            (tr_window r \<in> {UsageGovernanceRuntimeTokenWindow.Rolling5h,
                            UsageGovernanceRuntimeTokenWindow.CalendarWeek}),
          ub_next_auto_resume_at = next_resume, ub_detail = []\<rparr>)
        (runtime_rule_next_resume E window_entries (tr_window r) (tr_metric r) (tr_threshold r) now timezone))"

fun token_rule_blockers ::
  "governance_env \<Rightarrow> UsageGovernanceLedgerEntry list \<Rightarrow> RuntimeTokenRuleConfig list \<Rightarrow> zoned_time \<Rightarrow>
   string option \<Rightarrow> string \<Rightarrow> StateStoreError + UsageGovernanceBlocker list" where
  "token_rule_blockers E entries [] now session timezone = Inr []"
| "token_rule_blockers E entries (r # rs) now session timezone =
     and_then (token_rule_blocker E entries r now session timezone) (\<lambda>b.
       map_ok (\<lambda>bs. case b of None \<Rightarrow> bs | Some x \<Rightarrow> x # bs)
         (token_rule_blockers E entries rs now session timezone))"

definition evaluate_runtime_token_rules ::
  "governance_env \<Rightarrow> UsageGovernanceLedgerEntry list \<Rightarrow> RuntimeTokenRulesConfig \<Rightarrow> Timestamp \<Rightarrow> string option \<Rightarrow>
   string \<Rightarrow> StateStoreError + UsageGovernanceBlocker list" where
  "evaluate_runtime_token_rules E entries c now session timezone =
     and_then (parse_timestamp E ''last_evaluated_at'' now) (\<lambda>now_time.
       token_rule_blockers E entries (tc_rules c) now_time session timezone)"

section \<open>Quota rules\<close>

definition quota_rule_blocker ::
  "SubscriptionQuotaStatus \<Rightarrow> SubscriptionQuotaRuleConfig \<Rightarrow> UsageGovernanceBlocker option" where
  "quota_rule_blocker status r =
     (case map_of (qs_windows status) (qc_window r) of
        None \<Rightarrow> None
      | Some reading \<Rightarrow>
          if f64_less (qr_percent_used reading) (qc_pause_at_percent_used r) then None
          else Some
            \<lparr>ub_source = UsageGovernanceBlockerSource.SubscriptionQuota, ub_rule_id = qc_rule_id r,
             ub_window = UsageGovernanceSubscriptionWindow_as_str (qc_window r),
             ub_observed = qr_percent_used reading, ub_threshold = qc_pause_at_percent_used r, ub_metric = None,
             ub_auto_resume_possible = (qr_resets_at reading \<noteq> None),
             ub_next_auto_resume_at = qr_resets_at reading, ub_detail = []\<rparr>)"

definition evaluate_subscription_quota_rules ::
  "SubscriptionQuotaStatus \<Rightarrow> SubscriptionQuotaRulesConfig \<Rightarrow> UsageGovernanceBlocker list" where
  "evaluate_subscription_quota_rules status c =
     (if \<not> qu_enabled c then []
      else if qs_state status = SubscriptionQuotaTelemetryState.Degraded then
        (if qu_degraded_policy c \<noteq> UsageGovernanceDegradedPolicy.FailClosed then []
         else [\<lparr>ub_source = UsageGovernanceBlockerSource.SubscriptionQuota,
                ub_rule_id = ''subscription-quota-degraded-fail-closed'', ub_window = ''degraded'',
                ub_observed = Finite 100, ub_threshold = Finite 100, ub_metric = None,
                ub_auto_resume_possible = False, ub_next_auto_resume_at = None,
                ub_detail = (case qs_detail status of None \<Rightarrow> ''quota_telemetry_unavailable'' | Some d \<Rightarrow> d)\<rparr>])
      else List.map_filter (quota_rule_blocker status) (qu_rules c))"

definition subscription_quota_status_unavailable ::
  "SubscriptionQuotaRulesConfig \<Rightarrow> Timestamp \<Rightarrow> SubscriptionQuotaStatus" where
  "subscription_quota_status_unavailable c now =
     (if \<not> qu_enabled c then
        \<lparr>qs_enabled = False, qs_provider = qu_provider c, qs_state = SubscriptionQuotaTelemetryState.Disabled,
         qs_degraded_policy = Some (qu_degraded_policy c), qs_detail = None, qs_last_refreshed_at = None,
         qs_windows = []\<rparr>
      else
        \<lparr>qs_enabled = True, qs_provider = qu_provider c, qs_state = SubscriptionQuotaTelemetryState.Degraded,
         qs_degraded_policy = Some (qu_degraded_policy c), qs_detail = Some ''quota_telemetry_unavailable'',
         qs_last_refreshed_at = Some now, qs_windows = []\<rparr>)"

definition healthy_subscription_quota_status ::
  "SubscriptionQuotaRulesConfig \<Rightarrow> Timestamp \<Rightarrow>
   (UsageGovernanceSubscriptionWindow \<times> SubscriptionQuotaWindowReading) list \<Rightarrow> SubscriptionQuotaStatus" where
  "healthy_subscription_quota_status c now windows =
     \<lparr>qs_enabled = qu_enabled c, qs_provider = qu_provider c,
      qs_state = (if qu_enabled c then SubscriptionQuotaTelemetryState.Healthy
                  else SubscriptionQuotaTelemetryState.Disabled),
      qs_degraded_policy = Some (qu_degraded_policy c), qs_detail = None, qs_last_refreshed_at = Some now,
      qs_windows = windows\<rparr>"

fun resume_candidates :: "governance_env \<Rightarrow> UsageGovernanceBlocker list \<Rightarrow> StateStoreError + zoned_time list option" where
  "resume_candidates E [] = Inr (Some [])"
| "resume_candidates E (b # bs) =
     (case ub_next_auto_resume_at b of
        None \<Rightarrow> Inr None
      | Some t \<Rightarrow> and_then (parse_timestamp E ''next_auto_resume_at'' t) (\<lambda>x.
          map_ok (map_option ((#) x)) (resume_candidates E bs)))"

text \<open>\<^verbatim>\<open>Iterator::min\<close> on times compares instants and returns the first of equal elements.\<close>

fun earliest :: "zoned_time list \<Rightarrow> zoned_time option" where
  "earliest [] = None"
| "earliest (t # ts) =
     (case earliest ts of None \<Rightarrow> Some t | Some u \<Rightarrow> Some (if zt_instant u < zt_instant t then u else t))"

definition next_auto_resume_at ::
  "governance_env \<Rightarrow> UsageGovernanceBlocker list \<Rightarrow> StateStoreError + Timestamp option" where
  "next_auto_resume_at E blockers =
     (if blockers = [] \<or> list_ex (\<lambda>b. \<not> ub_auto_resume_possible b) blockers then Inr None
      else and_then (resume_candidates E blockers) (\<lambda>candidates.
        (case Option.bind candidates earliest of
           None \<Rightarrow> Inr None
         | Some t \<Rightarrow> map_ok Some (timestamp_from_offset E ''next_auto_resume_at'' t))))"

end
