(* ===== verification/Governance_Control.thy ===== *)
theory Governance_Control
  imports Usage_Governance
begin

text \<open>
  The ledger and the evaluation of usage governance (\<^verbatim>\<open>src/src/runtime/usage_governance.rs\<close>,
  \<^verbatim>\<open>src/src/workspace/state_store.rs\<close>), its effect on the pause sources of the snapshot
  (\<^verbatim>\<open>src/src/runtime/tick.rs\<close>), and the operator's pause and resume, directly
  (\<^verbatim>\<open>src/src/workspace/runtime_control.rs\<close>) or through the mailbox (\<^verbatim>\<open>tick.rs\<close>). The events the
  evaluation writes to the runtime log are left out.
\<close>

section \<open>Files\<close>

text \<open>A line of the ledger is blank, not JSON, JSON of another shape, or an entry. A stage-result file
  is a name with what reading and decoding it gives.\<close>

datatype ledger_line =
    BlankLine
  | SyntaxErrorLine string
  | DecodeErrorLine RuntimeJsonError
  | EntryLine UsageGovernanceLedgerEntry

record stage_result_file =
  sf_name :: string
  sf_is_file :: bool
  sf_result :: "StageResultEnvelope option"

record governance_files =
  gf_state :: "(StateStoreError + UsageGovernanceState) option"
  gf_ledger :: "ledger_line list option"
  gf_runs :: "(string \<times> stage_result_file list) list"

type_synonym 'a governed = "(StateStoreError + 'a) \<times> governance_files"

definition disabled_state :: "Timestamp \<Rightarrow> UsageGovernanceState" where
  "disabled_state now =
     \<lparr>us_version = ''1.0'', us_enabled = False, us_auto_resume = True, us_auto_resume_possible = True,
      us_evaluation_boundary = UsageGovernanceEvaluationBoundary.BetweenStages, us_calendar_timezone = ''UTC'',
      us_daemon_session_id = None, us_last_evaluated_at = now, us_active_blockers = [],
      us_paused_by_governance = False, us_next_auto_resume_at = None,
      us_subscription_quota_status = SubscriptionQuotaStatus_default\<rparr>"

definition load_usage_governance_state :: "governance_env \<Rightarrow> governance_files \<Rightarrow> StateStoreError + UsageGovernanceState" where
  "load_usage_governance_state E f =
     (case gf_state f of
        None \<Rightarrow> map_err (\<lambda>e. SsStatusMarker (WorkDocumentError_to_string e))
                  (map_ok disabled_state (Timestamp_parse (ve_rfc E) ''last_evaluated_at'' ''1970-01-01T00:00:00Z''))
      | Some content \<Rightarrow> and_then content (\<lambda>s.
          map_err (SsRuntimeJson (ve_state_path E)) (checked (UsageGovernanceState_validate_contract (ve_rfc E)) s)))"

definition save_usage_governance_state :: "governance_env \<Rightarrow> UsageGovernanceState \<Rightarrow> governance_files \<Rightarrow> unit governed" where
  "save_usage_governance_state E s f =
     (case UsageGovernanceState_validate_contract (ve_rfc E) s of
        Inl e \<Rightarrow> (Inl (SsRuntimeJson (ve_state_path E) e), f)
      | Inr _ \<Rightarrow> (Inr (), f\<lparr>gf_state := Some (Inr s)\<rparr>))"

fun load_ledger_lines ::
  "governance_env \<Rightarrow> nat \<Rightarrow> ledger_line list \<Rightarrow> StateStoreError + UsageGovernanceLedgerEntry list" where
  "load_ledger_lines E n [] = Inr []"
| "load_ledger_lines E n (BlankLine # ls) = load_ledger_lines E (Suc n) ls"
| "load_ledger_lines E n (SyntaxErrorLine m # ls) = Inl (SsJsonLineSyntax (ve_ledger_path E) n m)"
| "load_ledger_lines E n (DecodeErrorLine e # ls) = Inl (SsRuntimeJsonLine (ve_ledger_path E) n e)"
| "load_ledger_lines E n (EntryLine e # ls) =
     and_then (map_err (SsRuntimeJsonLine (ve_ledger_path E) n)
         (checked (UsageGovernanceLedgerEntry_validate_contract (ve_rfc E)) e)) (\<lambda>x.
       map_ok ((#) x) (load_ledger_lines E (Suc n) ls))"

definition load_usage_governance_ledger ::
  "governance_env \<Rightarrow> governance_files \<Rightarrow> StateStoreError + UsageGovernanceLedgerEntry list" where
  "load_usage_governance_ledger E f =
     (case gf_ledger f of None \<Rightarrow> Inr [] | Some ls \<Rightarrow> load_ledger_lines E 1 ls)"

definition append_usage_governance_ledger_entry ::
  "governance_env \<Rightarrow> UsageGovernanceLedgerEntry \<Rightarrow> governance_files \<Rightarrow> unit governed" where
  "append_usage_governance_ledger_entry E e f =
     (case UsageGovernanceLedgerEntry_validate_contract (ve_rfc E) e of
        Inl x \<Rightarrow> (Inl (SsRuntimeJson (ve_ledger_path E) x), f)
      | Inr _ \<Rightarrow> (Inr (), f\<lparr>gf_ledger :=
            Some ((case gf_ledger f of None \<Rightarrow> [] | Some ls \<Rightarrow> ls) @ [EntryLine e])\<rparr>))"

section \<open>Counting stage results\<close>

definition should_record_runtime_tokens :: "UsageGovernanceConfig \<Rightarrow> StageResultEnvelope \<Rightarrow> bool" where
  "should_record_runtime_tokens c r \<longleftrightarrow>
     uc_enabled c \<and> tc_enabled (uc_runtime_token_rules c) \<and> sr_token_usage r \<noteq> None"

definition stage_result_dedupe_key :: "governance_env \<Rightarrow> string \<Rightarrow> string" where
  "stage_result_dedupe_key E path =
     (let base_dir = or_else (ve_canonicalize E (ve_root E)) (ve_root E);
          p = or_else (ve_canonicalize E path) path in
      map (\<lambda>c. if c = CHR 0x5C then CHR ''/'' else c) (or_else (path_strip_prefix base_dir p) p))"

definition ledger_entry_from_stage_result ::
  "governance_env \<Rightarrow> StageResultEnvelope \<Rightarrow> string \<Rightarrow> Timestamp \<Rightarrow> string option \<Rightarrow>
   StateStoreError + UsageGovernanceLedgerEntry" where
  "ledger_entry_from_stage_result E r path counted_at session =
     (let key = stage_result_dedupe_key E path in
      case sr_token_usage r of
        None \<Rightarrow> Inl (SsStatusMarker ''stage result token_usage is required for ledger entries'')
      | Some usage \<Rightarrow> Inr
          \<lparr>ul_dedupe_key = key, ul_counted_at = counted_at, ul_stage_completed_at = sr_completed_at r,
           ul_plane = sr_plane r, ul_run_id = sr_run_id r, ul_stage_id = sr_stage_kind_id r,
           ul_work_item_kind = sr_work_item_kind r, ul_work_item_id = sr_work_item_id r, ul_token_usage = usage,
           ul_stage_result_path = key, ul_daemon_session_id = session\<rparr>)"

definition record_stage_result_usage ::
  "governance_env \<Rightarrow> UsageGovernanceConfig \<Rightarrow> StageResultEnvelope \<Rightarrow> string \<Rightarrow> Timestamp \<Rightarrow> string option \<Rightarrow>
   governance_files \<Rightarrow> bool governed" where
  "record_stage_result_usage E c r path counted_at session f =
     (if \<not> should_record_runtime_tokens c r then (Inr False, f)
      else (case load_usage_governance_ledger E f of
              Inl e \<Rightarrow> (Inl e, f)
            | Inr es \<Rightarrow>
                if stage_result_dedupe_key E path \<in> set (map ul_dedupe_key es) then (Inr False, f)
                else (case ledger_entry_from_stage_result E r path counted_at session of
                        Inl e \<Rightarrow> (Inl e, f)
                      | Inr entry \<Rightarrow>
                          (case append_usage_governance_ledger_entry E entry f of
                             (Inl e, f1) \<Rightarrow> (Inl e, f1)
                           | (Inr _, f1) \<Rightarrow> (Inr True, f1)))))"

text \<open>\<^verbatim>\<open>path.extension() == "json"\<close>.\<close>

definition has_json_extension :: "string \<Rightarrow> bool" where
  "has_json_extension name \<longleftrightarrow> (case strip_suffix ''.json'' name of None \<Rightarrow> False | Some stem \<Rightarrow> stem \<noteq> [])"

text \<open>The discovered files with their content, in the order of their paths, which compares components.\<close>

definition stage_result_paths :: "governance_env \<Rightarrow> governance_files \<Rightarrow> (string \<times> StageResultEnvelope option) list" where
  "stage_result_paths E f =
     map (\<lambda>(cs, r). (ve_runs_dir E @ ''/'' @ join_with ''/'' cs, r))
       (sort_key fst (concat (map (\<lambda>(run, files).
          map (\<lambda>x. ([run, ''stage_results'', sf_name x], sf_result x))
            (filter (\<lambda>x. sf_is_file x \<and> has_json_extension (sf_name x)) files)) (gf_runs f))))"

fun reconcile_entries ::
  "governance_env \<Rightarrow> UsageGovernanceConfig \<Rightarrow> Timestamp \<Rightarrow> string option \<Rightarrow>
   (string \<times> StageResultEnvelope option) list \<Rightarrow> string set \<Rightarrow> nat \<Rightarrow> governance_files \<Rightarrow> nat governed" where
  "reconcile_entries E c counted_at session [] keys repaired f = (Inr repaired, f)"
| "reconcile_entries E c counted_at session ((path, content) # rest) keys repaired f =
     (let key = stage_result_dedupe_key E path in
      if key \<in> keys then reconcile_entries E c counted_at session rest keys repaired f
      else (case content of
        None \<Rightarrow> reconcile_entries E c counted_at session rest keys repaired f
      | Some r \<Rightarrow>
          if \<not> should_record_runtime_tokens c r
          then reconcile_entries E c counted_at session rest keys repaired f
          else (case ledger_entry_from_stage_result E r path counted_at session of
                  Inl e \<Rightarrow> (Inl e, f)
                | Inr entry \<Rightarrow>
                    (case append_usage_governance_ledger_entry E entry f of
                       (Inl e, f1) \<Rightarrow> (Inl e, f1)
                     | (Inr _, f1) \<Rightarrow>
                         reconcile_entries E c counted_at session rest (insert key keys) (Suc repaired) f1))))"

definition reconcile_usage_ledger_from_stage_results ::
  "governance_env \<Rightarrow> UsageGovernanceConfig \<Rightarrow> Timestamp \<Rightarrow> string option \<Rightarrow> governance_files \<Rightarrow> nat governed" where
  "reconcile_usage_ledger_from_stage_results E c counted_at session f =
     (if \<not> uc_enabled c \<or> \<not> tc_enabled (uc_runtime_token_rules c) then (Inr 0, f)
      else (case load_usage_governance_ledger E f of
              Inl e \<Rightarrow> (Inl e, f)
            | Inr es \<Rightarrow>
                reconcile_entries E c counted_at session (stage_result_paths E f) (set (map ul_dedupe_key es)) 0 f))"

section \<open>Evaluation\<close>

definition subscription_quota_status_for_evaluation ::
  "governance_env \<Rightarrow> SubscriptionQuotaRulesConfig \<Rightarrow> Timestamp \<Rightarrow> governance_files \<Rightarrow>
   StateStoreError + SubscriptionQuotaStatus" where
  "subscription_quota_status_for_evaluation E c now f =
     (if \<not> qu_enabled c then Inr (subscription_quota_status_unavailable c now)
      else and_then (load_usage_governance_state E f) (\<lambda>previous.
        (case qs_last_refreshed_at (us_subscription_quota_status previous) of
           None \<Rightarrow> Inr (subscription_quota_status_unavailable c now)
         | Some last_refreshed_at \<Rightarrow>
             and_then (parse_timestamp E ''last_evaluated_at'' now) (\<lambda>now_time.
             and_then (parse_timestamp E ''subscription_quota_status.last_refreshed_at'' last_refreshed_at) (\<lambda>refreshed.
               if zt_instant now_time - zt_instant refreshed
                    < seconds (min (qu_refresh_interval_seconds c) (2 ^ 63 - 1))
               then Inr (us_subscription_quota_status previous)
               else Inr (subscription_quota_status_unavailable c now))))))"

definition governance_verdict ::
  "governance_env \<Rightarrow> UsageGovernanceConfig \<Rightarrow> Timestamp \<Rightarrow> string option \<Rightarrow> bool \<Rightarrow>
   SubscriptionQuotaStatus option \<Rightarrow> governance_files \<Rightarrow> StateStoreError + UsageGovernanceState" where
  "governance_verdict E c now session paused subscription_status f =
     and_then (load_usage_governance_ledger E f) (\<lambda>entries.
     and_then (if tc_enabled (uc_runtime_token_rules c)
               then evaluate_runtime_token_rules E entries (uc_runtime_token_rules c) now session
                      (uc_calendar_timezone c)
               else Inr []) (\<lambda>token_blockers.
     and_then (case subscription_status of
                 Some status \<Rightarrow> Inr status
               | None \<Rightarrow> subscription_quota_status_for_evaluation E (uc_subscription_quota_rules c) now f)
       (\<lambda>quota_status.
     let blockers = token_blockers
           @ evaluate_subscription_quota_rules quota_status (uc_subscription_quota_rules c) in
     map_ok (\<lambda>next_resume.
       \<lparr>us_version = ''1.0'', us_enabled = True, us_auto_resume = uc_auto_resume c,
        us_auto_resume_possible = list_all ub_auto_resume_possible blockers,
        us_evaluation_boundary = uc_evaluation_boundary c, us_calendar_timezone = uc_calendar_timezone c,
        us_daemon_session_id = session, us_last_evaluated_at = now, us_active_blockers = blockers,
        us_paused_by_governance = (paused \<or> blockers \<noteq> []), us_next_auto_resume_at = next_resume,
        us_subscription_quota_status = quota_status\<rparr>)
       (next_auto_resume_at E blockers))))"

definition evaluate_usage_governance ::
  "governance_env \<Rightarrow> UsageGovernanceConfig \<Rightarrow> Timestamp \<Rightarrow> string option \<Rightarrow> bool \<Rightarrow>
   (StageResultEnvelope \<times> string) option \<Rightarrow> SubscriptionQuotaStatus option \<Rightarrow> governance_files \<Rightarrow>
   UsageGovernanceState governed" where
  "evaluate_usage_governance E c now session paused stage_result subscription_status f =
     (if \<not> uc_enabled c then
        (let state = (disabled_state now)\<lparr>us_auto_resume := uc_auto_resume c,
               us_calendar_timezone := uc_calendar_timezone c, us_daemon_session_id := session\<rparr> in
         if gf_state f \<noteq> None \<or> paused then
           (case save_usage_governance_state E state f of
              (Inl e, f1) \<Rightarrow> (Inl e, f1) | (Inr _, f1) \<Rightarrow> (Inr state, f1))
         else (Inr state, f))
      else (case (case stage_result of
                    None \<Rightarrow> (Inr False, f)
                  | Some (r, path) \<Rightarrow> record_stage_result_usage E c r path now session f) of
         (Inl e, f1) \<Rightarrow> (Inl e, f1)
       | (Inr _, f1) \<Rightarrow>
           (case reconcile_usage_ledger_from_stage_results E c now session f1 of
              (Inl e, f2) \<Rightarrow> (Inl e, f2)
            | (Inr _, f2) \<Rightarrow>
                (case governance_verdict E c now session paused subscription_status f2 of
                   Inl e \<Rightarrow> (Inl e, f2)
                 | Inr state \<Rightarrow>
                     (case save_usage_governance_state E state f2 of
                        (Inl e, f3) \<Rightarrow> (Inl e, f3) | (Inr _, f3) \<Rightarrow> (Inr state, f3))))))"

section \<open>Pause sources\<close>

definition has_pause_source :: "RuntimeSnapshot \<Rightarrow> PauseSource \<Rightarrow> bool" where
  "has_pause_source s source \<longleftrightarrow> source \<in> set (rs_pause_sources s)"

definition ordered_pause_sources :: "PauseSource list \<Rightarrow> PauseSource list" where
  "ordered_pause_sources sources =
     (if OperatorPause \<in> set sources then [OperatorPause] else [])
     @ (if UsageGovernancePause \<in> set sources then [UsageGovernancePause] else [])"

definition add_governance_pause_source :: "RuntimeSnapshot \<Rightarrow> RuntimeSnapshot" where
  "add_governance_pause_source s =
     s\<lparr>rs_pause_sources := ordered_pause_sources
         (if UsageGovernancePause \<in> set (rs_pause_sources s) then rs_pause_sources s
          else rs_pause_sources s @ [UsageGovernancePause]),
       rs_paused := True\<rparr>"

definition remove_governance_pause_source :: "RuntimeSnapshot \<Rightarrow> RuntimeSnapshot" where
  "remove_governance_pause_source s =
     (let sources = ordered_pause_sources (filter (\<lambda>x. x \<noteq> UsageGovernancePause) (rs_pause_sources s)) in
      s\<lparr>rs_pause_sources := sources, rs_paused := (sources \<noteq> [])\<rparr>)"

definition should_evaluate_usage_governance ::
  "UsageGovernanceConfig \<Rightarrow> governance_files \<Rightarrow> RuntimeSnapshot \<Rightarrow> bool" where
  "should_evaluate_usage_governance c f s \<longleftrightarrow>
     uc_enabled c \<or> gf_state f \<noteq> None \<or> has_pause_source s UsageGovernancePause"

definition apply_governance_state :: "UsageGovernanceConfig \<Rightarrow> UsageGovernanceState \<Rightarrow> RuntimeSnapshot \<Rightarrow> RuntimeSnapshot" where
  "apply_governance_state c state s =
     (if \<not> uc_enabled c then
        (if has_pause_source s UsageGovernancePause then remove_governance_pause_source s else s)
      else if us_active_blockers state \<noteq> [] then add_governance_pause_source s
      else if has_pause_source s UsageGovernancePause \<and> uc_auto_resume c then remove_governance_pause_source s
      else s)"

text \<open>The evaluation at the start of a cycle or after a stage. The previous state and the length of the
  ledger are read first, for the events; an error there ends the evaluation. \<open>snapshot_saves\<close> is the
  outcome of saving the changed snapshot.\<close>

definition evaluate_and_apply_usage_governance ::
  "governance_env \<Rightarrow> UsageGovernanceConfig \<Rightarrow> string \<Rightarrow> (RuntimeSnapshot \<Rightarrow> StateStoreError + unit) \<Rightarrow>
   Timestamp \<Rightarrow> (StageResultEnvelope \<times> string) option \<Rightarrow> governance_files \<times> RuntimeSnapshot \<Rightarrow>
   (StateStoreError + unit) \<times> governance_files \<times> RuntimeSnapshot" where
  "evaluate_and_apply_usage_governance E c session_id snapshot_saves now stage_result = (\<lambda>(f, s).
     if \<not> should_evaluate_usage_governance c f s then (Inr (), f, s)
     else (case load_usage_governance_state E f of
       Inl e \<Rightarrow> (Inl e, f, s)
     | Inr _ \<Rightarrow>
     (case (if stage_result = None \<and> uc_enabled c then map_ok (\<lambda>_. ()) (load_usage_governance_ledger E f)
            else Inr ()) of
       Inl e \<Rightarrow> (Inl e, f, s)
     | Inr _ \<Rightarrow>
     (case evaluate_usage_governance E c now (Some session_id) (has_pause_source s UsageGovernancePause)
             stage_result None f of
       (Inl e, f1) \<Rightarrow> (Inl e, f1, s)
     | (Inr state, f1) \<Rightarrow>
         let s1 = apply_governance_state c state s;
             s2 = (if s1 = s then s else s1\<lparr>rs_updated_at := now\<rparr>);
             paused = has_pause_source s2 UsageGovernancePause in
         (case (if s1 = s then Inr () else snapshot_saves s2) of
            Inl e \<Rightarrow> (Inl e, f1, s2)
          | Inr _ \<Rightarrow>
              if us_paused_by_governance state \<noteq> paused then
                (case save_usage_governance_state E (state\<lparr>us_paused_by_governance := paused\<rparr>) f1 of
                   (r, f2) \<Rightarrow> (r, f2, s2))
              else (Inr (), f1, s2))))))"

section \<open>The operator's pause and resume\<close>

definition pause_direct :: "Timestamp \<Rightarrow> RuntimeSnapshot \<Rightarrow> bool \<times> RuntimeSnapshot" where
  "pause_direct now s =
     (\<not> has_pause_source s OperatorPause,
      s\<lparr>rs_pause_sources := ordered_pause_sources (rs_pause_sources s @ [OperatorPause]),
        rs_paused := True, rs_updated_at := now\<rparr>)"

definition resume_direct ::
  "governance_env \<Rightarrow> governance_files \<Rightarrow> Timestamp \<Rightarrow> RuntimeSnapshot \<Rightarrow>
   StateStoreError + (bool \<times> string) \<times> RuntimeSnapshot" where
  "resume_direct E f now s =
     map_ok (\<lambda>governance_state.
       let changed = has_pause_source s OperatorPause;
           governance_blocked = has_pause_source s UsageGovernancePause \<or> us_active_blockers governance_state \<noteq> [];
           s1 = (if governance_blocked
                 then s\<lparr>rs_pause_sources := ordered_pause_sources (rs_pause_sources s @ [UsageGovernancePause]),
                        rs_paused := True\<rparr>
                 else s);
           sources = ordered_pause_sources (filter (\<lambda>x. x \<noteq> OperatorPause) (rs_pause_sources s1));
           s2 = s1\<lparr>rs_pause_sources := sources, rs_paused := (sources \<noteq> []), rs_updated_at := now\<rparr>
       in (if governance_blocked then (False, ''runtime resume blocked by usage governance'')
           else (changed, ''runtime resumed directly''), s2))
     (load_usage_governance_state E f)"

definition mailbox_pause :: "Timestamp \<Rightarrow> RuntimeSnapshot \<Rightarrow> RuntimeSnapshot" where
  "mailbox_pause now s =
     s\<lparr>rs_pause_sources :=
         (if OperatorPause \<in> set (rs_pause_sources s) then rs_pause_sources s
          else rs_pause_sources s @ [OperatorPause]),
       rs_paused := True, rs_updated_at := now\<rparr>"

definition mailbox_resume :: "Timestamp \<Rightarrow> RuntimeSnapshot \<Rightarrow> RuntimeSnapshot" where
  "mailbox_resume now s =
     (let sources = filter (\<lambda>x. x \<noteq> OperatorPause) (rs_pause_sources s) in
      s\<lparr>rs_pause_sources := sources, rs_paused := (sources \<noteq> []), rs_updated_at := now\<rparr>)"

definition mailbox_stop :: "Timestamp \<Rightarrow> RuntimeSnapshot \<Rightarrow> RuntimeSnapshot" where
  "mailbox_stop now s = s\<lparr>rs_stop_requested := True, rs_updated_at := now\<rparr>"

definition runtime_dispatch_paused :: "RuntimeSnapshot \<Rightarrow> bool" where
  "runtime_dispatch_paused s = rs_paused s"

definition runtime_stop_requested :: "RuntimeSnapshot \<Rightarrow> bool" where
  "runtime_stop_requested s = rs_stop_requested s"

end
