(* ===== verification/Governance_Facts.thy ===== *)
theory Governance_Facts
  imports Governance_Control "HOL-Library.Multiset"
begin

text \<open>
  What usage governance guarantees: the ledger counts a stage result once, a token rule blocks exactly
  when its window exceeds the threshold, and a pause source is only cleared by its owner.
\<close>

section \<open>The ledger\<close>

definition ledger_lines :: "governance_files \<Rightarrow> ledger_line list" where
  "ledger_lines f = (case gf_ledger f of None \<Rightarrow> [] | Some ls \<Rightarrow> ls)"

lemma load_ledger_eq: "load_usage_governance_ledger E f = load_ledger_lines E 1 (ledger_lines f)"
  by (simp add: load_usage_governance_ledger_def ledger_lines_def split: option.split)

lemma load_ledger_lines_snoc:
  assumes "load_ledger_lines E n ls = Inr es" "UsageGovernanceLedgerEntry_validate_contract (ve_rfc E) e = Inr ()"
  shows "load_ledger_lines E n (ls @ [EntryLine e]) = Inr (es @ [e])"
  using assms(1)
proof (induction ls arbitrary: n es)
  case Nil
  then show ?case using assms(2) by (simp add: checked_def)
next
  case (Cons l ls)
  then show ?case by (cases l) (auto simp: and_then_eq_Inr map_ok_eq_Inr map_err_eq_Inr)
qed

definition recordable :: "UsageGovernanceConfig \<Rightarrow> StageResultEnvelope option \<Rightarrow> bool" where
  "recordable c content \<longleftrightarrow> (case content of None \<Rightarrow> False | Some r \<Rightarrow> should_record_runtime_tokens c r)"

lemma ledger_entry_key:
  "ledger_entry_from_stage_result E r path counted_at session = Inr entry \<Longrightarrow>
    ul_dedupe_key entry = stage_result_dedupe_key E path"
  by (auto simp: ledger_entry_from_stage_result_def Let_def split: option.splits)

text \<open>What counting adds to the ledger: new entries with new, distinct keys, each made from one of the
  stage results.\<close>

definition made_entries ::
  "governance_env \<Rightarrow> UsageGovernanceConfig \<Rightarrow> Timestamp \<Rightarrow> string option \<Rightarrow>
   (string \<times> StageResultEnvelope option) list \<Rightarrow> UsageGovernanceLedgerEntry set" where
  "made_entries E c counted_at session results =
     {e. \<exists>x \<in> set results. \<exists>r. snd x = Some r \<and> recordable c (snd x)
       \<and> ledger_entry_from_stage_result E r (fst x) counted_at session = Inr e}"

definition counts_new ::
  "governance_env \<Rightarrow> UsageGovernanceConfig \<Rightarrow> Timestamp \<Rightarrow> string option \<Rightarrow>
   (string \<times> StageResultEnvelope option) list \<Rightarrow> string set \<Rightarrow> UsageGovernanceLedgerEntry list \<Rightarrow> bool" where
  "counts_new E c counted_at session results keys new \<longleftrightarrow>
     distinct (map ul_dedupe_key new) \<and> ul_dedupe_key ` set new \<inter> keys = {}
     \<and> (\<forall>x \<in> set results. recordable c (snd x) \<longrightarrow>
          stage_result_dedupe_key E (fst x) \<in> keys \<union> ul_dedupe_key ` set new)
     \<and> set new \<subseteq> made_entries E c counted_at session results"

lemma made_entries_Cons:
  "made_entries E c counted_at session results \<subseteq> made_entries E c counted_at session (x # results)"
  by (auto simp: made_entries_def)

lemma counts_new_skip:
  assumes "counts_new E c counted_at session results keys new"
    "recordable c content \<longrightarrow> stage_result_dedupe_key E path \<in> keys"
  shows "counts_new E c counted_at session ((path, content) # results) keys new"
  using assms made_entries_Cons[of E c counted_at session results "(path, content)"]
  by (simp add: counts_new_def) (elim conjE, erule (1) subset_trans)

lemma counts_new_Cons:
  assumes "counts_new E c counted_at session results (insert (ul_dedupe_key e) keys) new"
    "stage_result_dedupe_key E path \<notin> keys" "recordable c (Some r)"
    "ledger_entry_from_stage_result E r path counted_at session = Inr e"
  shows "counts_new E c counted_at session ((path, Some r) # results) keys (e # new)"
proof -
  have "e \<in> made_entries E c counted_at session ((path, Some r) # results)"
    using assms(3,4) by (simp add: made_entries_def)
  then show ?thesis
    using assms(1,2) ledger_entry_key[OF assms(4)]
      made_entries_Cons[of E c counted_at session results "(path, Some r)"]
    by (simp add: counts_new_def) (elim conjE, erule (1) subset_trans)
qed

lemma appended_entry:
  assumes "append_usage_governance_ledger_entry E e f = (Inr u, f')"
    "load_usage_governance_ledger E f = Inr es"
  shows "f' = f\<lparr>gf_ledger := Some (ledger_lines f @ [EntryLine e])\<rparr>"
    "load_usage_governance_ledger E f' = Inr (es @ [e])"
  using assms load_ledger_lines_snoc[of E 1 "ledger_lines f" es e]
  by (auto simp: append_usage_governance_ledger_entry_def load_ledger_eq ledger_lines_def split: sum.splits)

lemma reconcile_entries_counts:
  assumes "reconcile_entries E c counted_at session results keys repaired f = (Inr n, f')"
    "load_usage_governance_ledger E f = Inr es"
  shows "\<exists>new. load_usage_governance_ledger E f' = Inr (es @ new) \<and> n = repaired + length new
    \<and> ledger_lines f' = ledger_lines f @ map EntryLine new \<and> gf_runs f' = gf_runs f \<and> gf_state f' = gf_state f
    \<and> (new = [] \<longrightarrow> f' = f) \<and> counts_new E c counted_at session results keys new"
  using assms
proof (induction results arbitrary: keys repaired f es)
  case Nil
  then show ?case by (auto simp: counts_new_def)
next
  case (Cons x results)
  obtain path content where x: "x = (path, content)" by fastforce
  show ?case
  proof (cases "stage_result_dedupe_key E path \<in> keys \<or> \<not> recordable c content")
    case True
    then have "reconcile_entries E c counted_at session results keys repaired f = (Inr n, f')"
      using Cons.prems(1) by (auto simp: x recordable_def Let_def split: if_splits option.splits)
    from Cons.IH[OF this Cons.prems(2)] obtain new where new: "load_usage_governance_ledger E f' = Inr (es @ new)"
        "n = repaired + length new" "ledger_lines f' = ledger_lines f @ map EntryLine new"
        "gf_runs f' = gf_runs f" "gf_state f' = gf_state f" "new = [] \<longrightarrow> f' = f"
        "counts_new E c counted_at session results keys new" by blast
    moreover have "counts_new E c counted_at session (x # results) keys new"
      unfolding x by (rule counts_new_skip[OF new(7)]) (use True in blast)
    ultimately show ?thesis by blast
  next
    case False
    then obtain r where r: "content = Some r" "should_record_runtime_tokens c r"
      by (auto simp: recordable_def split: option.splits)
    from Cons.prems(1) False r obtain e f1 where e: "ledger_entry_from_stage_result E r path counted_at session = Inr e"
        "append_usage_governance_ledger_entry E e f = (Inr (), f1)"
        "reconcile_entries E c counted_at session results (insert (ul_dedupe_key e) keys) (Suc repaired) f1 = (Inr n, f')"
      by (auto simp: x Let_def ledger_entry_key split: sum.splits prod.splits)
    note added = appended_entry[OF e(2) Cons.prems(2)]
    from Cons.IH[OF e(3) added(2)] obtain new where new: "load_usage_governance_ledger E f' = Inr ((es @ [e]) @ new)"
        "n = Suc repaired + length new" "ledger_lines f' = ledger_lines f1 @ map EntryLine new"
        "gf_runs f' = gf_runs f1" "gf_state f' = gf_state f1"
        "counts_new E c counted_at session results (insert (ul_dedupe_key e) keys) new" by blast
    have "counts_new E c counted_at session (x # results) keys (e # new)"
      unfolding x r(1) by (rule counts_new_Cons[OF new(6)]) (use False r e(1) in \<open>auto simp: recordable_def\<close>)
    moreover have "ledger_lines f1 = ledger_lines f @ [EntryLine e]" "gf_runs f1 = gf_runs f" "gf_state f1 = gf_state f"
      by (simp_all add: added(1) ledger_lines_def)
    ultimately show ?thesis using new by (intro exI[of _ "e # new"]) simp
  qed
qed

lemma reconcile_entries_settled:
  assumes "\<forall>x \<in> set results. recordable c (snd x) \<longrightarrow> stage_result_dedupe_key E (fst x) \<in> keys"
  shows "reconcile_entries E c counted_at session results keys repaired f = (Inr repaired, f)"
  using assms
proof (induction results)
  case (Cons x results)
  obtain path content where x: "x = (path, content)" by fastforce
  from Cons show ?case by (cases content) (auto simp: x recordable_def Let_def)
qed simp

lemma stage_result_paths_runs: "gf_runs f = gf_runs g \<Longrightarrow> stage_result_paths E f = stage_result_paths E g"
  by (simp add: stage_result_paths_def)

section \<open>Token windows\<close>

text \<open>The entries a rule looks at, and whether they reach its threshold.\<close>

definition in_token_window ::
  "governance_env \<Rightarrow> UsageGovernanceRuntimeTokenWindow \<Rightarrow> zoned_time \<Rightarrow> string option \<Rightarrow> string \<Rightarrow>
   UsageGovernanceLedgerEntry \<Rightarrow> bool" where
  "in_token_window E window now session timezone e \<longleftrightarrow>
     (window = UsageGovernanceRuntimeTokenWindow.DaemonSession \<longrightarrow> ul_daemon_session_id e = session)
     \<and> (case window_cutoff E window now timezone of
          None \<Rightarrow> True
        | Some c \<Rightarrow> (case ve_parse E (ul_stage_completed_at e) of Inl _ \<Rightarrow> False | Inr t \<Rightarrow> c \<le> zt_instant t))"

definition rule_exceeded ::
  "governance_env \<Rightarrow> UsageGovernanceLedgerEntry list \<Rightarrow> zoned_time \<Rightarrow> string option \<Rightarrow> string \<Rightarrow>
   RuntimeTokenRuleConfig \<Rightarrow> bool" where
  "rule_exceeded E entries now session timezone r \<longleftrightarrow>
     tr_threshold r \<le> observed_metric (filter (in_token_window E (tr_window r) now session timezone) entries) (tr_metric r)"

lemma entries_for_window_filter:
  assumes "entries_for_runtime_window E es window now session timezone = Inr ws"
  shows "ws = filter (in_token_window E window now session timezone) es"
  using assms unfolding entries_for_runtime_window_def
  by (induction es arbitrary: ws)
    (auto simp: in_token_window_def parse_timestamp_def and_then_eq_Inr map_ok_eq_Inr map_err_eq_Inr
       split: if_splits option.splits)

lemma token_rule_blocker_cases:
  assumes "token_rule_blocker E es r now session timezone = Inr b"
  shows "b = None \<longleftrightarrow> \<not> rule_exceeded E es now session timezone r"
    "\<And>x. b = Some x \<Longrightarrow> ub_rule_id x = tr_rule_id r \<and> ub_source x = UsageGovernanceBlockerSource.RuntimeToken"
  using assms
  by (auto simp: token_rule_blocker_def rule_exceeded_def and_then_eq_Inr map_ok_eq_Inr Let_def
      dest!: entries_for_window_filter split: if_splits)

lemma token_rule_blockers_ids:
  assumes "token_rule_blockers E es rs now session timezone = Inr bs"
  shows "map ub_rule_id bs = map tr_rule_id (filter (rule_exceeded E es now session timezone) rs)"
  using assms
proof (induction rs arbitrary: bs)
  case (Cons r rs)
  from Cons.prems obtain b cs where b: "token_rule_blocker E es r now session timezone = Inr b"
      "token_rule_blockers E es rs now session timezone = Inr cs"
      "bs = (case b of None \<Rightarrow> cs | Some x \<Rightarrow> x # cs)"
    by (auto simp: and_then_eq_Inr map_ok_eq_Inr)
  with Cons.IH[OF b(2)] token_rule_blocker_cases[OF b(1)] show ?case by (cases b) auto
qed simp

section \<open>The rolling window\<close>

abbreviation sum_of :: "UsageGovernanceRuntimeTokenMetric \<Rightarrow> UsageGovernanceLedgerEntry list \<Rightarrow> nat" where
  "sum_of metric es \<equiv> sum_list (map (metric_value metric) es)"

lemma sum_of_mset: "mset xs = mset ys \<Longrightarrow> sum_of metric xs = sum_of metric ys"
  by (metis mset_map sum_mset_sum_list)

lemma sum_of_filter_le: "sum_of metric (filter P es) \<le> sum_of metric es"
  by (induction es) auto

definition completed_at :: "governance_env \<Rightarrow> UsageGovernanceLedgerEntry \<Rightarrow> int" where
  "completed_at E e = (case ve_parse E (ul_stage_completed_at e) of Inr t \<Rightarrow> zt_instant t | Inl _ \<Rightarrow> 0)"

definition readable :: "governance_env \<Rightarrow> UsageGovernanceLedgerEntry \<Rightarrow> bool" where
  "readable E e \<longleftrightarrow> (\<exists>t. ve_parse E (ul_stage_completed_at e) = Inr t)"

lemma entries_after_readable:
  assumes "entries_after E window session (Some c) es = Inr ws"
    "window \<noteq> UsageGovernanceRuntimeTokenWindow.DaemonSession"
  shows "\<forall>e \<in> set es. readable E e"
  using assms
  by (induction es arbitrary: ws)
    (auto simp: readable_def parse_timestamp_def and_then_eq_Inr map_ok_eq_Inr map_err_eq_Inr
       split: if_splits)

lemma rolling_window:
  assumes "\<forall>e \<in> set es. readable E e"
  shows "filter (in_token_window E UsageGovernanceRuntimeTokenWindow.Rolling5h now session timezone) es
    = filter (\<lambda>e. zt_instant now - hours 5 \<le> completed_at E e) es"
  using assms
  by (intro filter_cong)
    (auto simp: in_token_window_def window_cutoff_def later_def completed_at_def readable_def)

lemma rolling_resume_split:
  assumes "rolling_resume E metric threshold (sum_of metric xs) xs = Inr r" "threshold \<le> sum_of metric xs" "0 < threshold"
  obtains ys e zs t s where "xs = ys @ e # zs" "r = Some s" "ve_parse E (ul_stage_completed_at e) = Inr t"
    "timestamp_from_offset E ''next_auto_resume_at'' (later t (hours 5)) = Inr s"
    "sum_of metric zs < threshold" "threshold \<le> sum_of metric (e # zs)"
  using assms
proof (induction xs arbitrary: thesis)
  case Nil
  then show ?case by simp
next
  case (Cons e xs)
  from Cons.prems(2) obtain t where t: "ve_parse E (ul_stage_completed_at e) = Inr t"
    by (auto simp: parse_timestamp_def and_then_eq_Inr map_err_eq_Inr Let_def)
  show ?case
  proof (cases "sum_of metric xs < threshold")
    case True
    then obtain s where "r = Some s" "timestamp_from_offset E ''next_auto_resume_at'' (later t (hours 5)) = Inr s"
      using Cons.prems(2) t by (auto simp: parse_timestamp_def and_then_eq_Inr map_ok_eq_Inr Let_def)
    then show ?thesis by (rule Cons.prems(1)[of "[]" e xs s t, simplified, OF _ t]) (use True Cons.prems(3) in simp_all)
  next
    case False
    then have "rolling_resume E metric threshold (sum_of metric xs) xs = Inr r"
      using Cons.prems(2) t by (simp add: parse_timestamp_def Let_def)
    then obtain ys e' zs t' s where "xs = ys @ e' # zs" "r = Some s" "ve_parse E (ul_stage_completed_at e') = Inr t'"
        "timestamp_from_offset E ''next_auto_resume_at'' (later t' (hours 5)) = Inr s"
        "sum_of metric zs < threshold" "threshold \<le> sum_of metric (e' # zs)"
      using False Cons.prems(4) by (elim Cons.IH[rotated]) auto
    then show ?thesis by (intro Cons.prems(1)[of "e # ys" e' zs s t']) simp_all
  qed
qed

text \<open>In a list in order of completion, the entries from a time on are a suffix.\<close>

lemma sum_from_time:
  assumes "sorted (map (completed_at E) (ys @ e # zs))"
  shows "c \<le> completed_at E e \<Longrightarrow> sum_of metric (e # zs) \<le> sum_of metric (filter (\<lambda>x. c \<le> completed_at E x) (ys @ e # zs))"
    and "\<not> c \<le> completed_at E e \<Longrightarrow> sum_of metric (filter (\<lambda>x. c \<le> completed_at E x) (ys @ e # zs)) \<le> sum_of metric zs"
proof -
  have zs: "\<forall>z \<in> set zs. completed_at E e \<le> completed_at E z" and ys: "\<forall>y \<in> set ys. completed_at E y \<le> completed_at E e"
    using assms by (auto simp: sorted_append)
  have early: "filter (\<lambda>x. c \<le> completed_at E x) ys = []" if "\<not> c \<le> completed_at E e"
    using ys that by (auto simp: filter_empty_conv)
  {
    assume "c \<le> completed_at E e"
    with zs have "filter (\<lambda>x. c \<le> completed_at E x) (e # zs) = e # zs" by (auto simp: filter_id_conv intro: order_trans)
    then show "sum_of metric (e # zs) \<le> sum_of metric (filter (\<lambda>x. c \<le> completed_at E x) (ys @ e # zs))"
      by (simp only: filter_append map_append sum_list_append le_add2)
  next
    assume "\<not> c \<le> completed_at E e"
    with early have "filter (\<lambda>x. c \<le> completed_at E x) (ys @ e # zs) = filter (\<lambda>x. c \<le> completed_at E x) zs" by simp
    then show "sum_of metric (filter (\<lambda>x. c \<le> completed_at E x) (ys @ e # zs)) \<le> sum_of metric zs"
      using sum_of_filter_le by simp
  }
qed

lemma sorted_by_completion:
  assumes "\<forall>a \<in> set es. \<forall>b \<in> set es. ul_stage_completed_at a \<le> ul_stage_completed_at b \<longrightarrow> completed_at E a \<le> completed_at E b"
  shows "sorted (map (completed_at E) (sort_key ul_stage_completed_at es))"
proof -
  have "sorted_wrt (\<lambda>a b. ul_stage_completed_at a \<le> ul_stage_completed_at b) (sort_key ul_stage_completed_at es)"
    using sorted_sort_key[of ul_stage_completed_at es] by (simp add: sorted_map)
  then have "sorted_wrt (\<lambda>a b. completed_at E a \<le> completed_at E b) (sort_key ul_stage_completed_at es)"
    by (rule sorted_wrt_mono_rel[rotated]) (use assms in auto)
  then show ?thesis by (simp add: sorted_map)
qed

section \<open>Pause sources\<close>

lemma ordered_pause_sources_set [simp]: "set (ordered_pause_sources xs) = set xs"
proof (rule set_eqI)
  show "x \<in> set (ordered_pause_sources xs) \<longleftrightarrow> x \<in> set xs" for x
    by (cases x) (auto simp: ordered_pause_sources_def)
qed

lemma ordered_pause_sources_Nil [simp]: "ordered_pause_sources xs = [] \<longleftrightarrow> xs = []"
  using ordered_pause_sources_set[of xs] by (metis set_empty)

lemmas pause_defs = has_pause_source_def add_governance_pause_source_def remove_governance_pause_source_def
  apply_governance_state_def pause_direct_def resume_direct_def mailbox_pause_def mailbox_resume_def
  mailbox_stop_def Let_def

definition pause_consistent :: "RuntimeSnapshot \<Rightarrow> bool" where
  "pause_consistent s \<longleftrightarrow> (rs_paused s \<longleftrightarrow> rs_pause_sources s \<noteq> [])"

lemma apply_governance_sources:
  "UsageGovernancePause \<in> set (rs_pause_sources (apply_governance_state c state s)) \<longleftrightarrow>
     uc_enabled c \<and> (us_active_blockers state \<noteq> []
       \<or> UsageGovernancePause \<in> set (rs_pause_sources s) \<and> \<not> uc_auto_resume c)"
  "OperatorPause \<in> set (rs_pause_sources (apply_governance_state c state s)) \<longleftrightarrow>
     OperatorPause \<in> set (rs_pause_sources s)"
  by (auto simp: pause_defs)

lemma apply_governance_consistent: "pause_consistent s \<Longrightarrow> pause_consistent (apply_governance_state c state s)"
  by (auto simp: pause_consistent_def pause_defs)

text \<open>What an evaluation does to the snapshot, whether or not it ends in an error.\<close>

lemma evaluation_effect:
  assumes "evaluate_and_apply_usage_governance E c session_id saves now sr (f, s) = (r, f', s')"
  shows "s' = s \<or> (\<exists>state. s' = (apply_governance_state c state s)\<lparr>rs_updated_at := now\<rparr>)"
  using assms by (auto simp: evaluate_and_apply_usage_governance_def Let_def split: if_splits sum.splits prod.splits)

lemma evaluation_keeps_operator:
  assumes "evaluate_and_apply_usage_governance E c session_id saves now sr (f, s) = (r, f', s')"
  shows "OperatorPause \<in> set (rs_pause_sources s') \<longleftrightarrow> OperatorPause \<in> set (rs_pause_sources s)"
  using evaluation_effect[OF assms] by (auto simp: apply_governance_sources)

lemma evaluation_consistent:
  assumes "evaluate_and_apply_usage_governance E c session_id saves now sr (f, s) = (r, f', s')" "pause_consistent s"
  shows "pause_consistent s'"
  using evaluation_effect[OF assms(1)] assms(2) apply_governance_consistent[OF assms(2), of c]
  by (auto simp: pause_consistent_def)

text \<open>The actions that change the pause sources, and runs of them. The configuration may change between
  evaluations.\<close>

datatype pause_action = OperatorPauses | OperatorResumes | StopRequested | GovernanceEvaluated

inductive pause_step ::
  "governance_env \<Rightarrow> string \<Rightarrow> (RuntimeSnapshot \<Rightarrow> StateStoreError + unit) \<Rightarrow> pause_action \<Rightarrow>
   governance_files \<times> RuntimeSnapshot \<Rightarrow> governance_files \<times> RuntimeSnapshot \<Rightarrow> bool"
  for E session_id saves where
  paused_directly: "pause_direct now s = (changed, s') \<Longrightarrow>
    pause_step E session_id saves OperatorPauses (f, s) (f, s')"
| paused_by_mailbox: "mailbox_pause now s = s' \<Longrightarrow> pause_step E session_id saves OperatorPauses (f, s) (f, s')"
| resumed_directly: "resume_direct E f now s = Inr (answer, s') \<Longrightarrow>
    pause_step E session_id saves OperatorResumes (f, s) (f, s')"
| resumed_by_mailbox: "mailbox_resume now s = s' \<Longrightarrow> pause_step E session_id saves OperatorResumes (f, s) (f, s')"
| stop_by_mailbox: "mailbox_stop now s = s' \<Longrightarrow> pause_step E session_id saves StopRequested (f, s) (f, s')"
| evaluated: "evaluate_and_apply_usage_governance E c session_id saves now stage_result (f, s) = (r, f', s') \<Longrightarrow>
    pause_step E session_id saves GovernanceEvaluated (f, s) (f', s')"

inductive pause_run ::
  "governance_env \<Rightarrow> string \<Rightarrow> (RuntimeSnapshot \<Rightarrow> StateStoreError + unit) \<Rightarrow> pause_action list \<Rightarrow>
   governance_files \<times> RuntimeSnapshot \<Rightarrow> governance_files \<times> RuntimeSnapshot \<Rightarrow> bool"
  for E session_id saves where
  run_nil: "pause_run E session_id saves [] x x"
| run_cons: "pause_step E session_id saves a x y \<Longrightarrow> pause_run E session_id saves as y z \<Longrightarrow>
    pause_run E session_id saves (a # as) x z"

inductive_cases pause_run_ConsE: "pause_run E session_id saves (a # as) x z"
inductive_cases pause_run_NilE: "pause_run E session_id saves [] x z"

definition sources_of :: "governance_files \<times> RuntimeSnapshot \<Rightarrow> PauseSource set" where
  "sources_of x = set (rs_pause_sources (snd x))"

lemma pause_step_consistent:
  assumes "pause_step E session_id saves a x y" "pause_consistent (snd x)"
  shows "pause_consistent (snd y)"
  using assms
proof cases
  case (evaluated c now sr f s r f' s')
  then show ?thesis using evaluation_consistent[OF evaluated(4)] assms(2) by simp
qed (auto simp: pause_consistent_def pause_defs map_ok_eq_Inr split: if_splits)

lemma pause_step_operator:
  assumes "pause_step E session_id saves a x y"
  shows "a \<noteq> OperatorPauses \<Longrightarrow> a \<noteq> OperatorResumes \<Longrightarrow> OperatorPause \<in> sources_of y \<longleftrightarrow> OperatorPause \<in> sources_of x"
    "a = OperatorPauses \<Longrightarrow> OperatorPause \<in> sources_of y"
    "a = OperatorResumes \<Longrightarrow> OperatorPause \<notin> sources_of y"
    "a \<noteq> GovernanceEvaluated \<Longrightarrow> UsageGovernancePause \<in> sources_of x \<Longrightarrow> UsageGovernancePause \<in> sources_of y"
    "a \<noteq> GovernanceEvaluated \<Longrightarrow> a \<noteq> OperatorResumes \<Longrightarrow> UsageGovernancePause \<in> sources_of y \<Longrightarrow>
      UsageGovernancePause \<in> sources_of x"
  using assms
  by (cases; auto simp: sources_of_def pause_defs map_ok_eq_Inr evaluation_keeps_operator split: if_splits)+

lemma pause_run_sources:
  assumes "pause_run E session_id saves as x y"
  shows "pause_consistent (snd x) \<Longrightarrow> pause_consistent (snd y)"
    "OperatorPause \<in> sources_of x \<Longrightarrow> OperatorResumes \<notin> set as \<Longrightarrow> OperatorPause \<in> sources_of y"
    "OperatorPause \<in> sources_of y \<Longrightarrow> OperatorPauses \<notin> set as \<Longrightarrow> OperatorPause \<in> sources_of x"
    "UsageGovernancePause \<in> sources_of x \<Longrightarrow> GovernanceEvaluated \<notin> set as \<Longrightarrow> UsageGovernancePause \<in> sources_of y"
  using assms
proof induction
  case (run_cons a x y as z)
  note step = pause_step_consistent[OF run_cons.hyps(1)] pause_step_operator[OF run_cons.hyps(1)]
  {
    case 1
    then show ?case using step(1) run_cons.IH(1) by blast
  next
    case 2
    then show ?case using step(2,3) run_cons.IH(2) by (cases a) auto
  next
    case 3
    then show ?case using step(2,4) run_cons.IH(3) by (cases a) auto
  next
    case 4
    then show ?case using step(5) run_cons.IH(4) by auto
  }
qed simp_all

text \<open>An evaluation that ends well: what it leaves behind.\<close>

lemma saved_state:
  assumes "save_usage_governance_state E state f = (Inr u, f')"
  shows "gf_state f' = Some (Inr state)" "gf_ledger f' = gf_ledger f" "gf_runs f' = gf_runs f"
  using assms by (auto simp: save_usage_governance_state_def split: sum.splits)

lemma verdict_spec:
  assumes "governance_verdict E c now session paused status f = Inr state"
  shows "\<exists>es t. load_usage_governance_ledger E f = Inr es
    \<and> (tc_enabled (uc_runtime_token_rules c) \<longrightarrow> ve_parse E now = Inr t)
    \<and> map ub_rule_id (us_active_blockers state) =
        (if tc_enabled (uc_runtime_token_rules c)
         then map tr_rule_id (filter (rule_exceeded E es t session (uc_calendar_timezone c))
                (tc_rules (uc_runtime_token_rules c))) else [])
        @ map ub_rule_id (evaluate_subscription_quota_rules (us_subscription_quota_status state)
            (uc_subscription_quota_rules c))"
proof -
  from assms obtain es bs where load: "load_usage_governance_ledger E f = Inr es"
    and bs: "(if tc_enabled (uc_runtime_token_rules c)
               then evaluate_runtime_token_rules E es (uc_runtime_token_rules c) now session
                      (uc_calendar_timezone c)
               else Inr []) = Inr bs"
    and blockers: "us_active_blockers state = bs @ evaluate_subscription_quota_rules
        (us_subscription_quota_status state) (uc_subscription_quota_rules c)"
    unfolding governance_verdict_def and_then_eq_Inr map_ok_eq_Inr Let_def
    by (elim exE conjE) (rule that, assumption, assumption, simp)
  show ?thesis
  proof (cases "tc_enabled (uc_runtime_token_rules c)")
    case True
    with bs obtain t where "ve_parse E now = Inr t"
        "token_rule_blockers E es (tc_rules (uc_runtime_token_rules c)) t session (uc_calendar_timezone c) = Inr bs"
      by (auto simp: evaluate_runtime_token_rules_def parse_timestamp_def and_then_eq_Inr map_err_eq_Inr)
    with token_rule_blockers_ids[OF this(2)] load blockers True show ?thesis by auto
  next
    case False
    with bs load blockers show ?thesis by auto
  qed
qed

lemma evaluated_when_enabled:
  assumes "evaluate_usage_governance E c now session paused stage_result status f = (Inr state, f')" "uc_enabled c"
  obtains f2 where "governance_verdict E c now session paused status f2 = Inr state"
    "gf_ledger f' = gf_ledger f2" "gf_state f' = Some (Inr state)"
  using assms unfolding evaluate_usage_governance_def
  by (fastforce split: sum.splits prod.splits dest: saved_state)

lemma applied_evaluationE:
  assumes "evaluate_and_apply_usage_governance E c session_id saves now stage_result (f, s) = (Inr (), f', s')"
    "should_evaluate_usage_governance c f s"
  obtains v f1 where "evaluate_usage_governance E c now (Some session_id)
        (has_pause_source s UsageGovernancePause) stage_result None f = (Inr v, f1)"
    "s' = (if apply_governance_state c v s = s then s else (apply_governance_state c v s)\<lparr>rs_updated_at := now\<rparr>)"
    "if us_paused_by_governance v \<noteq> has_pause_source s' UsageGovernancePause
        then save_usage_governance_state E (v\<lparr>us_paused_by_governance := has_pause_source s' UsageGovernancePause\<rparr>) f1
          = (Inr (), f') else f' = f1"
  using assms
  by (auto simp: evaluate_and_apply_usage_governance_def Let_def split: if_splits sum.splits prod.splits)

lemma applied_evaluation:
  assumes "evaluate_and_apply_usage_governance E c session_id saves now stage_result (f, s) = (Inr (), f', s')"
  shows "\<not> uc_enabled c \<Longrightarrow> UsageGovernancePause \<notin> set (rs_pause_sources s')"
    "uc_enabled c \<Longrightarrow> \<exists>state v f2.
      governance_verdict E c now (Some session_id) (has_pause_source s UsageGovernancePause) None f2 = Inr v
      \<and> gf_ledger f' = gf_ledger f2 \<and> gf_state f' = Some (Inr state)
      \<and> state = v\<lparr>us_paused_by_governance := has_pause_source s' UsageGovernancePause\<rparr>
      \<and> rs_pause_sources s' = rs_pause_sources (apply_governance_state c v s)"
proof -
  show "UsageGovernancePause \<notin> set (rs_pause_sources s')" if "\<not> uc_enabled c"
  proof (cases "should_evaluate_usage_governance c f s")
    case False
    then show ?thesis using assms that
      by (auto simp: evaluate_and_apply_usage_governance_def should_evaluate_usage_governance_def has_pause_source_def)
  next
    case True
    from applied_evaluationE[OF assms True] obtain v where
      "s' = (if apply_governance_state c v s = s then s else (apply_governance_state c v s)\<lparr>rs_updated_at := now\<rparr>)" .
    then show ?thesis using that apply_governance_sources(1)[of c v s] by (auto split: if_splits)
  qed
next
  assume on: "uc_enabled c"
  then have "should_evaluate_usage_governance c f s" by (simp add: should_evaluate_usage_governance_def)
  from applied_evaluationE[OF assms this] obtain v f1 where v: "evaluate_usage_governance E c now (Some session_id)
        (has_pause_source s UsageGovernancePause) stage_result None f = (Inr v, f1)"
    and s': "s' = (if apply_governance_state c v s = s then s else (apply_governance_state c v s)\<lparr>rs_updated_at := now\<rparr>)"
    and f': "if us_paused_by_governance v \<noteq> has_pause_source s' UsageGovernancePause
        then save_usage_governance_state E (v\<lparr>us_paused_by_governance := has_pause_source s' UsageGovernancePause\<rparr>) f1
          = (Inr (), f') else f' = f1" .
  from evaluated_when_enabled[OF v on] obtain f2 where
    f2: "governance_verdict E c now (Some session_id) (has_pause_source s UsageGovernancePause) None f2 = Inr v"
      "gf_ledger f1 = gf_ledger f2" "gf_state f1 = Some (Inr v)" .
  have saved: "gf_ledger f' = gf_ledger f1
      \<and> gf_state f' = Some (Inr (v\<lparr>us_paused_by_governance := has_pause_source s' UsageGovernancePause\<rparr>))"
  proof (cases "us_paused_by_governance v = has_pause_source s' UsageGovernancePause")
    case True
    then have "v\<lparr>us_paused_by_governance := has_pause_source s' UsageGovernancePause\<rparr> = v" by (cases v) simp
    with True f' f2(3) show ?thesis by simp
  next
    case False
    with f' saved_state show ?thesis by simp
  qed
  have "rs_pause_sources s' = rs_pause_sources (apply_governance_state c v s)" using s' by (auto split: if_splits)
  with saved f2(1,2) show "\<exists>state v f2.
      governance_verdict E c now (Some session_id) (has_pause_source s UsageGovernancePause) None f2 = Inr v
      \<and> gf_ledger f' = gf_ledger f2 \<and> gf_state f' = Some (Inr state)
      \<and> state = v\<lparr>us_paused_by_governance := has_pause_source s' UsageGovernancePause\<rparr>
      \<and> rs_pause_sources s' = rs_pause_sources (apply_governance_state c v s)" by auto
qed

end
