(* ===== verification/Governance_Properties.thy ===== *)
theory Governance_Properties
  imports Governance_Facts Runtime_Examples
begin

text \<open>
  The properties of usage governance and of pausing, with the instances at which they are applied. The
  example clock reads a text of one character as the hour of its code, and any other text as zero.
\<close>

section \<open>An example\<close>

definition demo_clock :: governance_env where
  "demo_clock =
     \<lparr>ve_parse = (\<lambda>s. case s of [c] \<Rightarrow> Inr \<lparr>zt_instant = hours (of_char c), zt_offset = 0\<rparr> | _ \<Rightarrow> Inr \<lparr>zt_instant = 0, zt_offset = 0\<rparr>),
      ve_format = (\<lambda>t. Inr [char_of (nat (zt_instant t div hours 1))]),
      ve_days_from_monday = (\<lambda>t. 0), ve_midnight = (\<lambda>t. t\<lparr>zt_instant := 0\<rparr>), ve_canonicalize = Some,
      ve_root = ''/w'', ve_runs_dir = ''/w/runs'', ve_state_path = ''/w/state.json'', ve_ledger_path = ''/w/ledger.jsonl''\<rparr>"

definition demo_result :: "string \<Rightarrow> nat \<Rightarrow> StageResultEnvelope" where
  "demo_result run tokens =
     \<lparr>sr_schema_version = ''1.0'', sr_kind = ''stage_result'', sr_run_id = run, sr_plane = Plane.Execution,
      sr_stage = StageName.Builder, sr_node_id = ''builder'', sr_stage_kind_id = ''builder'',
      sr_work_item_kind = WorkItemKind.Task, sr_work_item_id = ''t'',
      sr_terminal_result = TerminalResult.Execution ExecutionTerminalResult.BuilderComplete,
      sr_result_class = ResultClass.Success, sr_summary_status_marker = ''### BUILDER_COMPLETE'', sr_success = True,
      sr_retryable = False, sr_exit_code = 0, sr_duration_seconds = Finite 1, sr_prompt_artifact = None,
      sr_report_artifact = None, sr_artifact_paths = [], sr_detected_marker = None, sr_stdout_path = None,
      sr_stderr_path = None, sr_runner_name = None, sr_model_name = None, sr_thinking_level = None,
      sr_model_reasoning_effort = None,
      sr_token_usage = Some \<lparr>tu_input_tokens = tokens, tu_cached_input_tokens = 0, tu_output_tokens = 0,
        tu_thinking_tokens = 0, tu_total_tokens = tokens\<rparr>,
      sr_notes = [], sr_metadata = [], sr_started_at = ''A'', sr_completed_at = run\<rparr>"

definition demo_runs :: "(string \<times> stage_result_file list) list" where
  "demo_runs =
     [(''B'', [\<lparr>sf_name = ''one.json'', sf_is_file = True, sf_result = Some (demo_result ''B'' 400)\<rparr>,
              \<lparr>sf_name = ''notes.txt'', sf_is_file = True, sf_result = None\<rparr>]),
      (''C'', [\<lparr>sf_name = ''one.json'', sf_is_file = True, sf_result = Some (demo_result ''C'' 700)\<rparr>])]"

definition demo_files :: governance_files where
  "demo_files = \<lparr>gf_state = None, gf_ledger = None, gf_runs = demo_runs\<rparr>"

definition demo_rule :: RuntimeTokenRuleConfig where
  "demo_rule = \<lparr>tr_rule_id = ''rolling'', tr_window = UsageGovernanceRuntimeTokenWindow.Rolling5h,
     tr_metric = UsageGovernanceRuntimeTokenMetric.TotalTokens, tr_threshold = 1000\<rparr>"

definition demo_governance :: UsageGovernanceConfig where
  "demo_governance = UsageGovernanceConfig_default\<lparr>uc_enabled := True,
     uc_runtime_token_rules := \<lparr>tc_enabled = True, tc_rules = [demo_rule]\<rparr>\<rparr>"

definition demo_counted :: "nat governed" where
  "demo_counted = reconcile_usage_ledger_from_stage_results demo_clock demo_governance ''D'' (Some ''s'') demo_files"

lemmas demo_clock_simps = demo_clock_def ve_rfc_def hours_def seconds_def later_def

lemma demo_key:
  "stage_result_dedupe_key demo_clock ''/w/runs/B/stage_results/one.json'' = ''runs/B/stage_results/one.json''"
  "stage_result_dedupe_key demo_clock ''/w/runs/C/stage_results/one.json'' = ''runs/C/stage_results/one.json''"
  by (simp_all add: stage_result_dedupe_key_def demo_clock_def path_strip_prefix_def or_else_def)

lemma demo_paths:
  "stage_result_paths demo_clock demo_files =
     [(''/w/runs/B/stage_results/one.json'', Some (demo_result ''B'' 400)),
      (''/w/runs/C/stage_results/one.json'', Some (demo_result ''C'' 700))]"
  by (simp add: stage_result_paths_def demo_files_def demo_runs_def has_json_extension_def demo_clock_def
      strip_suffix_def)

lemma demo_enabled: "uc_enabled demo_governance" "tc_enabled (uc_runtime_token_rules demo_governance)"
  by (simp_all add: demo_governance_def)

lemma demo_recorded: "should_record_runtime_tokens demo_governance (demo_result run n)"
  by (simp add: should_record_runtime_tokens_def demo_enabled demo_result_def)

lemma demo_trims:
  "trim ''runs/B/stage_results/one.json'' = ''runs/B/stage_results/one.json''"
  "trim ''runs/C/stage_results/one.json'' = ''runs/C/stage_results/one.json''"
  "trim ''B'' = ''B''" "trim ''C'' = ''C''" "trim ''builder'' = ''builder''" "trim ''t'' = ''t''"
  by code_simp+

lemma demo_ve_rfc [simp]: "ve_rfc demo_clock [c] = Inr (hours (of_char c))"
  by (simp add: demo_clock_def ve_rfc_def)

definition demo_ledger_entry :: "string \<Rightarrow> string \<Rightarrow> nat \<Rightarrow> UsageGovernanceLedgerEntry" where
  "demo_ledger_entry run key n =
     \<lparr>ul_dedupe_key = key, ul_counted_at = ''D'', ul_stage_completed_at = run, ul_plane = Plane.Execution,
      ul_run_id = run, ul_stage_id = ''builder'', ul_work_item_kind = WorkItemKind.Task, ul_work_item_id = ''t'',
      ul_token_usage = the (sr_token_usage (demo_result run n)), ul_stage_result_path = key,
      ul_daemon_session_id = Some ''s''\<rparr>"

lemma demo_made:
  "ledger_entry_from_stage_result demo_clock (demo_result run n) path ''D'' (Some ''s'')
     = Inr (demo_ledger_entry run (stage_result_dedupe_key demo_clock path) n)"
  by (simp add: ledger_entry_from_stage_result_def demo_ledger_entry_def demo_result_def Let_def)

lemma demo_entry_valid:
  "UsageGovernanceLedgerEntry_validate_contract (ve_rfc demo_clock) (demo_ledger_entry ''B'' ''runs/B/stage_results/one.json'' n) = Inr ()"
  "UsageGovernanceLedgerEntry_validate_contract (ve_rfc demo_clock) (demo_ledger_entry ''C'' ''runs/C/stage_results/one.json'' n) = Inr ()"
  unfolding UsageGovernanceLedgerEntry_validate_contract_def all_checks_iffs by (simp_all add: demo_trims demo_ledger_entry_def)

definition demo_ledger :: "UsageGovernanceLedgerEntry list" where
  "demo_ledger = [demo_ledger_entry ''B'' ''runs/B/stage_results/one.json'' 400,
                  demo_ledger_entry ''C'' ''runs/C/stage_results/one.json'' 700]"

definition demo_counted_files :: governance_files where
  "demo_counted_files = demo_files\<lparr>gf_ledger := Some (map EntryLine demo_ledger)\<rparr>"

lemma demo_counts_two: "demo_counted = (Inr 2, demo_counted_files)"
  unfolding demo_counted_def reconcile_usage_ledger_from_stage_results_def demo_paths
  by (simp add: demo_key demo_enabled demo_recorded load_usage_governance_ledger_def demo_files_def
      demo_made append_usage_governance_ledger_entry_def demo_entry_valid demo_counted_files_def demo_ledger_def)

section \<open>Properties\<close>

text \<open>C27. Every stage result is charged once. Counting the stage results on disk keeps what the ledger
  held, adds one entry for each result with token usage that it did not hold (so that no key is ever
  repeated), leaves no such result uncounted, and counting again, at any later time and in any session,
  adds nothing.\<close>

theorem usage_is_charged_once:
  assumes "reconcile_usage_ledger_from_stage_results E c counted_at session f = (Inr n, f')"
    "uc_enabled c \<and> tc_enabled (uc_runtime_token_rules c)"
  shows "\<exists>old new. load_usage_governance_ledger E f = Inr old
    \<and> load_usage_governance_ledger E f' = Inr (old @ new) \<and> n = length new
    \<and> ledger_lines f' = ledger_lines f @ map EntryLine new
    \<and> (distinct (map ul_dedupe_key old) \<longrightarrow> distinct (map ul_dedupe_key (old @ new)))
    \<and> (\<forall>x \<in> set (stage_result_paths E f). recordable c (snd x) \<longrightarrow>
         stage_result_dedupe_key E (fst x) \<in> ul_dedupe_key ` set (old @ new))
    \<and> set new \<subseteq> made_entries E c counted_at session (stage_result_paths E f)
    \<and> reconcile_usage_ledger_from_stage_results E c later_time later_session f' = (Inr 0, f')"
proof -
  obtain old where old: "load_usage_governance_ledger E f = Inr old"
    and entries: "reconcile_entries E c counted_at session (stage_result_paths E f) (set (map ul_dedupe_key old)) 0 f
      = (Inr n, f')"
    using assms by (auto simp: reconcile_usage_ledger_from_stage_results_def split: sum.splits)
  from reconcile_entries_counts[OF entries old] obtain new where
    new: "load_usage_governance_ledger E f' = Inr (old @ new)" "n = length new"
      "ledger_lines f' = ledger_lines f @ map EntryLine new" "gf_runs f' = gf_runs f"
      "counts_new E c counted_at session (stage_result_paths E f) (set (map ul_dedupe_key old)) new"
    by auto
  have covered: "\<forall>x \<in> set (stage_result_paths E f'). recordable c (snd x) \<longrightarrow>
      stage_result_dedupe_key E (fst x) \<in> set (map ul_dedupe_key (old @ new))"
    using new(5) stage_result_paths_runs[OF new(4)] by (auto simp: counts_new_def)
  then have "reconcile_usage_ledger_from_stage_results E c later_time later_session f' = (Inr 0, f')"
    using assms(2) new(1) reconcile_entries_settled[OF covered]
    by (simp add: reconcile_usage_ledger_from_stage_results_def)
  then show ?thesis using old new covered stage_result_paths_runs[OF new(4)]
    by (intro exI[of _ old] exI[of _ new]) (auto simp: counts_new_def)
qed

lemma usage_is_charged_once_witness:
  "demo_counted = (Inr 2, demo_counted_files)
     \<and> reconcile_usage_ledger_from_stage_results demo_clock demo_governance ''E'' None demo_counted_files
         = (Inr 0, demo_counted_files)"
  using usage_is_charged_once[OF demo_counts_two[unfolded demo_counted_def] conjI[OF demo_enabled], of "''E''" None]
    demo_counts_two by blast

text \<open>C29. The resume time of a rolling-window rule is sharp. When a rule on the last five hours blocks,
  it names the completion of one of the counted entries plus five hours; as long as nothing more is
  counted, the rule stays exceeded up to and including that instant and is no longer exceeded at any
  later one. The texts of the completion times have to be in the order of their instants, and the sum of
  the tokens within 64 bits.\<close>

theorem rolling_window_resume_is_sharp:
  assumes "token_rule_blocker E entries r now session timezone = Inr (Some b)"
    and "tr_window r = UsageGovernanceRuntimeTokenWindow.Rolling5h" "0 < tr_threshold r"
    and "sum_of (tr_metric r) entries < 2 ^ 64"
    and "\<forall>x \<in> set entries. \<forall>y \<in> set entries.
      ul_stage_completed_at x \<le> ul_stage_completed_at y \<longrightarrow> completed_at E x \<le> completed_at E y"
  shows "\<exists>e t s. e \<in> set entries \<and> ve_parse E (ul_stage_completed_at e) = Inr t
    \<and> ub_next_auto_resume_at b = Some s
    \<and> timestamp_from_offset E ''next_auto_resume_at'' (later t (hours 5)) = Inr s
    \<and> (\<forall>now'. zt_instant now \<le> zt_instant now' \<longrightarrow>
         (rule_exceeded E entries now' session timezone r \<longleftrightarrow> zt_instant now' \<le> zt_instant (later t (hours 5))))"
proof -
  let ?sum = "sum_of (tr_metric r)"
  obtain ws next_resume where window: "entries_for_runtime_window E entries (tr_window r) now session timezone = Inr ws"
    and over: "tr_threshold r \<le> observed_metric ws (tr_metric r)"
    and next_resume: "runtime_rule_next_resume E ws (tr_window r) (tr_metric r) (tr_threshold r) now timezone = Inr next_resume"
      "ub_next_auto_resume_at b = next_resume"
    using assms(1) by (auto simp: token_rule_blocker_def and_then_eq_Inr map_ok_eq_Inr Let_def split: if_splits)
  have readable: "\<forall>e \<in> set entries. readable E e"
    using window assms(2) entries_after_readable
    by (auto simp: entries_for_runtime_window_def window_cutoff_def)
  note rolling = rolling_window[OF readable]
  have ws: "ws = filter (\<lambda>e. zt_instant now - hours 5 \<le> completed_at E e) entries"
    using entries_for_window_filter[OF window] rolling assms(2) by simp
  have small: "observed_metric (filter P entries) (tr_metric r) = ?sum (filter P entries)" for P
    using le_less_trans[OF sum_of_filter_le assms(4)] by (simp add: observed_metric_def)
  let ?ordered = "sort_key ul_stage_completed_at ws"
  have total: "observed_metric ws (tr_metric r) = ?sum ?ordered"
    unfolding ws small by (rule sum_of_mset) simp
  have "rolling_resume E (tr_metric r) (tr_threshold r) (?sum ?ordered) ?ordered = Inr next_resume"
    using next_resume(1) assms(2) by (simp add: runtime_rule_next_resume_def total)
  then obtain ys e zs t s where split: "?ordered = ys @ e # zs" "next_resume = Some s"
      "ve_parse E (ul_stage_completed_at e) = Inr t"
      "timestamp_from_offset E ''next_auto_resume_at'' (later t (hours 5)) = Inr s"
      "?sum zs < tr_threshold r" "tr_threshold r \<le> ?sum (e # zs)"
    using over total assms(3) by (elim rolling_resume_split) auto
  have sorted: "sorted (map (completed_at E) (ys @ e # zs))"
    using sorted_by_completion[of ws E] assms(5) split(1) by (auto simp: ws)
  have member: "e \<in> set entries"
  proof -
    have "e \<in> set ?ordered" by (simp only: split(1)) simp
    then show ?thesis by (simp add: ws)
  qed
  have time: "completed_at E e = zt_instant t" using split(3) by (simp add: completed_at_def)
  have "rule_exceeded E entries now' session timezone r \<longleftrightarrow> zt_instant now' \<le> zt_instant (later t (hours 5))"
    if "zt_instant now \<le> zt_instant now'" for now'
  proof -
    let ?late = "\<lambda>x. zt_instant now' - hours 5 \<le> completed_at E x"
    have "filter ?late entries = filter ?late ws"
      unfolding ws filter_filter using that by (intro filter_cong) auto
    then have "?sum (filter ?late entries) = ?sum (filter ?late ?ordered)"
      by (intro sum_of_mset) simp
    then have "rule_exceeded E entries now' session timezone r
        \<longleftrightarrow> tr_threshold r \<le> ?sum (filter ?late (ys @ e # zs))"
      using rolling small assms(2) split(1) by (simp add: rule_exceeded_def)
    moreover have "zt_instant now' \<le> zt_instant (later t (hours 5)) \<longleftrightarrow> ?late e"
      by (auto simp: later_def time)
    ultimately show ?thesis
      using sum_from_time[OF sorted, of "zt_instant now' - hours 5" "tr_metric r"] split(5,6)
      by (meson le_less_trans leD le_trans)
  qed
  with member split(2-4) next_resume(2) show ?thesis by blast
qed

definition demo_time :: "nat \<Rightarrow> zoned_time" where
  "demo_time h = \<lparr>zt_instant = hours h, zt_offset = 0\<rparr>"

lemma demo_parse: "ve_parse demo_clock [c] = Inr (demo_time (of_char c))"
  by (simp add: demo_clock_def demo_time_def)

lemma demo_resume: "timestamp_from_offset demo_clock f (later (demo_time 66) (hours 5)) = Inr ''G''"
proof -
  have hour: "char_of (71::nat) = CHR ''G''" by code_simp
  have "ve_format demo_clock (later (demo_time 66) (hours 5)) = Inr ''G''"
    using hour by (simp add: demo_clock_def demo_time_def later_def hours_def seconds_def)
  moreover have "trim ''G'' = ''G''" by code_simp
  ultimately show ?thesis by (simp add: timestamp_from_offset_def Timestamp_parse_def)
qed

lemma demo_entry_fields:
  "ul_stage_completed_at (demo_ledger_entry run key n) = run"
  "tu_total_tokens (ul_token_usage (demo_ledger_entry run key n)) = n"
  by (simp_all add: demo_ledger_entry_def demo_result_def)

lemma demo_rule_fields: "tr_window demo_rule = UsageGovernanceRuntimeTokenWindow.Rolling5h"
    "tr_metric demo_rule = UsageGovernanceRuntimeTokenMetric.TotalTokens" "tr_threshold demo_rule = 1000"
  by (simp_all add: demo_rule_def)

definition demo_blocker :: UsageGovernanceBlocker where
  "demo_blocker =
     \<lparr>ub_source = UsageGovernanceBlockerSource.RuntimeToken, ub_rule_id = ''rolling'', ub_window = ''rolling_5h'',
      ub_observed = f64_of_u64 1100, ub_threshold = f64_of_u64 1000,
      ub_metric = Some UsageGovernanceRuntimeTokenMetric.TotalTokens, ub_auto_resume_possible = True,
      ub_next_auto_resume_at = Some ''G'', ub_detail = []\<rparr>"

lemma demo_blocked:
  "token_rule_blocker demo_clock demo_ledger demo_rule (demo_time 68) session ''UTC'' = Inr (Some demo_blocker)"
proof -
  have window: "entries_for_runtime_window demo_clock demo_ledger UsageGovernanceRuntimeTokenWindow.Rolling5h
      (demo_time 68) session ''UTC'' = Inr demo_ledger"
    by (simp add: entries_for_runtime_window_def window_cutoff_def demo_ledger_def demo_entry_fields demo_parse
        parse_timestamp_def)
      (simp add: demo_time_def later_def hours_def seconds_def)
  have order: "sort_key ul_stage_completed_at demo_ledger
      = [demo_ledger_entry ''B'' ''runs/B/stage_results/one.json'' 400,
         demo_ledger_entry ''C'' ''runs/C/stage_results/one.json'' 700]"
    by (simp add: demo_ledger_def demo_entry_fields)
  have "observed_metric demo_ledger UsageGovernanceRuntimeTokenMetric.TotalTokens = 1100"
    by (simp add: demo_ledger_def observed_metric_def demo_entry_fields)
  then show ?thesis
    by (simp add: token_rule_blocker_def window demo_rule_fields runtime_rule_next_resume_def order demo_entry_fields
        parse_timestamp_def demo_parse demo_resume Let_def demo_blocker_def)
      (simp add: demo_rule_def)
qed

lemma rolling_window_resume_is_sharp_witness:
  "token_rule_blocker demo_clock demo_ledger demo_rule (demo_time 68) None ''UTC'' = Inr (Some demo_blocker)
     \<and> ub_next_auto_resume_at demo_blocker = Some ''G''
     \<and> rule_exceeded demo_clock demo_ledger (demo_time 71) None ''UTC'' demo_rule
     \<and> \<not> rule_exceeded demo_clock demo_ledger (demo_time 72) None ''UTC'' demo_rule"
proof -
  have "sum_of (tr_metric demo_rule) demo_ledger < 2 ^ 64"
    by (simp add: demo_ledger_def demo_entry_fields demo_rule_fields)
  moreover have "\<forall>x \<in> set demo_ledger. \<forall>y \<in> set demo_ledger.
      ul_stage_completed_at x \<le> ul_stage_completed_at y \<longrightarrow> completed_at demo_clock x \<le> completed_at demo_clock y"
    by (simp add: demo_ledger_def demo_entry_fields completed_at_def demo_parse)
      (simp add: demo_time_def hours_def seconds_def)
  ultimately obtain e t where t: "e \<in> set demo_ledger" "ve_parse demo_clock (ul_stage_completed_at e) = Inr t"
      "timestamp_from_offset demo_clock ''next_auto_resume_at'' (later t (hours 5)) = Inr ''G''"
      "\<And>now'. zt_instant (demo_time 68) \<le> zt_instant now' \<Longrightarrow>
        rule_exceeded demo_clock demo_ledger now' None ''UTC'' demo_rule \<longleftrightarrow> zt_instant now' \<le> zt_instant (later t (hours 5))"
    using rolling_window_resume_is_sharp[OF demo_blocked[of None]] by (auto simp: demo_rule_fields demo_blocker_def)
  have "t = demo_time 66"
  proof -
    have "t = demo_time 66 \<or> t = demo_time 67"
      using t(1,2) by (auto simp: demo_ledger_def demo_entry_fields demo_parse)
    moreover have "timestamp_from_offset demo_clock ''next_auto_resume_at'' (later (demo_time 67) (hours 5)) \<noteq> Inr ''G''"
    proof -
      have "char_of (72::nat) = CHR ''H''" by code_simp
      then have "ve_format demo_clock (later (demo_time 67) (hours 5)) = Inr ''H''"
        by (simp add: demo_clock_def demo_time_def later_def hours_def seconds_def)
      then show ?thesis
        by (auto simp: timestamp_from_offset_def Timestamp_parse_def split: sum.splits)
    qed
    ultimately show ?thesis using t(3) by blast
  qed
  then show ?thesis using demo_blocked[of None] t(4)[of "demo_time 71"] t(4)[of "demo_time 72"]
    by (simp add: demo_blocker_def demo_time_def later_def hours_def seconds_def)
qed




text \<open>C28. An evaluation pauses the runtime exactly when the ledger and the quota say so. After an
  evaluation that succeeds, the operator's pause is as before and, with governance switched off, no
  governance pause is left. With governance on, the saved state is the verdict on the ledger as it now
  is: its blockers are, in order, the token rules whose window reaches their threshold and then those
  of the quota; the governance pause is set exactly when there is a blocker, or when it was set
  before and automatic resumption is off; and the saved state agrees with the snapshot.\<close>

theorem governance_pause_follows_the_ledger:
  assumes "evaluate_and_apply_usage_governance E c session_id saves now stage_result (f, s) = (Inr (), f', s')"
  shows "(OperatorPause \<in> set (rs_pause_sources s') \<longleftrightarrow> OperatorPause \<in> set (rs_pause_sources s))
    \<and> (\<not> uc_enabled c \<longrightarrow> UsageGovernancePause \<notin> set (rs_pause_sources s'))
    \<and> (uc_enabled c \<longrightarrow> (\<exists>state es t. gf_state f' = Some (Inr state)
        \<and> load_usage_governance_ledger E f' = Inr es
        \<and> (tc_enabled (uc_runtime_token_rules c) \<longrightarrow> ve_parse E now = Inr t)
        \<and> map ub_rule_id (us_active_blockers state) =
            (if tc_enabled (uc_runtime_token_rules c)
             then map tr_rule_id (filter (rule_exceeded E es t (Some session_id) (uc_calendar_timezone c))
                    (tc_rules (uc_runtime_token_rules c))) else [])
            @ map ub_rule_id (evaluate_subscription_quota_rules (us_subscription_quota_status state)
                (uc_subscription_quota_rules c))
        \<and> (UsageGovernancePause \<in> set (rs_pause_sources s') \<longleftrightarrow> us_active_blockers state \<noteq> []
             \<or> UsageGovernancePause \<in> set (rs_pause_sources s) \<and> \<not> uc_auto_resume c)
        \<and> (us_paused_by_governance state \<longleftrightarrow> UsageGovernancePause \<in> set (rs_pause_sources s'))))"
proof (intro conjI impI)
  show "OperatorPause \<in> set (rs_pause_sources s') \<longleftrightarrow> OperatorPause \<in> set (rs_pause_sources s)"
    by (rule evaluation_keeps_operator[OF assms])
next
  assume "\<not> uc_enabled c"
  then show "UsageGovernancePause \<notin> set (rs_pause_sources s')"
    using applied_evaluation(1)[OF assms] by blast
next
  assume on: "uc_enabled c"
  from applied_evaluation(2)[OF assms on] obtain v f2 where v:
      "governance_verdict E c now (Some session_id) (has_pause_source s UsageGovernancePause) None f2 = Inr v"
      "gf_ledger f' = gf_ledger f2"
      "gf_state f' = Some (Inr (v\<lparr>us_paused_by_governance := has_pause_source s' UsageGovernancePause\<rparr>))"
      "rs_pause_sources s' = rs_pause_sources (apply_governance_state c v s)" by blast
  have "load_usage_governance_ledger E f' = load_usage_governance_ledger E f2"
    using v(2) by (simp add: load_usage_governance_ledger_def)
  with verdict_spec[OF v(1)] v(3,4) on apply_governance_sources(1)[of c v s]
  show "\<exists>state es t. gf_state f' = Some (Inr state)
        \<and> load_usage_governance_ledger E f' = Inr es
        \<and> (tc_enabled (uc_runtime_token_rules c) \<longrightarrow> ve_parse E now = Inr t)
        \<and> map ub_rule_id (us_active_blockers state) =
            (if tc_enabled (uc_runtime_token_rules c)
             then map tr_rule_id (filter (rule_exceeded E es t (Some session_id) (uc_calendar_timezone c))
                    (tc_rules (uc_runtime_token_rules c))) else [])
            @ map ub_rule_id (evaluate_subscription_quota_rules (us_subscription_quota_status state)
                (uc_subscription_quota_rules c))
        \<and> (UsageGovernancePause \<in> set (rs_pause_sources s') \<longleftrightarrow> us_active_blockers state \<noteq> []
             \<or> UsageGovernancePause \<in> set (rs_pause_sources s) \<and> \<not> uc_auto_resume c)
        \<and> (us_paused_by_governance state \<longleftrightarrow> UsageGovernancePause \<in> set (rs_pause_sources s'))"
    by (intro exI[of _ "v\<lparr>us_paused_by_governance := has_pause_source s' UsageGovernancePause\<rparr>"])
      (simp add: has_pause_source_def)
qed

definition demo_paused :: RuntimeSnapshot where
  "demo_paused = (add_governance_pause_source demo_snapshot)\<lparr>rs_updated_at := ''D''\<rparr>"

definition demo_verdict :: UsageGovernanceState where
  "demo_verdict =
     \<lparr>us_version = ''1.0'', us_enabled = True, us_auto_resume = True, us_auto_resume_possible = True,
      us_evaluation_boundary = UsageGovernanceEvaluationBoundary.BetweenStages, us_calendar_timezone = ''UTC'',
      us_daemon_session_id = Some ''s'', us_last_evaluated_at = ''D'', us_active_blockers = [demo_blocker],
      us_paused_by_governance = True, us_next_auto_resume_at = Some ''G'',
      us_subscription_quota_status =
        subscription_quota_status_unavailable SubscriptionQuotaRulesConfig_default ''D''\<rparr>"

lemma demo_load_ledger: "load_usage_governance_ledger demo_clock demo_counted_files = Inr demo_ledger"
  by (simp add: load_usage_governance_ledger_def demo_counted_files_def demo_ledger_def demo_entry_valid checked_def)

lemma demo_quota: "uc_subscription_quota_rules demo_governance = SubscriptionQuotaRulesConfig_default"
    "\<not> qu_enabled SubscriptionQuotaRulesConfig_default"
  by (simp_all add: demo_governance_def UsageGovernanceConfig_default_def SubscriptionQuotaRulesConfig_default_def)

lemma demo_settings: "uc_auto_resume demo_governance" "uc_calendar_timezone demo_governance = ''UTC''"
    "uc_evaluation_boundary demo_governance = UsageGovernanceEvaluationBoundary.BetweenStages"
    "tc_rules (uc_runtime_token_rules demo_governance) = [demo_rule]"
  by (simp_all add: demo_governance_def UsageGovernanceConfig_default_def)

lemma demo_next: "next_auto_resume_at demo_clock [demo_blocker] = Inr (Some ''G'')"
proof -
  have "ve_format demo_clock (demo_time 71) = Inr ''G''" "trim ''G'' = ''G''"
    by (simp add: demo_clock_def demo_time_def hours_def seconds_def) code_simp+
  then have "timestamp_from_offset demo_clock ''next_auto_resume_at'' (demo_time 71) = Inr ''G''"
    by (simp add: timestamp_from_offset_def Timestamp_parse_def)
  then show ?thesis
    by (simp add: next_auto_resume_at_def demo_blocker_def parse_timestamp_def demo_parse)
qed

lemma demo_judged:
  "governance_verdict demo_clock demo_governance ''D'' (Some ''s'') False None demo_counted_files = Inr demo_verdict"
  by (simp add: governance_verdict_def demo_load_ledger demo_enabled evaluate_runtime_token_rules_def
      parse_timestamp_def demo_parse demo_settings demo_blocked subscription_quota_status_for_evaluation_def
      demo_quota evaluate_subscription_quota_rules_def demo_next demo_verdict_def)
    (simp add: demo_blocker_def)

lemma demo_verdict_valid: "UsageGovernanceState_validate_contract (ve_rfc demo_clock) demo_verdict = Inr ()"
proof -
  have trims: "trim ''UTC'' = ''UTC''" "trim ''rolling'' = ''rolling''" "trim ''rolling_5h'' = ''rolling_5h''"
    by code_simp+
  show ?thesis
    unfolding UsageGovernanceState_validate_contract_def UsageGovernanceBlocker_validate_def
      SubscriptionQuotaStatus_validate_def all_checks_iffs
    by (simp add: demo_verdict_def demo_blocker_def trims subscription_quota_status_unavailable_def
        SubscriptionQuotaRulesConfig_default_def require_finite_non_negative_def f64_of_small validate_json_literal_def)
qed

lemma demo_unpaused: "rs_pause_sources demo_snapshot = []"
  by (simp add: demo_snapshot_def)

lemma demo_evaluated:
  "evaluate_and_apply_usage_governance demo_clock demo_governance ''s'' (\<lambda>_. Inr ()) ''D'' None
     (demo_files, demo_snapshot) = (Inr (), demo_counted_files\<lparr>gf_state := Some (Inr demo_verdict)\<rparr>, demo_paused)"
proof -
  have "trim ''1970-01-01T00:00:00Z'' = ''1970-01-01T00:00:00Z''" by code_simp
  then have "Timestamp_parse (ve_rfc demo_clock) ''last_evaluated_at'' ''1970-01-01T00:00:00Z''
      = Inr ''1970-01-01T00:00:00Z''"
    by (simp add: Timestamp_parse_def ve_rfc_def) (simp add: demo_clock_def)
  then have loaded: "load_usage_governance_state demo_clock demo_files = Inr (disabled_state ''1970-01-01T00:00:00Z'')"
    by (simp add: load_usage_governance_state_def demo_files_def)
  have empty: "load_usage_governance_ledger demo_clock demo_files = Inr []"
    by (simp add: load_usage_governance_ledger_def demo_files_def)
  have "evaluate_usage_governance demo_clock demo_governance ''D'' (Some ''s'') False None None demo_files
      = (Inr demo_verdict, demo_counted_files\<lparr>gf_state := Some (Inr demo_verdict)\<rparr>)"
    by (simp add: evaluate_usage_governance_def demo_enabled demo_counts_two[unfolded demo_counted_def] demo_judged
        save_usage_governance_state_def demo_verdict_valid)
  moreover have blockers: "us_active_blockers demo_verdict \<noteq> []" "us_paused_by_governance demo_verdict"
    by (simp_all add: demo_verdict_def)
  moreover have applied: "apply_governance_state demo_governance demo_verdict demo_snapshot
      = add_governance_pause_source demo_snapshot"
    using blockers by (simp add: apply_governance_state_def demo_enabled)
  moreover have changed: "add_governance_pause_source demo_snapshot \<noteq> demo_snapshot"
    "has_pause_source demo_paused UsageGovernancePause"
    by (auto simp: add_governance_pause_source_def demo_unpaused demo_paused_def has_pause_source_def
        dest!: arg_cong[where f = rs_pause_sources])
  ultimately show ?thesis
    by (simp add: evaluate_and_apply_usage_governance_def should_evaluate_usage_governance_def demo_enabled loaded
        empty has_pause_source_def demo_unpaused demo_paused_def[symmetric])
qed

lemma governance_pause_follows_the_ledger_witness:
  "UsageGovernancePause \<in> set (rs_pause_sources demo_paused)
    \<and> OperatorPause \<notin> set (rs_pause_sources demo_paused)"
  using governance_pause_follows_the_ledger[OF demo_evaluated] demo_enabled demo_unpaused
  by (simp add: demo_verdict_def) blast

end
