(* ===== verification/Run_Requests.thy ===== *)
theory Run_Requests
  imports Runtime_Documents Capabilities
begin

text \<open>
  The request of one stage run, from \<^verbatim>\<open>src/src/runtime/mod.rs\<close>: its result-class policy, its defaults and
  validation, and the context lines a runner shows to the model.
\<close>

section \<open>Data\<close>

datatype RequestKind = ActiveWorkItem | ClosureTarget | LearningRequest

primrec RequestKind_as_str :: "RequestKind \<Rightarrow> string" where
  "RequestKind_as_str RequestKind.ActiveWorkItem = ''active_work_item''"
| "RequestKind_as_str RequestKind.ClosureTarget = ''closure_target''"
| "RequestKind_as_str RequestKind.LearningRequest = ''learning_request''"

record AllowedResultClassPolicy =
  rp_outcome :: string
  rp_result_classes :: "ResultClass list"

datatype StageRunRequestError =
    RqContract ContractError
  | RqJson string
  | RqField string string
  | RqDocument string

primrec StageRunRequestError_to_string :: "StageRunRequestError \<Rightarrow> string" where
  "StageRunRequestError_to_string (RqContract e) = ContractError_to_string e"
| "StageRunRequestError_to_string (RqJson m) = ''failed to decode stage_run_request: '' @ m"
| "StageRunRequestError_to_string (RqField f m) = f @ '' is invalid: '' @ m"
| "StageRunRequestError_to_string (RqDocument m) = m"

record StageRunRequest =
  rq_request_id :: string
  rq_run_id :: string
  rq_plane :: Plane
  rq_stage :: StageName
  rq_request_kind :: RequestKind
  rq_mode_id :: string
  rq_compiled_plan_id :: string
  rq_launch_plan_id :: "string option"
  rq_lane_id :: "string option"
  rq_node_id :: string
  rq_stage_kind_id :: string
  rq_running_status_marker :: string
  rq_legal_terminal_markers :: "string list"
  rq_allowed_result_classes_by_outcome :: "AllowedResultClassPolicy list"
  rq_entrypoint_path :: string
  rq_entrypoint_contract_id :: "string option"
  rq_required_skill_paths :: "string list"
  rq_attached_skill_paths :: "string list"
  rq_active_work_item_family_id :: "string option"
  rq_active_work_item_kind :: "WorkItemKind option"
  rq_active_work_item_id :: "string option"
  rq_active_work_item_path :: "string option"
  rq_closure_target_path :: "string option"
  rq_closure_target_root_spec_id :: "string option"
  rq_closure_target_root_idea_id :: "string option"
  rq_canonical_root_spec_path :: "string option"
  rq_canonical_seed_idea_path :: "string option"
  rq_preferred_rubric_path :: "string option"
  rq_preferred_verdict_path :: "string option"
  rq_preferred_report_path :: "string option"
  rq_run_dir :: string
  rq_summary_status_path :: string
  rq_runtime_snapshot_path :: string
  rq_recovery_counters_path :: string
  rq_preferred_troubleshoot_report_path :: "string option"
  rq_runtime_error_code :: "string option"
  rq_runtime_error_report_path :: "string option"
  rq_runtime_error_catalog_path :: "string option"
  rq_skill_revision_evidence_path :: "string option"
  rq_runner_name :: "string option"
  rq_model_name :: "string option"
  rq_thinking_level :: "string option"
  rq_model_reasoning_effort :: "string option"
  rq_timeout_seconds :: nat
  rq_execution_capability_grants :: "ExecutionCapabilityGrant list"
  rq_capability_support_decisions :: "CapabilitySupportDecision list"
  rq_request_context_profile_id :: "string option"
  rq_context_bundle_path :: "string option"
  rq_context_artifact_refs :: "string list"
  rq_context_render_plan_id :: "string option"
  rq_rendered_prompt_context_path :: "string option"

section \<open>Result-class policies\<close>

definition policy_for_stage :: "StageName \<Rightarrow> AllowedResultClassPolicy list" where
  "policy_for_stage s =
     map (\<lambda>e. \<lparr>rp_outcome = TerminalResult_as_str (orc_terminal_result e), rp_result_classes = orc_result_classes e\<rparr>)
       (allowed_result_classes_by_outcome s)"

definition result_classes_for :: "AllowedResultClassPolicy list \<Rightarrow> string \<Rightarrow> ResultClass list option" where
  "result_classes_for policy token = map_option rp_result_classes (List.find (\<lambda>e. rp_outcome e = token) policy)"

definition policy_legal_markers :: "AllowedResultClassPolicy list \<Rightarrow> string list" where
  "policy_legal_markers policy = map (\<lambda>e. ''### '' @ rp_outcome e) policy"

text \<open>The entries in the order of the markers, each used once; the entries not used yet are the second
  argument.\<close>

fun reorder_to_legal_markers ::
  "string list \<Rightarrow> AllowedResultClassPolicy list \<Rightarrow> AllowedResultClassPolicy list option" where
  "reorder_to_legal_markers [] unused = (if unused = [] then Some [] else None)"
| "reorder_to_legal_markers (marker # markers) unused =
     (case strip_prefix ''### '' marker of
        None \<Rightarrow> None
      | Some token \<Rightarrow>
          (case List.find (\<lambda>e. rp_outcome e = token) unused of
             None \<Rightarrow> None
           | Some e \<Rightarrow> map_option ((#) e) (reorder_to_legal_markers markers (remove1 e unused))))"

definition rq_require_non_blank :: "string \<Rightarrow> string \<Rightarrow> StageRunRequestError + unit" where
  "rq_require_non_blank f v = (if trim v = [] then Inl (RqField f ''is required'') else Inr ())"

definition rq_require_optional_non_blank :: "string \<Rightarrow> string option \<Rightarrow> StageRunRequestError + unit" where
  "rq_require_optional_non_blank f v =
     (case v of None \<Rightarrow> Inr () | Some x \<Rightarrow> if trim x = [] then Inl (RqField f ''must not be blank when set'') else Inr ())"

definition rq_check :: "bool \<Rightarrow> string \<Rightarrow> StageRunRequestError + unit" where
  "rq_check ok m = (if ok then Inr () else Inl (RqDocument m))"

fun validate_policy_entries ::
  "Plane \<Rightarrow> string set \<Rightarrow> AllowedResultClassPolicy list \<Rightarrow> StageRunRequestError + unit" where
  "validate_policy_entries plane seen [] = Inr ()"
| "validate_policy_entries plane seen (e # es) = all_checks
     [rq_require_non_blank ''allowed_result_classes_by_outcome'' (rp_outcome e),
      rq_check (rp_outcome e \<notin> seen)
        (''allowed_result_classes_by_outcome contains duplicate outcome '' @ rp_outcome e),
      map_ok (\<lambda>_. ()) (map_err RqContract (terminal_result_for_plane plane (rp_outcome e))),
      rq_check (rp_result_classes e \<noteq> [])
        (''allowed_result_classes_by_outcome.'' @ rp_outcome e @ '' must not be empty''),
      validate_policy_entries plane (insert (rp_outcome e) seen) es]"

definition policy_validate :: "Plane \<Rightarrow> AllowedResultClassPolicy list \<Rightarrow> StageRunRequestError + unit" where
  "policy_validate plane policy = validate_policy_entries plane {} policy"

section \<open>Validation\<close>

definition closure_fields :: "StageRunRequest \<Rightarrow> string option list" where
  "closure_fields q =
     [rq_closure_target_path q, rq_closure_target_root_spec_id q, rq_closure_target_root_idea_id q,
      rq_canonical_root_spec_path q, rq_canonical_seed_idea_path q, rq_preferred_rubric_path q,
      rq_preferred_verdict_path q, rq_preferred_report_path q]"

definition has_any_closure_field :: "StageRunRequest \<Rightarrow> bool" where
  "has_any_closure_field q \<longleftrightarrow> list_ex (\<lambda>x. x \<noteq> None) (closure_fields q)"

definition has_all_closure_fields :: "StageRunRequest \<Rightarrow> bool" where
  "has_all_closure_fields q \<longleftrightarrow> list_all (\<lambda>x. x \<noteq> None) (closure_fields q)"

definition format_stage_work_item_mismatch :: "StageName \<Rightarrow> WorkItemKind \<Rightarrow> string" where
  "format_stage_work_item_mismatch s k =
     (let expected = join_with '', '' (map WorkItemKind_as_str (allowed_work_item_kinds s)) in
      if expected = [] then
        ''stage '' @ StageName_as_str s @ '' does not allow active work items; got '' @ WorkItemKind_as_str k
      else
        ''stage '' @ StageName_as_str s @ '' does not allow active_work_item_kind '' @ WorkItemKind_as_str k
        @ ''; expected one of: '' @ expected)"

definition request_kind_checks :: "StageRunRequest \<Rightarrow> StageRunRequestError + unit" where
  "request_kind_checks q =
     (case rq_request_kind q of
        RequestKind.ActiveWorkItem \<Rightarrow>
          (case rq_active_work_item_kind q of
             None \<Rightarrow> rq_check False ''active_work_item requests require active work item fields''
           | Some kind \<Rightarrow> all_checks
               [rq_check (rq_active_work_item_path q \<noteq> None)
                  ''active_work_item requests require active work item fields'',
                rq_check (kind \<noteq> WorkItemKind.LearningRequest)
                  ''learning_request work items must use request_kind=learning_request'',
                rq_check (stage_allows_work_item_kind (rq_stage q) kind)
                  (format_stage_work_item_mismatch (rq_stage q) kind),
                rq_check (\<not> has_any_closure_field q)
                  ''active_work_item requests cannot declare closure target fields''])
      | RequestKind.ClosureTarget \<Rightarrow> all_checks
          [rq_check (rq_active_work_item_kind q = None \<and> rq_active_work_item_path q = None)
             ''closure_target requests cannot declare active work item fields'',
           rq_check (has_all_closure_fields q) ''closure_target requests require closure target fields'']
      | RequestKind.LearningRequest \<Rightarrow> all_checks
          [rq_check (rq_plane q = Plane.Learning) ''learning_request requests must run on the learning plane'',
           rq_check (rq_active_work_item_kind q = Some WorkItemKind.LearningRequest)
             ''learning_request requests require learning_request work item kind'',
           rq_check (rq_active_work_item_path q \<noteq> None)
             ''learning_request requests require active_work_item_path'',
           rq_check (\<not> has_any_closure_field q)
             ''learning_request requests cannot declare closure target fields'',
           rq_check (stage_allows_work_item_kind (rq_stage q) WorkItemKind.LearningRequest)
             (format_stage_work_item_mismatch (rq_stage q) WorkItemKind.LearningRequest)])"

definition request_defaults :: "StageRunRequest \<Rightarrow> StageRunRequest" where
  "request_defaults q =
     q\<lparr>rq_node_id := (if rq_node_id q = [] then StageName_as_str (rq_stage q) else rq_node_id q),
       rq_stage_kind_id := (if rq_stage_kind_id q = [] then StageName_as_str (rq_stage q) else rq_stage_kind_id q),
       rq_running_status_marker := (if rq_running_status_marker q = [] then running_status_marker (rq_stage q)
          else rq_running_status_marker q),
       rq_allowed_result_classes_by_outcome := (if rq_allowed_result_classes_by_outcome q = []
          then policy_for_stage (rq_stage q) else rq_allowed_result_classes_by_outcome q),
       rq_legal_terminal_markers := (if rq_legal_terminal_markers q = [] then legal_terminal_markers (rq_stage q)
          else rq_legal_terminal_markers q)\<rparr>"

definition with_ordered_policy :: "StageRunRequest \<Rightarrow> StageRunRequestError + StageRunRequest" where
  "with_ordered_policy q =
     (if rq_legal_terminal_markers q = policy_legal_markers (rq_allowed_result_classes_by_outcome q) then Inr q
      else (case reorder_to_legal_markers (rq_legal_terminal_markers q) (rq_allowed_result_classes_by_outcome q) of
              None \<Rightarrow> Inl (RqDocument ''legal_terminal_markers must match allowed_result_classes_by_outcome keys'')
            | Some entries \<Rightarrow> Inr (q\<lparr>rq_allowed_result_classes_by_outcome := entries\<rparr>)))"

definition with_family_default :: "StageRunRequest \<Rightarrow> StageRunRequest" where
  "with_family_default q =
     (case (rq_active_work_item_family_id q, rq_active_work_item_kind q) of
        (None, Some kind) \<Rightarrow> q\<lparr>rq_active_work_item_family_id := Some (WorkItemKind_as_str kind)\<rparr>
      | _ \<Rightarrow> q)"

definition StageRunRequest_validate :: "StageRunRequest \<Rightarrow> StageRunRequestError + StageRunRequest" where
  "StageRunRequest_validate q0 =
     (let q = q0\<lparr>rq_launch_plan_id := (case rq_launch_plan_id q0 of None \<Rightarrow> Some (rq_compiled_plan_id q0) | x \<Rightarrow> x)\<rparr> in
      and_then (all_checks
        ([rq_require_non_blank ''request_id'' (rq_request_id q),
          rq_require_non_blank ''run_id'' (rq_run_id q),
          rq_require_non_blank ''mode_id'' (rq_mode_id q),
          rq_require_non_blank ''compiled_plan_id'' (rq_compiled_plan_id q),
          rq_require_optional_non_blank ''launch_plan_id'' (rq_launch_plan_id q),
          rq_require_optional_non_blank ''lane_id'' (rq_lane_id q),
          rq_require_non_blank ''entrypoint_path'' (rq_entrypoint_path q),
          rq_require_non_blank ''run_dir'' (rq_run_dir q),
          rq_require_non_blank ''summary_status_path'' (rq_summary_status_path q),
          rq_require_non_blank ''runtime_snapshot_path'' (rq_runtime_snapshot_path q),
          rq_require_non_blank ''recovery_counters_path'' (rq_recovery_counters_path q)]
         @ map (\<lambda>g. map_err (RqField ''execution_capability_grants'') (ExecutionCapabilityGrant_validate g))
             (rq_execution_capability_grants q)
         @ map (\<lambda>d. map_err (RqField ''capability_support_decisions'') (CapabilitySupportDecision_validate d))
             (rq_capability_support_decisions q)
         @ [rq_check (stage_plane (rq_stage q) = rq_plane q) ''stage must belong to plane''])) (\<lambda>_.
      let q1 = request_defaults q in
      and_then (all_checks
        [rq_require_non_blank ''node_id'' (rq_node_id q1),
         rq_require_non_blank ''stage_kind_id'' (rq_stage_kind_id q1),
         rq_require_non_blank ''running_status_marker'' (rq_running_status_marker q1),
         policy_validate (rq_plane q1) (rq_allowed_result_classes_by_outcome q1)]) (\<lambda>_.
      and_then (with_ordered_policy q1) (\<lambda>q2.
      and_then (rq_check ((rq_active_work_item_kind q2 \<noteq> None) = (rq_active_work_item_id q2 \<noteq> None))
        ''active_work_item_kind and active_work_item_id must be set together'') (\<lambda>_.
      let q3 = with_family_default q2 in
      map_ok (\<lambda>_. q3) (all_checks
        ([rq_require_optional_non_blank ''active_work_item_family_id'' (rq_active_work_item_family_id q3),
          rq_require_optional_non_blank ''request_context_profile_id'' (rq_request_context_profile_id q3),
          rq_require_optional_non_blank ''context_bundle_path'' (rq_context_bundle_path q3),
          rq_require_optional_non_blank ''context_render_plan_id'' (rq_context_render_plan_id q3),
          rq_require_optional_non_blank ''rendered_prompt_context_path'' (rq_rendered_prompt_context_path q3)]
         @ map (rq_require_non_blank ''context_artifact_refs'') (rq_context_artifact_refs q3)
         @ [request_kind_checks q3])))))))"

section \<open>Context lines\<close>

definition or_none :: "string option \<Rightarrow> string" where
  "or_none v = (case v of None \<Rightarrow> ''none'' | Some x \<Rightarrow> x)"

definition push_value_list :: "string list \<Rightarrow> string \<Rightarrow> string list \<Rightarrow> string list" where
  "push_value_list lines label values =
     (if values = [] then lines @ [label @ '': none'']
      else lines @ [label @ '':''] @ map (\<lambda>v. ''- '' @ v) values)"

definition push_result_class_policy ::
  "string list \<Rightarrow> string \<Rightarrow> AllowedResultClassPolicy list \<Rightarrow> string list" where
  "push_result_class_policy lines label policy =
     (if policy = [] then lines @ [label @ '': none'']
      else lines @ [label @ '':''] @ map (\<lambda>e. ''- '' @ rp_outcome e @ '': ''
             @ join_with '', '' (map ResultClass_as_str (rp_result_classes e))) policy)"

definition push_capability_grants :: "string list \<Rightarrow> ExecutionCapabilityGrant list \<Rightarrow> string list" where
  "push_capability_grants lines grants =
     (if grants = [] then lines @ [''Execution Capability Grants: none'']
      else lines @ [''Execution Capability Grants:''] @ map (\<lambda>g. ''- '' @ kg_grant_id g @ '' '' @ kg_capability_id g
             @ '' decision='' @ CapabilityDecisionState_as_str (kg_decision_state g)
             @ '' enforcement='' @ CapabilityEnforcementMode_as_str (kg_enforcement_mode g)
             @ (case kg_approval_policy_ref g of None \<Rightarrow> [] | Some p \<Rightarrow> '' approval='' @ ka_policy_id p)) grants)"

definition push_capability_support_decisions ::
  "string list \<Rightarrow> CapabilitySupportDecision list \<Rightarrow> string list" where
  "push_capability_support_decisions lines decisions =
     (if decisions = [] then lines @ [''Capability Support Decisions: none'']
      else lines @ [''Capability Support Decisions:''] @ map (\<lambda>d. ''- '' @ kd_grant_id d
             @ '' support='' @ CapabilitySupportState_as_str (kd_support_state d)
             @ '' enforcement='' @ CapabilityEnforcementMode_as_str (kd_enforcement_mode d)
             @ '' runner='' @ kd_runner_id d) decisions)"

definition render_context_lines :: "StageRunRequest \<Rightarrow> string list" where
  "render_context_lines q =
     (let lines0 =
        [''Request ID: '' @ rq_request_id q, ''Run ID: '' @ rq_run_id q, ''Mode ID: '' @ rq_mode_id q,
         ''Compiled Plan ID: '' @ rq_compiled_plan_id q, ''Launch Plan ID: '' @ or_none (rq_launch_plan_id q),
         ''Lane ID: '' @ or_none (rq_lane_id q), ''Node ID: '' @ rq_node_id q,
         ''Stage Kind ID: '' @ rq_stage_kind_id q, ''Stage: '' @ StageName_as_str (rq_stage q),
         ''Plane: '' @ Plane_as_str (rq_plane q), ''Request Kind: '' @ RequestKind_as_str (rq_request_kind q),
         ''Running Status Marker: '' @ rq_running_status_marker q, ''Entrypoint Path: '' @ rq_entrypoint_path q,
         ''Entrypoint Contract ID: '' @ or_none (rq_entrypoint_contract_id q),
         ''Active Work Item Family ID: '' @ or_none (rq_active_work_item_family_id q),
         ''Active Work Item: '' @ or_none (map_option WorkItemKind_as_str (rq_active_work_item_kind q)) @ '' ''
           @ or_none (rq_active_work_item_id q),
         ''Active Work Item Path: '' @ or_none (rq_active_work_item_path q),
         ''Closure Target Path: '' @ or_none (rq_closure_target_path q),
         ''Closure Target Root Spec ID: '' @ or_none (rq_closure_target_root_spec_id q),
         ''Closure Target Root Idea ID: '' @ or_none (rq_closure_target_root_idea_id q),
         ''Canonical Root Spec Path: '' @ or_none (rq_canonical_root_spec_path q),
         ''Canonical Seed Idea Path: '' @ or_none (rq_canonical_seed_idea_path q),
         ''Preferred Rubric Path: '' @ or_none (rq_preferred_rubric_path q),
         ''Preferred Verdict Path: '' @ or_none (rq_preferred_verdict_path q),
         ''Preferred Report Path: '' @ or_none (rq_preferred_report_path q)];
       lines1 = push_value_list lines0 ''Legal Terminal Markers'' (rq_legal_terminal_markers q);
       lines2 = push_result_class_policy lines1 ''Allowed Result Classes By Outcome''
         (rq_allowed_result_classes_by_outcome q);
       lines3 = push_value_list lines2 ''Required Skill Paths'' (rq_required_skill_paths q);
       lines4 = push_value_list lines3 ''Attached Skill Paths'' (rq_attached_skill_paths q);
       lines5 = push_capability_grants lines4 (rq_execution_capability_grants q);
       lines6 = push_capability_support_decisions lines5 (rq_capability_support_decisions q);
       lines7 = lines6 @
        [''Run Directory: '' @ rq_run_dir q, ''Runtime Snapshot Path: '' @ rq_runtime_snapshot_path q,
         ''Recovery Counters Path: '' @ rq_recovery_counters_path q,
         ''Summary Status Path: '' @ rq_summary_status_path q,
         ''Request Context Profile ID: '' @ or_none (rq_request_context_profile_id q),
         ''Context Bundle Path: '' @ or_none (rq_context_bundle_path q),
         ''Rendered Prompt Context Path: '' @ or_none (rq_rendered_prompt_context_path q),
         ''Context Render Plan ID: '' @ or_none (rq_context_render_plan_id q),
         ''Preferred Troubleshoot Report Path: '' @ or_none (rq_preferred_troubleshoot_report_path q),
         ''Runtime Error Code: '' @ or_none (rq_runtime_error_code q),
         ''Runtime Error Report Path: '' @ or_none (rq_runtime_error_report_path q),
         ''Runtime Error Catalog Path: '' @ or_none (rq_runtime_error_catalog_path q),
         ''Skill Revision Evidence Path: '' @ or_none (rq_skill_revision_evidence_path q),
         ''Runner Name: '' @ or_none (rq_runner_name q), ''Model Name: '' @ or_none (rq_model_name q),
         ''Thinking Level: '' @ or_none (rq_thinking_level q),
         ''Model Reasoning Effort: '' @ or_none (rq_model_reasoning_effort q),
         ''Timeout Seconds: '' @ show_nat (rq_timeout_seconds q)]
      in push_value_list lines7 ''Visible Context References'' (rq_context_artifact_refs q))"

end
