(* ===== verification/Runner_Results.thy ===== *)
theory Runner_Results
  imports Run_Requests
begin

text \<open>
  What a runner returns for one stage request, from \<^verbatim>\<open>src/src/runners/contracts.rs\<close>: the raw result, its
  validation, the errors of the runners, and the capability support an adapter reports by default. Reading
  a time gives its instant in nanoseconds; the conversion of a duration to floating point is a parameter.
\<close>

section \<open>Data\<close>

datatype RunnerExitKind = Completed | Timeout | RunnerError | ProviderError | Interrupted

primrec RunnerExitKind_as_str :: "RunnerExitKind \<Rightarrow> string" where
  "RunnerExitKind_as_str RunnerExitKind.Completed = ''completed''"
| "RunnerExitKind_as_str RunnerExitKind.Timeout = ''timeout''"
| "RunnerExitKind_as_str RunnerExitKind.RunnerError = ''runner_error''"
| "RunnerExitKind_as_str RunnerExitKind.ProviderError = ''provider_error''"
| "RunnerExitKind_as_str RunnerExitKind.Interrupted = ''interrupted''"

record RunnerRawResult =
  rw_request_id :: string
  rw_run_id :: string
  rw_stage :: StageName
  rw_runner_name :: string
  rw_model_name :: "string option"
  rw_thinking_level :: "string option"
  rw_model_reasoning_effort :: "string option"
  rw_exit_kind :: RunnerExitKind
  rw_exit_code :: "int option"
  rw_observed_exit_kind :: "RunnerExitKind option"
  rw_observed_exit_code :: "int option"
  rw_stdout_path :: "string option"
  rw_stderr_path :: "string option"
  rw_terminal_result_path :: "string option"
  rw_event_log_path :: "string option"
  rw_token_usage :: "TokenUsage option"
  rw_failure_capability_class :: "string option"
  rw_capability_support_decisions :: "CapabilitySupportDecision list"
  rw_capability_evidence_refs :: "string list"
  rw_missing_capability_evidence_refs :: "string list"
  rw_started_at :: Timestamp
  rw_ended_at :: Timestamp

datatype RunnerError =
    RwJson string string
  | InvalidRawResult string
  | InvalidRequest string
  | RwIo string string
  | RwStageResultEnvelope string
  | InvalidProcessResult string
  | InvalidRunnerArtifact string
  | InvalidRunnerName string
  | DuplicateRunner string
  | UnknownRunner string "string list"
  | RunnerBinaryNotFound string
  | RunnerTransport string

primrec RunnerError_to_string :: "RunnerError \<Rightarrow> string" where
  "RunnerError_to_string (RwJson artifact m) = ''failed to decode '' @ artifact @ '': '' @ m"
| "RunnerError_to_string (InvalidRawResult m) = m"
| "RunnerError_to_string (InvalidRequest m) = m"
| "RunnerError_to_string (RwIo path m) = ''runner artifact IO failed at '' @ path @ '': '' @ m"
| "RunnerError_to_string (RwStageResultEnvelope m) = ''normalized stage result is invalid: '' @ m"
| "RunnerError_to_string (InvalidProcessResult m) = m"
| "RunnerError_to_string (InvalidRunnerArtifact m) = m"
| "RunnerError_to_string (InvalidRunnerName m) = m"
| "RunnerError_to_string (DuplicateRunner name) = ''duplicate stage runner adapter: '' @ name"
| "RunnerError_to_string (UnknownRunner requested available) =
     ''Unknown stage runner: '' @ requested @ ''. Available: ''
     @ (if available = [] then ''none'' else join_with '', '' available)"
| "RunnerError_to_string (RunnerBinaryNotFound binary) = ''runner binary not found: '' @ binary"
| "RunnerError_to_string (RunnerTransport m) = m"

section \<open>Validation\<close>

definition rw_require_non_blank :: "string \<Rightarrow> string \<Rightarrow> RunnerError + unit" where
  "rw_require_non_blank f v = (if trim v = [] then Inl (InvalidRawResult (f @ '' is required'')) else Inr ())"

definition validate_non_blank_values :: "string \<Rightarrow> string list \<Rightarrow> RunnerError + unit" where
  "validate_non_blank_values f vs =
     (if list_ex (\<lambda>v. trim v = []) vs then Inl (InvalidRawResult (f @ '' values must not be blank'')) else Inr ())"

definition rw_parse_time :: "(string \<Rightarrow> string + int) \<Rightarrow> string \<Rightarrow> Timestamp \<Rightarrow> RunnerError + int" where
  "rw_parse_time rfc f t = map_err (\<lambda>m. InvalidRawResult (f @ '' is invalid: '' @ m)) (rfc t)"

definition RunnerRawResult_validate :: "(string \<Rightarrow> string + int) \<Rightarrow> RunnerRawResult \<Rightarrow> RunnerError + unit" where
  "RunnerRawResult_validate rfc w = all_checks
     ([rw_require_non_blank ''request_id'' (rw_request_id w),
       rw_require_non_blank ''run_id'' (rw_run_id w),
       rw_require_non_blank ''runner_name'' (rw_runner_name w),
       (case rw_failure_capability_class w of
          None \<Rightarrow> Inr ()
        | Some v \<Rightarrow> if trim v = [] then Inl (InvalidRawResult ''failure_capability_class must not be blank'') else Inr ())]
      @ map (\<lambda>d. map_err InvalidRawResult (CapabilitySupportDecision_validate d)) (rw_capability_support_decisions w)
      @ [validate_non_blank_values ''capability_evidence_refs'' (rw_capability_evidence_refs w),
         validate_non_blank_values ''missing_capability_evidence_refs'' (rw_missing_capability_evidence_refs w),
         and_then (rw_parse_time rfc ''ended_at'' (rw_ended_at w)) (\<lambda>ended.
         and_then (rw_parse_time rfc ''started_at'' (rw_started_at w)) (\<lambda>started.
         if ended < started then Inl (InvalidRawResult ''ended_at cannot precede started_at'') else Inr ()))])"

definition RunnerRawResult_duration_seconds ::
  "(string \<Rightarrow> string + int) \<Rightarrow> (int \<Rightarrow> f64) \<Rightarrow> RunnerRawResult \<Rightarrow> RunnerError + f64" where
  "RunnerRawResult_duration_seconds rfc as_seconds w =
     and_then (rw_parse_time rfc ''ended_at'' (rw_ended_at w)) (\<lambda>ended.
     map_ok (\<lambda>started. as_seconds (ended - started)) (rw_parse_time rfc ''started_at'' (rw_started_at w)))"

definition try_into_raw_result :: "(string \<Rightarrow> string + int) \<Rightarrow> RunnerRawResult \<Rightarrow> RunnerError + RunnerRawResult" where
  "try_into_raw_result rfc w = map_ok (\<lambda>_. w) (RunnerRawResult_validate rfc w)"

section \<open>Capability support\<close>

text \<open>The support decision of an adapter that does not override it.\<close>

definition evaluate_capability_grant ::
  "ExecutionCapabilityGrant \<Rightarrow> StageRunRequest \<Rightarrow> CapabilitySupportDecision" where
  "evaluate_capability_grant g q =
     (let name = (case rq_runner_name q of None \<Rightarrow> [] | Some n \<Rightarrow> trim n);
          runner_id = (if name = [] then ''unknown_runner'' else name) in
      if kg_decision_state g \<noteq> CapabilityDecisionState.Granted then
        \<lparr>kd_runner_id = runner_id, kd_invocation_context_ref = StageName_as_str (rq_stage q),
         kd_grant_id = kg_grant_id g, kd_support_state = CapabilitySupportState.Unsupported,
         kd_enforcement_mode = CapabilityEnforcementMode.NotApplicable, kd_limitations = [],
         kd_evidence_available = [],
         kd_reason = ''grant decision is '' @ CapabilityDecisionState_as_str (kg_decision_state g)\<rparr>
      else if kg_capability_id g \<in> {''runner.invoke'', ''artifact.read'', ''artifact.write'', ''evidence.emit''} then
        \<lparr>kd_runner_id = runner_id, kd_invocation_context_ref = StageName_as_str (rq_stage q),
         kd_grant_id = kg_grant_id g, kd_support_state = CapabilitySupportState.Supported,
         kd_enforcement_mode = kg_enforcement_mode g, kd_limitations = [],
         kd_evidence_available = [''runner_invocation'', ''runner_completion''],
         kd_reason = ''Millrace runtime records runner invocation and artifact evidence''\<rparr>
      else
        \<lparr>kd_runner_id = runner_id, kd_invocation_context_ref = StageName_as_str (rq_stage q),
         kd_grant_id = kg_grant_id g, kd_support_state = CapabilitySupportState.PartiallySupported,
         kd_enforcement_mode = CapabilityEnforcementMode.AdvisoryOnly,
         kd_limitations = [''runner support could not prove narrow enforcement boundaries''],
         kd_evidence_available = [''runner_invocation'', ''runner_completion''],
         kd_reason = ''runner support is advisory by default''\<rparr>)"

definition capability_support_decisions ::
  "(ExecutionCapabilityGrant \<Rightarrow> StageRunRequest \<Rightarrow> CapabilitySupportDecision) \<Rightarrow> StageRunRequest \<Rightarrow>
   CapabilitySupportDecision list" where
  "capability_support_decisions evaluate q = map (\<lambda>g. evaluate g q) (rq_execution_capability_grants q)"

definition request_with_capability_support ::
  "(ExecutionCapabilityGrant \<Rightarrow> StageRunRequest \<Rightarrow> CapabilitySupportDecision) \<Rightarrow> StageRunRequest \<Rightarrow> StageRunRequest" where
  "request_with_capability_support evaluate q =
     (if rq_execution_capability_grants q = [] \<or> rq_capability_support_decisions q \<noteq> [] then q
      else q\<lparr>rq_capability_support_decisions := capability_support_decisions evaluate q\<rparr>)"

end
