(* ===== verification/Result_Normalization.thy ===== *)
theory Result_Normalization
  imports Runner_Results Text_Lines
begin

text \<open>
  Normalisation of a raw runner result into a stage result, from \<^verbatim>\<open>src/src/runners/normalization.rs\<close>.

  The surroundings are the record \<open>normalization_env\<close>: the files, the clock's parser, and what the serde,
  time and Unicode libraries compute: decoding of the structured payload, the serialisation of grants and
  support decisions, the float of a duration, \<^verbatim>\<open>to_lowercase\<close> and the \<^verbatim>\<open>{:?}\<close> form of a text. A panic of
  \<^verbatim>\<open>expect\<close> is the result \<open>None\<close>.
\<close>

section \<open>Surroundings\<close>

record StructuredTerminalResultPayload =
  sp_stage :: "string option"
  sp_terminal_result :: string
  sp_result_class :: "ResultClass option"
  sp_summary_artifact_paths :: "string list"

record normalization_env =
  nv_rfc :: "string \<Rightarrow> string + int"
  nv_as_seconds :: "int \<Rightarrow> f64"
  nv_exists :: "string \<Rightarrow> bool"
  nv_is_file :: "string \<Rightarrow> bool"
  nv_read_to_string :: "string \<Rightarrow> string + string"
  nv_read_lossy :: "string \<Rightarrow> string option"
  nv_canonicalize :: "string \<Rightarrow> string option"
  nv_is_json :: "string \<Rightarrow> bool"
  nv_decode_payload :: "string \<Rightarrow> string + StructuredTerminalResultPayload"
  nv_to_lowercase :: "string \<Rightarrow> string"
  nv_debug :: "string \<Rightarrow> string"
  nv_grant_json :: "ExecutionCapabilityGrant \<Rightarrow> json"
  nv_decision_json :: "CapabilitySupportDecision \<Rightarrow> json"

section \<open>Failure classification\<close>

definition new_metadata ::
  "RunnerFailureClass \<Rightarrow> BlockedOrigin \<Rightarrow> FailureScope \<Rightarrow> bool \<Rightarrow> FailureClassifierCode \<Rightarrow> RunnerFailureMetadata" where
  "new_metadata failure_class origin scope requeue code =
     \<lparr>rf_failure_class = failure_class, rf_blocked_origin = origin, rf_failure_scope = scope,
      rf_auto_requeue_candidate = requeue, rf_failure_classifier_code = code\<rparr>"

primrec classification_for_failure_class :: "RunnerFailureClass \<Rightarrow> RunnerFailureMetadata" where
  "classification_for_failure_class RunnerFailureClass.RunnerTimeout =
     new_metadata RunnerFailureClass.RunnerTimeout BlockedOrigin.RunnerFailure FailureScope.Environment True
       FailureClassifierCode.RunnerTimeout"
| "classification_for_failure_class RunnerFailureClass.NetworkUnavailable =
     new_metadata RunnerFailureClass.NetworkUnavailable BlockedOrigin.RunnerFailure FailureScope.Environment True
       FailureClassifierCode.NetworkUnavailable"
| "classification_for_failure_class RunnerFailureClass.ProviderUnavailable =
     new_metadata RunnerFailureClass.ProviderUnavailable BlockedOrigin.RunnerFailure FailureScope.Provider True
       FailureClassifierCode.ProviderUnavailable"
| "classification_for_failure_class RunnerFailureClass.ProviderRateLimited =
     new_metadata RunnerFailureClass.ProviderRateLimited BlockedOrigin.RunnerFailure FailureScope.Provider True
       FailureClassifierCode.ProviderRateLimited"
| "classification_for_failure_class RunnerFailureClass.RunnerBinaryMissing =
     new_metadata RunnerFailureClass.RunnerBinaryMissing BlockedOrigin.RunnerFailure FailureScope.LocalConfiguration
       False FailureClassifierCode.RunnerBinaryMissing"
| "classification_for_failure_class RunnerFailureClass.AuthMissingOrInvalid =
     new_metadata RunnerFailureClass.AuthMissingOrInvalid BlockedOrigin.RunnerFailure FailureScope.LocalConfiguration
       False FailureClassifierCode.AuthMissingOrInvalid"
| "classification_for_failure_class RunnerFailureClass.MissingTerminalResult =
     new_metadata RunnerFailureClass.MissingTerminalResult BlockedOrigin.StageTerminal FailureScope.Contract False
       FailureClassifierCode.MissingTerminalResult"
| "classification_for_failure_class RunnerFailureClass.IllegalTerminalResult =
     new_metadata RunnerFailureClass.IllegalTerminalResult BlockedOrigin.StageTerminal FailureScope.Contract False
       FailureClassifierCode.IllegalTerminalResult"
| "classification_for_failure_class RunnerFailureClass.ConflictingTerminalResults =
     new_metadata RunnerFailureClass.ConflictingTerminalResults BlockedOrigin.StageTerminal FailureScope.Contract False
       FailureClassifierCode.ConflictingTerminalResults"
| "classification_for_failure_class RunnerFailureClass.MissingRequiredArtifact =
     new_metadata RunnerFailureClass.MissingRequiredArtifact BlockedOrigin.StageTerminal FailureScope.Contract False
       FailureClassifierCode.MissingRequiredArtifact"
| "classification_for_failure_class RunnerFailureClass.CapabilityGrantDenied =
     new_metadata RunnerFailureClass.CapabilityGrantDenied BlockedOrigin.RuntimeCapabilityGate FailureScope.RuntimePolicy
       False FailureClassifierCode.CapabilityGrantDenied"
| "classification_for_failure_class RunnerFailureClass.CapabilityApprovalRequired =
     new_metadata RunnerFailureClass.CapabilityApprovalRequired BlockedOrigin.RuntimeCapabilityGate
       FailureScope.RuntimePolicy False FailureClassifierCode.CapabilityApprovalRequired"
| "classification_for_failure_class RunnerFailureClass.CapabilityGrantUnsupported =
     new_metadata RunnerFailureClass.CapabilityGrantUnsupported BlockedOrigin.RuntimeCapabilityGate
       FailureScope.RuntimePolicy False FailureClassifierCode.CapabilityGrantUnsupported"
| "classification_for_failure_class RunnerFailureClass.CapabilityEvidenceMissing =
     new_metadata RunnerFailureClass.CapabilityEvidenceMissing BlockedOrigin.RuntimeCapabilityGate
       FailureScope.RuntimePolicy False FailureClassifierCode.CapabilityEvidenceMissing"
| "classification_for_failure_class RunnerFailureClass.RunnerTransportFailure =
     new_metadata RunnerFailureClass.RunnerTransportFailure BlockedOrigin.RunnerFailure FailureScope.Unknown False
       FailureClassifierCode.UnclassifiedFailure"

definition MAX_CLASSIFIER_TEXT_CHARS :: nat where
  "MAX_CLASSIFIER_TEXT_CHARS = 16000"

text \<open>Characters of UTF-8 text: a byte that does not continue one starts one.\<close>

definition continues_char :: "char \<Rightarrow> bool" where
  "continues_char c \<longleftrightarrow> (128::nat) \<le> of_char c \<and> of_char c < (192::nat)"

definition char_count :: "string \<Rightarrow> nat" where
  "char_count s = length (filter (\<lambda>c. \<not> continues_char c) s)"

primrec skip_chars :: "nat \<Rightarrow> string \<Rightarrow> string" where
  "skip_chars 0 s = s"
| "skip_chars (Suc n) s = skip_chars n (dropWhile continues_char (tl s))"

definition raw_failure_evidence :: "normalization_env \<Rightarrow> RunnerRawResult \<Rightarrow> string" where
  "raw_failure_evidence E w =
     (let texts = List.map_filter (\<lambda>path. case path of
             None \<Rightarrow> None
           | Some p \<Rightarrow> if \<not> nv_is_file E p then None else nv_read_lossy E p)
           [rw_stderr_path w, rw_stdout_path w];
          evidence = nv_to_lowercase E (join_with [CHR 0x0A] texts) in
      if char_count evidence \<le> MAX_CLASSIFIER_TEXT_CHARS then evidence
      else skip_chars (char_count evidence - MAX_CLASSIFIER_TEXT_CHARS) evidence)"

fun text_contains :: "string \<Rightarrow> string \<Rightarrow> bool" where
  "text_contains [] needle \<longleftrightarrow> needle = []"
| "text_contains (c # s) needle \<longleftrightarrow> strip_prefix needle (c # s) \<noteq> None \<or> text_contains s needle"

definition contains_any :: "string \<Rightarrow> string list \<Rightarrow> bool" where
  "contains_any text needles = list_ex (text_contains text) needles"

definition classify_failure_evidence :: "string \<Rightarrow> BlockedOrigin \<Rightarrow> RunnerFailureMetadata option" where
  "classify_failure_evidence evidence origin =
     (if trim evidence = [] then None
      else if contains_any evidence
        [''runner binary not found'', ''executable missing'', ''no such file or directory'', ''command not found'']
      then Some (new_metadata RunnerFailureClass.RunnerBinaryMissing origin FailureScope.LocalConfiguration False
        FailureClassifierCode.RunnerBinaryMissing)
      else if contains_any evidence
        [''unauthorized'', ''authentication'', ''not authenticated'', ''login required'', ''invalid api key'',
         ''api key'', ''401'']
      then Some (new_metadata RunnerFailureClass.AuthMissingOrInvalid origin FailureScope.LocalConfiguration False
        FailureClassifierCode.AuthMissingOrInvalid)
      else if contains_any evidence [''rate limit'', ''rate_limit'', ''too many requests'', ''429'']
      then Some (new_metadata RunnerFailureClass.ProviderRateLimited origin FailureScope.Provider True
        FailureClassifierCode.ProviderRateLimited)
      else if contains_any evidence
        [''could not resolve'', ''temporary failure in name resolution'', ''dns'', ''network is unreachable'',
         ''connection refused'', ''connection reset'', ''no route to host'', ''offline'', ''internet'']
      then Some (new_metadata RunnerFailureClass.NetworkUnavailable origin FailureScope.Environment True
        FailureClassifierCode.NetworkUnavailable)
      else if contains_any evidence
        [''service unavailable'', ''temporarily unavailable'', ''provider unavailable'', ''provider overloaded'',
         ''overloaded'', ''503'']
      then Some (new_metadata RunnerFailureClass.ProviderUnavailable origin FailureScope.Provider True
        FailureClassifierCode.ProviderUnavailable)
      else None)"

definition runtime_capability_failure_class :: "string option \<Rightarrow> RunnerFailureClass option" where
  "runtime_capability_failure_class v =
     Option.bind v (\<lambda>x. map_of
       [(''capability_grant_denied'', RunnerFailureClass.CapabilityGrantDenied),
        (''capability_approval_required'', RunnerFailureClass.CapabilityApprovalRequired),
        (''capability_grant_unsupported'', RunnerFailureClass.CapabilityGrantUnsupported),
        (''capability_evidence_missing'', RunnerFailureClass.CapabilityEvidenceMissing)] (trim x))"

definition clean_exit :: "RunnerRawResult \<Rightarrow> bool" where
  "clean_exit w \<longleftrightarrow> rw_exit_kind w = RunnerExitKind.Completed \<and> rw_exit_code w \<in> {None, Some 0}"

definition classify_raw_exit_failure :: "normalization_env \<Rightarrow> RunnerRawResult \<Rightarrow> RunnerFailureMetadata option" where
  "classify_raw_exit_failure E w =
     (if clean_exit w then None
      else if rw_exit_kind w = RunnerExitKind.Timeout then
        Some (new_metadata RunnerFailureClass.RunnerTimeout BlockedOrigin.RunnerFailure FailureScope.Environment True
          FailureClassifierCode.ExitTimeout)
      else (case runtime_capability_failure_class (rw_failure_capability_class w) of
        Some failure_class \<Rightarrow> Some (classification_for_failure_class failure_class)
      | None \<Rightarrow>
          (case classify_failure_evidence (raw_failure_evidence E w) BlockedOrigin.RunnerFailure of
             Some classification \<Rightarrow> Some classification
           | None \<Rightarrow>
               if rw_exit_kind w = RunnerExitKind.ProviderError then
                 Some (new_metadata RunnerFailureClass.ProviderUnavailable BlockedOrigin.RunnerFailure
                   FailureScope.Provider True FailureClassifierCode.ProviderDefaultUnavailable)
               else Some (classification_for_failure_class RunnerFailureClass.RunnerTransportFailure))))"

section \<open>Terminal results\<close>

record TerminalExtraction =
  tx_terminal_result :: "TerminalResult option"
  tx_result_class :: "ResultClass option"
  tx_detected_marker :: "string option"
  tx_artifact_paths :: "string list"
  tx_failure_class :: "RunnerFailureClass option"
  tx_notes :: "string list"

definition TerminalExtraction_ok :: "TerminalExtraction \<Rightarrow> bool" where
  "TerminalExtraction_ok x \<longleftrightarrow> tx_failure_class x = None \<and> tx_terminal_result x \<noteq> None \<and> tx_result_class x \<noteq> None"

definition failed_extraction ::
  "RunnerFailureClass \<Rightarrow> string option \<Rightarrow> string list \<Rightarrow> string \<Rightarrow> TerminalExtraction" where
  "failed_extraction failure_class marker artifacts note =
     \<lparr>tx_terminal_result = None, tx_result_class = None, tx_detected_marker = marker, tx_artifact_paths = artifacts,
      tx_failure_class = Some failure_class, tx_notes = [note]\<rparr>"

definition terminal_result_for_request :: "StageRunRequest \<Rightarrow> string \<Rightarrow> TerminalResult option" where
  "terminal_result_for_request q token =
     (if ''### '' @ token \<notin> set (rq_legal_terminal_markers q) then None
      else (case terminal_result_for_plane (rq_plane q) token of Inl _ \<Rightarrow> None | Inr r \<Rightarrow> Some r))"

definition resolve_result_class :: "StageRunRequest \<Rightarrow> string \<Rightarrow> ResultClass option \<Rightarrow> ResultClass option" where
  "resolve_result_class q token given =
     Option.bind (result_classes_for (rq_allowed_result_classes_by_outcome q) token) (\<lambda>allowed.
       (case given of
          None \<Rightarrow>
            if length allowed = 1 then Some (hd allowed)
            else if token = ''BLOCKED'' \<and> ResultClass.Blocked \<in> set allowed then Some ResultClass.Blocked
            else None
        | Some c \<Rightarrow> if c \<in> set allowed then Some c else None))"

definition join_path :: "string \<Rightarrow> string \<Rightarrow> string" where
  "join_path base p = (if p \<noteq> [] \<and> hd p = CHR ''/'' then p else base @ ''/'' @ p)"

definition artifact_exists :: "normalization_env \<Rightarrow> string \<Rightarrow> string \<Rightarrow> bool" where
  "artifact_exists E run_dir candidate =
     (case nv_canonicalize E run_dir of
        None \<Rightarrow> False
      | Some run_root \<Rightarrow>
          (case nv_canonicalize E (join_path run_root candidate) of
             None \<Rightarrow> False
           | Some p \<Rightarrow> path_strip_prefix run_root p \<noteq> None \<and> nv_exists E p))"

definition extract_from_structured_result_file ::
  "normalization_env \<Rightarrow> StageRunRequest \<Rightarrow> string \<Rightarrow> TerminalExtraction" where
  "extract_from_structured_result_file E q path =
     (if \<not> nv_exists E path then
        failed_extraction RunnerFailureClass.MissingTerminalResult None []
          (''structured terminal result file is missing: '' @ path)
      else (case nv_read_to_string E path of
        Inl m \<Rightarrow> failed_extraction RunnerFailureClass.IllegalTerminalResult None []
                  (''failed to parse structured terminal result: '' @ m)
      | Inr text \<Rightarrow>
      (case nv_decode_payload E text of
        Inl m \<Rightarrow> failed_extraction RunnerFailureClass.IllegalTerminalResult None []
                  (''structured terminal result payload is invalid: '' @ m)
      | Inr payload \<Rightarrow>
          let artifacts = sp_summary_artifact_paths payload; token = sp_terminal_result payload in
          if sp_stage payload \<notin> {None, Some (StageName_as_str (rq_stage q))} then
            failed_extraction RunnerFailureClass.IllegalTerminalResult None artifacts
              ''structured terminal result stage does not match run request stage''
          else (case terminal_result_for_request q token of
            None \<Rightarrow> failed_extraction RunnerFailureClass.IllegalTerminalResult None artifacts
                      (''terminal result '' @ nv_debug E token @ '' is illegal for request node '' @ rq_node_id q)
          | Some r \<Rightarrow>
          (case resolve_result_class q token (sp_result_class payload) of
            None \<Rightarrow> failed_extraction RunnerFailureClass.IllegalTerminalResult None artifacts
                      ''structured terminal result class is incompatible with terminal_result''
          | Some c \<Rightarrow>
              let missing = filter (\<lambda>a. \<not> artifact_exists E (rq_run_dir q) a) artifacts in
              if missing \<noteq> [] then
                failed_extraction RunnerFailureClass.MissingRequiredArtifact None artifacts
                  (''missing required summary artifacts: '' @ join_with '', '' missing)
              else
                \<lparr>tx_terminal_result = Some r, tx_result_class = Some c,
                 tx_detected_marker = Some (TerminalResult_marker r), tx_artifact_paths = artifacts,
                 tx_failure_class = None,
                 tx_notes = [''terminal result resolved from structured result file'']\<rparr>)))))"

definition is_ascii_whitespace :: "char \<Rightarrow> bool" where
  "is_ascii_whitespace c \<longleftrightarrow> c \<in> {CHR '' '', CHR 0x09, CHR 0x0A, CHR 0x0C, CHR 0x0D}"

definition token_char :: "char \<Rightarrow> bool" where
  "token_char c \<longleftrightarrow> (65::nat) \<le> of_char c \<and> of_char c \<le> (90::nat) \<or> c = CHR ''_''"

definition terminal_token_from_line :: "string \<Rightarrow> string option" where
  "terminal_token_from_line line =
     (case strip_prefix ''###'' (trim line) of
        None \<Rightarrow> None
      | Some [] \<Rightarrow> None
      | Some (c # rest) \<Rightarrow>
          if \<not> is_ascii_whitespace c then None
          else (let token = trim (c # rest) in
                if token = [] \<or> \<not> list_all token_char token then None else Some token))"

text \<open>The tokens of the output, and the result they stand for; \<open>None\<close> when \<^verbatim>\<open>expect\<close> panics.\<close>

definition stdout_tokens :: "string \<Rightarrow> string list" where
  "stdout_tokens text = List.map_filter terminal_token_from_line (str_lines text)"

definition extract_from_tokens :: "normalization_env \<Rightarrow> StageRunRequest \<Rightarrow> string list \<Rightarrow> TerminalExtraction option" where
  "extract_from_tokens E q tokens =
     (if tokens = [] then
        Some (failed_extraction RunnerFailureClass.MissingTerminalResult None [] ''no terminal token found in stdout'')
      else
        let final_token = last tokens; marker = ''### '' @ final_token in
        if 1 < card (set tokens) then
          Some (failed_extraction RunnerFailureClass.ConflictingTerminalResults (Some marker) []
            ''stdout contains conflicting terminal tokens'')
        else (case terminal_result_for_request q final_token of
          None \<Rightarrow> Some (failed_extraction RunnerFailureClass.IllegalTerminalResult (Some marker) []
                    (''terminal token '' @ nv_debug E final_token @ '' is illegal for request node '' @ rq_node_id q))
        | Some r \<Rightarrow> map_option (\<lambda>c.
            \<lparr>tx_terminal_result = Some r, tx_result_class = Some c, tx_detected_marker = Some marker,
             tx_artifact_paths = [], tx_failure_class = None,
             tx_notes = [''terminal result resolved from stdout token'']\<rparr>)
            (resolve_result_class q final_token None)))"

definition extract_from_stdout_tokens ::
  "normalization_env \<Rightarrow> StageRunRequest \<Rightarrow> string option \<Rightarrow> TerminalExtraction option" where
  "extract_from_stdout_tokens E q stdout_path =
     (case stdout_path of
        None \<Rightarrow> Some (failed_extraction RunnerFailureClass.MissingTerminalResult None []
                  ''stdout path is missing and no structured terminal result was provided'')
      | Some path \<Rightarrow>
          if \<not> nv_exists E path then
            Some (failed_extraction RunnerFailureClass.MissingTerminalResult None [] (''stdout file is missing: '' @ path))
          else (case nv_read_to_string E path of
            Inl m \<Rightarrow> Some (failed_extraction RunnerFailureClass.RunnerTransportFailure None []
                      (''failed reading stdout file: '' @ m))
          | Inr text \<Rightarrow> extract_from_tokens E q (stdout_tokens text)))"

definition extract_terminal_result ::
  "normalization_env \<Rightarrow> StageRunRequest \<Rightarrow> RunnerRawResult \<Rightarrow> TerminalExtraction option" where
  "extract_terminal_result E q w =
     (case rw_terminal_result_path w of
        Some path \<Rightarrow> Some (extract_from_structured_result_file E q path)
      | None \<Rightarrow> extract_from_stdout_tokens E q (rw_stdout_path w))"

section \<open>Envelopes\<close>

definition identity_mismatch_notes :: "StageRunRequest \<Rightarrow> RunnerRawResult \<Rightarrow> string list" where
  "identity_mismatch_notes q w =
     (if rw_request_id w \<noteq> rq_request_id q then [''raw result request_id does not match stage run request''] else [])
     @ (if rw_run_id w \<noteq> rq_run_id q then [''raw result run_id does not match stage run request''] else [])
     @ (if rw_stage w \<noteq> rq_stage q then [''raw result stage does not match stage run request''] else [])"

definition request_result_identity :: "StageRunRequest \<Rightarrow> RunnerError + WorkItemKind \<times> string" where
  "request_result_identity q =
     (case rq_request_kind q of
        RequestKind.ClosureTarget \<Rightarrow>
          (case rq_closure_target_root_spec_id q of
             None \<Rightarrow> Inl (InvalidRequest ''closure_target_root_spec_id is required for closure_target requests'')
           | Some i \<Rightarrow> Inr (WorkItemKind.Spec, i))
      | RequestKind.LearningRequest \<Rightarrow>
          (case rq_active_work_item_id q of
             None \<Rightarrow> Inl (InvalidRequest ''active_work_item_id is required for learning_request requests'')
           | Some i \<Rightarrow> Inr (WorkItemKind.LearningRequest, i))
      | RequestKind.ActiveWorkItem \<Rightarrow>
          (case (rq_active_work_item_kind q, rq_active_work_item_id q) of
             (Some k, Some i) \<Rightarrow> Inr (k, i)
           | _ \<Rightarrow> Inl (InvalidRequest
               ''active_work_item_kind and active_work_item_id are required to normalize stage results'')))"

fun merge_artifact_paths :: "string list \<Rightarrow> string option list \<Rightarrow> string list" where
  "merge_artifact_paths merged [] = merged"
| "merge_artifact_paths merged (None # rest) = merge_artifact_paths merged rest"
| "merge_artifact_paths merged (Some a # rest) =
     merge_artifact_paths (if a \<in> set merged then merged else merged @ [a]) rest"

definition resolved_report_artifact :: "normalization_env \<Rightarrow> StageRunRequest \<Rightarrow> string option" where
  "resolved_report_artifact E q =
     List.find (artifact_exists E (rq_run_dir q))
       (List.map_filter id [rq_preferred_report_path q, rq_preferred_troubleshoot_report_path q])"

definition or_option :: "'a option \<Rightarrow> 'a option \<Rightarrow> 'a option" where
  "or_option a b = (case a of None \<Rightarrow> b | Some x \<Rightarrow> Some x)"

definition raw_exit_kind :: "RunnerRawResult \<Rightarrow> RunnerExitKind" where
  "raw_exit_kind w = or_else (rw_observed_exit_kind w) (rw_exit_kind w)"

definition raw_exit_code :: "RunnerRawResult \<Rightarrow> int option" where
  "raw_exit_code w = or_option (rw_observed_exit_code w) (rw_exit_code w)"

definition timeout_reconciled :: "RunnerRawResult \<Rightarrow> bool" where
  "timeout_reconciled w \<longleftrightarrow>
     rw_observed_exit_kind w = Some RunnerExitKind.Timeout \<and> rw_exit_kind w = RunnerExitKind.Completed"

definition transport_reconciliation_notes :: "RunnerRawResult \<Rightarrow> string list" where
  "transport_reconciliation_notes w =
     (if timeout_reconciled w then [''runner timeout was reconciled after a final terminal marker was captured'']
      else [])"

definition artifact_parse_status :: "normalization_env \<Rightarrow> StageRunRequest \<Rightarrow> string" where
  "artifact_parse_status E q =
     (case rq_context_bundle_path q of
        None \<Rightarrow> ''missing_context_bundle''
      | Some bundle \<Rightarrow>
          if \<not> nv_is_file E bundle then ''missing_context_bundle''
          else if (case nv_read_to_string E bundle of Inl _ \<Rightarrow> True | Inr text \<Rightarrow> \<not> nv_is_json E text)
          then ''malformed_context_bundle''
          else (case rq_rendered_prompt_context_path q of
                  None \<Rightarrow> ''missing_prompt_context''
                | Some p \<Rightarrow> if nv_is_file E p then ''valid'' else ''missing_prompt_context''))"

definition resolved_thinking_level :: "StageRunRequest \<Rightarrow> RunnerRawResult \<Rightarrow> string option" where
  "resolved_thinking_level q w =
     or_option (rw_thinking_level w) (or_option (rq_thinking_level q)
       (or_option (rw_model_reasoning_effort w) (rq_model_reasoning_effort q)))"

definition option_json :: "string option \<Rightarrow> json" where
  "option_json v = (case v of None \<Rightarrow> JNull | Some x \<Rightarrow> JString x)"

definition request_metadata ::
  "normalization_env \<Rightarrow> StageRunRequest \<Rightarrow> string \<Rightarrow> RunnerFailureClass option \<Rightarrow> bool \<Rightarrow> RunnerRawResult \<Rightarrow>
   (string \<times> json) list" where
  "request_metadata E q source failure_class valid w =
     [(''request_id'', JString (rq_request_id q)),
      (''request_kind'', JString (RequestKind_as_str (rq_request_kind q))),
      (''mode_id'', JString (rq_mode_id q)),
      (''compiled_plan_id'', JString (rq_compiled_plan_id q)),
      (''launch_plan_id'', option_json (rq_launch_plan_id q)),
      (''lane_id'', option_json (rq_lane_id q)),
      (''closure_target_root_spec_id'', option_json (rq_closure_target_root_spec_id q)),
      (''closure_target_root_idea_id'', option_json (rq_closure_target_root_idea_id q)),
      (''preferred_rubric_path'', option_json (rq_preferred_rubric_path q)),
      (''preferred_verdict_path'', option_json (rq_preferred_verdict_path q)),
      (''preferred_report_path'', option_json (rq_preferred_report_path q)),
      (''active_work_item_family_id'', option_json (rq_active_work_item_family_id q)),
      (''active_work_item_kind'', option_json (map_option WorkItemKind_as_str (rq_active_work_item_kind q))),
      (''active_work_item_id'', option_json (rq_active_work_item_id q)),
      (''active_work_item_path'', option_json (rq_active_work_item_path q)),
      (''skill_revision_evidence_path'', option_json (rq_skill_revision_evidence_path q)),
      (''request_context_profile_id'', option_json (rq_request_context_profile_id q)),
      (''context_bundle_path'', option_json (rq_context_bundle_path q)),
      (''context_artifact_refs'', JArray (map JString (rq_context_artifact_refs q))),
      (''visible_context_refs'', JArray (map JString (rq_context_artifact_refs q))),
      (''context_render_plan_id'', option_json (rq_context_render_plan_id q)),
      (''rendered_prompt_context_path'', option_json (rq_rendered_prompt_context_path q)),
      (''artifact_parse_status'', JString (artifact_parse_status E q)),
      (''thinking_level'', option_json (rq_thinking_level q)),
      (''model_reasoning_effort'', option_json (rq_model_reasoning_effort q)),
      (''execution_capability_grants'', JArray (map (nv_grant_json E) (rq_execution_capability_grants q))),
      (''capability_support_decisions'', JArray (map (nv_decision_json E)
         (if rw_capability_support_decisions w = [] then rq_capability_support_decisions q
          else rw_capability_support_decisions w))),
      (''normalization_source'', JString source),
      (''failure_class'', option_json (map_option RunnerFailureClass_as_str failure_class)),
      (''valid_terminal_result'', JBool valid),
      (''raw_exit_kind'', JString (RunnerExitKind_as_str (raw_exit_kind w))),
      (''raw_exit_code'', (case raw_exit_code w of None \<Rightarrow> JNull | Some n \<Rightarrow> JNumber n)),
      (''timeout_reconciled'', JBool (timeout_reconciled w)),
      (''capability_evidence_refs'', JArray (map JString (rw_capability_evidence_refs w))),
      (''missing_capability_evidence_refs'', JArray (map JString (rw_missing_capability_evidence_refs w))),
      (''failure_capability_class'', option_json (rw_failure_capability_class w))]"

definition validate_envelope :: "normalization_env \<Rightarrow> StageResultEnvelope \<Rightarrow> RunnerError + StageResultEnvelope" where
  "validate_envelope E r =
     map_err (\<lambda>e. RwStageResultEnvelope (RuntimeJsonError_to_string e)) (StageResultEnvelope_validate (nv_rfc E) r)"

definition failure_detected_marker :: "TerminalResult \<Rightarrow> string option \<Rightarrow> string option \<times> string option" where
  "failure_detected_marker blocked marker =
     (case marker of
        None \<Rightarrow> (None, None)
      | Some m \<Rightarrow> if m = TerminalResult_marker blocked then (Some m, None) else (None, Some m))"

definition failure_envelope ::
  "normalization_env \<Rightarrow> StageRunRequest \<Rightarrow> RunnerRawResult \<Rightarrow> RunnerFailureClass \<Rightarrow> string list \<Rightarrow> string option \<Rightarrow>
   string list \<Rightarrow> RunnerFailureMetadata option \<Rightarrow> RunnerError + StageResultEnvelope" where
  "failure_envelope E q w failure_class notes detected artifacts classification =
     (let blocked = blocked_terminal_for_plane (rq_plane q);
          (detected_marker, raw_detected) = failure_detected_marker blocked detected;
          report = resolved_report_artifact E q in
      and_then (request_result_identity q) (\<lambda>(kind, item_id).
      let metadata0 = RunnerFailureMetadata_insert_into_map
            (or_else classification (classification_for_failure_class failure_class))
            (request_metadata E q ''failure'' (Some failure_class) False w);
          metadata = (case raw_detected of None \<Rightarrow> metadata0
            | Some m \<Rightarrow> AList.update ''raw_detected_marker'' (JString m) metadata0) in
      and_then (RunnerRawResult_duration_seconds (nv_rfc E) (nv_as_seconds E) w) (\<lambda>duration.
      validate_envelope E
        \<lparr>sr_schema_version = ''1.0'', sr_kind = ''stage_result'', sr_run_id = rq_run_id q, sr_plane = rq_plane q,
         sr_stage = rq_stage q, sr_node_id = rq_node_id q, sr_stage_kind_id = rq_stage_kind_id q,
         sr_work_item_kind = kind, sr_work_item_id = item_id, sr_terminal_result = blocked,
         sr_result_class = ResultClass.RecoverableFailure, sr_summary_status_marker = ''### BLOCKED'',
         sr_success = False, sr_retryable = True, sr_exit_code = or_else (rw_exit_code w) 1,
         sr_duration_seconds = duration, sr_prompt_artifact = None, sr_report_artifact = report,
         sr_artifact_paths = merge_artifact_paths artifacts
           [report, rw_event_log_path w, rq_context_bundle_path q, rq_rendered_prompt_context_path q],
         sr_detected_marker = detected_marker, sr_stdout_path = rw_stdout_path w, sr_stderr_path = rw_stderr_path w,
         sr_runner_name = Some (rw_runner_name w), sr_model_name = rw_model_name w,
         sr_thinking_level = resolved_thinking_level q w,
         sr_model_reasoning_effort = or_option (rw_model_reasoning_effort w) (rq_model_reasoning_effort q),
         sr_token_usage = rw_token_usage w, sr_notes = notes, sr_metadata = metadata,
         sr_started_at = rw_started_at w, sr_completed_at = rw_ended_at w\<rparr>)))"

definition accepted_envelope ::
  "normalization_env \<Rightarrow> StageRunRequest \<Rightarrow> RunnerRawResult \<Rightarrow> TerminalExtraction \<Rightarrow> RunnerError + StageResultEnvelope" where
  "accepted_envelope E q w x =
     (let terminal = the (tx_terminal_result x); result_class = the (tx_result_class x);
          report = resolved_report_artifact E q in
      and_then (request_result_identity q) (\<lambda>(kind, item_id).
      and_then (RunnerRawResult_duration_seconds (nv_rfc E) (nv_as_seconds E) w) (\<lambda>duration.
      validate_envelope E
        \<lparr>sr_schema_version = ''1.0'', sr_kind = ''stage_result'', sr_run_id = rq_run_id q, sr_plane = rq_plane q,
         sr_stage = rq_stage q, sr_node_id = rq_node_id q, sr_stage_kind_id = rq_stage_kind_id q,
         sr_work_item_kind = kind, sr_work_item_id = item_id, sr_terminal_result = terminal,
         sr_result_class = result_class, sr_summary_status_marker = TerminalResult_marker terminal,
         sr_success = (result_class = ResultClass.Success), sr_retryable = False,
         sr_exit_code = or_else (rw_exit_code w) 0, sr_duration_seconds = duration, sr_prompt_artifact = None,
         sr_report_artifact = report,
         sr_artifact_paths = merge_artifact_paths (tx_artifact_paths x)
           [report, rw_event_log_path w, rq_context_bundle_path q, rq_rendered_prompt_context_path q],
         sr_detected_marker = tx_detected_marker x, sr_stdout_path = rw_stdout_path w,
         sr_stderr_path = rw_stderr_path w, sr_runner_name = Some (rw_runner_name w),
         sr_model_name = rw_model_name w, sr_thinking_level = resolved_thinking_level q w,
         sr_model_reasoning_effort = or_option (rw_model_reasoning_effort w) (rq_model_reasoning_effort q),
         sr_token_usage = rw_token_usage w, sr_notes = tx_notes x @ transport_reconciliation_notes w,
         sr_metadata = request_metadata E q
           (if rw_terminal_result_path w \<noteq> None then ''structured_result_file'' else ''stdout_terminal_token'')
           None True w,
         sr_started_at = rw_started_at w, sr_completed_at = rw_ended_at w\<rparr>)))"

text \<open>The reasons to fail before the terminal result is looked at.\<close>

definition early_failure ::
  "normalization_env \<Rightarrow> StageRunRequest \<Rightarrow> RunnerRawResult \<Rightarrow>
   (RunnerFailureClass \<times> string list \<times> RunnerFailureMetadata option) option" where
  "early_failure E q w =
     (let identity_notes = identity_mismatch_notes q w in
      if identity_notes \<noteq> [] then Some (RunnerFailureClass.RunnerTransportFailure, identity_notes, None)
      else case (if rw_exit_kind w \<noteq> RunnerExitKind.Completed then classify_raw_exit_failure E w else None) of
        Some k \<Rightarrow> Some (rf_failure_class k,
          [''runner exited with '' @ RunnerExitKind_as_str (rw_exit_kind w)], Some k)
      | None \<Rightarrow>
          if rw_exit_kind w = RunnerExitKind.Completed \<and> rw_exit_code w \<notin> {None, Some 0} then
            (let k = or_else (classify_raw_exit_failure E w)
                       (classification_for_failure_class RunnerFailureClass.RunnerTransportFailure) in
             Some (rf_failure_class k, [''runner completed with non-zero exit code''], Some k))
          else if rw_missing_capability_evidence_refs w \<noteq> [] then
            Some (RunnerFailureClass.CapabilityEvidenceMissing,
              [''missing required capability evidence: '' @ join_with '', '' (rw_missing_capability_evidence_refs w)],
              None)
          else None)"

definition normalize_stage_result ::
  "normalization_env \<Rightarrow> StageRunRequest \<Rightarrow> RunnerRawResult \<Rightarrow> (RunnerError + StageResultEnvelope) option" where
  "normalize_stage_result E q w =
     (case RunnerRawResult_validate (nv_rfc E) w of
        Inl e \<Rightarrow> Some (Inl e)
      | Inr _ \<Rightarrow>
          (case early_failure E q w of
             Some (failure_class, notes, classification) \<Rightarrow>
               Some (failure_envelope E q w failure_class notes None [] classification)
           | None \<Rightarrow>
               map_option (\<lambda>x.
                 if TerminalExtraction_ok x then accepted_envelope E q w x
                 else failure_envelope E q w
                   (or_else (tx_failure_class x) RunnerFailureClass.IllegalTerminalResult)
                   (tx_notes x) (tx_detected_marker x) (tx_artifact_paths x) None)
               (extract_terminal_result E q w)))"

end
