(* ===== verification/Normalization_Facts.thy ===== *)
theory Normalization_Facts
  imports Result_Normalization "HOL-Library.Multiset"
begin

text \<open>
  What a validated request guarantees, and how the cases of the normalisation come about.
\<close>

section \<open>Requests\<close>

lemma rq_check_Inr [simp]: "rq_check ok m = Inr u \<longleftrightarrow> ok"
  by (simp add: rq_check_def)

lemma rq_require_non_blank_Inr [simp]: "rq_require_non_blank f v = Inr u \<longleftrightarrow> trim v \<noteq> []"
  by (simp add: rq_require_non_blank_def)

lemma validate_policy_entries_Inr:
  "validate_policy_entries plane seen policy = Inr () \<Longrightarrow>
     distinct (map rp_outcome policy) \<and> rp_outcome ` set policy \<inter> seen = {}
     \<and> (\<forall>e \<in> set policy. rp_result_classes e \<noteq> []
          \<and> (\<exists>r. terminal_result_for_plane plane (rp_outcome e) = Inr r))"
proof (induction policy arbitrary: seen)
  case (Cons e policy)
  from Cons.prems have e: "rp_outcome e \<notin> seen" "rp_result_classes e \<noteq> []"
      "\<exists>r. terminal_result_for_plane plane (rp_outcome e) = Inr r"
      "validate_policy_entries plane (insert (rp_outcome e) seen) policy = Inr ()"
    unfolding validate_policy_entries.simps all_checks_iffs by (auto simp: map_ok_eq_Inr map_err_eq_Inr)
  with Cons.IH[OF e(4)] show ?case by auto
qed simp

lemma reorder_to_legal_markers_Some:
  "reorder_to_legal_markers markers unused = Some entries \<Longrightarrow>
     mset entries = mset unused \<and> markers = policy_legal_markers entries"
proof (induction markers arbitrary: unused entries)
  case Nil
  then show ?case by (simp add: policy_legal_markers_def split: if_splits)
next
  case (Cons m markers)
  from Cons.prems obtain token e rest where e: "strip_prefix ''### '' m = Some token"
      "List.find (\<lambda>e. rp_outcome e = token) unused = Some e"
      "reorder_to_legal_markers markers (remove1 e unused) = Some rest" "entries = e # rest"
    by (auto split: option.splits)
  have "e \<in> set unused" "rp_outcome e = token" using find_SomeD[OF e(2)] by auto
  with Cons.IH[OF e(3)] e(1,4) show ?case
    by (simp add: strip_prefix_Some policy_legal_markers_def)
qed

definition ready_request :: "StageRunRequest \<Rightarrow> bool" where
  "ready_request q \<longleftrightarrow> stage_plane (rq_stage q) = rq_plane q \<and> rq_node_id q \<noteq> [] \<and> rq_stage_kind_id q \<noteq> []
     \<and> (\<exists>x. request_result_identity q = Inr x)
     \<and> rq_legal_terminal_markers q = policy_legal_markers (rq_allowed_result_classes_by_outcome q)
     \<and> distinct (map rp_outcome (rq_allowed_result_classes_by_outcome q))
     \<and> (\<forall>e \<in> set (rq_allowed_result_classes_by_outcome q). rp_result_classes e \<noteq> [])"

lemma ordered_policy:
  assumes "with_ordered_policy q = Inr q'" "policy_validate (rq_plane q) (rq_allowed_result_classes_by_outcome q) = Inr ()"
  shows "\<exists>policy. q' = q\<lparr>rq_allowed_result_classes_by_outcome := policy\<rparr>
    \<and> rq_legal_terminal_markers q = policy_legal_markers policy \<and> distinct (map rp_outcome policy)
    \<and> (\<forall>e \<in> set policy. rp_result_classes e \<noteq> [])"
proof -
  have valid: "distinct (map rp_outcome (rq_allowed_result_classes_by_outcome q))"
      "\<forall>e \<in> set (rq_allowed_result_classes_by_outcome q). rp_result_classes e \<noteq> []"
    using validate_policy_entries_Inr assms(2) by (auto simp: policy_validate_def)
  show ?thesis
  proof (cases "rq_legal_terminal_markers q = policy_legal_markers (rq_allowed_result_classes_by_outcome q)")
    case True
    with assms(1) valid show ?thesis
      by (intro exI[of _ "rq_allowed_result_classes_by_outcome q"]) (simp add: with_ordered_policy_def)
  next
    case False
    with assms(1) obtain entries where entries:
        "reorder_to_legal_markers (rq_legal_terminal_markers q) (rq_allowed_result_classes_by_outcome q) = Some entries"
        "q' = q\<lparr>rq_allowed_result_classes_by_outcome := entries\<rparr>"
      by (auto simp: with_ordered_policy_def split: option.splits)
    note order = reorder_to_legal_markers_Some[OF entries(1)]
    have "mset (map rp_outcome entries) = mset (map rp_outcome (rq_allowed_result_classes_by_outcome q))"
      using order by simp
    with valid have "distinct (map rp_outcome entries)" by (metis mset_eq_imp_distinct_iff)
    moreover have "set entries = set (rq_allowed_result_classes_by_outcome q)" using order mset_eq_setD by blast
    ultimately show ?thesis using valid entries(2) order by auto
  qed
qed

lemma identity_of_checks:
  assumes "request_kind_checks q = Inr u" "(rq_active_work_item_kind q \<noteq> None) = (rq_active_work_item_id q \<noteq> None)"
  shows "\<exists>x. request_result_identity q = Inr x"
proof (cases "rq_request_kind q")
  case ActiveWorkItem
  with assms show ?thesis by (auto simp: request_kind_checks_def request_result_identity_def split: option.splits)
next
  case ClosureTarget
  then have "has_all_closure_fields q"
    using assms(1) unfolding request_kind_checks_def by (simp only: RequestKind.case all_checks_iffs rq_check_Inr)
  with ClosureTarget show ?thesis
    by (auto simp: request_result_identity_def has_all_closure_fields_def closure_fields_def)
next
  case LearningRequest
  then have "rq_active_work_item_kind q = Some WorkItemKind.LearningRequest"
    using assms(1) unfolding request_kind_checks_def by (simp only: RequestKind.case all_checks_iffs rq_check_Inr)
  with LearningRequest assms(2) show ?thesis by (auto simp: request_result_identity_def)
qed

lemma with_family_default_fields:
  "rq_active_work_item_kind (with_family_default q) = rq_active_work_item_kind q"
  "rq_active_work_item_id (with_family_default q) = rq_active_work_item_id q"
  "rq_stage (with_family_default q) = rq_stage q" "rq_plane (with_family_default q) = rq_plane q"
  "rq_node_id (with_family_default q) = rq_node_id q"
  "rq_stage_kind_id (with_family_default q) = rq_stage_kind_id q"
  "rq_legal_terminal_markers (with_family_default q) = rq_legal_terminal_markers q"
  "rq_allowed_result_classes_by_outcome (with_family_default q) = rq_allowed_result_classes_by_outcome q"
  by (simp_all add: with_family_default_def split: option.split)

lemma validated_request_ready:
  assumes "StageRunRequest_validate q0 = Inr q"
  shows "ready_request q"
proof -
  define qa where "qa = q0\<lparr>rq_launch_plan_id :=
    (case rq_launch_plan_id q0 of None \<Rightarrow> Some (rq_compiled_plan_id q0) | x \<Rightarrow> x)\<rparr>"
  define q1 where "q1 = request_defaults qa"
  from assms obtain q2 where plane: "stage_plane (rq_stage qa) = rq_plane qa"
    and policy: "policy_validate (rq_plane q1) (rq_allowed_result_classes_by_outcome q1) = Inr ()"
    and q2: "with_ordered_policy q1 = Inr q2"
    and both: "(rq_active_work_item_kind q2 \<noteq> None) = (rq_active_work_item_id q2 \<noteq> None)"
    and kind: "request_kind_checks (with_family_default q2) = Inr ()" and q: "q = with_family_default q2"
    unfolding StageRunRequest_validate_def Let_def qa_def[symmetric] q1_def[symmetric]
      and_then_eq_Inr map_ok_eq_Inr all_checks_iffs rq_check_Inr
    by (elim exE conjE) (rule that, assumption+)
  from ordered_policy[OF q2 policy] obtain entries where entries:
      "q2 = q1\<lparr>rq_allowed_result_classes_by_outcome := entries\<rparr>"
      "rq_legal_terminal_markers q1 = policy_legal_markers entries" "distinct (map rp_outcome entries)"
      "\<forall>e \<in> set entries. rp_result_classes e \<noteq> []" by blast
  have "\<exists>x. request_result_identity q = Inr x"
    using identity_of_checks[OF kind] both by (simp add: q with_family_default_fields)
  moreover have "rq_node_id q1 \<noteq> []" "rq_stage_kind_id q1 \<noteq> []" "stage_plane (rq_stage q1) = rq_plane q1"
    using plane StageName_as_str_nonempty by (simp_all add: q1_def request_defaults_def)
  ultimately show ?thesis
    using entries by (simp add: ready_request_def q with_family_default_fields)
qed

lemma legal_token_has_classes:
  assumes "ready_request q" "terminal_result_for_request q token = Some r"
  shows "\<exists>cs. result_classes_for (rq_allowed_result_classes_by_outcome q) token = Some cs \<and> cs \<noteq> []"
proof -
  have "token \<in> rp_outcome ` set (rq_allowed_result_classes_by_outcome q)"
    using assms by (auto simp: ready_request_def terminal_result_for_request_def policy_legal_markers_def split: if_splits)
  then obtain e where "List.find (\<lambda>e. rp_outcome e = token) (rq_allowed_result_classes_by_outcome q) = Some e"
    by (cases "List.find (\<lambda>e. rp_outcome e = token) (rq_allowed_result_classes_by_outcome q)")
      (auto simp: find_None_iff)
  with find_SomeD[OF this] assms(1) show ?thesis by (auto simp: result_classes_for_def ready_request_def)
qed

lemma legal_token_result:
  "terminal_result_for_request q token = Some r \<Longrightarrow>
     TerminalResult_plane r = rq_plane q \<and> token = TerminalResult_as_str r
     \<and> ''### '' @ token \<in> set (rq_legal_terminal_markers q)"
  by (auto simp: terminal_result_for_request_def terminal_result_for_plane_Inr split: if_splits sum.splits)

section \<open>Envelopes\<close>

text \<open>The library turns a duration that is not negative into a float that is not negative.\<close>

definition seconds_not_negative :: "normalization_env \<Rightarrow> bool" where
  "seconds_not_negative E \<longleftrightarrow> (\<forall>d \<ge> 0. \<not> f64_less (nv_as_seconds E d) (Finite 0))"

text \<open>The envelope is valid, unchanged by validation, and describes the run that was requested.\<close>

definition reports_request ::
  "normalization_env \<Rightarrow> StageRunRequest \<Rightarrow> RunnerRawResult \<Rightarrow> StageResultEnvelope \<Rightarrow> bool" where
  "reports_request E q w r \<longleftrightarrow>
     StageResultEnvelope_validate (nv_rfc E) r = Inr r
     \<and> sr_run_id r = rq_run_id q \<and> sr_plane r = rq_plane q \<and> sr_stage r = rq_stage q
     \<and> sr_node_id r = rq_node_id q \<and> sr_stage_kind_id r = rq_stage_kind_id q
     \<and> request_result_identity q = Inr (sr_work_item_kind r, sr_work_item_id r)
     \<and> sr_started_at r = rw_started_at w \<and> sr_completed_at r = rw_ended_at w
     \<and> sr_token_usage r = rw_token_usage w"

lemma raw_result_times:
  assumes "RunnerRawResult_validate rfc w = Inr u"
  shows "\<exists>s t. rfc (rw_started_at w) = Inr s \<and> rfc (rw_ended_at w) = Inr t \<and> s \<le> t"
proof -
  from assms have "and_then (rw_parse_time rfc ''ended_at'' (rw_ended_at w)) (\<lambda>ended.
         and_then (rw_parse_time rfc ''started_at'' (rw_started_at w)) (\<lambda>started.
         if ended < started then Inl (InvalidRawResult ''ended_at cannot precede started_at'') else Inr ())) = Inr ()"
    unfolding RunnerRawResult_validate_def all_checks_iffs by (elim conjE)
  then show ?thesis by (auto simp: and_then_eq_Inr rw_parse_time_def map_err_eq_Inr split: if_splits)
qed

lemma raw_result_duration:
  assumes "RunnerRawResult_validate (nv_rfc E) w = Inr u" "seconds_not_negative E"
  shows "\<exists>d. RunnerRawResult_duration_seconds (nv_rfc E) (nv_as_seconds E) w = Inr d \<and> \<not> f64_less d (Finite 0)"
  using raw_result_times[OF assms(1)] assms(2)
  by (auto simp: RunnerRawResult_duration_seconds_def rw_parse_time_def seconds_not_negative_def)

lemma named_envelope: "sr_node_id r \<noteq> [] \<Longrightarrow> sr_stage_kind_id r \<noteq> [] \<Longrightarrow> with_default_names r = r"
  by (simp add: with_default_names_def)

lemma blocked_terminal: "TerminalResult_plane (blocked_terminal_for_plane p) = p"
    "TerminalResult_marker (blocked_terminal_for_plane p) = ''### BLOCKED''"
  by (cases p; simp add: table_simps TerminalResult_marker_def)+

lemma failure_envelope_ok:
  assumes "ready_request q" "RunnerRawResult_validate (nv_rfc E) w = Inr u" "seconds_not_negative E"
  shows "\<exists>r. failure_envelope E q w c notes marker artifacts k = Inr r \<and> reports_request E q w r
    \<and> sr_terminal_result r = blocked_terminal_for_plane (rq_plane q)
    \<and> sr_result_class r = ResultClass.RecoverableFailure \<and> \<not> sr_success r \<and> sr_retryable r \<and> sr_notes r = notes"
proof -
  obtain kind item_id where identity: "request_result_identity q = Inr (kind, item_id)"
    using assms(1) by (auto simp: ready_request_def)
  obtain d where d: "RunnerRawResult_duration_seconds (nv_rfc E) (nv_as_seconds E) w = Inr d" "\<not> f64_less d (Finite 0)"
    using raw_result_duration[OF assms(2,3)] by blast
  obtain m raw where m: "failure_detected_marker (blocked_terminal_for_plane (rq_plane q)) marker = (m, raw)"
    by fastforce
  then have m_blocked: "\<And>x. m = Some x \<Longrightarrow> x = ''### BLOCKED''"
    by (auto simp: failure_detected_marker_def blocked_terminal split: option.splits if_splits)
  show ?thesis
    using m_blocked assms(1) raw_result_times[OF assms(2)] d m identity
    by (auto simp: failure_envelope_def validate_envelope_def map_err_eq_Inr stage_result_validate_iff
        parse_terminal_marker_Inr blocked_terminal named_envelope reports_request_def ready_request_def Let_def
        split: prod.splits)
qed

definition extraction_for :: "StageRunRequest \<Rightarrow> TerminalExtraction \<Rightarrow> bool" where
  "extraction_for q x \<longleftrightarrow> (\<exists>r c cs. tx_terminal_result x = Some r \<and> tx_result_class x = Some c
     \<and> TerminalResult_plane r = rq_plane q \<and> TerminalResult_marker r \<in> set (rq_legal_terminal_markers q)
     \<and> result_classes_for (rq_allowed_result_classes_by_outcome q) (TerminalResult_as_str r) = Some cs \<and> c \<in> set cs
     \<and> tx_detected_marker x = Some (TerminalResult_marker r))"

lemma accepted_envelope_ok:
  assumes "ready_request q" "RunnerRawResult_validate (nv_rfc E) w = Inr u" "seconds_not_negative E"
    "extraction_for q x"
  shows "\<exists>r. accepted_envelope E q w x = Inr r \<and> reports_request E q w r \<and> \<not> sr_retryable r
    \<and> tx_terminal_result x = Some (sr_terminal_result r) \<and> tx_result_class x = Some (sr_result_class r)"
proof -
  obtain kind item_id where identity: "request_result_identity q = Inr (kind, item_id)"
    using assms(1) by (auto simp: ready_request_def)
  obtain d where d: "RunnerRawResult_duration_seconds (nv_rfc E) (nv_as_seconds E) w = Inr d" "\<not> f64_less d (Finite 0)"
    using raw_result_duration[OF assms(2,3)] by blast
  obtain t c where x: "tx_terminal_result x = Some t" "tx_result_class x = Some c"
      "TerminalResult_plane t = rq_plane q" "tx_detected_marker x = Some (TerminalResult_marker t)"
    using assms(4) by (auto simp: extraction_for_def)
  show ?thesis
    using assms(1) raw_result_times[OF assms(2)] d identity x
    by (auto simp: accepted_envelope_def validate_envelope_def map_err_eq_Inr stage_result_validate_iff
        parse_terminal_marker_Inr named_envelope reports_request_def ready_request_def Let_def)
qed

section \<open>Extraction\<close>

lemma resolved_class_allowed:
  assumes "resolve_result_class q token given = Some c"
    "result_classes_for (rq_allowed_result_classes_by_outcome q) token = Some cs"
  shows "c \<in> set cs"
  using assms by (cases cs) (auto simp: resolve_result_class_def split: option.splits if_splits)

lemma failed_extraction_not_ok [simp]: "\<not> TerminalExtraction_ok (failed_extraction c m as n)"
  by (simp add: TerminalExtraction_ok_def failed_extraction_def)

lemma structured_extraction:
  assumes "ready_request q" "extract_from_structured_result_file E q path = x" "TerminalExtraction_ok x"
  shows "extraction_for q x"
proof -
  note defs = extract_from_structured_result_file_def Let_def
  have exists: "nv_exists E path" using assms(2,3) by (cases "nv_exists E path") (auto simp: defs)
  obtain body where body: "nv_read_to_string E path = Inr body"
    using assms(2,3) exists by (cases "nv_read_to_string E path") (auto simp: defs)
  obtain payload where payload: "nv_decode_payload E body = Inr payload"
    using assms(2,3) exists body by (cases "nv_decode_payload E body") (auto simp: defs)
  have stage: "sp_stage payload \<in> {None, Some (StageName_as_str (rq_stage q))}"
    using assms(2,3) exists body payload
    by (cases "sp_stage payload \<in> {None, Some (StageName_as_str (rq_stage q))}") (auto simp: defs)
  obtain r where r: "terminal_result_for_request q (sp_terminal_result payload) = Some r"
    using assms(2,3) exists body payload stage
    by (cases "terminal_result_for_request q (sp_terminal_result payload)") (auto simp: defs)
  obtain c where c: "resolve_result_class q (sp_terminal_result payload) (sp_result_class payload) = Some c"
    using assms(2,3) exists body payload stage r
    by (cases "resolve_result_class q (sp_terminal_result payload) (sp_result_class payload)") (auto simp: defs)
  have x: "tx_terminal_result x = Some r" "tx_result_class x = Some c"
      "tx_detected_marker x = Some (TerminalResult_marker r)"
    using assms(2,3) exists body payload stage r c by (auto simp: defs split: if_splits)
  from legal_token_has_classes[OF assms(1) r] obtain cs where
    "result_classes_for (rq_allowed_result_classes_by_outcome q) (sp_terminal_result payload) = Some cs" by blast
  with resolved_class_allowed[OF c this] legal_token_result[OF r] x show ?thesis
    by (auto simp: extraction_for_def TerminalResult_marker_def)
qed

lemma token_extraction:
  assumes "ready_request q" "extract_from_tokens E q tokens = Some x" "TerminalExtraction_ok x"
  shows "extraction_for q x" "card (set tokens) = 1"
proof -
  from assms(2,3) obtain r c where r: "terminal_result_for_request q (last tokens) = Some r"
      "resolve_result_class q (last tokens) None = Some c" "tx_terminal_result x = Some r" "tx_result_class x = Some c"
      "tx_detected_marker x = Some (''### '' @ last tokens)" "tokens \<noteq> []" "\<not> 1 < card (set tokens)"
    by (auto simp: extract_from_tokens_def failed_extraction_def TerminalExtraction_ok_def Let_def
        split: if_splits option.splits)
  from legal_token_has_classes[OF assms(1) r(1)] obtain cs where
    "result_classes_for (rq_allowed_result_classes_by_outcome q) (last tokens) = Some cs" by blast
  with resolved_class_allowed[OF r(2) this] legal_token_result[OF r(1)] r(3-5) show "extraction_for q x"
    by (auto simp: extraction_for_def TerminalResult_marker_def)
  have "card (set tokens) \<noteq> 0" using r(6) by simp
  with r(7) show "card (set tokens) = 1" by linarith
qed

section \<open>The decision\<close>

definition run_ended_well :: "StageRunRequest \<Rightarrow> RunnerRawResult \<Rightarrow> bool" where
  "run_ended_well q w \<longleftrightarrow> rw_request_id w = rq_request_id q \<and> rw_run_id w = rq_run_id q \<and> rw_stage w = rq_stage q
     \<and> clean_exit w \<and> rw_missing_capability_evidence_refs w = []"

lemma classify_raw_exit_None: "classify_raw_exit_failure E w = None \<longleftrightarrow> clean_exit w"
  by (simp add: classify_raw_exit_failure_def split: option.splits)

lemma early_failure_None: "early_failure E q w = None \<longleftrightarrow> run_ended_well q w"
proof (cases "identity_mismatch_notes q w = []")
  case False
  then show ?thesis
    by (auto simp: early_failure_def identity_mismatch_notes_def run_ended_well_def Let_def split: if_splits)
next
  case True
  then have ids: "rw_request_id w = rq_request_id q" "rw_run_id w = rq_run_id q" "rw_stage w = rq_stage q"
    by (auto simp: identity_mismatch_notes_def split: if_splits)
  show ?thesis
  proof (cases "rw_exit_kind w = RunnerExitKind.Completed")
    case True
    with \<open>identity_mismatch_notes q w = []\<close> ids show ?thesis
      by (auto simp: early_failure_def run_ended_well_def clean_exit_def Let_def)
  next
    case False
    then have "\<not> clean_exit w" by (simp add: clean_exit_def)
    then obtain k where "classify_raw_exit_failure E w = Some k"
      using classify_raw_exit_None by (cases "classify_raw_exit_failure E w") auto
    with False \<open>\<not> clean_exit w\<close> \<open>identity_mismatch_notes q w = []\<close> show ?thesis
      by (simp add: early_failure_def run_ended_well_def Let_def)
  qed
qed

lemma normalized_early_failure:
  assumes "RunnerRawResult_validate (nv_rfc E) w = Inr ()" "\<not> run_ended_well q w"
  obtains c ns k where "normalize_stage_result E q w = Some (failure_envelope E q w c ns None [] k)"
proof -
  obtain x where x: "early_failure E q w = Some x" using assms(2) early_failure_None by (cases "early_failure E q w") auto
  obtain c ns k where "x = (c, ns, k)" by (cases x)
  with x assms(1) that show thesis by (simp add: normalize_stage_result_def)
qed

lemma normalized_extraction:
  assumes "RunnerRawResult_validate (nv_rfc E) w = Inr ()" "run_ended_well q w"
  shows "normalize_stage_result E q w =
     map_option (\<lambda>x. if TerminalExtraction_ok x then accepted_envelope E q w x
       else failure_envelope E q w (or_else (tx_failure_class x) RunnerFailureClass.IllegalTerminalResult)
         (tx_notes x) (tx_detected_marker x) (tx_artifact_paths x) None) (extract_terminal_result E q w)"
  using assms early_failure_None[of E q w] by (simp add: normalize_stage_result_def)

lemma extraction_ok_for:
  assumes "ready_request q" "extract_terminal_result E q w = Some x" "TerminalExtraction_ok x"
  shows "extraction_for q x"
proof (cases "rw_terminal_result_path w")
  case (Some path)
  with assms(2) have "extract_from_structured_result_file E q path = x" by (simp add: extract_terminal_result_def)
  from structured_extraction[OF assms(1) this assms(3)] show ?thesis .
next
  case None
  with assms(2,3) obtain tokens where "extract_from_tokens E q tokens = Some x"
    by (auto simp: extract_terminal_result_def extract_from_stdout_tokens_def split: option.splits if_splits sum.splits)
  from token_extraction(1)[OF assms(1) this assms(3)] show ?thesis .
qed

text \<open>An outcome the policy gives several classes, none of them preferred, has no class by itself.\<close>

definition ambiguous_token :: "StageRunRequest \<Rightarrow> string \<Rightarrow> bool" where
  "ambiguous_token q token \<longleftrightarrow> (\<exists>cs. result_classes_for (rq_allowed_result_classes_by_outcome q) token = Some cs
     \<and> length cs \<noteq> 1 \<and> \<not> (token = ''BLOCKED'' \<and> ResultClass.Blocked \<in> set cs))"

lemma resolved_without_class:
  assumes "ready_request q" "terminal_result_for_request q token = Some r"
  shows "resolve_result_class q token None = None \<longleftrightarrow> ambiguous_token q token"
  using legal_token_has_classes[OF assms] by (auto simp: resolve_result_class_def ambiguous_token_def split: if_splits)

lemma one_token: "xs \<noteq> [] \<Longrightarrow> \<not> 1 < card (set xs) \<longleftrightarrow> set xs = {last xs}"
proof
  assume ne: "xs \<noteq> []" and "\<not> 1 < card (set xs)"
  then have "card (set xs) = 1" using card_gt_0_iff[of "set xs"] by simp
  then show "set xs = {last xs}" using last_in_set[OF ne] by (auto simp: card_1_singleton_iff)
qed simp

text \<open>What the tokens of the output lead to.\<close>

lemma token_decision:
  assumes "ready_request q"
  shows "extract_from_tokens E q tokens = None \<longleftrightarrow>
      (\<exists>t r. set tokens = {t} \<and> terminal_result_for_request q t = Some r \<and> ambiguous_token q t)"
    "extract_from_tokens E q tokens = Some x \<Longrightarrow> TerminalExtraction_ok x \<longleftrightarrow>
      (\<exists>t r. set tokens = {t} \<and> terminal_result_for_request q t = Some r)"
    "extract_from_tokens E q tokens = Some x \<Longrightarrow> TerminalExtraction_ok x \<Longrightarrow> set tokens = {t} \<Longrightarrow>
      terminal_result_for_request q t = tx_terminal_result x"
proof -
  have single: "set tokens = {t} \<Longrightarrow> tokens \<noteq> [] \<and> last tokens = t \<and> \<not> 1 < card (set tokens)" for t
    using last_in_set[of tokens] by (cases "tokens = []") auto
  show "extract_from_tokens E q tokens = None \<longleftrightarrow>
      (\<exists>t r. set tokens = {t} \<and> terminal_result_for_request q t = Some r \<and> ambiguous_token q t)"
  proof
    assume "extract_from_tokens E q tokens = None"
    then obtain r where r: "tokens \<noteq> []" "\<not> 1 < card (set tokens)" "terminal_result_for_request q (last tokens) = Some r"
        "resolve_result_class q (last tokens) None = None"
      by (auto simp: extract_from_tokens_def Let_def split: if_splits option.splits)
    with one_token[OF r(1)] resolved_without_class[OF assms r(3)]
    show "\<exists>t r. set tokens = {t} \<and> terminal_result_for_request q t = Some r \<and> ambiguous_token q t" by blast
  next
    assume "\<exists>t r. set tokens = {t} \<and> terminal_result_for_request q t = Some r \<and> ambiguous_token q t"
    then obtain t r where t: "set tokens = {t}" "terminal_result_for_request q t = Some r" "ambiguous_token q t" by blast
    with single[OF t(1)] resolved_without_class[OF assms t(2)] show "extract_from_tokens E q tokens = None"
      by (simp add: extract_from_tokens_def Let_def)
  qed
  have one: "extract_from_tokens E q tokens = (case terminal_result_for_request q t of
      None \<Rightarrow> Some (failed_extraction RunnerFailureClass.IllegalTerminalResult (Some (''### '' @ t)) []
                (''terminal token '' @ nv_debug E t @ '' is illegal for request node '' @ rq_node_id q))
    | Some r \<Rightarrow> map_option (\<lambda>c. \<lparr>tx_terminal_result = Some r, tx_result_class = Some c,
        tx_detected_marker = Some (''### '' @ t), tx_artifact_paths = [], tx_failure_class = None,
        tx_notes = [''terminal result resolved from stdout token'']\<rparr>) (resolve_result_class q t None))"
    if "set tokens = {t}" for t
    using single[OF that]
    by (cases "terminal_result_for_request q t") (simp_all add: extract_from_tokens_def Let_def)
  have many: "\<not> TerminalExtraction_ok x" if "extract_from_tokens E q tokens = Some x" "\<nexists>t. set tokens = {t}"
  proof (cases "tokens = []")
    case False
    with that(2) one_token[OF False] have "1 < card (set tokens)" by blast
    with that(1) False have "x = failed_extraction RunnerFailureClass.ConflictingTerminalResults
        (Some (''### '' @ last tokens)) [] ''stdout contains conflicting terminal tokens''"
      by (simp add: extract_from_tokens_def Let_def)
    then show ?thesis by simp
  qed (use that in \<open>auto simp: extract_from_tokens_def\<close>)
  show "TerminalExtraction_ok x \<longleftrightarrow> (\<exists>t r. set tokens = {t} \<and> terminal_result_for_request q t = Some r)"
    if x: "extract_from_tokens E q tokens = Some x"
  proof (cases "\<exists>t. set tokens = {t}")
    case False
    with many[OF x] show ?thesis by blast
  next
    case True
    then obtain t where t: "set tokens = {t}" by blast
    show ?thesis
    proof (cases "terminal_result_for_request q t")
      case None
      have "\<not> TerminalExtraction_ok x" using x unfolding one[OF t] None by auto
      moreover have "t' = t" if "set tokens = {t'}" for t' using that t by simp
      ultimately show ?thesis using None by auto
    next
      case (Some r)
      have "TerminalExtraction_ok x" using x unfolding one[OF t] Some by (auto simp: TerminalExtraction_ok_def)
      with t Some show ?thesis by blast
    qed
  qed
  show "terminal_result_for_request q t = tx_terminal_result x"
    if "extract_from_tokens E q tokens = Some x" "TerminalExtraction_ok x" "set tokens = {t}"
  proof (cases "terminal_result_for_request q t")
    case None
    have "\<not> TerminalExtraction_ok x" using that(1) unfolding one[OF that(3)] None by auto
    with that(2) show ?thesis by blast
  next
    case (Some r)
    then show ?thesis using that(1) unfolding one[OF that(3)] Some by auto
  qed
qed

text \<open>The policies built into the stages are never ambiguous.\<close>

lemma builtin_policy_unambiguous:
  assumes "rq_allowed_result_classes_by_outcome q = policy_for_stage s"
  shows "\<not> ambiguous_token q token"
proof
  assume "ambiguous_token q token"
  then obtain e where "List.find (\<lambda>e. rp_outcome e = token) (policy_for_stage s) = Some e"
      "length (rp_result_classes e) \<noteq> 1" "\<not> (token = ''BLOCKED'' \<and> ResultClass.Blocked \<in> set (rp_result_classes e))"
    by (auto simp: ambiguous_token_def result_classes_for_def assms)
  with find_SomeD[OF this(1)] have "\<not> list_all (\<lambda>e. length (rp_result_classes e) = 1
      \<or> rp_outcome e = ''BLOCKED'' \<and> ResultClass.Blocked \<in> set (rp_result_classes e)) (policy_for_stage s)"
    by (auto simp: list_all_iff)
  then show False
    by (cases s) (simp_all add: policy_for_stage_def allowed_result_classes_by_outcome_def table_simps)
qed


text \<open>Either the failure of the plane, or an accepted result.\<close>

lemma normalized_cases:
  assumes "ready_request q" "RunnerRawResult_validate (nv_rfc E) w = Inr ()" "seconds_not_negative E"
    "normalize_stage_result E q w = Some result"
  obtains r where "result = Inr r" "reports_request E q w r" "sr_retryable r" "\<not> sr_success r"
      "sr_terminal_result r = blocked_terminal_for_plane (rq_plane q)"
      "sr_result_class r = ResultClass.RecoverableFailure"
  | r x where "result = Inr r" "reports_request E q w r" "\<not> sr_retryable r" "run_ended_well q w"
      "extraction_for q x" "tx_terminal_result x = Some (sr_terminal_result r)"
      "tx_result_class x = Some (sr_result_class r)"
proof (cases "run_ended_well q w")
  case False
  from normalized_early_failure[OF assms(2) False] obtain c ns k where
    "normalize_stage_result E q w = Some (failure_envelope E q w c ns None [] k)" .
  with assms(4) failure_envelope_ok[OF assms(1-3), of c ns None "[]" k] that(1) show thesis by auto
next
  case well: True
  from normalized_extraction[OF assms(2) well] assms(4) obtain x where x: "extract_terminal_result E q w = Some x"
    "result = (if TerminalExtraction_ok x then accepted_envelope E q w x
     else failure_envelope E q w (or_else (tx_failure_class x) RunnerFailureClass.IllegalTerminalResult)
       (tx_notes x) (tx_detected_marker x) (tx_artifact_paths x) None)"
    by (cases "extract_terminal_result E q w") auto
  show thesis
  proof (cases "TerminalExtraction_ok x")
    case False
    with x(2) failure_envelope_ok[OF assms(1-3), of "or_else (tx_failure_class x) RunnerFailureClass.IllegalTerminalResult"
        "tx_notes x" "tx_detected_marker x" "tx_artifact_paths x" None] that(1) show thesis by auto
  next
    case True
    note found = extraction_ok_for[OF assms(1) x(1) True]
    from accepted_envelope_ok[OF assms(1-3) found] True x(2) well found that(2) show thesis by auto
  qed
qed

end
