(* ===== verification/Normalization_Properties.thy ===== *)
theory Normalization_Properties
  imports Normalization_Facts
begin

text \<open>
  The properties of the normalisation of runner results, with the instances at which they are applied.
\<close>

section \<open>An example\<close>

definition demo_runner_env :: normalization_env where
  "demo_runner_env =
     \<lparr>nv_rfc = (\<lambda>_. Inr 0), nv_as_seconds = (\<lambda>d. Finite (of_int d)), nv_exists = (\<lambda>p. p = ''/w/out.txt''),
      nv_is_file = (\<lambda>p. p = ''/w/out.txt''), nv_read_to_string = (\<lambda>_. Inr ''### BUILDER_COMPLETE''),
      nv_read_lossy = (\<lambda>_. None), nv_canonicalize = (\<lambda>_. None), nv_is_json = (\<lambda>_. False),
      nv_decode_payload = (\<lambda>_. Inl ''unexpected''), nv_to_lowercase = id, nv_debug = id,
      nv_grant_json = (\<lambda>_. JNull), nv_decision_json = (\<lambda>_. JNull)\<rparr>"

definition demo_run_request :: StageRunRequest where
  "demo_run_request =
     \<lparr>rq_request_id = ''req'', rq_run_id = ''run'', rq_plane = Plane.Execution, rq_stage = StageName.Builder,
      rq_request_kind = RequestKind.ActiveWorkItem, rq_mode_id = ''m'', rq_compiled_plan_id = ''p'',
      rq_launch_plan_id = None, rq_lane_id = None, rq_node_id = [], rq_stage_kind_id = [],
      rq_running_status_marker = [], rq_legal_terminal_markers = [], rq_allowed_result_classes_by_outcome = [],
      rq_entrypoint_path = ''e.md'', rq_entrypoint_contract_id = None, rq_required_skill_paths = [],
      rq_attached_skill_paths = [], rq_active_work_item_family_id = None,
      rq_active_work_item_kind = Some WorkItemKind.Task, rq_active_work_item_id = Some ''t'',
      rq_active_work_item_path = Some ''t.md'', rq_closure_target_path = None, rq_closure_target_root_spec_id = None,
      rq_closure_target_root_idea_id = None, rq_canonical_root_spec_path = None, rq_canonical_seed_idea_path = None,
      rq_preferred_rubric_path = None, rq_preferred_verdict_path = None, rq_preferred_report_path = None,
      rq_run_dir = ''/w'', rq_summary_status_path = ''s'', rq_runtime_snapshot_path = ''s'',
      rq_recovery_counters_path = ''s'', rq_preferred_troubleshoot_report_path = None, rq_runtime_error_code = None,
      rq_runtime_error_report_path = None, rq_runtime_error_catalog_path = None,
      rq_skill_revision_evidence_path = None, rq_runner_name = None, rq_model_name = None, rq_thinking_level = None,
      rq_model_reasoning_effort = None, rq_timeout_seconds = 0, rq_execution_capability_grants = [],
      rq_capability_support_decisions = [], rq_request_context_profile_id = None, rq_context_bundle_path = None,
      rq_context_artifact_refs = [], rq_context_render_plan_id = None, rq_rendered_prompt_context_path = None\<rparr>"

definition demo_validated :: StageRunRequest where
  "demo_validated = demo_run_request\<lparr>rq_launch_plan_id := Some ''p'', rq_node_id := ''builder'',
     rq_stage_kind_id := ''builder'', rq_running_status_marker := ''BUILDER_RUNNING'',
     rq_legal_terminal_markers := [''### BUILDER_COMPLETE'', ''### BLOCKED''],
     rq_allowed_result_classes_by_outcome := policy_for_stage StageName.Builder,
     rq_active_work_item_family_id := Some ''task''\<rparr>"

definition demo_raw :: RunnerRawResult where
  "demo_raw =
     \<lparr>rw_request_id = ''req'', rw_run_id = ''run'', rw_stage = StageName.Builder, rw_runner_name = ''fake'',
      rw_model_name = None, rw_thinking_level = None, rw_model_reasoning_effort = None,
      rw_exit_kind = RunnerExitKind.Completed, rw_exit_code = Some 0, rw_observed_exit_kind = None,
      rw_observed_exit_code = None, rw_stdout_path = Some ''/w/out.txt'', rw_stderr_path = None,
      rw_terminal_result_path = None, rw_event_log_path = None, rw_token_usage = None,
      rw_failure_capability_class = None, rw_capability_support_decisions = [], rw_capability_evidence_refs = [],
      rw_missing_capability_evidence_refs = [], rw_started_at = ''a'', rw_ended_at = ''b''\<rparr>"

lemma demo_request_valid: "StageRunRequest_validate demo_run_request = Inr demo_validated"
  by code_simp

lemma demo_raw_valid: "RunnerRawResult_validate (nv_rfc demo_runner_env) demo_raw = Inr ()"
proof -
  have "trim ''req'' = ''req''" "trim ''run'' = ''run''" "trim ''fake'' = ''fake''" by code_simp+
  then show ?thesis
    unfolding RunnerRawResult_validate_def all_checks_iffs
    by (simp add: demo_raw_def demo_runner_env_def rw_require_non_blank_def validate_non_blank_values_def rw_parse_time_def)
qed

lemma demo_seconds: "seconds_not_negative demo_runner_env"
  by (simp add: seconds_not_negative_def demo_runner_env_def)

lemma demo_well: "run_ended_well demo_validated demo_raw"
  by (simp add: run_ended_well_def demo_validated_def demo_run_request_def demo_raw_def clean_exit_def)

lemma demo_tokens: "stdout_tokens ''### BUILDER_COMPLETE'' = [''BUILDER_COMPLETE'']"
  by code_simp

section \<open>Properties\<close>

text \<open>C31. A stage never succeeds by accident. For a validated request and a valid raw result, a
  normalisation that returns at all returns an envelope, never an error; the envelope is valid, unchanged by
  validation, and names the run, stage and work item of the request. It is either the retryable failure of
  the plane's BLOCKED result, or the runner answered this very request, exited cleanly with no capability
  evidence missing, and the terminal result is one of the request's legal markers with a result class that
  the request's policy allows for it. Success is only possible in the second case.\<close>

theorem normalized_result_is_sound:
  assumes "StageRunRequest_validate q0 = Inr q" "RunnerRawResult_validate (nv_rfc E) w = Inr ()"
    and "seconds_not_negative E" "normalize_stage_result E q w = Some result"
  shows "\<exists>r. result = Inr r \<and> reports_request E q w r
    \<and> (if sr_retryable r
       then sr_terminal_result r = blocked_terminal_for_plane (rq_plane q)
         \<and> sr_result_class r = ResultClass.RecoverableFailure \<and> \<not> sr_success r
       else run_ended_well q w
         \<and> TerminalResult_marker (sr_terminal_result r) \<in> set (rq_legal_terminal_markers q)
         \<and> (\<exists>cs. result_classes_for (rq_allowed_result_classes_by_outcome q)
                  (TerminalResult_as_str (sr_terminal_result r)) = Some cs \<and> sr_result_class r \<in> set cs))"
proof (rule normalized_cases[OF validated_request_ready[OF assms(1)] assms(2-4)])
  fix r x
  assume "result = Inr r" "reports_request E q w r" "\<not> sr_retryable r" "run_ended_well q w" "extraction_for q x"
    "tx_terminal_result x = Some (sr_terminal_result r)" "tx_result_class x = Some (sr_result_class r)"
  then show ?thesis by (auto simp: extraction_for_def)
qed auto

lemma normalized_result_is_sound_witness:
  "\<exists>r. normalize_stage_result demo_runner_env demo_validated demo_raw = Some (Inr r)
     \<and> reports_request demo_runner_env demo_validated demo_raw r"
proof -
  have "extract_terminal_result demo_runner_env demo_validated demo_raw \<noteq> None"
    using token_decision(1)[OF validated_request_ready[OF demo_request_valid]]
      builtin_policy_unambiguous[of demo_validated StageName.Builder]
    by (simp add: extract_terminal_result_def extract_from_stdout_tokens_def demo_raw_def demo_runner_env_def
        demo_validated_def)
  then obtain result where "normalize_stage_result demo_runner_env demo_validated demo_raw = Some result"
    by (auto simp: normalized_extraction[OF demo_raw_valid demo_well])
  with normalized_result_is_sound[OF demo_request_valid demo_raw_valid demo_seconds this] show ?thesis by blast
qed

text \<open>C32. What a runner prints decides its stage. When the runner ended well, left no result file and its
  output can be read: a stage result is accepted exactly when all marker lines of the output carry one
  and the same token and that token is legal for the request, and then it is that token's result; no marker,
  two different markers or an illegal one make a failure. The normalisation panics exactly for such a token
  to which the request's policy gives several result classes and no preferred one.\<close>

theorem stdout_token_decides:
  assumes "StageRunRequest_validate q0 = Inr q" "RunnerRawResult_validate (nv_rfc E) w = Inr ()"
    and "seconds_not_negative E" "run_ended_well q w" "rw_terminal_result_path w = None"
    and "rw_stdout_path w = Some path" "nv_exists E path" "nv_read_to_string E path = Inr output"
  shows "(normalize_stage_result E q w = None \<longleftrightarrow>
      (\<exists>t r. set (stdout_tokens output) = {t} \<and> terminal_result_for_request q t = Some r \<and> ambiguous_token q t))
    \<and> (\<forall>r. normalize_stage_result E q w = Some (Inr r) \<longrightarrow>
      (\<not> sr_retryable r \<longleftrightarrow> (\<exists>t. set (stdout_tokens output) = {t} \<and> terminal_result_for_request q t \<noteq> None))
      \<and> (\<not> sr_retryable r \<longrightarrow>
           (\<forall>t \<in> set (stdout_tokens output). terminal_result_for_request q t = Some (sr_terminal_result r))))"
proof -
  note ready = validated_request_ready[OF assms(1)]
  note decision = token_decision[OF ready]
  have from_output: "extract_terminal_result E q w = extract_from_tokens E q (stdout_tokens output)"
    using assms(5-8) by (simp add: extract_terminal_result_def extract_from_stdout_tokens_def)
  note result_eq = normalized_extraction[OF assms(2,4), unfolded from_output]
  have "(\<not> sr_retryable r \<longleftrightarrow> (\<exists>t. set (stdout_tokens output) = {t} \<and> terminal_result_for_request q t \<noteq> None))
      \<and> (\<not> sr_retryable r \<longrightarrow>
           (\<forall>t \<in> set (stdout_tokens output). terminal_result_for_request q t = Some (sr_terminal_result r)))"
    if r: "normalize_stage_result E q w = Some (Inr r)" for r
  proof -
    from r result_eq obtain x where x: "extract_from_tokens E q (stdout_tokens output) = Some x"
      "Inr r = (if TerminalExtraction_ok x then accepted_envelope E q w x
       else failure_envelope E q w (or_else (tx_failure_class x) RunnerFailureClass.IllegalTerminalResult)
         (tx_notes x) (tx_detected_marker x) (tx_artifact_paths x) None)"
      by (cases "extract_from_tokens E q (stdout_tokens output)") auto
    show ?thesis
    proof (cases "TerminalExtraction_ok x")
      case True
      from accepted_envelope_ok[OF ready assms(2,3) token_extraction(1)[OF ready x(1) True]] x(2) True
      have "\<not> sr_retryable r" "tx_terminal_result x = Some (sr_terminal_result r)" by auto
      moreover obtain t where t: "set (stdout_tokens output) = {t}" "terminal_result_for_request q t \<noteq> None"
        using decision(2)[OF x(1)] True by blast
      moreover have "terminal_result_for_request q t = tx_terminal_result x" by (rule decision(3)[OF x(1) True t(1)])
      ultimately show ?thesis by auto
    next
      case False
      from failure_envelope_ok[OF ready assms(2,3), of "or_else (tx_failure_class x) RunnerFailureClass.IllegalTerminalResult"
          "tx_notes x" "tx_detected_marker x" "tx_artifact_paths x" None] x(2) False
      have "sr_retryable r" by auto
      with decision(2)[OF x(1)] False show ?thesis by blast
    qed
  qed
  with decision(1) show ?thesis by (simp add: result_eq)
qed

lemma stdout_token_decides_witness:
  "\<exists>r. normalize_stage_result demo_runner_env demo_validated demo_raw = Some (Inr r)
     \<and> \<not> sr_retryable r \<and> sr_terminal_result r = E_BUILDER_COMPLETE"
proof -
  have "rw_terminal_result_path demo_raw = None" "rw_stdout_path demo_raw = Some ''/w/out.txt''"
    "nv_exists demo_runner_env ''/w/out.txt''"
    "nv_read_to_string demo_runner_env ''/w/out.txt'' = Inr ''### BUILDER_COMPLETE''"
    by (simp_all add: demo_raw_def demo_runner_env_def)
  note decides = stdout_token_decides[OF demo_request_valid demo_raw_valid demo_seconds demo_well this]
  have legal: "terminal_result_for_request demo_validated ''BUILDER_COMPLETE'' = Some E_BUILDER_COMPLETE"
    by code_simp
  have "\<not> ambiguous_token demo_validated t" for t
    by (rule builtin_policy_unambiguous[of _ StageName.Builder]) (simp add: demo_validated_def)
  then obtain result where result: "normalize_stage_result demo_runner_env demo_validated demo_raw = Some result"
    using conjunct1[OF decides] by auto
  obtain r where r: "normalize_stage_result demo_runner_env demo_validated demo_raw = Some (Inr r)"
    by (rule normalized_cases[OF validated_request_ready[OF demo_request_valid] demo_raw_valid demo_seconds result])
      (use result that in auto)
  with decides legal show ?thesis by (auto simp: demo_tokens)
qed




end
