(* ===== verification/Failure_Policy.thy ===== *)
theory Failure_Policy
  imports Workflow_Primitives
begin

text \<open>
  The interpretation of runtime failure policies, from \<^verbatim>\<open>src/src/runtime/failure_policy.rs\<close>: the first
  compiled policy that matches a failed effect decides, except that a partial mutation is never routed on.
\<close>

record RuntimeEffectFailurePolicyInput =
  fe_failure_class :: "string option"
  fe_mutation_phase :: RuntimeEffectMutationPhase
  fe_handler_id :: "string option"
  fe_source_node_id :: "string option"
  fe_source_terminal_state_id :: "string option"
  fe_source_plane :: "Plane option"
  fe_source_family_id :: "string option"
  fe_created_paths :: "string list"
  fe_message :: "string option"

record RuntimeFailurePolicyInterpretation =
  fo_policy_id :: string
  fo_action :: string
  fo_failure_class :: string
  fo_target_node_id :: "string option"
  fo_target_terminal_state_id :: "string option"
  fo_max_attempts :: "nat option"
  fo_incident_severity :: "string option"

definition string_list_matches_required :: "string list \<Rightarrow> string option \<Rightarrow> bool" where
  "string_list_matches_required vs c = (case c of None \<Rightarrow> False | Some x \<Rightarrow> x \<in> set vs)"

definition plane_list_matches_required :: "Plane list \<Rightarrow> Plane option \<Rightarrow> bool" where
  "plane_list_matches_required vs c = (case c of None \<Rightarrow> False | Some x \<Rightarrow> x \<in> set vs)"

definition string_list_matches_optional :: "string list \<Rightarrow> string option \<Rightarrow> bool" where
  "string_list_matches_optional vs c \<longleftrightarrow> vs = [] \<or> (case c of None \<Rightarrow> False | Some x \<Rightarrow> x \<in> set vs)"

definition phase_list_matches_optional :: "RuntimeEffectMutationPhase list \<Rightarrow> RuntimeEffectMutationPhase \<Rightarrow> bool" where
  "phase_list_matches_optional vs c \<longleftrightarrow> vs = [] \<or> c \<in> set vs"

definition policy_matches_effect_failure ::
  "RuntimeFailurePolicyDefinition \<Rightarrow> RuntimeEffectFailurePolicyInput \<Rightarrow> bool" where
  "policy_matches_effect_failure p f \<longleftrightarrow>
     string_list_matches_required (fp_applies_to_origins p) (Some ''runtime_effect'')
     \<and> plane_list_matches_required (fp_applies_to_planes p) (fe_source_plane f)
     \<and> string_list_matches_optional (fp_applies_to_families p) (fe_source_family_id f)
     \<and> string_list_matches_optional (fp_applies_to_failure_classes p) (fe_failure_class f)
     \<and> phase_list_matches_optional (fp_applies_to_mutation_phases p) (fe_mutation_phase f)
     \<and> string_list_matches_optional (fp_applies_to_handler_ids p) (fe_handler_id f)
     \<and> string_list_matches_optional (fp_applies_to_source_node_ids p) (fe_source_node_id f)
     \<and> string_list_matches_optional (fp_applies_to_source_terminal_state_ids p) (fe_source_terminal_state_id f)"

fun first_failure_policy ::
  "RuntimeEffectFailurePolicyInput \<Rightarrow> string \<Rightarrow> RuntimeFailurePolicyDefinition list \<Rightarrow>
   RuntimeFailurePolicyInterpretation option" where
  "first_failure_policy f failure_class [] = None"
| "first_failure_policy f failure_class (p # ps) =
     (if \<not> policy_matches_effect_failure p f then first_failure_policy f failure_class ps
      else if fe_mutation_phase f = RuntimeEffectMutationPhase.PartialMutation \<and> fp_action p = ''route_to_node''
      then first_failure_policy f failure_class ps
      else Some
        \<lparr>fo_policy_id = fp_policy_id p, fo_action = fp_action p, fo_failure_class = failure_class,
         fo_target_node_id = fp_target_node_id p, fo_target_terminal_state_id = fp_target_terminal_state_id p,
         fo_max_attempts = fp_max_attempts p, fo_incident_severity = fp_incident_severity p\<rparr>)"

definition interpret_runtime_effect_failure_policy ::
  "RuntimeFailurePolicyDefinition list \<Rightarrow> RuntimeEffectFailurePolicyInput \<Rightarrow>
   RuntimeFailurePolicyInterpretation option" where
  "interpret_runtime_effect_failure_policy ps f =
     (case (fe_failure_class f, fe_handler_id f, fe_source_node_id f, fe_source_plane f, fe_source_family_id f) of
        (Some failure_class, Some handler_id, Some source_node_id, Some _, Some source_family_id) \<Rightarrow>
          if [] \<in> {trim failure_class, trim handler_id, trim source_node_id, trim source_family_id} then None
          else first_failure_policy f (trim failure_class) ps
      | _ \<Rightarrow> None)"

definition policy_may_decide :: "RuntimeFailurePolicyDefinition \<Rightarrow> RuntimeEffectFailurePolicyInput \<Rightarrow> bool" where
  "policy_may_decide p f \<longleftrightarrow> policy_matches_effect_failure p f
     \<and> \<not> (fe_mutation_phase f = RuntimeEffectMutationPhase.PartialMutation \<and> fp_action p = ''route_to_node'')"

text \<open>The decision is that of the first policy that may decide.\<close>

lemma first_failure_policy_find:
  "first_failure_policy f c ps = map_option (\<lambda>p.
     \<lparr>fo_policy_id = fp_policy_id p, fo_action = fp_action p, fo_failure_class = c,
      fo_target_node_id = fp_target_node_id p, fo_target_terminal_state_id = fp_target_terminal_state_id p,
      fo_max_attempts = fp_max_attempts p, fo_incident_severity = fp_incident_severity p\<rparr>)
     (List.find (\<lambda>p. policy_may_decide p f) ps)"
  by (induction ps) (auto simp: policy_may_decide_def)

lemma interpretation_is_first_decider:
  assumes "interpret_runtime_effect_failure_policy ps f = Some r"
  obtains c where "first_failure_policy f c ps = Some r"
  using assms
  by (simp add: interpret_runtime_effect_failure_policy_def split: option.split_asm if_split_asm)

lemma partial_mutation_is_not_routed:
  assumes "interpret_runtime_effect_failure_policy ps f = Some r"
    "fe_mutation_phase f = RuntimeEffectMutationPhase.PartialMutation"
  shows "fo_action r \<noteq> ''route_to_node''"
proof -
  obtain c where "first_failure_policy f c ps = Some r"
    using interpretation_is_first_decider[OF assms(1)] .
  then obtain p where p: "List.find (\<lambda>p. policy_may_decide p f) ps = Some p" and "fo_action r = fp_action p"
    by (auto simp: first_failure_policy_find)
  moreover have "policy_may_decide p f" using p by (auto simp: find_Some_iff)
  ultimately show ?thesis using assms(2) by (simp add: policy_may_decide_def)
qed

end
