(* ===== verification/Runtime_Lock.thy ===== *)
theory Runtime_Lock
  imports State_Store Stage_Router "HOL-Library.Word"
begin

text \<open>
  The lock file by which a daemon owns a workspace, from \<^verbatim>\<open>src/src/workspace/runtime_lock.rs\<close>.

  The surroundings are the record \<open>lock_env\<close>: the paths, the environment variables, the clock, the JSON
  library, and \<^verbatim>\<open>kill(pid, 0)\<close> (\<open>None\<close> when it returns 0, else the error number). The lock file
  is an inode with its content: a process that has created it writes through its handle, also after another
  process has removed the file. Failures of the file system are the record \<open>lock_faults\<close>.
\<close>

section \<open>Data\<close>

datatype RuntimeOwnershipLockState = Absent | Active | Stale | Invalid

primrec RuntimeOwnershipLockState_as_str :: "RuntimeOwnershipLockState \<Rightarrow> string" where
  "RuntimeOwnershipLockState_as_str RuntimeOwnershipLockState.Absent = ''absent''"
| "RuntimeOwnershipLockState_as_str RuntimeOwnershipLockState.Active = ''active''"
| "RuntimeOwnershipLockState_as_str RuntimeOwnershipLockState.Stale = ''stale''"
| "RuntimeOwnershipLockState_as_str RuntimeOwnershipLockState.Invalid = ''invalid''"

record RuntimeOwnershipRecord =
  ow_workspace_root :: string
  ow_owner_pid :: "32 word"
  ow_owner_hostname :: string
  ow_owner_session_id :: string
  ow_acquired_at :: string

record RuntimeOwnershipLockOptions =
  oo_owner_pid :: "32 word"
  oo_owner_hostname :: string
  oo_owner_session_id :: string
  oo_acquired_at :: string

record RuntimeOwnershipLockStatus =
  os_state :: RuntimeOwnershipLockState
  os_lock_path :: string
  os_record :: "RuntimeOwnershipRecord option"
  os_detail :: string

record ClearRuntimeOwnershipLockResult =
  ox_cleared :: bool
  ox_reason :: string
  ox_status :: RuntimeOwnershipLockStatus

datatype RuntimeOwnershipLockError =
    OwIo string string
  | OwJsonRender string
  | OwInvalidRecord string string
  | OwAlreadyHeld RuntimeOwnershipLockStatus

record lock_env =
  ov_root :: string
  ov_lock_path :: string
  ov_process_id :: "32 word"
  ov_env_var :: "string \<Rightarrow> string option"
  ov_now_rfc3339 :: "string option"
  ov_now_nanos :: int
  ov_kill :: "int \<Rightarrow> int option"
  ov_EPERM :: int
  ov_from_str :: "string \<Rightarrow> string + json"
  ov_to_string_pretty :: "json \<Rightarrow> string + string"
  ov_rfc :: "string \<Rightarrow> string + int"

record lock_faults =
  lf_create_dir :: "string option"
  lf_open :: "string option"
  lf_write :: "(string \<times> string) option"
  lf_read :: "string option"
  lf_remove :: "string option"

definition no_lock_faults :: lock_faults where
  "no_lock_faults = \<lparr>lf_create_dir = None, lf_open = None, lf_write = None, lf_read = None, lf_remove = None\<rparr>"

section \<open>Records\<close>

definition ow_validate_non_empty_string :: "string \<Rightarrow> string \<Rightarrow> RuntimeOwnershipLockError + unit" where
  "ow_validate_non_empty_string f v =
     (if trim v = [] then Inl (OwInvalidRecord f ''must be a non-empty string'') else Inr ())"

definition validate_acquired_at :: "lock_env \<Rightarrow> string \<Rightarrow> RuntimeOwnershipLockError + unit" where
  "validate_acquired_at E v =
     (if trim v = [] \<or> \<not> is_ok (ov_rfc E v)
      then Inl (OwInvalidRecord ''acquired_at'' ''must be an ISO datetime string'') else Inr ())"

definition owner_pid_check :: "32 word \<Rightarrow> RuntimeOwnershipLockError + unit" where
  "owner_pid_check pid =
     (if pid = 0 then Inl (OwInvalidRecord ''owner_pid'' ''must be a positive integer'') else Inr ())"

definition RuntimeOwnershipRecord_validate ::
  "lock_env \<Rightarrow> RuntimeOwnershipRecord \<Rightarrow> RuntimeOwnershipLockError + unit" where
  "RuntimeOwnershipRecord_validate E r = all_checks
     [ow_validate_non_empty_string ''workspace_root'' (ow_workspace_root r),
      owner_pid_check (ow_owner_pid r),
      ow_validate_non_empty_string ''owner_hostname'' (ow_owner_hostname r),
      ow_validate_non_empty_string ''owner_session_id'' (ow_owner_session_id r),
      validate_acquired_at E (ow_acquired_at r)]"

definition RuntimeOwnershipRecord_new ::
  "lock_env \<Rightarrow> string \<Rightarrow> 32 word \<Rightarrow> string \<Rightarrow> string \<Rightarrow> string \<Rightarrow>
   RuntimeOwnershipLockError + RuntimeOwnershipRecord" where
  "RuntimeOwnershipRecord_new E workspace_root pid host session acquired =
     (let r = \<lparr>ow_workspace_root = workspace_root, ow_owner_pid = pid, ow_owner_hostname = host, ow_owner_session_id = session,
               ow_acquired_at = acquired\<rparr> in
      map_ok (\<lambda>_. r) (RuntimeOwnershipRecord_validate E r))"

definition RuntimeOwnershipLockOptions_validate ::
  "lock_env \<Rightarrow> RuntimeOwnershipLockOptions \<Rightarrow> RuntimeOwnershipLockError + unit" where
  "RuntimeOwnershipLockOptions_validate E o1 = all_checks
     [owner_pid_check (oo_owner_pid o1),
      ow_validate_non_empty_string ''owner_hostname'' (oo_owner_hostname o1),
      ow_validate_non_empty_string ''owner_session_id'' (oo_owner_session_id o1),
      validate_acquired_at E (oo_acquired_at o1)]"

definition RuntimeOwnershipLockOptions_new ::
  "lock_env \<Rightarrow> 32 word \<Rightarrow> string \<Rightarrow> string \<Rightarrow> string \<Rightarrow>
   RuntimeOwnershipLockError + RuntimeOwnershipLockOptions" where
  "RuntimeOwnershipLockOptions_new E pid host session acquired =
     (let o1 = \<lparr>oo_owner_pid = pid, oo_owner_hostname = host, oo_owner_session_id = session,
                oo_acquired_at = acquired\<rparr> in
      map_ok (\<lambda>_. o1) (RuntimeOwnershipLockOptions_validate E o1))"

definition show_pid :: "32 word \<Rightarrow> string" where
  "show_pid pid = show_nat (unat pid)"

definition show_int :: "int \<Rightarrow> string" where
  "show_int n = (if n < 0 then ''-'' @ show_nat (nat (- n)) else show_nat (nat n))"

definition current_hostname :: "lock_env \<Rightarrow> string" where
  "current_hostname E =
     (let v = (case ov_env_var E ''HOSTNAME'' of Some x \<Rightarrow> Some x | None \<Rightarrow> ov_env_var E ''COMPUTERNAME'') in
      case map_option trim v of
        None \<Rightarrow> ''unknown-host''
      | Some x \<Rightarrow> if x = [] then ''unknown-host'' else x)"

definition RuntimeOwnershipLockOptions_current :: "lock_env \<Rightarrow> RuntimeOwnershipLockOptions" where
  "RuntimeOwnershipLockOptions_current E =
     \<lparr>oo_owner_pid = ov_process_id E, oo_owner_hostname = current_hostname E,
      oo_owner_session_id = ''session-'' @ show_pid (ov_process_id E) @ ''-'' @ show_int (ov_now_nanos E),
      oo_acquired_at = (case ov_now_rfc3339 E of Some t \<Rightarrow> t | None \<Rightarrow> ''1970-01-01T00:00:00Z'')\<rparr>"

definition into_record ::
  "lock_env \<Rightarrow> RuntimeOwnershipLockOptions \<Rightarrow> RuntimeOwnershipLockError + RuntimeOwnershipRecord" where
  "into_record E o1 =
     RuntimeOwnershipRecord_new E (ov_root E) (oo_owner_pid o1) (oo_owner_hostname o1) (oo_owner_session_id o1)
       (oo_acquired_at o1)"

section \<open>Payload\<close>

definition RuntimeOwnershipRecord_to_json :: "RuntimeOwnershipRecord \<Rightarrow> json" where
  "RuntimeOwnershipRecord_to_json r = JObject
     [(''workspace_root'', JString (ow_workspace_root r)), (''owner_pid'', JNumber (uint (ow_owner_pid r))),
      (''owner_hostname'', JString (ow_owner_hostname r)), (''owner_session_id'', JString (ow_owner_session_id r)),
      (''acquired_at'', JString (ow_acquired_at r))]"

definition serialize_record :: "lock_env \<Rightarrow> RuntimeOwnershipRecord \<Rightarrow> RuntimeOwnershipLockError + string" where
  "serialize_record E r =
     map_ok (\<lambda>payload. payload @ [CHR 0x0A])
       (map_err OwJsonRender (ov_to_string_pretty E (RuntimeOwnershipRecord_to_json r)))"

fun json_as_object :: "json \<Rightarrow> (string \<times> json) list option" where
  "json_as_object (JObject entries) = Some entries"
| "json_as_object _ = None"

fun json_as_i64 :: "json \<Rightarrow> int option" where
  "json_as_i64 (JNumber n) = (if - (2 ^ 63) \<le> n \<and> n < 2 ^ 63 then Some n else None)"
| "json_as_i64 _ = None"

definition required_string :: "(string \<times> json) list \<Rightarrow> string \<Rightarrow> string + string" where
  "required_string entries f =
     (case Option.bind (map_of entries f) json_as_str of
        None \<Rightarrow> Inl (f @ '' must be a non-empty string'')
      | Some v \<Rightarrow> if trim v = [] then Inl (f @ '' must be a non-empty string'') else Inr v)"

definition required_positive_u32 :: "(string \<times> json) list \<Rightarrow> string \<Rightarrow> string + 32 word" where
  "required_positive_u32 entries f =
     (case Option.bind (map_of entries f) json_as_i64 of
        None \<Rightarrow> Inl (f @ '' must be a positive integer'')
      | Some v \<Rightarrow> if v \<le> 0 \<or> 4294967295 < v then Inl (f @ '' must be a positive integer'') else Inr (word_of_int v))"

definition validate_acquired_at_for_parse :: "lock_env \<Rightarrow> string \<Rightarrow> string + unit" where
  "validate_acquired_at_for_parse E v =
     (if trim v = [] \<or> \<not> is_ok (ov_rfc E v) then Inl ''acquired_at must be an ISO datetime string'' else Inr ())"

definition parse_lock_payload :: "lock_env \<Rightarrow> string \<Rightarrow> string + RuntimeOwnershipRecord" where
  "parse_lock_payload E payload =
     and_then (ov_from_str E payload) (\<lambda>parsed.
     and_then (case json_as_object parsed of None \<Rightarrow> Inl ''expected top-level object'' | Some x \<Rightarrow> Inr x) (\<lambda>entries.
     and_then (required_string entries ''workspace_root'') (\<lambda>workspace_root.
     and_then (required_positive_u32 entries ''owner_pid'') (\<lambda>pid.
     and_then (required_string entries ''owner_hostname'') (\<lambda>host.
     and_then (required_string entries ''owner_session_id'') (\<lambda>session.
     and_then (required_string entries ''acquired_at'') (\<lambda>acquired.
     and_then (validate_acquired_at_for_parse E acquired) (\<lambda>_.
       Inr \<lparr>ow_workspace_root = workspace_root, ow_owner_pid = pid, ow_owner_hostname = host, ow_owner_session_id = session,
            ow_acquired_at = acquired\<rparr>))))))))"

section \<open>Inspection\<close>

definition platform_pid_is_running :: "lock_env \<Rightarrow> 32 word \<Rightarrow> bool" where
  "platform_pid_is_running E pid =
     (if 2147483647 < pid then False
      else (case ov_kill E (uint pid) of None \<Rightarrow> True | Some code \<Rightarrow> code = ov_EPERM E))"

definition default_pid_is_running :: "lock_env \<Rightarrow> 32 word \<Rightarrow> bool" where
  "default_pid_is_running E pid =
     (if pid = 0 then False else if pid = ov_process_id E then True else platform_pid_is_running E pid)"

definition invalid_status :: "lock_env \<Rightarrow> RuntimeOwnershipRecord option \<Rightarrow> string \<Rightarrow> RuntimeOwnershipLockStatus" where
  "invalid_status E r detail =
     \<lparr>os_state = RuntimeOwnershipLockState.Invalid, os_lock_path = ov_lock_path E, os_record = r, os_detail = detail\<rparr>"

text \<open>The state of the lock: its inode with the content, if the file exists, and the next inode.\<close>

record lock_world =
  lw_file :: "(nat \<times> string) option"
  lw_next :: nat

definition classify_lock ::
  "lock_env \<Rightarrow> (32 word \<Rightarrow> bool) \<Rightarrow> RuntimeOwnershipRecord \<Rightarrow> RuntimeOwnershipLockStatus" where
  "classify_lock E pid_is_running r =
     (if ow_workspace_root r \<noteq> ov_root E then
        invalid_status E (Some r)
          (''runtime ownership lock references a different workspace root ('' @ ow_workspace_root r @ '')'')
      else if pid_is_running (ow_owner_pid r) then
        \<lparr>os_state = RuntimeOwnershipLockState.Active, os_lock_path = ov_lock_path E, os_record = Some r,
         os_detail = ''workspace runtime ownership lock is active: pid='' @ show_pid (ow_owner_pid r)
           @ '' host='' @ ow_owner_hostname r @ '' session='' @ ow_owner_session_id r\<rparr>
      else
        \<lparr>os_state = RuntimeOwnershipLockState.Stale, os_lock_path = ov_lock_path E, os_record = Some r,
         os_detail = ''workspace runtime ownership lock is stale: pid='' @ show_pid (ow_owner_pid r)
           @ '' is not running (session='' @ ow_owner_session_id r @ '')''\<rparr>)"

definition inspect_runtime_ownership_lock_with_pid_checker ::
  "lock_env \<Rightarrow> lock_faults \<Rightarrow> (32 word \<Rightarrow> bool) \<Rightarrow> lock_world \<Rightarrow> RuntimeOwnershipLockStatus" where
  "inspect_runtime_ownership_lock_with_pid_checker E faults pid_is_running w =
     (case lw_file w of
        None \<Rightarrow> \<lparr>os_state = RuntimeOwnershipLockState.Absent, os_lock_path = ov_lock_path E, os_record = None,
                 os_detail = ''runtime ownership lock is absent''\<rparr>
      | Some (_, raw) \<Rightarrow>
          (case lf_read faults of
             Some m \<Rightarrow> invalid_status E None (''invalid runtime ownership lock payload: '' @ m)
           | None \<Rightarrow>
               (case parse_lock_payload E raw of
                  Inl m \<Rightarrow> invalid_status E None (''invalid runtime ownership lock payload: '' @ m)
                | Inr r \<Rightarrow> classify_lock E pid_is_running r)))"

definition inspect_runtime_ownership_lock ::
  "lock_env \<Rightarrow> lock_faults \<Rightarrow> lock_world \<Rightarrow> RuntimeOwnershipLockStatus" where
  "inspect_runtime_ownership_lock E faults =
     inspect_runtime_ownership_lock_with_pid_checker E faults (default_pid_is_running E)"

definition ownership_error_message :: "RuntimeOwnershipLockStatus \<Rightarrow> string" where
  "ownership_error_message status =
     (case os_state status of
        RuntimeOwnershipLockState.Stale \<Rightarrow>
          os_detail status @ ''; run clear-stale-state to remove stale ownership before starting runtime again''
      | RuntimeOwnershipLockState.Invalid \<Rightarrow>
          os_detail status @ ''; run clear-stale-state to repair ownership lock before starting runtime again''
      | RuntimeOwnershipLockState.Active \<Rightarrow>
          (case os_record status of
             Some r \<Rightarrow> ''workspace runtime ownership lock is already held by pid='' @ show_pid (ow_owner_pid r)
               @ '' host='' @ ow_owner_hostname r @ '' session='' @ ow_owner_session_id r
           | None \<Rightarrow> ''workspace runtime ownership lock is already held'')
      | RuntimeOwnershipLockState.Absent \<Rightarrow> ''workspace runtime ownership lock is already held'')"

primrec RuntimeOwnershipLockError_to_string :: "RuntimeOwnershipLockError \<Rightarrow> string" where
  "RuntimeOwnershipLockError_to_string (OwIo path m) =
     ''runtime ownership lock filesystem error at '' @ path @ '': '' @ m"
| "RuntimeOwnershipLockError_to_string (OwJsonRender m) = ''failed to render runtime ownership lock: '' @ m"
| "RuntimeOwnershipLockError_to_string (OwInvalidRecord f m) = f @ '' is invalid: '' @ m"
| "RuntimeOwnershipLockError_to_string (OwAlreadyHeld status) = ownership_error_message status"

primrec RuntimeOwnershipLockError_status :: "RuntimeOwnershipLockError \<Rightarrow> RuntimeOwnershipLockStatus option" where
  "RuntimeOwnershipLockError_status (OwIo path m) = None"
| "RuntimeOwnershipLockError_status (OwJsonRender m) = None"
| "RuntimeOwnershipLockError_status (OwInvalidRecord f m) = None"
| "RuntimeOwnershipLockError_status (OwAlreadyHeld status) = Some status"

section \<open>Acquiring, releasing, clearing\<close>

text \<open>Each operation is cut at the points where another process can act: acquiring into the preparation of the
  payload, the exclusive creation and the write through the handle; releasing and clearing into the
  inspection, which decides, and the removal.\<close>

definition remove_lock_file ::
  "lock_env \<Rightarrow> lock_faults \<Rightarrow> lock_world \<Rightarrow> (RuntimeOwnershipLockError + bool) \<times> lock_world" where
  "remove_lock_file E faults w =
     (case lf_remove faults of
        Some m \<Rightarrow> (Inl (OwIo (ov_lock_path E) m), w)
      | None \<Rightarrow> (Inr (lw_file w \<noteq> None), w\<lparr>lw_file := None\<rparr>))"

definition prepare_lock ::
  "lock_env \<Rightarrow> lock_faults \<Rightarrow> RuntimeOwnershipLockOptions \<Rightarrow>
   RuntimeOwnershipLockError + RuntimeOwnershipRecord \<times> string" where
  "prepare_lock E faults o1 =
     and_then (into_record E o1) (\<lambda>r.
     and_then (serialize_record E r) (\<lambda>payload.
     if path_directory (ov_lock_path E) = [] then
       Inl (OwInvalidRecord ''lock_path'' ''runtime lock path must have a parent directory'')
     else (case lf_create_dir faults of
       Some m \<Rightarrow> Inl (OwIo (path_directory (ov_lock_path E)) m)
     | None \<Rightarrow> Inr (r, payload))))"

text \<open>\<^verbatim>\<open>create_new\<close>: the new handle, or the error.\<close>

definition open_lock ::
  "lock_env \<Rightarrow> lock_faults \<Rightarrow> lock_world \<Rightarrow> (RuntimeOwnershipLockError + nat) \<times> lock_world" where
  "open_lock E faults w =
     (case lw_file w of
        Some _ \<Rightarrow> (Inl (OwAlreadyHeld (inspect_runtime_ownership_lock E faults w)), w)
      | None \<Rightarrow>
          (case lf_open faults of
             Some m \<Rightarrow> (Inl (OwIo (ov_lock_path E) m), w)
           | None \<Rightarrow> (Inr (lw_next w), \<lparr>lw_file = Some (lw_next w, []), lw_next = Suc (lw_next w)\<rparr>)))"

definition write_handle :: "nat \<Rightarrow> string \<Rightarrow> lock_world \<Rightarrow> lock_world" where
  "write_handle handle text w =
     (case lw_file w of
        None \<Rightarrow> w
      | Some (inode, _) \<Rightarrow> if inode = handle then w\<lparr>lw_file := Some (inode, text)\<rparr> else w)"

definition write_lock ::
  "lock_env \<Rightarrow> lock_faults \<Rightarrow> RuntimeOwnershipRecord \<Rightarrow> string \<Rightarrow> nat \<Rightarrow> lock_world \<Rightarrow>
   (RuntimeOwnershipLockError + RuntimeOwnershipRecord) \<times> lock_world" where
  "write_lock E faults r payload handle w =
     (case lf_write faults of
        None \<Rightarrow> (Inr r, write_handle handle payload w)
      | Some (partial, m) \<Rightarrow>
          (Inl (OwIo (ov_lock_path E) m), snd (remove_lock_file E faults (write_handle handle partial w))))"

definition acquire_runtime_ownership_lock_with_options ::
  "lock_env \<Rightarrow> lock_faults \<Rightarrow> RuntimeOwnershipLockOptions \<Rightarrow> lock_world \<Rightarrow>
   (RuntimeOwnershipLockError + RuntimeOwnershipRecord) \<times> lock_world" where
  "acquire_runtime_ownership_lock_with_options E faults o1 w =
     (case prepare_lock E faults o1 of
        Inl e \<Rightarrow> (Inl e, w)
      | Inr (r, payload) \<Rightarrow>
          (case open_lock E faults w of
             (Inl e, w1) \<Rightarrow> (Inl e, w1)
           | (Inr handle, w1) \<Rightarrow> write_lock E faults r payload handle w1))"

definition acquire_runtime_ownership_lock ::
  "lock_env \<Rightarrow> lock_faults \<Rightarrow> lock_world \<Rightarrow> (RuntimeOwnershipLockError + RuntimeOwnershipRecord) \<times> lock_world" where
  "acquire_runtime_ownership_lock E faults =
     acquire_runtime_ownership_lock_with_options E faults (RuntimeOwnershipLockOptions_current E)"

definition release_allowed :: "lock_env \<Rightarrow> lock_faults \<Rightarrow> string option \<Rightarrow> bool \<Rightarrow> lock_world \<Rightarrow> bool" where
  "release_allowed E faults session force w =
     (if lw_file w = None then False
      else if force then True
      else (let status = inspect_runtime_ownership_lock E faults w in
        case os_record status of
          None \<Rightarrow> False
        | Some r \<Rightarrow>
            if os_state status = RuntimeOwnershipLockState.Invalid then False
            else (case session of None \<Rightarrow> True | Some s \<Rightarrow> ow_owner_session_id r = s)))"

definition release_runtime_ownership_lock ::
  "lock_env \<Rightarrow> lock_faults \<Rightarrow> string option \<Rightarrow> bool \<Rightarrow> lock_world \<Rightarrow>
   (RuntimeOwnershipLockError + bool) \<times> lock_world" where
  "release_runtime_ownership_lock E faults session force w =
     (if release_allowed E faults session force w then remove_lock_file E faults w else (Inr False, w))"

text \<open>The outcome of a clear that finds this status, given what the removal returned.\<close>

definition clear_reason :: "RuntimeOwnershipLockState \<Rightarrow> string" where
  "clear_reason state =
     (case state of
        RuntimeOwnershipLockState.Absent \<Rightarrow> ''missing''
      | RuntimeOwnershipLockState.Active \<Rightarrow> ''active_owner''
      | RuntimeOwnershipLockState.Stale \<Rightarrow> ''cleared_stale''
      | RuntimeOwnershipLockState.Invalid \<Rightarrow> ''cleared_invalid'')"

definition clear_allowed :: "RuntimeOwnershipLockStatus \<Rightarrow> bool" where
  "clear_allowed status \<longleftrightarrow> os_state status \<in> {RuntimeOwnershipLockState.Stale, RuntimeOwnershipLockState.Invalid}"

definition clear_stale_runtime_ownership_lock_with_pid_checker ::
  "lock_env \<Rightarrow> lock_faults \<Rightarrow> (32 word \<Rightarrow> bool) \<Rightarrow> lock_world \<Rightarrow>
   (RuntimeOwnershipLockError + ClearRuntimeOwnershipLockResult) \<times> lock_world" where
  "clear_stale_runtime_ownership_lock_with_pid_checker E faults pid_is_running w =
     (let status = inspect_runtime_ownership_lock_with_pid_checker E faults pid_is_running w;
          reason = clear_reason (os_state status) in
      if clear_allowed status then
        (case remove_lock_file E faults w of
           (Inl e, w1) \<Rightarrow> (Inl e, w1)
         | (Inr cleared, w1) \<Rightarrow> (Inr \<lparr>ox_cleared = cleared, ox_reason = reason, ox_status = status\<rparr>, w1))
      else (Inr \<lparr>ox_cleared = False, ox_reason = reason, ox_status = status\<rparr>, w))"

definition clear_stale_runtime_ownership_lock ::
  "lock_env \<Rightarrow> lock_faults \<Rightarrow> lock_world \<Rightarrow>
   (RuntimeOwnershipLockError + ClearRuntimeOwnershipLockResult) \<times> lock_world" where
  "clear_stale_runtime_ownership_lock E faults =
     clear_stale_runtime_ownership_lock_with_pid_checker E faults (default_pid_is_running E)"

end
