(* ===== verification/Lock_Protocol.thy ===== *)
theory Lock_Protocol
  imports Runtime_Lock
begin

text \<open>
  Processes that acquire, release and clear the lock of one workspace at the same time: a step relation
  over the operations of \<open>Runtime_Lock\<close>, cut where the source makes separate calls to the file system. A
  process may fail at any call and may crash at any point; a crashed process is not running, its lock stays.
\<close>

section \<open>Steps\<close>

datatype lock_pc =
    LpIdle
  | LpCreated RuntimeOwnershipRecord string nat
  | LpOwner RuntimeOwnershipRecord
  | LpRemoving
  | LpClearing
  | LpCrashed

record lock_sys =
  lk_world :: lock_world
  lk_pc :: "32 word \<Rightarrow> lock_pc"

text \<open>What a process sees: its own pid, and which processes run.\<close>

definition process_env :: "lock_env \<Rightarrow> lock_sys \<Rightarrow> 32 word \<Rightarrow> lock_env" where
  "process_env E s p = E\<lparr>ov_process_id := p,
     ov_kill := \<lambda>q. if lk_pc s (word_of_int q) = LpCrashed then Some (ov_EPERM E + 1) else None\<rparr>"

definition lk_set :: "lock_sys \<Rightarrow> lock_world \<Rightarrow> 32 word \<Rightarrow> lock_pc \<Rightarrow> lock_sys" where
  "lk_set s w p c = s\<lparr>lk_world := w, lk_pc := (lk_pc s)(p := c)\<rparr>"

inductive lock_step :: "lock_env \<Rightarrow> bool \<Rightarrow> lock_sys \<Rightarrow> lock_sys \<Rightarrow> bool" for E clears where
  step_create: "lk_pc s p = LpIdle \<Longrightarrow> oo_owner_pid o1 = p \<Longrightarrow>
     prepare_lock (process_env E s p) f o1 = Inr (r, payload) \<Longrightarrow>
     open_lock (process_env E s p) f (lk_world s) = (Inr handle, w) \<Longrightarrow>
     lock_step E clears s (lk_set s w p (LpCreated r payload handle))"
| step_write: "lk_pc s p = LpCreated r payload handle \<Longrightarrow>
     write_lock (process_env E s p) f r payload handle (lk_world s) = (Inr r', w) \<Longrightarrow>
     lock_step E clears s (lk_set s w p (LpOwner r'))"
| step_write_fails: "lk_pc s p = LpCreated r payload handle \<Longrightarrow>
     write_lock (process_env E s p) f r payload handle (lk_world s) = (Inl e, w) \<Longrightarrow>
     lock_step E clears s (lk_set s w p LpIdle)"
| step_release: "lk_pc s p = LpOwner r \<Longrightarrow>
     release_allowed (process_env E s p) f (Some (ow_owner_session_id r)) False (lk_world s) \<Longrightarrow>
     lock_step E clears s (lk_set s (lk_world s) p LpRemoving)"
| step_keep: "lk_pc s p = LpOwner r \<Longrightarrow>
     \<not> release_allowed (process_env E s p) f (Some (ow_owner_session_id r)) False (lk_world s) \<Longrightarrow>
     lock_step E clears s (lk_set s (lk_world s) p LpIdle)"
| step_remove: "lk_pc s p = LpRemoving \<Longrightarrow> remove_lock_file (process_env E s p) f (lk_world s) = (res, w) \<Longrightarrow>
     lock_step E clears s (lk_set s w p LpIdle)"
| step_clear: "clears \<Longrightarrow> lk_pc s p = LpIdle \<Longrightarrow>
     clear_allowed (inspect_runtime_ownership_lock (process_env E s p) f (lk_world s)) \<Longrightarrow>
     lock_step E clears s (lk_set s (lk_world s) p LpClearing)"
| step_clear_remove: "lk_pc s p = LpClearing \<Longrightarrow> remove_lock_file (process_env E s p) f (lk_world s) = (res, w) \<Longrightarrow>
     lock_step E clears s (lk_set s w p LpIdle)"
| step_crash: "lock_step E clears s (lk_set s (lk_world s) p LpCrashed)"
| step_start: "lk_pc s p = LpCrashed \<Longrightarrow> lock_step E clears s (lk_set s (lk_world s) p LpIdle)"

definition lock_start :: lock_sys where
  "lock_start = \<lparr>lk_world = \<lparr>lw_file = None, lw_next = 0\<rparr>, lk_pc = \<lambda>_. LpCrashed\<rparr>"

inductive lock_reach :: "lock_env \<Rightarrow> bool \<Rightarrow> lock_sys \<Rightarrow> bool" for E clears where
  reach_start: "lock_reach E clears lock_start"
| reach_step: "lock_reach E clears s \<Longrightarrow> lock_step E clears s t \<Longrightarrow> lock_reach E clears t"

section \<open>The operations on the file\<close>

lemma process_env_simps [simp]:
  "ov_process_id (process_env E s p) = p" "ov_root (process_env E s p) = ov_root E"
  "ov_lock_path (process_env E s p) = ov_lock_path E" "ov_rfc (process_env E s p) = ov_rfc E"
  "ov_from_str (process_env E s p) = ov_from_str E" "ov_to_string_pretty (process_env E s p) = ov_to_string_pretty E"
  by (simp_all add: process_env_def)

lemma lk_set_simps [simp]:
  "lk_world (lk_set s w p c) = w" "lk_pc (lk_set s w p c) = (lk_pc s)(p := c)"
  by (simp_all add: lk_set_def)

lemma prepare_lock_payload:
  assumes "prepare_lock E f o1 = Inr (r, payload)"
  shows "serialize_record E r = Inr payload"
  using assms
  by (auto simp: prepare_lock_def and_then_eq_Inr split: if_split_asm option.split_asm)

lemma serialize_process_env [simp]: "serialize_record (process_env E s p) = serialize_record E"
  by (simp add: fun_eq_iff serialize_record_def)

lemma open_lock_ok:
  assumes "open_lock E f w = (Inr handle, v)"
  shows "lw_file w = None \<and> lw_file v = Some (handle, [])"
  using assms by (auto simp: open_lock_def split: option.split_asm prod.split_asm)

lemma remove_lock_file_result:
  assumes "remove_lock_file E f w = (res, v)"
  shows "lw_file v = None \<or> lw_file v = lw_file w"
  using assms by (auto simp: remove_lock_file_def split: option.split_asm)

lemma write_lock_ok:
  assumes "write_lock E f r payload handle w = (Inr r', v)"
  shows "r' = r \<and> v = write_handle handle payload w"
  using assms by (auto simp: write_lock_def split: option.split_asm prod.split_asm)

section \<open>Exclusive ownership without clearing\<close>

text \<open>A process is engaged while it has created the file and not yet given it up.\<close>

fun engaged :: "lock_pc \<Rightarrow> bool" where
  "engaged (LpCreated r payload handle) \<longleftrightarrow> True"
| "engaged (LpOwner r) \<longleftrightarrow> True"
| "engaged LpRemoving \<longleftrightarrow> True"
| "engaged _ \<longleftrightarrow> False"

fun file_matches :: "lock_env \<Rightarrow> lock_pc \<Rightarrow> lock_world \<Rightarrow> bool" where
  "file_matches E (LpCreated r payload handle) w \<longleftrightarrow>
     serialize_record E r = Inr payload \<and> (\<exists>text. lw_file w = Some (handle, text))"
| "file_matches E (LpOwner r) w \<longleftrightarrow> (\<exists>handle text. lw_file w = Some (handle, text) \<and> serialize_record E r = Inr text)"
| "file_matches E LpRemoving w \<longleftrightarrow> lw_file w \<noteq> None"
| "file_matches E LpClearing w \<longleftrightarrow> False"
| "file_matches E _ w \<longleftrightarrow> True"

definition lock_inv :: "lock_env \<Rightarrow> lock_sys \<Rightarrow> bool" where
  "lock_inv E s \<longleftrightarrow> (\<forall>p. file_matches E (lk_pc s p) (lk_world s))
     \<and> (\<forall>p q. engaged (lk_pc s p) \<and> engaged (lk_pc s q) \<longrightarrow> p = q)"

lemma lock_inv_matches: "lock_inv E s \<Longrightarrow> file_matches E (lk_pc s p) (lk_world s)"
  by (simp add: lock_inv_def)

lemma lock_inv_unique: "lock_inv E s \<Longrightarrow> engaged (lk_pc s p) \<Longrightarrow> engaged (lk_pc s q) \<Longrightarrow> p = q"
  by (simp add: lock_inv_def)

lemma idle_matches: "\<not> engaged c \<Longrightarrow> file_matches E c w \<Longrightarrow> file_matches E c v"
  by (cases c) auto

lemma engaged_has_file: "engaged c \<Longrightarrow> file_matches E c w \<Longrightarrow> lw_file w \<noteq> None"
  by (cases c) auto

text \<open>The process that moves is, or becomes, the only engaged one.\<close>

lemma lock_inv_move:
  assumes inv: "lock_inv E s" and others: "\<And>q. engaged (lk_pc s q) \<Longrightarrow> q = p"
    and mine: "file_matches E c w"
  shows "lock_inv E (lk_set s w p c)"
  unfolding lock_inv_def
proof (intro conjI allI impI)
  fix q show "file_matches E (lk_pc (lk_set s w p c) q) (lk_world (lk_set s w p c))"
    using mine others[of q] idle_matches[OF _ lock_inv_matches[OF inv, of q]] by (cases "q = p") auto
next
  fix a b assume "engaged (lk_pc (lk_set s w p c) a) \<and> engaged (lk_pc (lk_set s w p c) b)"
  then show "a = b" using others[of a] others[of b] by (auto split: if_split_asm)
qed

text \<open>A step that leaves the file alone and engages nobody.\<close>

lemma lock_inv_stay:
  assumes inv: "lock_inv E s" and "\<not> engaged c" "file_matches E c (lk_world s)"
  shows "lock_inv E (lk_set s (lk_world s) p c)"
  using assms unfolding lock_inv_def by (auto split: if_split_asm)

lemma lock_inv_step:
  assumes "lock_step E False s t" "lock_inv E s"
  shows "lock_inv E t"
  using assms(1)
proof (cases rule: lock_step.cases)
  case (step_create p o1 f r payload handle w)
  note opened = open_lock_ok[OF step_create(5)]
  have "\<not> engaged (lk_pc s q)" for q
    using engaged_has_file[OF _ lock_inv_matches[OF assms(2), of q]] opened by auto
  then show ?thesis
    using lock_inv_move[OF assms(2), of p "LpCreated r payload handle" w] opened prepare_lock_payload[OF step_create(4)]
    by (simp add: step_create(1))
next
  case (step_write p r payload handle f r' w)
  have "engaged (lk_pc s p)" by (simp add: step_write(2))
  note others = lock_inv_unique[OF assms(2) _ this]
  have "file_matches E (LpOwner r') w"
    using lock_inv_matches[OF assms(2), of p] write_lock_ok[OF step_write(3)]
    by (auto simp: step_write(2) write_handle_def)
  then show ?thesis using lock_inv_move[OF assms(2) others] by (simp add: step_write(1))
next
  case (step_write_fails p r payload handle f e w)
  have "engaged (lk_pc s p)" by (simp add: step_write_fails(2))
  note others = lock_inv_unique[OF assms(2) _ this]
  show ?thesis using lock_inv_move[OF assms(2) others, of LpIdle w] by (simp add: step_write_fails(1))
next
  case (step_release p r f)
  have "engaged (lk_pc s p)" by (simp add: step_release(2))
  note others = lock_inv_unique[OF assms(2) _ this]
  have "lw_file (lk_world s) \<noteq> None" using step_release(3) by (simp only: release_allowed_def split: if_split_asm)
  then show ?thesis using lock_inv_move[OF assms(2) others, of LpRemoving "lk_world s"] by (simp add: step_release(1))
next
  case (step_remove p f res w)
  have "engaged (lk_pc s p)" by (simp add: step_remove(2))
  note others = lock_inv_unique[OF assms(2) _ this]
  show ?thesis using lock_inv_move[OF assms(2) others, of LpIdle w] by (simp add: step_remove(1))
next
  case (step_clear_remove p f res w)
  then show ?thesis using lock_inv_matches[OF assms(2), of p] by simp
qed (auto intro: lock_inv_stay[OF assms(2)])

lemma lock_inv_reach: "lock_reach E False s \<Longrightarrow> lock_inv E s"
proof (induction rule: lock_reach.induct)
  case reach_start
  then show ?case by (simp add: lock_inv_def lock_start_def)
next
  case (reach_step s t)
  then show ?case using lock_inv_step by blast
qed

end
