(* ===== verification/Lock_Properties.thy ===== *)
theory Lock_Properties
  imports Lock_Protocol
begin

text \<open>
  The properties of the ownership lock: what a written lock says, that ownership is exclusive while nobody
  clears it, and that it is not when somebody does.
\<close>

section \<open>Reading back a written record\<close>

text \<open>What the lock needs of the JSON library: a rendered record parses to an object with the same members,
  in any order.\<close>

definition lock_codec :: "lock_env \<Rightarrow> RuntimeOwnershipRecord \<Rightarrow> bool" where
  "lock_codec E r \<longleftrightarrow> (\<exists>text members entries. ov_to_string_pretty E (RuntimeOwnershipRecord_to_json r) = Inr text
     \<and> RuntimeOwnershipRecord_to_json r = JObject members
     \<and> ov_from_str E (text @ [CHR 0x0A]) = Inr (JObject entries) \<and> map_of entries = map_of members)"

lemma pid_read_back:
  assumes "map_of entries f = Some (JNumber (uint p))" "p \<noteq> 0"
  shows "required_positive_u32 entries f = Inr p"
proof -
  have "uint p < 4294967296" using uint_lt2p[of p] by simp
  moreover have "0 < uint p" using assms(2) by (simp add: word_neq_0_conv word_less_alt)
  ultimately show ?thesis using assms(1) by (simp add: required_positive_u32_def)
qed

lemma string_read_back:
  "map_of entries f = Some (JString v) \<Longrightarrow> trim v \<noteq> [] \<Longrightarrow> required_string entries f = Inr v"
  by (simp add: required_string_def)

lemma valid_record_iff:
  "RuntimeOwnershipRecord_validate E r = Inr () \<longleftrightarrow>
     trim (ow_workspace_root r) \<noteq> [] \<and> ow_owner_pid r \<noteq> 0 \<and> trim (ow_owner_hostname r) \<noteq> []
     \<and> trim (ow_owner_session_id r) \<noteq> [] \<and> trim (ow_acquired_at r) \<noteq> [] \<and> is_ok (ov_rfc E (ow_acquired_at r))"
  unfolding RuntimeOwnershipRecord_validate_def all_checks_iffs
  by (simp add: ow_validate_non_empty_string_def owner_pid_check_def validate_acquired_at_def)

lemma into_record_ok:
  assumes "into_record E o1 = Inr r"
  shows "RuntimeOwnershipRecord_validate E r = Inr () \<and> ow_workspace_root r = ov_root E"
  using assms by (auto simp: into_record_def RuntimeOwnershipRecord_new_def map_ok_eq_Inr)

lemma written_record_read_back:
  assumes "RuntimeOwnershipRecord_validate E r = Inr ()" "lock_codec E r"
  obtains payload where "serialize_record E r = Inr payload" "parse_lock_payload E payload = Inr r"
proof -
  from assms(2) obtain body members entries where j:
    "ov_to_string_pretty E (RuntimeOwnershipRecord_to_json r) = Inr body"
    "RuntimeOwnershipRecord_to_json r = JObject members"
    "ov_from_str E (body @ [CHR 0x0A]) = Inr (JObject entries)" "map_of entries = map_of members"
    unfolding lock_codec_def by blast
  note valid = assms(1)[unfolded valid_record_iff]
  have members: "map_of entries ''workspace_root'' = Some (JString (ow_workspace_root r))"
    "map_of entries ''owner_pid'' = Some (JNumber (uint (ow_owner_pid r)))"
    "map_of entries ''owner_hostname'' = Some (JString (ow_owner_hostname r))"
    "map_of entries ''owner_session_id'' = Some (JString (ow_owner_session_id r))"
    "map_of entries ''acquired_at'' = Some (JString (ow_acquired_at r))"
    using j(2) by (auto simp: j(4) RuntimeOwnershipRecord_to_json_def)
  have "serialize_record E r = Inr (body @ [CHR 0x0A])" by (simp add: serialize_record_def j(1))
  moreover have "parse_lock_payload E (body @ [CHR 0x0A]) = Inr r"
    using valid
    by (simp add: parse_lock_payload_def j(3) string_read_back[OF members(1)] pid_read_back[OF members(2)]
        string_read_back[OF members(3)] string_read_back[OF members(4)] string_read_back[OF members(5)]
        validate_acquired_at_for_parse_def)
  ultimately show ?thesis by (rule that)
qed

lemma no_faults [simp]:
  "lf_create_dir no_lock_faults = None" "lf_open no_lock_faults = None" "lf_write no_lock_faults = None"
  "lf_read no_lock_faults = None" "lf_remove no_lock_faults = None"
  by (simp_all add: no_lock_faults_def)

lemma inspect_record:
  assumes "lw_file w = Some (handle, payload)" "parse_lock_payload E payload = Inr r" "ow_workspace_root r = ov_root E"
  shows "os_record (inspect_runtime_ownership_lock_with_pid_checker E no_lock_faults running w) = Some r"
    "os_state (inspect_runtime_ownership_lock_with_pid_checker E no_lock_faults running w)
       = (if running (ow_owner_pid r) then RuntimeOwnershipLockState.Active else RuntimeOwnershipLockState.Stale)"
  using assms by (simp_all add: inspect_runtime_ownership_lock_with_pid_checker_def classify_lock_def)

section \<open>An example\<close>

definition lock_demo_record :: "32 word \<Rightarrow> RuntimeOwnershipRecord" where
  "lock_demo_record p = \<lparr>ow_workspace_root = ''/w'', ow_owner_pid = p, ow_owner_hostname = ''h'',
     ow_owner_session_id = ''s'', ow_acquired_at = ''t''\<rparr>"

definition lock_demo_options :: "32 word \<Rightarrow> RuntimeOwnershipLockOptions" where
  "lock_demo_options p = \<lparr>oo_owner_pid = p, oo_owner_hostname = ''h'', oo_owner_session_id = ''s'',
     oo_acquired_at = ''t''\<rparr>"

definition lock_demo :: lock_env where
  "lock_demo = \<lparr>ov_root = ''/w'', ov_lock_path = ''/w/l'', ov_process_id = 1, ov_env_var = \<lambda>_. None,
     ov_now_rfc3339 = None, ov_now_nanos = 0, ov_kill = \<lambda>_. None, ov_EPERM = 1,
     ov_from_str = \<lambda>t. if t = [] then Inl ''EOF while parsing a value''
       else Inr (RuntimeOwnershipRecord_to_json (lock_demo_record 1)),
     ov_to_string_pretty = \<lambda>_. Inr ''record'', ov_rfc = \<lambda>_. Inr 0\<rparr>"

lemma lock_demo_trims: "trim ''/w'' = ''/w''" "trim ''h'' = ''h''" "trim ''s'' = ''s''" "trim ''t'' = ''t''"
  by code_simp+

lemma lock_demo_into_record:
  assumes "p \<noteq> 0" "ov_root E = ''/w''" "ov_rfc E = ov_rfc lock_demo"
  shows "into_record E (lock_demo_options p) = Inr (lock_demo_record p)"
proof -
  have "RuntimeOwnershipRecord_validate E (lock_demo_record p) = Inr ()"
    using assms by (simp add: valid_record_iff lock_demo_record_def lock_demo_trims lock_demo_def)
  then show ?thesis
    using assms(2)
    by (simp add: into_record_def RuntimeOwnershipRecord_new_def lock_demo_options_def flip: lock_demo_record_def)
qed

lemma lock_demo_directory: "path_directory ''/w/l'' \<noteq> []"
  by code_simp

lemma lock_demo_codec: "lock_codec lock_demo (lock_demo_record 1)"
  by (simp add: lock_codec_def lock_demo_def RuntimeOwnershipRecord_to_json_def)

lemma lock_demo_prepare:
  assumes "p \<noteq> 0"
  shows "prepare_lock (process_env lock_demo s q) no_lock_faults (lock_demo_options p)
    = Inr (lock_demo_record p, ''record'' @ [CHR 0x0A])"
  using lock_demo_into_record[OF assms, of "process_env lock_demo s q"] lock_demo_directory
  by (simp add: prepare_lock_def serialize_record_def) (simp add: lock_demo_def)

section \<open>Properties\<close>

text \<open>C36. The lock file says who owns the workspace. Acquiring a free lock with valid options succeeds and
  writes the record; as long as it lies there, an inspection reads the very record back and calls it active
  exactly while its process runs, any further acquisition is refused with that status, only a release under
  its own session removes it, and a clear removes it exactly when its process no longer runs.\<close>

theorem acquired_lock_is_reported:
  assumes "into_record E o1 = Inr r" "lock_codec E r" "path_directory (ov_lock_path E) \<noteq> []" "lw_file w = None"
  shows "\<exists>v. acquire_runtime_ownership_lock_with_options E no_lock_faults o1 w = (Inr r, v)
    \<and> os_record (inspect_runtime_ownership_lock_with_pid_checker E no_lock_faults running v) = Some r
    \<and> os_state (inspect_runtime_ownership_lock_with_pid_checker E no_lock_faults running v)
        = (if running (ow_owner_pid r) then RuntimeOwnershipLockState.Active else RuntimeOwnershipLockState.Stale)
    \<and> (\<forall>o2 r2 payload. prepare_lock E no_lock_faults o2 = Inr (r2, payload) \<longrightarrow>
        acquire_runtime_ownership_lock_with_options E no_lock_faults o2 v
          = (Inl (OwAlreadyHeld (inspect_runtime_ownership_lock E no_lock_faults v)), v))
    \<and> release_runtime_ownership_lock E no_lock_faults (Some session) False v
        = (if session = ow_owner_session_id r then (Inr True, v\<lparr>lw_file := None\<rparr>) else (Inr False, v))
    \<and> snd (clear_stale_runtime_ownership_lock_with_pid_checker E no_lock_faults running v)
        = (if running (ow_owner_pid r) then v else v\<lparr>lw_file := None\<rparr>)"
proof -
  note valid = into_record_ok[OF assms(1)]
  from written_record_read_back[OF conjunct1[OF valid] assms(2)] obtain payload where p:
    "serialize_record E r = Inr payload" "parse_lock_payload E payload = Inr r" .
  let ?v = "\<lparr>lw_file = Some (lw_next w, payload), lw_next = Suc (lw_next w)\<rparr>"
  note seen = inspect_record[of ?v "lw_next w" payload E r, simplified, OF p(2) conjunct2[OF valid]]
  have "acquire_runtime_ownership_lock_with_options E no_lock_faults o1 w = (Inr r, ?v)"
    using assms p(1)
    by (simp add: acquire_runtime_ownership_lock_with_options_def prepare_lock_def open_lock_def write_lock_def
        write_handle_def)
  moreover have "acquire_runtime_ownership_lock_with_options E no_lock_faults o2 ?v
      = (Inl (OwAlreadyHeld (inspect_runtime_ownership_lock E no_lock_faults ?v)), ?v)"
    if "prepare_lock E no_lock_faults o2 = Inr (r2, payload2)" for o2 r2 payload2
    using that by (simp add: acquire_runtime_ownership_lock_with_options_def open_lock_def)
  moreover have "release_runtime_ownership_lock E no_lock_faults (Some session) False ?v
        = (if session = ow_owner_session_id r then (Inr True, ?v\<lparr>lw_file := None\<rparr>) else (Inr False, ?v))"
    using seen
    by (simp add: release_runtime_ownership_lock_def release_allowed_def inspect_runtime_ownership_lock_def
        remove_lock_file_def)
  moreover have "snd (clear_stale_runtime_ownership_lock_with_pid_checker E no_lock_faults running ?v)
        = (if running (ow_owner_pid r) then ?v else ?v\<lparr>lw_file := None\<rparr>)"
    using seen
    by (simp add: clear_stale_runtime_ownership_lock_with_pid_checker_def clear_allowed_def remove_lock_file_def)
  ultimately show ?thesis using seen by blast
qed

lemma acquired_lock_is_reported_witness:
  "\<exists>v. acquire_runtime_ownership_lock_with_options lock_demo no_lock_faults (lock_demo_options 1)
      \<lparr>lw_file = None, lw_next = 0\<rparr> = (Inr (lock_demo_record 1), v)"
proof -
  have into: "into_record lock_demo (lock_demo_options 1) = Inr (lock_demo_record 1)"
    by (rule lock_demo_into_record) (simp_all add: lock_demo_def)
  have directory: "path_directory (ov_lock_path lock_demo) \<noteq> []"
    using lock_demo_directory by (simp add: lock_demo_def)
  have free: "lw_file \<lparr>lw_file = None, lw_next = 0\<rparr> = None" by simp
  show ?thesis
    using acquired_lock_is_reported[OF into lock_demo_codec directory free, of "\<lambda>_. True" "[]"]
    by (elim exE conjE) (rule exI)
qed

text \<open>C34. Ownership is exclusive under every interleaving of acquisitions and releases of any number of
  processes, with failing file operations and crashes at any point, as long as no process clears a stale lock:
  at most one process owns the workspace, and while it does the lock file holds its record.\<close>

theorem ownership_is_exclusive:
  assumes "lock_reach E False s" "lk_pc s p = LpOwner r"
  shows "(\<forall>q r'. lk_pc s q = LpOwner r' \<longrightarrow> q = p)
    \<and> (\<exists>handle text. lw_file (lk_world s) = Some (handle, text) \<and> serialize_record E r = Inr text)"
proof -
  note inv = lock_inv_reach[OF assms(1)]
  have "engaged (lk_pc s p)" by (simp add: assms(2))
  then have "q = p" if "lk_pc s q = LpOwner r'" for q r' using lock_inv_unique[OF inv] that by simp
  moreover have "file_matches E (lk_pc s p) (lk_world s)" by (rule lock_inv_matches[OF inv])
  ultimately show ?thesis by (auto simp: assms(2))
qed

text \<open>The run of one process that acquires the lock.\<close>

definition lock_text :: string where
  "lock_text = ''record'' @ [CHR 0x0A]"

definition started :: "lock_sys" where
  "started = lk_set (lk_set lock_start (lk_world lock_start) 1 LpIdle) (lk_world lock_start) 2 LpIdle"

definition opened_by_1 :: lock_sys where
  "opened_by_1 = lk_set started \<lparr>lw_file = Some (0, []), lw_next = 1\<rparr> 1 (LpCreated (lock_demo_record 1) lock_text 0)"

lemma started_reached: "lock_reach lock_demo c started"
proof -
  have "lock_step lock_demo c lock_start (lk_set lock_start (lk_world lock_start) 1 LpIdle)"
    by (rule step_start) (simp add: lock_start_def)
  moreover have "lock_step lock_demo c (lk_set lock_start (lk_world lock_start) 1 LpIdle) started"
    unfolding started_def using step_start[of "lk_set lock_start (lk_world lock_start) 1 LpIdle" 2 lock_demo c]
    by (simp add: lock_start_def)
  ultimately show ?thesis by (blast intro: reach_start reach_step)
qed

lemma created_by:
  assumes "lock_reach lock_demo c s" "lk_pc s p = LpIdle" "p \<noteq> 0" "lw_file (lk_world s) = None"
  shows "lock_reach lock_demo c (lk_set s \<lparr>lw_file = Some (lw_next (lk_world s), []),
    lw_next = Suc (lw_next (lk_world s))\<rparr> p (LpCreated (lock_demo_record p) lock_text (lw_next (lk_world s))))"
  using assms(4)
  by (intro reach_step[OF assms(1)] step_create[OF assms(2) _ lock_demo_prepare[OF assms(3), folded lock_text_def]])
    (simp_all add: lock_demo_options_def open_lock_def)

lemma written_by:
  assumes "lock_reach lock_demo c s" "lk_pc s p = LpCreated r payload handle"
  shows "lock_reach lock_demo c (lk_set s (write_handle handle payload (lk_world s)) p (LpOwner r))"
  using assms by (auto intro!: reach_step[OF assms(1)] step_write[where f = no_lock_faults] simp: write_lock_def)

lemma opened_by_1_reached: "lock_reach lock_demo c opened_by_1"
  using created_by[OF started_reached[of c], of 1]
  by (simp add: opened_by_1_def started_def lock_start_def)

lemma ownership_is_exclusive_witness:
  "\<exists>s. lock_reach lock_demo False s \<and> lk_pc s 1 = LpOwner (lock_demo_record 1)
     \<and> (\<forall>q r'. lk_pc s q = LpOwner r' \<longrightarrow> q = 1)"
proof -
  have pc: "lk_pc opened_by_1 1 = LpCreated (lock_demo_record 1) lock_text 0" by (simp add: opened_by_1_def)
  note reached = written_by[OF opened_by_1_reached[of False] pc]
  have "lk_pc (lk_set opened_by_1 (write_handle 0 lock_text (lk_world opened_by_1)) 1 (LpOwner (lock_demo_record 1))) 1
    = LpOwner (lock_demo_record 1)" by simp
  from ownership_is_exclusive[OF reached this] reached this show ?thesis by blast
qed

text \<open>C35. Clearing breaks exclusive ownership. A clear decides on what it reads and removes whatever file
  lies there later, and a lock is created before its record is written: with one process clearing while
  another acquires, and without any crash or failure, two processes end up owning the workspace.\<close>

theorem clearing_breaks_exclusive_ownership:
  "\<exists>s p q. lock_reach lock_demo True s \<and> p \<noteq> q \<and> lk_pc s p = LpOwner (lock_demo_record p)
     \<and> lk_pc s q = LpOwner (lock_demo_record q)"
proof -
  define s1 where "s1 = lk_set opened_by_1 (lk_world opened_by_1) 2 LpClearing"
  define s2 where "s2 = lk_set s1 (write_handle 0 lock_text (lk_world s1)) 1 (LpOwner (lock_demo_record 1))"
  define s3 where "s3 = lk_set s2 ((lk_world s2)\<lparr>lw_file := None\<rparr>) 2 LpIdle"
  have empty_invalid: "clear_allowed (inspect_runtime_ownership_lock (process_env lock_demo opened_by_1 2)
      no_lock_faults (lk_world opened_by_1))"
    by (simp add: clear_allowed_def inspect_runtime_ownership_lock_def opened_by_1_def
        inspect_runtime_ownership_lock_with_pid_checker_def parse_lock_payload_def lock_demo_def invalid_status_def)
  have "lock_reach lock_demo True s1"
    unfolding s1_def
    by (intro reach_step[OF opened_by_1_reached] step_clear[OF TrueI _ empty_invalid])
      (simp add: opened_by_1_def started_def)
  then have "lock_reach lock_demo True s2"
    unfolding s2_def by (rule written_by) (simp add: s1_def opened_by_1_def)
  then have s3: "lock_reach lock_demo True s3"
    unfolding s3_def
    by (rule reach_step) (auto intro!: step_clear_remove[where f = no_lock_faults]
        simp: s2_def s1_def remove_lock_file_def)
  have pcs: "lk_pc s3 2 = LpIdle" "lk_pc s3 1 = LpOwner (lock_demo_record 1)"
    by (simp_all add: s3_def s2_def)
  define s4 where "s4 = lk_set s3 \<lparr>lw_file = Some (lw_next (lk_world s3), []), lw_next = Suc (lw_next (lk_world s3))\<rparr>
    2 (LpCreated (lock_demo_record 2) lock_text (lw_next (lk_world s3)))"
  define s5 where "s5 = lk_set s4 (write_handle (lw_next (lk_world s3)) lock_text (lk_world s4)) 2
    (LpOwner (lock_demo_record 2))"
  have "lock_reach lock_demo True s4"
    unfolding s4_def by (rule created_by[OF s3 pcs(1)]) (simp_all add: s3_def)
  then have "lock_reach lock_demo True s5" unfolding s5_def by (rule written_by) (simp add: s4_def)
  moreover have "lk_pc s5 1 = LpOwner (lock_demo_record 1)" "lk_pc s5 2 = LpOwner (lock_demo_record 2)"
    by (simp_all add: s5_def s4_def pcs)
  ultimately show ?thesis by (intro exI[of _ s5] exI[of _ 1] exI[of _ 2]) simp
qed

end
