(* ===== verification/Approvals.thy ===== *)
theory Approvals
  imports Usage_Governance Run_Requests Primitive_Authority
begin

text \<open>
  The approvals of execution capabilities, from \<^verbatim>\<open>src/src/runtime/approvals.rs\<close>.

  The two directories are association lists, in the order in which the operating system lists them, from file
  names to what serde makes of the files: an approval or its message. The surroundings are the record
  \<open>approval_env\<close>: the names of the directories, the time library, SHA-256 as hexadecimal text, and which
  writes and removals fail.
\<close>

section \<open>Data\<close>

datatype ApprovalStorageError =
    AprIo string string
  | AprJson string string
  | AprInvalid string
  | AprNotFound string
  | AprTime string string

primrec ApprovalStorageError_to_string :: "ApprovalStorageError \<Rightarrow> string" where
  "ApprovalStorageError_to_string (AprIo path m) = ''approval storage filesystem error at '' @ path @ '': '' @ m"
| "ApprovalStorageError_to_string (AprJson path m) = ''approval storage JSON error at '' @ path @ '': '' @ m"
| "ApprovalStorageError_to_string (AprInvalid m) = m"
| "ApprovalStorageError_to_string (AprNotFound i) = ''approval not found: '' @ i"
| "ApprovalStorageError_to_string (AprTime f m) = ''approval timestamp '' @ f @ '' failed: '' @ m"

datatype ExecutionCapabilityApprovalStatus = Pending | Approved | Denied | Expired | Cancelled

primrec ExecutionCapabilityApprovalStatus_as_str :: "ExecutionCapabilityApprovalStatus \<Rightarrow> string" where
  "ExecutionCapabilityApprovalStatus_as_str ExecutionCapabilityApprovalStatus.Pending = ''pending''"
| "ExecutionCapabilityApprovalStatus_as_str ExecutionCapabilityApprovalStatus.Approved = ''approved''"
| "ExecutionCapabilityApprovalStatus_as_str ExecutionCapabilityApprovalStatus.Denied = ''denied''"
| "ExecutionCapabilityApprovalStatus_as_str ExecutionCapabilityApprovalStatus.Expired = ''expired''"
| "ExecutionCapabilityApprovalStatus_as_str ExecutionCapabilityApprovalStatus.Cancelled = ''cancelled''"

record ExecutionCapabilityApproval =
  ap_schema_version :: string
  ap_kind :: string
  ap_approval_id :: string
  ap_status :: ExecutionCapabilityApprovalStatus
  ap_workspace_id :: string
  ap_run_id :: string
  ap_request_id :: string
  ap_work_item_kind :: "WorkItemKind option"
  ap_work_item_id :: "string option"
  ap_plane :: Plane
  ap_node_id :: string
  ap_stage_kind_id :: string
  ap_grant_id :: string
  ap_capability_id :: string
  ap_reason :: string
  ap_requested_by :: string
  ap_decided_by :: "string option"
  ap_created_at :: Timestamp
  ap_decided_at :: "Timestamp option"
  ap_expires_at :: "Timestamp option"
  ap_decision_reason :: "string option"
  ap_grant :: ExecutionCapabilityGrant
  ap_metadata :: "(string \<times> json) list"

record ExecutionCapabilityApprovalListing =
  al_pending :: "ExecutionCapabilityApproval list"
  al_resolved :: "ExecutionCapabilityApproval list"

record ExecutionCapabilityApprovalRequest =
  aq_request_id :: string
  aq_run_id :: string
  aq_plane :: Plane
  aq_node_id :: string
  aq_stage_kind_id :: string
  aq_work_item_kind :: "WorkItemKind option"
  aq_work_item_id :: "string option"
  aq_grant :: ExecutionCapabilityGrant
  aq_now :: Timestamp
  aq_requested_by :: string

record approval_env =
  ax_root :: string
  ax_pending_dir :: string
  ax_resolved_dir :: string
  ax_parse :: "string \<Rightarrow> string + zoned_time"
  ax_checked_add :: "zoned_time \<Rightarrow> int \<Rightarrow> zoned_time option"
  ax_format :: "zoned_time \<Rightarrow> string + string"
  ax_rfc :: "string \<Rightarrow> string + int"
  ax_sha256_hex :: "string \<Rightarrow> string"
  ax_write_fault :: "string \<Rightarrow> string option"
  ax_remove_fault :: "string \<Rightarrow> string option"

type_synonym approval_files = "(string \<times> (string + ExecutionCapabilityApproval)) list"

record approval_store =
  as_pending :: approval_files
  as_resolved :: approval_files

section \<open>Validation\<close>

definition require_value :: "string \<Rightarrow> string \<Rightarrow> ApprovalStorageError + unit" where
  "require_value f v = (if trim v = [] then Inl (AprInvalid (f @ '' is required'')) else Inr ())"

definition approval_check :: "bool \<Rightarrow> string \<Rightarrow> ApprovalStorageError + unit" where
  "approval_check ok m = (if ok then Inr () else Inl (AprInvalid m))"

definition is_blank_option :: "string option \<Rightarrow> bool" where
  "is_blank_option v = (case v of None \<Rightarrow> True | Some x \<Rightarrow> trim x = [])"

definition ExecutionCapabilityApproval_validate :: "ExecutionCapabilityApproval \<Rightarrow> ApprovalStorageError + unit" where
  "ExecutionCapabilityApproval_validate a =
     (let decided = ap_status a \<in> {ExecutionCapabilityApprovalStatus.Approved, ExecutionCapabilityApprovalStatus.Denied} in
      all_checks
        [require_value ''schema_version'' (ap_schema_version a),
         require_value ''kind'' (ap_kind a),
         approval_check (ap_schema_version a = ''1.0'') ''execution capability approval schema_version must be 1.0'',
         approval_check (ap_kind a = ''execution_capability_approval'')
           ''execution capability approval kind must be execution_capability_approval'',
         require_value ''approval_id'' (ap_approval_id a),
         require_value ''workspace_id'' (ap_workspace_id a),
         require_value ''run_id'' (ap_run_id a),
         require_value ''request_id'' (ap_request_id a),
         require_value ''node_id'' (ap_node_id a),
         require_value ''stage_kind_id'' (ap_stage_kind_id a),
         require_value ''grant_id'' (ap_grant_id a),
         require_value ''capability_id'' (ap_capability_id a),
         require_value ''reason'' (ap_reason a),
         require_value ''requested_by'' (ap_requested_by a),
         approval_check (\<not> (decided \<and> is_blank_option (ap_decided_by a))) ''resolved approvals require decided_by'',
         approval_check (\<not> (decided \<and> ap_decided_at a = None)) ''resolved approvals require decided_at'',
         approval_check (\<not> (decided \<and> is_blank_option (ap_decision_reason a)))
           ''resolved approvals require decision_reason'',
         map_err AprInvalid (ExecutionCapabilityGrant_validate (ap_grant a)),
         approval_check (ap_grant_id a = kg_grant_id (ap_grant a) \<and> ap_capability_id a = kg_capability_id (ap_grant a))
           ''approval grant identity must match embedded grant''])"

section \<open>Identifiers and times\<close>

fun safe_id_chars :: "bool \<Rightarrow> string \<Rightarrow> string" where
  "safe_id_chars after_dash [] = []"
| "safe_id_chars after_dash (c # cs) =
     (if is_ascii_alphanumeric c \<or> c \<in> {CHR ''.'', CHR ''_'', CHR ''-''}
      then c # safe_id_chars (c = CHR ''-'') cs
      else if \<not> after_dash then CHR ''-'' # safe_id_chars True cs
      else safe_id_chars True cs)"

definition safe_id_part :: "string \<Rightarrow> string" where
  "safe_id_part v =
     (let rendered = safe_id_chars False (trim v) in
      if rendered \<noteq> [] \<and> is_ascii_alphanumeric (hd rendered) then rendered else ''grant-'' @ rendered)"

definition approval_id_for_grant :: "approval_env \<Rightarrow> string \<Rightarrow> string \<Rightarrow> string \<Rightarrow> string" where
  "approval_id_for_grant E run_id request_id grant_id =
     (let digest = ax_sha256_hex E (run_id @ [CHR 0x00] @ request_id @ [CHR 0x00] @ grant_id) in
      ''approval-'' @ safe_id_part grant_id @ ''-'' @ take 8 digest)"

definition approval_expires_at ::
  "approval_env \<Rightarrow> Timestamp \<Rightarrow> ExecutionCapabilityGrant \<Rightarrow> ApprovalStorageError + Timestamp option" where
  "approval_expires_at E now g =
     (case Option.bind (kg_approval_policy_ref g) ka_expiration_seconds of
        None \<Rightarrow> Inr None
      | Some n \<Rightarrow>
          and_then (map_err (AprTime ''created_at'') (ax_parse E now)) (\<lambda>parsed.
          if 2 ^ 63 \<le> n then Inl (AprTime ''expires_at'' ''out of range integral type conversion attempted'')
          else (case ax_checked_add E parsed (int n) of
            None \<Rightarrow> Inl (AprTime ''expires_at'' ''timestamp overflow'')
          | Some expires \<Rightarrow>
              and_then (map_err (AprTime ''expires_at'') (ax_format E expires)) (\<lambda>rendered.
              map_ok Some (map_err (\<lambda>e. AprTime ''expires_at'' (WorkDocumentError_to_string e))
                (Timestamp_parse (ax_rfc E) ''expires_at'' rendered))))))"

definition workspace_id :: "approval_env \<Rightarrow> string" where
  "workspace_id E =
     (let name = path_file_name (ax_root E) in
      if name = ''..'' \<or> trim name = [] then ''workspace'' else name)"

section \<open>Reading\<close>

definition approval_path :: "string \<Rightarrow> string \<Rightarrow> string" where
  "approval_path dir name = dir @ ''/'' @ name"

definition read_approval ::
  "string \<Rightarrow> string + ExecutionCapabilityApproval \<Rightarrow> ApprovalStorageError + ExecutionCapabilityApproval" where
  "read_approval path content =
     and_then (map_err (AprJson path) content) (\<lambda>a. map_ok (\<lambda>_. a) (ExecutionCapabilityApproval_validate a))"

fun list_approvals_in_dir ::
  "string \<Rightarrow> approval_files \<Rightarrow> ApprovalStorageError + ExecutionCapabilityApproval list" where
  "list_approvals_in_dir dir [] = Inr []"
| "list_approvals_in_dir dir ((name, content) # files) =
     (if \<not> path_has_extension name ''json'' then list_approvals_in_dir dir files
      else and_then (read_approval (approval_path dir name) content) (\<lambda>a.
           map_ok ((#) a) (list_approvals_in_dir dir files)))"

definition list_execution_capability_approvals ::
  "approval_env \<Rightarrow> approval_store \<Rightarrow> ApprovalStorageError + ExecutionCapabilityApprovalListing" where
  "list_execution_capability_approvals E w =
     and_then (list_approvals_in_dir (ax_pending_dir E) (as_pending w)) (\<lambda>waiting.
     map_ok (\<lambda>resolved.
       \<lparr>al_pending = sort_key ap_approval_id waiting, al_resolved = sort_key ap_approval_id resolved\<rparr>)
       (list_approvals_in_dir (ax_resolved_dir E) (as_resolved w)))"

definition approval_for :: "string \<Rightarrow> string \<Rightarrow> string \<Rightarrow> ExecutionCapabilityApproval \<Rightarrow> bool" where
  "approval_for run_id request_id grant_id a \<longleftrightarrow>
     ap_run_id a = run_id \<and> ap_request_id a = request_id \<and> ap_grant_id a = grant_id"

definition find_approval_for_grant ::
  "approval_env \<Rightarrow> string \<Rightarrow> string \<Rightarrow> string \<Rightarrow> approval_store \<Rightarrow>
   ApprovalStorageError + ExecutionCapabilityApproval option" where
  "find_approval_for_grant E run_id request_id grant_id w =
     map_ok (\<lambda>listing. List.find (approval_for run_id request_id grant_id) (al_pending listing @ al_resolved listing))
       (list_execution_capability_approvals E w)"

section \<open>Writing\<close>

text \<open>Serialisation of an approval does not fail; the file then decodes to the approval.\<close>

definition write_approval ::
  "approval_env \<Rightarrow> string \<Rightarrow> string \<Rightarrow> ExecutionCapabilityApproval \<Rightarrow> approval_files \<Rightarrow>
   ApprovalStorageError + approval_files" where
  "write_approval E dir name a files =
     and_then (ExecutionCapabilityApproval_validate a) (\<lambda>_.
     case ax_write_fault E (approval_path dir name) of
       Some m \<Rightarrow> Inl (AprIo (approval_path dir name) m)
     | None \<Rightarrow> Inr (AList.update name (Inr a) files))"

definition approval_file_name :: "string \<Rightarrow> string" where
  "approval_file_name approval_id = approval_id @ ''.json''"

definition new_approval ::
  "approval_env \<Rightarrow> ExecutionCapabilityApprovalRequest \<Rightarrow> Timestamp option \<Rightarrow> ExecutionCapabilityApproval" where
  "new_approval E r expires =
     (let g = aq_grant r in
      \<lparr>ap_schema_version = ''1.0'', ap_kind = ''execution_capability_approval'',
       ap_approval_id = approval_id_for_grant E (aq_run_id r) (aq_request_id r) (kg_grant_id g),
       ap_status = ExecutionCapabilityApprovalStatus.Pending, ap_workspace_id = workspace_id E,
       ap_run_id = aq_run_id r, ap_request_id = aq_request_id r, ap_work_item_kind = aq_work_item_kind r,
       ap_work_item_id = aq_work_item_id r, ap_plane = aq_plane r, ap_node_id = aq_node_id r,
       ap_stage_kind_id = aq_stage_kind_id r, ap_grant_id = kg_grant_id g, ap_capability_id = kg_capability_id g,
       ap_reason = kg_decision_reason g, ap_requested_by = aq_requested_by r, ap_decided_by = None,
       ap_created_at = aq_now r, ap_decided_at = None, ap_expires_at = expires, ap_decision_reason = None,
       ap_grant = g, ap_metadata = []\<rparr>)"

definition ensure_execution_capability_approval ::
  "approval_env \<Rightarrow> ExecutionCapabilityApprovalRequest \<Rightarrow> approval_store \<Rightarrow>
   (ApprovalStorageError + ExecutionCapabilityApproval) \<times> approval_store" where
  "ensure_execution_capability_approval E r w =
     (case find_approval_for_grant E (aq_run_id r) (aq_request_id r) (kg_grant_id (aq_grant r)) w of
        Inl e \<Rightarrow> (Inl e, w)
      | Inr (Some existing) \<Rightarrow> (Inr existing, w)
      | Inr None \<Rightarrow>
          (case approval_expires_at E (aq_now r) (aq_grant r) of
             Inl e \<Rightarrow> (Inl e, w)
           | Inr expires \<Rightarrow>
               let a = new_approval E r expires in
               (case write_approval E (ax_pending_dir E) (approval_file_name (ap_approval_id a)) a (as_pending w) of
                  Inl e \<Rightarrow> (Inl e, w)
                | Inr files \<Rightarrow> (Inr a, w\<lparr>as_pending := files\<rparr>))))"

section \<open>Deciding\<close>

definition decided_approval ::
  "ExecutionCapabilityApprovalStatus \<Rightarrow> string \<Rightarrow> string \<Rightarrow> Timestamp \<Rightarrow> ExecutionCapabilityApproval \<Rightarrow>
   ExecutionCapabilityApproval" where
  "decided_approval status decided_by reason now a =
     a\<lparr>ap_status := status, ap_decided_by := Some (trim decided_by), ap_decided_at := Some now,
       ap_decision_reason := Some (trim reason)\<rparr>"

definition resolve_approval ::
  "approval_env \<Rightarrow> string \<Rightarrow> ExecutionCapabilityApprovalStatus \<Rightarrow> string \<Rightarrow> string \<Rightarrow> Timestamp \<Rightarrow> approval_store \<Rightarrow>
   (ApprovalStorageError + ExecutionCapabilityApproval) \<times> approval_store" where
  "resolve_approval E approval_id status decided_by reason now w =
     (case all_checks [require_value ''approval_id'' approval_id, require_value ''decided_by'' decided_by,
                       require_value ''reason'' reason] of
        Inl e \<Rightarrow> (Inl e, w)
      | Inr _ \<Rightarrow>
          let name = approval_file_name approval_id in
          (case map_of (as_pending w) name of
             None \<Rightarrow> (Inl (AprNotFound approval_id), w)
           | Some content \<Rightarrow>
          (case read_approval (approval_path (ax_pending_dir E) name) content of
             Inl e \<Rightarrow> (Inl e, w)
           | Inr found \<Rightarrow>
               let a = decided_approval status decided_by reason now found in
          (case ExecutionCapabilityApproval_validate a of
             Inl e \<Rightarrow> (Inl e, w)
           | Inr _ \<Rightarrow>
          (case write_approval E (ax_resolved_dir E) name a (as_resolved w) of
             Inl e \<Rightarrow> (Inl e, w)
           | Inr files \<Rightarrow>
          (case ax_remove_fault E (approval_path (ax_pending_dir E) name) of
             Some m \<Rightarrow> (Inl (AprIo (approval_path (ax_pending_dir E) name) m), w\<lparr>as_resolved := files\<rparr>)
           | None \<Rightarrow> (Inr a, \<lparr>as_pending = AList.delete name (as_pending w), as_resolved = files\<rparr>)))))))"

definition approve_execution_capability_request ::
  "approval_env \<Rightarrow> string \<Rightarrow> string \<Rightarrow> string \<Rightarrow> Timestamp \<Rightarrow> approval_store \<Rightarrow>
   (ApprovalStorageError + ExecutionCapabilityApproval) \<times> approval_store" where
  "approve_execution_capability_request E approval_id =
     resolve_approval E approval_id ExecutionCapabilityApprovalStatus.Approved"

definition deny_execution_capability_request ::
  "approval_env \<Rightarrow> string \<Rightarrow> string \<Rightarrow> string \<Rightarrow> Timestamp \<Rightarrow> approval_store \<Rightarrow>
   (ApprovalStorageError + ExecutionCapabilityApproval) \<times> approval_store" where
  "deny_execution_capability_request E approval_id =
     resolve_approval E approval_id ExecutionCapabilityApprovalStatus.Denied"

end
