(* ===== verification/Capability_Gates.thy ===== *)
theory Capability_Gates
  imports Approvals Runner_Results State_Store
begin

text \<open>
  The gate before a stage is dispatched, from \<^verbatim>\<open>src/src/runtime/capability_gates.rs\<close> (and
  \<^verbatim>\<open>write_runtime_event\<close> of \<^verbatim>\<open>runtime/tick.rs\<close>): every required capability grant of the request must be
  granted and supported by the runner, or approved by an operator.
\<close>

section \<open>Data\<close>

record CapabilityGateBlockedGrant =
  gb_grant_id :: string
  gb_failure_class :: string
  gb_reason :: string

record CapabilityGateResult =
  gt_allowed :: bool
  gt_request :: StageRunRequest
  gt_support_decisions :: "CapabilitySupportDecision list"
  gt_approval_ids :: "string list"
  gt_blocked_grant_ids :: "string list"
  gt_blocked_grants :: "CapabilityGateBlockedGrant list"
  gt_failure_class :: "string option"
  gt_reason :: string

text \<open>The variants of \<^verbatim>\<open>RuntimeTickError\<close> that the gate produces.\<close>

datatype gate_error = GateIo string string | GateInvalidState string

type_synonym support_evaluator = "ExecutionCapabilityGrant \<Rightarrow> StageRunRequest \<Rightarrow> CapabilitySupportDecision"

section \<open>Evaluation\<close>

definition approval_error :: "ApprovalStorageError \<Rightarrow> gate_error" where
  "approval_error e = GateInvalidState (ApprovalStorageError_to_string e)"

definition push_blocked ::
  "CapabilityGateBlockedGrant list \<Rightarrow> ExecutionCapabilityGrant \<Rightarrow> string \<Rightarrow> string \<Rightarrow> CapabilityGateBlockedGrant list" where
  "push_blocked blocked g failure_class reason =
     (if list_ex (\<lambda>b. gb_grant_id b = kg_grant_id g) blocked then blocked
      else blocked @ [\<lparr>gb_grant_id = kg_grant_id g, gb_failure_class = failure_class, gb_reason = reason\<rparr>])"

definition required_evidence_missing :: "ExecutionCapabilityGrant \<Rightarrow> CapabilitySupportDecision \<Rightarrow> bool" where
  "required_evidence_missing g support \<longleftrightarrow>
     list_ex (\<lambda>r. r \<notin> set (kd_evidence_available support)) (kg_evidence_requirements g)"

definition failure_class_for_blocks :: "CapabilityGateBlockedGrant list \<Rightarrow> string option" where
  "failure_class_for_blocks blocked =
     List.find (\<lambda>c. list_ex (\<lambda>b. gb_failure_class b = c) blocked)
       [''capability_grant_denied'', ''capability_approval_required'', ''capability_grant_unsupported'',
        ''capability_evidence_missing'']"

definition approval_for_request ::
  "approval_env \<Rightarrow> StageRunRequest \<Rightarrow> ExecutionCapabilityGrant \<Rightarrow> Timestamp \<Rightarrow> approval_store \<Rightarrow>
   (gate_error + ExecutionCapabilityApproval) \<times> approval_store" where
  "approval_for_request E q g now w =
     (case find_approval_for_grant E (rq_run_id q) (rq_request_id q) (kg_grant_id g) w of
        Inl e \<Rightarrow> (Inl (approval_error e), w)
      | Inr (Some existing) \<Rightarrow> (Inr existing, w)
      | Inr None \<Rightarrow>
          (case ensure_execution_capability_approval E
             \<lparr>aq_request_id = rq_request_id q, aq_run_id = rq_run_id q, aq_plane = rq_plane q,
              aq_node_id = rq_node_id q, aq_stage_kind_id = rq_stage_kind_id q,
              aq_work_item_kind = rq_active_work_item_kind q, aq_work_item_id = rq_active_work_item_id q,
              aq_grant = g, aq_now = now, aq_requested_by = ''runtime''\<rparr> w of
             (Inl e, w1) \<Rightarrow> (Inl (approval_error e), w1)
           | (Inr a, w1) \<Rightarrow> (Inr a, w1)))"

text \<open>What is collected over the grants: support decisions, approval ids, blocked grants.\<close>

type_synonym gate_progress =
  "CapabilitySupportDecision list \<times> string list \<times> CapabilityGateBlockedGrant list"

definition granted_support ::
  "support_evaluator \<Rightarrow> StageRunRequest \<Rightarrow> ExecutionCapabilityGrant \<Rightarrow> gate_progress \<Rightarrow> gate_error + gate_progress" where
  "granted_support evaluate q g = (\<lambda>(support_decisions, approval_ids, blocked).
     if kg_evidence_status g \<in> {CapabilityEvidenceStatus.Missing, CapabilityEvidenceStatus.Violated} then
       Inr (support_decisions, approval_ids,
         push_blocked blocked g ''capability_evidence_missing'' ''grant evidence status is missing or violated'')
     else
       let support = evaluate g q in
       and_then (map_err (\<lambda>m. GateInvalidState (''capability support decision failed validation: '' @ m))
         (CapabilitySupportDecision_validate support)) (\<lambda>_.
       let blocked1 =
         (if kd_support_state support = CapabilitySupportState.Unsupported then
            push_blocked blocked g ''capability_grant_unsupported'' ''runner reported unsupported capability grant''
          else if kg_enforcement_mode g \<noteq> CapabilityEnforcementMode.AdvisoryOnly
              \<and> kd_enforcement_mode support = CapabilityEnforcementMode.AdvisoryOnly then
            push_blocked blocked g ''capability_grant_unsupported''
              ''runner could not provide required non-advisory enforcement''
          else if required_evidence_missing g support then
            push_blocked blocked g ''capability_evidence_missing''
              ''runner support is missing required capability evidence''
          else blocked) in
       Inr (support_decisions @ [support], approval_ids, blocked1)))"

definition gate_grant ::
  "approval_env \<Rightarrow> support_evaluator \<Rightarrow> StageRunRequest \<Rightarrow> Timestamp \<Rightarrow> ExecutionCapabilityGrant \<Rightarrow> gate_progress \<Rightarrow>
   approval_store \<Rightarrow> (gate_error + gate_progress) \<times> approval_store" where
  "gate_grant E evaluate q now g = (\<lambda>(support_decisions, approval_ids, blocked) w.
     if \<not> kg_required g then (Inr (support_decisions, approval_ids, blocked), w)
     else (case kg_decision_state g of
       CapabilityDecisionState.Denied \<Rightarrow>
         (Inr (support_decisions, approval_ids,
            push_blocked blocked g ''capability_grant_denied'' ''grant decision denied''), w)
     | CapabilityDecisionState.Unsupported \<Rightarrow>
         (Inr (support_decisions, approval_ids,
            push_blocked blocked g ''capability_grant_unsupported'' ''grant decision unsupported''), w)
     | CapabilityDecisionState.ApprovalRequired \<Rightarrow>
         (case approval_for_request E q g now w of
            (Inl e, w1) \<Rightarrow> (Inl e, w1)
          | (Inr a, w1) \<Rightarrow>
              (Inr (support_decisions, approval_ids @ [ap_approval_id a],
                 if ap_status a \<noteq> ExecutionCapabilityApprovalStatus.Approved
                 then push_blocked blocked g ''capability_approval_required'' ''approval is not resolved as approved''
                 else blocked), w1))
     | CapabilityDecisionState.Granted \<Rightarrow>
         (granted_support evaluate q g (support_decisions, approval_ids, blocked), w)))"

fun gate_grants ::
  "approval_env \<Rightarrow> support_evaluator \<Rightarrow> StageRunRequest \<Rightarrow> Timestamp \<Rightarrow> ExecutionCapabilityGrant list \<Rightarrow>
   gate_progress \<Rightarrow> approval_store \<Rightarrow> (gate_error + gate_progress) \<times> approval_store" where
  "gate_grants E evaluate q now [] progress w = (Inr progress, w)"
| "gate_grants E evaluate q now (g # gs) progress w =
     (case gate_grant E evaluate q now g progress w of
        (Inl e, w1) \<Rightarrow> (Inl e, w1)
      | (Inr progress1, w1) \<Rightarrow> gate_grants E evaluate q now gs progress1 w1)"

definition evaluate_stage_request_capabilities ::
  "approval_env \<Rightarrow> support_evaluator \<Rightarrow> StageRunRequest \<Rightarrow> Timestamp \<Rightarrow> approval_store \<Rightarrow>
   (gate_error + CapabilityGateResult) \<times> approval_store" where
  "evaluate_stage_request_capabilities E evaluate q now w =
     (case gate_grants E evaluate q now (rq_execution_capability_grants q) ([], [], []) w of
        (Inl e, w1) \<Rightarrow> (Inl e, w1)
      | (Inr (support_decisions, approval_ids, blocked), w1) \<Rightarrow>
          let ids = map gb_grant_id blocked; allowed = (blocked = []) in
          (Inr \<lparr>gt_allowed = allowed,
                gt_request = q\<lparr>rq_capability_support_decisions := support_decisions\<rparr>,
                gt_support_decisions = support_decisions, gt_approval_ids = approval_ids,
                gt_blocked_grant_ids = ids, gt_blocked_grants = blocked,
                gt_failure_class = failure_class_for_blocks blocked,
                gt_reason = (if allowed then ''all required capability grants satisfied''
                             else ''blocked capability grants: '' @ join_with '', '' ids)\<rparr>, w1))"

definition evaluate_stage_request_capabilities_with_runner ::
  "approval_env \<Rightarrow> StageRunRequest \<Rightarrow> support_evaluator \<Rightarrow> Timestamp \<Rightarrow> approval_store \<Rightarrow>
   (gate_error + CapabilityGateResult) \<times> approval_store" where
  "evaluate_stage_request_capabilities_with_runner E q runner now w =
     evaluate_stage_request_capabilities E (\<lambda>g q. runner g q) q now w"

section \<open>What a block looks like to the runtime\<close>

text \<open>A runner error is wrapped by \<^verbatim>\<open>RuntimeTickError::from\<close>.\<close>

definition capability_gate_failure_result ::
  "(string \<Rightarrow> string + int) \<Rightarrow> StageRunRequest \<Rightarrow> CapabilityGateResult \<Rightarrow> Timestamp \<Rightarrow> RunnerError + RunnerRawResult" where
  "capability_gate_failure_result rfc q r now =
     (let name = (case rq_runner_name q of None \<Rightarrow> [] | Some n \<Rightarrow> trim n);
          raw = \<lparr>rw_request_id = rq_request_id q, rw_run_id = rq_run_id q, rw_stage = rq_stage q,
                 rw_runner_name = (if name = [] then ''runtime'' else name), rw_model_name = rq_model_name q,
                 rw_thinking_level = rq_thinking_level q, rw_model_reasoning_effort = rq_model_reasoning_effort q,
                 rw_exit_kind = RunnerExitKind.RunnerError, rw_exit_code = Some 1, rw_observed_exit_kind = None,
                 rw_observed_exit_code = None, rw_stdout_path = None, rw_stderr_path = None,
                 rw_terminal_result_path = None, rw_event_log_path = None, rw_token_usage = None,
                 rw_failure_capability_class = Some (case gt_failure_class r of None \<Rightarrow> ''capability_gate_blocked''
                   | Some c \<Rightarrow> c),
                 rw_capability_support_decisions = gt_support_decisions r, rw_capability_evidence_refs = [],
                 rw_missing_capability_evidence_refs = gt_blocked_grant_ids r,
                 rw_started_at = now, rw_ended_at = now\<rparr> in
      map_ok (\<lambda>_. raw) (RunnerRawResult_validate rfc raw))"

section \<open>The record on disk\<close>

record gate_files =
  ge_faults :: write_faults
  ge_process_id :: nat
  ge_counter :: nat
  ge_create_dir :: "string \<Rightarrow> string option"
  ge_append_fault :: "string option"
  ge_logs_dir :: string
  ge_to_string :: "json \<Rightarrow> string + string"
  ge_to_string_pretty :: "json \<Rightarrow> string + string"
  ge_decision_json :: "CapabilitySupportDecision \<Rightarrow> json"

definition write_runtime_event ::
  "gate_files \<Rightarrow> string \<Rightarrow> (string \<times> json) list \<Rightarrow> Timestamp \<Rightarrow> file_map \<Rightarrow> (gate_error + string) \<times> file_map" where
  "write_runtime_event F event_type data occurred_at fs =
     (let name = trim event_type; log_path = ge_logs_dir F @ ''/runtime_events.jsonl'' in
      if name = [] then (Inl (GateInvalidState ''runtime event payload is missing event_type''), fs)
      else (case ge_create_dir F (ge_logs_dir F) of
        Some m \<Rightarrow> (Inl (GateIo (ge_logs_dir F) m), fs)
      | None \<Rightarrow>
          (case ge_to_string F (JObject [(''schema_version'', JString ''1.0''), (''kind'', JString ''runtime_event''),
               (''event_type'', JString name), (''occurred_at'', JString occurred_at), (''data'', JObject data)]) of
             Inl m \<Rightarrow> (Inl (GateInvalidState m), fs)
           | Inr line \<Rightarrow>
               (case ge_append_fault F of
                  Some m \<Rightarrow> (Inl (GateIo log_path m), fs)
                | None \<Rightarrow>
                    (Inr log_path,
                     fs(log_path := Some ((case fs log_path of None \<Rightarrow> [] | Some old \<Rightarrow> old) @ line @ [CHR 0x0A])))))))"

definition option_string_json :: "string option \<Rightarrow> json" where
  "option_string_json v = (case v of None \<Rightarrow> JNull | Some x \<Rightarrow> JString x)"

definition blocked_grant_json :: "CapabilityGateBlockedGrant \<Rightarrow> json" where
  "blocked_grant_json b = JObject [(''grant_id'', JString (gb_grant_id b)),
     (''failure_class'', JString (gb_failure_class b)), (''reason'', JString (gb_reason b))]"

definition capability_gate_artifact :: "gate_files \<Rightarrow> StageRunRequest \<Rightarrow> CapabilityGateResult \<Rightarrow> json" where
  "capability_gate_artifact F q r = JObject
     [(''schema_version'', JString ''1.0''), (''kind'', JString ''capability_gate_result''),
      (''request_id'', JString (rq_request_id q)), (''run_id'', JString (rq_run_id q)),
      (''plane'', JString (Plane_as_str (rq_plane q))), (''stage'', JString (StageName_as_str (rq_stage q))),
      (''node_id'', JString (rq_node_id q)), (''stage_kind_id'', JString (rq_stage_kind_id q)),
      (''allowed'', JBool (gt_allowed r)), (''failure_class'', option_string_json (gt_failure_class r)),
      (''reason'', JString (gt_reason r)), (''blocked_grant_ids'', JArray (map JString (gt_blocked_grant_ids r))),
      (''blocked_grants'', JArray (map blocked_grant_json (gt_blocked_grants r))),
      (''approval_ids'', JArray (map JString (gt_approval_ids r))),
      (''support_decisions'', JArray (map (ge_decision_json F) (gt_support_decisions r)))]"

definition capability_gate_event_data ::
  "StageRunRequest \<Rightarrow> CapabilityGateResult \<Rightarrow> string \<Rightarrow> (string \<times> json) list" where
  "capability_gate_event_data q r artifact_path =
     [(''request_id'', JString (rq_request_id q)), (''run_id'', JString (rq_run_id q)),
      (''plane'', JString (Plane_as_str (rq_plane q))), (''stage'', JString (StageName_as_str (rq_stage q))),
      (''node_id'', JString (rq_node_id q)), (''stage_kind_id'', JString (rq_stage_kind_id q)),
      (''allowed'', JBool (gt_allowed r)), (''failure_class'', option_string_json (gt_failure_class r)),
      (''blocked_grant_ids'', JArray (map JString (gt_blocked_grant_ids r))),
      (''approval_ids'', JArray (map JString (gt_approval_ids r))),
      (''capability_gate_artifact_path'', JString artifact_path)]"

definition record_capability_gate_result ::
  "gate_files \<Rightarrow> StageRunRequest \<Rightarrow> CapabilityGateResult \<Rightarrow> Timestamp \<Rightarrow> file_map \<Rightarrow>
   (gate_error + string) \<times> file_map" where
  "record_capability_gate_result F q r now fs =
     (let artifact_path = rq_run_dir q @ ''/capability_gate.'' @ rq_request_id q @ ''.json'' in
      case ge_create_dir F (rq_run_dir q) of
        Some m \<Rightarrow> (Inl (GateIo (rq_run_dir q) m), fs)
      | None \<Rightarrow>
          (case ge_to_string_pretty F (capability_gate_artifact F q r) of
             Inl m \<Rightarrow> (Inl (GateInvalidState m), fs)
           | Inr rendered \<Rightarrow>
               (case atomic_write_text (ge_faults F) (ge_process_id F) (ge_counter F) artifact_path
                   (rendered @ [CHR 0x0A]) fs of
                  (Inl e, states) \<Rightarrow>
                    (Inl (GateIo artifact_path (StateStoreError_to_string e)), last (fs # states))
                | (Inr _, states) \<Rightarrow>
                    (case write_runtime_event F ''capability_gate_evaluated''
                        (capability_gate_event_data q r artifact_path) now (last (fs # states)) of
                       (Inl e, fs1) \<Rightarrow> (Inl e, fs1)
                     | (Inr _, fs1) \<Rightarrow> (Inr artifact_path, fs1)))))"

end
