(* ===== verification/Gate_Properties.thy ===== *)
theory Gate_Properties
  imports Capability_Gates Normalization_Properties
begin

text \<open>
  What the gate lets through: over every sequence of gate evaluations and operator decisions, the approvals on
  disk come from evaluated requests and from operators, and an allowed request has every required grant
  granted and supported, or approved by an operator.
\<close>

section \<open>Sequences of evaluations and decisions\<close>

datatype gate_action =
    GateCheck StageRunRequest Timestamp
  | GateApprove string string string Timestamp
  | GateDeny string string string Timestamp

primrec gate_act :: "approval_env \<Rightarrow> support_evaluator \<Rightarrow> gate_action \<Rightarrow> approval_store \<Rightarrow> approval_store" where
  "gate_act E evaluate (GateCheck q now) w = snd (evaluate_stage_request_capabilities E evaluate q now w)"
| "gate_act E evaluate (GateApprove i decided_by reason now) w =
     snd (approve_execution_capability_request E i decided_by reason now w)"
| "gate_act E evaluate (GateDeny i decided_by reason now) w =
     snd (deny_execution_capability_request E i decided_by reason now w)"

primrec gate_run :: "approval_env \<Rightarrow> support_evaluator \<Rightarrow> gate_action list \<Rightarrow> approval_store \<Rightarrow> approval_store" where
  "gate_run E evaluate [] w = w"
| "gate_run E evaluate (a # acts) w = gate_run E evaluate acts (gate_act E evaluate a w)"

definition empty_approvals :: approval_store where
  "empty_approvals = \<lparr>as_pending = [], as_resolved = []\<rparr>"

section \<open>The invariant of the approvals\<close>

text \<open>A file is named by its approval, whose id is that of its request and grant. Pending approvals are
  undecided and stem from a request in \<open>P\<close>; an approved one stems from \<open>R\<close> and its id is in \<open>A\<close>.\<close>

definition well_named :: "approval_env \<Rightarrow> string \<Rightarrow> ExecutionCapabilityApproval \<Rightarrow> bool" where
  "well_named E name a \<longleftrightarrow> name = approval_file_name (ap_approval_id a)
     \<and> ap_approval_id a = approval_id_for_grant E (ap_run_id a) (ap_request_id a) (ap_grant_id a)"

definition pending_ok :: "approval_env \<Rightarrow> string set \<Rightarrow> string \<times> (string + ExecutionCapabilityApproval) \<Rightarrow> bool" where
  "pending_ok E P = (\<lambda>(name, content). \<exists>a. content = Inr a \<and> well_named E name a
     \<and> ap_status a = ExecutionCapabilityApprovalStatus.Pending \<and> ap_request_id a \<in> P)"

definition resolved_ok ::
  "approval_env \<Rightarrow> string set \<Rightarrow> string set \<Rightarrow> string \<times> (string + ExecutionCapabilityApproval) \<Rightarrow> bool" where
  "resolved_ok E R A = (\<lambda>(name, content). \<exists>a. content = Inr a \<and> well_named E name a
     \<and> (ap_status a = ExecutionCapabilityApprovalStatus.Approved \<longrightarrow> ap_request_id a \<in> R \<and> ap_approval_id a \<in> A))"

definition approvals_inv :: "approval_env \<Rightarrow> string set \<Rightarrow> string set \<Rightarrow> string set \<Rightarrow> approval_store \<Rightarrow> bool" where
  "approvals_inv E P R A w \<longleftrightarrow> (\<forall>x \<in> set (as_pending w). pending_ok E P x)
     \<and> (\<forall>x \<in> set (as_resolved w). resolved_ok E R A x)"

lemma approvals_inv_mono:
  "approvals_inv E P R A w \<Longrightarrow> P \<subseteq> P' \<Longrightarrow> R \<subseteq> R' \<Longrightarrow> A \<subseteq> A' \<Longrightarrow> approvals_inv E P' R' A' w"
  unfolding approvals_inv_def pending_ok_def resolved_ok_def by fast

lemma set_file_update: "set (AList.update k v xs) \<subseteq> insert (k, v) (set xs)"
  by (induction xs) auto

lemma set_delete_subset: "set (AList.delete k xs) \<subseteq> set xs"
  by (auto simp: AList.delete_eq)

lemma write_approval_ok:
  "write_approval E dir name a files = Inr files' \<Longrightarrow> set files' \<subseteq> insert (name, Inr a) (set files)"
  using set_file_update[of name "Inr a" files]
  by (auto simp: write_approval_def and_then_eq_Inr split: option.split_asm)

lemma listed_approval:
  "list_approvals_in_dir dir files = Inr approvals \<Longrightarrow> a \<in> set approvals \<Longrightarrow> \<exists>name. (name, Inr a) \<in> set files"
proof (induction dir files arbitrary: approvals rule: list_approvals_in_dir.induct)
  case (2 dir name content files)
  then show ?case
    by (auto simp: and_then_eq_Inr map_ok_eq_Inr read_approval_def map_err_eq_Inr split: if_split_asm) blast+
qed simp

lemma found_approval:
  assumes "find_approval_for_grant E run_id request_id grant_id w = Inr (Some a)"
  shows "approval_for run_id request_id grant_id a"
    and "\<exists>name. (name, Inr a) \<in> set (as_pending w) \<or> (name, Inr a) \<in> set (as_resolved w)"
proof -
  from assms obtain xs ys where lists: "list_approvals_in_dir (ax_pending_dir E) (as_pending w) = Inr xs"
    "list_approvals_in_dir (ax_resolved_dir E) (as_resolved w) = Inr ys"
    "List.find (approval_for run_id request_id grant_id) (sort_key ap_approval_id xs @ sort_key ap_approval_id ys) = Some a"
    by (auto simp: find_approval_for_grant_def list_execution_capability_approvals_def map_ok_eq_Inr and_then_eq_Inr)
  from find_SomeD[OF lists(3)] have "approval_for run_id request_id grant_id a" "a \<in> set xs \<or> a \<in> set ys" by auto
  then show "approval_for run_id request_id grant_id a"
    "\<exists>name. (name, Inr a) \<in> set (as_pending w) \<or> (name, Inr a) \<in> set (as_resolved w)"
    using listed_approval[OF lists(1)] listed_approval[OF lists(2)] by blast+
qed

lemma found_approval_ok:
  assumes "approvals_inv E P R A w" "find_approval_for_grant E run_id request_id grant_id w = Inr (Some a)"
    and "ap_status a = ExecutionCapabilityApprovalStatus.Approved"
  shows "request_id \<in> R \<and> approval_id_for_grant E run_id request_id grant_id \<in> A"
proof -
  note found = found_approval[OF assms(2)]
  then obtain name where "(name, Inr a) \<in> set (as_pending w) \<or> (name, Inr a) \<in> set (as_resolved w)" by blast
  moreover have "(name, Inr a) \<notin> set (as_pending w)"
    using assms(1,3) unfolding approvals_inv_def pending_ok_def by fastforce
  ultimately have "resolved_ok E R A (name, Inr a)" using assms(1) unfolding approvals_inv_def by blast
  then show ?thesis
    using assms(3) found(1) by (auto simp: resolved_ok_def well_named_def approval_for_def)
qed

subsection \<open>The operations keep it\<close>

lemma ensure_keeps:
  assumes "approvals_inv E P R A w" "aq_request_id r \<in> P"
    and "ensure_execution_capability_approval E r w = (res, v)"
  shows "approvals_inv E P R A v"
proof (cases "\<exists>files a. v = w\<lparr>as_pending := files\<rparr> \<and>
    write_approval E (ax_pending_dir E) (approval_file_name (ap_approval_id a)) a (as_pending w) = Inr files
    \<and> pending_ok E P (approval_file_name (ap_approval_id a), Inr a)")
  case True
  then obtain files a where v: "v = w\<lparr>as_pending := files\<rparr>"
    "write_approval E (ax_pending_dir E) (approval_file_name (ap_approval_id a)) a (as_pending w) = Inr files"
    "pending_ok E P (approval_file_name (ap_approval_id a), Inr a)"
    by blast
  from write_approval_ok[OF v(2)] show ?thesis using assms(1) v(1,3) unfolding approvals_inv_def by auto
next
  case False
  have new: "pending_ok E P (approval_file_name (ap_approval_id (new_approval E r x)), Inr (new_approval E r x))" for x
    using assms(2) by (simp add: pending_ok_def well_named_def new_approval_def Let_def)
  have "v = w"
    using assms(3) False new
    by (auto simp: ensure_execution_capability_approval_def Let_def split: sum.split_asm option.split_asm)
  then show ?thesis using assms(1) by simp
qed

lemma approval_for_request_keeps:
  assumes "approvals_inv E P R A w" "rq_request_id q \<in> P" "approval_for_request E q g now w = (res, v)"
  shows "approvals_inv E P R A v"
proof -
  have "v = w \<or> (\<exists>r res'. aq_request_id r = rq_request_id q \<and> ensure_execution_capability_approval E r w = (res', v))"
    using assms(3) unfolding approval_for_request_def
    by (auto split: sum.split_asm option.split_asm prod.split_asm intro!: exI)
  with assms(1,2) show ?thesis by (elim disjE exE conjE) (simp, rule ensure_keeps, simp_all)
qed

text \<open>A new approval is not approved, so an approved one was found.\<close>

lemma approved_was_found:
  assumes "approval_for_request E q g now w = (Inr a, v)" "ap_status a = ExecutionCapabilityApprovalStatus.Approved"
  shows "find_approval_for_grant E (rq_run_id q) (rq_request_id q) (kg_grant_id g) w = Inr (Some a)"
  using assms
  by (auto simp: approval_for_request_def ensure_execution_capability_approval_def new_approval_def Let_def
      split: sum.split_asm option.split_asm prod.split_asm)

lemma gate_grant_keeps:
  assumes "approvals_inv E P R A w" "rq_request_id q \<in> P" "gate_grant E evaluate q now g progress w = (res, v)"
  shows "approvals_inv E P R A v"
  using assms(1,3) approval_for_request_keeps[OF assms(1,2)]
  by (cases progress; cases "kg_decision_state g"; cases "approval_for_request E q g now w")
    (auto simp: gate_grant_def split: if_split_asm sum.split_asm)

lemma gate_grants_keeps:
  assumes "rq_request_id q \<in> P"
  shows "approvals_inv E P R A w \<Longrightarrow> gate_grants E evaluate q now gs progress w = (res, v) \<Longrightarrow> approvals_inv E P R A v"
proof (induction gs arbitrary: progress w)
  case (Cons g gs)
  obtain res1 w1 where g: "gate_grant E evaluate q now g progress w = (res1, w1)" by (rule prod.exhaust)
  note w1 = gate_grant_keeps[OF Cons.prems(1) assms g]
  show ?case using Cons.prems(2) w1 Cons.IH[OF w1] by (cases res1) (auto simp: g)
qed simp

lemma resolve_keeps:
  assumes inv: "approvals_inv E P R A w" and "P \<subseteq> R"
    and "resolve_approval E i status decided_by reason now w = (res, v)"
    and A: "status = ExecutionCapabilityApprovalStatus.Approved \<Longrightarrow> trim decided_by \<noteq> [] \<Longrightarrow> trim reason \<noteq> [] \<Longrightarrow> i \<in> A"
  shows "approvals_inv E P R A v"
proof (cases "\<exists>found files. map_of (as_pending w) (approval_file_name i) = Some (Inr found)
    \<and> trim decided_by \<noteq> [] \<and> trim reason \<noteq> []
    \<and> write_approval E (ax_resolved_dir E) (approval_file_name i) (decided_approval status decided_by reason now found)
        (as_resolved w) = Inr files
    \<and> as_resolved v = files \<and> set (as_pending v) \<subseteq> set (as_pending w)")
  case True
  then obtain found files where found: "map_of (as_pending w) (approval_file_name i) = Some (Inr found)"
    "write_approval E (ax_resolved_dir E) (approval_file_name i) (decided_approval status decided_by reason now found)
      (as_resolved w) = Inr files"
    and f: "trim decided_by \<noteq> []" "trim reason \<noteq> []" "as_resolved v = files" "set (as_pending v) \<subseteq> set (as_pending w)"
    by blast
  note files = write_approval_ok[OF found(2)] map_of_SomeD[OF found(1)]
  have "pending_ok E P (approval_file_name i, Inr found)" using inv files(2) unfolding approvals_inv_def by blast
  then have "well_named E (approval_file_name i) found" "ap_request_id found \<in> P" by (auto simp: pending_ok_def)
  then have "resolved_ok E R A (approval_file_name i, Inr (decided_approval status decided_by reason now found))"
    using A f(1,2) \<open>P \<subseteq> R\<close> by (auto simp: resolved_ok_def well_named_def decided_approval_def approval_file_name_def)
  then show ?thesis using inv f(3,4) files(1) unfolding approvals_inv_def by blast
next
  case False
  have "v = w"
    using assms(3) False set_delete_subset[of "approval_file_name i" "as_pending w"]
    unfolding resolve_approval_def Let_def
    by (auto simp: read_approval_def and_then_eq_Inr map_ok_eq_Inr map_err_eq_Inr require_value_def
        split: sum.split_asm option.split_asm if_split_asm)
  then show ?thesis using inv by simp
qed

definition checked_requests :: "gate_action list \<Rightarrow> string set" where
  "checked_requests acts = {rq_request_id q | q. \<exists>now. GateCheck q now \<in> set acts}"

definition operator_approved :: "gate_action list \<Rightarrow> string set" where
  "operator_approved acts = {i. \<exists>decided_by reason now. GateApprove i decided_by reason now \<in> set acts
     \<and> trim decided_by \<noteq> [] \<and> trim reason \<noteq> []}"

lemma gate_act_keeps:
  assumes "approvals_inv E P P A w" "checked_requests [a] \<subseteq> P" "operator_approved [a] \<subseteq> A"
  shows "approvals_inv E P P A (gate_act E evaluate a w)"
proof (cases a)
  case (GateCheck q now)
  then have "rq_request_id q \<in> P" using assms(2) by (auto simp: checked_requests_def)
  note keeps = gate_grants_keeps[OF this assms(1)]
  show ?thesis
    using keeps[of evaluate now "rq_execution_capability_grants q" "([], [], [])"]
    by (cases "gate_grants E evaluate q now (rq_execution_capability_grants q) ([], [], []) w")
      (auto simp: GateCheck evaluate_stage_request_capabilities_def Let_def split: sum.split)
next
  case (GateApprove i decided_by reason now)
  then show ?thesis
    using resolve_keeps[OF assms(1) order_refl, of i ExecutionCapabilityApprovalStatus.Approved decided_by reason now]
      assms(3)
    by (cases "resolve_approval E i ExecutionCapabilityApprovalStatus.Approved decided_by reason now w")
      (auto simp: approve_execution_capability_request_def operator_approved_def)
next
  case (GateDeny i decided_by reason now)
  then show ?thesis
    using resolve_keeps[OF assms(1) order_refl, of i ExecutionCapabilityApprovalStatus.Denied decided_by reason now]
    by (cases "resolve_approval E i ExecutionCapabilityApprovalStatus.Denied decided_by reason now w")
      (auto simp: deny_execution_capability_request_def)
qed

lemma gate_run_keeps:
  "approvals_inv E P P A w \<Longrightarrow> checked_requests acts \<subseteq> P \<Longrightarrow> operator_approved acts \<subseteq> A \<Longrightarrow>
   approvals_inv E P P A (gate_run E evaluate acts w)"
proof (induction acts arbitrary: w)
  case (Cons a acts)
  have "checked_requests [a] \<subseteq> checked_requests (a # acts)" "checked_requests acts \<subseteq> checked_requests (a # acts)"
    "operator_approved [a] \<subseteq> operator_approved (a # acts)" "operator_approved acts \<subseteq> operator_approved (a # acts)"
    by (auto simp: checked_requests_def operator_approved_def)
  then have "approvals_inv E P P A (gate_act E evaluate a w)" "checked_requests acts \<subseteq> P" "operator_approved acts \<subseteq> A"
    using gate_act_keeps[OF Cons.prems(1)] Cons.prems(2,3) by blast+
  then show ?case using Cons.IH by simp
qed simp

lemma gate_run_inv:
  "approvals_inv E (checked_requests acts) (checked_requests acts) (operator_approved acts)
    (gate_run E evaluate acts empty_approvals)"
  by (rule gate_run_keeps) (simp_all add: approvals_inv_def empty_approvals_def)

section \<open>What an unblocked grant has\<close>

definition runner_supports ::
  "support_evaluator \<Rightarrow> StageRunRequest \<Rightarrow> ExecutionCapabilityGrant \<Rightarrow> bool" where
  "runner_supports evaluate q g \<longleftrightarrow>
     kg_evidence_status g \<notin> {CapabilityEvidenceStatus.Missing, CapabilityEvidenceStatus.Violated}
     \<and> kd_support_state (evaluate g q) \<noteq> CapabilitySupportState.Unsupported
     \<and> (kg_enforcement_mode g \<noteq> CapabilityEnforcementMode.AdvisoryOnly \<longrightarrow>
        kd_enforcement_mode (evaluate g q) \<noteq> CapabilityEnforcementMode.AdvisoryOnly)
     \<and> set (kg_evidence_requirements g) \<subseteq> set (kd_evidence_available (evaluate g q))"

lemma push_blocked_not_empty: "push_blocked blocked g c r \<noteq> []"
  by (auto simp: push_blocked_def)

lemma granted_support_unblocked:
  assumes "granted_support evaluate q g (sd, ids, blocked) = Inr (sd', ids', [])"
  shows "blocked = [] \<and> runner_supports evaluate q g"
  using assms push_blocked_not_empty[of blocked g]
  by (auto simp: granted_support_def runner_supports_def and_then_eq_Inr Let_def required_evidence_missing_def
      list_ex_iff split: if_split_asm)

lemma gate_grant_unblocked:
  assumes "approvals_inv E P R A w" "gate_grant E evaluate q now g (sd, ids, blocked) w = (Inr (sd', ids', []), v)"
  shows "blocked = [] \<and> (kg_required g \<longrightarrow>
      kg_decision_state g = CapabilityDecisionState.Granted \<and> runner_supports evaluate q g
    \<or> kg_decision_state g = CapabilityDecisionState.ApprovalRequired \<and> rq_request_id q \<in> R
      \<and> approval_id_for_grant E (rq_run_id q) (rq_request_id q) (kg_grant_id g) \<in> A)"
proof (cases "kg_required g")
  case True
  show ?thesis
  proof (cases "kg_decision_state g")
    case ApprovalRequired
    with True assms(2) obtain a where a: "approval_for_request E q g now w = (Inr a, v)" "blocked = []"
      "ap_status a = ExecutionCapabilityApprovalStatus.Approved"
      using push_blocked_not_empty[of blocked g]
      by (cases "approval_for_request E q g now w") (auto simp: gate_grant_def split: sum.split_asm if_split_asm)
    then show ?thesis
      using found_approval_ok[OF assms(1) approved_was_found[OF a(1,3)] a(3)] ApprovalRequired by simp
  qed (use True assms(2) granted_support_unblocked[of evaluate q g sd ids blocked] push_blocked_not_empty[of blocked g]
      in \<open>auto simp: gate_grant_def\<close>)
qed (use assms(2) in \<open>auto simp: gate_grant_def\<close>)

lemma gate_grants_unblocked:
  assumes "rq_request_id q \<in> P"
  shows "approvals_inv E P R A w \<Longrightarrow> gate_grants E evaluate q now gs progress w = (Inr (sd', ids', []), v) \<Longrightarrow>
    snd (snd progress) = [] \<and> (\<forall>g \<in> set gs. kg_required g \<longrightarrow>
      kg_decision_state g = CapabilityDecisionState.Granted \<and> runner_supports evaluate q g
    \<or> kg_decision_state g = CapabilityDecisionState.ApprovalRequired \<and> rq_request_id q \<in> R
      \<and> approval_id_for_grant E (rq_run_id q) (rq_request_id q) (kg_grant_id g) \<in> A)"
proof (induction gs arbitrary: progress w)
  case (Cons g gs)
  obtain res1 w1 where g: "gate_grant E evaluate q now g progress w = (res1, w1)" by (rule prod.exhaust)
  with Cons.prems(2) obtain progress1 where p: "res1 = Inr progress1" by (cases res1) auto
  have rest: "gate_grants E evaluate q now gs progress1 w1 = (Inr (sd', ids', []), v)"
    using Cons.prems(2) by (simp add: g p)
  note ih = Cons.IH[OF gate_grant_keeps[OF Cons.prems(1) assms g] rest]
  obtain sd ids blocked where progress: "progress = (sd, ids, blocked)" by (rule prod_cases3)
  obtain sd1 ids1 where "progress1 = (sd1, ids1, [])" using ih by (cases progress1) auto
  then have "gate_grant E evaluate q now g (sd, ids, blocked) w = (Inr (sd1, ids1, []), w1)"
    using g by (simp add: p progress)
  from gate_grant_unblocked[OF Cons.prems(1) this] show ?case using ih by (simp add: progress)
qed simp

lemma allowed_grants:
  assumes "approvals_inv E P R A w" "rq_request_id q \<in> P"
    and "evaluate_stage_request_capabilities E evaluate q now w = (Inr r, v)" "gt_allowed r"
    and "g \<in> set (rq_execution_capability_grants q)" "kg_required g"
  shows "kg_decision_state g = CapabilityDecisionState.Granted \<and> runner_supports evaluate q g
    \<or> kg_decision_state g = CapabilityDecisionState.ApprovalRequired \<and> rq_request_id q \<in> R
      \<and> approval_id_for_grant E (rq_run_id q) (rq_request_id q) (kg_grant_id g) \<in> A"
proof -
  from assms(3,4) obtain sd ids where
    "gate_grants E evaluate q now (rq_execution_capability_grants q) ([], [], []) w = (Inr (sd, ids, []), v)"
    by (auto simp: evaluate_stage_request_capabilities_def Let_def split: prod.split_asm sum.split_asm)
  from gate_grants_unblocked[OF assms(2,1) this] assms(5,6) show ?thesis by blast
qed

section \<open>An example\<close>

definition gate_demo_grant :: ExecutionCapabilityGrant where
  "gate_demo_grant = \<lparr>kg_grant_id = ''g'', kg_request_id = ''c'', kg_capability_id = ''network.access'',
     kg_access = ''request'', kg_scope = \<lparr>ks_kind = ''workspace'', ks_value = ''w'', ks_metadata = []\<rparr>,
     kg_required = True, kg_decision_state = CapabilityDecisionState.ApprovalRequired,
     kg_enforcement_mode = CapabilityEnforcementMode.NotApplicable,
     kg_approval_policy_ref = Some \<lparr>ka_policy_id = ''p'', ka_gate_scope = ''work_item'',
       ka_expiration_seconds = None, ka_required_decision = ''approved''\<rparr>,
     kg_evidence_requirements = [], kg_evidence_status = CapabilityEvidenceStatus.NotRequired,
     kg_decision_reason = ''r'', kg_resolved_by = ''b'', kg_fingerprint = []\<rparr>"

definition gate_demo_request :: "string \<Rightarrow> StageRunRequest" where
  "gate_demo_request i = demo_validated\<lparr>rq_request_id := i, rq_execution_capability_grants := [gate_demo_grant]\<rparr>"

definition gate_demo_env :: approval_env where
  "gate_demo_env = \<lparr>ax_root = ''/w'', ax_pending_dir = ''/w/p'', ax_resolved_dir = ''/w/r'',
     ax_parse = \<lambda>_. Inl [], ax_checked_add = \<lambda>_ _. None, ax_format = \<lambda>_. Inl [], ax_rfc = \<lambda>_. Inl [],
     ax_sha256_hex = \<lambda>_. ''0123456789'', ax_write_fault = \<lambda>_. None, ax_remove_fault = \<lambda>_. None\<rparr>"

definition gate_demo_acts :: "gate_action list" where
  "gate_demo_acts = [GateCheck (gate_demo_request ''q'') ''t'', GateApprove ''approval-g-01234567'' ''op'' ''ok'' ''t'']"

definition gate_demo_store :: approval_store where
  "gate_demo_store = gate_run gate_demo_env evaluate_capability_grant gate_demo_acts empty_approvals"

definition gate_demo_allows :: "string \<Rightarrow> bool \<Rightarrow> bool" where
  "gate_demo_allows i allowed = (case evaluate_stage_request_capabilities gate_demo_env evaluate_capability_grant
     (gate_demo_request i) ''t'' gate_demo_store of (Inl _, _) \<Rightarrow> False | (Inr r, _) \<Rightarrow> gt_allowed r = allowed)"

lemma gate_demo_outcomes: "gate_demo_allows ''q'' True \<and> gate_demo_allows ''r'' False"
  by code_simp

lemma gate_demo_result:
  assumes "gate_demo_allows i allowed"
  obtains r w where "evaluate_stage_request_capabilities gate_demo_env evaluate_capability_grant (gate_demo_request i) ''t''
     (gate_run gate_demo_env evaluate_capability_grant gate_demo_acts empty_approvals) = (Inr r, w)" "gt_allowed r = allowed"
  using assms by (auto simp: gate_demo_allows_def gate_demo_store_def split: prod.split_asm sum.split_asm)

lemma gate_demo_required:
  "gate_demo_grant \<in> set (rq_execution_capability_grants (gate_demo_request i))" "kg_required gate_demo_grant"
  "kg_decision_state gate_demo_grant = CapabilityDecisionState.ApprovalRequired"
  by (simp_all add: gate_demo_request_def gate_demo_grant_def)

section \<open>Properties\<close>

text \<open>C37. A gated stage is authorised. After any sequence of gate evaluations and operator decisions that
  started with no approvals, with failing writes and removals, a request that the gate allows has for every
  required grant either a grant that the runner supports (with its evidence and not downgraded to advice), or
  an operator's approval of exactly this run, request and grant, given by name and with a reason.\<close>

theorem gated_stage_is_authorised:
  assumes "evaluate_stage_request_capabilities E evaluate q now (gate_run E evaluate acts empty_approvals) = (Inr r, w)"
    and "gt_allowed r" "g \<in> set (rq_execution_capability_grants q)" "kg_required g"
  shows "kg_decision_state g = CapabilityDecisionState.Granted \<and> runner_supports evaluate q g
    \<or> kg_decision_state g = CapabilityDecisionState.ApprovalRequired \<and> (\<exists>decided_by reason t.
        GateApprove (approval_id_for_grant E (rq_run_id q) (rq_request_id q) (kg_grant_id g)) decided_by reason t \<in> set acts
        \<and> trim decided_by \<noteq> [] \<and> trim reason \<noteq> [])"
proof -
  have "approvals_inv E (insert (rq_request_id q) (checked_requests acts)) (checked_requests acts) (operator_approved acts)
      (gate_run E evaluate acts empty_approvals)"
    by (rule approvals_inv_mono[OF gate_run_inv]) auto
  from allowed_grants[OF this _ assms] show ?thesis by (auto simp: operator_approved_def)
qed

lemma gated_stage_is_authorised_witness:
  "\<exists>decided_by reason t. GateApprove (approval_id_for_grant gate_demo_env (rq_run_id (gate_demo_request ''q''))
     (rq_request_id (gate_demo_request ''q'')) (kg_grant_id gate_demo_grant)) decided_by reason t \<in> set gate_demo_acts"
proof -
  obtain r w where e: "evaluate_stage_request_capabilities gate_demo_env evaluate_capability_grant (gate_demo_request ''q'') ''t''
     (gate_run gate_demo_env evaluate_capability_grant gate_demo_acts empty_approvals) = (Inr r, w)" "gt_allowed r = True"
    by (rule gate_demo_result[OF conjunct1[OF gate_demo_outcomes]])
  from gated_stage_is_authorised[OF e(1) _ gate_demo_required(1,2)] e(2) gate_demo_required(3) show ?thesis by auto
qed

text \<open>C38. An approval never reaches the stage it was given for. Approvals are found by the id of the
  request, and the runtime gives every request it builds a new one: a request whose id no earlier request had
  is blocked by any required grant that needs an approval, whatever the operators have approved before.\<close>

theorem approvals_never_reach_a_new_request:
  assumes "evaluate_stage_request_capabilities E evaluate q now (gate_run E evaluate acts empty_approvals) = (Inr r, w)"
    and "\<forall>q' t. GateCheck q' t \<in> set acts \<longrightarrow> rq_request_id q' \<noteq> rq_request_id q"
    and "g \<in> set (rq_execution_capability_grants q)" "kg_required g"
    and "kg_decision_state g = CapabilityDecisionState.ApprovalRequired"
  shows "\<not> gt_allowed r"
proof
  assume allowed: "gt_allowed r"
  have "approvals_inv E (insert (rq_request_id q) (checked_requests acts)) (checked_requests acts) (operator_approved acts)
      (gate_run E evaluate acts empty_approvals)"
    by (rule approvals_inv_mono[OF gate_run_inv]) auto
  from allowed_grants[OF this _ assms(1) allowed assms(3,4)] assms(2,5) show False
    by (auto simp: checked_requests_def)
qed

lemma approvals_never_reach_a_new_request_witness:
  "\<exists>r w. evaluate_stage_request_capabilities gate_demo_env evaluate_capability_grant (gate_demo_request ''r'') ''t''
     (gate_run gate_demo_env evaluate_capability_grant gate_demo_acts empty_approvals) = (Inr r, w) \<and> \<not> gt_allowed r"
proof -
  obtain r w where e: "evaluate_stage_request_capabilities gate_demo_env evaluate_capability_grant (gate_demo_request ''r'') ''t''
     (gate_run gate_demo_env evaluate_capability_grant gate_demo_acts empty_approvals) = (Inr r, w)"
    by (rule gate_demo_result[OF conjunct2[OF gate_demo_outcomes]])
  have "\<forall>q' t. GateCheck q' t \<in> set gate_demo_acts \<longrightarrow> rq_request_id q' \<noteq> rq_request_id (gate_demo_request ''r'')"
    by (auto simp: gate_demo_acts_def gate_demo_request_def)
  from approvals_never_reach_a_new_request[OF e this gate_demo_required] e show ?thesis by blast
qed

end
