(* ===== verification/Blocked_Recovery.thy ===== *)
theory Blocked_Recovery
  imports Queue_Store Stage_Router State_Store Result_Normalization
begin

text \<open>
  The recovery of blocked tasks, from \<^verbatim>\<open>src/src/runtime/blocked_recovery.rs\<close>: the metadata kept for a
  blocked item, the guarded retry of a blocked task, and the automatic retry of a blocked task that queued
  tasks wait for.

  The state is the workspace of \<open>Workspace_Fs\<close> with, beside it, the metadata files (path to what serde makes
  of the file), the snapshot file, the diagnostics written and the events logged. The surroundings are the
  record \<open>recovery_env\<close>; instants are nanoseconds. I/O errors are left out, as in the queue.
\<close>

section \<open>Data\<close>

record AutoRecoveryConfig =
  vc_enabled :: bool
  vc_blocked_dependency_retry_enabled :: bool
  vc_max_auto_requeues_per_work_item :: nat
  vc_cooldown_seconds :: "nat list"

definition AutoRecoveryConfig_default :: AutoRecoveryConfig where
  "AutoRecoveryConfig_default =
     \<lparr>vc_enabled = True, vc_blocked_dependency_retry_enabled = True, vc_max_auto_requeues_per_work_item = 3,
      vc_cooldown_seconds = [300, 900, 3600]\<rparr>"

record RetryBlockedTaskRequest =
  vq_task_id :: string
  vq_reason :: string
  vq_actor :: string
  vq_auto :: bool
  vq_force :: bool
  vq_root_spec_id :: "string option"
  vq_diagnostics_path :: "string option"
  vq_max_auto_requeues_per_work_item :: "nat option"

definition DEFAULT_MAX_AUTO_REQUEUES_PER_WORK_ITEM :: nat where
  "DEFAULT_MAX_AUTO_REQUEUES_PER_WORK_ITEM = 3"

definition AUTO_RECOVERY_ACTOR :: string where
  "AUTO_RECOVERY_ACTOR = ''runtime-daemon''"

definition AUTO_RECOVERY_REASON :: string where
  "AUTO_RECOVERY_REASON = ''transient blocked dependency auto-recovery''"

text \<open>The variants of \<^verbatim>\<open>RuntimeTickError\<close> that the recovery produces.\<close>

datatype recovery_error =
    RcQueue QueueStoreError
  | RcStateStore StateStoreError
  | RcWorkDocument string WorkDocumentError
  | RcMissingFile string
  | RcInvalidState string
  | RcTime string string

record recovery_env =
  vr_queue :: env
  vr_runtime_root :: string
  vr_snapshot_path :: string
  vr_rfc :: "string \<Rightarrow> string + int"
  vr_current_timestamp :: Timestamp
  vr_task_at :: "string \<Rightarrow> TaskDocument option"

record recovery_world =
  vw_fs :: fs
  vw_metadata :: "string \<Rightarrow> (string + BlockedItemMetadata) option"
  vw_snapshot :: "(string + RuntimeSnapshot) option"
  vw_diagnostics :: "(string \<times> BlockedDependencyAutoRecoveryDiagnostic) list"
  vw_events :: "(string \<times> (string \<times> json) list \<times> Timestamp) list"

type_synonym 'a recovery_op = "recovery_world \<Rightarrow> (recovery_error + 'a) \<times> recovery_world"

definition rc_return :: "'a \<Rightarrow> 'a recovery_op" where
  "rc_return a w = (Inr a, w)"

definition rc_lift :: "recovery_error + 'a \<Rightarrow> 'a recovery_op" where
  "rc_lift r w = (r, w)"

definition rc_get :: "(recovery_world \<Rightarrow> recovery_error + 'a) \<Rightarrow> 'a recovery_op" where
  "rc_get f w = (f w, w)"

definition rc_modify :: "(recovery_world \<Rightarrow> recovery_world) \<Rightarrow> unit recovery_op" where
  "rc_modify f w = (Inr (), f w)"

definition rc_bind :: "'a recovery_op \<Rightarrow> ('a \<Rightarrow> 'b recovery_op) \<Rightarrow> 'b recovery_op" where
  "rc_bind m f w = (case m w of (Inl e, v) \<Rightarrow> (Inl e, v) | (Inr a, v) \<Rightarrow> f a v)"

definition rc_queue :: "'a qop \<Rightarrow> 'a recovery_op" where
  "rc_queue m w = (case m (vw_fs w) of (r, f) \<Rightarrow> (map_err RcQueue r, w\<lparr>vw_fs := f\<rparr>))"

section \<open>Directories, documents, times\<close>

abbreviation task_dir :: "Lifecycle \<Rightarrow> dir" where
  "task_dir state \<equiv> WorkDir WorkItemKind.Task state"

definition count_markdown_files :: "fs \<Rightarrow> dir \<Rightarrow> nat" where
  "count_markdown_files f d = length (list_markdown_files f d)"

definition read_task_document :: "env \<Rightarrow> fs \<Rightarrow> dir \<Rightarrow> string \<Rightarrow> recovery_error + TaskDocument" where
  "read_task_document E f d n =
     (case fs_lookup f d n of
        None \<Rightarrow> Inl (RcMissingFile (path_display E (d, n)))
      | Some c \<Rightarrow> map_err (RcWorkDocument (path_display E (d, n)))
                  (parse_task_document_with_source E c (path_display E (d, n))))"

definition blocked_metadata_path :: "recovery_env \<Rightarrow> WorkItemKind \<Rightarrow> string \<Rightarrow> string" where
  "blocked_metadata_path V kind work_item_id =
     vr_runtime_root V @ ''/diagnostics/blocked/'' @ WorkItemKind_as_str kind @ ''-'' @ work_item_id @ ''.json''"

definition blocked_task_metadata_path :: "recovery_env \<Rightarrow> string \<Rightarrow> string" where
  "blocked_task_metadata_path V task_id = blocked_metadata_path V WorkItemKind.Task task_id"

definition load_blocked_item_metadata_at :: "recovery_env \<Rightarrow> string \<Rightarrow> recovery_world \<Rightarrow> BlockedItemMetadata option" where
  "load_blocked_item_metadata_at V path w =
     (case vw_metadata w path of
        Some (Inr m) \<Rightarrow> if is_ok (BlockedItemMetadata_validate_contract (vr_rfc V) m) then Some m else None
      | _ \<Rightarrow> None)"

definition load_blocked_item_metadata ::
  "recovery_env \<Rightarrow> WorkItemKind \<Rightarrow> string \<Rightarrow> recovery_world \<Rightarrow> BlockedItemMetadata option" where
  "load_blocked_item_metadata V kind work_item_id w =
     load_blocked_item_metadata_at V (blocked_metadata_path V kind work_item_id) w"

definition load_blocked_task_metadata :: "recovery_env \<Rightarrow> string \<Rightarrow> recovery_world \<Rightarrow> BlockedItemMetadata option" where
  "load_blocked_task_metadata V task_id w = load_blocked_item_metadata V WorkItemKind.Task task_id w"

definition blocked_metadata_allows_auto_requeue :: "BlockedItemMetadata option \<Rightarrow> bool" where
  "blocked_metadata_allows_auto_requeue m =
     (case m of None \<Rightarrow> False | Some x \<Rightarrow> BlockedItemMetadata_allows_auto_requeue x)"

definition recovery_time :: "recovery_env \<Rightarrow> string \<Rightarrow> Timestamp \<Rightarrow> recovery_error + int" where
  "recovery_time V f t = map_err (RcTime f) (vr_rfc V t)"

definition recovery_compact_timestamp :: "recovery_env \<Rightarrow> Timestamp \<Rightarrow> recovery_error + string" where
  "recovery_compact_timestamp V t =
     map_ok compact_timestamp (map_err (RcTime ''auto_recovery.created_at'') (env_rfc (vr_queue V) t))"

definition path_relative_to_root :: "recovery_env \<Rightarrow> string \<Rightarrow> string" where
  "path_relative_to_root V path = or_else (path_strip_prefix (env_root (vr_queue V)) path) path"

definition string_path_relative_to_root :: "recovery_env \<Rightarrow> string \<Rightarrow> string" where
  "string_path_relative_to_root V path =
     (if path \<noteq> [] \<and> hd path = CHR ''/'' then path_relative_to_root V path else path)"

section \<open>Events and snapshots\<close>

definition write_runtime_event_at :: "string \<Rightarrow> (string \<times> json) list \<Rightarrow> Timestamp \<Rightarrow> unit recovery_op" where
  "write_runtime_event_at event_type data occurred_at =
     rc_modify (\<lambda>w. w\<lparr>vw_events := vw_events w @ [(event_type, data, occurred_at)]\<rparr>)"

definition sync_plane_queue_depths :: "RuntimeSnapshot \<Rightarrow> RuntimeSnapshot" where
  "sync_plane_queue_depths s = s\<lparr>rs_queue_depths_by_plane :=
     AList.update Plane.Learning (rs_queue_depth_learning s)
       (AList.update Plane.Planning (rs_queue_depth_planning s)
         (AList.update Plane.Execution (rs_queue_depth_execution s) (rs_queue_depths_by_plane s)))\<rparr>"

definition with_queue_depths :: "fs \<Rightarrow> Timestamp \<Rightarrow> RuntimeSnapshot \<Rightarrow> RuntimeSnapshot" where
  "with_queue_depths f now s = sync_plane_queue_depths
     (s\<lparr>rs_queue_depth_execution := count_markdown_files f (task_dir QueueState),
        rs_queue_depth_planning := count_markdown_files f (WorkDir WorkItemKind.Spec QueueState)
          + count_markdown_files f (WorkDir WorkItemKind.Probe QueueState)
          + count_markdown_files f (WorkDir WorkItemKind.Incident QueueState),
        rs_queue_depth_learning := count_markdown_files f (WorkDir WorkItemKind.LearningRequest QueueState),
        rs_updated_at := now\<rparr>)"

definition refresh_snapshot_queue_depths :: "recovery_env \<Rightarrow> recovery_world \<Rightarrow> recovery_world" where
  "refresh_snapshot_queue_depths V w =
     (case vw_snapshot w of
        Some (Inr raw) \<Rightarrow>
          (case RuntimeSnapshot_validate_contract (vr_rfc V) raw of
             Inl _ \<Rightarrow> w
           | Inr s \<Rightarrow>
               (case RuntimeSnapshot_validate_contract (vr_rfc V)
                  (with_queue_depths (vw_fs w) (vr_current_timestamp V) s) of
                  Inl _ \<Rightarrow> w
                | Inr v \<Rightarrow> w\<lparr>vw_snapshot := Some (Inr v)\<rparr>))
      | _ \<Rightarrow> w)"

text \<open>The snapshot in memory is returned updated; saving it may fail.\<close>

definition refresh_snapshot_queue_depths_in_place ::
  "recovery_env \<Rightarrow> Timestamp \<Rightarrow> RuntimeSnapshot \<Rightarrow> RuntimeSnapshot recovery_op" where
  "refresh_snapshot_queue_depths_in_place V now s w =
     (let s1 = with_queue_depths (vw_fs w) now s in
      case RuntimeSnapshot_validate_contract (vr_rfc V) s1 of
        Inl e \<Rightarrow> (Inl (RcStateStore (SsRuntimeJson (vr_snapshot_path V) e)), w)
      | Inr v \<Rightarrow> (Inr s1, w\<lparr>vw_snapshot := Some (Inr v)\<rparr>))"

definition write_blocked_task_requeued_event :: "recovery_env \<Rightarrow> BlockedTaskRequeueResult \<Rightarrow> unit recovery_op" where
  "write_blocked_task_requeued_event V r = write_runtime_event_at ''blocked_task_requeued''
     [(''task_id'', JString (bq_task_id r)), (''actor'', JString (bq_actor r)), (''auto'', JBool (bq_auto r)),
      (''reason'', JString (bq_reason r)), (''failure_class'', option_json (bq_failure_class r)),
      (''attempt_number'', JNumber (int (bq_attempt_number r))), (''source_state'', JString (bq_source_state r)),
      (''destination_state'', JString (bq_destination_state r))] (vr_current_timestamp V)"

definition write_blocked_dependency_auto_requeued_event ::
  "recovery_env \<Rightarrow> Timestamp \<Rightarrow> StrandedBlockedDependency \<Rightarrow> string \<Rightarrow> string \<Rightarrow> nat \<Rightarrow> unit recovery_op" where
  "write_blocked_dependency_auto_requeued_event V now d failure_class diagnostics_path attempt_number =
     write_runtime_event_at ''blocked_dependency_auto_requeued''
       [(''task_id'', JString (sb_blocked_task_id d)),
        (''queued_dependents'', JArray (map JString (sb_queued_dependent_ids d))),
        (''root_spec_id'', option_json (sb_root_spec_id d)), (''failure_class'', JString failure_class),
        (''attempt_number'', JNumber (int attempt_number)),
        (''diagnostics_path'', JString (path_relative_to_root V diagnostics_path))] now"

definition write_blocked_dependency_auto_requeue_skipped_event ::
  "recovery_env \<Rightarrow> Timestamp \<Rightarrow> StrandedBlockedDependency \<Rightarrow> string \<Rightarrow> string \<Rightarrow> unit recovery_op" where
  "write_blocked_dependency_auto_requeue_skipped_event V now d reason diagnostics_path =
     write_runtime_event_at ''blocked_dependency_auto_requeue_skipped''
       [(''task_id'', JString (sb_blocked_task_id d)),
        (''queued_dependents'', JArray (map JString (sb_queued_dependent_ids d))),
        (''root_spec_id'', option_json (sb_root_spec_id d)), (''reason'', JString reason),
        (''failure_class'', option_json (map_option bm_failure_class (sb_metadata d))),
        (''diagnostics_path'', JString (path_relative_to_root V diagnostics_path))] now"

definition write_blocked_lineage_requires_operator_review_event ::
  "recovery_env \<Rightarrow> Timestamp \<Rightarrow> StrandedBlockedDependency \<Rightarrow> string \<Rightarrow> string \<Rightarrow> unit recovery_op" where
  "write_blocked_lineage_requires_operator_review_event V now d reason diagnostics_path =
     write_runtime_event_at ''blocked_lineage_requires_operator_review''
       [(''task_id'', JString (sb_blocked_task_id d)),
        (''queued_dependents'', JArray (map JString (sb_queued_dependent_ids d))),
        (''root_spec_id'', option_json (sb_root_spec_id d)), (''reason'', JString reason),
        (''diagnostics_path'', JString (path_relative_to_root V diagnostics_path))] now"

section \<open>Retrying a blocked task\<close>

definition validate_blocked_task_locations :: "fs \<Rightarrow> string \<Rightarrow> recovery_error + unit" where
  "validate_blocked_task_locations f task_id =
     (if \<not> fs_exists f (task_dir BlockedState) (md_name task_id)
      then Inl (RcInvalidState (''task '' @ task_id @ '' is not blocked''))
      else all_checks (map (\<lambda>(state, d).
        if fs_exists f d (md_name task_id)
        then Inl (RcInvalidState (''task '' @ task_id @ '' is already '' @ state)) else Inr ())
        [(''queue'', task_dir QueueState), (''active'', task_dir ActiveState), (''done'', task_dir DoneState)]))"

definition is_auto_line :: "json \<Rightarrow> bool" where
  "is_auto_line line = (case line of JObject members \<Rightarrow> map_of members ''auto'' = Some (JBool True) | _ \<Rightarrow> False)"

definition count_auto_requeues :: "fs \<Rightarrow> string \<Rightarrow> nat" where
  "count_auto_requeues f task_id =
     (case fs_lookup f (task_dir QueueState) (requeue_log_name task_id) of
        Some (Log lines) \<Rightarrow> length (filter is_auto_line lines)
      | _ \<Rightarrow> 0)"

definition rc_check :: "bool \<Rightarrow> string \<Rightarrow> recovery_error + unit" where
  "rc_check ok m = (if ok then Inr () else Inl (RcInvalidState m))"

text \<open>The guards, which read the state and return the cleaned reason, the failure class and the number of
  automatic requeues so far.\<close>

definition retry_guards ::
  "recovery_env \<Rightarrow> RetryBlockedTaskRequest \<Rightarrow> recovery_world \<Rightarrow> recovery_error + string \<times> string option \<times> nat" where
  "retry_guards V q w =
     (let cleaned_reason = trim (vq_reason q); task_id = vq_task_id q;
          metadata = load_blocked_task_metadata V task_id w;
          auto_attempts = count_auto_requeues (vw_fs w) task_id in
      and_then (rc_check (cleaned_reason \<noteq> []) ''requeue reason is required'') (\<lambda>_.
      and_then (validate_blocked_task_locations (vw_fs w) task_id) (\<lambda>_.
      and_then (read_task_document (vr_queue V) (vw_fs w) (task_dir BlockedState) (md_name task_id)) (\<lambda>task.
      map_ok (\<lambda>_. (cleaned_reason, map_option bm_failure_class metadata, auto_attempts)) (all_checks
        [(case vq_root_spec_id q of
            None \<Rightarrow> Inr ()
          | Some r \<Rightarrow> rc_check (effective_root_spec_task task = Some r)
              (''blocked task '' @ task_id @ '' does not belong to root spec '' @ r)),
         rc_check (vq_force q \<or> blocked_metadata_allows_auto_requeue metadata)
           ''blocked task is not retryable; rerun with --force to override'',
         rc_check (vq_force q \<or> auto_attempts
             < or_else (vq_max_auto_requeues_per_work_item q) DEFAULT_MAX_AUTO_REQUEUES_PER_WORK_ITEM)
           ''blocked task retry budget is exhausted''])))))"

definition requeue_result ::
  "recovery_env \<Rightarrow> RetryBlockedTaskRequest \<Rightarrow> string \<Rightarrow> string option \<Rightarrow> nat \<Rightarrow> BlockedTaskRequeueResult" where
  "requeue_result V q cleaned_reason failure_class attempt_number =
     \<lparr>bq_task_id = vq_task_id q,
      bq_source_path = path_display (vr_queue V) (task_dir BlockedState, md_name (vq_task_id q)),
      bq_destination_path = path_display (vr_queue V) (task_dir QueueState, md_name (vq_task_id q)),
      bq_source_state = ''blocked'', bq_destination_state = ''queue'', bq_actor = trim (vq_actor q),
      bq_auto = vq_auto q, bq_reason = cleaned_reason, bq_failure_class = failure_class,
      bq_attempt_number = attempt_number, bq_diagnostics_path = vq_diagnostics_path q\<rparr>"

definition retry_blocked_task :: "recovery_env \<Rightarrow> RetryBlockedTaskRequest \<Rightarrow> BlockedTaskRequeueResult recovery_op" where
  "retry_blocked_task V q =
     rc_bind (rc_get (retry_guards V q)) (\<lambda>(cleaned_reason, failure_class, auto_attempts).
     let attempt_number = auto_attempts + 1;
         result = requeue_result V q cleaned_reason failure_class attempt_number in
     rc_bind (rc_queue (requeue_blocked_task (vr_queue V) (vq_task_id q) cleaned_reason (vq_actor q) (vq_auto q)
       failure_class (Some attempt_number))) (\<lambda>_.
     rc_bind (rc_modify (refresh_snapshot_queue_depths V)) (\<lambda>_.
     rc_bind (rc_lift (map_err (\<lambda>e. RcInvalidState (RuntimeJsonError_to_string e))
       (BlockedTaskRequeueResult_validate_contract result))) (\<lambda>_.
     rc_bind (write_blocked_task_requeued_event V result) (\<lambda>_. rc_return result)))))"

section \<open>Stranded dependencies\<close>

text \<open>A queued task and one of its dependencies that is blocked: the dependency, the queued task, the root of
  the blocked task and the root of the queued one.\<close>

type_synonym stranded_pair = "string \<times> string \<times> string option \<times> string option"

definition stranded_pairs :: "env \<Rightarrow> fs \<Rightarrow> stranded_pair list" where
  "stranded_pairs E f =
     (let completed = ids_in_directory f (task_dir DoneState) in
      concat (map (\<lambda>name.
        case read_task_document_or_none E f (task_dir QueueState) name of
          None \<Rightarrow> []
        | Some queued \<Rightarrow>
            List.map_filter (\<lambda>dependency.
              case read_task_document_or_none E f (task_dir BlockedState) (md_name dependency) of
                None \<Rightarrow> None
              | Some blocked \<Rightarrow> Some (dependency, td_task_id queued, effective_root_spec_task blocked,
                                    effective_root_spec_task queued))
              (filter (\<lambda>dependency. dependency \<notin> set completed) (td_depends_on queued)))
        (list_markdown_files f (task_dir QueueState))))"

definition pair_compatible :: "stranded_pair \<Rightarrow> bool" where
  "pair_compatible = (\<lambda>(_, _, blocked_root, queued_root).
     \<not> (queued_root \<noteq> None \<and> blocked_root \<noteq> None \<and> queued_root \<noteq> blocked_root))"

text \<open>The first key of the ordered map, and the ordered set of its dependents.\<close>

definition first_dependency :: "stranded_pair list \<Rightarrow> string option" where
  "first_dependency pairs = (case sort (map fst pairs) of [] \<Rightarrow> None | d # _ \<Rightarrow> Some d)"

definition dependents_of :: "string \<Rightarrow> stranded_pair list \<Rightarrow> string list" where
  "dependents_of d pairs = sort (remdups (map (\<lambda>(_, queued, _). queued) (filter (\<lambda>p. fst p = d) pairs)))"

definition validated_dependency ::
  "recovery_env \<Rightarrow> StrandedBlockedDependency \<Rightarrow> recovery_error + StrandedBlockedDependency" where
  "validated_dependency V d = map_ok (\<lambda>_. d)
     (map_err (\<lambda>e. RcInvalidState (RuntimeJsonError_to_string e))
       (StrandedBlockedDependency_validate_contract (vr_rfc V) d))"

definition find_stranded_blocked_dependency ::
  "recovery_env \<Rightarrow> recovery_world \<Rightarrow> recovery_error + StrandedBlockedDependency option" where
  "find_stranded_blocked_dependency V w =
     (let pairs = filter pair_compatible (stranded_pairs (vr_queue V) (vw_fs w)) in
      case first_dependency pairs of
        None \<Rightarrow> Inr None
      | Some d \<Rightarrow>
          map_ok Some (validated_dependency V
            \<lparr>sb_blocked_task_id = d, sb_queued_dependent_ids = dependents_of d pairs,
             sb_root_spec_id = (case last (filter (\<lambda>p. fst p = d) pairs) of
               (_, _, blocked_root, queued_root) \<Rightarrow> or_option blocked_root queued_root),
             sb_metadata = load_blocked_task_metadata V d w\<rparr>))"

section \<open>Automatic recovery\<close>

record AutoRecoveryCandidate =
  vd_dependency :: StrandedBlockedDependency
  vd_blocked_root_spec_id :: "string option"
  vd_lineage_compatible :: bool

text \<open>The parts of a candidate are those of the first pair of its dependency.\<close>

definition build_auto_recovery_candidate ::
  "recovery_env \<Rightarrow> stranded_pair list \<Rightarrow> bool \<Rightarrow> recovery_world \<Rightarrow> recovery_error + AutoRecoveryCandidate option" where
  "build_auto_recovery_candidate V pairs lineage_compatible w =
     (case first_dependency pairs of
        None \<Rightarrow> Inr None
      | Some d \<Rightarrow>
          (case hd (filter (\<lambda>p. fst p = d) pairs) of
             (_, _, blocked_root, queued_root) \<Rightarrow>
               map_ok (\<lambda>dependency. Some
                 \<lparr>vd_dependency = dependency, vd_blocked_root_spec_id = blocked_root,
                  vd_lineage_compatible = lineage_compatible\<rparr>)
               (validated_dependency V
                 \<lparr>sb_blocked_task_id = d, sb_queued_dependent_ids = dependents_of d pairs,
                  sb_root_spec_id = or_option blocked_root queued_root,
                  sb_metadata = load_blocked_task_metadata V d w\<rparr>)))"

definition find_auto_recovery_candidate ::
  "recovery_env \<Rightarrow> recovery_world \<Rightarrow> recovery_error + AutoRecoveryCandidate option" where
  "find_auto_recovery_candidate V w =
     (let pairs = stranded_pairs (vr_queue V) (vw_fs w) in
      and_then (build_auto_recovery_candidate V (filter pair_compatible pairs) True w) (\<lambda>candidate.
      case candidate of
        Some c \<Rightarrow> Inr (Some c)
      | None \<Rightarrow> build_auto_recovery_candidate V (filter (\<lambda>p. \<not> pair_compatible p) pairs) False w))"

text \<open>\<^verbatim>\<open>whole_seconds\<close> truncates towards zero; \<^verbatim>\<open>as i64\<close> wraps.\<close>

definition whole_seconds :: "int \<Rightarrow> int" where
  "whole_seconds d = (if d < 0 then - ((- d) div 10 ^ 9) else d div 10 ^ 9)"

definition u64_as_i64 :: "nat \<Rightarrow> int" where
  "u64_as_i64 n = (if n < 2 ^ 63 then int n else int n - 2 ^ 64)"

definition cooldown_for :: "nat list \<Rightarrow> nat \<Rightarrow> nat" where
  "cooldown_for windows attempts =
     (if attempts < length windows then windows ! attempts else if windows = [] then 0 else last windows)"

definition auto_recovery_cooldown_active ::
  "recovery_env \<Rightarrow> AutoRecoveryConfig \<Rightarrow> BlockedItemMetadata \<Rightarrow> nat \<Rightarrow> Timestamp \<Rightarrow> recovery_error + bool" where
  "auto_recovery_cooldown_active V c m auto_attempts now =
     and_then (recovery_time V ''auto_recovery.now'' now) (\<lambda>now_time.
     map_ok (\<lambda>blocked_at. whole_seconds (now_time - blocked_at)
         < u64_as_i64 (cooldown_for (vc_cooldown_seconds c) auto_attempts))
       (recovery_time V ''auto_recovery.blocked_at'' (bm_blocked_at m)))"

definition pre_recovery_snapshot :: "RuntimeSnapshot \<Rightarrow> AutoRecoveryPreRecoverySnapshot" where
  "pre_recovery_snapshot s =
     \<lparr>av_process_running = rs_process_running s, av_paused = rs_paused s, av_stop_requested = rs_stop_requested s,
      av_active_runs_by_plane = map (Plane_as_str \<circ> fst) (rs_active_runs_by_plane s),
      av_queue_depth_execution = rs_queue_depth_execution s, av_queue_depth_planning = rs_queue_depth_planning s,
      av_queue_depth_learning = rs_queue_depth_learning s\<rparr>"

definition write_auto_recovery_diagnostics ::
  "recovery_env \<Rightarrow> RuntimeSnapshot \<Rightarrow> Timestamp \<Rightarrow> StrandedBlockedDependency \<Rightarrow> string \<Rightarrow> string \<Rightarrow> nat \<Rightarrow>
   string recovery_op" where
  "write_auto_recovery_diagnostics V s now d decision reason auto_attempt_number =
     (let diagnostic =
        \<lparr>bg_schema_version = ''1.0'', bg_kind = ''blocked_dependency_auto_recovery'', bg_decision = decision,
         bg_reason = reason, bg_created_at = now, bg_blocked_task_id = sb_blocked_task_id d,
         bg_queued_dependent_ids = sb_queued_dependent_ids d, bg_root_spec_id = sb_root_spec_id d,
         bg_auto_attempt_number = auto_attempt_number, bg_metadata = sb_metadata d,
         bg_pre_recovery_snapshot = pre_recovery_snapshot s\<rparr> in
      rc_bind (rc_lift (recovery_compact_timestamp V now)) (\<lambda>compact.
      let path = vr_runtime_root V @ ''/diagnostics/auto-recovery/'' @ compact @ ''-'' @ sb_blocked_task_id d @ ''.json'' in
      rc_bind (rc_lift (map_err (\<lambda>e. RcInvalidState (RuntimeJsonError_to_string e))
        (BlockedDependencyAutoRecoveryDiagnostic_validate_contract (vr_rfc V) diagnostic))) (\<lambda>_.
      rc_bind (rc_modify (\<lambda>w. w\<lparr>vw_diagnostics := AList.update path diagnostic (vw_diagnostics w)\<rparr>)) (\<lambda>_.
      rc_return path))))"

definition write_auto_recovery_skip ::
  "recovery_env \<Rightarrow> RuntimeSnapshot \<Rightarrow> Timestamp \<Rightarrow> AutoRecoveryCandidate \<Rightarrow> string \<Rightarrow> nat \<Rightarrow> unit recovery_op" where
  "write_auto_recovery_skip V s now c reason auto_attempt_number =
     rc_bind (write_auto_recovery_diagnostics V s now (vd_dependency c) ''skip'' reason auto_attempt_number) (\<lambda>path.
     rc_bind (write_blocked_dependency_auto_requeue_skipped_event V now (vd_dependency c) reason path) (\<lambda>_.
     write_blocked_lineage_requires_operator_review_event V now (vd_dependency c) reason path))"

text \<open>What the source decides on for a candidate: to skip it for a reason, with the attempt number it writes
  down, or to requeue it, with the failure class.\<close>

definition auto_recovery_verdict ::
  "recovery_env \<Rightarrow> AutoRecoveryConfig \<Rightarrow> Timestamp \<Rightarrow> AutoRecoveryCandidate \<Rightarrow> recovery_world \<Rightarrow>
   recovery_error + (string \<times> nat) + (string \<times> nat)" where
  "auto_recovery_verdict V c now candidate w =
     (let attempts = count_auto_requeues (vw_fs w) (sb_blocked_task_id (vd_dependency candidate)) in
      if \<not> vd_lineage_compatible candidate then Inr (Inl (''root_spec_mismatch'', 1))
      else (case sb_metadata (vd_dependency candidate) of
        None \<Rightarrow> Inr (Inl (''missing_or_invalid_metadata'', 1))
      | Some m \<Rightarrow>
          if \<not> BlockedItemMetadata_allows_auto_requeue m then Inr (Inl (''blocked_dependency_not_retryable'', 1))
          else if vc_max_auto_requeues_per_work_item c \<le> attempts
          then Inr (Inl (''retry_budget_exhausted'', attempts + 1))
          else map_ok (\<lambda>active. if active then Inl (''cooldown_active'', attempts + 1)
                 else Inr (bm_failure_class m, attempts + 1))
               (auto_recovery_cooldown_active V c m attempts now)))"

definition auto_retry_request :: "AutoRecoveryConfig \<Rightarrow> AutoRecoveryCandidate \<Rightarrow> string \<Rightarrow> RetryBlockedTaskRequest" where
  "auto_retry_request c candidate diagnostics_path =
     \<lparr>vq_task_id = sb_blocked_task_id (vd_dependency candidate), vq_reason = AUTO_RECOVERY_REASON,
      vq_actor = AUTO_RECOVERY_ACTOR, vq_auto = True, vq_force = False,
      vq_root_spec_id = vd_blocked_root_spec_id candidate, vq_diagnostics_path = Some diagnostics_path,
      vq_max_auto_requeues_per_work_item = Some (vc_max_auto_requeues_per_work_item c)\<rparr>"

definition auto_recovery_held :: "AutoRecoveryConfig \<Rightarrow> RuntimeSnapshot \<Rightarrow> fs \<Rightarrow> bool" where
  "auto_recovery_held c s f \<longleftrightarrow>
     \<not> vc_enabled c \<or> \<not> vc_blocked_dependency_retry_enabled c \<or> rs_paused s \<or> rs_stop_requested s
     \<or> rs_active_runs_by_plane s \<noteq> []
     \<or> rs_queue_depth_execution s = 0 \<and> count_markdown_files f (task_dir QueueState) = 0"

definition requeue_candidate ::
  "recovery_env \<Rightarrow> AutoRecoveryConfig \<Rightarrow> RuntimeSnapshot \<Rightarrow> Timestamp \<Rightarrow> AutoRecoveryCandidate \<Rightarrow> string \<Rightarrow> nat \<Rightarrow>
   (BlockedTaskRequeueResult \<times> RuntimeSnapshot) recovery_op" where
  "requeue_candidate V c s now candidate failure_class attempt_number =
     rc_bind (write_auto_recovery_diagnostics V s now (vd_dependency candidate) ''requeue''
       ''transient blocked dependency'' attempt_number) (\<lambda>path.
     rc_bind (retry_blocked_task V (auto_retry_request c candidate path)) (\<lambda>result.
     rc_bind (refresh_snapshot_queue_depths_in_place V now s) (\<lambda>s1.
     rc_bind (write_blocked_dependency_auto_requeued_event V now (vd_dependency candidate) failure_class path
       (bq_attempt_number result)) (\<lambda>_.
     rc_return (result, s1)))))"

text \<open>The snapshot of the caller is returned as the recovery leaves it. When the recovery fails, the tick that
  owns the snapshot fails with it, and only the files remain.\<close>

definition attempt_stranded_dependency_auto_recovery ::
  "recovery_env \<Rightarrow> AutoRecoveryConfig \<Rightarrow> RuntimeSnapshot \<Rightarrow> Timestamp \<Rightarrow>
   (BlockedTaskRequeueResult option \<times> RuntimeSnapshot) recovery_op" where
  "attempt_stranded_dependency_auto_recovery V c s now w =
     (if auto_recovery_held c s (vw_fs w) then (Inr (None, s), w)
      else rc_bind (rc_get (find_auto_recovery_candidate V)) (\<lambda>found.
        case found of
          None \<Rightarrow> rc_return (None, s)
        | Some candidate \<Rightarrow>
            rc_bind (rc_get (auto_recovery_verdict V c now candidate)) (\<lambda>verdict.
            case verdict of
              Inl (reason, attempt_number) \<Rightarrow>
                rc_bind (write_auto_recovery_skip V s now candidate reason attempt_number) (\<lambda>_. rc_return (None, s))
            | Inr (failure_class, attempt_number) \<Rightarrow>
                rc_bind (requeue_candidate V c s now candidate failure_class attempt_number) (\<lambda>(result, s1).
                rc_return (Some result, s1)))) w)"

section \<open>Metadata of a blocked item\<close>

definition metadata_string :: "StageResultEnvelope \<Rightarrow> string \<Rightarrow> string option" where
  "metadata_string r key =
     (case metadata_str r key of None \<Rightarrow> None | Some v \<Rightarrow> if trim v = [] then None else Some v)"

definition metadata_bool :: "StageResultEnvelope \<Rightarrow> string \<Rightarrow> bool" where
  "metadata_bool r key \<longleftrightarrow> map_of (sr_metadata r) key = Some (JBool True)"

definition ok_of :: "'e + 'a \<Rightarrow> 'a option" where
  "ok_of r = (case r of Inl _ \<Rightarrow> None | Inr a \<Rightarrow> Some a)"

definition blocked_origin_for_stage_result :: "StageResultEnvelope \<Rightarrow> BlockedOrigin" where
  "blocked_origin_for_stage_result r =
     (case Option.bind (metadata_string r ''blocked_origin'') (\<lambda>v. ok_of (BlockedOrigin_from_value v)) of
        Some origin \<Rightarrow> origin
      | None \<Rightarrow> if metadata_string r ''normalization_source'' = Some ''failure''
                then BlockedOrigin.RunnerFailure else BlockedOrigin.StageTerminal)"

definition failure_scope_for_stage_result :: "StageResultEnvelope \<Rightarrow> BlockedOrigin \<Rightarrow> FailureScope" where
  "failure_scope_for_stage_result r origin =
     (case Option.bind (metadata_string r ''failure_scope'') (\<lambda>v. ok_of (FailureScope_from_value v)) of
        Some scope \<Rightarrow> scope
      | None \<Rightarrow> if origin = BlockedOrigin.StageTerminal then FailureScope.Semantic else FailureScope.Unknown)"

definition blocked_work_item_lineage ::
  "recovery_env \<Rightarrow> fs \<Rightarrow> StageResultEnvelope \<Rightarrow> string option \<times> string option" where
  "blocked_work_item_lineage V f r =
     (if sr_work_item_kind r \<noteq> WorkItemKind.Task then (None, None)
      else
        let name = md_name (sr_work_item_id r);
            documents = [read_task_document_or_none (vr_queue V) f (task_dir BlockedState) name,
              read_task_document_or_none (vr_queue V) f (task_dir ActiveState) name,
              Option.bind (metadata_string r ''active_work_item_path'') (\<lambda>p. vr_task_at V p)] in
        (case List.map_filter id documents of
           [] \<Rightarrow> (None, None)
         | task # _ \<Rightarrow> (td_root_idea_id task, effective_root_spec_task task)))"

definition build_blocked_item_metadata ::
  "recovery_env \<Rightarrow> fs \<Rightarrow> StageResultEnvelope \<Rightarrow> RouterDecision \<Rightarrow> string \<Rightarrow> BlockedItemMetadata" where
  "build_blocked_item_metadata V f r decision stage_result_path =
     (let (root_idea_id, root_spec_id) = blocked_work_item_lineage V f r;
          failure_class = or_else (or_option (metadata_string r ''failure_class'') (rd_failure_class decision))
            ''stage_declared_blocked'';
          origin = blocked_origin_for_stage_result r in
      \<lparr>bm_work_item_kind = sr_work_item_kind r, bm_work_item_id = sr_work_item_id r, bm_root_spec_id = root_spec_id,
       bm_root_idea_id = root_idea_id, bm_blocked_at = sr_completed_at r, bm_blocked_origin = origin,
       bm_failure_class = failure_class, bm_failure_scope = failure_scope_for_stage_result r origin,
       bm_auto_requeue_candidate =
         (metadata_bool r ''auto_requeue_candidate'' \<and> failure_class_allows_auto_requeue failure_class),
       bm_failure_classifier_code =
         Option.bind (metadata_string r ''failure_classifier_code'') (\<lambda>v. ok_of (FailureClassifierCode_from_value v)),
       bm_source_run_id = Some (sr_run_id r), bm_source_plane = Some (Plane_as_str (sr_plane r)),
       bm_source_stage = Some (StageName_as_str (sr_stage r)),
       bm_terminal_result = Some (TerminalResult_as_str (sr_terminal_result r)),
       bm_stage_result_path = Some (path_relative_to_root V stage_result_path),
       bm_stdout_path = map_option (string_path_relative_to_root V) (sr_stdout_path r),
       bm_stderr_path = map_option (string_path_relative_to_root V) (sr_stderr_path r)\<rparr>)"

record BlockedItemMetadataRecord =
  vb_path :: string
  vb_metadata :: BlockedItemMetadata

definition persist_blocked_item_metadata ::
  "recovery_env \<Rightarrow> StageResultEnvelope \<Rightarrow> RouterDecision \<Rightarrow> string \<Rightarrow> BlockedItemMetadataRecord recovery_op" where
  "persist_blocked_item_metadata V r decision stage_result_path w =
     (let m = build_blocked_item_metadata V (vw_fs w) r decision stage_result_path;
          path = blocked_metadata_path V (bm_work_item_kind m) (bm_work_item_id m) in
      case BlockedItemMetadata_validate_contract (vr_rfc V) m of
        Inl e \<Rightarrow> (Inl (RcInvalidState (RuntimeJsonError_to_string e)), w)
      | Inr _ \<Rightarrow> (Inr \<lparr>vb_path = path, vb_metadata = m\<rparr>, w\<lparr>vw_metadata := (vw_metadata w)(path := Some (Inr m))\<rparr>))"

end
