(* ===== verification/Transient_Failures.thy ===== *)
theory Transient_Failures
  imports Blocked_Recovery Normalization_Facts
begin

text \<open>
  From a runner to the retry of a blocked item: the failure class that the normalisation of a raw result
  (\<open>Result_Normalization\<close>) writes into the metadata of a stage result, and what the metadata of the blocked
  item (\<open>Blocked_Recovery\<close>) makes of it.
\<close>

section \<open>Classifications\<close>

definition transient_classes :: "RunnerFailureClass set" where
  "transient_classes = {RunnerFailureClass.RunnerTimeout, RunnerFailureClass.NetworkUnavailable,
     RunnerFailureClass.ProviderUnavailable, RunnerFailureClass.ProviderRateLimited}"

lemma is_auto_requeue_candidate_iff: "is_auto_requeue_candidate c \<longleftrightarrow> c \<in> transient_classes"
  by (auto simp: is_auto_requeue_candidate_def AUTO_REQUEUE_CANDIDATES_def transient_classes_def)

lemma trim_failure_class [simp]: "trim (RunnerFailureClass_as_str c) = RunnerFailureClass_as_str c"
proof -
  have "list_all (\<lambda>c. trim (RunnerFailureClass_as_str c) = RunnerFailureClass_as_str c) RunnerFailureClass_ALL"
    by code_simp
  with RunnerFailureClass_ALL_complete show ?thesis by (auto simp: list_all_iff)
qed

lemma failure_class_string:
  "RunnerFailureClass_from_value (RunnerFailureClass_as_str c) = Inr c" "RunnerFailureClass_as_str c \<noteq> []"
  by (rule RunnerFailureClass_enum.from_value_as_str) (cases c; simp)

lemma failure_class_allows [simp]:
  "failure_class_allows_auto_requeue (RunnerFailureClass_as_str c) \<longleftrightarrow> c \<in> transient_classes"
  by (simp add: failure_class_allows_auto_requeue_def failure_class_string is_auto_requeue_candidate_iff)

lemma not_transient [simp]:
  "RunnerFailureClass.RunnerTransportFailure \<notin> transient_classes"
  "RunnerFailureClass.CapabilityEvidenceMissing \<notin> transient_classes"
  by (simp_all add: transient_classes_def)

text \<open>The flag of a classification agrees with its class.\<close>

definition flag_agrees :: "RunnerFailureMetadata \<Rightarrow> bool" where
  "flag_agrees k \<longleftrightarrow> rf_auto_requeue_candidate k = (rf_failure_class k \<in> transient_classes)"

lemma class_of_classification [simp]: "rf_failure_class (classification_for_failure_class c) = c"
  by (cases c) (simp_all add: new_metadata_def)

lemma classification_agrees: "flag_agrees (classification_for_failure_class c)"
  by (cases c) (simp_all add: flag_agrees_def new_metadata_def transient_classes_def)

lemma evidence_agrees: "classify_failure_evidence e origin = Some k \<Longrightarrow> flag_agrees k"
  by (auto simp: classify_failure_evidence_def flag_agrees_def new_metadata_def transient_classes_def
      split: if_splits)

lemma raw_exit_agrees: "classify_raw_exit_failure E w = Some k \<Longrightarrow> flag_agrees k"
  by (auto simp: classify_raw_exit_failure_def evidence_agrees classification_agrees split: if_splits option.splits)
    (simp_all add: flag_agrees_def new_metadata_def transient_classes_def)

section \<open>The metadata of a stage result\<close>

lemma validated_metadata:
  "StageResultEnvelope_validate rfc r = Inr r' \<Longrightarrow> sr_metadata r' = sr_metadata r"
  by (auto simp: stage_result_validate_iff with_default_names_def)

lemma failure_envelope_metadata:
  assumes "failure_envelope E q w c notes marker artifacts k = Inr r"
  defines "m \<equiv> or_else k (classification_for_failure_class c)"
  shows "map_of (sr_metadata r) ''failure_class'' = Some (JString (RunnerFailureClass_as_str (rf_failure_class m)))"
    and "map_of (sr_metadata r) ''auto_requeue_candidate'' = Some (JBool (rf_auto_requeue_candidate m))"
  using assms
  by (auto simp: failure_envelope_def Let_def and_then_eq_Inr validate_envelope_def map_err_eq_Inr
      RunnerFailureMetadata_insert_into_map_def update_conv' dest!: validated_metadata
      split: prod.splits option.splits)

lemma accepted_envelope_metadata:
  assumes "accepted_envelope E q w x = Inr r"
  shows "map_of (sr_metadata r) ''auto_requeue_candidate'' = None"
  using assms
  by (auto simp: accepted_envelope_def Let_def and_then_eq_Inr validate_envelope_def map_err_eq_Inr
      request_metadata_def dest!: validated_metadata)

lemma build_allows:
  "BlockedItemMetadata_allows_auto_requeue (build_blocked_item_metadata V f r d p) \<longleftrightarrow>
     metadata_bool r ''auto_requeue_candidate'' \<and>
     failure_class_allows_auto_requeue (or_else (or_option (metadata_string r ''failure_class'') (rd_failure_class d))
       ''stage_declared_blocked'')"
  by (auto simp: BlockedItemMetadata_allows_auto_requeue_def build_blocked_item_metadata_def Let_def split: prod.split)

lemma failure_envelope_allows:
  assumes "failure_envelope E q w c notes marker artifacts k = Inr r" and "\<forall>x. k = Some x \<longrightarrow> flag_agrees x"
  shows "BlockedItemMetadata_allows_auto_requeue (build_blocked_item_metadata V f r d p) \<longleftrightarrow>
     rf_failure_class (or_else k (classification_for_failure_class c)) \<in> transient_classes"
proof -
  let ?m = "or_else k (classification_for_failure_class c)"
  have "flag_agrees ?m" using assms(2) classification_agrees by (cases k) (auto simp: or_else_def)
  with failure_envelope_metadata [OF assms(1)] show ?thesis
    by (auto simp: build_allows metadata_bool_def metadata_string_def metadata_str_def
        failure_class_string flag_agrees_def or_else_def or_option_def)
qed

lemma accepted_envelope_allows:
  "accepted_envelope E q w x = Inr r \<Longrightarrow>
     \<not> BlockedItemMetadata_allows_auto_requeue (build_blocked_item_metadata V f r d p)"
  by (simp add: build_allows metadata_bool_def accepted_envelope_metadata)

section \<open>Which results may be retried\<close>

lemma extraction_not_transient:
  "extract_terminal_result E q w = Some x \<Longrightarrow>
     or_else (tx_failure_class x) RunnerFailureClass.IllegalTerminalResult \<notin> transient_classes"
  unfolding extract_terminal_result_def extract_from_stdout_tokens_def extract_from_tokens_def Let_def
    extract_from_structured_result_file_def failed_extraction_def transient_classes_def or_else_def
  by (auto split: option.splits sum.splits if_splits)

lemma early_failure_cases:
  "early_failure E q w = Some (c, ns, k) \<Longrightarrow>
     identity_mismatch_notes q w \<noteq> [] \<and> c = RunnerFailureClass.RunnerTransportFailure \<and> k = None \<or>
     identity_mismatch_notes q w = [] \<and> k \<noteq> None \<and> classify_raw_exit_failure E w = k \<or>
     identity_mismatch_notes q w = [] \<and> clean_exit w \<and> c = RunnerFailureClass.CapabilityEvidenceMissing \<and> k = None"
proof -
  assume e: "early_failure E q w = Some (c, ns, k)"
  show ?thesis
  proof (cases "identity_mismatch_notes q w = [] \<and> \<not> clean_exit w")
    case True
    then obtain x where x: "classify_raw_exit_failure E w = Some x"
      using classify_raw_exit_None [of E w] by (cases "classify_raw_exit_failure E w") auto
    with e True show ?thesis
      by (cases k) (auto simp: early_failure_def Let_def clean_exit_def or_else_def split: if_splits)
  next
    case False
    with e classify_raw_exit_None [of E w] show ?thesis
      by (auto simp: early_failure_def Let_def clean_exit_def split: if_splits)
  qed
qed

end
