(* ===== verification/Requeue_Logs.thy ===== *)
theory Requeue_Logs
  imports Queue_Refinement
begin

text \<open>
  The requeue logs of tasks (\<^verbatim>\<open><task>.requeue.jsonl\<close> in the queue directory, written by
  \<^verbatim>\<open>append_requeue_reason\<close> and \<^verbatim>\<open>append_blocked_requeue_audit\<close> of \<^verbatim>\<open>src/src/workspace/queue_store.rs\<close>):
  every operation of the queue only ever appends to them. The contract is the locale \<open>log_op\<close>.
\<close>

section \<open>The records of a task\<close>

abbreviation task_queue :: dir where
  "task_queue \<equiv> WorkDir WorkItemKind.Task QueueState"

definition requeue_records :: "fs \<Rightarrow> string \<Rightarrow> json list" where
  "requeue_records w i = (case fs_lookup w task_queue (requeue_log_name i) of Some (Log rs) \<Rightarrow> rs | _ \<Rightarrow> [])"

definition logs_kept :: "fs \<Rightarrow> fs \<Rightarrow> bool" where
  "logs_kept w w' \<longleftrightarrow> (\<forall>i. \<exists>rs. requeue_records w' i = requeue_records w i @ rs)"

lemma logs_keptI: "(\<And>i. \<exists>rs. requeue_records w' i = requeue_records w i @ rs) \<Longrightarrow> logs_kept w w'"
  by (simp add: logs_kept_def)

lemma logs_kept_refl [simp]: "logs_kept w w"
  by (simp add: logs_kept_def)

lemma logs_kept_trans [trans]: "logs_kept u v \<Longrightarrow> logs_kept v w \<Longrightarrow> logs_kept u w"
  unfolding logs_kept_def by (metis append.assoc)

lemma logs_kept_same: "(\<And>n. log_name n \<Longrightarrow> fs_lookup w' task_queue n = fs_lookup w task_queue n) \<Longrightarrow> logs_kept w w'"
  by (rule logs_keptI) (simp add: requeue_records_def)

lemma requeue_log_name_inject [simp]: "requeue_log_name i = requeue_log_name j \<longleftrightarrow> i = j"
  by (simp add: requeue_log_name_def)

lemma md_name_not_log [simp]: "\<not> log_name (md_name i)" and json_name_not_log [simp]: "\<not> log_name (json_name i)"
  by (simp_all add: log_name_def md_name_def json_name_def)

lemma requeue_records_append:
  "requeue_records (fs_append w d n r) i =
     (if d = task_queue \<and> n = requeue_log_name i then requeue_records w i @ [r] else requeue_records w i)"
  by (auto simp: requeue_records_def fs_append_def split: option.splits file_content.splits)

lemma kept_append [simp]: "logs_kept w (fs_append w d n r)"
  by (rule logs_keptI) (simp add: requeue_records_append)

lemma kept_write: "d \<noteq> task_queue \<or> \<not> log_name n \<Longrightarrow> logs_kept w (fs_write w d n c)"
  by (rule logs_kept_same) auto

lemma kept_remove: "d \<noteq> task_queue \<or> \<not> log_name n \<Longrightarrow> logs_kept w (fs_remove w d n)"
  by (rule logs_kept_same) auto

lemma kept_rename:
  assumes "d \<noteq> task_queue \<or> \<not> log_name n" and "d' \<noteq> task_queue \<or> \<not> log_name n'"
  shows "logs_kept w (fs_rename w d n d' n')"
  using kept_write [OF assms(2)] kept_remove [OF assms(1)]
  by (auto simp: fs_rename_def split: option.split intro: logs_kept_trans)

text \<open>A move to a free name loses nothing either.\<close>

lemma kept_rename_free:
  assumes "d \<noteq> task_queue \<or> \<not> log_name n" and "\<not> fs_exists w d' n'"
  shows "logs_kept w (fs_rename w d n d' n')"
proof (rule logs_keptI)
  fix i
  show "\<exists>rs. requeue_records (fs_rename w d n d' n') i = requeue_records w i @ rs"
    using assms by (auto simp: requeue_records_def fs_rename_def fs_exists_def split: option.split)
qed

section \<open>The contract of an operation\<close>

locale log_op =
  fixes op :: "'a qop"
  assumes keeps: "logs_kept w (snd (op w))"
begin

lemma keeps_result: "op w = (r, w') \<Longrightarrow> logs_kept w w'"
  using keeps [of w] by simp

lemma keeps_records: "\<exists>rs. requeue_records (snd (op w)) i = requeue_records w i @ rs"
  using keeps [of w] by (simp add: logs_kept_def)

end

lemma log_opI: "(\<And>w. logs_kept w (snd (op w))) \<Longrightarrow> log_op op"
  by unfold_locales

lemma log_op_pure:
  "log_op (qreturn a)" "log_op (qfail e)" "log_op (qlift r)" "log_op (qget g)" "log_op (\<lambda>w. (h w, w))"
  by (rule log_opI, simp)+

lemma log_op_bind:
  assumes "log_op m" and "\<And>a. log_op (f a)"
  shows "log_op (qbind m f)"
proof (rule log_opI)
  fix w
  obtain r w1 where m: "m w = (r, w1)" by (cases "m w")
  from log_op.keeps_result [OF assms(1) m] show "logs_kept w (snd (qbind m f w))"
    by (cases r) (auto simp: qbind_def m intro: logs_kept_trans log_op.keeps [OF assms(2)])
qed

lemma log_op_modify: "(\<And>w. logs_kept w (f w)) \<Longrightarrow> log_op (qmodify f)"
  by (rule log_opI) simp

section \<open>Enqueueing, moving, requeueing\<close>

lemma write_document_log: "\<not> log_name n \<Longrightarrow> log_op (write_document d n doc)"
  by (rule log_opI) (simp add: write_document_def kept_write)

lemma ensure_unique_log: "log_op (ensure_unique_id i dirs k)"
  by (rule log_opI) (simp add: ensure_unique_id_def)

lemma write_draft_log: "log_op (write_unique_json_document E (WorkDir WorkItemKind.BlueprintDraft s) n doc)"
  by (rule log_opI) (auto simp: write_unique_json_document_def split: sum.split intro: kept_write)

lemma enqueue_logs:
  "log_op (enqueue_task t)" "log_op (enqueue_spec s)" "log_op (enqueue_probe p)" "log_op (enqueue_incident n)"
  "log_op (enqueue_learning_request E l)"
  by (simp_all add: enqueue_task_def enqueue_spec_def enqueue_probe_def enqueue_incident_def
      enqueue_learning_request_def log_op_pure log_op_bind write_document_log ensure_unique_log split: sum.split)

lemma ensure_unique_draft_log: "log_op (ensure_unique_blueprint_draft i)"
  by (rule log_opI) (simp add: ensure_unique_blueprint_draft_def split: sum.split)

lemma enqueue_draft_log: "log_op (enqueue_blueprint_draft E d)"
  unfolding enqueue_blueprint_draft_def Let_def
  by (intro log_op_bind write_draft_log ensure_unique_draft_log)

lemma move_item_from_state_log: "log_op (move_item_from_state s d i k l)"
  by (rule log_opI) (simp add: move_item_from_state_def Let_def kept_rename)

lemma move_item_log: "log_op (move_item s d i k)"
  by (simp add: move_item_def move_item_from_state_log)

lemma append_logs:
  "log_op (append_requeue_reason E d i k reason)" "log_op (append_blocked_requeue_audit E d i reason actor auto fc n)"
  by (rule log_opI, simp add: append_requeue_reason_def append_blocked_requeue_audit_def Let_def split: sum.split)+

lemma retire_log: "log_op (retire_stale_blocked_task_duplicate_after_done E i)"
  by (rule log_opI)
    (auto simp: retire_stale_blocked_task_duplicate_after_done_def Let_def
      intro!: logs_kept_trans [OF kept_rename kept_append] split: option.split)

lemma mark_logs:
  "log_op (mark_task_done E i)" "log_op (mark_task_blocked i)" "log_op (mark_spec_done i)"
  "log_op (mark_spec_blocked i)" "log_op (mark_probe_done i)" "log_op (mark_probe_blocked i)"
  "log_op (mark_incident_resolved i)" "log_op (mark_incident_blocked i)"
  "log_op (mark_learning_request_done i)" "log_op (mark_learning_request_blocked i)"
  by (auto simp: mark_task_done_def mark_task_blocked_def mark_spec_done_def mark_spec_blocked_def
      mark_probe_done_def mark_probe_blocked_def mark_incident_resolved_def mark_incident_blocked_def
      mark_learning_request_done_def mark_learning_request_blocked_def
      intro!: move_item_log log_op_bind log_op_pure retire_log)

lemma requeue_logs:
  "log_op (requeue_task E i reason)" "log_op (requeue_spec E i reason)" "log_op (requeue_probe E i reason)"
  "log_op (requeue_incident E i reason)" "log_op (requeue_learning_request E i reason)"
  "log_op (requeue_blocked_task E i reason actor auto fc n)"
  unfolding requeue_task_def requeue_spec_def requeue_probe_def requeue_incident_def
    requeue_learning_request_def requeue_blocked_task_def
  by (intro log_op_bind move_item_log move_item_from_state_log append_logs log_op_pure)+

lemma move_draft_log: "log_op (move_blueprint_draft E i s t status)"
proof (rule log_opI)
  fix w
  show "logs_kept w (snd (move_blueprint_draft E i s t status w))"
    by (rule logs_kept_same)
      (auto simp: move_blueprint_draft_def Let_def qbind_def write_unique_json_document_def
        split: option.split sum.split prod.split)
qed

lemma draft_logs:
  "log_op (approve_active_blueprint_draft E i)" "log_op (block_active_blueprint_draft E i)"
  "log_op (requeue_active_blueprint_draft E i)"
  by (simp_all add: approve_active_blueprint_draft_def block_active_blueprint_draft_def
      requeue_active_blueprint_draft_def move_draft_log)

section \<open>Claims\<close>

lemma quarantine_kept:
  assumes "file_extension n = Some ''md''" and "fs_lookup w d n = Some c"
  shows "logs_kept w (quarantine_invalid_artifact E d n err w)"
proof -
  from md_file_name [OF assms(1)] have "n = md_name (file_stem n)" by simp
  then have n: "\<not> log_name n" by (metis md_name_not_log)
  obtain x where "\<not> fs_exists w d x" and q: "quarantine_invalid_artifact E d n err w =
       fs_append (fs_rename w d n d x) d invalid_log
         (JObject [(''at'', JString (env_now E)), (''error'', JString err),
                   (''quarantine_name'', JString x), (''source_name'', JString n)])"
    by (rule quarantine_effect [OF assms])
  with n have "logs_kept w (fs_rename w d n d x)" by (intro kept_rename_free) simp_all
  then show ?thesis unfolding q by (rule logs_kept_trans) simp
qed

lemma scan_kept:
  "\<forall>n\<in>set ns. file_extension n = Some ''md'' \<Longrightarrow>
     logs_kept w (snd (scan_documents E d parse field id_of ts_of keep ns w))"
proof (induction ns arbitrary: w)
  case (Cons n ns)
  let ?scan = "scan_documents E d parse field id_of ts_of keep"
  have n: "file_extension n = Some ''md''" and IH: "\<And>w. logs_kept w (snd (?scan ns w))"
    using Cons by simp_all
  have "logs_kept w (snd (?scan ns (quarantine_invalid_artifact E d n err w)))"
    if "fs_lookup w d n = Some c" for err c
    by (rule logs_kept_trans [OF quarantine_kept [OF n that] IH])
  with IH show ?case by (simp split: option.split sum.split prod.split) (metis snd_conv)
qed simp

lemma scan_list_kept:
  "scan_documents E d parse field id_of ts_of keep (list_markdown_files w d) w = (cands, w') \<Longrightarrow> logs_kept w w'"
  using scan_kept [of "list_markdown_files w d" w E d parse field id_of ts_of keep] list_markdown_md by simp

lemma select_kept:
  "select_oldest_eligible_task E root w = (r1, w') \<Longrightarrow> logs_kept w w'"
  "select_oldest_incident E d root w = (r2, w') \<Longrightarrow> logs_kept w w'"
  "select_oldest_learning_request E d w = (r3, w') \<Longrightarrow> logs_kept w w'"
  "select_oldest_spec_candidate E d root w = (r4, w') \<Longrightarrow> logs_kept w w'"
  "select_oldest_probe_candidate E d w = (r5, w') \<Longrightarrow> logs_kept w w'"
  unfolding select_oldest_eligible_task_def select_oldest_incident_def select_oldest_learning_request_def
    select_oldest_spec_candidate_def select_oldest_probe_candidate_def Let_def
  by (auto dest!: scan_list_kept split: prod.splits)

lemma select_probe_or_spec_kept:
  "select_oldest_probe_or_spec E root w = (r, w') \<Longrightarrow> logs_kept w w'"
  unfolding select_oldest_probe_or_spec_def Let_def
  by (auto dest!: select_kept intro: logs_kept_trans split: prod.splits if_splits)

lemma claim_task_log: "log_op (claim_next_execution_task E root)"
proof (rule log_opI)
  fix w
  obtain r w1 where sel: "select_oldest_eligible_task E root w = (r, w1)" by fastforce
  note kept = select_kept(1) [OF sel]
  have "logs_kept w (fs_rename w1 task_queue n (WorkDir WorkItemKind.Task ActiveState) n)" if "r = Some (i, n)" for i n
    using select_task_result [OF sel] that
    by (intro logs_kept_trans [OF kept] kept_rename) (auto simp: claimable_def)
  then show "logs_kept w (snd (claim_next_execution_task E root w))"
    using kept by (cases r) (auto simp: claim_next_execution_task_def Let_def sel)
qed

lemma claim_learning_log: "log_op (claim_next_learning_request E)"
proof (rule log_opI)
  fix w
  obtain r w1 where sel:
    "select_oldest_learning_request E (WorkDir WorkItemKind.LearningRequest QueueState) w = (r, w1)" by fastforce
  note kept = select_kept(3) [OF this]
  have "logs_kept w (fs_rename w1 (WorkDir WorkItemKind.LearningRequest QueueState) n
      (WorkDir WorkItemKind.LearningRequest ActiveState) n)" for n
    by (rule logs_kept_trans [OF kept kept_rename]) simp_all
  then show "logs_kept w (snd (claim_next_learning_request E w))"
    using kept by (cases r) (auto simp: claim_next_learning_request_def Let_def sel)
qed

lemma claim_draft_log: "log_op (claim_next_blueprint_draft E root)"
proof (rule log_opI)
  fix w
  have op: "log_op (qbind (write_unique_json_document E (WorkDir WorkItemKind.BlueprintDraft ActiveState) n d)
      (\<lambda>p. qbind (qmodify (\<lambda>w. fs_remove w (WorkDir WorkItemKind.BlueprintDraft QueueState) n)) (\<lambda>_. qreturn (c p))))"
    for n d c
    by (intro log_op_bind write_draft_log log_op_modify log_op_pure kept_remove) simp
  show "logs_kept w (snd (claim_next_blueprint_draft E root w))"
    using log_op.keeps [OF op]
    by (auto simp: claim_next_blueprint_draft_def Let_def split: sum.split option.split prod.split)
qed

lemma claim_planning_log: "log_op (claim_next_planning_item E root)"
proof (rule log_opI)
  fix w
  obtain r1 w1 where s1: "select_oldest_incident E (WorkDir WorkItemKind.Incident QueueState) root w = (r1, w1)"
    by fastforce
  note inc = select_kept(2) [OF s1]
  have last: "log_op (\<lambda>w2. case select_oldest_probe_or_spec E root w2 of (None, w3) \<Rightarrow> (Inr None, w3)
      | (Some (kind, item_id, name), w3) \<Rightarrow>
          if kind \<noteq> WorkItemKind.Probe \<and> kind \<noteq> WorkItemKind.Spec
          then (Inl (InvalidState ''planning probe/spec selector returned unsupported work item kind''), w3)
          else (Inr (Some (c kind item_id name)),
                fs_rename w3 (WorkDir kind QueueState) name (WorkDir kind ActiveState) name))" for c
    by (rule log_opI)
      (auto split: prod.split option.split dest!: select_probe_or_spec_kept intro: logs_kept_trans [OF _ kept_rename])
  show "logs_kept w (snd (claim_next_planning_item E root w))"
  proof (cases r1)
    case (Some a)
    with inc show ?thesis
      by (cases a) (auto simp: claim_next_planning_item_def s1 intro: logs_kept_trans [OF _ kept_rename])
  next
    case None
    have "logs_kept w (snd (qbind (claim_next_blueprint_draft E root) (\<lambda>claim. case claim of
        Some c \<Rightarrow> qreturn (Some c) | None \<Rightarrow> f) w1))" if "log_op f" for f :: "QueueClaim option qop"
      using inc by (rule logs_kept_trans)
        (intro log_op.keeps log_op_bind claim_draft_log, simp add: that log_op_pure split: option.split)
    from this [OF last] show ?thesis by (auto simp: claim_next_planning_item_def s1 None)
  qed
qed

section \<open>Interventions\<close>

lemma event_kept: "logs_kept w (write_operator_runtime_event ev r (append_intervention_record d r w))"
  unfolding write_operator_runtime_event_def append_intervention_record_def
  by (rule logs_kept_trans [OF kept_append kept_append])

lemma archive_log:
  assumes "\<not> log_name (snd (li_path l))"
  shows "log_op (archive_located_item E counter l action dest archive_name ev reason ctx repl affected parent)"
  using assms unfolding archive_located_item_def Let_def
  by (auto intro!: log_op_bind log_op_pure log_op_modify kept_rename event_kept split: prod.split)

lemma locate_log:
  assumes "\<And>w l. locate w = Inr l \<Longrightarrow> P l" and "\<And>l. P l \<Longrightarrow> log_op (f l)"
  shows "log_op (qbind (\<lambda>w. (locate w, w)) f)"
proof (rule log_opI)
  fix w
  show "logs_kept w (snd (qbind (\<lambda>w. (locate w, w)) f w))"
    by (cases "locate w") (simp_all add: qbind_def log_op.keeps [OF assms(2) [OF assms(1)]])
qed

lemma located_plain: "\<exists>k s. located_at w l k s \<Longrightarrow> \<not> log_name (snd (li_path l))"
  by (auto simp: located_at_def)

lemmas located_plains = locate_exact_task_at [THEN located_plain] locate_incident_at [THEN located_plain]
  locate_cancelable_at [THEN located_plain]

lemma located_archive_log:
  assumes "\<And>w l. locate w = Inr l \<Longrightarrow> \<exists>k s. located_at w l k s"
  shows "log_op (qbind (\<lambda>w. (locate w, w)) (\<lambda>l.
     archive_located_item E counter l action dest archive_name ev reason ctx repl affected parent))"
  by (rule locate_log [where P = "\<lambda>l. \<not> log_name (snd (li_path l))"])
    (erule located_plain [OF assms], erule archive_log)

lemma archive_logs:
  "log_op (cancel_work_item E counter i ko reason ctx force)"
  "log_op (archive_blocked_task E counter i reason ctx)"
  "log_op (resolve_incident_by_operator E counter i reason ctx)"
  "log_op (cancel_incident E counter i reason ctx)"
  unfolding cancel_work_item_def archive_blocked_task_def resolve_incident_by_operator_def cancel_incident_def
  by (intro log_op_bind log_op_pure located_archive_log; erule locate_cancelable_at locate_exact_task_at
      locate_incident_at)+

lemma retarget_log: "log_op (retarget_queued_task_dependency E i old new reason ctx)"
  unfolding retarget_queued_task_dependency_def Let_def
  by (auto intro!: log_op_bind log_op_pure log_op_modify write_document_log event_kept split: prod.split option.split)

lemma cascade_logs:
  "log_op (cascade_retarget E old new reason ctx is)" "log_op (cascade_cancel E counter reason ctx is)"
proof -
  show "log_op (cascade_retarget E old new reason ctx is)"
    by (induction "is") (auto intro!: log_op_bind retarget_log log_op_pure)
  show "log_op (cascade_cancel E counter reason ctx is)"
    by (induction "is" arbitrary: counter) (auto intro!: log_op_bind archive_logs log_op_pure)
qed

lemma supersede_log: "log_op (supersede_task E counter old new reason cascade ctx)"
proof -
  have "log_op (case cascade of NoCascade \<Rightarrow> qreturn () | Retarget \<Rightarrow> cascade_retarget E old new reason ctx a
      | CancelDependents \<Rightarrow> cascade_cancel E (Suc counter) reason ctx a)" for a
    by (cases cascade) (simp_all add: log_op_pure cascade_logs)
  note tail = this
  have "log_op (qbind (\<lambda>w. (locate_exact_task w old [''blocked'', ''queue''], w)) (\<lambda>located.
     qbind (\<lambda>w. (require_replacement_task w new, w)) (\<lambda>_.
     qbind (qget (\<lambda>w. queued_dependents E w old)) (\<lambda>affected.
     qbind (archive_located_item E counter located Supersede ''superseded'' ''superseded''
              ''task_superseded'' reason ctx (Some new) affected None) (\<lambda>result.
     qbind (case cascade of NoCascade \<Rightarrow> qreturn () | Retarget \<Rightarrow> cascade_retarget E old new reason ctx affected
      | CancelDependents \<Rightarrow> cascade_cancel E (Suc counter) reason ctx affected) (\<lambda>_. qreturn result))))))"
    by (rule locate_log [where P = "\<lambda>l. \<not> log_name (snd (li_path l))"], erule located_plains)
      (intro log_op_bind log_op_pure archive_log tail)
  then show ?thesis
    unfolding supersede_task_def by (intro log_op_bind log_op_pure) (simp add: log_op_pure)
qed

lemma archive_invalid_log: "log_op (archive_invalid_incident_artifact E counter filename reason ctx)"
  unfolding archive_invalid_incident_artifact_def Let_def
  by (auto intro!: log_op_bind log_op_pure log_op_modify kept_rename event_kept split: prod.split)

section \<open>Every command\<close>

lemma item_logs: "log_op (finish_item E k i)" "log_op (block_item E k i)" "log_op (requeue_item E k i reason)"
  by (cases k; simp add: finish_item_def block_item_def requeue_item_def mark_logs requeue_logs draft_logs)+

lemma exec_keeps_logs: "logs_kept w (exec_queue_command E c w)"
  by (cases c) (simp_all add: log_op.keeps enqueue_logs enqueue_draft_log claim_task_log claim_planning_log
      claim_learning_log item_logs requeue_logs archive_logs supersede_log retarget_log archive_invalid_log)

interpretation command_log: log_op "\<lambda>w. (Inr (), exec_queue_command E c w)" for E c
  by unfold_locales (simp add: exec_keeps_logs)

end
