(* ===== verification/Recovery_Properties.thy ===== *)
theory Recovery_Properties
  imports Transient_Failures Requeue_Logs Queue_Properties Normalization_Properties Runtime_Examples
begin

text \<open>
  The properties of the recovery of blocked tasks (\<open>Blocked_Recovery\<close>): what a retry does to the workspace,
  how often the automatic retry can move a task, and which failures it retries.
\<close>

section \<open>What a retry does to the workspace\<close>

lemma count_auto_requeues_records:
  "count_auto_requeues f i = length (filter is_auto_line (requeue_records f i))"
  by (simp add: count_auto_requeues_def requeue_records_def split: option.split file_content.split)

lemma count_kept:
  assumes "logs_kept f f'"
  shows "count_auto_requeues f i \<le> count_auto_requeues f' i"
proof -
  obtain rs where "requeue_records f' i = requeue_records f i @ rs"
    using assms unfolding logs_kept_def by blast
  then show ?thesis by (simp add: count_auto_requeues_records)
qed

text \<open>The effect of a requeue that is logged as automatic or not.\<close>

definition requeued :: "fs \<Rightarrow> string \<Rightarrow> bool \<Rightarrow> fs \<Rightarrow> bool" where
  "requeued f d auto f' \<longleftrightarrow> fs_lookup f task_queue (md_name d) = None \<and>
     (\<exists>r. is_auto_line r = auto \<and>
        f' = fs_append (fs_rename f (WorkDir WorkItemKind.Task BlockedState) (md_name d) task_queue (md_name d))
               task_queue (requeue_log_name d) r)"

lemma append_audit_line:
  assumes "validate_blocked_requeue_audit reason actor n = Inr u"
  shows "\<exists>r. is_auto_line r = auto \<and> append_blocked_requeue_audit E d i reason actor auto fc n f =
     (Inr (), fs_append f d (requeue_log_name i) r)"
  unfolding append_blocked_requeue_audit_def assms sum.case
  by (rule exI, rule conjI [rotated], rule refl) (simp add: is_auto_line_def)

lemma requeue_blocked_task_effect:
  "snd (requeue_blocked_task E d reason actor auto fc n f) = f \<or>
   requeued f d auto (snd (requeue_blocked_task E d reason actor auto fc n f))"
proof (cases "validate_blocked_requeue_audit reason actor n")
  case valid: (Inr u)
  let ?b = "WorkDir WorkItemKind.Task BlockedState"
  obtain r f1 where m: "move_item_from_state ?b task_queue d WorkItemKind.Task ''blocked'' f = (r, f1)"
    by fastforce
  show ?thesis
  proof (cases r)
    case (Inl e)
    with m move_item_from_state_Inl have "f1 = f" by fastforce
    then show ?thesis by (simp add: requeue_blocked_task_def qbind_def valid m Inl)
  next
    case (Inr p)
    with m have free: "fs_lookup f task_queue (md_name d) = None"
      and f1: "f1 = fs_rename f ?b (md_name d) task_queue (md_name d)"
      by (auto simp: move_item_from_state_Inr)
    from append_audit_line [OF valid] obtain l where "is_auto_line l = auto" and "append_blocked_requeue_audit E task_queue d reason actor auto fc n f1 =
        (Inr (), fs_append f1 task_queue (requeue_log_name d) l)"
      by blast
    with free f1 show ?thesis
      by (auto simp: requeue_blocked_task_def qbind_def valid m Inr requeued_def)
  qed
qed (simp add: requeue_blocked_task_def)

lemma requeued_kept: "requeued f d auto f' \<Longrightarrow> logs_kept f f'"
  unfolding requeued_def by (auto intro!: logs_kept_trans [OF kept_rename kept_append])

lemma requeued_counts:
  assumes "requeued f d True f'"
  shows "count_auto_requeues f' d = Suc (count_auto_requeues f d)"
proof -
  have "requeue_records (fs_rename f (WorkDir WorkItemKind.Task BlockedState) (md_name d) task_queue (md_name d)) d =
      requeue_records f d"
    by (auto simp: requeue_records_def fs_rename_def md_name_def requeue_log_name_def split: option.split)
  with assms show ?thesis
    by (auto simp: requeued_def count_auto_requeues_records requeue_records_append)
qed

lemma requeued_other:
  assumes "requeued f d auto f'" and "i \<noteq> d"
  shows "fs_lookup f' task_queue (md_name i) = fs_lookup f task_queue (md_name i)"
proof -
  have "md_name i \<noteq> requeue_log_name d" by (simp add: md_name_def requeue_log_name_def)
  with assms show ?thesis
    by (auto simp: requeued_def fs_lookup_append_other fs_rename_def split: option.split)
qed

section \<open>The operations of the recovery\<close>

text \<open>Operations that leave the workspace alone, and sequences in which one operation moves a file.\<close>

definition fs_same :: "'a recovery_op \<Rightarrow> bool" where
  "fs_same m \<longleftrightarrow> (\<forall>w. vw_fs (snd (m w)) = vw_fs w)"

lemma fs_sameD: "fs_same m \<Longrightarrow> vw_fs (snd (m w)) = vw_fs w"
  by (simp add: fs_same_def)

lemma fs_same_pure: "fs_same (rc_return a)" "fs_same (rc_lift r)" "fs_same (rc_get g)"
  by (simp_all add: fs_same_def rc_return_def rc_lift_def rc_get_def)

lemma fs_same_modify: "(\<And>w. vw_fs (h w) = vw_fs w) \<Longrightarrow> fs_same (rc_modify h)"
  by (simp add: fs_same_def rc_modify_def)

lemma bind_fs:
  "vw_fs (snd (rc_bind m f w)) =
     (case fst (m w) of Inl e \<Rightarrow> vw_fs (snd (m w)) | Inr a \<Rightarrow> vw_fs (snd (f a (snd (m w)))))"
  by (simp add: rc_bind_def split: prod.split sum.split)

lemma fs_same_bind: "fs_same m \<Longrightarrow> (\<And>a. fs_same (f a)) \<Longrightarrow> fs_same (rc_bind m f)"
  by (simp add: fs_same_def bind_fs split: sum.split)

lemma bind_fs_last: "(\<And>a. fs_same (f a)) \<Longrightarrow> vw_fs (snd (rc_bind m f w)) = vw_fs (snd (m w))"
  by (simp add: bind_fs fs_sameD split: sum.split)

lemma refresh_fs: "vw_fs (refresh_snapshot_queue_depths V w) = vw_fs w"
  by (simp add: refresh_snapshot_queue_depths_def split: option.split sum.split)

lemma fs_same_refresh_in_place: "fs_same (refresh_snapshot_queue_depths_in_place V now s)"
  by (simp add: fs_same_def refresh_snapshot_queue_depths_in_place_def Let_def split: sum.split)

lemma fs_same_event: "fs_same (write_runtime_event_at e data t)"
  unfolding write_runtime_event_at_def by (rule fs_same_modify) simp

lemmas event_defs = write_blocked_task_requeued_event_def write_blocked_dependency_auto_requeued_event_def
  write_blocked_dependency_auto_requeue_skipped_event_def write_blocked_lineage_requires_operator_review_event_def

lemma fs_same_events:
  "fs_same (write_blocked_task_requeued_event V r)"
  "fs_same (write_blocked_dependency_auto_requeued_event V now d fc p n)"
  "fs_same (write_blocked_dependency_auto_requeue_skipped_event V now d reason p)"
  "fs_same (write_blocked_lineage_requires_operator_review_event V now d reason p)"
  by (simp_all add: event_defs fs_same_event)

lemma fs_same_diagnostics: "fs_same (write_auto_recovery_diagnostics V s now d decision reason n)"
  unfolding write_auto_recovery_diagnostics_def Let_def
  by (intro fs_same_bind fs_same_pure fs_same_modify) simp

lemma fs_same_skip: "fs_same (write_auto_recovery_skip V s now c reason n)"
  unfolding write_auto_recovery_skip_def by (intro fs_same_bind fs_same_diagnostics fs_same_events)

lemma retry_guards_Inr:
  "retry_guards V q w = Inr (cleaned, fc, n) \<Longrightarrow> n = count_auto_requeues (vw_fs w) (vq_task_id q) \<and>
     (vq_force q \<or> n < or_else (vq_max_auto_requeues_per_work_item q) DEFAULT_MAX_AUTO_REQUEUES_PER_WORK_ITEM)"
  by (auto simp: retry_guards_def Let_def and_then_eq_Inr map_ok_eq_Inr rc_check_def split: if_splits)

text \<open>A retry leaves the workspace as it is, or requeues the task, which its budget or the force allowed.\<close>

lemma retry_effect:
  "vw_fs (snd (retry_blocked_task V q w)) = vw_fs w \<or>
   requeued (vw_fs w) (vq_task_id q) (vq_auto q) (vw_fs (snd (retry_blocked_task V q w))) \<and>
   (vq_force q \<or> count_auto_requeues (vw_fs w) (vq_task_id q)
      < or_else (vq_max_auto_requeues_per_work_item q) DEFAULT_MAX_AUTO_REQUEUES_PER_WORK_ITEM)"
proof (cases "retry_guards V q w")
  case (Inl e)
  then show ?thesis by (simp add: retry_blocked_task_def bind_fs rc_get_def)
next
  case (Inr a)
  obtain cleaned fc n where a: "a = (cleaned, fc, n)" by (cases a) auto
  note guards = retry_guards_Inr [OF Inr [unfolded a]]
  let ?r = "requeue_result V q cleaned fc (n + 1)"
  let ?requeue = "requeue_blocked_task (vr_queue V) (vq_task_id q) cleaned (vq_actor q) (vq_auto q) fc (Some (n + 1))"
  let ?tail = "\<lambda>_. rc_bind (rc_modify (refresh_snapshot_queue_depths V)) (\<lambda>_.
     rc_bind (rc_lift (map_err (\<lambda>e. RcInvalidState (RuntimeJsonError_to_string e))
       (BlockedTaskRequeueResult_validate_contract ?r))) (\<lambda>_.
     rc_bind (write_blocked_task_requeued_event V ?r) (\<lambda>_. rc_return ?r)))"
  have "retry_blocked_task V q w = rc_bind (rc_queue ?requeue) ?tail w"
    by (simp add: retry_blocked_task_def rc_bind_def [of "rc_get (retry_guards V q)"] rc_get_def Inr a Let_def)
  moreover have "vw_fs (snd (rc_bind (rc_queue ?requeue) ?tail w)) = vw_fs (snd (rc_queue ?requeue w))"
    by (intro bind_fs_last fs_same_bind fs_same_pure fs_same_modify fs_same_events refresh_fs)
  ultimately have "vw_fs (snd (retry_blocked_task V q w)) = snd (?requeue (vw_fs w))"
    by (simp add: rc_queue_def split: prod.split)
  with requeue_blocked_task_effect [of "vr_queue V" "vq_task_id q" cleaned "vq_actor q" "vq_auto q" fc
      "Some (n + 1)" "vw_fs w"] guards
  show ?thesis by auto
qed

lemma requeue_candidate_effect:
  "vw_fs (snd (requeue_candidate V c s now x fc n w)) = vw_fs w \<or>
   requeued (vw_fs w) (sb_blocked_task_id (vd_dependency x)) True (vw_fs (snd (requeue_candidate V c s now x fc n w))) \<and>
   count_auto_requeues (vw_fs w) (sb_blocked_task_id (vd_dependency x)) < vc_max_auto_requeues_per_work_item c"
proof -
  let ?d = "write_auto_recovery_diagnostics V s now (vd_dependency x) ''requeue'' ''transient blocked dependency'' n"
  note same = fs_sameD [OF fs_same_diagnostics, of V s now "vd_dependency x" "''requeue''"
      "''transient blocked dependency''" n w]
  show ?thesis
  proof (cases "fst (?d w)")
    case (Inl e)
    then show ?thesis by (simp add: requeue_candidate_def bind_fs same)
  next
    case (Inr path)
    let ?tail = "\<lambda>result. rc_bind (refresh_snapshot_queue_depths_in_place V now s) (\<lambda>s1.
      rc_bind (write_blocked_dependency_auto_requeued_event V now (vd_dependency x) fc path (bq_attempt_number result))
        (\<lambda>_. rc_return (result, s1)))"
    let ?retry = "retry_blocked_task V (auto_retry_request c x path)"
    have "vw_fs (snd (requeue_candidate V c s now x fc n w)) = vw_fs (snd (rc_bind ?retry ?tail (snd (?d w))))"
      by (simp add: requeue_candidate_def bind_fs [of ?d] Inr)
    also have "\<dots> = vw_fs (snd (?retry (snd (?d w))))"
      by (intro bind_fs_last fs_same_bind fs_same_refresh_in_place fs_same_events fs_same_pure)
    finally show ?thesis
      using retry_effect [of V "auto_retry_request c x path" "snd (?d w)"] same
      by (simp add: auto_retry_request_def or_else_def)
  qed
qed

lemma attempt_requeues:
  assumes "\<not> auto_recovery_held c s (vw_fs w)" and "find_auto_recovery_candidate V w = Inr (Some x)"
    and "auto_recovery_verdict V c now x w = Inr (Inr (fc, n))"
  shows "vw_fs (snd (attempt_stranded_dependency_auto_recovery V c s now w)) =
     vw_fs (snd (requeue_candidate V c s now x fc n w))"
  using assms by (simp add: attempt_stranded_dependency_auto_recovery_def bind_fs rc_get_def rc_return_def
      split: sum.split prod.split)

text \<open>So does an idle cycle, with the budget of the configuration.\<close>

lemma attempt_effect:
  fixes V c s now w
  defines "f' \<equiv> vw_fs (snd (attempt_stranded_dependency_auto_recovery V c s now w))"
  shows "f' = vw_fs w \<or>
     (\<exists>d. requeued (vw_fs w) d True f' \<and> count_auto_requeues (vw_fs w) d < vc_max_auto_requeues_per_work_item c)"
proof (cases "auto_recovery_held c s (vw_fs w)")
  case True
  then show ?thesis by (simp add: f'_def attempt_stranded_dependency_auto_recovery_def)
next
  case held: False
  show ?thesis
  proof (cases "\<exists>x fc n. find_auto_recovery_candidate V w = Inr (Some x) \<and>
      auto_recovery_verdict V c now x w = Inr (Inr (fc, n))")
    case False
    then have "f' = vw_fs w"
      by (auto simp: f'_def attempt_stranded_dependency_auto_recovery_def held bind_fs rc_get_def rc_return_def
          fs_sameD [OF fs_same_skip] split: sum.split option.split)
    then show ?thesis ..
  next
    case True
    then obtain x fc n where x: "find_auto_recovery_candidate V w = Inr (Some x)"
      and v: "auto_recovery_verdict V c now x w = Inr (Inr (fc, n))" by blast
    from requeue_candidate_effect [of V c s now x fc n w] show ?thesis
      unfolding f'_def attempt_requeues [OF held x v] by auto
  qed
qed

section \<open>The automatic retry is bounded\<close>

text \<open>What may happen to the workspace beside the idle cycles of the daemon: retries by an operator, every
  operation of the queue, and any change of the metadata and the snapshot.\<close>

datatype recovery_event =
    IdleCycle recovery_env RuntimeSnapshot Timestamp
  | OperatorRetry recovery_env RetryBlockedTaskRequest
  | QueueEvent env queue_command
  | Surroundings "string \<Rightarrow> (string + BlockedItemMetadata) option" "(string + RuntimeSnapshot) option"

fun recovery_step :: "AutoRecoveryConfig \<Rightarrow> recovery_event \<Rightarrow> recovery_world \<Rightarrow> recovery_world" where
  "recovery_step c (IdleCycle V s now) w = snd (attempt_stranded_dependency_auto_recovery V c s now w)"
| "recovery_step c (OperatorRetry V q) w = snd (retry_blocked_task V q w)"
| "recovery_step c (QueueEvent E command) w = w\<lparr>vw_fs := exec_queue_command E command (vw_fs w)\<rparr>"
| "recovery_step c (Surroundings m s) w = w\<lparr>vw_metadata := m, vw_snapshot := s\<rparr>"

fun is_idle_cycle :: "recovery_event \<Rightarrow> bool" where
  "is_idle_cycle (IdleCycle V s now) = True"
| "is_idle_cycle _ = False"

definition enters_queue :: "string \<Rightarrow> recovery_world \<Rightarrow> recovery_world \<Rightarrow> bool" where
  "enters_queue i w w' \<longleftrightarrow> \<not> fs_exists (vw_fs w) task_queue (md_name i) \<and> fs_exists (vw_fs w') task_queue (md_name i)"

text \<open>How often an idle cycle brings the task \<open>i\<close> back to the queue in a run.\<close>

fun automatic_returns :: "AutoRecoveryConfig \<Rightarrow> string \<Rightarrow> recovery_event list \<Rightarrow> recovery_world \<Rightarrow> nat" where
  "automatic_returns c i [] w = 0"
| "automatic_returns c i (e # es) w =
     (let w' = recovery_step c e w in
      (if is_idle_cycle e \<and> enters_queue i w w' then 1 else 0) + automatic_returns c i es w')"

lemma recovery_step_keeps: "logs_kept (vw_fs w) (vw_fs (recovery_step c e w))"
proof (cases e)
  case (IdleCycle V s now)
  with attempt_effect [of V c s now w] show ?thesis by (auto dest: requeued_kept)
next
  case (OperatorRetry V q)
  with retry_effect [of V q w] show ?thesis by (auto dest: requeued_kept)
qed (use command_log.keeps in simp_all)

lemma automatic_return_counts:
  assumes "is_idle_cycle e" and "enters_queue i w (recovery_step c e w)"
  shows "count_auto_requeues (vw_fs w) i < vc_max_auto_requeues_per_work_item c"
    and "count_auto_requeues (vw_fs (recovery_step c e w)) i = Suc (count_auto_requeues (vw_fs w) i)"
proof -
  from assms(1) obtain V s now where e: "e = IdleCycle V s now" by (cases e) auto
  from attempt_effect [of V c s now w] assms(2) obtain d where
    d: "requeued (vw_fs w) d True (vw_fs (recovery_step c e w))"
      "count_auto_requeues (vw_fs w) d < vc_max_auto_requeues_per_work_item c"
    by (auto simp: e enters_queue_def)
  have "i = d"
  proof (rule ccontr)
    assume "i \<noteq> d"
    from requeued_other [OF d(1) this] assms(2) show False by (auto simp: enters_queue_def fs_exists_def)
  qed
  with d requeued_counts [OF d(1)] show "count_auto_requeues (vw_fs w) i < vc_max_auto_requeues_per_work_item c"
    and "count_auto_requeues (vw_fs (recovery_step c e w)) i = Suc (count_auto_requeues (vw_fs w) i)" by simp_all
qed

text \<open>C39. The automatic retry is bounded: in any sequence of idle cycles, retries by an operator, operations of
  the queue and changes of metadata and snapshot, the idle cycles bring a task back to the queue at most
  \<^verbatim>\<open>max_auto_requeues_per_work_item\<close> times, less the automatic requeues its log already shows, also when a
  cycle fails after the move.\<close>

theorem auto_recovery_is_bounded:
  "automatic_returns c i es w \<le> vc_max_auto_requeues_per_work_item c - count_auto_requeues (vw_fs w) i"
proof (induction es arbitrary: w)
  case (Cons e es)
  let ?w = "recovery_step c e w"
  from count_kept [OF recovery_step_keeps] have "count_auto_requeues (vw_fs w) i \<le> count_auto_requeues (vw_fs ?w) i" .
  with Cons.IH [of ?w] automatic_return_counts [of e i w c] show ?case
    by (auto simp: Let_def)
qed simp

text \<open>An idle cycle after the cooldown, with a budget of one: the task \<open>t1\<close>, which \<open>t2\<close> waits for and which the
  network failed, goes back to the queue.\<close>

definition network_failure :: BlockedItemMetadata where
  "network_failure =
     \<lparr>bm_work_item_kind = WorkItemKind.Task, bm_work_item_id = ''t1'', bm_root_spec_id = Some ''s1'',
      bm_root_idea_id = None, bm_blocked_at = ''a'', bm_blocked_origin = BlockedOrigin.RunnerFailure,
      bm_failure_class = ''network_unavailable'', bm_failure_scope = FailureScope.Environment,
      bm_auto_requeue_candidate = True, bm_failure_classifier_code = None, bm_source_run_id = None,
      bm_source_plane = None, bm_source_stage = None, bm_terminal_result = None, bm_stage_result_path = None,
      bm_stdout_path = None, bm_stderr_path = None\<rparr>"

definition recovery_example_env :: recovery_env where
  "recovery_example_env =
     \<lparr>vr_queue = example_env, vr_runtime_root = ''/w/runtime'', vr_snapshot_path = ''/w/runtime/snapshot.json'',
      vr_rfc = (\<lambda>t. Inr (if t = ''a'' then 0 else 10 ^ 13)), vr_current_timestamp = ''b'', vr_task_at = (\<lambda>_. None)\<rparr>"

definition stranded_world :: recovery_world where
  "stranded_world =
     \<lparr>vw_fs = (\<lambda>d. if d = task_queue then [(''t2.md'', Doc (TaskDoc task_two))]
         else if d = WorkDir WorkItemKind.Task BlockedState then [(''t1.md'', Doc (TaskDoc task_one))] else []),
      vw_metadata = (\<lambda>p. if p = blocked_task_metadata_path recovery_example_env ''t1''
                        then Some (Inr network_failure) else None),
      vw_snapshot = None, vw_diagnostics = [], vw_events = []\<rparr>"


definition stranded_candidate :: AutoRecoveryCandidate where
  "stranded_candidate =
     \<lparr>vd_dependency = \<lparr>sb_blocked_task_id = ''t1'', sb_queued_dependent_ids = [''t2''],
        sb_root_spec_id = Some ''s1'', sb_metadata = Some network_failure\<rparr>,
      vd_blocked_root_spec_id = Some ''s1'', vd_lineage_compatible = True\<rparr>"

abbreviation budget_of_one :: AutoRecoveryConfig where
  "budget_of_one \<equiv> AutoRecoveryConfig_default\<lparr>vc_max_auto_requeues_per_work_item := 1\<rparr>"

lemma stranded_verdict:
  "auto_recovery_verdict recovery_example_env budget_of_one ''b'' stranded_candidate stranded_world =
     Inr (Inr (''network_unavailable'', 1))"
proof -
  have "BlockedItemMetadata_allows_auto_requeue network_failure" by code_simp
  moreover have "count_auto_requeues (vw_fs stranded_world) ''t1'' = 0" by code_simp
  moreover have "auto_recovery_cooldown_active recovery_example_env budget_of_one network_failure 0 ''b'' = Inr False"
    by (simp add: AutoRecoveryConfig_default_def auto_recovery_cooldown_active_def recovery_time_def
        recovery_example_env_def network_failure_def whole_seconds_def u64_as_i64_def cooldown_for_def)
  moreover have "bm_failure_class network_failure = ''network_unavailable''" by (simp add: network_failure_def)
  ultimately show ?thesis by (simp add: auto_recovery_verdict_def stranded_candidate_def Let_def)
qed

lemma stranded_dependency_returns:
  "automatic_returns budget_of_one ''t1'' [IdleCycle recovery_example_env demo_snapshot ''b''] stranded_world = 1"
proof -
  have "\<not> auto_recovery_held budget_of_one demo_snapshot (vw_fs stranded_world)" by code_simp
  moreover have "find_auto_recovery_candidate recovery_example_env stranded_world = Inr (Some stranded_candidate)"
    by code_simp
  ultimately have "vw_fs (snd (attempt_stranded_dependency_auto_recovery recovery_example_env budget_of_one demo_snapshot
      ''b'' stranded_world)) = vw_fs (snd (requeue_candidate recovery_example_env budget_of_one demo_snapshot ''b''
      stranded_candidate ''network_unavailable'' 1 stranded_world))"
    by (rule attempt_requeues [OF _ _ stranded_verdict])
  moreover have "fs_exists (vw_fs (snd (requeue_candidate recovery_example_env budget_of_one demo_snapshot ''b''
      stranded_candidate ''network_unavailable'' 1 stranded_world))) task_queue (md_name ''t1'')" by code_simp
  moreover have "\<not> fs_exists (vw_fs stranded_world) task_queue (md_name ''t1'')" by code_simp
  ultimately show ?thesis by (simp add: enters_queue_def)
qed

section \<open>Only transient failures\<close>

text \<open>C40. An item is retried automatically only for a transient failure: if the raw result of a run was
  normalised into a stage result, the metadata of the blocked item allows an automatic requeue exactly if the
  raw result answers the request and the runner failed with a timeout, an unreachable network, or a provider that
  is unavailable or limits the rate; whatever the stage printed, or the router decided, does not matter.\<close>

theorem only_transient_failures_are_retried:
  assumes "normalize_stage_result E q w = Some (Inr r)"
  shows "BlockedItemMetadata_allows_auto_requeue (build_blocked_item_metadata V f r d p) \<longleftrightarrow>
     rw_request_id w = rq_request_id q \<and> rw_run_id w = rq_run_id q \<and> rw_stage w = rq_stage q \<and>
     (\<exists>k. classify_raw_exit_failure E w = Some k \<and> rf_failure_class k \<in>
        {RunnerFailureClass.RunnerTimeout, RunnerFailureClass.NetworkUnavailable,
         RunnerFailureClass.ProviderUnavailable, RunnerFailureClass.ProviderRateLimited})"
proof -
  have ids: "identity_mismatch_notes q w = [] \<longleftrightarrow>
      rw_request_id w = rq_request_id q \<and> rw_run_id w = rq_run_id q \<and> rw_stage w = rq_stage q"
    by (auto simp: identity_mismatch_notes_def)
  have "BlockedItemMetadata_allows_auto_requeue (build_blocked_item_metadata V f r d p) \<longleftrightarrow>
     identity_mismatch_notes q w = [] \<and>
     (\<exists>k. classify_raw_exit_failure E w = Some k \<and> rf_failure_class k \<in> transient_classes)"
  proof (cases "early_failure E q w")
    case None
    then have "classify_raw_exit_failure E w = None"
      by (simp add: early_failure_None run_ended_well_def classify_raw_exit_None)
    from None assms obtain x where x: "extract_terminal_result E q w = Some x"
      and r: "Inr r = (if TerminalExtraction_ok x then accepted_envelope E q w x
        else failure_envelope E q w (or_else (tx_failure_class x) RunnerFailureClass.IllegalTerminalResult)
          (tx_notes x) (tx_detected_marker x) (tx_artifact_paths x) None)"
      by (auto simp: normalize_stage_result_def split: sum.splits)
    have "\<not> BlockedItemMetadata_allows_auto_requeue (build_blocked_item_metadata V f r d p)"
      using r accepted_envelope_allows extraction_not_transient [OF x]
      by (cases "TerminalExtraction_ok x") (auto simp: failure_envelope_allows [OF sym] or_else_def)
    with \<open>classify_raw_exit_failure E w = None\<close> show ?thesis by simp
  next
    case (Some y)
    obtain c ns k where y: "y = (c, ns, k)" by (cases y)
    with Some assms have r: "failure_envelope E q w c ns None [] k = Inr r"
      by (auto simp: normalize_stage_result_def split: sum.splits)
    from early_failure_cases [OF Some [unfolded y]] raw_exit_agrees [of E w]
    have "\<forall>x. k = Some x \<longrightarrow> flag_agrees x" by auto
    from failure_envelope_allows [OF r this] early_failure_cases [OF Some [unfolded y]] show ?thesis
      using classify_raw_exit_None [of E w]
      by (auto simp: or_else_def simp del: classification_for_failure_class.simps)
  qed
  then show ?thesis by (simp add: ids transient_classes_def)
qed

text \<open>The run of the example times out.\<close>

definition demo_timeout :: RunnerRawResult where
  "demo_timeout = demo_raw\<lparr>rw_exit_kind := RunnerExitKind.Timeout, rw_exit_code := None\<rparr>"

definition blocked_decision :: RouterDecision where
  "blocked_decision =
     \<lparr>rd_action = BlockedRoute, rd_next_plane = None, rd_next_stage = None, rd_reason = ''blocked'',
      rd_next_node_id = None, rd_next_stage_kind_id = None, rd_failure_class = None, rd_counter_key = None,
      rd_create_incident = False\<rparr>"

lemma only_transient_failures_are_retried_witness:
  "\<exists>r. normalize_stage_result demo_runner_env demo_validated demo_timeout = Some (Inr r) \<and>
     BlockedItemMetadata_allows_auto_requeue
       (build_blocked_item_metadata recovery_example_env empty_workspace r blocked_decision ''result.json'')"
proof -
  have valid: "RunnerRawResult_validate (nv_rfc demo_runner_env) demo_timeout = Inr ()"
    using demo_raw_valid unfolding RunnerRawResult_validate_def all_checks_iffs by (simp add: demo_timeout_def)
  have timeout: "\<exists>k. classify_raw_exit_failure demo_runner_env demo_timeout = Some k \<and>
      rf_failure_class k = RunnerFailureClass.RunnerTimeout"
    by (simp add: classify_raw_exit_failure_def clean_exit_def demo_timeout_def new_metadata_def)
  then have "\<not> run_ended_well demo_validated demo_timeout"
    by (auto simp: run_ended_well_def simp flip: classify_raw_exit_None [of demo_runner_env])
  from normalized_early_failure [OF valid this] obtain c ns k where
    n: "normalize_stage_result demo_runner_env demo_validated demo_timeout =
      Some (failure_envelope demo_runner_env demo_validated demo_timeout c ns None [] k)" .
  with failure_envelope_ok [OF validated_request_ready [OF demo_request_valid] valid demo_seconds] obtain r where
    r: "normalize_stage_result demo_runner_env demo_validated demo_timeout = Some (Inr r)" by metis
  moreover have "rw_request_id demo_timeout = rq_request_id demo_validated"
    "rw_run_id demo_timeout = rq_run_id demo_validated" "rw_stage demo_timeout = rq_stage demo_validated"
    by (simp_all add: demo_timeout_def demo_raw_def demo_validated_def demo_run_request_def)
  ultimately show ?thesis using only_transient_failures_are_retried [OF r] timeout by auto
qed

end
