(* ===== verification/Spec2Isabelle.thy ===== *)
theory Spec2Isabelle
  imports Contract_Properties Queue_Properties Intervention_Properties Runtime_Properties Compile_Properties
    Governance_Properties Normalization_Properties Failure_Policy Lock_Properties Gate_Properties
    Recovery_Properties
begin

text \<open>
  A model of the core of Millrace (\<^verbatim>\<open>src/src\<close>), a file-based runtime that drives work items through
  queues, stages and result markers.

  \<^bold>\<open>Parts.\<close> Work documents (tasks, probes, specs, incidents, learning requests and Blueprint drafts)
  are files in lifecycle directories; the queue store moves them between the queue, active, done and
  blocked directories; stages report terminal markers, which the contracts check. The runtime keeps one
  snapshot with the active run of each plane and the state of each lane; a tick claims work, launches
  the entry stage of the compiled graph, and routes each stage result to the next stage.

  \<^bold>\<open>Theories.\<close>
  \<^item> \<open>Prelude\<close>: results, \<^verbatim>\<open>str::trim\<close> on UTF-8 bytes, decimal numerals, list lemmas.
  \<^item> \<open>Contract_Enums\<close> (\<^verbatim>\<open>contracts/enums.rs\<close>, \<^verbatim>\<open>contracts/error.rs\<close>): every closed enum with its
    canonical strings; the locale \<open>string_enum\<close> states what they share and is interpreted for each.
  \<^item> \<open>Stage_Metadata\<close> (\<^verbatim>\<open>contracts/stage_metadata.rs\<close>): the stage tables and the validation of markers,
    result classes and identifiers.
  \<^item> \<open>Work_Documents\<close>, \<open>Blueprint_Documents\<close> (\<^verbatim>\<open>contracts/work_documents.rs\<close>,
    \<^verbatim>\<open>contracts/work_refs.rs\<close>, \<^verbatim>\<open>contracts/blueprint.rs\<close>): the documents and their validation.
  \<^item> \<open>Contract_Properties\<close>: the properties of the contracts.
  \<^item> \<open>Workspace_Fs\<close> (\<^verbatim>\<open>workspace.rs\<close>): directories as a state, file names, the locale \<open>file_store\<close>.
  \<^item> \<open>Queue_Store\<close> (\<^verbatim>\<open>workspace/queue_store.rs\<close>, \<^verbatim>\<open>queue_claims.rs\<close>, \<^verbatim>\<open>task_lifecycle_integrity.rs\<close>,
    \<^verbatim>\<open>blueprint_state.rs\<close>): enqueueing, claims, marks, requeues, stale-state checks.
  \<^item> \<open>Queue_Interventions\<close> (\<^verbatim>\<open>queue_store.rs\<close>): the operator interventions.
  \<^item> \<open>Queue_Scan\<close>: what the listing loops and the quarantine do.
  \<^item> \<open>Queue_Board\<close>: the abstract lifecycle and its invariant; \<open>Queue_Refinement\<close>: every operation
    refines it (locale \<open>board_op\<close>), and the transition system of all operations.
  \<^item> \<open>Queue_Claims\<close>: what claims return; \<open>Queue_Properties\<close>, \<open>Intervention_Properties\<close>: the
    properties of the queue.

  \<^item> \<open>Runtime_Snapshot\<close> (\<^verbatim>\<open>contracts/runtime_json.rs\<close>): the snapshot, its active runs and lanes, the
    recovery counters, and the validation of each load; \<open>Snapshot_Validity\<close>: the invariant that
    validation establishes, and that it is a fixed point.
  \<^item> \<open>Capabilities\<close> (\<^verbatim>\<open>contracts/capabilities.rs\<close>), \<open>Workflow_Primitives\<close>
    (\<^verbatim>\<open>contracts/workflow_primitives.rs\<close>): permission grants and the primitives a workspace declares.
  \<^item> \<open>Compiler_Fields\<close>, \<open>Loop_Definitions\<close>, \<open>Compiled_Plan\<close> (\<^verbatim>\<open>compiler/contracts.rs\<close>): the
    field checks of the compiler, the modes, loops and stage kinds it reads, and the frozen graphs and
    plan it writes, each with its validation; \<open>Plan_Validity\<close>: what a validated plan guarantees.
  \<^item> \<open>Compile_Config\<close>, \<open>Asset_Resolution\<close> (\<^verbatim>\<open>compiler/assets.rs\<close>), \<open>Primitive_Authority\<close>
    (\<^verbatim>\<open>compiler/workflow_primitives.rs\<close>), \<open>Materialization\<close>
    (\<^verbatim>\<open>compiler/materialization.rs\<close>): the compiler, from configuration and assets to the compiled plan.
    Its surroundings are the record \<open>compile_env\<close>: the files, the JSON and TOML parsers, the JSON
    serialiser, SHA-256 and the clock.
  \<^item> \<open>Graph_Closure\<close>, \<open>Compiled_Lanes\<close>, \<open>Compiled_Schedule\<close>: what every compiled plan satisfies (its
    references, thresholds and grants, its lanes, and how they decide the schedule);
    \<open>Compile_Examples\<close>: a concrete environment and its compilation, step by step;
    \<open>Compile_Properties\<close>: the properties of the compiler.
  \<^item> \<open>Scheduler\<close> (\<^verbatim>\<open>runtime/lanes.rs\<close>, \<^verbatim>\<open>runtime/supervisor.rs\<close>, \<^verbatim>\<open>runtime/tick.rs\<close>): lanes, the
    concurrency guards, activation of claims and the life of an active run; \<open>Sched_Steps\<close>: the schedule
    as a transition system with its invariant; \<open>Launch_Validity\<close>: launching keeps a snapshot valid.
  \<^item> \<open>Stage_Router\<close> (\<^verbatim>\<open>runtime/tick.rs\<close>): routing of stage results and the recovery counters;
    \<open>Router_Facts\<close>: decisions stay in the graph and recoveries are bounded.
  \<^item> \<open>Runtime_Examples\<close>: a concrete plan and snapshot; \<open>Runtime_Properties\<close>: the properties of the snapshot, the schedule and the router.
  \<^item> \<open>Runtime_Documents\<close> (\<^verbatim>\<open>contracts/runtime_json.rs\<close>): the other JSON documents of the runtime (stage
    results, error contexts, mailbox envelopes, blocked-item metadata, usage governance) with their
    validation; \<open>Text_Lines\<close>, \<open>State_Store\<close> (\<^verbatim>\<open>workspace/state_store.rs\<close>): lines of a text, atomic
    replacement of files, status markers, validated artifacts (locale \<open>json_artifact\<close>).
  \<^item> \<open>Usage_Governance\<close>, \<open>Governance_Control\<close> (\<^verbatim>\<open>runtime/usage_governance.rs\<close>, with the pause sources of
    \<^verbatim>\<open>runtime/tick.rs\<close> and \<^verbatim>\<open>workspace/runtime_control.rs\<close>): token and quota rules, the ledger, the
    evaluation and what it does to a pause; \<open>Governance_Facts\<close>, \<open>Governance_Properties\<close>: the ledger counts
    once, the rules block exactly at their thresholds, pauses end by their owners.
  \<^item> \<open>Run_Requests\<close> (\<^verbatim>\<open>runtime/mod.rs\<close>), \<open>Runner_Results\<close> (\<^verbatim>\<open>runners/contracts.rs\<close>),
    \<open>Result_Normalization\<close> (\<^verbatim>\<open>runners/normalization.rs\<close>): the request of a stage run, the raw result
    of a runner and its normalisation into a stage result; the files and libraries are the record
    \<open>normalization_env\<close>, and a panic is \<open>None\<close>. \<open>Normalization_Facts\<close>, \<open>Normalization_Properties\<close>: an
    accepted result answers its request, and the printed markers decide it.
  \<^item> \<open>Failure_Policy\<close> (\<^verbatim>\<open>runtime/failure_policy.rs\<close>): which policy decides a failed effect.
  \<^item> \<open>Runtime_Lock\<close> (\<^verbatim>\<open>workspace/runtime_lock.rs\<close>): the lock file of the daemon, each operation cut
    where another process can act; \<open>Lock_Protocol\<close>: their interleavings as a step relation;
    \<open>Lock_Properties\<close>: ownership is exclusive until somebody clears a lock.
  \<^item> \<open>Approvals\<close> (\<^verbatim>\<open>runtime/approvals.rs\<close>), \<open>Capability_Gates\<close>
    (\<^verbatim>\<open>runtime/capability_gates.rs\<close>): the approvals of capabilities on disk and the gate before a
    stage; \<open>Gate_Properties\<close>: what the gate lets through.
  \<^item> \<open>Blocked_Recovery\<close> (\<^verbatim>\<open>runtime/blocked_recovery.rs\<close>): the metadata of blocked items, the guarded
    retry of a blocked task and the automatic retry of one that queued tasks wait for; the state is
    \<open>recovery_world\<close>, the surroundings are \<open>recovery_env\<close>; \<open>Requeue_Logs\<close>: the queue only
    appends to requeue logs (locale \<open>log_op\<close>); \<open>Transient_Failures\<close>: what the normalisation writes about a
    failure; \<open>Recovery_Properties\<close>: automatic retries are bounded and only answer transient failures.

  \<^bold>\<open>State.\<close> The workspace is a function from directories to association lists of files; an operation
  maps it to a result and a new workspace, also when it fails (\<open>qop\<close>). The clock, the process-wide
  counters, the root and the serialiser are the record \<open>env\<close>. The runtime's state is the record
  \<open>RuntimeSnapshot\<close> with the counters document beside it; hash maps are association lists. The parser
  of RFC 3339 times is a parameter.

  \<^bold>\<open>Bounds.\<close> The search for a free quarantine name is bounded by one more than the number of files of
  the directory, which is enough (\<open>free_quarantine_name_enough\<close>). The claim loops of the source retry
  when a file vanishes between listing and rename; the model has one writer, so they run once.

  \<^bold>\<open>Not modelled.\<close> I/O errors, the markdown text of documents (a file is its parsed document or the
  parser's message), the inspection listings, the loop of a tick with its
  process and network I/O, the runner adapters, the persistence of compiled plans and the command line, the JSON codec
  with its defaults, and digests (a fingerprint is a string). Counters are naturals, so their overflow
  after \<^verbatim>\<open>2^64\<close> increments is left out.
\<close>

end
